(* ===== verification/Prelude.thy ===== *)
theory Prelude
  imports Complex_Main "HOL-Library.AList"
begin

text \<open>
  What the components of the development share: the JavaScript containers the services
  keep their state in (an insertion-ordered \<open>Map\<close>, a \<open>Set\<close> built from an array),
  the few operations of Node's \<open>Buffer\<close> and of \<open>JSON.stringify\<close> they use, the
  interfaces (locales) several components implement, and the lemmas on them.
\<close>

named_theorems js_simps \<open>rewriting facts about the JavaScript containers\<close>

section \<open>Containers\<close>

text \<open>
  A JavaScript \<open>Map\<close> iterates in insertion order: \<open>set\<close> on a present key replaces
  the value in place, on an absent key it appends. That is \<open>AList.update\<close> on an
  association list; \<open>get\<close> is \<open>map_of\<close>, \<open>delete\<close> is \<open>AList.delete\<close>. A database
  table with a primary key is modelled the same way.
\<close>

type_synonym ('k, 'v) jsmap = "('k \<times> 'v) list"

abbreviation js_get :: "('k, 'v) jsmap \<Rightarrow> 'k \<Rightarrow> 'v option" where
  "js_get m k \<equiv> map_of m k"

abbreviation js_set :: "'k \<Rightarrow> 'v \<Rightarrow> ('k, 'v) jsmap \<Rightarrow> ('k, 'v) jsmap" where
  "js_set k v m \<equiv> AList.update k v m"

abbreviation js_delete :: "'k \<Rightarrow> ('k, 'v) jsmap \<Rightarrow> ('k, 'v) jsmap" where
  "js_delete k m \<equiv> AList.delete k m"

abbreviation js_keys :: "('k, 'v) jsmap \<Rightarrow> 'k list" where
  "js_keys m \<equiv> List.map fst m"

abbreviation js_values :: "('k, 'v) jsmap \<Rightarrow> 'v list" where
  "js_values m \<equiv> List.map snd m"

definition js_wf :: "('k, 'v) jsmap \<Rightarrow> bool" where
  "js_wf m \<longleftrightarrow> distinct (js_keys m)"

lemma js_wf_Nil [simp]: "js_wf []"
  by (simp add: js_wf_def)

lemma js_wf_set [simp]: "js_wf m \<Longrightarrow> js_wf (js_set k v m)"
  by (simp add: js_wf_def distinct_update)

lemma js_wf_delete [simp]: "js_wf m \<Longrightarrow> js_wf (js_delete k m)"
  by (simp add: js_wf_def distinct_delete)

lemma js_get_set [simp]: "js_get (js_set k v m) k' = (if k' = k then Some v else js_get m k')"
  by (simp add: update_conv')

lemma js_get_delete [simp]: "js_get (js_delete k m) k' = (if k' = k then None else js_get m k')"
  by (simp add: delete_conv')

lemma js_keys_set: "js_get m k \<noteq> None \<Longrightarrow> js_keys (js_set k v m) = js_keys m"
  by (induction m) auto

lemma js_keys_set_new: "js_get m k = None \<Longrightarrow> js_set k v m = m @ [(k, v)]"
  by (induction m) (auto split: if_splits)

lemma js_wf_mem: "js_wf m \<Longrightarrow> (k, v) \<in> set m \<longleftrightarrow> js_get m k = Some v"
  by (simp add: js_wf_def)

text \<open>\<open>new Set(xs)\<close>: the distinct elements of an array; \<open>size\<close> counts them.\<close>

definition set_of_array :: "'a list \<Rightarrow> 'a list" where
  "set_of_array xs = rev (remdups (rev xs))"

definition set_size :: "'a list \<Rightarrow> int" where
  "set_size xs = int (length (set_of_array xs))"

lemma set_of_array_set [simp]: "set (set_of_array xs) = set xs"
  by (simp add: set_of_array_def)

lemma set_of_array_distinct [simp]: "distinct (set_of_array xs)"
  by (simp add: set_of_array_def)

lemma set_size_card: "set_size xs = int (card (set xs))"
  by (simp add: set_size_def set_of_array_def length_remdups_card_conv)

lemma set_size_eq_length: "set_size xs = int (length xs) \<longleftrightarrow> distinct xs"
  by (auto simp: set_size_card card_distinct distinct_card)

lemma set_size_nonneg [simp]: "0 \<le> set_size xs"
  by (simp add: set_size_def)

text \<open>\<open>slice(-n)\<close> on a buffer or an array.\<close>

definition slice_last :: "nat \<Rightarrow> 'a list \<Rightarrow> 'a list" where
  "slice_last n xs = drop (length xs - n) xs"

lemma slice_last_length: "length (slice_last n xs) = min n (length xs)"
  by (simp add: slice_last_def)

text \<open>The pages of a list, one after the other.\<close>

lemma take_pages: "concat (List.map (\<lambda>i. take n (drop (i * n) xs)) [0..<m]) = take (m * n) xs"
proof (induction m)
  case (Suc m)
  have "take (Suc m * n) xs = take (m * n) xs @ take n (drop (m * n) xs)" using take_add [of "m * n" n xs] by (simp add: add.commute)
  then show ?case using Suc by simp
qed simp

text \<open>Truthiness: an absent or empty string and an absent or zero number are falsy.\<close>

definition truthy_str :: "string option \<Rightarrow> string option" where
  "truthy_str s = (case s of Some [] \<Rightarrow> None | _ \<Rightarrow> s)"

definition or_number :: "int \<Rightarrow> int option \<Rightarrow> int" where
  "or_number d n = (case n of None \<Rightarrow> d | Some x \<Rightarrow> if x = 0 then d else x)"

section \<open>Buffers: hexadecimal and base64 text\<close>

text \<open>A byte is a \<open>char\<close>; \<open>Buffer.toString\<close> with 'hex' and with 'base64'.\<close>

definition hex_digit :: "nat \<Rightarrow> char" where
  "hex_digit n = ''0123456789abcdef'' ! n"

definition hex :: "string \<Rightarrow> string" where
  "hex bs = concat (List.map (\<lambda>c. [hex_digit (of_char c div 16), hex_digit (of_char c mod 16)]) bs)"

definition b64_digit :: "nat \<Rightarrow> char" where
  "b64_digit n = ''ABCDEFGHIJKLMNOPQRSTUVWXYZabcdefghijklmnopqrstuvwxyz0123456789+/'' ! n"

fun base64 :: "string \<Rightarrow> string" where
  "base64 [] = []"
| "base64 [a] = (let n = of_char a * 16 in [b64_digit (n div 64), b64_digit (n mod 64), CHR ''='', CHR ''=''])"
| "base64 [a, b] = (let n = (of_char a * 256 + of_char b) * 4
     in [b64_digit (n div 4096), b64_digit (n div 64 mod 64), b64_digit (n mod 64), CHR ''=''])"
| "base64 (a # b # c # bs) = (let n = of_char a * 65536 + of_char b * 256 + of_char c
     in [b64_digit (n div 262144), b64_digit (n div 4096 mod 64), b64_digit (n div 64 mod 64),
         b64_digit (n mod 64)] @ base64 bs)"

section \<open>JSON values and their text\<close>

text \<open>
  \<open>Record<string, any>\<close> payloads. Numbers in payloads are integers here. \<open>JUndef\<close> is
  JavaScript's \<open>undefined\<close>; \<open>JSON.stringify\<close> leaves an undefined property out.
\<close>

datatype json = JUndef | JNull | JBool bool | JNum int | JStr string
  | JArr "json list" | JObj "(string \<times> json) list"

text \<open>A JSON value as a condition.\<close>

definition json_truthy :: "json \<Rightarrow> bool" where
  "json_truthy v \<longleftrightarrow> v \<notin> {JUndef, JNull, JBool False, JNum 0, JStr []}"

fun show_nat :: "nat \<Rightarrow> string" where
  "show_nat n = (if n < 10 then [hex_digit n] else show_nat (n div 10) @ [hex_digit (n mod 10)])"

declare show_nat.simps [simp del]

definition show_int :: "int \<Rightarrow> string" where
  "show_int i = (if i < 0 then CHR ''-'' # show_nat (nat (- i)) else show_nat (nat i))"

definition json_escape :: "char \<Rightarrow> string" where
  "json_escape c =
     (if c = CHR 0x22 then [CHR 0x5C, CHR 0x22]
      else if c = CHR 0x5C then [CHR 0x5C, CHR 0x5C]
      else if c = CHR 0x08 then [CHR 0x5C, CHR ''b'']
      else if c = CHR 0x0C then [CHR 0x5C, CHR ''f'']
      else if c = CHR 0x0A then [CHR 0x5C, CHR ''n'']
      else if c = CHR 0x0D then [CHR 0x5C, CHR ''r'']
      else if c = CHR 0x09 then [CHR 0x5C, CHR ''t'']
      else if (of_char c :: nat) < 32
      then [CHR 0x5C] @ ''u00'' @ [hex_digit (of_char c div 16), hex_digit (of_char c mod 16)]
      else [c])"

definition json_quote :: "string \<Rightarrow> string" where
  "json_quote s = [CHR 0x22] @ concat (List.map json_escape s) @ [CHR 0x22]"

fun join_with :: "string \<Rightarrow> string list \<Rightarrow> string" where
  "join_with sep [] = []"
| "join_with sep [s] = s"
| "join_with sep (s # t # ts) = s @ sep @ join_with sep (t # ts)"

fun json_stringify :: "json \<Rightarrow> string" where
  "json_stringify JUndef = ''null''"
| "json_stringify JNull = ''null''"
| "json_stringify (JBool b) = (if b then ''true'' else ''false'')"
| "json_stringify (JNum i) = show_int i"
| "json_stringify (JStr s) = json_quote s"
| "json_stringify (JArr xs) = ''['' @ join_with '','' (List.map json_stringify xs) @ '']''"
| "json_stringify (JObj ps) = ''{'' @ join_with '',''
     (concat (List.map (\<lambda>p. case p of (k, v) \<Rightarrow>
        if v = JUndef then [] else [json_quote k @ '':'' @ json_stringify v]) ps)) @ ''}''"

section \<open>Shared interfaces\<close>

text \<open>
  A keyed store, as the services use it: a \<open>Map\<close> field, or a table addressed by its
  primary key. The provider promises the laws of a finite map and that its
  well-formedness is kept.
\<close>

locale keyed_store =
  fixes lookup :: "'m \<Rightarrow> 'k \<Rightarrow> 'v option"
    and store :: "'k \<Rightarrow> 'v \<Rightarrow> 'm \<Rightarrow> 'm"
    and remove :: "'k \<Rightarrow> 'm \<Rightarrow> 'm"
    and wf :: "'m \<Rightarrow> bool"
  assumes lookup_store: "wf m \<Longrightarrow> lookup (store k v m) = (lookup m)(k \<mapsto> v)"
    and lookup_remove: "wf m \<Longrightarrow> lookup (remove k m) = (lookup m)(k := None)"
    and wf_store: "wf m \<Longrightarrow> wf (store k v m)"
    and wf_remove: "wf m \<Longrightarrow> wf (remove k m)"
begin

lemma store_all:
  assumes "wf m" and "\<And>k v. lookup m k = Some v \<Longrightarrow> P k v" and "P k v"
  shows "lookup (store k v m) k' = Some v' \<Longrightarrow> P k' v'"
  using assms by (auto simp: lookup_store split: if_splits)

lemma store_other: "wf m \<Longrightarrow> k' \<noteq> k \<Longrightarrow> lookup (store k v m) k' = lookup m k'"
  by (simp add: lookup_store)

lemma remove_other: "wf m \<Longrightarrow> k' \<noteq> k \<Longrightarrow> lookup (remove k m) k' = lookup m k'"
  by (simp add: lookup_remove)

end

interpretation jsm: keyed_store map_of AList.update AList.delete js_wf
  by unfold_locales (auto simp: update_conv' delete_conv')

text \<open>
  A component driven by calls: each call takes the state to the next. An invariant that
  every call keeps holds after any sequence of calls.
\<close>

locale call_machine =
  fixes step :: "'s \<Rightarrow> 'c \<Rightarrow> 's" and inv :: "'s \<Rightarrow> bool"
  assumes step_inv: "inv s \<Longrightarrow> inv (step s c)"
begin

lemma run_inv: "inv s \<Longrightarrow> inv (foldl step s cs)"
  by (induction cs arbitrary: s) (auto intro: step_inv)

end

text \<open>
  A call machine over rows that have a status: once the status of a row is terminal, no
  call changes what is observed of that row.
\<close>

locale terminal_machine = call_machine step inv
  for step :: "'s \<Rightarrow> 'c \<Rightarrow> 's" and inv :: "'s \<Rightarrow> bool" +
  fixes observe :: "'s \<Rightarrow> 'i \<Rightarrow> 'o option" and terminal :: "'o \<Rightarrow> bool"
  assumes step_terminal:
    "inv s \<Longrightarrow> observe s i = Some x \<Longrightarrow> terminal x \<Longrightarrow> observe (step s c) i = Some x"
begin

lemma run_terminal:
  "inv s \<Longrightarrow> observe s i = Some x \<Longrightarrow> terminal x \<Longrightarrow> observe (foldl step s cs) i = Some x"
  by (induction cs arbitrary: s) (auto intro: step_inv step_terminal)

end

text \<open>
  A component as a step relation, for operations that overlap: what every step keeps holds
  in every state the steps reach.
\<close>

locale step_relation =
  fixes step :: "'s \<Rightarrow> 's \<Rightarrow> bool" and inv :: "'s \<Rightarrow> bool"
  assumes step_keeps: "inv s \<Longrightarrow> step s s' \<Longrightarrow> inv s'"
begin

lemma reachable_inv: "step\<^sup>*\<^sup>* s s' \<Longrightarrow> inv s \<Longrightarrow> inv s'"
  by (induction rule: rtranclp_induct) (auto intro: step_keeps)

end

end
