(* ===== verification/Multisig.thy ===== *)
theory Multisig
  imports Prelude
begin

text \<open>
  \<^verbatim>\<open>backend/src/services/multisig.service.ts\<close>, the transactions half: the rows of
  \<open>MultisigTransaction\<close>, \<open>MultisigSignature\<close> and \<open>MultisigNotification\<close>
  (\<^verbatim>\<open>backend/prisma/schema.prisma\<close>) and the methods of \<open>MultisigService\<close> that read and
  write them. A method takes the tables and returns them updated beside its result: a
  thrown \<open>Error\<close> is \<open>Inl\<close>, and the writes made before the throw stay.
  \<open>new Date()\<close> is the argument \<open>now\<close>, in milliseconds. The Stellar SDK is the record
  \<open>sdk\<close> of functions, and Horizon's answer to a submission is the function \<open>net\<close>.
\<close>

section \<open>Data\<close>

datatype multisig_status = PENDING | PARTIALLY_SIGNED | READY | SUBMITTED | FAILED | EXPIRED

definition COLLECTING_STATUSES :: "multisig_status list" where
  "COLLECTING_STATUSES = [PENDING, PARTIALLY_SIGNED, READY]"

record msig_tx =
  mt_envelopeXdr :: string
  mt_hash :: string
  mt_creatorPublicKey :: string
  mt_requiredSigners :: "string list"
  mt_threshold :: int
  mt_currentSignatures :: int
  mt_status :: multisig_status
  mt_memo :: "string option"
  mt_expiresAt :: "int option"
  mt_submittedAt :: "int option"
  mt_stellarTxId :: "string option"
  mt_metadata :: "(string, json) jsmap"
  mt_createdAt :: int
  mt_updatedAt :: int

record msig_sig =
  sg_multisigTransactionId :: string
  sg_signerPublicKey :: string
  sg_signature :: string
  sg_createdAt :: int

record msig_notification =
  nt_multisigTransactionId :: string
  nt_recipientPublicKey :: string
  nt_type :: string
  nt_message :: string
  nt_readAt :: "int option"
  nt_sentAt :: int

record msig_db =
  db_txs :: "(string, msig_tx) jsmap"
  db_sigs :: "msig_sig list"
  db_notifs :: "msig_notification list"

text \<open>The result of \<open>formatTransactionDetails\<close>.\<close>

record msig_details =
  md_id :: string
  md_tx :: msig_tx
  md_signatures :: "(string \<times> int option) list"

datatype msig_error = InvalidEnvelope | InvalidThreshold | NoRequiredSigner | DuplicateSigners
  | ExpirationInPast | TransactionNotFound | CannotAddSignature multisig_status
  | TransactionExpired | NotARequiredSigner | AlreadySigned | InvalidSignedEnvelope
  | HashMismatch | SignatureNotFound | CannotUpdateThreshold multisig_status
  | CannotSubmit multisig_status | SubmissionFailed string | UniqueViolation string
  | EnvelopeRequired | NoAccountSigners | InvalidRequiredThreshold | SdkThrew string

text \<open>
  What the code sees of the Stellar SDK: a parsed envelope is a plain transaction or a
  fee-bump around one; the decorated signatures are an array the code pushes to; the hash
  is a function of the unsigned body alone.
\<close>

record decorated =
  d_hint :: string
  d_signature :: string

record transaction =
  tr_body :: string
  tr_source :: "string option"
  tr_signatures :: "decorated list"

datatype envelope = PlainTx transaction | FeeBumpTx transaction string "decorated list"

record sdk =
  sdk_fromXDR :: "string \<Rightarrow> string \<Rightarrow> string + envelope"
  sdk_toXDR :: "envelope \<Rightarrow> string"
  sdk_hash :: "string \<Rightarrow> string"
  sdk_rawPublicKey :: "string \<Rightarrow> string option"

definition TESTNET :: string where
  "TESTNET = ''Test SDF Network ; September 2015''"

fun inner_transaction :: "envelope \<Rightarrow> transaction" where
  "inner_transaction (PlainTx t) = t"
| "inner_transaction (FeeBumpTx t body sigs) = t"

fun envelope_hash :: "sdk \<Rightarrow> envelope \<Rightarrow> string" where
  "envelope_hash sdk (PlainTx t) = hex (sdk_hash sdk (tr_body t))"
| "envelope_hash sdk (FeeBumpTx t body sigs) = hex (sdk_hash sdk body)"

fun envelope_signatures :: "envelope \<Rightarrow> decorated list" where
  "envelope_signatures (PlainTx t) = tr_signatures t"
| "envelope_signatures (FeeBumpTx t body sigs) = sigs"

fun set_signatures :: "decorated list \<Rightarrow> envelope \<Rightarrow> envelope" where
  "set_signatures ds (PlainTx t) = PlainTx (t\<lparr>tr_signatures := ds\<rparr>)"
| "set_signatures ds (FeeBumpTx t body sigs) = FeeBumpTx t body ds"

section \<open>Parsing a payload against the account's signer weights\<close>

record signer_weight =
  sw_publicKey :: string
  sw_weight :: int

record present_signature =
  ps_publicKey :: "string option"
  ps_hint :: string
  ps_weight :: int

record payload_parse =
  pp_hash :: string
  pp_sourceAccount :: "string option"
  pp_networkPassphrase :: string
  pp_signaturesPresent :: "present_signature list"
  pp_collectedWeight :: int
  pp_requiredThreshold :: int
  pp_missingWeight :: int
  pp_thresholdMet :: bool
  pp_signedKeys :: "string list"
  pp_missingSigners :: "signer_weight list"

fun signerByHint :: "sdk \<Rightarrow> (string, signer_weight) jsmap \<Rightarrow> signer_weight list
    \<Rightarrow> (string, signer_weight) jsmap" where
  "signerByHint sdk m [] = m"
| "signerByHint sdk m (s # ss) =
     (case sdk_rawPublicKey sdk (sw_publicKey s) of
        None \<Rightarrow> signerByHint sdk m ss
      | Some raw \<Rightarrow> signerByHint sdk (js_set (hex (slice_last 4 raw)) s m) ss)"

fun collectWeights :: "(string, signer_weight) jsmap \<Rightarrow> decorated list
    \<Rightarrow> present_signature list \<Rightarrow> string list \<Rightarrow> int
    \<Rightarrow> present_signature list \<times> string list \<times> int" where
  "collectWeights m [] present keys w = (present, keys, w)"
| "collectWeights m (d # ds) present keys w =
     (let hintHex = hex (d_hint d) in
      case js_get m hintHex of
        Some s \<Rightarrow>
          (let entry = \<lparr>ps_publicKey = Some (sw_publicKey s), ps_hint = hintHex, ps_weight = sw_weight s\<rparr>
           in if sw_publicKey s \<notin> set keys
              then collectWeights m ds (present @ [entry]) (keys @ [sw_publicKey s]) (w + sw_weight s)
              else collectWeights m ds (present @ [entry]) keys w)
      | None \<Rightarrow>
          collectWeights m ds
            (present @ [\<lparr>ps_publicKey = None, ps_hint = hintHex, ps_weight = 0\<rparr>]) keys w)"

text \<open>\<open>None\<close> for \<open>requiredThreshold\<close> is a number that is not finite.\<close>

definition parseTransactionPayload :: "sdk \<Rightarrow> string \<Rightarrow> signer_weight list \<Rightarrow> int option
    \<Rightarrow> string \<Rightarrow> msig_error + payload_parse" where
  "parseTransactionPayload sdk envelopeXdr accountSigners requiredThreshold passphrase =
     (if envelopeXdr = [] then Inl EnvelopeRequired
      else if accountSigners = [] then Inl NoAccountSigners
      else case requiredThreshold of
        None \<Rightarrow> Inl InvalidRequiredThreshold
      | Some thr \<Rightarrow>
        if thr < 1 then Inl InvalidRequiredThreshold
        else case sdk_fromXDR sdk envelopeXdr passphrase of
          Inl e \<Rightarrow> Inl InvalidEnvelope
        | Inr env \<Rightarrow>
          (let inner = inner_transaction env;
               m = signerByHint sdk [] accountSigners;
               (present, keys, w) = collectWeights m (tr_signatures inner) [] [] 0
           in Inr \<lparr>pp_hash = hex (sdk_hash sdk (tr_body inner)),
                   pp_sourceAccount = tr_source inner,
                   pp_networkPassphrase = passphrase,
                   pp_signaturesPresent = present,
                   pp_collectedWeight = w,
                   pp_requiredThreshold = thr,
                   pp_missingWeight = max 0 (thr - w),
                   pp_thresholdMet = (thr \<le> w),
                   pp_signedKeys = keys,
                   pp_missingSigners =
                     filter (\<lambda>s. 0 < sw_weight s \<and> sw_publicKey s \<notin> set keys) accountSigners\<rparr>))"

section \<open>Table operations and notifications\<close>

definition tx_signatures :: "msig_db \<Rightarrow> string \<Rightarrow> msig_sig list" where
  "tx_signatures db txid = filter (\<lambda>s. sg_multisigTransactionId s = txid) (db_sigs db)"

text \<open>\<open>tx.expiresAt && tx.expiresAt <= new Date()\<close>\<close>

definition has_expired :: "int \<Rightarrow> msig_tx \<Rightarrow> bool" where
  "has_expired now t = (case mt_expiresAt t of Some e \<Rightarrow> e \<le> now | None \<Rightarrow> False)"

definition find_tx :: "msig_db \<Rightarrow> string \<Rightarrow> msig_tx option" where
  "find_tx db txid = js_get (db_txs db) txid"

definition put_tx :: "string \<Rightarrow> msig_tx \<Rightarrow> msig_db \<Rightarrow> msig_db" where
  "put_tx txid t db = db\<lparr>db_txs := js_set txid t (db_txs db)\<rparr>"

definition add_notifications :: "msig_notification list \<Rightarrow> msig_db \<Rightarrow> msig_db" where
  "add_notifications ns db = db\<lparr>db_notifs := db_notifs db @ ns\<rparr>"

definition notification :: "int \<Rightarrow> string \<Rightarrow> string \<Rightarrow> string \<Rightarrow> string \<Rightarrow> msig_notification" where
  "notification now txid ty msg recipient =
     \<lparr>nt_multisigTransactionId = txid, nt_recipientPublicKey = recipient, nt_type = ty,
      nt_message = msg, nt_readAt = None, nt_sentAt = now\<rparr>"

definition notifyRequiredSigners :: "int \<Rightarrow> string \<Rightarrow> string list \<Rightarrow> msig_db \<Rightarrow> msig_db" where
  "notifyRequiredSigners now txid signers db = add_notifications
     (List.map (notification now txid ''SIGNATURE_REQUIRED''
        ''Your signature is required for a multisig transaction'') signers) db"

definition notifySignatureAdded :: "int \<Rightarrow> string \<Rightarrow> string \<Rightarrow> string list \<Rightarrow> msig_db \<Rightarrow> msig_db" where
  "notifySignatureAdded now txid signer allSigners db =
     (let ns = List.map (notification now txid ''SIGNATURE_ADDED'' (signer @ '' has signed the transaction''))
                 (filter (\<lambda>s. s \<noteq> signer) allSigners)
      in if 0 < length ns then add_notifications ns db else db)"

definition notifyThresholdReached :: "int \<Rightarrow> string \<Rightarrow> string list \<Rightarrow> msig_db \<Rightarrow> msig_db" where
  "notifyThresholdReached now txid signers db = add_notifications
     (List.map (notification now txid ''THRESHOLD_REACHED''
        ''Transaction has reached the required signature threshold'') signers) db"

definition notifySubmitted :: "int \<Rightarrow> string \<Rightarrow> string \<Rightarrow> string list \<Rightarrow> msig_db \<Rightarrow> msig_db" where
  "notifySubmitted now txid stellarTxId signers db = add_notifications
     (List.map (notification now txid ''SUBMITTED''
        (''Transaction successfully submitted to Stellar network: '' @ stellarTxId)) signers) db"

definition notifyFailed :: "int \<Rightarrow> string \<Rightarrow> string \<Rightarrow> string list \<Rightarrow> msig_db \<Rightarrow> msig_db" where
  "notifyFailed now txid errorMessage signers db = add_notifications
     (List.map (notification now txid ''FAILED''
        (''Transaction submission failed: '' @ errorMessage)) signers) db"

text \<open>
  The row of \<open>MultisigSignature\<close> has no column \<open>signedAt\<close> (it has \<open>createdAt\<close>), so
  \<open>sig.signedAt\<close> reads \<open>undefined\<close>.
\<close>

definition sig_signedAt :: "msig_sig \<Rightarrow> int option" where
  "sig_signedAt s = None"

definition formatTransactionDetails :: "msig_db \<Rightarrow> string \<Rightarrow> msig_tx \<Rightarrow> msig_details" where
  "formatTransactionDetails db txid t =
     \<lparr>md_id = txid, md_tx = t,
      md_signatures = List.map (\<lambda>s. (sg_signerPublicKey s, sig_signedAt s)) (tx_signatures db txid)\<rparr>"

section \<open>Creating a transaction\<close>

record create_params =
  cp_envelopeXdr :: string
  cp_creatorPublicKey :: string
  cp_requiredSigners :: "string list"
  cp_threshold :: int
  cp_memo :: "string option"
  cp_expiresAt :: "int option"
  cp_metadata :: "(string, json) jsmap option"

text \<open>\<open>newId\<close> is the identifier the database's \<open>@default(uuid())\<close> gives the row.\<close>

definition createTransaction :: "sdk \<Rightarrow> int \<Rightarrow> string \<Rightarrow> create_params \<Rightarrow> msig_db
    \<Rightarrow> (msig_error + msig_details) \<times> msig_db" where
  "createTransaction sdk now newId p db =
     (case sdk_fromXDR sdk (cp_envelopeXdr p) TESTNET of
        Inl e \<Rightarrow> (Inl InvalidEnvelope, db)
      | Inr env \<Rightarrow>
        (let h = envelope_hash sdk env; signers = cp_requiredSigners p in
         if cp_threshold p < 1 \<or> cp_threshold p > int (length signers) then (Inl InvalidThreshold, db)
         else if length signers = 0 then (Inl NoRequiredSigner, db)
         else if set_size signers \<noteq> int (length signers) then (Inl DuplicateSigners, db)
         else if (case cp_expiresAt p of Some t \<Rightarrow> t \<le> now | None \<Rightarrow> False)
         then (Inl ExpirationInPast, db)
         else if h \<in> set (List.map mt_hash (js_values (db_txs db)))
         then (Inl (UniqueViolation ''hash''), db)
         else if find_tx db newId \<noteq> None then (Inl (UniqueViolation ''id''), db)
         else
           (let t = \<lparr>mt_envelopeXdr = cp_envelopeXdr p, mt_hash = h,
                     mt_creatorPublicKey = cp_creatorPublicKey p, mt_requiredSigners = signers,
                     mt_threshold = cp_threshold p, mt_currentSignatures = 0, mt_status = PENDING,
                     mt_memo = cp_memo p, mt_expiresAt = cp_expiresAt p, mt_submittedAt = None,
                     mt_stellarTxId = None,
                     mt_metadata = (case cp_metadata p of Some m \<Rightarrow> m | None \<Rightarrow> []),
                     mt_createdAt = now, mt_updatedAt = now\<rparr>;
                db1 = put_tx newId t db;
                db2 = notifyRequiredSigners now newId signers db1
            in (Inr (formatTransactionDetails db2 newId t), db2))))"

section \<open>Status evaluation\<close>

definition evaluateStatus :: "int \<Rightarrow> int \<Rightarrow> multisig_status" where
  "evaluateStatus signatureCount threshold =
     (if signatureCount \<ge> threshold then READY
      else if signatureCount > 0 then PARTIALLY_SIGNED else PENDING)"

definition countValidSignatures :: "string list \<Rightarrow> string list \<Rightarrow> int" where
  "countValidSignatures signers requiredSigners =
     set_size (filter (\<lambda>k. k \<in> set requiredSigners) signers)"

section \<open>Submission\<close>

definition markAsExpired :: "int \<Rightarrow> string \<Rightarrow> msig_db \<Rightarrow> msig_db" where
  "markAsExpired now txid db =
     (case find_tx db txid of
        None \<Rightarrow> db
      | Some t \<Rightarrow> put_tx txid (t\<lparr>mt_status := EXPIRED, mt_updatedAt := now\<rparr>) db)"

text \<open>
  \<open>net\<close> is Horizon's answer to an envelope: a failure (its message and
  \<open>error.response?.data\<close>) or the hash of the submitted transaction. The column
  \<open>stellarTxId\<close> is unique, so the update inside the \<open>try\<close> can itself throw; the
  \<open>catch\<close> then runs as for a network failure.
\<close>

definition submission_outcome :: "sdk \<Rightarrow> (envelope \<Rightarrow> (string \<times> json) + string) \<Rightarrow> string
    \<Rightarrow> msig_tx \<Rightarrow> msig_db \<Rightarrow> (string \<times> json) + string" where
  "submission_outcome sdk net txid t db =
     (case sdk_fromXDR sdk (mt_envelopeXdr t) TESTNET of
        Inl msg \<Rightarrow> Inl (msg, JUndef)
      | Inr env \<Rightarrow>
        (case net env of
           Inl err \<Rightarrow> Inl err
         | Inr h \<Rightarrow>
           if \<exists>p \<in> set (db_txs db). fst p \<noteq> txid \<and> mt_stellarTxId (snd p) = Some h
           then Inl (''Unique constraint failed on the fields: (`stellarTxId`)'', JUndef)
           else Inr h))"

definition attemptSubmission :: "sdk \<Rightarrow> (envelope \<Rightarrow> (string \<times> json) + string) \<Rightarrow> int \<Rightarrow> string
    \<Rightarrow> msig_db \<Rightarrow> (msig_error + msig_details) \<times> msig_db" where
  "attemptSubmission sdk net now txid db =
     (case find_tx db txid of
        None \<Rightarrow> (Inl TransactionNotFound, db)
      | Some t \<Rightarrow>
        (case submission_outcome sdk net txid t db of
           Inr h \<Rightarrow>
             (let t' = t\<lparr>mt_status := SUBMITTED, mt_submittedAt := Some now,
                         mt_stellarTxId := Some h, mt_updatedAt := now\<rparr>;
                  db1 = put_tx txid t' db;
                  db2 = notifySubmitted now txid h (mt_requiredSigners t) db1
              in (Inr (formatTransactionDetails db2 txid t'), db2))
         | Inl (msg, details) \<Rightarrow>
             (let t' = t\<lparr>mt_status := FAILED,
                         mt_metadata := js_set ''errorDetails'' details
                           (js_set ''error'' (JStr msg) (mt_metadata t)),
                         mt_updatedAt := now\<rparr>;
                  db1 = put_tx txid t' db;
                  db2 = notifyFailed now txid msg (mt_requiredSigners t) db1
              in (Inl (SubmissionFailed msg), db2))))"

definition submitTransaction :: "sdk \<Rightarrow> (envelope \<Rightarrow> (string \<times> json) + string) \<Rightarrow> int \<Rightarrow> string
    \<Rightarrow> msig_db \<Rightarrow> (msig_error + msig_details) \<times> msig_db" where
  "submitTransaction sdk net now txid db =
     (case find_tx db txid of
        None \<Rightarrow> (Inl TransactionNotFound, db)
      | Some t \<Rightarrow>
        if mt_status t \<noteq> READY then (Inl (CannotSubmit (mt_status t)), db)
        else attemptSubmission sdk net now txid db)"

section \<open>Signatures\<close>

fun extractSignature :: "sdk \<Rightarrow> decorated list \<Rightarrow> string \<Rightarrow> string option" where
  "extractSignature sdk [] signer = None"
| "extractSignature sdk (d # ds) signer =
     (case sdk_rawPublicKey sdk signer of
        None \<Rightarrow> extractSignature sdk ds signer
      | Some raw \<Rightarrow>
        if d_hint d = slice_last 4 raw then Some (base64 (d_signature d))
        else extractSignature sdk ds signer)"

fun push_missing :: "decorated list \<Rightarrow> decorated list \<Rightarrow> decorated list" where
  "push_missing base [] = base"
| "push_missing base (d # ds) =
     (if \<exists>b \<in> set base. d_signature b = d_signature d then push_missing base ds
      else push_missing (base @ [d]) ds)"

definition mergeSignatures :: "sdk \<Rightarrow> string \<Rightarrow> string \<Rightarrow> msig_error + string" where
  "mergeSignatures sdk baseXdr newXdr =
     (case sdk_fromXDR sdk baseXdr TESTNET of
        Inl msg \<Rightarrow> Inl (SdkThrew msg)
      | Inr base \<Rightarrow>
        (case sdk_fromXDR sdk newXdr TESTNET of
           Inl msg \<Rightarrow> Inl (SdkThrew msg)
         | Inr new \<Rightarrow> Inr (sdk_toXDR sdk (set_signatures
             (push_missing (envelope_signatures base) (envelope_signatures new)) base))))"

text \<open>
  \<open>addSignature\<close> awaits the database between its parts, so its parts are definitions of
  their own: the checks on the snapshot it reads first; the insertion of the signature
  row; the re-read and the update, which merge into the envelope of the \<^emph>\<open>first\<close> snapshot;
  the notifications and the submission. The handler runs them in order.
\<close>

definition addSignature_check :: "sdk \<Rightarrow> int \<Rightarrow> string \<Rightarrow> string \<Rightarrow> string \<Rightarrow> msig_db
    \<Rightarrow> (msig_error + msig_tx \<times> string) \<times> msig_db" where
  "addSignature_check sdk now txid signer signedXdr db =
     (case find_tx db txid of
        None \<Rightarrow> (Inl TransactionNotFound, db)
      | Some t \<Rightarrow>
        if mt_status t \<noteq> PENDING \<and> mt_status t \<noteq> PARTIALLY_SIGNED
        then (Inl (CannotAddSignature (mt_status t)), db)
        else if has_expired now t
        then (Inl TransactionExpired, markAsExpired now txid db)
        else if signer \<notin> set (mt_requiredSigners t) then (Inl NotARequiredSigner, db)
        else if \<exists>s \<in> set (tx_signatures db txid). sg_signerPublicKey s = signer
        then (Inl AlreadySigned, db)
        else case sdk_fromXDR sdk signedXdr TESTNET of
          Inl msg \<Rightarrow> (Inl InvalidSignedEnvelope, db)
        | Inr env \<Rightarrow>
          if envelope_hash sdk env \<noteq> mt_hash t then (Inl HashMismatch, db)
          else case extractSignature sdk (envelope_signatures env) signer of
            None \<Rightarrow> (Inl SignatureNotFound, db)
          | Some signature \<Rightarrow>
            if signature = [] then (Inl SignatureNotFound, db) else (Inr (t, signature), db))"

definition addSignature_create :: "int \<Rightarrow> string \<Rightarrow> string \<Rightarrow> string \<Rightarrow> msig_db
    \<Rightarrow> (msig_error + unit) \<times> msig_db" where
  "addSignature_create now txid signer signature db =
     (if \<exists>s \<in> set (db_sigs db). sg_multisigTransactionId s = txid \<and> sg_signerPublicKey s = signer
      then (Inl (UniqueViolation ''multisigTransactionId_signerPublicKey''), db)
      else (Inr (), db\<lparr>db_sigs := db_sigs db @
             [\<lparr>sg_multisigTransactionId = txid, sg_signerPublicKey = signer,
               sg_signature = signature, sg_createdAt = now\<rparr>]\<rparr>))"

definition addSignature_update :: "sdk \<Rightarrow> int \<Rightarrow> string \<Rightarrow> string \<Rightarrow> string \<Rightarrow> msig_tx \<Rightarrow> msig_db
    \<Rightarrow> (msig_error + msig_tx) \<times> msig_db" where
  "addSignature_update sdk now txid signer signedXdr snapshot db =
     (case find_tx db txid of
        None \<Rightarrow> (Inl TransactionNotFound, db)
      | Some fresh \<Rightarrow>
        (let count = countValidSignatures
               (List.map sg_signerPublicKey (tx_signatures db txid) @ [signer]) (mt_requiredSigners fresh);
             status = evaluateStatus count (mt_threshold fresh)
         in case mergeSignatures sdk (mt_envelopeXdr snapshot) signedXdr of
              Inl e \<Rightarrow> (Inl e, db)
            | Inr merged \<Rightarrow>
              (let t' = fresh\<lparr>mt_currentSignatures := count, mt_status := status,
                              mt_envelopeXdr := merged, mt_updatedAt := now\<rparr>
               in (Inr t', put_tx txid t' db))))"

definition addSignature_finish :: "sdk \<Rightarrow> (envelope \<Rightarrow> (string \<times> json) + string) \<Rightarrow> int \<Rightarrow> string
    \<Rightarrow> string \<Rightarrow> msig_tx \<Rightarrow> msig_tx \<Rightarrow> msig_db \<Rightarrow> (msig_error + msig_details) \<times> msig_db" where
  "addSignature_finish sdk net now txid signer snapshot updated db =
     (let signers = mt_requiredSigners snapshot;
          details = formatTransactionDetails db txid updated;
          db1 = notifySignatureAdded now txid signer signers db
      in if mt_status updated = READY
         then (let db2 = notifyThresholdReached now txid signers db1
               in case attemptSubmission sdk net now txid db2 of
                    (Inl e, db3) \<Rightarrow> (Inl e, db3)
                  | (Inr _, db3) \<Rightarrow> (Inr details, db3))
         else (Inr details, db1))"

definition addSignature :: "sdk \<Rightarrow> (envelope \<Rightarrow> (string \<times> json) + string) \<Rightarrow> int \<Rightarrow> string
    \<Rightarrow> string \<Rightarrow> string \<Rightarrow> msig_db \<Rightarrow> (msig_error + msig_details) \<times> msig_db" where
  "addSignature sdk net now txid signer signedXdr db =
     (case addSignature_check sdk now txid signer signedXdr db of
        (Inl e, db1) \<Rightarrow> (Inl e, db1)
      | (Inr (t, signature), db1) \<Rightarrow>
        (case addSignature_create now txid signer signature db1 of
           (Inl e, db2) \<Rightarrow> (Inl e, db2)
         | (Inr _, db2) \<Rightarrow>
           (case addSignature_update sdk now txid signer signedXdr t db2 of
              (Inl e, db3) \<Rightarrow> (Inl e, db3)
            | (Inr updated, db3) \<Rightarrow>
              addSignature_finish sdk net now txid signer t updated db3)))"

section \<open>Reconciliation and thresholds\<close>

definition reconcileTransaction :: "sdk \<Rightarrow> (envelope \<Rightarrow> (string \<times> json) + string) \<Rightarrow> int \<Rightarrow> string
    \<Rightarrow> msig_db \<Rightarrow> (msig_error + msig_details \<times> bool) \<times> msig_db" where
  "reconcileTransaction sdk net now txid db =
     (case find_tx db txid of
        None \<Rightarrow> (Inl TransactionNotFound, db)
      | Some t \<Rightarrow>
        if mt_status t \<notin> set COLLECTING_STATUSES
        then (Inr (formatTransactionDetails db txid t, False), db)
        else if has_expired now t
        then (Inr (formatTransactionDetails db txid (t\<lparr>mt_status := EXPIRED\<rparr>), True),
              markAsExpired now txid db)
        else
          (let signers = mt_requiredSigners t;
               count = countValidSignatures (List.map sg_signerPublicKey (tx_signatures db txid)) signers;
               status = evaluateStatus count (mt_threshold t)
           in if status = mt_status t \<and> count = mt_currentSignatures t
              then (Inr (formatTransactionDetails db txid t, False), db)
              else
                (let t' = t\<lparr>mt_status := status, mt_currentSignatures := count, mt_updatedAt := now\<rparr>;
                     db1 = put_tx txid t' db
                 in if status = READY \<and> mt_status t \<noteq> READY
                    then (let db2 = notifyThresholdReached now txid signers db1
                          in case attemptSubmission sdk net now txid db2 of
                               (Inr d, db3) \<Rightarrow> (Inr (d, True), db3)
                             | (Inl e, db3) \<Rightarrow>
                                 (case find_tx db3 txid of
                                    Some failed \<Rightarrow> (Inr (formatTransactionDetails db3 txid failed, True), db3)
                                  | None \<Rightarrow> (Inr (formatTransactionDetails db1 txid t', True), db3)))
                    else (Inr (formatTransactionDetails db1 txid t', True), db1))))"

text \<open>\<open>None\<close> for \<open>newThreshold\<close> is a number that is not an integer.\<close>

definition updateThreshold :: "sdk \<Rightarrow> (envelope \<Rightarrow> (string \<times> json) + string) \<Rightarrow> int \<Rightarrow> string
    \<Rightarrow> int option \<Rightarrow> msig_db \<Rightarrow> (msig_error + msig_details) \<times> msig_db" where
  "updateThreshold sdk net now txid newThreshold db =
     (case find_tx db txid of
        None \<Rightarrow> (Inl TransactionNotFound, db)
      | Some t \<Rightarrow>
        if mt_status t \<notin> set COLLECTING_STATUSES then (Inl (CannotUpdateThreshold (mt_status t)), db)
        else case newThreshold of
          None \<Rightarrow> (Inl InvalidThreshold, db)
        | Some k \<Rightarrow>
          if k < 1 \<or> k > int (length (mt_requiredSigners t)) then (Inl InvalidThreshold, db)
          else
            (case reconcileTransaction sdk net now txid
                    (put_tx txid (t\<lparr>mt_threshold := k, mt_updatedAt := now\<rparr>) db) of
               (Inl e, db1) \<Rightarrow> (Inl e, db1)
             | (Inr (d, changed), db1) \<Rightarrow> (Inr d, db1)))"

record reconcile_summary =
  rs_checked :: nat
  rs_updated :: nat
  rs_failed :: nat

fun reconcile_all :: "sdk \<Rightarrow> (envelope \<Rightarrow> (string \<times> json) + string) \<Rightarrow> int \<Rightarrow> string list
    \<Rightarrow> nat \<Rightarrow> nat \<Rightarrow> msig_db \<Rightarrow> (nat \<times> nat) \<times> msig_db" where
  "reconcile_all sdk net now [] updated failed db = ((updated, failed), db)"
| "reconcile_all sdk net now (txid # ids) updated failed db =
     (case reconcileTransaction sdk net now txid db of
        (Inl e, db1) \<Rightarrow> reconcile_all sdk net now ids updated (Suc failed) db1
      | (Inr (d, changed), db1) \<Rightarrow>
          reconcile_all sdk net now ids (if changed then Suc updated else updated) failed db1)"

definition reconcilePendingTransactions :: "sdk \<Rightarrow> (envelope \<Rightarrow> (string \<times> json) + string) \<Rightarrow> int
    \<Rightarrow> msig_db \<Rightarrow> reconcile_summary \<times> msig_db" where
  "reconcilePendingTransactions sdk net now db =
     (let ids = List.map fst (filter (\<lambda>p. mt_status (snd p) \<in> set COLLECTING_STATUSES) (db_txs db));
          ((u, f), db1) = reconcile_all sdk net now ids 0 0 db
      in (\<lparr>rs_checked = length ids, rs_updated = u, rs_failed = f\<rparr>, db1))"

section \<open>Queries\<close>

definition getTransaction :: "msig_db \<Rightarrow> string \<Rightarrow> msig_details option" where
  "getTransaction db txid = map_option (formatTransactionDetails db txid) (find_tx db txid)"

definition newest_first :: "(string, msig_tx) jsmap \<Rightarrow> (string, msig_tx) jsmap" where
  "newest_first rows = sort_key (\<lambda>p. - mt_createdAt (snd p)) rows"

definition getTransactionsForSigner :: "msig_db \<Rightarrow> string \<Rightarrow> multisig_status option \<Rightarrow> msig_details list" where
  "getTransactionsForSigner db signer status =
     List.map (\<lambda>p. formatTransactionDetails db (fst p) (snd p))
       (filter (\<lambda>p. signer \<in> set (mt_requiredSigners (snd p)))
         (newest_first (filter (\<lambda>p. case status of None \<Rightarrow> True | Some s \<Rightarrow> mt_status (snd p) = s)
            (db_txs db))))"

definition getPendingForSigner :: "int \<Rightarrow> msig_db \<Rightarrow> string \<Rightarrow> msig_details list" where
  "getPendingForSigner now db signer =
     List.map (\<lambda>p. formatTransactionDetails db (fst p) (snd p))
       (filter (\<lambda>p. \<not> (\<exists>s \<in> set (tx_signatures db (fst p)). sg_signerPublicKey s = signer))
         (filter (\<lambda>p. signer \<in> set (mt_requiredSigners (snd p)))
           (newest_first (filter
              (\<lambda>p. mt_status (snd p) \<in> {PENDING, PARTIALLY_SIGNED} \<and>
                   (case mt_expiresAt (snd p) of None \<Rightarrow> True | Some e \<Rightarrow> now < e))
              (db_txs db)))))"

text \<open>A notification is named by its position in the table.\<close>

definition getNotifications :: "msig_db \<Rightarrow> string \<Rightarrow> bool \<Rightarrow> (nat \<times> msig_notification) list" where
  "getNotifications db publicKey unreadOnly =
     sort_key (\<lambda>p. - nt_sentAt (snd p))
       (filter (\<lambda>p. nt_recipientPublicKey (snd p) = publicKey \<and> (unreadOnly \<longrightarrow> nt_readAt (snd p) = None))
         (List.enumerate 0 (db_notifs db)))"

definition markNotificationsAsRead :: "int \<Rightarrow> nat list \<Rightarrow> msig_db \<Rightarrow> msig_db" where
  "markNotificationsAsRead now ids db =
     db\<lparr>db_notifs := List.map (\<lambda>(i, n). if i \<in> set ids then n\<lparr>nt_readAt := Some now\<rparr> else n)
         (List.enumerate 0 (db_notifs db))\<rparr>"

end
