(* ===== verification/Multisig_Inv.thy ===== *)
theory Multisig_Inv
  imports Multisig
begin

text \<open>
  The invariant of the multisig tables, that every method of the service keeps it, and
  what follows for every sequence of calls: no row is \<open>SUBMITTED\<close> without the
  signatures its threshold asks for, and a finished row stays finished.
\<close>

named_theorems msig_simps \<open>frame facts of the table operations\<close>

section \<open>Frame facts\<close>

lemma find_put [msig_simps]: "find_tx (put_tx txid t db) i = (if i = txid then Some t else find_tx db i)"
  by (simp add: find_tx_def put_tx_def)

lemma find_notif [msig_simps]: "find_tx (add_notifications ns db) i = find_tx db i"
  by (simp add: find_tx_def add_notifications_def)

lemma sigs_put [msig_simps]: "db_sigs (put_tx txid t db) = db_sigs db"
  by (simp add: put_tx_def)

lemma sigs_notif [msig_simps]: "db_sigs (add_notifications ns db) = db_sigs db"
  by (simp add: add_notifications_def)

lemma wf_put [msig_simps]: "js_wf (db_txs db) \<Longrightarrow> js_wf (db_txs (put_tx txid t db))"
  by (simp add: put_tx_def)

lemma wf_notif [msig_simps]: "js_wf (db_txs (add_notifications ns db)) = js_wf (db_txs db)"
  by (simp add: add_notifications_def)

lemmas notify_defs = notifyRequiredSigners_def notifySignatureAdded_def notifyThresholdReached_def
  notifySubmitted_def notifyFailed_def Let_def

definition signers_of :: "msig_db \<Rightarrow> string \<Rightarrow> string list" where
  "signers_of db txid = List.map sg_signerPublicKey (tx_signatures db txid)"

lemma signers_put [msig_simps]: "signers_of (put_tx i t db) txid = signers_of db txid"
  by (simp add: signers_of_def tx_signatures_def sigs_put)

lemma signers_notif [msig_simps]: "signers_of (add_notifications ns db) txid = signers_of db txid"
  by (simp add: signers_of_def tx_signatures_def sigs_notif)

lemma count_card: "countValidSignatures xs rs = int (card (set xs \<inter> set rs))"
  by (simp add: countValidSignatures_def set_size_card Int_def)

lemma count_mono: "set xs \<subseteq> set ys \<Longrightarrow> countValidSignatures xs rs \<le> countValidSignatures ys rs"
  by (auto simp: count_card intro!: card_mono)

section \<open>The invariant\<close>

text \<open>
  A row still collecting signatures is below its threshold (a \<open>READY\<close> row is submitted
  within the call that makes it so), its counter never exceeds the signatures in the
  table, and a row that was submitted (or whose submission failed) had enough of them.
\<close>

definition row_ok :: "string list \<Rightarrow> msig_tx \<Rightarrow> bool" where
  "row_ok signers t =
     (let n = countValidSignatures signers (mt_requiredSigners t) in
      case mt_status t of
        PENDING \<Rightarrow> mt_currentSignatures t = 0 \<and> mt_threshold t > 0
      | PARTIALLY_SIGNED \<Rightarrow> 0 < mt_currentSignatures t \<and> mt_currentSignatures t \<le> n
           \<and> mt_currentSignatures t < mt_threshold t
      | READY \<Rightarrow> False
      | SUBMITTED \<Rightarrow> mt_threshold t \<le> n
      | FAILED \<Rightarrow> mt_threshold t \<le> n
      | EXPIRED \<Rightarrow> True)"

definition shape_ok :: "msig_tx \<Rightarrow> bool" where
  "shape_ok t \<longleftrightarrow> distinct (mt_requiredSigners t) \<and> 1 \<le> mt_threshold t
     \<and> mt_threshold t \<le> int (length (mt_requiredSigners t))"

definition tables_ok :: "msig_db \<Rightarrow> bool" where
  "tables_ok db \<longleftrightarrow> js_wf (db_txs db)
     \<and> distinct (List.map (\<lambda>s. (sg_multisigTransactionId s, sg_signerPublicKey s)) (db_sigs db))
     \<and> (\<forall>s \<in> set (db_sigs db). \<exists>t. find_tx db (sg_multisigTransactionId s) = Some t
          \<and> sg_signerPublicKey s \<in> set (mt_requiredSigners t))
     \<and> (\<forall>i t. find_tx db i = Some t \<longrightarrow> shape_ok t)"

definition rows_ok_except :: "string set \<Rightarrow> msig_db \<Rightarrow> bool" where
  "rows_ok_except E db \<longleftrightarrow> tables_ok db
     \<and> (\<forall>i t. find_tx db i = Some t \<and> i \<notin> E \<longrightarrow> row_ok (signers_of db i) t)"

definition msig_ok :: "msig_db \<Rightarrow> bool" where
  "msig_ok db \<longleftrightarrow> rows_ok_except {} db"

lemma row_ok_mono: "row_ok xs t \<Longrightarrow> set xs \<subseteq> set ys \<Longrightarrow> row_ok ys t"
  using count_mono [of xs ys "mt_requiredSigners t"]
  by (auto simp: row_ok_def Let_def split: multisig_status.splits)

lemma rows_okD: "rows_ok_except E db \<Longrightarrow> find_tx db i = Some t \<Longrightarrow> i \<notin> E \<Longrightarrow> row_ok (signers_of db i) t"
  by (simp add: rows_ok_except_def)

lemma msig_okD: "msig_ok db \<Longrightarrow> find_tx db i = Some t \<Longrightarrow> row_ok (signers_of db i) t \<and> shape_ok t"
  by (simp add: msig_ok_def rows_ok_except_def tables_ok_def)

lemma rows_ok_weaken: "msig_ok db \<Longrightarrow> rows_ok_except E db"
  by (simp add: msig_ok_def rows_ok_except_def)

lemma rows_ok_notif [msig_simps]: "rows_ok_except E (add_notifications ns db) = rows_ok_except E db"
  by (simp add: rows_ok_except_def tables_ok_def msig_simps)

lemma msig_ok_notif [msig_simps]: "msig_ok (add_notifications ns db) = msig_ok db"
  by (simp add: msig_ok_def rows_ok_notif)

text \<open>Writing one row: the row's required signers stay, so the signature table still fits.\<close>

lemma tables_ok_put:
  assumes "tables_ok db" and "find_tx db i = Some t"
    and "mt_requiredSigners t' = mt_requiredSigners t" and "shape_ok t'"
  shows "tables_ok (put_tx i t' db)"
  using assms by (auto simp: tables_ok_def msig_simps)

lemma rows_ok_put_except:
  assumes "rows_ok_except E db" and "find_tx db i = Some t"
    and "mt_requiredSigners t' = mt_requiredSigners t" and "shape_ok t'"
  shows "rows_ok_except (insert i E) (put_tx i t' db)"
  using assms tables_ok_put [OF _ assms(2-4)]
  by (auto simp: rows_ok_except_def msig_simps)

lemma msig_ok_put:
  assumes "rows_ok_except {i} db" and "find_tx db i = Some t"
    and "mt_requiredSigners t' = mt_requiredSigners t" and "shape_ok t'"
    and "row_ok (signers_of db i) t'"
  shows "msig_ok (put_tx i t' db)"
  using assms tables_ok_put [OF _ assms(2-4)]
  by (auto simp: msig_ok_def rows_ok_except_def msig_simps)

section \<open>Every method keeps it\<close>

lemma shape_ok_find: "rows_ok_except E db \<Longrightarrow> find_tx db i = Some t \<Longrightarrow> shape_ok t"
  by (simp add: rows_ok_except_def tables_ok_def)

lemma notif_finds [msig_simps]:
  "find_tx (notifySubmitted n i h ss db) j = find_tx db j"
  "find_tx (notifyFailed n i h ss db) j = find_tx db j"
  "find_tx (notifyThresholdReached n i ss db) j = find_tx db j"
  "find_tx (notifySignatureAdded n i s ss db) j = find_tx db j"
  "find_tx (notifyRequiredSigners n i ss db) j = find_tx db j"
  by (simp_all add: notify_defs msig_simps)

lemma notif_ok [msig_simps]:
  "rows_ok_except E (notifySubmitted n i h ss db) = rows_ok_except E db"
  "rows_ok_except E (notifyFailed n i h ss db) = rows_ok_except E db"
  "rows_ok_except E (notifyThresholdReached n i ss db) = rows_ok_except E db"
  "rows_ok_except E (notifySignatureAdded n i s ss db) = rows_ok_except E db"
  "rows_ok_except E (notifyRequiredSigners n i ss db) = rows_ok_except E db"
  by (simp_all add: notify_defs msig_simps)

lemma notif_signers [msig_simps]:
  "signers_of (notifySubmitted n i h ss db) j = signers_of db j"
  "signers_of (notifyFailed n i h ss db) j = signers_of db j"
  "signers_of (notifyThresholdReached n i ss db) j = signers_of db j"
  "signers_of (notifySignatureAdded n i s ss db) j = signers_of db j"
  "signers_of (notifyRequiredSigners n i ss db) j = signers_of db j"
  by (simp_all add: notify_defs msig_simps)

lemma markAsExpired_ok: "msig_ok db \<Longrightarrow> msig_ok (markAsExpired now i db)"
  by (auto simp: markAsExpired_def shape_ok_def row_ok_def split: option.splits
      intro!: msig_ok_put dest: rows_ok_weaken [of _ "{i}"] msig_okD)

text \<open>A submission ends in \<open>SUBMITTED\<close> or \<open>FAILED\<close>; it only needs the row to have enough signatures.\<close>

lemma attemptSubmission_ok:
  assumes ok: "rows_ok_except {i} db" and t: "find_tx db i = Some t"
    and enough: "mt_threshold t \<le> countValidSignatures (signers_of db i) (mt_requiredSigners t)"
  shows "msig_ok (snd (attemptSubmission sdk net now i db))"
proof -
  have "shape_ok t" using ok t by (rule shape_ok_find)
  then show ?thesis
    using ok t enough
    by (auto simp: attemptSubmission_def Let_def msig_ok_def [symmetric] notify_defs msig_simps
        shape_ok_def row_ok_def intro!: msig_ok_put split: sum.splits)
qed

lemma evaluateStatus_cases:
  "evaluateStatus n k = READY \<longleftrightarrow> k \<le> n"
  "READY = evaluateStatus n k \<longleftrightarrow> k \<le> n"
  "evaluateStatus n k = PARTIALLY_SIGNED \<longleftrightarrow> n < k \<and> 0 < n"
  "evaluateStatus n k = PENDING \<longleftrightarrow> n < k \<and> n \<le> 0"
  by (auto simp: evaluateStatus_def)

lemma evaluateStatus_ne [simp]:
  "evaluateStatus n k \<noteq> SUBMITTED" "evaluateStatus n k \<noteq> FAILED" "evaluateStatus n k \<noteq> EXPIRED"
  by (auto simp: evaluateStatus_def)

lemma row_ok_evaluated:
  assumes "n = countValidSignatures xs (mt_requiredSigners t)" and "1 \<le> mt_threshold t" and "n < mt_threshold t"
    and "mt_status t = evaluateStatus n (mt_threshold t)" and "mt_currentSignatures t = n"
  shows "row_ok xs t"
proof -
  have "0 \<le> n" using assms(1) by (simp add: count_card)
  with assms show ?thesis by (auto simp: row_ok_def evaluateStatus_def Let_def)
qed

lemma reconcileTransaction_ok:
  assumes ok: "rows_ok_except {i} db" and t: "find_tx db i = Some t"
    and dyn: "mt_status t \<notin> set COLLECTING_STATUSES \<Longrightarrow> row_ok (signers_of db i) t"
    and coll: "mt_status t \<in> set COLLECTING_STATUSES \<Longrightarrow> mt_status t \<noteq> READY"
  shows "msig_ok (snd (reconcileTransaction sdk net now i db))"
proof -
  let ?n = "countValidSignatures (List.map sg_signerPublicKey (tx_signatures db i)) (mt_requiredSigners t)"
  let ?st = "evaluateStatus ?n (mt_threshold t)"
  let ?t' = "t\<lparr>mt_status := ?st, mt_currentSignatures := ?n, mt_updatedAt := now\<rparr>"
  have shape: "shape_ok t" using ok t by (rule shape_ok_find)
  have signers: "signers_of db i = List.map sg_signerPublicKey (tx_signatures db i)"
    by (simp add: signers_of_def)
  have all: "msig_ok db" if "row_ok (signers_of db i) t"
    using ok t that unfolding msig_ok_def rows_ok_except_def
    by (metis insert_iff option.inject empty_iff)
  consider (finished) "mt_status t \<notin> set COLLECTING_STATUSES"
    | (expired) "mt_status t \<in> set COLLECTING_STATUSES" "has_expired now t"
    | (same) "mt_status t \<in> set COLLECTING_STATUSES"
        "\<not> has_expired now t"
        "?st = mt_status t" "?n = mt_currentSignatures t"
    | (below) "mt_status t \<in> set COLLECTING_STATUSES"
        "\<not> has_expired now t"
        "\<not> (?st = mt_status t \<and> ?n = mt_currentSignatures t)" "?st \<noteq> READY"
    | (ready) "mt_status t \<in> set COLLECTING_STATUSES"
        "\<not> has_expired now t"
        "\<not> (?st = mt_status t \<and> ?n = mt_currentSignatures t)" "?st = READY"
    by blast
  then show ?thesis
  proof cases
    case finished
    with dyn all t show ?thesis by (simp add: reconcileTransaction_def)
  next
    case expired
    have "msig_ok (put_tx i (t\<lparr>mt_status := EXPIRED, mt_updatedAt := now\<rparr>) db)"
      using ok t shape by (intro msig_ok_put) (auto simp: shape_ok_def row_ok_def)
    with expired t show ?thesis by (simp add: reconcileTransaction_def markAsExpired_def)
  next
    case same
    have "?n < mt_threshold t"
      using same(1,3) coll evaluateStatus_cases(1) by (metis not_less)
    then have "row_ok (signers_of db i) t"
      using same shape by (intro row_ok_evaluated [where n = ?n])
        (simp_all add: signers shape_ok_def)
    with same t all show ?thesis by (auto simp: reconcileTransaction_def Let_def)
  next
    case below
    have "msig_ok (put_tx i ?t' db)"
      using ok t shape below(4) by (intro msig_ok_put row_ok_evaluated [where n = ?n])
        (auto simp: shape_ok_def signers evaluateStatus_cases)
    with below t show ?thesis by (auto simp: reconcileTransaction_def Let_def)
  next
    case ready
    let ?db2 = "notifyThresholdReached now i (mt_requiredSigners t) (put_tx i ?t' db)"
    have "rows_ok_except {i} (put_tx i ?t' db)"
      using rows_ok_put_except [OF ok t, of ?t'] shape by (simp add: shape_ok_def)
    moreover have "mt_threshold t \<le> ?n" using ready(4) evaluateStatus_cases(1) by blast
    ultimately have "msig_ok (snd (attemptSubmission sdk net now i ?db2))"
      by (intro attemptSubmission_ok [where t = ?t']) (simp_all add: msig_simps signers)
    with ready t coll show ?thesis
      by (auto simp: reconcileTransaction_def Let_def split: prod.splits sum.splits option.splits)
  qed
qed

lemma createTransaction_ok:
  assumes "msig_ok db"
  shows "msig_ok (snd (createTransaction sdk now i p db))"
proof (cases "fst (createTransaction sdk now i p db)")
  case (Inl e)
  then have "snd (createTransaction sdk now i p db) = db"
    by (auto simp: createTransaction_def Let_def split: sum.splits if_splits)
  with assms show ?thesis by simp
next
  case (Inr d)
  then obtain t where new: "find_tx db i = None"
    and t: "snd (createTransaction sdk now i p db)
        = notifyRequiredSigners now i (cp_requiredSigners p) (put_tx i t db)"
    and st: "mt_status t = PENDING" "mt_currentSignatures t = 0" and shape: "shape_ok t"
    by (auto simp: createTransaction_def Let_def shape_ok_def set_size_eq_length
        split: sum.splits if_splits)
  have none: "sg_multisigTransactionId s \<noteq> i" if "s \<in> set (db_sigs db)" for s
    using assms new that by (auto simp: msig_ok_def rows_ok_except_def tables_ok_def)
  have "row_ok xs t" for xs using st shape by (simp add: row_ok_def shape_ok_def)
  with assms new shape none have "msig_ok (put_tx i t db)"
    by (auto simp: msig_ok_def rows_ok_except_def tables_ok_def msig_simps)
  with t show ?thesis by (simp add: msig_ok_def msig_simps)
qed

text \<open>The three database steps of \<open>addSignature\<close>, each from what the one before establishes.\<close>

lemma addSignature_check_ok:
  assumes "msig_ok db"
  shows "msig_ok (snd (addSignature_check sdk now i signer xdr db))"
  using assms markAsExpired_ok [OF assms]
  by (simp add: addSignature_check_def split: option.splits sum.splits)

lemma addSignature_check_Inr:
  assumes "addSignature_check sdk now i signer xdr db = (Inr (t, signature), db1)"
  shows "db1 = db \<and> find_tx db i = Some t \<and> mt_status t \<in> {PENDING, PARTIALLY_SIGNED}
    \<and> signer \<in> set (mt_requiredSigners t) \<and> signer \<notin> set (signers_of db i)
    \<and> (\<exists>env. sdk_fromXDR sdk xdr TESTNET = Inr env \<and> envelope_hash sdk env = mt_hash t
         \<and> extractSignature sdk (envelope_signatures env) signer = Some signature)"
  using assms
  by (auto simp: addSignature_check_def signers_of_def split: option.splits sum.splits if_splits)

lemma addSignature_create_ok:
  assumes ok: "msig_ok db" and t: "find_tx db i = Some t" and mem: "signer \<in> set (mt_requiredSigners t)"
    and res: "addSignature_create now i signer signature db = (r, db')"
  shows "msig_ok db' \<and> db_txs db' = db_txs db \<and> (\<forall>j. set (signers_of db j) \<subseteq> set (signers_of db' j))
    \<and> (r = Inr () \<longrightarrow> signers_of db' i = signers_of db i @ [signer])"
proof (cases "\<exists>s \<in> set (db_sigs db). sg_multisigTransactionId s = i \<and> sg_signerPublicKey s = signer")
  case True
  with res have "db' = db" and "r \<noteq> Inr ()" by (auto simp: addSignature_create_def)
  with ok show ?thesis by simp
next
  case False
  let ?s = "\<lparr>sg_multisigTransactionId = i, sg_signerPublicKey = signer,
               sg_signature = signature, sg_createdAt = now\<rparr>"
  from res have db': "db' = db\<lparr>db_sigs := db_sigs db @ [?s]\<rparr>"
    unfolding addSignature_create_def if_not_P [OF False] by simp
  have find: "find_tx db' j = find_tx db j" for j by (simp add: find_tx_def db')
  have sigs: "signers_of db' j = signers_of db j @ (if j = i then [signer] else [])" for j
    by (simp add: signers_of_def tx_signatures_def db')
  have "tables_ok db'"
    using ok t mem False unfolding msig_ok_def rows_ok_except_def tables_ok_def find
    by (auto simp: db')
  moreover have "row_ok (signers_of db' j) u" if "find_tx db j = Some u" for j u
    using row_ok_mono [of "signers_of db j" u "signers_of db' j"] msig_okD [OF ok that] by (simp add: sigs)
  moreover have "db_txs db' = db_txs db" by (simp add: db')
  ultimately show ?thesis by (auto simp: msig_ok_def rows_ok_except_def find sigs)
qed

lemma addSignature_update_Inr:
  assumes "addSignature_update sdk now i signer xdr snap db = (Inr u, db')"
  shows "\<exists>fresh. find_tx db i = Some fresh \<and> db' = put_tx i u db
    \<and> mt_requiredSigners u = mt_requiredSigners fresh \<and> mt_threshold u = mt_threshold fresh
    \<and> mt_currentSignatures u = countValidSignatures (signers_of db i @ [signer]) (mt_requiredSigners fresh)
    \<and> mt_status u = evaluateStatus (mt_currentSignatures u) (mt_threshold fresh)
    \<and> mergeSignatures sdk (mt_envelopeXdr snap) xdr = Inr (mt_envelopeXdr u)
    \<and> mt_hash u = mt_hash fresh"
  using assms
  by (auto simp: addSignature_update_def Let_def signers_of_def split: option.splits sum.splits)

lemma addSignature_finish_db:
  "snd (addSignature_finish sdk net now i signer snap u db) =
     (if mt_status u = READY
      then snd (attemptSubmission sdk net now i (notifyThresholdReached now i (mt_requiredSigners snap)
                 (notifySignatureAdded now i signer (mt_requiredSigners snap) db)))
      else notifySignatureAdded now i signer (mt_requiredSigners snap) db)"
  by (simp add: addSignature_finish_def Let_def split: prod.split sum.split)

lemma addSignature_ok:
  assumes ok: "msig_ok db"
  shows "msig_ok (snd (addSignature sdk net now i signer xdr db))"
proof (cases "addSignature_check sdk now i signer xdr db")
  case (Pair r db1)
  show ?thesis
  proof (cases r)
    case (Inl e)
    with Pair addSignature_check_ok [OF ok, of sdk now i signer xdr] show ?thesis
      by (simp add: addSignature_def)
  next
    case (Inr p)
    obtain t signature where p: "p = (t, signature)" by (cases p)
    with Pair Inr have chk: "addSignature_check sdk now i signer xdr db = (Inr (t, signature), db1)" by simp
    note c = addSignature_check_Inr [OF this]
    obtain r2 db2 where cr: "addSignature_create now i signer signature db1 = (r2, db2)" by fastforce
    note k = addSignature_create_ok [OF _ _ _ this, of t]
    show ?thesis
    proof (cases r2)
      case (Inl e)
      with chk cr k c ok show ?thesis by (simp add: addSignature_def)
    next
      case (Inr u)
      obtain r3 db3 where up: "addSignature_update sdk now i signer xdr t db2 = (r3, db3)" by fastforce
      show ?thesis
      proof (cases r3)
        case (Inl e)
        with up have "db3 = db2"
          by (auto simp: addSignature_update_def Let_def split: option.splits sum.splits)
        with chk cr up Inr Inl k c ok show ?thesis by (simp add: addSignature_def)
      next
        case (Inr v)
        from addSignature_update_Inr up Inr obtain fresh where
          f: "find_tx db2 i = Some fresh" "db3 = put_tx i v db2"
            "mt_requiredSigners v = mt_requiredSigners fresh" "mt_threshold v = mt_threshold fresh"
          and n: "mt_currentSignatures v = countValidSignatures (signers_of db2 i @ [signer]) (mt_requiredSigners fresh)"
            "mt_status v = evaluateStatus (mt_currentSignatures v) (mt_threshold fresh)"
          by metis
        have ok2: "msig_ok db2" and s2: "signer \<in> set (signers_of db2 i)"
          using k c ok \<open>r2 = Inr u\<close> by auto
        have cnt: "mt_currentSignatures v = countValidSignatures (signers_of db2 i) (mt_requiredSigners v)"
          using n f s2 by (simp add: count_card insert_absorb)
        have shape: "shape_ok v" using msig_okD [OF ok2 f(1)] f by (simp add: shape_ok_def)
        have ex: "rows_ok_except {i} db3"
          using rows_ok_put_except [OF rows_ok_weaken [OF ok2] f(1,3) shape] f(2) by simp
        show ?thesis
        proof (cases "mt_status v = READY")
          case True
          have "msig_ok (snd (attemptSubmission sdk net now i (notifyThresholdReached now i (mt_requiredSigners t)
                 (notifySignatureAdded now i signer (mt_requiredSigners t) db3))))"
            using ex f n cnt True
            by (intro attemptSubmission_ok [where t = v]) (auto simp: msig_simps evaluateStatus_cases)
          with chk cr up \<open>r2 = Inr u\<close> Inr True show ?thesis
            by (simp add: addSignature_def addSignature_finish_db)
        next
          case False
          have "row_ok (signers_of db2 i) v"
            using cnt n f shape False
            by (intro row_ok_evaluated [where n = "mt_currentSignatures v"])
              (auto simp: shape_ok_def evaluateStatus_cases)
          then have "msig_ok db3"
            using f shape by (simp add: msig_ok_put [OF rows_ok_weaken [OF ok2] f(1,3) shape])
          with chk cr up \<open>r2 = Inr u\<close> Inr False show ?thesis
            by (simp add: addSignature_def addSignature_finish_db msig_ok_def msig_simps)
        qed
      qed
    qed
  qed
qed

lemma updateThreshold_ok:
  assumes ok: "msig_ok db"
  shows "msig_ok (snd (updateThreshold sdk net now i k db))"
proof -
  have "msig_ok (snd (reconcileTransaction sdk net now i (put_tx i (t\<lparr>mt_threshold := n, mt_updatedAt := now\<rparr>) db)))"
    if t: "find_tx db i = Some t" and c: "mt_status t \<in> set COLLECTING_STATUSES"
      and n: "1 \<le> n" "n \<le> int (length (mt_requiredSigners t))" for t n
  proof (rule reconcileTransaction_ok)
    show "rows_ok_except {i} (put_tx i (t\<lparr>mt_threshold := n, mt_updatedAt := now\<rparr>) db)"
      using msig_okD [OF ok t] n
      by (intro rows_ok_put_except [where E = "{}" and t = t]) (auto simp: ok t rows_ok_weaken shape_ok_def)
  qed (use msig_okD [OF ok t] c in \<open>auto simp: msig_simps COLLECTING_STATUSES_def row_ok_def\<close>)
  with ok show ?thesis
    by (auto simp: updateThreshold_def split: option.split prod.split sum.split)
      (metis snd_conv linorder_not_less)+
qed

lemma reconcile_call_ok:
  assumes ok: "msig_ok db"
  shows "msig_ok (snd (reconcileTransaction sdk net now i db))"
proof (cases "find_tx db i")
  case None
  with ok show ?thesis by (simp add: reconcileTransaction_def)
next
  case (Some t)
  then show ?thesis
    using msig_okD [OF ok Some] rows_ok_weaken [OF ok]
    by (intro reconcileTransaction_ok) (auto simp: row_ok_def)
qed

lemma reconcile_all_ok: "msig_ok db \<Longrightarrow> msig_ok (snd (reconcile_all sdk net now ids u f db))"
proof (induction ids arbitrary: u f db)
  case Nil
  then show ?case by simp
next
  case (Cons i ids)
  from reconcile_call_ok [OF Cons.prems, of sdk net now i] Cons.IH show ?case
    by (auto split: prod.split sum.split)
qed

lemma reconcilePending_ok: "msig_ok db \<Longrightarrow> msig_ok (snd (reconcilePendingTransactions sdk net now db))"
  using reconcile_all_ok [of db sdk net now _ 0 0]
  by (simp add: reconcilePendingTransactions_def Let_def case_prod_beta)

lemma submitTransaction_ok: "msig_ok db \<Longrightarrow> msig_ok (snd (submitTransaction sdk net now i db))"
  using msig_okD [of db i]
  by (auto simp: submitTransaction_def row_ok_def split: option.split)

lemma markRead_ok: "msig_ok db \<Longrightarrow> msig_ok (markNotificationsAsRead now ids db)"
  by (simp add: markNotificationsAsRead_def msig_ok_def rows_ok_except_def tables_ok_def find_tx_def
      signers_of_def tx_signatures_def)

section \<open>Sequences of calls\<close>

text \<open>
  The service as its callers drive it: any method, with any arguments, at any time, and
  with any answer of Horizon (\<open>net\<close> comes with the call).
\<close>

datatype msig_call =
    CallCreate string create_params
  | CallSign string string string
  | CallThreshold string "int option"
  | CallReconcile string
  | CallReconcilePending
  | CallSubmit string
  | CallMarkRead "nat list"

type_synonym msig_env = "int \<times> (envelope \<Rightarrow> (string \<times> json) + string)"

fun msig_step :: "sdk \<Rightarrow> msig_db \<Rightarrow> msig_env \<times> msig_call \<Rightarrow> msig_db" where
  "msig_step sdk db ((now, net), CallCreate i p) = snd (createTransaction sdk now i p db)"
| "msig_step sdk db ((now, net), CallSign i signer xdr) = snd (addSignature sdk net now i signer xdr db)"
| "msig_step sdk db ((now, net), CallThreshold i k) = snd (updateThreshold sdk net now i k db)"
| "msig_step sdk db ((now, net), CallReconcile i) = snd (reconcileTransaction sdk net now i db)"
| "msig_step sdk db ((now, net), CallReconcilePending) = snd (reconcilePendingTransactions sdk net now db)"
| "msig_step sdk db ((now, net), CallSubmit i) = snd (submitTransaction sdk net now i db)"
| "msig_step sdk db ((now, net), CallMarkRead ids) = markNotificationsAsRead now ids db"

definition empty_msig_db :: msig_db where
  "empty_msig_db = \<lparr>db_txs = [], db_sigs = [], db_notifs = []\<rparr>"

lemma empty_msig_ok: "msig_ok empty_msig_db"
  by (simp add: empty_msig_db_def msig_ok_def rows_ok_except_def tables_ok_def find_tx_def)

lemma msig_step_ok: "msig_ok db \<Longrightarrow> msig_ok (msig_step sdk db c)"
  by (induction sdk db c rule: msig_step.induct)
    (simp_all add: createTransaction_ok addSignature_ok updateThreshold_ok reconcile_call_ok
      reconcilePending_ok submitTransaction_ok markRead_ok)

text \<open>Frame: a call about one row leaves the others alone, and no call reopens a finished row.\<close>

definition finished :: "msig_tx \<Rightarrow> bool" where
  "finished t \<longleftrightarrow> mt_status t \<in> {SUBMITTED, FAILED, EXPIRED}"

lemma attempt_frame: "j \<noteq> i \<Longrightarrow> find_tx (snd (attemptSubmission sdk net now i db)) j = find_tx db j"
  by (auto simp: attemptSubmission_def Let_def msig_simps split: option.split sum.split)

lemma reconcile_frame: "j \<noteq> i \<Longrightarrow> find_tx (snd (reconcileTransaction sdk net now i db)) j = find_tx db j"
  using attempt_frame [of j i]
  by (auto simp: reconcileTransaction_def markAsExpired_def Let_def msig_simps
      split: option.split prod.split sum.split) (metis snd_conv msig_simps)+

lemma reconcile_finished:
  "find_tx db i = Some t \<Longrightarrow> finished t \<Longrightarrow> snd (reconcileTransaction sdk net now i db) = db"
  by (auto simp: reconcileTransaction_def finished_def COLLECTING_STATUSES_def)

lemma reconcile_keeps:
  "find_tx db j = Some t \<Longrightarrow> finished t \<Longrightarrow> find_tx (snd (reconcileTransaction sdk net now i db)) j = Some t"
  by (cases "i = j") (simp_all add: reconcile_finished reconcile_frame)

lemma reconcile_all_keeps:
  "find_tx db j = Some t \<Longrightarrow> finished t \<Longrightarrow> find_tx (snd (reconcile_all sdk net now ids u f db)) j = Some t"
proof (induction ids arbitrary: u f db)
  case Nil
  then show ?case by simp
next
  case (Cons i ids)
  from reconcile_keeps [OF Cons.prems, of sdk net now i] Cons show ?case
    by (auto split: prod.split sum.split)
qed

lemma addSignature_refused:
  assumes "find_tx db i = Some t" and "finished t"
  shows "addSignature sdk net now i signer xdr db = (Inl (CannotAddSignature (mt_status t)), db)"
  using assms by (auto simp: addSignature_def addSignature_check_def finished_def)

lemma addSignature_frame:
  assumes "j \<noteq> i"
  shows "find_tx (snd (addSignature sdk net now i signer xdr db)) j = find_tx db j"
proof -
  have chk: "find_tx (snd (addSignature_check sdk now i signer xdr db)) j = find_tx db j"
    using assms by (simp add: addSignature_check_def markAsExpired_def msig_simps split: option.split sum.split)
  have cr: "find_tx (snd (addSignature_create now i signer sg d)) j = find_tx d j" for sg d
    by (simp add: addSignature_create_def find_tx_def)
  have up: "find_tx (snd (addSignature_update sdk now i signer xdr t d)) j = find_tx d j" for t d
    using assms by (simp add: addSignature_update_def Let_def msig_simps split: option.split sum.split)
  have fin: "find_tx (snd (addSignature_finish sdk net now i signer t u d)) j = find_tx d j" for t u d
    using assms by (simp add: addSignature_finish_db attempt_frame msig_simps)
  show ?thesis
    unfolding addSignature_def
    using chk cr up fin by (auto split: prod.split sum.split) (metis snd_conv)+
qed

lemma updateThreshold_keeps:
  "find_tx db j = Some t \<Longrightarrow> finished t \<Longrightarrow> find_tx (snd (updateThreshold sdk net now i k db)) j = Some t"
  using reconcile_frame [of j i sdk net now]
  by (cases "i = j")
    (auto simp: updateThreshold_def finished_def COLLECTING_STATUSES_def msig_simps
      split: option.split prod.split sum.split, (metis snd_conv msig_simps(1))+)

lemma createTransaction_keeps:
  "find_tx db j = Some t \<Longrightarrow> find_tx (snd (createTransaction sdk now i p db)) j = Some t"
  by (auto simp: createTransaction_def Let_def msig_simps split: sum.split)

lemma msig_step_keeps:
  assumes "find_tx db j = Some t" and "finished t"
  shows "find_tx (msig_step sdk db c) j = Some t"
  using assms
proof (induction sdk db c rule: msig_step.induct)
  case (2 sdk db now net i signer xdr)
  then show ?case by (cases "i = j") (simp_all add: addSignature_refused addSignature_frame)
next
  case (6 sdk db now net i)
  then show ?case
    by (cases "i = j") (auto simp: submitTransaction_def finished_def attempt_frame split: option.split)
qed (simp_all add: createTransaction_keeps updateThreshold_keeps reconcile_keeps reconcile_all_keeps
  reconcilePendingTransactions_def Let_def case_prod_beta markNotificationsAsRead_def find_tx_def [symmetric],
  simp add: find_tx_def)

interpretation msig: call_machine "msig_step sdk" msig_ok for sdk
  by unfold_locales (rule msig_step_ok)

interpretation msig_end: terminal_machine "msig_step sdk" msig_ok find_tx finished for sdk
  by unfold_locales (rule msig_step_keeps)

section \<open>Properties\<close>

text \<open>C2. Start from empty tables and let any calls happen, in any order, at any times and with
  any answers of Horizon: a transaction recorded as \<open>SUBMITTED\<close> has, in the signature table,
  signatures of at least \<open>threshold\<close> different required signers.\<close>

theorem multisig_submitted_has_threshold:
  assumes "find_tx (foldl (msig_step sdk) empty_msig_db calls) i = Some t"
    and "mt_status t = SUBMITTED"
  shows "mt_threshold t \<le> int (card (set (mt_requiredSigners t) \<inter>
    {sg_signerPublicKey s | s. s \<in> set (db_sigs (foldl (msig_step sdk) empty_msig_db calls))
       \<and> sg_multisigTransactionId s = i}))"
proof -
  let ?db = "foldl (msig_step sdk) empty_msig_db calls"
  have "row_ok (signers_of ?db i) t"
    using msig_okD [OF msig.run_inv [OF empty_msig_ok] assms(1)] by simp
  moreover have "set (signers_of ?db i) =
    {sg_signerPublicKey s | s. s \<in> set (db_sigs ?db) \<and> sg_multisigTransactionId s = i}"
    by (auto simp: signers_of_def tx_signatures_def)
  ultimately show ?thesis
    using assms(2) by (simp add: row_ok_def count_card Int_commute)
qed

text \<open>C9. A transaction that is \<open>SUBMITTED\<close>, \<open>FAILED\<close> or \<open>EXPIRED\<close> stays exactly as it
  is, whatever calls follow: no call reopens it, re-submits it or changes its threshold.\<close>

theorem multisig_finished_is_final:
  assumes "find_tx (foldl (msig_step sdk) empty_msig_db calls) i = Some t"
    and "mt_status t \<in> {SUBMITTED, FAILED, EXPIRED}"
  shows "find_tx (foldl (msig_step sdk) empty_msig_db (calls @ later)) i = Some t"
  using assms msig_end.run_terminal [OF msig.run_inv [OF empty_msig_ok]]
  by (simp add: finished_def)

end
