(* ===== verification/Multisig_Envelope.thy ===== *)
theory Multisig_Envelope
  imports Multisig_Inv
begin

text \<open>
  The envelope side of the multisig service: the stored XDR carries every signature of the
  signature table as long as calls do not overlap, and what two overlapping calls of
  \<open>addSignature\<close> do to it. The SDK is required to parse back what it serialised
  (\<open>sdk_roundtrip\<close>); a concrete SDK with that property is defined for the witnesses.
\<close>

section \<open>A concrete SDK\<close>

text \<open>A length-free encoding: every character is preceded by 1, the end is marked by 0.\<close>

fun enc_str :: "string \<Rightarrow> string" where
  "enc_str [] = [CHR ''0'']"
| "enc_str (c # cs) = CHR ''1'' # c # enc_str cs"

fun dec_str :: "string \<Rightarrow> (string \<times> string) option" where
  "dec_str (m # rest) =
     (if m = CHR ''1'' then
        (case rest of [] \<Rightarrow> None
         | c # rest' \<Rightarrow> map_option (\<lambda>(s, r). (c # s, r)) (dec_str rest'))
      else Some ([], rest))"
| "dec_str [] = None"

lemma dec_enc_str [simp]: "dec_str (enc_str s @ r) = Some (s, r)"
  by (induction s) auto

fun enc_sigs :: "decorated list \<Rightarrow> string" where
  "enc_sigs [] = [CHR ''0'']"
| "enc_sigs (d # ds) = CHR ''1'' # enc_str (d_hint d) @ enc_str (d_signature d) @ enc_sigs ds"

fun dec_sigs :: "nat \<Rightarrow> string \<Rightarrow> (decorated list \<times> string) option" where
  "dec_sigs (Suc n) (m # rest) =
     (if m = CHR ''1'' then
        (case dec_str rest of None \<Rightarrow> None
         | Some (h, r) \<Rightarrow>
           (case dec_str r of None \<Rightarrow> None
            | Some (s, r') \<Rightarrow>
              map_option (\<lambda>(ds, q). (\<lparr>d_hint = h, d_signature = s\<rparr> # ds, q)) (dec_sigs n r')))
      else Some ([], rest))"
| "dec_sigs _ _ = None"

lemma dec_enc_sigs: "length ds < n \<Longrightarrow> dec_sigs n (enc_sigs ds @ r) = Some (ds, r)"
proof (induction ds arbitrary: n)
  case Nil
  then show ?case by (cases n) auto
next
  case (Cons d ds)
  then show ?case by (cases n) (auto simp: append.assoc)
qed

lemma length_enc_sigs: "length ds < length (enc_sigs ds)"
  by (induction ds) auto

fun enc_source :: "string option \<Rightarrow> string" where
  "enc_source None = ''0''"
| "enc_source (Some s) = CHR ''1'' # enc_str s"

fun dec_source :: "string \<Rightarrow> (string option \<times> string) option" where
  "dec_source (m # rest) =
     (if m = CHR ''1'' then map_option (\<lambda>(s, r). (Some s, r)) (dec_str rest) else Some (None, rest))"
| "dec_source [] = None"

lemma dec_enc_source [simp]: "dec_source (enc_source s @ r) = Some (s, r)"
  by (cases s) auto

definition enc_tx :: "transaction \<Rightarrow> string" where
  "enc_tx t = enc_str (tr_body t) @ enc_source (tr_source t) @ enc_sigs (tr_signatures t)"

definition dec_tx :: "string \<Rightarrow> (transaction \<times> string) option" where
  "dec_tx s = (case dec_str s of None \<Rightarrow> None
     | Some (b, r) \<Rightarrow> (case dec_source r of None \<Rightarrow> None
       | Some (src, r') \<Rightarrow> (case dec_sigs (length r') r' of None \<Rightarrow> None
         | Some (ds, q) \<Rightarrow> Some (\<lparr>tr_body = b, tr_source = src, tr_signatures = ds\<rparr>, q))))"

lemma dec_enc_tx [simp]: "dec_tx (enc_tx t @ r) = Some (t, r)"
  using length_enc_sigs [of "tr_signatures t"]
  by (cases t) (simp add: dec_tx_def enc_tx_def dec_enc_sigs)

fun demo_toXDR :: "envelope \<Rightarrow> string" where
  "demo_toXDR (PlainTx t) = CHR ''P'' # enc_tx t"
| "demo_toXDR (FeeBumpTx t body sigs) = CHR ''F'' # enc_tx t @ enc_str body @ enc_sigs sigs"

fun demo_fromXDR :: "string \<Rightarrow> string \<Rightarrow> string + envelope" where
  "demo_fromXDR (m # rest) passphrase =
     (case dec_tx rest of None \<Rightarrow> Inl ''malformed''
      | Some (t, r) \<Rightarrow>
        if m = CHR ''P'' then Inr (PlainTx t)
        else (case dec_str r of None \<Rightarrow> Inl ''malformed''
          | Some (b, r') \<Rightarrow> (case dec_sigs (length r') r' of None \<Rightarrow> Inl ''malformed''
            | Some (ds, q) \<Rightarrow> Inr (FeeBumpTx t b ds))))"
| "demo_fromXDR [] passphrase = Inl ''empty''"

definition demo_sdk :: sdk where
  "demo_sdk = \<lparr>sdk_fromXDR = demo_fromXDR, sdk_toXDR = demo_toXDR,
     sdk_hash = (\<lambda>b. b), sdk_rawPublicKey = (\<lambda>k. Some (k @ k @ k @ k))\<rparr>"

definition sdk_roundtrip :: "sdk \<Rightarrow> bool" where
  "sdk_roundtrip sdk \<longleftrightarrow> (\<forall>env. sdk_fromXDR sdk (sdk_toXDR sdk env) TESTNET = Inr env)"

lemma demo_fromto: "demo_fromXDR (demo_toXDR env) p = Inr env"
  using dec_enc_tx [where r = "[]"] dec_enc_sigs [where r = "[]"] length_enc_sigs
  by (cases env) auto

lemma demo_roundtrip: "sdk_roundtrip demo_sdk"
  by (simp add: sdk_roundtrip_def demo_sdk_def demo_fromto)

definition demo_envelope :: "string list \<Rightarrow> envelope" where
  "demo_envelope keys = PlainTx \<lparr>tr_body = ''pay'', tr_source = None,
     tr_signatures = List.map (\<lambda>k. \<lparr>d_hint = k @ k @ k @ k, d_signature = k\<rparr>) keys\<rparr>"

definition demo_params :: "string list \<Rightarrow> int \<Rightarrow> create_params" where
  "demo_params signers k = \<lparr>cp_envelopeXdr = demo_toXDR (demo_envelope []),
     cp_creatorPublicKey = ''C'', cp_requiredSigners = signers, cp_threshold = k,
     cp_memo = None, cp_expiresAt = None, cp_metadata = None\<rparr>"

definition demo_net :: "envelope \<Rightarrow> (string \<times> json) + string" where
  "demo_net env = Inr ''txhash''"

definition demo_calls :: "(msig_env \<times> msig_call) list" where
  "demo_calls =
     [((0, demo_net), CallCreate ''1'' (demo_params [''A'', ''B'', ''D''] 2)),
      ((1, demo_net), CallSign ''1'' ''A'' (demo_toXDR (demo_envelope [''A'']))),
      ((2, demo_net), CallSign ''1'' ''B'' (demo_toXDR (demo_envelope [''B''])))]"

lemma demo_run: "map_option mt_status (find_tx (foldl (msig_step demo_sdk) empty_msig_db demo_calls) ''1'') = Some SUBMITTED"
  by code_simp

section \<open>The stored envelope carries the stored signatures\<close>

definition carries :: "sdk \<Rightarrow> msig_sig list \<Rightarrow> msig_tx \<Rightarrow> bool" where
  "carries sdk sigs t \<longleftrightarrow> (\<exists>env. sdk_fromXDR sdk (mt_envelopeXdr t) TESTNET = Inr env
     \<and> envelope_hash sdk env = mt_hash t
     \<and> (\<forall>s \<in> set sigs. \<exists>d \<in> set (envelope_signatures env). base64 (d_signature d) = sg_signature s))"

definition env_ok :: "sdk \<Rightarrow> msig_db \<Rightarrow> bool" where
  "env_ok sdk db \<longleftrightarrow> (\<forall>i t. find_tx db i = Some t \<longrightarrow> carries sdk (tx_signatures db i) t)"

text \<open>What \<open>env_ok\<close> looks at of the tables; most calls leave it alone.\<close>

definition env_view :: "msig_db \<Rightarrow> msig_sig list \<times> (string \<Rightarrow> (string \<times> string) option)" where
  "env_view db = (db_sigs db, \<lambda>i. map_option (\<lambda>t. (mt_envelopeXdr t, mt_hash t)) (find_tx db i))"

lemma carries_cong:
  "mt_envelopeXdr t' = mt_envelopeXdr t \<Longrightarrow> mt_hash t' = mt_hash t \<Longrightarrow> carries sdk sigs t' = carries sdk sigs t"
  by (simp add: carries_def)

lemma env_ok_view:
  assumes "env_ok sdk db" and "env_view db' = env_view db"
  shows "env_ok sdk db'"
proof -
  have sigs: "tx_signatures db' i = tx_signatures db i" for i
    using assms(2) by (simp add: env_view_def tx_signatures_def)
  show ?thesis unfolding env_ok_def sigs
  proof (intro allI impI)
    fix i t' assume t': "find_tx db' i = Some t'"
    have "map_option (\<lambda>t. (mt_envelopeXdr t, mt_hash t)) (find_tx db' i)
        = map_option (\<lambda>t. (mt_envelopeXdr t, mt_hash t)) (find_tx db i)"
      using assms(2) unfolding env_view_def by (auto dest: fun_cong)
    then obtain t where "find_tx db i = Some t" "mt_envelopeXdr t' = mt_envelopeXdr t" "mt_hash t' = mt_hash t"
      using t' by (cases "find_tx db i") auto
    with assms(1) show "carries sdk (tx_signatures db i) t'"
      using carries_cong [of t' t] by (simp add: env_ok_def)
  qed
qed

lemma view_put:
  assumes "find_tx db i = Some t" and "mt_envelopeXdr t' = mt_envelopeXdr t" and "mt_hash t' = mt_hash t"
  shows "env_view (put_tx i t' db) = env_view db"
  using assms by (auto simp: env_view_def msig_simps)

lemma view_notif [simp]: "env_view (add_notifications ns db) = env_view db"
  by (simp add: env_view_def msig_simps)

lemma view_notifs [simp]:
  "env_view (notifySubmitted n i h ss db) = env_view db"
  "env_view (notifyFailed n i h ss db) = env_view db"
  "env_view (notifyThresholdReached n i ss db) = env_view db"
  "env_view (notifySignatureAdded n i s ss db) = env_view db"
  "env_view (notifyRequiredSigners n i ss db) = env_view db"
  by (simp_all add: notify_defs)

lemma view_attempt: "env_view (snd (attemptSubmission sdk net now i db)) = env_view db"
  by (simp add: attemptSubmission_def Let_def view_put split: option.split sum.split)

lemma view_expire: "env_view (markAsExpired now i db) = env_view db"
  by (simp add: markAsExpired_def view_put split: option.split)

lemma reconcile_db:
  "snd (reconcileTransaction sdk net now i db) =
     (case find_tx db i of None \<Rightarrow> db
      | Some t \<Rightarrow>
        (let n = countValidSignatures (List.map sg_signerPublicKey (tx_signatures db i)) (mt_requiredSigners t);
             st = evaluateStatus n (mt_threshold t);
             db1 = put_tx i (t\<lparr>mt_status := st, mt_currentSignatures := n, mt_updatedAt := now\<rparr>) db
         in if mt_status t \<notin> set COLLECTING_STATUSES then db
            else if has_expired now t then markAsExpired now i db
            else if st = mt_status t \<and> n = mt_currentSignatures t then db
            else if st = READY \<and> mt_status t \<noteq> READY
            then snd (attemptSubmission sdk net now i (notifyThresholdReached now i (mt_requiredSigners t) db1))
            else db1))"
proof (cases "find_tx db i")
  case None
  then show ?thesis by (simp add: reconcileTransaction_def)
next
  case (Some t)
  let ?n = "countValidSignatures (List.map sg_signerPublicKey (tx_signatures db i)) (mt_requiredSigners t)"
  let ?t' = "t\<lparr>mt_status := evaluateStatus ?n (mt_threshold t), mt_currentSignatures := ?n, mt_updatedAt := now\<rparr>"
  obtain r db3 where p: "attemptSubmission sdk net now i
      (notifyThresholdReached now i (mt_requiredSigners t) (put_tx i ?t' db)) = (r, db3)" by fastforce
  show ?thesis
    unfolding reconcileTransaction_def Let_def Some option.case p
    by (cases r; cases "find_tx db3 i") (simp_all only: if_distrib [of snd] snd_conv prod.case sum.case option.case)
qed

lemma view_reconcile: "env_view (snd (reconcileTransaction sdk net now i db)) = env_view db"
  by (simp add: reconcile_db Let_def view_attempt view_expire view_put split: option.split)

lemma updateThreshold_db:
  "snd (updateThreshold sdk net now i k db) =
     (case find_tx db i of None \<Rightarrow> db
      | Some t \<Rightarrow> if mt_status t \<notin> set COLLECTING_STATUSES then db
          else (case k of None \<Rightarrow> db
            | Some n \<Rightarrow> if n < 1 \<or> n > int (length (mt_requiredSigners t)) then db
                else snd (reconcileTransaction sdk net now i
                       (put_tx i (t\<lparr>mt_threshold := n, mt_updatedAt := now\<rparr>) db))))"
  by (simp add: updateThreshold_def split: option.split prod.split sum.split)

lemma view_threshold: "env_view (snd (updateThreshold sdk net now i k db)) = env_view db"
  by (simp add: updateThreshold_db view_reconcile view_put split: option.split)

lemma view_reconcile_all: "env_view (snd (reconcile_all sdk net now ids u f db)) = env_view db"
proof (induction ids arbitrary: u f db)
  case Nil
  then show ?case by simp
next
  case (Cons i ids)
  from view_reconcile [of sdk net now i db] Cons show ?case
    by (auto split: prod.split sum.split)
qed

lemma view_submit: "env_view (snd (submitTransaction sdk net now i db)) = env_view db"
  by (simp add: submitTransaction_def view_attempt split: option.split)

text \<open>Merging keeps every signature of both envelopes and the hash.\<close>

lemma push_missing_base: "set base \<subseteq> set (push_missing base ds)"
  by (induction base ds rule: push_missing.induct) auto

lemma push_missing_new: "d \<in> set ds \<Longrightarrow> \<exists>b \<in> set (push_missing base ds). d_signature b = d_signature d"
proof (induction base ds rule: push_missing.induct)
  case (1 base)
  then show ?case by simp
next
  case (2 base e ds)
  show ?case
  proof (cases "d = e")
    case False
    with 2 show ?thesis by auto
  next
    case True
    then show ?thesis
      using push_missing_base [of base ds] push_missing_base [of "base @ [e]" ds] by auto
  qed
qed

lemma push_missing_only: "b \<in> set (push_missing base ds) \<Longrightarrow> b \<in> set base \<union> set ds"
  by (induction base ds rule: push_missing.induct) (auto split: if_splits)

lemma hash_set_signatures [simp]: "envelope_hash sdk (set_signatures ds env) = envelope_hash sdk env"
  by (cases env) auto

lemma signatures_set [simp]: "envelope_signatures (set_signatures ds env) = ds"
  by (cases env) auto

lemma extractSignature_mem:
  "extractSignature sdk ds signer = Some s \<Longrightarrow> \<exists>d \<in> set ds. base64 (d_signature d) = s"
  by (induction sdk ds signer rule: extractSignature.induct) (auto split: option.splits if_splits)

lemma mergeSignatures_Inr:
  assumes "mergeSignatures sdk base new = Inr x"
  obtains be ne where "sdk_fromXDR sdk base TESTNET = Inr be" "sdk_fromXDR sdk new TESTNET = Inr ne"
    "x = sdk_toXDR sdk (set_signatures (push_missing (envelope_signatures be) (envelope_signatures ne)) be)"
  using assms by (auto simp: mergeSignatures_def split: sum.splits)

lemma merged_carries:
  assumes rt: "sdk_roundtrip sdk" and c: "carries sdk sigs t"
    and new: "sdk_fromXDR sdk xdr TESTNET = Inr env" "extractSignature sdk (envelope_signatures env) signer = Some sg"
    and m: "mergeSignatures sdk (mt_envelopeXdr t) xdr = Inr (mt_envelopeXdr u)" and h: "mt_hash u = mt_hash t"
    and r: "sg_signature r = sg"
  shows "carries sdk (sigs @ [r]) u"
proof -
  from c obtain b where b: "sdk_fromXDR sdk (mt_envelopeXdr t) TESTNET = Inr b"
      "envelope_hash sdk b = mt_hash t"
      "\<And>s. s \<in> set sigs \<Longrightarrow> \<exists>d \<in> set (envelope_signatures b). base64 (d_signature d) = sg_signature s"
    by (auto simp: carries_def)
  let ?all = "push_missing (envelope_signatures b) (envelope_signatures env)"
  have "sdk_fromXDR sdk (mt_envelopeXdr u) TESTNET = Inr (set_signatures ?all b)"
  proof -
    from m b(1) new(1) have "mt_envelopeXdr u = sdk_toXDR sdk (set_signatures ?all b)"
      by (simp add: mergeSignatures_def)
    with rt show ?thesis by (simp add: sdk_roundtrip_def)
  qed
  moreover have "\<exists>d \<in> set ?all. base64 (d_signature d) = sg_signature r"
  proof -
    from extractSignature_mem [OF new(2)] obtain e where
      e: "e \<in> set (envelope_signatures env)" "base64 (d_signature e) = sg" by blast
    from push_missing_new [OF e(1)] obtain q where
      q: "q \<in> set ?all" "d_signature q = d_signature e" by blast
    show ?thesis by (rule bexI [OF _ q(1)]) (simp only: q(2) e(2) r)
  qed
  moreover have "\<exists>d \<in> set ?all. base64 (d_signature d) = sg_signature s" if "s \<in> set sigs" for s
    using b(3) [OF that] push_missing_base by blast
  ultimately show ?thesis
    unfolding carries_def using b(2) h
    by (intro exI [of _ "set_signatures ?all b"]) simp
qed

lemma env_ok_sign:
  assumes ok: "msig_ok db" and env: "env_ok sdk db" and rt: "sdk_roundtrip sdk"
  shows "env_ok sdk (snd (addSignature sdk net now i signer xdr db))"
proof (cases "addSignature_check sdk now i signer xdr db")
  case (Pair r db1)
  show ?thesis
  proof (cases r)
    case (Inl e)
    have "env_view (snd (addSignature_check sdk now i signer xdr db)) = env_view db"
      by (simp add: addSignature_check_def view_expire split: option.split sum.split)
    with Pair Inl env env_ok_view show ?thesis by (simp add: addSignature_def)
  next
    case (Inr p)
    then obtain t sg where chk: "addSignature_check sdk now i signer xdr db = (Inr (t, sg), db1)"
      using Pair by (cases p) auto
    from addSignature_check_Inr [OF chk] obtain e where t: "db1 = db" "find_tx db i = Some t"
      and new: "signer \<notin> set (signers_of db i)"
      and e: "sdk_fromXDR sdk xdr TESTNET = Inr e" "extractSignature sdk (envelope_signatures e) signer = Some sg"
      by blast
    let ?row = "\<lparr>sg_multisigTransactionId = i, sg_signerPublicKey = signer, sg_signature = sg, sg_createdAt = now\<rparr>"
    let ?db2 = "db\<lparr>db_sigs := db_sigs db @ [?row]\<rparr>"
    have cr: "addSignature_create now i signer sg db1 = (Inr (), ?db2)"
      using new t(1) by (auto simp: addSignature_create_def signers_of_def tx_signatures_def)
    have find2: "find_tx ?db2 j = find_tx db j" for j by (simp add: find_tx_def)
    have sig2: "tx_signatures ?db2 j = tx_signatures db j @ (if j = i then [?row] else [])" for j
      by (simp add: tx_signatures_def)
    have base: "carries sdk (tx_signatures db i) t" using env t by (simp add: env_ok_def)
    then obtain x where m: "mergeSignatures sdk (mt_envelopeXdr t) xdr = Inr x"
      using e(1) by (auto simp: carries_def mergeSignatures_def)
    then obtain u where up: "addSignature_update sdk now i signer xdr t ?db2 = (Inr u, put_tx i u ?db2)"
      and u: "mt_envelopeXdr u = x" "mt_hash u = mt_hash t"
      using t by (simp add: addSignature_update_def find2 Let_def)
    have "carries sdk (tx_signatures ?db2 i) u"
      using merged_carries [OF rt base e _ u(2), of ?row] m u(1) by (simp add: sig2)
    moreover have "carries sdk (tx_signatures ?db2 j) v" if "find_tx db j = Some v" "j \<noteq> i" for j v
      using env that by (simp add: env_ok_def sig2)
    ultimately have "env_ok sdk (put_tx i u ?db2)"
      unfolding env_ok_def by (auto simp: msig_simps find2 tx_signatures_def sigs_put)
    moreover have "env_view (snd (addSignature_finish sdk net now i signer t u d)) = env_view d" for d
      by (simp add: addSignature_finish_db view_attempt)
    ultimately show ?thesis
      using chk cr up env_ok_view by (simp add: addSignature_def)
  qed
qed

lemma env_ok_create:
  assumes "msig_ok db" and "env_ok sdk db"
  shows "env_ok sdk (snd (createTransaction sdk now i p db))"
proof (cases "fst (createTransaction sdk now i p db)")
  case (Inl e)
  then have "snd (createTransaction sdk now i p db) = db"
    by (auto simp: createTransaction_def Let_def split: sum.splits if_splits)
  with assms show ?thesis by simp
next
  case (Inr d)
  then obtain t env where new: "find_tx db i = None"
    and t: "snd (createTransaction sdk now i p db)
        = notifyRequiredSigners now i (cp_requiredSigners p) (put_tx i t db)"
    and e: "sdk_fromXDR sdk (mt_envelopeXdr t) TESTNET = Inr env" "mt_hash t = envelope_hash sdk env"
    by (auto simp: createTransaction_def Let_def split: sum.splits if_splits)
  have none: "tx_signatures db i = []"
    using assms(1) new by (force simp: tx_signatures_def msig_ok_def rows_ok_except_def tables_ok_def
        filter_empty_conv)
  have "tx_signatures (put_tx i t db) j = tx_signatures db j" for j
    by (simp add: tx_signatures_def sigs_put)
  with assms(2) e none have "env_ok sdk (put_tx i t db)"
    by (simp add: env_ok_def msig_simps carries_def)
  with t env_ok_view show ?thesis by simp
qed

lemma msig_step_env:
  assumes "msig_ok db \<and> env_ok sdk db" and "sdk_roundtrip sdk"
  shows "msig_ok (msig_step sdk db c) \<and> env_ok sdk (msig_step sdk db c)"
proof
  show "msig_ok (msig_step sdk db c)" using assms(1) by (simp add: msig_step_ok)
  note same = env_ok_view [of sdk db]
  show "env_ok sdk (msig_step sdk db c)"
    using assms
  proof (induction sdk db c rule: msig_step.induct)
    case (7 sdk db now net ids)
    then show ?case
      by (simp add: env_ok_def markNotificationsAsRead_def find_tx_def tx_signatures_def)
  qed (simp_all add: env_ok_create env_ok_sign env_ok_view [OF _ view_threshold]
      env_ok_view [OF _ view_reconcile] env_ok_view [OF _ view_reconcile_all] env_ok_view [OF _ view_submit]
      reconcilePendingTransactions_def Let_def case_prod_beta)
qed

lemma addSignature_create_signer:
  assumes "addSignature_create now i signer sg db = (Inr (), db')"
  shows "signer \<in> set (signers_of db' i) \<and> set (signers_of db j) \<subseteq> set (signers_of db' j)"
  using assms by (auto simp: addSignature_create_def signers_of_def tx_signatures_def image_iff split: if_splits)

interpretation msig_envelopes: call_machine "msig_step sdk" "\<lambda>db. msig_ok db \<and> env_ok sdk db \<and> sdk_roundtrip sdk" for sdk
  using msig_step_env by unfold_locales blast

lemma empty_env_ok: "env_ok sdk empty_msig_db"
  by (simp add: env_ok_def empty_msig_db_def find_tx_def)

section \<open>Properties\<close>

text \<open>C3. When calls do not overlap, the envelope stored for a transaction parses back to the
  transaction that was created and carries the signature of every row of the signature
  table; so what is submitted holds every signature that was counted.\<close>

theorem multisig_envelope_complete:
  assumes "sdk_roundtrip sdk"
    and "find_tx (foldl (msig_step sdk) empty_msig_db calls) i = Some t"
  shows "\<exists>env. sdk_fromXDR sdk (mt_envelopeXdr t) TESTNET = Inr env
    \<and> envelope_hash sdk env = mt_hash t
    \<and> (\<forall>s \<in> set (db_sigs (foldl (msig_step sdk) empty_msig_db calls)).
         sg_multisigTransactionId s = i \<longrightarrow>
         (\<exists>d \<in> set (envelope_signatures env). base64 (d_signature d) = sg_signature s))"
proof -
  let ?db = "foldl (msig_step sdk) empty_msig_db calls"
  have "env_ok sdk ?db"
    using msig_envelopes.run_inv [of empty_msig_db sdk calls] empty_msig_ok empty_env_ok assms(1) by simp
  with assms(2) have "carries sdk (tx_signatures ?db i) t" by (simp add: env_ok_def)
  then show ?thesis by (auto simp: carries_def tx_signatures_def)
qed

theorem multisig_envelope_complete_witness:
  "sdk_roundtrip demo_sdk \<and> (\<exists>t env. find_tx (foldl (msig_step demo_sdk) empty_msig_db demo_calls) ''1'' = Some t
     \<and> mt_status t = SUBMITTED \<and> sdk_fromXDR demo_sdk (mt_envelopeXdr t) TESTNET = Inr env
     \<and> envelope_hash demo_sdk env = mt_hash t)"
proof -
  obtain t where t: "find_tx (foldl (msig_step demo_sdk) empty_msig_db demo_calls) ''1'' = Some t"
    and "mt_status t = SUBMITTED"
    using demo_run by auto
  with demo_roundtrip multisig_envelope_complete [OF demo_roundtrip t] show ?thesis by blast
qed

text \<open>Two overlapping calls of \<open>addSignature\<close>: both read the row before either writes it.
  Then the second update merges into the envelope the second call read at its start, so
  the first signer's signature is no longer in the stored envelope, although its row and
  the counter (and with it the status) include it.\<close>

theorem multisig_overlap_loses_signature:
  assumes "sdk_roundtrip sdk"
    and "addSignature_check sdk now i a xa db = (Inr (t, sa), db)"
    and "addSignature_check sdk now i b xb db = (Inr (t, sb), db)"
    and "addSignature_create now i a sa db = (Inr (), db1)"
    and "addSignature_update sdk now i a xa t db1 = (Inr ua, db2)"
    and "addSignature_create now i b sb db2 = (Inr (), db3)"
    and "addSignature_update sdk now i b xb t db3 = (Inr ub, db4)"
    and "sdk_fromXDR sdk (mt_envelopeXdr t) TESTNET = Inr e0"
    and "sdk_fromXDR sdk xb TESTNET = Inr eb"
    and "\<forall>d \<in> set (envelope_signatures e0 @ envelope_signatures eb). base64 (d_signature d) \<noteq> sa"
  shows "find_tx db4 i = Some ub \<and> {a, b} \<subseteq> set (signers_of db4 i)
    \<and> mt_currentSignatures ub = countValidSignatures (signers_of db4 i) (mt_requiredSigners ub)
    \<and> mt_status ub = evaluateStatus (mt_currentSignatures ub) (mt_threshold ub)
    \<and> (\<exists>env. sdk_fromXDR sdk (mt_envelopeXdr ub) TESTNET = Inr env
         \<and> (\<forall>d \<in> set (envelope_signatures env). base64 (d_signature d) \<noteq> sa))"
proof -
  obtain f1 where u1: "db2 = put_tx i ua db1"
    using addSignature_update_Inr [OF assms(5)] by blast
  obtain f where f: "find_tx db3 i = Some f" and u2: "db4 = put_tx i ub db3"
    and n: "mt_requiredSigners ub = mt_requiredSigners f" "mt_threshold ub = mt_threshold f"
      "mt_currentSignatures ub = countValidSignatures (signers_of db3 i @ [b]) (mt_requiredSigners f)"
      "mt_status ub = evaluateStatus (mt_currentSignatures ub) (mt_threshold f)"
    and m: "mergeSignatures sdk (mt_envelopeXdr t) xb = Inr (mt_envelopeXdr ub)"
    using addSignature_update_Inr [OF assms(7)] by blast
  have "a \<in> set (signers_of db1 i)" using addSignature_create_signer [OF assms(4)] by blast
  then have ab: "{a, b} \<subseteq> set (signers_of db3 i)"
    using addSignature_create_signer [OF assms(6)] u1 by (auto simp: signers_put)
  then have cnt: "mt_currentSignatures ub = countValidSignatures (signers_of db3 i) (mt_requiredSigners ub)"
    using n by (simp add: count_card insert_absorb)
  let ?all = "push_missing (envelope_signatures e0) (envelope_signatures eb)"
  have "sdk_fromXDR sdk (mt_envelopeXdr ub) TESTNET = Inr (set_signatures ?all e0)"
    using m assms(1,8,9) by (auto simp: mergeSignatures_def sdk_roundtrip_def dest: sym)
  moreover have "\<forall>d \<in> set ?all. base64 (d_signature d) \<noteq> sa"
    using assms(10) push_missing_only by fastforce
  ultimately show ?thesis
    using u2 ab cnt n by (auto simp: msig_simps)
qed

text \<open>The witness: two of two signers sign at once; the row ends \<open>READY\<close>, counting two
  signatures, over an envelope that holds only the second one.\<close>

definition demo_db :: msig_db where
  "demo_db = snd (createTransaction demo_sdk 0 ''1'' (demo_params [''A'', ''B''] 2) empty_msig_db)"

definition demo_row :: msig_tx where
  "demo_row = (case find_tx demo_db ''1'' of Some t \<Rightarrow> t)"

definition demo_db1 :: msig_db where
  "demo_db1 = snd (addSignature_create 1 ''1'' ''A'' (base64 ''A'') demo_db)"

definition demo_db2 :: msig_db where
  "demo_db2 = snd (addSignature_update demo_sdk 1 ''1'' ''A'' (demo_toXDR (demo_envelope [''A''])) demo_row demo_db1)"

definition demo_db3 :: msig_db where
  "demo_db3 = snd (addSignature_create 1 ''1'' ''B'' (base64 ''B'') demo_db2)"

definition demo_db4 :: msig_db where
  "demo_db4 = snd (addSignature_update demo_sdk 1 ''1'' ''B'' (demo_toXDR (demo_envelope [''B''])) demo_row demo_db3)"

definition demo_ub :: msig_tx where
  "demo_ub = (case find_tx demo_db4 ''1'' of Some t \<Rightarrow> t)"

definition demo_ua :: msig_tx where
  "demo_ua = (case find_tx demo_db2 ''1'' of Some t \<Rightarrow> t)"

lemma demo_checks:
  "addSignature_check demo_sdk 1 ''1'' ''A'' (demo_toXDR (demo_envelope [''A''])) demo_db
     = (Inr (demo_row, base64 ''A''), demo_db)"
  "addSignature_check demo_sdk 1 ''1'' ''B'' (demo_toXDR (demo_envelope [''B''])) demo_db
     = (Inr (demo_row, base64 ''B''), demo_db)"
  by code_simp+

lemma demo_steps:
  "addSignature_create 1 ''1'' ''A'' (base64 ''A'') demo_db = (Inr (), demo_db1)"
  "addSignature_update demo_sdk 1 ''1'' ''A'' (demo_toXDR (demo_envelope [''A''])) demo_row demo_db1
     = (Inr demo_ua, demo_db2)"
  "addSignature_create 1 ''1'' ''B'' (base64 ''B'') demo_db2 = (Inr (), demo_db3)"
  "addSignature_update demo_sdk 1 ''1'' ''B'' (demo_toXDR (demo_envelope [''B''])) demo_row demo_db3
     = (Inr demo_ub, demo_db4)"
  by code_simp+

lemma demo_parses:
  "sdk_fromXDR demo_sdk (mt_envelopeXdr demo_row) TESTNET = Inr (demo_envelope [])"
  "sdk_fromXDR demo_sdk (demo_toXDR (demo_envelope [''B''])) TESTNET = Inr (demo_envelope [''B''])"
  "\<forall>d \<in> set (envelope_signatures (demo_envelope []) @ envelope_signatures (demo_envelope [''B''])).
     base64 (d_signature d) \<noteq> base64 ''A''"
  by code_simp+

theorem multisig_overlap_loses_signature_witness:
  "mt_status demo_ub = READY \<and> mt_currentSignatures demo_ub = 2
    \<and> find_tx demo_db4 ''1'' = Some demo_ub
    \<and> (\<exists>env. sdk_fromXDR demo_sdk (mt_envelopeXdr demo_ub) TESTNET = Inr env
         \<and> (\<forall>d \<in> set (envelope_signatures env). base64 (d_signature d) \<noteq> base64 ''A''))"
proof -
  have "mt_status demo_ub = READY \<and> mt_currentSignatures demo_ub = 2" by code_simp
  with multisig_overlap_loses_signature [OF demo_roundtrip demo_checks demo_steps demo_parses]
  show ?thesis by blast
qed

text \<open>Witnesses of C1 and C2: a transaction with two of three signers, signed by both.\<close>

theorem multisig_submitted_has_threshold_witness:
  "\<exists>t. find_tx (foldl (msig_step demo_sdk) empty_msig_db demo_calls) ''1'' = Some t \<and> mt_status t = SUBMITTED
    \<and> mt_threshold t \<le> int (card (set (mt_requiredSigners t) \<inter>
    {sg_signerPublicKey s | s. s \<in> set (db_sigs (foldl (msig_step demo_sdk) empty_msig_db demo_calls))
       \<and> sg_multisigTransactionId s = ''1''}))"
  using demo_run multisig_submitted_has_threshold [of demo_sdk demo_calls "''1''"] by fastforce

theorem multisig_finished_is_final_witness:
  "map_option mt_status (find_tx (foldl (msig_step demo_sdk) empty_msig_db
     (demo_calls @ [((9, demo_net), CallThreshold ''1'' (Some 3))])) ''1'') = Some SUBMITTED"
proof -
  obtain t where t: "find_tx (foldl (msig_step demo_sdk) empty_msig_db demo_calls) ''1'' = Some t"
    "mt_status t = SUBMITTED"
    using demo_run by auto
  with multisig_finished_is_final [OF t(1), of "[((9, demo_net), CallThreshold ''1'' (Some 3))]"]
  show ?thesis by simp
qed

end
