(* ===== verification/Multisig_Payload.thy ===== *)
theory Multisig_Payload
  imports Multisig_Envelope
begin

text \<open>
  \<open>parseTransactionPayload\<close>: how the collected weight is made up, and what is and is not
  checked before a signature is accepted.
\<close>

definition hint_of :: "sdk \<Rightarrow> string \<Rightarrow> string option" where
  "hint_of sdk key = map_option (\<lambda>raw. hex (slice_last 4 raw)) (sdk_rawPublicKey sdk key)"

definition hint_map_ok :: "sdk \<Rightarrow> signer_weight set \<Rightarrow> (string, signer_weight) jsmap \<Rightarrow> bool" where
  "hint_map_ok sdk S m \<longleftrightarrow> (\<forall>h s. js_get m h = Some s \<longrightarrow> s \<in> S \<and> hint_of sdk (sw_publicKey s) = Some h)"

lemma signerByHint_ok:
  "hint_map_ok sdk S m \<Longrightarrow> set ss \<subseteq> S \<Longrightarrow> hint_map_ok sdk S (signerByHint sdk m ss)"
proof (induction ss arbitrary: m)
  case Nil
  then show ?case by simp
next
  case (Cons s ss)
  show ?case
  proof (cases "sdk_rawPublicKey sdk (sw_publicKey s)")
    case None
    with Cons show ?thesis by simp
  next
    case (Some raw)
    with Cons.prems have "hint_map_ok sdk S (js_set (hex (slice_last 4 raw)) s m)"
      by (auto simp: hint_map_ok_def hint_of_def split: if_splits)
    with Cons Some show ?thesis by simp
  qed
qed

text \<open>The weight of a set of keys, each account signer counted once.\<close>

definition weight_of_keys :: "signer_weight set \<Rightarrow> string set \<Rightarrow> int" where
  "weight_of_keys S K = (\<Sum>s \<in> {s \<in> S. sw_publicKey s \<in> K}. sw_weight s)"

lemma weight_of_keys_insert:
  assumes "finite S" and "inj_on sw_publicKey S" and "s \<in> S" and "sw_publicKey s \<notin> K"
  shows "weight_of_keys S (insert (sw_publicKey s) K) = weight_of_keys S K + sw_weight s"
proof -
  have "{x \<in> S. sw_publicKey x \<in> insert (sw_publicKey s) K} = insert s {x \<in> S. sw_publicKey x \<in> K}"
    using assms(2,3) by (auto simp: inj_on_def)
  with assms(1,4) show ?thesis by (simp add: weight_of_keys_def)
qed

lemma collectWeights_ok:
  assumes "hint_map_ok sdk S m" and "finite S" and "inj_on sw_publicKey S"
  shows "distinct keys \<Longrightarrow> w = weight_of_keys S (set keys)
    \<Longrightarrow> (\<forall>k \<in> set keys. \<exists>d \<in> set before. hint_of sdk k = Some (hex (d_hint d)))
    \<Longrightarrow> collectWeights m ds present keys w = (present', keys', w')
    \<Longrightarrow> distinct keys' \<and> w' = weight_of_keys S (set keys')
      \<and> (\<forall>k \<in> set keys'. \<exists>d \<in> set (before @ ds). hint_of sdk k = Some (hex (d_hint d)))"
proof (induction ds arbitrary: present keys w before)
  case Nil
  then show ?case by auto
next
  case (Cons d ds)
  show ?case
  proof (cases "js_get m (hex (d_hint d))")
    case None
    with Cons.prems Cons.IH [of keys w "before @ [d]"] show ?thesis by auto
  next
    case (Some s)
    then have s: "s \<in> S" "hint_of sdk (sw_publicKey s) = Some (hex (d_hint d))"
      using assms(1) by (auto simp: hint_map_ok_def)
    show ?thesis
    proof (cases "sw_publicKey s \<in> set keys")
      case True
      with Some Cons.prems Cons.IH [of keys w "before @ [d]"] show ?thesis by auto
    next
      case False
      have "w + sw_weight s = weight_of_keys S (set (keys @ [sw_publicKey s]))"
        using weight_of_keys_insert [OF assms(2,3) s(1) False] Cons.prems(2) by simp
      moreover have "\<forall>k \<in> set (keys @ [sw_publicKey s]). \<exists>e \<in> set (before @ [d]). hint_of sdk k = Some (hex (d_hint e))"
        using Cons.prems(3) s(2) by auto
      ultimately show ?thesis
        using Some False Cons.prems(1,4)
          Cons.IH [of "keys @ [sw_publicKey s]" "w + sw_weight s" "before @ [d]"]
        by (simp add: Let_def)
    qed
  qed
qed

text \<open>A parsed payload counts the weight of each account signer at most once, however many
  signatures carry its hint: the collected weight is the total weight of the signed keys,
  each signed key has a signature with its hint in the envelope, the threshold is met
  exactly when nothing is missing, and with non-negative weights what the signers listed
  as missing hold is the rest of the account's weight.\<close>

theorem parse_payload_counts_each_signer_once:
  assumes "parseTransactionPayload sdk xdr signers thr net = Inr p"
    and "distinct (List.map sw_publicKey signers)"
    and "\<forall>s \<in> set signers. 0 \<le> sw_weight s"
  shows "distinct (pp_signedKeys p)
    \<and> pp_collectedWeight p = weight_of_keys (set signers) (set (pp_signedKeys p))
    \<and> (\<exists>env. sdk_fromXDR sdk xdr net = Inr env \<and> (\<forall>k \<in> set (pp_signedKeys p).
          \<exists>d \<in> set (tr_signatures (inner_transaction env)). hint_of sdk k = Some (hex (d_hint d))))
    \<and> (pp_thresholdMet p \<longleftrightarrow> pp_missingWeight p = 0)
    \<and> pp_collectedWeight p + (\<Sum>s \<leftarrow> pp_missingSigners p. sw_weight s) = (\<Sum>s \<leftarrow> signers. sw_weight s)"
proof -
  from assms(1) obtain t env where thr: "thr = Some t" and env: "sdk_fromXDR sdk xdr net = Inr env"
    by (auto simp: parseTransactionPayload_def split: if_splits option.splits sum.splits)
  obtain present keys w where c: "collectWeights (signerByHint sdk [] signers)
      (tr_signatures (inner_transaction env)) [] [] 0 = (present, keys, w)"
    by (metis prod_cases3)
  have p: "pp_signedKeys p = keys" "pp_collectedWeight p = w" "pp_thresholdMet p = (t \<le> w)"
    "pp_missingWeight p = max 0 (t - w)"
    "pp_missingSigners p = filter (\<lambda>s. 0 < sw_weight s \<and> sw_publicKey s \<notin> set keys) signers"
    using assms(1) thr env c by (auto simp: parseTransactionPayload_def Let_def split: if_splits)
  have inj: "inj_on sw_publicKey (set signers)" using assms(2) by (simp add: distinct_map)
  have "hint_map_ok sdk (set signers) (signerByHint sdk [] signers)"
    by (rule signerByHint_ok) (auto simp: hint_map_ok_def)
  from collectWeights_ok [OF this finite_set inj _ _ _ c, of "[]"]
  have ok: "distinct keys" "w = weight_of_keys (set signers) (set keys)"
    "\<forall>k \<in> set keys. \<exists>d \<in> set (tr_signatures (inner_transaction env)). hint_of sdk k = Some (hex (d_hint d))"
    by (simp_all add: weight_of_keys_def)
  have d: "distinct signers" using assms(2) by (simp add: distinct_map)
  have "(\<Sum>s \<leftarrow> pp_missingSigners p. sw_weight s) = (\<Sum>s \<in> {s \<in> set signers. sw_publicKey s \<notin> set keys}. sw_weight s)"
    using d assms(3) by (auto simp: p sum_list_distinct_conv_sum_set intro!: sum.mono_neutral_left)
  moreover have "(\<Sum>s \<leftarrow> signers. sw_weight s) = (\<Sum>s \<in> set signers. sw_weight s)"
    using d by (simp add: sum_list_distinct_conv_sum_set)
  moreover have "(\<Sum>s \<in> set signers. sw_weight s) = weight_of_keys (set signers) (set keys)
      + (\<Sum>s \<in> {s \<in> set signers. sw_publicKey s \<notin> set keys}. sw_weight s)"
    unfolding weight_of_keys_def
    by (subst sum.union_disjoint [symmetric]) (auto intro!: sum.cong)
  ultimately show ?thesis using p ok env by auto
qed

theorem parse_payload_counts_each_signer_once_witness:
  "\<exists>p. parseTransactionPayload demo_sdk (demo_toXDR (demo_envelope [''A'', ''A'', ''Z'']))
        [\<lparr>sw_publicKey = ''A'', sw_weight = 3\<rparr>, \<lparr>sw_publicKey = ''B'', sw_weight = 4\<rparr>] (Some 5) TESTNET = Inr p
      \<and> pp_collectedWeight p = 3 \<and> distinct (pp_signedKeys p)
      \<and> pp_collectedWeight p + (\<Sum>s \<leftarrow> pp_missingSigners p. sw_weight s) = 7"
proof -
  let ?ss = "[\<lparr>sw_publicKey = ''A'', sw_weight = 3\<rparr>, \<lparr>sw_publicKey = ''B'', sw_weight = 4\<rparr>]"
  let ?x = "demo_toXDR (demo_envelope [''A'', ''A'', ''Z''])"
  have "map_sum (\<lambda>_. ()) pp_collectedWeight (parseTransactionPayload demo_sdk ?x ?ss (Some 5) TESTNET) = Inr 3"
    by code_simp
  then obtain p where p: "parseTransactionPayload demo_sdk ?x ?ss (Some 5) TESTNET = Inr p"
    "pp_collectedWeight p = 3"
    by (cases "parseTransactionPayload demo_sdk ?x ?ss (Some 5) TESTNET") auto
  from parse_payload_counts_each_signer_once [OF p(1)] have
    "distinct (pp_signedKeys p) \<and> pp_collectedWeight p + (\<Sum>s \<leftarrow> pp_missingSigners p. sw_weight s) = 7"
    by simp
  with p show ?thesis by blast
qed

text \<open>No cryptographic check stands behind a stored signature: any bytes are accepted for a
  required signer who has not signed yet, provided they sit in an envelope of the same
  transaction under the last four bytes of the signer's public key.\<close>

theorem addSignature_accepts_unverified_bytes:
  assumes "find_tx db i = Some t" and "mt_status t \<in> {PENDING, PARTIALLY_SIGNED}"
    and "\<not> has_expired now t" and "signer \<in> set (mt_requiredSigners t)"
    and "signer \<notin> set (signers_of db i)"
    and "sdk_rawPublicKey sdk signer = Some raw" and "bytes \<noteq> []"
    and "sdk_fromXDR sdk xdr TESTNET = Inr (PlainTx \<lparr>tr_body = body, tr_source = src,
           tr_signatures = [\<lparr>d_hint = slice_last 4 raw, d_signature = bytes\<rparr>]\<rparr>)"
    and "hex (sdk_hash sdk body) = mt_hash t"
  shows "addSignature_check sdk now i signer xdr db = (Inr (t, base64 bytes), db)"
proof -
  have "base64 bytes \<noteq> []" using assms(7) by (cases bytes rule: base64.cases) (simp_all add: Let_def)
  moreover have "\<not> (\<exists>s \<in> set (tx_signatures db i). sg_signerPublicKey s = signer)"
    using assms(5) by (auto simp: signers_of_def)
  moreover have "\<not> (mt_status t \<noteq> PENDING \<and> mt_status t \<noteq> PARTIALLY_SIGNED)" using assms(2) by auto
  ultimately show ?thesis
    using assms(1,3,4,6,8,9) by (auto simp: addSignature_check_def)
qed

theorem addSignature_accepts_unverified_bytes_witness:
  "addSignature_check demo_sdk 1 ''1'' ''A''
     (demo_toXDR (PlainTx \<lparr>tr_body = ''pay'', tr_source = None,
        tr_signatures = [\<lparr>d_hint = ''AAAA'', d_signature = ''forged''\<rparr>]\<rparr>)) demo_db
   = (Inr (demo_row, base64 ''forged''), demo_db)"
proof (rule addSignature_accepts_unverified_bytes [where src = None and body = "''pay''" and raw = "''AAAA''"])
  show "find_tx demo_db ''1'' = Some demo_row" by code_simp
  show "mt_status demo_row \<in> {PENDING, PARTIALLY_SIGNED}" by code_simp
  show "\<not> has_expired 1 demo_row" by code_simp
  show "''A'' \<in> set (mt_requiredSigners demo_row)" by code_simp
  show "''A'' \<notin> set (signers_of demo_db ''1'')" by code_simp
  show "sdk_rawPublicKey demo_sdk ''A'' = Some ''AAAA''" by code_simp
  show "hex (sdk_hash demo_sdk ''pay'') = mt_hash demo_row" by code_simp
  show "sdk_fromXDR demo_sdk (demo_toXDR (PlainTx \<lparr>tr_body = ''pay'', tr_source = None,
        tr_signatures = [\<lparr>d_hint = ''AAAA'', d_signature = ''forged''\<rparr>]\<rparr>)) TESTNET
      = Inr (PlainTx \<lparr>tr_body = ''pay'', tr_source = None,
        tr_signatures = [\<lparr>d_hint = slice_last 4 ''AAAA'', d_signature = ''forged''\<rparr>]\<rparr>)"
    by code_simp
qed simp

end
