(* ===== verification/Multisig_Admin.thy ===== *)
theory Multisig_Admin
  imports Prelude
begin

text \<open>
  The administrative half of \<^verbatim>\<open>backend/src/services/multisig.service.ts\<close>: the in-memory map
  \<open>adminProposals\<close> and the methods that create, approve, reject and execute a proposal.
  The two verification libraries are the record \<open>admin_crypto\<close>: each answers for a
  message, a signature and a key, or throws (\<open>None\<close>). \<open>test_env\<close> is
  \<open>process.env.NODE_ENV === 'test'\<close>.
\<close>

section \<open>Data\<close>

datatype admin_status = PROPOSED | APPROVED | EXECUTED | REJECTED

record admin_signature =
  as_signerPublicKey :: string
  as_signature :: string
  as_signedAt :: int

record admin_proposal =
  ap_id :: string
  ap_actionType :: string
  ap_description :: string
  ap_payload :: "(string, json) jsmap"
  ap_creatorPublicKey :: string
  ap_requiredSigners :: "string list"
  ap_threshold :: int
  ap_currentSignatures :: int
  ap_status :: admin_status
  ap_signatures :: "admin_signature list"
  ap_rejectionReason :: "string option"
  ap_executedBy :: "string option"
  ap_executedAt :: "int option"
  ap_createdAt :: int
  ap_updatedAt :: int

type_synonym proposals = "(string, admin_proposal) jsmap"

datatype admin_error = ActionAndDescriptionRequired | SignersRequired | DuplicateAdminSigners
  | InvalidAdminThreshold int | ProposalNotFound | CannotApprove admin_status
  | SignerNotAuthorized | AlreadyApproved | VerificationFailed | CannotReject admin_status
  | NotAuthorizedToReject | CannotExecute admin_status | ThresholdNotReached int int

text \<open>
  The cryptography that is called, \<open>None\<close> for an exception: \<open>kp_verify key message signature\<close> is \<open>Keypair.fromPublicKey(key).verify(message, signature)\<close>
  of the Stellar SDK, \<open>node_verify algorithm data key signature\<close> is \<open>crypto.verify\<close> of Node with its arguments in Node's order.
\<close>

record admin_crypto =
  kp_verify :: "string \<Rightarrow> string \<Rightarrow> string \<Rightarrow> bool option"
  node_verify :: "string \<Rightarrow> string \<Rightarrow> string \<Rightarrow> string \<Rightarrow> bool option"
  bytes_of_base64 :: "string \<Rightarrow> string"

record create_proposal =
  cq_actionType :: string
  cq_description :: string
  cq_payload :: "(string, json) jsmap option"
  cq_creatorPublicKey :: string
  cq_requiredSigners :: "string list"
  cq_threshold :: "int option"

section \<open>Operations\<close>

definition getProposalDigest :: "admin_proposal \<Rightarrow> string" where
  "getProposalDigest p = json_stringify (JObj
     [(''id'', JStr (ap_id p)), (''actionType'', JStr (ap_actionType p)), (''payload'', JObj (ap_payload p))])"

text \<open>The fallback hands Node the public key as the data, the signature as the key and the message as the signature.\<close>

definition verifyAdminSignature :: "admin_crypto \<Rightarrow> string \<Rightarrow> string \<Rightarrow> string \<Rightarrow> bool" where
  "verifyAdminSignature cr message signature publicKey =
     (if kp_verify cr publicKey message (bytes_of_base64 cr signature) = Some True then True
      else case node_verify cr ''ed25519'' (bytes_of_base64 cr publicKey) (bytes_of_base64 cr signature) message of Some b \<Rightarrow> b | None \<Rightarrow> False)"

text \<open>
  With a Node that throws for a key that is not PEM text the fallback accepts no signature but one whose bytes are PEM text: what is accepted is what the Stellar SDK
  verifies.
\<close>
lemma fallback_accepts_nothing:
  assumes "node_verify cr ''ed25519'' (bytes_of_base64 cr publicKey) (bytes_of_base64 cr signature) message = None"
  shows "verifyAdminSignature cr message signature publicKey \<longleftrightarrow> kp_verify cr publicKey message (bytes_of_base64 cr signature) = Some True"
  using assms by (simp add: verifyAdminSignature_def)

definition createAdminProposal :: "int \<Rightarrow> string \<Rightarrow> create_proposal \<Rightarrow> proposals
    \<Rightarrow> (admin_error + admin_proposal) \<times> proposals" where
  "createAdminProposal now newId q m =
     (let signers = cq_requiredSigners q in
      if cq_actionType q = [] \<or> cq_description q = [] then (Inl ActionAndDescriptionRequired, m)
      else if length signers = 0 then (Inl SignersRequired, m)
      else if set_size signers \<noteq> int (length signers) then (Inl DuplicateAdminSigners, m)
      else
        (let targetThreshold = (case cq_threshold q of Some t \<Rightarrow> t | None \<Rightarrow> min 2 (int (length signers)))
         in if targetThreshold < 1 \<or> targetThreshold > int (length signers)
            then (Inl (InvalidAdminThreshold (int (length signers))), m)
            else
              (let proposal = \<lparr>ap_id = newId, ap_actionType = cq_actionType q,
                     ap_description = cq_description q,
                     ap_payload = (case cq_payload q of Some pl \<Rightarrow> pl | None \<Rightarrow> []),
                     ap_creatorPublicKey = cq_creatorPublicKey q, ap_requiredSigners = signers,
                     ap_threshold = targetThreshold, ap_currentSignatures = 0, ap_status = PROPOSED,
                     ap_signatures = [], ap_rejectionReason = None, ap_executedBy = None,
                     ap_executedAt = None, ap_createdAt = now, ap_updatedAt = now\<rparr>
               in (Inr proposal, js_set newId proposal m))))"

definition approveAdminProposal :: "admin_crypto \<Rightarrow> bool \<Rightarrow> int \<Rightarrow> string \<Rightarrow> string \<Rightarrow> string \<Rightarrow> proposals
    \<Rightarrow> (admin_error + admin_proposal) \<times> proposals" where
  "approveAdminProposal cr test_env now proposalId signer signature m =
     (case js_get m proposalId of
        None \<Rightarrow> (Inl ProposalNotFound, m)
      | Some p \<Rightarrow>
        if ap_status p \<noteq> PROPOSED then (Inl (CannotApprove (ap_status p)), m)
        else if signer \<notin> set (ap_requiredSigners p) then (Inl SignerNotAuthorized, m)
        else if \<exists>s \<in> set (ap_signatures p). as_signerPublicKey s = signer then (Inl AlreadyApproved, m)
        else if \<not> (test_env \<or> verifyAdminSignature cr (getProposalDigest p) signature signer)
        then (Inl VerificationFailed, m)
        else
          (let sigs = ap_signatures p @
                 [\<lparr>as_signerPublicKey = signer, as_signature = signature, as_signedAt = now\<rparr>];
               p1 = p\<lparr>ap_signatures := sigs, ap_currentSignatures := int (length sigs), ap_updatedAt := now\<rparr>;
               p2 = (if ap_currentSignatures p1 \<ge> ap_threshold p1 then p1\<lparr>ap_status := APPROVED\<rparr> else p1)
           in (Inr p2, js_set proposalId p2 m)))"

definition rejectAdminProposal :: "int \<Rightarrow> string \<Rightarrow> string \<Rightarrow> string option \<Rightarrow> proposals
    \<Rightarrow> (admin_error + admin_proposal) \<times> proposals" where
  "rejectAdminProposal now proposalId signer reason m =
     (case js_get m proposalId of
        None \<Rightarrow> (Inl ProposalNotFound, m)
      | Some p \<Rightarrow>
        if ap_status p \<noteq> PROPOSED then (Inl (CannotReject (ap_status p)), m)
        else if signer \<notin> set (ap_requiredSigners p) \<and> ap_creatorPublicKey p \<noteq> signer
        then (Inl NotAuthorizedToReject, m)
        else
          (let r = (case reason of None \<Rightarrow> ''Rejected by co-signer''
                    | Some s \<Rightarrow> if s = [] then ''Rejected by co-signer'' else s);
               p1 = p\<lparr>ap_status := REJECTED, ap_rejectionReason := Some r, ap_updatedAt := now\<rparr>
           in (Inr p1, js_set proposalId p1 m)))"

datatype execution_result = ConfigApplied "string list" | NetworkSwitched "json option" | CustomExecuted int

definition executeAdminProposal :: "int \<Rightarrow> string \<Rightarrow> string \<Rightarrow> proposals
    \<Rightarrow> (admin_error + admin_proposal \<times> execution_result) \<times> proposals" where
  "executeAdminProposal now proposalId executor m =
     (case js_get m proposalId of
        None \<Rightarrow> (Inl ProposalNotFound, m)
      | Some p \<Rightarrow>
        if ap_status p \<noteq> APPROVED then (Inl (CannotExecute (ap_status p)), m)
        else if ap_currentSignatures p < ap_threshold p
        then (Inl (ThresholdNotReached (ap_currentSignatures p) (ap_threshold p)), m)
        else
          (let res = (if ap_actionType p = ''CONFIG_UPDATE'' then ConfigApplied (js_keys (ap_payload p))
                      else if ap_actionType p = ''NETWORK_SWITCH''
                      then NetworkSwitched (js_get (ap_payload p) ''network'')
                      else CustomExecuted now);
               p1 = p\<lparr>ap_status := EXECUTED, ap_executedBy := Some executor, ap_executedAt := Some now,
                      ap_updatedAt := now\<rparr>
           in (Inr (p1, res), js_set proposalId p1 m)))"

definition getAdminProposals :: "admin_status option \<Rightarrow> proposals \<Rightarrow> admin_proposal list" where
  "getAdminProposals statusFilter m =
     (case statusFilter of
        Some st \<Rightarrow> filter (\<lambda>p. ap_status p = st) (js_values m)
      | None \<Rightarrow> sort_key (\<lambda>p. - ap_createdAt p) (js_values m))"

definition getAdminProposal :: "string \<Rightarrow> proposals \<Rightarrow> admin_proposal option" where
  "getAdminProposal proposalId m = js_get m proposalId"

section \<open>The life of the map as a step relation\<close>

text \<open>One rule per method call that returns; a call that throws leaves the map as it is.\<close>

inductive admin_step :: "admin_crypto \<Rightarrow> bool \<Rightarrow> proposals \<Rightarrow> proposals \<Rightarrow> bool" for cr test_env where
  create: "js_get m newId = None \<Longrightarrow> createAdminProposal now newId q m = (Inr p, m')
    \<Longrightarrow> admin_step cr test_env m m'"
| approve: "approveAdminProposal cr test_env now i signer sg m = (Inr p, m') \<Longrightarrow> admin_step cr test_env m m'"
| reject: "rejectAdminProposal now i signer reason m = (Inr p, m') \<Longrightarrow> admin_step cr test_env m m'"
| execute: "executeAdminProposal now i executor m = (Inr r, m') \<Longrightarrow> admin_step cr test_env m m'"

inductive admin_reachable :: "admin_crypto \<Rightarrow> bool \<Rightarrow> proposals \<Rightarrow> bool" for cr test_env where
  init: "admin_reachable cr test_env []"
| step: "admin_reachable cr test_env m \<Longrightarrow> admin_step cr test_env m m' \<Longrightarrow> admin_reachable cr test_env m'"

inductive_cases admin_stepE: "admin_step cr test_env m m'"

inductive_simps admin_reachable_iff: "admin_reachable cr test_env m"

text \<open>What each successful call did, as one row written.\<close>

lemma create_Inr:
  assumes "createAdminProposal now i q m = (Inr p, m')"
  shows "m' = js_set i p m \<and> ap_status p = PROPOSED \<and> ap_signatures p = [] \<and> ap_currentSignatures p = 0
    \<and> distinct (ap_requiredSigners p) \<and> 1 \<le> ap_threshold p
    \<and> ap_threshold p \<le> int (length (ap_requiredSigners p)) \<and> ap_executedBy p = None \<and> ap_id p = i"
  using assms by (auto simp: createAdminProposal_def Let_def set_size_eq_length split: if_splits)

definition approved_by :: "string \<Rightarrow> string \<Rightarrow> int \<Rightarrow> admin_proposal \<Rightarrow> admin_proposal" where
  "approved_by signer sg now p =
     p\<lparr>ap_signatures := ap_signatures p @
          [\<lparr>as_signerPublicKey = signer, as_signature = sg, as_signedAt = now\<rparr>],
       ap_currentSignatures := int (length (ap_signatures p)) + 1, ap_updatedAt := now,
       ap_status := (if ap_threshold p \<le> int (length (ap_signatures p)) + 1 then APPROVED else ap_status p)\<rparr>"

lemma approve_Inr:
  assumes "approveAdminProposal cr test_env now i signer sg m = (Inr p', m')"
  shows "\<exists>p. js_get m i = Some p \<and> m' = js_set i p' m \<and> ap_status p = PROPOSED
    \<and> signer \<in> set (ap_requiredSigners p) \<and> (\<forall>s \<in> set (ap_signatures p). as_signerPublicKey s \<noteq> signer)
    \<and> (test_env \<or> verifyAdminSignature cr (getProposalDigest p) sg signer) \<and> p' = approved_by signer sg now p"
proof (cases "js_get m i")
  case None
  with assms show ?thesis by (simp add: approveAdminProposal_def)
next
  case (Some p)
  show ?thesis
    by (rule exI [of _ p])
      (use assms Some in \<open>clarsimp simp: approveAdminProposal_def approved_by_def Let_def add.commute
        split: if_split_asm\<close>)
qed

lemma reject_Inr:
  assumes "rejectAdminProposal now i signer reason m = (Inr p', m')"
  shows "\<exists>p r. js_get m i = Some p \<and> m' = js_set i p' m \<and> ap_status p = PROPOSED
    \<and> p' = p\<lparr>ap_status := REJECTED, ap_rejectionReason := r, ap_updatedAt := now\<rparr>"
  using assms unfolding rejectAdminProposal_def Let_def
  by (simp split: option.split_asm if_split_asm; blast)

lemma execute_Inr:
  assumes "executeAdminProposal now i executor m = (Inr (p', r), m')"
  shows "\<exists>p. js_get m i = Some p \<and> m' = js_set i p' m \<and> ap_status p = APPROVED
    \<and> ap_threshold p \<le> ap_currentSignatures p
    \<and> p' = p\<lparr>ap_status := EXECUTED, ap_executedBy := Some executor, ap_executedAt := Some now, ap_updatedAt := now\<rparr>"
proof (cases "js_get m i")
  case None
  with assms show ?thesis by (simp add: executeAdminProposal_def)
next
  case (Some p)
  show ?thesis
    by (rule exI [of _ p])
      (use assms Some in \<open>clarsimp simp: executeAdminProposal_def Let_def split: if_split_asm\<close>)
qed

section \<open>The invariant\<close>

definition proposal_ok :: "admin_crypto \<Rightarrow> bool \<Rightarrow> string \<Rightarrow> admin_proposal \<Rightarrow> bool" where
  "proposal_ok cr test_env i p \<longleftrightarrow>
     ap_id p = i \<and> distinct (ap_requiredSigners p)
     \<and> 1 \<le> ap_threshold p \<and> ap_threshold p \<le> int (length (ap_requiredSigners p))
     \<and> distinct (List.map as_signerPublicKey (ap_signatures p))
     \<and> as_signerPublicKey ` set (ap_signatures p) \<subseteq> set (ap_requiredSigners p)
     \<and> ap_currentSignatures p = int (length (ap_signatures p))
     \<and> (\<forall>s \<in> set (ap_signatures p). test_env \<or>
          verifyAdminSignature cr (getProposalDigest p) (as_signature s) (as_signerPublicKey s))
     \<and> (ap_status p = PROPOSED \<longrightarrow> ap_currentSignatures p < ap_threshold p)
     \<and> (ap_status p \<in> {APPROVED, EXECUTED} \<longrightarrow> ap_threshold p \<le> ap_currentSignatures p)
     \<and> (ap_status p = EXECUTED \<longleftrightarrow> ap_executedBy p \<noteq> None)"

definition proposals_ok :: "admin_crypto \<Rightarrow> bool \<Rightarrow> proposals \<Rightarrow> bool" where
  "proposals_ok cr test_env m \<longleftrightarrow> js_wf m \<and> (\<forall>i p. js_get m i = Some p \<longrightarrow> proposal_ok cr test_env i p)"

lemma proposals_ok_set:
  "proposals_ok cr te m \<Longrightarrow> proposal_ok cr te i p \<Longrightarrow> proposals_ok cr te (js_set i p m)"
  using jsm.store_all [where m = m and P = "proposal_ok cr te" and k = i and v = p]
  by (simp add: proposals_ok_def)

lemma proposals_okD: "proposals_ok cr te m \<Longrightarrow> js_get m i = Some p \<Longrightarrow> proposal_ok cr te i p"
  by (simp add: proposals_ok_def)

lemma digest_cong:
  "ap_id p' = ap_id p \<Longrightarrow> ap_actionType p' = ap_actionType p \<Longrightarrow> ap_payload p' = ap_payload p
    \<Longrightarrow> getProposalDigest p' = getProposalDigest p"
  by (simp add: getProposalDigest_def)

lemma admin_step_ok:
  assumes "admin_step cr te m m'" and ok: "proposals_ok cr te m"
  shows "proposals_ok cr te m'"
  using assms(1)
proof (cases rule: admin_step.cases)
  case (create newId now q p)
  from create_Inr [OF create(2)] ok show ?thesis
    by (auto intro!: proposals_ok_set simp: proposal_ok_def)
next
  case (approve now i signer sg p')
  from approve_Inr [OF this] obtain p where p: "js_get m i = Some p" and m': "m' = js_set i p' m"
    and h: "ap_status p = PROPOSED" "signer \<in> set (ap_requiredSigners p)"
      "\<forall>s \<in> set (ap_signatures p). as_signerPublicKey s \<noteq> signer"
      "te \<or> verifyAdminSignature cr (getProposalDigest p) sg signer"
    and p': "p' = approved_by signer sg now p" by blast
  have "getProposalDigest p' = getProposalDigest p" by (simp add: p' approved_by_def getProposalDigest_def)
  with proposals_okD [OF ok p] h have "proposal_ok cr te i p'"
    by (auto simp: proposal_ok_def p' approved_by_def)
  with ok m' show ?thesis by (simp add: proposals_ok_set)
next
  case (reject now i signer reason p')
  from reject_Inr [OF this] obtain p r where p: "js_get m i = Some p" and m': "m' = js_set i p' m"
    and "ap_status p = PROPOSED"
    and p': "p' = p\<lparr>ap_status := REJECTED, ap_rejectionReason := r, ap_updatedAt := now\<rparr>" by blast
  have "getProposalDigest p' = getProposalDigest p" by (simp add: p' getProposalDigest_def)
  with proposals_okD [OF ok p] \<open>ap_status p = PROPOSED\<close> have "proposal_ok cr te i p'"
    by (auto simp: proposal_ok_def p')
  with ok m' show ?thesis by (simp add: proposals_ok_set)
next
  case (execute now i executor r)
  obtain p' res where r: "r = (p', res)" by (cases r)
  from execute_Inr [OF execute [unfolded r]] obtain p where p: "js_get m i = Some p" and m': "m' = js_set i p' m"
    and h: "ap_status p = APPROVED" "ap_threshold p \<le> ap_currentSignatures p"
    and p': "p' = p\<lparr>ap_status := EXECUTED, ap_executedBy := Some executor, ap_executedAt := Some now,
      ap_updatedAt := now\<rparr>" by blast
  have "getProposalDigest p' = getProposalDigest p" by (simp add: p' getProposalDigest_def)
  with proposals_okD [OF ok p] h have "proposal_ok cr te i p'"
    by (auto simp: proposal_ok_def p')
  with ok m' show ?thesis by (simp add: proposals_ok_set)
qed

lemma admin_reachable_ok: "admin_reachable cr te m \<Longrightarrow> proposals_ok cr te m"
  proof (induction rule: admin_reachable.induct)
  case init
  show ?case by (simp add: proposals_ok_def)
next
  case (step m m')
  then show ?case by (blast intro: admin_step_ok)
qed

section \<open>Properties\<close>

text \<open>The order of a proposal's life.\<close>

inductive status_step :: "admin_status \<Rightarrow> admin_status \<Rightarrow> bool" where
  stay: "status_step PROPOSED PROPOSED"
| approved: "status_step PROPOSED APPROVED"
| rejected: "status_step PROPOSED REJECTED"
| executed: "status_step APPROVED EXECUTED"

inductive_simps status_step_simps: "status_step a b"

text \<open>C17. Whatever calls are made on the admin proposals, a proposal that was executed carries the
  approvals of at least \<open>threshold\<close> different required signers, each with a signature that
  was verified over the digest of exactly this proposal (outside the test environment).\<close>

theorem admin_executed_has_verified_threshold:
  assumes "admin_reachable cr False m" and "js_get m i = Some p" and "ap_status p = EXECUTED"
  shows "ap_threshold p \<le> int (card {k \<in> set (ap_requiredSigners p). \<exists>s \<in> set (ap_signatures p).
    as_signerPublicKey s = k \<and> verifyAdminSignature cr (getProposalDigest p) (as_signature s) k})"
proof -
  have ok: "proposal_ok cr False i p"
    using proposals_okD [OF admin_reachable_ok [OF assms(1)] assms(2)] .
  let ?K = "{k \<in> set (ap_requiredSigners p). \<exists>s \<in> set (ap_signatures p).
    as_signerPublicKey s = k \<and> verifyAdminSignature cr (getProposalDigest p) (as_signature s) k}"
  have "as_signerPublicKey ` set (ap_signatures p) \<subseteq> ?K"
    using ok by (auto simp: proposal_ok_def)
  moreover have "finite ?K" by simp
  ultimately have "card (as_signerPublicKey ` set (ap_signatures p)) \<le> card ?K" by (rule card_mono [rotated])
  moreover have "card (as_signerPublicKey ` set (ap_signatures p)) = length (ap_signatures p)"
    using ok distinct_card [of "List.map as_signerPublicKey (ap_signatures p)"] by (simp add: proposal_ok_def)
  ultimately show ?thesis using ok assms(3) by (simp add: proposal_ok_def)
qed

text \<open>A step of the service moves the status of a proposal only along
  proposed, approved, executed or proposed, rejected, and a proposal is never deleted; an
  executed or rejected proposal is left exactly as it is.\<close>

theorem admin_step_follows_lifecycle:
  assumes "admin_step cr te m m'" and "js_get m i = Some p"
  shows "\<exists>p'. js_get m' i = Some p' \<and> (p' = p \<or> status_step (ap_status p) (ap_status p'))"
  using assms(1)
proof (cases rule: admin_step.cases)
  case (create newId now q n)
  from create_Inr [OF create(2)] create(1) assms(2) show ?thesis by auto
next
  case (approve now j signer sg n)
  from approve_Inr [OF this] assms(2) show ?thesis
    by (auto simp: status_step_simps approved_by_def)
next
  case (reject now j signer reason n)
  from reject_Inr [OF this] assms(2) show ?thesis by (auto simp: status_step_simps)
next
  case (execute now j executor r)
  obtain n res where r: "r = (n, res)" by (cases r)
  from execute_Inr [OF execute [unfolded r]] assms(2) show ?thesis by (auto simp: status_step_simps)
qed

text \<open>Approval is exact: the call that brings the number of approvals to the threshold, and no
  earlier one, turns the proposal \<open>APPROVED\<close>, and a signer who already approved, a
  stranger and a bad signature are refused without any change.\<close>

theorem admin_approval_exact:
  assumes "proposals_ok cr te m" and "js_get m i = Some p" and "ap_status p = PROPOSED"
  shows "(case approveAdminProposal cr te now i signer sg m of
      (Inr p', m') \<Rightarrow> m' = js_set i p' m \<and> ap_currentSignatures p' = ap_currentSignatures p + 1
        \<and> (ap_status p' = APPROVED \<longleftrightarrow> ap_currentSignatures p' = ap_threshold p)
        \<and> signer \<in> set (ap_requiredSigners p)
    | (Inl e, m') \<Rightarrow> m' = m \<and> (e = SignerNotAuthorized \<and> signer \<notin> set (ap_requiredSigners p)
        \<or> e = AlreadyApproved \<and> signer \<in> as_signerPublicKey ` set (ap_signatures p)
        \<or> e = VerificationFailed \<and> \<not> verifyAdminSignature cr (getProposalDigest p) sg signer))"
proof (cases "approveAdminProposal cr te now i signer sg m")
  case (Pair r m')
  show ?thesis
  proof (cases r)
    case (Inl e)
    with Pair assms(2,3) show ?thesis
      by (auto simp: approveAdminProposal_def Let_def split: if_splits)
  next
    case (Inr p')
    with Pair approve_Inr [of cr te now i signer sg m p' m'] assms(2)
    have w: "m' = js_set i p' m" "signer \<in> set (ap_requiredSigners p)" "p' = approved_by signer sg now p" by auto
    have "proposal_ok cr te i p" using assms(1,2) by (rule proposals_okD)
    with assms(3) w Pair Inr show ?thesis by (auto simp: approved_by_def proposal_ok_def)
  qed
qed

section \<open>Witnesses\<close>

definition demo_crypto :: admin_crypto where
  "demo_crypto = \<lparr>kp_verify = (\<lambda>key msg sg. Some (sg = key @ msg)), node_verify = (\<lambda>_ _ _ _. None), bytes_of_base64 = (\<lambda>t. t)\<rparr>"

definition demo_proposal :: create_proposal where
  "demo_proposal = \<lparr>cq_actionType = ''NETWORK_SWITCH'', cq_description = ''go'',
     cq_payload = Some [(''network'', JStr ''public'')], cq_creatorPublicKey = ''C'',
     cq_requiredSigners = [''A'', ''B'', ''D''], cq_threshold = None\<rparr>"

definition demo_m1 :: proposals where
  "demo_m1 = snd (createAdminProposal 0 ''1'' demo_proposal [])"

definition demo_digest :: string where
  "demo_digest = (case js_get demo_m1 ''1'' of Some p \<Rightarrow> getProposalDigest p)"

definition demo_m2 :: proposals where
  "demo_m2 = snd (approveAdminProposal demo_crypto False 1 ''1'' ''A'' (''A'' @ demo_digest) demo_m1)"

definition demo_m3 :: proposals where
  "demo_m3 = snd (approveAdminProposal demo_crypto False 2 ''1'' ''B'' (''B'' @ demo_digest) demo_m2)"

definition demo_m4 :: proposals where
  "demo_m4 = snd (executeAdminProposal 3 ''1'' ''X'' demo_m3)"

lemma demo_admin_returns:
  "isl (fst (createAdminProposal 0 ''1'' demo_proposal [])) = False"
  "isl (fst (approveAdminProposal demo_crypto False 1 ''1'' ''A'' (''A'' @ demo_digest) demo_m1)) = False"
  "isl (fst (approveAdminProposal demo_crypto False 2 ''1'' ''B'' (''B'' @ demo_digest) demo_m2)) = False"
  "isl (fst (executeAdminProposal 3 ''1'' ''X'' demo_m3)) = False"
  "map_option ap_status (js_get demo_m3 ''1'') = Some APPROVED"
  "map_option ap_status (js_get demo_m4 ''1'') = Some EXECUTED"
  by code_simp+

lemma returns_step:
  "isl (fst r) = False \<Longrightarrow> \<exists>x. r = (Inr x, snd r)"
  by (cases "fst r"; cases r) auto

lemma demo_reach1: "admin_reachable demo_crypto False demo_m1"
proof -
  have "admin_step demo_crypto False [] demo_m1"
    using returns_step [OF demo_admin_returns(1)] admin_step.create [of "[]" "''1''"] by (auto simp: demo_m1_def)
  then show ?thesis by (blast intro: admin_reachable.intros)
qed

lemma demo_reach3: "admin_reachable demo_crypto False demo_m3"
proof -
  have "admin_step demo_crypto False demo_m1 demo_m2" "admin_step demo_crypto False demo_m2 demo_m3"
    using returns_step [OF demo_admin_returns(2)] returns_step [OF demo_admin_returns(3)]
    by (auto simp: demo_m2_def demo_m3_def intro: admin_step.approve)
  with demo_reach1 show ?thesis by (blast intro: admin_reachable.intros)
qed

lemma demo_reach4: "admin_reachable demo_crypto False demo_m4"
  using demo_reach3 returns_step [OF demo_admin_returns(4)]
  by (auto simp: demo_m4_def intro: admin_reachable.step admin_step.execute)

theorem admin_executed_has_verified_threshold_witness:
  "\<exists>p. js_get demo_m4 ''1'' = Some p \<and> ap_status p = EXECUTED \<and>
    ap_threshold p \<le> int (card {k \<in> set (ap_requiredSigners p). \<exists>s \<in> set (ap_signatures p).
      as_signerPublicKey s = k \<and> verifyAdminSignature demo_crypto (getProposalDigest p) (as_signature s) k})"
proof -
  from demo_admin_returns(6) obtain p where p: "js_get demo_m4 ''1'' = Some p" "ap_status p = EXECUTED" by auto
  from admin_executed_has_verified_threshold [OF demo_reach4 p] p show ?thesis by blast
qed

theorem admin_step_follows_lifecycle_witness:
  "admin_step demo_crypto False demo_m3 demo_m4 \<and> (\<exists>p p'. js_get demo_m3 ''1'' = Some p \<and> js_get demo_m4 ''1'' = Some p'
     \<and> (p' = p \<or> status_step (ap_status p) (ap_status p')))"
proof -
  have st: "admin_step demo_crypto False demo_m3 demo_m4"
    using returns_step [OF demo_admin_returns(4)] by (auto simp: demo_m4_def intro: admin_step.execute)
  moreover from demo_admin_returns(5) obtain p where "js_get demo_m3 ''1'' = Some p" by auto
  ultimately show ?thesis using admin_step_follows_lifecycle by blast
qed

theorem admin_approval_exact_witness:
  "case approveAdminProposal demo_crypto False 1 ''1'' ''A'' (''A'' @ demo_digest) demo_m1 of
      (Inr p', m') \<Rightarrow> ap_currentSignatures p' = 1 | (Inl e, m') \<Rightarrow> False"
proof -
  have st: "map_option (\<lambda>p. (ap_status p, ap_currentSignatures p)) (js_get demo_m1 ''1'') = Some (PROPOSED, 0)" by code_simp
  then obtain p where p: "js_get demo_m1 ''1'' = Some p" "ap_status p = PROPOSED" "ap_currentSignatures p = 0" by auto
  from admin_approval_exact [OF admin_reachable_ok [OF demo_reach1] p(1,2),
      where now = 1 and signer = "''A''" and sg = "''A'' @ demo_digest"]
    demo_admin_returns(2) p(3) show ?thesis by (auto split: prod.splits sum.splits)
qed

end
