(* ===== verification/Circuit_Breaker.thy ===== *)
theory Circuit_Breaker
  imports Prelude
begin

text \<open>
  \<open>backend/src/services/circuit-breaker.service.ts\<close>: the breaker that guards the calls to
  the exchanges, and the registry of breakers by name. \<open>execute\<close> awaits the guarded call,
  so calls overlap: it is split at the await into \<open>execute_enter\<close> (the synchronous part
  before the call) and \<open>onSuccess\<close> or \<open>onFailure\<close> (the part after it), and
  \<open>breaker_step\<close> interleaves them. Times are milliseconds as integers.
\<close>

section \<open>Data\<close>

record breaker_config =
  cfg_failureThreshold :: int
  cfg_resetTimeoutMs :: int
  cfg_halfOpenMaxCalls :: int
  cfg_successThreshold :: int

datatype circuit_state = CLOSED | OPEN | HALF_OPEN

record breaker =
  cb_state :: circuit_state
  cb_failures :: int
  cb_successes :: int
  cb_lastFailureTime :: "int option"
  cb_halfOpenCalls :: int
  cb_totalCalls :: int
  cb_rejectedCalls :: int

definition new_breaker :: breaker where
  "new_breaker = \<lparr>cb_state = CLOSED, cb_failures = 0, cb_successes = 0,
     cb_lastFailureTime = None, cb_halfOpenCalls = 0, cb_totalCalls = 0, cb_rejectedCalls = 0\<rparr>"

record breaker_metrics =
  bm_state :: circuit_state
  bm_failures :: int
  bm_successes :: int
  bm_lastFailureTime :: "int option"
  bm_totalCalls :: int
  bm_rejectedCalls :: int

text \<open>\<open>CircuitBreakerError(message, circuitName, state)\<close>.\<close>

datatype circuit_breaker_error = CircuitBreakerError string string circuit_state

section \<open>Operations\<close>

text \<open>\<open>this.lastFailureTime || 0\<close>.\<close>

definition last_failure_or_0 :: "breaker \<Rightarrow> int" where
  "last_failure_or_0 b = (case cb_lastFailureTime b of None \<Rightarrow> 0 | Some t \<Rightarrow> t)"

definition reject_call :: "breaker \<Rightarrow> breaker" where
  "reject_call b = b\<lparr>cb_rejectedCalls := cb_rejectedCalls b + 1\<rparr>"

text \<open>The second half of the entry: the limit on half-open calls, and their count.\<close>

definition enter_half_open :: "breaker_config \<Rightarrow> string \<Rightarrow> breaker
    \<Rightarrow> (circuit_breaker_error + unit) \<times> breaker" where
  "enter_half_open cfg name b =
     (if cb_state b = HALF_OPEN \<and> cb_halfOpenCalls b \<ge> cfg_halfOpenMaxCalls cfg
      then (Inl (CircuitBreakerError (''Circuit breaker '' @ name @ '' HALF_OPEN limit reached'')
                   name (cb_state b)), reject_call b)
      else if cb_state b = HALF_OPEN
      then (Inr (), b\<lparr>cb_halfOpenCalls := cb_halfOpenCalls b + 1\<rparr>)
      else (Inr (), b))"

definition execute_enter :: "breaker_config \<Rightarrow> string \<Rightarrow> int \<Rightarrow> breaker
    \<Rightarrow> (circuit_breaker_error + unit) \<times> breaker" where
  "execute_enter cfg name now b0 =
     (let b = b0\<lparr>cb_totalCalls := cb_totalCalls b0 + 1\<rparr> in
      if cb_state b = OPEN
      then if now - last_failure_or_0 b > cfg_resetTimeoutMs cfg
           then enter_half_open cfg name (b\<lparr>cb_state := HALF_OPEN, cb_halfOpenCalls := 0, cb_successes := 0\<rparr>)
           else (Inl (CircuitBreakerError (''Circuit breaker '' @ name @ '' is OPEN'') name (cb_state b)),
                 reject_call b)
      else enter_half_open cfg name b)"

definition onSuccess :: "breaker_config \<Rightarrow> breaker \<Rightarrow> breaker" where
  "onSuccess cfg b0 =
     (let b = b0\<lparr>cb_failures := 0\<rparr> in
      if cb_state b = HALF_OPEN
      then let b = b\<lparr>cb_successes := cb_successes b + 1\<rparr> in
           if cb_successes b \<ge> cfg_successThreshold cfg
           then b\<lparr>cb_state := CLOSED, cb_halfOpenCalls := 0, cb_successes := 0\<rparr>
           else b
      else b)"

definition onFailure :: "breaker_config \<Rightarrow> int \<Rightarrow> breaker \<Rightarrow> breaker" where
  "onFailure cfg now b0 =
     (let b = b0\<lparr>cb_failures := cb_failures b0 + 1, cb_lastFailureTime := Some now\<rparr> in
      if cb_failures b \<ge> cfg_failureThreshold cfg \<or> cb_state b = HALF_OPEN
      then b\<lparr>cb_state := OPEN\<rparr> else b)"

text \<open>
  The whole of \<open>execute\<close> when nothing overlaps it: \<open>call\<close> is what the guarded function
  does (an error or a value), \<open>now'\<close> the time when it is back. \<open>Inl (Inl e)\<close> is the
  breaker's own error, \<open>Inl (Inr e)\<close> the error of the call, rethrown.
\<close>

definition execute :: "breaker_config \<Rightarrow> string \<Rightarrow> int \<Rightarrow> int \<Rightarrow> 'e + 'a \<Rightarrow> breaker
    \<Rightarrow> ((circuit_breaker_error + 'e) + 'a) \<times> breaker" where
  "execute cfg name now now' call b =
     (case execute_enter cfg name now b of
        (Inl e, b1) \<Rightarrow> (Inl (Inl e), b1)
      | (Inr _, b1) \<Rightarrow>
          (case call of Inr x \<Rightarrow> (Inr x, onSuccess cfg b1)
                      | Inl e \<Rightarrow> (Inl (Inr e), onFailure cfg now' b1)))"

definition getMetrics :: "breaker \<Rightarrow> breaker_metrics" where
  "getMetrics b = \<lparr>bm_state = cb_state b, bm_failures = cb_failures b, bm_successes = cb_successes b,
     bm_lastFailureTime = cb_lastFailureTime b, bm_totalCalls = cb_totalCalls b,
     bm_rejectedCalls = cb_rejectedCalls b\<rparr>"

definition forceOpen :: "int \<Rightarrow> breaker \<Rightarrow> breaker" where
  "forceOpen now b = b\<lparr>cb_state := OPEN, cb_lastFailureTime := Some now\<rparr>"

definition forceClose :: "breaker \<Rightarrow> breaker" where
  "forceClose b = b\<lparr>cb_state := CLOSED, cb_failures := 0, cb_successes := 0, cb_halfOpenCalls := 0\<rparr>"

section \<open>The registry\<close>

text \<open>\<open>Partial<CircuitBreakerConfig>\<close>: the fields a caller gives; spread over the defaults.\<close>

record partial_config =
  pc_failureThreshold :: "int option"
  pc_resetTimeoutMs :: "int option"
  pc_halfOpenMaxCalls :: "int option"
  pc_successThreshold :: "int option"

definition defaultConfig :: breaker_config where
  "defaultConfig = \<lparr>cfg_failureThreshold = 5, cfg_resetTimeoutMs = 30000,
     cfg_halfOpenMaxCalls = 3, cfg_successThreshold = 2\<rparr>"

definition or_default :: "'a \<Rightarrow> 'a option \<Rightarrow> 'a" where
  "or_default d x = (case x of None \<Rightarrow> d | Some v \<Rightarrow> v)"

definition mergeConfig :: "partial_config option \<Rightarrow> breaker_config" where
  "mergeConfig pc = (case pc of None \<Rightarrow> defaultConfig
     | Some c \<Rightarrow> \<lparr>cfg_failureThreshold = or_default (cfg_failureThreshold defaultConfig) (pc_failureThreshold c),
         cfg_resetTimeoutMs = or_default (cfg_resetTimeoutMs defaultConfig) (pc_resetTimeoutMs c),
         cfg_halfOpenMaxCalls = or_default (cfg_halfOpenMaxCalls defaultConfig) (pc_halfOpenMaxCalls c),
         cfg_successThreshold = or_default (cfg_successThreshold defaultConfig) (pc_successThreshold c)\<rparr>)"

text \<open>The breakers by name, each with the configuration it was constructed with.\<close>

type_synonym breaker_registry = "(string, breaker_config \<times> breaker) jsmap"

definition registry_get :: "string \<Rightarrow> partial_config option \<Rightarrow> breaker_registry
    \<Rightarrow> (breaker_config \<times> breaker) option \<times> breaker_registry" where
  "registry_get name pc reg =
     (let reg' = (if js_get reg name = None then js_set name (mergeConfig pc, new_breaker) reg else reg)
      in (js_get reg' name, reg'))"

definition registry_getMetrics :: "breaker_registry \<Rightarrow> (string, breaker_metrics) jsmap" where
  "registry_getMetrics reg =
     foldl (\<lambda>m (name, _, b). js_set name (getMetrics b) m) [] reg"

definition resetAll :: "breaker_registry \<Rightarrow> breaker_registry" where
  "resetAll reg = List.map (\<lambda>(name, cfg, b). (name, cfg, forceClose b)) reg"

text \<open>The first caller of a name fixes the configuration; later ones get the same breaker.\<close>

lemma registry_get_again:
  assumes "registry_get name pc reg = (r, reg')"
  shows "registry_get name pc' reg' = (r, reg')"
  using assms by (auto simp: registry_get_def Let_def split: if_split_asm)

lemma resetAll_closes:
  "(name, cfg, b) \<in> set (resetAll reg) \<Longrightarrow> cb_state b = CLOSED \<and> cb_failures b = 0"
  by (auto simp: resetAll_def forceClose_def)

section \<open>Overlapping calls\<close>

text \<open>
  A state of one breaker together with the number of admitted calls that are not back yet.
  An admitted call comes back at any time, as a success or as a failure.
\<close>

type_synonym breaker_run = "breaker \<times> nat"

inductive breaker_step :: "breaker_config \<Rightarrow> string \<Rightarrow> breaker_run \<Rightarrow> breaker_run \<Rightarrow> bool"
  for cfg name where
  admitted: "execute_enter cfg name now b = (Inr (), b') \<Longrightarrow> breaker_step cfg name (b, n) (b', Suc n)"
| rejected: "execute_enter cfg name now b = (Inl e, b') \<Longrightarrow> breaker_step cfg name (b, n) (b', n)"
| succeeded: "breaker_step cfg name (b, Suc n) (onSuccess cfg b, n)"
| failed: "breaker_step cfg name (b, Suc n) (onFailure cfg now b, n)"
| forced_open: "breaker_step cfg name (b, n) (forceOpen now b, n)"
| forced_closed: "breaker_step cfg name (b, n) (forceClose b, n)"

inductive_cases breaker_stepE: "breaker_step cfg name s s'"

definition breaker_reachable :: "breaker_config \<Rightarrow> string \<Rightarrow> breaker_run \<Rightarrow> bool" where
  "breaker_reachable cfg name s \<longleftrightarrow> (breaker_step cfg name)\<^sup>*\<^sup>* (new_breaker, 0) s"

text \<open>
  The invariant. Closed means fewer failures in a row than the threshold; half open means
  fewer successes than the threshold, no more probes than the limit, and every probe of
  this round that has not succeeded is still out.
\<close>

definition config_ok :: "breaker_config \<Rightarrow> bool" where
  "config_ok cfg \<longleftrightarrow> cfg_failureThreshold cfg \<ge> 1 \<and> cfg_successThreshold cfg \<ge> 1 \<and>
     cfg_halfOpenMaxCalls cfg \<ge> 0"

definition breaker_ok :: "breaker_config \<Rightarrow> breaker_run \<Rightarrow> bool" where
  "breaker_ok cfg s \<longleftrightarrow> (case s of (b, n) \<Rightarrow>
     0 \<le> cb_failures b \<and> 0 \<le> cb_rejectedCalls b \<and> cb_rejectedCalls b + int n \<le> cb_totalCalls b \<and>
     (cb_state b = CLOSED \<longrightarrow> cb_failures b < cfg_failureThreshold cfg) \<and>
     (cb_state b = HALF_OPEN \<longrightarrow>
        0 \<le> cb_successes b \<and> cb_successes b < cfg_successThreshold cfg \<and>
        cb_halfOpenCalls b \<le> cfg_halfOpenMaxCalls cfg \<and>
        cb_halfOpenCalls b \<le> cb_successes b + int n))"

lemmas enter_defs = execute_enter_def enter_half_open_def reject_call_def Let_def

lemma breaker_ok_new: "config_ok cfg \<Longrightarrow> breaker_ok cfg (new_breaker, 0)"
  by (simp add: config_ok_def breaker_ok_def new_breaker_def)

lemma breaker_ok_enter:
  assumes "config_ok cfg" "breaker_ok cfg (b, n)" "execute_enter cfg name now b = (r, b')"
  shows "breaker_ok cfg (b', if r = Inr () then Suc n else n)"
  using assms by (auto simp: enter_defs breaker_ok_def config_ok_def split: if_split_asm)

lemma breaker_ok_success:
  "breaker_ok cfg (b, Suc n) \<Longrightarrow> config_ok cfg \<Longrightarrow> breaker_ok cfg (onSuccess cfg b, n)"
  by (auto simp: onSuccess_def breaker_ok_def config_ok_def Let_def)

lemma breaker_ok_failure:
  "breaker_ok cfg (b, Suc n) \<Longrightarrow> breaker_ok cfg (onFailure cfg now b, n)"
  by (auto simp: onFailure_def breaker_ok_def Let_def)

lemma breaker_ok_step:
  assumes "config_ok cfg" "breaker_ok cfg s" "breaker_step cfg name s s'"
  shows "breaker_ok cfg s'"
  using assms(3,2)
proof (cases rule: breaker_step.cases)
  case (admitted now b b' n)
  with breaker_ok_enter [OF assms(1), of b n name now "Inr ()" b'] assms(2) show ?thesis by simp
next
  case (rejected now b e b' n)
  with breaker_ok_enter [OF assms(1), of b n name now "Inl e" b'] assms(2) show ?thesis by simp
next
  case (succeeded b n)
  with assms show ?thesis by (simp add: breaker_ok_success)
next
  case (failed b n now)
  with assms show ?thesis by (simp add: breaker_ok_failure)
next
  case (forced_open b n now)
  with assms(2) show ?thesis by (auto simp: breaker_ok_def forceOpen_def)
next
  case (forced_closed b n)
  with assms(1,2) show ?thesis by (auto simp: breaker_ok_def forceClose_def config_ok_def)
qed

interpretation breaker: step_relation "breaker_step cfg name"
    "\<lambda>s. config_ok cfg \<and> breaker_ok cfg s" for cfg name
  by unfold_locales (blast intro: breaker_ok_step)

lemma reachable_breaker_ok:
  "config_ok cfg \<Longrightarrow> breaker_reachable cfg name s \<Longrightarrow> breaker_ok cfg s"
  unfolding breaker_reachable_def
  using breaker.reachable_inv [of cfg name "(new_breaker, 0)" s] breaker_ok_new by blast

section \<open>Runs of calls that do not overlap\<close>

text \<open>A call of a run: when it starts, when the guarded function is back, what it does.\<close>

type_synonym 'e breaker_call = "int \<times> int \<times> ('e + unit)"

definition run_call :: "breaker_config \<Rightarrow> string \<Rightarrow> breaker \<Rightarrow> 'e breaker_call \<Rightarrow> breaker" where
  "run_call cfg name b c = (case c of (now, now', r) \<Rightarrow> snd (execute cfg name now now' r b))"

definition call_fails :: "'e breaker_call \<Rightarrow> bool" where
  "call_fails c = (case c of (_, _, Inl _) \<Rightarrow> True | _ \<Rightarrow> False)"

lemmas run_defs = run_call_def execute_def call_fails_def onSuccess_def onFailure_def enter_defs

lemma run_call_fail_closed:
  "cb_state b = CLOSED \<Longrightarrow> call_fails c \<Longrightarrow>
     cb_failures (run_call cfg name b c) = cb_failures b + 1 \<and>
     cb_state (run_call cfg name b c) =
       (if cb_failures b + 1 \<ge> cfg_failureThreshold cfg then OPEN else CLOSED)"
  by (auto simp: run_defs split: prod.splits sum.splits)

lemma run_fails_closed:
  "cb_state b = CLOSED \<Longrightarrow> \<forall>c \<in> set cs. call_fails c \<Longrightarrow>
   cb_failures b + int (length cs) < cfg_failureThreshold cfg \<Longrightarrow>
     cb_state (foldl (run_call cfg name) b cs) = CLOSED \<and>
     cb_failures (foldl (run_call cfg name) b cs) = cb_failures b + int (length cs)"
proof (induction cs arbitrary: b)
  case (Cons c cs)
  from Cons.prems run_call_fail_closed [of b c cfg name]
  show ?case using Cons.IH [of "run_call cfg name b c"] by auto
qed simp

lemma run_success_half_open:
  "cb_state b = HALF_OPEN \<Longrightarrow> cb_halfOpenCalls b < cfg_halfOpenMaxCalls cfg \<Longrightarrow> \<not> call_fails c \<Longrightarrow>
   cb_successes b + 1 < cfg_successThreshold cfg \<Longrightarrow>
     cb_state (run_call cfg name b c) = HALF_OPEN \<and>
     cb_halfOpenCalls (run_call cfg name b c) = cb_halfOpenCalls b + 1 \<and>
     cb_successes (run_call cfg name b c) = cb_successes b + 1"
  by (auto simp: run_defs split: prod.splits sum.splits)

lemma run_success_closes:
  "cb_state b = HALF_OPEN \<Longrightarrow> cb_halfOpenCalls b < cfg_halfOpenMaxCalls cfg \<Longrightarrow> \<not> call_fails c \<Longrightarrow>
   cb_successes b + 1 \<ge> cfg_successThreshold cfg \<Longrightarrow> cb_state (run_call cfg name b c) = CLOSED"
  by (auto simp: run_defs split: prod.splits sum.splits)

lemma run_successes_close:
  "cb_state b = HALF_OPEN \<Longrightarrow> cb_halfOpenCalls b = cb_successes b \<Longrightarrow>
   cfg_successThreshold cfg \<le> cfg_halfOpenMaxCalls cfg \<Longrightarrow> \<forall>c \<in> set cs. \<not> call_fails c \<Longrightarrow>
   cs \<noteq> [] \<Longrightarrow> cb_successes b + int (length cs) = cfg_successThreshold cfg \<Longrightarrow>
     cb_state (foldl (run_call cfg name) b cs) = CLOSED"
proof (induction cs arbitrary: b)
  case (Cons c cs)
  show ?case
  proof (cases "cs = []")
    case True
    with Cons.prems show ?thesis by (simp add: run_success_closes)
  next
    case False
    then have "cb_successes b + 1 < cb_successes b + int (length (c # cs))" by (cases cs) simp_all
    with Cons.prems have "cb_successes b + 1 < cfg_successThreshold cfg"
      by simp
    moreover from this Cons.prems have "cb_halfOpenCalls b < cfg_halfOpenMaxCalls cfg" by linarith
    moreover note False
    ultimately have "cb_state (run_call cfg name b c) = HALF_OPEN \<and>
        cb_halfOpenCalls (run_call cfg name b c) = cb_halfOpenCalls b + 1 \<and>
        cb_successes (run_call cfg name b c) = cb_successes b + 1"
      using Cons.prems run_success_half_open [of b cfg c name] by simp
    with Cons.prems False show ?thesis using Cons.IH [of "run_call cfg name b c"] by simp
  qed
qed simp

lemma run_open_probe:
  assumes "cb_state b = OPEN" "t - last_failure_or_0 b > cfg_resetTimeoutMs cfg"
  shows "run_call cfg name b (t, t', r) = run_call cfg name
    (b\<lparr>cb_state := HALF_OPEN, cb_halfOpenCalls := 0, cb_successes := 0\<rparr>) (t, t', r)"
  using assms by (cases b; cases r) (simp_all add: run_defs last_failure_or_0_def)

section \<open>Properties\<close>

text \<open>Fail fast: while the breaker is open and the reset timeout has not passed, \<open>execute\<close>
  throws the breaker's error whatever the guarded function would do, so the function is not
  called; only the two counters change. Once the timeout has passed the next call is let
  through as a probe, when the configuration allows a probe at all.\<close>

theorem breaker_open_fails_fast:
  assumes "cb_state b = OPEN"
  shows "if now - last_failure_or_0 b \<le> cfg_resetTimeoutMs cfg
    then execute cfg name now now' call b =
      (Inl (Inl (CircuitBreakerError (''Circuit breaker '' @ name @ '' is OPEN'') name OPEN)),
       b\<lparr>cb_totalCalls := cb_totalCalls b + 1, cb_rejectedCalls := cb_rejectedCalls b + 1\<rparr>)
    else 1 \<le> cfg_halfOpenMaxCalls cfg \<longrightarrow> fst (execute_enter cfg name now b) = Inr ()"
  using assms by (simp add: execute_def enter_defs last_failure_or_0_def)

text \<open>However calls overlap and whatever is forced, a closed breaker has seen fewer failures
  in a row than its threshold, a half-open one never has more probes than its limit nor as
  many successes as would close it, and the number of rejected calls and of calls still out
  is at most the number of calls.\<close>

theorem breaker_reachable_bounds:
  assumes "config_ok cfg" and "breaker_reachable cfg name (b, n)"
  shows "(cb_state b = CLOSED \<longrightarrow> cb_failures b < cfg_failureThreshold cfg) \<and>
    (cb_state b = HALF_OPEN \<longrightarrow> cb_halfOpenCalls b \<le> cfg_halfOpenMaxCalls cfg \<and>
       cb_successes b < cfg_successThreshold cfg) \<and>
    0 \<le> cb_rejectedCalls b \<and> cb_rejectedCalls b + int n \<le> cb_totalCalls b"
  using reachable_breaker_ok [OF assms] by (auto simp: breaker_ok_def)

text \<open>The breaker trips exactly at its threshold and recovers: from a fresh breaker, a run of
  failing calls leaves it closed as long as it is shorter than \<open>failureThreshold\<close>, and the
  failure number \<open>failureThreshold\<close> opens it; and from an open breaker, the first
  \<open>successThreshold\<close> calls after the reset timeout close it when they all succeed, if
  \<open>halfOpenMaxCalls\<close> lets that many through.\<close>

theorem breaker_trips_and_recovers:
  fixes fs ss :: "'e breaker_call list"
  assumes "config_ok cfg" and "cfg_successThreshold cfg \<le> cfg_halfOpenMaxCalls cfg"
    and "\<forall>c \<in> set fs. call_fails c" and "int (length fs) + 1 = cfg_failureThreshold cfg"
    and "call_fails f"
    and "cb_state b = OPEN" and "t - last_failure_or_0 b > cfg_resetTimeoutMs cfg"
    and "\<forall>c \<in> set ((t, t', Inr ()) # ss). \<not> call_fails c"
    and "int (length ss) + 1 = cfg_successThreshold cfg"
  shows "cb_state (foldl (run_call cfg name) new_breaker fs) = CLOSED \<and>
    cb_state (foldl (run_call cfg name) new_breaker (fs @ [f])) = OPEN \<and>
    cb_state (foldl (run_call cfg name) b ((t, t', Inr ()) # ss)) = CLOSED"
proof -
  have closed: "cb_state new_breaker = CLOSED" "cb_failures new_breaker = 0"
    by (simp_all add: new_breaker_def)
  note fs = run_fails_closed [OF closed(1) assms(3), of cfg name]
  have trip: "cb_state (foldl (run_call cfg name) new_breaker fs) = CLOSED"
    "cb_failures (foldl (run_call cfg name) new_breaker fs) = int (length fs)"
    using fs closed assms(4) by simp_all
  let ?h = "b\<lparr>cb_state := HALF_OPEN, cb_halfOpenCalls := 0, cb_successes := 0\<rparr>"
  have "cb_state (foldl (run_call cfg name) ?h ((t, t', Inr ()) # ss)) = CLOSED"
    by (rule run_successes_close) (use assms in auto)
  then show ?thesis
    using trip run_call_fail_closed [OF trip(1) assms(5), of cfg name] assms(4)
      run_open_probe [OF assms(6,7), of name t' "Inr () :: 'e + unit"] by simp
qed

lemma reachable_snoc:
  "breaker_reachable cfg name s \<Longrightarrow> breaker_step cfg name s s' \<Longrightarrow> breaker_reachable cfg name s'"
  unfolding breaker_reachable_def by (rule rtranclp.rtrancl_into_rtrancl)

definition stuck_breaker :: "breaker_config \<Rightarrow> string \<Rightarrow> breaker \<Rightarrow> bool" where
  "stuck_breaker cfg name b \<longleftrightarrow> (\<forall>now. \<exists>e. fst (execute_enter cfg name now b) = Inl e)"

lemma not_stuck:
  assumes "config_ok cfg" "breaker_reachable cfg name (b, 0)"
    "cfg_successThreshold cfg \<le> cfg_halfOpenMaxCalls cfg"
  shows "\<not> stuck_breaker cfg name b"
proof -
  let ?now = "last_failure_or_0 b + cfg_resetTimeoutMs cfg + 1"
  have "fst (execute_enter cfg name ?now b) = Inr ()"
    using reachable_breaker_ok [OF assms(1,2)] assms
    by (cases "cb_state b") (auto simp: enter_defs breaker_ok_def config_ok_def last_failure_or_0_def)
  then show ?thesis unfolding stuck_breaker_def by (metis Inl_Inr_False)
qed

lemma reach_half_open:
  assumes "config_ok cfg" "cfg_halfOpenMaxCalls cfg < cfg_successThreshold cfg"
  shows "int k \<le> cfg_halfOpenMaxCalls cfg \<Longrightarrow>
    \<exists>b. breaker_reachable cfg name (b, 0) \<and> (if k = 0 then cb_state b = OPEN
      else cb_state b = HALF_OPEN \<and> cb_halfOpenCalls b = int k \<and> cb_successes b = int k)"
proof (induction k)
  case 0
  have "breaker_step cfg name (new_breaker, 0) (forceOpen 0 new_breaker, 0)"
    by (rule breaker_step.forced_open)
  then have "breaker_reachable cfg name (forceOpen 0 new_breaker, 0)"
    unfolding breaker_reachable_def by (rule r_into_rtranclp)
  then show ?case by (intro exI [of _ "forceOpen 0 new_breaker"]) (simp add: forceOpen_def)
next
  case (Suc k)
  then obtain b where b: "breaker_reachable cfg name (b, 0)" and
    k: "if k = 0 then cb_state b = OPEN
        else cb_state b = HALF_OPEN \<and> cb_halfOpenCalls b = int k \<and> cb_successes b = int k"
    by auto
  let ?now = "last_failure_or_0 b + cfg_resetTimeoutMs cfg + 1"
  obtain r b' where e: "execute_enter cfg name ?now b = (r, b')" by fastforce
  have r: "r = Inr ()" "cb_state b' = HALF_OPEN" "cb_halfOpenCalls b' = int (Suc k)" "cb_successes b' = int k"
    using e k Suc.prems by (auto simp: enter_defs last_failure_or_0_def split: if_split_asm)
  from e r(1) have "breaker_step cfg name (b, 0) (b', Suc 0)" by (auto intro: breaker_step.admitted)
  from reachable_snoc [OF b this]
  have "breaker_reachable cfg name (onSuccess cfg b', 0)"
    by (rule reachable_snoc) (rule breaker_step.succeeded)
  moreover have "cb_state (onSuccess cfg b') = HALF_OPEN \<and>
    cb_halfOpenCalls (onSuccess cfg b') = int (Suc k) \<and> cb_successes (onSuccess cfg b') = int (Suc k)"
    using r Suc.prems assms(2) by (simp add: onSuccess_def Let_def)
  ultimately show ?case by auto
qed

lemma half_open_full_stuck:
  "cb_state b = HALF_OPEN \<Longrightarrow> cfg_halfOpenMaxCalls cfg \<le> cb_halfOpenCalls b \<Longrightarrow> stuck_breaker cfg name b"
  by (simp add: stuck_breaker_def enter_defs)

text \<open>A breaker can get stuck, refusing every call at any time although no call is out, if
  and only if \<open>halfOpenMaxCalls\<close> is smaller than \<open>successThreshold\<close>: then every probe may
  succeed and there are still too few successes to close it, and only \<open>forceClose\<close> or
  \<open>forceOpen\<close> ends it. The service does not check that relation of the two settings.\<close>

theorem breaker_stuck_iff:
  assumes "config_ok cfg"
  shows "(\<exists>b. breaker_reachable cfg name (b, 0) \<and> cb_state b = HALF_OPEN \<and> stuck_breaker cfg name b)
    \<longleftrightarrow> cfg_halfOpenMaxCalls cfg < cfg_successThreshold cfg"
proof
  assume "\<exists>b. breaker_reachable cfg name (b, 0) \<and> cb_state b = HALF_OPEN \<and> stuck_breaker cfg name b"
  then show "cfg_halfOpenMaxCalls cfg < cfg_successThreshold cfg"
    using not_stuck [OF assms] by (meson linorder_not_le)
next
  assume lt: "cfg_halfOpenMaxCalls cfg < cfg_successThreshold cfg"
  show "\<exists>b. breaker_reachable cfg name (b, 0) \<and> cb_state b = HALF_OPEN \<and> stuck_breaker cfg name b"
  proof (cases "cfg_halfOpenMaxCalls cfg = 0")
    case False
    with reach_half_open [OF assms lt, of "nat (cfg_halfOpenMaxCalls cfg)" name] assms
    obtain b where "breaker_reachable cfg name (b, 0)" "cb_state b = HALF_OPEN"
      "cb_halfOpenCalls b = cfg_halfOpenMaxCalls cfg"
      by (auto simp: config_ok_def split: if_split_asm)
    then show ?thesis using half_open_full_stuck [of b cfg name] by auto
  next
    case True
    with reach_half_open [OF assms lt, of 0 name]
    obtain b where b: "breaker_reachable cfg name (b, 0)" "cb_state b = OPEN" by auto
    let ?now = "last_failure_or_0 b + cfg_resetTimeoutMs cfg + 1"
    obtain e b' where e: "execute_enter cfg name ?now b = (Inl e, b')"
      and h: "cb_state b' = HALF_OPEN" "cb_halfOpenCalls b' = 0"
      using b(2) True by (simp add: enter_defs last_failure_or_0_def)
    from reachable_snoc [OF b(1) breaker_step.rejected [OF e]] half_open_full_stuck [OF h(1), of cfg name]
      h True show ?thesis by auto
  qed
qed

section \<open>Witnesses\<close>

definition demo_failures :: "string breaker_call list" where
  "demo_failures = [(1, 2, Inl ''timeout''), (3, 4, Inl ''timeout''), (5, 6, Inl ''timeout''), (7, 8, Inl ''timeout'')]"

definition demo_open :: breaker where
  "demo_open = forceOpen 1000 new_breaker"

lemma breaker_open_fails_fast_witness:
  "execute defaultConfig ''horizon'' 2000 2001 (Inr 7 :: string + int) demo_open =
     (Inl (Inl (CircuitBreakerError ''Circuit breaker horizon is OPEN'' ''horizon'' OPEN)),
      demo_open\<lparr>cb_totalCalls := 1, cb_rejectedCalls := 1\<rparr>)"
  using breaker_open_fails_fast [of demo_open 2000 defaultConfig "''horizon''" 2001 "Inr 7 :: string + int"]
  by (simp add: demo_open_def forceOpen_def new_breaker_def last_failure_or_0_def defaultConfig_def)

lemma config_ok_default: "config_ok defaultConfig"
  by (simp add: config_ok_def defaultConfig_def)

lemma breaker_reachable_start: "breaker_reachable cfg name (new_breaker, 0)"
  by (simp add: breaker_reachable_def)

lemma breaker_reachable_bounds_witness:
  "cb_failures (onFailure defaultConfig 9 (snd (execute_enter defaultConfig ''horizon'' 8 new_breaker))) < 5"
proof -
  let ?b = "snd (execute_enter defaultConfig ''horizon'' 8 new_breaker)"
  have "execute_enter defaultConfig ''horizon'' 8 new_breaker = (Inr (), ?b)"
    by (simp add: enter_defs new_breaker_def)
  from reachable_snoc [OF reachable_snoc [OF breaker_reachable_start breaker_step.admitted [OF this]]
      breaker_step.failed [where now = 9]]
  have "breaker_reachable defaultConfig ''horizon'' (onFailure defaultConfig 9 ?b, 0)" .
  from breaker_reachable_bounds [OF config_ok_default this] show ?thesis
    by (simp add: enter_defs new_breaker_def onFailure_def defaultConfig_def)
qed

lemma breaker_trips_and_recovers_witness:
  "cb_state (foldl (run_call defaultConfig ''horizon'') new_breaker (demo_failures @ [(9, 9, Inl ''timeout'')])) = OPEN \<and>
   cb_state (foldl (run_call defaultConfig ''horizon'') demo_open
     [(32000, 32001, Inr ()), (32002, 32003, Inr () :: string + unit)]) = CLOSED"
  using breaker_trips_and_recovers [where cfg = defaultConfig and fs = demo_failures and
      f = "(9, 9, Inl ''timeout'')" and b = demo_open and t = 32000 and t' = 32001 and
      ss = "[(32002, 32003, Inr ())]" and name = "''horizon''"]
  by (simp only: config_ok_default, simp) (simp add: defaultConfig_def demo_failures_def demo_open_def
      forceOpen_def call_fails_def last_failure_or_0_def)

lemma breaker_stuck_iff_witness:
  "(\<exists>b. breaker_reachable (mergeConfig None) ''horizon'' (b, 0) \<and> cb_state b = HALF_OPEN \<and>
     stuck_breaker (mergeConfig None) ''horizon'' b) = False"
  using breaker_stuck_iff [of "mergeConfig None" "''horizon''"]
  by (simp add: mergeConfig_def config_ok_def defaultConfig_def)

end
