(* ===== verification/JsNumber.thy ===== *)
theory JsNumber
  imports Prelude "HOL-Library.Log_Nat"
begin

text \<open>
  JavaScript numbers. A number is NaN, an infinity, or a finite binary64 value, held as a
  rational; every arithmetic operation rounds its exact result to the nearest binary64
  value, ties to even (\<open>round64\<close>). The two zeros are identified: no code that is modelled
  tells them apart. \<open>parseFloat\<close>, \<open>Math.round\<close> and \<open>toFixed\<close> follow the language's
  definition of them.
\<close>

datatype jsnum = NaN | NegInf | Fin rat | PosInf

section \<open>Rounding to binary64\<close>

definition pow2 :: "int \<Rightarrow> rat" where
  "pow2 e = (if 0 \<le> e then 2 ^ nat e else 1 / 2 ^ nat (- e))"

text \<open>The exponent of a positive rational: \<open>pow2 e \<le> r < pow2 (e + 1)\<close>.\<close>

definition rat_exponent :: "rat \<Rightarrow> int" where
  "rat_exponent r = (case quotient_of r of (p, q) \<Rightarrow>
     let e = bitlen p - bitlen q in if pow2 e \<le> r then e else e - 1)"

definition round_half_even :: "rat \<Rightarrow> int" where
  "round_half_even r = (let f = \<lfloor>r\<rfloor>; d = r - of_int f in
     if d < 1 / 2 then f else if 1 / 2 < d then f + 1 else if even f then f else f + 1)"

definition round64_pos :: "rat \<Rightarrow> rat" where
  "round64_pos a = (let u = max (rat_exponent a - 52) (- 1074)
     in of_int (round_half_even (a / pow2 u)) * pow2 u)"

definition round64 :: "rat \<Rightarrow> jsnum" where
  "round64 r =
     (if r = 0 then Fin 0
      else if 0 < r
      then let v = round64_pos r in if pow2 1024 \<le> v then PosInf else Fin v
      else let v = round64_pos (- r) in if pow2 1024 \<le> v then NegInf else Fin (- v))"

lemma pow2_pos [simp]: "0 < pow2 e"
  by (simp add: pow2_def)

lemma pow2_nonneg [simp]: "0 \<le> pow2 e"
  by (simp add: pow2_def)

lemma pow2_nz [simp]: "pow2 e \<noteq> 0"
  by (simp add: pow2_def)

lemma pow2_powi: "pow2 e = 2 powi e"
  by (auto simp: pow2_def power_int_def power_inverse divide_simps)

lemma pow2_add: "pow2 (a + b) = pow2 a * pow2 b"
  by (simp add: pow2_powi power_int_add)

lemma pow2_nat [simp]: "pow2 (int n) = 2 ^ n"
  by (simp add: pow2_def)

lemma pow2_le: "a \<le> b \<Longrightarrow> pow2 a \<le> pow2 b"
  by (simp add: pow2_powi power_int_increasing)

lemma pow2_less_iff: "pow2 a < pow2 b \<longleftrightarrow> a < b"
proof
  show "pow2 a < pow2 b \<Longrightarrow> a < b" using pow2_le [of b a] by (meson leD leI)
  assume "a < b"
  then have "pow2 a * 2 \<le> pow2 b" using pow2_le [of "a + 1" b] by (simp add: pow2_add pow2_def [of 1])
  moreover have "0 < pow2 a" by simp
  ultimately show "pow2 a < pow2 b" by linarith
qed

lemma bitlen_bounds: "0 < p \<Longrightarrow> pow2 (bitlen p - 1) \<le> of_int p \<and> (of_int p :: rat) < pow2 (bitlen p)"
proof -
  assume p: "0 < p"
  then have b: "2 ^ nat (bitlen p - 1) \<le> p \<and> p < 2 ^ nat (bitlen p)" by (rule bitlen_bounds)
  have l: "1 \<le> bitlen p" using p bitlen_eq_zero_iff [of p] bitlen_nonneg [of p] by linarith
  have "of_int (2 ^ nat (bitlen p - 1)) \<le> (of_int p :: rat)" "(of_int p :: rat) < of_int (2 ^ nat (bitlen p))"
    using b by (simp_all only: of_int_le_iff of_int_less_iff)
  then show ?thesis using l by (simp add: pow2_def)
qed

lemma rat_exponent_bounds:
  assumes "0 < r"
  shows "pow2 (rat_exponent r) \<le> r \<and> r < pow2 (rat_exponent r + 1)"
proof -
  obtain p q where pq: "quotient_of r = (p, q)" by fastforce
  then have r: "r = of_int p / of_int q" and q: "0 < q"
    by (simp_all add: quotient_of_div quotient_of_denom_pos)
  have p: "0 < p" using assms r q by (simp add: zero_less_divide_iff)
  let ?e = "bitlen p - bitlen q"
  have bp: "pow2 (bitlen p - 1) \<le> of_int p" "(of_int p :: rat) < pow2 (bitlen p)"
    and bq: "pow2 (bitlen q - 1) \<le> of_int q" "(of_int q :: rat) < pow2 (bitlen q)"
    using bitlen_bounds [OF p] bitlen_bounds [OF q] by auto
  have q0: "(0::rat) < of_int q" using q by simp
  have "of_int p < pow2 (?e + 1) * of_int q"
  proof -
    have "pow2 (bitlen p) = pow2 (?e + 1) * pow2 (bitlen q - 1)"
      by (simp flip: pow2_add)
    with bp(2) bq(1) show ?thesis
      by (metis less_le_trans mult_left_mono pow2_nonneg)
  qed
  then have up: "r < pow2 (?e + 1)" using q0 r by (simp add: divide_less_eq)
  have "pow2 (?e - 1) * of_int q \<le> of_int p"
  proof -
    have "pow2 (bitlen p - 1) = pow2 (?e - 1) * pow2 (bitlen q)"
      by (simp flip: pow2_add add: algebra_simps)
    with bp(1) bq(2) show ?thesis
      by (metis less_imp_le mult_left_mono order_trans pow2_nonneg)
  qed
  then have lo: "pow2 (?e - 1) \<le> r" using q0 r by (simp add: le_divide_eq)
  show ?thesis using up lo pq by (auto simp: rat_exponent_def Let_def)
qed

lemma round_half_even_int [simp]: "round_half_even (of_int i) = i"
  by (simp add: round_half_even_def)

lemma round_half_even_nonneg: "0 \<le> r \<Longrightarrow> 0 \<le> round_half_even r"
  by (auto simp: round_half_even_def Let_def)

lemma round64_pos_nonneg: "0 < a \<Longrightarrow> 0 \<le> round64_pos a"
  unfolding round64_pos_def Let_def
  by (rule mult_nonneg_nonneg) (simp_all add: round_half_even_nonneg)

text \<open>Rounding keeps the order.\<close>

lemma round_half_even_mono:
  assumes "x \<le> y"
  shows "round_half_even x \<le> round_half_even y"
proof -
  have b: "\<lfloor>r\<rfloor> \<le> round_half_even r \<and> round_half_even r \<le> \<lfloor>r\<rfloor> + 1" for r
    by (simp add: round_half_even_def Let_def)
  have f: "\<lfloor>x\<rfloor> \<le> \<lfloor>y\<rfloor>" using assms by (rule floor_mono)
  show ?thesis
  proof (cases "\<lfloor>x\<rfloor> = \<lfloor>y\<rfloor>")
    case True
    then show ?thesis using assms by (simp add: round_half_even_def Let_def)
  next
    case False
    then show ?thesis using b [of x] b [of y] f by linarith
  qed
qed

lemma round64_pos_mono:
  assumes "0 < x" "x \<le> y"
  shows "round64_pos x \<le> round64_pos y"
proof -
  have y: "0 < y" using assms by simp
  define u where "u = max (rat_exponent x - 52) (- 1074)"
  define v where "v = max (rat_exponent y - 52) (- 1074)"
  have r: "round64_pos x = of_int (round_half_even (x / pow2 u)) * pow2 u"
      "round64_pos y = of_int (round_half_even (y / pow2 v)) * pow2 v"
    by (simp_all add: round64_pos_def u_def v_def Let_def)
  have e: "rat_exponent x \<le> rat_exponent y"
  proof -
    have "pow2 (rat_exponent x) < pow2 (rat_exponent y + 1)"
      using rat_exponent_bounds [OF assms(1)] rat_exponent_bounds [OF y] assms(2) by linarith
    then show ?thesis by (simp add: pow2_less_iff)
  qed
  show ?thesis
  proof (cases "u = v")
    case True
    have "x / pow2 v \<le> y / pow2 v" using assms(2) by (simp add: divide_right_mono)
    then have "(of_int (round_half_even (x / pow2 v)) :: rat) \<le> of_int (round_half_even (y / pow2 v))"
      by (simp add: round_half_even_mono)
    then show ?thesis unfolding r True by (rule mult_right_mono) simp
  next
    case False
    then have uv: "u < v" "v = rat_exponent y - 52" using e by (auto simp: u_def v_def)
    then have "rat_exponent x + 1 \<le> rat_exponent y" using e by (auto simp: u_def v_def)
    then have xy: "x \<le> pow2 (rat_exponent y)"
      using rat_exponent_bounds [OF assms(1)] pow2_le [of "rat_exponent x + 1" "rat_exponent y"] by linarith
    have "pow2 (rat_exponent y) = pow2 (rat_exponent y - u) * pow2 u" by (simp flip: pow2_add)
    moreover have "pow2 (rat_exponent y - u) = of_int (2 ^ nat (rat_exponent y - u))"
      using uv by (simp add: pow2_def)
    ultimately have p: "pow2 (rat_exponent y) / pow2 u = of_int (2 ^ nat (rat_exponent y - u))" by simp
    have "x / pow2 u \<le> of_int (2 ^ nat (rat_exponent y - u))"
      using divide_right_mono [OF xy, of "pow2 u"] unfolding p by simp
    then have "round_half_even (x / pow2 u) \<le> 2 ^ nat (rat_exponent y - u)"
      using round_half_even_mono [of "x / pow2 u" "of_int (2 ^ nat (rat_exponent y - u))"]
      by (simp only: round_half_even_int)
    then have "(of_int (round_half_even (x / pow2 u)) :: rat) \<le> of_int (2 ^ nat (rat_exponent y - u))"
      by (simp only: of_int_le_iff)
    then have "round64_pos x \<le> of_int (2 ^ nat (rat_exponent y - u)) * pow2 u"
      unfolding r by (rule mult_right_mono) simp
    also have "\<dots> = pow2 (rat_exponent y)" unfolding p [symmetric] by simp
    also have "\<dots> = of_int (2 ^ 52) * pow2 v"
      using pow2_add [of 52 v] uv(2) by (simp add: pow2_def [of 52])
    also have "\<dots> \<le> round64_pos y"
    proof -
      have "pow2 52 * pow2 v \<le> y" using rat_exponent_bounds [OF y] uv(2) by (simp flip: pow2_add)
      then have "of_int (2 ^ 52) \<le> y / pow2 v" by (simp add: le_divide_eq pow2_def [of 52])
      then have "2 ^ 52 \<le> round_half_even (y / pow2 v)"
        using round_half_even_mono [of "of_int (2 ^ 52)" "y / pow2 v"] by (simp only: round_half_even_int)
      then have "(of_int (2 ^ 52) :: rat) \<le> of_int (round_half_even (y / pow2 v))" by (simp only: of_int_le_iff)
      then show ?thesis unfolding r by (rule mult_right_mono) simp
    qed
    finally show ?thesis .
  qed
qed

text \<open>A value with at most 53 significant bits, not too small, is its own rounding.\<close>

lemma round64_pos_exact:
  assumes "0 < m" "m < 2 ^ 53" "- 1074 \<le> e"
  shows "round64_pos (of_int m * pow2 e) = of_int m * pow2 e"
proof -
  let ?a = "of_int m * pow2 e"
  have a: "0 < ?a" using assms by simp
  let ?u = "max (rat_exponent ?a - 52) (- 1074)"
  have "(of_int m :: rat) < of_int (2 ^ 53)" using assms(2) by (simp only: of_int_less_iff)
  then have "of_int m < pow2 53" by (simp add: pow2_def)
  then have "?a < pow2 53 * pow2 e" by simp
  then have "pow2 (rat_exponent ?a) < pow2 (53 + e)"
    using rat_exponent_bounds [OF a] unfolding pow2_add [of 53] by linarith
  then have "rat_exponent ?a < 53 + e" by (simp add: pow2_less_iff)
  then have u: "?u \<le> e" using assms(3) by simp
  then have "pow2 e = pow2 (e - ?u) * pow2 ?u" by (simp flip: pow2_add)
  moreover have "pow2 (e - ?u) = of_int (2 ^ nat (e - ?u))" using u by (simp add: pow2_def)
  ultimately have "?a / pow2 ?u = of_int (m * 2 ^ nat (e - ?u))"
    by (simp add: nonzero_divide_eq_eq)
  then have "round_half_even (?a / pow2 ?u) = m * 2 ^ nat (e - ?u)"
    by (simp only: round_half_even_int)
  then show ?thesis
    unfolding round64_pos_def Let_def
    by (metis \<open>?a / pow2 ?u = of_int (m * 2 ^ nat (e - ?u))\<close> nonzero_eq_divide_eq pow2_nz)
qed

lemma round64_int:
  assumes "\<bar>i\<bar> < 2 ^ 53"
  shows "round64 (of_int i) = Fin (of_int i)"
proof -
  have small: "0 < j \<Longrightarrow> j < 2 ^ 53 \<Longrightarrow> round64_pos (of_int j) = of_int j \<and> of_int j < pow2 1024" for j
  proof -
    assume j: "0 < j" "j < 2 ^ 53"
    have "(of_int j :: rat) < of_int (2 ^ 53)" using j by (simp only: of_int_less_iff)
    also have "of_int (2 ^ 53) = pow2 53" by (simp add: pow2_def)
    also have "pow2 53 < pow2 1024" by (simp only: pow2_less_iff)
    finally show ?thesis using round64_pos_exact [OF j, of 0] by (simp add: pow2_def [of 0])
  qed
  consider "i = 0" | "0 < i" | "0 < - i" by linarith
  then show ?thesis
  proof cases
    case 2
    with small [of i] assms show ?thesis by (simp add: round64_def Let_def not_le)
  next
    case 3
    with small [of "- i"] assms show ?thesis by (simp add: round64_def Let_def not_le)
  qed (simp add: round64_def)
qed

lemma round64_0 [simp]: "round64 0 = Fin 0"
  by (simp add: round64_def)

lemma round64_1 [simp]: "round64 1 = Fin 1"
  using round64_int [of 1] by simp

lemma round64_numeral [simp]:
  "(numeral k :: int) < 2 ^ 53 \<Longrightarrow> round64 (numeral k) = Fin (numeral k)"
  using round64_int [of "numeral k"] by simp

lemma round64_exact:
  assumes "0 < m" "m < 2 ^ 53" "- 1074 \<le> e" "e \<le> 0"
  shows "round64 (of_int m * pow2 e) = Fin (of_int m * pow2 e)"
proof -
  have "(of_int m :: rat) < of_int (2 ^ 53)" using assms(2) by (simp only: of_int_less_iff)
  also have "of_int (2 ^ 53) = pow2 53" by (simp add: pow2_def)
  finally have m: "of_int m < pow2 53" .
  have "pow2 e \<le> pow2 0" using assms(4) by (simp only: pow2_le)
  then have "of_int m * pow2 e \<le> of_int m * 1" using assms(1) by (intro mult_left_mono) (simp_all add: pow2_def [of 0])
  moreover have "pow2 53 < pow2 1024" by (simp only: pow2_less_iff)
  ultimately have "of_int m * pow2 e < pow2 1024" using m by linarith
  moreover have "0 < of_int m * pow2 e" using assms(1) by simp
  ultimately show ?thesis
    using round64_pos_exact [OF assms(1-3)] by (simp add: round64_def Let_def not_le)
qed

text \<open>Evaluation need not search the exponent of a small integer.\<close>

lemma round64_code [code]:
  "round64 r = (case quotient_of r of (p, q) \<Rightarrow>
     if q = 1 \<and> \<bar>p\<bar> < 9007199254740992 then Fin r
     else if 0 < r
     then let v = round64_pos r in if pow2 1024 \<le> v then PosInf else Fin v
     else let v = round64_pos (- r) in if pow2 1024 \<le> v then NegInf else Fin (- v))"
proof -
  obtain p q where pq: "quotient_of r = (p, q)" by fastforce
  then have r: "r = of_int p / of_int q" by (rule quotient_of_div)
  show ?thesis
  proof (cases "q = 1 \<and> \<bar>p\<bar> < 9007199254740992")
    case True
    with r pq round64_int [of p] show ?thesis by simp
  next
    case False
    then have "r \<noteq> 0" using pq by (auto simp: rat_zero_code)
    with False pq show ?thesis by (auto simp: round64_def)
  qed
qed

text \<open>Rounding is off by at most the size of the number or 1, so it overflows only far out.\<close>

lemma round_half_even_bounds: "of_int (round_half_even r) \<le> r + 1"
  by (simp add: round_half_even_def Let_def) linarith

lemma round64_pos_bound:
  assumes "0 < a"
  shows "round64_pos a \<le> a + max a 1"
proof -
  define u where "u = max (rat_exponent a - 52) (- 1074)"
  have "round64_pos a \<le> (a / pow2 u + 1) * pow2 u"
    unfolding round64_pos_def Let_def u_def [symmetric]
    by (rule mult_right_mono) (simp_all add: round_half_even_bounds)
  then have "round64_pos a \<le> a + pow2 u" by (simp add: distrib_right)
  moreover have "pow2 u \<le> max a 1"
  proof (cases "u = - 1074")
    case True
    then show ?thesis using pow2_le [of "- 1074" 0] by (simp add: pow2_def [of 0] le_max_iff_disj)
  next
    case False
    then have "u \<le> rat_exponent a" by (simp add: u_def)
    then have "pow2 u \<le> a" using pow2_le rat_exponent_bounds [OF assms] order_trans by blast
    then show ?thesis by simp
  qed
  ultimately show ?thesis by linarith
qed

lemma round64_finite:
  assumes "\<bar>r\<bar> \<le> 2 ^ 100"
  shows "\<exists>v. round64 r = Fin v \<and> \<bar>v\<bar> \<le> \<bar>r\<bar> + max \<bar>r\<bar> 1 \<and> (0 \<le> r \<longrightarrow> 0 \<le> v)"
proof -
  have small: "round64_pos a < pow2 1024" if "0 < a" "a \<le> 2 ^ 100" for a
  proof -
    have "round64_pos a \<le> 2 ^ 101" using round64_pos_bound [OF that(1)] that(2) by simp
    also have "(2 :: rat) ^ 101 = pow2 101" by (simp add: pow2_def)
    also have "pow2 101 < pow2 1024" by (simp only: pow2_less_iff)
    finally show ?thesis .
  qed
  consider "r = 0" | "0 < r" | "0 < - r" by linarith
  then show ?thesis
  proof cases
    case 2
    then show ?thesis
      using small [of r] round64_pos_bound [of r] round64_pos_nonneg [of r] assms
      by (simp add: round64_def Let_def not_le)
  next
    case 3
    then show ?thesis
      using small [of "- r"] round64_pos_bound [of "- r"] round64_pos_nonneg [of "- r"] assms
      by (simp add: round64_def Let_def not_le)
  qed simp
qed

section \<open>Comparison and arithmetic\<close>

text \<open>Every comparison with NaN is false.\<close>

fun js_less :: "jsnum \<Rightarrow> jsnum \<Rightarrow> bool" where
  "js_less (Fin x) (Fin y) = (x < y)"
| "js_less NaN _ = False"
| "js_less _ NaN = False"
| "js_less NegInf y = (y \<noteq> NegInf)"
| "js_less x PosInf = (x \<noteq> PosInf)"
| "js_less _ _ = False"

fun js_eq :: "jsnum \<Rightarrow> jsnum \<Rightarrow> bool" where
  "js_eq NaN _ = False"
| "js_eq x y = (x = y)"

definition js_le :: "jsnum \<Rightarrow> jsnum \<Rightarrow> bool" where
  "js_le x y \<longleftrightarrow> js_less x y \<or> js_eq x y"

definition js_int :: "int \<Rightarrow> jsnum" where
  "js_int i = round64 (of_int i)"

definition js_isFinite :: "jsnum \<Rightarrow> bool" where
  "js_isFinite x = (case x of Fin _ \<Rightarrow> True | _ \<Rightarrow> False)"

fun js_neg :: "jsnum \<Rightarrow> jsnum" where
  "js_neg NaN = NaN" | "js_neg PosInf = NegInf" | "js_neg NegInf = PosInf" | "js_neg (Fin x) = Fin (- x)"

fun js_add :: "jsnum \<Rightarrow> jsnum \<Rightarrow> jsnum" where
  "js_add (Fin x) (Fin y) = round64 (x + y)"
| "js_add NaN _ = NaN"
| "js_add _ NaN = NaN"
| "js_add PosInf y = (if y = NegInf then NaN else PosInf)"
| "js_add NegInf y = (if y = PosInf then NaN else NegInf)"
| "js_add (Fin _) y = y"

definition js_sub :: "jsnum \<Rightarrow> jsnum \<Rightarrow> jsnum" where
  "js_sub x y = js_add x (js_neg y)"

definition js_signed_inf :: "bool \<Rightarrow> jsnum" where
  "js_signed_inf neg = (if neg then NegInf else PosInf)"

definition js_negative :: "jsnum \<Rightarrow> bool" where
  "js_negative x = (case x of NegInf \<Rightarrow> True | Fin r \<Rightarrow> r < 0 | _ \<Rightarrow> False)"

fun js_mul :: "jsnum \<Rightarrow> jsnum \<Rightarrow> jsnum" where
  "js_mul (Fin x) (Fin y) = round64 (x * y)"
| "js_mul NaN _ = NaN"
| "js_mul _ NaN = NaN"
| "js_mul x y = (if x = Fin 0 \<or> y = Fin 0 then NaN else js_signed_inf (js_negative x \<noteq> js_negative y))"

fun js_div :: "jsnum \<Rightarrow> jsnum \<Rightarrow> jsnum" where
  "js_div (Fin x) (Fin y) = (if y = 0 then if x = 0 then NaN else js_signed_inf (x < 0) else round64 (x / y))"
| "js_div NaN _ = NaN"
| "js_div _ NaN = NaN"
| "js_div (Fin _) _ = Fin 0"
| "js_div x (Fin y) = js_signed_inf (js_negative x \<noteq> (y < 0))"
| "js_div _ _ = NaN"

text \<open>\<open>Math.floor\<close>, \<open>Math.round\<close> (halves up), \<open>Math.min\<close>, \<open>Math.max\<close>.\<close>

fun math_floor :: "jsnum \<Rightarrow> jsnum" where
  "math_floor (Fin x) = Fin (of_int \<lfloor>x\<rfloor>)" | "math_floor x = x"

fun math_ceil :: "jsnum \<Rightarrow> jsnum" where
  "math_ceil (Fin x) = Fin (of_int \<lceil>x\<rceil>)" | "math_ceil x = x"

fun math_round :: "jsnum \<Rightarrow> jsnum" where
  "math_round (Fin x) = Fin (of_int \<lfloor>x + 1 / 2\<rfloor>)" | "math_round x = x"

definition math_min :: "jsnum \<Rightarrow> jsnum \<Rightarrow> jsnum" where
  "math_min x y = (if x = NaN \<or> y = NaN then NaN else if js_less y x then y else x)"

definition math_max :: "jsnum \<Rightarrow> jsnum \<Rightarrow> jsnum" where
  "math_max x y = (if x = NaN \<or> y = NaN then NaN else if js_less x y then y else x)"

lemma js_less_irrefl [simp]: "\<not> js_less x x"
  by (cases x) simp_all

lemma js_less_trans: "js_less x y \<Longrightarrow> js_less y z \<Longrightarrow> js_less x z"
  by (cases x; cases y; cases z) auto

lemma js_le_trans: "js_le x y \<Longrightarrow> js_le y z \<Longrightarrow> js_le x z"
  unfolding js_le_def by (cases x; cases y; cases z) auto

lemma js_le_NaN [simp]: "\<not> js_le NaN x" "\<not> js_le x NaN"
  by (cases x; simp add: js_le_def)+

lemma js_le_Fin [simp]: "js_le (Fin x) (Fin y) \<longleftrightarrow> x \<le> y"
  by (auto simp: js_le_def)

lemma js_not_less: "x \<noteq> NaN \<Longrightarrow> y \<noteq> NaN \<Longrightarrow> \<not> js_less x y \<longleftrightarrow> js_le y x"
  by (cases x; cases y) (auto simp: js_le_def)

lemma math_min_le: "x \<noteq> NaN \<Longrightarrow> y \<noteq> NaN \<Longrightarrow> js_le (math_min x y) x \<and> js_le (math_min x y) y"
  by (cases x; cases y) (auto simp: math_min_def js_le_def)

lemma round64_mono:
  assumes "x \<le> y"
  shows "js_le (round64 x) (round64 y)"
proof -
  have n: "0 \<le> round64_pos a" if "0 < a" for a by (rule round64_pos_nonneg [OF that])
  consider "0 < x" | "x = 0" | "x < 0" "0 < y" | "x < 0" "y = 0" | "x < 0" "y < 0" by linarith
  then show ?thesis
  proof cases
    case 1
    then show ?thesis using assms round64_pos_mono [OF 1 assms]
      by (auto simp: round64_def Let_def js_le_def)
  next
    case 2
    then show ?thesis using assms n [of y] by (auto simp: round64_def Let_def js_le_def)
  next
    case 3
    then show ?thesis using n [of y] n [of "- x"] by (auto simp: round64_def Let_def js_le_def)
  next
    case 4
    then show ?thesis using n [of "- x"] by (auto simp: round64_def Let_def js_le_def)
  next
    case 5
    then show ?thesis using round64_pos_mono [of "- y" "- x"] assms
      by (auto simp: round64_def Let_def js_le_def)
  qed
qed

section \<open>Decimal text\<close>

definition is_digit :: "char \<Rightarrow> bool" where
  "is_digit c \<longleftrightarrow> 48 \<le> (of_char c :: nat) \<and> (of_char c :: nat) \<le> 57"

definition digit_value :: "char \<Rightarrow> int" where
  "digit_value c = of_char c - 48"

definition digits_value :: "string \<Rightarrow> int" where
  "digits_value ds = foldl (\<lambda>n c. 10 * n + digit_value c) 0 ds"

definition is_js_space :: "char \<Rightarrow> bool" where
  "is_js_space c \<longleftrightarrow> (of_char c :: nat) \<in> {9, 10, 11, 12, 13, 32, 160}"

definition pow10 :: "int \<Rightarrow> rat" where
  "pow10 e = (if 0 \<le> e then 10 ^ nat e else 1 / 10 ^ nat (- e))"

definition split_sign :: "string \<Rightarrow> bool \<times> string" where
  "split_sign s = (case s of c # r \<Rightarrow> if c = CHR ''-'' then (True, r) else if c = CHR ''+'' then (False, r) else (False, s)
     | [] \<Rightarrow> (False, s))"

text \<open>The exponent part counts only when digits follow it.\<close>

definition parse_exponent :: "string \<Rightarrow> int" where
  "parse_exponent s = (case s of [] \<Rightarrow> 0
     | c # r \<Rightarrow> if c \<noteq> CHR ''e'' \<and> c \<noteq> CHR ''E'' then 0
        else case split_sign r of (neg, r') \<Rightarrow>
          let ds = takeWhile is_digit r' in
          if neg then - digits_value ds else digits_value ds)"

text \<open>The longest decimal literal at the start of the text, as an exact rational.\<close>

definition parse_decimal :: "string \<Rightarrow> rat option" where
  "parse_decimal s =
     (let ip = takeWhile is_digit s; r1 = dropWhile is_digit s;
          dot = (case r1 of c # _ \<Rightarrow> c = CHR ''.'' | [] \<Rightarrow> False);
          fp = (if dot then takeWhile is_digit (tl r1) else []);
          r2 = (if dot then dropWhile is_digit (tl r1) else r1)
      in if ip = [] \<and> fp = [] then None
         else Some (of_int (digits_value (ip @ fp)) * pow10 (parse_exponent r2 - int (length fp))))"

definition parseFloat :: "string \<Rightarrow> jsnum" where
  "parseFloat s =
     (case split_sign (dropWhile is_js_space s) of (neg, r) \<Rightarrow>
        if take 8 r = ''Infinity'' then js_signed_inf neg
        else case parse_decimal r of None \<Rightarrow> NaN | Some x \<Rightarrow> round64 (if neg then - x else x))"

text \<open>\<open>parseInt(s, 10)\<close>.\<close>

definition parseInt10 :: "string \<Rightarrow> jsnum" where
  "parseInt10 s =
     (case split_sign (dropWhile is_js_space s) of (neg, r) \<Rightarrow>
        let ds = takeWhile is_digit r in
        if ds = [] then NaN else round64 (of_int (if neg then - digits_value ds else digits_value ds)))"

text \<open>\<open>toFixed(f)\<close> for a finite number below \<open>10^21\<close> in size.\<close>

definition pad_left :: "nat \<Rightarrow> char \<Rightarrow> string \<Rightarrow> string" where
  "pad_left n c s = replicate (n - length s) c @ s"

definition toFixed :: "nat \<Rightarrow> rat \<Rightarrow> string" where
  "toFixed f x =
     (let n = nat \<lfloor>\<bar>x\<bar> * 10 ^ f + 1 / 2\<rfloor>;
          body = (if f = 0 then show_nat n
                  else let d = pad_left (f + 1) (CHR ''0'') (show_nat n)
                       in take (length d - f) d @ ''.'' @ drop (length d - f) d)
      in (if x < 0 then CHR ''-'' # body else body))"

end
