(* ===== verification/Feature_Flags.thy ===== *)
theory Feature_Flags
  imports JsNumber "HOL-Library.Word"
begin

text \<open>
  \<open>backend/src/services/feature-flag.service.ts\<close> (with \<open>redis.service.ts\<close>, the JSON layer
  it stores through): feature flags in the memory of an instance and in a Redis shared by
  the instances, the decision for a user, and the 32-bit hash behind the gradual rollout.

  The Redis client is a parameter: four operations on a state of its own, each of which
  may fail. A JSON text in Redis is represented by the document it parses to; storing a
  flag turns its dates into ISO strings and a percentage that is not finite into null.
\<close>

section \<open>Data\<close>

datatype js_date = DateObj int | DateIso int

datatype rollout = NoRollout | NullRollout | Rollout jsnum

record feature_flag =
  ff_name :: string
  ff_enabled :: bool
  ff_description :: string
  ff_rolloutPercentage :: rollout
  ff_targetUsers :: "string list option"
  ff_whitelistedUserIds :: "string list option"
  ff_createdAt :: "js_date option"
  ff_updatedAt :: "js_date option"

record flag_context =
  fc_userId :: "string option"
  fc_account :: "string option"

section \<open>The Redis client and RedisService\<close>

datatype flag_doc = FlagDoc feature_flag | FlagsDoc "feature_flag list"

record 'w redis_client =
  rc_get :: "string \<Rightarrow> 'w \<Rightarrow> (string + flag_doc option) \<times> 'w"
  rc_set :: "string \<Rightarrow> flag_doc \<Rightarrow> 'w \<Rightarrow> (string + unit) \<times> 'w"
  rc_expire :: "string \<Rightarrow> int \<Rightarrow> 'w \<Rightarrow> (string + unit) \<times> 'w"
  rc_del :: "string \<Rightarrow> 'w \<Rightarrow> (string + int) \<times> 'w"

text \<open>\<open>JSON.parse(JSON.stringify(x))\<close>.\<close>

definition clone_date :: "js_date \<Rightarrow> js_date" where
  "clone_date d = (case d of DateObj t \<Rightarrow> DateIso t | DateIso t \<Rightarrow> DateIso t)"

definition clone_rollout :: "rollout \<Rightarrow> rollout" where
  "clone_rollout r = (case r of Rollout p \<Rightarrow> if js_isFinite p then r else NullRollout | _ \<Rightarrow> r)"

definition clone_flag :: "feature_flag \<Rightarrow> feature_flag" where
  "clone_flag f = f\<lparr>ff_rolloutPercentage := clone_rollout (ff_rolloutPercentage f),
     ff_createdAt := map_option clone_date (ff_createdAt f),
     ff_updatedAt := map_option clone_date (ff_updatedAt f)\<rparr>"

definition clone_doc :: "flag_doc \<Rightarrow> flag_doc" where
  "clone_doc d = (case d of FlagDoc f \<Rightarrow> FlagDoc (clone_flag f) | FlagsDoc fs \<Rightarrow> FlagsDoc (List.map clone_flag fs))"

definition redis_getJSON :: "'w redis_client \<Rightarrow> string \<Rightarrow> 'w \<Rightarrow> (string + flag_doc option) \<times> 'w" where
  "redis_getJSON rc key w = rc_get rc key w"

definition redis_setJSON :: "'w redis_client \<Rightarrow> string \<Rightarrow> flag_doc \<Rightarrow> int option \<Rightarrow> 'w
    \<Rightarrow> (string + unit) \<times> 'w" where
  "redis_setJSON rc key doc ttl w =
     (case rc_set rc key (clone_doc doc) w of
        (Inl e, w1) \<Rightarrow> (Inl e, w1)
      | (Inr _, w1) \<Rightarrow> (case ttl of None \<Rightarrow> (Inr (), w1) | Some s \<Rightarrow> rc_expire rc key s w1))"

definition redis_del :: "'w redis_client \<Rightarrow> string \<Rightarrow> 'w \<Rightarrow> (string + int) \<times> 'w" where
  "redis_del rc key w = rc_del rc key w"

section \<open>The service: stored flags\<close>

text \<open>One instance of the service: its own map, and the Redis it shares with the others.\<close>

record 'w flag_state =
  fs_flags :: "(string, feature_flag) jsmap"
  fs_redis :: 'w

definition REDIS_PREFIX :: string where "REDIS_PREFIX = ''feature_flag:''"
definition REDIS_CACHE_KEY :: string where "REDIS_CACHE_KEY = ''feature_flags_all''"
definition CACHE_TTL :: int where "CACHE_TTL = 300"

text \<open>\<open>getFlag\<close>: Redis first, then the instance's own map; an error is no flag.\<close>

definition getFlag :: "'w redis_client option \<Rightarrow> string \<Rightarrow> 'w flag_state
    \<Rightarrow> feature_flag option \<times> 'w flag_state" where
  "getFlag rco flagName s =
     (case rco of
        None \<Rightarrow> (js_get (fs_flags s) flagName, s)
      | Some rc \<Rightarrow>
          (case redis_getJSON rc (REDIS_PREFIX @ flagName) (fs_redis s) of
             (Inl e, w) \<Rightarrow> (None, s\<lparr>fs_redis := w\<rparr>)
           | (Inr (Some (FlagDoc f)), w) \<Rightarrow> (Some f, s\<lparr>fs_redis := w\<rparr>)
           | (Inr _, w) \<Rightarrow> (js_get (fs_flags s) flagName, s\<lparr>fs_redis := w\<rparr>)))"

definition getAllFlags :: "'w redis_client option \<Rightarrow> 'w flag_state \<Rightarrow> feature_flag list \<times> 'w flag_state" where
  "getAllFlags rco s =
     (let flags = js_values (fs_flags s) in
      case rco of
        None \<Rightarrow> (flags, s)
      | Some rc \<Rightarrow>
          (case redis_getJSON rc REDIS_CACHE_KEY (fs_redis s) of
             (Inl e, w) \<Rightarrow> ([], s\<lparr>fs_redis := w\<rparr>)
           | (Inr (Some (FlagsDoc fs)), w) \<Rightarrow> (fs, s\<lparr>fs_redis := w\<rparr>)
           | (Inr _, w) \<Rightarrow>
               if flags = [] then (flags, s\<lparr>fs_redis := w\<rparr>)
               else (case redis_setJSON rc REDIS_CACHE_KEY (FlagsDoc flags) (Some CACHE_TTL) w of
                       (Inl e, w') \<Rightarrow> ([], s\<lparr>fs_redis := w'\<rparr>)
                     | (Inr _, w') \<Rightarrow> (flags, s\<lparr>fs_redis := w'\<rparr>))))"

definition stamp_flag :: "int \<Rightarrow> feature_flag \<Rightarrow> feature_flag" where
  "stamp_flag now flag = flag\<lparr>
     ff_createdAt := (case ff_createdAt flag of None \<Rightarrow> Some (DateObj now) | c \<Rightarrow> c),
     ff_updatedAt := Some (DateObj now)\<rparr>"

definition setFlag :: "'w redis_client option \<Rightarrow> int \<Rightarrow> string \<Rightarrow> feature_flag \<Rightarrow> 'w flag_state
    \<Rightarrow> (string + unit) \<times> 'w flag_state" where
  "setFlag rco now flagName flag s =
     (let f = stamp_flag now flag; s1 = s\<lparr>fs_flags := js_set flagName f (fs_flags s)\<rparr> in
      case rco of
        None \<Rightarrow> (Inr (), s1)
      | Some rc \<Rightarrow>
          (case redis_setJSON rc (REDIS_PREFIX @ flagName) (FlagDoc f) None (fs_redis s1) of
             (Inl e, w) \<Rightarrow> (Inl e, s1\<lparr>fs_redis := w\<rparr>)
           | (Inr _, w) \<Rightarrow>
               (case redis_del rc REDIS_CACHE_KEY w of
                  (Inl e, w') \<Rightarrow> (Inl e, s1\<lparr>fs_redis := w'\<rparr>)
                | (Inr _, w') \<Rightarrow> (Inr (), s1\<lparr>fs_redis := w'\<rparr>))))"

definition deleteFlag :: "'w redis_client option \<Rightarrow> string \<Rightarrow> 'w flag_state
    \<Rightarrow> (string + unit) \<times> 'w flag_state" where
  "deleteFlag rco flagName s =
     (let s1 = s\<lparr>fs_flags := js_delete flagName (fs_flags s)\<rparr> in
      case rco of
        None \<Rightarrow> (Inr (), s1)
      | Some rc \<Rightarrow>
          (case redis_del rc (REDIS_PREFIX @ flagName) (fs_redis s1) of
             (Inl e, w) \<Rightarrow> (Inl e, s1\<lparr>fs_redis := w\<rparr>)
           | (Inr _, w) \<Rightarrow>
               (case redis_del rc REDIS_CACHE_KEY w of
                  (Inl e, w') \<Rightarrow> (Inl e, s1\<lparr>fs_redis := w'\<rparr>)
                | (Inr _, w') \<Rightarrow> (Inr (), s1\<lparr>fs_redis := w'\<rparr>))))"

text \<open>The operations that read a flag, change it and store it again.\<close>

definition modifyFlag :: "(feature_flag \<Rightarrow> feature_flag) \<Rightarrow> 'w redis_client option \<Rightarrow> int \<Rightarrow> string
    \<Rightarrow> 'w flag_state \<Rightarrow> (string + unit) \<times> 'w flag_state" where
  "modifyFlag f rco now flagName s =
     (case getFlag rco flagName s of
        (None, s1) \<Rightarrow> (Inr (), s1)
      | (Some flag, s1) \<Rightarrow> setFlag rco now flagName (f flag) s1)"

definition enableFlag :: "'w redis_client option \<Rightarrow> int \<Rightarrow> string \<Rightarrow> 'w flag_state
    \<Rightarrow> (string + unit) \<times> 'w flag_state" where
  "enableFlag = modifyFlag (\<lambda>f. f\<lparr>ff_enabled := True\<rparr>)"

definition disableFlag :: "'w redis_client option \<Rightarrow> int \<Rightarrow> string \<Rightarrow> 'w flag_state
    \<Rightarrow> (string + unit) \<times> 'w flag_state" where
  "disableFlag = modifyFlag (\<lambda>f. f\<lparr>ff_enabled := False\<rparr>)"

definition updateRolloutPercentage :: "'w redis_client option \<Rightarrow> int \<Rightarrow> string \<Rightarrow> jsnum
    \<Rightarrow> 'w flag_state \<Rightarrow> (string + unit) \<times> 'w flag_state" where
  "updateRolloutPercentage rco now flagName percentage s =
     (if js_less percentage (Fin 0) \<or> js_less (Fin 100) percentage
      then (Inl ''Rollout percentage must be between 0 and 100'', s)
      else modifyFlag (\<lambda>f. f\<lparr>ff_rolloutPercentage := Rollout percentage\<rparr>) rco now flagName s)"

definition users_or_empty :: "string list option \<Rightarrow> string list" where
  "users_or_empty us = (case us of None \<Rightarrow> [] | Some l \<Rightarrow> l)"

definition addTargetUsers :: "'w redis_client option \<Rightarrow> int \<Rightarrow> string \<Rightarrow> string list
    \<Rightarrow> 'w flag_state \<Rightarrow> (string + unit) \<times> 'w flag_state" where
  "addTargetUsers rco now flagName userIds =
     modifyFlag (\<lambda>f. f\<lparr>ff_targetUsers := Some (set_of_array (users_or_empty (ff_targetUsers f) @ userIds))\<rparr>)
       rco now flagName"

definition removeTargetUsers :: "'w redis_client option \<Rightarrow> int \<Rightarrow> string \<Rightarrow> string list
    \<Rightarrow> 'w flag_state \<Rightarrow> (string + unit) \<times> 'w flag_state" where
  "removeTargetUsers rco now flagName userIds =
     modifyFlag (\<lambda>f. f\<lparr>ff_targetUsers :=
         Some (filter (\<lambda>u. u \<notin> set userIds) (set_of_array (users_or_empty (ff_targetUsers f))))\<rparr>)
       rco now flagName"

text \<open>\<open>initialize\<close>: the default flags that are not stored yet, in the order of the map.\<close>

fun initialize :: "'w redis_client option \<Rightarrow> int \<Rightarrow> (string, feature_flag) jsmap \<Rightarrow> 'w flag_state
    \<Rightarrow> (string + unit) \<times> 'w flag_state" where
  "initialize rco now [] s = (Inr (), s)"
| "initialize rco now ((name, flag) # ds) s =
     (case getFlag rco name s of
        (Some _, s1) \<Rightarrow> initialize rco now ds s1
      | (None, s1) \<Rightarrow>
          (case setFlag rco now name flag s1 of
             (Inl e, s2) \<Rightarrow> (Inl e, s2)
           | (Inr _, s2) \<Rightarrow> initialize rco now ds s2))"

section \<open>The decision for a user\<close>

text \<open>
  \<open>hashString\<close>: \<open>(hash << 5) - hash + char\<close> cut to 32 bits in every round. The exact sum
  is below \<open>2^53\<close>, so cutting it is the same as computing on 32-bit words.
\<close>

definition hash_round :: "32 word \<Rightarrow> char \<Rightarrow> 32 word" where
  "hash_round h c = push_bit 5 h - h + of_nat (of_char c)"

definition hashString :: "string \<Rightarrow> int" where
  "hashString str = \<bar>sint (foldl hash_round 0 str)\<bar>"

definition isWithinRollout :: "string \<Rightarrow> string \<Rightarrow> rollout \<Rightarrow> bool" where
  "isWithinRollout identifier flagName percentage =
     (let hash = hashString (identifier @ '':'' @ flagName);
          hashPercentage = Fin (of_int (hash mod 100 + 1))
      in case percentage of Rollout p \<Rightarrow> js_le hashPercentage p | _ \<Rightarrow> js_le hashPercentage (Fin 0))"

text \<open>\<open>context?.userId || context?.account\<close>: the empty string is falsy.\<close>

definition contextIdentifier :: "flag_context option \<Rightarrow> string option" where
  "contextIdentifier ctx = (case ctx of None \<Rightarrow> None
     | Some c \<Rightarrow> (case truthy_str (fc_userId c) of None \<Rightarrow> truthy_str (fc_account c) | u \<Rightarrow> u))"

definition rollout_below_100 :: "rollout \<Rightarrow> bool" where
  "rollout_below_100 r = (case r of NoRollout \<Rightarrow> False | NullRollout \<Rightarrow> True | Rollout p \<Rightarrow> js_less p (Fin 100))"

definition whitelisted :: "feature_flag \<Rightarrow> flag_context option \<Rightarrow> bool" where
  "whitelisted flag ctx =
     (case ff_whitelistedUserIds flag of None \<Rightarrow> False
      | Some ids \<Rightarrow> ids \<noteq> [] \<and> (case contextIdentifier ctx of None \<Rightarrow> False | Some u \<Rightarrow> u \<in> set ids))"

definition rolled_out :: "feature_flag \<Rightarrow> string \<Rightarrow> flag_context option \<Rightarrow> bool" where
  "rolled_out flag flagName ctx =
     (rollout_below_100 (ff_rolloutPercentage flag) \<longrightarrow>
        isWithinRollout (case contextIdentifier ctx of None \<Rightarrow> ''anonymous'' | Some u \<Rightarrow> u)
          flagName (ff_rolloutPercentage flag))"

definition targeted :: "feature_flag \<Rightarrow> flag_context option \<Rightarrow> bool" where
  "targeted flag ctx =
     (case ff_targetUsers flag of None \<Rightarrow> True
      | Some us \<Rightarrow> us = [] \<or> (case contextIdentifier ctx of None \<Rightarrow> True | Some u \<Rightarrow> u \<in> set us))"

definition flag_decision :: "feature_flag \<Rightarrow> string \<Rightarrow> flag_context option \<Rightarrow> bool" where
  "flag_decision flag flagName ctx =
     (if \<not> ff_enabled flag then False
      else if whitelisted flag ctx then True
      else if \<not> rolled_out flag flagName ctx then False
      else if \<not> targeted flag ctx then False
      else True)"

definition isEnabled :: "'w redis_client option \<Rightarrow> string \<Rightarrow> flag_context option \<Rightarrow> 'w flag_state
    \<Rightarrow> bool \<times> 'w flag_state" where
  "isEnabled rco flagName ctx s =
     (case getFlag rco flagName s of
        (None, s1) \<Rightarrow> (False, s1)
      | (Some flag, s1) \<Rightarrow> (flag_decision flag flagName ctx, s1))"

section \<open>The hash\<close>

text \<open>The reference: the polynomial in 31 over the character codes, without wrap-around.\<close>

definition poly31 :: "string \<Rightarrow> int" where
  "poly31 str = foldl (\<lambda>h c. 31 * h + of_char c) 0 str"

lemma hash_round_poly: "hash_round (word_of_int h) c = word_of_int (31 * h + of_char c)"
proof -
  have "push_bit 5 (word_of_int h :: 32 word) = 32 * word_of_int h"
    by (simp add: push_bit_eq_mult mult.commute)
  moreover have "of_nat (of_char c) = (word_of_int (of_char c) :: 32 word)"
    by (simp only: of_nat_of_char [where ?'a = int, symmetric] of_int_of_nat_eq)
  ultimately show ?thesis
    by (simp add: hash_round_def algebra_simps flip: wi_hom_syms)
qed

lemma hash_fold_poly:
  "foldl hash_round (word_of_int h) str = word_of_int (foldl (\<lambda>h c. 31 * h + of_char c) h str)"
  by (induction str arbitrary: h) (simp_all only: foldl_Nil foldl_Cons hash_round_poly)

lemma hashString_bounds: "0 \<le> hashString str \<and> hashString str \<le> 2 ^ 31"
  using sint_ge [of "foldl hash_round 0 str"] sint_lt [of "foldl hash_round 0 str"]
  by (simp add: hashString_def)

text \<open>The bucket of a user for a flag, between 1 and 100.\<close>

definition user_bucket :: "string \<Rightarrow> string \<Rightarrow> int" where
  "user_bucket identifier flagName = hashString (identifier @ '':'' @ flagName) mod 100 + 1"

lemma user_bucket_range: "1 \<le> user_bucket u n \<and> user_bucket u n \<le> 100"
  using pos_mod_bound [of 100 "hashString (u @ '':'' @ n)"] pos_mod_sign [of 100 "hashString (u @ '':'' @ n)"]
  by (simp add: user_bucket_def)

lemma isWithinRollout_bucket:
  "isWithinRollout u n (Rollout p) = js_le (Fin (of_int (user_bucket u n))) p"
  by (simp add: isWithinRollout_def user_bucket_def Let_def)

lemma rolled_out_mono:
  assumes "rolled_out (f\<lparr>ff_rolloutPercentage := Rollout p\<rparr>) n ctx" "js_le p q"
  shows "rolled_out (f\<lparr>ff_rolloutPercentage := Rollout q\<rparr>) n ctx"
proof (cases "js_less p (Fin 100)")
  case True
  with assms show ?thesis
    by (auto simp: rolled_out_def rollout_below_100_def isWithinRollout_bucket intro: js_le_trans)
next
  case False
  with assms(2) have "\<not> js_less q (Fin 100)"
    by (cases p; cases q) (auto simp: js_le_def)
  then show ?thesis by (simp add: rolled_out_def rollout_below_100_def)
qed

text \<open>
  What the service relies on of Redis: \<open>view\<close> tells what a key holds; a read gives it and
  changes nothing, a write that does not fail stores, a delete that does not fail removes.
\<close>

definition redis_ok :: "'w redis_client \<Rightarrow> ('w \<Rightarrow> string \<Rightarrow> flag_doc option) \<Rightarrow> bool" where
  "redis_ok rc view \<longleftrightarrow>
     (\<forall>k w r w'. rc_get rc k w = (r, w') \<longrightarrow> view w' = view w \<and> (\<forall>d. r = Inr d \<longrightarrow> d = view w k)) \<and>
     (\<forall>k d w w'. rc_set rc k d w = (Inr (), w') \<longrightarrow> view w' = (view w)(k \<mapsto> d)) \<and>
     (\<forall>k t w r w'. rc_expire rc k t w = (r, w') \<longrightarrow> view w' = view w) \<and>
     (\<forall>k w n w'. rc_del rc k w = (Inr n, w') \<longrightarrow> view w' = (view w)(k := None))"

lemma redis_getD:
  "redis_ok rc view \<Longrightarrow> rc_get rc k w = (r, w') \<Longrightarrow> view w' = view w \<and> (\<forall>d. r = Inr d \<longrightarrow> d = view w k)"
  unfolding redis_ok_def by blast

lemma redis_setD: "redis_ok rc view \<Longrightarrow> rc_set rc k d w = (Inr (), w') \<Longrightarrow> view w' = (view w)(k \<mapsto> d)"
  unfolding redis_ok_def by blast

lemma redis_delD: "redis_ok rc view \<Longrightarrow> rc_del rc k w = (Inr n, w') \<Longrightarrow> view w' = (view w)(k := None)"
  unfolding redis_ok_def by blast

lemma flag_key_not_cache: "REDIS_PREFIX @ n \<noteq> REDIS_CACHE_KEY"
  by (simp add: REDIS_PREFIX_def REDIS_CACHE_KEY_def)

lemma setFlag_view:
  assumes ok: "redis_ok rc view" and set: "setFlag (Some rc) now n f s = (Inr (), s')"
  shows "fs_flags s' = js_set n (stamp_flag now f) (fs_flags s) \<and>
    view (fs_redis s') = (view (fs_redis s))(REDIS_PREFIX @ n \<mapsto> FlagDoc (clone_flag (stamp_flag now f)),
      REDIS_CACHE_KEY := None)"
proof -
  let ?k = "REDIS_PREFIX @ n" and ?d = "FlagDoc (clone_flag (stamp_flag now f))"
  obtain w u w' where 1: "rc_set rc ?k ?d (fs_redis s) = (Inr (), w)"
    and 2: "rc_del rc REDIS_CACHE_KEY w = (Inr u, w')"
    and s': "s' = s\<lparr>fs_flags := js_set n (stamp_flag now f) (fs_flags s), fs_redis := w'\<rparr>"
    using set unfolding setFlag_def redis_setJSON_def redis_del_def clone_doc_def Let_def
    by (cases "rc_set rc ?k ?d (fs_redis s)"; cases "fst (rc_set rc ?k ?d (fs_redis s))";
        cases "rc_del rc REDIS_CACHE_KEY (snd (rc_set rc ?k ?d (fs_redis s)))";
        cases "fst (rc_del rc REDIS_CACHE_KEY (snd (rc_set rc ?k ?d (fs_redis s))))") auto
  with redis_setD [OF ok 1] redis_delD [OF ok 2] show ?thesis by simp
qed

lemma deleteFlag_view:
  assumes ok: "redis_ok rc view" and del: "deleteFlag (Some rc) n s = (Inr (), s')"
  shows "fs_flags s' = js_delete n (fs_flags s) \<and>
    view (fs_redis s') = (view (fs_redis s))(REDIS_PREFIX @ n := None, REDIS_CACHE_KEY := None)"
proof -
  let ?k = "REDIS_PREFIX @ n"
  obtain v w u w' where 1: "rc_del rc (REDIS_PREFIX @ n) (fs_redis s) = (Inr v, w)"
    and 2: "rc_del rc REDIS_CACHE_KEY w = (Inr u, w')"
    and s': "s' = s\<lparr>fs_flags := js_delete n (fs_flags s), fs_redis := w'\<rparr>"
    using del unfolding deleteFlag_def redis_del_def Let_def
    by (cases "rc_del rc ?k (fs_redis s)"; cases "fst (rc_del rc ?k (fs_redis s))";
        cases "rc_del rc REDIS_CACHE_KEY (snd (rc_del rc ?k (fs_redis s)))";
        cases "fst (rc_del rc REDIS_CACHE_KEY (snd (rc_del rc ?k (fs_redis s))))") auto
  with redis_delD [OF ok 1] redis_delD [OF ok 2] show ?thesis by simp
qed

text \<open>What an instance reads, when the read does not fail.\<close>

lemma getFlag_view:
  assumes "redis_ok rc view" "rc_get rc (REDIS_PREFIX @ n) (fs_redis s) = (Inr d, w)"
  shows "fst (getFlag (Some rc) n s) =
    (case view (fs_redis s) (REDIS_PREFIX @ n) of Some (FlagDoc f) \<Rightarrow> Some f | _ \<Rightarrow> js_get (fs_flags s) n)"
  using redis_getD [OF assms] assms(2)
  by (auto simp: getFlag_def redis_getJSON_def split: option.splits flag_doc.splits)

text \<open>When the read fails the flag counts as absent, although the instance may hold it itself.\<close>

lemma getFlag_outage:
  "rc_get rc (REDIS_PREFIX @ n) (fs_redis s) = (Inl e, w) \<Longrightarrow>
     fst (getFlag (Some rc) n s) = None \<and> \<not> fst (isEnabled (Some rc) n ctx s)"
  by (simp add: isEnabled_def getFlag_def redis_getJSON_def)

section \<open>Properties\<close>

text \<open>\<open>hashString\<close> computes, with wrap-around at 32 bits in every round, the absolute value of
  the 32-bit remainder of the polynomial in 31 over the characters; so it lies between 0 and
  \<open>2^31\<close> and gives every user a bucket between 1 and 100.\<close>

theorem hashString_is_poly31:
  "hashString str = \<bar>sint (word_of_int (poly31 str) :: 32 word)\<bar> \<and>
   0 \<le> hashString str \<and> hashString str \<le> 2 ^ 31 \<and>
   isWithinRollout u n (Rollout p) = js_le (Fin (of_int (hashString (u @ '':'' @ n) mod 100 + 1))) p \<and>
   1 \<le> hashString (u @ '':'' @ n) mod 100 + 1 \<and> hashString (u @ '':'' @ n) mod 100 + 1 \<le> 100"
proof -
  have "hashString str = \<bar>sint (word_of_int (poly31 str) :: 32 word)\<bar>"
    using hash_fold_poly [of 0 str] by (simp only: hashString_def poly31_def word_of_int_0)
  then show ?thesis
    using hashString_bounds [of str] user_bucket_range [of u n] isWithinRollout_bucket [of u n p]
    by (simp add: user_bucket_def)
qed

text \<open>The rollout is gradual and stable: raising the percentage of a flag never takes the flag
  from a user who has it, whatever the white list, the target users and the context; at 100
  or more nobody is held back by the percentage, and below 1 nobody gets through it who is
  not on the white list.\<close>

theorem flag_rollout_monotone:
  assumes "flag_decision (f\<lparr>ff_rolloutPercentage := Rollout p\<rparr>) n ctx" and "js_le p q"
  shows "flag_decision (f\<lparr>ff_rolloutPercentage := Rollout q\<rparr>) n ctx \<and>
    (js_le (Fin 100) q \<longrightarrow> rolled_out (f\<lparr>ff_rolloutPercentage := Rollout q\<rparr>) n ctx) \<and>
    (js_less p (Fin 1) \<longrightarrow> whitelisted f ctx)"
proof -
  have same: "whitelisted (f\<lparr>ff_rolloutPercentage := r\<rparr>) ctx = whitelisted f ctx"
    "targeted (f\<lparr>ff_rolloutPercentage := r\<rparr>) ctx = targeted f ctx" for r
    by (simp_all add: whitelisted_def targeted_def)
  have top: "rolled_out (f\<lparr>ff_rolloutPercentage := Rollout q\<rparr>) n ctx" if "js_le (Fin 100) q"
    using that by (cases q) (auto simp: js_le_def rolled_out_def rollout_below_100_def)
  have low: "\<not> rolled_out (f\<lparr>ff_rolloutPercentage := Rollout p\<rparr>) n ctx" if "js_less p (Fin 1)"
  proof -
    have "js_less p (Fin 100)" using that by (cases p) auto
    moreover have "\<not> js_le (Fin (of_int (user_bucket u n))) p" for u
    proof -
      have "(1 :: rat) \<le> of_int (user_bucket u n)" using user_bucket_range [of u n] by simp
      with that show ?thesis by (cases p) (auto simp: js_le_def)
    qed
    ultimately show ?thesis
      by (simp add: rolled_out_def rollout_below_100_def isWithinRollout_bucket)
  qed
  have "flag_decision (f\<lparr>ff_rolloutPercentage := Rollout q\<rparr>) n ctx"
    using assms rolled_out_mono [OF _ assms(2), of f n ctx]
    by (auto simp: flag_decision_def same split: if_split_asm)
  moreover have "js_less p (Fin 1) \<longrightarrow> whitelisted f ctx"
    using assms(1) low by (auto simp: flag_decision_def same split: if_split_asm)
  ultimately show ?thesis using top by blast
qed

text \<open>A flag that was set is read back: after a \<open>setFlag\<close> that returns, every instance that
  shares the Redis reads exactly the stored flag (its dates as ISO strings), whatever its own
  memory holds; the other flags read as before; and the instance's own list of all flags
  contains the new one, because the cached list was dropped.\<close>

theorem setFlag_getFlag:
  assumes "redis_ok rc view" and "setFlag (Some rc) now n f s = (Inr (), s')"
    and "rc_get rc (REDIS_PREFIX @ m) (fs_redis s') = (Inr d, w)"
    and "rc_get rc (REDIS_PREFIX @ m) (fs_redis s) = (Inr d', w'')"
    and "getAllFlags (Some rc) s' = (fs, s'')" and "fs \<noteq> []"
  shows "fst (getFlag (Some rc) m (s'\<lparr>fs_flags := other\<rparr>)) =
      (if m = n then Some (clone_flag (stamp_flag now f))
       else fst (getFlag (Some rc) m (s\<lparr>fs_flags := other\<rparr>))) \<and>
    stamp_flag now f \<in> set fs"
proof -
  note v = setFlag_view [OF assms(1,2)]
  have 1: "fst (getFlag (Some rc) m (s'\<lparr>fs_flags := other\<rparr>)) =
      (if m = n then Some (clone_flag (stamp_flag now f))
       else fst (getFlag (Some rc) m (s\<lparr>fs_flags := other\<rparr>)))"
    using getFlag_view [OF assms(1), of m "s'\<lparr>fs_flags := other\<rparr>"]
      getFlag_view [OF assms(1), of m "s\<lparr>fs_flags := other\<rparr>"] assms(3,4) v flag_key_not_cache [of m]
    by (simp split: option.split flag_doc.split)
  have "fs = js_values (fs_flags s')"
  proof -
    obtain r w1 where g: "rc_get rc REDIS_CACHE_KEY (fs_redis s') = (r, w1)" by fastforce
    with redis_getD [OF assms(1) g] v have "\<forall>d. r = Inr d \<longrightarrow> d = None" by simp
    with g assms(5,6) show ?thesis
      by (auto simp: getAllFlags_def redis_getJSON_def Let_def split: sum.splits prod.splits if_split_asm)
  qed
  moreover have "js_get (fs_flags s') n = Some (stamp_flag now f)" using v by simp
  ultimately have "stamp_flag now f \<in> set fs"
    by (metis list.set_map map_of_SomeD image_eqI snd_conv)
  with 1 show ?thesis by blast
qed

text \<open>Deleting a flag on one instance does not delete it on another: an instance whose own map
  holds the flag (from its configuration, or because it once set it) falls back to that copy
  when Redis has no such flag, so after a delete that returned it still answers with the
  deleted flag, enabled if it was enabled.\<close>

theorem deleted_flag_survives_elsewhere:
  assumes "redis_ok rc view" and "deleteFlag (Some rc) n b = (Inr (), b')"
    and "js_get mem n = Some f"
    and "rc_get rc (REDIS_PREFIX @ n) (fs_redis b') = (Inr d, w)"
  shows "fst (getFlag (Some rc) n (b'\<lparr>fs_flags := mem\<rparr>)) = Some f \<and>
    fst (isEnabled (Some rc) n ctx (b'\<lparr>fs_flags := mem\<rparr>)) = flag_decision f n ctx"
proof -
  have "fst (getFlag (Some rc) n (b'\<lparr>fs_flags := mem\<rparr>)) = Some f"
    using getFlag_view [OF assms(1), of n "b'\<lparr>fs_flags := mem\<rparr>"] deleteFlag_view [OF assms(1,2)] assms(3,4)
      flag_key_not_cache [of n]
    by simp
  moreover from this have "fst (isEnabled (Some rc) n ctx (b'\<lparr>fs_flags := mem\<rparr>)) = flag_decision f n ctx"
    by (auto simp: isEnabled_def split: prod.splits option.splits)
  ultimately show ?thesis by blast
qed

section \<open>Witnesses\<close>

text \<open>A Redis that holds its keys in an association list and never fails.\<close>

type_synonym demo_redis = "(string, flag_doc) jsmap"

definition demo_client :: "demo_redis redis_client" where
  "demo_client = \<lparr>rc_get = (\<lambda>k w. (Inr (js_get w k), w)),
     rc_set = (\<lambda>k d w. (Inr (), js_set k d w)),
     rc_expire = (\<lambda>k t w. (Inr (), w)),
     rc_del = (\<lambda>k w. (Inr 1, js_delete k w))\<rparr>"

lemma demo_redis_ok: "redis_ok demo_client map_of"
  by (auto simp: redis_ok_def demo_client_def update_conv' delete_conv')

definition demo_flag :: feature_flag where
  "demo_flag = \<lparr>ff_name = ''beta'', ff_enabled = True, ff_description = [],
     ff_rolloutPercentage = NoRollout, ff_targetUsers = None, ff_whitelistedUserIds = None,
     ff_createdAt = None, ff_updatedAt = None\<rparr>"

definition demo_state :: "demo_redis flag_state" where
  "demo_state = \<lparr>fs_flags = [], fs_redis = []\<rparr>"

lemma demo_get: "rc_get demo_client k w = (Inr (js_get w k), w)"
  by (simp add: demo_client_def)

definition demo_alice :: "flag_context option" where
  "demo_alice = Some \<lparr>fc_userId = Some ''alice'', fc_account = None\<rparr>"

lemma flag_rollout_monotone_witness:
  "flag_decision (demo_flag\<lparr>ff_rolloutPercentage := Rollout (Fin 100)\<rparr>) ''beta'' demo_alice"
proof -
  have "flag_decision (demo_flag\<lparr>ff_rolloutPercentage := Rollout (Fin 99)\<rparr>) ''beta'' demo_alice"
    by code_simp
  from flag_rollout_monotone [OF this, of "Fin 100"] show ?thesis by simp
qed

lemma setFlag_getFlag_witness:
  "fst (getFlag (Some demo_client) ''beta''
      ((snd (setFlag (Some demo_client) 5 ''beta'' demo_flag demo_state))\<lparr>fs_flags := []\<rparr>))
     = Some (clone_flag (stamp_flag 5 demo_flag))"
proof -
  let ?s = "snd (setFlag (Some demo_client) 5 ''beta'' demo_flag demo_state)"
  have set: "setFlag (Some demo_client) 5 ''beta'' demo_flag demo_state = (Inr (), ?s)" by code_simp
  have all: "getAllFlags (Some demo_client) ?s = (js_values (fs_flags ?s), snd (getAllFlags (Some demo_client) ?s))"
    "js_values (fs_flags ?s) \<noteq> []"
    by code_simp+
  show ?thesis
    using setFlag_getFlag [OF demo_redis_ok set demo_get demo_get all, where m = "''beta''" and other = "[]"] by simp
qed

lemma deleted_flag_survives_elsewhere_witness:
  "fst (isEnabled (Some demo_client) ''beta'' None
     ((snd (deleteFlag (Some demo_client) ''beta'' demo_state))\<lparr>fs_flags := [(''beta'', demo_flag)]\<rparr>))"
proof -
  let ?s = "snd (deleteFlag (Some demo_client) ''beta'' demo_state)"
  have del: "deleteFlag (Some demo_client) ''beta'' demo_state = (Inr (), ?s)" by code_simp
  have mem: "js_get [(''beta'', demo_flag)] ''beta'' = Some demo_flag" by simp
  have "flag_decision demo_flag ''beta'' None" by code_simp
  then show ?thesis
    using deleted_flag_survives_elsewhere [OF demo_redis_ok del mem demo_get, of None] by simp
qed

end
