(* ===== verification/Effects.thy ===== *)
theory Effects
  imports Prelude
begin

text \<open>
  Asynchronous code that mutates state and throws: a computation takes the state to a result
  or an exception and the new state. The combinators are JavaScript's sequencing,
  \<open>throw\<close>, \<open>try/catch\<close> and \<open>try/finally\<close>; the rules below give pre- and postconditions,
  one postcondition for a return and one for an exception.
\<close>

type_synonym ('s, 'e, 'a) eff = "'s \<Rightarrow> ('e + 'a) \<times> 's"

definition ereturn :: "'a \<Rightarrow> ('s, 'e, 'a) eff" where
  "ereturn x s = (Inr x, s)"

definition ethrow :: "'e \<Rightarrow> ('s, 'e, 'a) eff" where
  "ethrow e s = (Inl e, s)"

definition ebind :: "('s, 'e, 'a) eff \<Rightarrow> ('a \<Rightarrow> ('s, 'e, 'b) eff) \<Rightarrow> ('s, 'e, 'b) eff" where
  "ebind m f s = (case m s of (Inl e, s') \<Rightarrow> (Inl e, s') | (Inr x, s') \<Rightarrow> f x s')"

text \<open>\<open>try { m } catch (e) { h e }\<close>.\<close>

definition ecatch :: "('s, 'e, 'a) eff \<Rightarrow> ('e \<Rightarrow> ('s, 'f, 'a) eff) \<Rightarrow> ('s, 'f, 'a) eff" where
  "ecatch m h s = (case m s of (Inl e, s') \<Rightarrow> h e s' | (Inr x, s') \<Rightarrow> (Inr x, s'))"

text \<open>\<open>try { m } finally { c }\<close>: an exception of \<open>c\<close> replaces the outcome of \<open>m\<close>.\<close>

definition efinally :: "('s, 'e, 'a) eff \<Rightarrow> ('s, 'e, unit) eff \<Rightarrow> ('s, 'e, 'a) eff" where
  "efinally m c s = (case m s of (r, s') \<Rightarrow>
     (case c s' of (Inl e, s'') \<Rightarrow> (Inl e, s'') | (Inr _, s'') \<Rightarrow> (r, s'')))"

definition emodify :: "('s \<Rightarrow> 's) \<Rightarrow> ('s, 'e, unit) eff" where
  "emodify f s = (Inr (), f s)"

definition eget :: "('s \<Rightarrow> 'a) \<Rightarrow> ('s, 'e, 'a) eff" where
  "eget f s = (Inr (f s), s)"

text \<open>\<open>throw e\<close> when the test holds.\<close>

definition ethrow_if :: "bool \<Rightarrow> 'e \<Rightarrow> ('s, 'e, unit) eff" where
  "ethrow_if b e = (if b then ethrow e else ereturn ())"

text \<open>A value that is an error or a result, thrown or returned.\<close>

definition elift :: "'e + 'a \<Rightarrow> ('s, 'e, 'a) eff" where
  "elift r s = (r, s)"

text \<open>A computation for each element, in order; it stops at the first exception.\<close>

fun eff_list :: "('a \<Rightarrow> ('s, 'e, 'b) eff) \<Rightarrow> 'a list \<Rightarrow> ('s, 'e, 'b list) eff" where
  "eff_list f [] = ereturn []"
| "eff_list f (x # xs) = ebind (f x) (\<lambda>y. ebind (eff_list f xs) (\<lambda>ys. ereturn (y # ys)))"

text \<open>\<open>Promise.all\<close>: everything is run, here in order, and the first failure is thrown.\<close>

fun run_every :: "('s, 'e, 'a) eff list \<Rightarrow> ('s, 'e, ('e + 'a) list) eff" where
  "run_every [] = ereturn []"
| "run_every (m # ms) = ebind (ecatch (ebind m (\<lambda>x. ereturn (Inr x))) (\<lambda>e. ereturn (Inl e))) (\<lambda>r.
     ebind (run_every ms) (\<lambda>rs. ereturn (r # rs)))"

fun first_failure :: "('e + 'a) list \<Rightarrow> 'e + 'a list" where
  "first_failure [] = Inr []"
| "first_failure (Inl e # _) = Inl e"
| "first_failure (Inr x # rs) = (case first_failure rs of Inl e \<Rightarrow> Inl e | Inr xs \<Rightarrow> Inr (x # xs))"

definition promise_all :: "('s, 'e, 'a) eff list \<Rightarrow> ('s, 'e, 'a list) eff" where
  "promise_all ms = ebind (run_every ms) (\<lambda>rs. elift (first_failure rs))"

lemmas eff_defs = ereturn_def ethrow_def ebind_def ecatch_def efinally_def emodify_def eget_def
  ethrow_if_def elift_def

section \<open>Pre- and postconditions\<close>

definition triple :: "('s \<Rightarrow> bool) \<Rightarrow> ('s, 'e, 'a) eff \<Rightarrow> ('a \<Rightarrow> 's \<Rightarrow> bool) \<Rightarrow> ('e \<Rightarrow> 's \<Rightarrow> bool) \<Rightarrow> bool" where
  "triple P m Q E \<longleftrightarrow> (\<forall>s. P s \<longrightarrow> (case m s of (Inr x, s') \<Rightarrow> Q x s' | (Inl e, s') \<Rightarrow> E e s'))"

named_theorems triple_rules \<open>rules for the combinators\<close>

lemma tripleI:
  "(\<And>s x s'. P s \<Longrightarrow> m s = (Inr x, s') \<Longrightarrow> Q x s') \<Longrightarrow> (\<And>s e s'. P s \<Longrightarrow> m s = (Inl e, s') \<Longrightarrow> E e s')
     \<Longrightarrow> triple P m Q E"
  by (auto simp: triple_def split: prod.splits sum.splits)

lemma triple_return: "triple P m Q E \<Longrightarrow> P s \<Longrightarrow> m s = (Inr x, s') \<Longrightarrow> Q x s'"
  by (auto simp: triple_def dest!: spec [of _ s])

lemma triple_throw: "triple P m Q E \<Longrightarrow> P s \<Longrightarrow> m s = (Inl e, s') \<Longrightarrow> E e s'"
  by (auto simp: triple_def dest!: spec [of _ s])

lemma triple_weaken:
  "triple P' m Q' E' \<Longrightarrow> (\<And>s. P s \<Longrightarrow> P' s) \<Longrightarrow> (\<And>x s. Q' x s \<Longrightarrow> Q x s) \<Longrightarrow> (\<And>e s. E' e s \<Longrightarrow> E e s)
     \<Longrightarrow> triple P m Q E"
  by (force simp: triple_def split: prod.splits sum.splits)

lemma triple_pre: "triple P' m Q E \<Longrightarrow> (\<And>s. P s \<Longrightarrow> P' s) \<Longrightarrow> triple P m Q E"
  by (erule triple_weaken) auto

lemma triple_ereturn [triple_rules]: "triple (\<lambda>s. Q x s) (ereturn x) Q E"
  by (simp add: triple_def eff_defs)

lemma triple_ethrow [triple_rules]: "triple (\<lambda>s. E e s) (ethrow e) Q E"
  by (simp add: triple_def eff_defs)

lemma triple_emodify [triple_rules]: "triple (\<lambda>s. Q () (f s)) (emodify f) Q E"
  by (simp add: triple_def eff_defs)

lemma triple_eget [triple_rules]: "triple (\<lambda>s. Q (f s) s) (eget f) Q E"
  by (simp add: triple_def eff_defs)

lemma triple_elift [triple_rules]:
  "triple (\<lambda>s. case r of Inl e \<Rightarrow> E e s | Inr x \<Rightarrow> Q x s) (elift r) Q E"
  by (auto simp: triple_def eff_defs split: sum.splits)

lemma triple_ethrow_if [triple_rules]:
  "triple (\<lambda>s. if b then E e s else Q () s) (ethrow_if b e) Q E"
  by (simp add: triple_def eff_defs)

lemma triple_ebind:
  assumes "triple P m R E" "\<And>x. triple (R x) (f x) Q E"
  shows "triple P (ebind m f) Q E"
proof (rule tripleI)
  fix s y s' assume "P s" "ebind m f s = (Inr y, s')"
  then obtain x t where "m s = (Inr x, t)" "f x t = (Inr y, s')"
    by (auto simp: ebind_def split: prod.splits sum.splits)
  with assms \<open>P s\<close> show "Q y s'" by (meson triple_return)
next
  fix s e s' assume "P s" "ebind m f s = (Inl e, s')"
  then consider "m s = (Inl e, s')" | x t where "m s = (Inr x, t)" "f x t = (Inl e, s')"
    by (auto simp: ebind_def split: prod.splits sum.splits)
  then show "E e s'"
    by cases (use assms \<open>P s\<close> in \<open>meson triple_return triple_throw\<close>)+
qed

lemma triple_ecatch:
  assumes "triple P m Q R" "\<And>e. triple (R e) (h e) Q E"
  shows "triple P (ecatch m h) Q E"
proof (rule tripleI)
  fix s y s' assume "P s" "ecatch m h s = (Inr y, s')"
  then consider "m s = (Inr y, s')" | e t where "m s = (Inl e, t)" "h e t = (Inr y, s')"
    by (auto simp: ecatch_def split: prod.splits sum.splits)
  then show "Q y s'"
    by cases (use assms \<open>P s\<close> in \<open>meson triple_return triple_throw\<close>)+
next
  fix s e s' assume "P s" "ecatch m h s = (Inl e, s')"
  then obtain e' t where "m s = (Inl e', t)" "h e' t = (Inl e, s')"
    by (auto simp: ecatch_def split: prod.splits sum.splits)
  with assms \<open>P s\<close> show "E e s'" by (meson triple_throw)
qed

lemma triple_efinally:
  assumes "triple P m R S" "\<And>x. triple (R x) c (\<lambda>_. Q x) E" "\<And>e. triple (S e) c (\<lambda>_. E e) E"
  shows "triple P (efinally m c) Q E"
proof (rule tripleI)
  fix s y s' assume "P s" "efinally m c s = (Inr y, s')"
  then obtain t where "m s = (Inr y, t)" "c t = (Inr (), s')"
    by (auto simp: efinally_def split: prod.splits sum.splits)
  with assms(1,2) \<open>P s\<close> show "Q y s'" by (meson triple_return)
next
  fix s e s' assume "P s" "efinally m c s = (Inl e, s')"
  then consider x t where "m s = (Inr x, t)" "c t = (Inl e, s')"
    | e' t where "m s = (Inl e', t)" "c t = (Inl e, s')"
    | t where "m s = (Inl e, t)" "c t = (Inr (), s')"
    unfolding efinally_def
    by (cases "m s"; cases "fst (m s)"; cases "c (snd (m s))"; cases "fst (c (snd (m s)))") auto
  then show "E e s'"
    by cases (use assms \<open>P s\<close> in \<open>meson triple_return triple_throw\<close>)+
qed

lemma triple_case_sum [triple_rules]:
  "(\<And>a. x = Inl a \<Longrightarrow> triple P (f a) Q E) \<Longrightarrow> (\<And>b. x = Inr b \<Longrightarrow> triple P (g b) Q E)
     \<Longrightarrow> triple P (case x of Inl a \<Rightarrow> f a | Inr b \<Rightarrow> g b) Q E"
  by (cases x) simp_all

lemma triple_case_option [triple_rules]:
  "(x = None \<Longrightarrow> triple P f Q E) \<Longrightarrow> (\<And>b. x = Some b \<Longrightarrow> triple P (g b) Q E)
     \<Longrightarrow> triple P (case x of None \<Rightarrow> f | Some b \<Rightarrow> g b) Q E"
  by (cases x) simp_all

lemma triple_if [triple_rules]:
  "(b \<Longrightarrow> triple P m Q E) \<Longrightarrow> (\<not> b \<Longrightarrow> triple P m' Q E) \<Longrightarrow> triple P (if b then m else m') Q E"
  by simp

text \<open>A computation that keeps an observation of the state.\<close>

definition keeps :: "('s \<Rightarrow> 'o) \<Rightarrow> ('s, 'e, 'a) eff \<Rightarrow> bool" where
  "keeps f m \<longleftrightarrow> (\<forall>s. f (snd (m s)) = f s)"

named_theorems keeps_rules \<open>what keeps an observation\<close>

lemma keepsD: "keeps f m \<Longrightarrow> f (snd (m s)) = f s"
  by (simp add: keeps_def)

lemma keeps_result: "keeps f m \<Longrightarrow> m s = (r, s') \<Longrightarrow> f s' = f s"
  by (metis keepsD snd_conv)

lemma keeps_simple [keeps_rules]:
  "keeps f (ereturn x)" "keeps f (ethrow e)" "keeps f (eget g)" "keeps f (elift r)" "keeps f (ethrow_if b e)"
  by (simp_all add: keeps_def eff_defs)

lemma keeps_ebind [keeps_rules]: "keeps f m \<Longrightarrow> (\<And>x. keeps f (g x)) \<Longrightarrow> keeps f (ebind m g)"
  by (auto simp: keeps_def ebind_def split: prod.split sum.split) (metis snd_conv)+

lemma keeps_ecatch [keeps_rules]: "keeps f m \<Longrightarrow> (\<And>e. keeps f (h e)) \<Longrightarrow> keeps f (ecatch m h)"
  by (auto simp: keeps_def ecatch_def split: prod.split sum.split) (metis snd_conv)+

lemma keeps_efinally [keeps_rules]: "keeps f m \<Longrightarrow> keeps f c \<Longrightarrow> keeps f (efinally m c)"
  by (auto simp: keeps_def efinally_def split: prod.split sum.split) (metis snd_conv)+

lemma keeps_emodify: "(\<And>s. f (g s) = f s) \<Longrightarrow> keeps f (emodify g)"
  by (simp add: keeps_def emodify_def)

lemma keeps_if [keeps_rules]: "keeps f m \<Longrightarrow> keeps f m' \<Longrightarrow> keeps f (if b then m else m')"
  by simp

lemma keeps_case_option [keeps_rules]:
  "keeps f m \<Longrightarrow> (\<And>x. keeps f (g x)) \<Longrightarrow> keeps f (case v of None \<Rightarrow> m | Some x \<Rightarrow> g x)"
  by (cases v) simp_all

lemma keeps_case_sum [keeps_rules]:
  "(\<And>x. keeps f (m x)) \<Longrightarrow> (\<And>x. keeps f (g x)) \<Longrightarrow> keeps f (case v of Inl x \<Rightarrow> m x | Inr x \<Rightarrow> g x)"
  by (cases v) simp_all

lemma triple_keeps: "keeps f m \<Longrightarrow> triple (\<lambda>s. f s = x) m (\<lambda>_ s. f s = x) (\<lambda>_ s. f s = x)"
  by (rule tripleI) (auto dest: keeps_result)

lemma keeps_eff_list [keeps_rules]: "(\<And>x. keeps g (f x)) \<Longrightarrow> keeps g (eff_list f xs)"
  by (induction xs) (auto intro!: keeps_rules)

text \<open>Keeping an observation and never throwing, as a rule for any pair of postconditions.\<close>

lemma triple_keeps_return:
  assumes "keeps f m" "\<And>s. \<exists>s'. m s = (Inr (), s')"
  shows "triple (\<lambda>s. R (f s)) m (\<lambda>_ s. R (f s)) E"
proof (rule tripleI)
  fix s e s' assume "m s = (Inl e, s')"
  with assms(2) [of s] show "E e s'" by auto
qed (auto dest: keeps_result [OF assms(1)])

section \<open>Invariants of computations\<close>

text \<open>A computation that keeps a property of the state, whether it returns or throws.\<close>

definition preserves :: "('s \<Rightarrow> bool) \<Rightarrow> ('s, 'e, 'a) eff \<Rightarrow> bool" where
  "preserves P m \<longleftrightarrow> (\<forall>s. P s \<longrightarrow> P (snd (m s)))"

named_theorems preserves_rules \<open>what keeps a property of the state\<close>

lemma preservesD: "preserves P m \<Longrightarrow> P s \<Longrightarrow> P (snd (m s))"
  by (simp add: preserves_def)

lemma preserves_result: "preserves P m \<Longrightarrow> m s = (r, s') \<Longrightarrow> P s \<Longrightarrow> P s'"
  by (metis preservesD snd_conv)

lemma preserves_simple [preserves_rules]:
  "preserves P (ereturn x)" "preserves P (ethrow e)" "preserves P (eget g)" "preserves P (elift r)"
  "preserves P (ethrow_if b e)"
  by (simp_all add: preserves_def eff_defs)

lemma preserves_ebind [preserves_rules]:
  "preserves P m \<Longrightarrow> (\<And>x. preserves P (g x)) \<Longrightarrow> preserves P (ebind m g)"
  by (auto simp: preserves_def ebind_def split: prod.split sum.split)

lemma preserves_ecatch [preserves_rules]:
  "preserves P m \<Longrightarrow> (\<And>e. preserves P (h e)) \<Longrightarrow> preserves P (ecatch m h)"
  by (auto simp: preserves_def ecatch_def split: prod.split sum.split)

lemma preserves_efinally [preserves_rules]: "preserves P m \<Longrightarrow> preserves P c \<Longrightarrow> preserves P (efinally m c)"
  by (auto simp: preserves_def efinally_def split: prod.split sum.split)

lemma preserves_emodify: "(\<And>s. P s \<Longrightarrow> P (f s)) \<Longrightarrow> preserves P (emodify f)"
  by (simp add: preserves_def emodify_def)

lemma preserves_if [preserves_rules]:
  "(b \<Longrightarrow> preserves P m) \<Longrightarrow> (\<not> b \<Longrightarrow> preserves P m') \<Longrightarrow> preserves P (if b then m else m')"
  by simp

lemma preserves_case_option [preserves_rules]:
  "(v = None \<Longrightarrow> preserves P m) \<Longrightarrow> (\<And>x. v = Some x \<Longrightarrow> preserves P (g x)) \<Longrightarrow> preserves P (case v of None \<Rightarrow> m | Some x \<Rightarrow> g x)"
  by (cases v) simp_all

lemma preserves_case_sum [preserves_rules]:
  "(\<And>x. preserves P (m x)) \<Longrightarrow> (\<And>x. preserves P (g x)) \<Longrightarrow> preserves P (case v of Inl x \<Rightarrow> m x | Inr x \<Rightarrow> g x)"
  by (cases v) simp_all

lemma preserves_case_prod [preserves_rules]:
  "(\<And>x y. preserves P (m x y)) \<Longrightarrow> preserves P (case v of (x, y) \<Rightarrow> m x y)"
  by (cases v) simp_all

lemma preserves_case_list [preserves_rules]:
  "(v = [] \<Longrightarrow> preserves P m) \<Longrightarrow> (\<And>x y. v = x # y \<Longrightarrow> preserves P (g x y)) \<Longrightarrow> preserves P (case v of [] \<Rightarrow> m | x # y \<Rightarrow> g x y)"
  by (cases v) simp_all

lemma preserves_Let [preserves_rules]: "preserves P (f x) \<Longrightarrow> preserves P (let y = x in f y)"
  by simp

text \<open>A first part that learns something of the state it leaves.\<close>

lemma preserves_ebind_triple:
  "triple P m R (\<lambda>_. P) \<Longrightarrow> (\<And>x s. R x s \<Longrightarrow> P (snd (g x s))) \<Longrightarrow> preserves P (ebind m g)"
  by (auto simp: preserves_def triple_def ebind_def split: prod.splits sum.splits) fastforce+

lemma keeps_run_every: "\<forall>m \<in> set ms. keeps f m \<Longrightarrow> keeps f (run_every ms)"
  by (induction ms) (auto intro!: keeps_rules)

lemma keeps_promise_all: "\<forall>m \<in> set ms. keeps f m \<Longrightarrow> keeps f (promise_all ms)"
  unfolding promise_all_def by (intro keeps_rules keeps_run_every)

end
