(* ===== verification/Batch_Types.thy ===== *)
theory Batch_Types
  imports Effects JsNumber
begin

text \<open>
  \<open>backend/src/services/batch-payment.types.ts\<close>, \<open>utils/stellar-address.ts\<close> and the values
  that are thrown around them: requests, results and configuration of the batch payments,
  the exceptions, and the libraries the payment services call (\<open>batch_env\<close>): Redis, Redlock,
  Horizon, the Stellar SDK and the key management service. Each call of a library acts on a
  state of its own, the world, and may fail. Sequence numbers, decimal text in the code, are
  integers here.
\<close>

section \<open>Exceptions\<close>

datatype batch_error_type = EXCEEDS_MAX_OPS | INVALID_ADDRESS | INSUFFICIENT_BALANCE
  | SEQUENCE_CONFLICT | NETWORK_ERROR | TRANSACTION_FAILED | INVALID_ASSET

datatype recurring_error_type = INSUFFICIENT_FUNDS | INVALID_CONFIG | PAYMENT_FAILED

text \<open>Horizon's \<open>result_codes\<close> and the parts of an HTTP error's \<open>response\<close> that are read.\<close>

record result_codes =
  rc_transaction :: "string option"
  rc_operations :: "string list option"

record error_response =
  er_status :: "int option"
  er_extras :: "result_codes option"
  er_data_status :: "int option"
  er_data_extras :: "result_codes option"

text \<open>
  A thrown value. A \<open>BatchPaymentError\<close> carries \<open>details.error\<close> or \<open>details.lastError\<close>, or
  nothing; another error is an object with the properties that the code looks at; \<open>Thrown\<close>
  is a value that is no object, with its text.
\<close>

datatype js_error =
    BatchPaymentErr batch_error_type string "js_error option" "js_error option"
  | RecurringPaymentErr recurring_error_type string
  | KeyManagementErr string
  | OtherErr (oe_name: string) (oe_message: string) (oe_code: "string option") (oe_status: "int option")
      (oe_details_error: "js_error option") (oe_cause: "js_error option")
      (oe_extras: "result_codes option") (oe_response: "error_response option")
  | Thrown string

abbreviation BatchErr :: "batch_error_type \<Rightarrow> string \<Rightarrow> js_error" where
  "BatchErr t m \<equiv> BatchPaymentErr t m None None"

text \<open>\<open>String(error)\<close> and \<open>error.message\<close> of an error object.\<close>

definition named_message :: "string \<Rightarrow> string \<Rightarrow> string" where
  "named_message n m = (if m = [] then n else if n = [] then m else n @ '': '' @ m)"

definition error_text :: "js_error \<Rightarrow> string" where
  "error_text e = (case e of
     BatchPaymentErr _ m _ _ \<Rightarrow> named_message ''BatchPaymentError'' m
   | RecurringPaymentErr _ m \<Rightarrow> named_message ''RecurringPaymentError'' m
   | KeyManagementErr m \<Rightarrow> named_message ''KeyManagementError'' m
   | OtherErr n m _ _ _ _ _ _ \<Rightarrow> named_message n m
   | Thrown s \<Rightarrow> s)"

definition error_message :: "js_error \<Rightarrow> string option" where
  "error_message e = (case e of
     BatchPaymentErr _ m _ _ \<Rightarrow> Some m
   | RecurringPaymentErr _ m \<Rightarrow> Some m
   | KeyManagementErr m \<Rightarrow> Some m
   | OtherErr _ m _ _ _ _ _ _ \<Rightarrow> Some m
   | Thrown s \<Rightarrow> None)"

text \<open>\<open>new Error(m)\<close>, and \<open>error.message\<close> in a template text.\<close>

abbreviation PlainError :: "string \<Rightarrow> js_error" where
  "PlainError m \<equiv> OtherErr ''Error'' m None None None None None None"

definition message_text :: "js_error \<Rightarrow> string" where
  "message_text e = (case error_message e of Some m \<Rightarrow> m | None \<Rightarrow> ''undefined'')"

definition is_sequence_conflict :: "js_error \<Rightarrow> bool" where
  "is_sequence_conflict e = (case e of BatchPaymentErr t _ _ _ \<Rightarrow> t = SEQUENCE_CONFLICT | _ \<Rightarrow> False)"

section \<open>Requests and results\<close>

record payment_operation =
  po_destination :: string
  po_amount :: string
  po_assetCode :: "string option"
  po_assetIssuer :: "string option"
  po_memo :: "string option"

record encrypted_key =
  ek_ciphertext :: string
  ek_keyVersion :: string
  ek_algorithm :: string
  ek_timestamp :: int

record batch_request =
  br_batchId :: "string option"
  br_payments :: "payment_operation list"
  br_sourceSecretKey :: "string option"
  br_encryptedKey :: "encrypted_key option"
  br_keyId :: "string option"
  br_baseFee :: "int option"
  br_timeoutInSeconds :: "int option"
  br_dryRun :: bool

record batch_result =
  bres_transactionHash :: string
  bres_successfulOps :: int
  bres_totalOps :: int
  bres_feePaid :: jsnum
  bres_sequenceNumber :: int
  bres_ledger :: "int option"
  bres_timestamp :: int

record dry_run_recipient =
  dr_index :: nat
  dr_destination :: string
  dr_amount :: string
  dr_assetCode :: string
  dr_valid :: bool
  dr_error :: "string option"

text \<open>The two amounts are numbers of the asset; the code prints them with seven decimals.\<close>

record balance_check =
  bc_assetCode :: string
  bc_assetIssuer :: "string option"
  bc_required :: jsnum
  bc_available :: jsnum
  bc_sufficient :: bool

record dry_run_result =
  drr_successfulOps :: int
  drr_totalOps :: int
  drr_feePaid :: int
  drr_sequenceNumber :: int
  drr_estimatedFee :: int
  drr_totalCost :: "balance_check list"
  drr_recipients :: "dry_run_recipient list"
  drr_valid :: bool

datatype batch_outcome = Executed batch_result | Simulated dry_run_result

record failed_payment =
  fp_payment :: payment_operation
  fp_error :: string
  fp_operationIndex :: nat

record partial_failure =
  pf_successful :: "payment_operation list"
  pf_failed :: "failed_payment list"
  pf_transactionHash :: "string option"
  pf_error :: "string option"

record batch_config =
  bc_maxOperationsPerBatch :: int
  bc_redisKeyPrefix :: string
  bc_lockTimeoutSeconds :: int
  bc_maxRetries :: int
  bc_retryDelayMs :: int
  bc_networkPassphrase :: string
  bc_horizonUrl :: string
  bc_useDistributedLocking :: bool

definition DEFAULT_CONFIG :: batch_config where
  "DEFAULT_CONFIG = \<lparr>bc_maxOperationsPerBatch = 100, bc_redisKeyPrefix = ''stellar:batch'',
     bc_lockTimeoutSeconds = 30, bc_maxRetries = 3, bc_retryDelayMs = 1000,
     bc_networkPassphrase = ''Test SDF Network ; September 2015'',
     bc_horizonUrl = ''https://horizon-testnet.stellar.org'', bc_useDistributedLocking = True\<rparr>"

section \<open>The libraries\<close>

record account_balance =
  ab_asset_type :: string
  ab_asset_code :: "string option"
  ab_asset_issuer :: "string option"
  ab_balance :: string

record account_info =
  ai_sequence :: int
  ai_balances :: "account_balance list"

text \<open>The fee fields as the text \<open>String(fee)\<close> gives.\<close>

record submit_response =
  sr_hash :: string
  sr_ledger :: "int option"
  sr_fee_charged :: "string option"
  sr_feeCharged :: "string option"

record redis_lock =
  lk_resource :: string
  lk_value :: string

datatype stellar_asset = NativeAsset | CreditAsset string string

record payment_op =
  sop_destination :: string
  sop_asset :: stellar_asset
  sop_amount :: string

record built_tx =
  tx_source :: string
  tx_sequence :: int
  tx_fee :: string
  tx_maxTime :: int
  tx_operations :: "payment_op list"

record 'w batch_env =
  be_valid_key :: "string \<Rightarrow> bool"
  be_keypair :: "string \<Rightarrow> js_error + string"
  be_asset :: "string \<Rightarrow> string \<Rightarrow> js_error + stellar_asset"
  be_payment :: "payment_op \<Rightarrow> js_error + payment_op"
  be_build :: "string \<Rightarrow> int \<Rightarrow> string \<Rightarrow> int \<Rightarrow> payment_op list \<Rightarrow> js_error + built_tx"
  be_uuid :: "'w \<Rightarrow> string \<times> 'w"
  be_now :: "'w \<Rightarrow> int"
  be_decryptKey :: "encrypted_key \<Rightarrow> 'w \<Rightarrow> (js_error + string) \<times> 'w"
  be_getKeyByReference :: "string \<Rightarrow> 'w \<Rightarrow> (js_error + string) \<times> 'w"
  be_acquire :: "string \<Rightarrow> int \<Rightarrow> 'w \<Rightarrow> (js_error + redis_lock) \<times> 'w"
  be_release :: "redis_lock \<Rightarrow> 'w \<Rightarrow> (js_error + unit) \<times> 'w"
  be_incr :: "string \<Rightarrow> 'w \<Rightarrow> (js_error + int) \<times> 'w"
  be_expire :: "string \<Rightarrow> int \<Rightarrow> 'w \<Rightarrow> (js_error + unit) \<times> 'w"
  be_del :: "string \<Rightarrow> 'w \<Rightarrow> (js_error + unit) \<times> 'w"
  be_loadAccount :: "string \<Rightarrow> 'w \<Rightarrow> (js_error + account_info) \<times> 'w"
  be_submit :: "built_tx \<Rightarrow> 'w \<Rightarrow> (js_error + submit_response) \<times> 'w"

text \<open>
  What the services do, beside the calls of the libraries, is recorded in order: the
  transactions they hand to Horizon and what came back, the metrics, the waits.
\<close>

datatype batch_effect =
    Submitted built_tx "js_error + submit_response"
  | Metric string string string
  | Delayed int

record 'w batch_state =
  bs_world :: 'w
  bs_trace :: "batch_effect list"

type_synonym ('w, 'a) batch = "('w batch_state, js_error, 'a) eff"

definition record_effect :: "batch_effect \<Rightarrow> ('w, unit) batch" where
  "record_effect e = emodify (\<lambda>s. s\<lparr>bs_trace := bs_trace s @ [e]\<rparr>)"

text \<open>A call of a library: it acts on the world only.\<close>

definition library_call :: "('w \<Rightarrow> (js_error + 'a) \<times> 'w) \<Rightarrow> ('w, 'a) batch" where
  "library_call f s = (case f (bs_world s) of (r, w) \<Rightarrow> (r, s\<lparr>bs_world := w\<rparr>))"

definition submit_tx :: "'w batch_env \<Rightarrow> built_tx \<Rightarrow> ('w, submit_response) batch" where
  "submit_tx env tx s = (case be_submit env tx (bs_world s) of (r, w) \<Rightarrow>
     (r, s\<lparr>bs_world := w, bs_trace := bs_trace s @ [Submitted tx r]\<rparr>))"

lemma keeps_library_call [keeps_rules]: "keeps bs_trace (library_call f)"
  by (simp add: keeps_def library_call_def split: prod.split)

section \<open>Addresses\<close>

text \<open>\<open>value\<close> is \<open>None\<close> for anything that is not a string.\<close>

definition isValidStellarPublicKey :: "(string \<Rightarrow> bool) \<Rightarrow> string option \<Rightarrow> bool" where
  "isValidStellarPublicKey strkey_ok value =
     (case value of None \<Rightarrow> False
      | Some v \<Rightarrow> if length v \<noteq> 56 \<or> take 1 v \<noteq> ''G'' then False else strkey_ok v)"

end
