(* ===== verification/Sequence_Numbers.thy ===== *)
theory Sequence_Numbers
  imports Batch_Types
begin

text \<open>
  \<open>backend/src/services/sequence-number.service.ts\<close>: the sequence numbers of a Stellar
  account are handed out from a Redis counter, on top of the number the network reports,
  under a Redlock lock. A manager is its Redis prefix and its timeout.
\<close>

record seq_manager =
  sm_redisPrefix :: string
  sm_lockTimeout :: int

definition LOCK_TTL_MS :: int where "LOCK_TTL_MS = 5000"

definition lock_key :: "seq_manager \<Rightarrow> string \<Rightarrow> string" where
  "lock_key sm acct = sm_redisPrefix sm @ '':lock:'' @ acct"

definition counter_key :: "seq_manager \<Rightarrow> string \<Rightarrow> string" where
  "counter_key sm acct = sm_redisPrefix sm @ '':counter:'' @ acct"

text \<open>The token of a lock, a JSON text in the code, is its resource and its value.\<close>

definition seq_acquireLock :: "'w batch_env \<Rightarrow> seq_manager \<Rightarrow> string \<Rightarrow> ('w, redis_lock) batch" where
  "seq_acquireLock env sm acct =
     ecatch (library_call (be_acquire env (lock_key sm acct) LOCK_TTL_MS))
       (\<lambda>_. ethrow (BatchErr SEQUENCE_CONFLICT
          (''Service busy - could not acquire sequence lock for account: '' @ acct @
           ''. Please retry (HTTP 503).'')))"

definition seq_releaseLock :: "'w batch_env \<Rightarrow> seq_manager \<Rightarrow> string \<Rightarrow> redis_lock \<Rightarrow> ('w, unit) batch" where
  "seq_releaseLock env sm acct token =
     ecatch (library_call (be_release env token)) (\<lambda>_. ereturn ())"

definition getNextSequenceNumber :: "'w batch_env \<Rightarrow> seq_manager \<Rightarrow> string \<Rightarrow> int \<Rightarrow> ('w, int) batch" where
  "getNextSequenceNumber env sm acct currentSequence =
     ecatch
       (ebind (library_call (be_incr env (counter_key sm acct))) (\<lambda>offset.
        ebind (library_call (be_expire env (counter_key sm acct) (sm_lockTimeout sm * 2))) (\<lambda>_.
        ereturn (currentSequence + offset))))
       (\<lambda>e. ethrow (BatchErr SEQUENCE_CONFLICT (''Failed to get next sequence number: '' @ error_text e)))"

definition resetSequenceCounter :: "'w batch_env \<Rightarrow> seq_manager \<Rightarrow> string \<Rightarrow> int \<Rightarrow> ('w, unit) batch" where
  "resetSequenceCounter env sm acct newBase =
     ecatch (library_call (be_del env (counter_key sm acct))) (\<lambda>_. ereturn ())"

definition fetchSequenceFromNetwork :: "'w batch_env \<Rightarrow> string \<Rightarrow> ('w, int) batch" where
  "fetchSequenceFromNetwork env acct =
     ecatch (ebind (library_call (be_loadAccount env acct)) (\<lambda>a. ereturn (ai_sequence a)))
       (\<lambda>e. ethrow (BatchErr NETWORK_ERROR (''Failed to load account from Stellar network: '' @ error_text e)))"

definition executeWithLock :: "'w batch_env \<Rightarrow> seq_manager \<Rightarrow> string \<Rightarrow> int \<Rightarrow> (int \<Rightarrow> ('w, 'a) batch)
    \<Rightarrow> ('w, 'a) batch" where
  "executeWithLock env sm acct baseSequence operation =
     ebind (seq_acquireLock env sm acct) (\<lambda>token.
       efinally (ebind (getNextSequenceNumber env sm acct baseSequence) operation)
         (seq_releaseLock env sm acct token))"

lemmas seq_defs = seq_acquireLock_def seq_releaseLock_def getNextSequenceNumber_def
  resetSequenceCounter_def fetchSequenceFromNetwork_def

lemma keeps_seq [keeps_rules]:
  "keeps bs_trace (seq_acquireLock env sm acct)"
  "keeps bs_trace (seq_releaseLock env sm acct token)"
  "keeps bs_trace (getNextSequenceNumber env sm acct cur)"
  "keeps bs_trace (resetSequenceCounter env sm acct nb)"
  "keeps bs_trace (fetchSequenceFromNetwork env acct)"
  unfolding seq_defs by (intro keeps_rules)+

text \<open>Releasing and resetting never throw: their errors are logged and dropped.\<close>

lemma releaseLock_returns: "\<exists>s'. seq_releaseLock env sm acct token s = (Inr (), s')"
  by (auto simp: seq_releaseLock_def eff_defs library_call_def split: prod.splits sum.splits)

lemma resetSequenceCounter_returns: "\<exists>s'. resetSequenceCounter env sm acct nb s = (Inr (), s')"
  by (auto simp: resetSequenceCounter_def eff_defs library_call_def split: prod.splits sum.splits)

section \<open>Counters\<close>

text \<open>
  What is relied on of Redis: \<open>count\<close> gives the value of a counter in the world (0 when
  absent); \<open>incr\<close> adds one and returns the new value, \<open>del\<close> removes it, \<open>expire\<close> and the
  lock calls leave it, as long as the expiry time has not passed.
\<close>

definition counters_ok :: "'w batch_env \<Rightarrow> ('w \<Rightarrow> string \<Rightarrow> int) \<Rightarrow> bool" where
  "counters_ok env count \<longleftrightarrow>
     (\<forall>k w r w'. be_incr env k w = (r, w') \<longrightarrow>
        (case r of Inr n \<Rightarrow> n = count w k + 1 \<and> count w' = (count w)(k := count w k + 1)
                 | Inl _ \<Rightarrow> count w' = count w)) \<and>
     (\<forall>k t w r w'. be_expire env k t w = (r, w') \<longrightarrow> count w' = count w) \<and>
     (\<forall>k w r w'. be_del env k w = (r, w') \<longrightarrow>
        (case r of Inr _ \<Rightarrow> count w' = (count w)(k := 0) | Inl _ \<Rightarrow> count w' = count w))"

lemma counters_incr:
  "counters_ok env count \<Longrightarrow> be_incr env k w = (Inr n, w') \<Longrightarrow>
     n = count w k + 1 \<and> count w' = (count w)(k := count w k + 1)"
  unfolding counters_ok_def by (elim conjE, drule spec, drule spec, drule spec, drule spec, drule mp) auto

lemma counters_expire: "counters_ok env count \<Longrightarrow> be_expire env k t w = (r, w') \<Longrightarrow> count w' = count w"
  unfolding counters_ok_def by blast

lemma counters_del:
  "counters_ok env count \<Longrightarrow> be_del env k w = (Inr u, w') \<Longrightarrow> count w' = (count w)(k := 0)"
proof -
  assume "counters_ok env count" and d: "be_del env k w = (Inr u, w')"
  then have "\<forall>k w r w'. be_del env k w = (r, w') \<longrightarrow>
      (case r of Inr _ \<Rightarrow> count w' = (count w)(k := 0) | Inl _ \<Rightarrow> count w' = count w)"
    unfolding counters_ok_def by (elim conjE)
  from this [rule_format, OF d] show ?thesis by simp
qed

lemma getNext_value:
  assumes "counters_ok env count" "getNextSequenceNumber env sm acct base s = (Inr n, s')"
  shows "n = base + count (bs_world s) (counter_key sm acct) + 1 \<and>
    count (bs_world s') = (count (bs_world s))(counter_key sm acct :=
      count (bs_world s) (counter_key sm acct) + 1) \<and> bs_trace s' = bs_trace s"
proof -
  let ?k = "counter_key sm acct"
  obtain i w1 u w2 where 1: "be_incr env ?k (bs_world s) = (Inr i, w1)"
    and 2: "be_expire env ?k (sm_lockTimeout sm * 2) w1 = (Inr u, w2)"
    and 3: "n = base + i" "s' = s\<lparr>bs_world := w2\<rparr>"
    using assms(2)
    by (auto simp: getNextSequenceNumber_def eff_defs library_call_def split: prod.splits sum.splits)
  with counters_incr [OF assms(1) 1] counters_expire [OF assms(1) 2] show ?thesis by simp
qed

text \<open>Numbers handed out one after another from the same base, with no reset between.\<close>

fun next_numbers :: "'w batch_env \<Rightarrow> seq_manager \<Rightarrow> string \<Rightarrow> int \<Rightarrow> nat \<Rightarrow> ('w, int list) batch" where
  "next_numbers env sm acct base 0 = ereturn []"
| "next_numbers env sm acct base (Suc k) =
     ebind (getNextSequenceNumber env sm acct base) (\<lambda>n.
     ebind (next_numbers env sm acct base k) (\<lambda>ns. ereturn (n # ns)))"

lemma next_numbers_values:
  assumes "counters_ok env count"
  shows "next_numbers env sm acct base k s = (Inr ns, s') \<Longrightarrow>
    ns = List.map (\<lambda>i. base + count (bs_world s) (counter_key sm acct) + 1 + int i) [0..<k]"
proof (induction k arbitrary: s ns)
  case (Suc k)
  from Suc.prems obtain n s1 ms where n: "getNextSequenceNumber env sm acct base s = (Inr n, s1)"
    and ms: "next_numbers env sm acct base k s1 = (Inr ms, s')" "ns = n # ms"
    by (auto simp: eff_defs split: prod.splits sum.splits)
  have "ms = List.map (\<lambda>i. base + count (bs_world s1) (counter_key sm acct) + 1 + int i) [0..<k]"
    by (rule Suc.IH [OF ms(1)])
  with getNext_value [OF assms n] have ms': "ms = List.map (\<lambda>i. n + 1 + int i) [0..<k]"
    by simp
  have "List.map (\<lambda>i. n + int i) [0..<Suc k] = n # List.map (\<lambda>i. n + 1 + int i) [0..<k]"
    by (simp only: upt_conv_Cons zero_less_Suc map_Suc_upt [symmetric] list.map list.map_comp comp_def)
       (simp add: algebra_simps)
  with ms ms' getNext_value [OF assms n] show ?case by (simp del: upt_Suc)
qed (auto simp: eff_defs)

end
