(* ===== verification/Batch.thy ===== *)
theory Batch
  imports Sequence_Numbers
begin

text \<open>
  \<open>backend/src/services/batch-payment.service.ts\<close>: many payments in one Stellar transaction.
  \<open>executeBatch\<close> validates, fetches the signing key and then tries up to \<open>maxRetries\<close> times
  to get a sequence number, build and submit; a dry run estimates instead. The loop that
  splits a list of payments into chunks may not end, so it is a partial function.
\<close>

section \<open>Validation and the pieces of a transaction\<close>

definition validatePayment :: "'w batch_env \<Rightarrow> payment_operation \<Rightarrow> nat \<Rightarrow> js_error + unit" where
  "validatePayment env p i =
     (if \<not> isValidStellarPublicKey (be_valid_key env) (Some (po_destination p))
      then Inl (BatchErr INVALID_ADDRESS (''Invalid destination Stellar address at index '' @ show_nat i))
      else if po_amount p = [] \<or> js_le (parseFloat (po_amount p)) (Fin 0)
      then Inl (BatchErr INVALID_ADDRESS (''Invalid amount at index '' @ show_nat i @ '': '' @ po_amount p))
      else case truthy_str (po_assetCode p) of
             None \<Rightarrow> Inr ()
           | Some code \<Rightarrow>
               if code \<noteq> ''XLM'' \<and> \<not> isValidStellarPublicKey (be_valid_key env) (po_assetIssuer p)
               then Inl (BatchErr INVALID_ASSET
                      (''Invalid asset issuer at index '' @ show_nat i @ '' for asset '' @ code))
               else Inr ())"

fun validatePayments_from :: "'w batch_env \<Rightarrow> nat \<Rightarrow> payment_operation list \<Rightarrow> js_error + unit" where
  "validatePayments_from env i [] = Inr ()"
| "validatePayments_from env i (p # ps) =
     (case validatePayment env p i of Inl e \<Rightarrow> Inl e | Inr _ \<Rightarrow> validatePayments_from env (Suc i) ps)"

definition validatePayments :: "'w batch_env \<Rightarrow> payment_operation list \<Rightarrow> js_error + unit" where
  "validatePayments env ps = validatePayments_from env 0 ps"

definition getSubmittedTransactionFee :: "submit_response \<Rightarrow> jsnum" where
  "getSubmittedTransactionFee r =
     (let fee = (case sr_fee_charged r of Some f \<Rightarrow> f
                 | None \<Rightarrow> (case sr_feeCharged r of Some f \<Rightarrow> f | None \<Rightarrow> ''0''));
          parsed = parseInt10 fee
      in if js_isFinite parsed then parsed else Fin 0)"

definition createAsset :: "'w batch_env \<Rightarrow> string option \<Rightarrow> string option \<Rightarrow> js_error + stellar_asset" where
  "createAsset env assetCode assetIssuer =
     (case truthy_str assetCode of
        None \<Rightarrow> Inr NativeAsset
      | Some code \<Rightarrow> if code = ''XLM'' then Inr NativeAsset
          else case truthy_str assetIssuer of
                 None \<Rightarrow> Inl (BatchErr INVALID_ASSET (''Asset issuer required for '' @ code))
               | Some issuer \<Rightarrow> be_asset env code issuer)"

fun build_operations :: "'w batch_env \<Rightarrow> payment_operation list \<Rightarrow> js_error + payment_op list" where
  "build_operations env [] = Inr []"
| "build_operations env (p # ps) =
     (case createAsset env (po_assetCode p) (po_assetIssuer p) of
        Inl e \<Rightarrow> Inl e
      | Inr a \<Rightarrow>
          (case be_payment env \<lparr>sop_destination = po_destination p, sop_asset = a, sop_amount = po_amount p\<rparr> of
             Inl e \<Rightarrow> Inl e
           | Inr op \<Rightarrow> (case build_operations env ps of Inl e \<Rightarrow> Inl e | Inr ops \<Rightarrow> Inr (op # ops))))"

definition buildAndSubmitTransaction :: "'w batch_env \<Rightarrow> string \<Rightarrow> int \<Rightarrow> payment_operation list
    \<Rightarrow> int option \<Rightarrow> int option \<Rightarrow> ('w, batch_result) batch" where
  "buildAndSubmitTransaction env source sequenceNumber payments baseFee timeoutInSeconds =
     ebind (eget (\<lambda>s. be_now env (bs_world s))) (\<lambda>now.
     ebind (elift (build_operations env payments)) (\<lambda>ops.
     ebind (elift (be_build env source sequenceNumber (show_int (or_number 100 baseFee))
              (now div 1000 + or_number 300 timeoutInSeconds) ops)) (\<lambda>tx.
     ecatch
       (ebind (submit_tx env tx) (\<lambda>r.
        ebind (eget (\<lambda>s. be_now env (bs_world s))) (\<lambda>t.
        ereturn \<lparr>bres_transactionHash = sr_hash r, bres_successfulOps = int (length payments),
          bres_totalOps = int (length payments), bres_feePaid = getSubmittedTransactionFee r,
          bres_sequenceNumber = sequenceNumber, bres_ledger = sr_ledger r, bres_timestamp = t\<rparr>)))
       (\<lambda>e. ethrow (BatchPaymentErr TRANSACTION_FAILED
              (''Transaction submission failed: '' @ error_text e) (Some e) None)))))"

section \<open>Dry runs\<close>

definition error_or_unknown :: "js_error \<Rightarrow> string" where
  "error_or_unknown e = (case error_message e of Some m \<Rightarrow> m | None \<Rightarrow> ''Unknown error'')"

definition asset_code_or_xlm :: "payment_operation \<Rightarrow> string" where
  "asset_code_or_xlm p = (case truthy_str (po_assetCode p) of None \<Rightarrow> ''XLM'' | Some c \<Rightarrow> c)"

definition dry_recipient :: "'w batch_env \<Rightarrow> nat \<Rightarrow> payment_operation \<Rightarrow> dry_run_recipient" where
  "dry_recipient env i p =
     (let v = validatePayment env p i in
      \<lparr>dr_index = i, dr_destination = po_destination p, dr_amount = po_amount p,
       dr_assetCode = asset_code_or_xlm p,
       dr_valid = (case v of Inl _ \<Rightarrow> False | Inr _ \<Rightarrow> True),
       dr_error = (case v of Inl e \<Rightarrow> Some (error_or_unknown e) | Inr _ \<Rightarrow> None)\<rparr>)"

definition STROOPS :: jsnum where "STROOPS = Fin 10000000"

text \<open>The amounts required so far: by key, the asset code, the issuer and the stroops.\<close>

type_synonym required_map = "(string, string \<times> string option \<times> jsnum) jsmap"

definition addRequired :: "string \<Rightarrow> string option \<Rightarrow> jsnum \<Rightarrow> required_map \<Rightarrow> required_map" where
  "addRequired assetCode assetIssuer stroops m =
     (let key = (if assetCode = ''XLM'' then ''XLM''
                 else assetCode @ '':'' @ (case assetIssuer of None \<Rightarrow> ''undefined'' | Some i \<Rightarrow> i));
          entry = (case js_get m key of None \<Rightarrow> (assetCode, assetIssuer, Fin 0) | Some e \<Rightarrow> e)
      in case entry of (c, i, n) \<Rightarrow> js_set key (c, i, js_add n stroops) m)"

definition amount_stroops :: "string \<Rightarrow> jsnum" where
  "amount_stroops a = math_round (js_mul (parseFloat a) STROOPS)"

definition required_amounts :: "int \<Rightarrow> (payment_operation \<times> dry_run_recipient) list \<Rightarrow> required_map" where
  "required_amounts estimatedFee ps =
     foldl (\<lambda>m (p, r).
         if \<not> dr_valid r then m
         else let code = asset_code_or_xlm p in
              addRequired code (if code = ''XLM'' then None else po_assetIssuer p)
                (amount_stroops (po_amount p)) m)
       (addRequired ''XLM'' None (js_int estimatedFee) []) ps"

definition find_balance :: "account_info \<Rightarrow> string \<Rightarrow> string option \<Rightarrow> account_balance option" where
  "find_balance a code issuer =
     List.find (\<lambda>b. if code = ''XLM'' then ab_asset_type b = ''native''
        else ab_asset_code b = Some code \<and> ab_asset_issuer b = issuer) (ai_balances a)"

definition balance_of :: "account_info \<Rightarrow> string \<times> string option \<times> jsnum \<Rightarrow> balance_check" where
  "balance_of a e = (case e of (code, issuer, stroops) \<Rightarrow>
     let available = (case find_balance a code issuer of None \<Rightarrow> Fin 0 | Some b \<Rightarrow> amount_stroops (ab_balance b))
     in \<lparr>bc_assetCode = code, bc_assetIssuer = truthy_str issuer,
         bc_required = js_div stroops STROOPS, bc_available = js_div available STROOPS,
         bc_sufficient = js_le stroops available\<rparr>)"

definition simulateBatch :: "'w batch_env \<Rightarrow> string \<Rightarrow> batch_request \<Rightarrow> ('w, dry_run_result) batch" where
  "simulateBatch env source req =
     (let ps = br_payments req;
          recipients = List.map (\<lambda>(i, p). dry_recipient env i p) (List.enumerate 0 ps);
          estimatedFee = or_number 100 (br_baseFee req) * int (length ps)
      in ebind (ecatch (library_call (be_loadAccount env source))
                 (\<lambda>e. ethrow (BatchPaymentErr NETWORK_ERROR
                        (''Failed to load source account for dry run: '' @ error_text e) (Some e) None)))
           (\<lambda>account.
             let totalCost = List.map (balance_of account)
                   (js_values (required_amounts estimatedFee (zip ps recipients)));
                 validOps = int (length (filter dr_valid recipients))
             in ereturn \<lparr>drr_successfulOps = validOps, drr_totalOps = int (length ps), drr_feePaid = 0,
                  drr_sequenceNumber = ai_sequence account, drr_estimatedFee = estimatedFee,
                  drr_totalCost = totalCost, drr_recipients = recipients,
                  drr_valid = (validOps = int (length ps) \<and> list_all bc_sufficient totalCost)\<rparr>))"

section \<open>Executing a batch\<close>

definition batch_manager :: "batch_config \<Rightarrow> seq_manager" where
  "batch_manager cfg = \<lparr>sm_redisPrefix = bc_redisKeyPrefix cfg, sm_lockTimeout = bc_lockTimeoutSeconds cfg\<rparr>"

definition retrieve_key :: "'w batch_env \<Rightarrow> batch_request \<Rightarrow> ('w, string) batch" where
  "retrieve_key env req =
     ecatch
       (case br_encryptedKey req of
          Some k \<Rightarrow> library_call (be_decryptKey env k)
        | None \<Rightarrow> (case truthy_str (br_keyId req) of
            Some i \<Rightarrow> library_call (be_getKeyByReference env i)
          | None \<Rightarrow> (case truthy_str (br_sourceSecretKey req) of
              Some sk \<Rightarrow> ereturn sk
            | None \<Rightarrow> ethrow (BatchErr TRANSACTION_FAILED
                ''No source secret key provided. Use encryptedKey, keyId, or sourceSecretKey.''))))
       (\<lambda>e. case e of
              KeyManagementErr m \<Rightarrow> ethrow (BatchErr TRANSACTION_FAILED (''Failed to retrieve signing key: '' @ m))
            | _ \<Rightarrow> ethrow e)"

definition record_metrics :: "string \<Rightarrow> payment_operation list \<Rightarrow> string \<Rightarrow> ('w, unit) batch" where
  "record_metrics batchId ps status =
     emodify (\<lambda>s. s\<lparr>bs_trace := bs_trace s @ List.map (\<lambda>p. Metric batchId (asset_code_or_xlm p) status) ps\<rparr>)"

text \<open>The body of one attempt: everything inside the \<open>try\<close> of the retry loop.\<close>

definition one_attempt :: "'w batch_env \<Rightarrow> batch_config \<Rightarrow> string \<Rightarrow> string \<Rightarrow> batch_request
    \<Rightarrow> ('w, batch_result) batch" where
  "one_attempt env cfg batchId source req =
     ebind (fetchSequenceFromNetwork env source) (\<lambda>baseSequence.
     ebind (seq_acquireLock env (batch_manager cfg) source) (\<lambda>lockValue.
     efinally
       (ebind (getNextSequenceNumber env (batch_manager cfg) source baseSequence) (\<lambda>sequenceNumber.
        ebind (buildAndSubmitTransaction env source sequenceNumber (br_payments req)
                 (br_baseFee req) (br_timeoutInSeconds req)) (\<lambda>result.
        ebind (resetSequenceCounter env (batch_manager cfg) source (bres_sequenceNumber result)) (\<lambda>_.
        ebind (record_metrics batchId (br_payments req) ''success'') (\<lambda>_.
        ereturn result)))))
       (seq_releaseLock env (batch_manager cfg) source lockValue)))"

text \<open>
  The retry loop: \<open>left\<close> is \<open>maxRetries - attempts\<close>, so the loop runs while it is positive.
  A sequence conflict retries at once, any other error after a delay, if attempts are left.
\<close>

fun attempt_loop :: "'w batch_env \<Rightarrow> batch_config \<Rightarrow> string \<Rightarrow> string \<Rightarrow> batch_request
    \<Rightarrow> nat \<Rightarrow> int \<Rightarrow> js_error option \<Rightarrow> ('w, batch_result) batch" where
  "attempt_loop env cfg batchId source req 0 attempts lastError =
     ethrow (BatchPaymentErr TRANSACTION_FAILED
       (''Batch payment failed after '' @ show_int (bc_maxRetries cfg) @ '' attempts: '' @
         (case lastError of None \<Rightarrow> ''undefined''
          | Some e \<Rightarrow> (case error_message e of None \<Rightarrow> ''undefined'' | Some m \<Rightarrow> m)))
       None lastError)"
| "attempt_loop env cfg batchId source req (Suc left) attempts0 lastError =
     (let attempts = attempts0 + 1 in
      ecatch (one_attempt env cfg batchId source req) (\<lambda>error.
        ebind (record_metrics batchId (br_payments req) ''failed'') (\<lambda>_.
        if is_sequence_conflict error
        then attempt_loop env cfg batchId source req left attempts (Some error)
        else ebind (if attempts < bc_maxRetries cfg
                    then record_effect (Delayed (bc_retryDelayMs cfg * attempts)) else ereturn ()) (\<lambda>_.
             attempt_loop env cfg batchId source req left attempts (Some error)))))"

definition batch_lock :: "'w batch_env \<Rightarrow> batch_config \<Rightarrow> string \<Rightarrow> batch_request
    \<Rightarrow> ('w, redis_lock option) batch" where
  "batch_lock env cfg batchId req =
     (if bc_useDistributedLocking cfg \<and> \<not> br_dryRun req
      then ecatch (ebind (library_call (be_acquire env (bc_redisKeyPrefix cfg @ '':lock:'' @ batchId)
                            (bc_lockTimeoutSeconds cfg * 1000))) (\<lambda>l. ereturn (Some l)))
             (\<lambda>_. ereturn None)
      else ereturn None)"

definition batch_body :: "'w batch_env \<Rightarrow> batch_config \<Rightarrow> string \<Rightarrow> batch_request \<Rightarrow> ('w, batch_outcome) batch" where
  "batch_body env cfg batchId req =
     ebind (ethrow_if (int (length (br_payments req)) > bc_maxOperationsPerBatch cfg)
       (BatchErr EXCEEDS_MAX_OPS (''Batch exceeds maximum operations: '' @ show_nat (length (br_payments req)) @
          '' > '' @ show_int (bc_maxOperationsPerBatch cfg)))) (\<lambda>_.
     ebind (ethrow_if (br_payments req = [])
       (BatchErr INVALID_ADDRESS ''Batch contains no payment operations'')) (\<lambda>_.
     ebind (if br_dryRun req then ereturn () else elift (validatePayments env (br_payments req))) (\<lambda>_.
     ebind (retrieve_key env req) (\<lambda>secret.
     ebind (elift (be_keypair env secret)) (\<lambda>source.
     if br_dryRun req
     then ebind (simulateBatch env source req) (\<lambda>r. ereturn (Simulated r))
     else ebind (attempt_loop env cfg batchId source req (nat (bc_maxRetries cfg)) 0 None)
            (\<lambda>r. ereturn (Executed r)))))))"

definition executeBatch :: "'w batch_env \<Rightarrow> batch_config \<Rightarrow> batch_request \<Rightarrow> ('w, batch_outcome) batch" where
  "executeBatch env cfg req =
     ebind (case truthy_str (br_batchId req) of
              Some i \<Rightarrow> ereturn i
            | None \<Rightarrow> library_call (\<lambda>w. case be_uuid env w of (u, w') \<Rightarrow> (Inr u, w'))) (\<lambda>batchId.
     ebind (batch_lock env cfg batchId req) (\<lambda>lock.
     efinally (batch_body env cfg batchId req)
       (case lock of None \<Rightarrow> ereturn ()
        | Some l \<Rightarrow> ecatch (library_call (be_release env l)) (\<lambda>_. ereturn ()))))"

section \<open>Chunks and partial failures\<close>

text \<open>\<open>array.slice(i, j)\<close>: a negative index counts from the end.\<close>

definition slice_index :: "int \<Rightarrow> nat \<Rightarrow> nat" where
  "slice_index i n = (if i < 0 then nat (max 0 (int n + i)) else min n (nat i))"

definition js_slice :: "'a list \<Rightarrow> int \<Rightarrow> int \<Rightarrow> 'a list" where
  "js_slice xs i j = (let a = slice_index i (length xs); b = slice_index j (length xs)
     in take (b - a) (drop a xs))"

partial_function (option) chunk_loop :: "'a list \<Rightarrow> int \<Rightarrow> int \<Rightarrow> 'a list list \<Rightarrow> 'a list list option" where
  [code]: "chunk_loop array chunkSize i chunks =
     (if i < int (length array)
      then chunk_loop array chunkSize (i + chunkSize) (chunks @ [js_slice array i (i + chunkSize)])
      else Some chunks)"

definition chunkArray :: "'a list \<Rightarrow> int \<Rightarrow> 'a list list option" where
  "chunkArray array chunkSize = chunk_loop array chunkSize 0 []"

fun run_chunks :: "'w batch_env \<Rightarrow> batch_config \<Rightarrow> batch_request \<Rightarrow> string option \<Rightarrow> nat
    \<Rightarrow> payment_operation list list \<Rightarrow> ('w, batch_outcome list) batch" where
  "run_chunks env cfg tmpl baseBatchId i [] = ereturn []"
| "run_chunks env cfg tmpl baseBatchId i (chunk # chunks) =
     ebind (case truthy_str baseBatchId of
              Some b \<Rightarrow> ereturn b
            | None \<Rightarrow> library_call (\<lambda>w. case be_uuid env w of (u, w') \<Rightarrow> (Inr u, w'))) (\<lambda>b.
     ebind (executeBatch env cfg (tmpl\<lparr>br_batchId := Some (b @ ''-'' @ show_nat (i + 1)),
              br_payments := chunk\<rparr>)) (\<lambda>r.
     ebind (run_chunks env cfg tmpl baseBatchId (Suc i) chunks) (\<lambda>rs.
     ereturn (r # rs))))"

definition key_request :: "string option \<Rightarrow> encrypted_key option \<Rightarrow> string option \<Rightarrow> batch_request" where
  "key_request sourceSecretKey encryptedKey keyId =
     \<lparr>br_batchId = None, br_payments = [], br_sourceSecretKey = sourceSecretKey,
      br_encryptedKey = encryptedKey, br_keyId = keyId, br_baseFee = None,
      br_timeoutInSeconds = None, br_dryRun = False\<rparr>"

text \<open>\<open>None\<close>: the call never returns, because splitting into chunks never ends.\<close>

definition executeBatchInChunks :: "'w batch_env \<Rightarrow> batch_config \<Rightarrow> payment_operation list \<Rightarrow> string option
    \<Rightarrow> int \<Rightarrow> encrypted_key option \<Rightarrow> string option \<Rightarrow> string option
    \<Rightarrow> ('w, batch_outcome list) batch option" where
  "executeBatchInChunks env cfg payments sourceSecretKey chunkSize encryptedKey keyId baseBatchId =
     map_option (run_chunks env cfg (key_request sourceSecretKey encryptedKey keyId) baseBatchId 0)
       (chunkArray payments chunkSize)"

definition outcome_hash :: "batch_outcome \<Rightarrow> string option" where
  "outcome_hash r = (case r of Executed b \<Rightarrow> Some (bres_transactionHash b) | Simulated _ \<Rightarrow> None)"

definition handlePartialFailure :: "'w batch_env \<Rightarrow> batch_config \<Rightarrow> payment_operation list \<Rightarrow> string option
    \<Rightarrow> encrypted_key option \<Rightarrow> string option \<Rightarrow> ('w, partial_failure) batch" where
  "handlePartialFailure env cfg failed sourceSecretKey encryptedKey keyId =
     (if failed = [] then ereturn \<lparr>pf_successful = [], pf_failed = [], pf_transactionHash = None, pf_error = None\<rparr>
      else ecatch
        (ebind (executeBatch env cfg ((key_request sourceSecretKey encryptedKey keyId)\<lparr>br_payments := failed\<rparr>)) (\<lambda>r.
         ereturn \<lparr>pf_successful = failed, pf_failed = [], pf_transactionHash = outcome_hash r, pf_error = None\<rparr>))
        (\<lambda>e. ereturn \<lparr>pf_successful = [],
           pf_failed = List.map (\<lambda>(i, p). \<lparr>fp_payment = p, fp_error = error_or_unknown e, fp_operationIndex = i\<rparr>)
             (List.enumerate 0 failed),
           pf_transactionHash = None, pf_error = Some (error_or_unknown e)\<rparr>))"

end
