(* ===== verification/Batch_Props.thy ===== *)
theory Batch_Props
  imports Batch
begin

text \<open>
  What the batch payment service guarantees: the chunks of a list, the submissions one call
  makes and their relation to its result, what a dry run says of the real run, and what
  becomes of the sequence numbers.
\<close>

section \<open>Chunks\<close>

fun chunks_of :: "nat \<Rightarrow> 'a list \<Rightarrow> 'a list list" where
  "chunks_of k [] = []"
| "chunks_of k (x # xs) = (x # take (k - 1) xs) # chunks_of k (drop (k - 1) xs)"

lemma chunks_of_concat: "concat (chunks_of k xs) = xs"
  by (induction k xs rule: chunks_of.induct) simp_all

lemma chunks_of_length: "0 < k \<Longrightarrow> c \<in> set (chunks_of k xs) \<Longrightarrow> c \<noteq> [] \<and> length c \<le> k"
  by (induction k xs rule: chunks_of.induct) auto

lemma chunks_of_full: "0 < k \<Longrightarrow> c \<in> set (butlast (chunks_of k xs)) \<Longrightarrow> length c = k"
proof (induction k xs rule: chunks_of.induct)
  case (2 k x xs)
  then have "chunks_of k (drop (k - 1) xs) \<noteq> []" by (auto split: if_split_asm)
  then have "drop (k - 1) xs \<noteq> []" by (cases "drop (k - 1) xs") simp_all
  then have "length (x # take (k - 1) xs) = k" using 2(2) by simp
  with 2 show ?case by (auto split: if_split_asm)
qed simp

lemma chunks_of_step:
  "0 < k \<Longrightarrow> xs \<noteq> [] \<Longrightarrow> chunks_of k xs = take k xs # chunks_of k (drop k xs)"
  by (cases xs; cases k) auto

lemma chunk_loop_chunks:
  assumes "0 < k"
  shows "chunk_loop xs (int k) (int i) acc = Some (acc @ chunks_of k (drop i xs))"
proof (induction "length xs - i" arbitrary: i acc rule: less_induct)
  case less
  show ?case
  proof (cases "i < length xs")
    case True
    have slice: "js_slice xs (int i) (int i + int k) = take k (drop i xs)"
    proof -
      have "slice_index (int i) (length xs) = i" "slice_index (int i + int k) (length xs) = min (length xs) (i + k)"
        using True by (simp_all add: slice_index_def nat_add_distrib)
      then show ?thesis by (simp add: js_slice_def Let_def min_def)
    qed
    have "chunk_loop xs (int k) (int (i + k)) (acc @ [take k (drop i xs)]) =
        Some ((acc @ [take k (drop i xs)]) @ chunks_of k (drop (i + k) xs))"
      by (rule less.hyps) (use True assms in simp)
    then show ?thesis
      using True assms slice chunks_of_step [OF assms, of "drop i xs"]
      by (simp add: chunk_loop.simps [of xs "int k" "int i" acc] add.commute)
  qed (simp add: chunk_loop.simps [of xs "int k" "int i" acc])
qed

lemma chunk_loop_diverges:
  "chunk_loop xs k i acc = Some cs \<Longrightarrow> k \<le> 0 \<longrightarrow> int (length xs) \<le> i"
proof (erule chunk_loop.raw_induct [rotated])
  fix rec :: "'a list \<Rightarrow> int \<Rightarrow> int \<Rightarrow> 'a list list \<Rightarrow> 'a list list option"
    and xs :: "'a list" and k i acc y
  assume IH: "\<And>xs k i acc y. rec xs k i acc = Some y \<Longrightarrow> k \<le> 0 \<longrightarrow> int (length xs) \<le> i"
    and r: "(if i < int (length xs) then rec xs k (i + k) (acc @ [js_slice xs i (i + k)]) else Some acc) = Some y"
  show "k \<le> 0 \<longrightarrow> int (length xs) \<le> i"
  proof (cases "i < int (length xs)")
    case True
    with r IH have "k \<le> 0 \<longrightarrow> int (length xs) \<le> i + k" by simp
    then show ?thesis by linarith
  qed simp
qed

text \<open>Splitting into chunks of a positive size loses and reorders nothing: the chunks in a row
  are the payments, each has between one and \<open>chunkSize\<close> of them, and all but the last exactly
  \<open>chunkSize\<close>. With a chunk size of zero or less and any payment at all, the loop never ends,
  and so \<open>executeBatchInChunks\<close> never returns.\<close>

theorem chunkArray_splits:
  "(0 < chunkSize \<longrightarrow> (\<exists>cs. chunkArray ps chunkSize = Some cs \<and> concat cs = ps \<and>
      (\<forall>c \<in> set cs. c \<noteq> [] \<and> int (length c) \<le> chunkSize) \<and>
      (\<forall>c \<in> set (butlast cs). int (length c) = chunkSize))) \<and>
   (chunkSize \<le> 0 \<and> ps \<noteq> [] \<longrightarrow>
      executeBatchInChunks env cfg ps sk chunkSize ek ki base = None)"
proof (intro conjI impI)
  assume k: "0 < chunkSize"
  then have "chunkArray ps chunkSize = Some (chunks_of (nat chunkSize) ps)"
    using chunk_loop_chunks [of "nat chunkSize" ps 0 "[]"] by (simp add: chunkArray_def)
  moreover have "\<forall>c \<in> set (chunks_of (nat chunkSize) ps). c \<noteq> [] \<and> int (length c) \<le> chunkSize"
    using chunks_of_length [of "nat chunkSize" _ ps] k by fastforce
  moreover have "\<forall>c \<in> set (butlast (chunks_of (nat chunkSize) ps)). int (length c) = chunkSize"
    using chunks_of_full [of "nat chunkSize" _ ps] k by fastforce
  ultimately show "\<exists>cs. chunkArray ps chunkSize = Some cs \<and> concat cs = ps \<and>
      (\<forall>c \<in> set cs. c \<noteq> [] \<and> int (length c) \<le> chunkSize) \<and>
      (\<forall>c \<in> set (butlast cs). int (length c) = chunkSize)"
    by (simp add: chunks_of_concat)
next
  assume a: "chunkSize \<le> 0 \<and> ps \<noteq> []"
  have "chunk_loop ps chunkSize 0 [] = None"
  proof (rule ccontr)
    assume "chunk_loop ps chunkSize 0 [] \<noteq> None"
    then obtain cs where "chunk_loop ps chunkSize 0 [] = Some cs" by auto
    from chunk_loop_diverges [OF this] a show False by auto
  qed
  then show "executeBatchInChunks env cfg ps sk chunkSize ek ki base = None"
    by (simp add: executeBatchInChunks_def chunkArray_def)
qed

section \<open>Submissions\<close>

definition submissions :: "batch_effect list \<Rightarrow> (built_tx \<times> (js_error + submit_response)) list" where
  "submissions tr = concat (List.map (\<lambda>e. case e of Submitted tx r \<Rightarrow> [(tx, r)] | _ \<Rightarrow> []) tr)"

abbreviation subs :: "'w batch_state \<Rightarrow> (built_tx \<times> (js_error + submit_response)) list" where
  "subs s \<equiv> submissions (bs_trace s)"

definition refused :: "built_tx \<times> (js_error + submit_response) \<Rightarrow> bool" where
  "refused p \<longleftrightarrow> (\<exists>e. snd p = Inl e)"

lemma submissions_append [simp]: "submissions (a @ b) = submissions a @ submissions b"
  by (simp add: submissions_def)

lemma submissions_metrics [simp]: "submissions (List.map (\<lambda>p. Metric (f p) (g p) (h p)) ps) = []"
  by (induction ps) (simp_all add: submissions_def)

lemma submissions_one [simp]:
  "submissions [Submitted tx r] = [(tx, r)]" "submissions [Delayed d] = []" "submissions [] = []"
  by (simp_all add: submissions_def)

lemma keeps_trace_subs: "keeps bs_trace m \<Longrightarrow> keeps subs m"
  by (simp add: keeps_def)

lemma keeps_record [keeps_rules]:
  "keeps subs (record_metrics i ps st)" "keeps subs (record_effect (Delayed d))"
  unfolding record_metrics_def record_effect_def
  by (rule keeps_emodify; simp)+

lemmas keeps_subs_calls [keeps_rules] =
  keeps_seq [THEN keeps_trace_subs] keeps_library_call [THEN keeps_trace_subs]

lemma buildAndSubmit_subs:
  "triple (\<lambda>s. subs s = S)
     (buildAndSubmitTransaction env src n ps fee tmo)
     (\<lambda>r s. \<exists>tx resp. subs s = S @ [(tx, Inr resp)] \<and> bres_transactionHash r = sr_hash resp)
     (\<lambda>e s. subs s = S \<or> (\<exists>tx e'. subs s = S @ [(tx, Inl e')]))"
  by (rule tripleI)
    (auto simp: buildAndSubmitTransaction_def eff_defs submit_tx_def split: prod.splits sum.splits)

lemma triple_release:
  "triple (\<lambda>s. R (subs s)) (seq_releaseLock env sm acct tok) (\<lambda>_ s. R (subs s)) E"
  by (rule triple_keeps_return [where f = subs]) (simp_all add: keeps_subs_calls releaseLock_returns)

lemma triple_reset:
  "triple (\<lambda>s. R (subs s)) (resetSequenceCounter env sm acct nb) (\<lambda>_ s. R (subs s)) E"
  by (rule triple_keeps_return [where f = subs]) (simp_all add: keeps_subs_calls resetSequenceCounter_returns)

lemma triple_metrics:
  "triple (\<lambda>s. R (subs s)) (record_metrics i ps st) (\<lambda>_ s. R (subs s)) E"
  by (rule triple_keeps_return [where f = subs]) (simp_all add: keeps_record, simp add: record_metrics_def emodify_def)

lemma triple_subs:
  "keeps subs m \<Longrightarrow> triple (\<lambda>s. subs s = S) m (\<lambda>_ s. subs s = S) (\<lambda>_ s. subs s = S \<or> Q s)"
  by (rule triple_weaken [OF triple_keeps [where f = subs and x = S]]) auto

lemma one_attempt_subs:
  "triple (\<lambda>s. subs s = S) (one_attempt env cfg i src req)
     (\<lambda>r s. \<exists>tx resp. subs s = S @ [(tx, Inr resp)] \<and> bres_transactionHash r = sr_hash resp)
     (\<lambda>e s. subs s = S \<or> (\<exists>tx e'. subs s = S @ [(tx, Inl e')]))"
  unfolding one_attempt_def
proof (intro triple_ebind triple_efinally)
  let ?Q = "\<lambda>r T. \<exists>tx resp. T = S @ [(tx, Inr resp)] \<and> bres_transactionHash r = sr_hash resp"
  let ?E = "\<lambda>T. T = S \<or> (\<exists>tx e'. T = S @ [(tx, Inl e')])"
  show "triple (\<lambda>s. subs s = S) (fetchSequenceFromNetwork env src) (\<lambda>_ s. subs s = S) (\<lambda>_ s. ?E (subs s))"
    by (rule triple_subs) (rule keeps_rules)
  show "triple (\<lambda>s. subs s = S) (seq_acquireLock env (batch_manager cfg) src) (\<lambda>_ s. subs s = S) (\<lambda>_ s. ?E (subs s))"
    by (rule triple_subs) (rule keeps_rules)
  show "triple (\<lambda>s. subs s = S) (getNextSequenceNumber env (batch_manager cfg) src b) (\<lambda>_ s. subs s = S) (\<lambda>_ s. ?E (subs s))" for b
    by (rule triple_subs) (rule keeps_rules)
  show "triple (\<lambda>s. subs s = S) (buildAndSubmitTransaction env src n (br_payments req) (br_baseFee req) (br_timeoutInSeconds req))
      (\<lambda>r s. ?Q r (subs s)) (\<lambda>_ s. ?E (subs s))" for n
    by (rule buildAndSubmit_subs)
  show "triple (\<lambda>s. ?Q r (subs s)) (resetSequenceCounter env (batch_manager cfg) src nb)
      (\<lambda>_ s. ?Q r (subs s)) (\<lambda>_ s. ?E (subs s))" for r nb
    by (rule triple_reset)
  show "triple (\<lambda>s. ?Q r (subs s)) (record_metrics i (br_payments req) ''success'')
      (\<lambda>_ s. ?Q r (subs s)) (\<lambda>_ s. ?E (subs s))" for r
    by (rule triple_metrics)
  show "triple (\<lambda>s. ?Q r (subs s)) (ereturn r) (\<lambda>r s. ?Q r (subs s)) (\<lambda>_ s. ?E (subs s))" for r
    by (rule triple_ereturn)
  show "triple (\<lambda>s. ?Q r (subs s)) (seq_releaseLock env (batch_manager cfg) src tok)
      (\<lambda>_ s. ?Q r (subs s)) (\<lambda>_ s. ?E (subs s))" for r tok
    by (rule triple_release)
  show "triple (\<lambda>s. ?E (subs s)) (seq_releaseLock env (batch_manager cfg) src tok)
      (\<lambda>_ s. ?E (subs s)) (\<lambda>_ s. ?E (subs s))" for tok
    by (rule triple_release)
qed

lemma triple_submissions_grow:
  assumes "\<And>T. triple (\<lambda>s. subs s = T) m (\<lambda>r s. Q T r (subs s)) (\<lambda>e s. E T e (subs s))"
  shows "triple (\<lambda>s. P (subs s)) m (\<lambda>r s. \<exists>T. P T \<and> Q T r (subs s)) (\<lambda>e s. \<exists>T. P T \<and> E T e (subs s))"
proof (rule tripleI)
  fix s r s' assume "P (subs s)" "m s = (Inr r, s')"
  with triple_return [OF assms [of "subs s"], of s r s'] show "\<exists>T. P T \<and> Q T r (subs s')" by auto
next
  fix s e s' assume "P (subs s)" "m s = (Inl e, s')"
  with triple_throw [OF assms [of "subs s"], of s e s'] show "\<exists>T. P T \<and> E T e (subs s')" by auto
qed

text \<open>After \<open>k\<close> attempts: at most \<open>k\<close> submissions, all refused but the last one of a return.\<close>

definition ran_ok :: "(built_tx \<times> (js_error + submit_response)) list \<Rightarrow> nat \<Rightarrow> batch_result
    \<Rightarrow> (built_tx \<times> (js_error + submit_response)) list \<Rightarrow> bool" where
  "ran_ok S k r T \<longleftrightarrow> (\<exists>F tx resp. T = S @ F @ [(tx, Inr resp)] \<and> length F < k \<and>
     list_all refused F \<and> bres_transactionHash r = sr_hash resp)"

definition ran_failed :: "(built_tx \<times> (js_error + submit_response)) list \<Rightarrow> nat
    \<Rightarrow> (built_tx \<times> (js_error + submit_response)) list \<Rightarrow> bool" where
  "ran_failed S k T \<longleftrightarrow> (\<exists>F. T = S @ F \<and> length F \<le> k \<and> list_all refused F)"

lemma ran_ok_after:
  assumes "ran_failed S 1 T" "ran_ok T k r U"
  shows "ran_ok S (Suc k) r U"
proof -
  obtain F F' tx resp where "T = S @ F" "length F \<le> 1" "list_all refused F"
    "U = T @ F' @ [(tx, Inr resp)]" "length F' < k" "list_all refused F'"
    "bres_transactionHash r = sr_hash resp"
    using assms unfolding ran_failed_def ran_ok_def by blast
  then show ?thesis
    unfolding ran_ok_def by (intro exI [of _ "F @ F'"] exI [of _ tx] exI [of _ resp]) simp
qed

lemma ran_failed_after:
  assumes "ran_failed S 1 T" "ran_failed T k U"
  shows "ran_failed S (Suc k) U"
proof -
  obtain F F' where "T = S @ F" "length F \<le> 1" "list_all refused F"
    "U = T @ F'" "length F' \<le> k" "list_all refused F'"
    using assms unfolding ran_failed_def by blast
  then show ?thesis unfolding ran_failed_def by (intro exI [of _ "F @ F'"]) simp
qed

lemma one_attempt_ran:
  "triple (\<lambda>s. subs s = S) (one_attempt env cfg i src req)
     (\<lambda>r s. ran_ok S (Suc k) r (subs s)) (\<lambda>e s. ran_failed S 1 (subs s))"
proof (rule triple_weaken [OF one_attempt_subs])
  fix r :: batch_result and s
  assume "\<exists>tx resp. subs s = S @ [(tx, Inr resp)] \<and> bres_transactionHash r = sr_hash resp"
  then show "ran_ok S (Suc k) r (subs s)"
    unfolding ran_ok_def by (elim exE) (rule exI [of _ "[]"], auto)
next
  fix e s assume "subs s = S \<or> (\<exists>tx e'. subs s = S @ [(tx, Inl e')])"
  then show "ran_failed S 1 (subs s)"
  proof
    assume "subs s = S"
    then show ?thesis unfolding ran_failed_def by (intro exI [of _ "[]"]) simp
  next
    assume "\<exists>tx e'. subs s = S @ [(tx, Inl e')]"
    then obtain tx e' where "subs s = S @ [(tx, Inl e')]" by blast
    then show ?thesis unfolding ran_failed_def by (intro exI [of _ "[(tx, Inl e')]"]) (simp add: refused_def)
  qed
qed assumption

lemma attempt_loop_subs:
  "triple (\<lambda>s. subs s = S) (attempt_loop env cfg i src req k n le)
     (\<lambda>r s. ran_ok S k r (subs s)) (\<lambda>e s. ran_failed S k (subs s))"
proof (induction k arbitrary: S n le)
  case 0
  have "ran_failed S 0 S" by (simp add: ran_failed_def)
  then show ?case by (auto simp: triple_def eff_defs)
next
  case (Suc k)
  have rest: "triple (\<lambda>s. ran_failed S 1 (subs s)) (attempt_loop env cfg i src req k n' le')
     (\<lambda>r s. ran_ok S (Suc k) r (subs s)) (\<lambda>e s. ran_failed S (Suc k) (subs s))" for n' le'
    using triple_submissions_grow [OF Suc.IH, of "ran_failed S 1"]
    by (rule triple_weaken) (auto intro: ran_ok_after ran_failed_after)
  have wait: "triple (\<lambda>s. ran_failed S 1 (subs s))
      (if c then record_effect (Delayed d) else ereturn ())
      (\<lambda>_ s. ran_failed S 1 (subs s)) (\<lambda>e s. ran_failed S (Suc k) (subs s))" for c d
  proof (rule triple_keeps_return [where f = subs])
    show "keeps subs (if c then record_effect (Delayed d) else ereturn ())" by (intro keeps_rules)
  qed (simp add: record_effect_def emodify_def ereturn_def)
  show ?case
    unfolding attempt_loop.simps Let_def
    by (rule triple_ecatch [OF one_attempt_ran], rule triple_ebind [OF triple_metrics],
        rule triple_if [OF rest], rule triple_ebind [OF wait rest])
qed

section \<open>Real runs and dry runs\<close>

lemma simulateBatch_trace: "keeps bs_trace (simulateBatch env src req)"
  unfolding simulateBatch_def Let_def by (intro keeps_rules)

lemma retrieve_key_trace: "keeps bs_trace (retrieve_key env req)"
proof -
  have "keeps bs_trace (case e of KeyManagementErr m \<Rightarrow> ethrow (f m) | _ \<Rightarrow> ethrow e)" for e f
    by (cases e) (simp_all add: keeps_rules)
  then show ?thesis unfolding retrieve_key_def by (intro keeps_rules)
qed

lemma batch_lock_trace: "keeps bs_trace (batch_lock env cfg i req)"
  unfolding batch_lock_def by (intro keeps_rules)

text \<open>The checks of a run that come before the signing key is fetched.\<close>

definition batch_checks :: "'w batch_env \<Rightarrow> batch_config \<Rightarrow> batch_request \<Rightarrow> js_error + unit" where
  "batch_checks env cfg req =
     (if int (length (br_payments req)) > bc_maxOperationsPerBatch cfg
      then Inl (BatchErr EXCEEDS_MAX_OPS (''Batch exceeds maximum operations: '' @ show_nat (length (br_payments req)) @
          '' > '' @ show_int (bc_maxOperationsPerBatch cfg)))
      else if br_payments req = [] then Inl (BatchErr INVALID_ADDRESS ''Batch contains no payment operations'')
      else if br_dryRun req then Inr () else validatePayments env (br_payments req))"

definition batch_run :: "'w batch_env \<Rightarrow> batch_config \<Rightarrow> string \<Rightarrow> batch_request \<Rightarrow> ('w, batch_outcome) batch" where
  "batch_run env cfg i req =
     ebind (retrieve_key env req) (\<lambda>secret.
     ebind (elift (be_keypair env secret)) (\<lambda>source.
     if br_dryRun req
     then ebind (simulateBatch env source req) (\<lambda>r. ereturn (Simulated r))
     else ebind (attempt_loop env cfg i source req (nat (bc_maxRetries cfg)) 0 None)
            (\<lambda>r. ereturn (Executed r))))"

lemma batch_body_checks:
  "batch_body env cfg i req = ebind (elift (batch_checks env cfg req)) (\<lambda>_. batch_run env cfg i req)"
  by (rule ext) (auto simp: batch_body_def batch_run_def batch_checks_def eff_defs split: sum.splits)

text \<open>What a call of \<open>executeBatch\<close> leaves behind, by its outcome.\<close>

definition outcome_ok :: "batch_config \<Rightarrow> batch_request \<Rightarrow> (built_tx \<times> (js_error + submit_response)) list
    \<Rightarrow> batch_outcome \<Rightarrow> (built_tx \<times> (js_error + submit_response)) list \<Rightarrow> bool" where
  "outcome_ok cfg req S r T \<longleftrightarrow> (case r of
     Executed b \<Rightarrow> \<not> br_dryRun req \<and> ran_ok S (nat (bc_maxRetries cfg)) b T
   | Simulated d \<Rightarrow> br_dryRun req \<and> T = S)"

definition outcome_failed :: "batch_config \<Rightarrow> batch_request \<Rightarrow> (built_tx \<times> (js_error + submit_response)) list
    \<Rightarrow> (built_tx \<times> (js_error + submit_response)) list \<Rightarrow> bool" where
  "outcome_failed cfg req S T \<longleftrightarrow> (if br_dryRun req then T = S else ran_failed S (nat (bc_maxRetries cfg)) T)"

lemma outcome_failed_same: "outcome_failed cfg req S S"
  by (simp add: outcome_failed_def ran_failed_def)

lemma triple_before:
  "keeps bs_trace m \<Longrightarrow> triple (\<lambda>s. subs s = S) m (\<lambda>_ s. subs s = S) (\<lambda>_ s. outcome_failed cfg req S (subs s))"
  by (rule triple_weaken [OF triple_keeps [where f = subs and x = S]])
    (auto simp: keeps_trace_subs outcome_failed_same)

lemma batch_run_subs:
  "triple (\<lambda>s. subs s = S) (batch_run env cfg i req)
     (\<lambda>r s. outcome_ok cfg req S r (subs s)) (\<lambda>e s. outcome_failed cfg req S (subs s))"
  unfolding batch_run_def
proof (rule triple_ebind [OF triple_before [OF retrieve_key_trace]],
    rule triple_ebind [OF triple_before [OF keeps_simple(4)]], rule triple_if)
  fix src assume d: "br_dryRun req"
  show "triple (\<lambda>s. subs s = S) (ebind (simulateBatch env src req) (\<lambda>r. ereturn (Simulated r)))
     (\<lambda>r s. outcome_ok cfg req S r (subs s)) (\<lambda>e s. outcome_failed cfg req S (subs s))"
    by (rule triple_ebind [OF triple_before [OF simulateBatch_trace]])
      (simp add: triple_def eff_defs outcome_ok_def d)
next
  fix src assume d: "\<not> br_dryRun req"
  show "triple (\<lambda>s. subs s = S)
     (ebind (attempt_loop env cfg i src req (nat (bc_maxRetries cfg)) 0 None) (\<lambda>r. ereturn (Executed r)))
     (\<lambda>r s. outcome_ok cfg req S r (subs s)) (\<lambda>e s. outcome_failed cfg req S (subs s))"
  proof (rule triple_ebind)
    show "triple (\<lambda>s. subs s = S) (attempt_loop env cfg i src req (nat (bc_maxRetries cfg)) 0 None)
       (\<lambda>r s. ran_ok S (nat (bc_maxRetries cfg)) r (subs s)) (\<lambda>e s. outcome_failed cfg req S (subs s))"
      using attempt_loop_subs by (simp add: outcome_failed_def d)
  qed (simp add: triple_def eff_defs outcome_ok_def d)
qed

lemma executeBatch_subs:
  "triple (\<lambda>s. subs s = S) (executeBatch env cfg req)
     (\<lambda>r s. outcome_ok cfg req S r (subs s)) (\<lambda>e s. outcome_failed cfg req S (subs s))"
  unfolding executeBatch_def
proof (rule triple_ebind [where R = "\<lambda>_ s. subs s = S"])
  show "triple (\<lambda>s. subs s = S)
     (case truthy_str (br_batchId req) of Some i \<Rightarrow> ereturn i
      | None \<Rightarrow> library_call (\<lambda>w. case be_uuid env w of (u, w') \<Rightarrow> (Inr u, w')))
     (\<lambda>_ s. subs s = S) (\<lambda>e s. outcome_failed cfg req S (subs s))"
    by (rule triple_before) (intro keeps_rules)
  fix i
  have release: "triple (\<lambda>s. R (subs s))
     (case lock of None \<Rightarrow> ereturn () | Some l \<Rightarrow> ecatch (library_call (be_release env l)) (\<lambda>_. ereturn ()))
     (\<lambda>_ s. R (subs s)) E" for lock R E
  proof (rule triple_keeps_return [where f = subs])
    show "keeps subs (case lock of None \<Rightarrow> ereturn ()
        | Some l \<Rightarrow> ecatch (library_call (be_release env l)) (\<lambda>_. ereturn ()))"
      by (rule keeps_trace_subs) (intro keeps_rules)
  qed (auto simp: eff_defs library_call_def split: option.split prod.split sum.split)
  have body: "triple (\<lambda>s. subs s = S) (batch_body env cfg i req)
     (\<lambda>r s. outcome_ok cfg req S r (subs s)) (\<lambda>e s. outcome_failed cfg req S (subs s))"
    unfolding batch_body_checks
    by (rule triple_ebind [OF triple_before [OF keeps_simple(4)] batch_run_subs])
  show "triple (\<lambda>s. subs s = S)
     (ebind (batch_lock env cfg i req) (\<lambda>lock. efinally (batch_body env cfg i req)
        (case lock of None \<Rightarrow> ereturn () | Some l \<Rightarrow> ecatch (library_call (be_release env l)) (\<lambda>_. ereturn ()))))
     (\<lambda>r s. outcome_ok cfg req S r (subs s)) (\<lambda>e s. outcome_failed cfg req S (subs s))"
    by (rule triple_ebind [OF triple_before [OF batch_lock_trace]], rule triple_efinally [OF body release release])
qed

text \<open>C25. One call of \<open>executeBatch\<close> hands Horizon at most \<open>maxRetries\<close> transactions, and goes on
  only after a refusal: when it returns, the last submission is the one that was accepted,
  its hash is the hash returned, and every earlier one failed; when it throws, every
  submission failed; a dry run submits nothing.\<close>

theorem executeBatch_stops_at_success:
  assumes "executeBatch env cfg req s = (r, s')"
  shows "\<exists>F. subs s' = subs s @ F \<and> length F \<le> nat (bc_maxRetries cfg) \<and>
    (br_dryRun req \<longrightarrow> F = []) \<and>
    (case r of Inl e \<Rightarrow> list_all refused F
     | Inr (Simulated d) \<Rightarrow> F = []
     | Inr (Executed b) \<Rightarrow> F \<noteq> [] \<and> list_all refused (butlast F) \<and>
         (\<exists>tx resp. last F = (tx, Inr resp) \<and> bres_transactionHash b = sr_hash resp))"
proof (cases r)
  case (Inl e)
  with triple_throw [OF executeBatch_subs refl] assms have "outcome_failed cfg req (subs s) (subs s')" by blast
  then obtain F where "subs s' = subs s @ F" "length F \<le> nat (bc_maxRetries cfg)" "list_all refused F"
    "br_dryRun req \<longrightarrow> F = []"
    by (auto simp: outcome_failed_def ran_failed_def split: if_split_asm)
  with Inl show ?thesis by auto
next
  case (Inr x)
  with triple_return [OF executeBatch_subs refl] assms have ok: "outcome_ok cfg req (subs s) x (subs s')" by blast
  show ?thesis
  proof (cases x)
    case (Executed b)
    with ok obtain F tx resp where "subs s' = subs s @ F @ [(tx, Inr resp)]"
      "length F < nat (bc_maxRetries cfg)" "list_all refused F" "bres_transactionHash b = sr_hash resp"
      "\<not> br_dryRun req"
      by (auto simp: outcome_ok_def ran_ok_def)
    then show ?thesis using Inr Executed by (intro exI [of _ "F @ [(tx, Inr resp)]"]) auto
  next
    case (Simulated d)
    with ok Inr show ?thesis by (auto simp: outcome_ok_def)
  qed
qed

section \<open>What a dry run says of the real run\<close>

lemma validatePayments_from_ok:
  "validatePayments_from env i ps = Inr () \<longleftrightarrow>
     (\<forall>(j, p) \<in> set (List.enumerate i ps). validatePayment env p j = Inr ())"
proof (induction ps arbitrary: i)
  case (Cons p ps)
  then show ?case by (cases "validatePayment env p i") simp_all
qed simp

lemma dry_recipient_valid: "dr_valid (dry_recipient env i p) \<longleftrightarrow> validatePayment env p i = Inr ()"
  by (auto simp: dry_recipient_def Let_def split: sum.split)

lemma filter_all_length: "length (filter P xs) = length xs \<longleftrightarrow> list_all P xs"
  by (metis filter_id_conv length_filter_less less_irrefl list_all_iff)

text \<open>A dry run neither submits nor waits nor counts, and agrees with the real run: all its
  recipients are valid exactly when the validation of the real run passes, so a dry run that
  says valid means that the real run is not refused for its payments.\<close>

theorem dry_run_agrees_with_validation:
  assumes "simulateBatch env src req s = (Inr d, s')"
  shows "bs_trace s' = bs_trace s \<and> drr_totalOps d = int (length (br_payments req)) \<and>
    (drr_successfulOps d = drr_totalOps d \<longleftrightarrow> validatePayments env (br_payments req) = Inr ()) \<and>
    (drr_valid d \<longrightarrow> validatePayments env (br_payments req) = Inr ())"
proof -
  let ?rs = "List.map (\<lambda>(i, p). dry_recipient env i p) (List.enumerate 0 (br_payments req))"
  have d: "drr_successfulOps d = int (length (filter dr_valid ?rs))"
    "drr_totalOps d = int (length (br_payments req))"
    "drr_valid d \<longrightarrow> drr_successfulOps d = drr_totalOps d"
    using assms
    by (auto simp: simulateBatch_def Let_def eff_defs library_call_def split: prod.splits sum.splits)
  have "length (filter dr_valid ?rs) = length ?rs \<longleftrightarrow> list_all dr_valid ?rs"
    by (rule filter_all_length)
  also have "\<dots> \<longleftrightarrow> validatePayments env (br_payments req) = Inr ()"
    by (auto simp: list_all_iff validatePayments_def validatePayments_from_ok dry_recipient_valid)
  finally have "drr_successfulOps d = drr_totalOps d \<longleftrightarrow> validatePayments env (br_payments req) = Inr ()"
    using d by simp
  with d keeps_result [OF simulateBatch_trace assms] show ?thesis by blast
qed

text \<open>An amount that is no number is not refused by the validation: NaN compares as false.\<close>

lemma unparsable_amount_passes:
  assumes "isValidStellarPublicKey (be_valid_key env) (Some (po_destination p))"
    and "po_amount p \<noteq> []" "parseFloat (po_amount p) = NaN" "truthy_str (po_assetCode p) = None"
  shows "validatePayment env p i = Inr ()"
  using assms by (simp add: validatePayment_def)

section \<open>Sequence numbers\<close>

text \<open>The numbers handed out one after another over the same network number are consecutive,
  so all different. But a reset gives them out again: a worker that read the network's number
  before another one's run, and asks after that run has reset the counter, gets the very
  number the other one was given first, whoever holds the lock meanwhile.\<close>

theorem sequence_numbers_unique_until_reset:
  assumes "counters_ok env count" and "next_numbers env sm acct base (Suc k) s = (Inr ns, s1)"
    and "count (bs_world s) (counter_key sm acct) = 0"
    and "be_del env (counter_key sm acct) (bs_world s1) = (Inr u, w)"
    and "getNextSequenceNumber env sm acct base (snd (resetSequenceCounter env sm acct nb s1)) = (Inr n, s2)"
  shows "distinct ns \<and> ns = List.map (\<lambda>i. base + 1 + int i) [0..<Suc k] \<and> n = hd ns"
proof -
  have ns: "ns = List.map (\<lambda>i. base + 1 + int i) [0..<Suc k]"
    using next_numbers_values [OF assms(1,2)] assms(3) by simp
  have "bs_world (snd (resetSequenceCounter env sm acct nb s1)) = w"
    using assms(4) by (simp add: resetSequenceCounter_def eff_defs library_call_def)
  then have "n = base + 1"
    using getNext_value [OF assms(1,5)] counters_del [OF assms(1,4)] by simp
  then show ?thesis using ns by (auto simp: distinct_map inj_on_def upt_conv_Cons simp del: upt_Suc)
qed

text \<open>
  The network, and the SDK as its documentation has them: \<open>TransactionBuilder.build\<close> gives
  the transaction the number after the account object's one; \<open>loadAccount\<close> reports the number
  of the last transaction (\<open>ledger\<close>); Horizon accepts a transaction only with the number
  after that. Nobody else uses the account in between, and a counter that was incremented
  is at least 1.
\<close>

definition network_ok :: "'w batch_env \<Rightarrow> ('w \<Rightarrow> string \<Rightarrow> int) \<Rightarrow> bool" where
  "network_ok env ledger \<longleftrightarrow>
     (\<forall>a n f t ops tx. be_build env a n f t ops = Inr tx \<longrightarrow> tx_source tx = a \<and> tx_sequence tx = n + 1) \<and>
     (\<forall>a w i w'. be_loadAccount env a w = (Inr i, w') \<longrightarrow> ai_sequence i = ledger w a \<and> ledger w' = ledger w) \<and>
     (\<forall>tx w r w'. be_submit env tx w = (Inr r, w') \<longrightarrow> tx_sequence tx = ledger w (tx_source tx) + 1) \<and>
     (\<forall>k t w r w'. be_acquire env k t w = (r, w') \<longrightarrow> ledger w' = ledger w) \<and>
     (\<forall>k w n w'. be_incr env k w = (Inr n, w') \<longrightarrow> 1 \<le> n \<and> ledger w' = ledger w) \<and>
     (\<forall>k t w r w'. be_expire env k t w = (r, w') \<longrightarrow> ledger w' = ledger w)"

lemmas network_okD =
  network_ok_def [THEN iffD1, THEN conjunct1, rule_format]
  network_ok_def [THEN iffD1, THEN conjunct2, THEN conjunct1, rule_format]
  network_ok_def [THEN iffD1, THEN conjunct2, THEN conjunct2, THEN conjunct1, rule_format]
  network_ok_def [THEN iffD1, THEN conjunct2, THEN conjunct2, THEN conjunct2, THEN conjunct1, rule_format]
  network_ok_def [THEN iffD1, THEN conjunct2, THEN conjunct2, THEN conjunct2, THEN conjunct2, THEN conjunct1, rule_format]
  network_ok_def [THEN iffD1, THEN conjunct2, THEN conjunct2, THEN conjunct2, THEN conjunct2, THEN conjunct2, rule_format]

lemma triple_true: "triple P m (\<lambda>_ _. True) (\<lambda>_ _. True)"
  by (rule tripleI) auto

lemma buildAndSubmit_refused:
  assumes "network_ok env ledger"
  shows "triple (\<lambda>s. ledger (bs_world s) src < n)
    (buildAndSubmitTransaction env src n ps fee tmo) (\<lambda>_ _. False) (\<lambda>_ _. True)"
  by (rule tripleI)
    (auto simp: buildAndSubmitTransaction_def eff_defs submit_tx_def split: prod.splits sum.splits
      dest!: network_okD(1,3) [OF assms])

lemma one_attempt_refused:
  assumes "network_ok env ledger"
  shows "triple (\<lambda>_. True) (one_attempt env cfg i src req) (\<lambda>_ _. False) (\<lambda>_ _. True)"
  unfolding one_attempt_def
proof (rule triple_ebind [where R = "\<lambda>b s. ledger (bs_world s) src = b"])
  show "triple (\<lambda>_. True) (fetchSequenceFromNetwork env src)
     (\<lambda>b s. ledger (bs_world s) src = b) (\<lambda>_ _. True)"
    by (rule tripleI)
      (auto simp: fetchSequenceFromNetwork_def eff_defs library_call_def split: prod.splits sum.splits
        dest!: network_okD(2) [OF assms])
  fix b
  have lock: "triple (\<lambda>s. ledger (bs_world s) src = b) (seq_acquireLock env (batch_manager cfg) src)
     (\<lambda>_ s. ledger (bs_world s) src = b) (\<lambda>_ _. True)"
    by (rule tripleI)
      (auto simp: seq_acquireLock_def eff_defs library_call_def split: prod.splits sum.splits
        dest!: network_okD(4) [OF assms])
  have num: "triple (\<lambda>s. ledger (bs_world s) src = b) (getNextSequenceNumber env (batch_manager cfg) src b)
     (\<lambda>n s. ledger (bs_world s) src < n) (\<lambda>_ _. True)"
    by (rule tripleI)
      (auto simp: getNextSequenceNumber_def eff_defs library_call_def split: prod.splits sum.splits
        dest!: network_okD(5,6) [OF assms])
  have no: "triple (\<lambda>_. False) m Q E" for m :: "('a, 'x) batch" and Q E
    by (simp add: triple_def)
  show "triple (\<lambda>s. ledger (bs_world s) src = b)
     (ebind (seq_acquireLock env (batch_manager cfg) src) (\<lambda>lockValue. efinally
       (ebind (getNextSequenceNumber env (batch_manager cfg) src b) (\<lambda>sequenceNumber.
        ebind (buildAndSubmitTransaction env src sequenceNumber (br_payments req) (br_baseFee req)
                 (br_timeoutInSeconds req)) (\<lambda>result.
        ebind (resetSequenceCounter env (batch_manager cfg) src (bres_sequenceNumber result)) (\<lambda>_.
        ebind (record_metrics i (br_payments req) ''success'') (\<lambda>_. ereturn result)))))
       (seq_releaseLock env (batch_manager cfg) src lockValue)))
     (\<lambda>_ _. False) (\<lambda>_ _. True)"
    by (rule triple_ebind [OF lock], rule triple_efinally [OF _ no triple_true],
        rule triple_ebind [OF num], rule triple_ebind [OF buildAndSubmit_refused [OF assms] no])
qed

lemma attempt_loop_refused:
  assumes "network_ok env ledger"
  shows "triple (\<lambda>_. True) (attempt_loop env cfg i src req k n le) (\<lambda>_ _. False) (\<lambda>_ _. True)"
proof (induction k arbitrary: n le)
  case (Suc k)
  show ?case
    unfolding attempt_loop.simps Let_def
    by (rule triple_ecatch [OF one_attempt_refused [OF assms]], rule triple_ebind [OF triple_true],
        rule triple_if [OF Suc.IH], rule triple_ebind [OF triple_true Suc.IH])
qed (simp add: triple_def eff_defs)

text \<open>Against the real network a batch never goes through. The number handed to the SDK is
  already the network's number plus at least one, and the SDK adds one more when it builds:
  the transaction carries at least the network's number plus two, which Horizon refuses. So
  every real run ends with an exception, after submissions that were all refused.\<close>

theorem batch_sequence_always_refused:
  assumes "network_ok env ledger" and "\<not> br_dryRun req"
  shows "\<exists>e s' F. executeBatch env cfg req s = (Inl e, s') \<and> subs s' = subs s @ F \<and>
    length F \<le> nat (bc_maxRetries cfg) \<and> list_all refused F"
proof -
  have no: "triple (\<lambda>_. False) m Q E" for m :: "('a, 'x) batch" and Q E
    by (simp add: triple_def)
  have run: "triple (\<lambda>_. True) (batch_run env cfg i req) (\<lambda>_ _. False) (\<lambda>_ _. True)" for i
    unfolding batch_run_def
    by (rule triple_ebind [OF triple_true], rule triple_ebind [OF triple_true])
      (use assms(2) in \<open>simp add: triple_ebind [OF attempt_loop_refused [OF assms(1)] no]\<close>)
  have "triple (\<lambda>_. True) (executeBatch env cfg req) (\<lambda>_ _. False) (\<lambda>_ _. True)"
    unfolding executeBatch_def batch_body_checks
    by (rule triple_ebind [OF triple_true], rule triple_ebind [OF triple_true],
        rule triple_efinally [OF triple_ebind [OF triple_true run] no triple_true])
  then obtain e s' where e: "executeBatch env cfg req s = (Inl e, s')"
    by (metis (no_types, lifting) old.sum.exhaust prod.exhaust triple_return)
  with executeBatch_subs [of "subs s" env cfg req] have "outcome_failed cfg req (subs s) (subs s')"
    by (auto dest: triple_throw)
  with e assms(2) show ?thesis by (auto simp: outcome_failed_def ran_failed_def)
qed

section \<open>Witnesses\<close>

text \<open>
  A concrete world: the sequence number of the one account, and the Redis counters. The
  network accepts exactly the next number. \<open>step\<close> is what \<open>build\<close> adds to the number of the
  account object: 1 for the SDK.
\<close>

record demo_world =
  dw_ledger :: int
  dw_counters :: "(string, nat) jsmap"

definition demo_count :: "demo_world \<Rightarrow> string \<Rightarrow> int" where
  "demo_count w k = (case js_get (dw_counters w) k of None \<Rightarrow> 0 | Some n \<Rightarrow> int n)"

definition bad_seq :: js_error where
  "bad_seq = OtherErr ''Error'' ''Request failed with status code 400'' None None None None None
     (Some \<lparr>er_status = Some 400, er_extras = None, er_data_status = Some 400,
        er_data_extras = Some \<lparr>rc_transaction = Some ''tx_bad_seq'', rc_operations = None\<rparr>\<rparr>)"

definition demo_env :: "int \<Rightarrow> demo_world batch_env" where
  "demo_env step = \<lparr>
     be_valid_key = (\<lambda>_. True),
     be_keypair = (\<lambda>sk. Inr (CHR ''G'' # tl sk)),
     be_asset = (\<lambda>c i. Inr (CreditAsset c i)),
     be_payment = Inr,
     be_build = (\<lambda>a n f t ops. Inr \<lparr>tx_source = a, tx_sequence = n + step, tx_fee = f, tx_maxTime = t, tx_operations = ops\<rparr>),
     be_uuid = (\<lambda>w. (''uuid'', w)),
     be_now = (\<lambda>_. 1000),
     be_decryptKey = (\<lambda>_ w. (Inr ''Skey'', w)),
     be_getKeyByReference = (\<lambda>_ w. (Inr ''Skey'', w)),
     be_acquire = (\<lambda>k _ w. (Inr \<lparr>lk_resource = k, lk_value = ''v''\<rparr>, w)),
     be_release = (\<lambda>_ w. (Inr (), w)),
     be_incr = (\<lambda>k w. let n = demo_count w k + 1 in (Inr n, w\<lparr>dw_counters := js_set k (nat n) (dw_counters w)\<rparr>)),
     be_expire = (\<lambda>_ _ w. (Inr (), w)),
     be_del = (\<lambda>k w. (Inr (), w\<lparr>dw_counters := js_delete k (dw_counters w)\<rparr>)),
     be_loadAccount = (\<lambda>_ w. (Inr \<lparr>ai_sequence = dw_ledger w, ai_balances =
        [\<lparr>ab_asset_type = ''native'', ab_asset_code = None, ab_asset_issuer = None, ab_balance = ''100''\<rparr>]\<rparr>, w)),
     be_submit = (\<lambda>tx w. if tx_sequence tx = dw_ledger w + 1
        then (Inr \<lparr>sr_hash = ''h1'', sr_ledger = Some 7, sr_fee_charged = Some ''100'', sr_feeCharged = None\<rparr>,
              w\<lparr>dw_ledger := dw_ledger w + 1\<rparr>)
        else (Inl bad_seq, w))\<rparr>"

definition demo_dest :: string where
  "demo_dest = ''GDEST'' @ replicate 51 (CHR ''A'')"

definition demo_request :: batch_request where
  "demo_request = (key_request (Some ''Ssecret'') None None)\<lparr>br_batchId := Some ''b1'',
     br_payments := [\<lparr>po_destination = demo_dest, po_amount = ''10'', po_assetCode = None,
       po_assetIssuer = None, po_memo = None\<rparr>]\<rparr>"

definition demo_batch_state :: "demo_world batch_state" where
  "demo_batch_state = \<lparr>bs_world = \<lparr>dw_ledger = 10, dw_counters = []\<rparr>, bs_trace = []\<rparr>"

lemma demo_network_ok: "network_ok (demo_env 1) (\<lambda>w _. dw_ledger w)"
  by (auto simp: network_ok_def demo_env_def demo_count_def Let_def split: if_split_asm option.split)

lemma demo_counters_ok: "counters_ok (demo_env step) demo_count"
  by (auto simp: counters_ok_def demo_env_def demo_count_def Let_def fun_eq_iff update_conv' delete_conv'
      split: option.split)

definition demo_payments :: "payment_operation list" where
  "demo_payments = br_payments demo_request"

lemma chunkArray_splits_witness:
  "executeBatchInChunks (demo_env 1) DEFAULT_CONFIG demo_payments None 0 None None None = None \<and>
   (\<exists>cs. chunkArray demo_payments 2 = Some cs \<and> concat cs = demo_payments)"
proof -
  have "demo_payments \<noteq> []" by (simp add: demo_payments_def demo_request_def)
  with chunkArray_splits [of 0 demo_payments "demo_env 1" DEFAULT_CONFIG None None None None]
    chunkArray_splits [of 2 demo_payments] show ?thesis by auto
qed

text \<open>With a builder that did not count on, the first submission is accepted.\<close>

lemma executeBatch_stops_at_success_witness:
  "\<exists>s' F b. executeBatch (demo_env 0) DEFAULT_CONFIG demo_request demo_batch_state = (Inr (Executed b), s') \<and>
     subs s' = F \<and> length F \<le> 3 \<and> F \<noteq> [] \<and> bres_transactionHash b = ''h1''"
proof -
  let ?x = "executeBatch (demo_env 0) DEFAULT_CONFIG demo_request demo_batch_state"
  have "(case fst ?x of Inr (Executed b) \<Rightarrow> bres_transactionHash b = ''h1'' | _ \<Rightarrow> False) \<and>
      bc_maxRetries DEFAULT_CONFIG = 3 \<and> subs demo_batch_state = []"
    by code_simp
  then obtain b s' where x: "?x = (Inr (Executed b), s')" "bres_transactionHash b = ''h1''"
    and d: "bc_maxRetries DEFAULT_CONFIG = 3" "subs demo_batch_state = []"
    by (cases ?x) (auto split: sum.splits batch_outcome.splits)
  from executeBatch_stops_at_success [OF x(1)] x d show ?thesis by auto
qed

lemma batch_sequence_always_refused_witness:
  "\<exists>e s' F. executeBatch (demo_env 1) DEFAULT_CONFIG demo_request demo_batch_state = (Inl e, s') \<and>
     subs s' = F \<and> list_all refused F \<and> List.map (tx_sequence \<circ> fst) F = [12, 13, 14]"
proof -
  let ?x = "executeBatch (demo_env 1) DEFAULT_CONFIG demo_request demo_batch_state"
  have "List.map (tx_sequence \<circ> fst) (subs (snd ?x)) = [12, 13, 14] \<and> subs demo_batch_state = [] \<and>
      \<not> br_dryRun demo_request"
    by code_simp
  then show ?thesis
    using batch_sequence_always_refused [OF demo_network_ok, of demo_request DEFAULT_CONFIG demo_batch_state]
    by auto
qed

lemma dry_run_agrees_with_validation_witness:
  "validatePayments (demo_env 1) (br_payments demo_request) = Inr ()"
proof -
  let ?x = "simulateBatch (demo_env 1) ''Gsource'' demo_request demo_batch_state"
  have "List.map (\<lambda>(i, p). validatePayment (demo_env 1) p i) (List.enumerate 0 (br_payments demo_request)) = [Inr ()]"
    by code_simp
  then have "filter dr_valid (List.map (\<lambda>(i, p). dry_recipient (demo_env 1) i p)
      (List.enumerate 0 (br_payments demo_request))) =
      List.map (\<lambda>(i, p). dry_recipient (demo_env 1) i p) (List.enumerate 0 (br_payments demo_request))"
    by (auto simp: filter_id_conv dry_recipient_valid)
  then have "length (filter dr_valid (List.map (\<lambda>(i, p). dry_recipient (demo_env 1) i p)
      (List.enumerate 0 (br_payments demo_request)))) = length (br_payments demo_request)"
    by (simp only: length_map length_enumerate)
  moreover obtain a w where "be_loadAccount (demo_env 1) ''Gsource'' (bs_world demo_batch_state) = (Inr a, w)"
    by (simp add: demo_env_def)
  ultimately obtain d s' where x: "?x = (Inr d, s')" "drr_successfulOps d = drr_totalOps d"
    by (simp add: simulateBatch_def Let_def eff_defs library_call_def)
  from dry_run_agrees_with_validation [OF x(1)] x(2) show ?thesis by blast
qed

definition demo_manager :: seq_manager where
  "demo_manager = \<lparr>sm_redisPrefix = ''stellar:seq'', sm_lockTimeout = 30\<rparr>"

lemma sequence_numbers_unique_until_reset_witness:
  "fst (getNextSequenceNumber (demo_env 1) demo_manager ''Gx'' 10 (snd (resetSequenceCounter (demo_env 1) demo_manager ''Gx'' 12
      (snd (next_numbers (demo_env 1) demo_manager ''Gx'' 10 2 demo_batch_state))))) = Inr 11"
proof -
  let ?n = "next_numbers (demo_env 1) demo_manager ''Gx'' 10 (Suc 1) demo_batch_state"
  let ?d = "be_del (demo_env 1) (counter_key demo_manager ''Gx'') (bs_world (snd ?n))"
  let ?g = "getNextSequenceNumber (demo_env 1) demo_manager ''Gx'' 10
    (snd (resetSequenceCounter (demo_env 1) demo_manager ''Gx'' 12 (snd ?n)))"
  have n: "?n = (Inr [11, 12], snd ?n)" by code_simp
  have d: "?d = (Inr (), snd ?d)" by code_simp
  obtain k where g: "?g = (Inr k, snd ?g)"
  proof -
    have "(case fst ?g of Inr _ \<Rightarrow> True | Inl _ \<Rightarrow> False)" by code_simp
    then show ?thesis using that by (cases ?g) (auto split: sum.splits)
  qed
  have z: "demo_count (bs_world demo_batch_state) (counter_key demo_manager ''Gx'') = 0" by code_simp
  from sequence_numbers_unique_until_reset [OF demo_counters_ok n z d g] g show ?thesis
    by (metis fst_conv list.sel(1) numeral_2_eq_2 One_nat_def)
qed

end
