(* ===== verification/Recurring.thy ===== *)
theory Recurring
  imports Batch
begin

text \<open>
  \<open>backend/src/services/recurring-payments.service.ts\<close>: payment schedules, the worker that
  pays the due ones through the batch payment service, the classification of failures and
  the retry policy. The database tables (\<open>prisma/schema.prisma\<close>) are maps from identifiers;
  times are milliseconds. The cron parser, \<open>Math.pow\<close>, \<open>Math.random\<close> and the text of a
  number in a message are parameters, and so is whether the database transaction that
  records a payment commits; the other database calls succeed.
\<close>

section \<open>Data\<close>

datatype schedule_status = SCHED_ACTIVE | SCHED_PAUSED | SCHED_CANCELLED

datatype run_status = RUN_PENDING | RUN_PROCESSING | RUN_SUCCEEDED | RUN_FAILED | RUN_INSUFFICIENT_FUNDS

record schedule_input =
  si_destination :: string
  si_assetCode :: string
  si_amount :: string
  si_cron :: string

record partial_schedule_input =
  psi_destination :: "string option"
  psi_assetCode :: "string option"
  psi_amount :: "string option"
  psi_cron :: "string option"

record schedule =
  sc_userId :: string
  sc_destination :: string
  sc_assetCode :: string
  sc_amount :: string
  sc_cron :: string
  sc_status :: schedule_status
  sc_nextRunAt :: int
  sc_lastRunAt :: "int option"
  sc_retryCount :: int
  sc_createdAt :: int

record payment_run =
  pr_scheduleId :: string
  pr_status :: run_status
  pr_attempt :: int
  pr_stellarTxId :: "string option"
  pr_error :: "string option"
  pr_startedAt :: "int option"
  pr_finishedAt :: "int option"
  pr_createdAt :: int

record notification =
  no_userId :: string
  no_message :: string
  no_runId :: string

text \<open>The users (identifier and public key), the two tables, and the notifications sent.\<close>

record 'w recurring_state =
  rs_users :: "(string, string) jsmap"
  rs_schedules :: "(string, schedule) jsmap"
  rs_runs :: "(string, payment_run) jsmap"
  rs_notified :: "notification list"
  rs_batch :: "'w batch_state"

record 'w recurring_env =
  re_batch :: "'w batch_env"
  re_batchConfig :: batch_config
  re_nextRun :: "string \<Rightarrow> int \<Rightarrow> js_error + int"
  re_pow :: "jsnum \<Rightarrow> int \<Rightarrow> jsnum"
  re_random :: "'w \<Rightarrow> jsnum \<times> 'w"
  re_numberText :: "jsnum \<Rightarrow> string"
  re_commit :: "'w \<Rightarrow> (js_error + unit) \<times> 'w"
  re_distributionSecret :: "string option"
  re_maxRetries :: int
  re_backoffBase :: int
  re_backoffMax :: int
  re_multiplier :: jsnum
  re_jitter :: jsnum

type_synonym ('w, 'a) recurring = "('w recurring_state, js_error, 'a) eff"

text \<open>A computation of the batch payment service, run from here.\<close>

definition on_batch :: "('w, 'a) batch \<Rightarrow> ('w, 'a) recurring" where
  "on_batch m s = (case m (rs_batch s) of (r, b) \<Rightarrow> (r, s\<lparr>rs_batch := b\<rparr>))"

definition clock :: "'w recurring_env \<Rightarrow> ('w, int) recurring" where
  "clock env = eget (\<lambda>s. be_now (re_batch env) (bs_world (rs_batch s)))"

definition new_id :: "'w recurring_env \<Rightarrow> ('w, string) recurring" where
  "new_id env = on_batch (library_call (\<lambda>w. case be_uuid (re_batch env) w of (u, w') \<Rightarrow> (Inr u, w')))"

section \<open>Classification of failures\<close>

datatype failure_kind = TRANSIENT | PERMANENT

definition PERMANENT_BATCH_ERROR_TYPES :: "batch_error_type list" where
  "PERMANENT_BATCH_ERROR_TYPES = [EXCEEDS_MAX_OPS, INVALID_ADDRESS, INSUFFICIENT_BALANCE, SEQUENCE_CONFLICT, INVALID_ASSET]"

definition PERMANENT_RESULT_CODES :: "string list" where
  "PERMANENT_RESULT_CODES = [''tx_bad_seq'', ''tx_bad_auth'', ''tx_bad_auth_extra'', ''tx_insufficient_balance'',
     ''tx_no_source_account'', ''tx_malformed'', ''tx_not_supported'', ''op_underfunded'', ''op_no_destination'',
     ''op_no_trust'', ''op_not_authorized'', ''op_line_full'', ''op_no_issuer'', ''op_malformed'',
     ''op_src_no_trust'', ''op_src_not_authorized'', ''op_bad_auth'', ''op_no_account'']"

definition TRANSIENT_RESULT_CODES :: "string list" where
  "TRANSIENT_RESULT_CODES = [''tx_insufficient_fee'', ''tx_too_late'', ''tx_internal_error'']"

definition TRANSIENT_NETWORK_CODES :: "string list" where
  "TRANSIENT_NETWORK_CODES = [''ECONNRESET'', ''ECONNREFUSED'', ''ECONNABORTED'', ''ETIMEDOUT'', ''ESOCKETTIMEDOUT'',
     ''EPIPE'', ''EAI_AGAIN'', ''ENOTFOUND'', ''ENETUNREACH'', ''EHOSTUNREACH'', ''ERR_NETWORK'']"

text \<open>\<open>a ?? b\<close>.\<close>

definition nullish :: "'a option \<Rightarrow> 'a option \<Rightarrow> 'a option" where
  "nullish a b = (case a of None \<Rightarrow> b | Some _ \<Rightarrow> a)"

definition response_field :: "(error_response \<Rightarrow> 'a option) \<Rightarrow> js_error \<Rightarrow> 'a option" where
  "response_field f e = (case e of
     OtherErr _ _ _ _ _ _ _ (Some r) \<Rightarrow> f r
   | _ \<Rightarrow> None)"

definition own_extras :: "js_error \<Rightarrow> result_codes option" where
  "own_extras e = (case e of OtherErr _ _ _ _ _ _ x _ \<Rightarrow> x | _ \<Rightarrow> None)"

definition collectResultCodes :: "js_error \<Rightarrow> string list" where
  "collectResultCodes err =
     (case nullish (own_extras err) (nullish (response_field er_extras err) (response_field er_data_extras err)) of
        None \<Rightarrow> []
      | Some rc \<Rightarrow>
          let codes = (case rc_operations rc of None \<Rightarrow> [] | Some ops \<Rightarrow> ops) @
                (case truthy_str (rc_transaction rc) of None \<Rightarrow> [] | Some t \<Rightarrow> [t])
          in filter (\<lambda>c. c \<noteq> ''op_success'') codes)"

definition own_status :: "js_error \<Rightarrow> int option" where
  "own_status e = (case e of OtherErr _ _ _ st _ _ _ _ \<Rightarrow> st | _ \<Rightarrow> None)"

definition extractHttpStatus :: "js_error \<Rightarrow> int option" where
  "extractHttpStatus err =
     nullish (response_field er_status err) (nullish (response_field er_data_status err) (own_status err))"

definition classifyHttpStatus :: "int \<Rightarrow> failure_kind option" where
  "classifyHttpStatus status =
     (if status = 408 \<or> status = 425 \<or> status = 429 \<or> status \<ge> 500 then Some TRANSIENT
      else if status \<ge> 400 then Some PERMANENT
      else None)"

text \<open>\<open>err.details?.error ?? err.cause\<close>, when it is truthy.\<close>

definition inner_error :: "js_error \<Rightarrow> js_error option" where
  "inner_error e =
     (case (case e of BatchPaymentErr _ _ de _ \<Rightarrow> de
            | OtherErr _ _ _ _ de ca _ _ \<Rightarrow> nullish de ca
            | _ \<Rightarrow> None) of
        Some (Thrown []) \<Rightarrow> None
      | i \<Rightarrow> i)"

definition error_code :: "js_error \<Rightarrow> string option" where
  "error_code e = (case e of OtherErr _ _ c _ _ _ _ _ \<Rightarrow> c | _ \<Rightarrow> None)"

definition error_name :: "js_error \<Rightarrow> string" where
  "error_name e = (case e of OtherErr n _ _ _ _ _ _ _ \<Rightarrow> n | BatchPaymentErr _ _ _ _ \<Rightarrow> ''BatchPaymentError''
     | RecurringPaymentErr _ _ \<Rightarrow> ''RecurringPaymentError'' | KeyManagementErr _ \<Rightarrow> ''KeyManagementError'' | Thrown _ \<Rightarrow> [])"

definition is_object :: "js_error \<Rightarrow> bool" where
  "is_object e = (case e of Thrown _ \<Rightarrow> False | _ \<Rightarrow> True)"

text \<open>The verdict on the error itself, before any error inside it is looked at.\<close>

definition classify_here :: "js_error \<Rightarrow> failure_kind option" where
  "classify_here error =
     (let batch = (case error of
            BatchPaymentErr t _ _ _ \<Rightarrow>
              if t \<in> set PERMANENT_BATCH_ERROR_TYPES then Some PERMANENT
              else if t = NETWORK_ERROR then Some TRANSIENT else None
          | _ \<Rightarrow> None);
          codes = collectResultCodes error
      in if batch \<noteq> None then batch
         else if \<exists>c \<in> set codes. c \<in> set PERMANENT_RESULT_CODES then Some PERMANENT
         else if \<exists>c \<in> set codes. c \<in> set TRANSIENT_RESULT_CODES then Some TRANSIENT
         else case (case extractHttpStatus error of None \<Rightarrow> None | Some st \<Rightarrow> classifyHttpStatus st) of
                Some k \<Rightarrow> Some k
              | None \<Rightarrow>
                  (case error_code error of
                     Some c \<Rightarrow> if c \<in> set TRANSIENT_NETWORK_CODES then Some TRANSIENT else None
                   | None \<Rightarrow> None))"

text \<open>Inner errors are looked at to depth 3.\<close>

function classifyRecurringPaymentError :: "js_error \<Rightarrow> nat \<Rightarrow> failure_kind" where
  "classifyRecurringPaymentError error depth =
     (case error of
        RecurringPaymentErr _ _ \<Rightarrow> PERMANENT
      | _ \<Rightarrow>
          if \<not> is_object error \<or> depth > 3 then TRANSIENT
          else case classify_here error of
                 Some k \<Rightarrow> k
               | None \<Rightarrow>
                   (case inner_error error of
                      Some inner \<Rightarrow> classifyRecurringPaymentError inner (depth + 1)
                    | None \<Rightarrow> if error_name error = ''NotFoundError'' then PERMANENT else TRANSIENT))"
  by auto
termination by (relation "measure (\<lambda>(_, d). 4 - d)") auto

declare classifyRecurringPaymentError.simps [simp del]

section \<open>Backoff\<close>

definition INSUFFICIENT_FUNDS_RETRY_MS :: int where "INSUFFICIENT_FUNDS_RETRY_MS = 24 * 60 * 60 * 1000"

definition FAILURE_NOTIFICATION_THRESHOLD :: nat where "FAILURE_NOTIFICATION_THRESHOLD = 2"

text \<open>\<open>random\<close> is what \<open>Math.random()\<close> gives.\<close>

definition computeBackoffDelayMs :: "'w recurring_env \<Rightarrow> int \<Rightarrow> jsnum \<Rightarrow> jsnum" where
  "computeBackoffDelayMs env attempt random =
     (let maxDelay = js_int (re_backoffMax env);
          safeAttempt = max 1 attempt;
          raw = js_mul (js_int (re_backoffBase env)) (re_pow env (re_multiplier env) (safeAttempt - 1));
          capped = math_min raw maxDelay
      in if js_le (re_jitter env) (Fin 0) then math_round capped
         else let jitterFactor = js_add (Fin 1)
                    (js_mul (js_sub (js_mul random (Fin 2)) (Fin 1)) (re_jitter env));
                  withJitter = js_mul capped jitterFactor
              in math_round (math_min (math_max withJitter (Fin 0)) maxDelay))"

definition backoff_delay :: "'w recurring_env \<Rightarrow> int \<Rightarrow> ('w, int) recurring" where
  "backoff_delay env attempt =
     ebind (if js_le (re_jitter env) (Fin 0) then ereturn (Fin 0)
            else on_batch (library_call (\<lambda>w. case re_random env w of (x, w') \<Rightarrow> (Inr x, w')))) (\<lambda>random.
     elift (case computeBackoffDelayMs env attempt random of
              Fin d \<Rightarrow> Inr \<lfloor>d\<rfloor>
            | _ \<Rightarrow> Inl (OtherErr ''RangeError'' ''Invalid time value'' None None None None None None)))"

section \<open>Schedules\<close>

definition validateScheduleInput :: "'w recurring_env \<Rightarrow> int \<Rightarrow> schedule_input \<Rightarrow> js_error + unit" where
  "validateScheduleInput env now i =
     (if \<not> isValidStellarPublicKey (be_valid_key (re_batch env)) (Some (si_destination i))
      then Inl (PlainError ''Invalid destination Stellar address'')
      else let amountNum = parseFloat (si_amount i) in
           if \<not> js_isFinite amountNum \<or> js_le amountNum (Fin 0)
           then Inl (PlainError ''Amount must be a positive number'')
           else case re_nextRun env (si_cron i) now of
                  Inl _ \<Rightarrow> Inl (PlainError ''Invalid cron expression'')
                | Inr _ \<Rightarrow> Inr ())"

definition user_by_key :: "string \<Rightarrow> 'w recurring_state \<Rightarrow> string option" where
  "user_by_key pk s = map_option fst (List.find (\<lambda>(i, k). k = pk) (rs_users s))"

definition createSchedule :: "'w recurring_env \<Rightarrow> string \<Rightarrow> schedule_input \<Rightarrow> ('w, string \<times> schedule) recurring" where
  "createSchedule env userPublicKey input =
     ebind (clock env) (\<lambda>now.
     ebind (elift (validateScheduleInput env now input)) (\<lambda>_.
     ebind (elift (re_nextRun env (si_cron input) now)) (\<lambda>nextRunAt.
     ebind (eget (user_by_key userPublicKey)) (\<lambda>u.
     ebind (case u of None \<Rightarrow> ethrow (OtherErr ''PrismaClientKnownRequestError'' ''No User record was found''
                        (Some ''P2025'') None None None None None)
            | Some uid \<Rightarrow> ereturn uid) (\<lambda>uid.
     ebind (new_id env) (\<lambda>i.
     let sc = \<lparr>sc_userId = uid, sc_destination = si_destination input, sc_assetCode = si_assetCode input,
           sc_amount = si_amount input, sc_cron = si_cron input, sc_status = SCHED_ACTIVE,
           sc_nextRunAt = nextRunAt, sc_lastRunAt = None, sc_retryCount = 0, sc_createdAt = now\<rparr>
     in ebind (emodify (\<lambda>s. s\<lparr>rs_schedules := js_set i sc (rs_schedules s)\<rparr>)) (\<lambda>_. ereturn (i, sc))))))))"

definition owned_by :: "string \<Rightarrow> 'w recurring_state \<Rightarrow> schedule \<Rightarrow> bool" where
  "owned_by userPublicKey s sc \<longleftrightarrow> js_get (rs_users s) (sc_userId sc) = Some userPublicKey"

definition listSchedules :: "string \<Rightarrow> 'w recurring_state \<Rightarrow> (string \<times> schedule) list" where
  "listSchedules userPublicKey s =
     rev (sort_key (\<lambda>(_, sc). sc_createdAt sc) (filter (\<lambda>(_, sc). owned_by userPublicKey s sc) (rs_schedules s)))"

text \<open>\<open>findFirst({ id, user: { publicKey } })\<close>, or \<open>Schedule not found\<close>.\<close>

definition find_owned :: "string \<Rightarrow> string \<Rightarrow> ('w, schedule) recurring" where
  "find_owned scheduleId userPublicKey s =
     (case js_get (rs_schedules s) scheduleId of
        Some sc \<Rightarrow> if owned_by userPublicKey s sc then (Inr sc, s) else (Inl (PlainError ''Schedule not found''), s)
      | None \<Rightarrow> (Inl (PlainError ''Schedule not found''), s))"

definition run_started :: "string \<times> payment_run \<Rightarrow> int" where
  "run_started p = (case pr_startedAt (snd p) of None \<Rightarrow> 0 | Some t \<Rightarrow> t)"

definition getSchedule :: "string \<Rightarrow> string \<Rightarrow> ('w, schedule \<times> (string \<times> payment_run) list) recurring" where
  "getSchedule scheduleId userPublicKey =
     ebind (find_owned scheduleId userPublicKey) (\<lambda>sc.
     eget (\<lambda>s. (sc, rev (sort_key run_started
        (filter (\<lambda>(_, r). pr_scheduleId r = scheduleId) (rs_runs s))))))"

definition update_schedule :: "string \<Rightarrow> (schedule \<Rightarrow> schedule) \<Rightarrow> ('w, schedule) recurring" where
  "update_schedule i f s =
     (case js_get (rs_schedules s) i of
        None \<Rightarrow> (Inl (OtherErr ''PrismaClientKnownRequestError'' ''Record to update not found.'' (Some ''P2025'')
                   None None None None None), s)
      | Some sc \<Rightarrow> (Inr (f sc), s\<lparr>rs_schedules := js_set i (f sc) (rs_schedules s)\<rparr>))"

definition given :: "'a \<Rightarrow> 'a option \<Rightarrow> 'a" where
  "given d x = (case x of None \<Rightarrow> d | Some v \<Rightarrow> v)"

definition updateSchedule :: "'w recurring_env \<Rightarrow> string \<Rightarrow> string \<Rightarrow> partial_schedule_input
    \<Rightarrow> ('w, schedule) recurring" where
  "updateSchedule env scheduleId userPublicKey input =
     ebind (find_owned scheduleId userPublicKey) (\<lambda>sc.
     ebind (clock env) (\<lambda>now.
     ebind (elift (validateScheduleInput env now
         \<lparr>si_destination = given (sc_destination sc) (psi_destination input),
          si_assetCode = given (sc_assetCode sc) (psi_assetCode input),
          si_amount = given (sc_amount sc) (psi_amount input),
          si_cron = given (sc_cron sc) (psi_cron input)\<rparr>)) (\<lambda>_.
     ebind (case truthy_str (psi_cron input) of
              None \<Rightarrow> ereturn None
            | Some c \<Rightarrow> elift (case re_nextRun env c now of Inl e \<Rightarrow> Inl e | Inr t \<Rightarrow> Inr (Some t))) (\<lambda>next.
     update_schedule scheduleId (\<lambda>sc. sc\<lparr>
       sc_destination := given (sc_destination sc) (psi_destination input),
       sc_assetCode := given (sc_assetCode sc) (psi_assetCode input),
       sc_amount := given (sc_amount sc) (psi_amount input),
       sc_cron := given (sc_cron sc) (psi_cron input),
       sc_nextRunAt := given (sc_nextRunAt sc) next\<rparr>)))))"

definition updateScheduleStatus :: "'w recurring_env \<Rightarrow> string \<Rightarrow> string \<Rightarrow> schedule_status
    \<Rightarrow> ('w, schedule) recurring" where
  "updateScheduleStatus env userPublicKey scheduleId status =
     ebind (find_owned scheduleId userPublicKey) (\<lambda>sc.
     ebind (clock env) (\<lambda>now.
     ebind (if status = SCHED_ACTIVE
            then elift (case re_nextRun env (sc_cron sc) now of Inl e \<Rightarrow> Inl e | Inr t \<Rightarrow> Inr (Some t))
            else ereturn None) (\<lambda>next.
     update_schedule scheduleId (\<lambda>sc. sc\<lparr>sc_status := status, sc_nextRunAt := given (sc_nextRunAt sc) next\<rparr>))))"

definition deleteSchedule :: "string \<Rightarrow> string \<Rightarrow> ('w, unit) recurring" where
  "deleteSchedule userPublicKey scheduleId =
     ebind (find_owned scheduleId userPublicKey) (\<lambda>_.
     emodify (\<lambda>s. s\<lparr>rs_runs := filter (\<lambda>(_, r). pr_scheduleId r \<noteq> scheduleId) (rs_runs s),
       rs_schedules := js_delete scheduleId (rs_schedules s)\<rparr>))"

end
