(* ===== verification/Recurring_Worker.thy ===== *)
theory Recurring_Worker
  imports Recurring
begin

text \<open>
  \<open>processDueSchedules\<close> of \<open>recurring-payments.service.ts\<close>: the due schedules are read once,
  then each is claimed, paid and settled. The three parts are separate, because other calls
  and other workers run between them; \<open>process_schedule\<close> puts them together.
\<close>

section \<open>Balance check\<close>

definition is_native :: "string \<Rightarrow> bool" where
  "is_native assetCode \<longleftrightarrow> assetCode = ''XLM'' \<or> assetCode = ''native'' \<or> assetCode = []"

definition balance_matches :: "string \<Rightarrow> account_balance \<Rightarrow> bool" where
  "balance_matches assetCode b =
     (if is_native assetCode then ab_asset_type b = ''native''
      else (ab_asset_type b = ''credit_alphanum4'' \<or> ab_asset_type b = ''credit_alphanum12'') \<and>
           ab_asset_code b = Some assetCode)"

definition available_balance :: "string \<Rightarrow> account_info \<Rightarrow> jsnum" where
  "available_balance assetCode a =
     (case List.find (balance_matches assetCode) (ai_balances a) of
        None \<Rightarrow> Fin 0 | Some b \<Rightarrow> parseFloat (ab_balance b))"

definition checkSufficientBalance :: "'w recurring_env \<Rightarrow> string \<Rightarrow> string \<Rightarrow> string option
    \<Rightarrow> ('w, bool) recurring" where
  "checkSufficientBalance env amount assetCode secret =
     (case truthy_str (nullish secret (re_distributionSecret env)) of
        None \<Rightarrow> ereturn True
      | Some sk \<Rightarrow>
          ebind (elift (be_keypair (re_batch env) sk)) (\<lambda>source.
          ebind (on_batch (library_call (be_loadAccount (re_batch env) source))) (\<lambda>account.
          let required = parseFloat amount; available = available_balance assetCode account in
          if js_less available required
          then ethrow (RecurringPaymentErr INSUFFICIENT_FUNDS
                 (''Insufficient balance in distribution account: '' @ re_numberText env available @ '' '' @
                  assetCode @ '' available, '' @ amount @ '' required''))
          else ereturn True)))"

section \<open>Claiming a due schedule\<close>

definition due_schedules :: "int \<Rightarrow> nat \<Rightarrow> 'w recurring_state \<Rightarrow> (string \<times> schedule) list" where
  "due_schedules now limit s =
     take limit (sort_key (\<lambda>(_, sc). sc_nextRunAt sc)
       (filter (\<lambda>(_, sc). sc_status sc = SCHED_ACTIVE \<and> sc_nextRunAt sc \<le> now) (rs_schedules s)))"

text \<open>The newest \<open>PENDING\<close> run of a schedule.\<close>

definition requeued_run :: "string \<Rightarrow> 'w recurring_state \<Rightarrow> (string \<times> payment_run) option" where
  "requeued_run scheduleId s =
     (case rev (sort_key (\<lambda>(_, r). pr_createdAt r)
         (filter (\<lambda>(_, r). pr_scheduleId r = scheduleId \<and> pr_status r = RUN_PENDING) (rs_runs s))) of
        [] \<Rightarrow> None | r # _ \<Rightarrow> Some r)"

definition put_run :: "string \<Rightarrow> payment_run \<Rightarrow> ('w, unit) recurring" where
  "put_run i r = emodify (\<lambda>s. s\<lparr>rs_runs := js_set i r (rs_runs s)\<rparr>)"

definition claim_schedule :: "'w recurring_env \<Rightarrow> string \<Rightarrow> ('w, (string \<times> payment_run) option) recurring" where
  "claim_schedule env scheduleId =
     ebind (eget (\<lambda>s. js_get (rs_schedules s) scheduleId)) (\<lambda>cur.
     case cur of
       None \<Rightarrow> ereturn None
     | Some sc \<Rightarrow>
         if sc_status sc \<noteq> SCHED_ACTIVE then ereturn None
         else
           (let attempt = sc_retryCount sc + 1 in
            ebind (eget (requeued_run scheduleId)) (\<lambda>rq.
            ebind (clock env) (\<lambda>t.
            case rq of
              Some (i, r) \<Rightarrow>
                (let r' = r\<lparr>pr_status := RUN_PROCESSING, pr_attempt := attempt, pr_startedAt := Some t,
                       pr_finishedAt := None\<rparr>
                 in ebind (put_run i r') (\<lambda>_. ereturn (Some (i, r'))))
            | None \<Rightarrow>
                ebind (new_id env) (\<lambda>i.
                let r = \<lparr>pr_scheduleId = scheduleId, pr_status = RUN_PROCESSING, pr_attempt = attempt,
                      pr_stellarTxId = None, pr_error = None, pr_startedAt = Some t, pr_finishedAt = None,
                      pr_createdAt = t\<rparr>
                in ebind (put_run i r) (\<lambda>_. ereturn (Some (i, r))))))))"

section \<open>Paying\<close>

definition recurring_payment :: "schedule \<Rightarrow> payment_operation" where
  "recurring_payment sc = \<lparr>po_destination = sc_destination sc, po_amount = sc_amount sc,
     po_assetCode = Some (sc_assetCode sc), po_assetIssuer = None, po_memo = None\<rparr>"

definition recurring_request :: "string \<Rightarrow> schedule \<Rightarrow> batch_request" where
  "recurring_request sk sc = \<lparr>br_batchId = None, br_payments = [recurring_payment sc],
     br_sourceSecretKey = Some sk, br_encryptedKey = None, br_keyId = None, br_baseFee = None,
     br_timeoutInSeconds = None, br_dryRun = False\<rparr>"

text \<open>The body of the \<open>try\<close> up to the result of the batch.\<close>

definition pay_schedule :: "'w recurring_env \<Rightarrow> schedule \<Rightarrow> ('w, batch_outcome) recurring" where
  "pay_schedule env sc =
     (case truthy_str (re_distributionSecret env) of
        None \<Rightarrow> ethrow (RecurringPaymentErr INVALID_CONFIG ''STELLAR_DISTRIBUTION_SECRET is not configured'')
      | Some sk \<Rightarrow>
          ebind (checkSufficientBalance env (sc_amount sc) (sc_assetCode sc) (Some sk)) (\<lambda>_.
          on_batch (executeBatch (re_batch env) (re_batchConfig env) (recurring_request sk sc))))"

text \<open>
  One database transaction over a run and its schedule: if either row is gone it throws and
  writes nothing.
\<close>

definition update_rows :: "string \<Rightarrow> (payment_run \<Rightarrow> payment_run) \<Rightarrow> string \<Rightarrow> (schedule \<Rightarrow> schedule)
    \<Rightarrow> ('w, unit) recurring" where
  "update_rows runId f scheduleId g s =
     (case (js_get (rs_runs s) runId, js_get (rs_schedules s) scheduleId) of
        (Some r, Some c) \<Rightarrow> (Inr (), s\<lparr>rs_runs := js_set runId (f r) (rs_runs s),
                                  rs_schedules := js_set scheduleId (g c) (rs_schedules s)\<rparr>)
      | _ \<Rightarrow> (Inl (OtherErr ''PrismaClientKnownRequestError'' ''Record to update not found.'' (Some ''P2025'')
               None None None None None), s))"

text \<open>Recording a success, inside the same \<open>try\<close>; the commit itself may fail.\<close>

definition settle_success :: "'w recurring_env \<Rightarrow> int \<Rightarrow> string \<Rightarrow> string \<Rightarrow> schedule \<Rightarrow> batch_outcome
    \<Rightarrow> ('w, unit) recurring" where
  "settle_success env now scheduleId runId sc result =
     ebind (elift (re_nextRun env (sc_cron sc) now)) (\<lambda>nextRunAt.
     ebind (clock env) (\<lambda>t.
     ebind (on_batch (library_call (re_commit env))) (\<lambda>_.
     update_rows runId
       (\<lambda>r. r\<lparr>pr_status := RUN_SUCCEEDED, pr_stellarTxId := outcome_hash result, pr_finishedAt := Some t\<rparr>)
       scheduleId
       (\<lambda>c. c\<lparr>sc_status := SCHED_ACTIVE, sc_lastRunAt := Some now, sc_retryCount := 0,
              sc_nextRunAt := nextRunAt\<rparr>))))"

section \<open>Settling a failure\<close>

definition is_insufficient_funds :: "js_error \<Rightarrow> bool" where
  "is_insufficient_funds e = (case e of RecurringPaymentErr t _ \<Rightarrow> t = INSUFFICIENT_FUNDS | _ \<Rightarrow> False)"

definition failure_message :: "js_error \<Rightarrow> string" where
  "failure_message e = (case error_message e of Some m \<Rightarrow> m | None \<Rightarrow> error_text e)"

text \<open>Next run, next retry count and run status, by the kind of the failure.\<close>

definition retry_plan :: "'w recurring_env \<Rightarrow> int \<Rightarrow> schedule \<Rightarrow> int \<Rightarrow> js_error
    \<Rightarrow> ('w, int \<times> int \<times> run_status) recurring" where
  "retry_plan env now sc failedAttempt e =
     (let shouldRetry = (classifyRecurringPaymentError e 0 = TRANSIENT \<and> failedAttempt \<le> re_maxRetries env) in
      if is_insufficient_funds e
      then ereturn (now + INSUFFICIENT_FUNDS_RETRY_MS, failedAttempt, RUN_INSUFFICIENT_FUNDS)
      else if shouldRetry
      then ebind (backoff_delay env failedAttempt) (\<lambda>d. ereturn (now + d, failedAttempt, RUN_PENDING))
      else ebind (elift (re_nextRun env (sc_cron sc) now)) (\<lambda>t. ereturn (t, 0, RUN_FAILED)))"

definition failed_runs :: "string \<Rightarrow> 'w recurring_state \<Rightarrow> nat" where
  "failed_runs scheduleId s =
     length (filter (\<lambda>(_, r). pr_scheduleId r = scheduleId \<and> pr_status r \<in> {RUN_FAILED, RUN_INSUFFICIENT_FUNDS})
       (rs_runs s))"

definition notify_failures :: "string \<Rightarrow> string \<Rightarrow> schedule \<Rightarrow> ('w, unit) recurring" where
  "notify_failures scheduleId runId sc =
     ebind (eget (failed_runs scheduleId)) (\<lambda>n.
     if n \<ge> FAILURE_NOTIFICATION_THRESHOLD
     then emodify (\<lambda>s. s\<lparr>rs_notified := rs_notified s @ [\<lparr>no_userId = sc_userId sc,
            no_message = ''Recurring payment of '' @ sc_amount sc @ '' '' @ sc_assetCode sc @ '' to '' @
              sc_destination sc @ '' has failed '' @ show_nat n @ '' times. Please check your funding source.'',
            no_runId = runId\<rparr>]\<rparr>)
     else ereturn ())"

definition settle_failure :: "'w recurring_env \<Rightarrow> int \<Rightarrow> string \<Rightarrow> string \<Rightarrow> schedule \<Rightarrow> int \<Rightarrow> js_error
    \<Rightarrow> ('w, unit) recurring" where
  "settle_failure env now scheduleId runId sc failedAttempt e =
     ebind (retry_plan env now sc failedAttempt e) (\<lambda>(nextRunAt, nextRetryCount, runStatus).
     ebind (clock env) (\<lambda>t.
     ebind (update_rows runId
       (\<lambda>r. r\<lparr>pr_status := runStatus, pr_error := Some (failure_message e), pr_finishedAt := Some t\<rparr>)
       scheduleId
       (\<lambda>c. c\<lparr>sc_status := SCHED_ACTIVE, sc_lastRunAt := Some now, sc_retryCount := nextRetryCount,
              sc_nextRunAt := nextRunAt\<rparr>)) (\<lambda>_.
     if runStatus \<noteq> RUN_PENDING then notify_failures scheduleId runId sc else ereturn ())))"

section \<open>The worker\<close>

definition run_claimed :: "'w recurring_env \<Rightarrow> int \<Rightarrow> string \<Rightarrow> schedule \<Rightarrow> string \<times> payment_run
    \<Rightarrow> ('w, unit) recurring" where
  "run_claimed env now scheduleId sc claim =
     (case claim of (runId, run) \<Rightarrow>
       ecatch (ebind (pay_schedule env sc) (settle_success env now scheduleId runId sc))
         (settle_failure env now scheduleId runId sc (pr_attempt run)))"

definition process_schedule :: "'w recurring_env \<Rightarrow> int \<Rightarrow> string \<times> schedule \<Rightarrow> ('w, nat) recurring" where
  "process_schedule env now due =
     (case due of (scheduleId, sc) \<Rightarrow>
       ebind (claim_schedule env scheduleId) (\<lambda>claim.
       case claim of None \<Rightarrow> ereturn 0
       | Some c \<Rightarrow> ebind (run_claimed env now scheduleId sc c) (\<lambda>_. ereturn 1)))"

fun process_all :: "'w recurring_env \<Rightarrow> int \<Rightarrow> (string \<times> schedule) list \<Rightarrow> nat \<Rightarrow> ('w, nat) recurring" where
  "process_all env now [] processed = ereturn processed"
| "process_all env now (d # ds) processed =
     ebind (process_schedule env now d) (\<lambda>n. process_all env now ds (processed + n))"

definition processDueSchedules :: "'w recurring_env \<Rightarrow> int \<Rightarrow> nat \<Rightarrow> ('w, nat) recurring" where
  "processDueSchedules env now limit =
     ebind (eget (due_schedules now limit)) (\<lambda>ds. process_all env now ds 0)"

end
