(* ===== verification/Recurring_Props.thy ===== *)
theory Recurring_Props
  imports Recurring_Worker Batch_Props
begin

text \<open>
  What the recurring payments do: how a claimed run is settled on every path, which
  failures are retried, what becomes of a schedule cancelled meanwhile, and what two
  workers, or a database failure after the payment, lead to.
\<close>

section \<open>What the steps keep\<close>

definition tables :: "'w recurring_state \<Rightarrow> (string, string) jsmap \<times> (string, schedule) jsmap \<times> (string, payment_run) jsmap" where
  "tables s = (rs_users s, rs_schedules s, rs_runs s)"

abbreviation rsubs :: "'w recurring_state \<Rightarrow> (built_tx \<times> (js_error + submit_response)) list" where
  "rsubs s \<equiv> subs (rs_batch s)"

lemma keeps_on_batch [keeps_rules]: "keeps tables (on_batch m)"
  by (simp add: keeps_def on_batch_def tables_def split: prod.split)

lemma keeps_clock [keeps_rules]: "keeps f (clock env)"
  by (simp add: clock_def keeps_rules)

lemma keeps_check [keeps_rules]: "keeps tables (checkSufficientBalance env a c k)"
  unfolding checkSufficientBalance_def Let_def by (intro keeps_rules)

lemma keeps_pay [keeps_rules]: "keeps tables (pay_schedule env sc)"
  unfolding pay_schedule_def by (intro keeps_rules)

lemma keeps_backoff [keeps_rules]: "keeps tables (backoff_delay env a)"
  unfolding backoff_delay_def by (intro keeps_rules)

lemma keeps_plan [keeps_rules]: "keeps tables (retry_plan env now sc n e)"
  unfolding retry_plan_def Let_def by (intro keeps_rules)

lemma keeps_notify [keeps_rules]: "keeps tables (notify_failures i r sc)"
proof -
  have "keeps tables (emodify (\<lambda>s. s\<lparr>rs_notified := g s\<rparr>))" for g :: "'a recurring_state \<Rightarrow> notification list"
    by (rule keeps_emodify) (simp add: tables_def)
  then show ?thesis unfolding notify_failures_def by (intro keeps_rules)
qed

lemma keeps_on_batch_subs: "keeps subs m \<Longrightarrow> keeps rsubs (on_batch m)"
  unfolding keeps_def on_batch_def
proof
  fix s assume k: "\<forall>s. subs (snd (m s)) = subs s"
  show "rsubs (snd (case m (rs_batch s) of (r, b) \<Rightarrow> (r, s\<lparr>rs_batch := b\<rparr>))) = rsubs s"
    using k [rule_format, of "rs_batch s"] by (cases "m (rs_batch s)") simp
qed

lemma ebind_cases:
  assumes "ebind m f s = (r, s')"
  obtains e where "m s = (Inl e, s')" "r = Inl e" | x s1 where "m s = (Inr x, s1)" "f x s1 = (r, s')"
  using assms unfolding ebind_def by (cases "m s"; cases "fst (m s)") auto

lemma ebind_Inr:
  assumes "ebind m f s = (Inr y, s')"
  obtains x s1 where "m s = (Inr x, s1)" "f x s1 = (Inr y, s')"
  using assms by (rule ebind_cases) auto

lemma elift_Inr: "elift r s = (Inr x, s') \<longleftrightarrow> r = Inr x \<and> s' = s"
  by (auto simp: elift_def)

lemma update_rows_Inr:
  assumes "update_rows rid f i g s = (Inr (), s')"
  shows "\<exists>r c. js_get (rs_runs s) rid = Some r \<and> js_get (rs_schedules s) i = Some c \<and>
    js_get (rs_runs s') rid = Some (f r) \<and> js_get (rs_schedules s') i = Some (g c) \<and> rs_batch s' = rs_batch s"
  using assms by (auto simp: update_rows_def split: option.splits)

lemma update_rows_Inl: "update_rows rid f i g s = (Inl e, s') \<Longrightarrow> s' = s"
  by (auto simp: update_rows_def split: option.splits)

section \<open>Settling\<close>

text \<open>Success: the run is \<open>SUCCEEDED\<close>, the retry state is cleared, the next occurrence is set.\<close>

definition settled_ok :: "'w recurring_env \<Rightarrow> int \<Rightarrow> schedule \<Rightarrow> schedule \<Rightarrow> payment_run \<Rightarrow> bool" where
  "settled_ok env now sc sc' run' \<longleftrightarrow> pr_status run' = RUN_SUCCEEDED \<and> sc_status sc' = SCHED_ACTIVE \<and>
     sc_lastRunAt sc' = Some now \<and> sc_retryCount sc' = 0 \<and>
     re_nextRun env (sc_cron sc) now = Inr (sc_nextRunAt sc')"

lemma settle_success_Inr:
  assumes "settle_success env now i rid sc res s = (Inr (), s')"
  shows "\<exists>sc' run'. js_get (rs_schedules s') i = Some sc' \<and> js_get (rs_runs s') rid = Some run' \<and>
    settled_ok env now sc sc' run'"
proof -
  obtain nxt t s1 where n: "re_nextRun env (sc_cron sc) now = Inr nxt" and
    u: "update_rows rid (\<lambda>r. r\<lparr>pr_status := RUN_SUCCEEDED, pr_stellarTxId := outcome_hash res, pr_finishedAt := Some t\<rparr>)
       i (\<lambda>c. c\<lparr>sc_status := SCHED_ACTIVE, sc_lastRunAt := Some now, sc_retryCount := 0, sc_nextRunAt := nxt\<rparr>)
       s1 = (Inr (), s')"
    using assms unfolding settle_success_def
    by (elim ebind_Inr) (auto simp: elift_Inr)
  from update_rows_Inr [OF u] n show ?thesis by (auto simp: settled_ok_def)
qed

text \<open>A computation that keeps an observation when it throws.\<close>

definition keeps_throw :: "('s \<Rightarrow> 'o) \<Rightarrow> ('s, 'e, 'a) eff \<Rightarrow> bool" where
  "keeps_throw f m \<longleftrightarrow> (\<forall>s e s'. m s = (Inl e, s') \<longrightarrow> f s' = f s)"

lemma keeps_throw_keeps: "keeps f m \<Longrightarrow> keeps_throw f m"
  by (auto simp: keeps_throw_def dest: keeps_result)

lemma keeps_throw_ebind:
  assumes "keeps f m" "\<And>x. keeps_throw f (g x)"
  shows "keeps_throw f (ebind m g)"
  unfolding keeps_throw_def
proof (intro allI impI)
  fix s e s' assume "ebind m g s = (Inl e, s')"
  then show "f s' = f s"
  proof (rule ebind_cases)
    fix x s1 assume "m s = (Inr x, s1)" "g x s1 = (Inl e, s')"
    with assms(2) [of x] keeps_result [OF assms(1)] show ?thesis by (auto simp: keeps_throw_def)
  qed (rule keeps_result [OF assms(1)])
qed

lemma keeps_throw_settle: "keeps_throw tables (settle_success env now i rid sc res)"
  unfolding settle_success_def
  by (intro keeps_throw_ebind keeps_rules) (auto simp: keeps_throw_def dest: update_rows_Inl)

text \<open>The three ways a failure is planned.\<close>

definition planned :: "'w recurring_env \<Rightarrow> int \<Rightarrow> schedule \<Rightarrow> int \<Rightarrow> js_error \<Rightarrow> int \<Rightarrow> int \<Rightarrow> run_status \<Rightarrow> bool" where
  "planned env now sc n e nx cnt st \<longleftrightarrow>
     (st = RUN_INSUFFICIENT_FUNDS \<and> is_insufficient_funds e \<and> nx = now + 86400000 \<and> cnt = n) \<or>
     (st = RUN_PENDING \<and> \<not> is_insufficient_funds e \<and> classifyRecurringPaymentError e 0 = TRANSIENT \<and>
        n \<le> re_maxRetries env \<and> cnt = n) \<or>
     (st = RUN_FAILED \<and> \<not> is_insufficient_funds e \<and>
        (classifyRecurringPaymentError e 0 = PERMANENT \<or> re_maxRetries env < n) \<and> cnt = 0 \<and>
        re_nextRun env (sc_cron sc) now = Inr nx)"

lemma retry_plan_Inr:
  assumes "retry_plan env now sc n e s = (Inr (nx, cnt, st), s')"
  shows "planned env now sc n e nx cnt st"
proof (cases "classifyRecurringPaymentError e 0")
  case TRANSIENT
  with assms show ?thesis
    unfolding retry_plan_def Let_def
    by (auto simp: planned_def ereturn_def INSUFFICIENT_FUNDS_RETRY_MS_def elift_Inr not_le
        split: if_split_asm elim!: ebind_Inr)
next
  case PERMANENT
  with assms show ?thesis
    unfolding retry_plan_def Let_def
    by (auto simp: planned_def ereturn_def INSUFFICIENT_FUNDS_RETRY_MS_def elift_Inr
        split: if_split_asm elim!: ebind_Inr)
qed

lemma settle_failure_Inr:
  assumes "settle_failure env now i rid sc n e s = (Inr (), s')"
  shows "\<exists>sc' run'. js_get (rs_schedules s') i = Some sc' \<and> js_get (rs_runs s') rid = Some run' \<and>
    sc_status sc' = SCHED_ACTIVE \<and> sc_lastRunAt sc' = Some now \<and>
    planned env now sc n e (sc_nextRunAt sc') (sc_retryCount sc') (pr_status run')"
proof -
  obtain nx cnt st s1 t s2 s3 where p: "retry_plan env now sc n e s = (Inr (nx, cnt, st), s1)"
    and u: "update_rows rid
       (\<lambda>r. r\<lparr>pr_status := st, pr_error := Some (failure_message e), pr_finishedAt := Some t\<rparr>) i
       (\<lambda>c. c\<lparr>sc_status := SCHED_ACTIVE, sc_lastRunAt := Some now, sc_retryCount := cnt, sc_nextRunAt := nx\<rparr>)
       s2 = (Inr (), s3)"
    and f: "(if st \<noteq> RUN_PENDING then notify_failures i rid sc else ereturn ()) s3 = (Inr (), s')"
    using assms unfolding settle_failure_def
    by (elim ebind_Inr) (auto elim!: ebind_Inr)
  have "keeps tables (if st \<noteq> RUN_PENDING then notify_failures i rid sc else ereturn ())"
    by (intro keeps_rules)
  from keeps_result [OF this f] have "tables s' = tables s3" .
  then have "rs_runs s' = rs_runs s3 \<and> rs_schedules s' = rs_schedules s3" by (simp add: tables_def)
  with update_rows_Inr [OF u] retry_plan_Inr [OF p] show ?thesis by auto
qed

lemma run_claimed_Inr:
  assumes "run_claimed env now i sc (rid, run) s = (Inr (), s')"
  obtains (paid) res s1 where "pay_schedule env sc s = (Inr res, s1)"
      "settle_success env now i rid sc res s1 = (Inr (), s')"
    | (failed) e s1 where "ebind (pay_schedule env sc) (settle_success env now i rid sc) s = (Inl e, s1)"
      "tables s1 = tables s" "settle_failure env now i rid sc (pr_attempt run) e s1 = (Inr (), s')"
proof -
  let ?m = "ebind (pay_schedule env sc) (settle_success env now i rid sc)"
  obtain r s1 where m: "?m s = (r, s1)" by fastforce
  show thesis
  proof (cases r)
    case (Inr u)
    with m assms have "?m s = (Inr (), s')" by (simp add: run_claimed_def ecatch_def)
    then show thesis by (elim ebind_Inr) (rule paid)
  next
    case (Inl e)
    with m assms have f: "settle_failure env now i rid sc (pr_attempt run) e s1 = (Inr (), s')"
      by (simp add: run_claimed_def ecatch_def)
    have "keeps_throw tables ?m"
      by (intro keeps_throw_ebind keeps_pay keeps_throw_settle)
    with m Inl have "tables s1 = tables s" by (auto simp: keeps_throw_def)
    with m Inl f show thesis by (auto intro: failed)
  qed
qed

section \<open>Claims\<close>

lemma claim_Inr:
  assumes "claim_schedule env i s = (Inr (Some (rid, run)), s')"
  shows "\<exists>sc. js_get (rs_schedules s) i = Some sc \<and> sc_status sc = SCHED_ACTIVE \<and>
    pr_attempt run = sc_retryCount sc + 1 \<and> pr_status run = RUN_PROCESSING \<and>
    rs_schedules s' = rs_schedules s \<and> rs_users s' = rs_users s \<and> rs_runs s' = js_set rid run (rs_runs s) \<and>
    rsubs s' = rsubs s"
  using assms
  by (auto simp: claim_schedule_def put_run_def clock_def new_id_def on_batch_def library_call_def eff_defs Let_def
      split: option.splits prod.splits if_split_asm)

lemma claim_fails_not: "\<exists>c s'. claim_schedule env i s = (Inr c, s')"
  by (auto simp: claim_schedule_def put_run_def clock_def new_id_def on_batch_def library_call_def eff_defs Let_def
      split: option.split prod.split)

lemma claim_again:
  assumes "js_get (rs_schedules s) i = Some sc" "sc_status sc = SCHED_ACTIVE"
  shows "\<exists>rid run s'. claim_schedule env i s = (Inr (Some (rid, run)), s')"
  using assms
  by (auto simp: claim_schedule_def put_run_def clock_def new_id_def on_batch_def library_call_def eff_defs Let_def
      split: option.split prod.split)

text \<open>What a run that was claimed and then settled leaves behind, on every path. The schedule is
  active with its last run set, and either the run succeeded, the retry count is cleared and
  the next occurrence is the cron's; or funds were short and the next try is 24 hours later;
  or the failure was transient, the attempt was within the limit, and the run waits for its
  retry; or it failed for good (permanent, or the limit passed), the count is cleared and the
  next occurrence is the cron's. The attempt is the retry count before plus one.\<close>

theorem recurring_run_settles:
  assumes "claim_schedule env i s0 = (Inr (Some (rid, run)), s1)"
    and "js_get (rs_schedules s0) i = Some sc"
    and "run_claimed env now i sc (rid, run) s1 = (Inr (), s2)"
  shows "\<exists>sc' run'. js_get (rs_schedules s2) i = Some sc' \<and> js_get (rs_runs s2) rid = Some run' \<and>
    sc_status sc' = SCHED_ACTIVE \<and> sc_lastRunAt sc' = Some now \<and>
    (settled_ok env now sc sc' run' \<or>
     (\<exists>e. planned env now sc (sc_retryCount sc + 1) e (sc_nextRunAt sc') (sc_retryCount sc') (pr_status run')))"
  using assms(3)
proof (cases rule: run_claimed_Inr)
  case (paid res t)
  with settle_success_Inr [OF paid(2)] show ?thesis by (auto simp: settled_ok_def)
next
  case (failed e t)
  have "pr_attempt run = sc_retryCount sc + 1" using claim_Inr [OF assms(1)] assms(2) by auto
  with settle_failure_Inr [OF failed(3)] show ?thesis by metis
qed

text \<open>Cancelling a schedule while one of its runs is out does not hold: the cancellation
  succeeds, and when the run settles, on whatever path, it writes the status \<open>ACTIVE\<close> back,
  so the payments go on.\<close>

theorem cancelled_schedule_reactivated:
  assumes "claim_schedule env i s0 = (Inr (Some (rid, run)), s1)"
    and "updateScheduleStatus env pk i SCHED_CANCELLED s1 = (Inr cancelled, s2)"
    and "run_claimed env now i sc (rid, run) s2 = (Inr (), s3)"
  shows "sc_status cancelled = SCHED_CANCELLED \<and> js_get (rs_schedules s2) i = Some cancelled \<and>
    (\<exists>sc'. js_get (rs_schedules s3) i = Some sc' \<and> sc_status sc' = SCHED_ACTIVE)"
proof -
  obtain t where "update_schedule i (\<lambda>sc. sc\<lparr>sc_status := SCHED_CANCELLED, sc_nextRunAt := given (sc_nextRunAt sc) None\<rparr>) t
      = (Inr cancelled, s2)"
    using assms(2) unfolding updateScheduleStatus_def by (elim ebind_Inr) (auto simp: ereturn_def)
  then have "sc_status cancelled = SCHED_CANCELLED \<and> js_get (rs_schedules s2) i = Some cancelled"
    by (auto simp: update_schedule_def split: option.splits)
  moreover have "\<exists>sc'. js_get (rs_schedules s3) i = Some sc' \<and> sc_status sc' = SCHED_ACTIVE"
    using assms(3)
  proof (cases rule: run_claimed_Inr)
    case (paid res t)
    with settle_success_Inr [OF paid(2)] show ?thesis by (auto simp: settled_ok_def)
  next
    case (failed e t)
    with settle_failure_Inr [OF failed(3)] show ?thesis by blast
  qed
  ultimately show ?thesis by blast
qed

text \<open>The claim excludes nobody. After one worker has claimed a schedule, a second worker that
  has it in its list of due schedules claims it too, and when its run has a new identifier
  both runs are \<open>PROCESSING\<close>: each worker then pays. The comment in the code says that an
  in-flight run makes the claim skip the schedule.\<close>

theorem two_workers_claim_same_schedule:
  assumes "claim_schedule env i s0 = (Inr (Some (r1, run1)), s1)"
  shows "\<exists>r2 run2 s2. claim_schedule env i s1 = (Inr (Some (r2, run2)), s2) \<and>
    pr_status run2 = RUN_PROCESSING \<and> pr_attempt run2 = pr_attempt run1 \<and>
    (r2 \<noteq> r1 \<longrightarrow> js_get (rs_runs s2) r1 = Some run1 \<and> js_get (rs_runs s2) r2 = Some run2)"
proof -
  note c1 = claim_Inr [OF assms]
  then obtain sc where sc: "js_get (rs_schedules s1) i = Some sc" "sc_status sc = SCHED_ACTIVE"
    "pr_attempt run1 = sc_retryCount sc + 1" by auto
  from claim_again [OF sc(1,2)] obtain r2 run2 s2 where c: "claim_schedule env i s1 = (Inr (Some (r2, run2)), s2)"
    by blast
  from claim_Inr [OF c] sc(1) have r2: "pr_attempt run2 = sc_retryCount sc + 1" "pr_status run2 = RUN_PROCESSING"
    "rs_runs s2 = js_set r2 run2 (rs_runs s1)" by auto
  have "rs_runs s1 = js_set r1 run1 (rs_runs s0)" using c1 by blast
  with c r2 sc(3) show ?thesis by (intro exI [of _ r2] exI [of _ run2] exI [of _ s2]) simp
qed

section \<open>Which failures are permanent\<close>

lemma triple_quiet:
  assumes "\<And>s. \<exists>s'. m s = (Inr (), s')"
  shows "triple (\<lambda>_. True) m (\<lambda>_ _. True) E"
proof (rule tripleI)
  fix s e s' assume "m s = (Inl e, s')"
  with assms [of s] show "E e s'" by auto
qed simp

lemma attempt_loop_error:
  "triple (\<lambda>_. True) (attempt_loop env cfg b src req k n le) (\<lambda>_ _. True)
     (\<lambda>e _. \<exists>m le. e = BatchPaymentErr TRANSACTION_FAILED m None le)"
proof (induction k arbitrary: n le)
  case 0
  show ?case by (simp add: triple_def eff_defs)
next
  case (Suc k)
  show ?case
    unfolding attempt_loop.simps Let_def
    by (rule triple_ecatch [OF triple_true], rule triple_ebind [OF triple_quiet], simp add: record_metrics_def emodify_def,
        rule triple_if [OF Suc.IH], rule triple_ebind [OF triple_quiet Suc.IH],
        simp add: record_effect_def emodify_def ereturn_def)
qed

lemma loop_error_transient:
  "classifyRecurringPaymentError (BatchPaymentErr TRANSACTION_FAILED m None le) 0 = TRANSIENT"
  by (simp add: classifyRecurringPaymentError.simps classify_here_def PERMANENT_BATCH_ERROR_TYPES_def
      collectResultCodes_def own_extras_def response_field_def nullish_def extractHttpStatus_def
      own_status_def error_code_def inner_error_def error_name_def is_object_def)

definition loop_error :: "(built_tx \<times> (js_error + submit_response)) list \<Rightarrow> js_error
    \<Rightarrow> 'w batch_state \<Rightarrow> bool" where
  "loop_error S e t \<longleftrightarrow> subs t = S \<or> (\<exists>m le. e = BatchPaymentErr TRANSACTION_FAILED m None le)"

lemma triple_before_loop:
  "keeps bs_trace m \<Longrightarrow> triple (\<lambda>t. subs t = S) m (\<lambda>_ t. subs t = S) (loop_error S)"
  by (rule triple_weaken [OF triple_keeps [where f = subs and x = S]])
    (auto simp: keeps_trace_subs loop_error_def)

lemma batch_run_error:
  "triple (\<lambda>t. subs t = S) (batch_run env cfg i req) (\<lambda>_ _. True) (loop_error S)"
  unfolding batch_run_def
proof (rule triple_ebind [OF triple_before_loop [OF retrieve_key_trace]],
    rule triple_ebind [OF triple_before_loop [OF keeps_simple(4)]], rule triple_if)
  fix src
  show "triple (\<lambda>t. subs t = S) (ebind (simulateBatch env src req) (\<lambda>r. ereturn (Simulated r)))
     (\<lambda>_ _. True) (loop_error S)"
    by (rule triple_ebind [OF triple_before_loop [OF simulateBatch_trace]]) (simp add: triple_def eff_defs)
  have "triple (\<lambda>t. subs t = S) (attempt_loop env cfg i src req (nat (bc_maxRetries cfg)) 0 None)
     (\<lambda>_ _. True) (loop_error S)"
    by (rule triple_weaken [OF attempt_loop_error]) (auto simp: loop_error_def)
  then show "triple (\<lambda>t. subs t = S)
     (ebind (attempt_loop env cfg i src req (nat (bc_maxRetries cfg)) 0 None) (\<lambda>r. ereturn (Executed r)))
     (\<lambda>_ _. True) (loop_error S)"
    by (rule triple_ebind) (simp add: triple_def eff_defs)
qed

lemma release_lock_quiet:
  "triple (\<lambda>t. R (subs t))
     (case lock of None \<Rightarrow> ereturn () | Some l \<Rightarrow> ecatch (library_call (be_release env l)) (\<lambda>_. ereturn ()))
     (\<lambda>_ t. R (subs t)) E"
proof (rule triple_keeps_return [where f = subs])
  show "keeps subs (case lock of None \<Rightarrow> ereturn ()
      | Some l \<Rightarrow> ecatch (library_call (be_release env l)) (\<lambda>_. ereturn ()))"
    by (rule keeps_trace_subs) (intro keeps_rules)
qed (auto simp: eff_defs library_call_def split: option.split prod.split sum.split)

lemma executeBatch_error:
  "triple (\<lambda>t. subs t = S) (executeBatch env cfg req) (\<lambda>_ _. True) (loop_error S)"
  unfolding executeBatch_def batch_body_checks
proof (rule triple_ebind [where R = "\<lambda>_ t. subs t = S"])
  show "triple (\<lambda>t. subs t = S)
     (case truthy_str (br_batchId req) of Some i \<Rightarrow> ereturn i
      | None \<Rightarrow> library_call (\<lambda>w. case be_uuid env w of (u, w') \<Rightarrow> (Inr u, w')))
     (\<lambda>_ t. subs t = S) (loop_error S)"
    by (rule triple_before_loop) (intro keeps_rules)
  fix i
  have "triple (\<lambda>t. subs t = S) (ebind (elift (batch_checks env cfg req)) (\<lambda>_. batch_run env cfg i req))
     (\<lambda>_ _. True) (loop_error S)"
    by (rule triple_ebind [OF triple_before_loop [OF keeps_simple(4)] batch_run_error])
  moreover have "triple (loop_error S e)
     (case lock of None \<Rightarrow> ereturn () | Some l \<Rightarrow> ecatch (library_call (be_release env l)) (\<lambda>_. ereturn ()))
     (\<lambda>_. loop_error S e) (loop_error S)" for lock e
    using release_lock_quiet [where R = "\<lambda>T. T = S \<or> (\<exists>m le. e = BatchPaymentErr TRANSACTION_FAILED m None le)"]
    unfolding loop_error_def .
  moreover have "triple (\<lambda>_. True)
     (case lock of None \<Rightarrow> ereturn () | Some l \<Rightarrow> ecatch (library_call (be_release env l)) (\<lambda>_. ereturn ()))
     (\<lambda>_ _. True) (loop_error S)" for lock
    using release_lock_quiet [where R = "\<lambda>_. True"] .
  ultimately show "triple (\<lambda>t. subs t = S)
     (ebind (batch_lock env cfg i req) (\<lambda>lock. efinally
        (ebind (elift (batch_checks env cfg req)) (\<lambda>_. batch_run env cfg i req))
        (case lock of None \<Rightarrow> ereturn () | Some l \<Rightarrow> ecatch (library_call (be_release env l)) (\<lambda>_. ereturn ()))))
     (\<lambda>_ _. True) (loop_error S)"
    by (intro triple_ebind [OF triple_before_loop [OF batch_lock_trace]] triple_efinally)
qed

text \<open>No refusal by Horizon is ever permanent. Whatever result codes Horizon gave, once the
  batch payment service has submitted anything, the error it throws carries the last error
  under a name that the classification does not look at, and is classified as transient: a
  missing destination or a bad sequence number is retried to the limit, although the code
  lists those codes as permanent.\<close>

theorem horizon_refusal_classified_transient:
  assumes "executeBatch env cfg req s = (Inl e, s')" and "subs s' \<noteq> subs s"
  shows "classifyRecurringPaymentError e 0 = TRANSIENT"
proof -
  from triple_throw [OF executeBatch_error refl assms(1)] assms(2)
  obtain m le where "e = BatchPaymentErr TRANSACTION_FAILED m None le" by (auto simp: loop_error_def)
  then show ?thesis by (simp only: loop_error_transient)
qed

section \<open>Assets\<close>

lemma recurring_checks_fail:
  assumes "sc_assetCode sc \<noteq> []" "sc_assetCode sc \<noteq> ''XLM''"
  shows "\<exists>t m. batch_checks env cfg (recurring_request sk sc) = Inl (BatchErr t m) \<and>
    t \<in> set PERMANENT_BATCH_ERROR_TYPES"
proof -
  have "truthy_str (Some (sc_assetCode sc)) = Some (sc_assetCode sc)"
    using assms(1) by (cases "sc_assetCode sc") (simp_all add: truthy_str_def)
  then show ?thesis
    using assms(2)
    by (auto simp: batch_checks_def recurring_request_def recurring_payment_def validatePayments_def
        validatePayment_def isValidStellarPublicKey_def [of _ None] PERMANENT_BATCH_ERROR_TYPES_def)
qed

lemma batch_error_permanent:
  "t \<in> set PERMANENT_BATCH_ERROR_TYPES \<Longrightarrow> classifyRecurringPaymentError (BatchErr t m) 0 = PERMANENT"
  by (simp add: classifyRecurringPaymentError.simps classify_here_def is_object_def Let_def)

lemma batch_lock_returns: "\<exists>l s'. batch_lock env cfg i req s = (Inr l, s')"
  by (cases "bc_useDistributedLocking cfg \<and> \<not> br_dryRun req")
    (auto simp: batch_lock_def eff_defs library_call_def split: prod.split sum.split)

lemma release_lock_returns:
  "\<exists>s'. (case l of None \<Rightarrow> ereturn () | Some k \<Rightarrow> ecatch (library_call (be_release env k)) (\<lambda>_. ereturn ())) s
     = (Inr (), s')"
proof (cases l)
  case (Some k)
  then show ?thesis
    by (cases "be_release env k (bs_world s)"; cases "fst (be_release env k (bs_world s))")
      (auto simp: eff_defs library_call_def)
qed (simp add: ereturn_def)

lemma executeBatch_checks_fail:
  fixes env :: "'a batch_env"
  assumes "batch_checks env cfg req = Inl e" "br_batchId req = None" "\<not> br_dryRun req"
  shows "\<exists>s'. executeBatch env cfg req s = (Inl e, s') \<and> subs s' = subs s"
proof -
  obtain u w where u: "be_uuid env (bs_world s) = (u, w)" by fastforce
  let ?s1 = "s\<lparr>bs_world := w\<rparr>"
  obtain l s2 where l: "batch_lock env cfg u req ?s1 = (Inr l, s2)"
    using batch_lock_returns by blast
  let ?rel = "(case l of None \<Rightarrow> ereturn () | Some k \<Rightarrow> ecatch (library_call (be_release env k)) (\<lambda>_. ereturn ())) :: ('a, unit) batch"
  obtain s3 where r: "?rel s2 = (Inr (), s3)" using release_lock_returns by blast
  have "executeBatch env cfg req s = (Inl e, s3)"
    using assms u l r
    by (simp add: executeBatch_def batch_body_checks truthy_str_def ebind_def efinally_def elift_def library_call_def)
  moreover from this executeBatch_error [of "subs s" env cfg req] have "loop_error (subs s) e s3"
    by (auto dest: triple_throw)
  moreover have "subs s3 = subs s"
  proof -
    have "keeps subs ?rel" by (rule keeps_trace_subs) (intro keeps_rules)
    from keeps_result [OF this r] keeps_result [OF batch_lock_trace l] show ?thesis by simp
  qed
  ultimately show ?thesis by blast
qed

text \<open>Only lumens can ever be paid on a schedule. A schedule does not store the issuer of its
  asset, so the payment it makes has none; for every asset code other than the empty one and
  \<open>XLM\<close>, also for \<open>native\<close>, which the balance check accepts, nothing is ever submitted: the
  attempt throws, and once the balance check has passed the error is a permanent one, so the
  run is marked failed and never retried.\<close>

theorem recurring_asset_never_paid:
  assumes "sc_assetCode sc \<noteq> []" and "sc_assetCode sc \<noteq> ''XLM''"
    and "pay_schedule env sc s = (r, s')"
  shows "(\<exists>e. r = Inl e) \<and> rsubs s' = rsubs s \<and>
    (\<forall>sk t. truthy_str (re_distributionSecret env) = Some sk \<and>
       checkSufficientBalance env (sc_amount sc) (sc_assetCode sc) (Some sk) s = (Inr True, t) \<longrightarrow>
       (\<exists>e. r = Inl e \<and> classifyRecurringPaymentError e 0 = PERMANENT))"
proof (cases "truthy_str (re_distributionSecret env)")
  case None
  with assms(3) show ?thesis by (auto simp: pay_schedule_def ethrow_def)
next
  case (Some sk)
  let ?c = "checkSufficientBalance env (sc_amount sc) (sc_assetCode sc) (Some sk)"
  have "keeps rsubs ?c"
    unfolding checkSufficientBalance_def Let_def
    by (intro keeps_rules keeps_on_batch_subs keeps_trace_subs)
  note kc = this [THEN keeps_result]
  from recurring_checks_fail [OF assms(1,2)] obtain t m where
    f: "batch_checks (re_batch env) (re_batchConfig env) (recurring_request sk sc) = Inl (BatchErr t m)"
    and p: "t \<in> set PERMANENT_BATCH_ERROR_TYPES" by blast
  from assms(3) Some have "ebind ?c (\<lambda>_. on_batch (executeBatch (re_batch env) (re_batchConfig env)
      (recurring_request sk sc))) s = (r, s')"
    by (simp add: pay_schedule_def)
  then show ?thesis
  proof (rule ebind_cases)
    fix e assume "?c s = (Inl e, s')" "r = Inl e"
    with kc Some show ?thesis by simp
  next
    fix x s1 assume c: "?c s = (Inr x, s1)"
      and b: "on_batch (executeBatch (re_batch env) (re_batchConfig env) (recurring_request sk sc)) s1 = (r, s')"
    from executeBatch_checks_fail [OF f, of "rs_batch s1"] obtain b' where
      "executeBatch (re_batch env) (re_batchConfig env) (recurring_request sk sc) (rs_batch s1) = (Inl (BatchErr t m), b')"
      "subs b' = rsubs s1"
      by (auto simp: recurring_request_def)
    with b have "r = Inl (BatchErr t m)" "rsubs s' = rsubs s1" by (auto simp: on_batch_def)
    with kc [OF c] batch_error_permanent [OF p] Some show ?thesis by simp
  qed
qed

section \<open>A payment that is made twice\<close>

text \<open>A payment that went through is made again when recording it fails. The transaction that
  records the success lies inside the same \<open>try\<close> as the payment: if it throws a transient
  error and the attempt is within the limit, the run is put back to \<open>PENDING\<close> with the
  schedule due after the backoff, although Horizon accepted the payment; the next tick claims
  that run and pays once more.\<close>

theorem recorded_failure_repays:
  assumes "pay_schedule env sc s = (Inr (Executed b), s1)"
    and "settle_success env now i rid sc (Executed b) s1 = (Inl e, s2)"
    and "classifyRecurringPaymentError e 0 = TRANSIENT" and "pr_attempt run \<le> re_maxRetries env"
    and "run_claimed env now i sc (rid, run) s = (Inr (), s')"
  shows "(\<exists>tx resp. last (rsubs s1) = (tx, Inr resp) \<and> sr_hash resp = bres_transactionHash b) \<and>
    (\<exists>sc' run'. js_get (rs_schedules s') i = Some sc' \<and> js_get (rs_runs s') rid = Some run' \<and>
       pr_status run' = RUN_PENDING \<and> sc_status sc' = SCHED_ACTIVE \<and> sc_retryCount sc' = pr_attempt run)"
proof -
  obtain sk t where b: "on_batch (executeBatch (re_batch env) (re_batchConfig env) (recurring_request sk sc)) t
      = (Inr (Executed b), s1)"
    using assms(1) unfolding pay_schedule_def
    by (auto simp: ethrow_def split: option.splits elim!: ebind_Inr)
  then have "executeBatch (re_batch env) (re_batchConfig env) (recurring_request sk sc) (rs_batch t)
      = (Inr (Executed b), rs_batch s1)"
    by (auto simp: on_batch_def split: prod.splits)
  from triple_return [OF executeBatch_subs refl this] have
    "\<exists>tx resp. last (rsubs s1) = (tx, Inr resp) \<and> sr_hash resp = bres_transactionHash b"
    by (auto simp: outcome_ok_def ran_ok_def)
  moreover have "ebind (pay_schedule env sc) (settle_success env now i rid sc) s = (Inl e, s2)"
    using assms(1,2) by (simp add: ebind_def)
  with assms(5) have "settle_failure env now i rid sc (pr_attempt run) e s2 = (Inr (), s')"
    by (simp add: run_claimed_def ecatch_def)
  from settle_failure_Inr [OF this] obtain sc' run' where
    "js_get (rs_schedules s') i = Some sc'" "js_get (rs_runs s') rid = Some run'" "sc_status sc' = SCHED_ACTIVE"
    and pl: "planned env now sc (pr_attempt run) e (sc_nextRunAt sc') (sc_retryCount sc') (pr_status run')" by blast
  moreover have "\<not> is_insufficient_funds e"
    using assms(3) by (cases e) (auto simp: is_insufficient_funds_def classifyRecurringPaymentError.simps)
  then have "pr_status run' = RUN_PENDING \<and> sc_retryCount sc' = pr_attempt run"
    using pl assms(3,4) by (auto simp: planned_def)
  ultimately show ?thesis by blast
qed

section \<open>Backoff\<close>

lemma floor_half_le: "c \<le> of_int m \<Longrightarrow> \<lfloor>c + 1 / 2 :: rat\<rfloor> \<le> m"
  by linarith

lemma clamp_Fin:
  assumes "x \<noteq> NaN" "0 \<le> m"
  shows "\<exists>c. math_min (math_max x (Fin 0)) (Fin m) = Fin c \<and> 0 \<le> c \<and> c \<le> m"
  using assms by (cases x) (auto simp: math_min_def math_max_def)

text \<open>The delay before a retry is a whole number of milliseconds between 0 and the configured
  maximum, whatever the attempt, the multiplier, the jitter and the random number are, as
  long as the uncapped delay is not negative and not NaN; without jitter it is the uncapped
  delay, rounded and capped.\<close>

theorem backoff_within_bounds:
  assumes "0 \<le> re_backoffMax env" "re_backoffMax env < 2 ^ 53"
    and "re_jitter env = Fin j" "0 \<le> j" "j \<le> 1" and "random = Fin x" "0 \<le> x" "x < 1"
    and "raw = js_mul (js_int (re_backoffBase env)) (re_pow env (re_multiplier env) (max 1 attempt - 1))"
    and "js_le (Fin 0) raw"
  shows "\<exists>d. computeBackoffDelayMs env attempt random = Fin (of_int d) \<and> 0 \<le> d \<and> d \<le> re_backoffMax env \<and>
    (j = 0 \<longrightarrow> Fin (of_int d) = math_round (math_min raw (Fin (of_int (re_backoffMax env)))))"
proof -
  let ?M = "of_int (re_backoffMax env) :: rat"
  have M: "js_int (re_backoffMax env) = Fin ?M"
    using assms(1,2) by (simp add: js_int_def round64_int)
  have "\<exists>c. math_min raw (Fin ?M) = Fin c \<and> 0 \<le> c \<and> c \<le> ?M"
    using assms(1,10) by (cases raw) (auto simp: math_min_def js_le_def)
  then obtain c where c: "math_min raw (Fin ?M) = Fin c" "0 \<le> c" "c \<le> ?M" by blast
  have round: "\<exists>d. math_round (Fin e) = Fin (of_int d) \<and> 0 \<le> d \<and> d \<le> re_backoffMax env" if "0 \<le> e" "e \<le> ?M" for e
    using floor_half_le [OF that(2)] that(1) by auto
  show ?thesis
  proof (cases "j = 0")
    case True
    then have "computeBackoffDelayMs env attempt random = math_round (Fin c)"
      using M c(1) assms(3,9) by (simp add: computeBackoffDelayMs_def Let_def)
    with True round [OF c(2,3)] c(1) show ?thesis by auto
  next
    case False
    have 1: "\<exists>v. round64 (x * 2) = Fin v \<and> \<bar>v\<bar> \<le> 4"
      using round64_finite [of "x * 2"] assms(7,8) by fastforce
    then obtain v1 where v1: "round64 (x * 2) = Fin v1" "\<bar>v1\<bar> \<le> 4" by blast
    obtain v2 where v2: "round64 (v1 + - 1) = Fin v2" "\<bar>v2\<bar> \<le> 10"
      using round64_finite [of "v1 + - 1"] v1(2) by fastforce
    have "\<bar>v2 * j\<bar> \<le> 10"
      using v2(2) assms(4,5) mult_mono [of "\<bar>v2\<bar>" 10 j 1] by (simp add: abs_mult)
    then obtain v3 where v3: "round64 (v2 * j) = Fin v3" "\<bar>v3\<bar> \<le> 20"
      using round64_finite [of "v2 * j"] by fastforce
    obtain v4 where v4: "round64 (1 + v3) = Fin v4" "\<bar>v4\<bar> \<le> 42"
      using round64_finite [of "1 + v3"] v3(2) by fastforce
    have "?M < of_int (2 ^ 53)" using assms(2) by (simp only: of_int_less_iff)
    then have "c \<le> 2 ^ 53" using c(3) by simp
    then have "\<bar>c * v4\<bar> \<le> 2 ^ 53 * 42"
      using mult_mono [of c "2 ^ 53" "\<bar>v4\<bar>" 42] v4(2) c(2) by (simp add: abs_mult)
    then obtain v5 where v5: "round64 (c * v4) = Fin v5"
      using round64_finite [of "c * v4"] by fastforce
    obtain e where e: "math_min (math_max (Fin v5) (Fin 0)) (Fin ?M) = Fin e" "0 \<le> e" "e \<le> ?M"
      using clamp_Fin [of "Fin v5" ?M] assms(1) by auto
    have "computeBackoffDelayMs env attempt random = math_round (Fin e)"
      using M c(1) e(1) v1(1) v2(1) v3(1) v4(1) v5 assms(3-6,9) False
      by (simp add: computeBackoffDelayMs_def Let_def js_sub_def)
    with round [OF e(2,3)] False show ?thesis by simp
  qed
qed

section \<open>Witnesses\<close>

definition demo_rec_env :: "int \<Rightarrow> (demo_world \<Rightarrow> (js_error + unit) \<times> demo_world) \<Rightarrow> demo_world recurring_env" where
  "demo_rec_env step commit = \<lparr>re_batch = demo_env step, re_batchConfig = DEFAULT_CONFIG,
     re_nextRun = (\<lambda>_ t. Inr (t + 60000)), re_pow = (\<lambda>_ _. Fin 1), re_random = (\<lambda>w. (Fin 0, w)),
     re_numberText = (\<lambda>_. ''n''), re_commit = commit, re_distributionSecret = Some ''Ssecret'',
     re_maxRetries = 5, re_backoffBase = 30000, re_backoffMax = 3600000, re_multiplier = Fin 2,
     re_jitter = Fin 0\<rparr>"

definition commits :: "demo_world \<Rightarrow> (js_error + unit) \<times> demo_world" where
  "commits w = (Inr (), w)"

definition commit_lost :: "demo_world \<Rightarrow> (js_error + unit) \<times> demo_world" where
  "commit_lost w = (Inl (PlainError ''Connection lost''), w)"

definition demo_schedule :: schedule where
  "demo_schedule = \<lparr>sc_userId = ''u1'', sc_destination = demo_dest, sc_assetCode = ''XLM'', sc_amount = ''10'',
     sc_cron = ''* * * * *'', sc_status = SCHED_ACTIVE, sc_nextRunAt = 0, sc_lastRunAt = None,
     sc_retryCount = 0, sc_createdAt = 0\<rparr>"

definition demo_rec_state :: "demo_world recurring_state" where
  "demo_rec_state = \<lparr>rs_users = [(''u1'', ''Guser'')], rs_schedules = [(''s1'', demo_schedule)], rs_runs = [],
     rs_notified = [], rs_batch = demo_batch_state\<rparr>"

definition demo_run :: payment_run where
  "demo_run = \<lparr>pr_scheduleId = ''s1'', pr_status = RUN_PROCESSING, pr_attempt = 1, pr_stellarTxId = None,
     pr_error = None, pr_startedAt = Some 1000, pr_finishedAt = None, pr_createdAt = 1000\<rparr>"

definition demo_claimed :: "demo_world recurring_state" where
  "demo_claimed = demo_rec_state\<lparr>rs_runs := [(''uuid'', demo_run)]\<rparr>"

lemma demo_claim:
  "claim_schedule (demo_rec_env step c) ''s1'' demo_rec_state = (Inr (Some (''uuid'', demo_run)), demo_claimed)"
proof -
  have "js_get (rs_schedules demo_rec_state) ''s1'' = Some demo_schedule" "requeued_run ''s1'' demo_rec_state = None"
    by (simp_all add: demo_rec_state_def requeued_run_def)
  then show ?thesis
    by (simp add: claim_schedule_def eff_defs Let_def clock_def new_id_def on_batch_def library_call_def put_run_def
        demo_rec_env_def demo_env_def demo_claimed_def demo_run_def demo_schedule_def)
      (simp add: demo_rec_state_def)
qed

lemma demo_schedule_at: "js_get (rs_schedules demo_rec_state) ''s1'' = Some demo_schedule"
  by (simp add: demo_rec_state_def)

lemma recurring_run_settles_witness:
  "\<exists>sc'. js_get (rs_schedules (snd (run_claimed (demo_rec_env 0 commits) 5 ''s1'' demo_schedule (''uuid'', demo_run) demo_claimed)))
     ''s1'' = Some sc' \<and> sc_lastRunAt sc' = Some 5"
proof -
  let ?r = "run_claimed (demo_rec_env 0 commits) 5 ''s1'' demo_schedule (''uuid'', demo_run) demo_claimed"
  have "fst ?r = Inr ()" by code_simp
  then have r: "?r = (Inr (), snd ?r)" by (metis prod.collapse)
  from recurring_run_settles [OF demo_claim demo_schedule_at r] show ?thesis by blast
qed

lemma cancelled_schedule_reactivated_witness:
  "\<exists>s2 sc'. updateScheduleStatus (demo_rec_env 0 commits) ''Guser'' ''s1'' SCHED_CANCELLED demo_claimed
       = (Inr (demo_schedule\<lparr>sc_status := SCHED_CANCELLED\<rparr>), s2) \<and>
     js_get (rs_schedules (snd (run_claimed (demo_rec_env 0 commits) 5 ''s1'' demo_schedule (''uuid'', demo_run) s2))) ''s1'' = Some sc' \<and>
     sc_status sc' = SCHED_ACTIVE"
proof -
  let ?u = "updateScheduleStatus (demo_rec_env 0 commits) ''Guser'' ''s1'' SCHED_CANCELLED demo_claimed"
  let ?r = "run_claimed (demo_rec_env 0 commits) 5 ''s1'' demo_schedule (''uuid'', demo_run) (snd ?u)"
  have "fst ?u = Inr (demo_schedule\<lparr>sc_status := SCHED_CANCELLED\<rparr>)" by code_simp
  then have u: "?u = (Inr (demo_schedule\<lparr>sc_status := SCHED_CANCELLED\<rparr>), snd ?u)" by (metis prod.collapse)
  have "fst ?r = Inr ()" by code_simp
  then have r: "?r = (Inr (), snd ?r)" by (metis prod.collapse)
  from cancelled_schedule_reactivated [OF demo_claim u r] u show ?thesis by blast
qed

lemma two_workers_claim_same_schedule_witness:
  "\<exists>r2 run2 s2. claim_schedule (demo_rec_env 0 commits) ''s1'' demo_claimed = (Inr (Some (r2, run2)), s2) \<and>
     pr_status run2 = RUN_PROCESSING"
  using two_workers_claim_same_schedule [OF demo_claim, of 0 commits] by blast

lemma horizon_refusal_classified_transient_witness:
  "case fst (executeBatch (demo_env 1) DEFAULT_CONFIG demo_request demo_batch_state) of
     Inl e \<Rightarrow> classifyRecurringPaymentError e 0 = TRANSIENT | Inr _ \<Rightarrow> False"
proof -
  let ?x = "executeBatch (demo_env 1) DEFAULT_CONFIG demo_request demo_batch_state"
  have "(case fst ?x of Inl e \<Rightarrow> True | Inr _ \<Rightarrow> False) \<and> subs (snd ?x) \<noteq> subs demo_batch_state" by code_simp
  then obtain e where x: "?x = (Inl e, snd ?x)" and s: "subs (snd ?x) \<noteq> subs demo_batch_state"
    by (cases ?x) (auto split: sum.splits)
  from x have "fst ?x = Inl e" by (cases ?x) simp
  with horizon_refusal_classified_transient [OF x s] show ?thesis by simp
qed

lemma recurring_asset_never_paid_witness:
  "\<exists>e. fst (pay_schedule (demo_rec_env 0 commits) (demo_schedule\<lparr>sc_assetCode := ''native''\<rparr>) demo_claimed) = Inl e"
proof -
  let ?p = "pay_schedule (demo_rec_env 0 commits) (demo_schedule\<lparr>sc_assetCode := ''native''\<rparr>) demo_claimed"
  have p: "?p = (fst ?p, snd ?p)" by simp
  show ?thesis
    using recurring_asset_never_paid [where sc = "demo_schedule\<lparr>sc_assetCode := ''native''\<rparr>", OF _ _ p] by simp
qed

lemma recorded_failure_repays_witness:
  "\<exists>run'. js_get (rs_runs (snd (run_claimed (demo_rec_env 0 commit_lost) 5 ''s1'' demo_schedule (''uuid'', demo_run) demo_claimed)))
     ''uuid'' = Some run' \<and> pr_status run' = RUN_PENDING"
proof -
  let ?env = "demo_rec_env 0 commit_lost"
  let ?p = "pay_schedule ?env demo_schedule demo_claimed"
  let ?r = "run_claimed ?env 5 ''s1'' demo_schedule (''uuid'', demo_run) demo_claimed"
  have "(case fst ?p of Inr (Executed _) \<Rightarrow> True | _ \<Rightarrow> False)" by code_simp
  then obtain b where p: "?p = (Inr (Executed b), snd ?p)"
    by (cases ?p) (auto split: sum.splits batch_outcome.splits)
  let ?s = "settle_success ?env 5 ''s1'' ''uuid'' demo_schedule (Executed b) (snd ?p)"
  have s: "?s = (Inl (PlainError ''Connection lost''), snd ?s)"
    by (simp add: settle_success_def eff_defs demo_rec_env_def clock_def on_batch_def library_call_def commit_lost_def)
  have t: "classifyRecurringPaymentError (PlainError ''Connection lost'') 0 = TRANSIENT" by code_simp
  have a: "pr_attempt demo_run \<le> re_maxRetries ?env" by (simp add: demo_run_def demo_rec_env_def)
  have "fst ?r = Inr ()" by code_simp
  then have r: "?r = (Inr (), snd ?r)" by (metis prod.collapse)
  from recorded_failure_repays [OF p s t a r] show ?thesis by blast
qed

lemma backoff_within_bounds_witness:
  "\<exists>d. computeBackoffDelayMs (demo_rec_env 0 commits) 3 (Fin 0) = Fin (of_int d) \<and> 0 \<le> d \<and> d \<le> 3600000"
  using backoff_within_bounds [where env = "demo_rec_env 0 commits" and j = 0 and x = 0 and
      random = "Fin 0" and attempt = 3 and raw = "Fin 30000"]
  by (auto simp: demo_rec_env_def js_int_def)

end
