(* ===== verification/Soroban_Errors.thy ===== *)
theory Soroban_Errors
  imports Batch_Types
begin

text \<open>
  \<open>backend/src/services/soroban-error.service.ts\<close>: the table of known Soroban errors and the
  parser that sorts an error by its text, exact keys first, then the first key the text
  contains, then patterns. An error is a text, or an object with the properties the parser
  reads; the lookup is by the table's own keys.
\<close>

section \<open>Data\<close>

datatype soroban_category = C_RESOURCE_LIMIT | C_BUDGET_EXCEEDED | C_INSUFFICIENT_FEE
  | C_STORAGE_MISSING | C_STORAGE_ARCHIVED | C_CONTRACT_TRAPPED | C_CONTRACT_PANIC | C_CONTRACT_INVALID
  | C_TRANSACTION_MALFORMED | C_TRANSACTION_FAILED | C_TRANSACTION_BAD_AUTH | C_NETWORK_ERROR | C_RPC_ERROR
  | C_WASM_VM_ERROR | C_WASM_INVALID_ACTION | C_FOOTPRINT_INVALID | C_FOOTPRINT_MALFORMED | C_UNKNOWN

datatype soroban_severity = SEV_LOW | SEV_MEDIUM | SEV_HIGH | SEV_CRITICAL

record soroban_details =
  sd_category :: soroban_category
  sd_severity :: soroban_severity
  sd_code :: string
  sd_message :: string
  sd_userMessage :: string
  sd_retryable :: bool
  sd_suggestedAction :: string

definition details :: "soroban_category \<Rightarrow> soroban_severity \<Rightarrow> string \<Rightarrow> string \<Rightarrow> string \<Rightarrow> bool
    \<Rightarrow> string \<Rightarrow> soroban_details" where
  "details c s code m u r a = \<lparr>sd_category = c, sd_severity = s, sd_code = code, sd_message = m,
     sd_userMessage = u, sd_retryable = r, sd_suggestedAction = a\<rparr>"

definition ERROR_MAPPINGS :: "(string \<times> soroban_details) list" where
  "ERROR_MAPPINGS = [
     (''HostError(Budget, LimitExceeded)'', details C_BUDGET_EXCEEDED SEV_HIGH ''BUDGET_LIMIT_EXCEEDED'' ''HostError(Budget, LimitExceeded)''
        ''The operation exceeded the computational budget. Try reducing the complexity or increasing the fee.''
        True ''Increase resource fee or simplify the operation''),
     (''HostError(Storage, MissingValue)'', details C_STORAGE_MISSING SEV_HIGH ''STORAGE_MISSING_VALUE'' ''HostError(Storage, MissingValue)''
        ''Required storage entry is missing. The contract may be trying to access non-existent data.''
        False ''Verify the contract state and data availability''),
     (''HostError(WasmVm, InvalidAction)'', details C_WASM_INVALID_ACTION SEV_CRITICAL ''WASM_INVALID_ACTION'' ''HostError(WasmVm, InvalidAction)''
        ''The contract attempted an invalid operation. This may indicate a bug in the contract.''
        False ''Contact the contract developer or check contract implementation''),
     (''txMALFORMED'', details C_TRANSACTION_MALFORMED SEV_HIGH ''TX_MALFORMED'' ''txMALFORMED''
        ''The transaction is malformed and cannot be processed.''
        False ''Check transaction structure and parameters''),
     (''txFAILED'', details C_TRANSACTION_FAILED SEV_HIGH ''TX_FAILED'' ''txFAILED''
        ''The transaction failed during execution.''
        True ''Check operation details and retry''),
     (''txINSUFFICIENT_FEE'', details C_INSUFFICIENT_FEE SEV_MEDIUM ''TX_INSUFFICIENT_FEE'' ''txINSUFFICIENT_FEE''
        ''The transaction fee is too low. Network congestion may require higher fees.''
        True ''Increase the transaction fee and retry''),
     (''txSOROBAN_INVALID'', details C_CONTRACT_INVALID SEV_HIGH ''TX_SOROBAN_INVALID'' ''txSOROBAN_INVALID''
        ''The Soroban operation is invalid. Check contract parameters and resource limits.''
        False ''Review contract invocation parameters and resource limits''),
     (''txBAD_AUTH'', details C_TRANSACTION_BAD_AUTH SEV_HIGH ''TX_BAD_AUTH'' ''txBAD_AUTH''
        ''The transaction signature is invalid or missing.''
        False ''Check transaction signatures and authorization''),
     (''txTOO_EARLY'', details C_TRANSACTION_FAILED SEV_LOW ''TX_TOO_EARLY'' ''txTOO_EARLY''
        ''The transaction was submitted too early. Wait and retry.''
        True ''Wait a moment and retry the transaction''),
     (''INVOKE_HOST_FUNCTION_RESOURCE_LIMIT_EXCEEDED'', details C_RESOURCE_LIMIT SEV_HIGH ''INVOKE_RESOURCE_LIMIT_EXCEEDED'' ''INVOKE_HOST_FUNCTION_RESOURCE_LIMIT_EXCEEDED''
        ''The contract invocation exceeded resource limits. Increase fees or reduce complexity.''
        True ''Increase resource fee or simplify the operation''),
     (''INVOKE_HOST_FUNCTION_INSUFFICIENT_REFUNDABLE_FEE'', details C_INSUFFICIENT_FEE SEV_MEDIUM ''INVOKE_INSUFFICIENT_REFUNDABLE_FEE'' ''INVOKE_HOST_FUNCTION_INSUFFICIENT_REFUNDABLE_FEE''
        ''Insufficient refundable fee for the operation.''
        True ''Increase the refundable fee''),
     (''INVOKE_HOST_FUNCTION_ENTRY_ARCHIVED'', details C_STORAGE_ARCHIVED SEV_HIGH ''INVOKE_ENTRY_ARCHIVED'' ''INVOKE_HOST_FUNCTION_ENTRY_ARCHIVED''
        ''The required ledger entry has been archived and is not accessible.''
        False ''Restore the archived entry or use a different approach''),
     (''INVOKE_HOST_FUNCTION_TRAPPED'', details C_CONTRACT_TRAPPED SEV_HIGH ''INVOKE_TRAPPED'' ''INVOKE_HOST_FUNCTION_TRAPPED''
        ''The contract execution was trapped. This may be due to a panic or assertion failure.''
        False ''Check contract logic and error handling''),
     (''RESTORE_FOOTPRINT_MALFORMED'', details C_FOOTPRINT_MALFORMED SEV_HIGH ''RESTORE_FOOTPRINT_MALFORMED'' ''RESTORE_FOOTPRINT_MALFORMED''
        ''The restore footprint operation is malformed.''
        False ''Check footprint parameters''),
     (''EXTEND_FOOTPRINT_TTL_MALFORMED'', details C_FOOTPRINT_MALFORMED SEV_HIGH ''EXTEND_FOOTPRINT_TTL_MALFORMED'' ''EXTEND_FOOTPRINT_TTL_MALFORMED''
        ''The extend footprint TTL operation is malformed.''
        False ''Check TTL extension parameters''),
     (''TRY_AGAIN_LATER'', details C_NETWORK_ERROR SEV_MEDIUM ''TRY_AGAIN_LATER'' ''TRY_AGAIN_LATER''
        ''The network is temporarily unavailable. Please try again later.''
        True ''Wait and retry the operation''),
     (''panic'', details C_CONTRACT_PANIC SEV_CRITICAL ''CONTRACT_PANIC'' ''panic''
        ''The contract encountered a panic. This indicates a serious error in contract logic.''
        False ''Review contract code and logic''),
     (''panic_with_error'', details C_CONTRACT_PANIC SEV_CRITICAL ''CONTRACT_PANIC_WITH_ERROR'' ''panic_with_error''
        ''The contract encountered a panic with an error message.''
        False ''Review the error message and contract logic'')]"

text \<open>A text, or an object: message, result codes, \<open>response.data.error\<close>, code, its JSON text.\<close>

datatype soroban_input = SText string
  | SObj "string option" "result_codes option" "string option" "string option" string

section \<open>The parser\<close>

fun js_includes :: "string \<Rightarrow> string \<Rightarrow> bool" where
  "js_includes s k = (take (length k) s = k \<or> (case s of [] \<Rightarrow> False | _ # t \<Rightarrow> js_includes t k))"

declare js_includes.simps [simp del]

text \<open>\<open>undefined\<close>, when the operation codes are an empty array, is \<open>None\<close>.\<close>

definition extractErrorMessage :: "soroban_input \<Rightarrow> string option" where
  "extractErrorMessage e = (case e of
     SText s \<Rightarrow> Some s
   | SObj message codes dataError code json \<Rightarrow>
       (case truthy_str message of Some m \<Rightarrow> Some m
        | None \<Rightarrow>
            let rest = (case truthy_str dataError of Some d \<Rightarrow> Some d
                        | None \<Rightarrow> (case truthy_str code of Some c \<Rightarrow> Some c | None \<Rightarrow> Some json))
            in case codes of
                 None \<Rightarrow> rest
               | Some rc \<Rightarrow>
                   (case truthy_str (rc_transaction rc) of
                      Some t \<Rightarrow> Some t
                    | None \<Rightarrow> (case rc_operations rc of
                        None \<Rightarrow> rest
                      | Some [] \<Rightarrow> None
                      | Some (op # _) \<Rightarrow> Some op))))"

definition parseHostError :: "string \<Rightarrow> soroban_details" where
  "parseHostError m =
     (if js_includes m ''Budget'' then details C_BUDGET_EXCEEDED SEV_HIGH ''HOST_BUDGET_ERROR'' m
        ''A budget-related error occurred. The operation may be too complex.'' True
        ''Reduce operation complexity or increase fees''
      else if js_includes m ''Storage'' then details C_STORAGE_MISSING SEV_HIGH ''HOST_STORAGE_ERROR'' m
        ''A storage-related error occurred. Required data may be missing.'' False
        ''Verify contract state and data availability''
      else if js_includes m ''WasmVm'' then details C_WASM_VM_ERROR SEV_CRITICAL ''HOST_WASM_ERROR'' m
        ''A WebAssembly VM error occurred. This may indicate a contract bug.'' False
        ''Contact contract developer''
      else details C_UNKNOWN SEV_MEDIUM ''HOST_ERROR'' m ''A host environment error occurred.'' False
        ''Check error details and retry'')"

definition parseTransactionError :: "string \<Rightarrow> soroban_details" where
  "parseTransactionError m =
     (if js_includes m ''INSUFFICIENT_FEE'' \<or> js_includes m ''insufficient_fee''
      then details C_INSUFFICIENT_FEE SEV_MEDIUM ''TX_FEE_ERROR'' m ''The transaction fee is insufficient.'' True
        ''Increase the transaction fee''
      else if js_includes m ''BAD_AUTH'' \<or> js_includes m ''bad_auth''
      then details C_TRANSACTION_BAD_AUTH SEV_HIGH ''TX_AUTH_ERROR'' m ''Transaction authorization failed.'' False
        ''Check signatures and authorization''
      else details C_TRANSACTION_FAILED SEV_HIGH ''TX_ERROR'' m ''A transaction error occurred.'' True
        ''Review transaction details and retry'')"

definition parseInvokeError :: "string \<Rightarrow> soroban_details" where
  "parseInvokeError m =
     (if js_includes m ''RESOURCE_LIMIT'' \<or> js_includes m ''resource_limit''
      then details C_RESOURCE_LIMIT SEV_HIGH ''INVOKE_RESOURCE_ERROR'' m ''The operation exceeded resource limits.'' True
        ''Increase resource fee or reduce complexity''
      else if js_includes m ''TRAPPED'' \<or> js_includes m ''trapped''
      then details C_CONTRACT_TRAPPED SEV_HIGH ''INVOKE_TRAPPED_ERROR'' m ''The contract execution was trapped.'' False
        ''Check contract logic''
      else details C_CONTRACT_INVALID SEV_HIGH ''INVOKE_ERROR'' m ''A contract invocation error occurred.'' False
        ''Review contract parameters'')"

definition parseMessage :: "string \<Rightarrow> soroban_details" where
  "parseMessage m =
     (case map_of ERROR_MAPPINGS m of
        Some d \<Rightarrow> d
      | None \<Rightarrow>
          (case List.find (\<lambda>(k, _). js_includes m k) ERROR_MAPPINGS of
             Some (_, d) \<Rightarrow> d
           | None \<Rightarrow>
               if js_includes m ''HostError'' then parseHostError m
               else if js_includes m ''tx'' then parseTransactionError m
               else if js_includes m ''INVOKE_HOST_FUNCTION'' then parseInvokeError m
               else details C_UNKNOWN SEV_MEDIUM ''UNKNOWN_ERROR'' m
                 ''An unknown error occurred. Please check the error details.'' False
                 ''Contact support with error details''))"

text \<open>
  The lookup \<open>ERROR_MAPPINGS[errorMessage]\<close> also finds the members every object inherits; such a
  member is returned as if it were an entry, and its fields are all undefined (\<open>None\<close> below).
\<close>

definition object_prototype :: "string list" where
  "object_prototype = [''constructor'', ''__defineGetter__'', ''__defineSetter__'', ''hasOwnProperty'',
     ''__lookupGetter__'', ''__lookupSetter__'', ''isPrototypeOf'', ''propertyIsEnumerable'', ''toString'',
     ''valueOf'', ''__proto__'', ''toLocaleString'']"

datatype parsed_error = Details soroban_details | Inherited string

text \<open>An undefined message makes \<open>errorMessage.includes\<close> throw.\<close>

definition parseError :: "soroban_input \<Rightarrow> js_error + parsed_error" where
  "parseError e = (case extractErrorMessage e of
     None \<Rightarrow> Inl (OtherErr ''TypeError'' ''Cannot read properties of undefined (reading 'includes')'' None None None None None None)
   | Some m \<Rightarrow> Inr (if m \<in> set object_prototype then Inherited m else Details (parseMessage m)))"

definition map_details :: "(soroban_details \<Rightarrow> 'a) \<Rightarrow> soroban_input \<Rightarrow> js_error + 'a option" where
  "map_details f e = (case parseError e of Inl x \<Rightarrow> Inl x
     | Inr (Inherited _) \<Rightarrow> Inr None | Inr (Details d) \<Rightarrow> Inr (Some (f d)))"

definition isRetryable :: "soroban_input \<Rightarrow> js_error + bool option" where
  "isRetryable = map_details sd_retryable"

definition getUserMessage :: "soroban_input \<Rightarrow> js_error + string option" where
  "getUserMessage = map_details sd_userMessage"

definition getSuggestedAction :: "soroban_input \<Rightarrow> js_error + string option" where
  "getSuggestedAction = map_details sd_suggestedAction"

definition getErrorDetails :: "soroban_input \<Rightarrow> js_error + parsed_error" where
  "getErrorDetails = parseError"

record api_error =
  ae_category :: soroban_category
  ae_severity :: soroban_severity
  ae_code :: string
  ae_userMessage :: string
  ae_suggestedAction :: string
  ae_retryable :: bool

definition formatForApi :: "soroban_input \<Rightarrow> js_error + api_error option" where
  "formatForApi = map_details (\<lambda>d. \<lparr>ae_category = sd_category d, ae_severity = sd_severity d, ae_code = sd_code d,
     ae_userMessage = sd_userMessage d, ae_suggestedAction = sd_suggestedAction d, ae_retryable = sd_retryable d\<rparr>)"

section \<open>The table\<close>

text \<open>Substring, declaratively.\<close>

lemma js_includes_iff: "js_includes s k \<longleftrightarrow> (\<exists>a b. s = a @ k @ b)"
proof (induction s)
  case Nil
  show ?case by (auto simp: js_includes.simps [of "[]"])
next
  case (Cons c s)
  have "(\<exists>a b. c # s = a @ k @ b) \<longleftrightarrow> (\<exists>b. c # s = k @ b) \<or> (\<exists>a b. s = a @ k @ b)"
    by (auto simp: Cons_eq_append_conv)
  moreover have "take (length k) (c # s) = k \<longleftrightarrow> (\<exists>b. c # s = k @ b)"
    by (metis append_eq_conv_conj append_take_drop_id)
  ultimately show ?case using Cons by (simp add: js_includes.simps [of "c # s"])
qed

lemma mapping_keys: "List.map fst ERROR_MAPPINGS = List.map (sd_message \<circ> snd) ERROR_MAPPINGS"
  by (simp add: ERROR_MAPPINGS_def details_def)

lemma mapping_keys_distinct: "distinct (List.map fst ERROR_MAPPINGS)"
  by (simp add: ERROR_MAPPINGS_def)

lemma mapping_codes_distinct: "distinct (List.map (sd_code \<circ> snd) ERROR_MAPPINGS)"
  by (simp add: ERROR_MAPPINGS_def details_def)

lemma find_append_first:
  "(\<forall>y \<in> set ys. \<not> P y) \<Longrightarrow> P x \<Longrightarrow> List.find P (ys @ x # zs) = Some x"
  by (induction ys) auto

lemma js_includes_chars: "js_includes s k \<Longrightarrow> set k \<subseteq> set s"
  by (auto simp: js_includes_iff)

lemma map_of_key: "distinct (List.map fst xs) \<Longrightarrow> (k, d) \<in> set xs \<Longrightarrow> map_of xs k = Some d"
  by simp

lemma prototype_has_no_key:
  "\<forall>m \<in> set object_prototype. \<forall>k \<in> set (List.map fst ERROR_MAPPINGS). \<not> js_includes m k"
  by code_simp

text \<open>The order of the table decides. A text that is a key is given that key's entry; any other
  text that contains a key is given the entry of the first key of the table it contains. So
  \<open>panic_with_error\<close>, which comes after \<open>panic\<close>, is reached only by its exact text.
\<close>
theorem parse_first_key:
  assumes table: "ERROR_MAPPINGS = ys @ (k, d) # zs"
    and at: "m = a @ k @ b"
    and first: "a = [] \<and> b = [] \<or> m \<notin> fst ` set ERROR_MAPPINGS
      \<and> (\<forall>k' \<in> fst ` set ys. \<nexists>x y. m = x @ k' @ y)"
  shows "parseError (SText m) = Inr (Details d) \<and> sd_message d = k"
proof -
  have mem: "(k, d) \<in> set ERROR_MAPPINGS" unfolding table by simp
  have inc: "js_includes m k" using at by (auto simp: js_includes_iff)
  have "k \<in> set (List.map fst ERROR_MAPPINGS)" using mem by force
  then have proto: "m \<notin> set object_prototype" using prototype_has_no_key inc by blast
  have "parseMessage m = d"
  proof (cases "m = k")
    case True
    then show ?thesis using map_of_key [OF mapping_keys_distinct mem] by (simp add: parseMessage_def)
  next
    case False
    then have notkey: "m \<notin> fst ` set ERROR_MAPPINGS"
      and no: "\<And>k' d'. (k', d') \<in> set ys \<Longrightarrow> \<not> js_includes m k'"
      using first at unfolding js_includes_iff by force+
    have none: "\<forall>y \<in> set ys. \<not> (\<lambda>(k, _). js_includes m k) y" using no by (auto split: prod.splits)
    have "List.find (\<lambda>(k, _). js_includes m k) ERROR_MAPPINGS = Some (k, d)"
      unfolding table by (rule find_append_first [OF none]) (simp add: inc)
    moreover have "map_of ERROR_MAPPINGS m = None" using notkey by (simp add: map_of_eq_None_iff)
    ultimately show ?thesis by (simp add: parseMessage_def)
  qed
  then have "parseError (SText m) = Inr (Details d)" using proto by (simp add: parseError_def extractErrorMessage_def)
  moreover have "\<forall>(k, d) \<in> set ERROR_MAPPINGS. sd_message d = k" by (simp add: ERROR_MAPPINGS_def details_def)
  then have "sd_message d = k" using mem by fast
  ultimately show ?thesis by simp
qed

theorem parse_first_key_witness:
  "parseError (SText ''panic_with_error'') = Inr (Details (snd (ERROR_MAPPINGS ! 17)))
   \<and> parseError (SText ''HostError: panic_with_error(3)'') = Inr (Details (snd (ERROR_MAPPINGS ! 16)))"
proof (intro conjI)
  have split: "\<And>i. i < 18 \<Longrightarrow> ERROR_MAPPINGS =
      take i ERROR_MAPPINGS @ (fst (ERROR_MAPPINGS ! i), snd (ERROR_MAPPINGS ! i)) # drop (Suc i) ERROR_MAPPINGS"
    using id_take_nth_drop [of _ ERROR_MAPPINGS] by (simp add: ERROR_MAPPINGS_def)
  show "parseError (SText ''panic_with_error'') = Inr (Details (snd (ERROR_MAPPINGS ! 17)))"
    by (rule parse_first_key [where a = "[]" and b = "[]", THEN conjunct1, OF split]) (simp, code_simp, simp)
  show "parseError (SText ''HostError: panic_with_error(3)'') = Inr (Details (snd (ERROR_MAPPINGS ! 16)))"
    by (rule parse_first_key [where a = "''HostError: ''" and b = "''_with_error(3)''", THEN conjunct1, OF split])
      (simp, code_simp, simp add: js_includes_iff [symmetric], code_simp)
qed

lemma parseMessage_unknown:
  assumes no: "\<And>k. k \<in> fst ` set ERROR_MAPPINGS \<union> {''HostError'', ''tx'', ''INVOKE_HOST_FUNCTION''}
      \<Longrightarrow> \<not> js_includes m k"
  shows "parseMessage m = details C_UNKNOWN SEV_MEDIUM ''UNKNOWN_ERROR'' m
      ''An unknown error occurred. Please check the error details.'' False ''Contact support with error details''"
proof -
  have "m = [] @ m @ []" by simp
  then have "js_includes m m" unfolding js_includes_iff by blast
  then have "m \<notin> fst ` set ERROR_MAPPINGS" using no by blast
  then have "map_of ERROR_MAPPINGS m = None" by (simp add: map_of_eq_None_iff)
  moreover have "\<forall>x \<in> set ERROR_MAPPINGS. \<not> js_includes m (fst x)" using no by blast
  then have "List.find (\<lambda>(k, _). js_includes m k) ERROR_MAPPINGS = None"
    unfolding find_None_iff by (auto split: prod.splits)
  ultimately show ?thesis using no by (simp add: parseMessage_def)
qed

text \<open>What the HTTP client says of a refused request, whatever Horizon answered.\<close>

lemma no_key_in_status_message:
  assumes "set ds \<subseteq> set ''0123456789''"
  shows "k \<in> fst ` set ERROR_MAPPINGS \<union> {''HostError'', ''tx'', ''INVOKE_HOST_FUNCTION''}
    \<Longrightarrow> \<not> js_includes (''Request failed with status code '' @ ds) k"
proof -
  assume k: "k \<in> fst ` set ERROR_MAPPINGS \<union> {''HostError'', ''tx'', ''INVOKE_HOST_FUNCTION''}"
  have "\<forall>k \<in> set (List.map fst ERROR_MAPPINGS @ [''HostError'', ''tx'', ''INVOKE_HOST_FUNCTION'']).
      \<exists>c \<in> set k. c \<notin> set (''Request failed with status code '' @ ''0123456789'')"
    by code_simp
  then obtain c where "c \<in> set k" "c \<notin> set (''Request failed with status code '' @ ''0123456789'')"
    using k by force
  then show ?thesis using assms by (fastforce dest: js_includes_chars)
qed

lemma refused_parse:
  assumes "set ds \<subseteq> set ''0123456789''"
  shows "parseError (SObj (Some (''Request failed with status code '' @ ds)) codes e c j)
    = Inr (Details (details C_UNKNOWN SEV_MEDIUM ''UNKNOWN_ERROR'' (''Request failed with status code '' @ ds)
        ''An unknown error occurred. Please check the error details.'' False ''Contact support with error details''))"
proof -
  let ?m = "''Request failed with status code '' @ ds"
  have p: "parseMessage ?m = details C_UNKNOWN SEV_MEDIUM ''UNKNOWN_ERROR'' ?m
      ''An unknown error occurred. Please check the error details.'' False ''Contact support with error details''"
    by (rule parseMessage_unknown [OF no_key_in_status_message [OF assms]])
  have "?m \<notin> set object_prototype" by (simp add: object_prototype_def)
  then show ?thesis unfolding p [symmetric] by (simp add: parseError_def extractErrorMessage_def truthy_str_def)
qed

text \<open>An object's own message comes before the result codes it carries: for the error of a refused
  request, \<open>Request failed with status code\<close> and the number, the category is unknown and it is not
  retryable, whatever result codes Horizon sent, \<open>txINSUFFICIENT_FEE\<close> and \<open>TRY_AGAIN_LATER\<close> included.
\<close>
theorem refused_request_unknown:
  assumes "set ds \<subseteq> set ''0123456789''"
  shows "map_details sd_category (SObj (Some (''Request failed with status code '' @ ds)) codes e c j) = Inr (Some C_UNKNOWN)
    \<and> isRetryable (SObj (Some (''Request failed with status code '' @ ds)) codes e c j) = Inr (Some False)"
  unfolding isRetryable_def map_details_def refused_parse [OF assms] by (simp add: details_def)

theorem refused_request_unknown_witness:
  "isRetryable (SObj (Some ''Request failed with status code 400'') (Some \<lparr>rc_transaction = Some ''txINSUFFICIENT_FEE'', rc_operations = None\<rparr>) None None [])
     = Inr (Some False)
   \<and> isRetryable (SObj None (Some \<lparr>rc_transaction = Some ''txINSUFFICIENT_FEE'', rc_operations = None\<rparr>) None None [])
     = Inr (Some True)"
proof
  show "isRetryable (SObj (Some ''Request failed with status code 400'') (Some \<lparr>rc_transaction = Some ''txINSUFFICIENT_FEE'', rc_operations = None\<rparr>) None None [])
     = Inr (Some False)"
    using refused_request_unknown [where ds = "''400''"] by simp
  show "isRetryable (SObj None (Some \<lparr>rc_transaction = Some ''txINSUFFICIENT_FEE'', rc_operations = None\<rparr>) None None [])
     = Inr (Some True)"
    by code_simp
qed

end
