(* ===== verification/Queue_Config.thy ===== *)
theory Queue_Config
  imports Soroban_Errors Recurring
begin

text \<open>
  \<open>backend/src/config/queue.ts\<close>: the options of the job queues. Options are records whose
  absent fields are \<open>None\<close>; spreading one object over another takes the fields that are
  present. BullMQ, which reads them, is a library.
\<close>

section \<open>Connection\<close>

text \<open>The waits between reconnection attempts, and the errors that cause a reconnection.\<close>

definition redis_retryStrategy :: "int \<Rightarrow> int" where
  "redis_retryStrategy n = min (n * 100) 5000"

definition reconnectOnError :: "string \<Rightarrow> bool" where
  "reconnectOnError message = list_ex (js_includes message) [''READONLY'', ''ECONNRESET'', ''ETIMEDOUT'']"

section \<open>Job options\<close>

definition P_LOW :: jsnum where "P_LOW = js_int 1"
definition P_NORMAL :: jsnum where "P_NORMAL = js_int 2"
definition P_HIGH :: jsnum where "P_HIGH = js_int 3"
definition P_URGENT :: jsnum where "P_URGENT = js_int 4"

lemmas priority_defs = P_LOW_def P_NORMAL_def P_HIGH_def P_URGENT_def

record backoff =
  bo_type :: string
  bo_delay :: int

datatype keep_jobs = Remove bool | KeepJobs int "int option"

record job_options =
  jo_attempts :: "int option"
  jo_backoff :: "backoff option"
  jo_priority :: "jsnum option"
  jo_removeOnComplete :: "keep_jobs option"
  jo_removeOnFail :: "keep_jobs option"

definition no_options :: job_options where
  "no_options = \<lparr>jo_attempts = None, jo_backoff = None, jo_priority = None, jo_removeOnComplete = None,
     jo_removeOnFail = None\<rparr>"

definition job_config :: "int \<Rightarrow> string \<Rightarrow> int \<Rightarrow> jsnum \<Rightarrow> job_options" where
  "job_config a t d p = no_options\<lparr>jo_attempts := Some a, jo_backoff := Some \<lparr>bo_type = t, bo_delay = d\<rparr>,
     jo_priority := Some p\<rparr>"

text \<open>\<open>{ ...a, ...b }\<close>.\<close>

definition spread :: "job_options \<Rightarrow> job_options \<Rightarrow> job_options" where
  "spread a b = \<lparr>jo_attempts = nullish (jo_attempts b) (jo_attempts a),
     jo_backoff = nullish (jo_backoff b) (jo_backoff a),
     jo_priority = nullish (jo_priority b) (jo_priority a),
     jo_removeOnComplete = nullish (jo_removeOnComplete b) (jo_removeOnComplete a),
     jo_removeOnFail = nullish (jo_removeOnFail b) (jo_removeOnFail a)\<rparr>"

definition default_job_options :: job_options where
  "default_job_options = \<lparr>jo_attempts = Some 3, jo_backoff = Some \<lparr>bo_type = ''exponential'', bo_delay = 2000\<rparr>,
     jo_priority = None, jo_removeOnComplete = Some (KeepJobs (24 * 3600) (Some 1000)),
     jo_removeOnFail = Some (KeepJobs (7 * 24 * 3600) None)\<rparr>"

definition notification_job_options :: job_options where
  "notification_job_options = spread default_job_options
     (no_options\<lparr>jo_attempts := Some 3, jo_backoff := Some \<lparr>bo_type = ''exponential'', bo_delay = 1000\<rparr>\<rparr>)"

definition jobTypeConfigs :: "(string \<times> job_options) list" where
  "jobTypeConfigs =
     [(''CONTRACT_CALL'', job_config 5 ''exponential'' 3000 P_NORMAL),
      (''CONTRACT_DEPLOY'', job_config 3 ''exponential'' 5000 P_HIGH),
      (''SETTLEMENT'', job_config 10 ''exponential'' 2000 P_URGENT),
      (''BATCH_OPERATION'', job_config 3 ''fixed'' 10000 P_LOW),
      (''TRANSACTION_SUBMIT'', job_config 5 ''exponential'' 2000 P_HIGH),
      (''NOTIFICATION'', job_config 3 ''exponential'' 1000 P_LOW)]"

definition testnetJobTypeConfigs :: "(string \<times> job_options) list" where
  "testnetJobTypeConfigs =
     [(''CONTRACT_CALL'', job_config 3 ''exponential'' 5000 P_HIGH),
      (''CONTRACT_DEPLOY'', job_config 2 ''exponential'' 8000 P_URGENT),
      (''SETTLEMENT'', job_config 5 ''exponential'' 3000 P_URGENT),
      (''BATCH_OPERATION'', job_config 2 ''fixed'' 15000 P_LOW),
      (''TRANSACTION_SUBMIT'', job_config 3 ''exponential'' 4000 P_NORMAL),
      (''NOTIFICATION'', job_config 2 ''fixed'' 5000 P_LOW)]"

text \<open>\<open>configs[type] || {}\<close>; an inherited member of the table has no options either.\<close>

definition type_config :: "(string \<times> job_options) list \<Rightarrow> string \<Rightarrow> job_options" where
  "type_config configs t = (case map_of configs t of Some c \<Rightarrow> c | None \<Rightarrow> no_options)"

definition is_testnet :: "string option \<Rightarrow> bool" where
  "is_testnet network \<longleftrightarrow> network = Some ''testnet''"

definition getEffectiveJobOptions :: "string option \<Rightarrow> string \<Rightarrow> job_options" where
  "getEffectiveJobOptions network jobType =
     type_config (if is_testnet network then testnetJobTypeConfigs else jobTypeConfigs) jobType"

section \<open>Worker options\<close>

record worker_options =
  wo_concurrency :: jsnum
  wo_limiter_max :: int
  wo_limiter_duration :: int

text \<open>\<open>parseInt(process.env.X || d, 10)\<close>.\<close>

definition env_number :: "string option \<Rightarrow> string \<Rightarrow> jsnum" where
  "env_number v d = parseInt10 (case truthy_str v of Some s \<Rightarrow> s | None \<Rightarrow> d)"

definition defaultWorkerOptions :: "string option \<Rightarrow> worker_options" where
  "defaultWorkerOptions concurrency =
     \<lparr>wo_concurrency = env_number concurrency ''5'', wo_limiter_max = 10, wo_limiter_duration = 1000\<rparr>"

definition testnetWorkerOptions :: "string option \<Rightarrow> worker_options" where
  "testnetWorkerOptions concurrency =
     \<lparr>wo_concurrency = env_number concurrency ''2'', wo_limiter_max = 5, wo_limiter_duration = 1000\<rparr>"

definition getEffectiveWorkerOptions :: "string option \<Rightarrow> string option \<Rightarrow> worker_options" where
  "getEffectiveWorkerOptions network concurrency =
     (if is_testnet network then testnetWorkerOptions concurrency else defaultWorkerOptions concurrency)"

definition workerConcurrencyConfig :: "string option \<Rightarrow> string option \<Rightarrow> string option \<Rightarrow> (string \<times> jsnum) list" where
  "workerConcurrencyConfig email stellarTx webhook =
     [(''email-queue'', env_number email ''5''), (''stellar-tx-queue'', env_number stellarTx ''1''),
      (''webhook-queue'', env_number webhook ''10'')]"

section \<open>Retry strategies by kind of error\<close>

record retry_strategy =
  rst_maxAttempts :: int
  rst_delay :: int
  rst_backoffMultiplier :: rat

definition strategy :: "int \<Rightarrow> int \<Rightarrow> rat \<Rightarrow> retry_strategy" where
  "strategy m d b = \<lparr>rst_maxAttempts = m, rst_delay = d, rst_backoffMultiplier = b\<rparr>"

definition retryStrategies :: "(string \<times> retry_strategy) list" where
  "retryStrategies =
     [(''too_early'', strategy 10 5000 (3 / 2)), (''transaction_failed'', strategy 5 3000 2),
      (''insufficient_balance'', strategy 3 10000 1), (''network_error'', strategy 7 2000 2)]"

end
