(* ===== verification/Contract_Queue.thy ===== *)
theory Contract_Queue
  imports Queue_Config
begin

text \<open>
  \<open>backend/src/services/contract-queue.service.ts\<close>: the queue of contract jobs and the table
  \<open>ContractJob\<close> that mirrors it. BullMQ and the database connection are parameters: their calls
  act on a world and may fail; a failing database statement writes nothing. The table is a map
  from row identifiers, and \<open>jobId\<close> is unique in it. The listeners of queue events run on their
  own, so each event is an operation here.
\<close>

section \<open>Data\<close>

datatype job_status = JS_PENDING | JS_ACTIVE | JS_COMPLETED | JS_FAILED | JS_RETRYING

datatype priority_enum = PR_LOW | PR_NORMAL | PR_HIGH | PR_URGENT

record job_data =
  jd_type :: string
  jd_contractId :: "string option"
  jd_functionName :: "string option"
  jd_parameters :: "(string \<times> json) list option"
  jd_createdBy :: "string option"
  jd_metadata :: "(string \<times> json) list option"
  jd_priority :: "jsnum option"

text \<open>A row of the table \<open>ContractJob\<close>.\<close>

record contract_job =
  cj_jobId :: string
  cj_type :: string
  cj_priority :: priority_enum
  cj_status :: job_status
  cj_contractId :: "string option"
  cj_functionName :: "string option"
  cj_parameters :: "(string \<times> json) list"
  cj_result :: "json option"
  cj_error :: "string option"
  cj_errorCategory :: "string option"
  cj_errorSeverity :: "string option"
  cj_errorCode :: "string option"
  cj_userMessage :: "string option"
  cj_suggestedAction :: "string option"
  cj_retryable :: bool
  cj_attempts :: int
  cj_maxAttempts :: int
  cj_createdBy :: "string option"
  cj_metadata :: "(string \<times> json) list"
  cj_startedAt :: "int option"
  cj_completedAt :: "int option"
  cj_failedAt :: "int option"
  cj_createdAt :: int
  cj_updatedAt :: int

text \<open>What is read of a BullMQ job.\<close>

record queue_job =
  qj_id :: string
  qj_name :: string
  qj_data :: job_data
  qj_progress :: json
  qj_attemptsMade :: int
  qj_opts :: job_options
  qj_timestamp :: int
  qj_processedOn :: "int option"
  qj_finishedOn :: "int option"
  qj_returnvalue :: json
  qj_failedReason :: "string option"

record 'w queue_env =
  qe_add :: "string \<Rightarrow> job_data \<Rightarrow> job_options \<Rightarrow> 'w \<Rightarrow> (js_error + string) \<times> 'w"
  qe_getJob :: "string \<Rightarrow> 'w \<Rightarrow> (js_error + queue_job option) \<times> 'w"
  qe_getState :: "string \<Rightarrow> 'w \<Rightarrow> (js_error + string) \<times> 'w"
  qe_retry :: "string \<Rightarrow> 'w \<Rightarrow> (js_error + unit) \<times> 'w"
  qe_remove :: "string \<Rightarrow> 'w \<Rightarrow> (js_error + unit) \<times> 'w"
  qe_count :: "string \<Rightarrow> 'w \<Rightarrow> (js_error + int) \<times> 'w"
  qe_clean :: "int \<Rightarrow> int \<Rightarrow> string \<Rightarrow> 'w \<Rightarrow> (js_error + unit) \<times> 'w"
  qe_db :: "'w \<Rightarrow> (js_error + unit) \<times> 'w"
  qe_uuid :: "'w \<Rightarrow> string"
  qe_now :: "'w \<Rightarrow> int"
  qe_daysBefore :: "int \<Rightarrow> int \<Rightarrow> int"

record 'w queue_state =
  qs_jobs :: "(string, contract_job) jsmap"
  qs_world :: 'w

type_synonym ('w, 'a) cqueue = "('w queue_state, js_error, 'a) eff"

definition qcall :: "('w \<Rightarrow> (js_error + 'a) \<times> 'w) \<Rightarrow> ('w, 'a) cqueue" where
  "qcall f s = (case f (qs_world s) of (r, w) \<Rightarrow> (r, s\<lparr>qs_world := w\<rparr>))"

definition qclock :: "'w queue_env \<Rightarrow> ('w, int) cqueue" where
  "qclock env = eget (\<lambda>s. qe_now env (qs_world s))"

text \<open>\<open>catch (error) { throw new Error(prefix + message) }\<close>.\<close>

definition prefixed :: "string \<Rightarrow> ('w, 'a) cqueue \<Rightarrow> ('w, 'a) cqueue" where
  "prefixed p m = ecatch m (\<lambda>e. ethrow (PlainError (p @ message_text e)))"

section \<open>Adding\<close>

definition mapPriorityToEnum :: "jsnum \<Rightarrow> priority_enum" where
  "mapPriorityToEnum p = (if js_le (js_int 4) p then PR_URGENT else if js_eq p (js_int 3) then PR_HIGH
     else if js_eq p (js_int 2) then PR_NORMAL else PR_LOW)"

text \<open>A number is falsy when it is zero or NaN.\<close>

definition truthy_num :: "jsnum option \<Rightarrow> jsnum option" where
  "truthy_num n = (case n of None \<Rightarrow> None | Some x \<Rightarrow> if x = NaN \<or> x = Fin 0 then None else Some x)"

definition or_num :: "jsnum option \<Rightarrow> jsnum option \<Rightarrow> jsnum option" where
  "or_num a b = (case truthy_num a of Some x \<Rightarrow> Some x | None \<Rightarrow> b)"

definition job_options_of :: "job_data \<Rightarrow> job_options \<Rightarrow> job_options" where
  "job_options_of d options = (let typeConfig = type_config jobTypeConfigs (jd_type d) in
     (spread typeConfig options)\<lparr>jo_priority :=
        or_num (jd_priority d) (or_num (jo_priority typeConfig) (Some P_NORMAL))\<rparr>)"

definition unique_violation :: "string \<Rightarrow> js_error" where
  "unique_violation field = OtherErr ''PrismaClientKnownRequestError''
     (''Unique constraint failed on the fields: ('' @ field @ '')'') (Some ''P2002'') None None None None None"

definition has_job :: "string \<Rightarrow> (string, contract_job) jsmap \<Rightarrow> bool" where
  "has_job j m \<longleftrightarrow> list_ex (\<lambda>(_, r). cj_jobId r = j) m"

text \<open>The row \<open>addJob\<close> creates; the fields it does not give have the defaults of the schema.\<close>

definition new_row :: "string \<Rightarrow> job_data \<Rightarrow> job_options \<Rightarrow> int \<Rightarrow> contract_job" where
  "new_row j d jobOptions t =
     \<lparr>cj_jobId = j, cj_type = jd_type d,
      cj_priority = mapPriorityToEnum (the (or_num (jo_priority jobOptions) (Some P_NORMAL))),
      cj_status = JS_PENDING, cj_contractId = jd_contractId d, cj_functionName = jd_functionName d,
      cj_parameters = (case jd_parameters d of Some ps \<Rightarrow> ps | None \<Rightarrow> []),
      cj_result = None, cj_error = None, cj_errorCategory = None, cj_errorSeverity = None,
      cj_errorCode = None, cj_userMessage = None, cj_suggestedAction = None, cj_retryable = False,
      cj_attempts = 0, cj_maxAttempts = or_number 3 (jo_attempts jobOptions), cj_createdBy = jd_createdBy d,
      cj_metadata = (case jd_metadata d of Some m \<Rightarrow> m | None \<Rightarrow> []),
      cj_startedAt = None, cj_completedAt = None, cj_failedAt = None, cj_createdAt = t, cj_updatedAt = t\<rparr>"

text \<open>The two steps of \<open>addJob\<close>; other operations and events may come between them.\<close>

definition enqueue :: "'w queue_env \<Rightarrow> job_data \<Rightarrow> job_options \<Rightarrow> ('w, string) cqueue" where
  "enqueue env d options = qcall (qe_add env (jd_type d) d (job_options_of d options))"

definition create_row :: "'w queue_env \<Rightarrow> job_data \<Rightarrow> job_options \<Rightarrow> string \<Rightarrow> ('w, string) cqueue" where
  "create_row env d options j =
     ebind (qcall (qe_db env)) (\<lambda>_.
     ebind (eget (\<lambda>s. has_job j (qs_jobs s))) (\<lambda>dup.
     ebind (eget (\<lambda>s. qe_uuid env (qs_world s))) (\<lambda>i.
     ebind (eget (\<lambda>s. js_get (qs_jobs s) i)) (\<lambda>same.
     if dup then ethrow (unique_violation ''jobId'')
     else if same \<noteq> None then ethrow (unique_violation ''id'')
     else ebind (qclock env) (\<lambda>t.
          ebind (emodify (\<lambda>s. s\<lparr>qs_jobs := js_set i (new_row j d (job_options_of d options) t) (qs_jobs s)\<rparr>)) (\<lambda>_.
          ereturn i))))))"

definition addJob :: "'w queue_env \<Rightarrow> job_data \<Rightarrow> job_options \<Rightarrow> ('w, string \<times> string) cqueue" where
  "addJob env d options = prefixed ''Failed to add job: ''
     (ebind (enqueue env d options) (\<lambda>j.
      ebind (create_row env d options j) (\<lambda>i. ereturn (j, i))))"

definition settlement_data :: "string \<Rightarrow> string \<Rightarrow> (string \<times> json) list \<Rightarrow> string option \<Rightarrow> job_data" where
  "settlement_data contractId functionName parameters createdBy =
     \<lparr>jd_type = ''SETTLEMENT'', jd_contractId = Some contractId, jd_functionName = Some functionName,
      jd_parameters = Some parameters, jd_createdBy = createdBy,
      jd_metadata = Some [(''category'', JStr ''settlement''), (''urgent'', JBool True)],
      jd_priority = Some P_URGENT\<rparr>"

definition addSettlementJob :: "'w queue_env \<Rightarrow> string \<Rightarrow> string \<Rightarrow> (string \<times> json) list \<Rightarrow> string option
    \<Rightarrow> ('w, string \<times> string) cqueue" where
  "addSettlementJob env contractId functionName parameters createdBy =
     addJob env (settlement_data contractId functionName parameters createdBy)
       (no_options\<lparr>jo_priority := Some P_URGENT\<rparr>)"

text \<open>A priority that is not given is \<open>NORMAL\<close>.\<close>

definition addContractCallJob :: "'w queue_env \<Rightarrow> string \<Rightarrow> string \<Rightarrow> (string \<times> json) list \<Rightarrow> string option
    \<Rightarrow> jsnum option \<Rightarrow> ('w, string \<times> string) cqueue" where
  "addContractCallJob env contractId functionName parameters createdBy priority =
     addJob env \<lparr>jd_type = ''CONTRACT_CALL'', jd_contractId = Some contractId, jd_functionName = Some functionName,
        jd_parameters = Some parameters, jd_createdBy = createdBy, jd_metadata = None,
        jd_priority = Some (case priority of Some p \<Rightarrow> p | None \<Rightarrow> P_NORMAL)\<rparr> no_options"

section \<open>Reading\<close>

datatype job_view = FromTable string contract_job | FromQueue queue_job string

text \<open>The table is asked only about a job the queue does not know.\<close>

definition find_job :: "string \<Rightarrow> 'w queue_state \<Rightarrow> (string \<times> contract_job) option" where
  "find_job j s = List.find (\<lambda>(_, r). cj_jobId r = j) (qs_jobs s)"

definition getJobStatus :: "'w queue_env \<Rightarrow> string \<Rightarrow> ('w, job_view) cqueue" where
  "getJobStatus env j = prefixed ''Failed to get job status: ''
     (ebind (qcall (qe_getJob env j)) (\<lambda>job. case job of
        None \<Rightarrow>
          ebind (qcall (qe_db env)) (\<lambda>_.
          ebind (eget (find_job j)) (\<lambda>row. case row of
            None \<Rightarrow> ethrow (PlainError ''Job not found'')
          | Some (i, r) \<Rightarrow> ereturn (FromTable i r)))
      | Some q \<Rightarrow> ebind (qcall (qe_getState env j)) (\<lambda>state. ereturn (FromQueue q state))))"

text \<open>Prisma's \<open>take\<close>: a negative number takes from the end.\<close>

definition prisma_take :: "int \<Rightarrow> 'a list \<Rightarrow> 'a list" where
  "prisma_take n xs = (if 0 \<le> n then take (nat n) xs else slice_last (nat (- n)) xs)"

definition newest_first :: "(string \<times> contract_job) list \<Rightarrow> (string \<times> contract_job) list" where
  "newest_first = sort_key (\<lambda>(_, r). - cj_createdAt r)"

definition select_jobs :: "(contract_job \<Rightarrow> bool) \<Rightarrow> int \<Rightarrow> 'w queue_state \<Rightarrow> (string \<times> contract_job) list" where
  "select_jobs P limit s = prisma_take limit (newest_first (filter (\<lambda>(_, r). P r) (qs_jobs s)))"

definition getJobsByStatus :: "'w queue_env \<Rightarrow> job_status \<Rightarrow> int \<Rightarrow> ('w, (string \<times> contract_job) list) cqueue" where
  "getJobsByStatus env status limit = prefixed ''Failed to get jobs: ''
     (ebind (qcall (qe_db env)) (\<lambda>_. eget (select_jobs (\<lambda>r. cj_status r = status) limit)))"

definition getJobsByUser :: "'w queue_env \<Rightarrow> string \<Rightarrow> int \<Rightarrow> ('w, (string \<times> contract_job) list) cqueue" where
  "getJobsByUser env userId limit = prefixed ''Failed to get jobs: ''
     (ebind (qcall (qe_db env)) (\<lambda>_. eget (select_jobs (\<lambda>r. cj_createdBy r = Some userId) limit)))"

section \<open>Retrying, cancelling, updating\<close>

text \<open>\<open>updateMany({ where: { jobId }, data })\<close>, which also sets \<open>updatedAt\<close>.\<close>

definition map_jobs :: "(contract_job \<Rightarrow> bool) \<Rightarrow> (contract_job \<Rightarrow> contract_job) \<Rightarrow> (string, contract_job) jsmap
    \<Rightarrow> (string, contract_job) jsmap" where
  "map_jobs P f m = List.map (\<lambda>(i, r). (i, if P r then f r else r)) m"

definition update_job :: "'w queue_env \<Rightarrow> string \<Rightarrow> (int \<Rightarrow> contract_job \<Rightarrow> contract_job) \<Rightarrow> ('w, unit) cqueue" where
  "update_job env j f =
     ebind (qclock env) (\<lambda>t.
     ebind (qcall (qe_db env)) (\<lambda>_.
     emodify (\<lambda>s. s\<lparr>qs_jobs := map_jobs (\<lambda>r. cj_jobId r = j) (\<lambda>r. (f t r)\<lparr>cj_updatedAt := t\<rparr>) (qs_jobs s)\<rparr>)))"

definition mark_retrying :: "int \<Rightarrow> contract_job \<Rightarrow> contract_job" where
  "mark_retrying t r = r\<lparr>cj_status := JS_RETRYING, cj_attempts := cj_attempts r + 1\<rparr>"

definition retryJob :: "'w queue_env \<Rightarrow> string \<Rightarrow> ('w, unit) cqueue" where
  "retryJob env j = prefixed ''Failed to retry job: ''
     (ebind (qcall (qe_getJob env j)) (\<lambda>job. case job of
        None \<Rightarrow> ethrow (PlainError ''Job not found in queue'')
      | Some _ \<Rightarrow> ebind (qcall (qe_retry env j)) (\<lambda>_. update_job env j mark_retrying)))"

definition mark_cancelled :: "int \<Rightarrow> contract_job \<Rightarrow> contract_job" where
  "mark_cancelled t r = r\<lparr>cj_status := JS_FAILED, cj_error := Some ''Job cancelled by user'', cj_failedAt := Some t\<rparr>"

definition cancelJob :: "'w queue_env \<Rightarrow> string \<Rightarrow> ('w, unit) cqueue" where
  "cancelJob env j = prefixed ''Failed to cancel job: ''
     (ebind (qcall (qe_getJob env j)) (\<lambda>job.
      ebind (case job of None \<Rightarrow> ereturn () | Some _ \<Rightarrow> qcall (qe_remove env j)) (\<lambda>_.
      update_job env j mark_cancelled)))"

text \<open>The fields \<open>updateJobInDatabase\<close> may be given; an error of the database is logged only.\<close>

record job_updates =
  ju_status :: "job_status option"
  ju_result :: "json option"
  ju_error :: "string option"
  ju_attempts :: "int option"
  ju_startedAt :: "int option"
  ju_completedAt :: "int option"
  ju_failedAt :: "int option"
  ju_errorCategory :: "string option"
  ju_errorSeverity :: "string option"
  ju_errorCode :: "string option"
  ju_userMessage :: "string option"
  ju_suggestedAction :: "string option"
  ju_retryable :: "bool option"

definition no_updates :: job_updates where
  "no_updates = \<lparr>ju_status = None, ju_result = None, ju_error = None, ju_attempts = None, ju_startedAt = None,
     ju_completedAt = None, ju_failedAt = None, ju_errorCategory = None, ju_errorSeverity = None,
     ju_errorCode = None, ju_userMessage = None, ju_suggestedAction = None, ju_retryable = None\<rparr>"

definition given :: "'a option \<Rightarrow> 'a \<Rightarrow> 'a" where
  "given v old = (case v of Some x \<Rightarrow> x | None \<Rightarrow> old)"

definition apply_updates :: "job_updates \<Rightarrow> contract_job \<Rightarrow> contract_job" where
  "apply_updates u r = r\<lparr>cj_status := given (ju_status u) (cj_status r),
     cj_result := nullish (ju_result u) (cj_result r), cj_error := nullish (ju_error u) (cj_error r),
     cj_attempts := given (ju_attempts u) (cj_attempts r),
     cj_startedAt := nullish (ju_startedAt u) (cj_startedAt r),
     cj_completedAt := nullish (ju_completedAt u) (cj_completedAt r),
     cj_failedAt := nullish (ju_failedAt u) (cj_failedAt r),
     cj_errorCategory := nullish (ju_errorCategory u) (cj_errorCategory r),
     cj_errorSeverity := nullish (ju_errorSeverity u) (cj_errorSeverity r),
     cj_errorCode := nullish (ju_errorCode u) (cj_errorCode r),
     cj_userMessage := nullish (ju_userMessage u) (cj_userMessage r),
     cj_suggestedAction := nullish (ju_suggestedAction u) (cj_suggestedAction r),
     cj_retryable := given (ju_retryable u) (cj_retryable r)\<rparr>"

definition updateJobInDatabase :: "'w queue_env \<Rightarrow> string \<Rightarrow> job_updates \<Rightarrow> ('w, unit) cqueue" where
  "updateJobInDatabase env j u =
     ecatch (update_job env j (\<lambda>_. apply_updates u)) (\<lambda>_. ereturn ())"

section \<open>Metrics and cleaning\<close>

text \<open>\<open>groupBy\<close> over the status, with the number of rows of each status that occurs.\<close>

definition status_counts :: "'w queue_state \<Rightarrow> (job_status \<times> nat) list" where
  "status_counts s = List.map (\<lambda>st. (st, length (filter (\<lambda>(_, r). cj_status r = st) (qs_jobs s))))
     (remdups (List.map (\<lambda>(_, r). cj_status r) (qs_jobs s)))"

record queue_metrics =
  qm_waiting :: int
  qm_active :: int
  qm_completed :: int
  qm_failed :: int
  qm_delayed :: int
  qm_total :: int
  qm_database :: "(job_status \<times> nat) list"

definition getQueueMetrics :: "'w queue_env \<Rightarrow> ('w, queue_metrics) cqueue" where
  "getQueueMetrics env = prefixed ''Failed to get metrics: ''
     (ebind (qcall (qe_count env ''waiting'')) (\<lambda>w.
      ebind (qcall (qe_count env ''active'')) (\<lambda>a.
      ebind (qcall (qe_count env ''completed'')) (\<lambda>c.
      ebind (qcall (qe_count env ''failed'')) (\<lambda>f.
      ebind (qcall (qe_count env ''delayed'')) (\<lambda>d.
      ebind (qcall (qe_db env)) (\<lambda>_.
      ebind (eget status_counts) (\<lambda>db.
      ereturn \<lparr>qm_waiting = w, qm_active = a, qm_completed = c, qm_failed = f, qm_delayed = d,
        qm_total = w + a + c + f + d, qm_database = db\<rparr>))))))))"

text \<open>A comparison with a null column is not true, so a row without \<open>completedAt\<close> stays.\<close>

definition is_old :: "int \<Rightarrow> contract_job \<Rightarrow> bool" where
  "is_old cutoff r \<longleftrightarrow> cj_status r \<in> {JS_COMPLETED, JS_FAILED} \<and>
     (case cj_completedAt r of None \<Rightarrow> False | Some t \<Rightarrow> t < cutoff)"

definition cleanOldJobs :: "'w queue_env \<Rightarrow> int \<Rightarrow> ('w, nat) cqueue" where
  "cleanOldJobs env olderThanDays = prefixed ''Failed to clean jobs: ''
     (ebind (qclock env) (\<lambda>now.
      let cutoff = qe_daysBefore env now olderThanDays; grace = olderThanDays * 24 * 60 * 60 * 1000 in
      ebind (qcall (qe_clean env grace 1000 ''completed'')) (\<lambda>_.
      ebind (qcall (qe_clean env grace 1000 ''failed'')) (\<lambda>_.
      ebind (qcall (qe_db env)) (\<lambda>_.
      ebind (eget (\<lambda>s. length (filter (\<lambda>(_, r). is_old cutoff r) (qs_jobs s)))) (\<lambda>n.
      ebind (emodify (\<lambda>s. s\<lparr>qs_jobs := filter (\<lambda>(_, r). \<not> is_old cutoff r) (qs_jobs s)\<rparr>)) (\<lambda>_.
      ereturn n)))))))"

section \<open>Queue events\<close>

datatype queue_event = EvWaiting | EvActive | EvCompleted json | EvFailed string | EvProgress json

text \<open>
  What a listener writes for its job. It writes nothing for \<open>waiting\<close> and \<open>progress\<close>; the code
  that reads \<open>new Date()\<close> is here the clock when the listener runs.
\<close>

definition event_updates :: "int \<Rightarrow> queue_event \<Rightarrow> job_updates option" where
  "event_updates t ev = (case ev of
     EvActive \<Rightarrow> Some (no_updates\<lparr>ju_status := Some JS_ACTIVE, ju_startedAt := Some t\<rparr>)
   | EvCompleted v \<Rightarrow> Some (no_updates\<lparr>ju_status := Some JS_COMPLETED, ju_result := Some v, ju_completedAt := Some t\<rparr>)
   | EvFailed m \<Rightarrow> Some (no_updates\<lparr>ju_status := Some JS_FAILED, ju_error := Some m, ju_failedAt := Some t\<rparr>)
   | _ \<Rightarrow> None)"

definition on_event :: "'w queue_env \<Rightarrow> string \<Rightarrow> queue_event \<Rightarrow> ('w, unit) cqueue" where
  "on_event env j ev =
     ebind (qclock env) (\<lambda>t. case event_updates t ev of
       None \<Rightarrow> ereturn () | Some u \<Rightarrow> updateJobInDatabase env j u)"

end
