(* ===== verification/Contract_Worker.thy ===== *)
theory Contract_Worker
  imports Contract_Queue
begin

text \<open>
  \<open>backend/src/workers/contract-queue.worker.ts\<close>: the processor of contract jobs. It reports
  progress, waits and submits transactions through libraries that are parameters here; each
  such call acts on a world and may fail. Progress, waits, submissions and dead letters that
  went through are recorded in order. Dates inside results are their milliseconds.
\<close>

section \<open>Results, effects and libraries\<close>

record job_result =
  jr_success :: bool
  jr_data :: "json option"
  jr_error :: "string option"
  jr_errorDetails :: "api_error option"
  jr_transactionId :: "string option"
  jr_timestamp :: int

record submitted =
  su_hash :: string
  su_ledger :: int
  su_envelope_xdr :: string

record dead_letter =
  dl_originalJob :: job_data
  dl_error :: "string option"
  dl_stack :: "string option"
  dl_failedAt :: int
  dl_attemptsMade :: int

datatype worker_effect = Progress jsnum | Waited int | SubmittedXdr string | DeadLettered string dead_letter

record ('w, 't) worker_env =
  we_progress :: "string \<Rightarrow> jsnum \<Rightarrow> 'w \<Rightarrow> (js_error + unit) \<times> 'w"
  we_fromXDR :: "json \<Rightarrow> js_error + 't"
  we_submit :: "'t \<Rightarrow> 'w \<Rightarrow> (js_error + submitted) \<times> 'w"
  we_dlqAdd :: "string \<Rightarrow> dead_letter \<Rightarrow> 'w \<Rightarrow> (js_error + unit) \<times> 'w"
  we_now :: "'w \<Rightarrow> int"
  we_dataError :: "js_error \<Rightarrow> string option"
  we_json :: "js_error \<Rightarrow> string"
  we_stack :: "js_error \<Rightarrow> string option"
  we_pow :: "rat \<Rightarrow> int \<Rightarrow> jsnum"

record 'w worker_state =
  ws_world :: 'w
  ws_trace :: "worker_effect list"

type_synonym ('w, 'a) worker = "('w worker_state, js_error, 'a) eff"

definition wcall :: "('w \<Rightarrow> (js_error + 'a) \<times> 'w) \<Rightarrow> ('w, 'a) worker" where
  "wcall f s = (case f (ws_world s) of (r, w) \<Rightarrow> (r, s\<lparr>ws_world := w\<rparr>))"

definition log_effect :: "worker_effect \<Rightarrow> ('w, unit) worker" where
  "log_effect x = emodify (\<lambda>s. s\<lparr>ws_trace := ws_trace s @ [x]\<rparr>)"

definition wclock :: "('w, 't) worker_env \<Rightarrow> ('w, int) worker" where
  "wclock env = eget (\<lambda>s. we_now env (ws_world s))"

definition updateProgress :: "('w, 't) worker_env \<Rightarrow> queue_job \<Rightarrow> jsnum \<Rightarrow> ('w, unit) worker" where
  "updateProgress env job n = ebind (wcall (we_progress env (qj_id job) n)) (\<lambda>_. log_effect (Progress n))"

definition sleep :: "int \<Rightarrow> ('w, unit) worker" where
  "sleep ms = log_effect (Waited ms)"

section \<open>Failures\<close>

text \<open>
  What the Soroban error service sees of a thrown value; \<open>response.data.error\<close> and the JSON
  text of an error are parameters.
\<close>

definition soroban_input_of :: "('w, 't) worker_env \<Rightarrow> js_error \<Rightarrow> soroban_input" where
  "soroban_input_of env e = (case e of
     Thrown s \<Rightarrow> SText s
   | _ \<Rightarrow> SObj (error_message e) (response_field er_data_extras e) (we_dataError env e)
            (case e of OtherErr _ _ c _ _ _ _ _ \<Rightarrow> c | _ \<Rightarrow> None) (we_json env e))"

definition failed_result :: "('w, 't) worker_env \<Rightarrow> js_error \<Rightarrow> ('w, job_result) worker" where
  "failed_result env e =
     ebind (elift (formatForApi (soroban_input_of env e))) (\<lambda>d.
     ebind (wclock env) (\<lambda>t.
     ereturn \<lparr>jr_success = False, jr_data = None, jr_error = error_message e, jr_errorDetails = d,
       jr_transactionId = None, jr_timestamp = t\<rparr>))"

text \<open>The \<open>catch\<close> of the handlers: a retryable error goes on, another one becomes a result.\<close>

definition handle_failure :: "('w, 't) worker_env \<Rightarrow> js_error \<Rightarrow> ('w, job_result) worker" where
  "handle_failure env e =
     ebind (elift (getErrorDetails (soroban_input_of env e))) (\<lambda>_.
     ebind (elift (isRetryable (soroban_input_of env e))) (\<lambda>r.
     if r = Some True then ethrow e else failed_result env e))"

text \<open>The \<open>catch\<close> of the batch handler, which never rethrows.\<close>

definition handle_batch_failure :: "('w, 't) worker_env \<Rightarrow> js_error \<Rightarrow> ('w, job_result) worker" where
  "handle_batch_failure env e =
     ebind (elift (getErrorDetails (soroban_input_of env e))) (\<lambda>_. failed_result env e)"

section \<open>Handlers\<close>

definition succeeded :: "json \<Rightarrow> string option \<Rightarrow> int \<Rightarrow> job_result" where
  "succeeded d i t = \<lparr>jr_success = True, jr_data = Some d, jr_error = None, jr_errorDetails = None,
     jr_transactionId = i, jr_timestamp = t\<rparr>"

definition text_json :: "string option \<Rightarrow> json" where
  "text_json v = (case v of None \<Rightarrow> JUndef | Some s \<Rightarrow> JStr s)"

definition parameters_json :: "job_data \<Rightarrow> json" where
  "parameters_json d = (case jd_parameters d of None \<Rightarrow> JUndef | Some ps \<Rightarrow> JObj ps)"

text \<open>\<open>(parameters || {})[k]\<close>.\<close>

definition parameter :: "job_data \<Rightarrow> string \<Rightarrow> json" where
  "parameter d k = (case jd_parameters d of None \<Rightarrow> JUndef
     | Some ps \<Rightarrow> (case js_get ps k of None \<Rightarrow> JUndef | Some v \<Rightarrow> v))"

definition processContractCall :: "('w, 't) worker_env \<Rightarrow> queue_job \<Rightarrow> ('w, job_result) worker" where
  "processContractCall env job = (let d = qj_data job in
     ecatch
       (ebind (updateProgress env job (js_int 10)) (\<lambda>_.
        ebind (updateProgress env job (js_int 50)) (\<lambda>_.
        ebind (sleep 2000) (\<lambda>_.
        ebind (updateProgress env job (js_int 90)) (\<lambda>_.
        ebind (wclock env) (\<lambda>t.
        let result = succeeded (JObj [(''contractId'', text_json (jd_contractId d)),
              (''functionName'', text_json (jd_functionName d)), (''parameters'', parameters_json d),
              (''executedAt'', JNum t)]) None t in
        ebind (updateProgress env job (js_int 100)) (\<lambda>_. ereturn result)))))))
       (handle_failure env))"

definition processContractDeploy :: "('w, 't) worker_env \<Rightarrow> queue_job \<Rightarrow> ('w, job_result) worker" where
  "processContractDeploy env job = (let d = qj_data job in
     ecatch
       (ebind (updateProgress env job (js_int 10)) (\<lambda>_.
        ebind (updateProgress env job (js_int 50)) (\<lambda>_.
        ebind (sleep 3000) (\<lambda>_.
        ebind (updateProgress env job (js_int 90)) (\<lambda>_.
        ebind (wclock env) (\<lambda>t.
        let result = succeeded (JObj [(''contractId'', JStr (''CONTRACT_'' @ show_int t)),
              (''deployedAt'', JNum t), (''parameters'', parameters_json d)]) None t in
        ebind (updateProgress env job (js_int 100)) (\<lambda>_. ereturn result)))))))
       (handle_failure env))"

definition processSettlement :: "('w, 't) worker_env \<Rightarrow> queue_job \<Rightarrow> ('w, job_result) worker" where
  "processSettlement env job = (let d = qj_data job in
     ecatch
       (ebind (updateProgress env job (js_int 10)) (\<lambda>_.
        ebind (updateProgress env job (js_int 30)) (\<lambda>_.
        ebind (updateProgress env job (js_int 70)) (\<lambda>_.
        ebind (sleep 1500) (\<lambda>_.
        ebind (updateProgress env job (js_int 95)) (\<lambda>_.
        ebind (wclock env) (\<lambda>t.
        let result = succeeded (JObj [(''contractId'', text_json (jd_contractId d)),
              (''functionName'', text_json (jd_functionName d)), (''parameters'', parameters_json d),
              (''settlementId'', JStr (''SETTLE_'' @ show_int t)), (''executedAt'', JNum t)]) None t in
        ebind (updateProgress env job (js_int 100)) (\<lambda>_. ereturn result))))))))
       (handle_failure env))"

definition submit_xdr :: "('w, 't) worker_env \<Rightarrow> 't \<Rightarrow> ('w, submitted) worker" where
  "submit_xdr env tx = ebind (wcall (we_submit env tx)) (\<lambda>r. ebind (log_effect (SubmittedXdr (su_hash r))) (\<lambda>_. ereturn r))"

definition processTransactionSubmit :: "('w, 't) worker_env \<Rightarrow> queue_job \<Rightarrow> ('w, job_result) worker" where
  "processTransactionSubmit env job = (let envelopeXdr = parameter (qj_data job) ''envelopeXdr'' in
     ecatch
       (ebind (updateProgress env job (js_int 10)) (\<lambda>_.
        ebind (ethrow_if (\<not> json_truthy envelopeXdr) (PlainError ''Missing transaction envelope XDR'')) (\<lambda>_.
        ebind (elift (we_fromXDR env envelopeXdr)) (\<lambda>transaction.
        ebind (updateProgress env job (js_int 30)) (\<lambda>_.
        ebind (submit_xdr env transaction) (\<lambda>response.
        ebind (updateProgress env job (js_int 90)) (\<lambda>_.
        ebind (wclock env) (\<lambda>t.
        let result = succeeded (JObj [(''transactionId'', JStr (su_hash response)),
              (''ledger'', JNum (su_ledger response)), (''envelope'', JStr (su_envelope_xdr response))])
              (Some (su_hash response)) t in
        ebind (updateProgress env job (js_int 100)) (\<lambda>_. ereturn result)))))))))
       (handle_failure env))"

text \<open>\<open>Math.floor(((i + 1) / count) * 100)\<close>.\<close>

definition batch_progress :: "nat \<Rightarrow> nat \<Rightarrow> jsnum" where
  "batch_progress i count = math_floor (js_mul (js_div (js_int (int i + 1)) (js_int (int count))) (js_int 100))"

fun batch_loop :: "('w, 't) worker_env \<Rightarrow> queue_job \<Rightarrow> nat \<Rightarrow> nat \<Rightarrow> json list \<Rightarrow> json list
    \<Rightarrow> ('w, json list) worker" where
  "batch_loop env job count i [] results = ereturn results"
| "batch_loop env job count i (operation # ops) results =
     ebind (sleep 500) (\<lambda>_.
     ebind (updateProgress env job (batch_progress i count)) (\<lambda>_.
     batch_loop env job count (i + 1) ops
       (results @ [JObj [(''index'', JNum (int i)), (''operation'', operation), (''success'', JBool True)]])))"

definition is_successful :: "json \<Rightarrow> bool" where
  "is_successful r = (case r of JObj ps \<Rightarrow> (case js_get ps ''success'' of Some v \<Rightarrow> json_truthy v | None \<Rightarrow> False)
     | _ \<Rightarrow> False)"

definition processBatchOperation :: "('w, 't) worker_env \<Rightarrow> queue_job \<Rightarrow> ('w, job_result) worker" where
  "processBatchOperation env job =
     ecatch
       (case parameter (qj_data job) ''operations'' of
          JArr operations \<Rightarrow>
            ebind (batch_loop env job (length operations) 0 operations []) (\<lambda>results.
            ebind (wclock env) (\<lambda>t.
            ereturn (succeeded (JObj [(''totalOperations'', JNum (int (length operations))),
              (''successfulOperations'', JNum (int (length (filter is_successful results)))),
              (''results'', JArr results)]) None t)))
        | _ \<Rightarrow> ethrow (PlainError ''Invalid batch operations''))
       (handle_batch_failure env)"

definition processJob :: "('w, 't) worker_env \<Rightarrow> queue_job \<Rightarrow> ('w, job_result) worker" where
  "processJob env job = (let t = jd_type (qj_data job) in
     if t = ''CONTRACT_CALL'' then processContractCall env job
     else if t = ''CONTRACT_DEPLOY'' then processContractDeploy env job
     else if t = ''SETTLEMENT'' then processSettlement env job
     else if t = ''TRANSACTION_SUBMIT'' then processTransactionSubmit env job
     else if t = ''BATCH_OPERATION'' then processBatchOperation env job
     else ethrow (PlainError (''Unknown job type: '' @ t)))"

section \<open>Backoff and dead letters\<close>

text \<open>\<open>toLowerCase\<close> on ASCII text.\<close>

definition lower_char :: "char \<Rightarrow> char" where
  "lower_char c = (if (65 :: nat) \<le> of_char c \<and> of_char c \<le> (90 :: nat) then char_of (of_char c + 32 :: nat) else c)"

definition lower_text :: "string \<Rightarrow> string" where
  "lower_text = List.map lower_char"

definition strategy_delay :: "('w, 't) worker_env \<Rightarrow> int \<Rightarrow> retry_strategy \<Rightarrow> jsnum" where
  "strategy_delay env attemptsMade st =
     js_mul (js_int (rst_delay st)) (we_pow env (rst_backoffMultiplier st) (attemptsMade - 1))"

definition getRetryDelay :: "('w, 't) worker_env \<Rightarrow> int \<Rightarrow> js_error \<Rightarrow> jsnum" where
  "getRetryDelay env attemptsMade e =
     (let errorMessage = lower_text (case error_message e of Some m \<Rightarrow> m | None \<Rightarrow> []) in
      case List.find (\<lambda>(errorType, _). js_includes errorMessage (lower_text errorType)) retryStrategies of
        Some (_, st) \<Rightarrow> strategy_delay env attemptsMade st
      | None \<Rightarrow> math_min (js_mul (js_int 1000) (we_pow env 2 (attemptsMade - 1))) (js_int 30000))"

text \<open>The listener of \<open>failed\<close>: an error of the dead letter queue is logged only.\<close>

definition on_failed :: "('w, 't) worker_env \<Rightarrow> queue_job option \<Rightarrow> js_error \<Rightarrow> ('w, unit) worker" where
  "on_failed env job e = (case job of
     None \<Rightarrow> ereturn ()
   | Some j \<Rightarrow>
       if qj_attemptsMade j \<ge> or_number 1 (jo_attempts (qj_opts j))
       then ecatch
              (ebind (wclock env) (\<lambda>t.
               let letter = \<lparr>dl_originalJob = qj_data j, dl_error = error_message e, dl_stack = we_stack env e,
                     dl_failedAt = t, dl_attemptsMade = qj_attemptsMade j\<rparr> in
               ebind (wcall (we_dlqAdd env (qj_name j) letter)) (\<lambda>_. log_effect (DeadLettered (qj_name j) letter))))
              (\<lambda>_. ereturn ())
       else ereturn ())"

end
