(* ===== verification/Dead_Letters.thy ===== *)
theory Dead_Letters
  imports Queue_Config
begin

text \<open>
  The dead letter queue of notifications, in \<open>backend/src/config/queue.ts\<close>: a notification job
  that has used up its attempts becomes a letter; an operator lists the letters and sends one
  back to the notification queue. The two queues are parameters.
\<close>

record notification_job =
  nj_id :: "string option"
  nj_name :: string
  nj_data :: json
  nj_attemptsMade :: int
  nj_opts :: job_options

record notification_letter =
  nl_originalJobId :: "string option"
  nl_name :: string
  nl_data :: json
  nl_failedReason :: string
  nl_attemptsMade :: int
  nl_failedAt :: int

record 'w dlq_env =
  de_add :: "string \<Rightarrow> notification_letter \<Rightarrow> job_options \<Rightarrow> 'w \<Rightarrow> (js_error + string) \<times> 'w"
  de_getJob :: "string \<Rightarrow> 'w \<Rightarrow> (js_error + notification_letter option) \<times> 'w"
  de_getJobs :: "string list \<Rightarrow> int \<Rightarrow> int \<Rightarrow> 'w \<Rightarrow> (js_error + (string \<times> notification_letter) list) \<times> 'w"
  de_remove :: "string \<Rightarrow> 'w \<Rightarrow> (js_error + unit) \<times> 'w"
  de_enqueue :: "string \<Rightarrow> json \<Rightarrow> 'w \<Rightarrow> (js_error + string) \<times> 'w"
  de_now :: "'w \<Rightarrow> int"

type_synonym ('w, 'a) dlq = "('w, js_error, 'a) eff"

definition maxAttempts :: "job_options \<Rightarrow> int" where
  "maxAttempts opts = (case jo_attempts opts of Some n \<Rightarrow> n | None \<Rightarrow> 1)"

definition letter_options :: job_options where
  "letter_options = no_options\<lparr>jo_removeOnComplete := Some (Remove True), jo_removeOnFail := Some (Remove False)\<rparr>"

definition letter_of :: "notification_job \<Rightarrow> string \<Rightarrow> int \<Rightarrow> notification_letter" where
  "letter_of job message t = \<lparr>nl_originalJobId = nj_id job, nl_name = nj_name job, nl_data = nj_data job,
     nl_failedReason = message, nl_attemptsMade = nj_attemptsMade job, nl_failedAt = t\<rparr>"

definition routeFailedNotificationToDlq :: "'w dlq_env \<Rightarrow> notification_job option \<Rightarrow> string \<Rightarrow> ('w, bool) dlq" where
  "routeFailedNotificationToDlq env job message = (case job of
     None \<Rightarrow> ereturn False
   | Some j \<Rightarrow>
       if nj_attemptsMade j < maxAttempts (nj_opts j) then ereturn False
       else ebind (eget (de_now env)) (\<lambda>t.
            ebind (de_add env (nj_name j) (letter_of j message t) letter_options) (\<lambda>_. ereturn True)))"

definition listNotificationDlqJobs :: "'w dlq_env \<Rightarrow> int option \<Rightarrow> int option
    \<Rightarrow> ('w, (string \<times> notification_letter) list) dlq" where
  "listNotificationDlqJobs env start stop =
     de_getJobs env [''waiting'', ''delayed'', ''paused''] (case start of Some n \<Rightarrow> n | None \<Rightarrow> 0)
       (case stop of Some n \<Rightarrow> n | None \<Rightarrow> 49)"

definition retryNotificationDlqJob :: "'w dlq_env \<Rightarrow> string \<Rightarrow> ('w, string option) dlq" where
  "retryNotificationDlqJob env dlqJobId =
     ebind (de_getJob env dlqJobId) (\<lambda>deadLetter. case deadLetter of
       None \<Rightarrow> ereturn None
     | Some l \<Rightarrow>
         ebind (de_enqueue env (nl_name l) (nl_data l)) (\<lambda>retried.
         ebind (de_remove env dlqJobId) (\<lambda>_. ereturn (Some retried))))"

end
