(* ===== verification/Contract_Queue_Props.thy ===== *)
theory Contract_Queue_Props
  imports Contract_Worker Dead_Letters
begin

text \<open>
  Properties of the contract job queue: what the operations and the events of the queue do to
  the table of jobs, in any order; what the worker rethrows and what it reports as completed;
  the dead letters of notifications.
\<close>

section \<open>What one operation does to the table\<close>

datatype queue_op = OpAdd job_data job_options | OpRetry string | OpCancel string | OpClean int
  | OpEvent string queue_event

fun queue_step :: "'w queue_env \<Rightarrow> 'w queue_state \<Rightarrow> queue_op \<Rightarrow> 'w queue_state" where
  "queue_step env s (OpAdd d options) = snd (addJob env d options s)"
| "queue_step env s (OpRetry j) = snd (retryJob env j s)"
| "queue_step env s (OpCancel j) = snd (cancelJob env j s)"
| "queue_step env s (OpClean days) = snd (cleanOldJobs env days s)"
| "queue_step env s (OpEvent j ev) = snd (on_event env j ev s)"

text \<open>A computation that takes a table with \<open>P\<close> to a table with \<open>P\<close>, thrown or returned.\<close>

definition keeps_table :: "((string, contract_job) jsmap \<Rightarrow> bool) \<Rightarrow> ('w, 'a) cqueue \<Rightarrow> bool" where
  "keeps_table P m \<longleftrightarrow> (\<forall>s. P (qs_jobs s) \<longrightarrow> P (qs_jobs (snd (m s))))"

named_theorems table_rules \<open>what keeps the table\<close>

lemma keeps_tableD: "keeps_table P m \<Longrightarrow> P (qs_jobs s) \<Longrightarrow> P (qs_jobs (snd (m s)))"
  by (simp add: keeps_table_def)

lemma keeps_table_simple [table_rules]:
  "keeps_table P (ereturn x)" "keeps_table P (ethrow e)" "keeps_table P (eget g)" "keeps_table P (qclock env)"
  by (simp_all add: keeps_table_def eff_defs qclock_def)

lemma keeps_table_qcall [table_rules]: "keeps_table P (qcall f)"
  by (simp add: keeps_table_def qcall_def split: prod.split)

lemma keeps_table_ebind [table_rules]:
  "keeps_table P m \<Longrightarrow> (\<And>x. keeps_table P (f x)) \<Longrightarrow> keeps_table P (ebind m f)"
  unfolding keeps_table_def ebind_def by (auto split: prod.split sum.split)

lemma keeps_table_ecatch [table_rules]:
  "keeps_table P m \<Longrightarrow> (\<And>e. keeps_table P (h e)) \<Longrightarrow> keeps_table P (ecatch m h)"
  unfolding keeps_table_def ecatch_def by (auto split: prod.split sum.split)

lemma keeps_table_modify [table_rules]:
  "(\<And>m. P m \<Longrightarrow> P (g m)) \<Longrightarrow> keeps_table P (emodify (\<lambda>s. s\<lparr>qs_jobs := g (qs_jobs s)\<rparr>))"
  by (simp add: keeps_table_def emodify_def)

lemma keeps_table_option [table_rules]:
  "keeps_table P m \<Longrightarrow> (\<And>x. keeps_table P (g x)) \<Longrightarrow> keeps_table P (case v of None \<Rightarrow> m | Some x \<Rightarrow> g x)"
  by (cases v) simp_all

lemma keeps_table_prefixed [table_rules]: "keeps_table P m \<Longrightarrow> keeps_table P (prefixed p m)"
  unfolding prefixed_def by (intro table_rules)

lemma keeps_table_update:
  "(\<And>t m. P m \<Longrightarrow> P (map_jobs (\<lambda>r. cj_jobId r = j) (\<lambda>r. (f t r)\<lparr>cj_updatedAt := t\<rparr>) m))
     \<Longrightarrow> keeps_table P (update_job env j f)"
  unfolding update_job_def by (intro table_rules) blast

text \<open>The row is created only when neither its identifier nor its job is in the table.\<close>

lemma keeps_table_create:
  assumes "\<And>m i t. P m \<Longrightarrow> js_get m i = None \<Longrightarrow> \<not> has_job j m
      \<Longrightarrow> P (js_set i (new_row j d (job_options_of d options) t) m)"
  shows "keeps_table P (create_row env d options j)"
  unfolding keeps_table_def create_row_def qcall_def qclock_def eff_defs
  using assms by (auto split: prod.split sum.split)

text \<open>
  An invariant of the table is kept by every operation when it is kept by a new row, by the
  changes of a row and by the removal of old rows.
\<close>

definition row_changes :: "string \<Rightarrow> queue_op \<Rightarrow> (contract_job \<Rightarrow> contract_job) set" where
  "row_changes j op = (case op of
     OpRetry k \<Rightarrow> if k = j then {f. \<exists>t. f = (\<lambda>r. (mark_retrying t r)\<lparr>cj_updatedAt := t\<rparr>)} else {}
   | OpCancel k \<Rightarrow> if k = j then {f. \<exists>t. f = (\<lambda>r. (mark_cancelled t r)\<lparr>cj_updatedAt := t\<rparr>)} else {}
   | OpEvent k ev \<Rightarrow> if k = j then {f. \<exists>t t' u. event_updates t ev = Some u \<and> f = (\<lambda>r. (apply_updates u r)\<lparr>cj_updatedAt := t'\<rparr>)}
       else {}
   | _ \<Rightarrow> {})"

lemma queue_step_keeps:
  assumes P: "P (qs_jobs s)"
    and add: "\<And>m i j d options t. op = OpAdd d options \<Longrightarrow> P m \<Longrightarrow> js_get m i = None \<Longrightarrow> \<not> has_job j m
      \<Longrightarrow> P (js_set i (new_row j d (job_options_of d options) t) m)"
    and change: "\<And>m j f. f \<in> row_changes j op \<Longrightarrow> P m \<Longrightarrow> P (map_jobs (\<lambda>r. cj_jobId r = j) f m)"
    and clean: "\<And>m days cutoff. op = OpClean days \<Longrightarrow> P m \<Longrightarrow> P (filter (\<lambda>(_, r). \<not> is_old cutoff r) m)"
  shows "P (qs_jobs (queue_step env s op))"
proof (cases op)
  case (OpAdd d options)
  have "keeps_table P (addJob env d options)"
    unfolding addJob_def enqueue_def by (intro table_rules keeps_table_create add [OF OpAdd])
  then show ?thesis using P OpAdd by (simp add: keeps_tableD)
next
  case (OpRetry j)
  have "keeps_table P (update_job env j mark_retrying)"
    by (intro keeps_table_update change) (auto simp: row_changes_def OpRetry)
  then have "keeps_table P (retryJob env j)" unfolding retryJob_def by (intro table_rules)
  then show ?thesis using P OpRetry by (simp add: keeps_tableD)
next
  case (OpCancel j)
  have "keeps_table P (update_job env j mark_cancelled)"
    by (intro keeps_table_update change) (auto simp: row_changes_def OpCancel)
  then have "keeps_table P (cancelJob env j)" unfolding cancelJob_def by (intro table_rules)
  then show ?thesis using P OpCancel by (simp add: keeps_tableD)
next
  case (OpClean days)
  have "keeps_table P (cleanOldJobs env days)"
    unfolding cleanOldJobs_def Let_def by (intro table_rules clean [OF OpClean])
  then show ?thesis using P OpClean by (simp add: keeps_tableD)
next
  case (OpEvent j ev)
  have upd: "event_updates t ev = Some u \<Longrightarrow> keeps_table P (updateJobInDatabase env j u)" for t u
    unfolding updateJobInDatabase_def
    by (intro table_rules keeps_table_update change) (auto simp: row_changes_def OpEvent)
  have "keeps_table P (on_event env j ev)"
    unfolding on_event_def
  proof (rule keeps_table_ebind)
    show "\<And>t. keeps_table P (case event_updates t ev of None \<Rightarrow> ereturn () | Some u \<Rightarrow> updateJobInDatabase env j u)"
      by (auto split: option.split intro: upd table_rules)
  qed (rule table_rules)
  then show ?thesis using P OpEvent by (simp add: keeps_tableD)
qed

section \<open>The table in any order of operations\<close>

text \<open>
  Identifiers and jobs are unique, and the times of a row agree with its status: completed
  rows have \<open>completedAt\<close>, failed and cancelled ones \<open>failedAt\<close>, active ones \<open>startedAt\<close>.
\<close>

definition row_ok :: "contract_job \<Rightarrow> bool" where
  "row_ok r \<longleftrightarrow> (cj_status r = JS_COMPLETED \<longrightarrow> cj_completedAt r \<noteq> None \<and> cj_result r \<noteq> None)
     \<and> (cj_status r = JS_FAILED \<longrightarrow> cj_failedAt r \<noteq> None \<and> cj_error r \<noteq> None)
     \<and> (cj_status r = JS_ACTIVE \<longrightarrow> cj_startedAt r \<noteq> None)
     \<and> 0 \<le> cj_attempts r"

definition table_ok :: "(string, contract_job) jsmap \<Rightarrow> bool" where
  "table_ok m \<longleftrightarrow> js_wf m \<and> distinct (List.map (\<lambda>(_, r). cj_jobId r) m) \<and> (\<forall>(_, r) \<in> set m. row_ok r)"

lemmas row_change_defs = row_changes_def mark_retrying_def mark_cancelled_def apply_updates_def
  event_updates_def no_updates_def given_def nullish_def

lemma row_changes_cases:
  assumes "f \<in> row_changes j op"
  obtains (retry) t where "op = OpRetry j" "f = (\<lambda>r. (mark_retrying t r)\<lparr>cj_updatedAt := t\<rparr>)"
    | (cancel) t where "op = OpCancel j" "f = (\<lambda>r. (mark_cancelled t r)\<lparr>cj_updatedAt := t\<rparr>)"
    | (event) t t' u ev where "op = OpEvent j ev" "event_updates t ev = Some u"
        "f = (\<lambda>r. (apply_updates u r)\<lparr>cj_updatedAt := t'\<rparr>)"
  using assms by (auto simp: row_changes_def split: queue_op.splits if_splits)

lemma event_updates_ok:
  "event_updates t ev = Some u \<Longrightarrow> row_ok r \<Longrightarrow> row_ok (apply_updates u r)"
  by (cases ev) (auto simp: row_change_defs row_ok_def)

lemma row_changes_jobId: "f \<in> row_changes j op \<Longrightarrow> cj_jobId (f r) = cj_jobId r"
  by (erule row_changes_cases) (simp_all add: mark_retrying_def mark_cancelled_def apply_updates_def)

lemma row_ok_updatedAt [simp]: "row_ok (r\<lparr>cj_updatedAt := t\<rparr>) = row_ok r"
  by (simp add: row_ok_def)

lemma row_changes_ok: "f \<in> row_changes j op \<Longrightarrow> row_ok r \<Longrightarrow> row_ok (f r)"
proof (erule row_changes_cases)
  fix t t' u ev
  assume "row_ok r" "event_updates t ev = Some u" "f = (\<lambda>r. (apply_updates u r)\<lparr>cj_updatedAt := t'\<rparr>)"
  then show "row_ok (f r)" by (simp add: event_updates_ok)
qed (auto simp: mark_retrying_def mark_cancelled_def row_ok_def)

lemma new_row_ok: "row_ok (new_row j d options t)"
  by (simp add: row_ok_def new_row_def)

lemma has_job_mem: "has_job j m \<longleftrightarrow> j \<in> set (List.map (\<lambda>(_, r). cj_jobId r) m)"
  by (induction m) (auto simp: has_job_def)

lemma map_jobs_keys: "js_keys (map_jobs P f m) = js_keys m"
  by (induction m) (auto simp: map_jobs_def)

lemma map_jobs_jobIds:
  "(\<And>r. cj_jobId (f r) = cj_jobId r)
     \<Longrightarrow> List.map (\<lambda>(_, r). cj_jobId r) (map_jobs P f m) = List.map (\<lambda>(_, r). cj_jobId r) m"
  by (induction m) (auto simp: map_jobs_def)

lemma js_get_map_jobs: "js_get (map_jobs P f m) i = map_option (\<lambda>r. if P r then f r else r) (js_get m i)"
  by (induction m) (auto simp: map_jobs_def)

lemma distinct_map_filter: "distinct (List.map f xs) \<Longrightarrow> distinct (List.map f (filter P xs))"
  by (induction xs) auto

lemma table_ok_step: "table_ok (qs_jobs s) \<Longrightarrow> table_ok (qs_jobs (queue_step env s op))"
proof (erule queue_step_keeps)
  fix m i j d options t
  assume m: "table_ok m" "js_get m i = None" "\<not> has_job j m"
  have "js_set i (new_row j d (job_options_of d options) t) m = m @ [(i, new_row j d (job_options_of d options) t)]"
    using m(2) by (rule js_keys_set_new)
  moreover have "js_wf (js_set i (new_row j d (job_options_of d options) t) m)" using m(1) by (simp add: table_ok_def)
  ultimately show "table_ok (js_set i (new_row j d (job_options_of d options) t) m)"
    using m(1,3) new_row_ok by (auto simp: table_ok_def has_job_mem new_row_def)
next
  fix m j f assume f: "f \<in> row_changes j op" and m: "table_ok m"
  have "\<forall>(_, r) \<in> set (map_jobs (\<lambda>r. cj_jobId r = j) f m). row_ok r"
    using m row_changes_ok [OF f] by (auto simp: table_ok_def map_jobs_def)
  then show "table_ok (map_jobs (\<lambda>r. cj_jobId r = j) f m)"
    using m row_changes_jobId [OF f] by (simp add: table_ok_def js_wf_def map_jobs_keys map_jobs_jobIds)
next
  fix m :: "(string, contract_job) jsmap" and cutoff assume "table_ok m"
  then show "table_ok (filter (\<lambda>(_, r). \<not> is_old cutoff r) m)"
    by (auto simp: table_ok_def js_wf_def distinct_map_filter)
qed

interpretation cq: call_machine "queue_step env" "\<lambda>s. table_ok (qs_jobs s)"
  by unfold_locales (rule table_ok_step)

text \<open>In whatever order jobs are added, retried, cancelled and cleaned and the events of the
  queue arrive, and whatever calls of the queue or the database fail in between, the table
  keeps its rows unique by identifier and by job, and each row's times and outcome agree with
  its status.
\<close>
theorem queue_table_consistent:
  assumes "table_ok (qs_jobs s)"
  shows "table_ok (qs_jobs (foldl (queue_step env) s ops))"
  by (rule cq.run_inv [OF assms])

text \<open>A queue and a database that never fail; the world counts the calls.\<close>

definition demo_queue :: "nat queue_env" where
  "demo_queue = \<lparr>qe_add = (\<lambda>_ _ _ w. (Inr (show_nat w), w + 1)), qe_getJob = (\<lambda>_ w. (Inr None, w + 1)),
     qe_getState = (\<lambda>_ w. (Inr ''completed'', w + 1)), qe_retry = (\<lambda>_ w. (Inr (), w + 1)),
     qe_remove = (\<lambda>_ w. (Inr (), w + 1)), qe_count = (\<lambda>_ w. (Inr 0, w + 1)),
     qe_clean = (\<lambda>_ _ _ w. (Inr (), w + 1)), qe_db = (\<lambda>w. (Inr (), w + 1)),
     qe_uuid = (\<lambda>w. ''row-'' @ show_nat w), qe_now = (\<lambda>w. int w),
     qe_daysBefore = (\<lambda>now days. now - days * 86400000)\<rparr>"

definition demo_queue_state :: "nat queue_state" where
  "demo_queue_state = \<lparr>qs_jobs = [], qs_world = 0\<rparr>"

definition demo_job :: job_data where
  "demo_job = \<lparr>jd_type = ''CONTRACT_DEPLOY'', jd_contractId = None, jd_functionName = None, jd_parameters = None,
     jd_createdBy = Some ''GA'', jd_metadata = None, jd_priority = None\<rparr>"

theorem queue_table_consistent_witness:
  "table_ok (qs_jobs (foldl (queue_step demo_queue) demo_queue_state
     [OpAdd demo_job no_options, OpEvent ''0'' EvActive, OpEvent ''0'' (EvCompleted JNull), OpCancel ''0'']))
   \<and> List.map (\<lambda>(_, r). cj_status r) (qs_jobs (foldl (queue_step demo_queue) demo_queue_state
     [OpAdd demo_job no_options, OpEvent ''0'' EvActive, OpEvent ''0'' (EvCompleted JNull), OpCancel ''0''])) = [JS_FAILED]"
proof
  show "table_ok (qs_jobs (foldl (queue_step demo_queue) demo_queue_state
     [OpAdd demo_job no_options, OpEvent ''0'' EvActive, OpEvent ''0'' (EvCompleted JNull), OpCancel ''0'']))"
    by (rule queue_table_consistent) (simp add: demo_queue_state_def table_ok_def)
  show "List.map (\<lambda>(_, r). cj_status r) (qs_jobs (foldl (queue_step demo_queue) demo_queue_state
     [OpAdd demo_job no_options, OpEvent ''0'' EvActive, OpEvent ''0'' (EvCompleted JNull), OpCancel ''0''])) = [JS_FAILED]"
    by code_simp
qed

section \<open>Rows that no cleaning removes\<close>

definition waits_at :: "string \<Rightarrow> string \<Rightarrow> (string, contract_job) jsmap \<Rightarrow> bool" where
  "waits_at i j m \<longleftrightarrow> js_wf m \<and> (\<exists>r. js_get m i = Some r \<and> cj_jobId r = j \<and> cj_completedAt r = None)"

lemma js_get_filter:
  "js_wf m \<Longrightarrow> js_get m i = Some r \<Longrightarrow> P r \<Longrightarrow> js_get (filter (\<lambda>(_, r). P r) m) i = Some r"
  by (induction m) (auto simp: js_wf_def split: if_splits)

lemma row_changes_completedAt:
  assumes "f \<in> row_changes j op" "\<forall>v. op \<noteq> OpEvent j (EvCompleted v)"
  shows "cj_completedAt (f r) = cj_completedAt r"
  using assms(1)
proof (cases rule: row_changes_cases)
  case (event t t' u ev)
  then show ?thesis using assms(2) by (cases ev) (auto simp: row_change_defs)
qed (simp_all add: mark_retrying_def mark_cancelled_def)

lemma waits_at_step:
  assumes "waits_at i j (qs_jobs s)" "\<forall>v. op \<noteq> OpEvent j (EvCompleted v)"
  shows "waits_at i j (qs_jobs (queue_step env s op))"
proof (rule queue_step_keeps [where P = "waits_at i j", OF assms(1)])
  fix m i' j' d options t assume "waits_at i j m" "js_get m i' = None"
  then show "waits_at i j (js_set i' (new_row j' d (job_options_of d options) t) m)"
    by (auto simp: waits_at_def)
next
  fix m j' f assume f: "f \<in> row_changes j' op" and "waits_at i j m"
  then obtain r where r: "js_wf m" "js_get m i = Some r" "cj_jobId r = j" "cj_completedAt r = None"
    by (auto simp: waits_at_def)
  moreover have "j' = j \<Longrightarrow> cj_completedAt (f r) = None"
    using row_changes_completedAt [OF f] assms(2) r(4) by simp
  ultimately show "waits_at i j (map_jobs (\<lambda>r. cj_jobId r = j') f m)"
    using row_changes_jobId [OF f] by (simp add: waits_at_def js_wf_def map_jobs_keys js_get_map_jobs)
next
  fix m cutoff assume "waits_at i j m"
  then obtain r where r: "js_wf m" "js_get m i = Some r" "cj_jobId r = j" "cj_completedAt r = None"
    by (auto simp: waits_at_def)
  then have "js_get (filter (\<lambda>(_, r). \<not> is_old cutoff r) m) i = Some r"
    by (intro js_get_filter) (auto simp: is_old_def)
  then show "waits_at i j (filter (\<lambda>(_, r). \<not> is_old cutoff r) m)"
    using r by (auto simp: waits_at_def js_wf_def distinct_map_filter)
qed

text \<open>A row is removed by cleaning only after its job completed: as long as no \<open>completed\<close> event
  of its job arrives, whatever else is done, the row stays, failed and cancelled jobs of any
  age included, although \<open>cleanOldJobs\<close> names the status \<open>FAILED\<close>.
\<close>
theorem uncompleted_job_never_cleaned:
  assumes "js_wf (qs_jobs s)" "js_get (qs_jobs s) i = Some r" "cj_completedAt r = None"
    and "\<forall>v. OpEvent (cj_jobId r) (EvCompleted v) \<notin> set ops"
  shows "\<exists>r'. js_get (qs_jobs (foldl (queue_step env) s ops)) i = Some r'
    \<and> cj_jobId r' = cj_jobId r \<and> cj_completedAt r' = None"
proof -
  have "waits_at i (cj_jobId r) (qs_jobs (foldl (queue_step env) s ops))"
    if "waits_at i (cj_jobId r) (qs_jobs s)" "\<forall>v. OpEvent (cj_jobId r) (EvCompleted v) \<notin> set ops" for s
    using that
  proof (induction ops arbitrary: s)
    case (Cons op ops)
    then show ?case using waits_at_step [of i "cj_jobId r" s op env] by auto
  qed simp
  then show ?thesis using assms by (auto simp: waits_at_def)
qed

definition demo_row :: contract_job where
  "demo_row = new_row ''7'' demo_job no_options 0"

theorem uncompleted_job_never_cleaned_witness:
  "\<exists>r'. js_get (qs_jobs (foldl (queue_step demo_queue) \<lparr>qs_jobs = [(''a'', demo_row)], qs_world = 0\<rparr>
      [OpEvent ''7'' (EvFailed ''txFAILED''), OpCancel ''7'', OpClean 0])) ''a'' = Some r'
    \<and> cj_jobId r' = ''7'' \<and> cj_completedAt r' = None"
  using uncompleted_job_never_cleaned [where s = "\<lparr>qs_jobs = [(''a'', demo_row)], qs_world = 0\<rparr>" and i = "''a''"
      and r = demo_row and env = demo_queue and ops = "[OpEvent ''7'' (EvFailed ''txFAILED''), OpCancel ''7'', OpClean 0]"]
  by (simp add: demo_row_def new_row_def js_wf_def)

section \<open>Events that come before the row\<close>

lemma map_jobs_absent: "\<not> has_job j m \<Longrightarrow> map_jobs (\<lambda>r. cj_jobId r = j) f m = m"
  by (induction m) (auto simp: map_jobs_def has_job_def)

lemma event_without_row:
  assumes "\<not> has_job j (qs_jobs s)"
  shows "qs_jobs (queue_step env s (OpEvent j ev)) = qs_jobs s"
  by (rule queue_step_keeps [where P = "\<lambda>m. m = qs_jobs s"])
    (use assms in \<open>auto simp: map_jobs_absent row_changes_def split: if_splits\<close>)

lemma create_row_result:
  "create_row env d options j s = (Inr i, s')
     \<Longrightarrow> \<exists>t. qs_jobs s' = js_set i (new_row j d (job_options_of d options) t) (qs_jobs s)"
  by (auto simp: create_row_def qcall_def qclock_def eff_defs split: prod.splits sum.splits if_splits)

text \<open>The events of a job that arrive before \<open>addJob\<close> has written its row are lost: whatever
  they were, the row is then created \<open>PENDING\<close>, without a start, an end or a result, and the
  table is otherwise as it was.
\<close>
theorem early_events_lost:
  assumes "\<not> has_job j (qs_jobs s)"
    and "create_row env d options j (foldl (queue_step env) s (List.map (OpEvent j) evs)) = (Inr i, s')"
  shows "\<exists>r. qs_jobs s' = js_set i r (qs_jobs s) \<and> cj_jobId r = j \<and> cj_status r = JS_PENDING
    \<and> cj_startedAt r = None \<and> cj_completedAt r = None \<and> cj_failedAt r = None \<and> cj_result r = None"
proof -
  have "qs_jobs (foldl (queue_step env) s (List.map (OpEvent j) evs)) = qs_jobs s"
    using assms(1) by (induction evs arbitrary: s) (simp_all add: event_without_row del: queue_step.simps)
  with create_row_result [OF assms(2)] show ?thesis by (auto simp: new_row_def)
qed

theorem early_events_lost_witness:
  "\<exists>s' r. create_row demo_queue demo_job no_options ''0''
      (foldl (queue_step demo_queue) demo_queue_state (List.map (OpEvent ''0'') [EvActive, EvCompleted JNull]))
        = (Inr ''row-3'', s')
    \<and> js_get (qs_jobs s') ''row-3'' = Some r \<and> cj_status r = JS_PENDING"
proof -
  let ?s = "foldl (queue_step demo_queue) demo_queue_state (List.map (OpEvent ''0'') [EvActive, EvCompleted JNull])"
  obtain s' where s': "create_row demo_queue demo_job no_options ''0'' ?s = (Inr ''row-3'', s')"
  proof -
    have "fst (create_row demo_queue demo_job no_options ''0'' ?s) = Inr ''row-3''" by code_simp
    then show ?thesis using that by (metis prod.collapse)
  qed
  have "\<exists>r. qs_jobs s' = js_set ''row-3'' r (qs_jobs demo_queue_state) \<and> cj_jobId r = ''0'' \<and> cj_status r = JS_PENDING
    \<and> cj_startedAt r = None \<and> cj_completedAt r = None \<and> cj_failedAt r = None \<and> cj_result r = None"
    by (rule early_events_lost [OF _ s']) (simp add: demo_queue_state_def has_job_def)
  then show ?thesis using s' by force
qed

section \<open>Priorities\<close>

lemma default_priority:
  "t \<noteq> ''SETTLEMENT'' \<Longrightarrow> jo_priority (type_config jobTypeConfigs t) \<in> {None, Some P_LOW, Some P_NORMAL, Some P_HIGH}"
  by (simp add: type_config_def jobTypeConfigs_def job_config_def no_options_def)

lemma settlement_priority:
  "jo_priority (job_options_of (settlement_data c f ps u) options) = Some P_URGENT"
  by (simp add: job_options_of_def settlement_data_def or_num_def truthy_num_def Let_def P_URGENT_def js_int_def)

lemma other_priority:
  assumes "jd_type d \<noteq> ''SETTLEMENT''" "jd_priority d \<in> {None, Some P_LOW, Some P_NORMAL, Some P_HIGH}"
  shows "\<exists>p. jo_priority (job_options_of d options) = Some p \<and> js_less p P_URGENT"
  using default_priority [OF assms(1)] assms(2)
  by (auto simp: job_options_of_def or_num_def truthy_num_def Let_def priority_defs js_int_def)

text \<open>With the order BullMQ documents, in which the job of the smaller priority number is taken
  first, a settlement job, the most urgent one, is taken after every waiting job of another
  type whose priority was left to its default or given as \<open>LOW\<close>, \<open>NORMAL\<close> or \<open>HIGH\<close>.
\<close>
theorem settlement_taken_last:
  assumes order: "\<forall>p q. taken_before p q \<longleftrightarrow> js_less p q"
    and other: "jd_type d \<noteq> ''SETTLEMENT''" "jd_priority d \<in> {None, Some P_LOW, Some P_NORMAL, Some P_HIGH}"
  shows "\<exists>p q. jo_priority (job_options_of d options) = Some p
    \<and> jo_priority (job_options_of (settlement_data c f ps u) (no_options\<lparr>jo_priority := Some P_URGENT\<rparr>)) = Some q
    \<and> mapPriorityToEnum q = PR_URGENT \<and> taken_before p q \<and> \<not> taken_before q p"
proof -
  obtain p where p: "jo_priority (job_options_of d options) = Some p" "js_less p P_URGENT"
    using other_priority [OF other] by blast
  have "\<not> js_less P_URGENT p"
    using p(2) js_less_trans [of P_URGENT p P_URGENT] by auto
  then show ?thesis using p order
    by (simp add: settlement_priority) (simp add: mapPriorityToEnum_def P_URGENT_def js_int_def)
qed

theorem settlement_taken_last_witness:
  "\<exists>p q. jo_priority (job_options_of (demo_job\<lparr>jd_type := ''NOTIFICATION''\<rparr>) no_options) = Some p
    \<and> jo_priority (job_options_of (settlement_data ''C'' ''settle'' [] None) (no_options\<lparr>jo_priority := Some P_URGENT\<rparr>)) = Some q
    \<and> mapPriorityToEnum q = PR_URGENT \<and> js_less p q \<and> \<not> js_less q p"
  by (rule settlement_taken_last) (simp_all add: demo_job_def)

section \<open>What the worker rethrows\<close>

lemma elift_cases: "elift r s = (x, s') \<longleftrightarrow> r = x \<and> s' = s"
  by (auto simp: elift_def)

text \<open>What a handler may throw: a retryable error, or what the classification itself throws.\<close>

definition goes_on :: "('w, 't) worker_env \<Rightarrow> js_error \<Rightarrow> bool" where
  "goes_on env e \<longleftrightarrow> isRetryable (soroban_input_of env e) = Inr (Some True)
     \<or> (\<exists>e'. parseError (soroban_input_of env e') = Inl e)"

lemma classified:
  "getErrorDetails i = Inl x \<Longrightarrow> parseError i = Inl x"
  "isRetryable i = Inl x \<Longrightarrow> parseError i = Inl x"
  "formatForApi i = Inl x \<Longrightarrow> parseError i = Inl x"
  by (auto simp: getErrorDetails_def isRetryable_def formatForApi_def map_details_def
      split: sum.splits parsed_error.splits)

lemma handle_failure_throws:
  "handle_failure env e s = (Inl x, s') \<Longrightarrow> goes_on env x"
  unfolding handle_failure_def failed_result_def goes_on_def
  by (auto simp: ebind_def elift_def ethrow_def ereturn_def wclock_def eget_def
      split: sum.splits prod.splits if_splits dest: classified)

lemma handle_batch_failure_throws:
  "handle_batch_failure env e s = (Inl x, s') \<Longrightarrow> goes_on env x"
  unfolding handle_batch_failure_def failed_result_def goes_on_def
  by (auto simp: ebind_def elift_def ereturn_def wclock_def eget_def
      split: sum.splits prod.splits dest: classified)

lemma ecatch_throws:
  "ecatch m h s = (Inl x, s') \<Longrightarrow> \<exists>e t. h e t = (Inl x, s')"
  by (auto simp: ecatch_def split: prod.splits sum.splits)

text \<open>The worker throws, and BullMQ tries again, only for an error that the Soroban error service
  calls retryable, for an unknown job type, or when the classification of the error throws;
  every other failure of a handler comes back as a result.
\<close>
theorem only_retryable_rethrown:
  assumes "processJob env job s = (Inl e, s')"
  shows "goes_on env e \<or> e = PlainError (''Unknown job type: '' @ jd_type (qj_data job))
    \<and> jd_type (qj_data job) \<notin> {''CONTRACT_CALL'', ''CONTRACT_DEPLOY'', ''SETTLEMENT'', ''TRANSACTION_SUBMIT'', ''BATCH_OPERATION''}"
  using assms unfolding processJob_def Let_def
  by (auto simp: processContractCall_def processContractDeploy_def processSettlement_def
      processTransactionSubmit_def processBatchOperation_def Let_def ethrow_def split: if_splits
      dest!: ecatch_throws dest: handle_failure_throws handle_batch_failure_throws)

text \<open>A worker whose submissions Horizon refuses.\<close>

definition refused :: "string \<Rightarrow> js_error" where
  "refused ds = OtherErr ''AxiosError'' (''Request failed with status code '' @ ds) (Some ''ERR_BAD_REQUEST'') None None None None
     (Some \<lparr>er_status = Some 400, er_extras = None, er_data_status = Some 400,
        er_data_extras = Some \<lparr>rc_transaction = Some ''tx_too_late'', rc_operations = None\<rparr>\<rparr>)"

definition demo_worker :: "(nat, unit) worker_env" where
  "demo_worker = \<lparr>we_progress = (\<lambda>_ _ w. (Inr (), w + 1)), we_fromXDR = (\<lambda>_. Inr ()),
     we_submit = (\<lambda>_ w. (Inl (refused ''400''), w + 1)), we_dlqAdd = (\<lambda>_ _ w. (Inr (), w + 1)),
     we_now = (\<lambda>w. int w), we_dataError = (\<lambda>_. None), we_json = (\<lambda>_. ''{}''), we_stack = (\<lambda>_. None),
     we_pow = (\<lambda>x n. round64 (x ^ nat n))\<rparr>"

definition demo_queue_job :: "string \<Rightarrow> queue_job" where
  "demo_queue_job t = \<lparr>qj_id = ''0'', qj_name = t,
     qj_data = demo_job\<lparr>jd_type := t, jd_parameters := Some [(''envelopeXdr'', JStr ''AAAA'')]\<rparr>,
     qj_progress = JNum 0, qj_attemptsMade = 1, qj_opts = type_config jobTypeConfigs t, qj_timestamp = 0,
     qj_processedOn = None, qj_finishedOn = None, qj_returnvalue = JNull, qj_failedReason = None\<rparr>"

theorem only_retryable_rethrown_witness:
  "goes_on demo_worker (PlainError ''Unknown job type: MINT'')
   \<or> PlainError ''Unknown job type: MINT'' = PlainError (''Unknown job type: '' @ ''MINT'')
     \<and> ''MINT'' \<notin> {''CONTRACT_CALL'', ''CONTRACT_DEPLOY'', ''SETTLEMENT'', ''TRANSACTION_SUBMIT'', ''BATCH_OPERATION''}"
  using only_retryable_rethrown [of demo_worker "demo_queue_job ''MINT''" "\<lparr>ws_world = 0, ws_trace = []\<rparr>"
      "PlainError ''Unknown job type: MINT''" "\<lparr>ws_world = 0, ws_trace = []\<rparr>"]
  by (simp add: processJob_def demo_queue_job_def ethrow_def)

text \<open>A transaction that Horizon refuses is reported as done: the HTTP client's message hides the
  result codes, so the error counts as not retryable, and the worker returns a result instead
  of throwing; BullMQ takes a returned result for completion, whatever its \<open>success\<close> says.
\<close>
theorem refused_submission_returns:
  assumes type: "jd_type (qj_data job) = ''TRANSACTION_SUBMIT''"
    and envelope: "json_truthy (parameter (qj_data job) ''envelopeXdr'')"
      "we_fromXDR env (parameter (qj_data job) ''envelopeXdr'') = Inr tx"
    and progress: "\<forall>j n w. \<exists>w'. we_progress env j n w = (Inr (), w')"
    and refused: "\<forall>w. \<exists>w'. we_submit env tx w = (Inl e, w')"
    and client: "error_message e = Some (''Request failed with status code '' @ ds)" "set ds \<subseteq> set ''0123456789''"
  shows "\<exists>r s'. processJob env job s = (Inr r, s') \<and> \<not> jr_success r
    \<and> jr_error r = error_message e \<and> map_option ae_retryable (jr_errorDetails r) = Some False
    \<and> (\<forall>t u row. event_updates t (EvCompleted JNull) = Some u \<longrightarrow> cj_status (apply_updates u row) = JS_COMPLETED)"
proof -
  obtain w1 where w1: "we_progress env (qj_id job) (js_int 10) (ws_world s) = (Inr (), w1)" using progress by blast
  obtain w2 where w2: "we_progress env (qj_id job) (js_int 30) w1 = (Inr (), w2)" using progress by blast
  obtain w3 where w3: "we_submit env tx w2 = (Inl e, w3)" using refused by blast
  obtain codes d c j where i: "soroban_input_of env e = SObj (Some (''Request failed with status code '' @ ds)) codes d c j"
    using client(1) by (cases e) (auto simp: soroban_input_of_def error_message_def)
  note parsed = refused_parse [OF client(2), of codes d c j]
  have failure: "\<exists>r s'. handle_failure env e s = (Inr r, s') \<and> \<not> jr_success r
      \<and> jr_error r = error_message e \<and> map_option ae_retryable (jr_errorDetails r) = Some False" for s
    unfolding handle_failure_def failed_result_def i getErrorDetails_def isRetryable_def formatForApi_def
      map_details_def parsed
    by (simp add: eff_defs wclock_def details_def)
  have "processJob env job s = handle_failure env e
      (s\<lparr>ws_trace := ws_trace s @ [Progress (js_int 10), Progress (js_int 30)], ws_world := w3\<rparr>)"
    using type envelope w1 w2 w3
    by (simp add: processJob_def processTransactionSubmit_def Let_def eff_defs wcall_def updateProgress_def
        log_effect_def submit_xdr_def)
  then show ?thesis
    using failure by (auto simp: row_change_defs)
qed

theorem refused_submission_returns_witness:
  "\<exists>r s'. processJob demo_worker (demo_queue_job ''TRANSACTION_SUBMIT'') \<lparr>ws_world = 0, ws_trace = []\<rparr> = (Inr r, s')
    \<and> \<not> jr_success r \<and> jr_error r = error_message (refused ''400'')"
proof -
  have "\<exists>r s'. processJob demo_worker (demo_queue_job ''TRANSACTION_SUBMIT'') \<lparr>ws_world = 0, ws_trace = []\<rparr> = (Inr r, s')
    \<and> \<not> jr_success r \<and> jr_error r = error_message (refused ''400'')
    \<and> map_option ae_retryable (jr_errorDetails r) = Some False
    \<and> (\<forall>t u row. event_updates t (EvCompleted JNull) = Some u \<longrightarrow> cj_status (apply_updates u row) = JS_COMPLETED)"
    by (rule refused_submission_returns [where tx = "()" and ds = "''400''"])
      (simp_all add: demo_worker_def demo_queue_job_def demo_job_def parameter_def json_truthy_def refused_def
        error_message_def)
  then show ?thesis by blast
qed

section \<open>Dead letters\<close>

text \<open>A notification that has used up its attempts becomes exactly one letter, and retrying that
  letter sends the notification's own name and data to the notification queue once and then
  removes the letter, given that the dead letter queue hands back the letter it stored.
\<close>
theorem dead_letter_roundtrip:
  assumes spent: "maxAttempts (nj_opts job) \<le> nj_attemptsMade job"
    and stored: "de_add env (nj_name job) (letter_of job message (de_now env w)) letter_options w = (Inr k, w1)"
      "de_getJob env k w1 = (Inr (Some (letter_of job message (de_now env w))), w2)"
    and queues: "de_enqueue env (nj_name job) (nj_data job) w2 = (Inr k', w3)" "de_remove env k w3 = (Inr (), w4)"
  shows "ebind (routeFailedNotificationToDlq env (Some job) message)
      (\<lambda>dead. if dead then retryNotificationDlqJob env k else ereturn None) w = (Inr (Some k'), w4)"
  using assms
  by (simp add: routeFailedNotificationToDlq_def retryNotificationDlqJob_def eff_defs letter_of_def)

text \<open>Two queues in memory: the letters, and what the notification queue was given.\<close>

definition demo_dlq :: "((string \<times> notification_letter) list \<times> (string \<times> json) list) dlq_env" where
  "demo_dlq = \<lparr>de_add = (\<lambda>_ l _ (ls, ns). (Inr (show_nat (length ls)), ((show_nat (length ls), l) # ls, ns))),
     de_getJob = (\<lambda>k (ls, ns). (Inr (map_of ls k), (ls, ns))),
     de_getJobs = (\<lambda>_ a b (ls, ns). (Inr (take (nat (b - a + 1)) (drop (nat a) ls)), (ls, ns))),
     de_remove = (\<lambda>k (ls, ns). (Inr (), (AList.delete k ls, ns))),
     de_enqueue = (\<lambda>n d (ls, ns). (Inr (show_nat (length ns)), (ls, (n, d) # ns))),
     de_now = (\<lambda>_. 0)\<rparr>"

definition demo_notification :: notification_job where
  "demo_notification = \<lparr>nj_id = Some ''9'', nj_name = ''email'', nj_data = JStr ''hello'', nj_attemptsMade = 3,
     nj_opts = notification_job_options\<rparr>"

theorem dead_letter_roundtrip_witness:
  "ebind (routeFailedNotificationToDlq demo_dlq (Some demo_notification) ''smtp'')
      (\<lambda>dead. if dead then retryNotificationDlqJob demo_dlq ''0'' else ereturn None) ([], [])
    = (Inr (Some ''0''), ([], [(''email'', JStr ''hello'')]))"
proof (rule dead_letter_roundtrip)
  let ?l = "letter_of demo_notification ''smtp'' 0"
  show "maxAttempts (nj_opts demo_notification) \<le> nj_attemptsMade demo_notification"
    by (simp add: maxAttempts_def demo_notification_def notification_job_options_def spread_def default_job_options_def
        no_options_def nullish_def)
  show "de_add demo_dlq (nj_name demo_notification) (letter_of demo_notification ''smtp'' (de_now demo_dlq ([], [])))
      letter_options ([], []) = (Inr ''0'', ([(''0'', ?l)], []))"
    by (simp add: demo_dlq_def show_nat.simps hex_digit_def)
  show "de_getJob demo_dlq ''0'' ([(''0'', ?l)], [])
      = (Inr (Some (letter_of demo_notification ''smtp'' (de_now demo_dlq ([], [])))), ([(''0'', ?l)], []))"
    by (simp add: demo_dlq_def)
  show "de_enqueue demo_dlq (nj_name demo_notification) (nj_data demo_notification) ([(''0'', ?l)], [])
      = (Inr ''0'', ([(''0'', ?l)], [(''email'', JStr ''hello'')]))"
    by (simp add: demo_dlq_def demo_notification_def show_nat.simps hex_digit_def)
  show "de_remove demo_dlq ''0'' ([(''0'', ?l)], [(''email'', JStr ''hello'')])
      = (Inr (), ([], [(''email'', JStr ''hello'')]))"
    by (simp add: demo_dlq_def)
qed

text \<open>A job that may be tried again, or a failure without a job, leaves no letter.\<close>

lemma no_letter_before_last_attempt:
  "nj_attemptsMade job < maxAttempts (nj_opts job) \<Longrightarrow> routeFailedNotificationToDlq env (Some job) message w = (Inr False, w)"
  "routeFailedNotificationToDlq env None message w = (Inr False, w)"
  by (simp_all add: routeFailedNotificationToDlq_def eff_defs)

text \<open>The contract worker's listener does the same with its own count of attempts.\<close>

lemma on_failed_attempts_left:
  "qj_attemptsMade job < or_number 1 (jo_attempts (qj_opts job)) \<Longrightarrow> on_failed env (Some job) e s = (Inr (), s)"
  by (simp add: on_failed_def ereturn_def)

lemma on_failed_letter:
  assumes "or_number 1 (jo_attempts (qj_opts job)) \<le> qj_attemptsMade job"
    and "we_dlqAdd env (qj_name job) \<lparr>dl_originalJob = qj_data job, dl_error = error_message e, dl_stack = we_stack env e,
        dl_failedAt = we_now env (ws_world s), dl_attemptsMade = qj_attemptsMade job\<rparr> (ws_world s) = (Inr (), w)"
  shows "\<exists>l s'. on_failed env (Some job) e s = (Inr (), s') \<and> dl_originalJob l = qj_data job
    \<and> ws_trace s' = ws_trace s @ [DeadLettered (qj_name job) l]"
  using assms by (auto simp: on_failed_def Let_def eff_defs wclock_def wcall_def log_effect_def)

end
