(* ===== verification/Advanced_Cache.thy ===== *)
theory Advanced_Cache
  imports Batch_Types
begin

text \<open>
  \<open>backend/src/services/advanced-cache.service.ts\<close>: a cache of two levels. The first level is
  a \<open>Map\<close> with the order of its keys kept in an array beside it; the second is Redis, shared by
  the instances, which tell each other about invalidations over a channel. Redis is a parameter:
  its calls act on a world and may fail, and a JSON text in it is the entry it parses to. The
  state can be extended by a service that has a cache. Times are milliseconds.
\<close>

section \<open>Data\<close>

record 'v l2_entry =
  e2_value :: 'v
  e2_timestamp :: int
  e2_ttl :: int
  e2_source :: string

record cache_options =
  co_ttlSeconds :: int
  co_tags :: "string list option"
  co_staleWhileRevalidate :: bool
  co_staleTtlSeconds :: "int option"

record 'v l1_entry =
  e1_value :: 'v
  e1_expiresAt :: int
  e1_staleAt :: "int option"

record cache_config =
  cc_l1MaxSize :: int
  cc_l1TtlSeconds :: int
  cc_l2TtlSeconds :: int
  cc_staleWhileRevalidateTtlSeconds :: int

definition default_cache_config :: cache_config where
  "default_cache_config = \<lparr>cc_l1MaxSize = 1000, cc_l1TtlSeconds = 30, cc_l2TtlSeconds = 300,
     cc_staleWhileRevalidateTtlSeconds = 60\<rparr>"

record 'v cache_result =
  cr_data :: 'v
  cr_fromCache :: bool
  cr_stale :: bool

text \<open>What is sent on the channel \<open>cache:invalidate\<close>: the fields that are given.\<close>

record invalidation =
  iv_key :: "string option"
  iv_pattern :: "string option"
  iv_tags :: "string list option"

record ('v, 'w) cache_env =
  ac_config :: cache_config
  ac_get :: "string \<Rightarrow> 'w \<Rightarrow> (js_error + 'v l2_entry option) \<times> 'w"
  ac_del :: "string list \<Rightarrow> 'w \<Rightarrow> (js_error + unit) \<times> 'w"
  ac_setex :: "string \<Rightarrow> int \<Rightarrow> 'v l2_entry \<Rightarrow> 'w \<Rightarrow> (js_error + unit) \<times> 'w"
  ac_sadd :: "(string \<times> string) list \<Rightarrow> 'w \<Rightarrow> (js_error + unit) \<times> 'w"
  ac_smembers :: "string list \<Rightarrow> 'w \<Rightarrow> (js_error + (js_error + string list) list) \<times> 'w"
  ac_publish :: "invalidation \<Rightarrow> 'w \<Rightarrow> (js_error + unit) \<times> 'w"
  ac_keys :: "string \<Rightarrow> 'w \<Rightarrow> (js_error + string list) \<times> 'w"
  ac_regex :: "string \<Rightarrow> js_error + (string \<Rightarrow> bool)"
  ac_json :: "'v \<Rightarrow> 'v"
  ac_now :: "'w \<Rightarrow> int"

text \<open>
  Callbacks are named by numbers, and a call of one is recorded. What \<open>setImmediate\<close> puts off
  is a pending key with its options.
\<close>

record ('v, 'w) cache_state =
  cs_l1 :: "(string, 'v l1_entry) jsmap"
  cs_keys :: "string list"
  cs_callbacks :: "(string, nat list) jsmap"
  cs_called :: "(nat \<times> string) list"
  cs_pending :: "(string \<times> cache_options) list"
  cs_world :: 'w

type_synonym ('v, 'w, 'z, 'a) cached = "(('v, 'w, 'z) cache_state_scheme, js_error, 'a) eff"

definition ccall :: "('w \<Rightarrow> (js_error + 'a) \<times> 'w) \<Rightarrow> ('v, 'w, 'z, 'a) cached" where
  "ccall f s = (case f (cs_world s) of (r, w) \<Rightarrow> (r, s\<lparr>cs_world := w\<rparr>))"

definition cclock :: "('v, 'w) cache_env \<Rightarrow> ('v, 'w, 'z, int) cached" where
  "cclock env = eget (\<lambda>s. ac_now env (cs_world s))"

definition l2_key :: "string \<Rightarrow> string" where
  "l2_key k = ''cache:l2:'' @ k"

definition tag_key :: "string \<Rightarrow> string" where
  "tag_key t = ''cache:tag:'' @ t"

section \<open>The first level\<close>

definition invalidateL1 :: "string \<Rightarrow> ('v, 'w, 'z) cache_state_scheme \<Rightarrow> ('v, 'w, 'z) cache_state_scheme" where
  "invalidateL1 key s = s\<lparr>cs_l1 := js_delete key (cs_l1 s), cs_keys := remove1 key (cs_keys s)\<rparr>"

text \<open>
  The loop that removes the oldest keys. \<open>shift\<close> on an empty array changes nothing, so with
  a negative limit it never ends; the empty key is falsy and stays in the map.
\<close>

partial_function (option) enforce_loop :: "int \<Rightarrow> string list \<Rightarrow> (string, 'v l1_entry) jsmap
    \<Rightarrow> (string list \<times> (string, 'v l1_entry) jsmap) option" where
  "enforce_loop limit keys m =
     (if int (length keys) > limit
      then (case keys of
              [] \<Rightarrow> enforce_loop limit [] m
            | k # ks \<Rightarrow> enforce_loop limit ks (if k \<noteq> [] then js_delete k m else m))
      else Some (keys, m))"

definition enforceL1SizeLimit :: "cache_config \<Rightarrow> ('v, 'w, 'z) cache_state_scheme
    \<Rightarrow> ('v, 'w, 'z) cache_state_scheme option" where
  "enforceL1SizeLimit cfg s = (case enforce_loop (cc_l1MaxSize cfg) (cs_keys s) (cs_l1 s) of
     None \<Rightarrow> None | Some (ks, m) \<Rightarrow> Some (s\<lparr>cs_keys := ks, cs_l1 := m\<rparr>))"

text \<open>An entry past its \<open>staleAt\<close> is stale, whatever its \<open>expiresAt\<close>.\<close>

definition is_stale :: "int \<Rightarrow> 'v l1_entry \<Rightarrow> bool" where
  "is_stale now e = (case e1_staleAt e of None \<Rightarrow> False | Some t \<Rightarrow> t \<noteq> 0 \<and> now > t)"

definition getL1 :: "('v, 'w) cache_env \<Rightarrow> string \<Rightarrow> ('v, 'w, 'z, ('v l1_entry \<times> bool) option) cached" where
  "getL1 env key =
     ebind (eget (\<lambda>s. js_get (cs_l1 s) key)) (\<lambda>entry. case entry of
       None \<Rightarrow> ereturn None
     | Some e \<Rightarrow>
         ebind (cclock env) (\<lambda>now.
         if is_stale now e then ereturn (Some (e, True))
         else if now > e1_expiresAt e then ebind (emodify (invalidateL1 key)) (\<lambda>_. ereturn None)
         else ereturn (Some (e, False))))"

definition new_l1_entry :: "cache_config \<Rightarrow> int \<Rightarrow> 'v \<Rightarrow> int \<Rightarrow> cache_options \<Rightarrow> 'v l1_entry" where
  "new_l1_entry cfg now v ttlSeconds options =
     (if co_staleWhileRevalidate options
      then \<lparr>e1_value = v,
             e1_expiresAt = now + (ttlSeconds +
               or_number (cc_staleWhileRevalidateTtlSeconds cfg) (co_staleTtlSeconds options)) * 1000,
             e1_staleAt = Some (now + ttlSeconds * 1000)\<rparr>
      else \<lparr>e1_value = v, e1_expiresAt = now + ttlSeconds * 1000, e1_staleAt = None\<rparr>)"

text \<open>The array of keys and the map before the limit is enforced.\<close>

definition put_l1 :: "string \<Rightarrow> 'v l1_entry \<Rightarrow> ('v, 'w, 'z) cache_state_scheme \<Rightarrow> ('v, 'w, 'z) cache_state_scheme" where
  "put_l1 key e s =
     s\<lparr>cs_keys := (if js_get (cs_l1 s) key \<noteq> None then remove1 key (cs_keys s) else cs_keys s) @ [key],
       cs_l1 := js_set key e (cs_l1 s)\<rparr>"

text \<open>With a negative limit the code does not come back; here the state is then left unlimited.\<close>

definition setL1 :: "('v, 'w) cache_env \<Rightarrow> string \<Rightarrow> 'v \<Rightarrow> int \<Rightarrow> cache_options \<Rightarrow> ('v, 'w, 'z, unit) cached" where
  "setL1 env key v ttlSeconds options =
     ebind (cclock env) (\<lambda>now.
     emodify (\<lambda>s. let s' = put_l1 key (new_l1_entry (ac_config env) now v ttlSeconds options) s in
       case enforceL1SizeLimit (ac_config env) s' of Some t \<Rightarrow> t | None \<Rightarrow> s'))"

section \<open>The second level\<close>

definition getL2 :: "('v, 'w) cache_env \<Rightarrow> string \<Rightarrow> ('v, 'w, 'z, 'v l2_entry option) cached" where
  "getL2 env key =
     ecatch
       (ebind (ccall (ac_get env (l2_key key))) (\<lambda>data. case data of
          None \<Rightarrow> ereturn None
        | Some e \<Rightarrow>
            ebind (cclock env) (\<lambda>now.
            if now > e2_timestamp e + e2_ttl e * 1000
            then ebind (ccall (ac_del env [l2_key key])) (\<lambda>_. ereturn None)
            else ereturn (Some e))))
       (\<lambda>_. ereturn None)"

definition setL2 :: "('v, 'w) cache_env \<Rightarrow> string \<Rightarrow> 'v \<Rightarrow> int \<Rightarrow> string \<Rightarrow> string list option
    \<Rightarrow> ('v, 'w, 'z, unit) cached" where
  "setL2 env key v ttlSeconds source tags =
     ecatch
       (ebind (cclock env) (\<lambda>now.
        ebind (ccall (ac_setex env (l2_key key) ttlSeconds
          \<lparr>e2_value = ac_json env v, e2_timestamp = now, e2_ttl = ttlSeconds, e2_source = source\<rparr>)) (\<lambda>_.
        case tags of
          None \<Rightarrow> ereturn ()
        | Some ts \<Rightarrow> if ts = [] then ereturn ()
                     else ccall (ac_sadd env (List.map (\<lambda>t. (tag_key t, key)) ts)))))
       (\<lambda>_. ereturn ())"

definition setMultiLevel :: "('v, 'w) cache_env \<Rightarrow> string \<Rightarrow> 'v \<Rightarrow> cache_options \<Rightarrow> ('v, 'w, 'z, unit) cached" where
  "setMultiLevel env key v options =
     ebind (setL1 env key v (co_ttlSeconds options) options) (\<lambda>_.
     setL2 env key v (cc_l2TtlSeconds (ac_config env)) ''multi-level'' (co_tags options))"

section \<open>Reading and writing through the cache\<close>

definition cacheAside :: "('v, 'w) cache_env \<Rightarrow> string \<Rightarrow> ('v, 'w, 'z, 'v) cached \<Rightarrow> cache_options
    \<Rightarrow> ('v, 'w, 'z, 'v cache_result) cached" where
  "cacheAside env key fetchFn options =
     ebind (getL1 env key) (\<lambda>l1.
     let fetched = ecatch
           (ebind fetchFn (\<lambda>data.
            ebind (setMultiLevel env key data options) (\<lambda>_.
            ereturn \<lparr>cr_data = data, cr_fromCache = False, cr_stale = False\<rparr>)))
           (\<lambda>err. case l1 of
              Some (e, True) \<Rightarrow> ereturn \<lparr>cr_data = e1_value e, cr_fromCache = True, cr_stale = True\<rparr>
            | _ \<Rightarrow> ethrow err);
         second = ebind (getL2 env key) (\<lambda>l2. case l2 of
           None \<Rightarrow> fetched
         | Some e2 \<Rightarrow>
             ebind (setL1 env key (e2_value e2) (cc_l1TtlSeconds (ac_config env)) options) (\<lambda>_.
             if l1 \<noteq> None
             then ebind (emodify (\<lambda>s. s\<lparr>cs_pending := cs_pending s @ [(key, options)]\<rparr>)) (\<lambda>_.
                  ereturn \<lparr>cr_data = e2_value e2, cr_fromCache = True, cr_stale = True\<rparr>)
             else ereturn \<lparr>cr_data = e2_value e2, cr_fromCache = True, cr_stale = False\<rparr>))
     in case l1 of
          Some (e, False) \<Rightarrow> ereturn \<lparr>cr_data = e1_value e, cr_fromCache = True, cr_stale = False\<rparr>
        | _ \<Rightarrow> second)"

text \<open>What a pending refresh does when its turn comes.\<close>

definition run_refresh :: "('v, 'w) cache_env \<Rightarrow> string \<Rightarrow> ('v, 'w, 'z, 'v) cached \<Rightarrow> cache_options
    \<Rightarrow> ('v, 'w, 'z, unit) cached" where
  "run_refresh env key fetchFn options =
     ecatch (ebind fetchFn (\<lambda>data. setMultiLevel env key data options)) (\<lambda>_. ereturn ())"

definition writeThrough :: "('v, 'w) cache_env \<Rightarrow> string \<Rightarrow> 'v \<Rightarrow> ('v, 'w, 'z, unit) cached \<Rightarrow> cache_options
    \<Rightarrow> ('v, 'w, 'z, unit) cached" where
  "writeThrough env key v writeFn options = ebind writeFn (\<lambda>_. setMultiLevel env key v options)"

section \<open>Invalidation\<close>

definition publish_quietly :: "('v, 'w) cache_env \<Rightarrow> invalidation \<Rightarrow> ('v, 'w, 'z, unit) cached" where
  "publish_quietly env m = ecatch (ccall (ac_publish env m)) (\<lambda>_. ereturn ())"

definition invalidate :: "('v, 'w) cache_env \<Rightarrow> string \<Rightarrow> ('v, 'w, 'z, unit) cached" where
  "invalidate env key =
     ebind (emodify (invalidateL1 key)) (\<lambda>_.
     ebind (ccall (ac_del env [l2_key key])) (\<lambda>_.
     publish_quietly env \<lparr>iv_key = Some key, iv_pattern = None, iv_tags = None\<rparr>))"

text \<open>The two parts of \<open>writeBehind\<close>: now, and when the put-off write has its turn.\<close>

definition writeBehind :: "('v, 'w) cache_env \<Rightarrow> string \<Rightarrow> 'v \<Rightarrow> cache_options \<Rightarrow> ('v, 'w, 'z, unit) cached" where
  "writeBehind env key v options =
     ebind (setMultiLevel env key v options) (\<lambda>_.
     emodify (\<lambda>s. s\<lparr>cs_pending := cs_pending s @ [(key, options)]\<rparr>))"

definition run_write_behind :: "('v, 'w) cache_env \<Rightarrow> string \<Rightarrow> ('v, 'w, 'z, unit) cached
    \<Rightarrow> ('v, 'w, 'z, unit) cached" where
  "run_write_behind env key writeFn = ecatch writeFn (\<lambda>_. invalidate env key)"

text \<open>
  The loops over the map delete the key they are at, which a \<open>Map\<close> allows: every key that is
  there is visited once.
\<close>

definition invalidate_matching :: "(string \<Rightarrow> bool) \<Rightarrow> ('v, 'w, 'z) cache_state_scheme
    \<Rightarrow> ('v, 'w, 'z) cache_state_scheme" where
  "invalidate_matching P s = fold invalidateL1 (filter P (js_keys (cs_l1 s))) s"

definition invalidatePattern :: "('v, 'w) cache_env \<Rightarrow> string \<Rightarrow> ('v, 'w, 'z, unit) cached" where
  "invalidatePattern env pattern =
     ebind (elift (ac_regex env pattern)) (\<lambda>matches.
     ebind (emodify (invalidate_matching matches)) (\<lambda>_.
     publish_quietly env \<lparr>iv_key = None, iv_pattern = Some pattern, iv_tags = None\<rparr>))"

text \<open>A tag whose keys could not be read is skipped; the keys are visited once each.\<close>

definition tagged_keys :: "(js_error + string list) list \<Rightarrow> string list" where
  "tagged_keys rs = set_of_array (concat (List.map (\<lambda>r. case r of Inl _ \<Rightarrow> [] | Inr ks \<Rightarrow> ks) rs))"

definition invalidateByTags :: "('v, 'w) cache_env \<Rightarrow> string list \<Rightarrow> ('v, 'w, 'z, unit) cached" where
  "invalidateByTags env tags =
     ecatch
       (ebind (ccall (ac_smembers env (List.map tag_key tags))) (\<lambda>rs.
        ebind (emodify (fold invalidateL1 (tagged_keys rs))) (\<lambda>_.
        ebind (ccall (ac_del env (List.map l2_key (tagged_keys rs) @ List.map tag_key tags))) (\<lambda>_.
        ccall (ac_publish env \<lparr>iv_key = None, iv_pattern = None, iv_tags = Some tags\<rparr>)))))
       (\<lambda>_. ereturn ())"

section \<open>Messages of other instances\<close>

definition notifyInvalidationCallbacks :: "string \<Rightarrow> ('v, 'w, 'z) cache_state_scheme \<Rightarrow> ('v, 'w, 'z) cache_state_scheme" where
  "notifyInvalidationCallbacks key s = (case js_get (cs_callbacks s) key of
     None \<Rightarrow> s | Some cbs \<Rightarrow> s\<lparr>cs_called := cs_called s @ List.map (\<lambda>cb. (cb, key)) cbs\<rparr>)"

definition drop_and_notify :: "string \<Rightarrow> ('v, 'w, 'z) cache_state_scheme \<Rightarrow> ('v, 'w, 'z) cache_state_scheme" where
  "drop_and_notify key s = notifyInvalidationCallbacks key (invalidateL1 key s)"

text \<open>\<open>getEntryMetadata\<close> always returns null, so no entry has tags.\<close>

definition getEntryMetadata :: "string \<Rightarrow> string list option option" where
  "getEntryMetadata key = None"

definition entryHasTags :: "string \<Rightarrow> string list \<Rightarrow> bool" where
  "entryHasTags key tags = (case getEntryMetadata key of
     None \<Rightarrow> False | Some None \<Rightarrow> False | Some (Some ts) \<Rightarrow> list_ex (\<lambda>t. t \<in> set ts) tags)"

definition handleInvalidationMessage :: "('v, 'w) cache_env \<Rightarrow> invalidation \<Rightarrow> ('v, 'w, 'z, unit) cached" where
  "handleInvalidationMessage env msg =
     ecatch
       (ebind (case truthy_str (iv_key msg) of None \<Rightarrow> ereturn () | Some k \<Rightarrow> emodify (drop_and_notify k)) (\<lambda>_.
        ebind (case truthy_str (iv_pattern msg) of
                 None \<Rightarrow> ereturn ()
               | Some p \<Rightarrow> ebind (elift (ac_regex env p)) (\<lambda>matches.
                   emodify (\<lambda>s. fold drop_and_notify (filter matches (js_keys (cs_l1 s))) s))) (\<lambda>_.
        case iv_tags msg of
          None \<Rightarrow> ereturn ()
        | Some ts \<Rightarrow> emodify (\<lambda>s. fold drop_and_notify (filter (\<lambda>k. entryHasTags k ts) (js_keys (cs_l1 s))) s))))
       (\<lambda>_. ereturn ())"

definition onInvalidate :: "string \<Rightarrow> nat \<Rightarrow> ('v, 'w, 'z) cache_state_scheme \<Rightarrow> ('v, 'w, 'z) cache_state_scheme" where
  "onInvalidate key cb s =
     (let cbs = (case js_get (cs_callbacks s) key of None \<Rightarrow> [] | Some l \<Rightarrow> l) in
      s\<lparr>cs_callbacks := js_set key (if cb \<in> set cbs then cbs else cbs @ [cb]) (cs_callbacks s)\<rparr>)"

text \<open>The function \<open>onInvalidate\<close> returns.\<close>

definition off_invalidate :: "string \<Rightarrow> nat \<Rightarrow> ('v, 'w, 'z) cache_state_scheme \<Rightarrow> ('v, 'w, 'z) cache_state_scheme" where
  "off_invalidate key cb s = (case js_get (cs_callbacks s) key of
     None \<Rightarrow> s | Some cbs \<Rightarrow> s\<lparr>cs_callbacks := js_set key (remove1 cb cbs) (cs_callbacks s)\<rparr>)"

definition clear_cache :: "('v, 'w) cache_env \<Rightarrow> ('v, 'w, 'z, unit) cached" where
  "clear_cache env =
     ebind (emodify (\<lambda>s. s\<lparr>cs_l1 := [], cs_keys := []\<rparr>)) (\<lambda>_.
     ebind (ccall (ac_keys env ''cache:l2:*'')) (\<lambda>keys.
     if keys \<noteq> [] then ccall (ac_del env keys) else ereturn ()))"

definition getStats :: "('v, 'w) cache_env \<Rightarrow> ('v, 'w, 'z) cache_state_scheme \<Rightarrow> nat \<times> int" where
  "getStats env s = (length (cs_l1 s), cc_l1MaxSize (ac_config env))"

end
