(* ===== verification/Js_Text.thy ===== *)
theory Js_Text
  imports JsNumber
begin

text \<open>
  The operations of JavaScript on text that several components use, and the texts of decimal
  numbers: \<open>parseFloat\<close> and \<open>parseInt\<close> read what \<open>toFixed\<close> and the digits of an integer write.
\<close>

section \<open>Texts\<close>

definition trim_js :: "string \<Rightarrow> string" where
  "trim_js s = rev (dropWhile is_js_space (rev (dropWhile is_js_space s)))"

definition to_lower :: "char \<Rightarrow> char" where
  "to_lower c = (if 65 \<le> (of_char c :: nat) \<and> (of_char c :: nat) \<le> 90 then char_of ((of_char c :: nat) + 32) else c)"

fun split_char :: "char \<Rightarrow> string \<Rightarrow> string list" where
  "split_char d [] = [[]]"
| "split_char d (c # s) = (if c = d then [] # split_char d s
     else (case split_char d s of [] \<Rightarrow> [[c]] | w # ws \<Rightarrow> (c # w) # ws))"

definition is_letter :: "char \<Rightarrow> bool" where
  "is_letter c \<longleftrightarrow> (let n = of_char c :: nat in (65 \<le> n \<and> n \<le> 90) \<or> (97 \<le> n \<and> n \<le> 122))"

definition is_alnum :: "char \<Rightarrow> bool" where
  "is_alnum c \<longleftrightarrow> is_letter c \<or> is_digit c"

text \<open>\<open>s.startsWith(p)\<close>, and \<open>s.split(' ')[1]\<close>.\<close>

definition starts_with :: "string \<Rightarrow> string \<Rightarrow> bool" where
  "starts_with p s \<longleftrightarrow> take (length p) s = p"

definition second_word :: "string \<Rightarrow> string option" where
  "second_word s = (case dropWhile (\<lambda>c. c \<noteq> CHR '' '') s of [] \<Rightarrow> None
     | _ # r \<Rightarrow> Some (takeWhile (\<lambda>c. c \<noteq> CHR '' '') r))"

text \<open>What is before and after the first occurrence of a character.\<close>

definition split_first :: "char \<Rightarrow> string \<Rightarrow> (string \<times> string) option" where
  "split_first c s = (if c \<in> set s then Some (takeWhile (\<lambda>d. d \<noteq> c) s, tl (dropWhile (\<lambda>d. d \<noteq> c) s)) else None)"

text \<open>\<open>toUpperCase\<close> on ASCII text.\<close>

definition upper_text :: "string \<Rightarrow> string" where
  "upper_text = List.map (\<lambda>c. if (97 :: nat) \<le> of_char c \<and> of_char c \<le> (122 :: nat) then char_of (of_char c - 32 :: nat) else c)"

section \<open>Decimal texts\<close>

lemma digits_value_append: "digits_value (xs @ [c]) = 10 * digits_value xs + digit_value c"
  by (simp add: digits_value_def)

lemma hex_digit_value: "n < 10 \<Longrightarrow> digit_value (hex_digit n) = int n \<and> is_digit (hex_digit n)"
proof -
  assume "n < 10"
  then have "n \<in> {0, 1, 2, 3, 4, 5, 6, 7, 8, 9}" by auto
  then show ?thesis by (auto simp: hex_digit_def digit_value_def is_digit_def numeral_eq_Suc)
qed

lemma show_nat_digits: "digits_value (show_nat n) = int n \<and> list_all is_digit (show_nat n) \<and> show_nat n \<noteq> []"
proof (induction n rule: show_nat.induct)
  case (1 n)
  show ?case
  proof (cases "n < 10")
    case True
    then show ?thesis using hex_digit_value [OF True]
      by (simp add: show_nat.simps [of n] digits_value_def)
  next
    case False
    then have "int n = 10 * int (n div 10) + int (n mod 10)" by presburger
    then show ?thesis using 1 False hex_digit_value [of "n mod 10"]
      by (simp add: show_nat.simps [of n] digits_value_append)
  qed
qed

lemma digits_value_zeros: "digits_value (replicate k (CHR ''0'') @ ds) = digits_value ds"
proof -
  have "foldl (\<lambda>n c. 10 * n + digit_value c) 0 (replicate k (CHR ''0'')) = 0"
    by (induction k) (simp_all add: digit_value_def)
  then show ?thesis by (simp add: digits_value_def)
qed

lemma takeWhile_digits:
  "list_all is_digit xs \<Longrightarrow> \<not> is_digit c \<Longrightarrow> takeWhile is_digit (xs @ c # ys) = xs \<and> dropWhile is_digit (xs @ c # ys) = c # ys"
  by (induction xs) auto

lemma takeWhile_all_digits: "list_all is_digit xs \<Longrightarrow> takeWhile is_digit xs = xs \<and> dropWhile is_digit xs = []"
  by (induction xs) auto

text \<open>The text of a non-negative rational, rounded half up to \<open>f\<close> places, and what it stands for.\<close>

definition half_up :: "nat \<Rightarrow> rat \<Rightarrow> rat" where
  "half_up f x = of_int \<lfloor>x * 10 ^ f + 1 / 2\<rfloor> / 10 ^ f"

lemma toFixed_shape:
  assumes "0 \<le> x"
  shows "\<exists>ip fp. ip \<noteq> [] \<and> list_all is_digit ip \<and> list_all is_digit fp \<and> length fp = f
    \<and> digits_value (ip @ fp) = \<lfloor>x * 10 ^ f + 1 / 2\<rfloor>
    \<and> toFixed f x = (if f = 0 then ip else ip @ ''.'' @ fp)"
proof -
  define n where "n = nat \<lfloor>\<bar>x\<bar> * 10 ^ f + 1 / 2\<rfloor>"
  have n: "int n = \<lfloor>x * 10 ^ f + 1 / 2\<rfloor>" using assms by (simp add: n_def)
  show ?thesis
  proof (cases "f = 0")
    case True
    have "toFixed f x = show_nat n" using assms True by (simp add: toFixed_def n_def Let_def)
    then show ?thesis using show_nat_digits [of n] n True by (intro exI [of _ "show_nat n"] exI [of _ "[]"]) simp
  next
    case False
    define d where "d = pad_left (f + 1) (CHR ''0'') (show_nat n)"
    have dd: "list_all is_digit d" "digits_value d = int n" "f < length d"
      using show_nat_digits [of n] digits_value_zeros
      by (auto simp: d_def pad_left_def is_digit_def list_all_iff)
    have "toFixed f x = take (length d - f) d @ ''.'' @ drop (length d - f) d"
      using assms False by (simp add: toFixed_def d_def n_def Let_def)
    then show ?thesis
      using dd n False by (intro exI [of _ "take (length d - f) d"] exI [of _ "drop (length d - f) d"])
        (auto simp: list_all_iff dest: in_set_takeD in_set_dropD)
  qed
qed

lemma parse_toFixed:
  assumes "0 \<le> x"
  shows "parse_decimal (toFixed f x) = Some (half_up f x)"
proof -
  obtain ip fp where p: "ip \<noteq> []" "list_all is_digit ip" "list_all is_digit fp" "length fp = f"
      "digits_value (ip @ fp) = \<lfloor>x * 10 ^ f + 1 / 2\<rfloor>" "toFixed f x = (if f = 0 then ip else ip @ ''.'' @ fp)"
    using toFixed_shape [OF assms] by blast
  have d: "takeWhile is_digit ip = ip" "dropWhile is_digit ip = []" "takeWhile is_digit fp = fp" "dropWhile is_digit fp = []"
    using takeWhile_all_digits p(2,3) by auto
  have e: "takeWhile is_digit (ip @ CHR ''.'' # fp) = ip" "dropWhile is_digit (ip @ CHR ''.'' # fp) = CHR ''.'' # fp"
    using takeWhile_digits [OF p(2), of "CHR ''.''" fp] by (auto simp: is_digit_def)
  show ?thesis
    using p by (cases "f = 0") (simp_all add: parse_decimal_def parse_exponent_def pow10_def half_up_def d e Let_def)
qed

text \<open>\<open>parseFloat\<close>, and \<open>Number\<close> on such texts, gives the nearest number.\<close>

lemma parseFloat_toFixed:
  assumes "0 \<le> x"
  shows "parseFloat (toFixed f x) = round64 (half_up f x)"
proof -
  obtain c r where c: "toFixed f x = c # r" "is_digit c"
    using toFixed_shape [OF assms, of f] by (auto simp: neq_Nil_conv split: if_splits)
  then have "\<not> is_js_space c" "c \<noteq> CHR ''-''" "c \<noteq> CHR ''+''" "c \<noteq> CHR ''I''"
    by (auto simp: is_digit_def is_js_space_def)
  then show ?thesis using parse_toFixed [OF assms, of f] c
    by (simp add: parseFloat_def split_sign_def)
qed

end
