(* ===== verification/Price_Aggregation.thy ===== *)
theory Price_Aggregation
  imports Advanced_Cache Circuit_Breaker Js_Text
begin

text \<open>
  \<open>backend/src/services/price-aggregation.service.ts\<close>: prices from Horizon and from exchanges,
  each source behind a circuit breaker, averaged by weight and kept in the two-level cache. The
  HTTP client, \<open>Math.pow\<close> and \<open>Math.sqrt\<close> are parameters. The sources are asked together: all
  pass their breaker first, then they come back, here in their order.
\<close>

section \<open>Data\<close>

record source_config =
  so_name :: string
  so_weight :: jsnum
  so_priority :: int
  so_timeoutMs :: int

record source_result =
  px_source :: string
  px_price :: jsnum
  px_timestamp :: int
  px_weight :: jsnum
  px_success :: bool
  px_error :: "string option"
  px_latencyMs :: int

record aggregated_price =
  ap_asset :: string
  ap_price :: jsnum
  ap_timestamp :: int
  ap_sources :: "source_result list"
  ap_aggregatedFrom :: nat
  ap_totalSources :: nat
  ap_confidence :: jsnum
  ap_isPartial :: bool

record price_options =
  fo_minSources :: "int option"
  fo_preferCache :: "bool option"
  fo_forceRefresh :: bool
  fo_staleWhileRevalidate :: "bool option"

definition no_price_options :: price_options where
  "no_price_options = \<lparr>fo_minSources = None, fo_preferCache = None, fo_forceRefresh = False,
     fo_staleWhileRevalidate = None\<rparr>"

text \<open>A response of \<open>fetch\<close>; reading its body as JSON may throw.\<close>

record http_response =
  hr_ok :: bool
  hr_status :: int
  hr_body :: "js_error + json"

record 'w price_env =
  pe_cache :: "(aggregated_price, 'w) cache_env"
  pe_baseUrl :: string
  pe_fetch :: "string \<Rightarrow> int \<Rightarrow> 'w \<Rightarrow> (js_error + http_response) \<times> 'w"
  pe_pow :: "jsnum \<Rightarrow> int \<Rightarrow> jsnum"
  pe_sqrt :: "jsnum \<Rightarrow> jsnum"

text \<open>The service: its cache, and the registry of breakers that all services share.\<close>

record 'w price_state = "(aggregated_price, 'w) cache_state" +
  ps_breakers :: breaker_registry

type_synonym ('w, 'a) priced = "('w price_state, js_error, 'a) eff"

section \<open>JSON values\<close>

text \<open>\<open>v?.k\<close> and \<open>v?.[0]\<close>; \<open>v.k\<close> throws when \<open>v\<close> is null or undefined.\<close>

definition jget :: "json \<Rightarrow> string \<Rightarrow> json" where
  "jget v k = (case v of JObj ps \<Rightarrow> (case js_get ps k of Some x \<Rightarrow> x | None \<Rightarrow> JUndef) | _ \<Rightarrow> JUndef)"

definition jfirst :: "json \<Rightarrow> json" where
  "jfirst v = (case v of JArr (x # _) \<Rightarrow> x | JStr (c # _) \<Rightarrow> JStr [c] | JObj _ \<Rightarrow> jget v ''0'' | _ \<Rightarrow> JUndef)"

definition type_error :: "string \<Rightarrow> js_error" where
  "type_error m = OtherErr ''TypeError'' m None None None None None None"

definition jget_strict :: "json \<Rightarrow> string \<Rightarrow> js_error + json" where
  "jget_strict v k = (if v \<in> {JUndef, JNull} then Inl (type_error (''Cannot read properties of null (reading '' @ k @ '')''))
     else Inr (jget v k))"

text \<open>\<open>String(v)\<close>.\<close>

fun json_string :: "json \<Rightarrow> string" where
  "json_string JUndef = ''undefined''"
| "json_string JNull = ''null''"
| "json_string (JBool b) = (if b then ''true'' else ''false'')"
| "json_string (JNum i) = show_int i"
| "json_string (JStr s) = s"
| "json_string (JArr xs) = join_with '','' (List.map (\<lambda>x. if x = JUndef \<or> x = JNull then [] else json_string x) xs)"
| "json_string (JObj ps) = ''[object Object]''"

section \<open>Horizon\<close>

definition http_get :: "'w price_env \<Rightarrow> string \<Rightarrow> int \<Rightarrow> ('w, http_response) priced" where
  "http_get env url timeoutMs = ccall (pe_fetch env url timeoutMs)"

definition http_json :: "'w price_env \<Rightarrow> string \<Rightarrow> int \<Rightarrow> ('w, json) priced" where
  "http_json env url timeoutMs =
     ebind (http_get env url timeoutMs) (\<lambda>r.
     if \<not> hr_ok r then ethrow (PlainError (''HTTP '' @ show_int (hr_status r))) else elift (hr_body r))"

text \<open>The stub at the end of the chain of sources.\<close>

definition fetchFallbackPrice :: "string \<Rightarrow> jsnum" where
  "fetchFallbackPrice asset = Fin 0"

definition native_url :: "string \<Rightarrow> string" where
  "native_url base = base @ ''/trade_aggregations?base_asset_type=native&counter_asset_type=credit_alphanum4&counter_asset_code=USDC&counter_asset_issuer=GA5ZSEJYB37JRC5AVCIA5MOP4RHTM335X2KGX3IHOJAPP5RE34K4KZVN&limit=1&order=desc''"

definition native_price :: "json \<Rightarrow> jsnum" where
  "native_price tradeData =
     (let trade = jfirst (jget (jget tradeData ''_embedded'') ''records'') in
      if json_truthy trade
      then let avg = jget trade ''avg''; price = parseFloat (if json_truthy avg then json_string avg else ''0'')
           in if js_less (Fin 0) price then price else fetchFallbackPrice ''XLM''
      else fetchFallbackPrice ''XLM'')"

definition fetchNativePrice :: "'w price_env \<Rightarrow> source_config \<Rightarrow> ('w, jsnum) priced" where
  "fetchNativePrice env c =
     ecatch (ebind (http_json env (native_url (pe_baseUrl env)) (so_timeoutMs c)) (\<lambda>d. ereturn (native_price d)))
       (\<lambda>e. ethrow (PlainError (''Failed to fetch native price: '' @ message_text e)))"

definition resolveAssetIssuer :: "string \<Rightarrow> string option" where
  "resolveAssetIssuer asset =
     map_of [(''USDC'', ''GA5ZSEJYB37JRC5AVCIA5MOP4RHTM335X2KGX3IHOJAPP5RE34K4KZVN''),
             (''USDT'', ''GCQTGZQQ5G4PTM2GL7CDIFKUBIPEC52BROAQIAPW53XBRJVN6ZJVTG6V'')] asset"

definition fetchAssetPrice :: "'w price_env \<Rightarrow> source_config \<Rightarrow> string \<Rightarrow> ('w, jsnum) priced" where
  "fetchAssetPrice env c asset =
     ecatch
       (case resolveAssetIssuer asset of
          None \<Rightarrow> ethrow (PlainError (''Could not resolve issuer for '' @ asset))
        | Some issuer \<Rightarrow>
            ebind (http_json env (pe_baseUrl env @ ''/assets?asset_code='' @ asset @ ''&asset_issuer='' @ issuer @ ''&limit=1'')
              (so_timeoutMs c)) (\<lambda>d.
            if \<not> json_truthy (jfirst (jget (jget d ''_embedded'') ''records''))
            then ethrow (PlainError (''Asset '' @ asset @ '' not found on Horizon''))
            else ereturn (fetchFallbackPrice asset)))
       (\<lambda>e. ethrow (PlainError (''Failed to fetch asset price: '' @ message_text e)))"

section \<open>Exchanges\<close>

definition extractPrice :: "json \<Rightarrow> string \<Rightarrow> jsnum option" where
  "extractPrice d exchange =
     (if exchange = ''binance''
      then (case jget_strict d ''price'' of Inl _ \<Rightarrow> None | Inr p \<Rightarrow> Some (parseFloat (json_string p)))
      else if exchange = ''coinbase''
      then (case jget_strict d ''data'' of Inl _ \<Rightarrow> None
            | Inr x \<Rightarrow> let usd = jget (jget x ''rates'') ''USD'' in
                if json_truthy usd then Some (parseFloat (json_string usd)) else None)
      else None)"

definition exchanges :: "string \<Rightarrow> (string \<times> string) list" where
  "exchanges asset =
     [(''binance'', ''https://api.binance.com/api/v3/ticker/price?symbol='' @ asset @ ''USDT''),
      (''coinbase'', ''https://api.coinbase.com/v2/exchange-rates?currency='' @ asset)]"

definition ask_exchange :: "'w price_env \<Rightarrow> string \<times> string \<Rightarrow> ('w, jsnum option) priced" where
  "ask_exchange env x = (case x of (name, url) \<Rightarrow>
     ecatch (ebind (http_json env url 5000) (\<lambda>d. ereturn (extractPrice d name))) (\<lambda>_. ereturn None))"

fun ask_all :: "'w price_env \<Rightarrow> (string \<times> string) list \<Rightarrow> ('w, jsnum option list) priced" where
  "ask_all env [] = ereturn []"
| "ask_all env (x # xs) = ebind (ask_exchange env x) (\<lambda>p. ebind (ask_all env xs) (\<lambda>ps. ereturn (p # ps)))"

definition valid_prices :: "jsnum option list \<Rightarrow> jsnum list" where
  "valid_prices ps = concat (List.map (\<lambda>p. case p of Some x \<Rightarrow> if js_less (Fin 0) x then [x] else [] | None \<Rightarrow> []) ps)"

text \<open>\<open>sort((a, b) => a - b)\<close> on numbers that are not NaN.\<close>

fun insert_price :: "jsnum \<Rightarrow> jsnum list \<Rightarrow> jsnum list" where
  "insert_price x [] = [x]"
| "insert_price x (y # ys) = (if js_less y x then y # insert_price x ys else x # y # ys)"

definition sort_prices :: "jsnum list \<Rightarrow> jsnum list" where
  "sort_prices xs = foldr insert_price xs []"

definition calculateMedian :: "jsnum list \<Rightarrow> jsnum" where
  "calculateMedian xs =
     (let sorted = sort_prices xs; mid = length sorted div 2 in
      if length sorted mod 2 = 0 then js_div (js_add (sorted ! (mid - 1)) (sorted ! mid)) (Fin 2)
      else sorted ! mid)"

definition fetchFromMultipleExchanges :: "'w price_env \<Rightarrow> string \<Rightarrow> ('w, jsnum) priced" where
  "fetchFromMultipleExchanges env asset =
     ebind (ask_all env (exchanges asset)) (\<lambda>ps.
     if valid_prices ps = [] then ethrow (PlainError ''No valid prices from any exchange'')
     else ereturn (calculateMedian (valid_prices ps)))"

section \<open>One source behind its breaker\<close>

definition price_breaker_config :: partial_config where
  "price_breaker_config = \<lparr>pc_failureThreshold = Some 5, pc_resetTimeoutMs = Some 30000,
     pc_halfOpenMaxCalls = None, pc_successThreshold = None\<rparr>"

definition breaker_name :: "source_config \<Rightarrow> string" where
  "breaker_name c = (if so_name c = ''horizon'' then ''horizon'' else ''external-exchange'')"

definition ask_source :: "'w price_env \<Rightarrow> string \<Rightarrow> source_config \<Rightarrow> ('w, jsnum) priced" where
  "ask_source env asset c =
     (if so_name c = ''horizon''
      then if asset = ''XLM'' then fetchNativePrice env c else fetchAssetPrice env c asset
      else fetchFromMultipleExchanges env asset)"

definition pclock :: "'w price_env \<Rightarrow> ('w, int) priced" where
  "pclock env = cclock (pe_cache env)"

text \<open>The breaker a source holds; the constructor has put it into the registry.\<close>

definition breaker_at :: "string \<Rightarrow> breaker_registry \<Rightarrow> breaker_config \<times> breaker" where
  "breaker_at name reg = (case js_get reg name of
     Some x \<Rightarrow> x | None \<Rightarrow> (mergeConfig (Some price_breaker_config), new_breaker))"

definition on_breaker :: "string \<Rightarrow> (breaker_config \<Rightarrow> breaker \<Rightarrow> 'a \<times> breaker) \<Rightarrow> ('w, 'a) priced" where
  "on_breaker name f s = (case breaker_at name (ps_breakers s) of (cfg, b) \<Rightarrow>
     (case f cfg b of (x, b') \<Rightarrow> (Inr x, s\<lparr>ps_breakers := js_set name (cfg, b') (ps_breakers s)\<rparr>)))"

text \<open>Up to the call: the start time, and the error of the breaker if it lets nothing through.\<close>

definition source_enter :: "'w price_env \<Rightarrow> source_config \<Rightarrow> ('w, int \<times> string option) priced" where
  "source_enter env c =
     ebind (pclock env) (\<lambda>now.
     ebind (on_breaker (breaker_name c) (\<lambda>cfg b. execute_enter cfg (breaker_name c) now b)) (\<lambda>r.
     ereturn (now, case r of Inr _ \<Rightarrow> None | Inl (CircuitBreakerError m _ _) \<Rightarrow> Some m)))"

definition failed_source :: "'w price_env \<Rightarrow> source_config \<Rightarrow> int \<Rightarrow> string \<Rightarrow> ('w, source_result) priced" where
  "failed_source env c start m =
     ebind (pclock env) (\<lambda>now. ereturn \<lparr>px_source = so_name c, px_price = Fin 0, px_timestamp = now,
       px_weight = so_weight c, px_success = False, px_error = Some m, px_latencyMs = now - start\<rparr>)"

definition source_settle :: "'w price_env \<Rightarrow> string \<Rightarrow> source_config \<Rightarrow> int \<times> string option
    \<Rightarrow> ('w, source_result) priced" where
  "source_settle env asset c entered = (case entered of
     (start, Some m) \<Rightarrow> failed_source env c start m
   | (start, None) \<Rightarrow>
       ecatch
         (ebind (ecatch (ask_source env asset c)
            (\<lambda>e. ebind (pclock env) (\<lambda>now.
                 ebind (on_breaker (breaker_name c) (\<lambda>cfg b. ((), onFailure cfg now b))) (\<lambda>_. ethrow e)))) (\<lambda>price.
          ebind (on_breaker (breaker_name c) (\<lambda>cfg b. ((), onSuccess cfg b))) (\<lambda>_.
          ebind (pclock env) (\<lambda>now. ereturn \<lparr>px_source = so_name c, px_price = price, px_timestamp = now,
            px_weight = so_weight c, px_success = True, px_error = None, px_latencyMs = now - start\<rparr>))))
         (\<lambda>e. failed_source env c start (case error_message e of Some m \<Rightarrow> m | None \<Rightarrow> ''Unknown error'')))"

fun enter_all :: "'w price_env \<Rightarrow> source_config list \<Rightarrow> ('w, (int \<times> string option) list) priced" where
  "enter_all env [] = ereturn []"
| "enter_all env (c # cs) = ebind (source_enter env c) (\<lambda>x. ebind (enter_all env cs) (\<lambda>xs. ereturn (x # xs)))"

fun settle_all :: "'w price_env \<Rightarrow> string \<Rightarrow> (source_config \<times> int \<times> string option) list
    \<Rightarrow> ('w, source_result list) priced" where
  "settle_all env asset [] = ereturn []"
| "settle_all env asset ((c, x) # cs) =
     ebind (source_settle env asset c x) (\<lambda>r. ebind (settle_all env asset cs) (\<lambda>rs. ereturn (r # rs)))"

section \<open>Aggregation\<close>

definition sum_from_0 :: "jsnum list \<Rightarrow> jsnum" where
  "sum_from_0 = foldl js_add (Fin 0)"

definition mean_of :: "jsnum list \<Rightarrow> jsnum" where
  "mean_of xs = js_div (sum_from_0 xs) (js_int (int (length xs)))"

definition calculateWeightedAverage :: "source_result list \<Rightarrow> jsnum" where
  "calculateWeightedAverage rs =
     (let totalWeight = sum_from_0 (List.map px_weight rs);
          weightedSum = sum_from_0 (List.map (\<lambda>r. js_mul (px_price r) (px_weight r)) rs)
      in if js_eq totalWeight (Fin 0) then mean_of (List.map px_price rs) else js_div weightedSum totalWeight)"

definition calculateConsistencyScore :: "'w price_env \<Rightarrow> source_result list \<Rightarrow> jsnum" where
  "calculateConsistencyScore env rs =
     (if length rs < 2 then Fin 1
      else let prices = List.map px_price rs; mean = mean_of prices;
               variance = mean_of (List.map (\<lambda>p. pe_pow env (js_sub p mean) 2) prices);
               coefficientOfVariation = js_div (pe_sqrt env variance) mean
           in math_max (Fin 0) (js_sub (Fin 1) coefficientOfVariation))"

definition calculateConfidence :: "'w price_env \<Rightarrow> source_result list \<Rightarrow> nat \<Rightarrow> jsnum" where
  "calculateConfidence env successful n =
     (let availabilityRatio = js_div (js_int (int (length successful))) (js_int (int n))
      in js_add (js_mul availabilityRatio (parseFloat ''0.4'')) (js_mul (calculateConsistencyScore env successful) (parseFloat ''0.6'')))"

definition fetchAndAggregate :: "'w price_env \<Rightarrow> source_config list \<Rightarrow> string \<Rightarrow> int
    \<Rightarrow> ('w, aggregated_price) priced" where
  "fetchAndAggregate env sources asset minSources =
     ebind (enter_all env sources) (\<lambda>entered.
     ebind (settle_all env asset (zip sources entered)) (\<lambda>results.
     let successful = filter px_success results in
     if int (length successful) < minSources
     then ethrow (PlainError (''Insufficient data sources for '' @ asset @ '': got '' @ show_nat (length successful)
            @ '', need '' @ show_int minSources))
     else ebind (pclock env) (\<lambda>now. ereturn
       \<lparr>ap_asset = upper_text asset, ap_price = calculateWeightedAverage successful, ap_timestamp = now,
        ap_sources = results, ap_aggregatedFrom = length successful, ap_totalSources = length results,
        ap_confidence = calculateConfidence env successful (length results),
        ap_isPartial = (length successful < length results)\<rparr>)))"

section \<open>The service\<close>

definition default_sources :: "source_config list" where
  "default_sources =
     [\<lparr>so_name = ''horizon'', so_weight = parseFloat ''0.6'', so_priority = 1, so_timeoutMs = 5000\<rparr>,
      \<lparr>so_name = ''external-exchange'', so_weight = parseFloat ''0.4'', so_priority = 2, so_timeoutMs = 5000\<rparr>]"

text \<open>
  The constructor: the sources by name, a later one of the same name in the place of the
  first, and their breakers in the registry.
\<close>

definition source_map :: "source_config list \<Rightarrow> source_config list" where
  "source_map cs = js_values (foldl (\<lambda>m c. js_set (so_name c) c m) [] cs)"

definition register_breakers :: "source_config list \<Rightarrow> breaker_registry \<Rightarrow> breaker_registry" where
  "register_breakers cs reg =
     foldl (\<lambda>reg c. snd (registry_get (breaker_name c) (Some price_breaker_config) reg)) reg cs"

definition price_key :: "string \<Rightarrow> string" where
  "price_key asset = ''price:'' @ upper_text asset"

definition price_cache_options :: "string \<Rightarrow> price_options \<Rightarrow> cache_options" where
  "price_cache_options asset o' = \<lparr>co_ttlSeconds = 60, co_tags = Some [''price'', ''asset:'' @ asset],
     co_staleWhileRevalidate = (case fo_staleWhileRevalidate o' of Some b \<Rightarrow> b | None \<Rightarrow> True),
     co_staleTtlSeconds = Some 300\<rparr>"

definition getPrice :: "'w price_env \<Rightarrow> source_config list \<Rightarrow> string \<Rightarrow> price_options \<Rightarrow> ('w, aggregated_price) priced" where
  "getPrice env sources asset o' =
     (let minSources = or_number 1 (fo_minSources o'); fetchFn = fetchAndAggregate env sources asset minSources in
      if \<not> fo_forceRefresh o' \<and> fo_preferCache o' \<noteq> Some False
      then ebind (cacheAside (pe_cache env) (price_key asset) fetchFn (price_cache_options asset o'))
             (\<lambda>r. ereturn (cr_data r))
      else ebind fetchFn (\<lambda>a. ebind (setL2 (pe_cache env) (price_key asset) a 300 ''price-aggregation'' None)
             (\<lambda>_. ereturn a)))"

text \<open>The assets one after the other; the code starts them together.\<close>

fun get_each :: "'w price_env \<Rightarrow> source_config list \<Rightarrow> price_options \<Rightarrow> string list
    \<Rightarrow> (string, aggregated_price) jsmap \<times> (string \<times> js_error) list
    \<Rightarrow> ('w, (string, aggregated_price) jsmap \<times> (string \<times> js_error) list) priced" where
  "get_each env sources o' [] acc = ereturn acc"
| "get_each env sources o' (a # as) acc =
     ebind (ecatch (ebind (getPrice env sources a o') (\<lambda>p. ereturn (js_set a p (fst acc), snd acc)))
                   (\<lambda>e. ereturn (fst acc, snd acc @ [(a, e)]))) (\<lambda>acc'.
     get_each env sources o' as acc')"

definition aggregate_error :: js_error where
  "aggregate_error = OtherErr ''AggregateError'' ''All price fetches failed'' None None None None None None"

definition getMultiplePrices :: "'w price_env \<Rightarrow> source_config list \<Rightarrow> string list \<Rightarrow> price_options
    \<Rightarrow> ('w, (string, aggregated_price) jsmap) priced" where
  "getMultiplePrices env sources assets o' =
     ebind (get_each env sources o' assets ([], [])) (\<lambda>(results, errors).
     if errors \<noteq> [] \<and> results = [] then ethrow aggregate_error else ereturn results)"

definition invalidatePrice :: "'w price_env \<Rightarrow> string \<Rightarrow> ('w, unit) priced" where
  "invalidatePrice env asset = invalidate (pe_cache env) (price_key asset)"

definition invalidateAllPrices :: "'w price_env \<Rightarrow> ('w, unit) priced" where
  "invalidateAllPrices env = invalidateByTags (pe_cache env) [''price'']"

definition getCircuitBreakerMetrics :: "'w price_state \<Rightarrow> (string, breaker_metrics) jsmap" where
  "getCircuitBreakerMetrics s = registry_getMetrics (ps_breakers s)"

definition resetCircuitBreakers :: "'w price_state \<Rightarrow> 'w price_state" where
  "resetCircuitBreakers s = s\<lparr>ps_breakers := resetAll (ps_breakers s)\<rparr>"

end
