(* ===== verification/Price_Props.thy ===== *)
theory Price_Props
  imports Price_Aggregation
begin

text \<open>
  Properties of the price aggregation: what a source that answers without a price does to the
  average, and what an asset that Horizon cannot look up does to the breaker of all assets.
\<close>

section \<open>Sources one by one\<close>

lemma enter_closed:
  "cb_state b = CLOSED \<Longrightarrow> execute_enter cfg n now b = (Inr (), b\<lparr>cb_totalCalls := cb_totalCalls b + 1\<rparr>)"
  by (simp add: execute_enter_def enter_half_open_def Let_def)

lemma source_enter_closed:
  assumes "breaker_at (breaker_name c) (ps_breakers s) = (cfg, b)" "cb_state b = CLOSED"
  shows "source_enter env c s = (Inr (ac_now (pe_cache env) (cs_world s), None),
    s\<lparr>ps_breakers := js_set (breaker_name c) (cfg, b\<lparr>cb_totalCalls := cb_totalCalls b + 1\<rparr>) (ps_breakers s)\<rparr>)"
  using assms by (simp add: source_enter_def pclock_def cclock_def eff_defs on_breaker_def enter_closed)

lemma source_settle_success:
  assumes "ask_source env asset c s = (Inr p, s1)"
  shows "\<exists>r s2. source_settle env asset c (t, None) s = (Inr r, s2) \<and> px_price r = p
    \<and> px_weight r = so_weight c \<and> px_success r"
  using assms by (auto simp: source_settle_def pclock_def cclock_def eff_defs on_breaker_def split: prod.split)

text \<open>The weights of the two default sources, as binary numbers, add up to one.\<close>

lemma weight_06: "parseFloat ''0.6'' = Fin (5404319552844595 * pow2 (- 53))"
  by code_simp

lemma weight_04: "parseFloat ''0.4'' = Fin (3602879701896397 * pow2 (- 53))"
  by code_simp

lemma default_weights: "js_add (js_add (Fin 0) (parseFloat ''0.6'')) (parseFloat ''0.4'') = Fin 1"
  using round64_exact [of 5404319552844595 "- 53"] by (simp add: weight_06 weight_04) (simp add: pow2_def)

lemma zero_weighted: "js_mul (Fin 0) (parseFloat ''0.6'') = Fin 0"
  by (simp add: weight_06)

text \<open>Horizon's source has no price for an asset other than lumens: once it has found the asset
  it reports a success with price zero. With both default sources up, the aggregate of an asset
  whose price is \<open>p\<close> on the exchanges is therefore only \<open>p\<close> times 0.4, reported as complete.
\<close>
theorem horizon_dilutes_price:
  assumes asset: "asset \<noteq> ''XLM''" "resolveAssetIssuer asset = Some issuer"
    and horizon: "\<forall>w. \<exists>w'. pe_fetch env (pe_baseUrl env @ ''/assets?asset_code='' @ asset @ ''&asset_issuer='' @ issuer @ ''&limit=1'')
        5000 w = (Inr \<lparr>hr_ok = True, hr_status = 200, hr_body = Inr d\<rparr>, w')"
      "json_truthy (jfirst (jget (jget d ''_embedded'') ''records''))"
    and exchange: "\<forall>t. \<exists>w'. fetchFromMultipleExchanges env asset t = (Inr p, t\<lparr>cs_world := w'\<rparr>)"
    and breakers: "\<forall>n \<in> {''horizon'', ''external-exchange''}. cb_state (snd (breaker_at n (ps_breakers s))) = CLOSED"
  shows "\<exists>a s'. fetchAndAggregate env default_sources asset 1 s = (Inr a, s')
    \<and> ap_price a = js_div (js_add (Fin 0) (js_mul p (parseFloat ''0.4''))) (Fin 1)
    \<and> ap_aggregatedFrom a = 2 \<and> \<not> ap_isPartial a"
proof -
  obtain h e where src: "default_sources = [h, e]" and h: "so_name h = ''horizon''" "so_weight h = parseFloat ''0.6''"
      "so_timeoutMs h = 5000" and e: "so_name e = ''external-exchange''" "so_weight e = parseFloat ''0.4''"
    by (simp add: default_sources_def)
  have hn: "breaker_name h = ''horizon''" and en: "breaker_name e = ''external-exchange''"
    using h e by (simp_all add: breaker_name_def)
  obtain c1 b1 where b1: "breaker_at (breaker_name h) (ps_breakers s) = (c1, b1)" "cb_state b1 = CLOSED"
    using breakers hn by (cases "breaker_at (breaker_name h) (ps_breakers s)") auto
  obtain t1 s1 where s1: "source_enter env h s = (Inr (t1, None), s1)"
      "s1 = s\<lparr>ps_breakers := js_set ''horizon'' (c1, b1\<lparr>cb_totalCalls := cb_totalCalls b1 + 1\<rparr>) (ps_breakers s)\<rparr>"
    using source_enter_closed [OF b1] hn by simp
  have "breaker_at ''external-exchange'' (ps_breakers s1) = breaker_at ''external-exchange'' (ps_breakers s)"
    by (simp add: s1(2) breaker_at_def)
  then obtain c2 b2 where b2: "breaker_at (breaker_name e) (ps_breakers s1) = (c2, b2)" "cb_state b2 = CLOSED"
    using breakers en by (cases "breaker_at (breaker_name e) (ps_breakers s1)") auto
  obtain t2 s2 where s2: "source_enter env e s1 = (Inr (t2, None), s2)"
    using source_enter_closed [OF b2] by blast
  obtain w' where w': "pe_fetch env (pe_baseUrl env @ ''/assets?asset_code='' @ asset @ ''&asset_issuer='' @ issuer @ ''&limit=1'')
      5000 (cs_world s2) = (Inr \<lparr>hr_ok = True, hr_status = 200, hr_body = Inr d\<rparr>, w')"
    using horizon(1) by blast
  have "ask_source env asset h s2 = (Inr (Fin 0), s2\<lparr>cs_world := w'\<rparr>)"
    using asset horizon(2) h w'
    by (simp add: ask_source_def fetchAssetPrice_def http_json_def http_get_def ccall_def eff_defs fetchFallbackPrice_def)
  then obtain r3 s3 where s3: "source_settle env asset h (t1, None) s2 = (Inr r3, s3)" "px_price r3 = Fin 0"
      "px_weight r3 = parseFloat ''0.6''" "px_success r3"
    using source_settle_success [of env asset h s2 "Fin 0"] h(2) by metis
  have "\<exists>s'. ask_source env asset e s3 = (Inr p, s')"
    using exchange e by (auto simp: ask_source_def)
  then obtain r4 s4 where s4: "source_settle env asset e (t2, None) s3 = (Inr r4, s4)" "px_price r4 = p"
      "px_weight r4 = parseFloat ''0.4''" "px_success r4"
    using source_settle_success [of env asset e s3 p] e(2) by metis
  have avg: "calculateWeightedAverage [r3, r4] = js_div (js_add (Fin 0) (js_mul p (parseFloat ''0.4''))) (Fin 1)"
    using s3 s4 default_weights
    by (simp add: calculateWeightedAverage_def sum_from_0_def zero_weighted Let_def)
  show ?thesis
    using s1(1) s2 s3(1,4) s4(1,4) avg
    by (simp add: src fetchAndAggregate_def Let_def eff_defs pclock_def cclock_def)
qed

text \<open>Horizon lists every asset, and one exchange quotes it at one dollar; the world counts calls.\<close>

definition listed :: json where
  "listed = JObj [(''_embedded'', JObj [(''records'', JArr [JObj [(''asset_code'', JStr ''USDC'')]])])]"

definition demo_fetch :: "string \<Rightarrow> json" where
  "demo_fetch url = (if take 7 url = ''horizon'' then listed else JObj [(''price'', JStr ''1'')])"

definition demo_price_env :: "nat price_env" where
  "demo_price_env = \<lparr>pe_cache = \<lparr>ac_config = default_cache_config, ac_get = (\<lambda>_ w. (Inr None, w)),
       ac_del = (\<lambda>_ w. (Inr (), w)), ac_setex = (\<lambda>_ _ _ w. (Inr (), w)), ac_sadd = (\<lambda>_ w. (Inr (), w)),
       ac_smembers = (\<lambda>_ w. (Inr [], w)), ac_publish = (\<lambda>_ w. (Inr (), w)), ac_keys = (\<lambda>_ w. (Inr [], w)),
       ac_regex = (\<lambda>_. Inr (\<lambda>_. False)), ac_json = (\<lambda>v. v), ac_now = (\<lambda>w. int w)\<rparr>,
     pe_baseUrl = ''horizon'',
     pe_fetch = (\<lambda>url _ w. (Inr \<lparr>hr_ok = True, hr_status = 200, hr_body = Inr (demo_fetch url)\<rparr>, w + 1)),
     pe_pow = (\<lambda>x n. js_mul x x), pe_sqrt = (\<lambda>x. x)\<rparr>"

definition demo_price_state :: "nat price_state" where
  "demo_price_state = \<lparr>cs_l1 = [], cs_keys = [], cs_callbacks = [], cs_called = [], cs_pending = [], cs_world = 0,
     ps_breakers = register_breakers default_sources []\<rparr>"

lemma demo_exchange:
  "fetchFromMultipleExchanges demo_price_env ''USDC'' t = (Inr (Fin 1), t\<lparr>cs_world := cs_world t + 1 + 1\<rparr>)"
proof -
  have one: "parseFloat ''1'' = Fin 1" by code_simp
  show ?thesis
    by (simp add: fetchFromMultipleExchanges_def exchanges_def ask_exchange_def http_json_def http_get_def ccall_def
        eff_defs demo_price_env_def demo_fetch_def extractPrice_def jget_strict_def jget_def valid_prices_def
        calculateMedian_def sort_prices_def one json_truthy_def)
qed

lemma demo_breakers: "n \<in> {''horizon'', ''external-exchange''} \<Longrightarrow> cb_state (snd (breaker_at n (ps_breakers demo_price_state))) = CLOSED"
  by (auto simp: breaker_at_def demo_price_state_def register_breakers_def default_sources_def registry_get_def
      breaker_name_def new_breaker_def Let_def)

theorem horizon_dilutes_price_witness:
  "\<exists>a s'. fetchAndAggregate demo_price_env default_sources ''USDC'' 1 demo_price_state = (Inr a, s')
     \<and> ap_price a = parseFloat ''0.4'' \<and> \<not> ap_isPartial a"
proof -
  have "\<exists>a s'. fetchAndAggregate demo_price_env default_sources ''USDC'' 1 demo_price_state = (Inr a, s')
    \<and> ap_price a = js_div (js_add (Fin 0) (js_mul (Fin 1) (parseFloat ''0.4''))) (Fin 1)
    \<and> ap_aggregatedFrom a = 2 \<and> \<not> ap_isPartial a"
  proof (rule horizon_dilutes_price [where d = listed])
    show "resolveAssetIssuer ''USDC'' = Some ''GA5ZSEJYB37JRC5AVCIA5MOP4RHTM335X2KGX3IHOJAPP5RE34K4KZVN''"
      by (simp add: resolveAssetIssuer_def)
  qed (simp_all add: demo_exchange demo_breakers, simp_all add: demo_price_env_def demo_fetch_def listed_def jget_def
        jfirst_def json_truthy_def, blast)
  moreover have "js_div (js_add (Fin 0) (js_mul (Fin 1) (parseFloat ''0.4''))) (Fin 1) = parseFloat ''0.4''"
    using round64_exact [of 3602879701896397 "- 53"] by (simp add: weight_04)
  ultimately show ?thesis by metis
qed

section \<open>One asset closes Horizon for the others\<close>

definition horizon_breaker :: "'w price_state \<Rightarrow> breaker_config \<times> breaker" where
  "horizon_breaker s = breaker_at ''horizon'' (ps_breakers s)"

lemma keeps_ccall [keeps_rules]: "keeps horizon_breaker (ccall f)"
  by (simp add: keeps_def ccall_def horizon_breaker_def split: prod.split)

lemma keeps_pclock [keeps_rules]: "keeps horizon_breaker (pclock env)"
  by (simp add: pclock_def cclock_def keeps_rules)

lemma keeps_on_breaker: "n \<noteq> ''horizon'' \<Longrightarrow> keeps horizon_breaker (on_breaker n f)"
  by (simp add: keeps_def on_breaker_def horizon_breaker_def breaker_at_def split: prod.split)

lemma keeps_http_json [keeps_rules]: "keeps horizon_breaker (http_json env url t)"
  unfolding http_json_def http_get_def by (intro keeps_rules)

lemma keeps_ask_all: "keeps horizon_breaker (ask_all env xs)"
  by (induction xs) (auto simp: ask_exchange_def split: prod.split intro!: keeps_rules)

lemma keeps_exchanges [keeps_rules]: "keeps horizon_breaker (fetchFromMultipleExchanges env asset)"
  unfolding fetchFromMultipleExchanges_def by (intro keeps_rules keeps_ask_all)

lemma keeps_failed_source [keeps_rules]: "keeps horizon_breaker (failed_source env c t m)"
  unfolding failed_source_def by (intro keeps_rules)

lemma keeps_enter_exchange: "so_name c \<noteq> ''horizon'' \<Longrightarrow> keeps horizon_breaker (source_enter env c)"
  unfolding source_enter_def by (intro keeps_rules keeps_on_breaker) (simp add: breaker_name_def)

lemma keeps_settle_exchange: "so_name c \<noteq> ''horizon'' \<Longrightarrow> keeps horizon_breaker (source_settle env asset c x)"
  unfolding source_settle_def ask_source_def
  by (cases x; cases "snd x") (auto simp: breaker_name_def intro!: keeps_rules keeps_on_breaker)

lemma settle_never_throws: "\<exists>r s'. source_settle env asset c x s = (Inr r, s')"
  unfolding source_settle_def failed_source_def pclock_def cclock_def
  by (cases x; cases "snd x") (auto simp: eff_defs on_breaker_def split: prod.split sum.split)

lemma enter_never_throws: "\<exists>r s'. source_enter env c s = (Inr r, s')"
  by (simp add: source_enter_def pclock_def cclock_def eff_defs on_breaker_def split: prod.split)

text \<open>One request for an asset whose issuer is not known.\<close>

lemma unknown_asset_counts:
  assumes "asset \<noteq> ''XLM''" "resolveAssetIssuer asset = None"
    and b: "horizon_breaker s = (cfg, b)" "cb_state b = CLOSED"
  shows "\<exists>w. horizon_breaker (snd (fetchAndAggregate env default_sources asset m s))
    = (cfg, onFailure cfg (ac_now (pe_cache env) w) (b\<lparr>cb_totalCalls := cb_totalCalls b + 1\<rparr>))"
proof -
  obtain h e where src: "default_sources = [h, e]" and h: "so_name h = ''horizon''" and e: "so_name e \<noteq> ''horizon''"
    by (simp add: default_sources_def)
  have hn: "breaker_name h = ''horizon''" using h by (simp add: breaker_name_def)
  let ?b = "b\<lparr>cb_totalCalls := cb_totalCalls b + 1\<rparr>"
  obtain t1 s1 where s1: "source_enter env h s = (Inr (t1, None), s1)" "horizon_breaker s1 = (cfg, ?b)"
    using source_enter_closed [of h s cfg b env] b hn by (simp add: horizon_breaker_def breaker_at_def)
  obtain x2 s2 where s2: "source_enter env e s1 = (Inr x2, s2)" using enter_never_throws by blast
  have b2: "horizon_breaker s2 = (cfg, ?b)"
    using keeps_result [OF keeps_enter_exchange [OF e] s2] s1(2) by simp
  obtain r3 s3 where s3: "source_settle env asset h (t1, None) s2 = (Inr r3, s3)"
      "horizon_breaker s3 = (cfg, onFailure cfg (ac_now (pe_cache env) (cs_world s2)) ?b)"
    using assms(1,2) h b2
    by (simp add: source_settle_def ask_source_def fetchAssetPrice_def failed_source_def pclock_def cclock_def
        eff_defs on_breaker_def hn horizon_breaker_def breaker_at_def)
  obtain r4 s4 where s4: "source_settle env asset e x2 s3 = (Inr r4, s4)" using settle_never_throws by blast
  have "horizon_breaker s4 = horizon_breaker s3"
    by (rule keeps_result [OF keeps_settle_exchange [OF e] s4])
  moreover have "snd (fetchAndAggregate env default_sources asset m s) = s4"
    using s1(1) s2 s3(1) s4 by (simp add: src fetchAndAggregate_def Let_def eff_defs pclock_def cclock_def)
  ultimately show ?thesis using s3(2) by metis
qed

definition unknown_requests :: "'w price_env \<Rightarrow> string \<Rightarrow> int \<Rightarrow> nat \<Rightarrow> 'w price_state \<Rightarrow> 'w price_state" where
  "unknown_requests env asset m n = ((\<lambda>s. snd (fetchAndAggregate env default_sources asset m s)) ^^ n)"

lemma unknown_requests_count:
  assumes "asset \<noteq> ''XLM''" "resolveAssetIssuer asset = None" "horizon_breaker s = (cfg, b)"
    and "cb_state b = CLOSED" "cb_failures b = 0" "cfg_failureThreshold cfg = 5"
  shows "n < 5 \<Longrightarrow> \<exists>b'. horizon_breaker (unknown_requests env asset m n s) = (cfg, b')
    \<and> cb_state b' = CLOSED \<and> cb_failures b' = int n"
proof (induction n)
  case (Suc n)
  then obtain b' where "horizon_breaker (unknown_requests env asset m n s) = (cfg, b')" "cb_state b' = CLOSED"
      "cb_failures b' = int n" by auto
  then show ?case
    using unknown_asset_counts [OF assms(1,2), of "unknown_requests env asset m n s" cfg b' env m] Suc.prems assms(6)
    by (auto simp: unknown_requests_def onFailure_def Let_def)
qed (use assms in \<open>simp add: unknown_requests_def\<close>)

text \<open>Five requests for an asset whose issuer the service does not know open Horizon's breaker
  although Horizon was never asked; for thirty seconds the price of lumens is then made without
  Horizon, whatever Horizon would answer.
\<close>
theorem unknown_asset_closes_horizon:
  assumes asset: "asset \<noteq> ''XLM''" "resolveAssetIssuer asset = None"
    and start: "horizon_breaker s = (mergeConfig (Some price_breaker_config), b)" "cb_state b = CLOSED" "cb_failures b = 0"
    and time: "\<forall>w w'. ac_now (pe_cache env) w - ac_now (pe_cache env) w' \<le> 30000"
    and price: "fetchAndAggregate env default_sources ''XLM'' k (unknown_requests env asset m 5 s) = (Inr a, s')"
  shows "px_source (hd (ap_sources a)) = ''horizon'' \<and> \<not> px_success (hd (ap_sources a))
    \<and> px_error (hd (ap_sources a)) = Some ''Circuit breaker horizon is OPEN''"
proof -
  let ?cfg = "mergeConfig (Some price_breaker_config)" and ?s = "unknown_requests env asset m 5 s"
  have cfg: "cfg_failureThreshold ?cfg = 5" "cfg_resetTimeoutMs ?cfg = 30000"
    by (simp_all add: mergeConfig_def price_breaker_config_def or_default_def)
  obtain b4 where b4: "horizon_breaker (unknown_requests env asset m 4 s) = (?cfg, b4)" "cb_state b4 = CLOSED"
      "cb_failures b4 = 4"
    using unknown_requests_count [OF asset start cfg(1), of 4 env m] by auto
  have "?s = snd (fetchAndAggregate env default_sources asset m (unknown_requests env asset m 4 s))"
    by (simp add: unknown_requests_def numeral_eq_Suc)
  then obtain w b5 where b5: "horizon_breaker ?s = (?cfg, b5)" "cb_state b5 = OPEN"
      "cb_lastFailureTime b5 = Some (ac_now (pe_cache env) w)"
    using unknown_asset_counts [OF asset b4(1,2), of env m] b4(3) cfg(1)
    by (auto simp: onFailure_def Let_def)
  obtain h e where src: "default_sources = [h, e]" and h: "so_name h = ''horizon''"
    by (simp add: default_sources_def)
  have enter: "\<exists>t t1. source_enter env h ?s = (Inr (t, Some ''Circuit breaker horizon is OPEN''), t1)"
    using b5 h time [rule_format, of "cs_world ?s" w] cfg(2)
    by (simp add: source_enter_def pclock_def cclock_def eff_defs on_breaker_def horizon_breaker_def breaker_name_def
        execute_enter_def Let_def last_failure_or_0_def)
  then obtain t t1 where t1: "source_enter env h ?s = (Inr (t, Some ''Circuit breaker horizon is OPEN''), t1)" by blast
  obtain x2 t2 where t2: "source_enter env e t1 = (Inr x2, t2)" using enter_never_throws by blast
  obtain r3 t3 where t3: "source_settle env ''XLM'' h (t, Some ''Circuit breaker horizon is OPEN'') t2 = (Inr r3, t3)"
      "px_source r3 = ''horizon''" "\<not> px_success r3" "px_error r3 = Some ''Circuit breaker horizon is OPEN''"
    using h by (simp add: source_settle_def failed_source_def pclock_def cclock_def eff_defs)
  obtain r4 t4 where t4: "source_settle env ''XLM'' e x2 t3 = (Inr r4, t4)" using settle_never_throws by blast
  have "ap_sources a = [r3, r4]"
    using price t1 t2 t3(1) t4
    by (auto simp: src fetchAndAggregate_def Let_def eff_defs pclock_def cclock_def split: if_splits)
  then show ?thesis using t3 by simp
qed

lemma enter_all_returns: "\<exists>xs s'. enter_all env cs s = (Inr xs, s')"
proof (induction cs arbitrary: s)
  case (Cons c cs)
  obtain x s1 where 1: "source_enter env c s = (Inr x, s1)" using enter_never_throws by blast
  obtain xs s2 where "enter_all env cs s1 = (Inr xs, s2)" using Cons by blast
  with 1 show ?case by (simp add: eff_defs)
qed (simp add: ereturn_def)

lemma settle_all_returns: "\<exists>rs s'. settle_all env asset xs s = (Inr rs, s')"
proof (induction xs arbitrary: s)
  case (Cons x xs)
  obtain c y where x: "x = (c, y)" by (cases x)
  obtain r s1 where 1: "source_settle env asset c y s = (Inr r, s1)" using settle_never_throws by blast
  obtain rs s2 where "settle_all env asset xs s1 = (Inr rs, s2)" using Cons by blast
  with 1 show ?case by (simp add: x eff_defs)
qed (simp add: ereturn_def)

text \<open>Without a minimum of sources the aggregation always comes back with a price.\<close>

lemma aggregate_without_minimum:
  assumes "k \<le> 0"
  shows "\<exists>a s'. fetchAndAggregate env cs asset k s = (Inr a, s')"
proof -
  obtain xs s1 where 1: "enter_all env cs s = (Inr xs, s1)" using enter_all_returns by blast
  obtain rs s2 where 2: "settle_all env asset (zip cs xs) s1 = (Inr rs, s2)" using settle_all_returns by blast
  show ?thesis using assms 1 2 by (simp add: fetchAndAggregate_def Let_def eff_defs pclock_def cclock_def)
qed

definition still_price_env :: "nat price_env" where
  "still_price_env = demo_price_env\<lparr>pe_cache := (pe_cache demo_price_env)\<lparr>ac_now := (\<lambda>_. 0)\<rparr>\<rparr>"

theorem unknown_asset_closes_horizon_witness:
  "\<exists>a s'. fetchAndAggregate still_price_env default_sources ''XLM'' (- 1)
      (unknown_requests still_price_env ''ABC'' 1 5 demo_price_state) = (Inr a, s')
    \<and> px_source (hd (ap_sources a)) = ''horizon'' \<and> \<not> px_success (hd (ap_sources a))"
proof -
  obtain a s' where a: "fetchAndAggregate still_price_env default_sources ''XLM'' (- 1)
      (unknown_requests still_price_env ''ABC'' 1 5 demo_price_state) = (Inr a, s')"
    using aggregate_without_minimum [where k = "- 1" and env = still_price_env and cs = default_sources
        and asset = "''XLM''" and s = "unknown_requests still_price_env ''ABC'' 1 5 demo_price_state"] by auto
  have "px_source (hd (ap_sources a)) = ''horizon'' \<and> \<not> px_success (hd (ap_sources a))
    \<and> px_error (hd (ap_sources a)) = Some ''Circuit breaker horizon is OPEN''"
  proof (rule unknown_asset_closes_horizon [OF _ _ _ _ _ _ a])
    show "horizon_breaker demo_price_state = (mergeConfig (Some price_breaker_config), new_breaker)"
      by (simp add: horizon_breaker_def breaker_at_def demo_price_state_def register_breakers_def default_sources_def
          registry_get_def breaker_name_def Let_def)
  qed (simp_all add: resolveAssetIssuer_def new_breaker_def still_price_env_def demo_price_env_def)
  then show ?thesis using a by blast
qed

end
