(* ===== verification/Advanced_Cache_Props.thy ===== *)
theory Advanced_Cache_Props
  imports Advanced_Cache
begin

text \<open>
  Properties of the two-level cache: the first level refines a bounded list of entries in the
  order they were written; which invalidations reach which level and which instance; how long
  an entry is served.
\<close>

section \<open>The loop over the limit\<close>

lemma enforce_loop_ends:
  assumes "0 \<le> limit"
  shows "enforce_loop limit keys m = Some (slice_last (nat limit) keys,
    fold (\<lambda>k m. if k \<noteq> [] then js_delete k m else m) (take (length keys - nat limit) keys) m)"
proof (induction keys arbitrary: m)
  case Nil
  show ?case using assms by (subst enforce_loop.simps) (simp add: slice_last_def)
next
  case (Cons k ks)
  show ?case
  proof (cases "int (length (k # ks)) > limit")
    case True
    then have "Suc (length ks) - nat limit = Suc (length ks - nat limit)" using assms by auto
    with True Cons [of "if k \<noteq> [] then js_delete k m else m"] show ?thesis
      by (subst enforce_loop.simps) (simp add: slice_last_def)
  next
    case False
    then show ?thesis using assms by (subst enforce_loop.simps) (auto simp: slice_last_def)
  qed
qed

lemma enforce_loop_nonneg:
  assumes "enforce_loop limit keys m = Some r"
  shows "0 \<le> limit"
proof (rule enforce_loop.raw_induct [where P = "\<lambda>limit _ _ _. 0 \<le> limit", OF _ assms])
  fix f :: "int \<Rightarrow> string list \<Rightarrow> (string, 'a l1_entry) jsmap \<Rightarrow> (string list \<times> (string, 'a l1_entry) jsmap) option"
    and limit keys m r
  assume IH: "\<And>limit keys m r. f limit keys m = Some r \<Longrightarrow> 0 \<le> limit"
    and step: "(if limit < int (length keys)
       then (case keys of [] \<Rightarrow> f limit [] m | k # ks \<Rightarrow> f limit ks (if k \<noteq> [] then js_delete k m else m))
       else Some (keys, m)) = Some r"
  show "0 \<le> limit"
  proof (cases "limit < int (length keys)")
    case True
    then show ?thesis using step IH by (cases keys) (simp_all split: if_splits)
  qed simp
qed

section \<open>The first level as a bounded list\<close>

definition l1_ok :: "int \<Rightarrow> ('v, 'w, 'z) cache_state_scheme \<Rightarrow> bool" where
  "l1_ok limit s \<longleftrightarrow> js_wf (cs_l1 s) \<and> distinct (cs_keys s) \<and> set (cs_keys s) = set (js_keys (cs_l1 s))
     \<and> [] \<notin> set (cs_keys s) \<and> int (length (cs_keys s)) \<le> limit"

text \<open>The abstraction: the entries, oldest write first.\<close>

definition l1_view :: "('v, 'w, 'z) cache_state_scheme \<Rightarrow> (string \<times> 'v l1_entry) list" where
  "l1_view s = List.map (\<lambda>k. (k, the (js_get (cs_l1 s) k))) (cs_keys s)"

text \<open>The specification: at most \<open>n\<close> entries, and a write makes its key the newest.\<close>

definition spec_drop :: "string \<Rightarrow> (string \<times> 'e) list \<Rightarrow> (string \<times> 'e) list" where
  "spec_drop k xs = filter (\<lambda>(k', _). k' \<noteq> k) xs"

definition spec_put :: "nat \<Rightarrow> string \<Rightarrow> 'e \<Rightarrow> (string \<times> 'e) list \<Rightarrow> (string \<times> 'e) list" where
  "spec_put n k e xs = slice_last n (spec_drop k xs @ [(k, e)])"

lemma key_present: "js_get m k \<noteq> None \<longleftrightarrow> k \<in> set (js_keys m)"
  by (auto simp: map_of_eq_None_iff)

lemma js_get_view: "l1_ok limit s \<Longrightarrow> map_of (l1_view s) k = js_get (cs_l1 s) k"
proof -
  assume ok: "l1_ok limit s"
  have "map_of (List.map (\<lambda>k. (k, the (js_get (cs_l1 s) k))) ks) k
      = (if k \<in> set ks then Some (the (js_get (cs_l1 s) k)) else None)" for ks
    by (induction ks) auto
  moreover have "k \<in> set (cs_keys s) \<longleftrightarrow> js_get (cs_l1 s) k \<noteq> None"
    using ok key_present [of "cs_l1 s" k] by (simp add: l1_ok_def)
  ultimately show ?thesis by (cases "js_get (cs_l1 s) k") (simp_all add: l1_view_def)
qed

lemma remove1_filter: "distinct xs \<Longrightarrow> remove1 x xs = filter (\<lambda>y. y \<noteq> x) xs"
  by (simp add: distinct_remove1_removeAll removeAll_filter_not_eq) metis

lemma invalidateL1_ok: "l1_ok limit s \<Longrightarrow> l1_ok limit (invalidateL1 k s)"
proof -
  assume ok: "l1_ok limit s"
  have "js_keys (js_delete k (cs_l1 s)) = filter (\<lambda>k'. k' \<noteq> k) (js_keys (cs_l1 s))"
    by (simp add: delete_keys removeAll_filter_not_eq) (rule filter_cong, auto)
  then show ?thesis
    using ok length_remove1 [of k "cs_keys s"] unfolding l1_ok_def invalidateL1_def
    by (auto simp: remove1_filter split: if_splits)
qed

lemma invalidateL1_view:
  assumes "l1_ok limit s"
  shows "l1_view (invalidateL1 k s) = spec_drop k (l1_view s)"
proof -
  have "spec_drop k (List.map (\<lambda>j. (j, the (js_get m j))) ks)
      = List.map (\<lambda>j. (j, the (js_get (js_delete k m) j))) (filter (\<lambda>j. j \<noteq> k) ks)" for m :: "(string, 'v l1_entry) jsmap" and ks
    by (induction ks) (auto simp: spec_drop_def)
  note eq = this [of "cs_l1 s" "cs_keys s"]
  show ?thesis using assms unfolding l1_view_def eq by (simp add: invalidateL1_def remove1_filter l1_ok_def)
qed

lemma put_l1_ok:
  assumes ok: "l1_ok limit s" and "k \<noteq> []"
  shows "l1_ok (limit + 1) (put_l1 k e s)"
proof -
  have present: "js_get (cs_l1 s) k \<noteq> None \<longleftrightarrow> k \<in> set (cs_keys s)"
    using ok key_present [of "cs_l1 s" k] by (simp add: l1_ok_def)
  have keys: "set (js_keys (js_set k e (cs_l1 s))) = insert k (set (js_keys (cs_l1 s)))"
    by (simp add: dom_update)
  have len: "int (length (filter (\<lambda>y. y \<noteq> k) (cs_keys s))) \<le> limit"
    using ok length_filter_le [of "\<lambda>y. y \<noteq> k" "cs_keys s"] unfolding l1_ok_def by linarith
  show ?thesis
  proof (cases "k \<in> set (cs_keys s)")
    case True
    with assms present keys len show ?thesis
      unfolding l1_ok_def put_l1_def by (auto simp: remove1_filter)
  next
    case False
    with assms present keys show ?thesis unfolding l1_ok_def put_l1_def by auto
  qed
qed

lemma put_l1_view:
  assumes ok: "l1_ok limit s"
  shows "l1_view (put_l1 k e s) = spec_drop k (l1_view s) @ [(k, e)]"
proof -
  have present: "js_get (cs_l1 s) k \<noteq> None \<longleftrightarrow> k \<in> set (cs_keys s)"
    using ok key_present [of "cs_l1 s" k] by (simp add: l1_ok_def)
  have ks: "cs_keys (put_l1 k e s) = filter (\<lambda>j. j \<noteq> k) (cs_keys s) @ [k]"
  proof (cases "k \<in> set (cs_keys s)")
    case True
    then show ?thesis using present ok by (auto simp: put_l1_def remove1_filter l1_ok_def)
  next
    case False
    moreover have "filter (\<lambda>j. j \<noteq> k) (cs_keys s) = cs_keys s" using False by (auto simp: filter_id_conv)
    ultimately show ?thesis using present by (auto simp: put_l1_def)
  qed
  have "spec_drop k (List.map (\<lambda>j. (j, the (js_get m j))) js)
      = List.map (\<lambda>j. (j, the (js_get (js_set k e m) j))) (filter (\<lambda>j. j \<noteq> k) js)" for m js
    by (induction js) (auto simp: spec_drop_def)
  note eq = this [of "cs_l1 s" "cs_keys s"]
  show ?thesis unfolding l1_view_def eq ks by (simp add: put_l1_def)
qed

lemma js_get_fold_delete:
  "js_get (fold js_delete ks m) k = (if k \<in> set ks then None else js_get m k)"
  by (induction ks arbitrary: m) auto

lemma js_wf_fold_delete: "js_wf m \<Longrightarrow> js_wf (fold js_delete ks m)"
  by (induction ks arbitrary: m) auto

lemma js_keys_fold_delete: "set (js_keys (fold js_delete ks m)) = set (js_keys m) - set ks"
proof (rule set_eqI)
  fix k
  show "k \<in> set (js_keys (fold js_delete ks m)) \<longleftrightarrow> k \<in> set (js_keys m) - set ks"
    using key_present [of "fold js_delete ks m" k] key_present [of m k]
    by (auto simp: js_get_fold_delete split: if_splits)
qed

lemma enforce_ok:
  assumes ok: "l1_ok limit' s" and limit: "0 \<le> cc_l1MaxSize cfg"
  shows "\<exists>t. enforceL1SizeLimit cfg s = Some t \<and> l1_ok (cc_l1MaxSize cfg) t
    \<and> l1_view t = slice_last (nat (cc_l1MaxSize cfg)) (l1_view s)
    \<and> (cs_callbacks t, cs_called t, cs_pending t, cs_world t) = (cs_callbacks s, cs_called s, cs_pending s, cs_world s)"
proof -
  let ?n = "nat (cc_l1MaxSize cfg)" and ?ks = "cs_keys s"
  let ?old = "take (length ?ks - ?n) ?ks" and ?new = "slice_last ?n ?ks"
  have split: "?ks = ?old @ ?new" by (simp add: slice_last_def)
  have "fold (\<lambda>k m. if k \<noteq> [] then js_delete k m else m) js m = fold js_delete js m"
    if "[] \<notin> set js" for js and m :: "(string, 'a l1_entry) jsmap"
    using that by (induction js arbitrary: m) auto
  then have del: "fold (\<lambda>k m. if k \<noteq> [] then js_delete k m else m) ?old (cs_l1 s) = fold js_delete ?old (cs_l1 s)"
    using ok by (auto simp: l1_ok_def dest: in_set_takeD)
  let ?t = "s\<lparr>cs_keys := ?new, cs_l1 := fold js_delete ?old (cs_l1 s)\<rparr>"
  have e: "enforceL1SizeLimit cfg s = Some ?t"
    by (simp add: enforceL1SizeLimit_def enforce_loop_ends [OF limit] del)
  have d: "distinct (?old @ ?new)" using ok split by (simp add: l1_ok_def)
  have "set ?ks = set ?old \<union> set ?new" by (metis split set_append)
  then have "set ?new = set ?ks - set ?old" using d by auto
  then have keys: "set ?new = set (js_keys (fold js_delete ?old (cs_l1 s)))"
    using ok unfolding js_keys_fold_delete by (simp add: l1_ok_def)
  have "l1_ok (cc_l1MaxSize cfg) ?t"
    unfolding l1_ok_def
  proof (intro conjI)
    show "js_wf (cs_l1 ?t)" using ok by (simp add: l1_ok_def js_wf_fold_delete)
    show "distinct (cs_keys ?t)" using d by simp
    show "set (cs_keys ?t) = set (js_keys (cs_l1 ?t))" using keys by simp
    show "[] \<notin> set (cs_keys ?t)"
      using ok \<open>set ?new = set ?ks - set ?old\<close> by (auto simp: l1_ok_def)
    show "int (length (cs_keys ?t)) \<le> cc_l1MaxSize cfg" using limit by (simp add: slice_last_length)
  qed
  moreover have "l1_view ?t = slice_last ?n (l1_view s)"
  proof -
    have "\<forall>k \<in> set ?new. js_get (fold js_delete ?old (cs_l1 s)) k = js_get (cs_l1 s) k"
      using d by (auto simp: js_get_fold_delete)
    then have "l1_view ?t = List.map (\<lambda>k. (k, the (js_get (cs_l1 s) k))) ?new"
      by (simp add: l1_view_def)
    then show ?thesis by (simp add: l1_view_def slice_last_def drop_map)
  qed
  ultimately show ?thesis using e by auto
qed

text \<open>The first level refines a list of at most \<open>l1MaxSize\<close> entries in the order of their last
  write: a write drops the key's old entry, appends the new one and cuts the oldest entries off,
  an invalidation drops the key, a lookup is a lookup in the list, and the map and the array of
  keys stay in step. (The keys are not empty and the limit is not negative.)
\<close>
theorem l1_refines_bounded_list:
  assumes ok: "l1_ok (cc_l1MaxSize (ac_config env)) s" and "k \<noteq> []"
  shows "(\<exists>s'. setL1 env k v ttl options s = (Inr (), s') \<and> l1_ok (cc_l1MaxSize (ac_config env)) s'
      \<and> l1_view s' = spec_put (nat (cc_l1MaxSize (ac_config env))) k
          (new_l1_entry (ac_config env) (ac_now env (cs_world s)) v ttl options) (l1_view s)
      \<and> (\<forall>j. js_get (cs_l1 s') j = map_of (l1_view s') j))
    \<and> l1_ok (cc_l1MaxSize (ac_config env)) (invalidateL1 j s) \<and> l1_view (invalidateL1 j s) = spec_drop j (l1_view s)"
proof -
  let ?cfg = "ac_config env"
  let ?e = "new_l1_entry ?cfg (ac_now env (cs_world s)) v ttl options"
  have "0 \<le> cc_l1MaxSize ?cfg" using ok unfolding l1_ok_def by linarith
  then obtain t where t: "enforceL1SizeLimit ?cfg (put_l1 k ?e s) = Some t" "l1_ok (cc_l1MaxSize ?cfg) t"
      "l1_view t = slice_last (nat (cc_l1MaxSize ?cfg)) (l1_view (put_l1 k ?e s))"
    using enforce_ok [OF put_l1_ok [OF assms]] by blast
  then have "setL1 env k v ttl options s = (Inr (), t)" by (simp add: setL1_def eff_defs cclock_def)
  then have "\<exists>s'. setL1 env k v ttl options s = (Inr (), s') \<and> l1_ok (cc_l1MaxSize ?cfg) s'
      \<and> l1_view s' = spec_put (nat (cc_l1MaxSize ?cfg)) k ?e (l1_view s)
      \<and> (\<forall>j. js_get (cs_l1 s') j = map_of (l1_view s') j)"
    using t put_l1_view [OF ok] js_get_view [OF t(2)] by (simp add: spec_put_def)
  then show ?thesis
    using invalidateL1_ok [OF ok] invalidateL1_view [OF ok] by blast
qed

text \<open>A cache of two entries over a Redis kept as a list of entries; the clock is fixed.\<close>

type_synonym demo_store = "(string \<times> string l2_entry) list"

definition demo_cache :: "(string, demo_store) cache_env" where
  "demo_cache = \<lparr>ac_config = default_cache_config\<lparr>cc_l1MaxSize := 2\<rparr>,
     ac_get = (\<lambda>k w. (Inr (map_of w k), w)), ac_del = (\<lambda>ks w. (Inr (), fold AList.delete ks w)),
     ac_setex = (\<lambda>k _ e w. (Inr (), AList.update k e w)), ac_sadd = (\<lambda>_ w. (Inr (), w)),
     ac_smembers = (\<lambda>ts w. (Inr (List.map (\<lambda>_. Inr []) ts), w)), ac_publish = (\<lambda>_ w. (Inr (), w)),
     ac_keys = (\<lambda>_ w. (Inr (List.map fst w), w)), ac_regex = (\<lambda>p. Inr (\<lambda>k. take (length p) k = p)),
     ac_json = (\<lambda>v. v), ac_now = (\<lambda>_. 1000000)\<rparr>"

definition demo_options :: cache_options where
  "demo_options = \<lparr>co_ttlSeconds = 60, co_tags = None, co_staleWhileRevalidate = True, co_staleTtlSeconds = Some 300\<rparr>"

definition demo_entry :: "string \<Rightarrow> string l1_entry" where
  "demo_entry v = \<lparr>e1_value = v, e1_expiresAt = 1030000, e1_staleAt = None\<rparr>"

definition demo_cache_state :: "(string, demo_store) cache_state" where
  "demo_cache_state = \<lparr>cs_l1 = [(''a'', demo_entry ''1''), (''b'', demo_entry ''2'')], cs_keys = [''a'', ''b''],
     cs_callbacks = [], cs_called = [], cs_pending = [],
     cs_world = [(''cache:l2:a'', \<lparr>e2_value = ''1'', e2_timestamp = 1000000, e2_ttl = 300, e2_source = ''multi-level''\<rparr>)]\<rparr>"

theorem l1_refines_bounded_list_witness:
  "\<exists>s'. setL1 demo_cache ''c'' ''3'' 60 demo_options demo_cache_state = (Inr (), s')
     \<and> List.map fst (l1_view s') = [''b'', ''c'']"
proof -
  have ok: "l1_ok (cc_l1MaxSize (ac_config demo_cache)) demo_cache_state"
    by (simp add: l1_ok_def demo_cache_def demo_cache_state_def default_cache_config_def js_wf_def)
  show ?thesis
    using l1_refines_bounded_list [OF ok, of "''c''" "''3''" 60 demo_options, THEN conjunct1]
    by (auto simp: spec_put_def spec_drop_def slice_last_def l1_view_def demo_cache_state_def demo_cache_def
        default_cache_config_def)
qed

text \<open>The loop over the limit comes back exactly when the limit is not negative.\<close>

lemma enforce_loop_ends_iff: "(\<exists>r. enforce_loop limit keys m = Some r) \<longleftrightarrow> 0 \<le> limit"
  using enforce_loop_ends enforce_loop_nonneg by fast

section \<open>What an invalidation does not reach\<close>

text \<open>The tags in a message select no entry, so the other instances keep theirs.\<close>

lemma tag_message_ignored:
  "handleInvalidationMessage env \<lparr>iv_key = None, iv_pattern = None, iv_tags = Some tags\<rparr> s = (Inr (), s)"
  by (simp add: handleInvalidationMessage_def eff_defs truthy_str_def entryHasTags_def getEntryMetadata_def)

lemma js_get_invalidateL1: "js_get (cs_l1 (invalidateL1 k s)) j = (if j = k then None else js_get (cs_l1 s) j)"
  by (simp add: invalidateL1_def)

lemma js_get_invalidate_matching:
  "js_get (cs_l1 (invalidate_matching P s)) j = (if P j then None else js_get (cs_l1 s) j)"
proof -
  have "js_get (cs_l1 (fold invalidateL1 ks s)) j = (if j \<in> set ks then None else js_get (cs_l1 s) j)" for ks
    by (induction ks arbitrary: s) (auto simp: js_get_invalidateL1)
  moreover have "P j \<Longrightarrow> j \<notin> set (js_keys (cs_l1 s)) \<Longrightarrow> js_get (cs_l1 s) j = None"
    by (simp add: map_of_eq_None_iff)
  ultimately show ?thesis by (auto simp: invalidate_matching_def)
qed

text \<open>A pattern removes the matching entries of the first level only: as long as the second level
  holds a fresh entry of a matching key, the next read returns that old value from the cache
  and does not call the fetch function, and the instances told about tags change nothing.
\<close>
theorem pattern_invalidation_keeps_l2:
  assumes pattern: "ac_regex env p = Inr matches" "matches key"
    and l2: "\<forall>w. \<exists>w'. ac_get env (l2_key key) w = (Inr (Some e2), w')"
    and fresh: "\<forall>w. ac_now env w \<le> e2_timestamp e2 + e2_ttl e2 * 1000"
  shows "(\<exists>s'. ebind (invalidatePattern env p) (\<lambda>_. cacheAside env key fetchFn options) s
      = (Inr \<lparr>cr_data = e2_value e2, cr_fromCache = True, cr_stale = False\<rparr>, s'))
    \<and> handleInvalidationMessage env \<lparr>iv_key = None, iv_pattern = None, iv_tags = Some tags\<rparr> t = (Inr (), t)"
proof
  obtain s1 where s1: "invalidatePattern env p s = (Inr (), s1)" "js_get (cs_l1 s1) key = None"
  proof
    show "invalidatePattern env p s = (Inr (), snd (invalidatePattern env p s))"
      using pattern by (simp add: invalidatePattern_def publish_quietly_def eff_defs split: prod.split sum.split)
    show "js_get (cs_l1 (snd (invalidatePattern env p s))) key = None"
      using pattern by (auto simp: invalidatePattern_def publish_quietly_def ccall_def eff_defs
          js_get_invalidate_matching split: prod.split sum.split)
  qed
  obtain w' where "ac_get env (l2_key key) (cs_world s1) = (Inr (Some e2), w')" using l2 by blast
  then have "getL2 env key s1 = (Inr (Some e2), s1\<lparr>cs_world := w'\<rparr>)"
    using fresh [rule_format, of w'] by (simp add: getL2_def ccall_def cclock_def eff_defs linorder_not_less)
  then have "\<exists>s'. cacheAside env key fetchFn options s1
      = (Inr \<lparr>cr_data = e2_value e2, cr_fromCache = True, cr_stale = False\<rparr>, s')"
    using s1(2) by (simp add: cacheAside_def getL1_def setL1_def cclock_def Let_def eff_defs)
  then show "\<exists>s'. ebind (invalidatePattern env p) (\<lambda>_. cacheAside env key fetchFn options) s
      = (Inr \<lparr>cr_data = e2_value e2, cr_fromCache = True, cr_stale = False\<rparr>, s')"
    using s1(1) by (simp add: ebind_def)
qed (rule tag_message_ignored)

definition kept_entry :: "string l2_entry" where
  "kept_entry = \<lparr>e2_value = ''1'', e2_timestamp = 1000000, e2_ttl = 300, e2_source = ''multi-level''\<rparr>"

definition demo_kept :: "(string, demo_store) cache_env" where
  "demo_kept = demo_cache\<lparr>ac_get := (\<lambda>k w. (Inr (if k = ''cache:l2:a'' then Some kept_entry else None), w))\<rparr>"

theorem pattern_invalidation_keeps_l2_witness:
  "\<exists>s'. ebind (invalidatePattern demo_kept ''a'') (\<lambda>_. cacheAside demo_kept ''a'' (ereturn ''new'') demo_options)
      demo_cache_state = (Inr \<lparr>cr_data = ''1'', cr_fromCache = True, cr_stale = False\<rparr>, s')"
proof -
  have "(\<exists>s'. ebind (invalidatePattern demo_kept ''a'') (\<lambda>_. cacheAside demo_kept ''a'' (ereturn ''new'') demo_options)
      demo_cache_state = (Inr \<lparr>cr_data = e2_value kept_entry, cr_fromCache = True, cr_stale = False\<rparr>, s'))
    \<and> handleInvalidationMessage demo_kept \<lparr>iv_key = None, iv_pattern = None, iv_tags = Some [''t'']\<rparr> demo_cache_state
        = (Inr (), demo_cache_state)"
    by (rule pattern_invalidation_keeps_l2 [where matches = "\<lambda>k. take (length ''a'') k = ''a''"])
      (simp_all add: demo_kept_def demo_cache_def l2_key_def kept_entry_def)
  then show ?thesis by (simp add: kept_entry_def)
qed

section \<open>How long a stale entry is served\<close>

text \<open>
  An entry written with \<open>staleWhileRevalidate\<close> is checked against \<open>staleAt\<close> first: past it, the
  entry is served as stale, however far its \<open>expiresAt\<close> lies back.
\<close>

lemma stale_entry_never_expires:
  assumes "js_get (cs_l1 s) key = Some e" "e1_staleAt e = Some t" "t \<noteq> 0" "ac_now env (cs_world s) > t"
  shows "getL1 env key s = (Inr (Some (e, True)), s)"
  using assms by (simp add: getL1_def is_stale_def cclock_def eff_defs)

lemma stale_value_on_failure:
  assumes "js_get (cs_l1 s) key = Some e" "e1_staleAt e = Some t" "t \<noteq> 0" "ac_now env (cs_world s) > t"
    and "getL2 env key s = (Inr None, s1)" "fetchFn s1 = (Inl err, s2)"
  shows "cacheAside env key fetchFn options s
    = (Inr \<lparr>cr_data = e1_value e, cr_fromCache = True, cr_stale = True\<rparr>, s2)"
  using assms(5,6) stale_entry_never_expires [OF assms(1-4)]
  by (simp add: cacheAside_def Let_def eff_defs)

end
