(* ===== verification/Auth_Sessions.thy ===== *)
theory Auth_Sessions
  imports Batch_Types Js_Text
begin

text \<open>
  \<open>backend/src/services/auth.service.ts\<close> (sessions: tokens, refresh-token families, stored
  challenges, weights), \<open>redis.service.ts\<close>, \<open>jwt-blacklist.service.ts\<close> and the in-memory
  client of \<open>api/routes/auth.route.ts\<close>. The service is given a client: the routes give it their
  own \<open>memoryStore\<close>, the middleware the real Redis. Redis itself, JWT, SHA-256, the random
  generator and the clock are parameters that act on a world; a JSON text in a store is the
  record it parses to. Times are milliseconds.
\<close>

section \<open>Data\<close>

record signer_info =
  si_publicKey :: string
  si_weight :: jsnum
  si_signed :: bool

record signature_info =
  sg_publicKey :: string
  sg_signature :: string
  sg_weight :: jsnum

record multi_key_challenge =
  mc_requiredSigners :: jsnum
  mc_threshold :: string
  mc_signers :: "signer_info list"

datatype auth_level = Partial | Medium | Full

record multi_key_token =
  mt_sub :: string
  mt_signers :: "string list"
  mt_threshold :: string
  mt_authLevel :: auth_level

record challenge_record =
  ch_challenge :: string
  ch_publicKey :: string
  ch_createdAt :: int
  ch_transactionXdr :: "string option"

datatype refresh_status = Active | Rotated

record refresh_record =
  rt_familyId :: string
  rt_publicKey :: string
  rt_multiKeyData :: "multi_key_token option"
  rt_status :: refresh_status
  rt_createdAt :: int
  rt_expiresAt :: int

record session_family =
  sf_familyId :: string
  sf_publicKey :: string
  sf_tokenHashes :: "string list"
  sf_revoked :: bool
  sf_createdAt :: int
  sf_revokedAt :: "int option"

record nonce_record =
  nr_account :: string
  nr_createdAt :: int

record token_pair =
  tp_access_token :: string
  tp_refresh_token :: string
  tp_expires_in :: int
  tp_refresh_expires_in :: int
  tp_familyId :: string

text \<open>What is stored under a key, and what a JWT says.\<close>

datatype auth_doc = RefreshDoc refresh_record | FamilyDoc session_family
  | ChallengeDoc challenge_record | NonceDoc nonce_record | RevokedDoc bool

record jwt_payload =
  jp_sub :: string
  jp_multi :: "(string list \<times> string \<times> auth_level) option"

record jwt_claims =
  jc_sub :: "string option"
  jc_signers :: "string list option"
  jc_threshold :: "string option"
  jc_authLevel :: "auth_level option"
  jc_exp :: "int option"

datatype verified_token = SingleToken string | MultiToken multi_key_token

section \<open>The libraries\<close>

record 'w auth_env =
  au_get :: "string \<Rightarrow> 'w \<Rightarrow> (js_error + auth_doc option) \<times> 'w"
  au_set :: "string \<Rightarrow> auth_doc \<Rightarrow> 'w \<Rightarrow> (js_error + unit) \<times> 'w"
  au_del :: "string \<Rightarrow> 'w \<Rightarrow> (js_error + int) \<times> 'w"
  au_expire :: "string \<Rightarrow> int \<Rightarrow> 'w \<Rightarrow> (js_error + unit) \<times> 'w"
  au_now :: "'w \<Rightarrow> int"
  au_randomBytes :: "nat \<Rightarrow> 'w \<Rightarrow> string \<times> 'w"
  au_randomUUID :: "'w \<Rightarrow> string \<times> 'w"
  au_sha256 :: "string \<Rightarrow> string"
  au_jwtSign :: "jwt_payload \<Rightarrow> string \<Rightarrow> int option \<Rightarrow> 'w \<Rightarrow> js_error + string"
  au_jwtVerify :: "string \<Rightarrow> string \<Rightarrow> 'w \<Rightarrow> js_error + jwt_claims"
  au_jwtDecode :: "string \<Rightarrow> jwt_claims option"
  au_secret :: string

text \<open>The process: the map of the authentication routes, and everything outside.\<close>

record 'w auth_server =
  sv_memory :: "(string, auth_doc) jsmap"
  sv_world :: 'w

type_synonym ('w, 'a) auth = "('w auth_server, js_error, 'a) eff"

definition aworld :: "('w \<Rightarrow> (js_error + 'a) \<times> 'w) \<Rightarrow> ('w, 'a) auth" where
  "aworld f s = (case f (sv_world s) of (r, w) \<Rightarrow> (r, s\<lparr>sv_world := w\<rparr>))"

definition adraw :: "('w \<Rightarrow> 'a \<times> 'w) \<Rightarrow> ('w, 'a) auth" where
  "adraw f s = (case f (sv_world s) of (x, w) \<Rightarrow> (Inr x, s\<lparr>sv_world := w\<rparr>))"

definition aclock :: "'w auth_env \<Rightarrow> ('w, int) auth" where
  "aclock env = eget (\<lambda>s. au_now env (sv_world s))"

section \<open>RedisService and its clients\<close>

record 'w auth_client =
  cl_get :: "string \<Rightarrow> ('w, auth_doc option) auth"
  cl_set :: "string \<Rightarrow> auth_doc \<Rightarrow> ('w, unit) auth"
  cl_del :: "string \<Rightarrow> ('w, int) auth"
  cl_expire :: "string \<Rightarrow> int \<Rightarrow> ('w, unit) auth"

text \<open>The client of the routes: a \<open>Map\<close> of the process, whose \<open>expire\<close> does nothing.\<close>

definition memory_client :: "'w auth_client" where
  "memory_client =
     \<lparr>cl_get = (\<lambda>key. eget (\<lambda>s. js_get (sv_memory s) key)),
      cl_set = (\<lambda>key v. emodify (\<lambda>s. s\<lparr>sv_memory := js_set key v (sv_memory s)\<rparr>)),
      cl_del = (\<lambda>key s. (Inr (if js_get (sv_memory s) key \<noteq> None then 1 else 0),
                         s\<lparr>sv_memory := js_delete key (sv_memory s)\<rparr>)),
      cl_expire = (\<lambda>key seconds. ereturn ())\<rparr>"

definition real_client :: "'w auth_env \<Rightarrow> 'w auth_client" where
  "real_client env =
     \<lparr>cl_get = (\<lambda>key. aworld (au_get env key)),
      cl_set = (\<lambda>key v. aworld (au_set env key v)),
      cl_del = (\<lambda>key. aworld (au_del env key)),
      cl_expire = (\<lambda>key seconds. aworld (au_expire env key seconds))\<rparr>"

definition svc_getJSON :: "'w auth_client \<Rightarrow> string \<Rightarrow> ('w, auth_doc option) auth" where
  "svc_getJSON rc key = cl_get rc key"

definition svc_setJSON :: "'w auth_client \<Rightarrow> string \<Rightarrow> auth_doc \<Rightarrow> int option \<Rightarrow> ('w, unit) auth" where
  "svc_setJSON rc key v ttlSeconds =
     ebind (cl_set rc key v) (\<lambda>_.
     case ttlSeconds of None \<Rightarrow> ereturn () | Some t \<Rightarrow> cl_expire rc key t)"

definition svc_del :: "'w auth_client \<Rightarrow> string \<Rightarrow> ('w, int) auth" where
  "svc_del rc key = cl_del rc key"

text \<open>
  What the code expects under a key. No other kind of record is ever stored there (see
  \<open>doc_fits\<close> in the properties), so the last branch of these is never taken.
\<close>

definition as_refresh :: "auth_doc option \<Rightarrow> refresh_record option" where
  "as_refresh d = (case d of Some (RefreshDoc r) \<Rightarrow> Some r | _ \<Rightarrow> None)"

definition as_family :: "auth_doc option \<Rightarrow> session_family option" where
  "as_family d = (case d of Some (FamilyDoc r) \<Rightarrow> Some r | _ \<Rightarrow> None)"

definition as_challenge :: "auth_doc option \<Rightarrow> challenge_record option" where
  "as_challenge d = (case d of Some (ChallengeDoc r) \<Rightarrow> Some r | _ \<Rightarrow> None)"

definition as_nonce :: "auth_doc option \<Rightarrow> nonce_record option" where
  "as_nonce d = (case d of Some (NonceDoc r) \<Rightarrow> Some r | _ \<Rightarrow> None)"

definition refresh_key :: "string \<Rightarrow> string" where
  "refresh_key h = ''auth:refresh:'' @ h"

definition family_key :: "string \<Rightarrow> string" where
  "family_key f = ''auth:refresh_family:'' @ f"

definition challenge_key :: "string \<Rightarrow> string" where
  "challenge_key k = ''sep10:challenge:'' @ k"

definition blacklist_key :: "'w auth_env \<Rightarrow> string \<Rightarrow> string" where
  "blacklist_key env token = ''jwt:blacklist:'' @ au_sha256 env token"

definition ACCESS_TOKEN_TTL_SECONDS :: int where
  "ACCESS_TOKEN_TTL_SECONDS = 15 * 60"

definition REFRESH_TOKEN_TTL_SECONDS :: int where
  "REFRESH_TOKEN_TTL_SECONDS = 7 * 24 * 60 * 60"

definition CHALLENGE_TTL_SECONDS :: int where
  "CHALLENGE_TTL_SECONDS = 300"

definition DEFAULT_REVOCATION_TTL_SECONDS :: int where
  "DEFAULT_REVOCATION_TTL_SECONDS = 3600"

section \<open>The blacklist of access tokens\<close>

definition blacklist_revokeToken :: "'w auth_env \<Rightarrow> 'w auth_client \<Rightarrow> string \<Rightarrow> int \<Rightarrow> ('w, unit) auth" where
  "blacklist_revokeToken env rc token ttlSeconds =
     svc_setJSON rc (blacklist_key env token) (RevokedDoc True) (Some ttlSeconds)"

definition isTokenRevoked :: "'w auth_env \<Rightarrow> 'w auth_client \<Rightarrow> string \<Rightarrow> ('w, bool) auth" where
  "isTokenRevoked env rc token =
     ebind (svc_getJSON rc (blacklist_key env token)) (\<lambda>d. ereturn (d = Some (RevokedDoc True)))"

section \<open>Access tokens\<close>

definition hashRefreshToken :: "'w auth_env \<Rightarrow> string \<Rightarrow> string" where
  "hashRefreshToken env token = au_sha256 env token"

definition extractBearerToken :: "string option \<Rightarrow> string option" where
  "extractBearerToken authorization = (case authorization of
     None \<Rightarrow> None
   | Some a \<Rightarrow> if \<not> starts_with ''Bearer '' a then None else truthy_str (second_word a))"

definition token_payload :: "string \<Rightarrow> multi_key_token option \<Rightarrow> jwt_payload" where
  "token_payload publicKey multiKeyData = \<lparr>jp_sub = publicKey, jp_multi =
     (case multiKeyData of None \<Rightarrow> None | Some m \<Rightarrow> Some (mt_signers m, mt_threshold m, mt_authLevel m))\<rparr>"

definition signToken :: "'w auth_env \<Rightarrow> string \<Rightarrow> multi_key_token option \<Rightarrow> int option \<Rightarrow> ('w, string) auth" where
  "signToken env publicKey multiKeyData expiresInSeconds =
     ebind (eget (\<lambda>s. au_jwtSign env (token_payload publicKey multiKeyData) (au_secret env)
                        expiresInSeconds (sv_world s)))
       elift"

definition signAccessToken :: "'w auth_env \<Rightarrow> string \<Rightarrow> multi_key_token option \<Rightarrow> ('w, string) auth" where
  "signAccessToken env publicKey multiKeyData =
     signToken env publicKey multiKeyData (Some ACCESS_TOKEN_TTL_SECONDS)"

text \<open>What a JWT's claims make of the holder: a multi-key token has all three extra claims.\<close>

definition read_claims :: "jwt_claims \<Rightarrow> js_error + verified_token" where
  "read_claims c = (case truthy_str (jc_sub c) of
     None \<Rightarrow> Inl (PlainError ''Invalid token payload'')
   | Some sub \<Rightarrow>
       (case (jc_signers c, truthy_str (jc_threshold c), jc_authLevel c) of
          (Some ss, Some t, Some l) \<Rightarrow> Inr (MultiToken \<lparr>mt_sub = sub, mt_signers = ss, mt_threshold = t, mt_authLevel = l\<rparr>)
        | _ \<Rightarrow> Inr (SingleToken sub)))"

definition verifyToken :: "'w auth_env \<Rightarrow> 'w auth_client \<Rightarrow> string \<Rightarrow> ('w, verified_token) auth" where
  "verifyToken env rc token =
     ebind (isTokenRevoked env rc token) (\<lambda>revoked.
     if revoked then ethrow (PlainError ''Token has been revoked'')
     else ebind (eget (\<lambda>s. au_jwtVerify env token (au_secret env) (sv_world s))) (\<lambda>decoded.
       case decoded of Inl e \<Rightarrow> ethrow e | Inr c \<Rightarrow> elift (read_claims c)))"

definition revokeToken :: "'w auth_env \<Rightarrow> 'w auth_client \<Rightarrow> string \<Rightarrow> ('w, unit) auth" where
  "revokeToken env rc token =
     ebind (aclock env) (\<lambda>now.
     let ttlSeconds = (case Option.bind (au_jwtDecode env token) jc_exp of
           None \<Rightarrow> DEFAULT_REVOCATION_TTL_SECONDS
         | Some e \<Rightarrow> if e = 0 then DEFAULT_REVOCATION_TTL_SECONDS else max (e - now div 1000) 1)
     in blacklist_revokeToken env rc token ttlSeconds)"

section \<open>Refresh tokens and session families\<close>

definition generateRefreshTokenValue :: "'w auth_env \<Rightarrow> ('w, string) auth" where
  "generateRefreshTokenValue env = ebind (adraw (au_randomBytes env 32)) (\<lambda>b. ereturn (hex b))"

fun delete_hashes :: "'w auth_client \<Rightarrow> string list \<Rightarrow> ('w, unit) auth" where
  "delete_hashes rc [] = ereturn ()"
| "delete_hashes rc (h # hs) = ebind (svc_del rc (refresh_key h)) (\<lambda>_. delete_hashes rc hs)"

definition invalidateSessionFamily :: "'w auth_env \<Rightarrow> 'w auth_client \<Rightarrow> string \<Rightarrow> ('w, unit) auth" where
  "invalidateSessionFamily env rc familyId =
     ebind (svc_getJSON rc (family_key familyId)) (\<lambda>d. case as_family d of
       Some family \<Rightarrow>
         ebind (delete_hashes rc (sf_tokenHashes family)) (\<lambda>_.
         ebind (aclock env) (\<lambda>now.
         svc_setJSON rc (family_key familyId)
           (FamilyDoc (family\<lparr>sf_tokenHashes := [], sf_revoked := True, sf_revokedAt := Some now\<rparr>))
           (Some REFRESH_TOKEN_TTL_SECONDS)))
     | None \<Rightarrow> ebind (svc_del rc (family_key familyId)) (\<lambda>_. ereturn ()))"

definition family_id :: "'w auth_env \<Rightarrow> string option \<Rightarrow> ('w, string) auth" where
  "family_id env existingFamilyId = (case truthy_str existingFamilyId of
     Some f \<Rightarrow> ereturn f | None \<Rightarrow> adraw (au_randomUUID env))"

definition existing_family :: "'w auth_client \<Rightarrow> string option \<Rightarrow> ('w, session_family option) auth" where
  "existing_family rc existingFamilyId = (case truthy_str existingFamilyId of
     Some f \<Rightarrow> ebind (svc_getJSON rc (family_key f)) (\<lambda>d. ereturn (as_family d))
   | None \<Rightarrow> ereturn None)"

definition extend_family :: "string \<Rightarrow> string \<Rightarrow> string \<Rightarrow> int \<Rightarrow> session_family option \<Rightarrow> session_family" where
  "extend_family familyId publicKey tokenHash now existingFamily =
     \<lparr>sf_familyId = familyId, sf_publicKey = publicKey,
      sf_tokenHashes = (case existingFamily of None \<Rightarrow> [tokenHash] | Some f \<Rightarrow> sf_tokenHashes f @ [tokenHash]),
      sf_revoked = False,
      sf_createdAt = (case existingFamily of None \<Rightarrow> now | Some f \<Rightarrow> sf_createdAt f),
      sf_revokedAt = None\<rparr>"

definition issueTokenPair :: "'w auth_env \<Rightarrow> 'w auth_client \<Rightarrow> string \<Rightarrow> multi_key_token option
    \<Rightarrow> string option \<Rightarrow> ('w, token_pair) auth" where
  "issueTokenPair env rc publicKey multiKeyData existingFamilyId =
     ebind (family_id env existingFamilyId) (\<lambda>familyId.
     ebind (signAccessToken env publicKey multiKeyData) (\<lambda>accessToken.
     ebind (generateRefreshTokenValue env) (\<lambda>refreshToken.
     ebind (aclock env) (\<lambda>now.
     let tokenHash = hashRefreshToken env refreshToken;
         tokenRecord = \<lparr>rt_familyId = familyId, rt_publicKey = publicKey, rt_multiKeyData = multiKeyData,
           rt_status = Active, rt_createdAt = now, rt_expiresAt = now + REFRESH_TOKEN_TTL_SECONDS * 1000\<rparr>
     in ebind (svc_setJSON rc (refresh_key tokenHash) (RefreshDoc tokenRecord) (Some REFRESH_TOKEN_TTL_SECONDS)) (\<lambda>_.
        ebind (existing_family rc existingFamilyId) (\<lambda>existingFamily.
        ebind (svc_setJSON rc (family_key familyId)
                 (FamilyDoc (extend_family familyId publicKey tokenHash now existingFamily))
                 (Some REFRESH_TOKEN_TTL_SECONDS)) (\<lambda>_.
        ereturn \<lparr>tp_access_token = accessToken, tp_refresh_token = refreshToken,
                 tp_expires_in = ACCESS_TOKEN_TTL_SECONDS,
                 tp_refresh_expires_in = REFRESH_TOKEN_TTL_SECONDS, tp_familyId = familyId\<rparr>)))))))"

text \<open>
  \<open>rotateRefreshToken\<close> up to its first write: the record of a token that may be rotated. Then
  the old token is marked and a new pair is issued. Between the two a request waits for Redis.
\<close>

definition RefreshTokenReuseError :: "string \<Rightarrow> string \<Rightarrow> js_error" where
  "RefreshTokenReuseError familyId publicKey = OtherErr ''RefreshTokenReuseError''
     ''Refresh token reuse detected; session family invalidated'' None None None None None None"

definition rotate_check :: "'w auth_env \<Rightarrow> 'w auth_client \<Rightarrow> string \<Rightarrow> ('w, refresh_record) auth" where
  "rotate_check env rc refreshToken =
     ebind (ethrow_if (refreshToken = []) (PlainError ''Invalid or expired refresh token'')) (\<lambda>_.
     let tokenKey = refresh_key (hashRefreshToken env refreshToken)
     in ebind (svc_getJSON rc tokenKey) (\<lambda>d. case as_refresh d of
          None \<Rightarrow> ethrow (PlainError ''Invalid or expired refresh token'')
        | Some record \<Rightarrow>
            ebind (svc_getJSON rc (family_key (rt_familyId record))) (\<lambda>fd.
            if (case as_family fd of Some f \<Rightarrow> sf_revoked f | None \<Rightarrow> False)
            then ethrow (PlainError ''Session family has been invalidated'')
            else if rt_status record = Rotated
            then ebind (invalidateSessionFamily env rc (rt_familyId record)) (\<lambda>_.
                 ethrow (RefreshTokenReuseError (rt_familyId record) (rt_publicKey record)))
            else ebind (aclock env) (\<lambda>now.
                 if rt_expiresAt record \<noteq> 0 \<and> now > rt_expiresAt record
                 then ebind (svc_del rc tokenKey) (\<lambda>_. ethrow (PlainError ''Refresh token has expired''))
                 else ereturn record))))"

definition rotate_finish :: "'w auth_env \<Rightarrow> 'w auth_client \<Rightarrow> string \<Rightarrow> refresh_record
    \<Rightarrow> ('w, token_pair) auth" where
  "rotate_finish env rc refreshToken record =
     ebind (aclock env) (\<lambda>now.
     let remainingTtl = (if rt_expiresAt record \<noteq> 0 then max ((rt_expiresAt record - now) div 1000) 1
                         else REFRESH_TOKEN_TTL_SECONDS)
     in ebind (svc_setJSON rc (refresh_key (hashRefreshToken env refreshToken))
                (RefreshDoc (record\<lparr>rt_status := Rotated\<rparr>)) (Some remainingTtl)) (\<lambda>_.
        issueTokenPair env rc (rt_publicKey record) (rt_multiKeyData record) (Some (rt_familyId record))))"

definition rotateRefreshToken :: "'w auth_env \<Rightarrow> 'w auth_client \<Rightarrow> string
    \<Rightarrow> ('w, token_pair \<times> multi_key_token option \<times> string) auth" where
  "rotateRefreshToken env rc refreshToken =
     ebind (rotate_check env rc refreshToken) (\<lambda>record.
     ebind (rotate_finish env rc refreshToken record) (\<lambda>newPair.
     ereturn (newPair, rt_multiKeyData record, rt_publicKey record)))"

section \<open>Challenges\<close>

definition generateChallenge :: "'w auth_env \<Rightarrow> ('w, string) auth" where
  "generateChallenge env = ebind (adraw (au_randomBytes env 32)) (\<lambda>b. ereturn (base64 b))"

definition getRequiredWeight :: "string \<Rightarrow> jsnum" where
  "getRequiredWeight threshold =
     (if threshold = ''low'' then Fin 1
      else if threshold = ''medium'' then Fin 2
      else if threshold = ''high'' then Fin 3
      else Fin 2)"

definition generateMultiKeyChallenge :: "signer_info list \<Rightarrow> string \<Rightarrow> multi_key_challenge" where
  "generateMultiKeyChallenge signers threshold =
     \<lparr>mc_requiredSigners = math_ceil (js_div (getRequiredWeight threshold)
        (foldl math_max NegInf (List.map si_weight signers))),
      mc_threshold = threshold,
      mc_signers = List.map (\<lambda>s. s\<lparr>si_signed := False\<rparr>) signers\<rparr>"

definition total_weight :: "signature_info list \<Rightarrow> jsnum" where
  "total_weight signatures = foldl (\<lambda>sum sig. js_add sum (sg_weight sig)) (Fin 0) signatures"

definition auth_level_of :: "jsnum \<Rightarrow> auth_level" where
  "auth_level_of totalWeight =
     (if js_le (getRequiredWeight ''high'') totalWeight then Full
      else if js_le (getRequiredWeight ''medium'') totalWeight then Medium
      else if js_le (getRequiredWeight ''low'') totalWeight then Partial
      else Partial)"

record weight_result =
  wr_valid :: bool
  wr_authLevel :: auth_level
  wr_signers :: "string list"

definition validateMultiKeySignatures :: "signature_info list \<Rightarrow> string \<Rightarrow> weight_result" where
  "validateMultiKeySignatures signatures threshold =
     \<lparr>wr_valid = js_le (getRequiredWeight threshold) (total_weight signatures),
      wr_authLevel = auth_level_of (total_weight signatures),
      wr_signers = List.map sg_publicKey signatures\<rparr>"

definition storeChallenge :: "'w auth_env \<Rightarrow> 'w auth_client \<Rightarrow> string \<Rightarrow> string \<Rightarrow> ('w, unit) auth" where
  "storeChallenge env rc publicKey challenge =
     ebind (aclock env) (\<lambda>now.
     svc_setJSON rc (challenge_key publicKey)
       (ChallengeDoc \<lparr>ch_challenge = challenge, ch_publicKey = publicKey, ch_createdAt = now,
          ch_transactionXdr = None\<rparr>)
       (Some CHALLENGE_TTL_SECONDS))"

definition getStoredChallenge :: "'w auth_client \<Rightarrow> string \<Rightarrow> ('w, challenge_record option) auth" where
  "getStoredChallenge rc publicKey =
     ebind (svc_getJSON rc (challenge_key publicKey)) (\<lambda>d. ereturn (as_challenge d))"

definition removeChallenge :: "'w auth_client \<Rightarrow> string \<Rightarrow> ('w, unit) auth" where
  "removeChallenge rc publicKey = ebind (svc_del rc (challenge_key publicKey)) (\<lambda>_. ereturn ())"

definition storeSep10Challenge :: "'w auth_env \<Rightarrow> 'w auth_client \<Rightarrow> string \<Rightarrow> string \<Rightarrow> string \<Rightarrow> ('w, unit) auth" where
  "storeSep10Challenge env rc publicKey challenge transactionXdr =
     ebind (aclock env) (\<lambda>now.
     svc_setJSON rc (challenge_key publicKey)
       (ChallengeDoc \<lparr>ch_challenge = challenge, ch_publicKey = publicKey, ch_createdAt = now,
          ch_transactionXdr = Some transactionXdr\<rparr>)
       (Some CHALLENGE_TTL_SECONDS))"

end
