(* ===== verification/Sep10.thy ===== *)
theory Sep10
  imports Auth_Sessions
begin

text \<open>
  \<open>backend/src/utils/sep10-stellar.ts\<close>, \<open>config/networks.ts\<close> and the verification part of
  \<open>services/auth.service.ts\<close>: building and checking SEP-10 challenge transactions. The Stellar
  SDK (reading and building XDR, key pairs) and Horizon are parameters. The value of a
  \<open>manage_data\<close> operation is held as its UTF-8 text, \<open>maxTime\<close> as an integer.
\<close>

section \<open>Networks\<close>

datatype network_type = PUBLIC | TESTNET | FUTURENET

record network_config =
  nc_horizonUrl :: string
  nc_sorobanRpcUrl :: string
  nc_passphrase :: string

definition NETWORKS :: "network_type \<Rightarrow> network_config" where
  "NETWORKS n = (case n of
     PUBLIC \<Rightarrow> \<lparr>nc_horizonUrl = ''https://horizon.stellar.org'',
       nc_sorobanRpcUrl = ''https://mainnet.stellar.org:443'',
       nc_passphrase = ''Public Global Stellar Network ; September 2015''\<rparr>
   | TESTNET \<Rightarrow> \<lparr>nc_horizonUrl = ''https://horizon-testnet.stellar.org'',
       nc_sorobanRpcUrl = ''https://soroban-testnet.stellar.org'',
       nc_passphrase = ''Test SDF Network ; September 2015''\<rparr>
   | FUTURENET \<Rightarrow> \<lparr>nc_horizonUrl = ''https://horizon-futurenet.stellar.org'',
       nc_sorobanRpcUrl = ''https://rpc-futurenet.stellar.org'',
       nc_passphrase = ''Test SDF Future Network ; October 2022''\<rparr>)"

section \<open>Transactions and the libraries\<close>

record stellar_op =
  op_type :: string
  op_name :: string
  op_value :: "string option"
  op_source :: "string option"

record stellar_tx =
  stx_operations :: "stellar_op list"
  stx_signatures :: "string list"
  stx_hash :: string
  stx_maxTime :: "int option"

record horizon_account =
  ha_low :: int
  ha_med :: int
  ha_high :: int
  ha_signers :: "(string \<times> int) list"

text \<open>
  \<open>sk_verify k\<close> is \<open>Keypair.fromPublicKey(k)\<close>, which may throw, with its \<open>verify\<close>. A response of
  Horizon is its \<open>ok\<close> and what \<open>json()\<close> gives.
\<close>

record 'w sep_env =
  sk_auth :: "'w auth_env"
  sk_fromXDR :: "string \<Rightarrow> string \<Rightarrow> js_error + stellar_tx"
  sk_build :: "string \<Rightarrow> stellar_op list \<Rightarrow> int \<times> int \<Rightarrow> string \<Rightarrow> js_error + string"
  sk_verify :: "string \<Rightarrow> js_error + (string \<Rightarrow> string \<Rightarrow> js_error + bool)"
  sk_fetch :: "string \<Rightarrow> 'w \<Rightarrow> (js_error + (bool \<times> (js_error + horizon_account))) \<times> 'w"
  sk_network :: string
  sk_anchorKey :: "string option"

record sep10_challenge =
  sc_transactionXdr :: string
  sc_challenge :: string
  sc_networkPassphrase :: string

record sep10_verification =
  sr_isValid :: bool
  sr_account :: string
  sr_error :: "string option"

section \<open>Building a challenge\<close>

definition manage_data :: "string \<Rightarrow> string \<Rightarrow> string \<Rightarrow> stellar_op" where
  "manage_data name v source =
     \<lparr>op_type = ''manageData'', op_name = name, op_value = Some v, op_source = Some source\<rparr>"

definition challenge_operations :: "string \<Rightarrow> string \<Rightarrow> string \<Rightarrow> string option \<Rightarrow> stellar_op list" where
  "challenge_operations anchorPublicKey clientPublicKey challengeValue clientDomain =
     manage_data ''stellar.sep10.challenge'' challengeValue clientPublicKey
     # (case truthy_str clientDomain of
          None \<Rightarrow> []
        | Some d \<Rightarrow> [manage_data ''client_domain'' d anchorPublicKey])"

definition generateSep10Challenge :: "'w sep_env \<Rightarrow> string \<Rightarrow> string \<Rightarrow> network_type \<Rightarrow> string
    \<Rightarrow> string option \<Rightarrow> ('w, sep10_challenge) auth" where
  "generateSep10Challenge env anchorPublicKey clientPublicKey networkType challengeValue clientDomain =
     ebind (aclock (sk_auth env)) (\<lambda>t.
     let now = t div 1000; networkPassphrase = nc_passphrase (NETWORKS networkType)
     in ebind (elift (sk_build env anchorPublicKey
                (challenge_operations anchorPublicKey clientPublicKey challengeValue clientDomain)
                (now, now + 300) networkPassphrase)) (\<lambda>xdr.
        ereturn \<lparr>sc_transactionXdr = xdr, sc_challenge = challengeValue,
                 sc_networkPassphrase = networkPassphrase\<rparr>))"

definition generateSep10ChallengeTransaction :: "'w sep_env \<Rightarrow> string \<Rightarrow> string \<Rightarrow> network_type
    \<Rightarrow> string option \<Rightarrow> ('w, sep10_challenge) auth" where
  "generateSep10ChallengeTransaction env anchorPublicKey clientPublicKey networkType clientDomain =
     ebind (generateChallenge (sk_auth env)) (\<lambda>challengeValue.
     generateSep10Challenge env anchorPublicKey clientPublicKey networkType challengeValue clientDomain)"

section \<open>Checking a signed challenge\<close>

text \<open>Some signature of the transaction verifies under the key; one that throws does not count.\<close>

definition signed_with :: "(string \<Rightarrow> string \<Rightarrow> js_error + bool) \<Rightarrow> stellar_tx \<Rightarrow> bool" where
  "signed_with verify tx \<longleftrightarrow> (\<exists>sig \<in> set (stx_signatures tx). verify (stx_hash tx) sig = Inr True)"

definition sep10_invalid :: "bool \<times> string" where
  "sep10_invalid = (False, [])"

definition verifySep10Challenge :: "'w sep_env \<Rightarrow> string \<Rightarrow> string \<Rightarrow> network_type \<Rightarrow> bool \<times> string" where
  "verifySep10Challenge env signedTransactionXdr expectedChallenge networkType =
     (case sk_fromXDR env signedTransactionXdr (nc_passphrase (NETWORKS networkType)) of
        Inl e \<Rightarrow> sep10_invalid
      | Inr transaction \<Rightarrow>
          (case stx_operations transaction of
             [operation] \<Rightarrow>
               if op_type operation \<noteq> ''manageData'' then sep10_invalid
               else if op_name operation \<noteq> ''stellar.sep10.challenge'' then sep10_invalid
               else if op_value operation \<noteq> Some expectedChallenge then sep10_invalid
               else (case truthy_str (op_source operation) of
                       None \<Rightarrow> sep10_invalid
                     | Some account \<Rightarrow>
                         (case sk_verify env account of
                            Inl e \<Rightarrow> sep10_invalid
                          | Inr verify \<Rightarrow> if signed_with verify transaction then (True, account)
                                          else sep10_invalid))
           | _ \<Rightarrow> sep10_invalid))"

definition extractAccountFromSep10Transaction :: "'w sep_env \<Rightarrow> string \<Rightarrow> network_type \<Rightarrow> string option" where
  "extractAccountFromSep10Transaction env signedTransactionXdr networkType =
     (case sk_fromXDR env signedTransactionXdr (nc_passphrase (NETWORKS networkType)) of
        Inl e \<Rightarrow> None
      | Inr transaction \<Rightarrow>
          (case stx_operations transaction of
             [operation] \<Rightarrow>
               if op_type operation \<noteq> ''manageData'' then None else truthy_str (op_source operation)
           | _ \<Rightarrow> None))"

definition isSep10ChallengeExpired :: "'w sep_env \<Rightarrow> string \<Rightarrow> network_type \<Rightarrow> int \<Rightarrow> bool" where
  "isSep10ChallengeExpired env signedTransactionXdr networkType nowMs =
     (case sk_fromXDR env signedTransactionXdr (nc_passphrase (NETWORKS networkType)) of
        Inl e \<Rightarrow> True
      | Inr tx \<Rightarrow>
          let maxTime = js_int (case stx_maxTime tx of None \<Rightarrow> 0 | Some t \<Rightarrow> t)
          in \<not> (js_less (Fin 0) maxTime \<and> js_less (js_div (js_int nowMs) (Fin 1000)) maxTime))"

definition SEP10_CHALLENGE_EXPIRED :: string where
  "SEP10_CHALLENGE_EXPIRED = ''challenge_expired''"

definition verifySep10ChallengeTransaction :: "'w sep_env \<Rightarrow> string \<Rightarrow> challenge_record \<Rightarrow> network_type
    \<Rightarrow> int \<Rightarrow> sep10_verification" where
  "verifySep10ChallengeTransaction env signedTransactionXdr storedChallenge networkType now =
     (case verifySep10Challenge env signedTransactionXdr (ch_challenge storedChallenge) networkType of
        (valid, account) \<Rightarrow>
          if valid \<and> isSep10ChallengeExpired env signedTransactionXdr networkType now
          then \<lparr>sr_isValid = False, sr_account = account, sr_error = Some SEP10_CHALLENGE_EXPIRED\<rparr>
          else \<lparr>sr_isValid = valid, sr_account = account, sr_error = None\<rparr>)"

section \<open>The check against the thresholds of the account\<close>

text \<open>\<open>encodeURIComponent\<close>, on the bytes of the text.\<close>

definition uri_unreserved :: "char \<Rightarrow> bool" where
  "uri_unreserved c \<longleftrightarrow> is_alnum c \<or> c \<in> set ''-_.!~*()'' \<or> c = CHR 0x27"

definition hex_upper :: "nat \<Rightarrow> char" where
  "hex_upper n = ''0123456789ABCDEF'' ! n"

definition encodeURIComponent :: "string \<Rightarrow> string" where
  "encodeURIComponent s = concat (List.map (\<lambda>c.
     if uri_unreserved c then [c]
     else [CHR ''%'', hex_upper (of_char c div 16), hex_upper (of_char c mod 16)]) s)"

datatype threshold_level = LowT | MedT | HighT

definition required_weight :: "threshold_level \<Rightarrow> horizon_account \<Rightarrow> int" where
  "required_weight level a = (case level of LowT \<Rightarrow> ha_low a | HighT \<Rightarrow> ha_high a | MedT \<Rightarrow> ha_med a)"

text \<open>The weights of the signers whose signature is on the transaction.\<close>

definition signer_signed :: "'w sep_env \<Rightarrow> stellar_tx \<Rightarrow> string \<Rightarrow> bool" where
  "signer_signed env tx key = (case sk_verify env key of Inl e \<Rightarrow> False | Inr verify \<Rightarrow> signed_with verify tx)"

fun accumulate_weight :: "'w sep_env \<Rightarrow> stellar_tx \<Rightarrow> int \<Rightarrow> (string \<times> int) list \<Rightarrow> int" where
  "accumulate_weight env tx totalWeight [] = totalWeight"
| "accumulate_weight env tx totalWeight ((key, weight) # signers) =
     accumulate_weight env tx
       (if weight \<le> 0 then totalWeight
        else if signer_signed env tx key then totalWeight + weight else totalWeight) signers"

record multisig_verification = sep10_verification +
  sr_totalWeight :: "int option"
  sr_requiredWeight :: "int option"

definition multisig_result :: "bool \<Rightarrow> string \<Rightarrow> string option \<Rightarrow> int option \<Rightarrow> int option
    \<Rightarrow> multisig_verification" where
  "multisig_result valid account err total_w required =
     \<lparr>sr_isValid = valid, sr_account = account, sr_error = err, sr_totalWeight = total_w,
      sr_requiredWeight = required\<rparr>"

definition check_weights :: "'w sep_env \<Rightarrow> string \<Rightarrow> string \<Rightarrow> network_type \<Rightarrow> threshold_level
    \<Rightarrow> horizon_account \<Rightarrow> js_error + multisig_verification" where
  "check_weights env signedTransactionXdr account networkType thresholdLevel a =
     (let requiredWeight = required_weight thresholdLevel a
      in if requiredWeight = 0 then Inr (multisig_result True account None (Some 1) (Some 0))
         else (case sk_fromXDR env signedTransactionXdr (nc_passphrase (NETWORKS networkType)) of
                 Inl e \<Rightarrow> Inl e
               | Inr tx \<Rightarrow>
                   let totalWeight = accumulate_weight env tx 0 (ha_signers a)
                   in Inr (multisig_result (totalWeight \<ge> requiredWeight) account None
                             (Some totalWeight) (Some requiredWeight))))"

definition verifySep10ChallengeTransactionMultiSig :: "'w sep_env \<Rightarrow> string \<Rightarrow> challenge_record
    \<Rightarrow> network_type \<Rightarrow> threshold_level \<Rightarrow> string option \<Rightarrow> ('w, multisig_verification) auth" where
  "verifySep10ChallengeTransactionMultiSig env signedTransactionXdr storedChallenge networkType
       thresholdLevel horizonUrl =
     (case verifySep10Challenge env signedTransactionXdr (ch_challenge storedChallenge) networkType of
        (valid, account) \<Rightarrow>
          if \<not> valid \<or> account = [] then ereturn (multisig_result False account None None None)
          else ebind (aclock (sk_auth env)) (\<lambda>now.
          if isSep10ChallengeExpired env signedTransactionXdr networkType now
          then ereturn (multisig_result False account (Some SEP10_CHALLENGE_EXPIRED) None None)
          else
            ecatch
              (ebind (aworld (sk_fetch env
                 ((case horizonUrl of Some u \<Rightarrow> u | None \<Rightarrow> nc_horizonUrl (NETWORKS networkType))
                  @ ''/accounts/'' @ encodeURIComponent account))) (\<lambda>(response_ok, body).
               if \<not> response_ok then ereturn (multisig_result True account None None None)
               else ebind (elift body) (\<lambda>a.
                    elift (check_weights env signedTransactionXdr account networkType thresholdLevel a))))
              (\<lambda>horizonError. ereturn (multisig_result True account None None None))))"

end
