(* ===== verification/Auth_Controller.thy ===== *)
theory Auth_Controller
  imports Sep10
begin

text \<open>
  \<open>backend/src/api/controllers/auth.controller.ts\<close>, \<open>api/routes/auth.route.ts\<close> and the token
  part of \<open>api/middleware/auth.middleware.ts\<close>: the handlers of challenge, token, refresh and
  logout over the map of the routes, and the middleware in front of every other route, over
  Redis. A handler takes what it reads of the request and gives a status and a body. The
  detection of hardware wallets, which only writes a log, is left out, and so is the tier of an
  API key, which the middleware looks up without waiting for it.
\<close>

section \<open>Requests and responses\<close>

record challenge_request =
  cq_account :: json
  cq_query_account :: json
  cq_client_domain :: json
  cq_query_client_domain :: json
  cq_signers :: "signer_info list option"
  cq_threshold :: "string option"
  cq_multiKey :: bool

record token_request =
  tq_transaction :: "string option"
  tq_signatures :: "signature_info list option"
  tq_threshold :: "string option"

record refresh_request =
  rq_refresh_token :: json
  rq_refreshToken :: json
  rq_authorization :: "string option"

record challenge_response =
  cx_transaction :: string
  cx_network_passphrase :: string
  cx_multiKeyChallenge :: "multi_key_challenge option"

record token_response =
  tk_token :: string
  tk_access_token :: "string option"
  tk_refresh_token :: "string option"
  tk_expires_in :: int
  tk_refresh_expires_in :: "int option"
  tk_authLevel :: "auth_level option"
  tk_signers :: "string list option"

datatype auth_body = ErrorBody string | ChallengeBody challenge_response | TokenBody token_response
  | MessageBody string

type_synonym auth_response = "int \<times> auth_body"

abbreviation reply_error :: "int \<Rightarrow> string \<Rightarrow> ('w, auth_response) auth" where
  "reply_error status message \<equiv> ereturn (status, ErrorBody message)"

section \<open>Reading the parameters\<close>

definition readStringParam :: "json \<Rightarrow> json \<Rightarrow> string option" where
  "readStringParam bodyValue queryValue =
     (case bodyValue of JStr s \<Rightarrow> Some s
      | _ \<Rightarrow> (case queryValue of JStr s \<Rightarrow> Some s | JArr (JStr s # _) \<Rightarrow> Some s | _ \<Rightarrow> None))"

text \<open>
  \<open>CLIENT_DOMAIN_REGEX\<close>: labels separated by dots, each of at most 63 letters, digits and
  hyphens, not at its ends; the last is two letters or more, or \<open>xn--\<close> and letters or digits,
  and further such parts after hyphens.
\<close>

definition domain_label :: "string \<Rightarrow> bool" where
  "domain_label l \<longleftrightarrow> l \<noteq> [] \<and> length l \<le> 63 \<and> is_alnum (hd l) \<and> is_alnum (last l)
     \<and> (\<forall>c \<in> set l. is_alnum c \<or> c = CHR ''-'')"

definition alnum_part :: "string \<Rightarrow> bool" where
  "alnum_part p \<longleftrightarrow> p \<noteq> [] \<and> list_all is_alnum p"

definition domain_tld :: "string \<Rightarrow> bool" where
  "domain_tld l \<longleftrightarrow>
     (case split_char (CHR ''-'') l of [] \<Rightarrow> False
      | p # ps \<Rightarrow> 2 \<le> length p \<and> list_all is_letter p \<and> list_all alnum_part ps)
     \<or> starts_with ''xn--'' l \<and> list_all alnum_part (split_char (CHR ''-'') (drop 4 l))"

definition CLIENT_DOMAIN_REGEX :: "string \<Rightarrow> bool" where
  "CLIENT_DOMAIN_REGEX s \<longleftrightarrow> (let ls = split_char (CHR ''.'') s
     in 2 \<le> length ls \<and> list_all domain_label (butlast ls) \<and> domain_tld (last ls))"

definition validateClientDomain :: "string \<Rightarrow> bool" where
  "validateClientDomain domain = (let trimmed = trim_js domain; lower = List.map to_lower trimmed in
     if trimmed = [] then False
     else if starts_with ''http://'' lower \<or> starts_with ''https://'' lower then False
     else if starts_with ''javascript:'' lower then False
     else if list_ex is_js_space trimmed then False
     else CLIENT_DOMAIN_REGEX trimmed)"

definition buildSep10NonceKey :: "string \<Rightarrow> string" where
  "buildSep10NonceKey nonce = ''sep10:nonce:'' @ nonce"

definition SEP10_NONCE_TTL_SECONDS :: int where
  "SEP10_NONCE_TTL_SECONDS = 300"

definition network_of :: "'w sep_env \<Rightarrow> network_type" where
  "network_of env = (if sk_network env = ''public'' then PUBLIC else TESTNET)"

definition or_medium :: "string option \<Rightarrow> string" where
  "or_medium threshold = (case truthy_str threshold of Some t \<Rightarrow> t | None \<Rightarrow> ''medium'')"

section \<open>The challenge endpoint\<close>

definition make_challenge :: "'w sep_env \<Rightarrow> 'w auth_client \<Rightarrow> string \<Rightarrow> string option \<Rightarrow> challenge_request
    \<Rightarrow> ('w, auth_response) auth" where
  "make_challenge env rc account client_domain req =
     ebind (generateChallenge (sk_auth env)) (\<lambda>challenge.
     let multiKeyChallenge =
           (case cq_signers req of
              Some signers \<Rightarrow> if cq_multiKey req \<and> signers \<noteq> []
                then Some (generateMultiKeyChallenge signers (or_medium (cq_threshold req))) else None
            | None \<Rightarrow> None);
         anchorPublicKey = (case truthy_str (sk_anchorKey env) of Some k \<Rightarrow> k | None \<Rightarrow> ''GBAD_PUBLIC_KEY'')
     in ebind (storeChallenge (sk_auth env) rc account challenge) (\<lambda>_.
        ebind (generateSep10ChallengeTransaction env anchorPublicKey account (network_of env) client_domain) (\<lambda>sep10.
        ebind (storeSep10Challenge (sk_auth env) rc account (sc_challenge sep10) (sc_transactionXdr sep10)) (\<lambda>_.
        ebind (aclock (sk_auth env)) (\<lambda>now.
        ebind (svc_setJSON rc (buildSep10NonceKey (sc_challenge sep10))
                 (NonceDoc \<lparr>nr_account = account, nr_createdAt = now\<rparr>) (Some SEP10_NONCE_TTL_SECONDS)) (\<lambda>_.
        ereturn (200, ChallengeBody
          \<lparr>cx_transaction = (if sc_transactionXdr sep10 \<noteq> [] then sc_transactionXdr sep10 else sc_challenge sep10),
           cx_network_passphrase = sc_networkPassphrase sep10,
           cx_multiKeyChallenge = multiKeyChallenge\<rparr>)))))))"

definition getChallenge :: "'w sep_env \<Rightarrow> 'w auth_client \<Rightarrow> challenge_request \<Rightarrow> ('w, auth_response) auth" where
  "getChallenge env rc req =
     (let client_domain = readStringParam (cq_client_domain req) (cq_query_client_domain req);
          clientDomainSupplied = client_domain \<noteq> None
            \<or> (case cq_client_domain req of JStr s \<Rightarrow> trim_js s = [] | _ \<Rightarrow> False)
      in case truthy_str (readStringParam (cq_account req) (cq_query_account req)) of
           None \<Rightarrow> reply_error 400 ''account parameter is required''
         | Some account \<Rightarrow>
             if trim_js account = [] then reply_error 400 ''account parameter is required''
             else if clientDomainSupplied
               \<and> (case truthy_str client_domain of None \<Rightarrow> True | Some d \<Rightarrow> \<not> validateClientDomain d)
             then reply_error 400 ''invalid_client_domain''
             else ecatch (make_challenge env rc account client_domain req)
                    (\<lambda>_. reply_error 500 ''Failed to generate challenge''))"

section \<open>The token endpoint\<close>

text \<open>The response for a new pair, or the legacy token where a part of the pair is empty.\<close>

definition pair_response :: "token_pair \<Rightarrow> auth_level option \<Rightarrow> string list option \<Rightarrow> token_response" where
  "pair_response p level signers =
     \<lparr>tk_token = tp_access_token p, tk_access_token = Some (tp_access_token p),
      tk_refresh_token = Some (tp_refresh_token p), tk_expires_in = tp_expires_in p,
      tk_refresh_expires_in = Some (tp_refresh_expires_in p), tk_authLevel = level, tk_signers = signers\<rparr>"

definition reply_tokens :: "'w sep_env \<Rightarrow> 'w auth_client \<Rightarrow> string \<Rightarrow> multi_key_token option
    \<Rightarrow> ('w, auth_response) auth" where
  "reply_tokens env rc account multiKeyData =
     (let level = map_option mt_authLevel multiKeyData; signers = map_option mt_signers multiKeyData
      in ebind (issueTokenPair (sk_auth env) rc account multiKeyData None) (\<lambda>p.
         if tp_access_token p \<noteq> [] \<and> tp_refresh_token p \<noteq> []
         then ereturn (200, TokenBody (pair_response p level signers))
         else ebind (signToken (sk_auth env) account multiKeyData None) (\<lambda>token.
              ereturn (200, TokenBody \<lparr>tk_token = token, tk_access_token = None, tk_refresh_token = None,
                tk_expires_in = 3600, tk_refresh_expires_in = None, tk_authLevel = level, tk_signers = signers\<rparr>))))"

definition multi_key_login :: "'w sep_env \<Rightarrow> 'w auth_client \<Rightarrow> string \<Rightarrow> signature_info list
    \<Rightarrow> string option \<Rightarrow> ('w, auth_response) auth" where
  "multi_key_login env rc transaction signatures threshold =
     (let validation = validateMultiKeySignatures signatures (or_medium threshold) in
      if \<not> wr_valid validation
      then reply_error 400 ''Insufficient signature weight for required threshold''
      else
        let mockAccount = sg_publicKey (hd signatures)
        in ebind (getStoredChallenge rc mockAccount) (\<lambda>storedChallenge.
           case storedChallenge of
             None \<Rightarrow> reply_error 400 ''Invalid or expired challenge''
           | Some ch \<Rightarrow>
               if ch_challenge ch \<noteq> transaction then reply_error 400 ''Invalid or expired challenge''
               else ebind (removeChallenge rc mockAccount) (\<lambda>_.
                    reply_tokens env rc mockAccount
                      (Some \<lparr>mt_sub = mockAccount, mt_signers = wr_signers validation,
                             mt_threshold = or_medium threshold, mt_authLevel = wr_authLevel validation\<rparr>))))"

definition single_key_login :: "'w sep_env \<Rightarrow> 'w auth_client \<Rightarrow> string \<Rightarrow> ('w, auth_response) auth" where
  "single_key_login env rc transaction =
     (case extractAccountFromSep10Transaction env transaction (network_of env) of
        None \<Rightarrow> reply_error 400 ''Invalid transaction format''
      | Some account \<Rightarrow>
          ebind (getStoredChallenge rc account) (\<lambda>storedChallenge.
          case storedChallenge of
            None \<Rightarrow> reply_error 400 ''Challenge not found or expired''
          | Some ch \<Rightarrow>
              ebind (aclock (sk_auth env)) (\<lambda>now.
              let verification = verifySep10ChallengeTransaction env transaction ch (network_of env) now
              in if sr_error verification = Some SEP10_CHALLENGE_EXPIRED
                 then ebind (removeChallenge rc account) (\<lambda>_. reply_error 401 ''challenge_expired'')
                 else if \<not> sr_isValid verification
                 then reply_error 400 ''Invalid signature or challenge''
                 else
                   let nonceKey = buildSep10NonceKey (ch_challenge ch)
                   in ebind (svc_getJSON rc nonceKey) (\<lambda>d.
                      if (case as_nonce d of None \<Rightarrow> True | Some n \<Rightarrow> nr_account n \<noteq> account)
                      then reply_error 400 ''Invalid or expired nonce''
                      else ebind (svc_del rc nonceKey) (\<lambda>_.
                           ebind (removeChallenge rc account) (\<lambda>_.
                           reply_tokens env rc account None))))))"

definition getToken :: "'w sep_env \<Rightarrow> 'w auth_client \<Rightarrow> token_request \<Rightarrow> ('w, auth_response) auth" where
  "getToken env rc req = (case truthy_str (tq_transaction req) of
     None \<Rightarrow> reply_error 400 ''transaction parameter is required''
   | Some transaction \<Rightarrow>
       ecatch
         (case tq_signatures req of
            Some (sg # sgs) \<Rightarrow> multi_key_login env rc transaction (sg # sgs) (tq_threshold req)
          | _ \<Rightarrow> single_key_login env rc transaction)
         (\<lambda>_. reply_error 500 ''Failed to verify challenge''))"

section \<open>Refreshing and logging out\<close>

definition body_token :: "refresh_request \<Rightarrow> string option" where
  "body_token req = (case rq_refresh_token req of JStr s \<Rightarrow> Some (trim_js s)
     | _ \<Rightarrow> (case rq_refreshToken req of JStr s \<Rightarrow> Some (trim_js s) | _ \<Rightarrow> None))"

definition bearer_token :: "refresh_request \<Rightarrow> string option" where
  "bearer_token req = (case rq_authorization req of
     None \<Rightarrow> None
   | Some a \<Rightarrow> if starts_with ''Bearer '' a then map_option trim_js (second_word a) else None)"

definition claims_multi :: "verified_token \<Rightarrow> multi_key_token option" where
  "claims_multi v = (case v of MultiToken m \<Rightarrow> Some m | SingleToken _ \<Rightarrow> None)"

definition claims_sub :: "verified_token \<Rightarrow> string" where
  "claims_sub v = (case v of MultiToken m \<Rightarrow> mt_sub m | SingleToken s \<Rightarrow> s)"

text \<open>The path for a bearer JWT, after a rotation that gave no tokens.\<close>

definition legacy_refresh :: "'w sep_env \<Rightarrow> 'w auth_client \<Rightarrow> string option \<Rightarrow> string option
    \<Rightarrow> ('w, auth_response) auth" where
  "legacy_refresh env rc bearerToken bodyRefreshToken =
     (case (truthy_str bearerToken, truthy_str bodyRefreshToken) of
        (Some bearer, None) \<Rightarrow>
          ebind (verifyToken (sk_auth env) rc bearer) (\<lambda>decoded.
          ebind (signToken (sk_auth env) (claims_sub decoded) (claims_multi decoded) None) (\<lambda>newToken.
          ereturn (200, TokenBody \<lparr>tk_token = newToken, tk_access_token = Some newToken,
            tk_refresh_token = None, tk_expires_in = ACCESS_TOKEN_TTL_SECONDS, tk_refresh_expires_in = None,
            tk_authLevel = map_option mt_authLevel (claims_multi decoded),
            tk_signers = map_option mt_signers (claims_multi decoded)\<rparr>)))
      | _ \<Rightarrow> reply_error 401 ''Invalid or expired refresh token'')"

definition refreshToken :: "'w sep_env \<Rightarrow> 'w auth_client \<Rightarrow> refresh_request \<Rightarrow> ('w, auth_response) auth" where
  "refreshToken env rc req =
     (let bodyRefreshToken = body_token req; bearerToken = bearer_token req
      in case truthy_str (case truthy_str bodyRefreshToken of Some t \<Rightarrow> Some t | None \<Rightarrow> bearerToken) of
           None \<Rightarrow> reply_error 401 ''Missing or invalid refresh token''
         | Some candidateRefreshToken \<Rightarrow>
             ecatch
               (ebind (rotateRefreshToken (sk_auth env) rc candidateRefreshToken) (\<lambda>(p, multiKeyData, _).
                if tp_access_token p \<noteq> [] \<and> tp_refresh_token p \<noteq> []
                then ereturn (200, TokenBody (pair_response p (map_option mt_authLevel multiKeyData)
                                                (map_option mt_signers multiKeyData)))
                else legacy_refresh env rc bearerToken bodyRefreshToken))
               (\<lambda>error. case error of
                  OtherErr n _ _ _ _ _ _ _ \<Rightarrow>
                    if n = ''RefreshTokenReuseError''
                    then reply_error 401 ''Refresh token reuse detected; session family invalidated''
                    else reply_error 401 ''Invalid or expired refresh token''
                | _ \<Rightarrow> reply_error 401 ''Invalid or expired refresh token''))"

text \<open>
  \<open>POST /auth/logout\<close>: the secret is the environment's, not the configuration's default.
\<close>

definition logout :: "'w sep_env \<Rightarrow> 'w auth_client \<Rightarrow> string option \<Rightarrow> string option \<Rightarrow> ('w, auth_response) auth" where
  "logout env rc JWT_SECRET authHeader = (case authHeader of
     None \<Rightarrow> reply_error 401 ''Missing or invalid Authorization header''
   | Some a \<Rightarrow>
       if \<not> starts_with ''Bearer '' a then reply_error 401 ''Missing or invalid Authorization header''
       else
         let token = (case second_word a of Some t \<Rightarrow> t | None \<Rightarrow> [])
         in ecatch
              (ebind (eget (\<lambda>s. au_jwtVerify (sk_auth env) token
                        (case JWT_SECRET of Some k \<Rightarrow> k | None \<Rightarrow> []) (sv_world s))) (\<lambda>decoded.
               ebind (elift decoded) (\<lambda>c.
               ebind (aclock (sk_auth env)) (\<lambda>now.
               let expiresIn = (case jc_exp c of None \<Rightarrow> 3600
                                | Some e \<Rightarrow> if e = 0 then 3600 else e - now div 1000)
               in ebind (blacklist_revokeToken (sk_auth env) rc token (max expiresIn 1)) (\<lambda>_.
                  ereturn (200, MessageBody ''Token revoked successfully''))))))
              (\<lambda>_. reply_error 401 ''Invalid token''))"

section \<open>The routes\<close>

definition auth_post_root :: "'w sep_env \<Rightarrow> token_request \<Rightarrow> challenge_request \<Rightarrow> ('w, auth_response) auth" where
  "auth_post_root env treq creq =
     (if tq_transaction treq \<noteq> None \<and> \<not> json_truthy (cq_account creq) \<and> \<not> json_truthy (cq_query_account creq)
      then getToken env memory_client treq else getChallenge env memory_client creq)"

definition auth_post_auth :: "'w sep_env \<Rightarrow> token_request \<Rightarrow> challenge_request \<Rightarrow> ('w, auth_response) auth" where
  "auth_post_auth env treq creq =
     (let is_text = (\<lambda>j. case j of JStr _ \<Rightarrow> True | _ \<Rightarrow> False)
      in if is_text (cq_account creq) \<or> is_text (cq_query_account creq)
         then getChallenge env memory_client creq else getToken env memory_client treq)"

datatype auth_route = PostChallenge challenge_request | PostToken token_request
  | PostRefresh refresh_request | PostLogout "string option"

definition auth_router :: "'w sep_env \<Rightarrow> string option \<Rightarrow> auth_route \<Rightarrow> ('w, auth_response) auth" where
  "auth_router env JWT_SECRET r = (case r of
     PostChallenge req \<Rightarrow> getChallenge env memory_client req
   | PostToken req \<Rightarrow> getToken env memory_client req
   | PostRefresh req \<Rightarrow> refreshToken env memory_client req
   | PostLogout h \<Rightarrow> logout env memory_client JWT_SECRET h)"

section \<open>The middleware\<close>

record auth_user =
  us_publicKey :: string
  us_signers :: "string list option"
  us_threshold :: "string option"
  us_authLevel :: "auth_level option"
  us_tier :: "string option"

text \<open>A request goes on with its user, or gets a response.\<close>

datatype 'a gate = Next 'a | Reply auth_response

definition user_of :: "verified_token \<Rightarrow> auth_user" where
  "user_of v = (case v of
     MultiToken m \<Rightarrow> \<lparr>us_publicKey = mt_sub m, us_signers = Some (mt_signers m),
       us_threshold = Some (mt_threshold m), us_authLevel = Some (mt_authLevel m), us_tier = None\<rparr>
   | SingleToken s \<Rightarrow> \<lparr>us_publicKey = s, us_signers = None, us_threshold = None, us_authLevel = None,
       us_tier = None\<rparr>)"

definition authMiddleware :: "'w auth_env \<Rightarrow> string option \<Rightarrow> ('w, auth_user gate) auth" where
  "authMiddleware env authorization = (case extractBearerToken authorization of
     None \<Rightarrow> ereturn (Reply (401, ErrorBody ''Authentication required. No token provided.''))
   | Some token \<Rightarrow>
       ecatch (ebind (verifyToken env (real_client env) token) (\<lambda>decoded. ereturn (Next (user_of decoded))))
         (\<lambda>_. ereturn (Reply (401, ErrorBody ''Invalid or expired token.''))))"

definition auth_level_value :: "auth_level \<Rightarrow> int" where
  "auth_level_value l = (case l of Partial \<Rightarrow> 1 | Medium \<Rightarrow> 2 | Full \<Rightarrow> 3)"

definition requireAuthLevel :: "auth_level \<Rightarrow> auth_user option \<Rightarrow> auth_user gate" where
  "requireAuthLevel requiredLevel user = (case user of
     None \<Rightarrow> Reply (401, ErrorBody ''Authentication required.'')
   | Some u \<Rightarrow>
       (case us_authLevel u of
          None \<Rightarrow> Next u
        | Some l \<Rightarrow> if auth_level_value l < auth_level_value requiredLevel
                   then Reply (403, ErrorBody ''Insufficient authentication level'') else Next u))"

record admin_user =
  ad_id :: string
  ad_email :: string
  ad_role :: string

text \<open>\<open>requireRole\<close>; \<open>findFirst\<close> is the table of administrators, by id or e-mail.\<close>

definition requireRole :: "'w auth_env \<Rightarrow> (string \<Rightarrow> 'w \<Rightarrow> (js_error + admin_user option) \<times> 'w) \<Rightarrow> string list
    \<Rightarrow> string option \<Rightarrow> admin_user option \<Rightarrow> ('w, admin_user gate) auth" where
  "requireRole env findFirst roles authorization admin =
     (let check_role = (\<lambda>a. ereturn (if ad_role a \<notin> set roles
            then Reply (403, ErrorBody ''Insufficient role'') else Next a))
      in case admin of
           Some a \<Rightarrow> check_role a
         | None \<Rightarrow>
             (case extractBearerToken authorization of
                None \<Rightarrow> ereturn (Reply (401, ErrorBody ''Authentication required. No token provided.''))
              | Some token \<Rightarrow>
                  ebind (ecatch (ebind (verifyToken env (real_client env) token) (\<lambda>v. ereturn (Some (claims_sub v))))
                           (\<lambda>_. ereturn None)) (\<lambda>subject.
                  case subject of
                    None \<Rightarrow> ereturn (Reply (401, ErrorBody ''Invalid or expired token.''))
                  | Some sub \<Rightarrow>
                      ebind (ecatch (ebind (aworld (findFirst sub)) (\<lambda>a. ereturn (Inr a))) (\<lambda>e. ereturn (Inl e))) (\<lambda>r.
                      case r of
                        Inl e \<Rightarrow> ereturn (Reply (500, ErrorBody ''Internal server error validating admin role''))
                      | Inr None \<Rightarrow> ereturn (Reply (403, ErrorBody ''Admin access required.''))
                      | Inr (Some a) \<Rightarrow> check_role a))))"

end
