(* ===== verification/Auth_Props.thy ===== *)
theory Auth_Props
  imports Auth_Controller
begin

text \<open>
  Properties of the sessions: what a login needs, what rotating a refresh token and detecting
  its reuse guarantee when requests come one after the other and when they overlap, and what
  a logout reaches.
\<close>

section \<open>The map of the routes as a store\<close>

lemma mem_get: "svc_getJSON memory_client k s = (Inr (js_get (sv_memory s) k), s)"
  by (simp add: svc_getJSON_def memory_client_def eff_defs)

lemma mem_set: "svc_setJSON memory_client k v t s = (Inr (), s\<lparr>sv_memory := js_set k v (sv_memory s)\<rparr>)"
  by (cases t) (simp_all add: svc_setJSON_def memory_client_def eff_defs)

lemma mem_del: "svc_del memory_client k s =
    (Inr (if js_get (sv_memory s) k \<noteq> None then 1 else 0), s\<lparr>sv_memory := js_delete k (sv_memory s)\<rparr>)"
  by (simp add: svc_del_def memory_client_def)

lemmas mem_ops = mem_get mem_set mem_del

definition delete_all :: "string list \<Rightarrow> (string, auth_doc) jsmap \<Rightarrow> (string, auth_doc) jsmap" where
  "delete_all hs m = foldl (\<lambda>m h. js_delete (refresh_key h) m) m hs"

lemma mem_delete_hashes: "delete_hashes memory_client hs s = (Inr (), s\<lparr>sv_memory := delete_all hs (sv_memory s)\<rparr>)"
  by (induction hs arbitrary: s) (simp_all add: eff_defs mem_ops delete_all_def)

lemma refresh_key_inj [simp]: "refresh_key h = refresh_key h' \<longleftrightarrow> h = h'"
  by (simp add: refresh_key_def)

lemma family_key_inj [simp]: "family_key h = family_key h' \<longleftrightarrow> h = h'"
  by (simp add: family_key_def)

lemma challenge_key_inj [simp]: "challenge_key h = challenge_key h' \<longleftrightarrow> h = h'"
  by (simp add: challenge_key_def)

lemma keys_differ [simp]:
  "refresh_key h \<noteq> family_key f" "family_key f \<noteq> refresh_key h"
  "refresh_key h \<noteq> challenge_key k" "challenge_key k \<noteq> refresh_key h"
  "family_key f \<noteq> challenge_key k" "challenge_key k \<noteq> family_key f"
  "refresh_key h \<noteq> buildSep10NonceKey n" "buildSep10NonceKey n \<noteq> refresh_key h"
  "family_key f \<noteq> buildSep10NonceKey n" "buildSep10NonceKey n \<noteq> family_key f"
  "challenge_key k \<noteq> buildSep10NonceKey n" "buildSep10NonceKey n \<noteq> challenge_key k"
  "blacklist_key env t \<noteq> refresh_key h" "refresh_key h \<noteq> blacklist_key env t"
  "blacklist_key env t \<noteq> family_key f" "family_key f \<noteq> blacklist_key env t"
  "blacklist_key env t \<noteq> challenge_key k" "challenge_key k \<noteq> blacklist_key env t"
  "blacklist_key env t \<noteq> buildSep10NonceKey n" "buildSep10NonceKey n \<noteq> blacklist_key env t"
  by (simp_all add: refresh_key_def family_key_def challenge_key_def blacklist_key_def buildSep10NonceKey_def)

lemma delete_all_get: "js_get (delete_all hs m) k = (if k \<in> refresh_key ` set hs then None else js_get m k)"
  by (induction hs arbitrary: m) (auto simp: delete_all_def)

section \<open>Issuing and rotating over the map\<close>

lemma as_doc_simps [simp]:
  "as_refresh (Some (RefreshDoc r)) = Some r" "as_family (Some (FamilyDoc f)) = Some f"
  "as_challenge (Some (ChallengeDoc c)) = Some c" "as_nonce (Some (NonceDoc n)) = Some n"
  "as_refresh None = None" "as_family None = None" "as_challenge None = None" "as_nonce None = None"
  by (simp_all add: as_refresh_def as_family_def as_challenge_def as_nonce_def)

text \<open>What a pair issued in a given family leaves in the map.\<close>

lemma issue_in_family:
  assumes "issueTokenPair env memory_client k mk (Some f) s = (Inr p, s')" "f \<noteq> []"
  defines "h \<equiv> hashRefreshToken env (tp_refresh_token p)"
  shows "\<exists>t now. sv_memory s' = js_set (family_key f) (FamilyDoc (extend_family f k h now
        (as_family (js_get (sv_memory s) (family_key f))))) (js_set (refresh_key h) (RefreshDoc t) (sv_memory s))
    \<and> rt_familyId t = f \<and> rt_publicKey t = k \<and> rt_multiKeyData t = mk \<and> rt_status t = Active
    \<and> rt_expiresAt t = now + 604800000 \<and> tp_familyId p = f \<and> now = au_now env (sv_world s')"
  using assms(1,2) unfolding h_def
  apply (simp add: issueTokenPair_def family_id_def truthy_str_def existing_family_def signAccessToken_def
      signToken_def generateRefreshTokenValue_def aclock_def adraw_def eff_defs mem_ops Let_def
      REFRESH_TOKEN_TTL_SECONDS_def split: prod.splits sum.splits list.splits)
  apply (auto simp: eff_defs mem_ops)
  done

definition family_revoked :: "(string, auth_doc) jsmap \<Rightarrow> string \<Rightarrow> bool" where
  "family_revoked m f \<longleftrightarrow> (case as_family (js_get m (family_key f)) of Some d \<Rightarrow> sf_revoked d | None \<Rightarrow> False)"

text \<open>The token a check lets through, and the states in which it does.\<close>

definition usable :: "'w auth_env \<Rightarrow> string \<Rightarrow> refresh_record \<Rightarrow> 'w auth_server \<Rightarrow> bool" where
  "usable env tok r s \<longleftrightarrow> tok \<noteq> []
     \<and> as_refresh (js_get (sv_memory s) (refresh_key (hashRefreshToken env tok))) = Some r
     \<and> \<not> family_revoked (sv_memory s) (rt_familyId r) \<and> rt_status r = Active
     \<and> (rt_expiresAt r = 0 \<or> au_now env (sv_world s) \<le> rt_expiresAt r)"

lemma check_ok: "rotate_check env memory_client tok s = (Inr r, s') \<longleftrightarrow> usable env tok r s \<and> s' = s"
proof -
  have "rt_status x = Rotated \<or> rt_status x = Active" for x by (cases "rt_status x") auto
  then show ?thesis
    by (auto simp: rotate_check_def usable_def family_revoked_def eff_defs mem_ops Let_def aclock_def
        invalidateSessionFamily_def mem_delete_hashes split: option.splits)
qed

lemma check_reuse:
  assumes "tok \<noteq> []" "js_get (sv_memory s) (refresh_key (hashRefreshToken env tok)) = Some (RefreshDoc r)"
    and "\<not> family_revoked (sv_memory s) (rt_familyId r)" "rt_status r = Rotated"
  shows "rotate_check env memory_client tok s
    = (Inl (RefreshTokenReuseError (rt_familyId r) (rt_publicKey r)),
       snd (invalidateSessionFamily env memory_client (rt_familyId r) s))"
  using assms by (auto simp: rotate_check_def family_revoked_def eff_defs mem_ops Let_def aclock_def
      invalidateSessionFamily_def mem_delete_hashes split: option.splits)

lemma check_missing:
  "js_get (sv_memory s) (refresh_key (hashRefreshToken env tok)) = None \<Longrightarrow>
     rotate_check env memory_client tok s = (Inl (PlainError ''Invalid or expired refresh token''), s)"
  by (simp add: rotate_check_def eff_defs mem_ops Let_def)

lemma invalidate_mem:
  "invalidateSessionFamily env memory_client f s = (Inr (), s\<lparr>sv_memory :=
     (case as_family (js_get (sv_memory s) (family_key f)) of
        None \<Rightarrow> js_delete (family_key f) (sv_memory s)
      | Some d \<Rightarrow> js_set (family_key f) (FamilyDoc (d\<lparr>sf_tokenHashes := [], sf_revoked := True,
          sf_revokedAt := Some (au_now env (sv_world s))\<rparr>)) (delete_all (sf_tokenHashes d) (sv_memory s)))\<rparr>)"
  by (auto simp: invalidateSessionFamily_def eff_defs mem_ops mem_delete_hashes aclock_def split: option.splits)

lemma finish_mem: "rotate_finish env memory_client tok r s =
   issueTokenPair env memory_client (rt_publicKey r) (rt_multiKeyData r) (Some (rt_familyId r))
     (s\<lparr>sv_memory := js_set (refresh_key (hashRefreshToken env tok)) (RefreshDoc (r\<lparr>rt_status := Rotated\<rparr>)) (sv_memory s)\<rparr>)"
  by (simp add: rotate_finish_def eff_defs mem_ops Let_def aclock_def)

lemma rotate_ok:
  "rotateRefreshToken env memory_client tok s = (Inr (p, mk, k), s') \<longleftrightarrow>
     (\<exists>r. usable env tok r s \<and> rotate_finish env memory_client tok r s = (Inr p, s')
        \<and> mk = rt_multiKeyData r \<and> k = rt_publicKey r)"
proof
  assume "rotateRefreshToken env memory_client tok s = (Inr (p, mk, k), s')"
  then show "\<exists>r. usable env tok r s \<and> rotate_finish env memory_client tok r s = (Inr p, s')
        \<and> mk = rt_multiKeyData r \<and> k = rt_publicKey r"
    by (auto simp: rotateRefreshToken_def ebind_def ereturn_def check_ok split: prod.splits sum.splits)
next
  assume "\<exists>r. usable env tok r s \<and> rotate_finish env memory_client tok r s = (Inr p, s')
        \<and> mk = rt_multiKeyData r \<and> k = rt_publicKey r"
  then obtain r where r: "usable env tok r s" "rotate_finish env memory_client tok r s = (Inr p, s')"
      "mk = rt_multiKeyData r" "k = rt_publicKey r" by blast
  then have "rotate_check env memory_client tok s = (Inr r, s)" by (simp add: check_ok)
  with r show "rotateRefreshToken env memory_client tok s = (Inr (p, mk, k), s')"
    by (simp add: rotateRefreshToken_def ebind_def ereturn_def)
qed

text \<open>The state after a rotation: the old token is marked, the new one is usable and in the family.\<close>

lemma finish_state:
  assumes "rotate_finish env memory_client tok r s = (Inr p, s')" "rt_familyId r \<noteq> []"
    and "hashRefreshToken env (tp_refresh_token p) \<noteq> hashRefreshToken env tok"
  defines "h \<equiv> hashRefreshToken env (tp_refresh_token p)"
  shows "\<exists>t d. js_get (sv_memory s') (refresh_key h) = Some (RefreshDoc t)
      \<and> rt_familyId t = rt_familyId r \<and> rt_publicKey t = rt_publicKey r \<and> rt_status t = Active
      \<and> rt_expiresAt t = au_now env (sv_world s') + 604800000
    \<and> js_get (sv_memory s') (refresh_key (hashRefreshToken env tok)) = Some (RefreshDoc (r\<lparr>rt_status := Rotated\<rparr>))
    \<and> js_get (sv_memory s') (family_key (rt_familyId r)) = Some (FamilyDoc d) \<and> h \<in> set (sf_tokenHashes d)
    \<and> \<not> sf_revoked d \<and> sf_tokenHashes d = (case as_family (js_get (sv_memory s) (family_key (rt_familyId r))) of
          None \<Rightarrow> [] | Some e \<Rightarrow> sf_tokenHashes e) @ [h]
    \<and> (\<forall>k. k \<notin> {refresh_key h, refresh_key (hashRefreshToken env tok), family_key (rt_familyId r)}
          \<longrightarrow> js_get (sv_memory s') k = js_get (sv_memory s) k)"
  using issue_in_family [OF assms(1) [unfolded finish_mem] assms(2)] assms(3) unfolding h_def
  by (auto simp: extend_family_def split: option.splits)

section \<open>Rotations one after the other, and reuse\<close>

text \<open>\<open>n\<close> rotations in a row, each of the token the one before gave: the tokens, and the state.\<close>

fun rotate_times :: "'w auth_env \<Rightarrow> nat \<Rightarrow> string \<Rightarrow> 'w auth_server \<Rightarrow> (string list \<times> 'w auth_server) option" where
  "rotate_times env 0 tok s = Some ([], s)"
| "rotate_times env (Suc n) tok s = (case rotateRefreshToken env memory_client tok s of
     (Inr (p, _, _), s') \<Rightarrow> map_option (\<lambda>(ts, s''). (tp_refresh_token p # ts, s''))
                             (rotate_times env n (tp_refresh_token p) s')
   | (Inl _, s') \<Rightarrow> None)"

definition in_family :: "string \<Rightarrow> 'w auth_env \<Rightarrow> string \<Rightarrow> string set \<Rightarrow> 'w auth_server \<Rightarrow> bool" where
  "in_family f env tok hs s \<longleftrightarrow>
     (\<exists>r. js_get (sv_memory s) (refresh_key (hashRefreshToken env tok)) = Some (RefreshDoc r)
        \<and> rt_status r = Rotated \<and> rt_familyId r = f) \<and>
     (\<exists>d. js_get (sv_memory s) (family_key f) = Some (FamilyDoc d) \<and> \<not> sf_revoked d \<and> hs \<subseteq> set (sf_tokenHashes d))"

lemma rotation_step:
  assumes "rotateRefreshToken env memory_client t s = (Inr (p, mk, k), s')"
    and "js_get (sv_memory s) (refresh_key (hashRefreshToken env t)) = Some (RefreshDoc r)" "rt_familyId r = f" "f \<noteq> []"
    and "hashRefreshToken env (tp_refresh_token p) \<noteq> hashRefreshToken env t"
    and "in_family f env tok hs s"
    and "hashRefreshToken env tok \<notin> {hashRefreshToken env t, hashRefreshToken env (tp_refresh_token p)}"
  shows "in_family f env tok (insert (hashRefreshToken env (tp_refresh_token p)) hs) s'
    \<and> (\<exists>r'. js_get (sv_memory s') (refresh_key (hashRefreshToken env (tp_refresh_token p))) = Some (RefreshDoc r')
        \<and> rt_familyId r' = f)"
proof -
  obtain r1 where r1: "usable env t r1 s" "rotate_finish env memory_client t r1 s = (Inr p, s')"
    using assms(1) by (auto simp: rotate_ok)
  then have "r1 = r" using assms(2) by (simp add: usable_def)
  with r1 assms(3-7) finish_state [of env t r s p s'] show ?thesis
    by (fastforce simp: in_family_def)
qed

lemma rotations_in_family:
  assumes "rotate_times env n t s = Some (ts, s')"
    and "js_get (sv_memory s) (refresh_key (hashRefreshToken env t)) = Some (RefreshDoc r)" "rt_familyId r = f" "f \<noteq> []"
    and "distinct (List.map (hashRefreshToken env) (tok # t # ts))" "in_family f env tok hs s"
  shows "in_family f env tok (hs \<union> hashRefreshToken env ` set ts) s'"
  using assms
proof (induction n arbitrary: t s ts r hs)
  case (Suc n)
  obtain p mk k s1 ts1 where 1: "rotateRefreshToken env memory_client t s = (Inr (p, mk, k), s1)"
      "rotate_times env n (tp_refresh_token p) s1 = Some (ts1, s')" "ts = tp_refresh_token p # ts1"
    using Suc.prems(1) by (auto split: prod.splits sum.splits)
  obtain r' where r': "js_get (sv_memory s1) (refresh_key (hashRefreshToken env (tp_refresh_token p))) = Some (RefreshDoc r')"
      "rt_familyId r' = f" and i: "in_family f env tok (insert (hashRefreshToken env (tp_refresh_token p)) hs) s1"
    using rotation_step [OF 1(1) Suc.prems(2-4) _ Suc.prems(6)] Suc.prems(5) 1(3) by auto
  show ?case
    using Suc.IH [OF 1(2) r' Suc.prems(4) _ i] Suc.prems(5) 1(3) by simp
qed simp

lemma reuse_revokes:
  assumes "in_family f env tok hs s" "tok \<noteq> []"
  shows "\<exists>k s'. rotateRefreshToken env memory_client tok s = (Inl (RefreshTokenReuseError f k), s')
    \<and> family_revoked (sv_memory s') f
    \<and> (\<forall>t. hashRefreshToken env t \<in> hs \<longrightarrow>
         rotateRefreshToken env memory_client t s' = (Inl (PlainError ''Invalid or expired refresh token''), s'))"
proof -
  obtain r d where r: "js_get (sv_memory s) (refresh_key (hashRefreshToken env tok)) = Some (RefreshDoc r)"
      "rt_status r = Rotated" "rt_familyId r = f"
    and d: "js_get (sv_memory s) (family_key f) = Some (FamilyDoc d)" "\<not> sf_revoked d" "hs \<subseteq> set (sf_tokenHashes d)"
    using assms(1) by (auto simp: in_family_def)
  let ?s' = "snd (invalidateSessionFamily env memory_client f s)"
  have "rotate_check env memory_client tok s = (Inl (RefreshTokenReuseError f (rt_publicKey r)), ?s')"
    using check_reuse [OF assms(2) r(1)] r d by (simp add: family_revoked_def)
  moreover have "family_revoked (sv_memory ?s') f"
    using d by (simp add: invalidate_mem family_revoked_def)
  moreover have "js_get (sv_memory ?s') (refresh_key h) = None" if "h \<in> hs" for h
    using d that by (auto simp: invalidate_mem delete_all_get)
  ultimately show ?thesis
    by (auto simp: rotateRefreshToken_def ebind_def check_missing)
qed

lemma usable_doc: "usable env t r s \<Longrightarrow>
    js_get (sv_memory s) (refresh_key (hashRefreshToken env t)) = Some (RefreshDoc r)"
  by (auto simp: usable_def as_refresh_def split: option.splits auth_doc.splits)

text \<open>C5. Reuse detection, over any number of rotations: a refresh token is rotated, the token it
  gave is rotated, and so on. Whoever then presents the first token again gets the reuse error;
  the family is revoked, and every token of the chain, the one in use included, is refused.
\<close>
theorem reuse_kills_chain:
  assumes chain: "rotate_times env (Suc n) tok s = Some (ts, s1)"
    and families: "\<forall>h r. js_get (sv_memory s) (refresh_key h) = Some (RefreshDoc r) \<longrightarrow> rt_familyId r \<noteq> []"
    and hashes: "distinct (List.map (hashRefreshToken env) (tok # ts))"
  shows "\<exists>f k s2. rotateRefreshToken env memory_client tok s1 = (Inl (RefreshTokenReuseError f k), s2)
    \<and> family_revoked (sv_memory s2) f
    \<and> (\<forall>t \<in> set ts. rotateRefreshToken env memory_client t s2
         = (Inl (PlainError ''Invalid or expired refresh token''), s2))"
proof -
  obtain p mk k s' ts' where 1: "rotateRefreshToken env memory_client tok s = (Inr (p, mk, k), s')"
      "rotate_times env n (tp_refresh_token p) s' = Some (ts', s1)" "ts = tp_refresh_token p # ts'"
    using chain by (auto split: prod.splits sum.splits)
  obtain r where r: "usable env tok r s" "rotate_finish env memory_client tok r s = (Inr p, s')"
    using 1(1) by (auto simp: rotate_ok)
  have f: "rt_familyId r \<noteq> []" using usable_doc [OF r(1)] families by blast
  obtain t where t: "js_get (sv_memory s') (refresh_key (hashRefreshToken env (tp_refresh_token p))) = Some (RefreshDoc t)"
      "rt_familyId t = rt_familyId r"
    and i: "in_family (rt_familyId r) env tok {hashRefreshToken env (tp_refresh_token p)} s'"
    using finish_state [OF r(2) f] hashes 1(3) by (force simp: in_family_def)
  have "in_family (rt_familyId r) env tok (hashRefreshToken env ` set ts) s1"
    using rotations_in_family [OF 1(2) t f _ i] hashes 1(3) by simp
  moreover have "tok \<noteq> []" using r(1) by (simp add: usable_def)
  ultimately show ?thesis using reuse_revokes by fastforce
qed

section \<open>Rotations that overlap\<close>

lemma new_token_usable:
  assumes "rotate_finish env memory_client tok r s = (Inr p, s')" "rt_familyId r \<noteq> []" "tp_refresh_token p \<noteq> []"
    and "hashRefreshToken env (tp_refresh_token p) \<noteq> hashRefreshToken env tok"
  shows "\<exists>q. usable env (tp_refresh_token p) q s' \<and> rt_familyId q = rt_familyId r
    \<and> rt_expiresAt q = au_now env (sv_world s') + 604800000"
  using finish_state [OF assms(1,2,4)] assms(3) by (force simp: usable_def family_revoked_def)

text \<open>Two requests with the same refresh token overlap, each past its check before the other
  writes. Both get a pair, in the same family, and neither of the new refresh tokens is refused:
  a token that was stolen and used at that moment is not detected.
\<close>
theorem overlapping_rotations_fork:
  assumes checks: "rotate_check env memory_client tok s = (Inr r1, s1)" "rotate_check env memory_client tok s1 = (Inr r2, s2)"
    and finishes: "rotate_finish env memory_client tok r1 s2 = (Inr p1, s3)" "rotate_finish env memory_client tok r2 s3 = (Inr p2, s4)"
    and family: "rt_familyId r1 \<noteq> []" and tokens: "tp_refresh_token p1 \<noteq> []" "tp_refresh_token p2 \<noteq> []"
    and hashes: "distinct (List.map (hashRefreshToken env) [tok, tp_refresh_token p1, tp_refresh_token p2])"
    and soon: "au_now env (sv_world s4) \<le> au_now env (sv_world s3) + REFRESH_TOKEN_TTL_SECONDS * 1000"
      "0 \<le> au_now env (sv_world s3)"
  shows "\<exists>q1 q2. rotate_check env memory_client (tp_refresh_token p1) s4 = (Inr q1, s4)
    \<and> rotate_check env memory_client (tp_refresh_token p2) s4 = (Inr q2, s4)
    \<and> rt_familyId q1 = rt_familyId q2"
proof -
  have r: "r2 = r1" using checks by (auto simp: check_ok usable_def)
  obtain q1 where q1: "usable env (tp_refresh_token p1) q1 s3" "rt_familyId q1 = rt_familyId r1"
      "rt_expiresAt q1 = au_now env (sv_world s3) + 604800000"
    using new_token_usable [OF finishes(1) family tokens(1)] hashes by auto
  obtain q2 where q2: "usable env (tp_refresh_token p2) q2 s4" "rt_familyId q2 = rt_familyId r1"
    using new_token_usable [OF finishes(2) _ tokens(2)] family hashes r by auto
  have "js_get (sv_memory s4) (refresh_key (hashRefreshToken env (tp_refresh_token p1)))
      = js_get (sv_memory s3) (refresh_key (hashRefreshToken env (tp_refresh_token p1)))"
    using finish_state [OF finishes(2)] family hashes r by auto
  then have "usable env (tp_refresh_token p1) q1 s4"
    using q1 q2 soon by (simp add: usable_def family_revoked_def REFRESH_TOKEN_TTL_SECONDS_def)
  with q1(2) q2 show ?thesis by (intro exI [of _ q1] exI [of _ q2]) (simp add: check_ok)
qed

text \<open>C7. A revocation that falls into a rotation is undone: when the family of a token is
  invalidated after the rotation has checked the token and before it writes, the rotation still
  issues a pair, marks the family as not revoked, and its refresh token is accepted.
\<close>
theorem rotation_revives_family:
  assumes check: "rotate_check env memory_client tok s = (Inr r, s1)"
    and invalidated: "invalidateSessionFamily env memory_client (rt_familyId r) s1 = (Inr (), s2)"
      "family_revoked (sv_memory s2) (rt_familyId r)"
    and finish: "rotate_finish env memory_client tok r s2 = (Inr p, s3)"
    and family: "rt_familyId r \<noteq> []" and token: "tp_refresh_token p \<noteq> []"
    and hashes: "hashRefreshToken env (tp_refresh_token p) \<noteq> hashRefreshToken env tok"
  shows "\<exists>q. \<not> family_revoked (sv_memory s3) (rt_familyId r)
    \<and> rotate_check env memory_client (tp_refresh_token p) s3 = (Inr q, s3)"
  using new_token_usable [OF finish family token hashes] by (auto simp: check_ok usable_def)

section \<open>What a logout reaches\<close>

lemma middleware_world:
  "sv_world s = sv_world s' \<Longrightarrow> fst (authMiddleware env h s) = fst (authMiddleware env h s')"
  by (cases "au_get env (blacklist_key env (the (extractBearerToken h))) (sv_world s')";
      cases "fst (au_get env (blacklist_key env (the (extractBearerToken h))) (sv_world s'))")
     (auto simp: authMiddleware_def verifyToken_def isTokenRevoked_def svc_getJSON_def real_client_def aworld_def
        eff_defs split: option.splits sum.splits if_splits)

lemma logout_world: "sv_world (snd (logout env memory_client k h s)) = sv_world s"
  by (auto simp: logout_def eff_defs blacklist_revokeToken_def mem_ops aclock_def Let_def split: option.splits sum.splits)

text \<open>C8. Logging out does not end a session: the token is put on the blacklist in the map of the
  authentication routes, while the middleware of every other route reads the blacklist in Redis.
  After a logout the middleware answers exactly as before it, for any token.
\<close>
theorem logout_not_seen_by_middleware:
  "fst (authMiddleware (sk_auth env) h (snd (logout env memory_client secret h' s)))
    = fst (authMiddleware (sk_auth env) h s)"
  by (rule middleware_world) (rule logout_world)

section \<open>Logging in\<close>

definition xdr_ok :: "'w sep_env \<Rightarrow> bool" where
  "xdr_ok env \<longleftrightarrow> (\<forall>anchor ops bounds net xdr. sk_build env anchor ops bounds net = Inr xdr \<longrightarrow>
     xdr \<noteq> [] \<and> (\<exists>tx. sk_fromXDR env xdr net = Inr tx \<and> stx_operations tx = ops))"

definition crypto_ok :: "'w auth_env \<Rightarrow> bool" where
  "crypto_ok env \<longleftrightarrow> (\<forall>n w. length (fst (au_randomBytes env n w)) = n) \<and>
     (\<forall>p k e w. \<exists>t. au_jwtSign env p k e w = Inr t \<and> t \<noteq> [])"

lemma base64_nonempty: "bs \<noteq> [] \<Longrightarrow> base64 bs \<noteq> []"
  by (cases bs rule: base64.cases) (simp_all add: Let_def)

lemma generateChallenge_result:
  "crypto_ok env \<Longrightarrow> generateChallenge env s = (r, s') \<Longrightarrow> \<exists>c. r = Inr c \<and> c \<noteq> [] \<and> sv_memory s' = sv_memory s"
  by (auto simp: generateChallenge_def adraw_def eff_defs crypto_ok_def split: prod.splits
      intro!: base64_nonempty) (metis fst_conv length_0_conv numeral_eq_iff zero_neq_numeral)

lemma hex_nonempty: "bs \<noteq> [] \<Longrightarrow> hex bs \<noteq> []"
  by (cases bs) (simp_all add: hex_def)

text \<open>A challenge that was given out: what is stored for the account, and what the client reads.\<close>

lemma challenge_given:
  assumes "getChallenge env memory_client req s = (Inr (200, ChallengeBody x), s')" "crypto_ok (sk_auth env)"
    and "readStringParam (cq_account req) (cq_query_account req) = Some a"
  shows "\<exists>ch xdr. js_get (sv_memory s') (challenge_key a) = Some (ChallengeDoc ch) \<and> ch_challenge ch \<noteq> []
    \<and> (\<exists>anchor bounds. sk_build env anchor (challenge_operations anchor a (ch_challenge ch)
          (readStringParam (cq_client_domain req) (cq_query_client_domain req))) bounds (cx_network_passphrase x) = Inr xdr)
    \<and> (xdr \<noteq> [] \<longrightarrow> cx_transaction x = xdr)
    \<and> js_get (sv_memory s') (buildSep10NonceKey (ch_challenge ch)) \<noteq> None
    \<and> cx_network_passphrase x = nc_passphrase (NETWORKS (network_of env))"
proof -
  let ?d = "readStringParam (cq_client_domain req) (cq_query_client_domain req)"
  have a: "a \<noteq> []" "make_challenge env memory_client a ?d req s = (Inr (200, ChallengeBody x), s')"
    using assms(1,3)
    by (auto simp: getChallenge_def Let_def ecatch_def ereturn_def truthy_str_def
        split: option.splits list.splits if_splits prod.splits sum.splits)
  obtain c1 s1 where 1: "generateChallenge (sk_auth env) s = (Inr c1, s1)"
    using generateChallenge_result [OF assms(2)] by (metis prod.exhaust)
  let ?s2 = "snd (storeChallenge (sk_auth env) memory_client a c1 s1)"
  obtain c2 s3 where 2: "generateChallenge (sk_auth env) ?s2 = (Inr c2, s3)" "c2 \<noteq> []"
    using generateChallenge_result [OF assms(2)] by (metis prod.exhaust)
  define anchor where "anchor = (case truthy_str (sk_anchorKey env) of Some k \<Rightarrow> k | None \<Rightarrow> ''GBAD_PUBLIC_KEY'')"
  define now where "now = au_now (sk_auth env) (sv_world s3)"
  let ?ch = "\<lambda>xdr. \<lparr>ch_challenge = c2, ch_publicKey = a, ch_createdAt = now, ch_transactionXdr = Some xdr\<rparr>"
  let ?build = "sk_build env anchor (challenge_operations anchor a c2 ?d) (now div 1000, now div 1000 + 300)
        (nc_passphrase (NETWORKS (network_of env)))"
  note steps = make_challenge_def ebind_def storeChallenge_def storeSep10Challenge_def mem_ops aclock_def eget_def
    ereturn_def generateSep10ChallengeTransaction_def generateSep10Challenge_def elift_def Let_def
  have s2: "?s2 = s1\<lparr>sv_memory := js_set (challenge_key a) (ChallengeDoc \<lparr>ch_challenge = c1, ch_publicKey = a,
      ch_createdAt = au_now (sk_auth env) (sv_world s1), ch_transactionXdr = None\<rparr>) (sv_memory s1)\<rparr>"
    by (simp add: storeChallenge_def mem_ops aclock_def eff_defs)
  obtain xdr where xdr1: "?build = Inr xdr"
    using a(2) 1 2(1) unfolding anchor_def now_def s2 by (cases ?build) (simp_all add: steps anchor_def now_def)
  have xdr: "?build = Inr xdr" "cx_transaction x = (if xdr \<noteq> [] then xdr else c2)"
      "cx_network_passphrase x = nc_passphrase (NETWORKS (network_of env))"
      "sv_memory s' = js_set (buildSep10NonceKey c2) (NonceDoc \<lparr>nr_account = a, nr_createdAt = now\<rparr>)
          (js_set (challenge_key a) (ChallengeDoc (?ch xdr)) (sv_memory s3))"
    using a(2) 1 2(1) xdr1 unfolding anchor_def now_def s2 by (auto simp: steps)
  have "\<exists>bounds. sk_build env anchor (challenge_operations anchor a (ch_challenge (?ch xdr)) ?d) bounds
      (cx_network_passphrase x) = Inr xdr"
    using xdr(1,3) by auto
  moreover have "js_get (sv_memory s') (challenge_key a) = Some (ChallengeDoc (?ch xdr))"
    "js_get (sv_memory s') (buildSep10NonceKey (ch_challenge (?ch xdr))) \<noteq> None"
    using xdr(4) by simp_all
  moreover have "ch_challenge (?ch xdr) \<noteq> []" "xdr \<noteq> [] \<longrightarrow> cx_transaction x = xdr"
    using 2(2) xdr(2) by simp_all
  ultimately show ?thesis using xdr(3) by blast
qed

lemma issue_new_family:
  assumes "crypto_ok env"
  shows "\<exists>p s' w. issueTokenPair env memory_client k mk None s = (Inr p, s')
    \<and> tp_access_token p \<noteq> [] \<and> tp_refresh_token p \<noteq> []
    \<and> au_jwtSign env (token_payload k mk) (au_secret env) (Some ACCESS_TOKEN_TTL_SECONDS) w = Inr (tp_access_token p)"
proof -
  obtain f w1 where 1: "au_randomUUID env (sv_world s) = (f, w1)" by fastforce
  obtain b w2 where 2: "au_randomBytes env 32 w1 = (b, w2)" by fastforce
  have "length b = 32" using assms 2 by (metis crypto_ok_def fst_conv)
  then have b: "hex b \<noteq> []" by (intro hex_nonempty) auto
  obtain t where t: "au_jwtSign env (token_payload k mk) (au_secret env) (Some ACCESS_TOKEN_TTL_SECONDS) w1 = Inr t" "t \<noteq> []"
    using assms by (metis crypto_ok_def)
  show ?thesis
    using 1 2 t b by (auto simp: issueTokenPair_def family_id_def truthy_str_def adraw_def existing_family_def
        signAccessToken_def signToken_def generateRefreshTokenValue_def aclock_def eff_defs mem_ops Let_def)
qed

text \<open>C1. Anybody can log in as any account. Whoever asks for a challenge of an account reads the
  challenge in the transaction that is given out; sending it back with one made-up signature of
  weight 3, which no code verifies, gives a pair of tokens for that account, of level full.
\<close>
theorem login_without_signature:
  assumes challenge: "getChallenge env memory_client req s = (Inr (200, ChallengeBody x), s')"
    and account: "readStringParam (cq_account req) (cq_query_account req) = Some a"
    and sdk: "xdr_ok env" and crypto: "crypto_ok (sk_auth env)"
  shows "\<exists>tx c t s'' w. sk_fromXDR env (cx_transaction x) (cx_network_passphrase x) = Inr tx
    \<and> op_value (hd (stx_operations tx)) = Some c
    \<and> getToken env memory_client \<lparr>tq_transaction = Some c,
        tq_signatures = Some [\<lparr>sg_publicKey = a, sg_signature = made_up, sg_weight = Fin 3\<rparr>],
        tq_threshold = Some ''high''\<rparr> s' = (Inr (200, TokenBody t), s'')
    \<and> tk_authLevel t = Some Full
    \<and> au_jwtSign (sk_auth env) \<lparr>jp_sub = a, jp_multi = Some ([a], ''high'', Full)\<rparr> (au_secret (sk_auth env))
        (Some 900) w = Inr (tk_token t)"
proof -
  obtain ch xdr anchor bounds where ch: "js_get (sv_memory s') (challenge_key a) = Some (ChallengeDoc ch)"
      "ch_challenge ch \<noteq> []"
    and b: "sk_build env anchor (challenge_operations anchor a (ch_challenge ch)
          (readStringParam (cq_client_domain req) (cq_query_client_domain req))) bounds (cx_network_passphrase x) = Inr xdr"
    and x: "xdr \<noteq> [] \<longrightarrow> cx_transaction x = xdr"
    using challenge_given [OF challenge crypto account] by blast
  obtain tx where tx: "sk_fromXDR env (cx_transaction x) (cx_network_passphrase x) = Inr tx"
      "op_value (hd (stx_operations tx)) = Some (ch_challenge ch)"
  proof -
    obtain tx where "xdr \<noteq> []" "sk_fromXDR env xdr (cx_network_passphrase x) = Inr tx"
        "stx_operations tx = challenge_operations anchor a (ch_challenge ch)
          (readStringParam (cq_client_domain req) (cq_query_client_domain req))"
      using sdk b unfolding xdr_ok_def by blast
    with x that show thesis by (simp add: challenge_operations_def manage_data_def)
  qed
  let ?sg = "[\<lparr>sg_publicKey = a, sg_signature = made_up, sg_weight = Fin 3\<rparr>]"
  let ?mk = "\<lparr>mt_sub = a, mt_signers = [a], mt_threshold = ''high'', mt_authLevel = Full\<rparr>"
  have v: "validateMultiKeySignatures ?sg ''high'' = \<lparr>wr_valid = True, wr_authLevel = Full, wr_signers = [a]\<rparr>"
    by (simp add: validateMultiKeySignatures_def total_weight_def getRequiredWeight_def auth_level_of_def)
  let ?s1 = "s'\<lparr>sv_memory := js_delete (challenge_key a) (sv_memory s')\<rparr>"
  obtain p s'' w where p: "issueTokenPair (sk_auth env) memory_client a (Some ?mk) None ?s1 = (Inr p, s'')"
      "tp_access_token p \<noteq> []" "tp_refresh_token p \<noteq> []"
      "au_jwtSign (sk_auth env) (token_payload a (Some ?mk)) (au_secret (sk_auth env))
         (Some ACCESS_TOKEN_TTL_SECONDS) w = Inr (tp_access_token p)"
    using issue_new_family [OF crypto] by blast
  have "getToken env memory_client \<lparr>tq_transaction = Some (ch_challenge ch), tq_signatures = Some ?sg,
      tq_threshold = Some ''high''\<rparr> s'
    = (Inr (200, TokenBody (pair_response p (Some Full) (Some [a]))), s'')"
    using ch p v by (simp add: getToken_def truthy_str_def multi_key_login_def or_medium_def Let_def
        getStoredChallenge_def removeChallenge_def mem_ops reply_tokens_def eff_defs split: list.split)
  with tx p(4) show ?thesis
    by (fastforce simp: pair_response_def token_payload_def ACCESS_TOKEN_TTL_SECONDS_def)
qed

lemma challenge_domain:
  assumes "getChallenge env memory_client req s = (Inr (200, ChallengeBody x), s')"
    and "readStringParam (cq_client_domain req) (cq_query_client_domain req) = Some d"
  shows "d \<noteq> []"
  using assms by (auto simp: getChallenge_def Let_def truthy_str_def ereturn_def split: option.splits list.splits if_splits)

text \<open>C26. The transaction of a challenge that names the domain of the wallet is never redeemed. It has two
  operations, and the check of a signed challenge wants exactly one: however the client signs it, a request that
  carries it without a list of signatures is answered that the transaction is invalid, and changes nothing. A request that carries it
  with a list of signatures is not read as a transaction at all: it is accepted only where the signed transaction, as a text, is the
  challenge value that is stored for the first signer. (That the value itself, sent as a text with made-up signatures, is accepted is C1.)
\<close>
theorem client_domain_transaction_refused:
  assumes challenge: "getChallenge env memory_client req s = (Inr (200, ChallengeBody x), s')"
    and account: "readStringParam (cq_account req) (cq_query_account req) = Some a"
    and domain: "readStringParam (cq_client_domain req) (cq_query_client_domain req) = Some d"
    and sdk: "xdr_ok env" and crypto: "crypto_ok (sk_auth env)"
    and signed: "sk_fromXDR env (cx_transaction x) (cx_network_passphrase x) = Inr tx" "signed \<noteq> []"
      "sk_fromXDR env signed (cx_network_passphrase x) = Inr (tx\<lparr>stx_signatures := sigs\<rparr>)"
  shows "(\<forall>sgs \<in> {None, Some []}. getToken env memory_client \<lparr>tq_transaction = Some signed, tq_signatures = sgs, tq_threshold = t\<rparr> s''
      = (Inr (400, ErrorBody ''Invalid transaction format''), s''))
    \<and> (\<forall>sg sgs b s3. getToken env memory_client \<lparr>tq_transaction = Some signed, tq_signatures = Some (sg # sgs), tq_threshold = t\<rparr> s''
        = (Inr (200, b), s3) \<longrightarrow>
        (\<exists>ch. js_get (sv_memory s'') (challenge_key (sg_publicKey sg)) = Some (ChallengeDoc ch) \<and> ch_challenge ch = signed))"
proof -
  obtain ch xdr anchor bounds where "js_get (sv_memory s') (challenge_key a) = Some (ChallengeDoc ch)"
    and b: "sk_build env anchor (challenge_operations anchor a (ch_challenge ch) (Some d)) bounds (cx_network_passphrase x) = Inr xdr"
    and x: "xdr \<noteq> [] \<longrightarrow> cx_transaction x = xdr" and n: "cx_network_passphrase x = nc_passphrase (NETWORKS (network_of env))"
    using challenge_given [OF challenge crypto account] unfolding domain by blast
  obtain tx' where "xdr \<noteq> []" "sk_fromXDR env xdr (cx_network_passphrase x) = Inr tx'"
      "stx_operations tx' = challenge_operations anchor a (ch_challenge ch) (Some d)"
    using sdk b unfolding xdr_ok_def by blast
  then have "stx_operations tx = challenge_operations anchor a (ch_challenge ch) (Some d)"
    using x signed(1) by simp
  moreover obtain c d' where "d = c # d'" using challenge_domain [OF challenge domain] by (cases d) auto
  ultimately obtain o1 o2 where "stx_operations tx = [o1, o2]"
    by (simp add: challenge_operations_def truthy_str_def)
  then have "extractAccountFromSep10Transaction env signed (network_of env) = None"
    using signed(3) n by (simp add: extractAccountFromSep10Transaction_def)
  moreover have given: "truthy_str (Some signed) = Some signed" using signed(2) by (simp add: truthy_str_def split: list.split)
  moreover have "\<exists>ch. js_get (sv_memory s'') (challenge_key (sg_publicKey sg)) = Some (ChallengeDoc ch) \<and> ch_challenge ch = signed"
    if "getToken env memory_client \<lparr>tq_transaction = Some signed, tq_signatures = Some (sg # sgs), tq_threshold = t\<rparr> s'' = (Inr (200, b), s3)"
    for sg sgs b s3
    using that given
    by (auto simp: getToken_def multi_key_login_def getStoredChallenge_def mem_ops ecatch_def ebind_def ereturn_def as_challenge_def Let_def
        split: option.splits auth_doc.splits if_splits)
  ultimately show ?thesis
    by (simp add: getToken_def single_key_login_def eff_defs)
qed

section \<open>The thresholds of an account\<close>

lemma accumulate_sum:
  "accumulate_weight env tx n signers =
     n + sum_list (List.map snd (filter (\<lambda>(k, w). 0 < w \<and> signer_signed env tx k) signers))"
  by (induction signers arbitrary: n) (auto split: if_splits)

text \<open>The check against the thresholds of the account, for a challenge that is signed by its
  account and not expired: when Horizon answers, the login is valid exactly when the positive
  weights of the signers who signed reach the threshold, or the threshold is zero; when Horizon
  cannot be reached or does not know the account, it is valid with any signer of any weight.
\<close>
theorem multisig_valid_iff:
  assumes basic: "verifySep10Challenge env xdr (ch_challenge ch) net = (True, account)" "account \<noteq> []"
    and fresh: "\<not> isSep10ChallengeExpired env xdr net (au_now (sk_auth env) (sv_world s))"
    and parsed: "sk_fromXDR env xdr (nc_passphrase (NETWORKS net)) = Inr tx"
  shows "\<exists>v s'. verifySep10ChallengeTransactionMultiSig env xdr ch net level None s = (Inr v, s')
    \<and> (sr_isValid v \<longleftrightarrow>
        (case fst (sk_fetch env (nc_horizonUrl (NETWORKS net) @ ''/accounts/'' @ encodeURIComponent account) (sv_world s)) of
           Inr (True, Inr a) \<Rightarrow> required_weight level a = 0 \<or> required_weight level a
             \<le> sum_list (List.map snd (filter (\<lambda>(k, w). 0 < w \<and> signer_signed env tx k) (ha_signers a)))
         | _ \<Rightarrow> True))"
proof -
  let ?url = "nc_horizonUrl (NETWORKS net) @ ''/accounts/'' @ encodeURIComponent account"
  obtain r w where f: "sk_fetch env ?url (sv_world s) = (r, w)" by fastforce
  show ?thesis
    using basic fresh parsed f
    by (cases r) (auto simp: verifySep10ChallengeTransactionMultiSig_def aclock_def aworld_def eff_defs check_weights_def
        multisig_result_def Let_def accumulate_sum split: sum.splits prod.splits bool.splits)
qed

section \<open>Refreshing with an access token\<close>

text \<open>A bearer JWT is never refreshed, valid or not: the rotation comes first and throws for a
  token that is no refresh token, so the path that would verify the JWT and sign a new one is not
  reached, and the answer is 401.
\<close>
theorem bearer_jwt_never_refreshed:
  assumes "body_token req = None" "bearer_token req = Some jwt" "jwt \<noteq> []"
    and "js_get (sv_memory s) (refresh_key (hashRefreshToken (sk_auth env) jwt)) = None"
  shows "refreshToken env memory_client req s = (Inr (401, ErrorBody ''Invalid or expired refresh token''), s)"
proof -
  have "truthy_str (Some jwt) = Some jwt" using assms(3) by (simp add: truthy_str_def split: list.split)
  moreover have "truthy_str None = None" by (simp add: truthy_str_def)
  ultimately show ?thesis
    using assms(1,2) by (simp add: refreshToken_def rotateRefreshToken_def check_missing [OF assms(4)] eff_defs)
qed

end
