(* ===== verification/Js_Bytes.thy ===== *)
theory Js_Bytes
  imports Js_Text
begin

text \<open>
  Buffers from text: \<open>Buffer.from(s, 'hex')\<close> and \<open>Buffer.from(s, 'base64')\<close>, and that they undo
  \<open>toString('hex')\<close> and \<open>toString('base64')\<close>; lemmas on texts without separators. A byte is a character below 256.
\<close>

section \<open>Texts without separators\<close>

lemma truthy_nonempty: "s \<noteq> [] \<Longrightarrow> truthy_str (Some s) = Some s"
  by (cases s) (simp_all add: truthy_str_def)

lemma split_first_append: "c \<notin> set a \<Longrightarrow> split_first c (a @ c # b) = Some (a, b)"
  by (induction a) (auto simp: split_first_def)

lemma split_char_none: "d \<notin> set s \<Longrightarrow> split_char d s = [s]"
  by (induction s) auto

lemma split_char_append: "d \<notin> set a \<Longrightarrow> split_char d (a @ d # b) = a # split_char d b"
  by (induction a) auto

lemma trim_js_none: "list_all (\<lambda>c. \<not> is_js_space c) s \<Longrightarrow> trim_js s = s"
proof -
  have d: "list_all (\<lambda>c. \<not> is_js_space c) xs \<Longrightarrow> dropWhile is_js_space xs = xs" for xs
    by (cases xs) auto
  show "list_all (\<lambda>c. \<not> is_js_space c) s \<Longrightarrow> trim_js s = s"
    by (simp add: trim_js_def d)
qed

section \<open>Hexadecimal\<close>

definition hex_value :: "char \<Rightarrow> nat option" where
  "hex_value c = (let n = of_char c in
     if 48 \<le> n \<and> n \<le> 57 then Some (n - 48)
     else if 97 \<le> n \<and> n \<le> 102 then Some (n - 87)
     else if 65 \<le> n \<and> n \<le> 70 then Some (n - 55) else None)"

text \<open>Decoding stops at the first pair that is not of two digits.\<close>

fun hex_decode :: "string \<Rightarrow> string" where
  "hex_decode (a # b # s) = (case (hex_value a, hex_value b) of
     (Some x, Some y) \<Rightarrow> char_of (16 * x + y) # hex_decode s | _ \<Rightarrow> [])"
| "hex_decode s = []"

definition is_hex :: "char \<Rightarrow> bool" where
  "is_hex c \<longleftrightarrow> (let n = of_char c :: nat in (48 \<le> n \<and> n \<le> 57) \<or> (97 \<le> n \<and> n \<le> 102))"

text \<open>What holds of the digits that the kernel evaluates holds of every digit.\<close>

lemma hex_digits_all: "list_all Q [0..<16] \<Longrightarrow> n < 16 \<Longrightarrow> Q n"
  by (simp add: list_all_iff)

lemma hex_digit_is_hex: "n < 16 \<Longrightarrow> is_hex (hex_digit n)"
  by (erule hex_digits_all [rotated]) code_simp

lemma hex_value_digit: "n < 16 \<Longrightarrow> hex_value (hex_digit n) = Some n"
  by (erule hex_digits_all [rotated]) code_simp

lemma byte_div_16: "of_char (c :: char) div 16 < (16 :: nat)"
  using nat_of_char_less_256 [of c] by presburger

lemma hex_is_hex: "list_all is_hex (hex bs)"
  using byte_div_16 by (auto simp: hex_def list_all_iff hex_digit_is_hex)

lemma hex_plain: "is_hex c \<Longrightarrow> \<not> is_js_space c \<and> c \<noteq> CHR '','' \<and> c \<noteq> CHR ''='' \<and> c \<noteq> CHR '':'' \<and> c \<noteq> CHR ''@'' \<and> to_lower c = c"
  by (auto simp: is_hex_def is_js_space_def to_lower_def)

lemma hex_empty: "hex bs = [] \<longleftrightarrow> bs = []"
  by (cases bs) (simp_all add: hex_def)

lemma hex_Cons: "hex (c # bs) = hex_digit (of_char c div 16) # hex_digit (of_char c mod 16) # hex bs"
  by (simp add: hex_def)

lemma hex_Nil [simp]: "hex [] = []"
  by (simp add: hex_def)

lemma hex_decode_hex [simp]: "hex_decode (hex bs) = bs"
proof (induction bs)
  case (Cons c bs)
  have "16 * (of_char c div 16) + of_char c mod 16 = (of_char c :: nat)" by simp
  then show ?case
    using Cons.IH hex_value_digit [OF byte_div_16, of c] hex_value_digit [of "of_char c mod 16"]
    by (simp add: hex_Cons)
qed simp

lemma hex_inj: "hex a = hex b \<longleftrightarrow> a = b"
  using hex_decode_hex by metis

lemma length_hex: "length (hex bs) = 2 * length bs"
  by (induction bs) (simp_all add: hex_Cons)

section \<open>Base64\<close>

text \<open>The value of a character; the alphabet for URLs is read too, and other characters are left out.\<close>

definition b64_value :: "char \<Rightarrow> nat option" where
  "b64_value c = (let n = of_char c in
     if 65 \<le> n \<and> n \<le> 90 then Some (n - 65)
     else if 97 \<le> n \<and> n \<le> 122 then Some (n - 71)
     else if 48 \<le> n \<and> n \<le> 57 then Some (n + 4)
     else if n = 43 \<or> n = 45 then Some 62
     else if n = 47 \<or> n = 95 then Some 63 else None)"

definition b64_values :: "string \<Rightarrow> nat list" where
  "b64_values s = List.map_filter b64_value (takeWhile (\<lambda>c. c \<noteq> CHR ''='') s)"

fun b64_bytes :: "nat list \<Rightarrow> string" where
  "b64_bytes (a # b # c # d # vs) = (let n = ((a * 64 + b) * 64 + c) * 64 + d in
     char_of (n div 65536) # char_of (n div 256 mod 256) # char_of (n mod 256) # b64_bytes vs)"
| "b64_bytes [a, b, c] = (let n = (a * 64 + b) * 64 + c in [char_of (n div 1024), char_of (n div 4 mod 256)])"
| "b64_bytes [a, b] = [char_of ((a * 64 + b) div 16)]"
| "b64_bytes vs = []"

definition base64_decode :: "string \<Rightarrow> string" where
  "base64_decode s = b64_bytes (b64_values s)"

lemma upto_64: "[0..<64 :: nat] =
     [0, 1, 2, 3, 4, 5, 6, 7, 8, 9, 10, 11, 12, 13, 14, 15, 16, 17, 18, 19, 20, 21, 22, 23, 24, 25, 26,
      27, 28, 29, 30, 31, 32, 33, 34, 35, 36, 37, 38, 39, 40, 41, 42, 43, 44, 45, 46, 47, 48, 49, 50, 51,
      52, 53, 54, 55, 56, 57, 58, 59, 60, 61, 62, 63]"
  by code_simp

lemma b64_value_digit: "n < 64 \<Longrightarrow> b64_value (b64_digit n) = Some n \<and> b64_digit n \<noteq> CHR ''=''"
proof -
  assume "n < 64"
  moreover have "list_all (\<lambda>n. b64_value (b64_digit n) = Some n \<and> b64_digit n \<noteq> CHR ''='') [0..<64]"
    unfolding upto_64 by (simp add: b64_digit_def b64_value_def)
  ultimately show ?thesis by (simp add: list_all_iff)
qed

lemma b64_values_digits:
  "list_all (\<lambda>n. n < 64) vs \<Longrightarrow> b64_values (List.map b64_digit vs @ s) = vs @ b64_values s"
proof (induction vs)
  case (Cons v vs)
  then have v: "b64_value (b64_digit v) = Some v" "b64_digit v \<noteq> CHR ''=''" using b64_value_digit by auto
  then show ?case using Cons by (simp add: b64_values_def List.map_filter_simps)
qed simp

lemma b64_values_end: "b64_values [] = []" "b64_values (CHR ''='' # s) = []"
  by (simp_all add: b64_values_def List.map_filter_simps)

lemma byte_lt: "of_char (c :: char) < (256 :: nat)"
  by simp

lemma join_digits:
  fixes n :: nat
  shows "((n div 262144 * 64 + n div 4096 mod 64) * 64 + n div 64 mod 64) * 64 + n mod 64 = n"
    "(n div 4096 * 64 + n div 64 mod 64) * 64 + n mod 64 = n"
    "n div 64 * 64 + n mod 64 = n"
proof -
  have d: "n div 262144 = n div 4096 div 64" "n div 4096 = n div 64 div 64" by (simp_all add: div_mult2_eq [symmetric])
  have "n div 262144 * 64 + n div 4096 mod 64 = n div 4096" using d(1) by simp
  moreover have "n div 4096 * 64 + n div 64 mod 64 = n div 64" using d(2) by simp
  ultimately show "((n div 262144 * 64 + n div 4096 mod 64) * 64 + n div 64 mod 64) * 64 + n mod 64 = n"
    "(n div 4096 * 64 + n div 64 mod 64) * 64 + n mod 64 = n" "n div 64 * 64 + n mod 64 = n" by simp_all
qed

lemma three_bytes:
  fixes a b c :: nat
  assumes "a < 256" "b < 256" "c < 256" "n = a * 65536 + b * 256 + c"
  shows "n div 262144 < 64" "n div 65536 = a" "n div 256 mod 256 = b" "n mod 256 = c"
proof -
  have "n < 262144 * 64" using assms by linarith
  then show "n div 262144 < 64" by (simp add: less_mult_imp_div_less)
  have n: "n = (a * 256 + b) * 256 + c" using assms(4) by simp
  then have m: "n mod 256 = c" "n div 256 = a * 256 + b" unfolding n using assms(3)
    by (simp_all only: mod_mult_self3 mod_less div_mult_self3 div_less)
  then show "n mod 256 = c" "n div 256 mod 256 = b" using assms(2) by simp_all
  have "n div 65536 = n div 256 div 256" by (simp add: div_mult2_eq [symmetric])
  then show "n div 65536 = a" using m(2) assms(2) by simp
qed

lemma two_bytes:
  fixes a b :: nat
  assumes "a < 256" "b < 256" "n = (a * 256 + b) * 4"
  shows "n div 4096 < 64" "n div 1024 = a" "n div 4 mod 256 = b"
proof -
  have k: "n div 4 = a * 256 + b" using assms(3) by simp
  then show "n div 4 mod 256 = b" using assms(2) by simp
  have "n div 1024 = n div 4 div 256" by (simp add: div_mult2_eq [symmetric])
  then show "n div 1024 = a" using k assms(2) by simp
  have "n < 262144" using assms by simp
  then have "n < 64 * 4096" by simp
  then show "n div 4096 < 64" by (rule less_mult_imp_div_less)
qed

lemma base64_decode_base64 [simp]: "base64_decode (base64 bs) = bs"
proof (induction bs rule: base64.induct)
  case (4 a b c bs)
  define n where "n = of_char a * 65536 + of_char b * 256 + (of_char c :: nat)"
  note f = three_bytes [OF byte_lt byte_lt byte_lt n_def]
  have "base64_decode (base64 (a # b # c # bs))
      = b64_bytes ([n div 262144, n div 4096 mod 64, n div 64 mod 64, n mod 64] @ b64_values (base64 bs))"
    using b64_values_digits [of "[n div 262144, n div 4096 mod 64, n div 64 mod 64, n mod 64]" "base64 bs"] f(1)
    by (simp add: base64_decode_def n_def [symmetric] Let_def)
  also have "\<dots> = [char_of (n div 65536), char_of (n div 256 mod 256), char_of (n mod 256)] @ b64_bytes (b64_values (base64 bs))"
    by (simp only: append_Cons append_Nil b64_bytes.simps Let_def join_digits)
  also have "\<dots> = a # b # c # bs" using 4 f by (simp add: base64_decode_def [symmetric])
  finally show ?case .
next
  case (3 a b)
  define n where "n = (of_char a * 256 + (of_char b :: nat)) * 4"
  note n = two_bytes [OF byte_lt byte_lt n_def]
  have e: "base64 [a, b] = List.map b64_digit [n div 4096, n div 64 mod 64, n mod 64] @ ''=''"
    by (simp only: base64.simps Let_def n_def list.map append_Cons append_Nil)
  have "base64_decode (base64 [a, b]) = b64_bytes ([n div 4096, n div 64 mod 64, n mod 64] @ b64_values ''='')"
    unfolding base64_decode_def e using n(1) by (subst b64_values_digits) simp_all
  also have "\<dots> = b64_bytes [n div 4096, n div 64 mod 64, n mod 64]" by (simp add: b64_values_end)
  also have "\<dots> = [char_of (n div 1024), char_of (n div 4 mod 256)]" by (simp only: b64_bytes.simps Let_def join_digits)
  finally show ?case using n by simp
next
  case (2 a)
  define n where "n = (of_char a :: nat) * 16"
  have n: "n div 64 < 64" "(n div 64 * 64 + n mod 64) div 16 = of_char a"
    using byte_lt [of a] by (simp_all only: join_digits) (simp_all add: n_def less_mult_imp_div_less)
  have "base64_decode (base64 [a]) = b64_bytes [n div 64, n mod 64]"
    using b64_values_digits [of "[n div 64, n mod 64]" "''==''"] n(1)
    by (simp add: base64_decode_def n_def [symmetric] Let_def b64_values_end)
  then show ?case using n(2) by (simp only: b64_bytes.simps char_of_char)
qed (simp add: base64_decode_def b64_values_end)

end
