(* ===== verification/Auth_Sequences.thy ===== *)
theory Auth_Sequences
  imports Auth_Props Js_Bytes
begin

text \<open>
  The authentication routes as a machine driven by requests that come one after the other: what
  is stored under which key, and the families of refresh tokens.
\<close>

section \<open>The machine\<close>

definition auth_step :: "'w sep_env \<Rightarrow> string option \<Rightarrow> 'w auth_server \<Rightarrow> auth_route \<Rightarrow> 'w auth_server" where
  "auth_step env JWT_SECRET s r = snd (auth_router env JWT_SECRET r s)"

lemma memory_reads: "preserves P (aclock e)" "preserves P (svc_getJSON memory_client key)"
  by (simp_all add: preserves_def aclock_def eff_defs mem_ops)

text \<open>The challenge endpoint draws random bytes and writes under the keys of challenges and nonces.\<close>

lemma getChallenge_preserves:
  fixes env :: "'w sep_env" and P :: "'w auth_server \<Rightarrow> bool"
  assumes random: "\<And>n. preserves P (adraw (au_randomBytes (sk_auth env) n))"
    and set_challenge: "\<And>a c now x t. preserves P (svc_setJSON memory_client (challenge_key a) (ChallengeDoc
      \<lparr>ch_challenge = c, ch_publicKey = a, ch_createdAt = now, ch_transactionXdr = x\<rparr>) t)"
    and set_nonce: "\<And>c d t. preserves P (svc_setJSON memory_client (buildSep10NonceKey c) (NonceDoc d) t)"
  shows "preserves P (getChallenge env memory_client req)"
  unfolding getChallenge_def make_challenge_def storeChallenge_def storeSep10Challenge_def
    generateSep10ChallengeTransaction_def generateSep10Challenge_def generateChallenge_def Let_def
  by (intro preserves_rules memory_reads random set_challenge set_nonce)

text \<open>
  What a property of the server has to be kept by for every request to keep it: the challenge
  endpoint, the writes to the blacklist, the removal of challenges and nonces, the issue of a
  pair in a new family, and a rotation.
\<close>

locale auth_invariant =
  fixes env :: "'w sep_env" and P :: "'w auth_server \<Rightarrow> bool"
  assumes getChallenge_P: "preserves P (getChallenge env memory_client req)"
    and set_revoked: "preserves P (svc_setJSON memory_client (blacklist_key (sk_auth env) c) (RevokedDoc b) t)"
    and del_challenge: "preserves P (svc_del memory_client (challenge_key a))"
    and del_nonce: "preserves P (svc_del memory_client (buildSep10NonceKey c))"
    and issue: "preserves P (issueTokenPair (sk_auth env) memory_client k mk None)"
    and rotate: "preserves P (rotateRefreshToken (sk_auth env) memory_client tok)"
begin

lemmas rules = preserves_rules memory_reads set_revoked del_challenge del_nonce issue rotate

lemma reply_tokens_P: "preserves P (reply_tokens env memory_client a mk)"
  unfolding reply_tokens_def signToken_def Let_def by (intro rules)

lemma getToken_P: "preserves P (getToken env memory_client req)"
  unfolding getToken_def multi_key_login_def single_key_login_def getStoredChallenge_def removeChallenge_def Let_def
  by (intro rules reply_tokens_P)

lemma legacy_refresh_P: "preserves P (legacy_refresh env memory_client b t)"
  unfolding legacy_refresh_def verifyToken_def isTokenRevoked_def signToken_def by (intro rules)

lemma refreshToken_P: "preserves P (refreshToken env memory_client req)"
proof -
  have "preserves P (case e of OtherErr n _ _ _ _ _ _ _ \<Rightarrow> if n = x then reply_error i m else reply_error i m'
      | _ \<Rightarrow> reply_error i m')" for e n x i m m'
    by (cases e) (auto intro: rules)
  then show ?thesis
    unfolding refreshToken_def Let_def by (intro rules legacy_refresh_P)
qed

lemma logout_P: "preserves P (logout env memory_client k h)"
  unfolding logout_def blacklist_revokeToken_def Let_def by (intro rules)

lemma router_P: "preserves P (auth_router env k r)"
  by (cases r) (simp_all add: auth_router_def getChallenge_P getToken_P refreshToken_P logout_P)

lemma step_P: "P s \<Longrightarrow> P (auth_step env k s r)"
  unfolding auth_step_def by (rule preservesD [OF router_P])

end

text \<open>A property of the map alone.\<close>

definition on_memory :: "((string, auth_doc) jsmap \<Rightarrow> bool) \<Rightarrow> 'w auth_server \<Rightarrow> bool" where
  "on_memory P s \<longleftrightarrow> P (sv_memory s)"

lemma on_memory_reads [preserves_rules]:
  "preserves (on_memory P) (aclock env)" "preserves (on_memory P) (adraw f)"
  "preserves (on_memory P) (svc_getJSON memory_client k)"
  by (auto simp: preserves_def on_memory_def aclock_def adraw_def eff_defs mem_ops split: prod.splits)

lemma on_memory_set:
  "(\<And>m. P m \<Longrightarrow> P (js_set k v m)) \<Longrightarrow> preserves (on_memory P) (svc_setJSON memory_client k v t)"
  by (simp add: preserves_def on_memory_def mem_ops)

lemma on_memory_del:
  "(\<And>m. P m \<Longrightarrow> P (js_delete k m)) \<Longrightarrow> preserves (on_memory P) (svc_del memory_client k)"
  by (simp add: preserves_def on_memory_def mem_ops)

section \<open>What is stored under which key\<close>

definition doc_fits :: "string \<Rightarrow> auth_doc \<Rightarrow> bool" where
  "doc_fits k d = (case d of
     RefreshDoc r \<Rightarrow> starts_with ''auth:refresh:'' k
   | FamilyDoc f \<Rightarrow> k = family_key (sf_familyId f)
   | ChallengeDoc c \<Rightarrow> k = challenge_key (ch_publicKey c)
   | NonceDoc n \<Rightarrow> starts_with ''sep10:nonce:'' k
   | RevokedDoc b \<Rightarrow> starts_with ''jwt:blacklist:'' k)"

definition store_typed :: "(string, auth_doc) jsmap \<Rightarrow> bool" where
  "store_typed m \<longleftrightarrow> (\<forall>k d. js_get m k = Some d \<longrightarrow> doc_fits k d)"

lemma typed_set: "doc_fits k d \<Longrightarrow> store_typed m \<Longrightarrow> store_typed (js_set k d m)"
  by (simp add: store_typed_def)

lemma typed_delete: "store_typed m \<Longrightarrow> store_typed (js_delete k m)"
  by (simp add: store_typed_def)

lemmas typed_writes = on_memory_set [where P = store_typed, OF typed_set] on_memory_del [where P = store_typed, OF typed_delete]

lemma fits_written:
  "doc_fits (refresh_key h) (RefreshDoc r)" "doc_fits (challenge_key (ch_publicKey c)) (ChallengeDoc c)"
  "doc_fits (buildSep10NonceKey n) (NonceDoc x)" "doc_fits (blacklist_key env t) (RevokedDoc b)"
  by (simp_all add: doc_fits_def refresh_key_def starts_with_def buildSep10NonceKey_def blacklist_key_def)

lemma fits_family: "sf_familyId f = i \<Longrightarrow> doc_fits (family_key i) (FamilyDoc f)"
  by (simp add: doc_fits_def)

lemma typed_invalidate: "preserves (on_memory store_typed) (invalidateSessionFamily env memory_client f)"
proof -
  have fits: "sf_familyId d = f" if "store_typed m" "js_get m (family_key f) = Some (FamilyDoc d)" for m d
    using that by (force simp: store_typed_def doc_fits_def)
  have "store_typed (js_set (family_key f) (FamilyDoc (d\<lparr>sf_tokenHashes := [], sf_revoked := True, sf_revokedAt := t\<rparr>))
      (delete_all hs m))" if "store_typed m" "js_get m (family_key f) = Some (FamilyDoc d)" for m d t hs
    using that fits [OF that] by (auto simp: store_typed_def delete_all_get doc_fits_def)
  then show ?thesis
    unfolding preserves_def on_memory_def invalidate_mem
    by (auto simp: as_family_def typed_delete split: option.splits auth_doc.splits)
qed

lemma typed_issue: "preserves (on_memory store_typed) (issueTokenPair env memory_client k mk f)"
  unfolding issueTokenPair_def family_id_def signAccessToken_def signToken_def generateRefreshTokenValue_def Let_def
    existing_family_def
  by (intro preserves_rules typed_writes fits_written fits_family) (simp_all add: extend_family_def)

lemma typed_rotate: "preserves (on_memory store_typed) (rotateRefreshToken env memory_client t)"
  unfolding rotateRefreshToken_def rotate_check_def rotate_finish_def Let_def
  by (intro preserves_rules typed_writes fits_written typed_issue typed_invalidate)

interpretation auth_typed: auth_invariant env "on_memory store_typed" for env
  by unfold_locales (auto intro!: getChallenge_preserves preserves_rules typed_writes fits_written typed_issue typed_rotate simp: doc_fits_def)

text \<open>Requests one after the other, over a property that each of them keeps.\<close>

interpretation auth_calls: call_machine "auth_step env k" "on_memory store_typed" for env k
  by unfold_locales (rule auth_typed.step_P)

text \<open>C29. The map of the authentication routes is well typed. From an empty map, whatever requests
  are made in whatever order, a key of a refresh token holds a refresh record, a key of a family
  the record of that family, and so on: a read that expects one kind of record never meets another.
\<close>
theorem auth_store_typed:
  "store_typed (sv_memory (foldl (auth_step env k) \<lparr>sv_memory = [], sv_world = w\<rparr> requests))"
  using auth_calls.run_inv [of "\<lparr>sv_memory = [], sv_world = w\<rparr>" env k requests]
  by (simp add: on_memory_def store_typed_def)

section \<open>The families of refresh tokens\<close>

text \<open>What is assumed of \<open>randomUUID\<close>: it never gives a value twice; \<open>given w\<close> are those it has given.\<close>

definition uuid_fresh :: "'w auth_env \<Rightarrow> ('w \<Rightarrow> string set) \<Rightarrow> bool" where
  "uuid_fresh env given \<longleftrightarrow>
     (\<forall>w u w'. au_randomUUID env w = (u, w') \<longrightarrow> u \<noteq> [] \<and> u \<notin> given w \<and> given w' = insert u (given w)) \<and>
     (\<forall>n w b w'. au_randomBytes env n w = (b, w') \<longrightarrow> given w' = given w)"

text \<open>
  Every refresh token that is stored is listed by its family, which is not revoked; families
  are named by values \<open>randomUUID\<close> has given; those of \<open>F\<close> are revoked.
\<close>

definition token_listed :: "(string, auth_doc) jsmap \<Rightarrow> string \<Rightarrow> refresh_record \<Rightarrow> bool" where
  "token_listed m h r \<longleftrightarrow> rt_familyId r \<noteq> [] \<and>
     (\<exists>f. js_get m (family_key (rt_familyId r)) = Some (FamilyDoc f) \<and> \<not> sf_revoked f \<and> h \<in> set (sf_tokenHashes f))"

definition families_ok :: "('w \<Rightarrow> string set) \<Rightarrow> string set \<Rightarrow> 'w auth_server \<Rightarrow> bool" where
  "families_ok given F s \<longleftrightarrow>
     (\<forall>h r. js_get (sv_memory s) (refresh_key h) = Some (RefreshDoc r) \<longrightarrow> token_listed (sv_memory s) h r) \<and>
     (\<forall>f. js_get (sv_memory s) (family_key f) \<noteq> None \<longrightarrow> f \<in> given (sv_world s)) \<and>
     (\<forall>f \<in> F. family_revoked (sv_memory s) f)"

lemma families_okI:
  assumes "\<And>h r. js_get (sv_memory s) (refresh_key h) = Some (RefreshDoc r) \<Longrightarrow> token_listed (sv_memory s) h r"
    and "\<And>f. js_get (sv_memory s) (family_key f) \<noteq> None \<Longrightarrow> f \<in> given (sv_world s)"
    and "\<And>f. f \<in> F \<Longrightarrow> family_revoked (sv_memory s) f"
  shows "families_ok given F s"
  using assms by (simp add: families_ok_def)

lemma families_token:
  "families_ok given F s \<Longrightarrow> js_get (sv_memory s) (refresh_key h) = Some (RefreshDoc r) \<Longrightarrow> token_listed (sv_memory s) h r"
  by (simp add: families_ok_def)

lemma families_given: "families_ok given F s \<Longrightarrow> js_get (sv_memory s) (family_key f) = Some d \<Longrightarrow> f \<in> given (sv_world s)"
  by (simp add: families_ok_def)

lemma families_revoked: "families_ok given F s \<Longrightarrow> f \<in> F \<Longrightarrow> family_revoked (sv_memory s) f"
  by (simp add: families_ok_def)

text \<open>Other keys do not matter, and neither does a world that has given more.\<close>

lemma families_other:
  assumes "families_ok given F s" "\<And>h. js_get (sv_memory s') (refresh_key h) = js_get (sv_memory s) (refresh_key h)"
    and "\<And>f. js_get (sv_memory s') (family_key f) = js_get (sv_memory s) (family_key f)"
    and "given (sv_world s) \<subseteq> given (sv_world s')"
  shows "families_ok given F s'"
  using assms by (auto simp: families_ok_def token_listed_def family_revoked_def)

lemma families_other_key:
  assumes "\<And>h. k \<noteq> refresh_key h" "\<And>f. k \<noteq> family_key f"
  shows "preserves (families_ok given F) (svc_setJSON memory_client k v t)" "preserves (families_ok given F) (svc_del memory_client k)"
proof -
  have "families_ok given F (s\<lparr>sv_memory := js_set k v (sv_memory s)\<rparr>)"
       "families_ok given F (s\<lparr>sv_memory := js_delete k (sv_memory s)\<rparr>)" if "families_ok given F s" for s
    by (rule families_other [OF that]; use assms in force)+
  then show "preserves (families_ok given F) (svc_setJSON memory_client k v t)"
      "preserves (families_ok given F) (svc_del memory_client k)"
    by (simp_all add: preserves_def mem_ops)
qed

text \<open>A token stored anew, with its family in place and listing it.\<close>

lemma families_put:
  assumes ok: "families_ok given F s" and g: "given (sv_world s) \<subseteq> given (sv_world s')"
    and f: "f \<noteq> []" "f \<in> given (sv_world s')" "f \<notin> F"
    and t: "rt_familyId t = f" and d: "\<not> sf_revoked d" "h \<in> set (sf_tokenHashes d)"
    and old: "\<And>e h'. js_get (sv_memory s) (family_key f) = Some (FamilyDoc e) \<Longrightarrow> h' \<in> set (sf_tokenHashes e) \<Longrightarrow> h' \<in> set (sf_tokenHashes d)"
    and m: "sv_memory s' = js_set (family_key f) (FamilyDoc d) (js_set (refresh_key h) (RefreshDoc t) (sv_memory s))"
  shows "families_ok given F s'"
proof (rule families_okI, goal_cases)
  case (1 h' r)
  show ?case
  proof (cases "h' = h")
    case True then show ?thesis using 1 t d f(1) m by (simp add: token_listed_def)
  next
    case False
    then have "token_listed (sv_memory s) h' r" using 1 families_token [OF ok] m by simp
    then show ?thesis using old d m by (auto simp: token_listed_def)
  qed
next
  case (2 f') then show ?case using families_given [OF ok] f g m by (auto split: if_splits)
next
  case (3 f') then show ?case using families_revoked [OF ok, of f'] f(3) m by (auto simp: family_revoked_def)
qed

lemma families_mark:
  assumes "families_ok given F s" "js_get (sv_memory s) (refresh_key h) = Some (RefreshDoc r)"
  shows "families_ok given F (s\<lparr>sv_memory := js_set (refresh_key h) (RefreshDoc (r\<lparr>rt_status := Rotated\<rparr>)) (sv_memory s)\<rparr>)"
  using assms by (auto simp: families_ok_def token_listed_def family_revoked_def)

lemma families_drop:
  "families_ok given F s \<Longrightarrow> families_ok given F (s\<lparr>sv_memory := js_delete (refresh_key h) (sv_memory s)\<rparr>)"
  by (auto simp: families_ok_def token_listed_def family_revoked_def)

lemma families_invalidate:
  assumes "families_ok given F s" "js_get (sv_memory s) (family_key f) = Some (FamilyDoc d)"
  shows "families_ok given F (s\<lparr>sv_memory := js_set (family_key f) (FamilyDoc (d\<lparr>sf_tokenHashes := [], sf_revoked := True,
      sf_revokedAt := t\<rparr>)) (delete_all (sf_tokenHashes d) (sv_memory s))\<rparr>)"
  using assms by (force simp: families_ok_def token_listed_def family_revoked_def delete_all_get)

text \<open>What an issue does to the map, whether it returns or throws.\<close>

lemma issue_tail:
  fixes env :: "'w auth_env"
  assumes "uuid_fresh env given"
    and "ebind (signAccessToken env k mk) (\<lambda>a. ebind (generateRefreshTokenValue env) (\<lambda>t. ebind (aclock env) (\<lambda>now. g a t now))) s = (r, s')"
    and "\<And>a t now s. \<exists>p. g a t now s = (Inr p, s\<lparr>sv_memory := upd (hashRefreshToken env t) now (sv_memory s)\<rparr>)"
  shows "given (sv_world s') = given (sv_world s)
    \<and> (sv_memory s' = sv_memory s \<or> (\<exists>h now. sv_memory s' = upd h now (sv_memory s)))"
proof -
  obtain b w where b: "au_randomBytes env 32 (sv_world s) = (b, w)" by fastforce
  then have w: "given w = given (sv_world s)" using assms(1) unfolding uuid_fresh_def by blast
  show ?thesis
  proof (cases "au_jwtSign env (token_payload k mk) (au_secret env) (Some ACCESS_TOKEN_TTL_SECONDS) (sv_world s)")
    case (Inl e)
    then show ?thesis using assms(2) by (auto simp: signAccessToken_def signToken_def eff_defs)
  next
    case (Inr a)
    obtain p where "g a (hex b) (au_now env w) (s\<lparr>sv_world := w\<rparr>) =
        (Inr p, s\<lparr>sv_world := w, sv_memory := upd (hashRefreshToken env (hex b)) (au_now env w) (sv_memory s)\<rparr>)"
      using assms(3) [of a "hex b" "au_now env w" "s\<lparr>sv_world := w\<rparr>"] by auto
    then have "sv_world s' = w" "sv_memory s' = upd (hashRefreshToken env (hex b)) (au_now env w) (sv_memory s)"
      using assms(2) Inr b
      by (auto simp: signAccessToken_def signToken_def generateRefreshTokenValue_def adraw_def aclock_def eff_defs)
    with w show ?thesis by blast
  qed
qed

lemma issue_existing:
  assumes "uuid_fresh env given" "issueTokenPair env memory_client k mk (Some f) s = (r, s')" "f \<noteq> []"
  shows "given (sv_world s') = given (sv_world s) \<and> (sv_memory s' = sv_memory s \<or>
    (\<exists>h now. sv_memory s' = js_set (family_key f) (FamilyDoc (extend_family f k h now
        (as_family (js_get (sv_memory s) (family_key f))))) (js_set (refresh_key h) (RefreshDoc
        \<lparr>rt_familyId = f, rt_publicKey = k, rt_multiKeyData = mk, rt_status = Active, rt_createdAt = now,
         rt_expiresAt = now + REFRESH_TOKEN_TTL_SECONDS * 1000\<rparr>) (sv_memory s))))"
proof -
  have f: "truthy_str (Some f) = Some f" using assms(3) by (simp add: truthy_str_def split: list.split)
  show ?thesis
    using assms(2) unfolding issueTokenPair_def family_id_def f existing_family_def option.simps Let_def
    by (simp add: ebind_def [of "ereturn f"] ereturn_def [of f])
       (erule issue_tail [OF assms(1)], simp add: eff_defs mem_ops)
qed

lemma issue_fresh:
  assumes "uuid_fresh env given" "issueTokenPair env memory_client k mk None s = (r, s')"
  shows "\<exists>u. u \<noteq> [] \<and> u \<notin> given (sv_world s) \<and> given (sv_world s') = insert u (given (sv_world s))
    \<and> (sv_memory s' = sv_memory s \<or>
    (\<exists>h now. sv_memory s' = js_set (family_key u) (FamilyDoc (extend_family u k h now None))
       (js_set (refresh_key h) (RefreshDoc
        \<lparr>rt_familyId = u, rt_publicKey = k, rt_multiKeyData = mk, rt_status = Active, rt_createdAt = now,
         rt_expiresAt = now + REFRESH_TOKEN_TTL_SECONDS * 1000\<rparr>) (sv_memory s))))"
proof -
  obtain u w where u: "au_randomUUID env (sv_world s) = (u, w)" by fastforce
  then have g: "u \<noteq> []" "u \<notin> given (sv_world s)" "given w = insert u (given (sv_world s))"
    using assms(1) unfolding uuid_fresh_def by blast+
  have none: "truthy_str None = None" by (simp add: truthy_str_def)
  define s1 where "s1 = s\<lparr>sv_world := w\<rparr>"
  have s1: "sv_memory s1 = sv_memory s" "sv_world s1 = w" by (simp_all add: s1_def)
  have "given (sv_world s') = given (sv_world s1) \<and> (sv_memory s' = sv_memory s1 \<or>
    (\<exists>h now. sv_memory s' = js_set (family_key u) (FamilyDoc (extend_family u k h now None))
       (js_set (refresh_key h) (RefreshDoc
        \<lparr>rt_familyId = u, rt_publicKey = k, rt_multiKeyData = mk, rt_status = Active, rt_createdAt = now,
         rt_expiresAt = now + REFRESH_TOKEN_TTL_SECONDS * 1000\<rparr>) (sv_memory s1))))"
    using assms(2) unfolding issueTokenPair_def family_id_def none existing_family_def option.simps Let_def
    by (simp add: ebind_def [of "adraw f" for f] adraw_def [of "au_randomUUID env"] u flip: s1_def)
       (erule issue_tail [OF assms(1)], simp add: eff_defs mem_ops)
  with g s1 show ?thesis by auto
qed

lemma families_world:
  assumes "families_ok given F s" "sv_memory s' = sv_memory s" "given (sv_world s) \<subseteq> given (sv_world s')"
  shows "families_ok given F s'"
  by (rule families_other [OF assms(1)]) (simp_all add: assms(2,3))

lemma families_issue_existing:
  assumes ok: "families_ok given F s" and fresh: "uuid_fresh env given"
    and f: "f \<noteq> []" "f \<notin> F" "js_get (sv_memory s) (family_key f) = Some (FamilyDoc d)"
    and issue: "issueTokenPair env memory_client k mk (Some f) s = (r, s')"
  shows "families_ok given F s'"
proof -
  have g: "f \<in> given (sv_world s)" by (rule families_given [OF ok f(3)])
  from issue_existing [OF fresh issue f(1)]
  consider "sv_memory s' = sv_memory s" "given (sv_world s') = given (sv_world s)"
    | h now where "given (sv_world s') = given (sv_world s)"
      "sv_memory s' = js_set (family_key f) (FamilyDoc (extend_family f k h now (Some d)))
        (js_set (refresh_key h) (RefreshDoc \<lparr>rt_familyId = f, rt_publicKey = k, rt_multiKeyData = mk, rt_status = Active,
           rt_createdAt = now, rt_expiresAt = now + REFRESH_TOKEN_TTL_SECONDS * 1000\<rparr>) (sv_memory s))"
    by (auto simp: f(3))
  then show ?thesis
  proof cases
    case 1 then show ?thesis using families_world [OF ok] by simp
  next
    case 2
    then show ?thesis using f g by (intro families_put [OF ok _ _ _ _ _ _ _ _ 2(2)]) (auto simp: extend_family_def)
  qed
qed

lemma families_issue_fresh:
  assumes "uuid_fresh env given"
  shows "preserves (families_ok given F) (issueTokenPair env memory_client k mk None)"
  unfolding preserves_def
proof (intro allI impI)
  fix s assume ok: "families_ok given F s"
  let ?s' = "snd (issueTokenPair env memory_client k mk None s)"
  obtain r where "issueTokenPair env memory_client k mk None s = (r, ?s')" by (metis prod.collapse)
  from issue_fresh [OF assms this] obtain u where u: "u \<noteq> []" "u \<notin> given (sv_world s)"
      "given (sv_world ?s') = insert u (given (sv_world s))"
    and m: "sv_memory ?s' = sv_memory s \<or> (\<exists>h now. sv_memory ?s' = js_set (family_key u) (FamilyDoc (extend_family u k h now None))
       (js_set (refresh_key h) (RefreshDoc
        \<lparr>rt_familyId = u, rt_publicKey = k, rt_multiKeyData = mk, rt_status = Active, rt_createdAt = now,
         rt_expiresAt = now + REFRESH_TOKEN_TTL_SECONDS * 1000\<rparr>) (sv_memory s)))" by blast
  have none: "js_get (sv_memory s) (family_key u) = None" using u(2) families_given [OF ok] by (metis not_Some_eq)
  then have nF: "u \<notin> F" using families_revoked [OF ok, of u] by (auto simp: family_revoked_def)
  from m show "families_ok given F ?s'"
  proof (elim disjE exE)
    assume "sv_memory ?s' = sv_memory s"
    then show ?thesis using families_world [OF ok] u(3) by auto
  next
    fix h now
    assume e: "sv_memory ?s' = js_set (family_key u) (FamilyDoc (extend_family u k h now None))
       (js_set (refresh_key h) (RefreshDoc
        \<lparr>rt_familyId = u, rt_publicKey = k, rt_multiKeyData = mk, rt_status = Active, rt_createdAt = now,
         rt_expiresAt = now + REFRESH_TOKEN_TTL_SECONDS * 1000\<rparr>) (sv_memory s))"
    show ?thesis using u none nF by (intro families_put [OF ok _ _ _ _ _ _ _ _ e]) (auto simp: extend_family_def)
  qed
qed

lemma families_rotate:
  assumes "uuid_fresh env given"
  shows "preserves (families_ok given F) (rotateRefreshToken env memory_client tok)"
  unfolding rotateRefreshToken_def
proof (rule preserves_ebind_triple)
  show "triple (families_ok given F) (rotate_check env memory_client tok)
      (\<lambda>r s. families_ok given F s \<and> usable env tok r s) (\<lambda>_. families_ok given F)"
  proof (rule tripleI)
    fix s r s' assume "families_ok given F s" "rotate_check env memory_client tok s = (Inr r, s')"
    then show "families_ok given F s' \<and> usable env tok r s'" by (simp add: check_ok)
  next
    fix s e s' assume ok: "families_ok given F s" and c: "rotate_check env memory_client tok s = (Inl e, s')"
    let ?h = "hashRefreshToken env tok"
    show "families_ok given F s'"
    proof (cases "as_refresh (js_get (sv_memory s) (refresh_key ?h))")
      case None
      then show ?thesis using ok c by (auto simp: rotate_check_def eff_defs mem_ops Let_def split: if_splits)
    next
      case (Some r)
      then have r: "js_get (sv_memory s) (refresh_key ?h) = Some (RefreshDoc r)"
        by (auto simp: as_refresh_def split: option.splits auth_doc.splits)
      obtain d where d: "js_get (sv_memory s) (family_key (rt_familyId r)) = Some (FamilyDoc d)" "\<not> sf_revoked d"
        using families_token [OF ok r] by (auto simp: token_listed_def)
      show ?thesis
        using c r d families_invalidate [OF ok d(1)] families_drop [OF ok] ok
        by (auto simp: rotate_check_def eff_defs mem_ops Let_def invalidate_mem aclock_def split: if_splits)
    qed
  qed
next
  fix r s assume "families_ok given F s \<and> usable env tok r s"
  then have ok: "families_ok given F s" and us: "usable env tok r s" by auto
  let ?m = "js_set (refresh_key (hashRefreshToken env tok)) (RefreshDoc (r\<lparr>rt_status := Rotated\<rparr>)) (sv_memory s)"
  obtain d where f: "rt_familyId r \<noteq> []"
      "js_get (sv_memory s) (family_key (rt_familyId r)) = Some (FamilyDoc d)"
    using families_token [OF ok usable_doc [OF us]] by (auto simp: token_listed_def)
  have "rt_familyId r \<notin> F" using us families_revoked [OF ok] by (auto simp: usable_def)
  have "families_ok given F (snd (rotate_finish env memory_client tok r s))"
    unfolding finish_mem
    by (rule families_issue_existing [OF families_mark [OF ok usable_doc [OF us]] assms f(1) \<open>rt_familyId r \<notin> F\<close>])
       (use f in \<open>auto intro: prod.collapse [symmetric]\<close>)
  then show "families_ok given F (snd (ebind (rotate_finish env memory_client tok r)
      (\<lambda>newPair. ereturn (newPair, rt_multiKeyData r, rt_publicKey r)) s))"
    by (auto simp: eff_defs split: prod.splits sum.splits)
qed

lemma families_invariant:
  fixes env :: "'w sep_env"
  assumes "uuid_fresh (sk_auth env) given"
  shows "auth_invariant env (families_ok given F)"
proof
  have "preserves (families_ok given F) (adraw (au_randomBytes (sk_auth env) n))" for n
    using assms families_world by (fastforce simp: preserves_def adraw_def uuid_fresh_def split: prod.splits)
  then show "preserves (families_ok given F) (getChallenge env memory_client req)" for req
    by (intro getChallenge_preserves families_other_key) simp_all
qed (intro families_other_key families_issue_fresh [OF assms] families_rotate [OF assms]; simp)+

lemma families_calls:
  "uuid_fresh (sk_auth env) given \<Longrightarrow> call_machine (auth_step env k) (families_ok given F)"
  by (rule call_machine.intro) (rule auth_invariant.step_P [OF families_invariant])

text \<open>C6. Requests that do not overlap never bring a revoked family back. If \<open>randomUUID\<close> never
  repeats a value, then after any sequence of requests to the authentication routes a family that
  was revoked is revoked, and no refresh token that is stored belongs to it, so that none of its
  tokens can be rotated.
\<close>
theorem revoked_family_stays_revoked:
  assumes fresh: "uuid_fresh (sk_auth env) given" and start: "families_ok given {} s"
    and revoked: "family_revoked (sv_memory s) f"
    and s': "s' = foldl (auth_step env k) s requests"
  shows "family_revoked (sv_memory s') f
    \<and> f \<notin> {rt_familyId r | h r. js_get (sv_memory s') (refresh_key h) = Some (RefreshDoc r)}"
proof -
  have "families_ok given {f} s" using start revoked by (simp add: families_ok_def)
  then have ok: "families_ok given {f} s'"
    unfolding s' by (rule call_machine.run_inv [OF families_calls [OF fresh]])
  then have "family_revoked (sv_memory s') f" by (rule families_revoked) simp
  moreover have "\<not> token_listed (sv_memory s') h r" if "rt_familyId r = f" for h r
    using that calculation by (auto simp: token_listed_def family_revoked_def)
  ultimately show ?thesis using families_token [OF ok] by blast
qed

section \<open>Challenges are used once\<close>

text \<open>What is assumed of \<open>randomBytes(32)\<close>: it never gives a value twice; \<open>given w\<close> are those it has given.\<close>

definition bytes_fresh :: "'w auth_env \<Rightarrow> ('w \<Rightarrow> string set) \<Rightarrow> bool" where
  "bytes_fresh env given \<longleftrightarrow>
     (\<forall>w b w'. au_randomBytes env 32 w = (b, w') \<longrightarrow> b \<notin> given w \<and> given w' = insert b (given w)) \<and>
     (\<forall>w u w'. au_randomUUID env w = (u, w') \<longrightarrow> given w' = given w)"

text \<open>
  Every stored challenge is made of bytes that were given, accounts have different ones, and those of \<open>V\<close> are stored for no account.
\<close>

definition challenges_ok :: "('w \<Rightarrow> string set) \<Rightarrow> string set \<Rightarrow> 'w auth_server \<Rightarrow> bool" where
  "challenges_ok given V s \<longleftrightarrow> V \<subseteq> base64 ` given (sv_world s) \<and>
     (\<forall>a c. js_get (sv_memory s) (challenge_key a) = Some (ChallengeDoc c) \<longrightarrow>
        ch_challenge c \<in> base64 ` given (sv_world s) \<and> ch_challenge c \<notin> V \<and>
        (\<forall>a' c'. js_get (sv_memory s) (challenge_key a') = Some (ChallengeDoc c') \<and> ch_challenge c' = ch_challenge c \<longrightarrow> a' = a))"

text \<open>Reading, writes under other keys, removals and further draws keep it.\<close>

lemma challenges_fewer:
  assumes "challenges_ok given V s" "\<And>a. js_get (sv_memory s') (challenge_key a) \<in> {js_get (sv_memory s) (challenge_key a), None}"
    and "given (sv_world s) \<subseteq> given (sv_world s')"
  shows "challenges_ok given V s'"
proof -
  have old: "js_get (sv_memory s) (challenge_key a) = Some d" if "js_get (sv_memory s') (challenge_key a) = Some d" for a d
    using assms(2) [of a] that by auto
  have "V \<subseteq> base64 ` given (sv_world s')" using assms(1,3) unfolding challenges_ok_def by blast
  moreover have "ch_challenge c \<in> base64 ` given (sv_world s') \<and> ch_challenge c \<notin> V \<and>
      (\<forall>a' c'. js_get (sv_memory s') (challenge_key a') = Some (ChallengeDoc c') \<and> ch_challenge c' = ch_challenge c \<longrightarrow> a' = a)"
    if "js_get (sv_memory s') (challenge_key a) = Some (ChallengeDoc c)" for a c
    using assms(1,3) old [OF that] old unfolding challenges_ok_def by blast
  ultimately show ?thesis unfolding challenges_ok_def by blast
qed

lemma challenges_other_key:
  assumes "\<And>a. k \<noteq> challenge_key a"
  shows "preserves (challenges_ok given V) (svc_setJSON memory_client k v t)"
  unfolding preserves_def
proof (intro allI impI)
  fix s :: "'a auth_server" assume "challenges_ok given V s"
  then show "challenges_ok given V (snd (svc_setJSON memory_client k v t s))"
    by (rule challenges_fewer) (use assms in \<open>auto simp: mem_ops dest: sym\<close>)
qed

lemma challenges_del: "preserves (challenges_ok given V) (svc_del memory_client k)"
  unfolding preserves_def
proof (intro allI impI)
  fix s :: "'a auth_server" assume "challenges_ok given V s"
  then show "challenges_ok given V (snd (svc_del memory_client k s))"
    by (rule challenges_fewer) (auto simp: mem_ops)
qed

lemma challenges_draws:
  assumes "bytes_fresh env given"
  shows "preserves (challenges_ok given V) (adraw (au_randomBytes env 32))" "preserves (challenges_ok given V) (adraw (au_randomUUID env))"
proof -
  have "challenges_ok given V (s\<lparr>sv_world := w\<rparr>)" if "challenges_ok given V s" "given (sv_world s) \<subseteq> given w" for s w
    by (rule challenges_fewer [OF that(1)]) (use that(2) in simp_all)
  moreover have "given w \<subseteq> given w'" if "au_randomBytes env 32 w = (b, w')" for w b w' using assms that unfolding bytes_fresh_def by blast
  moreover have "given w \<subseteq> given w'" if "au_randomUUID env w = (u, w')" for w u w' using assms that unfolding bytes_fresh_def by blast
  ultimately show "preserves (challenges_ok given V) (adraw (au_randomBytes env 32))" "preserves (challenges_ok given V) (adraw (au_randomUUID env))"
    by (simp_all add: preserves_def adraw_def split: prod.split)
qed

lemma other_keys: "refresh_key h \<noteq> challenge_key a" "family_key h \<noteq> challenge_key a" "buildSep10NonceKey h \<noteq> challenge_key a"
  "blacklist_key env h \<noteq> challenge_key a"
  by simp_all

lemmas challenges_rules = preserves_rules memory_reads challenges_del challenges_other_key [OF other_keys(1)] challenges_other_key [OF other_keys(2)]
  challenges_other_key [OF other_keys(3)] challenges_other_key [OF other_keys(4)]

lemma challenges_issue:
  assumes "bytes_fresh env given"
  shows "preserves (challenges_ok given V) (issueTokenPair env memory_client k mk f)"
  unfolding issueTokenPair_def family_id_def signAccessToken_def signToken_def generateRefreshTokenValue_def Let_def existing_family_def
  by (intro challenges_rules challenges_draws [OF assms])

lemma challenges_delete_hashes: "preserves (challenges_ok given V) (delete_hashes memory_client hs)"
  by (induction hs) (auto intro: challenges_rules)

lemma challenges_rotate:
  assumes "bytes_fresh env given"
  shows "preserves (challenges_ok given V) (rotateRefreshToken env memory_client t)"
  unfolding rotateRefreshToken_def rotate_check_def rotate_finish_def invalidateSessionFamily_def Let_def
  by (intro challenges_rules challenges_issue [OF assms] challenges_delete_hashes)

text \<open>A value drawn just before is stored for an account.\<close>

lemma challenges_store:
  assumes ok: "challenges_ok given V s" and fresh: "bytes_fresh env given" and b: "au_randomBytes env 32 (sv_world s) = (b, w)"
    and s': "sv_memory s' = js_set (challenge_key a) (ChallengeDoc d) (sv_memory s)" "sv_world s' = w" "ch_challenge d = base64 b"
  shows "challenges_ok given V s'"
proof -
  have g: "b \<notin> given (sv_world s)" "given w = insert b (given (sv_world s))" using fresh b unfolding bytes_fresh_def by blast+
  then have new: "base64 b \<notin> base64 ` given (sv_world s)" by (metis base64_decode_base64 imageE)
  have old: "ch_challenge c \<in> base64 ` given (sv_world s) \<and> ch_challenge c \<notin> V" if "js_get (sv_memory s) (challenge_key a') = Some (ChallengeDoc c)" for a' c
    using ok that unfolding challenges_ok_def by blast
  have v: "V \<subseteq> base64 ` given (sv_world s)" using ok unfolding challenges_ok_def by blast
  have one: "a1 = a2" if "js_get (sv_memory s) (challenge_key a1) = Some (ChallengeDoc c1)" "js_get (sv_memory s) (challenge_key a2) = Some (ChallengeDoc c2)"
      "ch_challenge c1 = ch_challenge c2" for a1 a2 c1 c2
    using ok that unfolding challenges_ok_def by metis
  have get: "js_get (sv_memory s') (challenge_key a') = (if a' = a then Some (ChallengeDoc d) else js_get (sv_memory s) (challenge_key a'))" for a'
    by (simp add: s'(1))
  have "ch_challenge c \<in> base64 ` given w \<and> ch_challenge c \<notin> V \<and>
      (\<forall>a2 c2. js_get (sv_memory s') (challenge_key a2) = Some (ChallengeDoc c2) \<and> ch_challenge c2 = ch_challenge c \<longrightarrow> a2 = a1)"
    if c: "js_get (sv_memory s') (challenge_key a1) = Some (ChallengeDoc c)" for a1 c
  proof (cases "a1 = a")
    case True
    then have "c = d" using c get by simp
    then show ?thesis using True new v g(2) s'(3) old get by (auto split: if_splits) (metis imageI)+
  next
    case False
    then have c': "js_get (sv_memory s) (challenge_key a1) = Some (ChallengeDoc c)" using c get by simp
    then show ?thesis using old [OF c'] g(2) get new s'(3) one by (auto split: if_splits)
  qed
  moreover have "V \<subseteq> base64 ` given w" using v g(2) by blast
  ultimately show ?thesis unfolding challenges_ok_def s'(2) by blast
qed

lemma challenges_storeChallenge:
  assumes fresh: "bytes_fresh (sk_auth env) given"
  shows "preserves (challenges_ok given V)
    (ebind (generateChallenge (sk_auth env)) (\<lambda>c. ebind (storeChallenge (sk_auth env) memory_client a c) (\<lambda>_. ereturn ())))"
  unfolding preserves_def
proof (intro allI impI)
  fix s :: "'a auth_server" assume ok: "challenges_ok given V s"
  obtain b w where b: "au_randomBytes (sk_auth env) 32 (sv_world s) = (b, w)" by fastforce
  show "challenges_ok given V (snd (ebind (generateChallenge (sk_auth env))
      (\<lambda>c. ebind (storeChallenge (sk_auth env) memory_client a c) (\<lambda>_. ereturn ())) s))"
    by (rule challenges_store [OF ok fresh b], simp add: generateChallenge_def adraw_def b storeChallenge_def mem_ops aclock_def eff_defs,
        simp add: generateChallenge_def adraw_def b storeChallenge_def mem_ops aclock_def eff_defs, simp)
qed

lemma challenges_storeSep10:
  assumes fresh: "bytes_fresh (sk_auth env) given"
  shows "preserves (challenges_ok given V)
    (ebind (generateSep10ChallengeTransaction env anchor a net d) (\<lambda>sep10.
     ebind (storeSep10Challenge (sk_auth env) memory_client a (sc_challenge sep10) (sc_transactionXdr sep10)) (\<lambda>_. ereturn sep10)))"
  unfolding preserves_def
proof (intro allI impI)
  fix s :: "'a auth_server" assume ok: "challenges_ok given V s"
  obtain b w where b: "au_randomBytes (sk_auth env) 32 (sv_world s) = (b, w)" by fastforce
  define now where "now = au_now (sk_auth env) w"
  let ?build = "sk_build env anchor (challenge_operations anchor a (base64 b) d) (now div 1000, now div 1000 + 300) (nc_passphrase (NETWORKS net))"
  have drawn: "challenges_ok given V (s\<lparr>sv_world := w\<rparr>)"
    using preservesD [OF challenges_draws(1) [OF fresh] ok] by (simp add: adraw_def b)
  note steps = generateSep10ChallengeTransaction_def generateSep10Challenge_def generateChallenge_def adraw_def b storeSep10Challenge_def mem_ops
    aclock_def eff_defs Let_def now_def
  show "challenges_ok given V (snd (ebind (generateSep10ChallengeTransaction env anchor a net d) (\<lambda>sep10.
     ebind (storeSep10Challenge (sk_auth env) memory_client a (sc_challenge sep10) (sc_transactionXdr sep10)) (\<lambda>_. ereturn sep10)) s))"
  proof (cases ?build)
    case (Inl e)
    then show ?thesis using drawn by (simp add: steps)
  next
    case (Inr xdr)
    show ?thesis by (rule challenges_store [OF ok fresh b], use Inr in \<open>simp add: steps\<close>, use Inr in \<open>simp add: steps\<close>, simp)
  qed
qed

text \<open>What the endpoint does, with each draw next to the write of what was drawn.\<close>

lemma make_challenge_pieces:
  "make_challenge env rc a d req =
     ebind (ebind (generateChallenge (sk_auth env)) (\<lambda>c. ebind (storeChallenge (sk_auth env) rc a c) (\<lambda>_. ereturn ()))) (\<lambda>_.
     ebind (ebind (generateSep10ChallengeTransaction env (case truthy_str (sk_anchorKey env) of Some k \<Rightarrow> k | None \<Rightarrow> ''GBAD_PUBLIC_KEY'') a (network_of env) d) (\<lambda>sep10.
            ebind (storeSep10Challenge (sk_auth env) rc a (sc_challenge sep10) (sc_transactionXdr sep10)) (\<lambda>_. ereturn sep10))) (\<lambda>sep10.
     ebind (aclock (sk_auth env)) (\<lambda>now.
     ebind (svc_setJSON rc (buildSep10NonceKey (sc_challenge sep10)) (NonceDoc \<lparr>nr_account = a, nr_createdAt = now\<rparr>) (Some SEP10_NONCE_TTL_SECONDS)) (\<lambda>_.
     ereturn (200, ChallengeBody
       \<lparr>cx_transaction = (if sc_transactionXdr sep10 \<noteq> [] then sc_transactionXdr sep10 else sc_challenge sep10),
        cx_network_passphrase = sc_networkPassphrase sep10,
        cx_multiKeyChallenge = (case cq_signers req of
              Some signers \<Rightarrow> if cq_multiKey req \<and> signers \<noteq> []
                then Some (generateMultiKeyChallenge signers (or_medium (cq_threshold req))) else None
            | None \<Rightarrow> None)\<rparr>)))))"
  by (rule ext) (simp add: make_challenge_def Let_def ebind_def ereturn_def split: prod.split sum.split)

lemma challenges_getChallenge:
  assumes "bytes_fresh (sk_auth env) given"
  shows "preserves (challenges_ok given V) (getChallenge env memory_client req)"
  unfolding getChallenge_def make_challenge_pieces Let_def
  by (intro challenges_storeChallenge [OF assms] challenges_storeSep10 [OF assms] challenges_rules)

lemma challenges_invariant: "bytes_fresh (sk_auth env) given \<Longrightarrow> auth_invariant env (challenges_ok given V)"
  by unfold_locales
     (intro challenges_getChallenge challenges_del challenges_other_key [OF other_keys(4)] challenges_issue challenges_rotate; assumption)+

lemma challenges_calls:
  "bytes_fresh (sk_auth env) given \<Longrightarrow> call_machine (auth_step env k) (challenges_ok given V)"
  by (rule call_machine.intro) (rule auth_invariant.step_P [OF challenges_invariant])

text \<open>
  A request to the token endpoint presents a challenge value: with a list of signatures its text is the value, without one it is a transaction
  whose only operation holds the value.
\<close>

definition presents :: "'w sep_env \<Rightarrow> string \<Rightarrow> token_request \<Rightarrow> bool" where
  "presents env v req = (case truthy_str (tq_transaction req) of
     None \<Rightarrow> False
   | Some t \<Rightarrow>
       (case tq_signatures req of
          Some (_ # _) \<Rightarrow> t = v
        | _ \<Rightarrow> (case sk_fromXDR env t (nc_passphrase (NETWORKS (network_of env))) of
              Inl _ \<Rightarrow> False
            | Inr tx \<Rightarrow> (case stx_operations tx of [operation] \<Rightarrow> op_value operation = Some v | _ \<Rightarrow> False))))"

text \<open>A request that is accepted with either path found its value stored, and removed it before tokens were issued.\<close>

definition redeemed :: "'w sep_env \<Rightarrow> string \<Rightarrow> 'w auth_server \<Rightarrow> 'w auth_server \<Rightarrow> bool" where
  "redeemed env v s s' \<longleftrightarrow> (\<exists>a ch m s1. js_get (sv_memory s) (challenge_key a) = Some (ChallengeDoc ch) \<and> ch_challenge ch = v
     \<and> sv_world s1 = sv_world s \<and> js_get (sv_memory s1) (challenge_key a) = None
     \<and> (\<forall>a'. js_get (sv_memory s1) (challenge_key a') \<in> {js_get (sv_memory s) (challenge_key a'), None})
     \<and> s' = snd (reply_tokens env memory_client a m s1))"

lemma as_challenge_Some: "as_challenge d = Some ch \<longleftrightarrow> d = Some (ChallengeDoc ch)"
  by (auto simp: as_challenge_def split: option.splits auth_doc.splits)

lemma multi_key_redeems:
  assumes "multi_key_login env memory_client t (sg # sgs) threshold s = (Inr (200, b), s')"
  shows "redeemed env t s s'"
proof -
  obtain ch where ch: "js_get (sv_memory s) (challenge_key (sg_publicKey sg)) = Some (ChallengeDoc ch)" "ch_challenge ch = t"
    using assms by (auto simp: multi_key_login_def getStoredChallenge_def mem_ops eff_defs Let_def as_challenge_Some split: if_splits option.splits)
  show ?thesis
    unfolding redeemed_def
    by (rule exI [of _ "sg_publicKey sg"], rule exI [of _ ch],
        rule exI [of _ "Some \<lparr>mt_sub = sg_publicKey sg, mt_signers = wr_signers (validateMultiKeySignatures (sg # sgs) (or_medium threshold)),
          mt_threshold = or_medium threshold, mt_authLevel = wr_authLevel (validateMultiKeySignatures (sg # sgs) (or_medium threshold))\<rparr>"],
        rule exI [of _ "s\<lparr>sv_memory := js_delete (challenge_key (sg_publicKey sg)) (sv_memory s)\<rparr>"])
       (use assms ch in \<open>auto simp: multi_key_login_def getStoredChallenge_def removeChallenge_def mem_ops eff_defs Let_def split: if_splits\<close>)
qed

lemma verified_value:
  assumes "sr_isValid (verifySep10ChallengeTransaction env t ch net now)"
  shows "\<exists>tx operation. sk_fromXDR env t (nc_passphrase (NETWORKS net)) = Inr tx \<and> stx_operations tx = [operation]
    \<and> op_value operation = Some (ch_challenge ch)"
  using assms by (auto simp: verifySep10ChallengeTransaction_def verifySep10Challenge_def sep10_invalid_def
      split: prod.splits sum.splits list.splits if_splits option.splits)

lemma single_key_redeems:
  assumes "single_key_login env memory_client t s = (Inr (200, b), s')"
    and p: "sk_fromXDR env t (nc_passphrase (NETWORKS (network_of env))) = Inr tx" "stx_operations tx = [operation]" "op_value operation = Some v"
  shows "redeemed env v s s'"
proof -
  obtain a where a: "extractAccountFromSep10Transaction env t (network_of env) = Some a"
    using assms(1) by (cases "extractAccountFromSep10Transaction env t (network_of env)") (auto simp: single_key_login_def eff_defs)
  obtain ch where ch: "js_get (sv_memory s) (challenge_key a) = Some (ChallengeDoc ch)"
    using assms(1) a by (cases "as_challenge (js_get (sv_memory s) (challenge_key a))")
      (auto simp: single_key_login_def getStoredChallenge_def mem_ops eff_defs as_challenge_Some)
  let ?v = "verifySep10ChallengeTransaction env t ch (network_of env) (au_now (sk_auth env) (sv_world s))"
  have valid: "sr_isValid ?v" and final: "s' = snd (reply_tokens env memory_client a None
      (s\<lparr>sv_memory := js_delete (challenge_key a) (js_delete (buildSep10NonceKey (ch_challenge ch)) (sv_memory s))\<rparr>))"
    using assms(1) a ch by (auto simp: single_key_login_def getStoredChallenge_def removeChallenge_def mem_ops eff_defs aclock_def Let_def
        split: if_splits)
  have "ch_challenge ch = v" using verified_value [OF valid] p by auto
  then show ?thesis
    unfolding redeemed_def
    by (intro exI [of _ a] exI [of _ ch] exI [of _ None]
          exI [of _ "s\<lparr>sv_memory := js_delete (challenge_key a) (js_delete (buildSep10NonceKey (ch_challenge ch)) (sv_memory s))\<rparr>"])
       (use ch final in auto)
qed

lemma accepted_redeems:
  assumes "getToken env memory_client req s = (Inr (200, b), s')" "presents env v req"
  shows "redeemed env v s s'"
proof -
  obtain t where t: "truthy_str (tq_transaction req) = Some t" using assms(2) by (cases "truthy_str (tq_transaction req)") (simp_all add: presents_def)
  show ?thesis
  proof (cases "tq_signatures req \<in> {None, Some []}")
    case True
    then obtain tx operation where p: "sk_fromXDR env t (nc_passphrase (NETWORKS (network_of env))) = Inr tx" "stx_operations tx = [operation]"
        "op_value operation = Some v"
      using assms(2) t by (auto simp: presents_def split: sum.splits list.splits)
    have "single_key_login env memory_client t s = (Inr (200, b), s')"
      using assms(1) t True by (auto simp: getToken_def ecatch_def ereturn_def split: prod.splits sum.splits)
    then show ?thesis by (rule single_key_redeems [OF _ p])
  next
    case False
    then obtain sg sgs where sg: "tq_signatures req = Some (sg # sgs)" by (cases "tq_signatures req"; cases "the (tq_signatures req)") auto
    then have "t = v" using assms(2) t by (simp add: presents_def)
    moreover have "multi_key_login env memory_client t (sg # sgs) (tq_threshold req) s = (Inr (200, b), s')"
      using assms(1) t sg by (auto simp: getToken_def ecatch_def ereturn_def split: prod.splits sum.splits)
    ultimately show ?thesis using multi_key_redeems by fast
  qed
qed

lemma redeemed_spends:
  assumes ok: "challenges_ok given V s" and fresh: "bytes_fresh (sk_auth env) given" and r: "redeemed env v s s'"
  shows "v \<notin> V \<and> challenges_ok given {v} s'"
proof -
  obtain a ch m s1 where ch: "js_get (sv_memory s) (challenge_key a) = Some (ChallengeDoc ch)" "ch_challenge ch = v"
    and s1: "sv_world s1 = sv_world s" "js_get (sv_memory s1) (challenge_key a) = None"
      "\<And>a'. js_get (sv_memory s1) (challenge_key a') \<in> {js_get (sv_memory s) (challenge_key a'), None}"
    and s': "s' = snd (reply_tokens env memory_client a m s1)"
    using r unfolding redeemed_def by blast
  have v: "v \<in> base64 ` given (sv_world s)" "v \<notin> V" using ok ch unfolding challenges_ok_def by blast+
  have kept: "challenges_ok given V s1" by (rule challenges_fewer [OF ok s1(3)]) (simp add: s1(1))
  have "ch_challenge c \<noteq> v" if c: "js_get (sv_memory s1) (challenge_key a') = Some (ChallengeDoc c)" for a' c
  proof
    assume "ch_challenge c = v"
    moreover have "js_get (sv_memory s) (challenge_key a') = Some (ChallengeDoc c)" using s1(3) [of a'] c by auto
    ultimately have "a' = a" using ok ch unfolding challenges_ok_def by metis
    then show False using c s1(2) by simp
  qed
  then have "challenges_ok given {v} s1" using kept v(1) s1(1) unfolding challenges_ok_def by auto
  then show ?thesis
    using v(2) preservesD [OF auth_invariant.reply_tokens_P [OF challenges_invariant [OF fresh]]] unfolding s' by blast
qed

text \<open>A result is tokens with status 200 or an error.\<close>

definition answers :: "('w, auth_response) auth \<Rightarrow> bool" where
  "answers m \<longleftrightarrow> (\<forall>s r s'. m s = (Inr r, s') \<longrightarrow> fst r = 200 \<or> (\<exists>t. snd r = ErrorBody t))"

lemma answers_rules:
  "answers (reply_error st t)" "answers (ereturn (200, b))" "(\<And>x. answers (g x)) \<Longrightarrow> answers (ebind m g)"
  "answers m1 \<Longrightarrow> answers m2 \<Longrightarrow> answers (if c then m1 else m2)"
  "answers m1 \<Longrightarrow> (\<And>x. answers (h x)) \<Longrightarrow> answers (case v of None \<Rightarrow> m1 | Some x \<Rightarrow> h x)"
  by (auto simp: answers_def eff_defs split: prod.splits sum.splits option.splits)

lemma token_answers: "\<exists>r s'. getToken env memory_client req s = (Inr r, s') \<and> (fst r = 200 \<or> (\<exists>t. snd r = ErrorBody t))"
proof -
  have "answers (single_key_login env memory_client t)" "answers (multi_key_login env memory_client t sgs th)" for t sgs th
    unfolding single_key_login_def multi_key_login_def reply_tokens_def Let_def by (intro answers_rules)+
  then show ?thesis
    by (auto simp: getToken_def answers_def ecatch_def ereturn_def split: option.split list.split prod.split sum.split) metis+
qed

text \<open>C28. A challenge is good for one login. If \<open>randomBytes\<close> never repeats a value, then once a request that presents a challenge, as a signed
  transaction or as a text with a list of signatures, was given tokens, every later request that presents the same challenge in either way is refused,
  whatever other requests were made before the first and between the two, new challenges for the same account included.
\<close>
theorem challenge_single_use:
  assumes fresh: "bytes_fresh (sk_auth env) given" and start: "s = foldl (auth_step env k) \<lparr>sv_memory = [], sv_world = w\<rparr> before"
    and first: "getToken env memory_client req s = (Inr (200, b), s')" "presents env v req"
    and again: "presents env v req'"
  shows "\<exists>status message s''. getToken env memory_client req' (foldl (auth_step env k) s' between) = (Inr (status, ErrorBody message), s'') \<and> status \<noteq> 200"
proof -
  let ?s = "foldl (auth_step env k) s' between"
  have "challenges_ok given {} \<lparr>sv_memory = [], sv_world = w\<rparr>" by (simp add: challenges_ok_def)
  then have "challenges_ok given {} s" unfolding start by (rule call_machine.run_inv [OF challenges_calls [OF fresh]])
  then have "challenges_ok given {v} s'" using redeemed_spends [OF _ fresh accepted_redeems [OF first]] by blast
  then have spent: "challenges_ok given {v} ?s" by (rule call_machine.run_inv [OF challenges_calls [OF fresh]])
  obtain r s'' where r: "getToken env memory_client req' ?s = (Inr r, s'')" "fst r = 200 \<or> (\<exists>t. snd r = ErrorBody t)" using token_answers by blast
  have "fst r \<noteq> 200"
  proof
    assume "fst r = 200"
    then have "getToken env memory_client req' ?s = (Inr (200, snd r), s'')" using r(1) by (metis prod.collapse)
    then show False using redeemed_spends [OF spent fresh accepted_redeems [OF _ again]] by blast
  qed
  then show ?thesis using r by (cases r) auto
qed

text \<open>
  The properties of the sessions at concrete libraries and requests: a generator that counts, a
  hash that is the identity, and an SDK that knows two challenge transactions of one account.
\<close>

definition demo_auth :: "(nat \<times> nat) auth_env" where
  "demo_auth = \<lparr>au_get = (\<lambda>k w. (Inr None, w)), au_set = (\<lambda>k v w. (Inr (), w)), au_del = (\<lambda>k w. (Inr 0, w)),
     au_expire = (\<lambda>k t w. (Inr (), w)), au_now = (\<lambda>w. 1000000),
     au_randomBytes = (\<lambda>n w. (replicate n (''abcdefgh'' ! fst w), (Suc (fst w), snd w))),
     au_randomUUID = (\<lambda>w. (replicate (Suc (snd w)) (CHR ''u''), (fst w, Suc (snd w)))),
     au_sha256 = (\<lambda>t. t), au_jwtSign = (\<lambda>p k e w. Inr (''jwt:'' @ jp_sub p)),
     au_jwtVerify = (\<lambda>t k w. Inl (PlainError ''jwt malformed'')), au_jwtDecode = (\<lambda>t. None), au_secret = ''secret''\<rparr>"

definition demo_value :: string where
  "demo_value = base64 (replicate 32 (CHR ''b''))"

definition demo_ops :: "bool \<Rightarrow> stellar_op list" where
  "demo_ops domain = challenge_operations ''ANCHOR'' ''ALICE'' demo_value (if domain then Some ''w.org'' else None)"

definition demo_tx :: "bool \<Rightarrow> bool \<Rightarrow> stellar_tx" where
  "demo_tx domain signed = \<lparr>stx_operations = demo_ops domain, stx_signatures = (if signed then [''s''] else []),
     stx_hash = ''h'', stx_maxTime = Some 1300\<rparr>"

definition demo_sep :: "(nat \<times> nat) sep_env" where
  "demo_sep = \<lparr>sk_auth = demo_auth,
     sk_fromXDR = (\<lambda>x net. if x = ''X1'' then Inr (demo_tx False False) else if x = ''X1S'' then Inr (demo_tx False True)
        else if x = ''X2'' then Inr (demo_tx True False) else if x = ''X2S'' then Inr (demo_tx True True)
        else Inl (PlainError ''bad XDR'')),
     sk_build = (\<lambda>anchor ops bounds net. if ops = demo_ops False then Inr ''X1'' else if ops = demo_ops True then Inr ''X2''
        else Inl (PlainError ''bad'')),
     sk_verify = (\<lambda>k. Inr (\<lambda>h s. Inr (k = ''ALICE'' \<and> s = ''s''))),
     sk_fetch = (\<lambda>u w. (Inr (True, Inr \<lparr>ha_low = 1, ha_med = 2, ha_high = 3,
        ha_signers = [(''ALICE'', 1), (''BOB'', 1)]\<rparr>), w)),
     sk_network = ''testnet'', sk_anchorKey = Some ''ANCHOR''\<rparr>"

lemma demo_crypto: "crypto_ok demo_auth"
  by (simp add: crypto_ok_def demo_auth_def)

lemma demo_xdr: "xdr_ok demo_sep"
  by (auto simp: xdr_ok_def demo_sep_def demo_tx_def)

definition demo_given :: "nat \<times> nat \<Rightarrow> string set" where
  "demo_given w = (\<lambda>i. replicate (Suc i) (CHR ''u'')) ` {i. i < snd w}"

lemma demo_fresh: "uuid_fresh demo_auth demo_given"
proof -
  have "{i. i < Suc n} = insert n {i. i < n}" for n :: nat by auto
  then show ?thesis by (auto simp: uuid_fresh_def demo_auth_def demo_given_def dest: arg_cong [where f = length])
qed

text \<open>A server with one session of Alice.\<close>

definition demo_token :: refresh_record where
  "demo_token = \<lparr>rt_familyId = ''u'', rt_publicKey = ''ALICE'', rt_multiKeyData = None, rt_status = Active,
     rt_createdAt = 0, rt_expiresAt = 604800000\<rparr>"

definition demo_family :: session_family where
  "demo_family = \<lparr>sf_familyId = ''u'', sf_publicKey = ''ALICE'', sf_tokenHashes = [''t0''], sf_revoked = False,
     sf_createdAt = 0, sf_revokedAt = None\<rparr>"

definition demo_session :: "(nat \<times> nat) auth_server" where
  "demo_session = \<lparr>sv_memory = [(refresh_key ''t0'', RefreshDoc demo_token), (family_key ''u'', FamilyDoc demo_family)],
     sv_world = (0, 1)\<rparr>"

lemma demo_hex [simp]:
  "hex (replicate 32 (CHR ''a'')) = ''6161616161616161616161616161616161616161616161616161616161616161''"
  "hex (replicate 32 (CHR ''b'')) = ''6262626262626262626262626262626262626262626262626262626262626262''"
  "hex (replicate 32 (CHR ''c'')) = ''6363636363636363636363636363636363636363636363636363636363636363''"
  by code_simp+

lemmas demo_run = rotate_check_def rotate_finish_def issueTokenPair_def family_id_def truthy_str_def adraw_def
  existing_family_def signAccessToken_def signToken_def generateRefreshTokenValue_def aclock_def eff_defs mem_ops
  Let_def hashRefreshToken_def extend_family_def token_payload_def REFRESH_TOKEN_TTL_SECONDS_def
  ACCESS_TOKEN_TTL_SECONDS_def demo_auth_def

definition demo_chain :: "(string list \<times> (nat \<times> nat) auth_server) option" where
  "demo_chain = rotate_times demo_auth (Suc 1) ''t0'' demo_session"

lemma demo_chain_tokens: "map_option fst demo_chain = Some [hex (replicate 32 (CHR ''a'')), hex (replicate 32 (CHR ''b''))]"
  by (simp add: demo_chain_def rotateRefreshToken_def demo_session_def demo_token_def demo_family_def demo_run)

theorem reuse_kills_chain_witness:
  "\<exists>f k s2. rotateRefreshToken demo_auth memory_client ''t0'' (snd (the demo_chain)) = (Inl (RefreshTokenReuseError f k), s2)
    \<and> family_revoked (sv_memory s2) f
    \<and> (\<forall>t \<in> set (fst (the demo_chain)). rotateRefreshToken demo_auth memory_client t s2
         = (Inl (PlainError ''Invalid or expired refresh token''), s2))"
proof (rule reuse_kills_chain [of demo_auth 1 _ demo_session])
  show "rotate_times demo_auth (Suc 1) ''t0'' demo_session = Some (fst (the demo_chain), snd (the demo_chain))"
    using demo_chain_tokens by (auto simp: demo_chain_def)
  show "\<forall>h r. js_get (sv_memory demo_session) (refresh_key h) = Some (RefreshDoc r) \<longrightarrow> rt_familyId r \<noteq> []"
    by (auto simp: demo_session_def demo_token_def split: if_splits)
  have "fst (the demo_chain) = [hex (replicate 32 (CHR ''a'')), hex (replicate 32 (CHR ''b''))]"
    using demo_chain_tokens by (metis fst_conv map_option_eq_Some option.sel prod.collapse)
  then show "distinct (List.map (hashRefreshToken demo_auth) (''t0'' # fst (the demo_chain)))"
    by (simp add: hashRefreshToken_def demo_auth_def)
qed


text \<open>Two rotations of one token that overlap, and one that overlaps with a revocation.\<close>

definition demo_first :: "(js_error + token_pair) \<times> (nat \<times> nat) auth_server" where
  "demo_first = rotate_finish demo_auth memory_client ''t0'' demo_token demo_session"

definition demo_second :: "(js_error + token_pair) \<times> (nat \<times> nat) auth_server" where
  "demo_second = rotate_finish demo_auth memory_client ''t0'' demo_token (snd demo_first)"

lemma demo_check: "rotate_check demo_auth memory_client ''t0'' demo_session = (Inr demo_token, demo_session)"
  by (simp add: check_ok usable_def family_revoked_def hashRefreshToken_def demo_auth_def demo_session_def
      demo_token_def demo_family_def)

lemma demo_pairs:
  "\<exists>p1 p2. fst demo_first = Inr p1 \<and> fst demo_second = Inr p2
    \<and> tp_refresh_token p1 = hex (replicate 32 (CHR ''a'')) \<and> tp_refresh_token p2 = hex (replicate 32 (CHR ''b''))"
  by (simp add: demo_first_def demo_second_def demo_session_def demo_token_def demo_family_def demo_run)

theorem overlapping_rotations_fork_witness:
  "\<exists>(p1 :: token_pair) (p2 :: token_pair) q1 q2. rotate_check demo_auth memory_client (tp_refresh_token p1) (snd demo_second) = (Inr q1, snd demo_second)
    \<and> rotate_check demo_auth memory_client (tp_refresh_token p2) (snd demo_second) = (Inr q2, snd demo_second)
    \<and> rt_familyId q1 = rt_familyId q2 \<and> p1 \<noteq> p2"
proof -
  obtain p1 p2 where p: "fst demo_first = Inr p1" "fst demo_second = Inr p2"
      "tp_refresh_token p1 = hex (replicate 32 (CHR ''a''))" "tp_refresh_token p2 = hex (replicate 32 (CHR ''b''))"
    using demo_pairs by blast
  then have f: "rotate_finish demo_auth memory_client ''t0'' demo_token demo_session = (Inr p1, snd demo_first)"
      "rotate_finish demo_auth memory_client ''t0'' demo_token (snd demo_first) = (Inr p2, snd demo_second)"
    by (simp_all add: demo_first_def demo_second_def prod_eq_iff)
  have "\<exists>q1 q2. rotate_check demo_auth memory_client (tp_refresh_token p1) (snd demo_second) = (Inr q1, snd demo_second)
    \<and> rotate_check demo_auth memory_client (tp_refresh_token p2) (snd demo_second) = (Inr q2, snd demo_second)
    \<and> rt_familyId q1 = rt_familyId q2"
    by (rule overlapping_rotations_fork [OF demo_check demo_check f])
       (use p in \<open>simp_all add: demo_token_def hashRefreshToken_def demo_auth_def REFRESH_TOKEN_TTL_SECONDS_def\<close>)
  moreover have "p1 \<noteq> p2" using p by auto
  ultimately show ?thesis by blast
qed

definition demo_revoked :: "(js_error + unit) \<times> (nat \<times> nat) auth_server" where
  "demo_revoked = invalidateSessionFamily demo_auth memory_client ''u'' demo_session"

definition demo_revived :: "(js_error + token_pair) \<times> (nat \<times> nat) auth_server" where
  "demo_revived = rotate_finish demo_auth memory_client ''t0'' demo_token (snd demo_revoked)"

lemma demo_revived_pair: "\<exists>p. fst demo_revived = Inr p \<and> tp_refresh_token p = hex (replicate 32 (CHR ''a''))"
  by (simp add: demo_revived_def demo_revoked_def invalidate_mem delete_all_def demo_session_def demo_token_def
      demo_family_def demo_run)

theorem rotation_revives_family_witness:
  "\<exists>(p :: token_pair) q. family_revoked (sv_memory (snd demo_revoked)) ''u'' \<and> \<not> family_revoked (sv_memory (snd demo_revived)) ''u''
    \<and> rotate_check demo_auth memory_client (tp_refresh_token p) (snd demo_revived) = (Inr q, snd demo_revived)"
proof -
  obtain p where p: "fst demo_revived = Inr p" "tp_refresh_token p = hex (replicate 32 (CHR ''a''))"
    using demo_revived_pair by blast
  have u: "rt_familyId demo_token = ''u''" by (simp add: demo_token_def)
  have r: "invalidateSessionFamily demo_auth memory_client (rt_familyId demo_token) demo_session = (Inr (), snd demo_revoked)"
    by (simp add: u demo_revoked_def invalidate_mem)
  have f: "family_revoked (sv_memory (snd demo_revoked)) (rt_familyId demo_token)"
    by (simp add: demo_revoked_def invalidate_mem demo_session_def demo_token_def demo_family_def family_revoked_def)
  have "rotate_finish demo_auth memory_client ''t0'' demo_token (snd demo_revoked) = (Inr p, snd demo_revived)"
    using p by (simp add: demo_revived_def prod_eq_iff)
  moreover have "hashRefreshToken demo_auth (tp_refresh_token p) \<noteq> hashRefreshToken demo_auth ''t0''" "tp_refresh_token p \<noteq> []"
    using p(2) by (simp_all add: hashRefreshToken_def demo_auth_def)
  ultimately show ?thesis
    using rotation_revives_family [OF demo_check r f, of p "snd demo_revived"] u f by auto
qed

text \<open>A challenge for Alice, and one with the domain of her wallet.\<close>

definition demo_request :: "bool \<Rightarrow> challenge_request" where
  "demo_request domain = \<lparr>cq_account = JStr ''ALICE'', cq_query_account = JUndef,
     cq_client_domain = (if domain then JStr ''w.org'' else JUndef), cq_query_client_domain = JUndef,
     cq_signers = None, cq_threshold = None, cq_multiKey = False\<rparr>"

definition demo_empty :: "(nat \<times> nat) auth_server" where
  "demo_empty = \<lparr>sv_memory = [], sv_world = (0, 0)\<rparr>"

definition demo_given_out :: "bool \<Rightarrow> (js_error + auth_response) \<times> (nat \<times> nat) auth_server" where
  "demo_given_out domain = getChallenge demo_sep memory_client (demo_request domain) demo_empty"

lemma demo_domain: "validateClientDomain ''w.org''"
  by code_simp

definition demo_challenge :: "bool \<Rightarrow> challenge_response" where
  "demo_challenge domain = \<lparr>cx_transaction = (if domain then ''X2'' else ''X1''),
     cx_network_passphrase = ''Test SDF Network ; September 2015'', cx_multiKeyChallenge = None\<rparr>"

lemma demo_given_challenge: "fst (demo_given_out domain) = Inr (200, ChallengeBody (demo_challenge domain))"
  by (cases domain)
     (simp_all add: demo_given_out_def demo_challenge_def getChallenge_def demo_request_def readStringParam_def truthy_str_def demo_domain
       trim_js_def is_js_space_def make_challenge_def generateChallenge_def storeChallenge_def storeSep10Challenge_def
       generateSep10ChallengeTransaction_def generateSep10Challenge_def NETWORKS_def network_of_def demo_sep_def demo_auth_def
       demo_empty_def demo_ops_def demo_value_def challenge_operations_def manage_data_def eff_defs mem_ops Let_def
       aclock_def adraw_def)

lemma demo_auth_get: "getChallenge demo_sep memory_client (demo_request domain) demo_empty
    = (Inr (200, ChallengeBody (demo_challenge domain)), snd (demo_given_out domain))"
  using demo_given_challenge [of domain] by (simp add: demo_given_out_def prod_eq_iff)

lemma demo_account: "readStringParam (cq_account (demo_request domain)) (cq_query_account (demo_request domain)) = Some ''ALICE''"
  by (simp add: demo_request_def readStringParam_def)

lemma demo_sep_auth: "sk_auth demo_sep = demo_auth"
  by (simp add: demo_sep_def)

theorem login_without_signature_witness:
  "\<exists>c t s''. getToken demo_sep memory_client \<lparr>tq_transaction = Some c,
        tq_signatures = Some [\<lparr>sg_publicKey = ''ALICE'', sg_signature = ''no signature'', sg_weight = Fin 3\<rparr>],
        tq_threshold = Some ''high''\<rparr> (snd (demo_given_out False)) = (Inr (200, TokenBody t), s'')
    \<and> tk_authLevel t = Some Full \<and> tk_token t = ''jwt:ALICE''"
  using login_without_signature [OF demo_auth_get [of False] demo_account demo_xdr, of "''no signature''"]
  by (auto simp: demo_sep_auth demo_crypto) (auto simp: demo_auth_def)

theorem client_domain_transaction_refused_witness:
  "getToken demo_sep memory_client \<lparr>tq_transaction = Some ''X2S'', tq_signatures = None, tq_threshold = None\<rparr>
      (snd (demo_given_out True)) = (Inr (400, ErrorBody ''Invalid transaction format''), snd (demo_given_out True))"
proof -
  have "\<forall>sgs \<in> {None, Some []}. getToken demo_sep memory_client \<lparr>tq_transaction = Some ''X2S'', tq_signatures = sgs, tq_threshold = None\<rparr>
      (snd (demo_given_out True)) = (Inr (400, ErrorBody ''Invalid transaction format''), snd (demo_given_out True))"
  proof (rule client_domain_transaction_refused [OF demo_auth_get [of True] demo_account _ demo_xdr, THEN conjunct1])
    show "readStringParam (cq_client_domain (demo_request True)) (cq_query_client_domain (demo_request True)) = Some ''w.org''"
      by (simp add: demo_request_def readStringParam_def)
    show "crypto_ok (sk_auth demo_sep)" by (simp add: demo_sep_auth demo_crypto)
    show "sk_fromXDR demo_sep (cx_transaction (demo_challenge True)) (cx_network_passphrase (demo_challenge True)) = Inr (demo_tx True False)"
      by (simp add: demo_sep_def demo_challenge_def)
    show "sk_fromXDR demo_sep ''X2S'' (cx_network_passphrase (demo_challenge True)) = Inr (demo_tx True False\<lparr>stx_signatures := [''s'']\<rparr>)"
      by (simp add: demo_sep_def demo_tx_def)
  qed simp
  then show ?thesis by simp
qed

lemma demo_fresh_challenge: "\<not> isSep10ChallengeExpired demo_sep ''X1S'' net 1000000"
proof -
  have "js_less (Fin 0) (js_int 1300) \<and> js_less (js_div (js_int 1000000) (Fin 1000)) (js_int 1300)" by code_simp
  then show ?thesis by (simp add: isSep10ChallengeExpired_def demo_sep_def demo_tx_def)
qed

lemma demo_verified: "verifySep10Challenge demo_sep ''X1S'' demo_value net = (True, ''ALICE'')"
  by (simp add: verifySep10Challenge_def demo_sep_def demo_tx_def demo_ops_def challenge_operations_def manage_data_def
      truthy_str_def signed_with_def)

text \<open>A generator whose values get longer, so that none comes twice, and a transaction that Alice signed over its second value.\<close>

definition demo_fresh_auth :: "(nat \<times> nat) auth_env" where
  "demo_fresh_auth = demo_auth\<lparr>au_randomBytes := (\<lambda>n w. (replicate (n + fst w) (CHR ''a''), (Suc (fst w), snd w)))\<rparr>"

definition demo_drawn :: "nat \<times> nat \<Rightarrow> string set" where
  "demo_drawn w = (\<lambda>i. replicate (32 + i) (CHR ''a'')) ` {i. i < fst w}"

lemma demo_bytes: "bytes_fresh demo_fresh_auth demo_drawn"
proof -
  have "{i. i < Suc n} = insert n {i. i < n}" for n :: nat by auto
  then show ?thesis by (auto simp: bytes_fresh_def demo_fresh_auth_def demo_auth_def demo_drawn_def dest: arg_cong [where f = length])
qed

definition demo_second_value :: string where
  "demo_second_value = base64 (replicate 33 (CHR ''a''))"

definition demo_fresh_sep :: "(nat \<times> nat) sep_env" where
  "demo_fresh_sep = demo_sep\<lparr>sk_auth := demo_fresh_auth, sk_build := (\<lambda>_ _ _ _. Inr ''X1''),
     sk_fromXDR := (\<lambda>x net. if x = ''X1S'' then Inr \<lparr>stx_operations = [manage_data ''stellar.sep10.challenge'' demo_second_value ''ALICE''],
        stx_signatures = [''s''], stx_hash = ''h'', stx_maxTime = Some 1300\<rparr> else Inl (PlainError ''bad XDR''))\<rparr>"

definition demo_signed :: token_request where
  "demo_signed = \<lparr>tq_transaction = Some ''X1S'', tq_signatures = None, tq_threshold = None\<rparr>"

definition demo_text :: token_request where
  "demo_text = \<lparr>tq_transaction = Some demo_second_value,
     tq_signatures = Some [\<lparr>sg_publicKey = ''ALICE'', sg_signature = ''x'', sg_weight = Fin 3\<rparr>], tq_threshold = None\<rparr>"

definition demo_offered :: "(nat \<times> nat) auth_server" where
  "demo_offered = foldl (auth_step demo_fresh_sep None) demo_empty [PostChallenge (demo_request False)]"

lemma demo_stored:
  "\<exists>ch n. js_get (sv_memory demo_offered) (challenge_key ''ALICE'') = Some (ChallengeDoc ch)
    \<and> ch_challenge ch = demo_second_value \<and> js_get (sv_memory demo_offered) (buildSep10NonceKey demo_second_value) = Some (NonceDoc n)
    \<and> nr_account n = ''ALICE''"
  by (simp add: demo_offered_def auth_step_def auth_router_def getChallenge_def demo_request_def readStringParam_def truthy_str_def
       trim_js_def is_js_space_def make_challenge_def generateChallenge_def storeChallenge_def storeSep10Challenge_def
       generateSep10ChallengeTransaction_def generateSep10Challenge_def NETWORKS_def network_of_def demo_fresh_sep_def demo_sep_def
       demo_fresh_auth_def demo_auth_def demo_empty_def demo_second_value_def challenge_operations_def manage_data_def eff_defs mem_ops Let_def
       aclock_def adraw_def)

lemma demo_fresh_verified:
  "verifySep10Challenge demo_fresh_sep ''X1S'' demo_second_value net = (True, ''ALICE'')" "\<not> isSep10ChallengeExpired demo_fresh_sep ''X1S'' net 1000000"
proof -
  have "js_less (Fin 0) (js_int 1300) \<and> js_less (js_div (js_int 1000000) (Fin 1000)) (js_int 1300)" by code_simp
  then show "\<not> isSep10ChallengeExpired demo_fresh_sep ''X1S'' net 1000000" by (simp add: isSep10ChallengeExpired_def demo_fresh_sep_def)
qed (simp add: verifySep10Challenge_def demo_fresh_sep_def demo_sep_def manage_data_def truthy_str_def signed_with_def)

lemma demo_logged_in: "\<exists>t s'. getToken demo_fresh_sep memory_client demo_signed demo_offered = (Inr (200, TokenBody t), s')"
proof -
  obtain ch n where ch: "js_get (sv_memory demo_offered) (challenge_key ''ALICE'') = Some (ChallengeDoc ch)" "ch_challenge ch = demo_second_value"
      "js_get (sv_memory demo_offered) (buildSep10NonceKey demo_second_value) = Some (NonceDoc n)" "nr_account n = ''ALICE''"
    using demo_stored by blast
  have "extractAccountFromSep10Transaction demo_fresh_sep ''X1S'' (network_of demo_fresh_sep) = Some ''ALICE''"
    by (simp add: extractAccountFromSep10Transaction_def demo_fresh_sep_def manage_data_def truthy_str_def)
  moreover have "au_now (sk_auth demo_fresh_sep) w = 1000000" for w by (simp add: demo_fresh_sep_def demo_fresh_auth_def demo_auth_def)
  moreover have issued: "\<exists>t s'. reply_tokens demo_fresh_sep memory_client ''ALICE'' None s = (Inr (200, TokenBody t), s')" for s
    by (simp add: reply_tokens_def issueTokenPair_def family_id_def truthy_str_def existing_family_def signAccessToken_def signToken_def
        generateRefreshTokenValue_def aclock_def adraw_def eff_defs mem_ops Let_def demo_fresh_sep_def demo_fresh_auth_def demo_auth_def
        split: prod.split)
  moreover obtain t s' where "reply_tokens demo_fresh_sep memory_client ''ALICE'' None (demo_offered\<lparr>sv_memory := js_delete (challenge_key ''ALICE'')
      (js_delete (buildSep10NonceKey demo_second_value) (sv_memory demo_offered))\<rparr>) = (Inr (200, TokenBody t), s')" using issued by blast
  ultimately show ?thesis
    using ch by (simp add: demo_signed_def getToken_def truthy_str_def single_key_login_def getStoredChallenge_def removeChallenge_def
        mem_ops aclock_def eff_defs Let_def verifySep10ChallengeTransaction_def demo_fresh_verified)
qed

text \<open>The signed transaction is redeemed; after a new challenge for Alice its text is refused.\<close>
theorem challenge_single_use_witness:
  "\<exists>t s' status message s''. getToken demo_fresh_sep memory_client demo_signed demo_offered = (Inr (200, TokenBody t), s')
    \<and> getToken demo_fresh_sep memory_client demo_text (foldl (auth_step demo_fresh_sep None) s' [PostChallenge (demo_request False)])
      = (Inr (status, ErrorBody message), s'') \<and> status \<noteq> 200"
proof -
  obtain t s' where first: "getToken demo_fresh_sep memory_client demo_signed demo_offered = (Inr (200, TokenBody t), s')" using demo_logged_in by blast
  have p: "presents demo_fresh_sep demo_second_value demo_signed" "presents demo_fresh_sep demo_second_value demo_text"
    using base64_nonempty [of "replicate 33 (CHR ''a'')"]
    by (simp_all add: presents_def demo_signed_def demo_text_def truthy_str_def demo_fresh_sep_def manage_data_def demo_second_value_def split: list.split)
  have fresh: "bytes_fresh (sk_auth demo_fresh_sep) demo_drawn" using demo_bytes by (simp add: demo_fresh_sep_def)
  have "demo_offered = foldl (auth_step demo_fresh_sep None) \<lparr>sv_memory = [], sv_world = (0, 0)\<rparr> [PostChallenge (demo_request False)]"
    by (simp add: demo_offered_def demo_empty_def)
  from challenge_single_use [OF fresh this first p, of "[PostChallenge (demo_request False)]"] first show ?thesis by blast
qed

definition demo_stored_challenge :: challenge_record where
  "demo_stored_challenge = \<lparr>ch_challenge = demo_value, ch_publicKey = ''ALICE'', ch_createdAt = 0, ch_transactionXdr = None\<rparr>"

theorem multisig_valid_iff_witness:
  "\<exists>v s'. verifySep10ChallengeTransactionMultiSig demo_sep ''X1S'' demo_stored_challenge TESTNET MedT None demo_empty = (Inr v, s')
    \<and> \<not> sr_isValid v"
proof -
  have "verifySep10Challenge demo_sep ''X1S'' (ch_challenge demo_stored_challenge) TESTNET = (True, ''ALICE'')"
    by (simp add: demo_stored_challenge_def demo_verified)
  moreover have "\<not> isSep10ChallengeExpired demo_sep ''X1S'' TESTNET (au_now (sk_auth demo_sep) (sv_world demo_empty))"
    using demo_fresh_challenge by (simp add: demo_sep_auth demo_auth_def)
  moreover have "sk_fromXDR demo_sep ''X1S'' (nc_passphrase (NETWORKS TESTNET)) = Inr (demo_tx False True)"
    by (simp add: demo_sep_def)
  ultimately show ?thesis
    using multisig_valid_iff [of demo_sep "''X1S''" demo_stored_challenge TESTNET "''ALICE''" demo_empty "demo_tx False True" MedT]
    by (auto simp: demo_sep_def demo_empty_def required_weight_def signer_signed_def signed_with_def demo_tx_def)
qed

definition demo_revoked_session :: "(nat \<times> nat) auth_server" where
  "demo_revoked_session = \<lparr>sv_memory = [(family_key ''u'', FamilyDoc (demo_family\<lparr>sf_tokenHashes := [], sf_revoked := True\<rparr>))],
     sv_world = (0, 1)\<rparr>"

theorem revoked_family_stays_revoked_witness:
  "family_revoked (sv_memory (foldl (auth_step demo_sep None) demo_revoked_session [PostChallenge (demo_request False)])) ''u''"
proof -
  have "families_ok demo_given {} demo_revoked_session"
    by (auto simp: families_ok_def demo_revoked_session_def demo_given_def split: if_splits)
  moreover have "family_revoked (sv_memory demo_revoked_session) ''u''"
    by (simp add: family_revoked_def demo_revoked_session_def demo_family_def)
  moreover have "uuid_fresh (sk_auth demo_sep) demo_given" by (simp add: demo_sep_auth demo_fresh)
  ultimately show ?thesis by (intro revoked_family_stays_revoked [THEN conjunct1, OF _ _ _ refl])
qed

theorem bearer_jwt_never_refreshed_witness:
  "refreshToken demo_sep memory_client
     \<lparr>rq_refresh_token = JUndef, rq_refreshToken = JUndef, rq_authorization = Some ''Bearer jwt:ALICE''\<rparr> demo_session
   = (Inr (401, ErrorBody ''Invalid or expired refresh token''), demo_session)"
  by (rule bearer_jwt_never_refreshed [where jwt = "''jwt:ALICE''"])
     (simp_all add: body_token_def bearer_token_def starts_with_def second_word_def trim_js_def is_js_space_def
        demo_sep_auth hashRefreshToken_def demo_auth_def demo_session_def refresh_key_def family_key_def)

end
