(* ===== verification/Fees.thy ===== *)
theory Fees
  imports Batch_Types Js_Text
begin

text \<open>
  \<open>backend/src/services/fee.service.ts\<close>, \<open>utils/decimal.ts\<close>, \<open>config/assets.ts\<close> and
  \<open>api/controllers/fee.controller.ts\<close>: network fees from Horizon's statistics, fee schedules with
  an effective date, and the fee of an amount. bignumber.js, Horizon, Redis and the parsing of
  dates are parameters; the table of fee schedules is part of the state, and its calls may fail.
  Dates are milliseconds.
\<close>

section \<open>Decimal arithmetic\<close>

text \<open>A \<open>BigNumber.Value\<close> that the code passes: a number or a text.\<close>

datatype amount_value = NumV jsnum | TextV string

record 'b bignum =
  bn_new :: "amount_value \<Rightarrow> 'b"
  bn_plus :: "'b \<Rightarrow> 'b \<Rightarrow> 'b"
  bn_times :: "'b \<Rightarrow> 'b \<Rightarrow> 'b"
  bn_dividedBy :: "'b \<Rightarrow> 'b \<Rightarrow> 'b"
  bn_lt :: "'b \<Rightarrow> 'b \<Rightarrow> bool"
  bn_decimalPlaces :: "nat \<Rightarrow> 'b \<Rightarrow> 'b"
  bn_toFixed :: "nat \<Rightarrow> 'b \<Rightarrow> string"
  bn_isFinite :: "'b \<Rightarrow> bool"
  bn_isNegative :: "'b \<Rightarrow> bool"

definition DECIMAL_PRECISION :: nat where
  "DECIMAL_PRECISION = 7"

definition toDecimal :: "'b bignum \<Rightarrow> amount_value \<Rightarrow> 'b" where
  "toDecimal B v = bn_new B v"

definition formatDecimal :: "'b bignum \<Rightarrow> 'b \<Rightarrow> nat \<Rightarrow> string" where
  "formatDecimal B x precision = bn_toFixed B precision (bn_decimalPlaces B precision x)"

text \<open>\<open>Number(text)\<close>; on the texts of \<open>toFixed\<close> it agrees with \<open>parseFloat\<close>.\<close>

definition number_of_fixed :: "string \<Rightarrow> jsnum" where
  "number_of_fixed s = parseFloat s"

section \<open>Assets\<close>

datatype fee_type = Flat | Percentage | Tiered | OtherType string

record asset_config =
  as_code :: string
  as_issuers :: "(string \<times> string) list"
  as_type :: string
  as_desc :: string
  as_minAmount :: string
  as_maxAmount :: string
  as_feeType :: fee_type
  as_feeFixed :: jsnum
  as_feePercent :: jsnum
  as_feeMinimum :: jsnum
  as_depositEnabled :: bool
  as_withdrawEnabled :: bool

definition ASSETS :: "asset_config list" where
  "ASSETS =
     [\<lparr>as_code = ''USDC'',
       as_issuers = [(''PUBLIC'', ''GA5ZSEJYB37JRC5AVCIA5MOP4RHTM335X2KGX3IHOJAPP5RE34K4KZVN''),
                     (''TESTNET'', ''GBBD47IF6LWLVNC7F7YSACOA73YI4COI3V5O2S46F7S44GUL44YQY4O2''),
                     (''FUTURENET'', ''GBBD47IF6LWLVNC7F7YSACOA73YI4COI3V5O2S46F7S44GUL44YQY4O2'')],
       as_type = ''fiat'', as_desc = ''USD Coin - a fully collateralized US dollar stablecoin'',
       as_minAmount = ''0.01'', as_maxAmount = ''1000000'', as_feeType = Flat,
       as_feeFixed = round64 (5 / 10), as_feePercent = Fin 0, as_feeMinimum = Fin 0,
       as_depositEnabled = True, as_withdrawEnabled = True\<rparr>,
      \<lparr>as_code = ''USD'', as_issuers = [], as_type = ''fiat'',
       as_desc = ''US Dollar - traditional currency'', as_minAmount = ''0.01'', as_maxAmount = ''1000000'',
       as_feeType = Tiered, as_feeFixed = round64 (5 / 10), as_feePercent = round64 (5 / 1000),
       as_feeMinimum = round64 (5 / 10), as_depositEnabled = True, as_withdrawEnabled = True\<rparr>]"

definition ASSET_MAP :: "(string, asset_config) jsmap" where
  "ASSET_MAP = List.map (\<lambda>a. (as_code a, a)) ASSETS"

definition SUPPORTED_ASSET_CODES :: "string list" where
  "SUPPORTED_ASSET_CODES = List.map as_code ASSETS"

definition getAsset :: "string \<Rightarrow> asset_config option" where
  "getAsset code = js_get ASSET_MAP (upper_text (trim_js code))"

definition getIssuer :: "string \<Rightarrow> string \<Rightarrow> string option" where
  "getIssuer code network = Option.bind (getAsset code) (\<lambda>a. map_of (as_issuers a) network)"

definition isDepositSupported :: "string \<Rightarrow> bool" where
  "isDepositSupported code = (case getAsset code of Some a \<Rightarrow> as_depositEnabled a | None \<Rightarrow> False)"

definition isWithdrawSupported :: "string \<Rightarrow> bool" where
  "isWithdrawSupported code = (case getAsset code of Some a \<Rightarrow> as_withdrawEnabled a | None \<Rightarrow> False)"

section \<open>Data of the service\<close>

record fee_stats =
  fs_baseFeeStroops :: jsnum
  fs_surgeActive :: bool
  fs_surgeMultiplier :: jsnum
  fs_recommendedFeeStroops :: jsnum
  fs_p10FeeStroops :: jsnum
  fs_p50FeeStroops :: jsnum
  fs_p95FeeStroops :: jsnum
  fs_ledgerCapacityUsage :: jsnum
  fs_fetchedAt :: int

record horizon_fee_stats =
  hf_p10 :: string
  hf_p50 :: string
  hf_p95 :: string
  hf_ledger_capacity_usage :: string

record fee_schedule =
  sd_id :: "string option"
  sd_assetCode :: string
  sd_feeType :: fee_type
  sd_feeFixed :: jsnum
  sd_feePercent :: jsnum
  sd_feeMinimum :: jsnum
  sd_effectiveFrom :: "int option"

record asset_fee_result =
  af_assetCode :: string
  af_feeType :: fee_type
  af_inputAmount :: jsnum
  af_feeAmount :: jsnum
  af_feeFixed :: jsnum
  af_feePercent :: jsnum
  af_feeMinimum :: jsnum
  af_scheduleId :: "string option"
  af_effectiveFrom :: "int option"

record fee_row =
  fr_id :: string
  fr_assetCode :: string
  fr_feeType :: fee_type
  fr_feeFixed :: jsnum
  fr_feePercent :: jsnum
  fr_feeMinimum :: jsnum
  fr_effectiveFrom :: int

text \<open>
  A date that is given: a \<open>Date\<close>, which may be invalid, or a text. A call of the database draws
  an error or goes through; a new row draws its id.
\<close>

datatype date_value = DateV "int option" | DateText string

record ('b, 'w) fee_env =
  fe_big :: "'b bignum"
  fe_redis :: bool
  fe_get :: "string \<Rightarrow> 'w \<Rightarrow> (js_error + fee_stats option) \<times> 'w"
  fe_set :: "string \<Rightarrow> fee_stats \<Rightarrow> int \<Rightarrow> 'w \<Rightarrow> (js_error + unit) \<times> 'w"
  fe_fetch :: "string \<Rightarrow> 'w \<Rightarrow> (js_error + bool \<times> int \<times> (js_error + horizon_fee_stats)) \<times> 'w"
  fe_db :: "'w \<Rightarrow> js_error option \<times> 'w"
  fe_uuid :: "'w \<Rightarrow> string \<times> 'w"
  fe_parseDate :: "string \<Rightarrow> int option"
  fe_now :: "'w \<Rightarrow> int"
  fe_horizonUrl :: string

record 'w fee_state =
  fz_rows :: "fee_row list"
  fz_world :: 'w

type_synonym ('w, 'a) fees = "('w fee_state, js_error, 'a) eff"

definition fworld :: "('w \<Rightarrow> (js_error + 'a) \<times> 'w) \<Rightarrow> ('w, 'a) fees" where
  "fworld f s = (case f (fz_world s) of (r, w) \<Rightarrow> (r, s\<lparr>fz_world := w\<rparr>))"

definition fdb :: "('b, 'w) fee_env \<Rightarrow> ('w, unit) fees" where
  "fdb env s = (case fe_db env (fz_world s) of
     (None, w) \<Rightarrow> (Inr (), s\<lparr>fz_world := w\<rparr>) | (Some e, w) \<Rightarrow> (Inl e, s\<lparr>fz_world := w\<rparr>))"

definition fclock :: "('b, 'w) fee_env \<Rightarrow> ('w, int) fees" where
  "fclock env = eget (\<lambda>s. fe_now env (fz_world s))"

section \<open>Network fees\<close>

definition FEE_CACHE_KEY :: string where "FEE_CACHE_KEY = ''fee_engine:stats''"
definition FEE_CACHE_TTL_SECONDS :: int where "FEE_CACHE_TTL_SECONDS = 30"
definition SURGE_MULTIPLIER_CAP :: jsnum where "SURGE_MULTIPLIER_CAP = Fin 5"
definition SURGE_THRESHOLD_P95 :: jsnum where "SURGE_THRESHOLD_P95 = Fin 2"
definition BASE_FEE_STROOPS :: jsnum where "BASE_FEE_STROOPS = Fin 100"

definition fetchHorizonFeeStats :: "('b, 'w) fee_env \<Rightarrow> ('w, horizon_fee_stats) fees" where
  "fetchHorizonFeeStats env =
     ebind (fworld (fe_fetch env (fe_horizonUrl env @ ''/fee_stats''))) (\<lambda>(res_ok, status, body).
     if \<not> res_ok then ethrow (PlainError (''Horizon fee_stats returned '' @ show_int status))
     else elift body)"

text \<open>\<open>n.toFixed(f)\<close>.\<close>

definition num_toFixed :: "nat \<Rightarrow> jsnum \<Rightarrow> string" where
  "num_toFixed f n = (case n of Fin r \<Rightarrow> toFixed f r | NaN \<Rightarrow> ''NaN'' | PosInf \<Rightarrow> ''Infinity'' | NegInf \<Rightarrow> ''-Infinity'')"

definition computeSurgeMultiplier :: "jsnum \<Rightarrow> jsnum \<Rightarrow> jsnum \<Rightarrow> jsnum \<times> bool" where
  "computeSurgeMultiplier p50 p95 capacityUsage =
     (let feeRatio = (if js_less (Fin 0) p50 then js_div p95 p50 else Fin 1);
          surgeActive = (js_le SURGE_THRESHOLD_P95 feeRatio \<or> js_le (round64 (8 / 10)) capacityUsage)
      in if \<not> surgeActive then (Fin 1, False)
         else
           let capacityPressure = math_max (Fin 0) (js_div (js_sub capacityUsage (round64 (8 / 10))) (round64 (2 / 10)));
               rawMultiplier = js_mul feeRatio (js_add (Fin 1) (js_mul capacityPressure (Fin (1 / 2))));
               multiplier = math_min rawMultiplier SURGE_MULTIPLIER_CAP
           in (parseFloat (num_toFixed 2 multiplier), True))"

definition or_default :: "jsnum \<Rightarrow> jsnum \<Rightarrow> jsnum" where
  "or_default d n = (if n = NaN \<or> n = Fin 0 then d else n)"

definition buildFeeStats :: "horizon_fee_stats \<Rightarrow> int \<Rightarrow> fee_stats" where
  "buildFeeStats raw now =
     (let p10 = or_default BASE_FEE_STROOPS (parseInt10 (hf_p10 raw));
          p50 = or_default BASE_FEE_STROOPS (parseInt10 (hf_p50 raw));
          p95 = or_default BASE_FEE_STROOPS (parseInt10 (hf_p95 raw));
          capacityUsage = or_default (Fin 0) (parseFloat (hf_ledger_capacity_usage raw))
      in case computeSurgeMultiplier p50 p95 capacityUsage of (multiplier, surgeActive) \<Rightarrow>
           \<lparr>fs_baseFeeStroops = BASE_FEE_STROOPS, fs_surgeActive = surgeActive, fs_surgeMultiplier = multiplier,
            fs_recommendedFeeStroops = (if surgeActive then math_ceil (js_mul p95 multiplier) else p50),
            fs_p10FeeStroops = p10, fs_p50FeeStroops = p50, fs_p95FeeStroops = p95,
            fs_ledgerCapacityUsage = capacityUsage, fs_fetchedAt = now\<rparr>)"

definition getFeeStats :: "('b, 'w) fee_env \<Rightarrow> ('w, fee_stats) fees" where
  "getFeeStats env =
     ebind (if fe_redis env then fworld (fe_get env FEE_CACHE_KEY) else ereturn None) (\<lambda>cached.
     case cached of
       Some stats \<Rightarrow> ereturn stats
     | None \<Rightarrow>
         ebind (fetchHorizonFeeStats env) (\<lambda>raw.
         ebind (fclock env) (\<lambda>now.
         let stats = buildFeeStats raw now
         in if fe_redis env
            then ebind (fworld (fe_set env FEE_CACHE_KEY stats FEE_CACHE_TTL_SECONDS)) (\<lambda>_. ereturn stats)
            else ereturn stats)))"

record fee_estimate =
  ft_estimatedFeeStroops :: jsnum
  ft_estimatedFeeXLM :: string
  ft_surgeActive :: bool
  ft_surgeMultiplier :: jsnum
  ft_operationCount :: jsnum

definition estimateFee :: "('b, 'w) fee_env \<Rightarrow> jsnum \<Rightarrow> ('w, fee_estimate) fees" where
  "estimateFee env operationCount =
     ebind (getFeeStats env) (\<lambda>stats.
     let estimated = js_mul (fs_recommendedFeeStroops stats) operationCount; B = fe_big env
     in ereturn \<lparr>ft_estimatedFeeStroops = estimated,
          ft_estimatedFeeXLM = formatDecimal B
            (bn_dividedBy B (toDecimal B (NumV estimated)) (toDecimal B (NumV (Fin 10000000)))) DECIMAL_PRECISION,
          ft_surgeActive = fs_surgeActive stats, ft_surgeMultiplier = fs_surgeMultiplier stats,
          ft_operationCount = operationCount\<rparr>)"

section \<open>The fee of an amount\<close>

text \<open>The part of a configuration or a schedule that the computation reads.\<close>

record fee_config =
  fg_feeType :: fee_type
  fg_feeFixed :: jsnum
  fg_feePercent :: jsnum
  fg_feeMinimum :: jsnum

definition schedule_config :: "fee_schedule \<Rightarrow> fee_config" where
  "schedule_config s = \<lparr>fg_feeType = sd_feeType s, fg_feeFixed = sd_feeFixed s,
     fg_feePercent = sd_feePercent s, fg_feeMinimum = sd_feeMinimum s\<rparr>"

definition computeAssetFee :: "'b bignum \<Rightarrow> fee_config \<Rightarrow> amount_value \<Rightarrow> jsnum" where
  "computeAssetFee B asset amount =
     (let amountValue = toDecimal B amount;
          num = (\<lambda>n. toDecimal B (NumV n));
          tiered = bn_plus B (num (fg_feeFixed asset)) (bn_times B amountValue (num (fg_feePercent asset)));
          fee = (case fg_feeType asset of
                   Flat \<Rightarrow> num (fg_feeFixed asset)
                 | Percentage \<Rightarrow> bn_times B amountValue (num (fg_feePercent asset))
                 | Tiered \<Rightarrow> tiered
                 | OtherType _ \<Rightarrow> tiered);
          fee = (if js_less (Fin 0) (fg_feeMinimum asset) \<and> bn_lt B fee (num (fg_feeMinimum asset))
                 then num (fg_feeMinimum asset) else fee)
      in number_of_fixed (formatDecimal B fee DECIMAL_PRECISION))"

section \<open>Fee schedules\<close>

text \<open>
  \<open>findFirst\<close> with the latest \<open>effectiveFrom\<close> that is not after the date; of several rows with
  the same date the first of the table.
\<close>

definition active_row :: "string \<Rightarrow> int \<Rightarrow> fee_row list \<Rightarrow> fee_row option" where
  "active_row code t rows =
     foldl (\<lambda>best r. if fr_assetCode r = code \<and> fr_effectiveFrom r \<le> t
         \<and> (case best of None \<Rightarrow> True | Some b \<Rightarrow> fr_effectiveFrom b < fr_effectiveFrom r)
       then Some r else best) None rows"

definition row_schedule :: "fee_row \<Rightarrow> fee_schedule" where
  "row_schedule r = \<lparr>sd_id = Some (fr_id r), sd_assetCode = fr_assetCode r, sd_feeType = fr_feeType r,
     sd_feeFixed = fr_feeFixed r, sd_feePercent = fr_feePercent r, sd_feeMinimum = fr_feeMinimum r,
     sd_effectiveFrom = Some (fr_effectiveFrom r)\<rparr>"

definition static_schedule :: "asset_config \<Rightarrow> fee_schedule" where
  "static_schedule a = \<lparr>sd_id = None, sd_assetCode = as_code a, sd_feeType = as_feeType a,
     sd_feeFixed = as_feeFixed a, sd_feePercent = as_feePercent a, sd_feeMinimum = as_feeMinimum a,
     sd_effectiveFrom = None\<rparr>"

text \<open>\<open>new Date(text)\<close>, and a date as it is; an invalid date makes the query throw.\<close>

definition target_date :: "('b, 'w) fee_env \<Rightarrow> date_value \<Rightarrow> int option" where
  "target_date env d = (case d of DateV t \<Rightarrow> t | DateText s \<Rightarrow> fe_parseDate env s)"

definition invalid_date_error :: js_error where
  "invalid_date_error = OtherErr ''PrismaClientValidationError'' ''Invalid value for argument `lte`: Provided Date object is invalid.''
     None None None None None None"

definition find_schedule :: "('b, 'w) fee_env \<Rightarrow> string \<Rightarrow> int option \<Rightarrow> ('w, fee_row option) fees" where
  "find_schedule env code t = (case t of
     None \<Rightarrow> ethrow invalid_date_error
   | Some d \<Rightarrow> ebind (fdb env) (\<lambda>_. eget (\<lambda>s. active_row code d (fz_rows s))))"

definition getActiveFeeSchedule :: "('b, 'w) fee_env \<Rightarrow> string \<Rightarrow> date_value option \<Rightarrow> ('w, fee_schedule) fees" where
  "getActiveFeeSchedule env assetCode effectiveAt =
     ebind (fclock env) (\<lambda>now.
     let targetDate = (case effectiveAt of None \<Rightarrow> Some now | Some d \<Rightarrow> target_date env d);
         normalizedCode = upper_text (trim_js assetCode)
     in ebind (ecatch (find_schedule env normalizedCode targetDate) (\<lambda>err. ereturn None)) (\<lambda>schedule.
        case schedule of
          Some r \<Rightarrow> ereturn (row_schedule r)
        | None \<Rightarrow>
            (case getAsset normalizedCode of
               None \<Rightarrow> ethrow (PlainError (''Unknown asset: '' @ assetCode))
             | Some a \<Rightarrow> ereturn (static_schedule a))))"

definition fee_result :: "'b bignum \<Rightarrow> fee_schedule \<Rightarrow> amount_value \<Rightarrow> asset_fee_result" where
  "fee_result B schedule amount =
     \<lparr>af_assetCode = sd_assetCode schedule, af_feeType = sd_feeType schedule,
      af_inputAmount = number_of_fixed (formatDecimal B (toDecimal B amount) DECIMAL_PRECISION),
      af_feeAmount = computeAssetFee B (schedule_config schedule) amount,
      af_feeFixed = sd_feeFixed schedule, af_feePercent = sd_feePercent schedule,
      af_feeMinimum = sd_feeMinimum schedule, af_scheduleId = truthy_str (sd_id schedule),
      af_effectiveFrom = sd_effectiveFrom schedule\<rparr>"

definition calculateAssetFee :: "('b, 'w) fee_env \<Rightarrow> string \<Rightarrow> amount_value \<Rightarrow> date_value option
    \<Rightarrow> ('w, asset_fee_result) fees" where
  "calculateAssetFee env assetCode amount effectiveAt =
     ebind (getActiveFeeSchedule env assetCode effectiveAt) (\<lambda>schedule.
     ereturn (fee_result (fe_big env) schedule amount))"

definition calculateAssetFeeSync :: "'b bignum \<Rightarrow> string \<Rightarrow> amount_value \<Rightarrow> fee_schedule option
    \<Rightarrow> js_error + asset_fee_result" where
  "calculateAssetFeeSync B assetCode amount schedule = (case schedule of
     Some s \<Rightarrow> Inr (fee_result B s amount)
   | None \<Rightarrow>
       (case getAsset assetCode of
          None \<Rightarrow> Inl (PlainError (''Unknown asset: '' @ assetCode))
        | Some a \<Rightarrow> Inr (fee_result B (static_schedule a) amount)))"

definition getFeeForTransaction :: "('b, 'w) fee_env \<Rightarrow> string \<Rightarrow> amount_value \<Rightarrow> date_value
    \<Rightarrow> ('w, asset_fee_result) fees" where
  "getFeeForTransaction env assetCode amount createdAt = calculateAssetFee env assetCode amount (Some createdAt)"

record schedule_data =
  dt_assetCode :: string
  dt_feeType :: fee_type
  dt_feeFixed :: "jsnum option"
  dt_feePercent :: "jsnum option"
  dt_feeMinimum :: "jsnum option"
  dt_effectiveFrom :: date_value

definition or_zero :: "jsnum option \<Rightarrow> jsnum" where
  "or_zero n = (case n of None \<Rightarrow> Fin 0 | Some x \<Rightarrow> x)"

definition insert_row :: "('b, 'w) fee_env \<Rightarrow> schedule_data \<Rightarrow> int \<Rightarrow> ('w, fee_row) fees" where
  "insert_row env data effectiveDate =
     ebind (fdb env) (\<lambda>_. \<lambda>s. case fe_uuid env (fz_world s) of (i, w) \<Rightarrow>
       let r = \<lparr>fr_id = i, fr_assetCode = upper_text (trim_js (dt_assetCode data)), fr_feeType = dt_feeType data,
             fr_feeFixed = or_zero (dt_feeFixed data), fr_feePercent = or_zero (dt_feePercent data),
             fr_feeMinimum = or_zero (dt_feeMinimum data), fr_effectiveFrom = effectiveDate\<rparr>
       in (Inr r, s\<lparr>fz_rows := fz_rows s @ [r], fz_world := w\<rparr>))"

definition addFeeSchedule :: "('b, 'w) fee_env \<Rightarrow> schedule_data \<Rightarrow> ('w, fee_row) fees" where
  "addFeeSchedule env data =
     ebind (fclock env) (\<lambda>now.
     case target_date env (dt_effectiveFrom data) of
       None \<Rightarrow> ethrow (PlainError ''effectiveFrom must be a future date'')
     | Some d \<Rightarrow> if d \<le> now then ethrow (PlainError ''effectiveFrom must be a future date'')
                else insert_row env data d)"

section \<open>The itemized fee of SEP-24\<close>

record sep24_fee =
  s4_assetCode :: string
  s4_operation :: string
  s4_inputAmount :: jsnum
  s4_totalFee :: jsnum
  s4_feeFixed :: jsnum
  s4_feePercent :: jsnum
  s4_feeDetails :: "(string \<times> jsnum \<times> string) list"

definition tier_percent :: "jsnum \<Rightarrow> jsnum" where
  "tier_percent amountValue = (if js_less amountValue (Fin 1000) then round64 (1 / 100) else round64 (5 / 1000))"

text \<open>
  A detail holds its amount as a number, where the code turns it into its text, and its
  description says \<open>>=\<close> for the sign of the code.
\<close>

definition calculateSep24Fee :: "'b bignum \<Rightarrow> string \<Rightarrow> string \<Rightarrow> amount_value \<Rightarrow> js_error + sep24_fee" where
  "calculateSep24Fee B assetCode operation amount = (case getAsset assetCode of
     None \<Rightarrow> Inl (PlainError (''Unknown asset: '' @ assetCode))
   | Some asset \<Rightarrow>
       let num = (\<lambda>n. toDecimal B (NumV n));
           amountValue = number_of_fixed (formatDecimal B (toDecimal B amount) DECIMAL_PRECISION);
           tierPercent = tier_percent amountValue;
           fixedFee = number_of_fixed (formatDecimal B (num (as_feeFixed asset)) DECIMAL_PRECISION);
           percentageFee = number_of_fixed (formatDecimal B (bn_times B (num amountValue) (num tierPercent)) DECIMAL_PRECISION);
           totalFee = number_of_fixed (formatDecimal B (bn_plus B (num fixedFee) (num percentageFee)) DECIMAL_PRECISION)
       in Inr \<lparr>s4_assetCode = as_code asset, s4_operation = operation, s4_inputAmount = amountValue,
            s4_totalFee = totalFee, s4_feeFixed = fixedFee, s4_feePercent = tierPercent,
            s4_feeDetails =
              (if js_less (Fin 0) fixedFee
               then [(''Flat fee'', fixedFee, ''Flat processing fee for '' @ operation)] else [])
              @ [(''Variable fee'', percentageFee, num_toFixed 2 (js_mul tierPercent (Fin 100)) @ ''% fee (''
                   @ (if js_less amountValue (Fin 1000) then ''standard tier)'' else ''reduced tier for amounts >= 1 000)''))]\<rparr>)"

section \<open>The endpoints\<close>

datatype fee_body = StatsBody fee_stats | EstimateBody fee_estimate | AssetFeeBody asset_fee_result
  | FeeErrorBody string string "string option"

type_synonym fee_response = "int \<times> fee_body"

text \<open>\<open>err instanceof Error ? err.message : d\<close>.\<close>

definition message_or :: "string \<Rightarrow> js_error \<Rightarrow> string" where
  "message_or d e = (case error_message e of Some m \<Rightarrow> m | None \<Rightarrow> d)"

definition getFeeStats_endpoint :: "('b, 'w) fee_env \<Rightarrow> ('w, fee_response) fees" where
  "getFeeStats_endpoint env =
     ecatch (ebind (getFeeStats env) (\<lambda>stats. ereturn (200, StatsBody stats)))
       (\<lambda>err. ereturn (502, FeeErrorBody ''BAD_GATEWAY'' (message_or ''Failed to fetch fee stats'' err) None))"

definition estimateFee_endpoint :: "('b, 'w) fee_env \<Rightarrow> string \<Rightarrow> ('w, fee_response) fees" where
  "estimateFee_endpoint env operations =
     (let raw = parseInt10 operations;
          operationCount = (if js_isFinite raw \<and> js_less (Fin 0) raw then raw else Fin 1)
      in ecatch (ebind (estimateFee env operationCount) (\<lambda>e. ereturn (200, EstimateBody e)))
           (\<lambda>err. ereturn (502, FeeErrorBody ''BAD_GATEWAY'' (message_or ''Failed to estimate fee'' err) None)))"

definition calculateAssetFee_endpoint :: "('b, 'w) fee_env \<Rightarrow> string option \<Rightarrow> string option \<Rightarrow> string option
    \<Rightarrow> ('w, fee_response) fees" where
  "calculateAssetFee_endpoint env assetCode amountRaw timestampRaw =
     (case (truthy_str assetCode, truthy_str amountRaw) of
        (None, _) \<Rightarrow> ereturn (400, FeeErrorBody ''BAD_REQUEST'' ''asset query parameter is required'' (Some ''asset''))
      | (Some code, None) \<Rightarrow> ereturn (400, FeeErrorBody ''BAD_REQUEST'' ''amount must be a non-negative number'' (Some ''amount''))
      | (Some code, Some raw) \<Rightarrow>
          let amount = toDecimal (fe_big env) (TextV raw)
          in if \<not> bn_isFinite (fe_big env) amount \<or> bn_isNegative (fe_big env) amount
             then ereturn (400, FeeErrorBody ''BAD_REQUEST'' ''amount must be a non-negative number'' (Some ''amount''))
             else
               let effectiveAt = map_option (fe_parseDate env) (truthy_str timestampRaw)
               in if effectiveAt = Some None
                  then ereturn (400, FeeErrorBody ''BAD_REQUEST'' ''invalid timestamp query parameter format'' (Some ''timestamp''))
                  else ecatch
                    (ebind (calculateAssetFee env code (TextV raw) (map_option DateV effectiveAt))
                      (\<lambda>result. ereturn (200, AssetFeeBody result)))
                    (\<lambda>err. ereturn (400, FeeErrorBody ''BAD_REQUEST'' (message_or ''Failed to calculate fee'' err) None)))"

end
