(* ===== verification/Fee_Props.thy ===== *)
theory Fee_Props
  imports Fees
begin

text \<open>
  Properties of the fees: the computed fee against the formula, the history of fee schedules,
  the recommended fee of a surge, and the tiers of SEP-24.
\<close>

section \<open>bignumber.js\<close>

text \<open>
  What is assumed of bignumber.js, for values that are not negative: \<open>val\<close> is the exact value of
  a number that is finite; \<open>plus\<close> and \<open>times\<close> are exact, \<open>decimalPlaces\<close> rounds half up, and
  \<open>toFixed\<close> writes the decimals of a value that has no more of them.
\<close>

definition bn_ok :: "'b bignum \<Rightarrow> ('b \<Rightarrow> rat option) \<Rightarrow> bool" where
  "bn_ok B val \<longleftrightarrow>
     (\<forall>n q. val (bn_new B (NumV n)) = Some q \<longrightarrow> (\<exists>r. n = Fin r \<and> (0 < r \<longleftrightarrow> 0 < q))) \<and>
     (\<forall>x y a b. val x = Some a \<longrightarrow> val y = Some b \<longrightarrow>
        val (bn_plus B x y) = Some (a + b) \<and> val (bn_times B x y) = Some (a * b) \<and> bn_lt B x y = (a < b)) \<and>
     (\<forall>f x a. val x = Some a \<longrightarrow> 0 \<le> a \<longrightarrow> val (bn_decimalPlaces B f x) = Some (half_up f a)) \<and>
     (\<forall>f x a. val x = Some a \<longrightarrow> 0 \<le> a \<longrightarrow> half_up f a = a \<longrightarrow> bn_toFixed B f x = toFixed f a)"

lemma half_up_nonneg: "0 \<le> a \<Longrightarrow> 0 \<le> half_up f a"
  by (simp add: half_up_def)

lemma half_up_idem [simp]: "half_up f (half_up f a) = half_up f a"
proof -
  have "\<lfloor>of_int i + 1 / 2 :: rat\<rfloor> = i" for i by (simp add: floor_unique)
  then show ?thesis by (simp add: half_up_def)
qed

lemma half_up_mono: "a \<le> b \<Longrightarrow> half_up f a \<le> half_up f b"
  by (simp add: half_up_def divide_right_mono floor_mono)

lemma formatted:
  assumes "bn_ok B val" "val x = Some a" "0 \<le> a"
  shows "number_of_fixed (formatDecimal B x f) = round64 (half_up f a)"
proof -
  have "val (bn_decimalPlaces B f x) = Some (half_up f a)"
    using assms unfolding bn_ok_def by blast
  moreover have "0 \<le> half_up f a" by (rule half_up_nonneg [OF assms(3)])
  ultimately have "formatDecimal B x f = toFixed f (half_up f a)"
    unfolding formatDecimal_def using assms(1) half_up_idem unfolding bn_ok_def by blast
  then show ?thesis
    using half_up_nonneg [OF assms(3), of f] by (simp add: number_of_fixed_def parseFloat_toFixed)
qed

section \<open>The fee of an amount\<close>

text \<open>The rule of a schedule, over exact numbers: the kind, the fixed part, the share, the minimum.\<close>

definition fee_rule :: "fee_type \<Rightarrow> rat \<Rightarrow> rat \<Rightarrow> rat \<Rightarrow> rat \<Rightarrow> rat" where
  "fee_rule t fixed percent least amount =
     max least (case t of Flat \<Rightarrow> fixed | Percentage \<Rightarrow> amount * percent | _ \<Rightarrow> fixed + amount * percent)"

lemma fee_rule_mono: "0 \<le> p \<Longrightarrow> a \<le> b \<Longrightarrow> fee_rule t f p m a \<le> fee_rule t f p m b"
  using mult_right_mono [of a b p] by (auto simp: fee_rule_def le_max_iff_disj split: fee_type.split)

lemma fee_computed:
  assumes bn: "bn_ok B val"
    and amount: "val (toDecimal B amount) = Some a" "0 \<le> a"
    and config: "val (toDecimal B (NumV (fg_feeFixed cfg))) = Some f" "val (toDecimal B (NumV (fg_feePercent cfg))) = Some p"
      "val (toDecimal B (NumV (fg_feeMinimum cfg))) = Some m" and signs: "0 \<le> f" "0 \<le> p"
  shows "computeAssetFee B cfg amount = round64 (half_up DECIMAL_PRECISION (fee_rule (fg_feeType cfg) f p m a))"
proof -
  let ?num = "\<lambda>n. toDecimal B (NumV n)"
  define fee where "fee = (case fg_feeType cfg of Flat \<Rightarrow> ?num (fg_feeFixed cfg)
     | Percentage \<Rightarrow> bn_times B (toDecimal B amount) (?num (fg_feePercent cfg))
     | _ \<Rightarrow> bn_plus B (?num (fg_feeFixed cfg)) (bn_times B (toDecimal B amount) (?num (fg_feePercent cfg))))"
  define x where "x = (case fg_feeType cfg of Flat \<Rightarrow> f | Percentage \<Rightarrow> a * p | _ \<Rightarrow> f + a * p)"
  have t: "val (bn_times B (toDecimal B amount) (?num (fg_feePercent cfg))) = Some (a * p)"
    using bn amount(1) config(2) unfolding bn_ok_def by blast
  then have "val (bn_plus B (?num (fg_feeFixed cfg)) (bn_times B (toDecimal B amount) (?num (fg_feePercent cfg)))) = Some (f + a * p)"
    using bn config(1) unfolding bn_ok_def by blast
  with t config(1) have fee: "val fee = Some x" by (simp add: fee_def x_def split: fee_type.split)
  have x0: "0 \<le> x" using signs amount(2) by (simp add: x_def split: fee_type.split)
  have lt: "bn_lt B fee (?num (fg_feeMinimum cfg)) = (x < m)" using bn fee config(3) unfolding bn_ok_def by blast
  obtain r where r: "fg_feeMinimum cfg = Fin r" "0 < r \<longleftrightarrow> 0 < m"
    using bn config(3) unfolding bn_ok_def toDecimal_def by blast
  have c: "computeAssetFee B cfg amount = number_of_fixed (formatDecimal B
      (if 0 < r \<and> x < m then ?num (fg_feeMinimum cfg) else fee) DECIMAL_PRECISION)"
    using lt r(1) by (simp add: computeAssetFee_def Let_def fee_def [symmetric] split: fee_type.split)
  have "fee_rule (fg_feeType cfg) f p m a = (if 0 < m \<and> x < m then m else x)"
    using x0 by (auto simp: fee_rule_def x_def)
  then show ?thesis
    using formatted [OF bn fee x0] formatted [OF bn config(3)] r(2) unfolding c by auto
qed

text \<open>The computed fee is the formula of the schedule: the fixed part, the share of the amount,
  or both, at least the minimum, rounded half up to seven decimals, as the nearest number.
\<close>
theorem computed_fee_is_rule:
  assumes "bn_ok B val" "val (toDecimal B amount) = Some a" "0 \<le> a"
    and "val (toDecimal B (NumV (fg_feeFixed cfg))) = Some f" "val (toDecimal B (NumV (fg_feePercent cfg))) = Some p"
      "val (toDecimal B (NumV (fg_feeMinimum cfg))) = Some m" "0 \<le> f" "0 \<le> p"
  shows "computeAssetFee B cfg amount
    = round64 (of_int \<lfloor>fee_rule (fg_feeType cfg) f p m a * 10 ^ 7 + 1 / 2\<rfloor> / 10 ^ 7)"
  using fee_computed [OF assms] by (simp add: DECIMAL_PRECISION_def half_up_def)

text \<open>A larger amount never has a smaller fee, under one schedule.\<close>
theorem fee_monotone:
  assumes "bn_ok B val" "val (toDecimal B amount) = Some a" "val (toDecimal B amount') = Some a'" "0 \<le> a" "a \<le> a'"
    and "val (toDecimal B (NumV (fg_feeFixed cfg))) = Some f" "val (toDecimal B (NumV (fg_feePercent cfg))) = Some p"
      "val (toDecimal B (NumV (fg_feeMinimum cfg))) = Some m" "0 \<le> f" "0 \<le> p"
  shows "js_le (computeAssetFee B cfg amount) (computeAssetFee B cfg amount')"
proof -
  have "0 \<le> a'" using assms(4,5) by simp
  then show ?thesis
    unfolding fee_computed [OF assms(1,2,4,6-10)] fee_computed [OF assms(1,3) \<open>0 \<le> a'\<close> assms(6-10)]
    by (intro round64_mono half_up_mono fee_rule_mono assms)
qed

section \<open>The history of schedules\<close>

lemma active_row_append:
  "t < fr_effectiveFrom r \<Longrightarrow> active_row code t (rows @ [r]) = active_row code t rows"
  by (simp add: active_row_def)

text \<open>A database whose calls go through and a clock that does not run backwards.\<close>

definition database_up :: "('b, 'w) fee_env \<Rightarrow> bool" where
  "database_up env \<longleftrightarrow> (\<forall>w. fst (fe_db env w) = None) \<and> (\<forall>w. fe_now env w \<le> fe_now env (snd (fe_db env w)))
     \<and> (\<forall>w. fe_now env w \<le> fe_now env (snd (fe_uuid env w)))"

lemma add_schedule_frozen:
  assumes "database_up env" "t \<le> fe_now env (fz_world s)"
  shows "active_row code t (fz_rows (snd (addFeeSchedule env d s))) = active_row code t (fz_rows s)
    \<and> t \<le> fe_now env (fz_world (snd (addFeeSchedule env d s)))"
proof -
  obtain w where w: "fe_db env (fz_world s) = (None, w)"
    using assms(1) unfolding database_up_def by (metis prod.collapse)
  obtain i w' where w': "fe_uuid env w = (i, w')" by fastforce
  have "t \<le> fe_now env w" "t \<le> fe_now env w'"
    using assms w w' unfolding database_up_def by (metis order_trans snd_conv)+
  then show ?thesis
    using assms(2) w w'
    by (auto simp: addFeeSchedule_def insert_row_def fclock_def fdb_def eff_defs Let_def active_row_append
        split: option.split)
qed

lemma add_schedules_frozen:
  assumes "database_up env"
  shows "t \<le> fe_now env (fz_world s) \<Longrightarrow>
    active_row code t (fz_rows (foldl (\<lambda>s d. snd (addFeeSchedule env d s)) s ds)) = active_row code t (fz_rows s)"
proof (induction ds arbitrary: s)
  case (Cons d ds)
  then show ?case using add_schedule_frozen [OF assms Cons.prems] by simp
qed simp

lemma fee_by_row:
  assumes "database_up env"
  shows "fst (calculateAssetFee env code amount (Some (DateV (Some t))) s) =
    (case active_row (upper_text (trim_js code)) t (fz_rows s) of
       Some r \<Rightarrow> Inr (fee_result (fe_big env) (row_schedule r) amount)
     | None \<Rightarrow> (case getAsset (upper_text (trim_js code)) of
         None \<Rightarrow> Inl (PlainError (''Unknown asset: '' @ code))
       | Some a \<Rightarrow> Inr (fee_result (fe_big env) (static_schedule a) amount)))"
proof -
  obtain w where w: "fe_db env (fz_world s) = (None, w)"
    using assms unfolding database_up_def by (metis prod.collapse)
  then show ?thesis
    by (auto simp: calculateAssetFee_def getActiveFeeSchedule_def find_schedule_def target_date_def fclock_def fdb_def
        eff_defs Let_def split: option.split)
qed

text \<open>Fee schedules are append-only in time: whatever schedules are added, accepted or refused,
  the fee of a transaction that was created before is the one it had.
\<close>
theorem fee_history_frozen:
  assumes "database_up env" "createdAt \<le> fe_now env (fz_world s)"
  shows "fst (getFeeForTransaction env code amount (DateV (Some createdAt)) (foldl (\<lambda>s d. snd (addFeeSchedule env d s)) s ds))
    = fst (getFeeForTransaction env code amount (DateV (Some createdAt)) s)"
  unfolding getFeeForTransaction_def fee_by_row [OF assms(1)] add_schedules_frozen [OF assms] ..

section \<open>Surges\<close>

lemma parse_show_nat: "parseInt10 (show_nat n) = round64 (of_nat n)"
proof -
  obtain c r where c: "show_nat n = c # r" "is_digit c"
    using show_nat_digits [of n] by (cases "show_nat n") auto
  then have "\<not> is_js_space c" "c \<noteq> CHR ''-''" "c \<noteq> CHR ''+''" by (auto simp: is_digit_def is_js_space_def)
  then have sp: "split_sign (dropWhile is_js_space (show_nat n)) = (False, show_nat n)"
    using c by (simp add: split_sign_def)
  have tw: "takeWhile is_digit (show_nat n) = show_nat n"
    using takeWhile_all_digits show_nat_digits [of n] by blast
  show ?thesis
    unfolding parseInt10_def sp prod.case Let_def tw using show_nat_digits [of n] by simp
qed

lemma round64_between:
  assumes "round64 a = Fin a" "round64 b = Fin b" "a \<le> x" "x \<le> b"
  shows "\<exists>v. round64 x = Fin v \<and> a \<le> v \<and> v \<le> b"
  using round64_mono [OF assms(3)] round64_mono [OF assms(4)] assms(1,2)
  by (cases "round64 x") (auto simp: js_le_def)

text \<open>Up to half of the capacity there is no pressure.\<close>

lemma no_pressure:
  assumes "0 \<le> x" "x \<le> 1 / 2"
  shows "math_max (Fin 0) (js_div (js_sub (Fin x) (round64 (8 / 10))) (round64 (2 / 10))) = Fin 0"
proof -
  have e: "round64 (1 / 8) = Fin (1 / 8)" using round64_exact [of 1 "- 3"] by (simp add: pow2_def)
  have h: "round64 (1 / 2) = Fin (1 / 2)" using round64_exact [of 1 "- 1"] by (simp add: pow2_def)
  have m: "round64 (- 1) = Fin (- 1)" using round64_int [of "- 1"] by simp
  obtain d where d: "round64 (8 / 10) = Fin d" "1 / 2 \<le> d" "d \<le> 1"
    using round64_between [of "1 / 2" 1 "8 / 10"] h by auto
  obtain c where c: "round64 (2 / 10) = Fin c" "1 / 8 \<le> c"
    using round64_between [of "1 / 8" "1 / 2" "2 / 10"] e h by auto
  obtain v where v: "round64 (x + - d) = Fin v" "v \<le> 0"
    using round64_between [of "- 1" 0 "x + - d"] m assms d by auto
  have "v / c \<le> 0" using v(2) c(2) by (simp add: divide_nonpos_pos)
  then have "js_le (round64 (v / c)) (Fin 0)" using round64_mono [of "v / c" 0] by simp
  then show ?thesis
    using c(2) v unfolding d(1) c(1) by (cases "round64 (v / c)") (auto simp: js_sub_def math_max_def js_le_def)
qed

lemma round64_nat: "n < 2 ^ 53 \<Longrightarrow> round64 (of_nat n) = Fin (of_nat n)"
  using round64_int [of "int n"] by simp

text \<open>The cap of a surge bounds the multiplier, not the fee. When the 95th percentile is \<open>k\<close> times
  the median, with \<open>k\<close> at least 5, the recommended fee is five times the 95th percentile: \<open>5 * k\<close>
  times the median, and not at most five times a base. (Up to half of the ledger's capacity is used.)
\<close>
theorem surge_cap_multiplies_p95:
  assumes "0 < a" "5 \<le> k" "k * a < 2 ^ 50"
    and "hf_p50 raw = show_nat a" "hf_p95 raw = show_nat (k * a)"
    and "parseFloat (hf_ledger_capacity_usage raw) = Fin x" "0 \<le> x" "x \<le> 1 / 2"
  shows "fs_recommendedFeeStroops (buildFeeStats raw now) = Fin (of_nat (5 * k * a))
    \<and> fs_p50FeeStroops (buildFeeStats raw now) = Fin (of_nat a)"
proof -
  have k: "k \<le> k * a" using assms(1) by simp
  have a: "a \<le> k * a" using assms(2) by simp
  have a': "a < 2 ^ 53" using le_less_trans [OF a assms(3)] by simp
  have p: "or_default BASE_FEE_STROOPS (parseInt10 (hf_p50 raw)) = Fin (of_nat a)"
      "or_default BASE_FEE_STROOPS (parseInt10 (hf_p95 raw)) = Fin (of_nat (k * a))"
    using assms a round64_nat [OF a'] round64_nat [of "k * a"]
    by (simp_all del: of_nat_mult add: parse_show_nat or_default_def)
  have kk: "round64 (of_nat k) = Fin (of_nat k)" using le_less_trans [OF k assms(3)] by (intro round64_nat) simp
  have ratio: "js_div (Fin (of_nat (k * a))) (Fin (of_nat a)) = Fin (of_nat k)"
    using assms(1) kk by simp
  have five: "parseFloat (num_toFixed 2 (math_min (Fin (of_nat k)) (Fin 5))) = Fin 5"
  proof -
    have "half_up 2 5 = 5" by (simp add: half_up_def floor_unique)
    then have "parseFloat (toFixed 2 5) = Fin 5" using parseFloat_toFixed [of 5 2] by simp
    then show ?thesis using assms(2) by (cases "k = 5") (simp_all add: math_min_def num_toFixed_def)
  qed
  have m: "computeSurgeMultiplier (Fin (of_nat a)) (Fin (of_nat (k * a))) (Fin x) = (Fin 5, True)"
    using assms(1,2) unfolding computeSurgeMultiplier_def Let_def ratio no_pressure [OF assms(7,8)]
    by (simp add: SURGE_THRESHOLD_P95_def SURGE_MULTIPLIER_CAP_def kk five)
  have "js_mul (Fin (of_nat (k * a))) (Fin 5) = Fin (of_nat (5 * k * a))"
    using round64_nat [of "5 * (k * a)"] assms(3) by (simp add: algebra_simps)
  then have "math_ceil (js_mul (Fin (of_nat (k * a))) (Fin 5)) = Fin (of_nat (5 * k * a))" by simp
  moreover have "or_default (Fin 0) (parseFloat (hf_ledger_capacity_usage raw)) = Fin x"
    by (simp add: or_default_def assms(6))
  ultimately show ?thesis
    unfolding buildFeeStats_def Let_def p by (simp del: of_nat_mult js_mul.simps add: m)
qed

section \<open>The tiers of SEP-24\<close>

lemma usd_assets: "getAsset ''USDC'' = Some (ASSETS ! 0)" "as_feeFixed (ASSETS ! 0) = round64 (1 / 2)"
    "as_code (ASSETS ! 0) = ''USDC''" "as_feeType (ASSETS ! 0) = Flat" "as_feePercent (ASSETS ! 0) = Fin 0"
    "as_feeMinimum (ASSETS ! 0) = Fin 0"
proof -
  have "upper_text (trim_js ''USDC'') = ''USDC''" by code_simp
  then show "getAsset ''USDC'' = Some (ASSETS ! 0)" by (simp add: getAsset_def ASSET_MAP_def ASSETS_def)
qed (simp_all add: ASSETS_def)

lemma round64_half [simp]: "round64 (1 / 2) = Fin (1 / 2)"
  using round64_exact [of 1 "- 1"] by (simp add: pow2_def)

lemma sep24_total:
  assumes bn: "bn_ok B val"
    and amount: "val (toDecimal B (NumV (Fin a))) = Some a" "0 \<le> a" "half_up 7 a = a" "round64 a = Fin a"
    and rate: "val (toDecimal B (NumV (tier_percent (Fin a)))) = Some p" "0 \<le> p" "half_up 7 (a * p) = a * p"
    and literals: "val (toDecimal B (NumV (Fin (1 / 2)))) = Some (1 / 2)" "val (toDecimal B (NumV (round64 (a * p)))) = Some (a * p)"
  shows "\<exists>f. calculateSep24Fee B ''USDC'' op (NumV (Fin a)) = Inr f \<and> s4_totalFee f = round64 (half_up 7 (1 / 2 + a * p))"
proof -
  have h: "half_up 7 (1 / 2) = 1 / 2" by (simp add: half_up_def floor_unique)
  have 1: "number_of_fixed (formatDecimal B (toDecimal B (NumV (Fin a))) 7) = Fin a"
    using formatted [OF bn amount(1,2), of 7] amount(3,4) by simp
  have 2: "number_of_fixed (formatDecimal B (toDecimal B (NumV (Fin (1 / 2)))) 7) = Fin (1 / 2)"
    using formatted [OF bn literals(1), of 7] h by simp
  have "val (bn_times B (toDecimal B (NumV (Fin a))) (toDecimal B (NumV (tier_percent (Fin a))))) = Some (a * p)"
    using bn amount(1) rate(1) unfolding bn_ok_def by blast
  then have 3: "number_of_fixed (formatDecimal B (bn_times B (toDecimal B (NumV (Fin a)))
      (toDecimal B (NumV (tier_percent (Fin a))))) 7) = round64 (a * p)"
    using formatted [OF bn] amount(2) rate(2,3) by (metis mult_nonneg_nonneg)
  have "val (bn_plus B (toDecimal B (NumV (Fin (1 / 2)))) (toDecimal B (NumV (round64 (a * p))))) = Some (1 / 2 + a * p)"
    using bn literals unfolding bn_ok_def by blast
  then have 4: "number_of_fixed (formatDecimal B (bn_plus B (toDecimal B (NumV (Fin (1 / 2))))
      (toDecimal B (NumV (round64 (a * p))))) 7) = round64 (half_up 7 (1 / 2 + a * p))"
    using formatted [OF bn, of _ "1 / 2 + a * p"] amount(2) rate(2) by simp
  show ?thesis
    by (simp add: calculateSep24Fee_def usd_assets DECIMAL_PRECISION_def Let_def 1 2 3 4)
qed

text \<open>The itemized fee of SEP-24 is not the fee of the asset. For USDC, whose configured fee is a
  flat 0.5, it adds a share of the amount: 10.49 for 999; and it falls when the amount grows, to
  5.5 for 1000.
\<close>
theorem sep24_fee_not_configured_fee:
  assumes bn: "bn_ok B val"
    and literals: "\<forall>q \<in> {0, 1 / 2, 1 / 100, 5 / 1000, 5, 999 / 100, 999, 1000}. val (toDecimal B (NumV (round64 q))) = Some q"
  shows "\<exists>f g. calculateSep24Fee B ''USDC'' op (NumV (Fin 999)) = Inr f \<and> s4_totalFee f = round64 (1049 / 100)
    \<and> calculateSep24Fee B ''USDC'' op (NumV (Fin 1000)) = Inr g \<and> s4_totalFee g = round64 (11 / 2)
    \<and> computeAssetFee B (schedule_config (static_schedule (ASSETS ! 0))) (NumV (Fin 999)) = round64 (1 / 2)"
proof -
  have l: "val (toDecimal B (NumV (Fin 0))) = Some 0" "val (toDecimal B (NumV (Fin (1 / 2)))) = Some (1 / 2)"
    "val (toDecimal B (NumV (round64 (1 / 100)))) = Some (1 / 100)" "val (toDecimal B (NumV (round64 (1 / 200)))) = Some (1 / 200)"
    "val (toDecimal B (NumV (Fin 5))) = Some 5" "val (toDecimal B (NumV (round64 (999 / 100)))) = Some (999 / 100)"
    "val (toDecimal B (NumV (Fin 999))) = Some 999" "val (toDecimal B (NumV (Fin 1000))) = Some 1000"
    using literals by simp_all
  have h: "half_up 7 x = x" if "x * 10 ^ 7 = of_int i" for x i
    using that by (simp add: half_up_def floor_unique field_simps)
  have t: "tier_percent (Fin 999) = round64 (1 / 100)" "tier_percent (Fin 1000) = round64 (1 / 200)"
    by (simp_all add: tier_percent_def)
  have "\<exists>f. calculateSep24Fee B ''USDC'' op (NumV (Fin 999)) = Inr f \<and> s4_totalFee f = round64 (half_up 7 (1 / 2 + 999 * (1 / 100)))"
    by (rule sep24_total [OF bn]) (simp_all add: l t h [of _ 9990000000] h [of _ 99900000])
  moreover have "\<exists>g. calculateSep24Fee B ''USDC'' op (NumV (Fin 1000)) = Inr g \<and> s4_totalFee g = round64 (half_up 7 (1 / 2 + 1000 * (1 / 200)))"
    by (rule sep24_total [OF bn]) (simp_all add: l t h [of _ 10000000000] h [of _ 50000000])
  moreover have "computeAssetFee B (schedule_config (static_schedule (ASSETS ! 0))) (NumV (Fin 999)) = round64 (half_up 7 (fee_rule Flat (1 / 2) 0 0 999))"
    using fee_computed [OF bn l(7), of "schedule_config (static_schedule (ASSETS ! 0))" "1 / 2" 0 0] l
    by (simp add: schedule_config_def static_schedule_def usd_assets DECIMAL_PRECISION_def)
  ultimately show ?thesis
    using h [of "1049 / 100" 104900000] h [of "11 / 2" 55000000] h [of "1 / 2" 5000000] by (simp add: fee_rule_def)
qed

section \<open>At concrete values\<close>

text \<open>Decimals as exact numbers; the literals of the tiers are read back as their decimal texts.\<close>

definition demo_number :: "jsnum \<Rightarrow> rat option" where
  "demo_number n = (if n = round64 (1 / 100) then Some (1 / 100) else if n = round64 (1 / 200) then Some (1 / 200)
     else if n = round64 (999 / 100) then Some (999 / 100) else case n of Fin r \<Rightarrow> Some r | _ \<Rightarrow> None)"

definition lift_rat :: "(rat \<Rightarrow> rat \<Rightarrow> 'a) \<Rightarrow> rat option \<Rightarrow> rat option \<Rightarrow> 'a option" where
  "lift_rat f x y = (case (x, y) of (Some a, Some b) \<Rightarrow> Some (f a b) | _ \<Rightarrow> None)"

definition demo_bn :: "rat option bignum" where
  "demo_bn = \<lparr>bn_new = (\<lambda>v. case v of NumV n \<Rightarrow> demo_number n | TextV t \<Rightarrow> parse_decimal t),
     bn_plus = lift_rat (+), bn_times = lift_rat (*), bn_dividedBy = lift_rat (/),
     bn_lt = (\<lambda>x y. lift_rat (<) x y = Some True), bn_decimalPlaces = (\<lambda>f. map_option (half_up f)),
     bn_toFixed = (\<lambda>f x. case x of Some a \<Rightarrow> toFixed f a | None \<Rightarrow> ''NaN''),
     bn_isFinite = (\<lambda>x. x \<noteq> None), bn_isNegative = (\<lambda>x. case x of Some a \<Rightarrow> a < 0 | None \<Rightarrow> False)\<rparr>"

lemma demo_literals:
  obtains a b c where "round64 (1 / 100) = Fin a" "1 / 128 \<le> a" "a \<le> 1 / 64"
    "round64 (1 / 200) = Fin b" "1 / 256 \<le> b" "b \<le> 3 / 512" "round64 (999 / 100) = Fin c" "8 \<le> c" "c \<le> 16"
proof -
  have e: "round64 (1 / 128) = Fin (1 / 128)" "round64 (1 / 64) = Fin (1 / 64)" "round64 (1 / 256) = Fin (1 / 256)"
    "round64 (3 / 512) = Fin (3 / 512)"
    using round64_exact [of 1 "- 7"] round64_exact [of 1 "- 6"] round64_exact [of 1 "- 8"] round64_exact [of 3 "- 9"]
    by (simp_all add: pow2_def)
  show thesis
    using round64_between [OF e(1,2), of "1 / 100"] round64_between [OF e(3,4), of "1 / 200"]
      round64_between [of 8 16 "999 / 100"] that by auto
qed

lemma demo_number_literals:
  "demo_number (round64 (1 / 100)) = Some (1 / 100)" "demo_number (round64 (1 / 200)) = Some (1 / 200)"
  "demo_number (round64 (999 / 100)) = Some (999 / 100)"
  "q \<in> {0, 1 / 2, 5, 999, 1000} \<Longrightarrow> demo_number (Fin q) = Some q"
  by (rule demo_literals; auto simp: demo_number_def)+

lemma demo_bn_ok: "bn_ok demo_bn (\<lambda>x. x)"
proof -
  have "\<exists>r. n = Fin r \<and> (0 < r \<longleftrightarrow> 0 < q)" if "demo_number n = Some q" for n q
    using that by (rule_tac demo_literals) (auto simp: demo_number_def split: if_splits jsnum.splits)
  then show ?thesis
    by (auto simp: bn_ok_def demo_bn_def lift_rat_def)
qed

lemma demo_usdc:
  "toDecimal demo_bn (NumV (fg_feeFixed (schedule_config (static_schedule (ASSETS ! 0))))) = Some (1 / 2)"
  "toDecimal demo_bn (NumV (fg_feePercent (schedule_config (static_schedule (ASSETS ! 0))))) = Some 0"
  "toDecimal demo_bn (NumV (fg_feeMinimum (schedule_config (static_schedule (ASSETS ! 0))))) = Some 0"
  "toDecimal demo_bn (NumV (Fin 999)) = Some 999" "toDecimal demo_bn (NumV (Fin 1000)) = Some 1000"
  by (simp_all add: toDecimal_def demo_bn_def schedule_config_def static_schedule_def usd_assets demo_number_literals)

theorem computed_fee_is_rule_witness:
  "computeAssetFee demo_bn (schedule_config (static_schedule (ASSETS ! 0))) (NumV (Fin 999))
    = round64 (of_int \<lfloor>fee_rule Flat (1 / 2) 0 0 999 * 10 ^ 7 + 1 / 2 :: rat\<rfloor> / 10 ^ 7)"
  using computed_fee_is_rule [OF demo_bn_ok demo_usdc(4) _ demo_usdc(1-3)]
  by (simp add: schedule_config_def static_schedule_def usd_assets)

theorem fee_monotone_witness:
  "js_le (computeAssetFee demo_bn (schedule_config (static_schedule (ASSETS ! 0))) (NumV (Fin 999)))
     (computeAssetFee demo_bn (schedule_config (static_schedule (ASSETS ! 0))) (NumV (Fin 1000)))"
  by (rule fee_monotone [OF demo_bn_ok demo_usdc(4,5) _ _ demo_usdc(1-3)]) simp_all

theorem sep24_fee_not_configured_fee_witness:
  "\<exists>f g. calculateSep24Fee demo_bn ''USDC'' ''deposit'' (NumV (Fin 999)) = Inr f \<and> s4_totalFee f = round64 (1049 / 100)
    \<and> calculateSep24Fee demo_bn ''USDC'' ''deposit'' (NumV (Fin 1000)) = Inr g \<and> s4_totalFee g = round64 (11 / 2)
    \<and> computeAssetFee demo_bn (schedule_config (static_schedule (ASSETS ! 0))) (NumV (Fin 999)) = round64 (1 / 2)"
  by (rule sep24_fee_not_configured_fee [OF demo_bn_ok])
     (simp add: toDecimal_def demo_bn_def demo_number_literals)

definition demo_surge :: horizon_fee_stats where
  "demo_surge = \<lparr>hf_p10 = ''100'', hf_p50 = ''100'', hf_p95 = ''100000'', hf_ledger_capacity_usage = ''0''\<rparr>"

theorem surge_cap_multiplies_p95_witness:
  "fs_recommendedFeeStroops (buildFeeStats demo_surge 0) = Fin 500000 \<and> fs_p50FeeStroops (buildFeeStats demo_surge 0) = Fin 100"
proof -
  have t: "show_nat 100 = ''100''" "show_nat 100000 = ''100000''"
    by (simp_all add: show_nat.simps [of "_"] hex_digit_def)
  have p: "parseFloat ''0'' = Fin 0"
    by (simp add: parseFloat_def split_sign_def is_js_space_def parse_decimal_def is_digit_def digits_value_def digit_value_def Let_def)
  show ?thesis
    using surge_cap_multiplies_p95 [of 100 1000 demo_surge 0 0] t p by (simp add: demo_surge_def)
qed

definition demo_fees :: "(rat option, nat) fee_env" where
  "demo_fees = \<lparr>fe_big = demo_bn, fe_redis = False, fe_get = (\<lambda>k w. (Inr None, w)), fe_set = (\<lambda>k v t w. (Inr (), w)),
     fe_fetch = (\<lambda>u w. (Inl (PlainError ''down''), w)), fe_db = (\<lambda>w. (None, Suc w)), fe_uuid = (\<lambda>w. (''row'', Suc w)),
     fe_parseDate = (\<lambda>t. None), fe_now = (\<lambda>w. int w), fe_horizonUrl = ''https://horizon''\<rparr>"

definition demo_schedule :: schedule_data where
  "demo_schedule = \<lparr>dt_assetCode = ''USDC'', dt_feeType = Flat, dt_feeFixed = Some (Fin 5), dt_feePercent = None,
     dt_feeMinimum = None, dt_effectiveFrom = DateV (Some 1000)\<rparr>"

theorem fee_history_frozen_witness:
  "fst (getFeeForTransaction demo_fees ''USDC'' (NumV (Fin 999)) (DateV (Some 7))
      (foldl (\<lambda>s d. snd (addFeeSchedule demo_fees d s)) \<lparr>fz_rows = [], fz_world = 7\<rparr> [demo_schedule]))
    = fst (getFeeForTransaction demo_fees ''USDC'' (NumV (Fin 999)) (DateV (Some 7)) \<lparr>fz_rows = [], fz_world = 7\<rparr>)"
  by (rule fee_history_frozen) (simp_all add: database_up_def demo_fees_def)

end
