(* ===== verification/Js_Date.thy ===== *)
theory Js_Date
  imports Js_Text
begin

text \<open>
  Dates and the texts of them: \<open>Date.prototype.toISOString\<close> for the years 0 to 9999 (a date is its
  milliseconds since 1970), \<open>Number\<close> of a text, and what both give on each other's texts. Parsing a date
  is left to the components, as a parameter: the standard leaves most of it to the implementation.
\<close>

section \<open>The calendar\<close>

text \<open>The civil date of a day counted from 1970-01-01, in the proleptic Gregorian calendar.\<close>

definition civil_of_day :: "int \<Rightarrow> int \<times> int \<times> int" where
  "civil_of_day day =
     (let z = day + 719468; era = z div 146097; doe = z mod 146097;
          yoe = (doe - doe div 1460 + doe div 36524 - doe div 146096) div 365;
          doy = doe - (365 * yoe + yoe div 4 - yoe div 100);
          mp = (5 * doy + 2) div 153;
          m = (if mp < 10 then mp + 3 else mp - 9)
      in (yoe + era * 400 + (if m \<le> 2 then 1 else 0), m, doy - (153 * mp + 2) div 5 + 1))"

definition pad_int :: "nat \<Rightarrow> int \<Rightarrow> string" where
  "pad_int n i = pad_left n (CHR ''0'') (show_nat (nat i))"

definition iso_rest :: "int \<Rightarrow> int \<Rightarrow> int \<Rightarrow> string" where
  "iso_rest m d ms = pad_int 2 m @ ''-'' @ pad_int 2 d @ ''T'' @ pad_int 2 (ms div 3600000) @ '':''
     @ pad_int 2 (ms div 60000 mod 60) @ '':'' @ pad_int 2 (ms div 1000 mod 60) @ ''.'' @ pad_int 3 (ms mod 1000)"

definition iso_string :: "int \<Rightarrow> string" where
  "iso_string t = (case civil_of_day (t div 86400000) of (y, m, d) \<Rightarrow>
     pad_int 4 y @ ''-'' @ iso_rest m d (t mod 86400000) @ ''Z'')"

section \<open>Number of a text\<close>

definition all_digits :: "string \<Rightarrow> bool" where
  "all_digits s \<longleftrightarrow> s \<noteq> [] \<and> list_all is_digit s"

text \<open>The decimal literals that are a whole text, without their sign.\<close>

definition is_exponent :: "string \<Rightarrow> bool" where
  "is_exponent s = (case s of [] \<Rightarrow> True
     | c # r \<Rightarrow> (c = CHR ''e'' \<or> c = CHR ''E'') \<and> all_digits (snd (split_sign r)))"

definition is_decimal_literal :: "string \<Rightarrow> bool" where
  "is_decimal_literal s =
     (let ip = takeWhile is_digit s; r1 = dropWhile is_digit s in
      case r1 of
        [] \<Rightarrow> ip \<noteq> []
      | c # r \<Rightarrow>
          if c = CHR ''.'' then (ip \<noteq> [] \<or> takeWhile is_digit r \<noteq> []) \<and> is_exponent (dropWhile is_digit r)
          else ip \<noteq> [] \<and> is_exponent r1)"

definition radix_digit :: "char \<Rightarrow> int" where
  "radix_digit c = (let n = of_char c in if is_digit c then n - 48 else if 65 \<le> n \<and> n \<le> 90 then n - 55
     else if 97 \<le> n \<and> n \<le> 122 then n - 87 else 99)"

definition radix_number :: "int \<Rightarrow> string \<Rightarrow> jsnum" where
  "radix_number b ds = (if ds \<noteq> [] \<and> list_all (\<lambda>c. radix_digit c < b) ds
     then round64 (of_int (foldl (\<lambda>n c. b * n + radix_digit c) 0 ds)) else NaN)"

definition number_of_text :: "string \<Rightarrow> jsnum" where
  "number_of_text s =
     (let t = trim_js s; p = take 2 t in
      if t = [] then Fin 0
      else if p = ''0x'' \<or> p = ''0X'' then radix_number 16 (drop 2 t)
      else if p = ''0o'' \<or> p = ''0O'' then radix_number 8 (drop 2 t)
      else if p = ''0b'' \<or> p = ''0B'' then radix_number 2 (drop 2 t)
      else case split_sign t of (neg, r) \<Rightarrow>
        if r = ''Infinity'' then js_signed_inf neg
        else if is_decimal_literal r then parseFloat t else NaN)"

section \<open>Texts of dates are not numbers\<close>

text \<open>The text of a date in the first ten thousand years starts with four digits and a hyphen.\<close>

definition year_ok :: "int \<Rightarrow> bool" where
  "year_ok t \<longleftrightarrow> (case civil_of_day (t div 86400000) of (y, _, _) \<Rightarrow> 0 \<le> y \<and> y \<le> 9999)"

lemma show_nat_length: "n < 10 ^ k \<Longrightarrow> 0 < k \<Longrightarrow> length (show_nat n) \<le> k"
proof (induction k arbitrary: n)
  case (Suc k)
  show ?case
  proof (cases "n < 10")
    case True
    then show ?thesis by (simp add: show_nat.simps [of n])
  next
    case False
    then have "0 < k" using Suc.prems(1) by (cases k) auto
    moreover have "n div 10 < 10 ^ k" using Suc.prems(1) by (simp add: less_mult_imp_div_less mult.commute)
    ultimately show ?thesis using Suc.IH False by (simp add: show_nat.simps [of n])
  qed
qed simp

lemma pad_int_digits: "list_all is_digit (pad_int n i)"
  using show_nat_digits [of "nat i"] by (auto simp: pad_int_def pad_left_def is_digit_def list_all_iff)

lemma pad_int_value: "0 \<le> i \<Longrightarrow> digits_value (pad_int n i) = i"
  using show_nat_digits [of "nat i"] digits_value_zeros by (simp add: pad_int_def pad_left_def)

lemma pad_int_nonempty: "pad_int n i \<noteq> []"
  using show_nat_digits [of "nat i"] by (simp add: pad_int_def pad_left_def)

lemma iso_shape:
  assumes "year_ok t"
  shows "\<exists>y r. iso_string t = pad_int 4 y @ CHR ''-'' # r @ ''Z'' \<and> 0 \<le> y \<and> y \<le> 9999"
proof -
  obtain y m d where c: "civil_of_day (t div 86400000) = (y, m, d)" by (cases "civil_of_day (t div 86400000)")
  then show ?thesis using assms
    by (intro exI [of _ y] exI [of _ "iso_rest m d (t mod 86400000)"]) (simp add: iso_string_def year_ok_def)
qed

lemma is_digit_not_space: "is_digit c \<Longrightarrow> \<not> is_js_space c"
  by (auto simp: is_digit_def is_js_space_def)

lemma digits_head: "list_all is_digit s \<Longrightarrow> s \<noteq> [] \<Longrightarrow> split_sign (s @ r) = (False, s @ r) \<and> dropWhile is_js_space (s @ r) = s @ r"
  using is_digit_not_space by (cases s) (auto simp: split_sign_def is_digit_def)

text \<open>\<open>parseInt\<close> of such a text is its year.\<close>

lemma parseInt_iso:
  assumes "iso_string t = pad_int 4 y @ CHR ''-'' # r" "0 \<le> y"
  shows "parseInt10 (iso_string t) = round64 (of_int y)"
proof -
  have "takeWhile is_digit (pad_int 4 y @ CHR ''-'' # r) = pad_int 4 y"
    using takeWhile_digits [OF pad_int_digits [of 4 y], of "CHR ''-''" r] by (simp add: is_digit_def)
  then show ?thesis
    using digits_head [OF pad_int_digits pad_int_nonempty] pad_int_value [OF assms(2)] pad_int_nonempty
    by (simp add: parseInt10_def assms(1) Let_def)
qed

text \<open>\<open>Number\<close> of it is NaN.\<close>

lemma number_of_iso:
  assumes "iso_string t = pad_int 4 y @ CHR ''-'' # r @ ''Z''"
  shows "number_of_text (iso_string t) = NaN"
proof -
  have len: "4 \<le> length (pad_int 4 y)" by (simp add: pad_int_def pad_left_def)
  then obtain c d p where p: "pad_int 4 y = c # d # p"
    by (cases "pad_int 4 y"; cases "tl (pad_int 4 y)") auto
  have dg: "is_digit c" "is_digit d" using pad_int_digits [of 4 y] by (simp_all add: p)
  have trim: "trim_js (iso_string t) = iso_string t"
    using is_digit_not_space [OF dg(1)] by (simp add: trim_js_def assms p is_js_space_def)
  have "takeWhile is_digit (iso_string t) = pad_int 4 y" "dropWhile is_digit (iso_string t) = CHR ''-'' # r @ ''Z''"
    using takeWhile_digits [OF pad_int_digits [of 4 y], of "CHR ''-''" "r @ ''Z''"] by (simp_all add: is_digit_def assms)
  then have lit: "\<not> is_decimal_literal (iso_string t)" by (simp add: is_decimal_literal_def is_exponent_def Let_def)
  have sg: "split_sign (iso_string t) = (False, iso_string t)"
    using digits_head [OF pad_int_digits pad_int_nonempty] by (simp add: assms)
  have "d \<noteq> CHR ''x''" "d \<noteq> CHR ''X''" "d \<noteq> CHR ''o''" "d \<noteq> CHR ''O''" "d \<noteq> CHR ''b''" "d \<noteq> CHR ''B''" "c \<noteq> CHR ''I''"
    using dg by (auto simp: is_digit_def)
  then show ?thesis
    using trim lit sg by (simp add: number_of_text_def Let_def assms p)
qed

end
