(* ===== verification/Webhooks.thy ===== *)
theory Webhooks
  imports Queue_Config Js_Date
begin

text \<open>
  \<open>backend/src/services/webhook.service.ts\<close>, \<open>idempotentWebhook.service.ts\<close> and
  \<open>webhookRetry.queue.ts\<close>: notifications of a partner about transactions and customers. HTTP, Redis,
  BullMQ, the database connection, the hashes, \<open>Math.pow\<close> and random numbers are parameters. The table of
  transactions is part of the state, and so is a record of what is sent, in order (\<open>wx_trace\<close>), which no
  operation reads. Texts stand for their UTF-8 bytes, and a date is its milliseconds.
\<close>

section \<open>Data\<close>

record tx_row =
  tx_userId :: string
  tx_userPublicKey :: "string option"
  tx_assetCode :: string
  tx_amount :: string
  tx_type :: string
  tx_status :: string
  tx_externalId :: "string option"
  tx_stellarTxId :: "string option"
  tx_createdAt :: int
  tx_updatedAt :: int

datatype reasons = OneReason string | Reasons "string list"

record kyc_row =
  ky_id :: string
  ky_userId :: string
  ky_userPublicKey :: "string option"
  ky_provider :: "string option"
  ky_providerRef :: "string option"
  ky_status :: string
  ky_rejectionReasons :: "reasons option"
  ky_rejectionReasonCodes :: "string list option"
  ky_createdAt :: int
  ky_updatedAt :: int

text \<open>A payload, with the status the entity has after the change.\<close>

record webhook_payload =
  wp_event :: string
  wp_occurredAt :: string
  wp_previousStatus :: string
  wp_status :: string
  wp_json :: json

record webhook_config =
  wc_url :: "string option"
  wc_secret :: "string option"
  wc_timeoutMs :: int
  wc_maxRetries :: int
  wc_retryDelayMs :: int

record process_config =
  pc_WEBHOOK_URL :: "string option"
  pc_WEBHOOK_SECRET :: "string option"
  pc_WEBHOOK_TIMEOUT_MS :: "int option"
  pc_WEBHOOK_MAX_RETRIES :: "int option"
  pc_WEBHOOK_RETRY_DELAY_MS :: "int option"

record delivery_result =
  dl_delivered :: bool
  dl_attempts :: int
  dl_statusCode :: "int option"
  dl_responseBody :: "string option"
  dl_error :: "string option"
  dl_skipped :: bool

definition skipped_result :: delivery_result where
  "skipped_result = \<lparr>dl_delivered = False, dl_attempts = 0, dl_statusCode = None, dl_responseBody = None,
     dl_error = None, dl_skipped = True\<rparr>"

record http_request =
  hq_url :: string
  hq_headers :: "(string \<times> string) list"
  hq_body :: string
  hq_timeoutMs :: int

text \<open>A response; reading its body may fail.\<close>

record http_response =
  hr_ok :: bool
  hr_status :: int
  hr_text :: "js_error + string"

record retry_job =
  rj_protocol :: string
  rj_transactionId :: string
  rj_previousStatus :: string
  rj_nextStatus :: string
  rj_callbackUrl :: string
  rj_idempotencyKey :: string
  rj_deliveryHash :: string
  rj_payload :: string
  rj_attempt :: int

text \<open>An attempt that the worker of the retry queue made.\<close>

record attempt_record =
  ar_jobId :: string
  ar_transactionId :: string
  ar_protocol :: string
  ar_attempt :: int
  ar_statusCode :: "int option"
  ar_latencyMs :: int
  ar_errorMessage :: "string option"
  ar_timestamp :: string
  ar_isDeadLetter :: bool

datatype webhook_effect = Posted http_request | Marked string | Enqueued retry_job | Slept jsnum
  | Emitted "string list" string | Notified string string
  | DeadLetterAlert attempt_record string

record 'w webhook_env =
  we_now :: "'w \<Rightarrow> int"
  we_fetch :: "http_request \<Rightarrow> 'w \<Rightarrow> (js_error + http_response) \<times> 'w"
  we_redis_get :: "string \<Rightarrow> 'w \<Rightarrow> (js_error + string option) \<times> 'w"
  we_redis_set :: "string \<Rightarrow> string \<Rightarrow> 'w \<Rightarrow> (js_error + unit) \<times> 'w"
  we_redis_expire :: "string \<Rightarrow> int \<Rightarrow> 'w \<Rightarrow> (js_error + unit) \<times> 'w"
  we_addJob :: "string \<Rightarrow> retry_job \<Rightarrow> job_options \<Rightarrow> string \<Rightarrow> 'w \<Rightarrow> (js_error + string option) \<times> 'w"
  we_db :: "'w \<Rightarrow> (js_error + unit) \<times> 'w"
  we_alert :: "string \<Rightarrow> 'w \<Rightarrow> (js_error + unit) \<times> 'w"
  we_random :: "'w \<Rightarrow> jsnum \<times> 'w"
  we_hmac :: "string \<Rightarrow> string \<Rightarrow> string"
  we_sha256 :: "string \<Rightarrow> string"
  we_pow :: "jsnum \<Rightarrow> jsnum \<Rightarrow> jsnum"
  we_config :: process_config

record 'w webhook_state =
  wx_memory :: "(string, int) jsmap"
  wx_transactions :: "(string, tx_row) jsmap"
  wx_attempts :: "attempt_record list"
  wx_trace :: "webhook_effect list"
  wx_world :: 'w

type_synonym ('w, 'a) webhook = "('w webhook_state, js_error, 'a) eff"

definition wcall :: "('w \<Rightarrow> (js_error + 'a) \<times> 'w) \<Rightarrow> ('w, 'a) webhook" where
  "wcall f s = (case f (wx_world s) of (r, w) \<Rightarrow> (r, s\<lparr>wx_world := w\<rparr>))"

definition wclock :: "'w webhook_env \<Rightarrow> ('w, int) webhook" where
  "wclock env = eget (\<lambda>s. we_now env (wx_world s))"

definition wtrace :: "webhook_effect \<Rightarrow> ('w, unit) webhook" where
  "wtrace e = emodify (\<lambda>s. s\<lparr>wx_trace := wx_trace s @ [e]\<rparr>)"

definition post :: "'w webhook_env \<Rightarrow> http_request \<Rightarrow> ('w, http_response) webhook" where
  "post env r = ebind (wtrace (Posted r)) (\<lambda>_. wcall (we_fetch env r))"

section \<open>Identity of a delivery\<close>

definition WEBHOOK_DELIVERY_TTL_SECONDS :: int where
  "WEBHOOK_DELIVERY_TTL_SECONDS = 24 * 60 * 60"

definition buildIdempotencyKey :: "string \<Rightarrow> string \<Rightarrow> string \<Rightarrow> string \<Rightarrow> string" where
  "buildIdempotencyKey protocol transactionId previousStatus nextStatus =
     protocol @ '':'' @ transactionId @ '':'' @ previousStatus @ ''->'' @ nextStatus"

definition buildWebhookDeliveryHash :: "'w webhook_env \<Rightarrow> string \<Rightarrow> string \<Rightarrow> string" where
  "buildWebhookDeliveryHash env idempotencyKey callbackUrl = hex (we_sha256 env (idempotencyKey @ ''|'' @ callbackUrl))"

section \<open>Stores of delivered webhooks\<close>

record 'w delivery_store =
  ds_has :: "string \<Rightarrow> ('w, bool) webhook"
  ds_mark :: "string \<Rightarrow> ('w, unit) webhook"

definition delivered_key :: "string \<Rightarrow> string" where
  "delivered_key hash = ''webhook:delivered:'' @ hash"

text \<open>
  The store in Redis. What is under a key is text that this store wrote (the body of \<open>JSON.parse\<close> is not
  looked at), and no text is null. An error is logged, and not thrown.
\<close>

definition redis_store :: "'w webhook_env \<Rightarrow> 'w delivery_store" where
  "redis_store env =
     \<lparr>ds_has = (\<lambda>hash. ecatch
        (ebind (wcall (we_redis_get env (delivered_key hash))) (\<lambda>raw. ereturn (truthy_str raw \<noteq> None)))
        (\<lambda>_. ereturn False)),
      ds_mark = (\<lambda>hash. ecatch
        (ebind (wclock env) (\<lambda>t.
         ebind (wcall (we_redis_set env (delivered_key hash)
                  (json_stringify (JObj [(''deliveredAt'', JStr (iso_string t))])))) (\<lambda>_.
         wcall (we_redis_expire env (delivered_key hash) WEBHOOK_DELIVERY_TTL_SECONDS))))
        (\<lambda>_. ereturn ()))\<rparr>"

text \<open>The store in memory: when each hash stops to count.\<close>

definition memory_has :: "'w webhook_env \<Rightarrow> string \<Rightarrow> ('w, bool) webhook" where
  "memory_has env hash =
     ebind (eget (\<lambda>s. js_get (wx_memory s) hash)) (\<lambda>entry. case entry of
       None \<Rightarrow> ereturn False
     | Some expiresAt \<Rightarrow>
         ebind (wclock env) (\<lambda>t.
         if expiresAt < t
         then ebind (emodify (\<lambda>s. s\<lparr>wx_memory := js_delete hash (wx_memory s)\<rparr>)) (\<lambda>_. ereturn False)
         else ereturn True))"

definition memory_mark :: "'w webhook_env \<Rightarrow> string \<Rightarrow> ('w, unit) webhook" where
  "memory_mark env hash = ebind (wclock env) (\<lambda>t.
     emodify (\<lambda>s. s\<lparr>wx_memory := js_set hash (t + WEBHOOK_DELIVERY_TTL_SECONDS * 1000) (wx_memory s)\<rparr>))"

definition memory_store :: "'w webhook_env \<Rightarrow> 'w delivery_store" where
  "memory_store env = \<lparr>ds_has = memory_has env, ds_mark = memory_mark env\<rparr>"

section \<open>The queue of retries\<close>

definition WEBHOOK_RETRY_JOB_OPTIONS :: job_options where
  "WEBHOOK_RETRY_JOB_OPTIONS = \<lparr>jo_attempts = Some 5, jo_backoff = Some \<lparr>bo_type = ''exponential'', bo_delay = 2000\<rparr>,
     jo_priority = Some P_NORMAL, jo_removeOnComplete = Some (KeepJobs (24 * 3600) (Some 1000)),
     jo_removeOnFail = Some (KeepJobs (7 * 24 * 3600) None)\<rparr>"

text \<open>A job is enqueued under its delivery hash; an error is logged, and not thrown.\<close>

definition enqueueWebhookRetry :: "'w webhook_env \<Rightarrow> retry_job \<Rightarrow> ('w, string option) webhook" where
  "enqueueWebhookRetry env d = ecatch
     (ebind (wtrace (Enqueued d)) (\<lambda>_.
      wcall (we_addJob env ''webhook-retry'' d WEBHOOK_RETRY_JOB_OPTIONS (''webhook-'' @ rj_deliveryHash d))))
     (\<lambda>_. ereturn None)"

section \<open>Payloads\<close>

text \<open>\<open>...(v ? { k: v } : {})\<close>.\<close>

definition opt_member :: "string \<Rightarrow> string option \<Rightarrow> (string \<times> json) list" where
  "opt_member k v = (case truthy_str v of Some x \<Rightarrow> [(k, JStr x)] | None \<Rightarrow> [])"

definition buildTransactionStatusChangedPayload :: "string \<Rightarrow> tx_row \<Rightarrow> string \<Rightarrow> int \<Rightarrow> webhook_payload" where
  "buildTransactionStatusChangedPayload i tx previousStatus t =
     \<lparr>wp_event = ''transaction.status_changed'', wp_occurredAt = iso_string t, wp_previousStatus = previousStatus,
      wp_status = tx_status tx,
      wp_json = JObj
        [(''event'', JStr ''transaction.status_changed''), (''occurredAt'', JStr (iso_string t)),
         (''previousStatus'', JStr previousStatus),
         (''transaction'', JObj
           ([(''id'', JStr i), (''userId'', JStr (tx_userId tx))]
            @ opt_member ''userPublicKey'' (tx_userPublicKey tx)
            @ [(''assetCode'', JStr (tx_assetCode tx)), (''amount'', JStr (tx_amount tx)), (''type'', JStr (tx_type tx)),
               (''status'', JStr (tx_status tx))]
            @ opt_member ''externalId'' (tx_externalId tx) @ opt_member ''stellarTxId'' (tx_stellarTxId tx)
            @ [(''createdAt'', JStr (iso_string (tx_createdAt tx))), (''updatedAt'', JStr (iso_string (tx_updatedAt tx)))]))]\<rparr>"

text \<open>An array is truthy when it is empty, a text is not.\<close>

definition reason_list :: "reasons option \<Rightarrow> string list option" where
  "reason_list r = (case r of None \<Rightarrow> None | Some (OneReason s) \<Rightarrow> if s = [] then None else Some [s] | Some (Reasons rs) \<Rightarrow> Some rs)"

definition kyc_reasons :: "kyc_row \<Rightarrow> reasons option \<Rightarrow> string list option" where
  "kyc_reasons c explicit = (case reason_list explicit of Some rs \<Rightarrow> Some rs
     | None \<Rightarrow> (case ky_rejectionReasonCodes c of Some (r # rs) \<Rightarrow> Some (r # rs)
                | _ \<Rightarrow> reason_list (ky_rejectionReasons c)))"

definition buildCustomerKycStatusUpdatedPayload :: "kyc_row \<Rightarrow> string \<Rightarrow> reasons option \<Rightarrow> int \<Rightarrow> webhook_payload" where
  "buildCustomerKycStatusUpdatedPayload c previousStatus explicit t =
     (let rejected = (case kyc_reasons c explicit of
            Some (r # rs) \<Rightarrow> if upper_text (ky_status c) = ''REJECTED''
              then [(''rejectionReasons'', JArr (List.map JStr (r # rs))), (''rejectionReasonCodes'', JArr (List.map JStr (r # rs)))]
              else []
          | _ \<Rightarrow> [])
      in \<lparr>wp_event = ''customer.kyc_status_updated'', wp_occurredAt = iso_string t, wp_previousStatus = previousStatus,
          wp_status = ky_status c,
          wp_json = JObj
            [(''event'', JStr ''customer.kyc_status_updated''), (''occurredAt'', JStr (iso_string t)),
             (''previousStatus'', JStr previousStatus),
             (''customer'', JObj
               ([(''id'', JStr (ky_id c)), (''userId'', JStr (ky_userId c))]
                @ opt_member ''account'' (ky_userPublicKey c) @ opt_member ''provider'' (ky_provider c)
                @ opt_member ''providerRef'' (ky_providerRef c) @ [(''status'', JStr (ky_status c))] @ rejected
                @ [(''createdAt'', JStr (iso_string (ky_createdAt c))), (''updatedAt'', JStr (iso_string (ky_updatedAt c)))]))]\<rparr>)"

section \<open>Signatures\<close>

definition signWebhookPayload :: "'w webhook_env \<Rightarrow> string \<Rightarrow> string \<Rightarrow> string \<Rightarrow> string" where
  "signWebhookPayload env payload secret timestamp =
     ''sha256='' @ hex (we_hmac env secret (timestamp @ ''.'' @ payload))"

definition verifyWebhookSignature :: "'w webhook_env \<Rightarrow> string \<Rightarrow> string \<Rightarrow> string \<Rightarrow> string \<Rightarrow> bool" where
  "verifyWebhookSignature env payload secret timestamp provided =
     (let expected = signWebhookPayload env payload secret timestamp in
      if length expected \<noteq> length provided then False else expected = provided)"

section \<open>Waiting between attempts\<close>

definition calculateExponentialBackoff :: "'w webhook_env \<Rightarrow> int \<Rightarrow> int \<Rightarrow> int \<Rightarrow> jsnum" where
  "calculateExponentialBackoff env attempt baseDelayMs maxDelayMs =
     math_min (js_mul (js_int baseDelayMs) (we_pow env (js_int 2) (js_int (max 0 (attempt - 1))))) (js_int maxDelayMs)"

definition calculateFullJitterBackoff :: "'w webhook_env \<Rightarrow> int \<Rightarrow> int \<Rightarrow> int \<Rightarrow> ('w, jsnum) webhook" where
  "calculateFullJitterBackoff env attempt initialDelayMs maxDelayMs s =
     (let exponentialCap = math_min (js_int maxDelayMs)
            (js_mul (js_int initialDelayMs) (we_pow env (js_int 2) (js_int (max 0 (attempt - 1)))))
      in case we_random env (wx_world s) of (r, w) \<Rightarrow>
         (Inr (math_floor (js_mul r (js_add exponentialCap (js_int 1)))), s\<lparr>wx_world := w\<rparr>))"

section \<open>WebhookService\<close>

text \<open>A service: the configuration it was made with, if any, and its store.\<close>

record 'w webhook_service =
  ws_injectedConfig :: "webhook_config option"
  ws_store :: "'w delivery_store"

definition getConfig :: "'w webhook_env \<Rightarrow> 'w webhook_service \<Rightarrow> webhook_config" where
  "getConfig env svc = (case ws_injectedConfig svc of Some c \<Rightarrow> c
     | None \<Rightarrow> let cfg = we_config env in
         \<lparr>wc_url = pc_WEBHOOK_URL cfg, wc_secret = pc_WEBHOOK_SECRET cfg,
          wc_timeoutMs = (case pc_WEBHOOK_TIMEOUT_MS cfg of Some n \<Rightarrow> n | None \<Rightarrow> 5000),
          wc_maxRetries = (case pc_WEBHOOK_MAX_RETRIES cfg of Some n \<Rightarrow> n | None \<Rightarrow> 5),
          wc_retryDelayMs = (case pc_WEBHOOK_RETRY_DELAY_MS cfg of Some n \<Rightarrow> n | None \<Rightarrow> 2000)\<rparr>)"

definition isEnabled :: "'w webhook_env \<Rightarrow> 'w webhook_service \<Rightarrow> bool" where
  "isEnabled env svc \<longleftrightarrow> (let c = getConfig env svc in truthy_str (wc_url c) \<noteq> None \<and> truthy_str (wc_secret c) \<noteq> None)"

definition getRetryDelay :: "'w webhook_env \<Rightarrow> 'w webhook_service \<Rightarrow> int \<Rightarrow> jsnum" where
  "getRetryDelay env svc attempt =
     calculateExponentialBackoff env attempt (or_number 2000 (Some (wc_retryDelayMs (getConfig env svc)))) 32000"

definition RETRYABLE_STATUS_CODES :: "int list" where
  "RETRYABLE_STATUS_CODES = [408, 425, 429, 500, 502, 503, 504]"

text \<open>What one request leads to: a final result, or what is remembered of it before the next.\<close>

datatype attempt_outcome = Final delivery_result | Answered int string | Failed js_error

definition failed_delivery :: "int \<Rightarrow> int option \<Rightarrow> string option \<Rightarrow> string \<Rightarrow> delivery_result" where
  "failed_delivery attempts statusCode responseBody error =
     \<lparr>dl_delivered = False, dl_attempts = attempts, dl_statusCode = statusCode, dl_responseBody = responseBody,
      dl_error = Some error, dl_skipped = False\<rparr>"

definition status_message :: "int \<Rightarrow> string" where
  "status_message statusCode = ''Webhook responded with status '' @ show_int statusCode"

definition text_or_undefined :: "string option \<Rightarrow> string" where
  "text_or_undefined s = (case s of Some x \<Rightarrow> x | None \<Rightarrow> ''undefined'')"

definition delivery_request :: "'w webhook_env \<Rightarrow> webhook_payload \<Rightarrow> string \<Rightarrow> webhook_config \<Rightarrow> string \<Rightarrow> int
    \<Rightarrow> string \<Rightarrow> string \<Rightarrow> http_request" where
  "delivery_request env payload requestBody config secret attempt idempotencyKey timestamp =
     \<lparr>hq_url = text_or_undefined (wc_url config),
      hq_headers =
        [(''content-type'', ''application/json''), (''Idempotency-Key'', idempotencyKey),
         (''x-anchorpoint-event'', wp_event payload),
         (''x-anchorpoint-signature'', signWebhookPayload env requestBody secret timestamp),
         (''x-anchorpoint-timestamp'', timestamp), (''x-anchorpoint-delivery-attempt'', show_int attempt)],
      hq_body = requestBody, hq_timeoutMs = wc_timeoutMs config\<rparr>"

definition answer_outcome :: "webhook_config \<Rightarrow> int \<Rightarrow> http_response \<Rightarrow> string \<Rightarrow> attempt_outcome" where
  "answer_outcome config attempt response responseBody =
     (if hr_ok response
      then Final \<lparr>dl_delivered = True, dl_attempts = attempt, dl_statusCode = Some (hr_status response),
             dl_responseBody = Some responseBody, dl_error = None, dl_skipped = False\<rparr>
      else if hr_status response \<notin> set RETRYABLE_STATUS_CODES \<or> attempt > wc_maxRetries config
      then Final (failed_delivery attempt (Some (hr_status response)) (Some responseBody) (status_message (hr_status response)))
      else Answered (hr_status response) responseBody)"

definition error_outcome :: "webhook_config \<Rightarrow> int \<Rightarrow> js_error \<Rightarrow> attempt_outcome" where
  "error_outcome config attempt error =
     (if attempt > wc_maxRetries config
      then Final (failed_delivery attempt None None
             (case error_message error of Some m \<Rightarrow> m | None \<Rightarrow> ''Unknown webhook error''))
      else Failed error)"

text \<open>A missing secret makes \<open>createHmac\<close> throw.\<close>

definition performRequestAttempt :: "'w webhook_env \<Rightarrow> webhook_payload \<Rightarrow> string \<Rightarrow> webhook_config \<Rightarrow> int \<Rightarrow> string
    \<Rightarrow> ('w, attempt_outcome) webhook" where
  "performRequestAttempt env payload requestBody config attempt idempotencyKey =
     ebind (wclock env) (\<lambda>t. case wc_secret config of
       None \<Rightarrow> ethrow (OtherErr ''TypeError'' ''The key argument must be of type string'' (Some ''ERR_INVALID_ARG_TYPE'')
                 None None None None None)
     | Some secret \<Rightarrow> ecatch
         (ebind (post env (delivery_request env payload requestBody config secret attempt idempotencyKey (iso_string t))) (\<lambda>response.
          ebind (elift (hr_text response)) (\<lambda>responseBody.
          ereturn (answer_outcome config attempt response responseBody))))
         (\<lambda>error. ereturn (error_outcome config attempt error)))"

definition retry_job_of :: "webhook_payload \<Rightarrow> string \<Rightarrow> string \<Rightarrow> webhook_config \<Rightarrow> string \<Rightarrow> string \<Rightarrow> int \<Rightarrow> retry_job" where
  "retry_job_of payload requestBody entityId config idempotencyKey deliveryHash attempt =
     \<lparr>rj_protocol = (case truthy_str (Some (hd (split_char (CHR '':'') idempotencyKey))) of Some p \<Rightarrow> p | None \<Rightarrow> ''transaction''),
      rj_transactionId = entityId, rj_previousStatus = wp_previousStatus payload, rj_nextStatus = wp_status payload,
      rj_callbackUrl = text_or_undefined (wc_url config), rj_idempotencyKey = idempotencyKey, rj_deliveryHash = deliveryHash,
      rj_payload = requestBody, rj_attempt = attempt\<rparr>"

text \<open>What the loop remembers: status code, body and error of the attempts so far.\<close>

type_synonym last_seen = "int option \<times> string option \<times> js_error option"

definition remember :: "attempt_outcome \<Rightarrow> last_seen \<Rightarrow> last_seen" where
  "remember o' seen = (case o' of
     Answered c b \<Rightarrow> (Some c, Some b, snd (snd seen))
   | Failed e \<Rightarrow> (fst seen, fst (snd seen), Some e)
   | Final _ \<Rightarrow> seen)"

definition exhausted_result :: "webhook_config \<Rightarrow> last_seen \<Rightarrow> delivery_result" where
  "exhausted_result config seen = (case seen of (c, b, e) \<Rightarrow>
     failed_delivery (wc_maxRetries config + 1) c b
       (case e of Some e' \<Rightarrow> (case error_message e' of Some m \<Rightarrow> m | None \<Rightarrow> ''Webhook delivery failed'')
        | None \<Rightarrow> ''Webhook delivery failed''))"

text \<open>
  The loop over the attempts: \<open>left\<close> more of them, the next one is \<open>attempt\<close>. A failed delivery that is
  final, and one that has used its attempts up, goes to the queue of retries.
\<close>

definition settle_final :: "'w webhook_env \<Rightarrow> 'w webhook_service \<Rightarrow> webhook_payload \<Rightarrow> string \<Rightarrow> string \<Rightarrow> webhook_config
    \<Rightarrow> string \<Rightarrow> string \<Rightarrow> int \<Rightarrow> delivery_result \<Rightarrow> ('w, delivery_result) webhook" where
  "settle_final env svc payload requestBody entityId config idempotencyKey deliveryHash attempt result =
     ebind
       (if dl_delivered result
        then ebind (wtrace (Marked deliveryHash)) (\<lambda>_. ds_mark (ws_store svc) deliveryHash)
        else if \<not> dl_skipped result
        then ebind (enqueueWebhookRetry env (retry_job_of payload requestBody entityId config idempotencyKey deliveryHash attempt))
               (\<lambda>_. ereturn ())
        else ereturn ())
       (\<lambda>_. ereturn result)"

fun delivery_loop :: "'w webhook_env \<Rightarrow> 'w webhook_service \<Rightarrow> webhook_payload \<Rightarrow> string \<Rightarrow> string \<Rightarrow> webhook_config
    \<Rightarrow> string \<Rightarrow> string \<Rightarrow> nat \<Rightarrow> int \<Rightarrow> last_seen \<Rightarrow> ('w, delivery_result) webhook" where
  "delivery_loop env svc payload requestBody entityId config idempotencyKey deliveryHash 0 attempt seen =
     ebind (enqueueWebhookRetry env
              (retry_job_of payload requestBody entityId config idempotencyKey deliveryHash (wc_maxRetries config + 1))) (\<lambda>_.
     ereturn (exhausted_result config seen))"
| "delivery_loop env svc payload requestBody entityId config idempotencyKey deliveryHash (Suc left) attempt seen =
     ebind (performRequestAttempt env payload requestBody config attempt idempotencyKey) (\<lambda>outcome. case outcome of
       Final result \<Rightarrow>
         settle_final env svc payload requestBody entityId config idempotencyKey deliveryHash attempt result
     | _ \<Rightarrow>
         ebind (wtrace (Slept (getRetryDelay env svc attempt))) (\<lambda>_.
         delivery_loop env svc payload requestBody entityId config idempotencyKey deliveryHash left (attempt + 1)
           (remember outcome seen)))"

definition executeDeliveryLoop :: "'w webhook_env \<Rightarrow> 'w webhook_service \<Rightarrow> webhook_payload \<Rightarrow> string \<Rightarrow> webhook_config
    \<Rightarrow> string \<Rightarrow> ('w, delivery_result) webhook" where
  "executeDeliveryLoop env svc payload entityId config idempotencyKey =
     (let requestBody = json_stringify (wp_json payload);
          deliveryHash = buildWebhookDeliveryHash env idempotencyKey (text_or_undefined (wc_url config))
      in ebind (ds_has (ws_store svc) deliveryHash) (\<lambda>delivered.
         if delivered then ereturn skipped_result
         else delivery_loop env svc payload requestBody entityId config idempotencyKey deliveryHash
                (nat (wc_maxRetries config + 1)) 1 (None, None, None)))"

definition deliver :: "'w webhook_env \<Rightarrow> 'w webhook_service \<Rightarrow> webhook_payload \<Rightarrow> string \<Rightarrow> string
    \<Rightarrow> ('w, delivery_result) webhook" where
  "deliver env svc payload entityId idempotencyKey =
     executeDeliveryLoop env svc payload entityId (getConfig env svc) idempotencyKey"

definition transaction_protocol :: "string \<Rightarrow> string" where
  "transaction_protocol ty =
     (if ty = ''DEPOSIT'' \<or> ty = ''WITHDRAW'' \<or> ty = ''deposit'' \<or> ty = ''withdrawal'' then ''sep24'' else ''transaction'')"

definition sendTransactionStatusChanged :: "'w webhook_env \<Rightarrow> 'w webhook_service \<Rightarrow> string \<Rightarrow> tx_row \<Rightarrow> string
    \<Rightarrow> ('w, delivery_result) webhook" where
  "sendTransactionStatusChanged env svc i tx previousStatus =
     (if tx_status tx = previousStatus then ereturn skipped_result
      else if \<not> isEnabled env svc then ereturn skipped_result
      else ebind (wclock env) (\<lambda>t.
        deliver env svc (buildTransactionStatusChangedPayload i tx previousStatus t) i
          (buildIdempotencyKey (transaction_protocol (tx_type tx)) i previousStatus (tx_status tx))))"

definition sendKycStatusChanged :: "'w webhook_env \<Rightarrow> 'w webhook_service \<Rightarrow> kyc_row \<Rightarrow> string \<Rightarrow> reasons option
    \<Rightarrow> ('w, delivery_result) webhook" where
  "sendKycStatusChanged env svc c previousStatus rejectionReasons =
     (if ky_status c = previousStatus then ereturn skipped_result
      else if \<not> isEnabled env svc then ereturn skipped_result
      else ebind (wclock env) (\<lambda>t.
        deliver env svc (buildCustomerKycStatusUpdatedPayload c previousStatus rejectionReasons t) (ky_id c)
          (buildIdempotencyKey ''sep12'' (ky_id c) previousStatus (ky_status c))))"

section \<open>Updating a transaction\<close>

text \<open>\<open>s.replace('_', ' ')\<close>: the first one.\<close>

fun replace_first :: "char \<Rightarrow> char \<Rightarrow> string \<Rightarrow> string" where
  "replace_first a b [] = []"
| "replace_first a b (c # s) = (if c = a then b # s else c # replace_first a b s)"

definition record_not_found :: js_error where
  "record_not_found = OtherErr ''PrismaClientKnownRequestError''
     ''An operation failed because it depends on one or more records that were required but not found. No record was found for an update.''
     (Some ''P2025'') None None None None None"

definition find_tx :: "'w webhook_env \<Rightarrow> string \<Rightarrow> ('w, tx_row option) webhook" where
  "find_tx env i = ebind (wcall (we_db env)) (\<lambda>_. eget (\<lambda>s. js_get (wx_transactions s) i))"

definition update_tx :: "'w webhook_env \<Rightarrow> string \<Rightarrow> string \<Rightarrow> ('w, tx_row) webhook" where
  "update_tx env i nextStatus =
     ebind (wcall (we_db env)) (\<lambda>_.
     ebind (eget (\<lambda>s. js_get (wx_transactions s) i)) (\<lambda>row. case row of
       None \<Rightarrow> ethrow record_not_found
     | Some tx \<Rightarrow>
         ebind (wclock env) (\<lambda>t. let tx' = tx\<lparr>tx_status := nextStatus, tx_updatedAt := t\<rparr> in
         ebind (emodify (\<lambda>s. s\<lparr>wx_transactions := js_set i tx' (wx_transactions s)\<rparr>)) (\<lambda>_. ereturn tx'))))"

text \<open>The rooms of the socket; the notification engine runs on its own, and its failures are logged.\<close>

definition announce :: "string \<Rightarrow> tx_row \<Rightarrow> string \<Rightarrow> ('w, unit) webhook" where
  "announce i tx nextStatus =
     ebind (wtrace (Emitted (List.filter (\<lambda>u. u \<noteq> [])
              (tx_userId tx # (case tx_userPublicKey tx of Some k \<Rightarrow> [k] | None \<Rightarrow> []))) (tx_status tx))) (\<lambda>_.
     wtrace (Notified (tx_userId tx)
       (''Your transaction '' @ i @ '' status updated to: '' @ replace_first (CHR ''_'') (CHR '' '') nextStatus)))"

definition updateTransactionStatusAndNotify :: "'w webhook_env \<Rightarrow> 'w webhook_service \<Rightarrow> string \<Rightarrow> string
    \<Rightarrow> ('w, tx_row \<times> delivery_result) webhook" where
  "updateTransactionStatusAndNotify env svc i nextStatus =
     ebind (find_tx env i) (\<lambda>existing. case existing of
       None \<Rightarrow> ethrow (PlainError (''Transaction '' @ i @ '' not found''))
     | Some old \<Rightarrow>
         if tx_status old = nextStatus then ereturn (old, skipped_result)
         else ebind (update_tx env i nextStatus) (\<lambda>new.
              ebind (announce i new nextStatus) (\<lambda>_.
              ecatch (ebind (sendTransactionStatusChanged env svc i new (tx_status old)) (\<lambda>d. ereturn (new, d)))
                (\<lambda>error. ereturn (new, failed_delivery 1 None None
                   (case error_message error of Some m \<Rightarrow> m | None \<Rightarrow> ''Unknown webhook error''))))))"

end
