(* ===== verification/Webhook_Receivers.thy ===== *)
theory Webhook_Receivers
  imports Webhooks
begin

text \<open>
  The checks of incoming webhooks: \<open>api/middleware/horizon-webhook.middleware.ts\<close>,
  \<open>api/middleware/webhook-signature.middleware.ts\<close> and \<open>webhookSignatureMiddleware\<close> of
  \<open>auth.middleware.ts\<close>. A middleware reads a request and lets it through or answers 401 with an error. The
  HMAC, the clock and the parsing of dates are parameters. Names of headers are in lower case, and each has
  one text, as Node's parser delivers these headers.
\<close>

section \<open>Requests and configuration\<close>

datatype raw_body = RawText string | RawBuffer string

datatype request_body = NoBody | BodyBuffer string | BodyText string | BodyJson json

record incoming =
  iq_headers :: "(string \<times> string) list"
  iq_rawBody :: "raw_body option"
  iq_body :: request_body

record receiver_env =
  rv_now :: int
  rv_hmac :: "string \<Rightarrow> string \<Rightarrow> string"
  rv_dateParse :: "string \<Rightarrow> int option"
  rv_env_HORIZON_WEBHOOK_SECRET :: "string option"
  rv_config_HORIZON_WEBHOOK_SECRET :: "string option"
  rv_config_WEBHOOK_SECRET :: "string option"

datatype verdict = Passed | Refused string

definition js_abs :: "jsnum \<Rightarrow> jsnum" where
  "js_abs x = (if js_negative x then js_neg x else x)"

text \<open>\<open>s.replace(/^sha256=/i, '')\<close>.\<close>

definition strip_sha256 :: "string \<Rightarrow> string" where
  "strip_sha256 s = (if List.map to_lower (take 7 s) = ''sha256='' then drop 7 s else s)"

section \<open>The header X-Stellar-Signature\<close>

record horizon_options =
  ho_secret :: "string option"
  ho_maxAgeSeconds :: "int option"
  ho_signatureHeader :: "string option"
  ho_timestampHeader :: "string option"

definition no_horizon_options :: horizon_options where
  "no_horizon_options = \<lparr>ho_secret = None, ho_maxAgeSeconds = None, ho_signatureHeader = None, ho_timestampHeader = None\<rparr>"

definition DEFAULT_HORIZON_MAX_AGE_SECONDS :: int where
  "DEFAULT_HORIZON_MAX_AGE_SECONDS = 300"

definition computeHorizonSignature :: "receiver_env \<Rightarrow> string \<Rightarrow> string \<Rightarrow> string option \<Rightarrow> string" where
  "computeHorizonSignature env rawBody secret timestamp =
     hex (rv_hmac env secret (case truthy_str timestamp of Some t \<Rightarrow> t @ ''.'' @ rawBody | None \<Rightarrow> rawBody))"

definition formatStellarSignatureHeader :: "receiver_env \<Rightarrow> string \<Rightarrow> string \<Rightarrow> string \<Rightarrow> string" where
  "formatStellarSignatureHeader env rawBody secret timestamp =
     ''t='' @ timestamp @ '',v1='' @ computeHorizonSignature env rawBody secret (Some timestamp)"

text \<open>The parts of a header with commas; a later part overwrites an earlier one.\<close>

definition read_part :: "string \<Rightarrow> string option \<times> string option \<Rightarrow> string option \<times> string option" where
  "read_part part acc = (case split_first (CHR ''='') part of
     None \<Rightarrow> acc
   | Some (k, v) \<Rightarrow>
       (let key = List.map to_lower (trim_js k); val = trim_js v in
        if key = ''t'' \<or> key = ''ts'' \<or> key = ''timestamp'' then (Some val, snd acc)
        else if key = ''v1'' \<or> key = ''sha256'' \<or> key = ''s'' \<or> key = ''sig'' \<or> key = ''signature''
        then (fst acc, Some (strip_sha256 val))
        else acc))"

definition parse_parts :: "string \<Rightarrow> string option \<times> string option" where
  "parse_parts s = fold read_part (List.map trim_js (split_char (CHR '','') s)) (None, None)"

definition parse_dotted :: "string \<Rightarrow> (string \<times> string) option" where
  "parse_dotted s = (case split_first (CHR ''.'') s of
     None \<Rightarrow> None
   | Some (a, b) \<Rightarrow>
       (let maybeTs = trim_js a; rest = trim_js b in
        if a \<noteq> [] \<and> all_digits maybeTs \<and> rest \<noteq> [] then Some (maybeTs, strip_sha256 rest) else None))"

text \<open>The signature and the timestamp of a header.\<close>

definition parseStellarSignatureHeader :: "string \<Rightarrow> (string \<times> string option) option" where
  "parseStellarSignatureHeader headerValue =
     (let trimmed = trim_js headerValue;
          parts = (if CHR '','' \<in> set trimmed then parse_parts trimmed else (None, None))
      in if trimmed = [] then None
         else case truthy_str (snd parts) of
           Some sig \<Rightarrow> Some (sig, fst parts)
         | None \<Rightarrow> (case parse_dotted trimmed of
             Some (ts, sig) \<Rightarrow> Some (sig, Some ts)
           | None \<Rightarrow> let cleaned = trim_js (strip_sha256 trimmed) in
               if cleaned = [] then None else Some (cleaned, None)))"

definition safeCompare :: "string \<Rightarrow> string \<Rightarrow> bool" where
  "safeCompare expectedHex provided = (let b = trim_js (strip_sha256 provided) in
     if length expectedHex \<noteq> length b then False else expectedHex = b)"

datatype timestamp_value = TsNumber jsnum | TsText string

definition milliseconds_limit :: jsnum where
  "milliseconds_limit = js_int 1000000000000"

definition parseTimestampToSeconds :: "receiver_env \<Rightarrow> timestamp_value \<Rightarrow> jsnum option" where
  "parseTimestampToSeconds env raw = (case raw of
     TsNumber n \<Rightarrow> if \<not> js_isFinite n then None
       else Some (if js_less milliseconds_limit n then math_floor (js_div n (js_int 1000)) else math_floor n)
   | TsText s \<Rightarrow>
       (let trimmed = trim_js s in
        if trimmed = [] then None
        else if all_digits trimmed
        then (let num = round64 (of_int (digits_value trimmed)) in
              if \<not> js_isFinite num then None
              else Some (if js_less milliseconds_limit num then math_floor (js_div num (js_int 1000)) else num))
        else case rv_dateParse env trimmed of
               Some ms \<Rightarrow> Some (js_int (ms div 1000))
             | None \<Rightarrow> None))"

definition extractRawBody :: "incoming \<Rightarrow> string" where
  "extractRawBody req = (case iq_rawBody req of
     Some (RawText s) \<Rightarrow> s
   | Some (RawBuffer s) \<Rightarrow> s
   | None \<Rightarrow> (case iq_body req of
       BodyBuffer s \<Rightarrow> s
     | BodyText s \<Rightarrow> s
     | BodyJson (JObj ps) \<Rightarrow> json_stringify (JObj ps)
     | BodyJson (JArr xs) \<Rightarrow> json_stringify (JArr xs)
     | _ \<Rightarrow> []))"

section \<open>createHorizonWebhookMiddleware\<close>

definition js_nullish :: "'a option \<Rightarrow> 'a option \<Rightarrow> 'a option" where
  "js_nullish a b = (case a of Some x \<Rightarrow> Some x | None \<Rightarrow> b)"

definition body_timestamp :: "incoming \<Rightarrow> string option" where
  "body_timestamp req = (case iq_body req of
     BodyJson (JObj ps) \<Rightarrow>
       (case js_get ps ''timestamp'' of Some (JStr s) \<Rightarrow> Some s | Some (JNum n) \<Rightarrow> Some (show_int n) | _ \<Rightarrow> None)
   | _ \<Rightarrow> None)"

definition horizon_secret :: "receiver_env \<Rightarrow> horizon_options \<Rightarrow> string option" where
  "horizon_secret env opts = truthy_str (js_nullish (ho_secret opts)
     (js_nullish (rv_env_HORIZON_WEBHOOK_SECRET env) (rv_config_HORIZON_WEBHOOK_SECRET env)))"

definition lower_text :: "string \<Rightarrow> string" where
  "lower_text = List.map to_lower"

definition header_or :: "string option \<Rightarrow> string \<Rightarrow> string" where
  "header_or h d = lower_text (case h of Some x \<Rightarrow> x | None \<Rightarrow> d)"

definition too_old :: "receiver_env \<Rightarrow> int \<Rightarrow> jsnum \<Rightarrow> bool" where
  "too_old env maxAgeSeconds ts \<longleftrightarrow> js_less (js_int maxAgeSeconds) (js_abs (js_sub (js_int (rv_now env div 1000)) ts))"

definition verifyHorizonWebhook :: "receiver_env \<Rightarrow> horizon_options \<Rightarrow> incoming \<Rightarrow> verdict" where
  "verifyHorizonWebhook env opts req =
     (let maxAgeSeconds = (case ho_maxAgeSeconds opts of Some n \<Rightarrow> n | None \<Rightarrow> DEFAULT_HORIZON_MAX_AGE_SECONDS);
          sigHeader = header_or (ho_signatureHeader opts) ''x-stellar-signature'';
          tsHeader = header_or (ho_timestampHeader opts) ''x-stellar-timestamp''
      in case horizon_secret env opts of
        None \<Rightarrow> Refused ''webhook_secret_not_configured''
      | Some secret \<Rightarrow> (case truthy_str (js_get (iq_headers req) sigHeader) of
          None \<Rightarrow> Refused ''missing_signature''
        | Some headerValue \<Rightarrow> (case parseStellarSignatureHeader headerValue of
            None \<Rightarrow> Refused ''invalid_signature''
          | Some (sig, ts) \<Rightarrow>
              if sig = [] then Refused ''invalid_signature''
              else (case truthy_str (js_nullish ts (js_nullish (js_get (iq_headers req) tsHeader)
                          (js_nullish (js_get (iq_headers req) ''x-webhook-timestamp'') (body_timestamp req)))) of
                None \<Rightarrow> Refused ''missing_timestamp''
              | Some rawTimestamp \<Rightarrow> (case parseTimestampToSeconds env (TsText rawTimestamp) of
                  None \<Rightarrow> Refused ''invalid_timestamp''
                | Some timestampSeconds \<Rightarrow>
                    if too_old env maxAgeSeconds timestampSeconds then Refused ''timestamp_too_old''
                    else
                      (let rawBody = extractRawBody req in
                       if safeCompare (computeHorizonSignature env rawBody secret (Some rawTimestamp)) sig
                          \<or> safeCompare (computeHorizonSignature env rawBody secret None) sig
                       then Passed else Refused ''invalid_signature''))))))"

definition horizonWebhookMiddleware :: "receiver_env \<Rightarrow> incoming \<Rightarrow> verdict" where
  "horizonWebhookMiddleware env req = verifyHorizonWebhook env no_horizon_options req"

section \<open>webhook-signature.middleware.ts: several secrets\<close>

definition computeWebhookSignature :: "receiver_env \<Rightarrow> string \<Rightarrow> string \<Rightarrow> string \<Rightarrow> string" where
  "computeWebhookSignature env payload secret timestamp = ''sha256='' @ hex (rv_hmac env secret (timestamp @ ''.'' @ payload))"

definition signaturesMatch :: "string \<Rightarrow> string \<Rightarrow> bool" where
  "signaturesMatch expected provided = (if length expected \<noteq> length provided then False else expected = provided)"

fun verifyWebhookSignatureMultiSecret :: "receiver_env \<Rightarrow> string \<Rightarrow> string list \<Rightarrow> string \<Rightarrow> string \<Rightarrow> bool" where
  "verifyWebhookSignatureMultiSecret env payload [] timestamp provided = False"
| "verifyWebhookSignatureMultiSecret env payload (secret # secrets) timestamp provided =
     (if signaturesMatch (computeWebhookSignature env payload secret timestamp) provided then True
      else verifyWebhookSignatureMultiSecret env payload secrets timestamp provided)"

record signature_options =
  so_secrets :: "string list"
  so_maxAgeSeconds :: "int option"
  so_signatureHeader :: "string option"
  so_timestampHeader :: "string option"

definition with_prefix :: "string \<Rightarrow> string" where
  "with_prefix v = (if starts_with ''sha256='' v then v else ''sha256='' @ v)"

text \<open>The signature and the timestamp that a composite header gives, over those found so far.\<close>

definition read_composite :: "string \<Rightarrow> string \<times> string option \<Rightarrow> string \<times> string option" where
  "read_composite part acc = (case split_first (CHR ''='') part of
     None \<Rightarrow> acc
   | Some (k0, v0) \<Rightarrow>
       (let k = lower_text (trim_js k0); v = trim_js v0 in
        if k = ''t'' \<or> k = ''ts'' \<or> k = ''timestamp'' then (fst acc, Some v)
        else if k = ''v1'' \<or> k = ''sha256'' \<or> k = ''s'' \<or> k = ''sig'' then (with_prefix v, snd acc)
        else acc))"

definition resolve_composite :: "string \<Rightarrow> string option \<Rightarrow> string \<times> string option" where
  "resolve_composite provided timestampHeader =
     (if CHR '','' \<in> set provided
      then fold read_composite (List.map trim_js (split_char (CHR '','') provided)) (provided, timestampHeader)
      else (with_prefix provided, timestampHeader))"

definition verifyWebhookRequest :: "receiver_env \<Rightarrow> signature_options \<Rightarrow> string list \<Rightarrow> incoming \<Rightarrow> verdict" where
  "verifyWebhookRequest env opts activeSecrets req =
     (let maxAgeSeconds = (case so_maxAgeSeconds opts of Some n \<Rightarrow> n | None \<Rightarrow> 300);
          sigHeader = header_or (so_signatureHeader opts) ''x-webhook-signature'';
          tsHeader = header_or (so_timestampHeader opts) ''x-webhook-timestamp''
      in case truthy_str (js_get (iq_headers req) sigHeader) of
        None \<Rightarrow> Refused ''missing_signature''
      | Some provided \<Rightarrow>
          (case resolve_composite provided (js_get (iq_headers req) tsHeader) of (sig, ts) \<Rightarrow>
            (case truthy_str ts of
              None \<Rightarrow> Refused ''missing_timestamp''
            | Some timestamp \<Rightarrow>
                (let requestTs = parseInt10 timestamp in
                 if requestTs = NaN then Refused ''invalid_timestamp''
                 else if too_old env maxAgeSeconds requestTs then Refused ''timestamp_too_old''
                 else
                   (let rawBody = (case iq_rawBody req of Some (RawText s) \<Rightarrow> s | Some (RawBuffer s) \<Rightarrow> s
                          | None \<Rightarrow> (case iq_body req of
                               BodyText s \<Rightarrow> s
                             | BodyJson JUndef \<Rightarrow> json_stringify (JStr [])
                             | BodyJson JNull \<Rightarrow> json_stringify (JStr [])
                             | BodyJson j \<Rightarrow> json_stringify j
                             | NoBody \<Rightarrow> json_stringify (JStr [])
                             | BodyBuffer s \<Rightarrow> json_stringify (JObj [(''type'', JStr ''Buffer''),
                                   (''data'', JArr (List.map (\<lambda>c. JNum (of_char c)) s))])))
                    in if verifyWebhookSignatureMultiSecret env rawBody activeSecrets timestamp sig
                       then Passed else Refused ''invalid_signature'')))))"

text \<open>The factory refuses to make a middleware without a secret.\<close>

definition multiSecretMiddleware :: "receiver_env \<Rightarrow> signature_options \<Rightarrow> js_error + (incoming \<Rightarrow> verdict)" where
  "multiSecretMiddleware env opts =
     (if so_secrets opts = [] \<or> list_all (\<lambda>s. s = []) (so_secrets opts)
      then Inl (PlainError ''webhookSignatureMiddleware: at least one non-empty secret must be provided'')
      else Inr (verifyWebhookRequest env opts (List.filter (\<lambda>s. s \<noteq> []) (so_secrets opts))))"

section \<open>auth.middleware.ts: webhookSignatureMiddleware\<close>

text \<open>The body as the template text of \<open>rawBody\<close> has it.\<close>

definition raw_body_text :: "incoming \<Rightarrow> string" where
  "raw_body_text req = (case iq_rawBody req of
     Some (RawText s) \<Rightarrow> s
   | Some (RawBuffer s) \<Rightarrow> s
   | None \<Rightarrow> (case iq_body req of
       BodyText s \<Rightarrow> s
     | NoBody \<Rightarrow> ''undefined''
     | BodyJson JUndef \<Rightarrow> ''undefined''
     | BodyJson j \<Rightarrow> json_stringify j
     | BodyBuffer s \<Rightarrow> json_stringify (JObj [(''type'', JStr ''Buffer''), (''data'', JArr (List.map (\<lambda>c. JNum (of_char c)) s))])))"

definition horizon_configured :: "receiver_env \<Rightarrow> bool" where
  "horizon_configured env \<longleftrightarrow> truthy_str (rv_env_HORIZON_WEBHOOK_SECRET env) \<noteq> None
     \<or> truthy_str (rv_config_HORIZON_WEBHOOK_SECRET env) \<noteq> None"

definition webhookSignatureMiddleware :: "receiver_env \<Rightarrow> incoming \<Rightarrow> verdict" where
  "webhookSignatureMiddleware env req =
     (let header = (\<lambda>h. truthy_str (js_get (iq_headers req) h)) in
      if header ''x-stellar-signature'' \<noteq> None \<or> (header ''x-anchorpoint-signature'' = None \<and> horizon_configured env)
      then horizonWebhookMiddleware env req
      else case (header ''x-anchorpoint-signature'', header ''x-anchorpoint-timestamp'', truthy_str (rv_config_WEBHOOK_SECRET env)) of
        (Some signature, Some timestamp, Some secret) \<Rightarrow>
          (let requestTs = (if number_of_text timestamp = NaN
                 then (case rv_dateParse env timestamp of Some ms \<Rightarrow> js_int (ms div 1000) | None \<Rightarrow> NaN)
                 else parseInt10 timestamp)
           in if requestTs = NaN \<or> too_old env 300 requestTs
              then Refused ''Webhook timestamp outside acceptable 5-minute window''
              else if signaturesMatch (''sha256='' @ hex (rv_hmac env secret (timestamp @ ''.'' @ raw_body_text req))) signature
              then Passed else Refused ''Invalid webhook signature'')
      | _ \<Rightarrow> Refused ''Missing webhook signature, timestamp, or secret'')"

end
