(* ===== verification/Webhook_Workers.thy ===== *)
theory Webhook_Workers
  imports Webhooks
begin

text \<open>
  What else delivers webhooks: the worker of the retry queue (\<open>workers/webhook.worker.ts\<close>), the callbacks
  of the transfer protocols (\<open>services/sep24CallbackNotifier.ts\<close>, \<open>sep31CallbackNotifier.ts\<close>) and the worker
  of the webhook queue (\<open>workers/webhook-queue.worker.ts\<close>), which only waits. They share the stores, the
  queue and the signatures of \<open>Webhooks\<close>.
\<close>

section \<open>The worker of the retry queue\<close>

record retry_bull_job =
  bj_id :: "string option"
  bj_data :: retry_job
  bj_attemptsMade :: int
  bj_attempts :: "int option"

record worker_result =
  wr_attempt :: int
  wr_statusCode :: int
  wr_latencyMs :: int

definition retry_secret :: "'w webhook_env \<Rightarrow> string" where
  "retry_secret env = (case truthy_str (pc_WEBHOOK_SECRET (we_config env)) of Some s \<Rightarrow> s | None \<Rightarrow> ''default-secret'')"

definition retry_request :: "'w webhook_env \<Rightarrow> retry_job \<Rightarrow> int \<Rightarrow> http_request" where
  "retry_request env d startTime =
     (let timestamp = show_int (startTime div 1000) in
      \<lparr>hq_url = rj_callbackUrl d,
       hq_headers =
         [(''Content-Type'', ''application/json''),
          (''X-Anchor-Signature'', signWebhookPayload env (rj_payload d) (retry_secret env) timestamp),
          (''X-Anchor-Timestamp'', timestamp), (''Idempotency-Key'', rj_idempotencyKey d)],
       hq_body = rj_payload d, hq_timeoutMs = or_number 5000 (pc_WEBHOOK_TIMEOUT_MS (we_config env))\<rparr>)"

definition is_last_attempt :: "retry_bull_job \<Rightarrow> bool" where
  "is_last_attempt job \<longleftrightarrow> or_number 5 (bj_attempts job) \<le> bj_attemptsMade job + 1"

definition fireDeadLetterAlert :: "attempt_record \<Rightarrow> string \<Rightarrow> ('w, unit) webhook" where
  "fireDeadLetterAlert r callbackUrl = wtrace (DeadLetterAlert r callbackUrl)"

definition push_attempt :: "'w webhook_env \<Rightarrow> retry_bull_job \<Rightarrow> int option \<Rightarrow> int \<Rightarrow> string option \<Rightarrow> bool
    \<Rightarrow> ('w, attempt_record) webhook" where
  "push_attempt env job statusCode latencyMs errorMessage dead =
     ebind (wclock env) (\<lambda>t.
     let r = \<lparr>ar_jobId = (case truthy_str (bj_id job) of Some i \<Rightarrow> i | None \<Rightarrow> ''job-'' @ show_int t),
              ar_transactionId = rj_transactionId (bj_data job), ar_protocol = rj_protocol (bj_data job),
              ar_attempt = bj_attemptsMade job + 1, ar_statusCode = statusCode, ar_latencyMs = latencyMs,
              ar_errorMessage = errorMessage, ar_timestamp = iso_string t, ar_isDeadLetter = dead\<rparr>
     in ebind (emodify (\<lambda>s. s\<lparr>wx_attempts := wx_attempts s @ [r]\<rparr>)) (\<lambda>_. ereturn r))"

definition processJob :: "'w webhook_env \<Rightarrow> retry_bull_job \<Rightarrow> ('w, worker_result) webhook" where
  "processJob env job =
     ebind (wclock env) (\<lambda>startTime.
     ecatch
       (ebind (post env (retry_request env (bj_data job) startTime)) (\<lambda>response.
        if \<not> hr_ok response
        then ethrow (PlainError (''Webhook endpoint returned HTTP '' @ show_int (hr_status response)))
        else
          ebind (wclock env) (\<lambda>t.
          ebind (push_attempt env job (Some (hr_status response)) (t - startTime) None False) (\<lambda>_.
          ereturn \<lparr>wr_attempt = bj_attemptsMade job + 1, wr_statusCode = hr_status response, wr_latencyMs = t - startTime\<rparr>))))
       (\<lambda>err.
          ebind (wclock env) (\<lambda>t.
          ebind (push_attempt env job None (t - startTime)
                   (Some (case error_message err of Some m \<Rightarrow> m | None \<Rightarrow> error_text err)) (is_last_attempt job)) (\<lambda>r.
          ebind (if is_last_attempt job then fireDeadLetterAlert r (rj_callbackUrl (bj_data job)) else ereturn ()) (\<lambda>_.
          ethrow err)))))"

section \<open>The worker of the webhook queue\<close>

text \<open>It waits 150 milliseconds and reports the delivery, and sends nothing.\<close>

definition processQueueJob :: "string \<Rightarrow> json \<Rightarrow> ('w, bool) webhook" where
  "processQueueJob url payload = ebind (wtrace (Slept (js_int 150))) (\<lambda>_. ereturn True)"

section \<open>SEP-24 callbacks\<close>

record sep24_input =
  i24_transactionId :: string
  i24_kind :: string
  i24_previousStatus :: string
  i24_nextStatus :: string
  i24_callbackUrl :: string
  i24_amount :: "string option"
  i24_assetCode :: "string option"
  i24_stellarTransactionId :: "string option"
  i24_externalTransactionId :: "string option"
  i24_claimableBalanceId :: "string option"
  i24_event :: "string option"

definition sep24_event :: "sep24_input \<Rightarrow> string" where
  "sep24_event i = (case truthy_str (i24_event i) of
     Some e \<Rightarrow> e
   | None \<Rightarrow> if truthy_str (i24_claimableBalanceId i) \<noteq> None \<or> i24_nextStatus i = ''pending_external''
       then ''sep24.transaction.claimable'' else ''sep24.transaction.status_changed'')"

definition buildSep24StatusWebhookPayload :: "sep24_input \<Rightarrow> int \<Rightarrow> json" where
  "buildSep24StatusWebhookPayload i t = JObj
     [(''event'', JStr (sep24_event i)), (''occurredAt'', JStr (iso_string t)),
      (''previousStatus'', JStr (i24_previousStatus i)),
      (''transaction'', JObj
        ([(''id'', JStr (i24_transactionId i)), (''kind'', JStr (i24_kind i)), (''status'', JStr (i24_nextStatus i))]
         @ opt_member ''amount'' (i24_amount i) @ opt_member ''asset_code'' (i24_assetCode i)
         @ opt_member ''stellar_transaction_id'' (i24_stellarTransactionId i)
         @ opt_member ''external_transaction_id'' (i24_externalTransactionId i)
         @ opt_member ''claimable_balance_id'' (i24_claimableBalanceId i)))]"

definition sep24_retry :: "sep24_input \<Rightarrow> string \<Rightarrow> string \<Rightarrow> string \<Rightarrow> retry_job" where
  "sep24_retry i key hash body =
     \<lparr>rj_protocol = ''sep24'', rj_transactionId = i24_transactionId i, rj_previousStatus = i24_previousStatus i,
      rj_nextStatus = i24_nextStatus i, rj_callbackUrl = i24_callbackUrl i, rj_idempotencyKey = key,
      rj_deliveryHash = hash, rj_payload = body, rj_attempt = 1\<rparr>"

definition sep24_result :: "bool \<Rightarrow> int option \<Rightarrow> string option \<Rightarrow> delivery_result" where
  "sep24_result delivered statusCode error =
     \<lparr>dl_delivered = delivered, dl_attempts = 1, dl_statusCode = statusCode, dl_responseBody = None, dl_error = error,
      dl_skipped = False\<rparr>"

text \<open>The result and the idempotency key. One request, not signed.\<close>

definition notifySep24StatusChange :: "'w webhook_env \<Rightarrow> 'w delivery_store \<Rightarrow> int option \<Rightarrow> sep24_input
    \<Rightarrow> ('w, delivery_result \<times> string) webhook" where
  "notifySep24StatusChange env store timeoutMs i =
     (let key = buildIdempotencyKey ''sep24'' (i24_transactionId i) (i24_previousStatus i) (i24_nextStatus i);
          hash = buildWebhookDeliveryHash env key (i24_callbackUrl i)
      in if i24_previousStatus i = i24_nextStatus i then ereturn (skipped_result, key)
      else ebind (ds_has store hash) (\<lambda>delivered.
        if delivered then ereturn (skipped_result, key)
        else ebind (wclock env) (\<lambda>t. let body = json_stringify (buildSep24StatusWebhookPayload i t) in
          ecatch
            (ebind (post env \<lparr>hq_url = i24_callbackUrl i,
                 hq_headers = [(''content-type'', ''application/json''), (''Idempotency-Key'', key),
                   (''x-anchorpoint-event'', sep24_event i)],
                 hq_body = body, hq_timeoutMs = (case timeoutMs of Some n \<Rightarrow> n | None \<Rightarrow> 5000)\<rparr>) (\<lambda>response.
             ebind (elift (hr_text response)) (\<lambda>_.
             if \<not> hr_ok response
             then ebind (enqueueWebhookRetry env (sep24_retry i key hash body)) (\<lambda>_.
                  ereturn (sep24_result False (Some (hr_status response)) (Some (status_message (hr_status response))), key))
             else ebind (wtrace (Marked hash)) (\<lambda>_.
                  ebind (ds_mark store hash) (\<lambda>_.
                  ereturn (sep24_result True (Some (hr_status response)) None, key))))))
            (\<lambda>err.
             ebind (enqueueWebhookRetry env (sep24_retry i key hash body)) (\<lambda>_.
             ereturn (sep24_result False None
               (Some (case error_message err of Some m \<Rightarrow> m | None \<Rightarrow> error_text err)), key))))))"

section \<open>SEP-31 callbacks\<close>

text \<open>What is read of a transaction, and the whole of it as JSON.\<close>

record sep31_view =
  v31_id :: string
  v31_status :: string
  v31_callbackUrl :: "string option"
  v31_previousStatus :: "string option"
  v31_json :: json

definition sep31_retry :: "sep31_view \<Rightarrow> string \<Rightarrow> string \<Rightarrow> string \<Rightarrow> string \<Rightarrow> retry_job" where
  "sep31_retry tx url previousStatus key hash =
     \<lparr>rj_protocol = ''sep31'', rj_transactionId = v31_id tx, rj_previousStatus = previousStatus, rj_nextStatus = v31_status tx,
      rj_callbackUrl = url, rj_idempotencyKey = key, rj_deliveryHash = hash,
      rj_payload = json_stringify (v31_json tx), rj_attempt = 1\<rparr>"

definition notifySep31 :: "'w webhook_env \<Rightarrow> 'w delivery_store \<Rightarrow> sep31_view \<Rightarrow> ('w, unit) webhook" where
  "notifySep31 env store tx =
     ebind (ecatch (wcall (we_alert env
              (''Transaction '' @ v31_id tx @ '' status changed to '' @ v31_status tx))) (\<lambda>_. ereturn ())) (\<lambda>_.
     case truthy_str (v31_callbackUrl tx) of
       None \<Rightarrow> ereturn ()
     | Some url \<Rightarrow>
         (let previousStatus = (case v31_previousStatus tx of Some p \<Rightarrow> p | None \<Rightarrow> ''unknown'');
              key = buildIdempotencyKey ''sep31'' (v31_id tx) previousStatus (v31_status tx);
              hash = buildWebhookDeliveryHash env key url;
              retry = sep31_retry tx url previousStatus key hash
          in ebind (ds_has store hash) (\<lambda>delivered.
             if delivered then ereturn ()
             else ecatch
               (ebind (post env \<lparr>hq_url = url,
                    hq_headers = [(''content-type'', ''application/json''), (''Idempotency-Key'', key)],
                    hq_body = json_stringify (v31_json tx), hq_timeoutMs = 5000\<rparr>) (\<lambda>response.
                if \<not> hr_ok response then ebind (enqueueWebhookRetry env retry) (\<lambda>_. ereturn ())
                else ebind (wtrace (Marked hash)) (\<lambda>_. ds_mark store hash)))
               (\<lambda>_. ebind (enqueueWebhookRetry env retry) (\<lambda>_. ereturn ())))))"

end
