(* ===== verification/Event_Monitor.thy ===== *)
theory Event_Monitor
  imports Webhook_Receivers
begin

text \<open>
  \<open>backend/src/services/horizonEventMonitor.ts\<close> with \<open>utils/ledgerOffsetStore.ts\<close>: payments of the accounts
  that subscribers name are read from Horizon and posted to the subscribers. Horizon, the posts, the file with
  the last offset and the HMAC are parameters. A failed post sets a timer; the timers are part of the state and
  fire as steps of their own. What is posted is recorded in order. The subscriptions stay the same while one
  poll runs.
\<close>

section \<open>Data\<close>

record horizon_event =
  ev_paging_token :: string
  ev_json :: json

record subscription =
  sb_id :: string
  sb_account :: string
  sb_webhookUrl :: string
  sb_secret :: "string option"
  sb_filter :: "(horizon_event \<Rightarrow> bool) option"

record monitor_post =
  mp_url :: string
  mp_event :: horizon_event
  mp_headers :: "(string \<times> string) list"

record 'w monitor_env =
  me_get :: "string \<Rightarrow> 'w \<Rightarrow> (js_error + horizon_event list) \<times> 'w"
  me_post :: "monitor_post \<Rightarrow> 'w \<Rightarrow> (js_error + unit) \<times> 'w"
  me_readFile :: "'w \<Rightarrow> (js_error + string) \<times> 'w"
  me_writeFile :: "string \<Rightarrow> 'w \<Rightarrow> (js_error + unit) \<times> 'w"
  me_now :: "'w \<Rightarrow> int"
  me_hmac :: "string \<Rightarrow> string \<Rightarrow> string"
  me_secret :: "string option"
  me_horizonUrl :: string

text \<open>A timer: the subscription, the event and the attempt it makes.\<close>

type_synonym timer = "subscription \<times> horizon_event \<times> int"

record 'w monitor =
  mo_subscriptions :: "(string, subscription) jsmap"
  mo_polling :: bool
  mo_lastLedger :: "string option"
  mo_timers :: "timer list"
  mo_failed :: "(subscription \<times> horizon_event) list"
  mo_posted :: "(string \<times> horizon_event \<times> int) list"
  mo_world :: 'w

type_synonym ('w, 'a) monitoring = "('w monitor, js_error, 'a) eff"

definition mcall :: "('w \<Rightarrow> (js_error + 'a) \<times> 'w) \<Rightarrow> ('w, 'a) monitoring" where
  "mcall f s = (case f (mo_world s) of (r, w) \<Rightarrow> (r, s\<lparr>mo_world := w\<rparr>))"

section \<open>The offset\<close>

definition getLastLedgerOffset :: "'w monitor_env \<Rightarrow> ('w, string option) monitoring" where
  "getLastLedgerOffset env = ecatch (ebind (mcall (me_readFile env)) (\<lambda>d. ereturn (Some (trim_js d)))) (\<lambda>_. ereturn None)"

definition setLastLedgerOffset :: "'w monitor_env \<Rightarrow> string \<Rightarrow> ('w, unit) monitoring" where
  "setLastLedgerOffset env offset = mcall (me_writeFile env offset)"

text \<open>\<open>a <= b\<close> on texts: by their characters.\<close>

fun text_le :: "string \<Rightarrow> string \<Rightarrow> bool" where
  "text_le [] b = True"
| "text_le (x # a) [] = False"
| "text_le (x # a) (y # b) = (if (of_char x :: nat) < of_char y then True
     else if (of_char y :: nat) < of_char x then False else text_le a b)"

section \<open>Subscriptions\<close>

definition addSubscription :: "subscription \<Rightarrow> ('w, unit) monitoring" where
  "addSubscription sub = emodify (\<lambda>s. s\<lparr>mo_subscriptions := js_set (sb_id sub) sub (mo_subscriptions s)\<rparr>)"

definition removeSubscription :: "string \<Rightarrow> ('w, unit) monitoring" where
  "removeSubscription i = emodify (\<lambda>s. s\<lparr>mo_subscriptions := js_delete i (mo_subscriptions s)\<rparr>)"

definition start_monitor :: "'w monitor_env \<Rightarrow> ('w, unit) monitoring" where
  "start_monitor env =
     ebind (emodify (\<lambda>s. s\<lparr>mo_polling := True\<rparr>)) (\<lambda>_.
     ebind (getLastLedgerOffset env) (\<lambda>l. emodify (\<lambda>s. s\<lparr>mo_lastLedger := l\<rparr>)))"

definition stop_monitor :: "('w, unit) monitoring" where
  "stop_monitor = emodify (\<lambda>s. s\<lparr>mo_polling := False\<rparr>)"

section \<open>Posting\<close>

definition stellar_header :: "'w monitor_env \<Rightarrow> string \<Rightarrow> string \<Rightarrow> string \<Rightarrow> string" where
  "stellar_header env secret timestamp rawBody =
     ''t='' @ timestamp @ '',v1='' @ hex (me_hmac env secret (timestamp @ ''.'' @ rawBody))"

definition monitor_request :: "'w monitor_env \<Rightarrow> subscription \<Rightarrow> horizon_event \<Rightarrow> int \<Rightarrow> monitor_post" where
  "monitor_request env sub event t =
     \<lparr>mp_url = sb_webhookUrl sub, mp_event = event,
      mp_headers = (''Content-Type'', ''application/json'') #
        (case truthy_str (js_nullish (sb_secret sub) (me_secret env)) of
           None \<Rightarrow> []
         | Some secret \<Rightarrow> [(''X-Stellar-Signature'', stellar_header env secret (show_int (t div 1000)) (json_stringify (ev_json event)))])\<rparr>"

definition deliver_event :: "'w monitor_env \<Rightarrow> subscription \<Rightarrow> horizon_event \<Rightarrow> int \<Rightarrow> ('w, unit) monitoring" where
  "deliver_event env sub event attempt =
     ecatch
       (ebind (eget (\<lambda>s. me_now env (mo_world s))) (\<lambda>t.
        ebind (emodify (\<lambda>s. s\<lparr>mo_posted := mo_posted s @ [(sb_id sub, event, attempt)]\<rparr>)) (\<lambda>_.
        mcall (me_post env (monitor_request env sub event t)))))
       (\<lambda>err. if attempt < 3
          then emodify (\<lambda>s. s\<lparr>mo_timers := mo_timers s @ [(sub, event, attempt + 1)]\<rparr>)
          else emodify (\<lambda>s. s\<lparr>mo_failed := mo_failed s @ [(sub, event)]\<rparr>))"

text \<open>A timer fires: it is removed, and its attempt is made.\<close>

definition fire_timer :: "'w monitor_env \<Rightarrow> nat \<Rightarrow> ('w, unit) monitoring" where
  "fire_timer env n = ebind (eget mo_timers) (\<lambda>ts.
     if n < length ts
     then (case ts ! n of (sub, event, attempt) \<Rightarrow>
       ebind (emodify (\<lambda>s. s\<lparr>mo_timers := take n ts @ drop (Suc n) ts\<rparr>)) (\<lambda>_. deliver_event env sub event attempt))
     else ereturn ())"

section \<open>Polling\<close>

definition seen_before :: "horizon_event \<Rightarrow> string option \<Rightarrow> bool" where
  "seen_before event lastLedger = (case truthy_str lastLedger of Some l \<Rightarrow> text_le (ev_paging_token event) l | None \<Rightarrow> False)"

fun poll_records :: "'w monitor_env \<Rightarrow> subscription \<Rightarrow> horizon_event list \<Rightarrow> ('w, unit) monitoring" where
  "poll_records env sub [] = ereturn ()"
| "poll_records env sub (event # events) =
     ebind (eget (\<lambda>s. seen_before event (mo_lastLedger s))) (\<lambda>seen.
     if seen then poll_records env sub events
     else if (case sb_filter sub of Some f \<Rightarrow> \<not> f event | None \<Rightarrow> False) then poll_records env sub events
     else
       ebind (deliver_event env sub event 1) (\<lambda>_.
       ebind (emodify (\<lambda>s. s\<lparr>mo_lastLedger := Some (ev_paging_token event)\<rparr>)) (\<lambda>_.
       ebind (setLastLedgerOffset env (ev_paging_token event)) (\<lambda>_.
       poll_records env sub events))))"

definition payments_url :: "'w monitor_env \<Rightarrow> subscription \<Rightarrow> string option \<Rightarrow> string" where
  "payments_url env sub lastLedger = me_horizonUrl env @ ''/accounts/'' @ sb_account sub @ ''/payments?order=asc&cursor=''
     @ (case truthy_str lastLedger of Some l \<Rightarrow> l | None \<Rightarrow> ''now'')"

fun poll_subscriptions :: "'w monitor_env \<Rightarrow> subscription list \<Rightarrow> ('w, unit) monitoring" where
  "poll_subscriptions env [] = ereturn ()"
| "poll_subscriptions env (sub # subs) =
     ebind (eget mo_lastLedger) (\<lambda>l.
     ebind (mcall (me_get env (payments_url env sub l))) (\<lambda>records.
     ebind (poll_records env sub records) (\<lambda>_.
     poll_subscriptions env subs)))"

text \<open>One round of the loop; an error is emitted, and ends the round.\<close>

definition poll_round :: "'w monitor_env \<Rightarrow> ('w, unit) monitoring" where
  "poll_round env = ebind (eget mo_polling) (\<lambda>p.
     if p then ecatch (ebind (eget mo_subscriptions) (\<lambda>m. poll_subscriptions env (js_values m))) (\<lambda>_. ereturn ())
     else ereturn ())"

section \<open>The monitor as a machine\<close>

datatype monitor_call = AddSub subscription | RemoveSub string | Stop | Round | Fire nat

fun monitor_op :: "'w monitor_env \<Rightarrow> monitor_call \<Rightarrow> ('w, unit) monitoring" where
  "monitor_op env (AddSub sub) = addSubscription sub"
| "monitor_op env (RemoveSub i) = removeSubscription i"
| "monitor_op env Stop = stop_monitor"
| "monitor_op env Round = poll_round env"
| "monitor_op env (Fire n) = fire_timer env n"

definition monitor_step :: "'w monitor_env \<Rightarrow> 'w monitor \<Rightarrow> monitor_call \<Rightarrow> 'w monitor" where
  "monitor_step env s c = snd (monitor_op env c s)"

end
