(* ===== verification/Webhook_Checks.thy ===== *)
theory Webhook_Checks
  imports Webhook_Receivers Webhook_Workers Event_Monitor Js_Bytes
begin

text \<open>
  What the receivers of webhooks accept: the headers of the service, of the retry worker and of the event
  monitor at each middleware, and how far the timestamps are authenticated.
\<close>

lemma digit_plain: "is_digit c \<Longrightarrow> \<not> is_js_space c \<and> c \<noteq> CHR '','' \<and> c \<noteq> CHR ''=''"
  by (auto simp: is_digit_def is_js_space_def)

lemma strip_hex: "list_all is_hex h \<Longrightarrow> strip_sha256 h = h"
proof -
  assume h: "list_all is_hex h"
  have "CHR ''='' \<notin> set (List.map to_lower (take 7 h))"
  proof
    assume "CHR ''='' \<in> set (List.map to_lower (take 7 h))"
    then obtain c where c: "c \<in> set (take 7 h)" "CHR ''='' = to_lower c" unfolding set_map by blast
    have "is_hex c" using in_set_takeD [OF c(1)] h by (simp add: list_all_iff)
    then show False using hex_plain c(2) by metis
  qed
  moreover have "CHR ''='' \<in> set ''sha256=''" by simp
  ultimately have "List.map to_lower (take 7 h) \<noteq> ''sha256=''" by metis
  then show ?thesis by (simp add: strip_sha256_def)
qed

section \<open>The header of Stellar signatures\<close>

lemma parse_parts_stellar:
  assumes "list_all is_digit ts" "list_all is_hex h"
  shows "parse_parts (''t='' @ ts @ '',v1='' @ h) = (Some ts, Some h)"
proof -
  have c: "CHR '','' \<notin> set (''t='' @ ts)" "CHR '','' \<notin> set (''v1='' @ h)"
    using assms digit_plain hex_plain by (auto simp: list_all_iff)
  have split: "split_char (CHR '','') (''t='' @ ts @ '',v1='' @ h) = [''t='' @ ts, ''v1='' @ h]"
    using split_char_append [OF c(1), of "''v1='' @ h"] split_char_none [OF c(2)] by simp
  have trim: "trim_js (''t='' @ ts) = ''t='' @ ts" "trim_js (''v1='' @ h) = ''v1='' @ h"
    "trim_js ts = ts" "trim_js h = h" "trim_js ''t'' = ''t''" "trim_js ''v1'' = ''v1''"
    using assms digit_plain hex_plain by (auto intro!: trim_js_none simp: list_all_iff is_js_space_def)
  have eq: "split_first (CHR ''='') (''t='' @ ts) = Some (''t'', ts)" "split_first (CHR ''='') (''v1='' @ h) = Some (''v1'', h)"
    using split_first_append [of "CHR ''=''" "''t''" ts] split_first_append [of "CHR ''=''" "''v1''" h] by simp_all
  have low: "to_lower (CHR ''t'') = CHR ''t''" "to_lower (CHR ''v'') = CHR ''v''" "to_lower (CHR ''1'') = CHR ''1''" by (simp_all add: to_lower_def)
  show ?thesis
    unfolding parse_parts_def split list.map trim fold.simps comp_def id_def read_part_def eq option.case prod.case Let_def trim low
    by (simp add: strip_hex [OF assms(2)])
qed

lemma parse_stellar:
  assumes "list_all is_digit ts" "list_all is_hex h" "h \<noteq> []"
  shows "parseStellarSignatureHeader (''t='' @ ts @ '',v1='' @ h) = Some (h, Some ts)"
proof -
  have "trim_js (''t='' @ ts @ '',v1='' @ h) = ''t='' @ ts @ '',v1='' @ h"
    using assms digit_plain hex_plain by (intro trim_js_none) (auto simp: list_all_iff is_js_space_def)
  moreover have "truthy_str (Some h) = Some h" using assms(3) by (cases h) (auto simp: truthy_str_def)
  ultimately show ?thesis
    using parse_parts_stellar [OF assms(1,2)] by (simp add: parseStellarSignatureHeader_def Let_def)
qed

section \<open>Windows of time\<close>

lemma js_int_small: "\<bar>i\<bar> < 2 ^ 53 \<Longrightarrow> js_int i = Fin (of_int i)"
  by (simp add: js_int_def round64_int)

lemma js_sub_small:
  assumes "\<bar>a\<bar> < 2 ^ 52" "\<bar>b\<bar> < 2 ^ 52"
  shows "js_sub (js_int a) (js_int b) = Fin (of_int (a - b))"
proof -
  have "\<bar>a - b\<bar> < 2 ^ 53" "\<bar>a\<bar> < 2 ^ 53" "\<bar>b\<bar> < 2 ^ 53" using assms by simp_all
  then show ?thesis using round64_int [of "a - b"] by (simp add: js_sub_def js_int_small)
qed

lemma too_old_small:
  assumes "\<bar>rv_now env div 1000\<bar> < 2 ^ 52" "\<bar>n\<bar> < 2 ^ 52" "\<bar>m\<bar> < 2 ^ 52"
  shows "too_old env m (js_int n) \<longleftrightarrow> m < \<bar>rv_now env div 1000 - n\<bar>"
proof -
  have "js_abs (Fin x) = Fin \<bar>x\<bar>" for x by (simp add: js_abs_def js_negative_def)
  then have "too_old env m (js_int n) \<longleftrightarrow> (of_int m :: rat) < \<bar>of_int (rv_now env div 1000 - n)\<bar>"
    using assms js_sub_small [of "rv_now env div 1000" n] by (simp add: too_old_def js_int_small)
  then show ?thesis by linarith
qed

lemma show_int_digits: "0 \<le> n \<Longrightarrow> list_all is_digit (show_int n) \<and> show_int n \<noteq> [] \<and> digits_value (show_int n) = n"
  using show_nat_digits [of "nat n"] by (simp add: show_int_def)

lemma timestamp_of_digits:
  assumes "0 \<le> n" "n \<le> 1000000000000"
  shows "parseTimestampToSeconds env (TsText (show_int n)) = Some (js_int n)"
proof -
  have d: "list_all is_digit (show_int n)" "show_int n \<noteq> []" "digits_value (show_int n) = n"
    using show_int_digits [OF assms(1)] by auto
  have "trim_js (show_int n) = show_int n" using d(1) digit_plain by (intro trim_js_none) (simp add: list_all_iff)
  then show ?thesis
    using d assms round64_int [of n]
    by (simp add: parseTimestampToSeconds_def all_digits_def Let_def js_isFinite_def milliseconds_limit_def js_int_small)
qed

section \<open>Horizon's signatures\<close>

lemma no_options_headers:
  "header_or (ho_signatureHeader no_horizon_options) ''x-stellar-signature'' = ''x-stellar-signature''"
  "header_or (ho_timestampHeader no_horizon_options) ''x-stellar-timestamp'' = ''x-stellar-timestamp''"
  by (simp_all add: header_or_def no_horizon_options_def lower_text_def to_lower_def)

lemma safeCompare_hex: "safeCompare e (hex bs) \<longleftrightarrow> e = hex bs"
proof -
  have "trim_js (hex bs) = hex bs"
    using hex_is_hex [of bs] hex_plain by (intro trim_js_none) (simp add: list_all_iff)
  then show ?thesis by (auto simp: safeCompare_def strip_hex [OF hex_is_hex] Let_def)
qed

text \<open>What the middleware does with a header of the usual form, by the signature and the time it was made.\<close>

lemma horizon_verdict:
  assumes "horizon_secret env no_horizon_options = Some secret"
    and "js_get (iq_headers req) ''x-stellar-signature'' = Some (''t='' @ show_int n @ '',v1='' @ hex sig)"
    and "sig \<noteq> []" "0 \<le> n" "n \<le> 1000000000000" "\<bar>rv_now env div 1000\<bar> < 2 ^ 52"
  shows "horizonWebhookMiddleware env req =
    (if 300 < \<bar>rv_now env div 1000 - n\<bar> then Refused ''timestamp_too_old''
     else if sig \<noteq> [] \<and> (computeHorizonSignature env (extractRawBody req) secret (Some (show_int n)) = hex sig
          \<or> computeHorizonSignature env (extractRawBody req) secret None = hex sig) then Passed
     else Refused ''invalid_signature'')"
proof -
  have d: "list_all is_digit (show_int n)" "show_int n \<noteq> []" using show_int_digits [OF assms(4)] by auto
  have p: "parseStellarSignatureHeader (''t='' @ show_int n @ '',v1='' @ hex sig) = Some (hex sig, Some (show_int n))"
    using parse_stellar [OF d(1) hex_is_hex] assms(3) by (simp add: hex_empty)
  have t: "truthy_str (Some (''t='' @ r)) = Some (''t='' @ r)" for r by (simp add: truthy_str_def)
  have u: "truthy_str (Some (show_int n)) = Some (show_int n)" using d(2) by (rule truthy_nonempty)
  have w: "too_old env 300 (js_int n) \<longleftrightarrow> 300 < \<bar>rv_now env div 1000 - n\<bar>"
    using assms(4-6) by (intro too_old_small) auto
  show ?thesis
    unfolding horizonWebhookMiddleware_def verifyHorizonWebhook_def no_options_headers Let_def assms(1,2) option.case t p prod.case
    using u timestamp_of_digits [OF assms(4,5)] w assms(3)
    by (simp add: hex_empty js_nullish_def safeCompare_hex no_horizon_options_def DEFAULT_HORIZON_MAX_AGE_SECONDS_def)
qed

text \<open>C20. The timestamp of a Horizon webhook is not authenticated. A signature over the body alone is accepted
  under every timestamp: at any time of the day, a body and its signature pass the middleware again when the
  header \<open>t=\<dots>,v1=\<dots>\<close> names that time, so that the window of five minutes does not limit replays.
\<close>
theorem horizon_timestamp_not_authenticated:
  assumes "horizon_secret env no_horizon_options = Some secret"
    and "rv_hmac env secret (extractRawBody req) \<noteq> []"
    and "0 \<le> t" "t \<le> 1000000000000000"
    and "js_get (iq_headers req) ''x-stellar-signature''
      = Some (''t='' @ show_int (t div 1000) @ '',v1='' @ computeHorizonSignature env (extractRawBody req) secret None)"
  shows "horizonWebhookMiddleware (env\<lparr>rv_now := t\<rparr>) req = Passed"
proof -
  have c: "computeHorizonSignature e b k None = hex (rv_hmac e k b)" for e b k
    by (simp add: computeHorizonSignature_def truthy_str_def)
  have s: "horizon_secret (env\<lparr>rv_now := t\<rparr>) no_horizon_options = Some secret"
    using assms(1) by (simp add: horizon_secret_def)
  have n: "0 \<le> t div 1000" "t div 1000 \<le> 1000000000000" using assms(3,4) by auto
  then have "horizonWebhookMiddleware (env\<lparr>rv_now := t\<rparr>) req = Passed \<longleftrightarrow> True"
    using horizon_verdict [OF s _ assms(2), of req "t div 1000"] assms(2,5) by (simp add: c)
  then show ?thesis by simp
qed

text \<open>The headers that a request has at the receiver: their names are in lower case there.\<close>

definition received :: "(string \<times> string) list \<Rightarrow> string \<Rightarrow> request_body \<Rightarrow> incoming" where
  "received headers rawBody body =
     \<lparr>iq_headers = List.map (\<lambda>(k, v). (lower_text k, v)) headers, iq_rawBody = Some (RawText rawBody), iq_body = body\<rparr>"

lemma lower_names:
  "lower_text ''content-type'' = ''content-type''" "lower_text ''Content-Type'' = ''content-type''"
  "lower_text ''Idempotency-Key'' = ''idempotency-key''" "lower_text ''x-anchorpoint-event'' = ''x-anchorpoint-event''"
  "lower_text ''x-anchorpoint-signature'' = ''x-anchorpoint-signature''"
  "lower_text ''x-anchorpoint-timestamp'' = ''x-anchorpoint-timestamp''"
  "lower_text ''x-anchorpoint-delivery-attempt'' = ''x-anchorpoint-delivery-attempt''"
  "lower_text ''X-Anchor-Signature'' = ''x-anchor-signature''" "lower_text ''X-Anchor-Timestamp'' = ''x-anchor-timestamp''"
  "lower_text ''X-Stellar-Signature'' = ''x-stellar-signature''"
  by (simp_all add: lower_text_def to_lower_def char_of_def bit_0)

text \<open>An event that the monitor posts at a time is accepted by the Horizon middleware of a receiver with the
  same secret exactly within five minutes of that time (in whole seconds), whatever the receiver makes of
  the body. Retries are signed anew, so each of them has five minutes of its own.
\<close>
theorem monitor_post_accepted_iff:
  assumes "truthy_str (js_nullish (sb_secret sub) (me_secret menv)) = Some secret"
    and "horizon_secret env no_horizon_options = Some secret" "rv_hmac env = me_hmac menv"
    and "\<forall>m. me_hmac menv secret m \<noteq> []"
    and "0 \<le> t" "t \<le> 1000000000000000" "0 \<le> rv_now env" "rv_now env \<le> 1000000000000000"
  shows "horizonWebhookMiddleware env
      (received (mp_headers (monitor_request menv sub event t)) (json_stringify (ev_json event)) body) = Passed
    \<longleftrightarrow> \<bar>rv_now env div 1000 - t div 1000\<bar> \<le> 300"
proof -
  define n where "n = t div 1000"
  define b where "b = json_stringify (ev_json event)"
  define sig where "sig = me_hmac menv secret (show_int n @ ''.'' @ b)"
  define req where "req = received (mp_headers (monitor_request menv sub event t)) b body"
  have n: "0 \<le> n" "n \<le> 1000000000000" "\<bar>rv_now env div 1000\<bar> < 2 ^ 52" using assms(5-8) by (auto simp: n_def)
  have h: "js_get (iq_headers req) ''x-stellar-signature'' = Some (''t='' @ show_int n @ '',v1='' @ hex sig)"
    by (simp add: req_def received_def monitor_request_def assms(1) lower_names stellar_header_def n_def b_def sig_def)
  have u: "truthy_str (Some (show_int n)) = Some (show_int n)"
    using show_int_digits [OF n(1)] by (intro truthy_nonempty) simp
  have c: "computeHorizonSignature env (extractRawBody req) secret (Some (show_int n)) = hex sig"
    by (simp add: computeHorizonSignature_def u req_def received_def extractRawBody_def assms(3) sig_def)
  show ?thesis
    using horizon_verdict [OF assms(2) h _ n] c assms(4) by (simp add: sig_def req_def b_def [symmetric] n_def)
qed

section \<open>The service and the retry worker\<close>

text \<open>The receiver of this repository accepts what the webhook service sends: a request of any attempt,
  made at a time and checked at another at most five minutes (in whole seconds) apart, passes
  \<open>webhookSignatureMiddleware\<close> under the same secret, whether or not a secret for Horizon is configured. (The
  text of a date is parsed back to it.)
\<close>
theorem service_request_accepted:
  assumes "secret \<noteq> []" "rv_config_WEBHOOK_SECRET env = Some secret" "rv_hmac env = we_hmac wenv"
    and "rv_dateParse env (iso_string t) = Some t" "year_ok t"
    and "0 \<le> t" "t \<le> 1000000000000000" "0 \<le> rv_now env" "rv_now env \<le> 1000000000000000"
    and "\<bar>rv_now env div 1000 - t div 1000\<bar> \<le> 300"
  shows "webhookSignatureMiddleware env
    (received (hq_headers (delivery_request wenv payload requestBody config secret attempt key (iso_string t))) requestBody body)
    = Passed"
proof -
  obtain y r where iso: "iso_string t = pad_int 4 y @ CHR ''-'' # r @ ''Z''" using iso_shape [OF assms(5)] by blast
  have t: "truthy_str (Some (iso_string t)) = Some (iso_string t)"
    using iso by (intro truthy_nonempty) simp
  have s: "truthy_str (Some secret) = Some secret" using assms(1) by (rule truthy_nonempty)
  have n: "truthy_str None = None" by (simp add: truthy_str_def)
  have small: "\<bar>rv_now env div 1000\<bar> < 2 ^ 52" "\<bar>t div 1000\<bar> < 2 ^ 52" using assms(6-9) by auto
  have w: "\<not> too_old env 300 (js_int (t div 1000))" using too_old_small [OF small] assms(10) by simp
  have "js_int (t div 1000) \<noteq> NaN" using small(2) by (simp add: js_int_small)
  then show ?thesis
    using assms(3,4) number_of_iso [OF iso] w
    by (simp add: webhookSignatureMiddleware_def received_def delivery_request_def lower_names assms(2) t s truthy_nonempty n
        Let_def raw_body_text_def signaturesMatch_def signWebhookPayload_def)
qed

text \<open>The same receiver refuses every retry: the worker of the retry queue signs under headers of other
  names, which no middleware reads, so a retry is answered with 401 whatever the secrets, the time and
  the body.
\<close>
theorem retry_request_refused:
  "\<exists>e. webhookSignatureMiddleware env (received (hq_headers (retry_request wenv d startTime)) (rj_payload d) body) = Refused e"
proof -
  define req where "req = received (hq_headers (retry_request wenv d startTime)) (rj_payload d) body"
  have h: "js_get (iq_headers req) ''x-stellar-signature'' = None" "js_get (iq_headers req) ''x-anchorpoint-signature'' = None"
    by (simp_all add: req_def received_def retry_request_def lower_names Let_def)
  have n: "truthy_str None = None" by (simp add: truthy_str_def)
  have "\<exists>e. horizonWebhookMiddleware env req = Refused e"
    unfolding horizonWebhookMiddleware_def verifyHorizonWebhook_def Let_def no_options_headers h n
    by (cases "horizon_secret env no_horizon_options") simp_all
  then show ?thesis
    unfolding req_def [symmetric] by (simp add: webhookSignatureMiddleware_def h n Let_def)
qed

text \<open>The middleware for several secrets, whose documentation says that it takes the format of the webhook
  service, refuses what the service sends, even when it is told to read the service's headers: it reads the
  timestamp, the text of a date, as a number of seconds, gets the year, and answers that it is too old.
\<close>
theorem multi_secret_refuses_service:
  assumes "so_signatureHeader opts = Some ''x-anchorpoint-signature''" "so_timestampHeader opts = Some ''x-anchorpoint-timestamp''"
    and "so_maxAgeSeconds opts = None" "year_ok t" "11000000 \<le> rv_now env" "rv_now env \<le> 1000000000000000"
  shows "verifyWebhookRequest env opts secrets
    (received (hq_headers (delivery_request wenv payload requestBody config secret attempt key (iso_string t))) requestBody body)
    = Refused ''timestamp_too_old''"
proof -
  define sig where "sig = signWebhookPayload wenv requestBody secret (iso_string t)"
  obtain y r where iso: "iso_string t = pad_int 4 y @ CHR ''-'' # r @ ''Z''" "0 \<le> y" "y \<le> 9999"
    using iso_shape [OF assms(4)] by blast
  have t: "truthy_str (Some (iso_string t)) = Some (iso_string t)"
    using iso by (intro truthy_nonempty) simp
  have "CHR '','' \<notin> set sig"
    using hex_is_hex [of "we_hmac wenv secret (iso_string t @ ''.'' @ requestBody)"] hex_plain
    by (auto simp: sig_def signWebhookPayload_def list_all_iff)
  then have c: "resolve_composite sig x = (sig, x)" for x
    by (simp add: resolve_composite_def with_prefix_def starts_with_def sig_def signWebhookPayload_def)
  have g: "truthy_str (Some sig) = Some sig" by (simp add: sig_def signWebhookPayload_def truthy_str_def)
  have yr: "parseInt10 (iso_string t) = js_int y" using parseInt_iso [OF iso(1,2)] by (simp add: js_int_def)
  have w: "too_old env 300 (js_int y)" using too_old_small [of env y 300] assms(5,6) iso(2,3) by simp
  have "js_int y \<noteq> NaN" using iso(2,3) by (simp add: js_int_small)
  then show ?thesis
    using c [of "Some (iso_string t)"]
    by (simp add: verifyWebhookRequest_def received_def delivery_request_def lower_names header_or_def assms(1-3) t g
        sig_def [symmetric] Let_def yr w)
qed

text \<open>A formatted header of a Stellar signature is parsed back to the signature and its timestamp.\<close>
theorem stellar_header_roundtrip:
  assumes "all_digits timestamp" "rv_hmac env secret (timestamp @ ''.'' @ rawBody) \<noteq> []"
  shows "parseStellarSignatureHeader (formatStellarSignatureHeader env rawBody secret timestamp)
    = Some (computeHorizonSignature env rawBody secret (Some timestamp), Some timestamp)"
proof -
  have "computeHorizonSignature env rawBody secret (Some timestamp) = hex (rv_hmac env secret (timestamp @ ''.'' @ rawBody))"
    using assms(1) by (simp add: computeHorizonSignature_def truthy_nonempty all_digits_def)
  then show ?thesis
    using parse_stellar [OF _ hex_is_hex, of timestamp] assms
    by (simp add: formatStellarSignatureHeader_def all_digits_def hex_empty)
qed

section \<open>Witnesses\<close>

definition demo_receiver :: receiver_env where
  "demo_receiver = \<lparr>rv_now = 1700000000000, rv_hmac = (\<lambda>k m. CHR ''h'' # m),
     rv_dateParse = (\<lambda>s. if s = iso_string 1700000000000 then Some 1700000000000 else None),
     rv_env_HORIZON_WEBHOOK_SECRET = Some ''secret'', rv_config_HORIZON_WEBHOOK_SECRET = None,
     rv_config_WEBHOOK_SECRET = Some ''secret''\<rparr>"

definition demo_signed :: incoming where
  "demo_signed = received [(''X-Stellar-Signature'', ''t='' @ show_int (1700000000000 div 1000) @ '',v1=''
       @ computeHorizonSignature demo_receiver ''{}'' ''secret'' None)] ''{}'' NoBody"

definition demo_monitor :: "nat monitor_env" where
  "demo_monitor = \<lparr>me_get = (\<lambda>_ w. (Inr [], w)), me_post = (\<lambda>_ w. (Inr (), w)), me_readFile = (\<lambda>w. (Inr [], w)),
     me_writeFile = (\<lambda>_ w. (Inr (), w)), me_now = (\<lambda>_. 1700000000000), me_hmac = (\<lambda>k m. CHR ''h'' # m),
     me_secret = None, me_horizonUrl = ''https://horizon''\<rparr>"

definition demo_subscription :: subscription where
  "demo_subscription = \<lparr>sb_id = ''s1'', sb_account = ''GA'', sb_webhookUrl = ''https://partner'', sb_secret = Some ''secret'',
     sb_filter = None\<rparr>"

definition demo_webhooks :: "nat webhook_env" where
  "demo_webhooks = \<lparr>we_now = (\<lambda>_. 1700000000000), we_fetch = (\<lambda>_ w. (Inr \<lparr>hr_ok = True, hr_status = 200, hr_text = Inr []\<rparr>, w)),
     we_redis_get = (\<lambda>_ w. (Inr None, w)), we_redis_set = (\<lambda>_ _ w. (Inr (), w)), we_redis_expire = (\<lambda>_ _ w. (Inr (), w)),
     we_addJob = (\<lambda>_ _ _ i w. (Inr (Some i), w)), we_db = (\<lambda>w. (Inr (), w)), we_alert = (\<lambda>_ w. (Inr (), w)),
     we_random = (\<lambda>w. (Fin 0, w)), we_hmac = (\<lambda>k m. CHR ''h'' # m), we_sha256 = (\<lambda>s. s), we_pow = (\<lambda>_ _. Fin 1),
     we_config = \<lparr>pc_WEBHOOK_URL = Some ''u'', pc_WEBHOOK_SECRET = Some ''secret'', pc_WEBHOOK_TIMEOUT_MS = None,
       pc_WEBHOOK_MAX_RETRIES = Some 1, pc_WEBHOOK_RETRY_DELAY_MS = None\<rparr>\<rparr>"

lemma demo_year: "year_ok 1700000000000"
  by code_simp

lemma demo_secret: "horizon_secret demo_receiver no_horizon_options = Some ''secret''"
  by (simp add: horizon_secret_def demo_receiver_def no_horizon_options_def js_nullish_def truthy_nonempty)

lemma horizon_timestamp_not_authenticated_witness:
  "horizonWebhookMiddleware (demo_receiver\<lparr>rv_now := 1700000000000\<rparr>) demo_signed = Passed"
proof (rule horizon_timestamp_not_authenticated [OF demo_secret])
  have b: "extractRawBody demo_signed = ''{}''" by (simp add: demo_signed_def received_def extractRawBody_def)
  show "rv_hmac demo_receiver ''secret'' (extractRawBody demo_signed) \<noteq> []" by (simp add: demo_receiver_def)
  show "js_get (iq_headers demo_signed) ''x-stellar-signature'' = Some (''t='' @ show_int (1700000000000 div 1000) @ '',v1=''
      @ computeHorizonSignature demo_receiver (extractRawBody demo_signed) ''secret'' None)"
    unfolding b by (simp add: demo_signed_def received_def lower_names)
qed simp_all

lemma monitor_post_accepted_iff_witness:
  "horizonWebhookMiddleware demo_receiver
     (received (mp_headers (monitor_request demo_monitor demo_subscription \<lparr>ev_paging_token = ''1'', ev_json = JNull\<rparr> 1700000000000))
        (json_stringify (ev_json \<lparr>ev_paging_token = ''1'', ev_json = JNull\<rparr>)) NoBody) = Passed
   \<longleftrightarrow> \<bar>rv_now demo_receiver div 1000 - 1700000000000 div 1000\<bar> \<le> 300"
  by (rule monitor_post_accepted_iff [OF _ demo_secret])
    (simp_all add: demo_subscription_def js_nullish_def truthy_nonempty demo_receiver_def demo_monitor_def)

lemma service_request_accepted_witness:
  "webhookSignatureMiddleware demo_receiver
    (received (hq_headers (delivery_request demo_webhooks
        \<lparr>wp_event = ''e'', wp_occurredAt = [], wp_previousStatus = ''a'', wp_status = ''b'', wp_json = JNull\<rparr> ''{}''
        (getConfig demo_webhooks \<lparr>ws_injectedConfig = None, ws_store = memory_store demo_webhooks\<rparr>) ''secret'' 1 ''k''
        (iso_string 1700000000000))) ''{}'' NoBody) = Passed"
  by (rule service_request_accepted) (simp_all add: demo_receiver_def demo_webhooks_def demo_year)

lemma multi_secret_refuses_service_witness:
  "verifyWebhookRequest demo_receiver \<lparr>so_secrets = [''secret''], so_maxAgeSeconds = None,
      so_signatureHeader = Some ''x-anchorpoint-signature'', so_timestampHeader = Some ''x-anchorpoint-timestamp''\<rparr> [''secret'']
    (received (hq_headers (delivery_request demo_webhooks
        \<lparr>wp_event = ''e'', wp_occurredAt = [], wp_previousStatus = ''a'', wp_status = ''b'', wp_json = JNull\<rparr> ''{}''
        (getConfig demo_webhooks \<lparr>ws_injectedConfig = None, ws_store = memory_store demo_webhooks\<rparr>) ''secret'' 1 ''k''
        (iso_string 1700000000000))) ''{}'' NoBody) = Refused ''timestamp_too_old''"
  by (rule multi_secret_refuses_service) (simp_all add: demo_year demo_receiver_def)

lemma stellar_header_roundtrip_witness:
  "parseStellarSignatureHeader (formatStellarSignatureHeader demo_receiver ''{}'' ''secret'' ''1700000000'')
    = Some (computeHorizonSignature demo_receiver ''{}'' ''secret'' (Some ''1700000000''), Some ''1700000000'')"
  by (rule stellar_header_roundtrip) (simp_all add: all_digits_def is_digit_def demo_receiver_def)

end
