(* ===== verification/Webhook_Props.thy ===== *)
theory Webhook_Props
  imports Webhook_Checks
begin

text \<open>
  Properties of the webhook deliveries: how many requests one delivery makes and how it is settled, which
  transitions are skipped, what a retry leaves undone, and the update of a transaction around it.
\<close>

section \<open>What is sent\<close>

definition posts :: "webhook_effect list \<Rightarrow> webhook_effect list" where
  "posts fx = List.filter (\<lambda>e. case e of Posted _ \<Rightarrow> True | _ \<Rightarrow> False) fx"

definition settlements :: "webhook_effect list \<Rightarrow> webhook_effect list" where
  "settlements fx = List.filter (\<lambda>e. case e of Marked _ \<Rightarrow> True | Enqueued _ \<Rightarrow> True | _ \<Rightarrow> False) fx"

lemma effect_simps [simp]:
  "posts [] = []" "settlements [] = []"
  "posts (xs @ ys) = posts xs @ posts ys" "settlements (xs @ ys) = settlements xs @ settlements ys"
  "posts (Posted r # fx) = Posted r # posts fx" "posts (Marked h # fx) = posts fx" "posts (Enqueued j # fx) = posts fx"
  "posts (Slept n # fx) = posts fx" "settlements (Posted r # fx) = settlements fx"
  "settlements (Marked h # fx) = Marked h # settlements fx" "settlements (Enqueued j # fx) = Enqueued j # settlements fx"
  "settlements (Slept n # fx) = settlements fx"
  by (simp_all add: posts_def settlements_def)

text \<open>A computation that returns and adds effects to the record.\<close>

lemma wcall_state: "wcall f s = (r, s') \<Longrightarrow> wx_trace s' = wx_trace s \<and> wx_memory s' = wx_memory s \<and> wx_transactions s' = wx_transactions s"
  by (auto simp: wcall_def split: prod.splits)

lemma enqueue_result:
  "\<exists>r s'. enqueueWebhookRetry env d s = (Inr r, s') \<and> wx_trace s' = wx_trace s @ [Enqueued d] \<and> wx_memory s' = wx_memory s"
proof -
  define s1 where "s1 = s\<lparr>wx_trace := wx_trace s @ [Enqueued d]\<rparr>"
  define a where "a = wcall (we_addJob env ''webhook-retry'' d WEBHOOK_RETRY_JOB_OPTIONS (''webhook-'' @ rj_deliveryHash d)) s1"
  have t: "wx_trace (snd a) = wx_trace s1 \<and> wx_memory (snd a) = wx_memory s1"
    using wcall_state [of _ s1 "fst a" "snd a"] by (simp add: a_def)
  have e: "enqueueWebhookRetry env d s = (case a of (Inl _, s') \<Rightarrow> (Inr None, s') | (Inr x, s') \<Rightarrow> (Inr x, s'))"
    by (auto simp: enqueueWebhookRetry_def wtrace_def eff_defs a_def s1_def split: prod.splits sum.splits)
  show ?thesis
    using t by (cases a; cases "fst a") (auto simp: e s1_def)
qed

text \<open>One request: it is posted, and the outcome is a result of this attempt or none.\<close>

lemma attempt_result:
  assumes "wc_secret config = Some secret"
  shows "\<exists>outcome s' r. performRequestAttempt env payload body config attempt key s = (Inr outcome, s')
    \<and> wx_trace s' = wx_trace s @ [Posted r] \<and> wx_memory s' = wx_memory s
    \<and> (\<forall>d. outcome = Final d \<longrightarrow> dl_attempts d = attempt \<and> \<not> dl_skipped d)
    \<and> (wc_maxRetries config < attempt \<longrightarrow> (\<exists>d. outcome = Final d))"
proof -
  define r where "r = delivery_request env payload body config secret attempt key (iso_string (we_now env (wx_world s)))"
  define s1 where "s1 = s\<lparr>wx_trace := wx_trace s @ [Posted r]\<rparr>"
  define a where "a = wcall (we_fetch env r) s1"
  have t: "wx_trace (snd a) = wx_trace s1 \<and> wx_memory (snd a) = wx_memory s1"
    using wcall_state [of _ s1 "fst a" "snd a"] by (simp add: a_def)
  have e: "performRequestAttempt env payload body config attempt key s = (case a of
      (Inl e, s') \<Rightarrow> (Inr (error_outcome config attempt e), s')
    | (Inr x, s') \<Rightarrow> (case hr_text x of Inl e \<Rightarrow> (Inr (error_outcome config attempt e), s')
        | Inr b \<Rightarrow> (Inr (answer_outcome config attempt x b), s')))"
    by (auto simp: performRequestAttempt_def wclock_def assms post_def wtrace_def eff_defs a_def s1_def r_def
        split: prod.splits sum.splits)
  have f: "(error_outcome config attempt e = Final d \<longrightarrow> dl_attempts d = attempt \<and> \<not> dl_skipped d)
      \<and> (answer_outcome config attempt x b = Final d \<longrightarrow> dl_attempts d = attempt \<and> \<not> dl_skipped d)" for e x b d
    by (auto simp: error_outcome_def answer_outcome_def failed_delivery_def)
  have g: "wc_maxRetries config < attempt \<Longrightarrow> (\<exists>d. error_outcome config attempt e = Final d) \<and> (\<exists>d. answer_outcome config attempt x b = Final d)" for e x b
    by (simp add: error_outcome_def answer_outcome_def)
  have tr: "wx_trace (snd a) = wx_trace s @ [Posted r]" "wx_memory (snd a) = wx_memory s" using t by (simp_all add: s1_def)
  show ?thesis
  proof (cases a)
    case (Pair res s')
    show ?thesis
    proof (cases res)
      case (Inl err)
      then show ?thesis using e tr f g Pair by auto
    next
      case (Inr x)
      then show ?thesis using e tr f g Pair by (cases "hr_text x") auto
    qed
  qed
qed

section \<open>One delivery\<close>

text \<open>
  What the service relies on of a store: asking and marking return, and send nothing. Both stores keep this, the
  one in Redis whatever its client throws.
\<close>

locale quiet_store =
  fixes store :: "'w delivery_store"
  assumes has_quiet: "\<exists>b s'. ds_has store h s = (Inr b, s') \<and> wx_trace s' = wx_trace s"
    and mark_quiet: "\<exists>s'. ds_mark store h s = (Inr (), s') \<and> wx_trace s' = wx_trace s"
begin

lemma settle_outcome:
  assumes "ws_store svc = store" "\<not> dl_skipped d"
  shows "\<exists>s'. settle_final env svc payload body entity config key hash attempt d s = (Inr d, s')
    \<and> wx_trace s' = wx_trace s @ [if dl_delivered d then Marked hash
        else Enqueued (retry_job_of payload body entity config key hash attempt)]"
proof (cases "dl_delivered d")
  case True
  obtain s' where s': "ds_mark store hash (s\<lparr>wx_trace := wx_trace s @ [Marked hash]\<rparr>) = (Inr (), s')"
      "wx_trace s' = wx_trace s @ [Marked hash]"
    using mark_quiet [of hash "s\<lparr>wx_trace := wx_trace s @ [Marked hash]\<rparr>"] by auto
  then show ?thesis using True assms by (simp add: settle_final_def wtrace_def eff_defs)
next
  case False
  obtain r s' where "enqueueWebhookRetry env (retry_job_of payload body entity config key hash attempt) s = (Inr r, s')"
      "wx_trace s' = wx_trace s @ [Enqueued (retry_job_of payload body entity config key hash attempt)]"
    using enqueue_result by blast
  then show ?thesis using False assms by (simp add: settle_final_def eff_defs)
qed

lemma loop_outcome:
  assumes "ws_store svc = store" "wc_secret config = Some secret"
    and "attempt + int left = wc_maxRetries config + 2" "0 < left"
  shows "\<exists>d s' fx. delivery_loop env svc payload body entity config key hash left attempt seen s = (Inr d, s')
    \<and> wx_trace s' = wx_trace s @ fx \<and> int (length (posts fx)) = dl_attempts d - attempt + 1
    \<and> attempt \<le> dl_attempts d \<and> dl_attempts d \<le> wc_maxRetries config + 1 \<and> \<not> dl_skipped d
    \<and> settlements fx = [if dl_delivered d then Marked hash
        else Enqueued (retry_job_of payload body entity config key hash (dl_attempts d))]"
  using assms(3,4)
proof (induction left arbitrary: attempt seen s)
  case (Suc left)
  obtain outcome s1 r where a: "performRequestAttempt env payload body config attempt key s = (Inr outcome, s1)"
      "wx_trace s1 = wx_trace s @ [Posted r]" "\<forall>d. outcome = Final d \<longrightarrow> dl_attempts d = attempt \<and> \<not> dl_skipped d"
      "wc_maxRetries config < attempt \<longrightarrow> (\<exists>d. outcome = Final d)"
    using attempt_result [OF assms(2), of env payload body attempt key s] by blast
  show ?case
  proof (cases "\<exists>d. outcome = Final d")
    case True
    then obtain d where d: "outcome = Final d" "dl_attempts d = attempt" "\<not> dl_skipped d" using a(3) by auto
    obtain s' where s': "settle_final env svc payload body entity config key hash attempt d s1 = (Inr d, s')"
        "wx_trace s' = wx_trace s1 @ [if dl_delivered d then Marked hash
          else Enqueued (retry_job_of payload body entity config key hash attempt)]"
      using settle_outcome [OF assms(1) d(3), of env payload body entity config key hash attempt s1] by blast
    have "delivery_loop env svc payload body entity config key hash (Suc left) attempt seen s = (Inr d, s')"
      using a(1) d(1) s'(1) by (simp add: ebind_def)
    then show ?thesis using d s'(2) a(2) Suc.prems by auto
  next
    case False
    define s2 where "s2 = s1\<lparr>wx_trace := wx_trace s1 @ [Slept (getRetryDelay env svc attempt)]\<rparr>"
    have more: "attempt + 1 + int left = wc_maxRetries config + 2" "0 < left" using Suc.prems False a(4) by auto
    obtain d s' fx where ih:
        "delivery_loop env svc payload body entity config key hash left (attempt + 1) (remember outcome seen) s2 = (Inr d, s')"
        "wx_trace s' = wx_trace s2 @ fx" "int (length (posts fx)) = dl_attempts d - (attempt + 1) + 1"
        "attempt + 1 \<le> dl_attempts d" "dl_attempts d \<le> wc_maxRetries config + 1" "\<not> dl_skipped d"
        "settlements fx = [if dl_delivered d then Marked hash
          else Enqueued (retry_job_of payload body entity config key hash (dl_attempts d))]"
      using Suc.IH [OF more, of "remember outcome seen" s2] by blast
    have "delivery_loop env svc payload body entity config key hash (Suc left) attempt seen s = (Inr d, s')"
      using a(1) False ih(1) by (cases outcome) (auto simp: ebind_def wtrace_def emodify_def s2_def)
    then show ?thesis
      using ih a(2) by (intro exI [of _ d] exI [of _ s'] exI [of _ "[Posted r, Slept (getRetryDelay env svc attempt)] @ fx"])
        (simp add: s2_def)
  qed
qed simp

lemma execute_outcome:
  assumes "ws_store svc = store" "wc_secret config = Some secret" "0 \<le> wc_maxRetries config"
  shows "\<exists>d s' fx. executeDeliveryLoop env svc payload entity config key s = (Inr d, s') \<and> wx_trace s' = wx_trace s @ fx
    \<and> dl_attempts d = int (length (posts fx)) \<and> dl_attempts d \<le> wc_maxRetries config + 1
    \<and> (if dl_skipped d then fx = [] \<and> \<not> dl_delivered d
       else 1 \<le> dl_attempts d \<and> settlements fx = [let hash = buildWebhookDeliveryHash env key (text_or_undefined (wc_url config)) in
          if dl_delivered d then Marked hash
          else Enqueued (retry_job_of payload (json_stringify (wp_json payload)) entity config key hash (dl_attempts d))])"
proof -
  define hash where "hash = buildWebhookDeliveryHash env key (text_or_undefined (wc_url config))"
  obtain b s1 where h: "ds_has store hash s = (Inr b, s1)" "wx_trace s1 = wx_trace s" using has_quiet by metis
  show ?thesis
  proof (cases b)
    case True
    then have "executeDeliveryLoop env svc payload entity config key s = (Inr skipped_result, s1)"
      using h(1) assms(1) by (simp add: executeDeliveryLoop_def hash_def eff_defs Let_def)
    then show ?thesis using h(2) assms(3) by (auto simp: skipped_result_def)
  next
    case False
    have n: "1 + int (nat (wc_maxRetries config + 1)) = wc_maxRetries config + 2" "0 < nat (wc_maxRetries config + 1)"
      using assms(3) by auto
    obtain d s' fx where l: "delivery_loop env svc payload (json_stringify (wp_json payload)) entity config key hash
          (nat (wc_maxRetries config + 1)) 1 (None, None, None) s1 = (Inr d, s')" "wx_trace s' = wx_trace s1 @ fx"
        "int (length (posts fx)) = dl_attempts d - 1 + 1" "1 \<le> dl_attempts d" "dl_attempts d \<le> wc_maxRetries config + 1"
        "\<not> dl_skipped d" "settlements fx = [if dl_delivered d then Marked hash
          else Enqueued (retry_job_of payload (json_stringify (wp_json payload)) entity config key hash (dl_attempts d))]"
      using loop_outcome [OF assms(1,2) n, of env payload "json_stringify (wp_json payload)" entity key hash "(None, None, None)" s1]
      by blast
    have "executeDeliveryLoop env svc payload entity config key s = (Inr d, s')"
      using h(1) assms(1) False l(1) by (simp add: executeDeliveryLoop_def hash_def eff_defs Let_def)
    then show ?thesis using l h(2) by (auto simp: hash_def Let_def)
  qed
qed

end

lemma memory_has_quiet: "\<exists>b s'. memory_has env h s = (Inr b, s') \<and> wx_trace s' = wx_trace s"
  by (cases "js_get (wx_memory s) h") (auto simp: memory_has_def wclock_def eff_defs)

interpretation memq: quiet_store "memory_store env" for env
  using memory_has_quiet by unfold_locales (auto simp: memory_store_def memory_mark_def wclock_def eff_defs)

lemma redis_has_quiet: "\<exists>b s'. ds_has (redis_store env) h s = (Inr b, s') \<and> wx_trace s' = wx_trace s"
proof -
  define a where "a = wcall (we_redis_get env (delivered_key h)) s"
  have "wx_trace (snd a) = wx_trace s" using wcall_state [of _ s "fst a" "snd a"] by (simp add: a_def)
  then show ?thesis
    by (cases a; cases "fst a") (auto simp: redis_store_def eff_defs a_def [symmetric])
qed

lemma redis_mark_quiet: "\<exists>s'. ds_mark (redis_store env) h s = (Inr (), s') \<and> wx_trace s' = wx_trace s"
proof -
  define w where "w = we_redis_set env (delivered_key h) (json_stringify (JObj [(''deliveredAt'', JStr (iso_string (we_now env (wx_world s))))]))"
  define a where "a = wcall w s"
  define b where "b = wcall (we_redis_expire env (delivered_key h) WEBHOOK_DELIVERY_TTL_SECONDS) (snd a)"
  have t: "wx_trace (snd a) = wx_trace s" "wx_trace (snd b) = wx_trace s"
    using wcall_state [of _ s "fst a" "snd a"] wcall_state [of _ "snd a" "fst b" "snd b"] by (simp_all add: a_def b_def)
  have "ds_mark (redis_store env) h s = (case fst a of Inl _ \<Rightarrow> (Inr (), snd a) | Inr _ \<Rightarrow> (Inr (), snd b))"
    unfolding redis_store_def
    by (simp add: wclock_def eff_defs a_def b_def w_def split: prod.split sum.split)
  then show ?thesis using t by (cases "fst a") auto
qed

interpretation redisq: quiet_store "redis_store env" for env
  by unfold_locales (rule redis_has_quiet, rule redis_mark_quiet)

text \<open>How one delivery ends, whatever HTTP, Redis and the queue do. It always returns. Either the transition
  counts as delivered already, and nothing is sent; or between 1 and \<open>maxRetries + 1\<close> requests are posted, as
  many as the result says, and the delivery is settled exactly once: marked as delivered when the partner
  accepted it, and otherwise handed to the queue of retries with the number of the last attempt, even where the
  partner's answer was not one to retry.
\<close>
theorem delivery_settled_once:
  assumes "ws_store svc = redis_store env" "wc_secret config = Some secret" "0 \<le> wc_maxRetries config"
  shows "\<exists>d s' fx. executeDeliveryLoop env svc payload entity config key s = (Inr d, s') \<and> wx_trace s' = wx_trace s @ fx
    \<and> dl_attempts d = int (length (posts fx)) \<and> dl_attempts d \<le> wc_maxRetries config + 1
    \<and> (if dl_skipped d then fx = [] \<and> \<not> dl_delivered d
       else 1 \<le> dl_attempts d \<and> settlements fx = [let hash = buildWebhookDeliveryHash env key (text_or_undefined (wc_url config)) in
          if dl_delivered d then Marked hash
          else Enqueued (retry_job_of payload (json_stringify (wp_json payload)) entity config key hash (dl_attempts d))])"
  by (rule redisq.execute_outcome [OF assms])

section \<open>Which transitions are skipped\<close>

lemma memory_delivered_mark:
  "memory_mark env h s = (Inr (), s') \<Longrightarrow> wx_world s' = wx_world s
    \<and> js_get (wx_memory s') h = Some (we_now env (wx_world s) + WEBHOOK_DELIVERY_TTL_SECONDS * 1000)"
  by (auto simp: memory_mark_def wclock_def eff_defs)

lemma settle_delivered:
  assumes "settle_final env svc payload body entity config key hash attempt d s = (Inr d', s')" "dl_delivered d'"
    and "ws_store svc = memory_store env"
  shows "js_get (wx_memory s') hash = Some (we_now env (wx_world s') + WEBHOOK_DELIVERY_TTL_SECONDS * 1000)"
proof -
  define s1 where "s1 = s\<lparr>wx_trace := wx_trace s @ [Marked hash]\<rparr>"
  have "d' = d" using assms(1) by (auto simp: settle_final_def eff_defs split: prod.splits sum.splits)
  then have "memory_mark env hash s1 = (Inr (), s')"
    using assms by (auto simp: settle_final_def wtrace_def eff_defs memory_store_def s1_def split: prod.splits sum.splits)
  then show ?thesis using memory_delivered_mark by metis
qed

lemma loop_delivered:
  assumes "delivery_loop env svc payload body entity config key hash left attempt seen s = (Inr d, s')" "dl_delivered d"
    and "ws_store svc = memory_store env"
  shows "js_get (wx_memory s') hash = Some (we_now env (wx_world s') + WEBHOOK_DELIVERY_TTL_SECONDS * 1000)"
  using assms(1)
proof (induction left arbitrary: attempt seen s)
  case 0
  then show ?case using assms(2)
    by (auto simp: eff_defs exhausted_result_def failed_delivery_def split: prod.splits sum.splits)
next
  case (Suc left)
  obtain outcome s1 where a: "performRequestAttempt env payload body config attempt key s = (Inr outcome, s1)"
    using Suc.prems by (auto simp: ebind_def split: prod.splits sum.splits)
  show ?case
  proof (cases "\<exists>d0. outcome = Final d0")
    case True
    then obtain d0 where "settle_final env svc payload body entity config key hash attempt d0 s1 = (Inr d, s')"
      using Suc.prems a by (auto simp: ebind_def)
    then show ?thesis by (rule settle_delivered) (use assms in auto)
  next
    case False
    then obtain s2 where "delivery_loop env svc payload body entity config key hash left (attempt + 1) (remember outcome seen) s2 = (Inr d, s')"
      using Suc.prems a by (cases outcome) (auto simp: ebind_def wtrace_def emodify_def)
    then show ?thesis by (rule Suc.IH)
  qed
qed

text \<open>A transition that was delivered is not sent again for 24 hours: with the same key and URL, and the
  store's entry in place, a delivery is skipped and changes nothing, whatever the payload. The key has no time
  or counter, so a transaction that goes from A to B, back to A and to B again within a day is reported
  to be in B once.
\<close>
theorem repeated_transition_skipped:
  assumes "ws_store svc = memory_store env"
    and "executeDeliveryLoop env svc payload entity config key s = (Inr d, s1)" "dl_delivered d"
    and "js_get (wx_memory s2) (buildWebhookDeliveryHash env key (text_or_undefined (wc_url config)))
       = js_get (wx_memory s1) (buildWebhookDeliveryHash env key (text_or_undefined (wc_url config)))"
    and "we_now env (wx_world s2) \<le> we_now env (wx_world s1) + 86400000"
  shows "executeDeliveryLoop env svc payload2 entity2 config key s2 = (Inr skipped_result, s2)"
proof -
  define hash where "hash = buildWebhookDeliveryHash env key (text_or_undefined (wc_url config))"
  obtain b s0 where b: "memory_has env hash s = (Inr b, s0)" using memory_has_quiet by blast
  then have "\<not> b" using assms(1-3)
    by (auto simp: executeDeliveryLoop_def hash_def memory_store_def eff_defs Let_def skipped_result_def)
  then have "delivery_loop env svc payload (json_stringify (wp_json payload)) entity config key hash
      (nat (wc_maxRetries config + 1)) 1 (None, None, None) s0 = (Inr d, s1)"
    using assms(1,2) b by (simp add: executeDeliveryLoop_def hash_def memory_store_def ebind_def Let_def)
  then have "js_get (wx_memory s1) hash = Some (we_now env (wx_world s1) + WEBHOOK_DELIVERY_TTL_SECONDS * 1000)"
    by (rule loop_delivered) (use assms in auto)
  then have "memory_has env hash s2 = (Inr True, s2)"
    using assms(4,5) by (simp add: memory_has_def wclock_def eff_defs hash_def WEBHOOK_DELIVERY_TTL_SECONDS_def)
  then show ?thesis
    using assms(1) by (simp add: executeDeliveryLoop_def hash_def memory_store_def eff_defs Let_def)
qed

section \<open>Retries\<close>

lemma push_attempt_state:
  "\<exists>r s'. push_attempt env job c l e dead s = (Inr r, s') \<and> wx_memory s' = wx_memory s \<and> wx_trace s' = wx_trace s"
  by (simp add: push_attempt_def wclock_def eff_defs Let_def)

lemma post_cases:
  obtains x s' where "post env r s = (Inr x, s')" "wx_memory s' = wx_memory s" "wx_trace s' = wx_trace s @ [Posted r]"
  | e s' where "post env r s = (Inl e, s')" "wx_memory s' = wx_memory s" "wx_trace s' = wx_trace s @ [Posted r]"
proof -
  define a where "a = wcall (we_fetch env r) (s\<lparr>wx_trace := wx_trace s @ [Posted r]\<rparr>)"
  have t: "wx_memory (snd a) = wx_memory s \<and> wx_trace (snd a) = wx_trace s @ [Posted r]"
    using wcall_state [of _ _ "fst a" "snd a"] by (fastforce simp: a_def)
  have "post env r s = a" by (simp add: post_def wtrace_def eff_defs a_def)
  then show thesis using t that by (cases a; cases "fst a") auto
qed

text \<open>What a retry that the partner accepted changes of the memory and of the record.\<close>

lemma retry_success_state:
  assumes "processJob env job s = (Inr x, s')"
  shows "wx_memory s' = wx_memory s \<and> wx_trace s' = wx_trace s @ [Posted (retry_request env (bj_data job) (we_now env (wx_world s)))]"
proof -
  define r where "r = retry_request env (bj_data job) (we_now env (wx_world s))"
  show ?thesis
  proof (cases rule: post_cases [of env r s])
    case (1 y s1)
    show ?thesis
    proof (cases "hr_ok y")
      case True
      obtain z s2 where "push_attempt env job (Some (hr_status y)) (we_now env (wx_world s1) - we_now env (wx_world s)) None False s1
          = (Inr z, s2)" "wx_memory s2 = wx_memory s1" "wx_trace s2 = wx_trace s1"
        using push_attempt_state by blast
      then show ?thesis using assms 1 True by (simp add: processJob_def wclock_def eff_defs r_def [symmetric])
    next
      case False
      obtain z s2 where "push_attempt env job None (we_now env (wx_world s1) - we_now env (wx_world s))
          (Some (''Webhook endpoint returned HTTP '' @ show_int (hr_status y))) (is_last_attempt job) s1 = (Inr z, s2)"
        using push_attempt_state by blast
      then show ?thesis using assms 1 False
        by (auto simp: processJob_def wclock_def eff_defs r_def [symmetric] error_message_def fireDeadLetterAlert_def wtrace_def
            split: if_splits)
    qed
  next
    case (2 e s1)
    obtain z s2 where "push_attempt env job None (we_now env (wx_world s1) - we_now env (wx_world s))
        (Some (case error_message e of Some m \<Rightarrow> m | None \<Rightarrow> error_text e)) (is_last_attempt job) s1 = (Inr z, s2)"
      using push_attempt_state by blast
    then show ?thesis using assms 2
      by (auto simp: processJob_def wclock_def eff_defs r_def [symmetric] fireDeadLetterAlert_def wtrace_def split: if_splits)
  qed
qed

text \<open>A retry that succeeds is not recorded: the worker does not mark the delivery. When the partner has
  accepted the retry of a transition, and the transition is sent again, it is not skipped as a duplicate: at
  least one more request is posted, and the delivery is settled anew.
\<close>
theorem delivered_retry_sent_again:
  assumes "processJob env job s = (Inr x, s')"
    and "js_get (wx_memory s) (buildWebhookDeliveryHash env key (text_or_undefined (wc_url config))) = None"
    and "ws_store svc = memory_store env" "wc_secret config = Some secret" "0 \<le> wc_maxRetries config"
  shows "\<exists>d s'' fx. executeDeliveryLoop env svc payload entity config key s' = (Inr d, s'') \<and> wx_trace s'' = wx_trace s' @ fx
    \<and> \<not> dl_skipped d \<and> posts fx \<noteq> [] \<and> settlements fx \<noteq> []"
proof -
  define hash where "hash = buildWebhookDeliveryHash env key (text_or_undefined (wc_url config))"
  have "js_get (wx_memory s') hash = None" using retry_success_state [OF assms(1)] assms(2) by (simp add: hash_def)
  then have h: "ds_has (memory_store env) hash s' = (Inr False, s')"
    by (simp add: memory_store_def memory_has_def eff_defs)
  have n: "1 + int (nat (wc_maxRetries config + 1)) = wc_maxRetries config + 2" "0 < nat (wc_maxRetries config + 1)"
    using assms(5) by auto
  obtain d s'' fx where l: "delivery_loop env svc payload (json_stringify (wp_json payload)) entity config key hash
        (nat (wc_maxRetries config + 1)) 1 (None, None, None) s' = (Inr d, s'')" "wx_trace s'' = wx_trace s' @ fx"
      "int (length (posts fx)) = dl_attempts d - 1 + 1" "1 \<le> dl_attempts d" "\<not> dl_skipped d"
      "settlements fx = [if dl_delivered d then Marked hash
          else Enqueued (retry_job_of payload (json_stringify (wp_json payload)) entity config key hash (dl_attempts d))]"
    using memq.loop_outcome [OF assms(3,4) n, of env payload "json_stringify (wp_json payload)" entity key hash "(None, None, None)" s']
    by blast
  have "executeDeliveryLoop env svc payload entity config key s' = (Inr d, s'')"
    using h l(1) assms(3) by (simp add: executeDeliveryLoop_def hash_def eff_defs Let_def)
  then show ?thesis using l by (auto intro!: exI [of _ d] exI [of _ s''] exI [of _ fx])
qed

section \<open>Updating a transaction\<close>

lemma keeps_webhook_calls [keeps_rules]:
  "keeps wx_transactions (wcall f)" "keeps wx_transactions (wclock env)" "keeps wx_transactions (wtrace e)"
  "keeps wx_transactions (post env r)"
  by (auto simp: keeps_def wcall_def wclock_def wtrace_def post_def eff_defs split: prod.splits sum.splits)

lemma keeps_enqueue [keeps_rules]: "keeps wx_transactions (enqueueWebhookRetry env d)"
  unfolding enqueueWebhookRetry_def by (intro keeps_rules)

lemma keeps_attempt [keeps_rules]: "keeps wx_transactions (performRequestAttempt env payload body config attempt key)"
  unfolding performRequestAttempt_def by (intro keeps_rules)

lemma keeps_redis_store [keeps_rules]:
  "keeps wx_transactions (ds_has (redis_store env) h)" "keeps wx_transactions (ds_mark (redis_store env) h)"
  unfolding redis_store_def delivery_store.simps by (intro keeps_rules)+

lemma keeps_delivery [keeps_rules]:
  assumes "ws_store svc = redis_store env"
  shows "keeps wx_transactions (delivery_loop env svc payload body entity config key hash left attempt seen)"
proof (induction left arbitrary: attempt seen)
  case 0
  show ?case unfolding delivery_loop.simps by (intro keeps_rules)
next
  case (Suc left)
  have s: "keeps wx_transactions (settle_final env svc payload body entity config key hash attempt d)" for d
    unfolding settle_final_def assms by (intro keeps_rules)
  show ?case
    unfolding delivery_loop.simps
    by (rule keeps_ebind [OF keeps_attempt]) (auto split: attempt_outcome.split intro!: s keeps_ebind keeps_rules Suc.IH)
qed

lemma keeps_send:
  assumes "ws_store svc = redis_store env"
  shows "keeps wx_transactions (sendTransactionStatusChanged env svc i tx previousStatus)"
  unfolding sendTransactionStatusChanged_def deliver_def executeDeliveryLoop_def Let_def assms
  by (intro keeps_rules keeps_delivery assms)

text \<open>A new status is never lost to its notification. When the row exists and the database works, the update
  returns, and the row has the new status, whatever the delivery of the webhook does; a failed or impossible
  delivery shows in the result only. An update to the status that the row has changes and sends nothing.
\<close>
theorem status_update_survives_webhook:
  assumes "\<And>w. \<exists>w'. we_db env w = (Inr (), w')" "js_get (wx_transactions s) i = Some old"
    and "ws_store svc = redis_store env"
  shows "\<exists>tx d s'. updateTransactionStatusAndNotify env svc i nextStatus s = (Inr (tx, d), s') \<and> tx_status tx = nextStatus
    \<and> js_get (wx_transactions s') i = Some tx
    \<and> (if tx_status old = nextStatus
       then d = skipped_result \<and> tx = old \<and> wx_transactions s' = wx_transactions s \<and> wx_trace s' = wx_trace s
       else tx = old\<lparr>tx_status := nextStatus, tx_updatedAt := tx_updatedAt tx\<rparr>)"
proof -
  obtain w where w: "we_db env (wx_world s) = (Inr (), w)" using assms(1) by blast
  have f: "find_tx env i s = (Inr (Some old), s\<lparr>wx_world := w\<rparr>)"
    using w assms(2) by (simp add: find_tx_def wcall_def eff_defs)
  show ?thesis
  proof (cases "tx_status old = nextStatus")
    case True
    then show ?thesis using f assms(2) by (auto simp: updateTransactionStatusAndNotify_def eff_defs)
  next
    case False
    obtain w' where w': "we_db env w = (Inr (), w')" using assms(1) by blast
    define new where "new = old\<lparr>tx_status := nextStatus, tx_updatedAt := we_now env w'\<rparr>"
    define s1 where "s1 = s\<lparr>wx_world := w', wx_transactions := js_set i new (wx_transactions s)\<rparr>"
    have u: "update_tx env i nextStatus (s\<lparr>wx_world := w\<rparr>) = (Inr new, s1)"
      using w' assms(2) by (simp add: update_tx_def wcall_def wclock_def eff_defs new_def s1_def Let_def)
    obtain s2 where a: "announce i new nextStatus s1 = (Inr (), s2)" "wx_transactions s2 = wx_transactions s1"
      by (simp add: announce_def wtrace_def eff_defs)
    define m where "m = sendTransactionStatusChanged env svc i new (tx_status old) s2"
    have k: "wx_transactions (snd m) = wx_transactions s1"
      using keepsD [OF keeps_send [OF assms(3)], of i new "tx_status old" s2] a(2) by (simp add: m_def)
    have "updateTransactionStatusAndNotify env svc i nextStatus s = (case m of
        (Inr d, s3) \<Rightarrow> (Inr (new, d), s3)
      | (Inl e, s3) \<Rightarrow> (Inr (new, failed_delivery 1 None None (case error_message e of Some x \<Rightarrow> x | None \<Rightarrow> ''Unknown webhook error'')), s3))"
      using False f u a(1) by (auto simp: updateTransactionStatusAndNotify_def eff_defs m_def split: prod.splits sum.splits)
    then show ?thesis using False k
      by (cases m; cases "fst m") (auto simp: new_def s1_def)
  qed
qed

section \<open>Witnesses\<close>

definition demo_config :: webhook_config where
  "demo_config = \<lparr>wc_url = Some ''https://partner'', wc_secret = Some ''secret'', wc_timeoutMs = 5000, wc_maxRetries = 0,
     wc_retryDelayMs = 500\<rparr>"

definition demo_payload :: webhook_payload where
  "demo_payload = \<lparr>wp_event = ''transaction.status_changed'', wp_occurredAt = [], wp_previousStatus = ''pending'',
     wp_status = ''completed'', wp_json = JNull\<rparr>"

definition demo_tx :: tx_row where
  "demo_tx = \<lparr>tx_userId = ''u1'', tx_userPublicKey = None, tx_assetCode = ''USDC'', tx_amount = ''1'', tx_type = ''DEPOSIT'',
     tx_status = ''pending'', tx_externalId = None, tx_stellarTxId = None, tx_createdAt = 0, tx_updatedAt = 0\<rparr>"

definition demo_web_state :: "nat webhook_state" where
  "demo_web_state = \<lparr>wx_memory = [], wx_transactions = [(''t1'', demo_tx)], wx_attempts = [], wx_trace = [], wx_world = 0\<rparr>"

definition demo_service :: "nat webhook_service" where
  "demo_service = \<lparr>ws_injectedConfig = None, ws_store = memory_store demo_webhooks\<rparr>"

definition demo_redis_service :: "nat webhook_service" where
  "demo_redis_service = \<lparr>ws_injectedConfig = None, ws_store = redis_store demo_webhooks\<rparr>"

definition demo_job :: retry_bull_job where
  "demo_job = \<lparr>bj_id = Some ''j'', bj_data = retry_job_of demo_payload [] ''t1'' demo_config ''k'' ''h'' 1, bj_attemptsMade = 0,
     bj_attempts = None\<rparr>"

lemma delivery_settled_once_witness:
  "\<exists>d s' fx. executeDeliveryLoop demo_webhooks demo_redis_service demo_payload ''t1'' demo_config ''k'' demo_web_state = (Inr d, s')
    \<and> wx_trace s' = wx_trace demo_web_state @ fx
    \<and> dl_attempts d = int (length (posts fx)) \<and> dl_attempts d \<le> wc_maxRetries demo_config + 1
    \<and> (if dl_skipped d then fx = [] \<and> \<not> dl_delivered d
       else 1 \<le> dl_attempts d \<and> settlements fx = [let hash = buildWebhookDeliveryHash demo_webhooks ''k'' (text_or_undefined (wc_url demo_config)) in
          if dl_delivered d then Marked hash
          else Enqueued (retry_job_of demo_payload (json_stringify (wp_json demo_payload)) ''t1'' demo_config ''k'' hash (dl_attempts d))])"
  by (rule delivery_settled_once) (simp_all add: demo_redis_service_def demo_config_def)

text \<open>The demo partner accepts every request.\<close>

lemma demo_loop:
  "\<exists>d s1. delivery_loop demo_webhooks demo_service demo_payload body ''t1'' demo_config ''k'' h (Suc 0) 1 seen s = (Inr d, s1)
     \<and> dl_delivered d"
  by (simp add: performRequestAttempt_def post_def wtrace_def wcall_def wclock_def eff_defs demo_config_def demo_webhooks_def
      answer_outcome_def settle_final_def demo_service_def memory_store_def memory_mark_def)

lemma demo_delivered:
  "\<exists>d s1. executeDeliveryLoop demo_webhooks demo_service demo_payload ''t1'' demo_config ''k'' demo_web_state = (Inr d, s1)
     \<and> dl_delivered d"
proof -
  have "nat (wc_maxRetries demo_config + 1) = Suc 0" by (simp add: demo_config_def)
  then show ?thesis
    using demo_loop [of "json_stringify (wp_json demo_payload)"
        "buildWebhookDeliveryHash demo_webhooks ''k'' (text_or_undefined (wc_url demo_config))" "(None, None, None)" demo_web_state]
    by (simp add: executeDeliveryLoop_def demo_service_def memory_store_def memory_has_def eff_defs Let_def demo_web_state_def)
qed

lemma repeated_transition_skipped_witness:
  "\<exists>s1. executeDeliveryLoop demo_webhooks demo_service demo_payload ''t1'' demo_config ''k'' s1 = (Inr skipped_result, s1)"
proof -
  obtain d s1 where d: "executeDeliveryLoop demo_webhooks demo_service demo_payload ''t1'' demo_config ''k'' demo_web_state = (Inr d, s1)"
      "dl_delivered d" using demo_delivered by blast
  have "executeDeliveryLoop demo_webhooks demo_service demo_payload ''t1'' demo_config ''k'' s1 = (Inr skipped_result, s1)"
    by (rule repeated_transition_skipped [OF _ d]) (simp_all add: demo_service_def)
  then show ?thesis by blast
qed

lemma demo_retry: "\<exists>x s'. processJob demo_webhooks demo_job demo_web_state = (Inr x, s')"
  by (simp add: processJob_def wclock_def post_def wtrace_def wcall_def eff_defs demo_webhooks_def push_attempt_def Let_def)

lemma delivered_retry_sent_again_witness:
  "\<exists>s' d s'' fx. executeDeliveryLoop demo_webhooks demo_service demo_payload ''t1'' demo_config ''k'' s' = (Inr d, s'')
    \<and> wx_trace s'' = wx_trace s' @ fx \<and> \<not> dl_skipped d \<and> posts fx \<noteq> [] \<and> settlements fx \<noteq> []"
proof -
  obtain x s' where r: "processJob demo_webhooks demo_job demo_web_state = (Inr x, s')" using demo_retry by blast
  have "\<exists>d s'' fx. executeDeliveryLoop demo_webhooks demo_service demo_payload ''t1'' demo_config ''k'' s' = (Inr d, s'')
    \<and> wx_trace s'' = wx_trace s' @ fx \<and> \<not> dl_skipped d \<and> posts fx \<noteq> [] \<and> settlements fx \<noteq> []"
    by (rule delivered_retry_sent_again [OF r]) (simp_all add: demo_web_state_def demo_service_def demo_config_def)
  then show ?thesis by blast
qed

lemma status_update_survives_webhook_witness:
  "\<exists>tx d s'. updateTransactionStatusAndNotify demo_webhooks demo_redis_service ''t1'' ''completed'' demo_web_state = (Inr (tx, d), s')
    \<and> tx_status tx = ''completed'' \<and> js_get (wx_transactions s') ''t1'' = Some tx
    \<and> (if tx_status demo_tx = ''completed''
        then d = skipped_result \<and> tx = demo_tx \<and> wx_transactions s' = wx_transactions demo_web_state \<and> wx_trace s' = wx_trace demo_web_state
        else tx = demo_tx\<lparr>tx_status := ''completed'', tx_updatedAt := tx_updatedAt tx\<rparr>)"
  by (rule status_update_survives_webhook) (simp_all add: demo_webhooks_def demo_redis_service_def demo_web_state_def)

end
