(* ===== verification/Monitor_Props.thy ===== *)
theory Monitor_Props
  imports Event_Monitor
begin

text \<open>
  Properties of the event monitor: the one offset that all subscriptions share orders what is posted, and what
  that means for subscriptions of several accounts.
\<close>

section \<open>The order of texts\<close>

lemma text_le_refl [simp]: "text_le a a"
  by (induction a) auto

lemma text_le_trans: "text_le a b \<Longrightarrow> text_le b c \<Longrightarrow> text_le a c"
proof (induction a b arbitrary: c rule: text_le.induct)
  case (3 x a y b)
  then show ?case by (cases c) (auto split: if_splits)
qed (auto elim: text_le.elims)

lemma text_le_total: "text_le a b \<or> text_le b a"
  by (induction a b rule: text_le.induct) auto

definition text_less :: "string \<Rightarrow> string \<Rightarrow> bool" where
  "text_less a b \<longleftrightarrow> \<not> text_le b a"

lemma text_less_trans: "text_less a b \<Longrightarrow> text_less b c \<Longrightarrow> text_less a c"
  unfolding text_less_def using text_le_total text_le_trans by blast

lemma text_less_irrefl: "\<not> text_less a a"
  by (simp add: text_less_def)

section \<open>First posts\<close>

text \<open>The paging tokens of the events that were posted for the first time, in order.\<close>

definition first_tokens :: "(string \<times> horizon_event \<times> int) list \<Rightarrow> string list" where
  "first_tokens ps = List.map (\<lambda>(_, e, _). ev_paging_token e) (List.filter (\<lambda>(_, _, a). a = 1) ps)"

lemma first_tokens_simps [simp]:
  "first_tokens [] = []" "first_tokens (xs @ ys) = first_tokens xs @ first_tokens ys"
  "first_tokens [(i, e, a)] = (if a = 1 then [ev_paging_token e] else [])"
  by (simp_all add: first_tokens_def)

text \<open>
  From a time when the first posts were \<open>base\<close> and the offset \<open>l\<close>: the first posts since then have rising
  tokens above \<open>l\<close> and at most the offset of now; timers hold later attempts only.
\<close>

definition at_least :: "string \<Rightarrow> string option \<Rightarrow> bool" where
  "at_least l o' \<longleftrightarrow> (case o' of None \<Rightarrow> l = [] | Some l' \<Rightarrow> text_le l l')"

definition follows :: "string \<Rightarrow> string list \<Rightarrow> 'w monitor \<Rightarrow> bool" where
  "follows l base s \<longleftrightarrow> at_least l (mo_lastLedger s) \<and> (\<forall>(_, _, a) \<in> set (mo_timers s). 2 \<le> a)
     \<and> (\<exists>new. first_tokens (mo_posted s) = base @ new \<and> sorted_wrt text_less new
          \<and> (\<forall>y \<in> set new. text_less l y \<and> at_least y (mo_lastLedger s)))"

lemma follows_frame:
  "follows l base s \<Longrightarrow> mo_posted s' = mo_posted s \<Longrightarrow> mo_lastLedger s' = mo_lastLedger s
     \<Longrightarrow> set (mo_timers s') \<subseteq> set (mo_timers s) \<Longrightarrow> follows l base s'"
  unfolding follows_def by auto

text \<open>Horizon's tokens are not empty.\<close>

definition tokens_given :: "'w monitor_env \<Rightarrow> bool" where
  "tokens_given env \<longleftrightarrow> (\<forall>u w es w'. me_get env u w = (Inr es, w') \<longrightarrow> (\<forall>e \<in> set es. ev_paging_token e \<noteq> []))"

lemma deliver_event_state:
  "\<exists>s'. deliver_event env sub event attempt s = (Inr (), s') \<and> mo_posted s' = mo_posted s @ [(sb_id sub, event, attempt)]
    \<and> mo_lastLedger s' = mo_lastLedger s \<and> mo_subscriptions s' = mo_subscriptions s
    \<and> (mo_timers s' = mo_timers s \<or> mo_timers s' = mo_timers s @ [(sub, event, attempt + 1)])"
  by (auto simp: deliver_event_def mcall_def eff_defs split: prod.splits sum.splits)

text \<open>A record is posted when it is new to the offset, and the offset moves to it.\<close>

lemma above_offset:
  assumes "\<not> seen_before event o'" "ev_paging_token event \<noteq> []" "at_least y o'"
  shows "text_less y (ev_paging_token event) \<or> y = []"
proof (cases o')
  case None
  then show ?thesis using assms(3) by (simp add: at_least_def)
next
  case (Some l)
  then have y: "text_le y l" using assms(3) by (simp add: at_least_def)
  show ?thesis
  proof (cases "l = []")
    case True
    then show ?thesis using y by (cases y) auto
  next
    case False
    then have "truthy_str (Some l) = Some l" by (cases l) (simp_all add: truthy_str_def)
    then have "\<not> text_le (ev_paging_token event) l" using assms(1) Some by (simp add: seen_before_def)
    then show ?thesis using y text_le_trans unfolding text_less_def by blast
  qed
qed

lemma text_less_Nil: "text_less [] y \<longleftrightarrow> y \<noteq> []"
  by (cases y) (simp_all add: text_less_def)

lemma text_less_le: "text_less a b \<Longrightarrow> text_le a b"
  using text_le_total unfolding text_less_def by blast

lemma follows_record:
  assumes "follows l base s" "\<not> seen_before event (mo_lastLedger s)" "ev_paging_token event \<noteq> []"
    and "deliver_event env sub event 1 s = (Inr (), s')"
  shows "follows l base (s'\<lparr>mo_lastLedger := Some (ev_paging_token event)\<rparr>)"
proof -
  define t where "t = ev_paging_token event"
  have d: "mo_posted s' = mo_posted s @ [(sb_id sub, event, 1)]"
      "mo_timers s' = mo_timers s \<or> mo_timers s' = mo_timers s @ [(sub, event, 2)]"
    using deliver_event_state [of env sub event 1 s] assms(4) by auto
  obtain new where new: "first_tokens (mo_posted s) = base @ new" "sorted_wrt text_less new"
      "\<forall>y \<in> set new. text_less l y \<and> at_least y (mo_lastLedger s)" "at_least l (mo_lastLedger s)"
    using assms(1) unfolding follows_def by blast
  have above: "text_less y t" if "at_least y (mo_lastLedger s)" for y
    using above_offset [OF assms(2,3) that] text_less_Nil assms(3) by (auto simp: t_def)
  have "sorted_wrt text_less (new @ [t])" "\<forall>y \<in> set (new @ [t]). text_less l y \<and> at_least y (Some t)"
    using new above text_less_le by (auto simp: sorted_wrt_append at_least_def)
  moreover have "first_tokens (mo_posted s') = base @ (new @ [t])" using new(1) d(1) by (simp add: t_def)
  moreover have "\<forall>(_, _, a) \<in> set (mo_timers s'). 2 \<le> a" using assms(1) d(2) by (auto simp: follows_def)
  moreover have "at_least l (Some t)" using above [OF new(4)] text_less_le by (simp add: at_least_def)
  ultimately show ?thesis unfolding follows_def by (auto simp: t_def)
qed

lemma follows_poll_records:
  fixes env :: "'w monitor_env"
  assumes "\<forall>e \<in> set events. ev_paging_token e \<noteq> []"
  shows "preserves (follows l base) (poll_records env sub events)"
  using assms
proof (induction events)
  case Nil
  show ?case by (simp add: keeps_rules preserves_rules)
next
  case (Cons event events)
  have ih: "follows l base s \<Longrightarrow> follows l base (snd (poll_records env sub events s))" for s :: "'w monitor"
    using Cons preservesD by auto
  show ?case unfolding preserves_def
  proof (intro allI impI)
    fix s :: "'w monitor" assume s: "follows l base s"
    show "follows l base (snd (poll_records env sub (event # events) s))"
    proof (cases "seen_before event (mo_lastLedger s) \<or> (case sb_filter sub of Some f \<Rightarrow> \<not> f event | None \<Rightarrow> False)")
      case True
      then show ?thesis using ih [OF s] by (auto simp: eff_defs)
    next
      case False
      obtain s1 where d: "deliver_event env sub event 1 s = (Inr (), s1)" using deliver_event_state by blast
      define s2 where "s2 = s1\<lparr>mo_lastLedger := Some (ev_paging_token event)\<rparr>"
      obtain r w where f: "me_writeFile env (ev_paging_token event) (mo_world s2) = (r, w)" by fastforce
      have o2: "follows l base (s2\<lparr>mo_world := w\<rparr>)"
        using follows_record [OF s _ _ d] False Cons.prems by (simp add: s2_def follows_def)
      have "snd (poll_records env sub (event # events) s) =
          (case r of Inl _ \<Rightarrow> s2\<lparr>mo_world := w\<rparr> | Inr _ \<Rightarrow> snd (poll_records env sub events (s2\<lparr>mo_world := w\<rparr>)))"
        using False d f by (auto simp: eff_defs setLastLedgerOffset_def mcall_def s2_def split: sum.split)
      then show ?thesis using ih [OF o2] o2 by (cases r) auto
    qed
  qed
qed

lemma follows_poll_subscriptions:
  fixes env :: "'w monitor_env"
  shows "tokens_given env \<Longrightarrow> preserves (follows l base) (poll_subscriptions env subs)"
proof (induction subs)
  case Nil
  show ?case by (simp add: preserves_rules)
next
  case (Cons sub subs)
  show ?case unfolding preserves_def
  proof (intro allI impI)
    fix s :: "'w monitor" assume s: "follows l base s"
    obtain r w where g: "me_get env (payments_url env sub (mo_lastLedger s)) (mo_world s) = (r, w)" by fastforce
    have o1: "follows l base (s\<lparr>mo_world := w\<rparr>)" using s by (simp add: follows_def)
    show "follows l base (snd (poll_subscriptions env (sub # subs) s))"
    proof (cases r)
      case (Inl e)
      then show ?thesis using g o1 by (simp add: eff_defs mcall_def)
    next
      case (Inr es)
      then have t: "\<forall>e \<in> set es. ev_paging_token e \<noteq> []" using Cons.prems g unfolding tokens_given_def by blast
      obtain r2 s2 where p: "poll_records env sub es (s\<lparr>mo_world := w\<rparr>) = (r2, s2)" by fastforce
      have o2: "follows l base s2" using preserves_result [OF follows_poll_records [OF t] p o1] .
      have "snd (poll_subscriptions env (sub # subs) s) = (case r2 of Inl _ \<Rightarrow> s2 | Inr _ \<Rightarrow> snd (poll_subscriptions env subs s2))"
        using Inr g p by (auto simp: eff_defs mcall_def split: sum.split)
      then show ?thesis using o2 Cons preservesD by (cases r2) auto
    qed
  qed
qed

lemma follows_step:
  assumes "tokens_given env" "follows l base s"
  shows "follows l base (monitor_step env s c)"
proof (cases c)
  case (AddSub sub)
  then show ?thesis using assms(2) by (simp add: monitor_step_def addSubscription_def eff_defs follows_def)
next
  case (RemoveSub i)
  then show ?thesis using assms(2) by (simp add: monitor_step_def removeSubscription_def eff_defs follows_def)
next
  case Stop
  then show ?thesis using assms(2) by (simp add: monitor_step_def stop_monitor_def eff_defs follows_def)
next
  case Round
  have "preserves (follows l base) (poll_round env)"
    unfolding poll_round_def by (intro preserves_rules follows_poll_subscriptions assms(1))
  then show ?thesis using Round assms(2) by (simp add: monitor_step_def preserves_def)
next
  case (Fire n)
  show ?thesis
  proof (cases "n < length (mo_timers s)")
    case True
    obtain sub event attempt where t: "mo_timers s ! n = (sub, event, attempt)" by (cases "mo_timers s ! n")
    define s1 where "s1 = s\<lparr>mo_timers := take n (mo_timers s) @ drop (Suc n) (mo_timers s)\<rparr>"
    have a: "2 \<le> attempt" using assms(2) t nth_mem [OF True] unfolding follows_def by fastforce
    have o1: "follows l base s1" using assms(2) by (auto simp: follows_def s1_def dest: in_set_takeD in_set_dropD)
    obtain s2 where d: "deliver_event env sub event attempt s1 = (Inr (), s2)" "mo_posted s2 = mo_posted s1 @ [(sb_id sub, event, attempt)]"
        "mo_lastLedger s2 = mo_lastLedger s1" "mo_timers s2 = mo_timers s1 \<or> mo_timers s2 = mo_timers s1 @ [(sub, event, attempt + 1)]"
      using deliver_event_state [of env sub event attempt s1] by auto
    have "follows l base s2" using o1 a d(2-4) by (auto simp: follows_def)
    moreover have "monitor_step env s c = s2"
      using Fire True t d(1) by (simp add: monitor_step_def fire_timer_def eff_defs s1_def)
    ultimately show ?thesis by simp
  next
    case False
    then show ?thesis using Fire assms(2) by (simp add: monitor_step_def fire_timer_def eff_defs)
  qed
qed

lemma follows_run: "tokens_given env \<Longrightarrow> follows l base s \<Longrightarrow> follows l base (foldl (monitor_step env) s cs)"
  using call_machine.run_inv [of "monitor_step env" "follows l base"] follows_step
  unfolding call_machine_def by blast

lemma sorted_distinct: "sorted_wrt text_less xs \<Longrightarrow> distinct xs"
  by (induction xs) (auto simp: text_less_irrefl)

section \<open>What the shared offset does\<close>

text \<open>All subscriptions share one offset, so the first posts of the monitor have strictly rising paging
  tokens over all of them, as texts, in every run of rounds, timers and changes of the subscriptions: an event
  is posted for the first time at most once. Of two subscriptions of one account, one gets it.
\<close>
theorem event_goes_to_one_subscription:
  assumes "tokens_given env" "mo_posted s = []" "mo_timers s = []"
  shows "sorted_wrt text_less (first_tokens (mo_posted (foldl (monitor_step env) s cs)))
    \<and> distinct (first_tokens (mo_posted (foldl (monitor_step env) s cs)))"
proof -
  have "at_least [] o'" for o' by (simp add: at_least_def split: option.split)
  then have "follows [] [] s" using assms(2,3) by (simp add: follows_def)
  then have "follows [] [] (foldl (monitor_step env) s cs)" by (rule follows_run [OF assms(1)])
  then have "sorted_wrt text_less (first_tokens (mo_posted (foldl (monitor_step env) s cs)))" by (auto simp: follows_def)
  then show ?thesis using sorted_distinct by blast
qed

text \<open>An event behind the offset is lost. Once the offset has passed the paging token of an event that was
  not posted, as it does when an account polled earlier in the round has a later payment, no run of the
  monitor ever posts that event.
\<close>
theorem event_behind_offset_lost:
  assumes "tokens_given env" "mo_lastLedger s = Some l" "text_le token l" "token \<notin> set (first_tokens (mo_posted s))"
    and "\<forall>(_, _, a) \<in> set (mo_timers s). 2 \<le> a"
  shows "token \<notin> set (first_tokens (mo_posted (foldl (monitor_step env) s cs)))"
proof -
  have "follows l (first_tokens (mo_posted s)) s" using assms(2,5) by (simp add: follows_def at_least_def)
  then have "follows l (first_tokens (mo_posted s)) (foldl (monitor_step env) s cs)" by (rule follows_run [OF assms(1)])
  then show ?thesis using assms(3,4) by (auto simp: follows_def text_less_def)
qed

section \<open>Witnesses\<close>

text \<open>Two accounts: the payment of the second is the older one, and the first is polled first.\<close>

definition demo_horizon :: "nat monitor_env" where
  "demo_horizon = \<lparr>me_get = (\<lambda>u w. (Inr (if u = ''h/accounts/GA/payments?order=asc&cursor=10''
         then [\<lparr>ev_paging_token = ''12'', ev_json = JNull\<rparr>] else [\<lparr>ev_paging_token = ''11'', ev_json = JNull\<rparr>]), w)),
     me_post = (\<lambda>_ w. (Inr (), w)), me_readFile = (\<lambda>w. (Inr [], w)), me_writeFile = (\<lambda>_ w. (Inr (), w)),
     me_now = (\<lambda>_. 0), me_hmac = (\<lambda>k m. m), me_secret = None, me_horizonUrl = ''h''\<rparr>"

definition demo_sub :: "string \<Rightarrow> string \<Rightarrow> subscription" where
  "demo_sub i a = \<lparr>sb_id = i, sb_account = a, sb_webhookUrl = ''p'', sb_secret = None, sb_filter = None\<rparr>"

definition demo_polling :: "nat monitor" where
  "demo_polling = \<lparr>mo_subscriptions = [(''1'', demo_sub ''1'' ''GA''), (''2'', demo_sub ''2'' ''GB'')], mo_polling = True,
     mo_lastLedger = Some ''10'', mo_timers = [], mo_failed = [], mo_posted = [], mo_world = 0\<rparr>"

lemma demo_tokens: "tokens_given demo_horizon"
  by (auto simp: tokens_given_def demo_horizon_def split: if_splits)

lemma event_goes_to_one_subscription_witness:
  "sorted_wrt text_less (first_tokens (mo_posted (foldl (monitor_step demo_horizon) demo_polling [Round, Round])))
    \<and> distinct (first_tokens (mo_posted (foldl (monitor_step demo_horizon) demo_polling [Round, Round])))"
  by (rule event_goes_to_one_subscription [OF demo_tokens]) (simp_all add: demo_polling_def)

lemma demo_round:
  "mo_lastLedger (monitor_step demo_horizon demo_polling Round) = Some ''12''
    \<and> mo_timers (monitor_step demo_horizon demo_polling Round) = []
    \<and> first_tokens (mo_posted (monitor_step demo_horizon demo_polling Round)) = [''12'']"
  by code_simp

lemma event_behind_offset_lost_witness:
  "''11'' \<notin> set (first_tokens (mo_posted (foldl (monitor_step demo_horizon) (monitor_step demo_horizon demo_polling Round) [Round, Round])))"
  by (rule event_behind_offset_lost [OF demo_tokens, where l = "''12''"]) (use demo_round in simp_all)

end
