(* ===== verification/Pii_Crypto.thy ===== *)
theory Pii_Crypto
  imports Effects Batch_Types Js_Bytes
begin

text \<open>
  Personal data at rest: \<open>services/crypto.service.ts\<close> (AES-256-GCM, the payload format and the Prisma
  middleware that encrypts on write and decrypts on read), the filter of soft-deleted rows of
  \<open>lib/soft-delete.ts\<close>, and the connection retries of \<open>lib/prisma.ts\<close>. The cipher of Node's \<open>crypto\<close>,
  its source of random bytes and the database behind the middleware are parameters.
\<close>

section \<open>The service\<close>

text \<open>\<open>sealed\<close> is \<open>createCipheriv\<close>, \<open>update\<close>, \<open>final\<close> and \<open>getAuthTag\<close>: the ciphertext and the tag of a text; \<open>random_bytes\<close> is \<open>randomBytes\<close>, by the
  length and how often it was called;
  \<open>decipher\<close> is \<open>createDecipheriv\<close> with \<open>setAuthTag\<close>, \<open>opened\<close> its \<open>update\<close> and \<open>final\<close>.\<close>

record cipher_env =
  random_bytes :: "nat \<Rightarrow> nat \<Rightarrow> string"
  sealed :: "string \<Rightarrow> string \<Rightarrow> string \<Rightarrow> js_error + string \<times> string"
  decipher :: "string \<Rightarrow> string \<Rightarrow> string \<Rightarrow> js_error + unit"
  opened :: "string \<Rightarrow> string \<Rightarrow> string \<Rightarrow> string \<Rightarrow> js_error + string"

text \<open>The state: how many times random bytes were drawn, and the database.\<close>

record 'd pii_world =
  drawn :: nat
  database :: 'd

type_synonym ('d, 'a) pii = "('d pii_world, js_error, 'a) eff"

definition crypto_key :: "string option \<Rightarrow> js_error + string" where
  "crypto_key encryption_key =
     (let keyString = (case truthy_str encryption_key of Some k \<Rightarrow> k | None \<Rightarrow> ''12345678901234567890123456789012'') in
      if length keyString \<noteq> 32 then Inl (PlainError ''ENCRYPTION_KEY must be exactly 32 bytes long'') else Inr keyString)"

record crypto_service =
  cs_key :: string
  cs_env :: cipher_env

record encrypted =
  encryptedData :: string
  enc_iv :: string

definition draw_iv :: "crypto_service \<Rightarrow> ('d, string) pii" where
  "draw_iv cs = ebind (eget drawn) (\<lambda>n. ebind (emodify (\<lambda>s. s\<lparr>drawn := Suc (drawn s)\<rparr>)) (\<lambda>_.
     ereturn (random_bytes (cs_env cs) 16 n)))"

definition encrypt :: "crypto_service \<Rightarrow> string \<Rightarrow> ('d, encrypted) pii" where
  "encrypt cs plain = ebind (draw_iv cs) (\<lambda>iv.
     ebind (elift (sealed (cs_env cs) (cs_key cs) iv plain)) (\<lambda>(ct, authTag).
     ereturn \<lparr>encryptedData = hex ct @ '':'' @ hex authTag, enc_iv = hex iv\<rparr>))"

text \<open>\<open>update(text, 'hex')\<close> refuses an odd number of digits.\<close>

definition invalid_data :: js_error where
  "invalid_data = OtherErr ''TypeError'' ''The argument 'encoding' is invalid for data of this length''
     (Some ''ERR_INVALID_ARG_VALUE'') None None None None None"

definition decrypt :: "crypto_service \<Rightarrow> string \<Rightarrow> string \<Rightarrow> js_error + string" where
  "decrypt cs encryptedDataWithTag ivHex =
     (let bad = Inl (PlainError ''Invalid encrypted data format. Expected encryptedText:authTag'') in
      case split_char (CHR '':'') encryptedDataWithTag of
        encryptedText # authTagHex # _ \<Rightarrow>
          if encryptedText = [] \<or> authTagHex = [] then bad
          else (let iv = hex_decode ivHex; authTag = hex_decode authTagHex in
            case decipher (cs_env cs) (cs_key cs) iv authTag of
              Inl e \<Rightarrow> Inl e
            | Inr _ \<Rightarrow> if odd (length encryptedText) then Inl invalid_data
                else opened (cs_env cs) (cs_key cs) iv authTag (hex_decode encryptedText))
      | _ \<Rightarrow> bad)"

definition encryptPii :: "crypto_service \<Rightarrow> string \<Rightarrow> ('d, string) pii" where
  "encryptPii cs plaintext = ebind (encrypt cs plaintext) (\<lambda>e. ereturn (enc_iv e @ '':'' @ encryptedData e))"

definition decryptPii :: "crypto_service \<Rightarrow> string \<Rightarrow> js_error + string" where
  "decryptPii cs payload = (case split_first (CHR '':'') payload of
     None \<Rightarrow> Inl (PlainError ''Invalid PII payload format'')
   | Some (ivHex, rest) \<Rightarrow> decrypt cs rest ivHex)"

definition hex32 :: "string \<Rightarrow> bool" where
  "hex32 s \<longleftrightarrow> length s = 32 \<and> list_all (\<lambda>c. hex_value c \<noteq> None) s"

definition isEncrypted :: "string \<Rightarrow> bool" where
  "isEncrypted value \<longleftrightarrow> (case split_char (CHR '':'') value of
     [a, b, c] \<Rightarrow> hex32 a \<and> b \<noteq> [] \<and> hex32 c | _ \<Rightarrow> False)"

section \<open>The fields of a record\<close>

type_synonym plain_object = "(string \<times> json) list"

definition PII_FIELDS :: "string \<Rightarrow> string list option" where
  "PII_FIELDS model = (if model = ''KycCustomer'' then Some [''firstName'', ''lastName'', ''email'']
     else if model = ''User'' then Some [''email'', ''phone''] else None)"

text \<open>\<open>{ ...v }\<close>: an array gives its indices as keys, and a text its characters.\<close>

definition spread :: "json \<Rightarrow> plain_object" where
  "spread v = (case v of JObj ps \<Rightarrow> ps
     | JArr xs \<Rightarrow> zip (List.map show_nat [0..<length xs]) xs
     | JStr s \<Rightarrow> zip (List.map show_nat [0..<length s]) (List.map (\<lambda>c. JStr [c]) s)
     | _ \<Rightarrow> [])"

fun encrypt_fields :: "crypto_service \<Rightarrow> string list \<Rightarrow> plain_object \<Rightarrow> ('d, plain_object) pii" where
  "encrypt_fields cs [] result = ereturn result"
| "encrypt_fields cs (field # fs) result = (case js_get result field of
     Some (JStr value) \<Rightarrow>
       if value \<noteq> [] then ebind (encryptPii cs value) (\<lambda>e. encrypt_fields cs fs (js_set field (JStr e) result))
       else encrypt_fields cs fs result
   | _ \<Rightarrow> encrypt_fields cs fs result)"

definition encryptPiiFields :: "crypto_service \<Rightarrow> string \<Rightarrow> json \<Rightarrow> ('d, json) pii" where
  "encryptPiiFields cs model data = (case PII_FIELDS model of
     None \<Rightarrow> ereturn data
   | Some fs \<Rightarrow> ebind (encrypt_fields cs fs (spread data)) (\<lambda>result. ereturn (JObj result)))"

fun decrypt_fields :: "crypto_service \<Rightarrow> string list \<Rightarrow> plain_object \<Rightarrow> plain_object" where
  "decrypt_fields cs [] result = result"
| "decrypt_fields cs (field # fs) result = (case js_get result field of
     Some (JStr value) \<Rightarrow>
       if value \<noteq> [] then
         (case decryptPii cs value of
            Inr plain \<Rightarrow> decrypt_fields cs fs (js_set field (JStr plain) result)
          | Inl _ \<Rightarrow> decrypt_fields cs fs result)
       else decrypt_fields cs fs result
   | _ \<Rightarrow> decrypt_fields cs fs result)"

definition decryptPiiFields :: "crypto_service \<Rightarrow> string \<Rightarrow> json \<Rightarrow> json" where
  "decryptPiiFields cs model record' = (case PII_FIELDS model of
     None \<Rightarrow> record'
   | Some fs \<Rightarrow> JObj (decrypt_fields cs fs (spread record')))"

section \<open>The middleware\<close>

record middleware_params =
  mp_model :: "string option"
  mp_action :: string
  mp_args :: plain_object

definition is_object :: "json \<Rightarrow> bool" where
  "is_object v = (case v of JObj _ \<Rightarrow> True | JArr _ \<Rightarrow> True | _ \<Rightarrow> False)"

definition arg :: "string \<Rightarrow> plain_object \<Rightarrow> json" where
  "arg k args = (case js_get args k of Some v \<Rightarrow> v | None \<Rightarrow> JUndef)"

text \<open>One property of the arguments, replaced by its encryption when the test holds.\<close>

definition encrypt_arg :: "crypto_service \<Rightarrow> string \<Rightarrow> (json \<Rightarrow> bool) \<Rightarrow> string \<Rightarrow> plain_object \<Rightarrow> ('d, plain_object) pii" where
  "encrypt_arg cs model p k args =
     (if p (arg k args) then ebind (encryptPiiFields cs model (arg k args)) (\<lambda>v. ereturn (js_set k v args))
      else ereturn args)"

definition encrypt_many :: "crypto_service \<Rightarrow> string \<Rightarrow> plain_object \<Rightarrow> ('d, plain_object) pii" where
  "encrypt_many cs model args = (case arg ''data'' args of
     JArr items \<Rightarrow> ebind (eff_list (encryptPiiFields cs model) items) (\<lambda>vs. ereturn (js_set ''data'' (JArr vs) args))
   | _ \<Rightarrow> encrypt_arg cs model is_object ''data'' args)"

definition encrypt_write :: "crypto_service \<Rightarrow> middleware_params \<Rightarrow> ('d, plain_object) pii" where
  "encrypt_write cs params =
     (let model = (case mp_model params of Some m \<Rightarrow> m | None \<Rightarrow> []); action = mp_action params in
      ebind (if action \<in> {''create'', ''update''} then encrypt_arg cs model is_object ''data'' (mp_args params)
             else ereturn (mp_args params)) (\<lambda>args.
      ebind (if action = ''upsert''
             then ebind (encrypt_arg cs model json_truthy ''create'' args) (encrypt_arg cs model json_truthy ''update'')
             else ereturn args) (\<lambda>args.
      if action \<in> {''createMany'', ''updateMany''} then encrypt_many cs model args else ereturn args)))"

definition readActions :: "string set" where
  "readActions = {''findUnique'', ''findFirst'', ''findMany'', ''findUniqueOrThrow'', ''findFirstOrThrow''}"

definition decrypt_read :: "crypto_service \<Rightarrow> middleware_params \<Rightarrow> json \<Rightarrow> json" where
  "decrypt_read cs params result =
     (let model = (case mp_model params of Some m \<Rightarrow> m | None \<Rightarrow> []) in
      if mp_action params \<in> readActions then
        (case result of
           JArr rows \<Rightarrow> JArr (List.map (\<lambda>r. if is_object r then decryptPiiFields cs model r else r) rows)
         | _ \<Rightarrow> if is_object result then decryptPiiFields cs model result else result)
      else result)"

definition piiEncryptionMiddleware ::
  "crypto_service \<Rightarrow> middleware_params \<Rightarrow> (middleware_params \<Rightarrow> ('d, json) pii) \<Rightarrow> ('d, json) pii" where
  "piiEncryptionMiddleware cs params nextFn =
     ebind (encrypt_write cs params) (\<lambda>args.
     ebind (nextFn (params\<lparr>mp_args := args\<rparr>)) (\<lambda>result.
     ereturn (decrypt_read cs params result)))"

section \<open>Soft deletion\<close>

definition SOFT_DELETE_READ_OPERATIONS :: "string list" where
  "SOFT_DELETE_READ_OPERATIONS =
     [''findUnique'', ''findUniqueOrThrow'', ''findFirst'', ''findFirstOrThrow'', ''findMany'', ''count'']"

text \<open>\<open>args?.where ?? {}\<close>.\<close>

definition where_clause :: "plain_object \<Rightarrow> plain_object" where
  "where_clause args = spread (arg ''where'' args)"

definition excludeSoftDeleted :: "plain_object \<Rightarrow> plain_object" where
  "excludeSoftDeleted args = (let w = where_clause args in
     if js_get w ''deletedAt'' \<noteq> None then args
     else js_set ''where'' (JObj (js_set ''deletedAt'' JNull w)) args)"

definition softDeleteExtension :: "string \<Rightarrow> plain_object \<Rightarrow> (plain_object \<Rightarrow> 'r) \<Rightarrow> 'r" where
  "softDeleteExtension operation args query =
     (if operation \<in> set SOFT_DELETE_READ_OPERATIONS then query (excludeSoftDeleted args) else query args)"

section \<open>Connecting\<close>

definition MAX_CONNECT_RETRIES :: nat where
  "MAX_CONNECT_RETRIES = 5"

definition CONNECT_RETRY_BASE_MS :: rat where
  "CONNECT_RETRY_BASE_MS = 2000"

text \<open>The delay after an attempt, for the value of \<open>Math.random()\<close>.\<close>

definition connect_delay :: "nat \<Rightarrow> rat \<Rightarrow> rat" where
  "connect_delay attempt r = CONNECT_RETRY_BASE_MS * 2 ^ (attempt - 1) * (1 / 2 + r * (1 / 2))"

text \<open>The attempts of \<open>connectWithRetry\<close> that are left, with the outcome of each and the delays between them.\<close>

function connect_from :: "(nat \<Rightarrow> js_error + unit) \<Rightarrow> (nat \<Rightarrow> rat) \<Rightarrow> nat \<Rightarrow> (js_error + unit) \<times> rat list" where
  "connect_from connect rnd attempt =
     (if attempt > MAX_CONNECT_RETRIES then (Inr (), [])
      else case connect attempt of
        Inr _ \<Rightarrow> (Inr (), [])
      | Inl e \<Rightarrow> if attempt = MAX_CONNECT_RETRIES then (Inl e, [])
          else (case connect_from connect rnd (attempt + 1) of (r, ds) \<Rightarrow> (r, connect_delay attempt (rnd attempt) # ds)))"
  by pat_completeness auto
termination by (relation "measure (\<lambda>(_, _, attempt). Suc MAX_CONNECT_RETRIES - attempt)") auto

declare connect_from.simps [simp del]

definition connectWithRetry :: "(nat \<Rightarrow> js_error + unit) \<Rightarrow> (nat \<Rightarrow> rat) \<Rightarrow> (js_error + unit) \<times> rat list" where
  "connectWithRetry connect rnd = connect_from connect rnd 1"

section \<open>Payloads\<close>

text \<open>What Node documents of AES-GCM: a ciphertext opens to its text under the same key, IV and tag, is as long
  as the text's bytes, and the tag is not empty.\<close>

definition cipher_laws :: "crypto_service \<Rightarrow> bool" where
  "cipher_laws cs \<longleftrightarrow> (\<forall>iv plain ct tag. sealed (cs_env cs) (cs_key cs) iv plain = Inr (ct, tag) \<longrightarrow>
     decipher (cs_env cs) (cs_key cs) iv tag = Inr () \<and> opened (cs_env cs) (cs_key cs) iv tag ct = Inr plain \<and>
     tag \<noteq> [] \<and> (ct = [] \<longleftrightarrow> plain = []))"

lemma hex_not_in:
  "\<not> is_hex c \<Longrightarrow> c \<notin> set (hex bs)"
  using hex_is_hex [of bs] by (auto simp: list_all_iff)

lemma colon_not_hex [simp]: "CHR '':'' \<notin> set (hex bs)" "CHR ''@'' \<notin> set (hex bs)"
  by (simp_all add: hex_not_in is_hex_def)

lemma encryptPii_form:
  assumes "encryptPii cs v s = (Inr e, s')"
  obtains iv ct tag where "sealed (cs_env cs) (cs_key cs) iv v = Inr (ct, tag)"
    "e = hex iv @ '':'' @ hex ct @ '':'' @ hex tag"
  using assms by (auto simp: encryptPii_def encrypt_def draw_iv_def eff_defs split: sum.splits)

lemma decryptPii_payload:
  "decryptPii cs (hex iv @ '':'' @ hex ct @ '':'' @ hex tag) = (if ct = [] \<or> tag = []
     then Inl (PlainError ''Invalid encrypted data format. Expected encryptedText:authTag'')
     else case decipher (cs_env cs) (cs_key cs) iv tag of Inl e \<Rightarrow> Inl e
       | Inr _ \<Rightarrow> opened (cs_env cs) (cs_key cs) iv tag ct)"
proof -
  have p: "split_first (CHR '':'') (hex iv @ '':'' @ hex ct @ '':'' @ hex tag) = Some (hex iv, hex ct @ '':'' @ hex tag)"
    using split_first_append [of "CHR '':''" "hex iv"] by simp
  have q: "split_char (CHR '':'') (hex ct @ '':'' @ hex tag) = [hex ct, hex tag]"
    using split_char_append [of "CHR '':''" "hex ct" "hex tag"] split_char_none [of "CHR '':''" "hex tag"] by simp
  show ?thesis
    unfolding decryptPii_def p option.case prod.case decrypt_def q list.case Let_def
    by (simp add: hex_empty length_hex split: sum.split)
qed

lemma decrypt_encrypt:
  assumes "cipher_laws cs" "encryptPii cs v s = (Inr e, s')" "v \<noteq> []"
  shows "decryptPii cs e = Inr v"
proof -
  obtain iv ct tag where s: "sealed (cs_env cs) (cs_key cs) iv v = Inr (ct, tag)" "e = hex iv @ '':'' @ hex ct @ '':'' @ hex tag"
    by (rule encryptPii_form [OF assms(2)])
  then have "decipher (cs_env cs) (cs_key cs) iv tag = Inr ()" "opened (cs_env cs) (cs_key cs) iv tag ct = Inr v"
    "tag \<noteq> []" "ct \<noteq> []"
    using assms(1,3) unfolding cipher_laws_def by blast+
  then show ?thesis unfolding s(2) decryptPii_payload by simp
qed

lemma encryptPii_no_at: "encryptPii cs v s = (Inr e, s') \<Longrightarrow> CHR ''@'' \<notin> set e \<and> e \<noteq> []"
  by (erule encryptPii_form) simp

section \<open>Records\<close>

lemma js_keys_set_present: "js_get m k = Some v \<Longrightarrow> js_keys (js_set k v' m) = js_keys m"
  by (rule js_keys_set) simp

lemma alist_eqI: "distinct (js_keys a) \<Longrightarrow> js_keys a = js_keys b \<Longrightarrow> map_of a = map_of b \<Longrightarrow> a = b"
proof (induction a arbitrary: b)
  case (Cons p a)
  obtain k v where p: "p = (k, v)" by (cases p)
  obtain v' b' where b: "b = (k, v') # b'" using Cons.prems(2) p by (cases b) auto
  have v: "v' = v" using fun_cong [OF Cons.prems(3), of k] p b by simp
  have "map_of a k' = map_of b' k'" for k'
  proof (cases "k' = k")
    case True
    have ks: "k \<notin> set (js_keys a)" using Cons.prems(1) p by simp
    moreover have "js_keys a = js_keys b'" using Cons.prems(2) p b by simp
    ultimately have "k \<notin> set (js_keys b')" by (simp only: simp_thms)
    then have "map_of a k = None" "map_of b' k = None" using ks unfolding map_of_eq_None_iff by simp_all
    then show ?thesis using True by simp
  next
    case False
    then show ?thesis using fun_cong [OF Cons.prems(3), of k'] p b by simp
  qed
  then have "map_of a = map_of b'" by (rule ext)
  moreover have "distinct (js_keys a)" "js_keys a = js_keys b'" using Cons.prems(1,2) p b by simp_all
  ultimately have "a = b'" using Cons.IH by blast
  then show ?case using p b v by simp
qed simp

definition encrypted_field :: "crypto_service \<Rightarrow> json option \<Rightarrow> json option \<Rightarrow> bool" where
  "encrypted_field cs v w \<longleftrightarrow> (case v of
     Some (JStr x) \<Rightarrow> if x = [] then w = v else (\<exists>e t t'. w = Some (JStr e) \<and> encryptPii cs x (t :: unit pii_world) = (Inr e, t'))
   | _ \<Rightarrow> w = v)"

lemma encryptPii_any_world:
  assumes "encryptPii cs x (s :: 'd pii_world) = (Inr e, s')"
  shows "\<exists>t t'. encryptPii cs x (t :: unit pii_world) = (Inr e, t')"
proof -
  have "fst (encryptPii cs x \<lparr>drawn = drawn s, database = ()\<rparr>) = Inr e"
    using assms by (auto simp: encryptPii_def encrypt_def draw_iv_def eff_defs split: sum.splits)
  then show ?thesis by (metis prod.collapse)
qed

definition field_kept :: "crypto_service \<Rightarrow> string list \<Rightarrow> plain_object \<Rightarrow> plain_object \<Rightarrow> string \<Rightarrow> bool" where
  "field_kept cs fs r r' k \<longleftrightarrow> (if k \<in> set fs then encrypted_field cs (js_get r k) (js_get r' k) else js_get r' k = js_get r k)"

lemma encrypt_fields_get:
  assumes "encrypt_fields cs fs r s = (Inr r', s')" "distinct fs"
  shows "js_keys r' = js_keys r \<and> (\<forall>k. field_kept cs fs r r' k)"
  using assms
proof (induction fs arbitrary: r s)
  case Nil
  then show ?case by (simp add: eff_defs field_kept_def)
next
  case (Cons f fs)
  have f: "f \<notin> set fs" "distinct fs" using Cons.prems(2) by simp_all
  show ?case
  proof (cases "\<exists>x. js_get r f = Some (JStr x) \<and> x \<noteq> []")
    case True
    then obtain x where x: "js_get r f = Some (JStr x)" "x \<noteq> []" by blast
    then obtain e t where e: "encryptPii cs x s = (Inr e, t)" "encrypt_fields cs fs (js_set f (JStr e) r) t = (Inr r', s')"
      using Cons.prems(1) by (auto simp: ebind_def split: prod.splits sum.splits)
    have ih: "js_keys r' = js_keys (js_set f (JStr e) r)" "field_kept cs fs (js_set f (JStr e) r) r' k" for k
      using Cons.IH [OF e(2) f(2)] by blast+
    have "js_get r' f = Some (JStr e)" using ih(2) [of f] f by (simp add: field_kept_def)
    then have ef: "encrypted_field cs (js_get r f) (js_get r' f)"
      using x encryptPii_any_world [OF e(1)] by (simp add: encrypted_field_def)
    have "field_kept cs (f # fs) r r' k" for k
      using ih(2) [of k] ef f by (cases "k = f") (auto simp: field_kept_def split: if_splits)
    moreover have "js_keys r' = js_keys r" using ih(1) x(1) by (simp only: js_keys_set_present)
    ultimately show ?thesis by blast
  next
    case False
    then have r: "encrypt_fields cs (f # fs) r s = encrypt_fields cs fs r s"
      by (auto split: option.splits json.splits)
    have ih: "js_keys r' = js_keys r" "field_kept cs fs r r' k" for k
      using Cons.IH [of r s] Cons.prems r f by simp_all
    have "js_get r' f = js_get r f" using ih(2) [of f] f by (simp add: field_kept_def)
    moreover have "encrypted_field cs (js_get r f) (js_get r f)"
      using False by (auto simp: encrypted_field_def split: option.split json.split)
    ultimately have "field_kept cs (f # fs) r r' k" for k
      using ih(2) [of k] by (cases "k = f") (simp_all add: field_kept_def)
    with ih(1) show ?thesis by blast
  qed
qed

definition decrypted_field :: "crypto_service \<Rightarrow> json option \<Rightarrow> json option" where
  "decrypted_field cs v = (case v of
     Some (JStr x) \<Rightarrow> if x = [] then v else (case decryptPii cs x of Inr p \<Rightarrow> Some (JStr p) | Inl _ \<Rightarrow> v) | _ \<Rightarrow> v)"

lemma decrypt_fields_get:
  "distinct fs \<Longrightarrow> js_keys (decrypt_fields cs fs r) = js_keys r \<and>
     (\<forall>k. js_get (decrypt_fields cs fs r) k = (if k \<in> set fs then decrypted_field cs (js_get r k) else js_get r k))"
proof (induction fs arbitrary: r)
  case (Cons f fs)
  define r1 where "r1 = (case decrypted_field cs (js_get r f) of Some v \<Rightarrow> js_set f v r | None \<Rightarrow> r)"
  have g: "js_get r1 k = (if k = f then decrypted_field cs (js_get r f) else js_get r k)" for k
    by (auto simp: r1_def decrypted_field_def split: option.split json.split sum.split)
  have k: "js_keys r1 = js_keys r"
    by (auto simp: r1_def decrypted_field_def js_keys_set_present split: option.split json.split sum.split)
  have same: "js_set f v r = r" if "js_get r f = Some v" for v
    using that by (induction r) auto
  have "decrypt_fields cs (f # fs) r = decrypt_fields cs fs r1"
    by (auto simp: r1_def decrypted_field_def same split: option.split json.split sum.split)
  then show ?case using Cons.IH [of r1] Cons.prems g k by auto
qed simp

lemma decrypted_encrypted:
  assumes "cipher_laws cs" "encrypted_field cs v w"
  shows "decrypted_field cs w = v"
proof (cases "\<exists>x. v = Some (JStr x) \<and> x \<noteq> []")
  case True
  then obtain x e and t t' :: "unit pii_world" where x: "v = Some (JStr x)" "x \<noteq> []" "w = Some (JStr e)" "encryptPii cs x t = (Inr e, t')"
    using assms(2) by (auto simp: encrypted_field_def)
  then show ?thesis using decrypt_encrypt [OF assms(1) x(4,2)] encryptPii_no_at [OF x(4)] by (simp add: decrypted_field_def)
next
  case False
  then have "w = v" using assms(2) by (auto simp: encrypted_field_def split: option.splits json.splits if_splits)
  with False show ?thesis by (auto simp: decrypted_field_def split: option.split json.split)
qed

lemma pii_fields_distinct: "PII_FIELDS model = Some fs \<Longrightarrow> distinct fs"
  by (auto simp: PII_FIELDS_def split: if_splits)

section \<open>Properties\<close>

lemma pii_result:
  assumes "encryptPiiFields cs model (JObj ps) s = (Inr v, s')" "PII_FIELDS model = Some fs"
  obtains r where "v = JObj r" "encrypt_fields cs fs ps s = (Inr r, s')"
  using assms by (auto simp: encryptPiiFields_def spread_def ebind_def ereturn_def split: prod.splits sum.splits)

text \<open>Encryption of a record's personal fields is undone by decryption: whatever model and whatever record
  (its keys are distinct, as in every object), what \<open>encryptPiiFields\<close> writes, \<open>decryptPiiFields\<close> reads back as
  the record that was given, with the fields it does not know, empty texts and values that are not texts
  untouched.\<close>

theorem pii_fields_roundtrip:
  assumes "cipher_laws cs" "js_wf ps" "encryptPiiFields cs model (JObj ps) s = (Inr v, s')"
  shows "decryptPiiFields cs model v = JObj ps"
proof (cases "PII_FIELDS model")
  case None
  then show ?thesis using assms(3) by (simp add: encryptPiiFields_def decryptPiiFields_def eff_defs)
next
  case (Some fs)
  obtain r where r: "v = JObj r" "encrypt_fields cs fs ps s = (Inr r, s')" by (rule pii_result [OF assms(3) Some])
  note d = pii_fields_distinct [OF Some]
  have e: "js_keys r = js_keys ps" "field_kept cs fs ps r k" for k using encrypt_fields_get [OF r(2) d] by blast+
  note g = decrypt_fields_get [OF d, of cs r]
  have "js_get (decrypt_fields cs fs r) k = js_get ps k" for k
    using spec [OF conjunct2 [OF g], of k] e(2) [of k] decrypted_encrypted [OF assms(1)]
    by (auto simp: field_kept_def split: if_splits)
  then have "map_of ps = map_of (decrypt_fields cs fs r)" by (intro ext) simp
  moreover have "js_keys ps = js_keys (decrypt_fields cs fs r)" using conjunct1 [OF g] e(1) by simp
  ultimately have "ps = decrypt_fields cs fs r" using alist_eqI assms(2) unfolding js_wf_def by blast
  then show ?thesis by (simp add: decryptPiiFields_def Some r(1) spread_def)
qed

text \<open>A cipher that keeps the text, for the witnesses.\<close>

definition open_cipher :: cipher_env where
  "open_cipher = \<lparr>random_bytes = \<lambda>bytes n. [char_of n], sealed = \<lambda>k iv t. Inr (t, k),
     decipher = \<lambda>k iv tag. if tag = k then Inr () else Inl invalid_data, opened = \<lambda>k iv tag ct. Inr ct\<rparr>"

definition open_service :: crypto_service where
  "open_service = \<lparr>cs_key = ''key'', cs_env = open_cipher\<rparr>"

lemma open_service_laws: "cipher_laws open_service"
  by (simp add: cipher_laws_def open_service_def open_cipher_def)

definition a_user :: plain_object where
  "a_user = [(''publicKey'', JStr ''GA''), (''email'', JStr ''a@b.c''), (''phone'', JNull)]"

lemma a_user_encrypted:
  "encryptPiiFields open_service ''User'' (JObj a_user) \<lparr>drawn = 7, database = ()\<rparr>
     = (Inr (JObj [(''publicKey'', JStr ''GA''), (''email'', JStr ''07:6140622e63:6b6579''), (''phone'', JNull)]), \<lparr>drawn = 8, database = ()\<rparr>)"
  by (simp add: encryptPiiFields_def PII_FIELDS_def a_user_def spread_def encryptPii_def encrypt_def draw_iv_def
      open_service_def open_cipher_def eff_defs hex_def hex_digit_def)

theorem pii_fields_roundtrip_witness:
  "decryptPiiFields open_service ''User'' (JObj [(''publicKey'', JStr ''GA''), (''email'', JStr ''07:6140622e63:6b6579''), (''phone'', JNull)])
     = JObj a_user"
  by (rule pii_fields_roundtrip [OF open_service_laws _ a_user_encrypted]) (simp add: a_user_def js_wf_def)

text \<open>A user cannot be found by e-mail address: the address a \<open>create\<close> or an \<open>update\<close> of a user hands to the
  database differs from every text with an at sign, while the arguments of a read go to the database as they are;
  a \<open>where\<close> on an address, as the password reset of users has it, compares the address with the payload.\<close>

theorem stored_email_never_matches:
  assumes "mp_model p = Some ''User''" "mp_action p \<in> {''create'', ''update''}"
    "arg ''data'' (mp_args p) = JObj ps" "js_get ps ''email'' = Some (JStr email)" "email \<noteq> []"
    "encrypt_write cs p s = (Inr args, s')"
  shows "(\<exists>stored row. js_get args ''data'' = Some (JObj row) \<and> js_get row ''email'' = Some (JStr stored) \<and> (\<forall>address. CHR ''@'' \<in> set address \<longrightarrow> stored \<noteq> address))
    \<and> (\<forall>q t. mp_action q \<in> readActions \<longrightarrow> encrypt_write cs q t = (Inr (mp_args q), t))"
proof
  have "\<exists>v t. encryptPiiFields cs ''User'' (JObj ps) s = (Inr v, t) \<and> args = js_set ''data'' v (mp_args p)"
    using assms(1,2,3,6) by (auto simp: encrypt_write_def encrypt_arg_def is_object_def ebind_def ereturn_def Let_def split: prod.splits sum.splits)
  then obtain v t where v: "encryptPiiFields cs ''User'' (JObj ps) s = (Inr v, t)" "args = js_set ''data'' v (mp_args p)" by blast
  have fs: "PII_FIELDS ''User'' = Some [''email'', ''phone'']" by (simp add: PII_FIELDS_def)
  obtain r where r: "v = JObj r" "encrypt_fields cs [''email'', ''phone''] ps s = (Inr r, t)" by (rule pii_result [OF v(1) fs])
  have "field_kept cs [''email'', ''phone''] ps r ''email''" using encrypt_fields_get [OF r(2)] by simp
  then obtain e and w w' :: "unit pii_world" where e: "js_get r ''email'' = Some (JStr e)" "encryptPii cs email w = (Inr e, w')"
    using assms(4,5) by (auto simp: field_kept_def encrypted_field_def)
  have "\<forall>address. CHR ''@'' \<in> set address \<longrightarrow> e \<noteq> address" using encryptPii_no_at [OF e(2)] by blast
  then show "\<exists>stored row. js_get args ''data'' = Some (JObj row) \<and> js_get row ''email'' = Some (JStr stored) \<and> (\<forall>address. CHR ''@'' \<in> set address \<longrightarrow> stored \<noteq> address)"
    using e(1) v(2) r(1) by simp
next
  show "\<forall>q t. mp_action q \<in> readActions \<longrightarrow> encrypt_write cs q t = (Inr (mp_args q), t)"
    by (auto simp: readActions_def encrypt_write_def eff_defs Let_def)
qed

definition a_create :: middleware_params where
  "a_create = \<lparr>mp_model = Some ''User'', mp_action = ''create'', mp_args = [(''data'', JObj a_user)]\<rparr>"

theorem stored_email_never_matches_witness:
  "\<exists>stored row. js_get [(''data'', JObj [(''publicKey'', JStr ''GA''), (''email'', JStr ''07:6140622e63:6b6579''), (''phone'', JNull)])] ''data'' = Some (JObj row)
     \<and> js_get row ''email'' = Some (JStr stored) \<and> stored \<noteq> ''a@b.c''"
proof -
  have "encrypt_write open_service a_create \<lparr>drawn = 7, database = ()\<rparr> = (Inr [(''data'',
      JObj [(''publicKey'', JStr ''GA''), (''email'', JStr ''07:6140622e63:6b6579''), (''phone'', JNull)])], \<lparr>drawn = 8, database = ()\<rparr>)"
    using a_user_encrypted
    by (simp add: encrypt_write_def encrypt_arg_def a_create_def arg_def is_object_def ebind_def ereturn_def Let_def)
  then show ?thesis
    using stored_email_never_matches [of a_create a_user "''a@b.c''" open_service]
    by (fastforce simp: a_create_def arg_def a_user_def)
qed

text \<open>The empty text can be encrypted, and what is written is never read back.\<close>

lemma empty_text_not_decryptable:
  "cipher_laws cs \<Longrightarrow> encryptPii cs [] s = (Inr e, s') \<Longrightarrow> \<exists>err. decryptPii cs e = Inl err"
proof -
  assume a: "cipher_laws cs" "encryptPii cs [] s = (Inr e, s')"
  obtain iv ct tag where s: "sealed (cs_env cs) (cs_key cs) iv [] = Inr (ct, tag)" "e = hex iv @ '':'' @ hex ct @ '':'' @ hex tag"
    by (rule encryptPii_form [OF a(2)])
  then have "ct = []" using a(1) unfolding cipher_laws_def by blast
  then show ?thesis unfolding s(2) decryptPii_payload by simp
qed

text \<open>Reads of customers hide the soft-deleted rows unless the caller filters on \<open>deletedAt\<close> itself: the query a
  read operation runs always has a filter on \<open>deletedAt\<close>, it is the caller's where there is one and
  \<open>null\<close> otherwise, and every other condition is the caller's.\<close>

theorem soft_deleted_rows_hidden:
  assumes "operation \<in> set SOFT_DELETE_READ_OPERATIONS"
  shows "softDeleteExtension operation args (\<lambda>a. js_get (where_clause a) k)
    = (if k = ''deletedAt'' \<and> js_get (where_clause args) k = None then Some JNull else js_get (where_clause args) k)"
  using assms by (auto simp: softDeleteExtension_def excludeSoftDeleted_def where_clause_def arg_def spread_def Let_def)

theorem soft_deleted_rows_hidden_witness:
  "softDeleteExtension ''findMany'' [(''where'', JObj [(''status'', JStr ''PENDING'')])] (\<lambda>a. js_get (where_clause a) ''deletedAt'') = Some JNull"
  by (subst soft_deleted_rows_hidden) (simp_all add: SOFT_DELETE_READ_OPERATIONS_def where_clause_def arg_def spread_def)

text \<open>The client connects within five attempts or reports the error of the fifth: start-up fails exactly when every
  attempt failed, after four delays of at least one, two, four and eight seconds and less than twice that.\<close>

theorem connection_gives_up_after_five:
  "(fst (connectWithRetry connect rnd) = Inl e \<longleftrightarrow> (\<forall>n \<in> {1..4}. \<exists>f. connect n = Inl f) \<and> connect 5 = Inl e)
    \<and> ((\<forall>n \<in> {1..5}. \<exists>f. connect n = Inl f) \<longrightarrow>
         snd (connectWithRetry connect rnd) = [1000 * (1 + rnd 1), 2000 * (1 + rnd 2), 4000 * (1 + rnd 3), 8000 * (1 + rnd 4)])"
proof -
  have r: "{1..4} = {1, 2, 3, 4 :: nat}" "{1..5} = {1, 2, 3, 4, 5 :: nat}" by auto
  have last: "connect_from connect rnd 5 = (case connect 5 of Inr _ \<Rightarrow> (Inr (), []) | Inl e \<Rightarrow> (Inl e, []))"
    unfolding connect_from.simps [of connect rnd 5] MAX_CONNECT_RETRIES_def by (simp split: sum.split)
  have s: "connect_from connect rnd n = (case connect n of Inr _ \<Rightarrow> (Inr (), [])
      | Inl e \<Rightarrow> (case connect_from connect rnd m of (r, ds) \<Rightarrow> (r, connect_delay n (rnd n) # ds)))" if "n < 5" "m = n + 1" for n m
    unfolding connect_from.simps [of connect rnd n] MAX_CONNECT_RETRIES_def using that by (simp split: sum.split)
  have e: "connect_from connect rnd 1 = (case connect 1 of Inr _ \<Rightarrow> (Inr (), [])
      | Inl e \<Rightarrow> (case connect_from connect rnd 2 of (r, ds) \<Rightarrow> (r, connect_delay 1 (rnd 1) # ds)))"
    "connect_from connect rnd 2 = (case connect 2 of Inr _ \<Rightarrow> (Inr (), [])
      | Inl e \<Rightarrow> (case connect_from connect rnd 3 of (r, ds) \<Rightarrow> (r, connect_delay 2 (rnd 2) # ds)))"
    "connect_from connect rnd 3 = (case connect 3 of Inr _ \<Rightarrow> (Inr (), [])
      | Inl e \<Rightarrow> (case connect_from connect rnd 4 of (r, ds) \<Rightarrow> (r, connect_delay 3 (rnd 3) # ds)))"
    "connect_from connect rnd 4 = (case connect 4 of Inr _ \<Rightarrow> (Inr (), [])
      | Inl e \<Rightarrow> (case connect_from connect rnd 5 of (r, ds) \<Rightarrow> (r, connect_delay 4 (rnd 4) # ds)))"
    by (rule s; simp)+
  show ?thesis
    unfolding connectWithRetry_def r e last
    by (auto simp: connect_delay_def CONNECT_RETRY_BASE_MS_def simp del: One_nat_def split: sum.split)
qed

theorem connection_gives_up_after_five_witness:
  "snd (connectWithRetry (\<lambda>_. Inl (PlainError ''refused'')) (\<lambda>_. 0)) = [1000, 2000, 4000, 8000]"
  using conjunct2 [OF connection_gives_up_after_five, of "\<lambda>_. Inl (PlainError ''refused'')" "\<lambda>_. 0"] by simp

end
