(* ===== verification/Json_Text.thy ===== *)
theory Json_Text
  imports Js_Bytes
begin

text \<open>
  \<open>JSON.parse\<close>, for texts whose numbers are integers and whose characters are bytes, and that it undoes
  \<open>JSON.stringify\<close>. Parsers take a text and return a value and the rest of the text; the fuel is the length of
  the text, which every call shortens.
\<close>

section \<open>The parser\<close>

definition json_space :: "char \<Rightarrow> bool" where
  "json_space c \<longleftrightarrow> c \<in> {CHR '' '', CHR 0x09, CHR 0x0A, CHR 0x0D}"

definition skip_space :: "string \<Rightarrow> string" where
  "skip_space s = dropWhile json_space s"

definition unescape :: "char \<Rightarrow> char option" where
  "unescape c = (if c = CHR 0x22 \<or> c = CHR 0x5C \<or> c = CHR ''/'' then Some c
     else if c = CHR ''b'' then Some (CHR 0x08) else if c = CHR ''f'' then Some (CHR 0x0C)
     else if c = CHR ''n'' then Some (CHR 0x0A) else if c = CHR ''r'' then Some (CHR 0x0D)
     else if c = CHR ''t'' then Some (CHR 0x09) else None)"

text \<open>The characters of a text after its opening quote.\<close>

fun parse_chars :: "nat \<Rightarrow> string \<Rightarrow> (string \<times> string) option" where
  "parse_chars 0 s = None"
| "parse_chars (Suc n) [] = None"
| "parse_chars (Suc n) (c # s) =
     (if c = CHR 0x22 then Some ([], s)
      else if c = CHR 0x5C then
        (case s of
           [] \<Rightarrow> None
         | e # s' \<Rightarrow>
             if e = CHR ''u'' then
               (case s' of
                  a # b # x # y # s'' \<Rightarrow>
                    (case (a = CHR ''0'' \<and> b = CHR ''0'', hex_value x, hex_value y) of
                       (True, Some i, Some j) \<Rightarrow> map_option (\<lambda>(cs, r). (char_of (16 * i + j) # cs, r)) (parse_chars n s'')
                     | _ \<Rightarrow> None)
                | _ \<Rightarrow> None)
             else (case unescape e of
                 Some d \<Rightarrow> map_option (\<lambda>(cs, r). (d # cs, r)) (parse_chars n s')
               | None \<Rightarrow> None))
      else if (of_char c :: nat) < 32 then None
      else map_option (\<lambda>(cs, r). (c # cs, r)) (parse_chars n s))"

definition parse_digits :: "string \<Rightarrow> (nat \<times> string) option" where
  "parse_digits s = (let ds = takeWhile is_digit s in
     if ds = [] \<or> (hd ds = CHR ''0'' \<and> length ds > 1) then None
     else Some (nat (digits_value ds), dropWhile is_digit s))"

definition expect :: "string \<Rightarrow> string \<Rightarrow> string option" where
  "expect p s = (if take (length p) s = p then Some (drop (length p) s) else None)"

fun parse_value :: "nat \<Rightarrow> string \<Rightarrow> (json \<times> string) option"
  and parse_items :: "nat \<Rightarrow> string \<Rightarrow> (json list \<times> string) option"
  and parse_members :: "nat \<Rightarrow> string \<Rightarrow> ((string \<times> json) list \<times> string) option" where
  "parse_value 0 s = None"
| "parse_value (Suc n) s = (case skip_space s of
     [] \<Rightarrow> None
   | c # r \<Rightarrow>
       if c = CHR 0x22 then map_option (\<lambda>(cs, r). (JStr cs, r)) (parse_chars n r)
       else if c = CHR ''{'' then
         (case skip_space r of
            [] \<Rightarrow> None
          | d # r' \<Rightarrow> if d = CHR ''}'' then Some (JObj [], r') else map_option (\<lambda>(ps, r). (JObj ps, r)) (parse_members n (d # r')))
       else if c = CHR ''['' then
         (case skip_space r of
            [] \<Rightarrow> None
          | d # r' \<Rightarrow> if d = CHR '']'' then Some (JArr [], r') else map_option (\<lambda>(xs, r). (JArr xs, r)) (parse_items n (d # r')))
       else if c = CHR ''-'' then map_option (\<lambda>(i, r). (JNum (- int i), r)) (parse_digits r)
       else if is_digit c then map_option (\<lambda>(i, r). (JNum (int i), r)) (parse_digits (c # r))
       else if c = CHR ''t'' then map_option (\<lambda>r. (JBool True, r)) (expect ''true'' (c # r))
       else if c = CHR ''f'' then map_option (\<lambda>r. (JBool False, r)) (expect ''false'' (c # r))
       else if c = CHR ''n'' then map_option (\<lambda>r. (JNull, r)) (expect ''null'' (c # r))
       else None)"
| "parse_items 0 s = None"
| "parse_items (Suc n) s = (case parse_value n s of
     None \<Rightarrow> None
   | Some (v, r) \<Rightarrow> (case skip_space r of
       [] \<Rightarrow> None
     | c # r' \<Rightarrow>
         if c = CHR '']'' then Some ([v], r')
         else if c = CHR '','' then map_option (\<lambda>(vs, r). (v # vs, r)) (parse_items n r')
         else None))"
| "parse_members 0 s = None"
| "parse_members (Suc n) s = (case skip_space s of
     [] \<Rightarrow> None
   | q # s1 \<Rightarrow>
     if q = CHR 0x22 then
       (case parse_chars n s1 of
          None \<Rightarrow> None
        | Some (k, s2) \<Rightarrow> (case skip_space s2 of
            [] \<Rightarrow> None
          | c # s3 \<Rightarrow>
            if c = CHR '':'' then
              (case parse_value n s3 of
                 None \<Rightarrow> None
               | Some (v, s4) \<Rightarrow> (case skip_space s4 of
                   [] \<Rightarrow> None
                 | d # s5 \<Rightarrow>
                     if d = CHR ''}'' then Some ([(k, v)], s5)
                     else if d = CHR '','' then map_option (\<lambda>(ps, r). ((k, v) # ps, r)) (parse_members n s5)
                     else None))
            else None))
     else None)"

text \<open>A later member replaces an earlier one of the same name.\<close>

fun json_keys_merged :: "json \<Rightarrow> json" where
  "json_keys_merged (JArr xs) = JArr (List.map json_keys_merged xs)"
| "json_keys_merged (JObj ps) = JObj (foldl (\<lambda>acc p. js_set (fst p) (snd p) acc) [] (List.map (map_prod id json_keys_merged) ps))"
| "json_keys_merged v = v"

text \<open>\<open>JSON.parse\<close>: \<open>None\<close> is the SyntaxError.\<close>

definition json_parse :: "string \<Rightarrow> json option" where
  "json_parse s = (case parse_value (Suc (length s)) s of
     Some (v, r) \<Rightarrow> if skip_space r = [] then Some (json_keys_merged v) else None
   | None \<Rightarrow> None)"

section \<open>What stringify writes is read back\<close>

text \<open>Values that \<open>JSON.stringify\<close> keeps: no \<open>undefined\<close>, and the names in an object are distinct.\<close>

fun json_plain :: "json \<Rightarrow> bool" where
  "json_plain JUndef = False"
| "json_plain (JArr xs) = list_all json_plain xs"
| "json_plain (JObj ps) = (distinct (List.map fst ps) \<and> list_all (\<lambda>p. json_plain (snd p)) ps)"
| "json_plain v = True"

lemma parse_chars_escape:
  "parse_chars (Suc n) (json_escape c @ s) = map_option (\<lambda>(cs, r). (c # cs, r)) (parse_chars n s)"
proof (cases "c \<in> {CHR 0x22, CHR 0x5C, CHR 0x08, CHR 0x0C, CHR 0x0A, CHR 0x0D, CHR 0x09}")
  case True
  then show ?thesis by (auto simp: json_escape_def unescape_def)
next
  case False
  have "16 * (of_char c div 16) + of_char c mod 16 = (of_char c :: nat)" by simp
  then show ?thesis
    using False hex_value_digit [of "of_char c div 16"] hex_value_digit [of "of_char c mod 16"]
    by (auto simp: json_escape_def)
qed

lemma parse_chars_quoted:
  "length cs < n \<Longrightarrow> parse_chars n (concat (List.map json_escape cs) @ CHR 0x22 # s) = Some (cs, s)"
proof (induction cs arbitrary: n)
  case Nil
  then show ?case by (cases n) simp_all
next
  case (Cons c cs)
  then obtain m where "n = Suc m" "length cs < m" by (cases n) auto
  then show ?case using Cons.IH parse_chars_escape [of m c "concat (List.map json_escape cs) @ CHR 0x22 # s"] by simp
qed

lemma json_escape_length: "length (json_escape c) \<ge> 1"
  by (simp add: json_escape_def)

lemma json_escapes_length: "length cs \<le> length (concat (List.map json_escape cs))"
proof (induction cs)
  case (Cons c cs)
  then show ?case using json_escape_length [of c] by simp
qed simp

lemma json_quote_append: "json_quote k @ s = CHR 0x22 # concat (List.map json_escape k) @ CHR 0x22 # s"
  by (simp add: json_quote_def)

text \<open>Numbers.\<close>

lemma show_nat_head: "n > 0 \<Longrightarrow> hd (show_nat n) \<noteq> CHR ''0''"
proof (induction n rule: show_nat.induct)
  case (1 n)
  show ?case
  proof (cases "n < 10")
    case True
    with 1 have "digit_value (hex_digit n) \<noteq> 0" using hex_digit_value [of n] by simp
    then have "hex_digit n \<noteq> CHR ''0''" by (auto simp: digit_value_def)
    then show ?thesis using True by (subst show_nat.simps) simp
  next
    case False
    then show ?thesis using 1 show_nat_digits [of "n div 10"] by (subst show_nat.simps) simp
  qed
qed

definition number_end :: "string \<Rightarrow> bool" where
  "number_end r \<longleftrightarrow> (case r of [] \<Rightarrow> True | c # _ \<Rightarrow> \<not> is_digit c)"

lemma digits_prefix: "list_all is_digit ds \<Longrightarrow> number_end r \<Longrightarrow> takeWhile is_digit (ds @ r) = ds \<and> dropWhile is_digit (ds @ r) = r"
  by (induction ds) (auto simp: number_end_def split: list.splits)

lemma parse_digits_show: "number_end r \<Longrightarrow> parse_digits (show_nat n @ r) = Some (n, r)"
proof -
  assume r: "number_end r"
  note d = show_nat_digits [of n] digits_prefix [OF _ r, of "show_nat n"]
  have "hd (show_nat n) \<noteq> CHR ''0'' \<or> show_nat n = ''0''"
    using show_nat_head [of n] by (cases "n = 0") (simp_all add: show_nat.simps hex_digit_def)
  then show ?thesis using d by (auto simp: parse_digits_def Let_def)
qed

text \<open>Texts that start neither with a space nor with the end of an array.\<close>

definition solid :: "string \<Rightarrow> bool" where
  "solid t \<longleftrightarrow> (case t of [] \<Rightarrow> False | c # _ \<Rightarrow> \<not> json_space c \<and> c \<noteq> CHR '']'' \<and> c \<noteq> CHR ''}'')"

lemma solid_skip: "solid t \<Longrightarrow> skip_space (t @ r) = t @ r"
  by (cases t) (auto simp: solid_def skip_space_def)

lemma digit_solid: "is_digit c \<Longrightarrow> solid (c # s)"
  by (auto simp: solid_def json_space_def is_digit_def)

lemma show_nat_solid: "solid (show_nat n)"
  using show_nat_digits [of n] by (cases "show_nat n") (auto intro: digit_solid)

lemma stringify_solid: "solid (json_stringify v)"
  using show_nat_solid by (cases v) (auto simp: solid_def json_space_def json_quote_def show_int_def)

lemma quote_solid: "solid (json_quote k @ s)"
  by (simp add: solid_def json_quote_def json_space_def)

definition reads :: "json \<Rightarrow> bool" where
  "reads v \<longleftrightarrow> (\<forall>n r. length (json_stringify v) < n \<longrightarrow> number_end r \<longrightarrow> parse_value n (json_stringify v @ r) = Some (v, r))"

lemma readsD: "reads v \<Longrightarrow> length (json_stringify v) < n \<Longrightarrow> number_end r \<Longrightarrow> parse_value n (json_stringify v @ r) = Some (v, r)"
  by (simp add: reads_def)

lemma number_end_simps [simp]: "number_end (CHR '','' # s)" "number_end (CHR '']'' # s)" "number_end (CHR ''}'' # s)" "number_end []"
  by (simp_all add: number_end_def is_digit_def)

lemma skip_space_simps [simp]: "skip_space (CHR '','' # s) = CHR '','' # s" "skip_space (CHR '']'' # s) = CHR '']'' # s"
  "skip_space (CHR ''}'' # s) = CHR ''}'' # s" "skip_space (CHR '':'' # s) = CHR '':'' # s" "skip_space (CHR ''['' # s) = CHR ''['' # s"
  "skip_space (CHR ''{'' # s) = CHR ''{'' # s" "skip_space (CHR 0x22 # s) = CHR 0x22 # s" "skip_space (CHR ''-'' # s) = CHR ''-'' # s"
  by (simp_all add: skip_space_def json_space_def)

lemma parse_items_join:
  "list_all reads vs \<Longrightarrow> vs \<noteq> [] \<Longrightarrow> length (join_with '','' (List.map json_stringify vs)) + 1 < n
     \<Longrightarrow> parse_items n (join_with '','' (List.map json_stringify vs) @ CHR '']'' # r) = Some (vs, r)"
proof (induction vs arbitrary: n)
  case (Cons v vs)
  then obtain m where n: "n = Suc m" by (cases n) auto
  show ?case
  proof (cases vs)
    case Nil
    then show ?thesis using Cons.prems readsD [of v m "CHR '']'' # r"] n by simp
  next
    case (Cons w ws)
    have "parse_value m (json_stringify v @ CHR '','' # join_with '','' (List.map json_stringify vs) @ CHR '']'' # r)
        = Some (v, CHR '','' # join_with '','' (List.map json_stringify vs) @ CHR '']'' # r)"
      using Cons.prems n Cons readsD [of v m] by simp
    moreover have "parse_items m (join_with '','' (List.map json_stringify vs) @ CHR '']'' # r) = Some (vs, r)"
      using Cons.IH [of m] Cons.prems n Cons by simp
    ultimately show ?thesis using n Cons by simp
  qed
qed simp

definition member_text :: "string \<times> json \<Rightarrow> string" where
  "member_text p = json_quote (fst p) @ '':'' @ json_stringify (snd p)"

lemma parse_members_join:
  "list_all (\<lambda>p. reads (snd p)) ps \<Longrightarrow> ps \<noteq> [] \<Longrightarrow> length (join_with '','' (List.map member_text ps)) + 1 < n
     \<Longrightarrow> parse_members n (join_with '','' (List.map member_text ps) @ CHR ''}'' # r) = Some (ps, r)"
proof (induction ps arbitrary: n)
  case (Cons p ps)
  then obtain m where n: "n = Suc m" by (cases n) auto
  obtain k v where p: "p = (k, v)" by (cases p)
  have l: "length (member_text p) \<le> length (join_with '','' (List.map member_text (p # ps)))"
    by (cases ps) simp_all
  have "length (member_text p) = length (concat (List.map json_escape k)) + 3 + length (json_stringify v)"
    by (simp add: member_text_def json_quote_def p)
  then have f: "length k < m" "length (json_stringify v) < m"
    using l Cons.prems(3) n json_escapes_length [of k] by linarith+
  have q: "parse_chars m (concat (List.map json_escape k) @ CHR 0x22 # s) = Some (k, s)" for s
    using parse_chars_quoted [OF f(1)] .
  have v: "number_end s \<Longrightarrow> parse_value m (json_stringify v @ s) = Some (v, s)" for s
    using Cons.prems(1) p readsD [OF _ f(2)] by simp
  have t: "member_text p @ s = CHR 0x22 # concat (List.map json_escape k) @ CHR 0x22 # CHR '':'' # json_stringify v @ s" for s
    by (simp add: member_text_def p json_quote_def)
  show ?case
  proof (cases ps)
    case Nil
    then show ?thesis using n q v t p by simp
  next
    case (Cons w ws)
    have "parse_members m (join_with '','' (List.map member_text ps) @ CHR ''}'' # r) = Some (ps, r)"
      using Cons.IH [of m] Cons.prems n Cons by simp
    then show ?thesis using n q v t p Cons by simp
  qed
qed simp

lemma stringify_object:
  "list_all (\<lambda>p. json_plain (snd p)) ps
     \<Longrightarrow> json_stringify (JObj ps) = ''{'' @ join_with '','' (List.map member_text ps) @ ''}''"
proof -
  assume a: "list_all (\<lambda>p. json_plain (snd p)) ps"
  have "concat (List.map (\<lambda>p. case p of (k, v) \<Rightarrow> if v = JUndef then [] else [json_quote k @ '':'' @ json_stringify v]) ps)
      = List.map member_text ps"
    using a by (induction ps) (auto simp: member_text_def)
  then show ?thesis by simp
qed

lemma solid_append: "solid v \<Longrightarrow> solid (v @ t)"
  by (cases v) (auto simp: solid_def)

lemma join_solid: "vs \<noteq> [] \<Longrightarrow> list_all solid vs \<Longrightarrow> solid (join_with '','' vs)"
  by (cases vs; cases "tl vs") (auto intro: solid_append)

lemma skip_nonspace: "\<not> json_space c \<Longrightarrow> skip_space (c # s) = c # s"
  by (simp add: skip_space_def)

lemma solid_case: "solid t \<Longrightarrow> \<exists>c u. t = c # u \<and> \<not> json_space c \<and> c \<noteq> CHR '']'' \<and> c \<noteq> CHR ''}''"
  by (cases t) (auto simp: solid_def)

lemma stringify_read: "json_plain v \<Longrightarrow> reads v"
proof (induction v)
  case (JBool b)
  show ?case unfolding reads_def
  proof (intro allI impI)
    fix n r assume "length (json_stringify (JBool b)) < n"
    then obtain m where "n = Suc m" by (cases n) auto
    then show "parse_value n (json_stringify (JBool b) @ r) = Some (JBool b, r)"
      by (simp add: skip_space_def json_space_def expect_def is_digit_def)
  qed
next
  case JNull
  show ?case unfolding reads_def
  proof (intro allI impI)
    fix n r assume "length (json_stringify JNull) < n"
    then obtain m where "n = Suc m" by (cases n) auto
    then show "parse_value n (json_stringify JNull @ r) = Some (JNull, r)"
      by (simp add: skip_space_def json_space_def expect_def is_digit_def)
  qed
next
  case (JNum i)
  show ?case unfolding reads_def
  proof (intro allI impI)
    fix n r assume "length (json_stringify (JNum i)) < n" "number_end r"
    then obtain m where m: "n = Suc m" by (cases n) auto
    show "parse_value n (json_stringify (JNum i) @ r) = Some (JNum i, r)"
    proof (cases "i < 0")
      case True
      then show ?thesis using m parse_digits_show [OF \<open>number_end r\<close>] by (simp add: show_int_def)
    next
      case False
      obtain c s where c: "show_nat (nat i) = c # s" using show_nat_digits [of "nat i"] by (cases "show_nat (nat i)") auto
      then have d: "is_digit c" using show_nat_digits [of "nat i"] by simp
      then have "skip_space (c # s @ r) = c # s @ r" "c \<notin> {CHR 0x22, CHR ''{'', CHR ''['', CHR ''-''}"
        by (auto simp: skip_space_def json_space_def is_digit_def)
      then show ?thesis using m d False c parse_digits_show [OF \<open>number_end r\<close>, of "nat i"] by (simp add: show_int_def)
    qed
  qed
next
  case (JStr s)
  show ?case unfolding reads_def
  proof (intro allI impI)
    fix n r assume a: "length (json_stringify (JStr s)) < n"
    then obtain m where m: "n = Suc m" by (cases n) auto
    then have "length s < m" using a json_escapes_length [of s] by (simp add: json_quote_def)
    then show "parse_value n (json_stringify (JStr s) @ r) = Some (JStr s, r)"
      using m parse_chars_quoted [of s m r] by (simp add: json_quote_def)
  qed
next
  case (JArr vs)
  then have vs: "list_all reads vs" by (auto simp: list_all_iff)
  show ?case unfolding reads_def
  proof (intro allI impI)
    fix n r assume a: "length (json_stringify (JArr vs)) < n"
    then obtain m where m: "n = Suc m" by (cases n) auto
    show "parse_value n (json_stringify (JArr vs) @ r) = Some (JArr vs, r)"
    proof (cases "vs = []")
      case False
      define t where "t = join_with '','' (List.map json_stringify vs)"
      have "solid t" unfolding t_def using False stringify_solid by (intro join_solid) (simp_all add: list_all_iff)
      then obtain c u where c: "t = c # u" "\<not> json_space c" "c \<noteq> CHR '']''" using solid_case by blast
      have "parse_items m (t @ CHR '']'' # r) = Some (vs, r)"
        unfolding t_def using parse_items_join [OF vs False] a m by simp
      then show ?thesis using m c by (simp add: t_def [symmetric] skip_nonspace)
    qed (simp add: m)
  qed
next
  case (JObj ps)
  then have ps: "list_all (\<lambda>p. reads (snd p)) ps" by (auto simp: list_all_iff)
  have plain: "list_all (\<lambda>p. json_plain (snd p)) ps" using JObj.prems by simp
  show ?case unfolding reads_def stringify_object [OF plain]
  proof (intro allI impI)
    fix n r assume a: "length (''{'' @ join_with '','' (List.map member_text ps) @ ''}'') < n"
    then obtain m where m: "n = Suc m" by (cases n) auto
    show "parse_value n ((''{'' @ join_with '','' (List.map member_text ps) @ ''}'') @ r) = Some (JObj ps, r)"
    proof (cases "ps = []")
      case False
      define t where "t = join_with '','' (List.map member_text ps)"
      have "solid t" unfolding t_def using False quote_solid by (intro join_solid) (simp_all add: list_all_iff member_text_def)
      then obtain c u where c: "t = c # u" "\<not> json_space c" "c \<noteq> CHR ''}''" using solid_case by blast
      have "parse_members m (t @ CHR ''}'' # r) = Some (ps, r)"
        unfolding t_def using parse_members_join [OF ps False] a m by simp
      then show ?thesis using m c by (simp add: t_def [symmetric] skip_nonspace)
    qed (simp add: m)
  qed
qed simp

lemma foldl_set_distinct:
  "distinct (List.map fst ps) \<Longrightarrow> set (List.map fst ps) \<inter> set (List.map fst acc) = {}
     \<Longrightarrow> foldl (\<lambda>acc p. js_set (fst p) (snd p) acc) acc ps = acc @ ps"
proof (induction ps arbitrary: acc)
  case (Cons p ps)
  have "js_get acc (fst p) = None" using Cons.prems(2) by (auto simp: map_of_eq_None_iff)
  then have "js_set (fst p) (snd p) acc = acc @ [p]" using js_keys_set_new [of acc "fst p" "snd p"] by simp
  then show ?case using Cons.IH [of "acc @ [p]"] Cons.prems by auto
qed simp

lemma merged_plain: "json_plain v \<Longrightarrow> json_keys_merged v = v"
proof (induction v)
  case (JArr vs)
  then show ?case by (auto simp: list_all_iff intro: map_idI)
next
  case (JObj ps)
  have m: "List.map (map_prod id json_keys_merged) ps = ps"
  proof (rule map_idI)
    fix p assume p: "p \<in> set ps"
    have "json_keys_merged (snd p) = snd p" using JObj.IH [OF p, of "snd p"] JObj.prems p by (auto simp: list_all_iff snds.intros)
    then show "map_prod id json_keys_merged p = p" by (cases p) simp
  qed
  show ?case unfolding json_keys_merged.simps m using JObj.prems foldl_set_distinct [of ps "[]"] by simp
qed simp_all

lemma json_parse_stringify: "json_plain v \<Longrightarrow> json_parse (json_stringify v) = Some v"
  using readsD [OF stringify_read, of v "Suc (length (json_stringify v))" "[]"] merged_plain [of v]
  by (simp add: json_parse_def skip_space_def)

end
