(* ===== verification/Key_Management.thy ===== *)
theory Key_Management
  imports Pii_Crypto Json_Text
begin

text \<open>
  \<open>lib/key-management.service.ts\<close> and its types: keys encrypted and decrypted by AWS KMS or by Vault's Transit
  engine, with retries of transient errors and a local fallback when Vault cannot be reached, and the secrets of
  the environment that are kept encrypted. The clients of KMS and Vault are parameters with a state of their own.
\<close>

section \<open>Types\<close>

datatype km_error_type = VAULT_UNAVAILABLE | KEY_NOT_FOUND | ENCRYPTION_FAILED | DECRYPTION_FAILED
  | INVALID_KEY_FORMAT | UNAUTHORIZED | INVALID_CONFIG

record sdk_error =
  sdk_name :: "string option"
  sdk_code :: "string option"
  sdk_statusCode :: "int option"
  sdk_message :: "string option"

text \<open>\<open>KeyManagementError\<close> with its type, message and original error; \<open>CryptoErr\<close> is what Node's cipher throws.\<close>

datatype km_error = KeyErr km_error_type string "string option" | CryptoErr js_error

record encrypted_key =
  ek_ciphertext :: string
  ek_keyVersion :: string
  ek_algorithm :: string
  ek_timestamp :: int

record rotation_result =
  rr_backend :: string
  rr_rotated :: bool
  rr_keyVersion :: "string option"
  rr_message :: string
  rr_timestamp :: int

record aws_config =
  aws_keyArn :: string
  aws_region :: "string option"
  aws_accessKeyId :: "string option"
  aws_secretAccessKey :: "string option"

record vault_config =
  vault_address :: string
  vault_token :: string
  vault_transitPath :: string

datatype km_config = AwsKmsConfig aws_config | VaultConfig vault_config

section \<open>The clients\<close>

record kms_encrypted =
  kms_CiphertextBlob :: "string option"
  kms_KeyId :: "string option"

record vault_encrypted =
  ve_ciphertext :: string
  ve_key_version :: "int option"

text \<open>The commands the services send, each with an answer or an error; they may change the remote side.\<close>

record 'b km_env =
  kms_encrypt :: "string \<Rightarrow> string \<Rightarrow> 'b \<Rightarrow> (sdk_error + kms_encrypted) \<times> 'b"
  kms_decrypt :: "string \<Rightarrow> 'b \<Rightarrow> (sdk_error + string option) \<times> 'b"
  kms_describe :: "string \<Rightarrow> 'b \<Rightarrow> (sdk_error + unit) \<times> 'b"
  kms_rotation_status :: "string \<Rightarrow> 'b \<Rightarrow> (sdk_error + bool) \<times> 'b"
  kms_enable_rotation :: "string \<Rightarrow> 'b \<Rightarrow> (sdk_error + unit) \<times> 'b"
  vault_encrypt :: "string \<Rightarrow> string \<Rightarrow> 'b \<Rightarrow> (sdk_error + vault_encrypted) \<times> 'b"
  vault_decrypt :: "string \<Rightarrow> string \<Rightarrow> 'b \<Rightarrow> (sdk_error + string) \<times> 'b"
  vault_read :: "string \<Rightarrow> 'b \<Rightarrow> (sdk_error + string) \<times> 'b"
  vault_health :: "'b \<Rightarrow> (sdk_error + unit) \<times> 'b"
  vault_rotate :: "string \<Rightarrow> 'b \<Rightarrow> (sdk_error + int option) \<times> 'b"
  km_sdk_installed :: "string \<Rightarrow> bool"
  km_cipher :: cipher_env
  km_fallback_key :: "string option"
  km_node_env :: "string option"

datatype km_service = AwsKmsService string | VaultService string

text \<open>The state: the remote side, the clock, the waits between attempts, the random bytes drawn, and the singleton.\<close>

record 'b km_world =
  km_remote :: 'b
  km_now :: int
  km_waits :: "int list"
  km_drawn :: nat
  km_instance :: "km_service option"

type_synonym ('b, 'a) km = "('b km_world, km_error, 'a) eff"

definition remote_call :: "('b \<Rightarrow> (sdk_error + 'a) \<times> 'b) \<Rightarrow> ('b km_world, sdk_error, 'a) eff" where
  "remote_call f s = (case f (km_remote s) of (r, b) \<Rightarrow> (r, s\<lparr>km_remote := b\<rparr>))"

definition km_fail :: "km_error_type \<Rightarrow> string \<Rightarrow> ('b, 'a) km" where
  "km_fail t m = ethrow (KeyErr t m None)"

section \<open>Retries\<close>

definition maxRetries :: nat where
  "maxRetries = 3"

definition retryDelayMs :: int where
  "retryDelayMs = 100"

text \<open>The loop of each operation: an attempt that fails for a transient reason is repeated after a delay, until
  the attempts are used up; the result is that of the last attempt.\<close>

function retry_call ::
  "(sdk_error \<Rightarrow> bool) \<Rightarrow> ('b km_world, sdk_error, 'a) eff \<Rightarrow> nat \<Rightarrow> ('b km_world, sdk_error, 'a) eff" where
  "retry_call isTransient call attempt = ecatch call (\<lambda>e.
     if isTransient e \<and> attempt < maxRetries
     then ebind (emodify (\<lambda>s. s\<lparr>km_waits := km_waits s @ [retryDelayMs * 2 ^ (attempt - 1)]\<rparr>)) (\<lambda>_.
            retry_call isTransient call (attempt + 1))
     else ethrow e)"
  by pat_completeness auto
termination by (relation "measure (\<lambda>(_, _, attempt). maxRetries - attempt)") auto

declare retry_call.simps [simp del]

text \<open>After the loop: the error of the last attempt becomes a key management error by a table of its causes.\<close>

definition with_retries ::
  "(sdk_error \<Rightarrow> bool) \<Rightarrow> ('b km_world, sdk_error, 'a) eff \<Rightarrow> (sdk_error \<Rightarrow> ('b, 'a) km) \<Rightarrow> ('b, 'a) km" where
  "with_retries isTransient call give_up = ecatch (retry_call isTransient call 1) give_up"

definition after_attempts :: "string \<Rightarrow> string" where
  "after_attempts what = ''Failed to '' @ what @ '' after '' @ show_nat maxRetries @ '' attempts''"

section \<open>AWS KMS\<close>

definition aws_transient :: "sdk_error \<Rightarrow> bool" where
  "aws_transient e \<longleftrightarrow> sdk_name e = Some ''ThrottlingException'' \<or> sdk_name e = Some ''RequestLimitExceededException''
     \<or> sdk_code e = Some ''ECONNREFUSED'' \<or> sdk_code e = Some ''ETIMEDOUT''"

definition newAwsKmsService :: "'b km_env \<Rightarrow> aws_config \<Rightarrow> km_error + km_service" where
  "newAwsKmsService env config =
     (if km_sdk_installed env ''@aws-sdk/client-kms'' then Inr (AwsKmsService (aws_keyArn config))
      else Inl (KeyErr INVALID_CONFIG ''AWS SDK not installed. Install @aws-sdk/client-kms to use AWS KMS backend.'' None))"

text \<open>\<open>Buffer.from(undefined)\<close>.\<close>

definition no_data :: sdk_error where
  "no_data = \<lparr>sdk_name = Some ''TypeError'', sdk_code = Some ''ERR_INVALID_ARG_TYPE'', sdk_statusCode = None,
     sdk_message = Some ''The first argument must be of type string or an instance of Buffer''\<rparr>"

definition aws_encryptKey :: "'b km_env \<Rightarrow> string \<Rightarrow> string \<Rightarrow> ('b, encrypted_key) km" where
  "aws_encryptKey env keyArn plaintext =
     (if plaintext = [] then km_fail INVALID_KEY_FORMAT ''Plaintext key cannot be empty''
      else with_retries aws_transient
        (ebind (remote_call (kms_encrypt env keyArn plaintext)) (\<lambda>response.
         case kms_CiphertextBlob response of
           None \<Rightarrow> ethrow no_data
         | Some blob \<Rightarrow> ebind (eget km_now) (\<lambda>now.
             ereturn \<lparr>ek_ciphertext = base64 blob,
               ek_keyVersion = (case truthy_str (kms_KeyId response) of Some k \<Rightarrow> k | None \<Rightarrow> keyArn),
               ek_algorithm = ''AES-256-GCM'', ek_timestamp = now\<rparr>)))
        (\<lambda>e. ethrow (KeyErr
           (if sdk_name e = Some ''AccessDeniedException'' then UNAUTHORIZED
            else if sdk_name e = Some ''NotFoundException'' then KEY_NOT_FOUND else ENCRYPTION_FAILED)
           (after_attempts ''encrypt key via AWS KMS'') (sdk_message e))))"

definition aws_decryptKey :: "'b km_env \<Rightarrow> encrypted_key \<Rightarrow> ('b, string) km" where
  "aws_decryptKey env enc =
     (if ek_ciphertext enc = [] then km_fail INVALID_KEY_FORMAT ''Encrypted key ciphertext cannot be empty''
      else with_retries aws_transient
        (ebind (remote_call (kms_decrypt env (base64_decode (ek_ciphertext enc)))) (\<lambda>response.
         case response of None \<Rightarrow> ethrow no_data | Some plaintext \<Rightarrow> ereturn plaintext))
        (\<lambda>e. ethrow (KeyErr
           (if sdk_name e = Some ''AccessDeniedException'' then UNAUTHORIZED
            else if sdk_name e = Some ''InvalidCiphertextException'' then INVALID_KEY_FORMAT else DECRYPTION_FAILED)
           (after_attempts ''decrypt key via AWS KMS'') (sdk_message e))))"

definition aws_getKeyByReference :: "string \<Rightarrow> ('b, string) km" where
  "aws_getKeyByReference keyRef = km_fail INVALID_CONFIG ''getKeyByReference is not supported for AWS KMS backend''"

definition healthy :: "('b \<Rightarrow> (sdk_error + unit) \<times> 'b) \<Rightarrow> ('b, bool) km" where
  "healthy call = ecatch (ebind (remote_call call) (\<lambda>_. ereturn True)) (\<lambda>_. ereturn False)"

definition aws_isHealthy :: "'b km_env \<Rightarrow> string \<Rightarrow> ('b, bool) km" where
  "aws_isHealthy env keyArn = healthy (kms_describe env keyArn)"

definition aws_rotateEncryptionKey :: "'b km_env \<Rightarrow> string \<Rightarrow> ('b, rotation_result) km" where
  "aws_rotateEncryptionKey env keyArn = ebind (eget km_now) (\<lambda>timestamp.
     ecatch
       (ebind (remote_call (kms_rotation_status env keyArn)) (\<lambda>enabled.
        if enabled
        then ereturn \<lparr>rr_backend = ''aws-kms'', rr_rotated = False, rr_keyVersion = Some keyArn,
               rr_message = ''Automatic key rotation already enabled'', rr_timestamp = timestamp\<rparr>
        else ebind (remote_call (kms_enable_rotation env keyArn)) (\<lambda>_.
          ereturn \<lparr>rr_backend = ''aws-kms'', rr_rotated = True, rr_keyVersion = Some keyArn,
            rr_message = ''Automatic key rotation enabled'', rr_timestamp = timestamp\<rparr>)))
       (\<lambda>e. ethrow (KeyErr ENCRYPTION_FAILED ''Failed to configure AWS KMS key rotation'' (sdk_message e))))"

section \<open>The local fallback\<close>

definition LOCAL_FALLBACK_PREFIX :: string where
  "LOCAL_FALLBACK_PREFIX = ''local:''"

definition getFallbackKey :: "'b km_env \<Rightarrow> km_error + string" where
  "getFallbackKey env = (case truthy_str (km_fallback_key env) of
     Some k \<Rightarrow> if length k \<noteq> 64
       then Inl (KeyErr INVALID_CONFIG ''VAULT_FALLBACK_KEY must be a 64-char hex string (32 bytes)'' None)
       else Inr (hex_decode k)
   | None \<Rightarrow> Inl (KeyErr INVALID_CONFIG ''VAULT_FALLBACK_KEY must be a 64-char hex string (32 bytes)'' None))"

definition lift_crypto :: "js_error + 'a \<Rightarrow> ('b, 'a) km" where
  "lift_crypto r = (case r of Inl e \<Rightarrow> ethrow (CryptoErr e) | Inr x \<Rightarrow> ereturn x)"

text \<open>\<open>randomBytes\<close>, by how often it was called.\<close>

definition km_random :: "'b km_env \<Rightarrow> nat \<Rightarrow> ('b, string) km" where
  "km_random env bytes = ebind (eget km_drawn) (\<lambda>n. ebind (emodify (\<lambda>s. s\<lparr>km_drawn := Suc (km_drawn s)\<rparr>)) (\<lambda>_.
     ereturn (random_bytes (km_cipher env) bytes n)))"

definition localEncrypt :: "'b km_env \<Rightarrow> string \<Rightarrow> ('b, string) km" where
  "localEncrypt env plaintext = ebind (elift (getFallbackKey env)) (\<lambda>key.
     ebind (km_random env 12) (\<lambda>iv.
     ebind (lift_crypto (sealed (km_cipher env) key iv plaintext)) (\<lambda>(ct, tag).
     ereturn (LOCAL_FALLBACK_PREFIX @ base64 (iv @ tag @ ct)))))"

definition localDecrypt :: "'b km_env \<Rightarrow> string \<Rightarrow> ('b, string) km" where
  "localDecrypt env ciphertext = ebind (elift (getFallbackKey env)) (\<lambda>key.
     let buf = base64_decode (drop (length LOCAL_FALLBACK_PREFIX) ciphertext);
         iv = take 12 buf; tag = take 16 (drop 12 buf); data = drop 28 buf in
     ebind (lift_crypto (decipher (km_cipher env) key iv tag)) (\<lambda>_.
     lift_crypto (opened (km_cipher env) key iv tag data)))"

section \<open>Vault\<close>

definition newVaultService :: "'b km_env \<Rightarrow> vault_config \<Rightarrow> km_error + km_service" where
  "newVaultService env config =
     (if km_sdk_installed env ''node-vault'' then Inr (VaultService (vault_transitPath config))
      else Inl (KeyErr INVALID_CONFIG ''Vault client not installed. Install node-vault to use Vault backend.'' None))"

definition isTransientError :: "sdk_error \<Rightarrow> bool" where
  "isTransientError e \<longleftrightarrow> sdk_statusCode e = Some 429 \<or> sdk_statusCode e = Some 503
     \<or> sdk_code e = Some ''ECONNREFUSED'' \<or> sdk_code e = Some ''ETIMEDOUT''"

definition isVaultUnavailable :: "sdk_error \<Rightarrow> bool" where
  "isVaultUnavailable e \<longleftrightarrow> sdk_code e = Some ''ECONNREFUSED'' \<or> sdk_code e = Some ''ETIMEDOUT'' \<or> sdk_statusCode e = Some 503"

definition vault_encryptKey :: "'b km_env \<Rightarrow> string \<Rightarrow> string \<Rightarrow> ('b, encrypted_key) km" where
  "vault_encryptKey env transitPath plaintext =
     (if plaintext = [] then km_fail INVALID_KEY_FORMAT ''Plaintext key cannot be empty''
      else with_retries isTransientError
        (ebind (remote_call (vault_encrypt env (transitPath @ ''/encrypt/stellar-keys'') (base64 plaintext))) (\<lambda>response.
         ebind (eget km_now) (\<lambda>now.
         ereturn \<lparr>ek_ciphertext = ve_ciphertext response,
           ek_keyVersion = (case ve_key_version response of Some v \<Rightarrow> show_int v | None \<Rightarrow> ''1''),
           ek_algorithm = ''AES-256-GCM'', ek_timestamp = now\<rparr>)))
        (\<lambda>e. if isVaultUnavailable e \<and> truthy_str (km_fallback_key env) \<noteq> None
          then ebind (localEncrypt env plaintext) (\<lambda>ciphertext. ebind (eget km_now) (\<lambda>now.
            ereturn \<lparr>ek_ciphertext = ciphertext, ek_keyVersion = ''local'', ek_algorithm = ''AES-256-GCM'', ek_timestamp = now\<rparr>))
          else ethrow (KeyErr
            (if sdk_statusCode e = Some 403 then UNAUTHORIZED
             else if sdk_statusCode e = Some 404 then KEY_NOT_FOUND else ENCRYPTION_FAILED)
            (after_attempts ''encrypt key via Vault'') (sdk_message e))))"

definition vault_decryptKey :: "'b km_env \<Rightarrow> string \<Rightarrow> encrypted_key \<Rightarrow> ('b, string) km" where
  "vault_decryptKey env transitPath enc =
     (if ek_ciphertext enc = [] then km_fail INVALID_KEY_FORMAT ''Encrypted key ciphertext cannot be empty''
      else if starts_with LOCAL_FALLBACK_PREFIX (ek_ciphertext enc) then localDecrypt env (ek_ciphertext enc)
      else with_retries isTransientError
        (ebind (remote_call (vault_decrypt env (transitPath @ ''/decrypt/stellar-keys'') (ek_ciphertext enc))) (\<lambda>plaintext.
         ereturn (base64_decode plaintext)))
        (\<lambda>e. ethrow (KeyErr
           (if sdk_statusCode e = Some 403 then UNAUTHORIZED
            else if sdk_statusCode e = Some 400 then INVALID_KEY_FORMAT else DECRYPTION_FAILED)
           (after_attempts ''decrypt key via Vault'') (sdk_message e))))"

definition message_text :: "sdk_error \<Rightarrow> string" where
  "message_text e = (case sdk_message e of Some m \<Rightarrow> m | None \<Rightarrow> ''undefined'')"

definition vault_getKeyByReference :: "'b km_env \<Rightarrow> string \<Rightarrow> ('b, string) km" where
  "vault_getKeyByReference env keyRef = ecatch (remote_call (vault_read env (''secret/data/'' @ keyRef))) (\<lambda>e.
     if sdk_statusCode e = Some 404 then km_fail KEY_NOT_FOUND (''Key not found in Vault: '' @ keyRef)
     else km_fail VAULT_UNAVAILABLE (''Failed to retrieve key from Vault: '' @ message_text e))"

definition vault_isHealthy :: "'b km_env \<Rightarrow> ('b, bool) km" where
  "vault_isHealthy env = healthy (vault_health env)"

definition vault_rotateEncryptionKey :: "'b km_env \<Rightarrow> string \<Rightarrow> ('b, rotation_result) km" where
  "vault_rotateEncryptionKey env transitPath = ebind (eget km_now) (\<lambda>timestamp.
     ecatch
       (ebind (remote_call (vault_rotate env (transitPath @ ''/keys/stellar-keys/rotate''))) (\<lambda>latest.
        let keyVersion = (case latest of Some v \<Rightarrow> show_int v | None \<Rightarrow> ''unknown'') in
        ereturn \<lparr>rr_backend = ''vault'', rr_rotated = True, rr_keyVersion = Some keyVersion,
          rr_message = ''Transit key rotated to version '' @ keyVersion, rr_timestamp = timestamp\<rparr>))
       (\<lambda>e. ethrow (KeyErr
          (if sdk_statusCode e = Some 403 then UNAUTHORIZED
           else if sdk_statusCode e = Some 404 then KEY_NOT_FOUND else ENCRYPTION_FAILED)
          ''Failed to rotate Vault Transit encryption key'' (sdk_message e))))"

section \<open>The service in use\<close>

definition encryptKey :: "'b km_env \<Rightarrow> km_service \<Rightarrow> string \<Rightarrow> ('b, encrypted_key) km" where
  "encryptKey env svc plaintext = (case svc of
     AwsKmsService arn \<Rightarrow> aws_encryptKey env arn plaintext | VaultService path \<Rightarrow> vault_encryptKey env path plaintext)"

definition decryptKey :: "'b km_env \<Rightarrow> km_service \<Rightarrow> encrypted_key \<Rightarrow> ('b, string) km" where
  "decryptKey env svc enc = (case svc of
     AwsKmsService arn \<Rightarrow> aws_decryptKey env enc | VaultService path \<Rightarrow> vault_decryptKey env path enc)"

definition isHealthy :: "'b km_env \<Rightarrow> km_service \<Rightarrow> ('b, bool) km" where
  "isHealthy env svc = (case svc of AwsKmsService arn \<Rightarrow> aws_isHealthy env arn | VaultService path \<Rightarrow> vault_isHealthy env)"

definition rotateEncryptionKey :: "'b km_env \<Rightarrow> km_service \<Rightarrow> ('b, rotation_result) km" where
  "rotateEncryptionKey env svc = (case svc of
     AwsKmsService arn \<Rightarrow> aws_rotateEncryptionKey env arn | VaultService path \<Rightarrow> vault_rotateEncryptionKey env path)"

definition createKeyManagementService :: "'b km_env \<Rightarrow> km_config \<Rightarrow> km_error + km_service" where
  "createKeyManagementService env config = (case config of
     AwsKmsConfig c \<Rightarrow> newAwsKmsService env c | VaultConfig c \<Rightarrow> newVaultService env c)"

definition getKeyManagementService :: "('b, km_service) km" where
  "getKeyManagementService = ebind (eget km_instance) (\<lambda>i. case i of
     Some svc \<Rightarrow> ereturn svc
   | None \<Rightarrow> km_fail INVALID_CONFIG ''Key management service not initialized. Call initializeKeyManagement() first.'')"

definition initializeKeyManagement :: "'b km_env \<Rightarrow> km_config \<Rightarrow> ('b, unit) km" where
  "initializeKeyManagement env config = ebind (elift (createKeyManagementService env config)) (\<lambda>svc.
     emodify (\<lambda>s. s\<lparr>km_instance := Some svc\<rparr>))"

section \<open>Configuration\<close>

record km_settings =
  st_backend :: "string option"
  st_kms_arn :: "string option"
  st_region :: "string option"
  st_access_key :: "string option"
  st_secret_key :: "string option"
  st_vault_addr :: "string option"
  st_vault_token :: "string option"
  st_vault_path :: "string option"
  st_node_env :: "string option"

datatype startup_note =
    DevFallback string "string list"
  | MissingVars string "string list"
  | AwsPresent string string
  | VaultPresent string string
  | UnknownBackend string

text \<open>\<open>replace(/(?<=.{20}).+(?=.{6})/, '***')\<close> on a text of one line: what is between the first twenty and the last
  six characters.\<close>

definition mask_arn :: "string \<Rightarrow> string" where
  "mask_arn s = (if length s \<ge> 27 then take 20 s @ ''***'' @ drop (length s - 6) s else s)"

definition unset :: "string option \<Rightarrow> bool" where
  "unset v \<longleftrightarrow> truthy_str v = None"

text \<open>What is logged at start-up; nothing is thrown.\<close>

definition validateKmsConfigOnStartup :: "string option \<Rightarrow> km_settings \<Rightarrow> startup_note" where
  "validateKmsConfigOnStartup processEnv cfg =
     (let backend = (case st_backend cfg of Some b \<Rightarrow> b | None \<Rightarrow> ''aws-kms'');
          isDev = ((case st_node_env cfg of Some e \<Rightarrow> Some e | None \<Rightarrow> processEnv) = Some ''development'') in
      if backend = ''aws-kms'' then
        (if unset (st_kms_arn cfg) then
           (if isDev then DevFallback backend [] else MissingVars backend [''AWS_KMS_KEY_ARN''])
         else AwsPresent (mask_arn (the (st_kms_arn cfg))) (case st_region cfg of Some r \<Rightarrow> r | None \<Rightarrow> ''us-east-1 (default)''))
      else if backend = ''vault'' then
        (let missing = (if unset (st_vault_addr cfg) then [''VAULT_ADDR''] else [])
             @ (if unset (st_vault_token cfg) then [''VAULT_TOKEN''] else [])
             @ (if unset (st_vault_path cfg) then [''VAULT_TRANSIT_PATH''] else []) in
         if missing \<noteq> [] then (if isDev then DevFallback backend missing else MissingVars backend missing)
         else VaultPresent (the (st_vault_addr cfg)) (the (st_vault_path cfg)))
      else UnknownBackend backend)"

definition buildKeyManagementConfigFromEnv :: "km_settings \<Rightarrow> km_config option" where
  "buildKeyManagementConfigFromEnv cfg =
     (if st_backend cfg = Some ''aws-kms'' then
        (case truthy_str (st_kms_arn cfg) of
           None \<Rightarrow> None
         | Some arn \<Rightarrow> Some (AwsKmsConfig \<lparr>aws_keyArn = arn, aws_region = st_region cfg,
             aws_accessKeyId = st_access_key cfg, aws_secretAccessKey = st_secret_key cfg\<rparr>))
      else (case (truthy_str (st_vault_addr cfg), truthy_str (st_vault_token cfg), truthy_str (st_vault_path cfg)) of
          (Some a, Some t, Some p) \<Rightarrow> Some (VaultConfig \<lparr>vault_address = a, vault_token = t, vault_transitPath = p\<rparr>)
        | _ \<Rightarrow> None))"

section \<open>Secrets of the environment\<close>

definition ENCRYPTED_ENV_PREFIX :: string where
  "ENCRYPTED_ENV_PREFIX = ''kms:''"

definition isEncryptedEnvValue :: "string option \<Rightarrow> bool" where
  "isEncryptedEnvValue value = (case value of Some v \<Rightarrow> starts_with ENCRYPTED_ENV_PREFIX v | None \<Rightarrow> False)"

text \<open>The option \<open>kmsService\<close>: left out, \<open>null\<close>, or a service.\<close>

datatype kms_option = NotGiven | NullService | GivenService km_service

definition dev_environment :: "string option \<Rightarrow> bool" where
  "dev_environment e \<longleftrightarrow> e \<in> {Some ''development'', Some ''test''}"

definition decryptEnvSecret :: "'b km_env \<Rightarrow> string option \<Rightarrow> string option \<Rightarrow> kms_option \<Rightarrow> ('b, string option) km" where
  "decryptEnvSecret env value nodeEnvOpt kmsService =
     (if value = None \<or> value = Some [] then ereturn value
      else if \<not> isEncryptedEnvValue value then ereturn value
      else let isDev = dev_environment (case nodeEnvOpt of Some e \<Rightarrow> Some e
             | None \<Rightarrow> (case km_node_env env of Some e \<Rightarrow> Some e | None \<Rightarrow> Some ''development''));
           ciphertext = drop (length ENCRYPTED_ENV_PREFIX) (the value) in
        if ciphertext = [] then km_fail INVALID_KEY_FORMAT ''Encrypted env value has empty ciphertext''
        else ebind (case kmsService of
            GivenService svc \<Rightarrow> ereturn (Some svc)
          | NullService \<Rightarrow> ereturn None
          | NotGiven \<Rightarrow> ecatch (ebind getKeyManagementService (\<lambda>svc. ereturn (Some svc))) (\<lambda>_. ereturn None)) (\<lambda>kms.
          case kms of
            None \<Rightarrow> if isDev then ereturn (Some ciphertext)
              else km_fail INVALID_CONFIG ''Cannot decrypt env secret: key management service is not initialized''
          | Some svc \<Rightarrow> ebind (eget km_now) (\<lambda>now.
              ebind (decryptKey env svc \<lparr>ek_ciphertext = ciphertext, ek_keyVersion = ''env'',
                ek_algorithm = ''AES-256-GCM'', ek_timestamp = now\<rparr>) (\<lambda>p. ereturn (Some p)))))"

definition default_secret_keys :: "string list" where
  "default_secret_keys = [''DATABASE_URL'', ''JWT_SECRET'', ''ANCHOR_SECRET_KEY'', ''STELLAR_DISTRIBUTION_SECRET'',
     ''STELLAR_FEE_BUMP_SECRET'', ''RELAYER_SECRET_KEY'', ''WEBHOOK_SECRET'', ''SIGNING_KEY'']"

fun resolve_keys :: "'b km_env \<Rightarrow> string list \<Rightarrow> (string \<Rightarrow> string option) \<Rightarrow> ('b, string \<Rightarrow> string option) km" where
  "resolve_keys env [] resolved = ereturn resolved"
| "resolve_keys env (key # keys) resolved =
     (if isEncryptedEnvValue (resolved key)
      then ebind (decryptEnvSecret env (resolved key) None NotGiven) (\<lambda>v. resolve_keys env keys (resolved(key := v)))
      else resolve_keys env keys resolved)"

definition resolveSensitiveEnvSecrets ::
  "'b km_env \<Rightarrow> (string \<Rightarrow> string option) \<Rightarrow> string list \<Rightarrow> ('b, string \<Rightarrow> string option) km" where
  "resolveSensitiveEnvSecrets env vars secretKeys = resolve_keys env secretKeys vars"

definition encrypted_candidates :: "(string \<Rightarrow> string option) \<Rightarrow> string option list" where
  "encrypted_candidates vars = filter isEncryptedEnvValue (List.map vars default_secret_keys)"

definition verifyDecryptionCapabilityOnStartup :: "'b km_env \<Rightarrow> (string \<Rightarrow> string option) \<Rightarrow> ('b, bool) km" where
  "verifyDecryptionCapabilityOnStartup env vars = (case encrypted_candidates vars of
     [] \<Rightarrow> ereturn True
   | candidate # _ \<Rightarrow>
       let isDev = dev_environment (case vars ''NODE_ENV'' of Some e \<Rightarrow> Some e | None \<Rightarrow> km_node_env env) in
       ebind (ecatch (ebind getKeyManagementService (\<lambda>svc. ereturn True)) (\<lambda>_. ereturn False)) (\<lambda>initialized.
       if \<not> initialized then ereturn isDev
       else ecatch (ebind (decryptEnvSecret env candidate (vars ''NODE_ENV'') NotGiven) (\<lambda>_. ereturn True))
              (\<lambda>_. ereturn False)))"

text \<open>\<open>hydrateEncryptedConfigSecrets\<close> of \<open>config/env.ts\<close>: the backend is initialised if it is configured, failures
  aside, and the resolved values replace those of the configuration.\<close>

definition hydrateEncryptedConfigSecrets ::
  "'b km_env \<Rightarrow> km_settings \<Rightarrow> string list \<Rightarrow> (string \<Rightarrow> string option) \<Rightarrow> ('b, string \<Rightarrow> string option) km" where
  "hydrateEncryptedConfigSecrets env cfg keys config =
     ebind (case buildKeyManagementConfigFromEnv cfg of
         None \<Rightarrow> ereturn ()
       | Some c \<Rightarrow> ecatch (initializeKeyManagement env c) (\<lambda>_. ereturn ())) (\<lambda>_.
     ebind (resolveSensitiveEnvSecrets env config keys) (\<lambda>resolved.
     ereturn (\<lambda>key. if key \<in> set keys \<and> resolved key \<noteq> None then resolved key else config key)))"

end
