(* ===== verification/Key_Props.thy ===== *)
theory Key_Props
  imports Key_Management
begin

text \<open>
  What the key management promises: what a service encrypts, it decrypts to the same key, also through the local
  fallback while Vault cannot be reached; operations end within three attempts; secrets of the environment that are
  not marked stay as they are; and how much the check at start-up looks at.
\<close>

section \<open>Retries\<close>

text \<open>The waits that \<open>k\<close> repetitions take, and the states in which the attempts start.\<close>

lemma retry_last: "retry_call tr call 3 = ecatch call ethrow"
  by (rule ext) (simp add: retry_call.simps [of tr call 3] maxRetries_def)

lemma retry_step:
  "n < 3 \<Longrightarrow> retry_call tr call n = ecatch call (\<lambda>e. if tr e
     then ebind (emodify (\<lambda>s. s\<lparr>km_waits := km_waits s @ [retryDelayMs * 2 ^ (n - 1)]\<rparr>)) (\<lambda>_. retry_call tr call (n + 1))
     else ethrow e)"
  by (rule ext) (simp add: retry_call.simps [of tr call n] maxRetries_def)

lemma retry_result:
  assumes "n \<le> 3" "retry_call tr call n s = (Inr x, s')"
  shows "\<exists>t. call t = (Inr x, s')"
  using assms
proof (induction "3 - n" arbitrary: n s)
  case 0
  then have "n = 3" by simp
  then show ?case using 0 by (auto simp: retry_last eff_defs split: prod.splits sum.splits)
next
  case (Suc d)
  then have n: "n < 3" by simp
  show ?case
  proof (cases "call s")
    case (Pair r t)
    show ?thesis
    proof (cases r)
      case (Inr y)
      then show ?thesis using Suc.prems(2) Pair n by (auto simp: retry_step ecatch_def)
    next
      case (Inl e)
      then obtain u where "retry_call tr call (n + 1) u = (Inr x, s')"
        using Suc.prems(2) Pair n by (auto simp: retry_step eff_defs split: if_splits)
      then show ?thesis using Suc.hyps(1) [of "n + 1" u] Suc.hyps(2) n by auto
    qed
  qed
qed

lemma retry_error:
  assumes "n \<le> 3" "retry_call tr call n s = (Inl e, s')"
  shows "\<exists>t. call t = (Inl e, s')"
  using assms
proof (induction "3 - n" arbitrary: n s)
  case 0
  then have "n = 3" by simp
  then show ?case using 0 by (auto simp: retry_last eff_defs split: prod.splits sum.splits)
next
  case (Suc d)
  then have n: "n < 3" by simp
  show ?case
  proof (cases "call s")
    case (Pair r t)
    show ?thesis
    proof (cases r)
      case (Inr y)
      then show ?thesis using Suc.prems(2) Pair n by (auto simp: retry_step ecatch_def)
    next
      case (Inl f)
      show ?thesis
      proof (cases "tr f")
        case True
        then obtain u where "retry_call tr call (n + 1) u = (Inl e, s')"
          using Suc.prems(2) Pair Inl n by (auto simp: retry_step eff_defs)
        then show ?thesis using Suc.hyps(1) [of "n + 1" u] Suc.hyps(2) n by auto
      next
        case False
        then show ?thesis using Suc.prems(2) Pair Inl n by (auto simp: retry_step eff_defs)
      qed
    qed
  qed
qed

lemma with_retries_result:
  assumes "with_retries tr call give_up s = (Inr x, s')"
  shows "(\<exists>t. call t = (Inr x, s')) \<or> (\<exists>t e u. call t = (Inl e, u) \<and> give_up e u = (Inr x, s'))"
proof (cases "retry_call tr call 1 s")
  case (Pair r u)
  show ?thesis
  proof (cases r)
    case (Inl e)
    then show ?thesis using assms Pair retry_error [of 1 tr call s e u] by (auto simp: with_retries_def ecatch_def)
  next
    case (Inr y)
    then show ?thesis using assms Pair retry_result [of 1 tr call s y u] by (auto simp: with_retries_def ecatch_def)
  qed
qed

section \<open>Encryption is undone by decryption\<close>

text \<open>What KMS, Vault and the cipher are documented to do: a ciphertext decrypts to what was encrypted when the
  command succeeds, Vault's ciphertexts start with \<open>vault:\<close>, and an IV of twelve bytes gives a tag of sixteen.\<close>

definition kms_laws :: "'b km_env \<Rightarrow> bool" where
  "kms_laws env \<longleftrightarrow> (\<forall>arn p b r b' blob. kms_encrypt env arn p b = (Inr r, b') \<longrightarrow> kms_CiphertextBlob r = Some blob \<longrightarrow>
     (\<forall>c q c'. kms_decrypt env blob c = (Inr q, c') \<longrightarrow> q = Some p))"

definition vault_laws :: "'b km_env \<Rightarrow> bool" where
  "vault_laws env \<longleftrightarrow> (\<forall>path x b r b'. vault_encrypt env (path @ ''/encrypt/stellar-keys'') x b = (Inr r, b') \<longrightarrow>
     starts_with ''vault:'' (ve_ciphertext r) \<and>
     (\<forall>c q c'. vault_decrypt env (path @ ''/decrypt/stellar-keys'') (ve_ciphertext r) c = (Inr q, c') \<longrightarrow> q = x))"

definition local_laws :: "'b km_env \<Rightarrow> bool" where
  "local_laws env \<longleftrightarrow> (\<forall>bytes n. length (random_bytes (km_cipher env) bytes n) = bytes) \<and>
     (\<forall>key iv plain ct tag. sealed (km_cipher env) key iv plain = Inr (ct, tag) \<longrightarrow> length tag = 16 \<and>
       decipher (km_cipher env) key iv tag = Inr () \<and> opened (km_cipher env) key iv tag ct = Inr plain)"

lemma kms_lawsD:
  "kms_laws env \<Longrightarrow> kms_encrypt env arn p b = (Inr r, b') \<Longrightarrow> kms_CiphertextBlob r = Some blob
     \<Longrightarrow> kms_decrypt env blob c = (Inr q, c') \<Longrightarrow> q = Some p"
  unfolding kms_laws_def by blast

lemma vault_lawsD:
  assumes "vault_laws env" "vault_encrypt env (path @ ''/encrypt/stellar-keys'') x b = (Inr r, b')"
  shows "starts_with ''vault:'' (ve_ciphertext r)"
    "vault_decrypt env (path @ ''/decrypt/stellar-keys'') (ve_ciphertext r) c = (Inr q, c') \<Longrightarrow> q = x"
  using assms unfolding vault_laws_def by blast+

lemma local_prefix [simp]: "starts_with LOCAL_FALLBACK_PREFIX (LOCAL_FALLBACK_PREFIX @ s)"
  by (simp add: starts_with_def)

lemma vault_not_local: "starts_with ''vault:'' s \<Longrightarrow> \<not> starts_with LOCAL_FALLBACK_PREFIX s"
  by (cases s) (auto simp: starts_with_def LOCAL_FALLBACK_PREFIX_def)

lemma localDecrypt_localEncrypt:
  assumes "local_laws env" "localEncrypt env p s = (Inr c, s')"
  shows "localDecrypt env c t = (Inr p, t) \<and> c \<noteq> [] \<and> starts_with LOCAL_FALLBACK_PREFIX c"
proof -
  obtain key ct tag where k: "getFallbackKey env = Inr key"
    "sealed (km_cipher env) key (random_bytes (km_cipher env) 12 (km_drawn s)) p = Inr (ct, tag)"
    "c = LOCAL_FALLBACK_PREFIX @ base64 (random_bytes (km_cipher env) 12 (km_drawn s) @ tag @ ct)"
    using assms(2) by (auto simp: localEncrypt_def km_random_def lift_crypto_def eff_defs split: sum.splits)
  define iv where "iv = random_bytes (km_cipher env) 12 (km_drawn s)"
  have l: "length iv = 12" "length tag = 16" "decipher (km_cipher env) key iv tag = Inr ()"
    "opened (km_cipher env) key iv tag ct = Inr p"
    using assms(1) k(2) unfolding local_laws_def iv_def by blast+
  have "take 12 (iv @ tag @ ct) = iv" "take 16 (drop 12 (iv @ tag @ ct)) = tag" "drop 28 (iv @ tag @ ct) = ct"
    using l(1,2) by simp_all
  then have "localDecrypt env c t = (Inr p, t)"
    using k(1) l(3,4) unfolding k(3) iv_def [symmetric]
    by (simp add: localDecrypt_def lift_crypto_def eff_defs Let_def)
  then show ?thesis using k(3) by (simp add: LOCAL_FALLBACK_PREFIX_def starts_with_def)
qed

lemma aws_roundtrip:
  assumes "kms_laws env" "aws_encryptKey env arn p s = (Inr ek, s')" "aws_decryptKey env ek t = (Inr q, t')"
  shows "q = p"
proof -
  have p: "p \<noteq> []" using assms(2) by (auto simp: aws_encryptKey_def km_fail_def eff_defs)
  obtain b r b' blob where b: "kms_encrypt env arn p b = (Inr r, b')" "kms_CiphertextBlob r = Some blob"
    "ek_ciphertext ek = base64 blob"
    using assms(2) p
    by (auto simp: aws_encryptKey_def eff_defs remote_call_def dest!: with_retries_result split: prod.splits sum.splits option.splits)
  have "ek_ciphertext ek \<noteq> []" using assms(3) by (auto simp: aws_decryptKey_def km_fail_def eff_defs)
  then obtain c c' where "kms_decrypt env (base64_decode (ek_ciphertext ek)) c = (Inr (Some q), c')"
    using assms(3)
    by (auto simp: aws_decryptKey_def eff_defs remote_call_def dest!: with_retries_result split: prod.splits sum.splits option.splits)
  then show ?thesis using kms_lawsD [OF assms(1) b(1,2), of c "Some q" c'] b(3) by simp
qed

lemma vault_encrypt_cases:
  assumes "vault_encryptKey env path p s = (Inr ek, s')"
  obtains (remote) b r b' where "vault_encrypt env (path @ ''/encrypt/stellar-keys'') (base64 p) b = (Inr r, b')" "ek_ciphertext ek = ve_ciphertext r"
  | (fallback) t u where "localEncrypt env p t = (Inr (ek_ciphertext ek), u)"
proof -
  have p: "p \<noteq> []" using assms by (auto simp: vault_encryptKey_def km_fail_def eff_defs)
  note r = with_retries_result [OF assms [unfolded vault_encryptKey_def, simplified p if_False]]
  show thesis
  proof (rule disjE [OF r], goal_cases)
    case 1
    then show thesis by (auto simp: eff_defs remote_call_def intro: remote split: prod.splits sum.splits)
  next
    case 2
    then obtain e u where g: "(if isVaultUnavailable e \<and> truthy_str (km_fallback_key env) \<noteq> None
          then ebind (localEncrypt env p) (\<lambda>ciphertext. ebind (eget km_now) (\<lambda>now.
            ereturn \<lparr>ek_ciphertext = ciphertext, ek_keyVersion = ''local'', ek_algorithm = ''AES-256-GCM'', ek_timestamp = now\<rparr>))
          else ethrow (KeyErr
            (if sdk_statusCode e = Some 403 then UNAUTHORIZED
             else if sdk_statusCode e = Some 404 then KEY_NOT_FOUND else ENCRYPTION_FAILED)
            (after_attempts ''encrypt key via Vault'') (sdk_message e))) u = (Inr ek, s')"
      by blast
    show thesis
    proof (cases "localEncrypt env p u")
      case (Pair c v)
      then show thesis using g by (cases c) (auto simp: eff_defs intro: fallback split: if_splits)
    qed
  qed
qed

lemma vault_roundtrip:
  assumes "vault_laws env" "local_laws env" "vault_encryptKey env path p s = (Inr ek, s')" "vault_decryptKey env path ek t = (Inr q, t')"
  shows "q = p"
  using assms(3)
proof (cases rule: vault_encrypt_cases)
  case (remote b r b')
  then have v: "starts_with ''vault:'' (ek_ciphertext ek)" using assms(1) by (simp add: vault_lawsD(1))
  then have "ek_ciphertext ek \<noteq> []" by (auto simp: starts_with_def)
  then obtain c x c' where "vault_decrypt env (path @ ''/decrypt/stellar-keys'') (ek_ciphertext ek) c = (Inr x, c')" "q = base64_decode x"
    using assms(4) vault_not_local [OF v]
    by (auto simp: vault_decryptKey_def eff_defs remote_call_def dest!: with_retries_result split: prod.splits sum.splits)
  moreover from this(1) have "x = base64 p" using vault_lawsD(2) [OF assms(1) remote(1), of c x c'] remote(2) by simp
  ultimately show ?thesis by simp
next
  case (fallback w u)
  then show ?thesis using localDecrypt_localEncrypt [OF assms(2) fallback, of t] assms(4)
    by (simp add: vault_decryptKey_def)
qed

text \<open>What a key management service encrypts it decrypts to the same key: for AWS KMS, for Vault, and for what the
  local fallback wrote, whenever and in whatever state of the remote side the decryption succeeds.\<close>

theorem key_roundtrip:
  assumes "kms_laws env" "vault_laws env" "local_laws env"
    "encryptKey env svc p s = (Inr ek, s')" "decryptKey env svc ek t = (Inr q, t')"
  shows "q = p"
proof (cases svc)
  case (AwsKmsService arn)
  then show ?thesis using assms by (auto simp: encryptKey_def decryptKey_def intro: aws_roundtrip)
next
  case (VaultService path)
  then show ?thesis using assms by (auto simp: encryptKey_def decryptKey_def intro: vault_roundtrip)
qed

lemma with_retries_ok: "call s = (Inr x, s') \<Longrightarrow> with_retries tr call g s = (Inr x, s')"
  by (simp add: with_retries_def retry_step ecatch_def)

text \<open>Clients that keep the text, for the witnesses.\<close>

definition plain_km :: "unit km_env" where
  "plain_km = \<lparr>kms_encrypt = \<lambda>arn p b. (Inr \<lparr>kms_CiphertextBlob = Some p, kms_KeyId = Some arn\<rparr>, b),
     kms_decrypt = \<lambda>c b. if c = ''bad'' then (Inl \<lparr>sdk_name = Some ''InvalidCiphertextException'', sdk_code = None, sdk_statusCode = None, sdk_message = None\<rparr>, b)
       else (Inr (Some c), b),
     kms_describe = \<lambda>arn b. (Inr (), b), kms_rotation_status = \<lambda>arn b. (Inr False, b), kms_enable_rotation = \<lambda>arn b. (Inr (), b),
     vault_encrypt = \<lambda>path x b. if path = ''down/encrypt/stellar-keys''
       then (Inl \<lparr>sdk_name = None, sdk_code = Some ''ECONNREFUSED'', sdk_statusCode = None, sdk_message = None\<rparr>, b)
       else (Inr \<lparr>ve_ciphertext = ''vault:'' @ x, ve_key_version = Some 1\<rparr>, b),
     vault_decrypt = \<lambda>path c b. (Inr (drop 6 c), b), vault_read = \<lambda>path b. (Inr ''key'', b), vault_health = \<lambda>b. (Inr (), b),
     vault_rotate = \<lambda>path b. (Inr (Some 2), b), km_sdk_installed = \<lambda>_. True,
     km_cipher = \<lparr>random_bytes = \<lambda>bytes n. replicate bytes (CHR ''i''), sealed = \<lambda>k iv t. Inr (t, replicate 16 (CHR ''t'')),
       decipher = \<lambda>k iv tag. Inr (), opened = \<lambda>k iv tag ct. Inr ct\<rparr>,
     km_fallback_key = Some (replicate 64 (CHR ''a'')), km_node_env = Some ''production''\<rparr>"

definition idle_world :: "unit km_world" where
  "idle_world = \<lparr>km_remote = (), km_now = 1000, km_waits = [], km_drawn = 0, km_instance = Some (AwsKmsService ''arn'')\<rparr>"

lemma plain_km_vault_laws: "vault_laws plain_km"
proof -
  have "starts_with ''vault:'' (ve_ciphertext r) \<and> (vault_decrypt plain_km (path @ ''/decrypt/stellar-keys'') (ve_ciphertext r) c = (Inr q, c') \<longrightarrow> q = x)"
    if "vault_encrypt plain_km (path @ ''/encrypt/stellar-keys'') x b = (Inr r, b')" for path x b r b' c q c'
    using that by (auto simp: plain_km_def starts_with_def split: if_splits)
  then show ?thesis unfolding vault_laws_def by blast
qed

lemma plain_km_laws: "kms_laws plain_km" "vault_laws plain_km" "local_laws plain_km"
  by (auto simp: kms_laws_def local_laws_def plain_km_vault_laws) (auto simp: plain_km_def split: if_splits)

definition a_key :: encrypted_key where
  "a_key = \<lparr>ek_ciphertext = ''vault:'' @ base64 ''SECRET'', ek_keyVersion = ''1'', ek_algorithm = ''AES-256-GCM'', ek_timestamp = 1000\<rparr>"

lemma a_key_encrypted: "encryptKey plain_km (VaultService ''transit'') ''SECRET'' idle_world = (Inr a_key, idle_world)"
  unfolding encryptKey_def vault_encryptKey_def km_service.case
  by (simp, rule with_retries_ok)
    (simp add: eff_defs remote_call_def plain_km_def idle_world_def a_key_def show_int_def show_nat.simps hex_digit_def)

theorem key_roundtrip_witness:
  "\<exists>q. decryptKey plain_km (VaultService ''transit'') a_key idle_world = (Inr q, idle_world) \<and> q = ''SECRET''"
proof -
  have "decryptKey plain_km (VaultService ''transit'') a_key idle_world = (Inr (base64_decode (base64 ''SECRET'')), idle_world)"
    using vault_not_local [of "''vault:'' @ base64 ''SECRET''"]
    unfolding decryptKey_def vault_decryptKey_def km_service.case
    by (simp add: a_key_def starts_with_def del: base64.simps base64_decode_base64, intro with_retries_ok)
      (simp add: eff_defs remote_call_def plain_km_def idle_world_def del: base64.simps base64_decode_base64)
  with key_roundtrip [OF plain_km_laws a_key_encrypted] show ?thesis by blast
qed

section \<open>When Vault cannot be reached\<close>

definition vault_down :: "'b km_env \<Rightarrow> bool" where
  "vault_down env \<longleftrightarrow> (\<forall>path x b. \<exists>e b'. vault_encrypt env path x b = (Inl e, b') \<and> isVaultUnavailable e)"

lemma retry_all_fail:
  assumes "\<And>t. \<exists>e u. call t = (Inl e, u) \<and> P e"
  shows "\<exists>e u. retry_call tr call 1 s = (Inl e, u) \<and> P e"
proof (cases "retry_call tr call 1 s")
  case (Pair r u)
  show ?thesis
  proof (cases r)
    case (Inl e)
    then obtain t where "call t = (Inl e, u)" using retry_error [of 1 tr call s e u] Pair by auto
    then show ?thesis using assms [of t] Pair Inl by auto
  next
    case (Inr x)
    then obtain t where "call t = (Inr x, u)" using retry_result [of 1 tr call s x u] Pair by auto
    then show ?thesis using assms [of t] by auto
  qed
qed

text \<open>Without Vault the service still encrypts and decrypts: when every request to Vault fails as unreachable and
  \<open>VAULT_FALLBACK_KEY\<close> is a key of 64 characters that the cipher takes, any key that is not empty is encrypted, and
  what is returned decrypts to it at any later time.\<close>

theorem fallback_keeps_service:
  assumes "local_laws env" "vault_down env" "km_fallback_key env = Some k" "length k = 64"
    "\<And>iv. \<exists>r. sealed (km_cipher env) (hex_decode k) iv p = Inr r" "p \<noteq> []"
  shows "\<exists>ek s'. encryptKey env (VaultService path) p s = (Inr ek, s') \<and> (\<forall>t. decryptKey env (VaultService path) ek t = (Inr p, t))"
proof -
  have k: "truthy_str (km_fallback_key env) = Some k" using assms(3,4) by (auto intro: truthy_nonempty)
  define call where "call = ebind (remote_call (vault_encrypt env (path @ ''/encrypt/stellar-keys'') (base64 p))) (\<lambda>response.
         ebind (eget km_now) (\<lambda>now. ereturn \<lparr>ek_ciphertext = ve_ciphertext response,
           ek_keyVersion = (case ve_key_version response of Some v \<Rightarrow> show_int v | None \<Rightarrow> ''1''),
           ek_algorithm = ''AES-256-GCM'', ek_timestamp = now\<rparr>))"
  have "\<exists>e u. call t = (Inl e, u) \<and> isVaultUnavailable e" for t
  proof -
    obtain e b' where "vault_encrypt env (path @ ''/encrypt/stellar-keys'') (base64 p) (km_remote t) = (Inl e, b')" "isVaultUnavailable e"
      using assms(2) unfolding vault_down_def by blast
    then show ?thesis by (auto simp: call_def eff_defs remote_call_def)
  qed
  then obtain e u where e: "retry_call isTransientError call 1 s = (Inl e, u)" "isVaultUnavailable e"
    using retry_all_fail [of call isVaultUnavailable] by blast
  obtain ct tag where c: "sealed (km_cipher env) (hex_decode k) (random_bytes (km_cipher env) 12 (km_drawn u)) p = Inr (ct, tag)"
    using assms(5) by (metis surj_pair)
  then obtain c v where l: "localEncrypt env p u = (Inr c, v)"
    using k assms(4) by (auto simp: localEncrypt_def getFallbackKey_def km_random_def lift_crypto_def eff_defs)
  define ek where "ek = \<lparr>ek_ciphertext = c, ek_keyVersion = ''local'', ek_algorithm = ''AES-256-GCM'', ek_timestamp = km_now v\<rparr>"
  have "encryptKey env (VaultService path) p s = (Inr ek, v)"
    using assms(6) e k l unfolding encryptKey_def km_service.case vault_encryptKey_def with_retries_def call_def [symmetric]
    by (simp add: ecatch_def ebind_def eget_def ereturn_def ek_def)
  moreover have "decryptKey env (VaultService path) ek t = (Inr p, t)" for t
    using localDecrypt_localEncrypt [OF assms(1) l, of t] by (simp add: decryptKey_def vault_decryptKey_def ek_def)
  ultimately show ?thesis by blast
qed

theorem fallback_keeps_service_witness:
  "\<exists>ek s'. encryptKey (plain_km\<lparr>vault_encrypt := \<lambda>path x b.
       (Inl \<lparr>sdk_name = None, sdk_code = Some ''ECONNREFUSED'', sdk_statusCode = None, sdk_message = None\<rparr>, b)\<rparr>) (VaultService ''down'') ''SECRET'' idle_world = (Inr ek, s')"
  (is "\<exists>ek s'. encryptKey ?env _ _ _ = _")
proof -
  have "local_laws ?env" using plain_km_laws(3) by (simp add: local_laws_def)
  moreover have "vault_down ?env" by (simp add: vault_down_def isVaultUnavailable_def)
  moreover have "km_fallback_key ?env = Some (replicate 64 (CHR ''a''))" by (simp add: plain_km_def)
  moreover have "\<exists>r. sealed (km_cipher ?env) (hex_decode (replicate 64 (CHR ''a''))) iv ''SECRET'' = Inr r" for iv
    by (simp add: plain_km_def)
  ultimately show ?thesis using fallback_keeps_service [of ?env "replicate 64 (CHR ''a'')" "''SECRET''"] by fastforce
qed

text \<open>An error that is not transient ends the operation at the first attempt; its message counts three.\<close>

lemma permanent_error_at_once:
  assumes "call s = (Inl e, s')" "\<not> tr e"
  shows "with_retries tr call g s = g e s'"
  using assms by (simp add: with_retries_def retry_step eff_defs)

section \<open>Secrets of the environment\<close>

lemma resolve_keys_other:
  "resolve_keys env keys vars s = (Inr vars', s') \<Longrightarrow> k \<notin> set keys \<or> \<not> isEncryptedEnvValue (vars k) \<Longrightarrow> vars' k = vars k"
proof (induction keys arbitrary: vars s)
  case Nil
  then show ?case by (simp add: eff_defs)
next
  case (Cons key keys)
  show ?case
  proof (cases "isEncryptedEnvValue (vars key)")
    case True
    then obtain v t where v: "resolve_keys env keys (vars(key := v)) t = (Inr vars', s')"
      using Cons.prems(1) by (auto simp: ebind_def split: prod.splits sum.splits)
    have "k \<noteq> key" using True Cons.prems(2) by auto
    then show ?thesis using Cons.IH [OF v] Cons.prems(2) by auto
  next
    case False
    then show ?thesis using Cons by auto
  qed
qed

text \<open>Resolving the secrets changes nothing but the marked ones: a value that does not start with \<open>kms:\<close>, or whose name
  is not among the secrets, is after start-up what it was before.\<close>

theorem unmarked_secrets_untouched:
  assumes "resolveSensitiveEnvSecrets env vars keys s = (Inr vars', s')" "k \<notin> set keys \<or> \<not> isEncryptedEnvValue (vars k)"
  shows "vars' k = vars k"
  using assms unfolding resolveSensitiveEnvSecrets_def by (rule resolve_keys_other)

definition some_vars :: "string \<Rightarrow> string option" where
  "some_vars = (\<lambda>_. None)(''JWT_SECRET'' := Some ''plain'')"

lemma some_vars_resolved: "resolveSensitiveEnvSecrets plain_km some_vars default_secret_keys idle_world = (Inr some_vars, idle_world)"
  by (simp add: resolveSensitiveEnvSecrets_def default_secret_keys_def some_vars_def isEncryptedEnvValue_def
      ENCRYPTED_ENV_PREFIX_def starts_with_def eff_defs)

theorem unmarked_secrets_untouched_witness: "some_vars ''JWT_SECRET'' = Some ''plain''"
  using unmarked_secrets_untouched [OF some_vars_resolved, of "''JWT_SECRET''"]
  by (simp add: some_vars_def)

text \<open>The check of the decryption at start-up tries the first marked secret only: two environments with the same first
  marked secret and the same \<open>NODE_ENV\<close> get the same verdict, whatever their other secrets are, also ones that the
  backend refuses to decrypt.\<close>

theorem capability_check_reads_first_secret:
  assumes "encrypted_candidates vars = c # cs" "encrypted_candidates vars' = c # cs'" "vars ''NODE_ENV'' = vars' ''NODE_ENV''"
  shows "verifyDecryptionCapabilityOnStartup env vars s = verifyDecryptionCapabilityOnStartup env vars' s"
  unfolding verifyDecryptionCapabilityOnStartup_def assms list.case by (rule refl)

definition good_vars :: "string \<Rightarrow> string option" where
  "good_vars = (\<lambda>_. None)(''DATABASE_URL'' := Some ''kms:TWFu'')"

definition bad_vars :: "string \<Rightarrow> string option" where
  "bad_vars = good_vars(''SIGNING_KEY'' := Some ''kms:YmFk'')"

lemma candidates_example: "encrypted_candidates good_vars = [Some ''kms:TWFu'']"
    "encrypted_candidates bad_vars = [Some ''kms:TWFu'', Some ''kms:YmFk'']"
  by (simp_all add: encrypted_candidates_def default_secret_keys_def bad_vars_def good_vars_def isEncryptedEnvValue_def
      ENCRYPTED_ENV_PREFIX_def starts_with_def)

theorem capability_check_reads_first_secret_witness:
  "verifyDecryptionCapabilityOnStartup plain_km bad_vars idle_world = verifyDecryptionCapabilityOnStartup plain_km good_vars idle_world"
  by (rule capability_check_reads_first_secret [OF candidates_example(2,1)]) (simp add: bad_vars_def)

end
