(* ===== verification/Documents.thy ===== *)
theory Documents
  imports Key_Props
begin

text \<open>
  KYC documents: the upload records in memory, the format of encrypted documents and their re-encryption
  (\<open>services/upload-store.service.ts\<close>), the validation of uploads and of the storage settings
  (\<open>services/storage-provider.service.ts\<close>), the object lookup of \<open>services/storage.provider.ts\<close>, the
  expiry of uploads, and the rotation of keys (\<open>services/key-rotation.service.ts\<close>). Texts and buffers are
  lists of bytes.
\<close>

section \<open>Upload records\<close>

datatype upload_status = UP_PENDING | UP_COMPLETED | UP_EXPIRED | UP_EXPIRED_DELETED

record upload_record =
  up_uploadId :: string
  up_account :: string
  up_fieldName :: string
  up_storageKey :: string
  up_contentType :: string
  up_expiresAt :: int
  up_status :: upload_status

type_synonym upload_store = "(string, upload_record) jsmap"

definition generateStorageKey :: "string \<Rightarrow> string \<Rightarrow> string \<Rightarrow> string" where
  "generateStorageKey account fieldName uploadId = account @ ''/'' @ fieldName @ ''/'' @ uploadId"

text \<open>The identifier is the result of \<open>randomUUID()\<close>.\<close>

definition upload_create :: "string \<Rightarrow> string \<Rightarrow> string \<Rightarrow> string \<Rightarrow> int \<Rightarrow> upload_store \<Rightarrow> upload_record \<times> upload_store" where
  "upload_create uploadId account fieldName contentType expiresAt recs =
     (let r = \<lparr>up_uploadId = uploadId, up_account = account, up_fieldName = fieldName,
        up_storageKey = generateStorageKey account fieldName uploadId, up_contentType = contentType,
        up_expiresAt = expiresAt, up_status = UP_PENDING\<rparr> in (r, js_set uploadId r recs))"

definition upload_get :: "upload_store \<Rightarrow> string \<Rightarrow> upload_record option" where
  "upload_get recs uploadId = js_get recs uploadId"

definition upload_setStatus :: "string \<Rightarrow> upload_status \<Rightarrow> upload_store \<Rightarrow> upload_store" where
  "upload_setStatus uploadId status recs = (case js_get recs uploadId of
     Some r \<Rightarrow> js_set uploadId (r\<lparr>up_status := status\<rparr>) recs | None \<Rightarrow> recs)"

definition upload_setStorageKey :: "string \<Rightarrow> string \<Rightarrow> upload_store \<Rightarrow> upload_store" where
  "upload_setStorageKey uploadId key recs = (case js_get recs uploadId of
     Some r \<Rightarrow> js_set uploadId (r\<lparr>up_storageKey := key\<rparr>) recs | None \<Rightarrow> recs)"

definition upload_remove :: "string \<Rightarrow> upload_store \<Rightarrow> upload_store" where
  "upload_remove uploadId recs = js_delete uploadId recs"

definition is_stale :: "int \<Rightarrow> upload_record \<Rightarrow> bool" where
  "is_stale now r \<longleftrightarrow> up_status r = UP_PENDING \<and> up_expiresAt r < now"

definition expireStale :: "int \<Rightarrow> upload_store \<Rightarrow> nat \<times> upload_store" where
  "expireStale now recs = (length (filter (is_stale now) (js_values recs)),
     List.map (\<lambda>(k, r). (k, if is_stale now r then r\<lparr>up_status := UP_EXPIRED\<rparr> else r)) recs)"

section \<open>Errors of the storage provider\<close>

record storage_error =
  se_name :: "string option"
  se_Code :: "string option"
  se_statusCode :: "int option"
  se_httpStatusCode :: "int option"
  se_message :: "string option"
  se_text :: string

definition UploadStorageError_message :: "string \<Rightarrow> storage_error \<Rightarrow> string" where
  "UploadStorageError_message operation e =
     ''Storage provider '' @ operation @ '' failed: '' @ (case se_message e of Some m \<Rightarrow> m | None \<Rightarrow> se_text e)"

definition isStorageNotFoundError :: "storage_error \<Rightarrow> bool" where
  "isStorageNotFoundError e \<longleftrightarrow> se_name e = Some ''NotFound'' \<or> se_name e = Some ''NoSuchKey'' \<or> se_Code e = Some ''NoSuchKey''
     \<or> se_httpStatusCode e = Some 404 \<or> se_statusCode e = Some 404"

text \<open>\<open>StorageProvider.objectExists\<close>, with the answer to the HEAD request.\<close>

definition objectExists :: "(string \<Rightarrow> storage_error + unit) \<Rightarrow> string \<Rightarrow> string + bool" where
  "objectExists head key =
     (if key = [] then Inr False
      else case head key of
        Inr _ \<Rightarrow> Inr True
      | Inl e \<Rightarrow> if isStorageNotFoundError e then Inr False else Inl (UploadStorageError_message ''objectExists'' e))"

section \<open>Validation of uploads\<close>

definition MAX_UPLOAD_SIZE_BYTES :: int where
  "MAX_UPLOAD_SIZE_BYTES = 10 * 1024 * 1024"

definition validateUploadSize :: "int \<Rightarrow> string + unit" where
  "validateUploadSize bytes =
     (if bytes > MAX_UPLOAD_SIZE_BYTES
      then Inl (''File size '' @ show_int bytes @ '' bytes exceeds the maximum allowed size of '' @ show_int MAX_UPLOAD_SIZE_BYTES @ '' bytes (10 MB)'')
      else Inr ())"

definition MAGIC_BYTES :: "string \<Rightarrow> nat list option" where
  "MAGIC_BYTES mime = (if mime = ''image/jpeg'' then Some [0xff, 0xd8, 0xff]
     else if mime = ''image/png'' then Some [0x89, 0x50, 0x4e, 0x47]
     else if mime = ''application/pdf'' then Some [0x25, 0x50, 0x44, 0x46] else None)"

definition has_magic :: "string \<Rightarrow> nat list \<Rightarrow> bool" where
  "has_magic buf expected \<longleftrightarrow> List.map of_char (take (length expected) buf) = expected"

definition validateKycUpload :: "string \<Rightarrow> string \<Rightarrow> string + unit" where
  "validateKycUpload buf declaredMimeType = (case MAGIC_BYTES declaredMimeType of
     None \<Rightarrow> Inl (''Unsupported MIME type: '' @ declaredMimeType @ ''. Allowed: image/jpeg, image/png, application/pdf'')
   | Some expected \<Rightarrow>
       if length buf < length expected
       then Inl (''File too small to determine type for declared MIME type: '' @ declaredMimeType)
       else if \<not> has_magic buf expected
       then Inl (''File magic bytes do not match declared MIME type: '' @ declaredMimeType @ ''. The file may be masquerading as a different type.'')
       else Inr ())"

text \<open>\<open>detectMimeType\<close> of the route: the first twelve bytes, padded with zeros.\<close>

definition detectMimeType :: "string option \<Rightarrow> string option" where
  "detectMimeType file = (case file of None \<Rightarrow> None
     | Some content \<Rightarrow> let buf = take 12 (content @ replicate 12 (CHR 0x00)) in
         if has_magic buf [0xff, 0xd8, 0xff] then Some ''image/jpeg''
         else if has_magic buf [0x89, 0x50, 0x4e, 0x47] then Some ''image/png''
         else if has_magic buf [0x25, 0x50, 0x44, 0x46] then Some ''application/pdf'' else None)"

section \<open>Settings of the storage\<close>

record storage_config =
  sc_provider :: "string option"
  sc_bucket :: "string option"
  sc_region :: "string option"

definition blank :: "string option \<Rightarrow> bool" where
  "blank v \<longleftrightarrow> (case v of None \<Rightarrow> True | Some s \<Rightarrow> trim_js s = [])"

definition validateStorageProviderConfig :: "storage_config \<Rightarrow> string + storage_config" where
  "validateStorageProviderConfig cfg = (case truthy_str (sc_provider cfg) of
     None \<Rightarrow> Inl ''STORAGE_PROVIDER is required''
   | Some provider \<Rightarrow>
       if provider \<notin> {''mock'', ''s3'', ''gcs''} then Inl (''Unsupported STORAGE_PROVIDER: '' @ provider)
       else if blank (sc_bucket cfg) then Inl ''STORAGE_BUCKET is required''
       else if provider = ''s3'' \<and> blank (sc_region cfg) then Inl ''STORAGE_REGION is required for S3''
       else Inr \<lparr>sc_provider = Some provider, sc_bucket = map_option trim_js (sc_bucket cfg), sc_region = map_option trim_js (sc_region cfg)\<rparr>)"

definition storageConfigFromEnv :: "storage_config \<Rightarrow> string + storage_config" where
  "storageConfigFromEnv env = validateStorageProviderConfig
     \<lparr>sc_provider = Some (case sc_provider env of Some p \<Rightarrow> p | None \<Rightarrow> ''mock''),
      sc_bucket = Some (case sc_bucket env of Some b \<Rightarrow> b | None \<Rightarrow> ''mock-bucket''), sc_region = sc_region env\<rparr>"

text \<open>The providers: the mock keeps the keys that were uploaded, the others are stubs.\<close>

datatype storage_provider = MockStorage string "string list" | S3Storage string string | GcsStorage string

definition createStorageProvider :: "storage_config \<Rightarrow> string + storage_provider" where
  "createStorageProvider cfg = (case validateStorageProviderConfig cfg of
     Inl e \<Rightarrow> Inl e
   | Inr v \<Rightarrow> (let b = (case sc_bucket v of Some b \<Rightarrow> b | None \<Rightarrow> []); r = (case sc_region v of Some r \<Rightarrow> r | None \<Rightarrow> []) in
       if sc_provider v = Some ''mock'' then Inr (MockStorage b [])
       else if sc_provider v = Some ''s3'' then Inr (S3Storage b r) else Inr (GcsStorage b)))"

definition provider_objectExists :: "storage_provider \<Rightarrow> string \<Rightarrow> bool" where
  "provider_objectExists p key = (case p of MockStorage _ keys \<Rightarrow> key \<in> set keys | _ \<Rightarrow> False)"

definition provider_deleteObject :: "storage_provider \<Rightarrow> string \<Rightarrow> storage_provider" where
  "provider_deleteObject p key = (case p of MockStorage b keys \<Rightarrow> MockStorage b (removeAll key keys) | _ \<Rightarrow> p)"

text \<open>The URL for an upload; \<open>enc\<close> is \<open>encodeURIComponent\<close>.\<close>

definition generatePresignedPutUrl :: "(string \<Rightarrow> string) \<Rightarrow> storage_provider \<Rightarrow> string \<Rightarrow> string \<Rightarrow> int \<Rightarrow> string" where
  "generatePresignedPutUrl enc p key contentType expiresInSeconds = (case p of
     MockStorage b _ \<Rightarrow> ''https://'' @ b @ ''.mock.storage/'' @ key @ ''?X-Mock-Signed=1''
   | S3Storage b r \<Rightarrow> ''https://'' @ b @ ''.s3.'' @ r @ ''.amazonaws.com/'' @ key @ ''?X-Amz-Expires='' @ show_int expiresInSeconds
       @ ''&Content-Type='' @ enc contentType
   | GcsStorage b \<Rightarrow> ''https://storage.googleapis.com/'' @ b @ ''/'' @ key @ ''?X-Goog-Expires='' @ show_int expiresInSeconds
       @ ''&Content-Type='' @ enc contentType)"

section \<open>Encrypted documents\<close>

definition ENCRYPTED_DOCUMENT_MAGIC :: string where
  "ENCRYPTED_DOCUMENT_MAGIC = ''APKYC1''"

definition isEncryptedDocument :: "string \<Rightarrow> bool" where
  "isEncryptedDocument data \<longleftrightarrow> length data \<ge> length ENCRYPTED_DOCUMENT_MAGIC + 4
     \<and> take (length ENCRYPTED_DOCUMENT_MAGIC) data = ENCRYPTED_DOCUMENT_MAGIC"

text \<open>\<open>writeUInt32BE\<close> and \<open>readUInt32BE\<close>.\<close>

definition uint32_be :: "nat \<Rightarrow> string" where
  "uint32_be n = [char_of (n div 16777216), char_of (n div 65536), char_of (n div 256), char_of n]"

definition read_uint32_be :: "string \<Rightarrow> nat" where
  "read_uint32_be s = foldl (\<lambda>n c. 256 * n + of_char c) 0 (take 4 s)"

record document_header =
  dh_wrappedKey :: encrypted_key
  dh_iv :: string
  dh_authTag :: string

definition header_json :: "document_header \<Rightarrow> json" where
  "header_json h = JObj
     [(''wrappedKey'', JObj [(''ciphertext'', JStr (ek_ciphertext (dh_wrappedKey h))),
        (''keyVersion'', JStr (ek_keyVersion (dh_wrappedKey h))), (''algorithm'', JStr (ek_algorithm (dh_wrappedKey h))),
        (''timestamp'', JNum (ek_timestamp (dh_wrappedKey h)))]),
      (''iv'', JStr (dh_iv h)), (''authTag'', JStr (dh_authTag h))]"

text \<open>The wrapped key of a parsed header. The code casts without a check; the members that \<open>decryptKey\<close> does not
  read may be missing.\<close>

definition json_member :: "json \<Rightarrow> string \<Rightarrow> json" where
  "json_member v k = (case v of JObj ps \<Rightarrow> (case js_get ps k of Some x \<Rightarrow> x | None \<Rightarrow> JUndef) | _ \<Rightarrow> JUndef)"

definition text_member :: "json \<Rightarrow> string \<Rightarrow> string" where
  "text_member v k = (case json_member v k of JStr s \<Rightarrow> s | _ \<Rightarrow> [])"

definition key_of_json :: "json \<Rightarrow> encrypted_key" where
  "key_of_json w = \<lparr>ek_ciphertext = text_member w ''ciphertext'', ek_keyVersion = text_member w ''keyVersion'',
     ek_algorithm = text_member w ''algorithm'', ek_timestamp = (case json_member w ''timestamp'' of JNum t \<Rightarrow> t | _ \<Rightarrow> 0)\<rparr>"

definition type_error :: "('b, 'a) km" where
  "type_error = ethrow (CryptoErr (OtherErr ''TypeError'' ''Cannot read properties of undefined'' None None None None None None))"

definition range_error :: js_error where
  "range_error = OtherErr ''RangeError'' ''The value of 'value' is out of range.'' (Some ''ERR_OUT_OF_RANGE'') None None None None None"

definition encryptDocument :: "'b km_env \<Rightarrow> string \<Rightarrow> ('b, string) km" where
  "encryptDocument env plaintext =
     ebind (km_random env 32) (\<lambda>dataKey. ebind (km_random env 12) (\<lambda>iv.
     ebind getKeyManagementService (\<lambda>svc. ebind (encryptKey env svc (base64 dataKey)) (\<lambda>wrappedKey.
     ebind (lift_crypto (sealed (km_cipher env) dataKey iv plaintext)) (\<lambda>(ciphertext, tag).
     let headerBytes = json_stringify (header_json \<lparr>dh_wrappedKey = wrappedKey, dh_iv = base64 iv, dh_authTag = base64 tag\<rparr>) in
     if length headerBytes \<ge> 4294967296 then ethrow (CryptoErr range_error)
     else ereturn (ENCRYPTED_DOCUMENT_MAGIC @ uint32_be (length headerBytes) @ headerBytes @ ciphertext))))))"

definition decryptDocument :: "'b km_env \<Rightarrow> string \<Rightarrow> ('b, string) km" where
  "decryptDocument env data =
     (if \<not> isEncryptedDocument data then ethrow (CryptoErr (PlainError ''Document is not in the encrypted document format''))
      else let headerStart = length ENCRYPTED_DOCUMENT_MAGIC + 4;
               headerLength = read_uint32_be (drop (length ENCRYPTED_DOCUMENT_MAGIC) data);
               ciphertext = drop (headerStart + headerLength) data in
        case json_parse (take headerLength (drop headerStart data)) of
          None \<Rightarrow> ethrow (CryptoErr (OtherErr ''SyntaxError'' ''Unexpected token in JSON'' None None None None None None))
        | Some header \<Rightarrow>
            ebind getKeyManagementService (\<lambda>svc.
            case json_member header ''wrappedKey'' of
              JObj w \<Rightarrow> ebind (decryptKey env svc (key_of_json (JObj w))) (\<lambda>k.
                case (json_member header ''iv'', json_member header ''authTag'') of
                  (JStr ivText, JStr tagText) \<Rightarrow>
                    let dataKey = base64_decode k; iv = base64_decode ivText; tag = base64_decode tagText in
                    ebind (lift_crypto (decipher (km_cipher env) dataKey iv tag)) (\<lambda>_.
                    lift_crypto (opened (km_cipher env) dataKey iv tag ciphertext))
                | _ \<Rightarrow> type_error)
            | _ \<Rightarrow> type_error))"

section \<open>Stored documents\<close>

text \<open>The state: that of the key management, the files of the directory by their path, and how many UUIDs were drawn;
  \<open>None\<close> when the directory does not exist.\<close>

record 'b doc_world =
  dw_km :: "'b km_world"
  dw_files :: "(string, string) jsmap option"
  dw_uuids :: nat

type_synonym ('b, 'a) doc = "('b doc_world, km_error, 'a) eff"

text \<open>The file system and \<open>randomUUID\<close>, by the number of UUIDs drawn so far: an operation may fail, and a write that fails may leave
  a part of its data in the file.\<close>

record disk =
  dk_uuid :: "nat \<Rightarrow> string"
  dk_list :: "nat \<Rightarrow> js_error option"
  dk_read :: "nat \<Rightarrow> string \<Rightarrow> js_error option"
  dk_write :: "nat \<Rightarrow> string \<Rightarrow> (js_error \<times> string option) option"
  dk_rename :: "nat \<Rightarrow> string \<Rightarrow> js_error option"

definition in_km :: "('b, 'a) km \<Rightarrow> ('b, 'a) doc" where
  "in_km m s = (case m (dw_km s) of (r, k) \<Rightarrow> (r, s\<lparr>dw_km := k\<rparr>))"

definition files_of :: "'b doc_world \<Rightarrow> (string, string) jsmap" where
  "files_of s = (case dw_files s of Some fs \<Rightarrow> fs | None \<Rightarrow> [])"

definition no_such_file :: km_error where
  "no_such_file = CryptoErr (OtherErr ''Error'' ''ENOENT: no such file or directory'' (Some ''ENOENT'') None None None None None)"

definition disk_check :: "(nat \<Rightarrow> js_error option) \<Rightarrow> ('b, unit) doc" where
  "disk_check failure = ebind (eget dw_uuids) (\<lambda>n. case failure n of Some e \<Rightarrow> ethrow (CryptoErr e) | None \<Rightarrow> ereturn ())"

definition readFile :: "disk \<Rightarrow> string \<Rightarrow> ('b, string) doc" where
  "readFile disk path = ebind (disk_check (\<lambda>n. dk_read disk n path)) (\<lambda>_.
     ebind (eget (\<lambda>s. js_get (files_of s) path)) (\<lambda>d. case d of Some x \<Rightarrow> ereturn x | None \<Rightarrow> ethrow no_such_file))"

definition put_file :: "string \<Rightarrow> string \<Rightarrow> ('b, unit) doc" where
  "put_file path data = emodify (\<lambda>s. s\<lparr>dw_files := Some (js_set path data (files_of s))\<rparr>)"

definition writeFile :: "disk \<Rightarrow> nat \<Rightarrow> string \<Rightarrow> string \<Rightarrow> ('b, unit) doc" where
  "writeFile disk n path data = (case dk_write disk n path of
     None \<Rightarrow> put_file path data
   | Some (e, written) \<Rightarrow> ebind (case written of Some part \<Rightarrow> put_file path part | None \<Rightarrow> ereturn ()) (\<lambda>_. ethrow (CryptoErr e)))"

definition rename_file :: "disk \<Rightarrow> nat \<Rightarrow> string \<Rightarrow> string \<Rightarrow> ('b, unit) doc" where
  "rename_file disk n tmpPath path = (case dk_rename disk n path of
     Some e \<Rightarrow> ethrow (CryptoErr e)
   | None \<Rightarrow> ebind (eget files_of) (\<lambda>fs. case js_get fs tmpPath of
         None \<Rightarrow> ethrow no_such_file
       | Some data \<Rightarrow> emodify (\<lambda>s. s\<lparr>dw_files := Some (js_set path data (js_delete tmpPath fs))\<rparr>)))"

definition writeFileAtomic :: "disk \<Rightarrow> string \<Rightarrow> string \<Rightarrow> ('b, unit) doc" where
  "writeFileAtomic disk path data = ebind (eget dw_uuids) (\<lambda>n.
     let tmpPath = path @ ''.'' @ dk_uuid disk n @ ''.tmp'' in
     ebind (emodify (\<lambda>s. s\<lparr>dw_uuids := Suc n\<rparr>)) (\<lambda>_.
     ebind (writeFile disk n tmpPath data) (\<lambda>_.
     rename_file disk n tmpPath path)))"

definition encryptStoredDocument :: "'b km_env \<Rightarrow> disk \<Rightarrow> string \<Rightarrow> ('b, bool) doc" where
  "encryptStoredDocument env disk path = ebind (readFile disk path) (\<lambda>data.
     if isEncryptedDocument data then ereturn False
     else ebind (in_km (encryptDocument env data)) (\<lambda>enc. ebind (writeFileAtomic disk path enc) (\<lambda>_. ereturn True)))"

definition readStoredDocument :: "'b km_env \<Rightarrow> disk \<Rightarrow> string \<Rightarrow> ('b, string) doc" where
  "readStoredDocument env disk path = ebind (readFile disk path) (\<lambda>data.
     if isEncryptedDocument data then in_km (decryptDocument env data) else ereturn data)"

definition listDocumentFiles :: "disk \<Rightarrow> ('b, string list) doc" where
  "listDocumentFiles disk = ebind (eget dw_files) (\<lambda>d. case d of
     None \<Rightarrow> ereturn []
   | Some fs \<Rightarrow> ebind (disk_check (dk_list disk)) (\<lambda>_. ereturn (js_keys fs)))"

fun reencrypt_files :: "'b km_env \<Rightarrow> disk \<Rightarrow> string list \<Rightarrow> nat \<Rightarrow> ('b, nat) doc" where
  "reencrypt_files env disk [] count = ereturn count"
| "reencrypt_files env disk (path # paths) count =
     ebind (readStoredDocument env disk path) (\<lambda>plaintext.
     ebind (in_km (encryptDocument env plaintext)) (\<lambda>enc.
     ebind (writeFileAtomic disk path enc) (\<lambda>_.
     reencrypt_files env disk paths (count + 1))))"

definition reencryptStoredDocuments :: "'b km_env \<Rightarrow> disk \<Rightarrow> ('b, nat) doc" where
  "reencryptStoredDocuments env disk = ebind (listDocumentFiles disk) (\<lambda>paths. reencrypt_files env disk paths 0)"

fun encrypt_files :: "'b km_env \<Rightarrow> disk \<Rightarrow> string list \<Rightarrow> nat \<Rightarrow> ('b, nat) doc" where
  "encrypt_files env disk [] count = ereturn count"
| "encrypt_files env disk (path # paths) count =
     ebind (encryptStoredDocument env disk path) (\<lambda>done. encrypt_files env disk paths (if done then count + 1 else count))"

definition encryptPlaintextDocuments :: "'b km_env \<Rightarrow> disk \<Rightarrow> ('b, nat) doc" where
  "encryptPlaintextDocuments env disk = ebind (listDocumentFiles disk) (\<lambda>paths. encrypt_files env disk paths 0)"

section \<open>Rotation of keys\<close>

text \<open>\<open>rotateKeys\<close> of a service that has been initialised or not; \<open>cacheDel\<close> is the deletion of the cached keys.\<close>

definition not_configured :: km_error where
  "not_configured = KeyErr INVALID_CONFIG ''Key management is not configured. Set AWS_KMS_KEY_ARN or Vault credentials.'' None"

definition init_from_env :: "'b km_env \<Rightarrow> km_settings \<Rightarrow> ('b, unit) km" where
  "init_from_env env cfg = (case buildKeyManagementConfigFromEnv cfg of
     None \<Rightarrow> ethrow not_configured | Some c \<Rightarrow> initializeKeyManagement env c)"

definition ensureInitialized :: "'b km_env \<Rightarrow> km_settings \<Rightarrow> bool \<Rightarrow> ('b, unit) km" where
  "ensureInitialized env cfg initialized = (if initialized then ereturn () else init_from_env env cfg)"

definition rotateKeys ::
  "'b km_env \<Rightarrow> disk \<Rightarrow> km_settings \<Rightarrow> bool \<Rightarrow> (km_error + unit) \<Rightarrow> ('b, rotation_result) doc" where
  "rotateKeys env disk cfg initialized cacheDel =
     ebind (in_km (ensureInitialized env cfg initialized)) (\<lambda>_.
     ebind (in_km getKeyManagementService) (\<lambda>svc.
     ebind (in_km (isHealthy env svc)) (\<lambda>ok.
     if \<not> ok then ethrow (KeyErr VAULT_UNAVAILABLE ''Key management backend is unavailable; skipping rotation'' None)
     else ebind (in_km (rotateEncryptionKey env svc)) (\<lambda>result.
       ebind (elift cacheDel) (\<lambda>_.
       ebind (in_km (init_from_env env cfg)) (\<lambda>_.
       ebind (reencryptStoredDocuments env disk) (\<lambda>_.
       ereturn result)))))))"

section \<open>Expiry of temporary uploads\<close>

definition TTL_DAYS :: int where
  "TTL_DAYS = 30"

record db_upload =
  du_id :: string
  du_key :: string
  du_isTemporary :: bool
  du_status :: string
  du_createdAt :: int

definition expired_uploads :: "int \<Rightarrow> db_upload list \<Rightarrow> db_upload list" where
  "expired_uploads now rows = filter (\<lambda>r. du_isTemporary r \<and> du_status r \<noteq> ''EXPIRED_DELETED''
     \<and> du_createdAt r < now - TTL_DAYS * 86400000) rows"

text \<open>Each row whose object can be deleted and whose update succeeds is marked and counted; a failure leaves the row.\<close>

definition expireDbUploads :: "(string \<Rightarrow> bool) \<Rightarrow> (string \<Rightarrow> bool) \<Rightarrow> int \<Rightarrow> db_upload list \<Rightarrow> nat \<times> db_upload list" where
  "expireDbUploads deletes updates now rows =
     (let gone = filter (\<lambda>r. deletes (du_key r) \<and> updates (du_id r)) (expired_uploads now rows) in
      (length gone, List.map (\<lambda>r. if du_id r \<in> set (List.map du_id gone) then r\<lparr>du_status := ''EXPIRED_DELETED''\<rparr> else r) rows))"

end
