(* ===== verification/Document_Props.thy ===== *)
theory Document_Props
  imports Documents
begin

text \<open>
  What the documents rest on: the format is read back, the rotation of keys keeps the text of every document
  whatever happens on the way, and uploads leave the pending state once.
\<close>

section \<open>The format\<close>

lemma read_uint32: "n < 4294967296 \<Longrightarrow> read_uint32_be (uint32_be n @ s) = n"
proof -
  assume n: "n < 4294967296"
  have a: "n div 16777216 < 256" using n by (simp add: less_mult_imp_div_less)
  have d: "n div 16777216 = n div 65536 div 256" "n div 65536 = n div 256 div 256" by (simp_all add: div_mult2_eq [symmetric])
  have "256 * (n div 16777216) + n div 65536 mod 256 = n div 65536" using d(1) by simp
  moreover have "256 * (n div 65536) + n div 256 mod 256 = n div 256" using d(2) by simp
  ultimately have "256 * (256 * (256 * (n div 16777216) + n div 65536 mod 256) + n div 256 mod 256) + n mod 256 = n" by simp
  then show ?thesis using a by (simp add: read_uint32_be_def uint32_be_def)
qed

lemma length_uint32 [simp]: "length (uint32_be n) = 4"
  by (simp add: uint32_be_def)

lemma header_json_plain: "json_plain (header_json h)"
  by (simp add: header_json_def)

lemma header_members:
  "json_member (header_json h) ''iv'' = JStr (dh_iv h)" "json_member (header_json h) ''authTag'' = JStr (dh_authTag h)"
  "\<exists>w. json_member (header_json h) ''wrappedKey'' = JObj w \<and> key_of_json (JObj w) = dh_wrappedKey h"
  by (simp_all add: header_json_def json_member_def key_of_json_def text_member_def)

definition document_bytes :: "document_header \<Rightarrow> string \<Rightarrow> string" where
  "document_bytes h ct = (let hb = json_stringify (header_json h) in ENCRYPTED_DOCUMENT_MAGIC @ uint32_be (length hb) @ hb @ ct)"

lemma document_bytes_encrypted: "isEncryptedDocument (document_bytes h ct)"
  by (simp add: isEncryptedDocument_def document_bytes_def ENCRYPTED_DOCUMENT_MAGIC_def Let_def uint32_be_def)

lemma encryptDocument_form:
  assumes "encryptDocument env p s = (Inr d, s')"
  obtains dataKey iv svc t u wrapped ct tag where "km_instance s = Some svc" "encryptKey env svc (base64 dataKey) t = (Inr wrapped, u)"
    "sealed (km_cipher env) dataKey iv p = Inr (ct, tag)"
    "d = document_bytes \<lparr>dh_wrappedKey = wrapped, dh_iv = base64 iv, dh_authTag = base64 tag\<rparr> ct"
    "length (json_stringify (header_json \<lparr>dh_wrappedKey = wrapped, dh_iv = base64 iv, dh_authTag = base64 tag\<rparr>)) < 4294967296"
proof -
  define dataKey iv where "dataKey = random_bytes (km_cipher env) 32 (km_drawn s)" and "iv = random_bytes (km_cipher env) 12 (Suc (km_drawn s))"
  define t where "t = s\<lparr>km_drawn := Suc (Suc (km_drawn s))\<rparr>"
  have e: "encryptDocument env p s = (case km_instance s of
      None \<Rightarrow> km_fail INVALID_CONFIG ''Key management service not initialized. Call initializeKeyManagement() first.'' t
    | Some svc \<Rightarrow> ebind (encryptKey env svc (base64 dataKey)) (\<lambda>wrappedKey.
        ebind (lift_crypto (sealed (km_cipher env) dataKey iv p)) (\<lambda>(ciphertext, tag).
        let headerBytes = json_stringify (header_json \<lparr>dh_wrappedKey = wrappedKey, dh_iv = base64 iv, dh_authTag = base64 tag\<rparr>) in
        if length headerBytes \<ge> 4294967296 then ethrow (CryptoErr range_error)
        else ereturn (ENCRYPTED_DOCUMENT_MAGIC @ uint32_be (length headerBytes) @ headerBytes @ ciphertext))) t)"
    by (simp add: encryptDocument_def km_random_def getKeyManagementService_def dataKey_def iv_def t_def ebind_def eget_def
        emodify_def ereturn_def km_fail_def ethrow_def split: option.split)
  obtain svc where svc: "km_instance s = Some svc"
    using assms e by (cases "km_instance s") (simp_all add: km_fail_def ethrow_def)
  obtain r u where r: "encryptKey env svc (base64 dataKey) t = (r, u)" by (cases "encryptKey env svc (base64 dataKey) t")
  obtain wrapped where w: "r = Inr wrapped" using assms e svc r by (cases r) (simp_all add: ebind_def)
  obtain ct tag where c: "sealed (km_cipher env) dataKey iv p = Inr (ct, tag)"
    using assms e svc r w by (cases "sealed (km_cipher env) dataKey iv p") (auto simp: ebind_def lift_crypto_def ethrow_def)
  have l: "length (json_stringify (header_json \<lparr>dh_wrappedKey = wrapped, dh_iv = base64 iv, dh_authTag = base64 tag\<rparr>)) < 4294967296"
    using assms e svc r w c by (auto simp: ebind_def lift_crypto_def ethrow_def ereturn_def Let_def not_le split: if_splits)
  have "d = document_bytes \<lparr>dh_wrappedKey = wrapped, dh_iv = base64 iv, dh_authTag = base64 tag\<rparr> ct"
    using assms e svc r w c l by (simp add: ebind_def lift_crypto_def ereturn_def Let_def document_bytes_def)
  with svc r w c l that show thesis by blast
qed

lemma decryptDocument_form:
  assumes "length (json_stringify (header_json h)) < 4294967296"
  shows "decryptDocument env (document_bytes h ct) = ebind getKeyManagementService (\<lambda>svc.
      ebind (decryptKey env svc (dh_wrappedKey h)) (\<lambda>k.
      ebind (lift_crypto (decipher (km_cipher env) (base64_decode k) (base64_decode (dh_iv h)) (base64_decode (dh_authTag h)))) (\<lambda>_.
      lift_crypto (opened (km_cipher env) (base64_decode k) (base64_decode (dh_iv h)) (base64_decode (dh_authTag h)) ct))))"
proof -
  define hb where "hb = json_stringify (header_json h)"
  define d where "d = document_bytes h ct"
  have d: "d = ENCRYPTED_DOCUMENT_MAGIC @ uint32_be (length hb) @ hb @ ct"
    by (simp add: d_def document_bytes_def hb_def Let_def)
  have m: "length ENCRYPTED_DOCUMENT_MAGIC = 6" by (simp add: ENCRYPTED_DOCUMENT_MAGIC_def)
  have n: "read_uint32_be (drop 6 d) = length hb"
    using read_uint32 [of "length hb" "hb @ ct"] assms m d hb_def by simp
  have t: "take (length hb) (drop 10 d) = hb" "drop (10 + length hb) d = ct" using m d by simp_all
  have p: "json_parse hb = Some (header_json h)" unfolding hb_def by (rule json_parse_stringify [OF header_json_plain])
  obtain w where w: "json_member (header_json h) ''wrappedKey'' = JObj w" "key_of_json (JObj w) = dh_wrappedKey h"
    using header_members(3) by blast
  show ?thesis
    unfolding decryptDocument_def d_def [symmetric] using document_bytes_encrypted [of h ct, folded d_def] m n t p w
    by (simp add: header_members Let_def)
qed

text \<open>A stored document is read back: what \<open>encryptDocument\<close> writes has the format of encrypted documents, and its
  decryption under the same service, at any later time and in any state of the remote side, gives the document or fails.\<close>

theorem document_roundtrip:
  assumes "kms_laws env" "vault_laws env" "local_laws env" "encryptDocument env p s = (Inr d, s')"
  shows "isEncryptedDocument d \<and> (\<forall>t q t'. km_instance t = km_instance s \<longrightarrow> decryptDocument env d t = (Inr q, t') \<longrightarrow> q = p)"
  using assms(4)
proof (rule encryptDocument_form)
  fix dataKey iv svc t u wrapped ct tag
  define h where "h = \<lparr>dh_wrappedKey = wrapped, dh_iv = base64 iv, dh_authTag = base64 tag\<rparr>"
  assume a: "km_instance s = Some svc" "encryptKey env svc (base64 dataKey) t = (Inr wrapped, u)"
    "sealed (km_cipher env) dataKey iv p = Inr (ct, tag)"
    "d = document_bytes \<lparr>dh_wrappedKey = wrapped, dh_iv = base64 iv, dh_authTag = base64 tag\<rparr> ct"
    "length (json_stringify (header_json \<lparr>dh_wrappedKey = wrapped, dh_iv = base64 iv, dh_authTag = base64 tag\<rparr>)) < 4294967296"
  have o: "opened (km_cipher env) dataKey iv tag ct = Inr p" using assms(3) a(3) unfolding local_laws_def by blast
  have "q = p" if q: "km_instance v = km_instance s" "decryptDocument env d v = (Inr q, v')" for v q v'
  proof -
    have e: "decryptDocument env d v = ebind (decryptKey env svc wrapped) (\<lambda>k.
      ebind (lift_crypto (decipher (km_cipher env) (base64_decode k) iv tag)) (\<lambda>_. lift_crypto (opened (km_cipher env) (base64_decode k) iv tag ct))) v"
      unfolding a(4) h_def [symmetric] decryptDocument_form [OF a(5) [folded h_def]]
      using q(1) a(1) by (simp add: h_def getKeyManagementService_def ebind_def eget_def ereturn_def)
    obtain r w where r: "decryptKey env svc wrapped v = (r, w)" by (cases "decryptKey env svc wrapped v")
    then obtain k where k: "r = Inr k" using e q(2) by (cases r) (simp_all add: ebind_def)
    then have "k = base64 dataKey" using key_roundtrip [OF assms(1,2,3) a(2)] r by blast
    then show ?thesis using e q(2) r k o
      by (cases "decipher (km_cipher env) dataKey iv tag") (simp_all add: ebind_def lift_crypto_def ethrow_def ereturn_def)
  qed
  then show ?thesis using document_bytes_encrypted a(4) by blast
qed

text \<open>A document that reads as a text: its decryption asks the key service for the one key that the service has wrapped for it, fails
  when that fails, and is the text otherwise.\<close>

definition deciphers_to :: "'b km_env \<Rightarrow> km_service \<Rightarrow> string \<Rightarrow> string \<Rightarrow> bool" where
  "deciphers_to env svc data p \<longleftrightarrow> isEncryptedDocument data \<and> (\<exists>wrapped dataKey.
     (\<exists>t u. encryptKey env svc (base64 dataKey) t = (Inr wrapped, u)) \<and>
     (\<forall>t. km_instance t = Some svc \<longrightarrow> decryptDocument env data t = (case decryptKey env svc wrapped t of
        (Inr _, t') \<Rightarrow> (Inr p, t') | (Inl e, t') \<Rightarrow> (Inl e, t'))))"

lemma encrypted_deciphers:
  assumes "kms_laws env" "vault_laws env" "local_laws env" "encryptDocument env p s = (Inr d, s')" "km_instance s = Some svc"
  shows "deciphers_to env svc d p"
  using assms(4)
proof (rule encryptDocument_form)
  fix dataKey iv svc' t u wrapped ct tag
  define h where "h = \<lparr>dh_wrappedKey = wrapped, dh_iv = base64 iv, dh_authTag = base64 tag\<rparr>"
  assume a: "km_instance s = Some svc'" "encryptKey env svc' (base64 dataKey) t = (Inr wrapped, u)"
    "sealed (km_cipher env) dataKey iv p = Inr (ct, tag)"
    "d = document_bytes \<lparr>dh_wrappedKey = wrapped, dh_iv = base64 iv, dh_authTag = base64 tag\<rparr> ct"
    "length (json_stringify (header_json \<lparr>dh_wrappedKey = wrapped, dh_iv = base64 iv, dh_authTag = base64 tag\<rparr>)) < 4294967296"
  have svc: "svc' = svc" using a(1) assms(5) by simp
  have o: "decipher (km_cipher env) dataKey iv tag = Inr ()" "opened (km_cipher env) dataKey iv tag ct = Inr p"
    using assms(3) a(3) unfolding local_laws_def by blast+
  have "decryptDocument env d v = (case decryptKey env svc wrapped v of (Inr _, t') \<Rightarrow> (Inr p, t') | (Inl e, t') \<Rightarrow> (Inl e, t'))"
    if v: "km_instance v = Some svc" for v
  proof -
    have e: "decryptDocument env d v = ebind (decryptKey env svc wrapped) (\<lambda>k.
      ebind (lift_crypto (decipher (km_cipher env) (base64_decode k) iv tag)) (\<lambda>_. lift_crypto (opened (km_cipher env) (base64_decode k) iv tag ct))) v"
      unfolding a(4) h_def [symmetric] decryptDocument_form [OF a(5) [folded h_def]]
      using v by (simp add: h_def getKeyManagementService_def ebind_def eget_def ereturn_def)
    obtain r w where r: "decryptKey env svc wrapped v = (r, w)" by (cases "decryptKey env svc wrapped v")
    show ?thesis
    proof (cases r)
      case (Inl x)
      then show ?thesis using e r by (simp add: ebind_def)
    next
      case (Inr k)
      then have "k = base64 dataKey" using key_roundtrip [OF assms(1,2,3) a(2)] r svc by blast
      then show ?thesis using e r Inr o by (simp add: ebind_def lift_crypto_def ereturn_def)
    qed
  qed
  then show ?thesis using a(2,4) svc document_bytes_encrypted unfolding deciphers_to_def by blast
qed

section \<open>What keeps the service in use\<close>

lemma keeps_remote [keeps_rules]: "keeps km_instance (remote_call f)"
  by (simp add: keeps_def remote_call_def split: prod.split)

lemma keeps_retry [keeps_rules]: "n \<le> 3 \<Longrightarrow> keeps km_instance call \<Longrightarrow> keeps km_instance (retry_call tr call n)"
proof (induction "3 - n" arbitrary: n)
  case 0
  then show ?case by (simp add: retry_last keeps_rules)
next
  case (Suc d)
  then have "keeps km_instance (retry_call tr call (n + 1))" by simp
  moreover have "n < 3" using Suc.hyps by simp
  ultimately show ?case using Suc.prems by (auto simp: retry_step intro!: keeps_rules keeps_emodify)
qed

lemma keeps_with_retries [keeps_rules]:
  "keeps km_instance call \<Longrightarrow> (\<And>e. keeps km_instance (g e)) \<Longrightarrow> keeps km_instance (with_retries tr call g)"
  unfolding with_retries_def by (intro keeps_rules) simp_all

lemma keeps_random [keeps_rules]: "keeps km_instance (km_random env n)"
  unfolding km_random_def by (intro keeps_rules keeps_emodify) simp

lemma keeps_lift_crypto [keeps_rules]: "keeps km_instance (lift_crypto r)"
  unfolding lift_crypto_def by (intro keeps_rules)

lemma keeps_prod [keeps_rules]: "(\<And>x y. keeps f (m x y)) \<Longrightarrow> keeps f (case v of (x, y) \<Rightarrow> m x y)"
  by (cases v) simp

lemma keeps_km_fail [keeps_rules]: "keeps km_instance (km_fail t m)"
  unfolding km_fail_def by (rule keeps_rules)

lemma keeps_keys [keeps_rules]: "keeps km_instance (encryptKey env svc p)" "keeps km_instance (decryptKey env svc ek)"
  by (cases svc; simp add: encryptKey_def decryptKey_def aws_encryptKey_def aws_decryptKey_def vault_encryptKey_def vault_decryptKey_def
      localEncrypt_def localDecrypt_def Let_def; intro conjI impI keeps_rules)+

lemma keeps_getService [keeps_rules]: "keeps km_instance getKeyManagementService"
  unfolding getKeyManagementService_def by (intro keeps_rules)

lemma keeps_encryptDocument: "keeps km_instance (encryptDocument env p)"
  unfolding encryptDocument_def Let_def by (intro keeps_rules)

lemma keeps_decryptDocument: "keeps km_instance (decryptDocument env d)"
  unfolding decryptDocument_def Let_def type_error_def
  by (intro keeps_rules; (split json.split option.split)?; intro conjI impI allI keeps_rules;
      (split json.split)?; intro conjI impI allI keeps_rules; (split json.split)?; intro conjI impI allI keeps_rules)

section \<open>Rotation\<close>

definition plaintext_of :: "'b km_env \<Rightarrow> km_service \<Rightarrow> string \<Rightarrow> string \<Rightarrow> bool" where
  "plaintext_of env svc data p \<longleftrightarrow> (if isEncryptedDocument data
     then \<exists>t t'. km_instance t = Some svc \<and> decryptDocument env data t = (Inr p, t') else p = data)"

definition safely_rewritten :: "'b km_env \<Rightarrow> km_service \<Rightarrow> string \<Rightarrow> string \<Rightarrow> bool" where
  "safely_rewritten env svc old new \<longleftrightarrow> new = old \<or> (\<exists>p. plaintext_of env svc old p \<and> deciphers_to env svc new p)"

definition temporary :: "disk \<Rightarrow> string \<Rightarrow> nat \<Rightarrow> string" where
  "temporary disk path n = path @ ''.'' @ dk_uuid disk n @ ''.tmp''"

definition fresh_temporaries :: "disk \<Rightarrow> string list \<Rightarrow> bool" where
  "fresh_temporaries disk paths \<longleftrightarrow> (\<forall>path \<in> set paths. \<forall>n. temporary disk path n \<notin> set paths)"

lemma delete_fresh: "js_get m k = None \<Longrightarrow> js_delete k (js_set k v m) = m"
  by (induction m) (auto split: if_splits)

text \<open>The directory is as before but for a file that was not there.\<close>

definition one_more :: "disk \<Rightarrow> (string, string) jsmap \<Rightarrow> (string, string) jsmap \<Rightarrow> bool" where
  "one_more disk m m' \<longleftrightarrow> m' = m \<or> (\<exists>path n part. path \<in> set (js_keys m) \<and> temporary disk path n \<notin> set (js_keys m) \<and> m' = js_set (temporary disk path n) part m)"

lemma one_more_refl: "one_more disk m m"
  by (simp add: one_more_def)

lemma get_keys: "js_get m k \<noteq> None \<longleftrightarrow> k \<in> set (js_keys m)"
  by (metis domIff dom_map_of_conv_image_fst set_map)

lemma keys_none: "k \<notin> set (js_keys m) \<Longrightarrow> js_get m k = None"
  by (simp add: map_of_eq_None_iff)

lemma writeFileAtomic_files:
  assumes "path \<in> set (js_keys (files_of s))" "fresh_temporaries disk (js_keys (files_of s))" "writeFileAtomic disk path data s = (r, s')"
  shows "dw_km s' = dw_km s \<and> (case r of Inr _ \<Rightarrow> files_of s' = js_set path data (files_of s) | Inl _ \<Rightarrow> one_more disk (files_of s) (files_of s'))"
proof -
  define tmp where "tmp = temporary disk path (dw_uuids s)"
  have fresh: "tmp \<notin> set (js_keys (files_of s))" using assms(1,2) unfolding fresh_temporaries_def tmp_def by blast
  have none: "js_get (files_of s) tmp = None" using fresh by (rule keys_none)
  have restored: "js_delete tmp (js_set tmp data (files_of s)) = files_of s" by (rule delete_fresh [OF none])
  have left: "one_more disk (files_of s) (js_set tmp part (files_of s))" for part
    using assms(1) fresh unfolding one_more_def tmp_def by blast
  have e: "writeFileAtomic disk path data s =
      ebind (writeFile disk (dw_uuids s) tmp data) (\<lambda>_. rename_file disk (dw_uuids s) tmp path) (s\<lparr>dw_uuids := Suc (dw_uuids s)\<rparr>)"
    by (simp add: writeFileAtomic_def eff_defs Let_def tmp_def temporary_def)
  define u :: "'a doc_world" where "u = s\<lparr>dw_uuids := Suc (dw_uuids s)\<rparr>"
  have u: "files_of u = files_of s" "dw_km u = dw_km s" by (simp_all add: u_def files_of_def)
  have put: "put_file q x v = (Inr (), v\<lparr>dw_files := Some (js_set q x (files_of v))\<rparr>)" for q x and v :: "'a doc_world"
    by (simp add: put_file_def emodify_def)
  have files: "files_of (v\<lparr>dw_files := Some fs\<rparr>) = fs" for fs and v :: "'a doc_world" by (simp add: files_of_def)
  show ?thesis
  proof (cases "dk_write disk (dw_uuids s) tmp")
    case (Some x)
    obtain err written where x: "x = (err, written)" by force
    have "r = Inl (CryptoErr err) \<and> dw_km s' = dw_km s \<and> one_more disk (files_of s) (files_of s')"
      using assms(3) Some x u left one_more_refl unfolding e u_def [symmetric]
      by (cases written) (auto simp: writeFile_def put ebind_def ethrow_def ereturn_def files)
    then show ?thesis by simp
  next
    case None
    have w: "writeFile disk (dw_uuids s) tmp data u = (Inr (), u\<lparr>dw_files := Some (js_set tmp data (files_of s))\<rparr>)"
      using None u by (simp add: writeFile_def put)
    show ?thesis
    proof (cases "dk_rename disk (dw_uuids s) path")
      case (Some err)
      then show ?thesis using assms(3) w u left unfolding e u_def [symmetric]
        by (auto simp: rename_file_def ebind_def ethrow_def files)
    next
      case None
      then show ?thesis using assms(3) w u restored unfolding e u_def [symmetric]
        by (auto simp: rename_file_def ebind_def eget_def emodify_def files)
    qed
  qed
qed

lemma in_km_cases:
  assumes "in_km m s = (r, s')"
  obtains k where "m (dw_km s) = (r, k)" "s' = s\<lparr>dw_km := k\<rparr>"
  using assms by (auto simp: in_km_def split: prod.splits)

lemma files_of_km [simp]: "files_of (s\<lparr>dw_km := k\<rparr>) = files_of s"
  by (simp add: files_of_def)

lemma disk_check_cases: "\<exists>r. disk_check f s = (r, s)"
  by (auto simp: disk_check_def eff_defs split: option.splits)

lemma readFile_cases: "js_get (files_of s) path = Some old \<Longrightarrow> \<exists>r. readFile disk path s = (r, s) \<and> (\<forall>x. r = Inr x \<longrightarrow> x = old)"
  using disk_check_cases [of "\<lambda>n. dk_read disk n path" s] by (auto simp: readFile_def eff_defs split: sum.splits)

lemma readStoredDocument_cases:
  assumes "readStoredDocument env disk path s = (r, s')" "js_get (files_of s) path = Some old" "km_instance (dw_km s) = Some svc"
  shows "files_of s' = files_of s \<and> km_instance (dw_km s') = Some svc \<and> (\<forall>p. r = Inr p \<longrightarrow> plaintext_of env svc old p)"
proof -
  obtain r1 where r1: "readFile disk path s = (r1, s)" "\<forall>x. r1 = Inr x \<longrightarrow> x = old" using readFile_cases [OF assms(2)] by blast
  show ?thesis
  proof (cases r1)
    case (Inl e)
    then show ?thesis using assms(1,3) r1(1) by (auto simp: readStoredDocument_def eff_defs)
  next
    case (Inr x)
    then have x: "readFile disk path s = (Inr old, s)" using r1 by simp
    show ?thesis
    proof (cases "isEncryptedDocument old")
      case True
      then have "in_km (decryptDocument env old) s = (r, s')" using assms(1) x by (simp add: readStoredDocument_def ebind_def)
      then obtain k where k: "decryptDocument env old (dw_km s) = (r, k)" "s' = s\<lparr>dw_km := k\<rparr>" by (rule in_km_cases)
      then have "km_instance k = Some svc" using keeps_result [OF keeps_decryptDocument k(1)] assms(3) by simp
      then show ?thesis using k True assms(3) by (auto simp: plaintext_of_def)
    next
      case False
      then show ?thesis using assms(1,3) x by (auto simp: readStoredDocument_def eff_defs plaintext_of_def)
    qed
  qed
qed

lemma encryptDocument_step:
  assumes "in_km (encryptDocument env p) s = (r, s')" "km_instance (dw_km s) = Some svc" "kms_laws env" "vault_laws env" "local_laws env"
  shows "files_of s' = files_of s \<and> km_instance (dw_km s') = Some svc \<and> (\<forall>d. r = Inr d \<longrightarrow> deciphers_to env svc d p)"
proof -
  obtain k where k: "encryptDocument env p (dw_km s) = (r, k)" "s' = s\<lparr>dw_km := k\<rparr>" using assms(1) by (rule in_km_cases)
  have "km_instance k = Some svc" using keeps_result [OF keeps_encryptDocument k(1)] assms(2) by simp
  then show ?thesis using k encrypted_deciphers [OF assms(3,4,5), of p "dw_km s"] assms(2) by auto
qed

text \<open>One document of the pass: it stops before the document is replaced, or replaces it.\<close>

lemma reencrypt_one:
  assumes "reencrypt_files env disk (path # paths) c s = (r, s')" "js_get (files_of s) path = Some old"
    "km_instance (dw_km s) = Some svc" "kms_laws env" "vault_laws env" "local_laws env" "fresh_temporaries disk (js_keys (files_of s))"
  obtains (stopped) e where "r = Inl e" "one_more disk (files_of s) (files_of s')"
  | (written) new p t where "reencrypt_files env disk paths (c + 1) t = (r, s')" "files_of t = js_set path new (files_of s)"
      "km_instance (dw_km t) = Some svc" "plaintext_of env svc old p" "deciphers_to env svc new p"
proof (cases "readStoredDocument env disk path s")
  case (Pair r1 s1)
  note one = readStoredDocument_cases [OF Pair assms(2,3)]
  have key: "path \<in> set (js_keys (files_of s))" using assms(2) get_keys by fastforce
  show thesis
  proof (cases r1)
    case (Inl e)
    then have "r = Inl e" "s' = s1" using assms(1) Pair by (simp_all add: ebind_def)
    then show thesis using one stopped by (simp add: one_more_def)
  next
    case (Inr p)
    obtain r2 s2 where s2: "in_km (encryptDocument env p) s1 = (r2, s2)" by (cases "in_km (encryptDocument env p) s1")
    note two = encryptDocument_step [OF s2 _ assms(4,5,6)]
    have f: "files_of s2 = files_of s" using one two by simp
    show thesis
    proof (cases r2)
      case (Inl e)
      then have "r = Inl e" "s' = s2" using assms(1) Pair Inr s2 by (simp_all add: ebind_def)
      then show thesis using f stopped by (simp add: one_more_def)
    next
      case r2: (Inr d)
      obtain r3 t where t: "writeFileAtomic disk path d s2 = (r3, t)" by force
      have w: "dw_km t = dw_km s2 \<and> (case r3 of Inr _ \<Rightarrow> files_of t = js_set path d (files_of s) | Inl _ \<Rightarrow> one_more disk (files_of s) (files_of t))"
        using writeFileAtomic_files [OF _ _ t] key assms(7) unfolding f by blast
      show thesis
      proof (cases r3)
        case (Inl e)
        then have "r = Inl e" "s' = t" using assms(1) Pair Inr s2 r2 t by (simp_all add: ebind_def)
        then show thesis using w Inl stopped by simp
      next
        case r3: (Inr u)
        then have "reencrypt_files env disk paths (c + 1) t = (r, s')" using assms(1) Pair Inr s2 r2 t by (simp add: ebind_def)
        then show thesis by (rule written) (use one two Inr r2 w r3 in auto)
      qed
    qed
  qed
qed

text \<open>What a pass over these paths leaves of the directory, with its result.\<close>

definition pass_outcome :: "'b km_env \<Rightarrow> disk \<Rightarrow> km_service \<Rightarrow> string list \<Rightarrow> (string, string) jsmap \<Rightarrow> bool \<Rightarrow> (string, string) jsmap \<Rightarrow> bool" where
  "pass_outcome env disk svc paths m returned m' \<longleftrightarrow>
     (\<forall>path old. js_get m path = Some old \<longrightarrow> (\<exists>new. js_get m' path = Some new \<and> safely_rewritten env svc old new
        \<and> (path \<notin> set paths \<longrightarrow> new = old) \<and> (returned \<longrightarrow> path \<in> set paths \<longrightarrow> (\<exists>p. plaintext_of env svc old p \<and> deciphers_to env svc new p))))
     \<and> (\<forall>path \<in> set (js_keys m') - set (js_keys m). \<not> returned \<and> (\<exists>q \<in> set (js_keys m). \<exists>n. path = temporary disk q n))"

lemma one_more_outcome:
  assumes "one_more disk m m'"
  shows "pass_outcome env disk svc paths m False m'"
proof (cases "m' = m")
  case True
  then show ?thesis by (simp add: pass_outcome_def safely_rewritten_def)
next
  case False
  then obtain path n part where more: "path \<in> set (js_keys m)" "temporary disk path n \<notin> set (js_keys m)" "m' = js_set (temporary disk path n) part m"
    using assms unfolding one_more_def by blast
  have none: "js_get m (temporary disk path n) = None" using more(2) by (rule keys_none)
  then have m': "m' = m @ [(temporary disk path n, part)]" using more(3) by (simp add: js_keys_set_new)
  have get: "js_get m' q = Some old" if "js_get m q = Some old" for q old
    using that none more(3) by (cases "q = temporary disk path n") auto
  have new: "q = temporary disk path n" if "q \<in> set (js_keys m') - set (js_keys m)" for q
    using that unfolding m' by auto
  have "\<exists>p \<in> set (js_keys m). \<exists>n. q = temporary disk p n" if "q \<in> set (js_keys m') - set (js_keys m)" for q
    using new [OF that] more(1) by blast
  then show ?thesis unfolding pass_outcome_def safely_rewritten_def by (simp add: get)
qed

lemma reencrypt_files_safe:
  assumes "reencrypt_files env disk paths c s = (r, s')" "distinct paths" "set paths \<subseteq> set (js_keys (files_of s))"
    "km_instance (dw_km s) = Some svc" "kms_laws env" "vault_laws env" "local_laws env" "fresh_temporaries disk (js_keys (files_of s))"
  shows "pass_outcome env disk svc paths (files_of s) (\<exists>n. r = Inr n) (files_of s') \<and> (\<forall>n. r = Inr n \<longrightarrow> n = c + length paths)"
  using assms(1-4,8)
proof (induction paths arbitrary: c s)
  case Nil
  then show ?case by (auto simp: eff_defs safely_rewritten_def pass_outcome_def)
next
  case (Cons p paths)
  obtain x where x: "js_get (files_of s) p = Some x" using Cons.prems(3) by (auto dest: weak_map_of_SomeI)
  from Cons.prems(1) x Cons.prems(4) assms(5,6,7) Cons.prems(5) show ?case
  proof (cases rule: reencrypt_one)
    case (stopped e)
    then show ?thesis using one_more_outcome by auto
  next
    case (written y q t)
    have k: "js_keys (files_of t) = js_keys (files_of s)" using written(2) x by (simp add: js_keys_set_present)
    have "distinct paths" and p: "p \<notin> set paths" and "set paths \<subseteq> set (js_keys (files_of t))" and "fresh_temporaries disk (js_keys (files_of t))"
      using Cons.prems(2,3,5) unfolding k by auto
    note ih = Cons.IH [OF written(1) this(1,3) written(3) this(4), unfolded pass_outcome_def k]
    have sw: "safely_rewritten env svc x y" using written(4,5) unfolding safely_rewritten_def by blast
    have "\<exists>new. js_get (files_of s') path = Some new \<and> safely_rewritten env svc old new \<and> (path \<notin> set (p # paths) \<longrightarrow> new = old)
        \<and> ((\<exists>n. r = Inr n) \<longrightarrow> path \<in> set (p # paths) \<longrightarrow> (\<exists>q. plaintext_of env svc old q \<and> deciphers_to env svc new q))"
      if "js_get (files_of s) path = Some old" for path old
    proof (cases "path = p")
      case True
      then have "js_get (files_of t) path = Some y" using written(2) by simp
      then have "js_get (files_of s') path = Some y" using ih True p by blast
      then show ?thesis using True that x sw written(4,5) by auto
    next
      case False
      then have "js_get (files_of t) path = Some old" using written(2) that by simp
      then show ?thesis using ih False by auto
    qed
    then show ?thesis using ih by (simp add: pass_outcome_def)
  qed
qed

text \<open>C4. Rotation loses no document, however the pass over the stored documents ends, be it that a document cannot be read, the
  key service or the file system fails: every file of the directory is still there, with its old content or with an encrypted document
  that is the text read from it, and that decrypts to that text whenever the key service unwraps the key it wrapped for it. A pass that
  returns has done so with every file and counted them; a pass that throws may leave one temporary file more.\<close>

theorem rotation_keeps_documents:
  assumes "kms_laws env" "vault_laws env" "local_laws env" "km_instance (dw_km s) = Some svc" "js_wf (files_of s)"
    "fresh_temporaries disk (js_keys (files_of s))" "reencryptStoredDocuments env disk s = (r, s')" "js_get (files_of s) path = Some old"
  shows "\<exists>new. js_get (files_of s') path = Some new
    \<and> (new = old \<or> (\<exists>p. plaintext_of env svc old p \<and> deciphers_to env svc new p))
    \<and> (\<forall>n. r = Inr n \<longrightarrow> (\<exists>p. plaintext_of env svc old p \<and> deciphers_to env svc new p) \<and> n = length (files_of s))
    \<and> (\<forall>extra \<in> set (js_keys (files_of s')) - set (js_keys (files_of s)). (\<exists>e. r = Inl e) \<and> (\<exists>q n. extra = temporary disk q n))"
proof -
  have path: "path \<in> set (js_keys (files_of s))" using assms(8) get_keys by fastforce
  have fs: "dw_files s = Some (files_of s)" using assms(8) by (cases "dw_files s") (simp_all add: files_of_def)
  show ?thesis
  proof (cases "dk_list disk (dw_uuids s)")
    case (Some e)
    then have "r = Inl (CryptoErr e)" "s' = s" using assms(7) fs by (simp_all add: reencryptStoredDocuments_def listDocumentFiles_def disk_check_def eff_defs)
    then show ?thesis using assms(8) by simp
  next
    case None
    then have "reencrypt_files env disk (js_keys (files_of s)) 0 s = (r, s')"
      using assms(7) fs by (simp add: reencryptStoredDocuments_def listDocumentFiles_def disk_check_def eff_defs)
    moreover have "distinct (js_keys (files_of s))" using assms(5) unfolding js_wf_def .
    ultimately have o: "pass_outcome env disk svc (js_keys (files_of s)) (files_of s) (\<exists>n. r = Inr n) (files_of s')"
      and c: "\<forall>n. r = Inr n \<longrightarrow> n = length (files_of s)"
      using reencrypt_files_safe [of env disk "js_keys (files_of s)" 0 s r s' svc, OF _ _ order_refl assms(4,1,2,3,6)] by simp_all
    obtain new where new: "js_get (files_of s') path = Some new" "safely_rewritten env svc old new"
      "(\<exists>n. r = Inr n) \<longrightarrow> (\<exists>p. plaintext_of env svc old p \<and> deciphers_to env svc new p)"
      using mp [OF spec [OF spec [OF conjunct1 [OF o [unfolded pass_outcome_def]], of path], of old] assms(8)] path by (elim exE conjE) simp
    have "(\<exists>e. r = Inl e) \<and> (\<exists>q n. extra = temporary disk q n)" if "extra \<in> set (js_keys (files_of s')) - set (js_keys (files_of s))" for extra
      using bspec [OF conjunct2 [OF o [unfolded pass_outcome_def]] that] by (cases r) (simp, blast, simp)
    then show ?thesis using new c unfolding safely_rewritten_def by blast
  qed
qed

definition two_files :: "unit doc_world" where
  "two_files = \<lparr>dw_km = idle_world, dw_files = Some [(''a.pdf'', ''%PDF-1''), (''b.png'', ''PNG'')], dw_uuids = 0\<rparr>"

text \<open>A disk that is full at the second document.\<close>

definition full_disk :: disk where
  "full_disk = \<lparr>dk_uuid = \<lambda>_. ''id'', dk_list = \<lambda>_. None, dk_read = \<lambda>_ _. None,
     dk_write = \<lambda>n _. if n = 1 then Some (PlainError ''ENOSPC'', Some ''APK'') else None, dk_rename = \<lambda>_ _. None\<rparr>"

theorem rotation_keeps_documents_witness:
  "\<exists>new. js_get (files_of (snd (reencryptStoredDocuments plain_km full_disk two_files))) ''a.pdf'' = Some new
     \<and> (new = ''%PDF-1'' \<or> (\<exists>p. plaintext_of plain_km (AwsKmsService ''arn'') ''%PDF-1'' p \<and> deciphers_to plain_km (AwsKmsService ''arn'') new p))"
proof -
  obtain r s' where s: "reencryptStoredDocuments plain_km full_disk two_files = (r, s')"
    by (cases "reencryptStoredDocuments plain_km full_disk two_files")
  have "km_instance (dw_km two_files) = Some (AwsKmsService ''arn'')" "js_wf (files_of two_files)"
    "fresh_temporaries full_disk (js_keys (files_of two_files))" "js_get (files_of two_files) ''a.pdf'' = Some ''%PDF-1''"
    by (simp_all add: two_files_def idle_world_def files_of_def js_wf_def fresh_temporaries_def temporary_def full_disk_def)
  from rotation_keeps_documents [OF plain_km_laws this(1,2,3) s this(4)] show ?thesis unfolding s by auto
qed

text \<open>The witness of the round trip of documents.\<close>

lemma plain_km_aws_encrypt:
  "p \<noteq> [] \<Longrightarrow> encryptKey plain_km (AwsKmsService arn) p s
     = (Inr \<lparr>ek_ciphertext = base64 p, ek_keyVersion = (case truthy_str (Some arn) of Some k \<Rightarrow> k | None \<Rightarrow> arn),
         ek_algorithm = ''AES-256-GCM'', ek_timestamp = km_now s\<rparr>, s)"
  unfolding encryptKey_def aws_encryptKey_def km_service.case
  by (simp, rule with_retries_ok) (simp add: eff_defs remote_call_def plain_km_def)

lemma length_base64: "length (base64 bs) \<le> 2 * length bs + 3"
  by (induction bs rule: base64.induct) (simp_all add: Let_def)

lemma length_escapes: "length (concat (List.map json_escape cs)) \<le> 6 * length cs"
proof (induction cs)
  case (Cons c cs)
  moreover have "length (json_escape c) \<le> 6" by (simp add: json_escape_def)
  ultimately show ?case by simp
qed simp

lemma length_quote: "length (json_quote s) \<le> 6 * length s + 2"
  using length_escapes [of s] by (simp add: json_quote_def)

lemma length_header:
  assumes "length (ek_ciphertext w) \<le> 200" "ek_keyVersion w = ''arn''" "ek_algorithm w = ''AES-256-GCM''" "ek_timestamp w = 1000"
    "length iv \<le> 100" "length tag \<le> 100"
  shows "length (json_stringify (header_json \<lparr>dh_wrappedKey = w, dh_iv = iv, dh_authTag = tag\<rparr>)) < 4294967296"
  using length_quote [of "ek_ciphertext w"] length_quote [of iv] length_quote [of tag] assms
    length_quote [of "''wrappedKey''"] length_quote [of "''ciphertext''"] length_quote [of "''keyVersion''"] length_quote [of "''algorithm''"]
    length_quote [of "''timestamp''"] length_quote [of "''iv''"] length_quote [of "''authTag''"] length_quote [of "''arn''"]
    length_quote [of "''AES-256-GCM''"]
  by (simp add: header_json_def show_int_def show_nat.simps)

theorem document_roundtrip_witness:
  "\<exists>d s'. encryptDocument plain_km ''%PDF-1'' idle_world = (Inr d, s') \<and> isEncryptedDocument d"
proof -
  define k iv tag where "k = replicate 32 (CHR ''i'')" and "iv = replicate 12 (CHR ''i'')" and "tag = replicate 16 (CHR ''t'')"
  have l: "length (base64 k) \<le> 70" "length (base64 iv) \<le> 100" "length (base64 tag) \<le> 100" "base64 k \<noteq> []"
    using length_base64 [of k] length_base64 [of iv] length_base64 [of tag] base64_decode_base64 [of k]
    by (auto simp: k_def iv_def tag_def base64_decode_def b64_values_end simp del: base64_decode_base64)
  have r: "random_bytes (km_cipher plain_km) 32 i = k" "random_bytes (km_cipher plain_km) 12 i = iv"
    "sealed (km_cipher plain_km) k iv t = Inr (t, tag)" for i t
    by (simp_all add: plain_km_def k_def iv_def tag_def)
  define w where "w = \<lparr>ek_ciphertext = base64 (base64 k), ek_keyVersion = ''arn'', ek_algorithm = ''AES-256-GCM'', ek_timestamp = 1000\<rparr>"
  have small: "length (json_stringify (header_json \<lparr>dh_wrappedKey = w, dh_iv = base64 iv, dh_authTag = base64 tag\<rparr>)) < 4294967296"
    using l length_base64 [of "base64 k"] by (intro length_header) (simp_all add: w_def)
  define t where "t = idle_world\<lparr>km_drawn := 2\<rparr>"
  have "km_now t = 1000" by (simp add: t_def idle_world_def)
  then have enc: "encryptKey plain_km (AwsKmsService ''arn'') (base64 k) t = (Inr w, t)"
    using l(4) by (simp add: plain_km_aws_encrypt truthy_nonempty w_def)
  have "encryptDocument plain_km ''%PDF-1'' idle_world = ebind (encryptKey plain_km (AwsKmsService ''arn'') (base64 k)) (\<lambda>wrappedKey.
     ebind (lift_crypto (sealed (km_cipher plain_km) k iv ''%PDF-1'')) (\<lambda>(ciphertext, tag).
     let headerBytes = json_stringify (header_json \<lparr>dh_wrappedKey = wrappedKey, dh_iv = base64 iv, dh_authTag = base64 tag\<rparr>) in
     if length headerBytes \<ge> 4294967296 then ethrow (CryptoErr range_error)
     else ereturn (ENCRYPTED_DOCUMENT_MAGIC @ uint32_be (length headerBytes) @ headerBytes @ ciphertext))) t"
    by (simp add: encryptDocument_def km_random_def r getKeyManagementService_def idle_world_def t_def ebind_def eget_def emodify_def
        ereturn_def numeral_2_eq_2)
  also have "\<dots> = (Inr (ENCRYPTED_DOCUMENT_MAGIC @ uint32_be (length (json_stringify (header_json
      \<lparr>dh_wrappedKey = w, dh_iv = base64 iv, dh_authTag = base64 tag\<rparr>))) @ json_stringify (header_json
      \<lparr>dh_wrappedKey = w, dh_iv = base64 iv, dh_authTag = base64 tag\<rparr>) @ ''%PDF-1''), t)"
    using small unfolding ebind_def enc r lift_crypto_def ereturn_def sum.case prod.case Let_def by simp
  finally have "\<exists>d s'. encryptDocument plain_km ''%PDF-1'' idle_world = (Inr d, s')" by blast
  then show ?thesis using document_roundtrip [OF plain_km_laws] by blast
qed

end
