(* ===== verification/Admin_Passwords.thy ===== *)
theory Admin_Passwords
  imports Effects Batch_Types Js_Bytes Js_Date
begin

text \<open>
  The passwords of administrators: \<open>services/password-hash.service.ts\<close> (scrypt and the text that keeps its
  parameters) and \<open>services/admin-password-reset.service.ts\<close> (reset tokens, their single use under
  concurrent requests, and what a failed e-mail leaves behind). scrypt, HMAC, the random bytes and the delivery of
  mail are parameters; a transaction of the database is one step.
\<close>

section \<open>Hashes of passwords\<close>

definition KEYLEN :: nat where "KEYLEN = 64"
definition SALT_BYTES :: nat where "SALT_BYTES = 16"
definition SCRYPT_COST :: int where "SCRYPT_COST = 16384"
definition SCRYPT_BLOCK_SIZE :: int where "SCRYPT_BLOCK_SIZE = 8"
definition SCRYPT_PARALLELIZATION :: int where "SCRYPT_PARALLELIZATION = 1"
definition PASSWORD_FORMAT :: string where "PASSWORD_FORMAT = ''scrypt''"

text \<open>\<open>scryptSync(password, salt, keylen, options)\<close>.\<close>

type_synonym scrypt = "string \<Rightarrow> string \<Rightarrow> nat \<Rightarrow> int \<Rightarrow> int \<Rightarrow> int \<Rightarrow> js_error + string"

definition hashPassword :: "scrypt \<Rightarrow> string \<Rightarrow> string \<Rightarrow> js_error + string" where
  "hashPassword scryptSync salt password =
     (case scryptSync password salt KEYLEN SCRYPT_COST SCRYPT_BLOCK_SIZE SCRYPT_PARALLELIZATION of
        Inl e \<Rightarrow> Inl e
      | Inr derivedKey \<Rightarrow> Inr (join_with ''$'' [PASSWORD_FORMAT, show_int SCRYPT_COST, show_int SCRYPT_BLOCK_SIZE,
          show_int SCRYPT_PARALLELIZATION, base64 salt, base64 derivedKey]))"

text \<open>The integer a number is, if it is one: \<open>Number.isInteger\<close>.\<close>

definition integer_of :: "jsnum \<Rightarrow> int option" where
  "integer_of n = (case n of Fin r \<Rightarrow> if of_int \<lfloor>r\<rfloor> = r then Some \<lfloor>r\<rfloor> else None | _ \<Rightarrow> None)"

definition verifyPassword :: "scrypt \<Rightarrow> string \<Rightarrow> string \<Rightarrow> js_error + bool" where
  "verifyPassword scryptSync password encodedHash =
     (case split_char (CHR ''$'') encodedHash of
        [format, costRaw, blockSizeRaw, parallelRaw, saltB64, hashB64] \<Rightarrow>
          if format \<noteq> PASSWORD_FORMAT then Inr False
          else (case (integer_of (number_of_text costRaw), integer_of (number_of_text blockSizeRaw), integer_of (number_of_text parallelRaw)) of
             (Some cost, Some blockSize, Some parallelization) \<Rightarrow>
               let salt = base64_decode saltB64; expectedHash = base64_decode hashB64 in
               (case scryptSync password salt (length expectedHash) cost blockSize parallelization of
                  Inl e \<Rightarrow> Inl e
                | Inr actualHash \<Rightarrow> Inr (length expectedHash = length actualHash \<and> expectedHash = actualHash))
           | _ \<Rightarrow> Inr False)
      | _ \<Rightarrow> Inr False)"

section \<open>Reset tokens\<close>

definition RESET_TOKEN_BYTES :: nat where "RESET_TOKEN_BYTES = 32"

record admin_account =
  ac_email :: string
  ac_passwordHash :: string

record reset_row =
  rs_adminUserId :: string
  rs_tokenHash :: string
  rs_expiresAt :: int
  rs_usedAt :: "int option"

record reset_db =
  rd_admins :: "(string, admin_account) jsmap"
  rd_tokens :: "(string, reset_row) jsmap"
  rd_ids :: nat

text \<open>The environment: HMAC-SHA256 under \<open>JWT_SECRET\<close>, the identifiers of new rows, the lifetime of a token in minutes.\<close>

record reset_env =
  re_hmac :: "string \<Rightarrow> string"
  re_uuid :: "nat \<Rightarrow> string"
  re_ttl_minutes :: int

datatype reset_error = InvalidResetTokenError | ResetError js_error

definition hashResetToken :: "reset_env \<Rightarrow> string \<Rightarrow> string" where
  "hashResetToken env token = hex (re_hmac env token)"

definition normalizeEmail :: "string \<Rightarrow> string" where
  "normalizeEmail email = List.map to_lower (trim_js email)"

definition find_admin :: "string \<Rightarrow> reset_db \<Rightarrow> (string \<times> admin_account) option" where
  "find_admin email db = find (\<lambda>(i, a). ac_email a = email) (rd_admins db)"

definition find_token :: "string \<Rightarrow> reset_db \<Rightarrow> (string \<times> reset_row) option" where
  "find_token tokenHash db = find (\<lambda>(i, r). rs_tokenHash r = tokenHash) (rd_tokens db)"

text \<open>\<open>updateMany\<close> of the unused tokens of an administrator.\<close>

definition use_tokens :: "string \<Rightarrow> int \<Rightarrow> (string, reset_row) jsmap \<Rightarrow> (string, reset_row) jsmap" where
  "use_tokens adminId now rows = List.map (\<lambda>(i, r).
     (i, if rs_adminUserId r = adminId \<and> rs_usedAt r = None then r\<lparr>rs_usedAt := Some now\<rparr> else r)) rows"

definition delete_tokens :: "(string \<Rightarrow> reset_row \<Rightarrow> bool) \<Rightarrow> (string, reset_row) jsmap \<Rightarrow> (string, reset_row) jsmap" where
  "delete_tokens p rows = filter (\<lambda>(i, r). \<not> p i r) rows"

text \<open>The transaction of a request: it fails, and changes nothing, when the hash is taken.\<close>

definition issue_token :: "reset_env \<Rightarrow> string \<Rightarrow> string \<Rightarrow> int \<Rightarrow> int \<Rightarrow> (reset_db, reset_error, unit) eff" where
  "issue_token env adminId tokenHash expiresAt now db =
     (if find_token tokenHash db \<noteq> None
      then (Inl (ResetError (OtherErr ''PrismaClientKnownRequestError'' ''Unique constraint failed'' (Some ''P2002'') None None None None None)), db)
      else (Inr (), db\<lparr>rd_tokens := js_set (re_uuid env (rd_ids db))
             \<lparr>rs_adminUserId = adminId, rs_tokenHash = tokenHash, rs_expiresAt = expiresAt, rs_usedAt = None\<rparr>
             (use_tokens adminId now (rd_tokens db)), rd_ids := Suc (rd_ids db)\<rparr>))"

text \<open>A request at a time, with the random bytes it draws and the outcome of the e-mail.\<close>

definition requestPasswordReset ::
  "reset_env \<Rightarrow> string \<Rightarrow> int \<Rightarrow> string \<Rightarrow> (string \<Rightarrow> string \<Rightarrow> int \<Rightarrow> js_error + unit) \<Rightarrow> (reset_db, reset_error, unit) eff" where
  "requestPasswordReset env email now random sendPasswordResetEmail =
     ebind (eget (find_admin (normalizeEmail email))) (\<lambda>admin. case admin of
       None \<Rightarrow> ereturn ()
     | Some (adminId, a) \<Rightarrow>
         let rawToken = hex random; tokenHash = hashResetToken env rawToken;
             expiresAt = now + re_ttl_minutes env * 60 * 1000 in
         ebind (issue_token env adminId tokenHash expiresAt now) (\<lambda>_.
         case sendPasswordResetEmail (ac_email a) rawToken expiresAt of
           Inr _ \<Rightarrow> ereturn ()
         | Inl e \<Rightarrow> ebind (emodify (\<lambda>db. db\<lparr>rd_tokens := delete_tokens (\<lambda>i r. rs_tokenHash r = tokenHash \<and> rs_usedAt r = None) (rd_tokens db)\<rparr>))
             (\<lambda>_. ethrow (ResetError e))))"

text \<open>The confirmation: the token is looked up and checked, the new password is hashed, and a transaction consumes the
  token. Between the two parts other requests may run.\<close>

definition check_token :: "reset_env \<Rightarrow> string \<Rightarrow> int \<Rightarrow> (reset_db, reset_error, string \<times> reset_row) eff" where
  "check_token env token now = ebind (eget (find_token (hashResetToken env token))) (\<lambda>existing. case existing of
     None \<Rightarrow> ethrow InvalidResetTokenError
   | Some (i, r) \<Rightarrow> if rs_usedAt r \<noteq> None \<or> rs_expiresAt r \<le> now then ethrow InvalidResetTokenError else ereturn (i, r))"

definition consumable :: "string \<Rightarrow> int \<Rightarrow> string \<Rightarrow> reset_row \<Rightarrow> bool" where
  "consumable tokenId now i r \<longleftrightarrow> i = tokenId \<and> rs_usedAt r = None \<and> rs_expiresAt r > now"

definition record_missing :: reset_error where
  "record_missing = ResetError (OtherErr ''PrismaClientKnownRequestError'' ''Record to update not found.'' (Some ''P2025'') None None None None None)"

definition consume_token :: "string \<Rightarrow> string \<Rightarrow> int \<Rightarrow> string \<Rightarrow> (reset_db, reset_error, unit) eff" where
  "consume_token tokenId adminId now passwordHash db =
     (if length (filter (\<lambda>(i, r). consumable tokenId now i r) (rd_tokens db)) \<noteq> 1 then (Inl InvalidResetTokenError, db)
      else case js_get (rd_admins db) adminId of
        None \<Rightarrow> (Inl record_missing, db)
      | Some a \<Rightarrow> (Inr (), db\<lparr>rd_admins := js_set adminId (a\<lparr>ac_passwordHash := passwordHash\<rparr>) (rd_admins db),
          rd_tokens := delete_tokens (\<lambda>i r. rs_adminUserId r = adminId) (delete_tokens (consumable tokenId now) (rd_tokens db))\<rparr>))"

definition confirmPasswordReset :: "reset_env \<Rightarrow> scrypt \<Rightarrow> string \<Rightarrow> string \<Rightarrow> int \<Rightarrow> string \<Rightarrow> (reset_db, reset_error, unit) eff" where
  "confirmPasswordReset env scryptSync token newPassword now salt =
     ebind (check_token env token now) (\<lambda>(tokenId, r).
     case hashPassword scryptSync salt newPassword of
       Inl e \<Rightarrow> ethrow (ResetError e)
     | Inr passwordHash \<Rightarrow> consume_token tokenId (rs_adminUserId r) now passwordHash)"

section \<open>Overlapping requests\<close>

text \<open>The process: the database, the confirmations between their two parts, and the tokens that were consumed.\<close>

record reset_process =
  rp_db :: reset_db
  rp_pending :: "(nat, string \<times> reset_row \<times> int \<times> string) jsmap"
  rp_consumed :: "(string \<times> string) list"

datatype reset_call =
    RequestReset string int string "js_error + unit"
  | BeginConfirm nat string int string
  | FinishConfirm nat

definition reset_step :: "reset_env \<Rightarrow> reset_process \<Rightarrow> reset_call \<Rightarrow> reset_process" where
  "reset_step env p c = (case c of
     RequestReset email now random mail \<Rightarrow>
       p\<lparr>rp_db := snd (requestPasswordReset env email now random (\<lambda>_ _ _. mail) (rp_db p))\<rparr>
   | BeginConfirm k token now passwordHash \<Rightarrow>
       (case check_token env token now (rp_db p) of
          (Inr (i, r), _) \<Rightarrow> p\<lparr>rp_pending := js_set k (i, r, now, passwordHash) (rp_pending p)\<rparr>
        | (Inl _, _) \<Rightarrow> p)
   | FinishConfirm k \<Rightarrow>
       (case js_get (rp_pending p) k of
          None \<Rightarrow> p
        | Some (i, r, now, passwordHash) \<Rightarrow>
            (case consume_token i (rs_adminUserId r) now passwordHash (rp_db p) of
               (Inr _, db) \<Rightarrow> p\<lparr>rp_db := db, rp_pending := js_delete k (rp_pending p),
                 rp_consumed := rp_consumed p @ [(i, rs_adminUserId r)]\<rparr>
             | (Inl _, db) \<Rightarrow> p\<lparr>rp_db := db, rp_pending := js_delete k (rp_pending p)\<rparr>)))"

definition new_process :: "(string, admin_account) jsmap \<Rightarrow> reset_process" where
  "new_process admins = \<lparr>rp_db = \<lparr>rd_admins = admins, rd_tokens = [], rd_ids = 0\<rparr>, rp_pending = [], rp_consumed = []\<rparr>"

end
