(* ===== verification/Admin_Password_Props.thy ===== *)
theory Admin_Password_Props
  imports Admin_Passwords
begin

text \<open>
  What the passwords of administrators rest on: a hash verifies exactly the passwords that derive its key, a token
  resets a password at most once however requests overlap, and a new request revokes the tokens before it.
\<close>

section \<open>Hashes\<close>

lemma b64_digit_not: "n < 64 \<Longrightarrow> b64_value c = None \<Longrightarrow> b64_digit n \<noteq> c"
  using b64_value_digit [of n] by auto

lemma b64_digit_neq: "b64_value c = None \<Longrightarrow> c \<noteq> b64_digit (n mod 64)" "b64_value c = None \<Longrightarrow> n < 64 \<Longrightarrow> c \<noteq> b64_digit n"
  using b64_digit_not [of "n mod 64" c] b64_digit_not [of n c] by auto

lemma base64_chars: "b64_value c = None \<Longrightarrow> c \<noteq> CHR ''='' \<Longrightarrow> c \<notin> set (base64 bs)"
proof (induction bs rule: base64.induct)
  case (4 x y z bs)
  define n where "n = of_char x * 65536 + of_char y * 256 + (of_char z :: nat)"
  have "n div 262144 < 64" by (rule three_bytes [OF byte_lt byte_lt byte_lt n_def])
  then have "c \<notin> set ([b64_digit (n div 262144), b64_digit (n div 4096 mod 64), b64_digit (n div 64 mod 64), b64_digit (n mod 64)] @ base64 bs)"
    using 4 b64_digit_neq [OF 4(2)] by (simp del: base64.simps)
  then show ?case unfolding base64.simps Let_def n_def .
next
  case (3 x y)
  define n where "n = (of_char x * 256 + (of_char y :: nat)) * 4"
  have "n div 4096 < 64" by (rule two_bytes [OF byte_lt byte_lt n_def])
  then have "c \<notin> set [b64_digit (n div 4096), b64_digit (n div 64 mod 64), b64_digit (n mod 64), CHR ''='']"
    using b64_digit_neq [OF 3(1)] 3(2) by simp
  then show ?case unfolding base64.simps Let_def n_def by simp
next
  case (2 x)
  define n where "n = (of_char x :: nat) * 16"
  have "n div 64 < 64" using byte_lt [of x] by (simp add: n_def less_mult_imp_div_less)
  then have "c \<notin> set [b64_digit (n div 64), b64_digit (n mod 64), CHR ''='', CHR ''='']"
    using b64_digit_neq [OF 2(1)] 2(2) by simp
  then show ?case unfolding base64.simps Let_def n_def by simp
qed simp

lemma base64_no_dollar: "CHR ''$'' \<notin> set (base64 bs)"
  by (rule base64_chars) (simp_all add: b64_value_def)

lemma split_dollar:
  "CHR ''$'' \<notin> set a \<Longrightarrow> split_char (CHR ''$'') (a @ CHR ''$'' # b) = a # split_char (CHR ''$'') b"
  by (rule split_char_append)

lemma scrypt_numbers:
  "integer_of (number_of_text ''16384'') = Some 16384" "integer_of (number_of_text ''8'') = Some 8" "integer_of (number_of_text ''1'') = Some 1"
  by code_simp+

lemma split_hash:
  assumes "CHR ''$'' \<notin> set a" "CHR ''$'' \<notin> set b"
  shows "split_char (CHR ''$'') (''scrypt$16384$8$1$'' @ a @ CHR ''$'' # b) = [''scrypt'', ''16384'', ''8'', ''1'', a, b]"
  using split_dollar [OF assms(1), of b] split_char_none [OF assms(2)] by simp

lemma hashPassword_text:
  "hashPassword scr salt p = Inr h \<longleftrightarrow> (\<exists>k. scr p salt 64 16384 8 1 = Inr k \<and> h = ''scrypt$16384$8$1$'' @ base64 salt @ CHR ''$'' # base64 k)"
proof -
  have "show_int 16384 = ''16384''" "show_int 8 = ''8''" "show_int 1 = ''1''"
    by (simp_all add: show_int_def show_nat.simps hex_digit_def)
  then show ?thesis
    by (auto simp: hashPassword_def KEYLEN_def SCRYPT_COST_def SCRYPT_BLOCK_SIZE_def SCRYPT_PARALLELIZATION_def PASSWORD_FORMAT_def split: sum.split)
qed

lemma verifyPassword_text:
  assumes "CHR ''$'' \<notin> set a" "CHR ''$'' \<notin> set b"
  shows "verifyPassword scr q (''scrypt$16384$8$1$'' @ a @ CHR ''$'' # b)
    = (case scr q (base64_decode a) (length (base64_decode b)) 16384 8 1 of Inl e \<Rightarrow> Inl e
       | Inr k \<Rightarrow> Inr (length (base64_decode b) = length k \<and> base64_decode b = k))"
proof -
  define h where "h = ''scrypt$16384$8$1$'' @ a @ CHR ''$'' # b"
  have s: "split_char (CHR ''$'') h = [''scrypt'', ''16384'', ''8'', ''1'', a, b]" unfolding h_def by (rule split_hash [OF assms])
  show ?thesis unfolding verifyPassword_def h_def [symmetric] s list.case PASSWORD_FORMAT_def scrypt_numbers prod.case option.case Let_def
    by (simp only: simp_thms if_False)
qed

text \<open>A hash verifies exactly the passwords that derive its key: with a scrypt that returns as many bytes as it is asked
  for, the hash of a password is verified by that password, and by another one if and only if scrypt derives the same
  64 bytes from it with the same salt; the salt, the key and the parameters are read back from the text.\<close>

theorem password_hash_verifies:
  assumes "\<And>pw s n c b r k. scr pw s n c b r = Inr k \<Longrightarrow> length k = n" "hashPassword scr salt p = Inr h"
  shows "verifyPassword scr p h = Inr True
    \<and> (\<forall>q k. scr q salt 64 16384 8 1 = Inr k \<longrightarrow> verifyPassword scr q h = Inr (scr p salt 64 16384 8 1 = Inr k))"
proof -
  obtain k where k: "scr p salt 64 16384 8 1 = Inr k" "h = ''scrypt$16384$8$1$'' @ base64 salt @ CHR ''$'' # base64 k"
    using assms(2) unfolding hashPassword_text by blast
  have v: "verifyPassword scr q h = (case scr q salt 64 16384 8 1 of Inl e \<Rightarrow> Inl e | Inr k' \<Rightarrow> Inr (64 = length k' \<and> k = k'))" for q
    unfolding k(2) verifyPassword_text [OF base64_no_dollar base64_no_dollar] base64_decode_base64 assms(1) [OF k(1)] ..
  have "verifyPassword scr p h = Inr True" using v [of p] k(1) assms(1) [OF k(1)] by simp
  moreover have "verifyPassword scr q h = Inr (scr p salt 64 16384 8 1 = Inr k)" if "scr q salt 64 16384 8 1 = Inr k" for q k
    using v [of q] \<open>scr p salt 64 16384 8 1 = Inr _\<close> that assms(1) [OF that] by auto
  ultimately show ?thesis by blast
qed

text \<open>A scrypt for the witnesses: the first bytes of the password, padded.\<close>

definition short_scrypt :: scrypt where
  "short_scrypt p s n c b r = Inr (take n (p @ replicate n (CHR ''x'')))"

theorem password_hash_verifies_witness:
  "\<exists>h. hashPassword short_scrypt ''salt'' ''secret'' = Inr h \<and> verifyPassword short_scrypt ''secret'' h = Inr True
     \<and> verifyPassword short_scrypt ''other'' h = Inr False"
proof -
  have l: "short_scrypt pw s n c b r = Inr k \<Longrightarrow> length k = n" for pw s n c b r k by (auto simp: short_scrypt_def)
  obtain h where h: "hashPassword short_scrypt ''salt'' ''secret'' = Inr h" unfolding hashPassword_text short_scrypt_def by blast
  have d: "short_scrypt ''other'' ''salt'' 64 16384 8 1 = Inr (take 64 (''other'' @ replicate 64 (CHR ''x'')))"
    "short_scrypt ''secret'' ''salt'' 64 16384 8 1 \<noteq> Inr (take 64 (''other'' @ replicate 64 (CHR ''x'')))"
    by (simp_all add: short_scrypt_def)
  have "verifyPassword short_scrypt ''other'' h = Inr False"
    using password_hash_verifies [of short_scrypt, OF l h] d by simp
  moreover have "verifyPassword short_scrypt ''secret'' h = Inr True"
    using password_hash_verifies [of short_scrypt, OF l h] by simp
  ultimately show ?thesis using h by blast
qed

text \<open>A stored hash whose key is missing lets everyone in: scrypt derives zero bytes when it is asked for zero, and they
  equal the empty key, whatever the password is.\<close>

theorem empty_hash_accepts_everyone:
  assumes "\<And>pw s c b r. scr pw s 0 c b r = Inr []" "CHR ''$'' \<notin> set saltText"
  shows "verifyPassword scr p (''scrypt$16384$8$1$'' @ saltText @ ''$'') = Inr True"
proof -
  have "base64_decode [] = []" by (simp add: base64_decode_def b64_values_end)
  then show ?thesis using verifyPassword_text [OF assms(2), of "[]" scr p] assms(1) by simp
qed

theorem empty_hash_accepts_everyone_witness:
  "verifyPassword short_scrypt ''anything'' (''scrypt$16384$8$1$'' @ ''c2FsdA=='' @ ''$'') = Inr True"
  by (rule empty_hash_accepts_everyone) (simp_all add: short_scrypt_def)

section \<open>Tokens\<close>

definition drawn_ids :: "reset_env \<Rightarrow> nat \<Rightarrow> string set" where
  "drawn_ids env n = re_uuid env ` {..<n}"

definition token_ids :: "reset_db \<Rightarrow> string set" where
  "token_ids db = set (js_keys (rd_tokens db))"

definition consumed_ids :: "reset_process \<Rightarrow> string set" where
  "consumed_ids p = set (List.map fst (rp_consumed p))"

text \<open>Identifiers of rows and of consumed tokens were drawn before, and no consumed token is in the table.\<close>

definition reset_inv :: "reset_env \<Rightarrow> reset_process \<Rightarrow> bool" where
  "reset_inv env p \<longleftrightarrow> js_wf (rd_tokens (rp_db p)) \<and> token_ids (rp_db p) \<subseteq> drawn_ids env (rd_ids (rp_db p))
     \<and> consumed_ids p \<subseteq> drawn_ids env (rd_ids (rp_db p)) \<and> token_ids (rp_db p) \<inter> consumed_ids p = {}
     \<and> distinct (List.map fst (rp_consumed p))"

lemma keys_use_tokens [simp]: "js_keys (use_tokens a now rows) = js_keys rows"
  by (induction rows) (auto simp: use_tokens_def)

lemma mem_delete_tokens [simp]: "(i, r) \<in> set (delete_tokens q rows) \<longleftrightarrow> (i, r) \<in> set rows \<and> \<not> q i r"
  by (auto simp: delete_tokens_def)

lemma keys_delete_tokens: "set (js_keys (delete_tokens q rows)) \<subseteq> set (js_keys rows)"
  by force

lemma wf_delete_tokens [simp]: "js_wf rows \<Longrightarrow> js_wf (delete_tokens q rows)"
  by (simp add: js_wf_def delete_tokens_def distinct_map_filter)

lemma wf_use_tokens [simp]: "js_wf rows \<Longrightarrow> js_wf (use_tokens a now rows)"
  by (simp add: js_wf_def)

lemma keys_js_set: "set (js_keys (js_set k v m)) = insert k (set (js_keys m))"
  by (simp add: dom_map_of_conv_image_fst [symmetric] update_conv')

lemma drawn_Suc: "drawn_ids env (Suc n) = insert (re_uuid env n) (drawn_ids env n)"
  by (simp add: drawn_ids_def lessThan_Suc)

lemma uuid_fresh: "inj (re_uuid env) \<Longrightarrow> re_uuid env n \<notin> drawn_ids env n"
  by (auto simp: drawn_ids_def inj_def)

text \<open>What a step does to the identifiers: none, a subset of the rows, or a fresh row.\<close>

definition tokens_shrink :: "reset_db \<Rightarrow> reset_db \<Rightarrow> bool" where
  "tokens_shrink db db' \<longleftrightarrow> rd_ids db' = rd_ids db \<and> token_ids db' \<subseteq> token_ids db
     \<and> (js_wf (rd_tokens db) \<longrightarrow> js_wf (rd_tokens db'))"

definition token_added :: "reset_env \<Rightarrow> reset_db \<Rightarrow> reset_db \<Rightarrow> bool" where
  "token_added env db db' \<longleftrightarrow> rd_ids db' = Suc (rd_ids db)
     \<and> token_ids db' \<subseteq> insert (re_uuid env (rd_ids db)) (token_ids db)
     \<and> (js_wf (rd_tokens db) \<longrightarrow> js_wf (rd_tokens db'))"

lemma token_added_deleted:
  "token_added env db db' \<Longrightarrow> token_added env db (db'\<lparr>rd_tokens := delete_tokens q (rd_tokens db')\<rparr>)"
  using keys_delete_tokens [of q "rd_tokens db'"] by (auto simp: token_added_def token_ids_def simp del: mem_delete_tokens)

lemma issue_cases:
  assumes "issue_token env a hash e now db = (r, db')"
  shows "(\<exists>err. r = Inl err) \<and> db' = db \<or> r = Inr () \<and> token_added env db db'"
  using assms by (auto simp: issue_token_def token_added_def token_ids_def keys_js_set simp del: set_map split: if_splits)

lemma request_tokens:
  "tokens_shrink db (snd (requestPasswordReset env email now random mail db)) \<or> token_added env db (snd (requestPasswordReset env email now random mail db))"
proof (cases "find_admin (normalizeEmail email) db")
  case None
  then show ?thesis by (simp add: requestPasswordReset_def eff_defs tokens_shrink_def)
next
  case (Some x)
  obtain i a where x: "x = (i, a)" by (cases x)
  define hash where "hash = hashResetToken env (hex random)"
  define e where "e = now + 60000 * re_ttl_minutes env"
  obtain r db' where r: "issue_token env i hash e now db = (r, db')" by (cases "issue_token env i hash e now db")
  note c = issue_cases [OF r]
  show ?thesis
    using Some x r c token_added_deleted [of env db db']
    by (auto simp: requestPasswordReset_def ebind_def eget_def ereturn_def emodify_def ethrow_def Let_def hash_def [symmetric] e_def [symmetric]
        tokens_shrink_def split: sum.split)
qed

lemma consume_shrinks: "tokens_shrink db (snd (consume_token i a now h db))"
proof -
  have "set (js_keys (delete_tokens q (delete_tokens q' rows))) \<subseteq> set (js_keys rows)" for q q' rows
    using keys_delete_tokens by blast
  then show ?thesis by (auto simp: consume_token_def tokens_shrink_def token_ids_def simp del: set_map mem_delete_tokens split: option.split)
qed

lemma consume_removes:
  assumes "consume_token i a now h db = (Inr x, db')" "js_wf (rd_tokens db)"
  shows "i \<in> token_ids db \<and> i \<notin> token_ids db'"
proof -
  have c: "length (filter (\<lambda>(j, r). consumable i now j r) (rd_tokens db)) = 1"
    and d: "rd_tokens db' = delete_tokens (\<lambda>j r. rs_adminUserId r = a) (delete_tokens (consumable i now) (rd_tokens db))"
    using assms by (auto simp: consume_token_def split: if_splits option.splits)
  have "filter (\<lambda>(j, r). consumable i now j r) (rd_tokens db) \<noteq> []" using c by auto
  then obtain j r where "(j, r) \<in> set (rd_tokens db)" "consumable i now j r" by (auto simp: filter_empty_conv)
  then have j: "(i, r) \<in> set (rd_tokens db)" "consumable i now i r" by (auto simp: consumable_def)
  have "i \<notin> token_ids db'"
  proof
    assume "i \<in> token_ids db'"
    then obtain r' where r': "(i, r') \<in> set (rd_tokens db)" "\<not> consumable i now i r'" unfolding token_ids_def d by auto
    then have "r' = r" using j(1) assms(2) by (auto simp: js_wf_def dest: eq_key_imp_eq_value)
    then show False using r'(2) j(2) by simp
  qed
  then show ?thesis using j(1) by (force simp: token_ids_def)
qed

lemma consumed_ids_db [simp]: "consumed_ids (p\<lparr>rp_db := db\<rparr>) = consumed_ids p" "consumed_ids (p\<lparr>rp_pending := q\<rparr>) = consumed_ids p"
  by (simp_all add: consumed_ids_def)

lemma reset_inv_shrink:
  assumes "reset_inv env p" "tokens_shrink (rp_db p) db'"
  shows "reset_inv env (p\<lparr>rp_db := db'\<rparr>)"
  using assms by (simp add: reset_inv_def tokens_shrink_def) blast

lemma reset_inv_added:
  assumes "reset_inv env p" "token_added env (rp_db p) db'" "inj (re_uuid env)"
  shows "reset_inv env (p\<lparr>rp_db := db'\<rparr>)"
  using assms uuid_fresh [OF assms(3), of "rd_ids (rp_db p)"] by (simp add: reset_inv_def token_added_def drawn_Suc) blast

lemma reset_inv_pending [simp]: "reset_inv env (p\<lparr>rp_pending := q\<rparr>) \<longleftrightarrow> reset_inv env p"
  by (simp add: reset_inv_def)

lemma reset_step_inv:
  assumes "inj (re_uuid env)" "reset_inv env p"
  shows "reset_inv env (reset_step env p c)"
proof (cases c)
  case (RequestReset email now random mail)
  then show ?thesis
    using request_tokens [of "rp_db p" env email now random "\<lambda>_ _ _. mail"] reset_inv_shrink [OF assms(2)] reset_inv_added [OF assms(2) _ assms(1)]
    by (auto simp: reset_step_def)
next
  case (BeginConfirm k token now h)
  then show ?thesis using assms(2) by (auto simp: reset_step_def split: prod.split sum.split)
next
  case (FinishConfirm k)
  show ?thesis
  proof (cases "js_get (rp_pending p) k")
    case None
    then show ?thesis using FinishConfirm assms(2) by (simp add: reset_step_def)
  next
    case (Some x)
    obtain i r now h where x: "x = (i, r, now, h)" by (cases x)
    obtain res db' where c: "consume_token i (rs_adminUserId r) now h (rp_db p) = (res, db')"
      by (cases "consume_token i (rs_adminUserId r) now h (rp_db p)")
    have s: "reset_inv env (p\<lparr>rp_db := db'\<rparr>)"
      using reset_inv_shrink [OF assms(2)] consume_shrinks [of "rp_db p" i "rs_adminUserId r" now h] c by simp
    show ?thesis
    proof (cases res)
      case (Inl e)
      then show ?thesis using FinishConfirm Some x c s by (simp add: reset_step_def reset_inv_def)
    next
      case (Inr u)
      have w: "js_wf (rd_tokens (rp_db p))" using assms(2) by (simp add: reset_inv_def)
      have i: "i \<in> token_ids (rp_db p)" "i \<notin> token_ids db'" using consume_removes [OF _ w] c Inr by blast+
      have t: "tokens_shrink (rp_db p) db'" using consume_shrinks [of "rp_db p" i "rs_adminUserId r" now h] c by simp
      have "i \<in> drawn_ids env (rd_ids db')" "i \<notin> consumed_ids p"
        using assms(2) i(1) t unfolding reset_inv_def tokens_shrink_def by auto
      then show ?thesis using FinishConfirm Some x c Inr s i(2) by (auto simp: reset_step_def reset_inv_def consumed_ids_def)
    qed
  qed
qed

text \<open>C21. A reset token resets one password once: whatever requests, confirmations and their two parts the administrators and
  attackers interleave, no token is consumed twice, even when the same token is submitted many times at once.\<close>

theorem reset_token_consumed_once:
  assumes "inj (re_uuid env)"
  shows "distinct (List.map fst (rp_consumed (foldl (reset_step env) (new_process admins) calls)))"
proof -
  have "reset_inv env (new_process admins)" by (simp add: reset_inv_def new_process_def token_ids_def consumed_ids_def)
  then have "reset_inv env (foldl (reset_step env) (new_process admins) calls)"
    by (intro call_machine.run_inv [of "reset_step env" "reset_inv env"]) (auto simp: call_machine_def reset_step_inv [OF assms])
  then show ?thesis by (simp add: reset_inv_def)
qed

text \<open>Witness: one administrator, one request, and the same token submitted twice at once.\<close>

definition demo_env :: reset_env where
  "demo_env = \<lparr>re_hmac = id, re_uuid = \<lambda>n. replicate n (CHR ''i''), re_ttl_minutes = 15\<rparr>"

definition demo_admins :: "(string, admin_account) jsmap" where
  "demo_admins = [(''admin'', \<lparr>ac_email = ''a@b.c'', ac_passwordHash = ''old''\<rparr>)]"

definition demo_calls :: "reset_call list" where
  "demo_calls = [RequestReset '' A@b.c '' 0 ''r'' (Inr ()), BeginConfirm 1 (hex ''r'') 1000 ''new'', BeginConfirm 2 (hex ''r'') 1001 ''evil'',
     FinishConfirm 1, FinishConfirm 2]"

lemma demo_run_result: "rp_consumed (foldl (reset_step demo_env) (new_process demo_admins) demo_calls) = [([], ''admin'')]"
  by (simp add: demo_calls_def demo_env_def demo_admins_def new_process_def reset_step_def requestPasswordReset_def issue_token_def
      check_token_def consume_token_def find_admin_def find_token_def hashResetToken_def use_tokens_def delete_tokens_def consumable_def
      normalizeEmail_def trim_js_def is_js_space_def to_lower_def char_of_def bit_0 eff_defs Let_def)

theorem reset_token_consumed_once_witness:
  "distinct (List.map fst (rp_consumed (foldl (reset_step demo_env) (new_process demo_admins) demo_calls)))
     \<and> rp_consumed (foldl (reset_step demo_env) (new_process demo_admins) demo_calls) = [([], ''admin'')]"
proof -
  have "inj (re_uuid demo_env)" unfolding demo_env_def inj_def by (metis length_replicate reset_env.select_convs(2))
  then show ?thesis using reset_token_consumed_once [of demo_env demo_admins demo_calls] demo_run_result by blast
qed

section \<open>A request revokes the tokens before it\<close>

lemma find_none: "find q xs = None \<longleftrightarrow> (\<forall>x \<in> set xs. \<not> q x)"
  by (induction xs) auto

lemma mem_js_set: "(i, r) \<in> set (js_set k v m) \<Longrightarrow> (i, r) = (k, v) \<or> (i, r) \<in> set m"
  by (induction m) (auto split: if_splits)

text \<open>After a request no older token works: when a request for an administrator was processed, the only token of that
  administrator that is still unused is the one the e-mail carries, and when the e-mail could not be sent there is none,
  so that a failing mail server leaves the administrator without a token.\<close>

theorem request_revokes_older_tokens:
  assumes "find_admin (normalizeEmail email) db = Some (adminId, a)" "(i, r) \<in> set (rd_tokens db')"
    "rs_adminUserId r = adminId" "rs_usedAt r = None" "requestPasswordReset env email now random mail db = (res, db')"
    "find_token (hashResetToken env (hex random)) db = None"
  shows "res = Inr () \<and> rs_tokenHash r = hashResetToken env (hex random)"
proof -
  define hash where "hash = hashResetToken env (hex random)"
  define row where "row = \<lparr>rs_adminUserId = adminId, rs_tokenHash = hash, rs_expiresAt = now + 60000 * re_ttl_minutes env, rs_usedAt = None\<rparr>"
  define rows where "rows = js_set (re_uuid env (rd_ids db)) row (use_tokens adminId now (rd_tokens db))"
  have unused: "rs_adminUserId x \<noteq> adminId \<or> rs_usedAt x \<noteq> None" if "(j, x) \<in> set (use_tokens adminId now (rd_tokens db))" for j x
    using that by (auto simp: use_tokens_def)
  show ?thesis
  proof (cases "mail (ac_email a) (hex random) (now + re_ttl_minutes env * 60 * 1000)")
    case (Inr u)
    then have e: "res = Inr ()" "rd_tokens db' = rows"
      using assms(1,5,6) by (auto simp: requestPasswordReset_def issue_token_def eff_defs Let_def rows_def row_def hash_def)
    then have "r = row \<or> (i, r) \<in> set (use_tokens adminId now (rd_tokens db))"
      using assms(2) mem_js_set [of i r "re_uuid env (rd_ids db)" row] unfolding rows_def by auto
    then have "r = row" using unused [of i r] assms(3,4) by blast
    then show ?thesis using e(1) by (simp add: row_def hash_def)
  next
    case (Inl err)
    then have "rd_tokens db' = delete_tokens (\<lambda>i r. rs_tokenHash r = hash \<and> rs_usedAt r = None) rows"
      using assms(1,5,6) by (auto simp: requestPasswordReset_def issue_token_def eff_defs Let_def rows_def row_def hash_def)
    then have m: "(i, r) \<in> set rows" "\<not> (rs_tokenHash r = hash \<and> rs_usedAt r = None)" using assms(2) by simp_all
    then have "r = row \<or> (i, r) \<in> set (use_tokens adminId now (rd_tokens db))"
      using mem_js_set [of i r "re_uuid env (rd_ids db)" row] unfolding rows_def by auto
    then have "r = row" using unused [of i r] assms(3,4) by blast
    then have False using m(2) by (simp add: row_def)
    then show ?thesis ..
  qed
qed

definition used_db :: reset_db where
  "used_db = \<lparr>rd_admins = demo_admins, rd_tokens = [(''t'', \<lparr>rs_adminUserId = ''admin'', rs_tokenHash = ''h'', rs_expiresAt = 900, rs_usedAt = None\<rparr>)], rd_ids = 3\<rparr>"

theorem request_revokes_older_tokens_witness:
  "List.map (\<lambda>(i, r). (rs_tokenHash r, rs_usedAt r)) (rd_tokens (snd (requestPasswordReset demo_env ''a@b.c'' 5 ''r'' (\<lambda>_ _ _. Inr ()) used_db)))
     = [(''h'', Some 5), (hashResetToken demo_env (hex ''r''), None)]"
proof -
  define row where "row = \<lparr>rs_adminUserId = ''admin'', rs_tokenHash = hashResetToken demo_env (hex ''r''), rs_expiresAt = 900005, rs_usedAt = None\<rparr>"
  define db' where "db' = used_db\<lparr>rd_tokens := [(''t'', \<lparr>rs_adminUserId = ''admin'', rs_tokenHash = ''h'', rs_expiresAt = 900, rs_usedAt = Some 5\<rparr>), (''iii'', row)], rd_ids := 4\<rparr>"
  have f: "find_admin (normalizeEmail ''a@b.c'') used_db = Some (''admin'', \<lparr>ac_email = ''a@b.c'', ac_passwordHash = ''old''\<rparr>)"
    by (simp add: find_admin_def used_db_def demo_admins_def normalizeEmail_def trim_js_def is_js_space_def to_lower_def char_of_def bit_0)
  have t: "find_token (hashResetToken demo_env (hex ''r'')) used_db = None"
    by (simp add: find_token_def used_db_def hashResetToken_def demo_env_def hex_def hex_digit_def)
  have r: "requestPasswordReset demo_env ''a@b.c'' 5 ''r'' (\<lambda>_ _ _. Inr ()) used_db = (Inr (), db')"
    by (simp add: requestPasswordReset_def f t issue_token_def eff_defs Let_def)
      (simp add: used_db_def db'_def row_def demo_env_def use_tokens_def numeral_eq_Suc)
  have "rs_tokenHash row = hashResetToken demo_env (hex ''r'')"
    using request_revokes_older_tokens [OF f _ _ _ r t, of "''iii''" row] by (simp add: db'_def row_def)
  then show ?thesis using r by (simp add: db'_def row_def)
qed

end
