(* ===== verification/Admin_Mfa.thy ===== *)
theory Admin_Mfa
  imports Admin_Passwords Auth_Sessions Json_Text "HOL-Library.Word"
begin

text \<open>
  The second factor of administrators: \<open>services/admin-mfa.service.ts\<close>. Secrets in base32 with the 32-bit
  arithmetic of JavaScript's bitwise operators, one-time passwords (HOTP and TOTP), backup codes, and the set-up, the
  confirmation and the login. HMAC, the random bytes, the optional libraries and the signing of access tokens
  are parameters; a call of the database is one step.
\<close>

unbundle bit_operations_syntax

section \<open>Base32\<close>

definition BASE32_ALPHABET :: string where
  "BASE32_ALPHABET = ''ABCDEFGHIJKLMNOPQRSTUVWXYZ234567''"

definition b32_digit :: "nat \<Rightarrow> char" where
  "b32_digit n = BASE32_ALPHABET ! n"

text \<open>\<open>BASE32_ALPHABET.indexOf\<close>.\<close>

definition b32_index :: "char \<Rightarrow> nat option" where
  "b32_index c = (let n = of_char c in
     if 65 \<le> n \<and> n \<le> 90 then Some (n - 65) else if 50 \<le> n \<and> n \<le> 55 then Some (n - 24) else None)"

text \<open>The inner loop: digits while five bits are left; the loop over the bytes; and the last digit.\<close>

function emit_digits :: "nat \<Rightarrow> 32 word \<Rightarrow> string \<Rightarrow> nat \<times> string" where
  "emit_digits bits value output =
     (if 5 \<le> bits then emit_digits (bits - 5) value (output @ [b32_digit (unat (drop_bit (bits - 5) value AND 31))])
      else (bits, output))"
  by pat_completeness auto
termination by (relation "measure (\<lambda>(bits, _, _). bits)") auto

declare emit_digits.simps [simp del]

fun encode_bytes :: "string \<Rightarrow> nat \<Rightarrow> 32 word \<Rightarrow> string \<Rightarrow> nat \<times> 32 word \<times> string" where
  "encode_bytes [] bits value output = (bits, value, output)"
| "encode_bytes (b # bs) bits value output =
     (let value = push_bit 8 value OR of_nat (of_char b) in
      case emit_digits (bits + 8) value output of (bits, output) \<Rightarrow> encode_bytes bs bits value output)"

definition base32Encode :: "string \<Rightarrow> string" where
  "base32Encode buffer = (case encode_bytes buffer 0 0 [] of (bits, value, output) \<Rightarrow>
     if 0 < bits then output @ [b32_digit (unat (push_bit (5 - bits) value AND 31))] else output)"

definition clean_base32 :: "string \<Rightarrow> string" where
  "clean_base32 encoded = filter (\<lambda>c. \<not> is_js_space c) (rev (dropWhile (\<lambda>c. c = CHR ''='') (rev (upper_text encoded))))"

definition invalid_base32 :: "char \<Rightarrow> js_error" where
  "invalid_base32 c = PlainError (''Invalid base32 character: '' @ [c])"

fun decode_digits :: "string \<Rightarrow> nat \<Rightarrow> 32 word \<Rightarrow> string \<Rightarrow> js_error + string" where
  "decode_digits [] bits value bytes = Inr bytes"
| "decode_digits (c # cs) bits value bytes = (case b32_index c of
     None \<Rightarrow> Inl (invalid_base32 c)
   | Some idx \<Rightarrow>
       let value = push_bit 5 value OR of_nat idx; bits = bits + 5 in
       if 8 \<le> bits
       then decode_digits cs (bits - 8) value (bytes @ [char_of (unat (drop_bit (bits - 8) value AND 0xff))])
       else decode_digits cs bits value bytes)"

definition base32Decode :: "string \<Rightarrow> js_error + string" where
  "base32Decode encoded = decode_digits (clean_base32 encoded) 0 0 []"

section \<open>One-time passwords\<close>

definition TOTP_STEP_SECONDS :: int where "TOTP_STEP_SECONDS = 30"
definition TOTP_DIGITS :: nat where "TOTP_DIGITS = 6"
definition BACKUP_CODE_COUNT :: nat where "BACKUP_CODE_COUNT = 10"
definition MFA_ISSUER :: string where "MFA_ISSUER = ''AnchorPoint''"

text \<open>HMAC-SHA1 and HMAC-SHA256 under \<open>JWT_SECRET\<close>, the secrets and QR codes of the optional libraries, scrypt, and the random
  bytes of a call by their size and how many calls were made before.\<close>

record mfa_env =
  mf_hmac_sha1 :: "string \<Rightarrow> string \<Rightarrow> string"
  mf_hmac_sha256 :: "string \<Rightarrow> string"
  mf_library_secret :: "nat \<Rightarrow> string option"
  mf_library_qr :: "string \<Rightarrow> string option"
  mf_encodeURIComponent :: "string \<Rightarrow> string"
  mf_random :: "nat \<Rightarrow> nat \<Rightarrow> string"
  mf_scrypt :: scrypt

text \<open>\<open>writeBigUInt64BE\<close>.\<close>

definition counter_bytes :: "int \<Rightarrow> js_error + string" where
  "counter_bytes n = (if n < 0 \<or> n \<ge> 2 ^ 64
     then Inl (OtherErr ''RangeError'' ''The value of 'value' is out of range.'' (Some ''ERR_OUT_OF_RANGE'') None None None None None)
     else Inr (List.map (\<lambda>i. char_of (nat n div 256 ^ (7 - i))) [0..<8]))"

text \<open>A byte of a buffer as an operand; beyond the end it is undefined, which a bitwise operator reads as zero.\<close>

definition byte_at :: "string \<Rightarrow> nat \<Rightarrow> 32 word" where
  "byte_at bs i = (if i < length bs then of_nat (of_char (bs ! i)) else 0)"

definition truncated :: "string \<Rightarrow> nat" where
  "truncated hmac = (let offset = unat (byte_at hmac (length hmac - 1) AND 0x0f) in
     unat (push_bit 24 (byte_at hmac offset AND 0x7f) OR push_bit 16 (byte_at hmac (offset + 1) AND 0xff)
       OR push_bit 8 (byte_at hmac (offset + 2) AND 0xff) OR (byte_at hmac (offset + 3) AND 0xff)))"

definition generateHotp :: "mfa_env \<Rightarrow> string \<Rightarrow> int \<Rightarrow> nat \<Rightarrow> js_error + string" where
  "generateHotp env secretBase32 counter digits = (case base32Decode secretBase32 of
     Inl e \<Rightarrow> Inl e
   | Inr key \<Rightarrow> (case counter_bytes counter of
       Inl e \<Rightarrow> Inl e
     | Inr buf \<Rightarrow> Inr (pad_left digits (CHR ''0'') (show_nat (truncated (mf_hmac_sha1 env key buf) mod 10 ^ digits)))))"

text \<open>\<open>Math.floor(timestampMs / 1000 / stepSeconds)\<close>.\<close>

definition time_counter :: "int \<Rightarrow> int \<Rightarrow> int option" where
  "time_counter timestampMs stepSeconds =
     integer_of (math_floor (js_div (js_div (js_int timestampMs) (js_int 1000)) (js_int stepSeconds)))"

definition bigint_error :: js_error where
  "bigint_error = OtherErr ''RangeError'' ''The number NaN cannot be converted to a BigInt because it is not an integer'' None None None None None None"

definition generateTotpCode :: "mfa_env \<Rightarrow> string \<Rightarrow> int \<Rightarrow> int \<Rightarrow> js_error + string" where
  "generateTotpCode env secret timestampMs stepSeconds = (case time_counter timestampMs stepSeconds of
     None \<Rightarrow> Inl bigint_error | Some counter \<Rightarrow> generateHotp env secret counter TOTP_DIGITS)"

definition six_digits :: "string \<Rightarrow> bool" where
  "six_digits s \<longleftrightarrow> length s = 6 \<and> list_all is_digit s"

text \<open>The loop over the window; an exception ends it, and the caller catches it.\<close>

fun matches_any :: "(int \<Rightarrow> js_error + string) \<Rightarrow> int list \<Rightarrow> string \<Rightarrow> bool" where
  "matches_any hotp [] code = False"
| "matches_any hotp (c # cs) code = (case hotp c of Inl _ \<Rightarrow> False | Inr candidate \<Rightarrow> code = candidate \<or> matches_any hotp cs code)"

definition verifyTotpCode :: "mfa_env \<Rightarrow> string \<Rightarrow> string \<Rightarrow> int \<Rightarrow> int \<Rightarrow> int \<Rightarrow> bool" where
  "verifyTotpCode env secret code timestampMs window stepSeconds =
     (if secret = [] \<or> \<not> six_digits (trim_js code) then False
      else (case time_counter timestampMs stepSeconds of
          None \<Rightarrow> False
        | Some current \<Rightarrow> matches_any (\<lambda>c. generateHotp env secret c TOTP_DIGITS)
            (List.map (\<lambda>off. current + off) [- window..window]) (trim_js code)))"

definition totp_valid :: "mfa_env \<Rightarrow> string \<Rightarrow> string \<Rightarrow> int \<Rightarrow> bool" where
  "totp_valid env secret code timestampMs = verifyTotpCode env secret code timestampMs 1 TOTP_STEP_SECONDS"

definition buildOtpAuthUri :: "mfa_env \<Rightarrow> string \<Rightarrow> string \<Rightarrow> string \<Rightarrow> string" where
  "buildOtpAuthUri env email secret issuer =
     (let encodedIssuer = mf_encodeURIComponent env issuer in
      ''otpauth://totp/'' @ encodedIssuer @ '':'' @ mf_encodeURIComponent env email @ ''?secret='' @ secret @ ''&issuer='' @ encodedIssuer
        @ ''&algorithm=SHA1&digits='' @ show_nat TOTP_DIGITS @ ''&period='' @ show_int TOTP_STEP_SECONDS)"

definition generateQrCodeDataUrl :: "mfa_env \<Rightarrow> string \<Rightarrow> string" where
  "generateQrCodeDataUrl env otpauthUrl = (case mf_library_qr env otpauthUrl of
     Some url \<Rightarrow> url
   | None \<Rightarrow> ''data:image/svg+xml;base64,'' @ base64
       (''<svg xmlns=\"http://www.w3.org/2000/svg\" viewBox=\"0 0 200 200\"><desc>'' @ otpauthUrl @
        ''</desc><rect width=\"200\" height=\"200\" fill=\"#ffffff\"/><rect x=\"20\" y=\"20\" width=\"160\" height=\"160\" fill=\"#000000\"/></svg>''))"

section \<open>Backup codes\<close>

definition backup_code :: "string \<Rightarrow> string" where
  "backup_code random = (let raw = upper_text (hex random) in take 4 raw @ ''-'' @ take 4 (drop 4 raw))"

definition normalizeBackupCode :: "string \<Rightarrow> string" where
  "normalizeBackupCode code = filter (\<lambda>c. let n = of_char c :: nat in (65 \<le> n \<and> n \<le> 90) \<or> (48 \<le> n \<and> n \<le> 57)) (upper_text (trim_js code))"

definition hashBackupCode :: "mfa_env \<Rightarrow> string \<Rightarrow> string" where
  "hashBackupCode env code = hex (mf_hmac_sha256 env (''mfa-backup:'' @ normalizeBackupCode code))"

text \<open>The stored hashes: the texts of a stored array, or nothing.\<close>

definition stored_hashes :: "string option \<Rightarrow> string list option" where
  "stored_hashes raw = (case truthy_str raw of None \<Rightarrow> None
     | Some t \<Rightarrow> (case json_parse t of
         Some (JArr items) \<Rightarrow> Some (List.map_filter (\<lambda>v. case v of JStr s \<Rightarrow> Some s | _ \<Rightarrow> None) items)
       | _ \<Rightarrow> None))"

text \<open>The hashes that are left when a code is consumed: without the first that matches.\<close>

definition remaining_hashes :: "mfa_env \<Rightarrow> string option \<Rightarrow> string \<Rightarrow> string list option" where
  "remaining_hashes env raw candidateCode = (case stored_hashes raw of
     None \<Rightarrow> None
   | Some hashes \<Rightarrow> if hashBackupCode env candidateCode \<in> set hashes
       then Some (remove1 (hashBackupCode env candidateCode) hashes) else None)"

section \<open>The service\<close>

record mfa_admin =
  ma_email :: string
  ma_passwordHash :: string
  ma_role :: string
  ma_mfaEnabled :: bool
  ma_mfaSecret :: "string option"
  ma_mfaBackupCodes :: "string option"

datatype admin_error =
    AdminAuthError string int string
  | MfaRequiredError
  | InvalidTotpCodeError
  | OtherAdminError js_error

definition admin_status :: "admin_error \<Rightarrow> int" where
  "admin_status e = (case e of AdminAuthError _ s _ \<Rightarrow> s | MfaRequiredError \<Rightarrow> 401 | InvalidTotpCodeError \<Rightarrow> 401 | OtherAdminError _ \<Rightarrow> 500)"

text \<open>The state: the table of administrators, the calls of the random generator, and the process of the authentication service.\<close>

record 'w mfa_world =
  mw_admins :: "(string, mfa_admin) jsmap"
  mw_drawn :: nat
  mw_auth :: "'w auth_server"

type_synonym ('w, 'a) mfa = "('w mfa_world, admin_error, 'a) eff"

definition random_call :: "mfa_env \<Rightarrow> nat \<Rightarrow> ('w, string) mfa" where
  "random_call env bytes = ebind (eget mw_drawn) (\<lambda>n. ebind (emodify (\<lambda>s. s\<lparr>mw_drawn := Suc (mw_drawn s)\<rparr>)) (\<lambda>_.
     ereturn (mf_random env bytes n)))"

definition generateTotpSecret :: "mfa_env \<Rightarrow> nat \<Rightarrow> ('w, string) mfa" where
  "generateTotpSecret env bytes = (case mf_library_secret env bytes of
     Some secret \<Rightarrow> ereturn secret
   | None \<Rightarrow> ebind (random_call env bytes) (\<lambda>r. ereturn (base32Encode r)))"

definition generateBackupCodes :: "mfa_env \<Rightarrow> nat \<Rightarrow> ('w, string list) mfa" where
  "generateBackupCodes env count = eff_list (\<lambda>_. ebind (random_call env 4) (\<lambda>r. ereturn (backup_code r))) [0..<count]"

definition find_mfa_admin :: "string \<Rightarrow> ('w, mfa_admin) mfa" where
  "find_mfa_admin adminId = ebind (eget (\<lambda>s. js_get (mw_admins s) adminId)) (\<lambda>a. case a of
     Some admin \<Rightarrow> ereturn admin
   | None \<Rightarrow> ethrow (AdminAuthError ''Admin account not found'' 404 ''ADMIN_NOT_FOUND''))"

text \<open>\<open>adminUser.update\<close> by id.\<close>

definition update_mfa_admin :: "string \<Rightarrow> (mfa_admin \<Rightarrow> mfa_admin) \<Rightarrow> ('w, unit) mfa" where
  "update_mfa_admin adminId f = ebind (eget (\<lambda>s. js_get (mw_admins s) adminId)) (\<lambda>a. case a of
     Some admin \<Rightarrow> emodify (\<lambda>s. s\<lparr>mw_admins := js_set adminId (f admin) (mw_admins s)\<rparr>)
   | None \<Rightarrow> ethrow (OtherAdminError (OtherErr ''PrismaClientKnownRequestError'' ''Record to update not found.'' (Some ''P2025'') None None None None None)))"

record mfa_setup =
  su_secret :: string
  su_qrCode :: string
  su_otpauthUrl :: string
  su_backupCodes :: "string list"

definition hashes_text :: "string list \<Rightarrow> string" where
  "hashes_text hashes = json_stringify (JArr (List.map JStr hashes))"

definition setupMfa :: "mfa_env \<Rightarrow> string \<Rightarrow> ('w, mfa_setup) mfa" where
  "setupMfa env adminId = ebind (find_mfa_admin adminId) (\<lambda>admin.
     ebind (generateTotpSecret env 20) (\<lambda>secret.
     let otpauthUrl = buildOtpAuthUri env (ma_email admin) secret MFA_ISSUER; qrCode = generateQrCodeDataUrl env otpauthUrl in
     ebind (generateBackupCodes env BACKUP_CODE_COUNT) (\<lambda>backupCodes.
     ebind (update_mfa_admin adminId (\<lambda>a. a\<lparr>ma_mfaSecret := Some secret, ma_mfaEnabled := False,
        ma_mfaBackupCodes := Some (hashes_text (List.map (hashBackupCode env) backupCodes))\<rparr>)) (\<lambda>_.
     ereturn \<lparr>su_secret = secret, su_qrCode = qrCode, su_otpauthUrl = otpauthUrl, su_backupCodes = backupCodes\<rparr>))))"

definition confirmMfa :: "mfa_env \<Rightarrow> string \<Rightarrow> string \<Rightarrow> int \<Rightarrow> ('w, bool) mfa" where
  "confirmMfa env adminId code now = ebind (find_mfa_admin adminId) (\<lambda>admin. case truthy_str (ma_mfaSecret admin) of
     None \<Rightarrow> ethrow (AdminAuthError ''MFA setup has not been initiated'' 400 ''MFA_NOT_INITIALIZED'')
   | Some secret \<Rightarrow> if \<not> totp_valid env secret code now then ethrow InvalidTotpCodeError
       else ebind (update_mfa_admin adminId (\<lambda>a. a\<lparr>ma_mfaEnabled := True\<rparr>)) (\<lambda>_. ereturn True))"

definition find_by_email :: "string \<Rightarrow> 'w mfa_world \<Rightarrow> (string \<times> mfa_admin) option" where
  "find_by_email email s = find (\<lambda>(i, a). ma_email a = email) (mw_admins s)"

text \<open>What the second factor asks for, decided on the row that was read: nothing to write, or the hashes that are left.\<close>

definition second_factor :: "mfa_env \<Rightarrow> mfa_admin \<Rightarrow> string option \<Rightarrow> int \<Rightarrow> admin_error + string list option" where
  "second_factor env admin mfaCode now =
     (if \<not> ma_mfaEnabled admin then Inr None
      else case truthy_str mfaCode of
        None \<Rightarrow> Inl MfaRequiredError
      | Some code \<Rightarrow> if trim_js code = [] then Inl MfaRequiredError
          else if (case truthy_str (ma_mfaSecret admin) of Some secret \<Rightarrow> totp_valid env secret (trim_js code) now | None \<Rightarrow> False) then Inr None
          else (case remaining_hashes env (ma_mfaBackupCodes admin) (trim_js code) of
              Some hashes \<Rightarrow> Inr (Some hashes) | None \<Rightarrow> Inl InvalidTotpCodeError))"

record admin_login =
  al_token :: string
  al_id :: string
  al_email :: string
  al_role :: string
  al_mfaEnabled :: bool

definition bad_credentials :: admin_error where
  "bad_credentials = AdminAuthError ''Invalid email or password'' 401 ''INVALID_CREDENTIALS''"

text \<open>The first part of a login reads the row and checks both factors.\<close>

definition login_check ::
  "mfa_env \<Rightarrow> string \<Rightarrow> string \<Rightarrow> string option \<Rightarrow> int \<Rightarrow> ('w, string \<times> mfa_admin \<times> string list option) mfa" where
  "login_check env email password mfaCode now =
     ebind (eget (find_by_email (normalizeEmail email))) (\<lambda>found. case found of
       None \<Rightarrow> ethrow bad_credentials
     | Some (adminId, admin) \<Rightarrow> (case verifyPassword (mf_scrypt env) password (ma_passwordHash admin) of
         Inl e \<Rightarrow> ethrow (OtherAdminError e)
       | Inr valid \<Rightarrow> if \<not> valid then ethrow bad_credentials
           else ebind (elift (second_factor env admin mfaCode now)) (\<lambda>w. ereturn (adminId, admin, w))))"

definition in_auth :: "('w, 'a) auth \<Rightarrow> ('w, 'a) mfa" where
  "in_auth m s = (case m (mw_auth s) of (r, a) \<Rightarrow> (map_sum OtherAdminError id r, s\<lparr>mw_auth := a\<rparr>))"

text \<open>The second part writes the backup codes that are left and signs the token.\<close>

definition login_finish :: "'w auth_env \<Rightarrow> string \<Rightarrow> mfa_admin \<Rightarrow> string list option \<Rightarrow> ('w, admin_login) mfa" where
  "login_finish aenv adminId admin hashes =
     ebind (case hashes of None \<Rightarrow> ereturn ()
       | Some hs \<Rightarrow> update_mfa_admin adminId (\<lambda>a. a\<lparr>ma_mfaBackupCodes := Some (hashes_text hs)\<rparr>)) (\<lambda>_.
     ebind (in_auth (signAccessToken aenv adminId None)) (\<lambda>accessToken.
     ereturn \<lparr>al_token = accessToken, al_id = adminId, al_email = ma_email admin, al_role = ma_role admin,
       al_mfaEnabled = ma_mfaEnabled admin\<rparr>))"

definition login :: "mfa_env \<Rightarrow> 'w auth_env \<Rightarrow> string \<Rightarrow> string \<Rightarrow> string option \<Rightarrow> int \<Rightarrow> ('w, admin_login) mfa" where
  "login env aenv email password mfaCode now =
     ebind (login_check env email password mfaCode now) (\<lambda>(adminId, admin, hashes). login_finish aenv adminId admin hashes)"

end
