(* ===== verification/Admin_Mfa_Props.thy ===== *)
theory Admin_Mfa_Props
  imports Admin_Mfa Admin_Password_Props
begin

text \<open>
  The properties of the administrators' second factor (theory \<open>Admin_Mfa\<close>): the round trip of base32, the shape and the window of the
  one-time passwords, what a login needs, and what becomes of a backup code.
\<close>

unbundle bit_operations_syntax

section \<open>Base32: what the 32-bit accumulator holds\<close>

text \<open>The number that a list of digits writes in a base.\<close>

fun base_value :: "nat \<Rightarrow> nat list \<Rightarrow> nat" where
  "base_value B [] = 0"
| "base_value B (d # ds) = d * B ^ length ds + base_value B ds"

lemma base_value_append: "base_value B (xs @ ys) = base_value B xs * B ^ length ys + base_value B ys"
  by (induction xs) (auto simp: algebra_simps power_add)

lemma base_value_less: "\<forall>d\<in>set ds. d < B \<Longrightarrow> base_value B ds < B ^ length ds"
proof (induction ds)
  case (Cons d ds)
  then have "base_value B (d # ds) < d * B ^ length ds + B ^ length ds" by simp
  also have "\<dots> = Suc d * B ^ length ds" by simp
  also have "\<dots> \<le> B * B ^ length ds" using Cons.prems by (intro mult_right_mono) auto
  finally show ?case by simp
qed simp

lemma base_value_inj:
  "length xs = length ys \<Longrightarrow> \<forall>d\<in>set xs. d < B \<Longrightarrow> \<forall>d\<in>set ys. d < B \<Longrightarrow> base_value B xs = base_value B ys \<Longrightarrow> xs = ys"
proof (induction xs ys rule: list_induct2)
  case (Cons x xs y ys)
  have a: "base_value B xs < B ^ length ys" "base_value B ys < B ^ length ys"
    using base_value_less [of xs B] base_value_less [of ys B] Cons.hyps(1) Cons.prems by simp_all
  have e: "x * B ^ length ys + base_value B xs = y * B ^ length ys + base_value B ys" using Cons by simp
  have "x = y"
  proof -
    have "(x * B ^ length ys + base_value B xs) div B ^ length ys = x" by (rule div_nat_eqI) (use a in \<open>auto simp: algebra_simps\<close>)
    moreover have "(y * B ^ length ys + base_value B ys) div B ^ length ys = y" by (rule div_nat_eqI) (use a in \<open>auto simp: algebra_simps\<close>)
    ultimately show ?thesis using e by simp
  qed
  then show ?case using e Cons by auto
qed simp

lemma pushed_byte:
  fixes v :: "32 word"
  assumes "b < 2 ^ k" "bits + k \<le> 32"
  shows "unat (push_bit k v OR of_nat b) mod 2 ^ (bits + k) = (unat v mod 2 ^ bits) * 2 ^ k + b"
proof -
  have b: "unat (of_nat b :: 32 word) = b"
  proof -
    have "b < 2 ^ 32" using assms by (meson le_trans le_add2 less_le_trans one_le_numeral power_increasing)
    then show ?thesis by (simp add: unsigned_of_nat take_bit_nat_eq_self)
  qed
  have "take_bit (bits + k) (unat (push_bit k v OR of_nat b)) = take_bit (bits + k) (push_bit k (unat v) OR b)"
    using assms by (simp only: unsigned_or_eq unsigned_push_bit_eq b take_bit_or take_bit_take_bit) (simp add: min_def)
  also have "\<dots> = push_bit k (take_bit bits (unat v)) OR b"
  proof -
    have "take_bit (bits + k) b = b" using assms
      by (meson le_add2 less_le_trans one_le_numeral power_increasing take_bit_nat_eq_self)
    then show ?thesis by (simp add: take_bit_or take_bit_push_bit)
  qed
  also have "\<dots> = push_bit k (take_bit bits (unat v)) + b"
  proof -
    have tb: "take_bit k b = b" using assms(1) by (rule take_bit_nat_eq_self)
    have "push_bit k (take_bit bits (unat v)) AND b = 0"
      by (subst tb [symmetric], rule bit_eqI) (auto simp: bit_simps)
    then show ?thesis by (simp add: disjunctive_add_eq_or)
  qed
  finally show ?thesis by (simp add: take_bit_eq_mod push_bit_eq_mult)
qed

lemma low_bits:
  fixes v :: "32 word"
  shows "unat (drop_bit k v AND 31) = unat v div 2 ^ k mod 32" "unat (drop_bit k v AND 0xff) = unat v div 2 ^ k mod 256"
proof -
  have u: "unat v mod 2 ^ 32 = unat v" using unsigned_less [of v, where ?'a = nat] by simp
  have m: "(31 :: 32 word) = mask 5" "(0xff :: 32 word) = mask 8" by (simp_all add: mask_eq_exp_minus_1)
  show "unat (drop_bit k v AND 31) = unat v div 2 ^ k mod 32" "unat (drop_bit k v AND 0xff) = unat v div 2 ^ k mod 256"
    unfolding m take_bit_eq_mask [symmetric] unsigned_take_bit_eq unsigned_drop_bit_eq
    using u by (simp_all add: take_bit_eq_mod drop_bit_eq_div)
qed


text \<open>The encoder: the digits emitted so far and the bits that wait are the bytes read.\<close>

lemma emitted_digits:
  "bits \<le> 32 \<Longrightarrow> \<exists>ds. emit_digits bits value output = (bits mod 5, output @ List.map b32_digit ds) \<and> length ds = bits div 5
     \<and> (\<forall>d\<in>set ds. d < 32) \<and> base_value 32 ds * 2 ^ (bits mod 5) + unat value mod 2 ^ (bits mod 5) = unat value mod 2 ^ bits"
proof (induction bits "value" "output" rule: emit_digits.induct)
  case (1 bits v outp)
  show ?case
  proof (cases "5 \<le> bits")
    case True
    define d where "d = unat (drop_bit (bits - 5) v AND 31)"
    have d: "d = unat v div 2 ^ (bits - 5) mod 32" "d < 32" by (simp_all add: d_def low_bits)
    have "\<exists>ds. emit_digits (bits - 5) v (outp @ [b32_digit d]) = ((bits - 5) mod 5, (outp @ [b32_digit d]) @ List.map b32_digit ds)
      \<and> length ds = (bits - 5) div 5 \<and> (\<forall>e\<in>set ds. e < 32)
      \<and> base_value 32 ds * 2 ^ ((bits - 5) mod 5) + unat v mod 2 ^ ((bits - 5) mod 5) = unat v mod 2 ^ (bits - 5)"
      unfolding d_def by (rule 1(1) [OF True]) (use 1(2) in simp)
    then obtain ds where ds: "emit_digits (bits - 5) v (outp @ [b32_digit d]) = ((bits - 5) mod 5, (outp @ [b32_digit d]) @ List.map b32_digit ds)"
        "length ds = (bits - 5) div 5" "\<forall>e\<in>set ds. e < 32"
        "base_value 32 ds * 2 ^ ((bits - 5) mod 5) + unat v mod 2 ^ ((bits - 5) mod 5) = unat v mod 2 ^ (bits - 5)"
      by blast
    have m: "(bits - 5) mod 5 = bits mod 5" "Suc ((bits - 5) div 5) = bits div 5"
      using True by (simp_all add: le_mod_geq [symmetric] le_div_geq)
    have sp: "unat v mod 2 ^ bits = unat v mod 2 ^ (bits - 5) + d * 2 ^ (bits - 5)"
    proof -
      have "unat v mod (2 ^ (bits - 5) * 2 ^ 5) = 2 ^ (bits - 5) * (unat v div 2 ^ (bits - 5) mod 2 ^ 5) + unat v mod 2 ^ (bits - 5)"
        by (rule mod_mult2_eq)
      moreover have "(2 :: nat) ^ (bits - 5) * 2 ^ 5 = 2 ^ bits" unfolding power_add [symmetric] using True by simp
      ultimately show ?thesis by (simp add: d)
    qed
    have pw: "(32 :: nat) ^ length ds * 2 ^ (bits mod 5) = 2 ^ (bits - 5)"
    proof -
      have "(32 :: nat) ^ length ds * 2 ^ (bits mod 5) = 2 ^ (5 * ((bits - 5) div 5) + (bits - 5) mod 5)"
        unfolding m(1) ds(2) by (simp add: power_add power_mult)
      then show ?thesis by simp
    qed
    have "base_value 32 (d # ds) * 2 ^ (bits mod 5) + unat v mod 2 ^ (bits mod 5) = unat v mod 2 ^ bits"
    proof -
      have "base_value 32 (d # ds) * 2 ^ (bits mod 5) = d * 2 ^ (bits - 5) + base_value 32 ds * 2 ^ (bits mod 5)"
        by (simp add: algebra_simps pw [symmetric])
      then show ?thesis using ds(4) sp unfolding m by simp
    qed
    then show ?thesis using True ds d(2) m
      by (intro exI [of _ "d # ds"]) (simp add: emit_digits.simps [of bits] d_def [symmetric])
  next
    case False
    then show ?thesis by (intro exI [of _ "[]"]) (simp add: emit_digits.simps [of bits])
  qed
qed

abbreviation byte_values :: "string \<Rightarrow> nat list" where
  "byte_values bs \<equiv> List.map of_char bs"

lemma encoded_bytes:
  "bits < 5 \<Longrightarrow> \<exists>ds bits' value'. encode_bytes bs bits value output = (bits', value', output @ List.map b32_digit ds) \<and> bits' < 5
     \<and> 5 * length ds + bits' = bits + 8 * length bs \<and> (\<forall>d\<in>set ds. d < 32)
     \<and> base_value 32 ds * 2 ^ bits' + unat value' mod 2 ^ bits' = (unat value mod 2 ^ bits) * 256 ^ length bs + base_value 256 (byte_values bs)"
proof (induction bs arbitrary: bits "value" "output")
  case Nil
  then show ?case by (intro exI [of _ "[]"]) auto
next
  case (Cons b bs)
  define v where "v = push_bit 8 value OR (of_nat (of_char b) :: 32 word)"
  have v: "unat v mod 2 ^ (bits + 8) = (unat value mod 2 ^ bits) * 256 + of_char b"
    using pushed_byte [of "of_char b" 8 bits "value"] Cons.prems unfolding v_def by simp
  obtain ds where ds: "emit_digits (bits + 8) v output = ((bits + 8) mod 5, output @ List.map b32_digit ds)" "length ds = (bits + 8) div 5"
      "\<forall>d\<in>set ds. d < 32" "base_value 32 ds * 2 ^ ((bits + 8) mod 5) + unat v mod 2 ^ ((bits + 8) mod 5) = unat v mod 2 ^ (bits + 8)"
    using emitted_digits [of "bits + 8" v "output"] Cons.prems by auto
  obtain es b' v' where es: "encode_bytes bs ((bits + 8) mod 5) v (output @ List.map b32_digit ds) = (b', v', (output @ List.map b32_digit ds) @ List.map b32_digit es)"
      "b' < 5" "5 * length es + b' = (bits + 8) mod 5 + 8 * length bs" "\<forall>d\<in>set es. d < 32"
      "base_value 32 es * 2 ^ b' + unat v' mod 2 ^ b' = (unat v mod 2 ^ ((bits + 8) mod 5)) * 256 ^ length bs + base_value 256 (byte_values bs)"
    using Cons.IH [of "(bits + 8) mod 5" v "output @ List.map b32_digit ds"] by auto
  have pw: "(32 :: nat) ^ length es * 2 ^ b' = 2 ^ ((bits + 8) mod 5) * 256 ^ length bs"
  proof -
    have "(2 :: nat) ^ (5 * length es + b') = 2 ^ ((bits + 8) mod 5 + 8 * length bs)" using es(3) by simp
    then show ?thesis by (simp add: power_add power_mult)
  qed
  have "base_value 32 (ds @ es) * 2 ^ b' + unat v' mod 2 ^ b'
      = base_value 32 ds * (32 ^ length es * 2 ^ b') + (base_value 32 es * 2 ^ b' + unat v' mod 2 ^ b')"
    by (simp add: base_value_append algebra_simps)
  also have "\<dots> = (base_value 32 ds * 2 ^ ((bits + 8) mod 5) + unat v mod 2 ^ ((bits + 8) mod 5)) * 256 ^ length bs + base_value 256 (byte_values bs)"
    unfolding pw es(5) by (simp add: algebra_simps)
  also have "\<dots> = (unat value mod 2 ^ bits * 256 + of_char b) * 256 ^ length bs + base_value 256 (byte_values bs)"
    unfolding ds(4) v by simp
  finally have val: "base_value 32 (ds @ es) * 2 ^ b' + unat v' mod 2 ^ b'
      = (unat value mod 2 ^ bits) * 256 ^ length (b # bs) + base_value 256 (byte_values (b # bs))"
    by (simp add: algebra_simps)
  have "5 * q + m = bits + 8 \<Longrightarrow> 5 * length es + b' = m + 8 * length bs \<Longrightarrow> 5 * q + 5 * length es + b' = bits + 8 * Suc (length bs)"
    for q m by simp
  then have "5 * length (ds @ es) + b' = bits + 8 * length (b # bs)"
    unfolding length_append length_Cons distrib_left ds(2) using es(3) mult_div_mod_eq by blast
  then show ?case using val ds es
    by (intro exI [of _ "ds @ es"] exI [of _ b'] exI [of _ v']) (auto simp: v_def [symmetric] Let_def)
qed

lemma encoded_text:
  obtains ds p where "base32Encode bs = List.map b32_digit ds" "p < 5" "5 * length ds = 8 * length bs + p" "\<forall>d\<in>set ds. d < 32"
    "base_value 32 ds = base_value 256 (byte_values bs) * 2 ^ p"
proof -
  obtain ds b' v' where e: "encode_bytes bs 0 0 [] = (b', v', List.map b32_digit ds)" "b' < 5" "5 * length ds + b' = 8 * length bs"
      "\<forall>d\<in>set ds. d < 32" "base_value 32 ds * 2 ^ b' + unat v' mod 2 ^ b' = base_value 256 (byte_values bs)"
    using encoded_bytes [of 0 bs 0 "[]"] by auto
  show ?thesis
  proof (cases "b' = 0")
    case True
    show ?thesis by (rule that [of ds 0]) (use e True in \<open>auto simp: base32Encode_def\<close>)
  next
    case False
    define d where "d = unat (push_bit (5 - b') v' AND 31)"
    have d: "d = (unat v' mod 2 ^ b') * 2 ^ (5 - b')"
    proof -
      have "(31 :: 32 word) = mask 5" by (simp add: mask_eq_exp_minus_1)
      then have "d = take_bit 5 (unat (push_bit (5 - b') v'))"
        unfolding d_def by (simp only: take_bit_eq_mask [symmetric] unsigned_take_bit_eq)
      also have "\<dots> = take_bit 5 (push_bit (5 - b') (unat v'))" by (simp add: unsigned_push_bit_eq min_def)
      also have "\<dots> = push_bit (5 - b') (take_bit b' (unat v'))" using e(2) by (simp add: take_bit_push_bit)
      finally show ?thesis by (simp add: take_bit_eq_mod push_bit_eq_mult)
    qed
    have dl: "d < 32"
    proof -
      have "unat v' mod 2 ^ b' * 2 ^ (5 - b') < 2 ^ b' * 2 ^ (5 - b')" by (intro mult_strict_right_mono) auto
      also have "(2 :: nat) ^ b' * 2 ^ (5 - b') = 32" using e(2) by (simp add: power_add [symmetric])
      finally show ?thesis using d by simp
    qed
    have "base_value 32 (ds @ [d]) = base_value 256 (byte_values bs) * 2 ^ (5 - b')"
    proof -
      have "(2 :: nat) ^ b' * 2 ^ (5 - b') = 32" using e(2) by (simp add: power_add [symmetric])
      then show ?thesis unfolding e(5) [symmetric] d base_value_append by (simp add: algebra_simps)
    qed
    then show ?thesis using e False dl by (intro that [of "ds @ [d]" "5 - b'"]) (auto simp: base32Encode_def d_def)
  qed
qed


text \<open>The decoder: the bytes emitted so far and the bits that wait are the digits read.\<close>

lemma digit_alphabet:
  "d < 32 \<Longrightarrow> b32_index (b32_digit d) = Some d \<and> b32_digit d \<noteq> CHR ''='' \<and> \<not> is_js_space (b32_digit d) \<and> upper_text [b32_digit d] = [b32_digit d]"
proof -
  have "\<forall>d\<in>set [0..<32]. b32_index (b32_digit d) = Some d \<and> b32_digit d \<noteq> CHR ''='' \<and> \<not> is_js_space (b32_digit d) \<and> upper_text [b32_digit d] = [b32_digit d]"
    by code_simp
  then show "d < 32 \<Longrightarrow> ?thesis" by simp
qed

lemma decoded_digits:
  "bits < 8 \<Longrightarrow> \<forall>d\<in>set ds. d < 32 \<Longrightarrow> \<exists>bs bits' rest. decode_digits (List.map b32_digit ds) bits value out = Inr (out @ bs) \<and> bits' < 8
     \<and> 8 * length bs + bits' = bits + 5 * length ds \<and> rest < 2 ^ bits'
     \<and> base_value 256 (byte_values bs) * 2 ^ bits' + rest = (unat value mod 2 ^ bits) * 32 ^ length ds + base_value 32 ds"
proof (induction ds arbitrary: bits "value" out)
  case Nil
  then show ?case by (intro exI [of _ "[]"] exI [of _ bits] exI [of _ "unat value mod 2 ^ bits"]) auto
next
  case (Cons d ds)
  define v where "v = push_bit 5 value OR (of_nat d :: 32 word)"
  have i: "b32_index (b32_digit d) = Some d" using digit_alphabet [of d] Cons.prems by simp
  have v: "unat v mod 2 ^ (bits + 5) = (unat value mod 2 ^ bits) * 32 + d"
    using pushed_byte [of d 5 bits "value"] Cons.prems unfolding v_def by simp
  show ?case
  proof (cases "8 \<le> bits + 5")
    case True
    define c where "c = (char_of (unat (drop_bit (bits + 5 - 8) v AND 0xff)) :: char)"
    have c: "of_char c = unat v div 2 ^ (bits + 5 - 8) mod 256" by (simp add: c_def low_bits)
    have "bits + 5 - 8 < 8" "\<forall>d\<in>set ds. d < 32" using Cons.prems by simp_all
    from Cons.IH [OF this, of v "out @ [c]"]
    obtain bs b' r where bs: "decode_digits (List.map b32_digit ds) (bits + 5 - 8) v (out @ [c]) = Inr ((out @ [c]) @ bs)" "b' < 8"
        "8 * length bs + b' = bits + 5 - 8 + 5 * length ds" "r < 2 ^ b'"
        "base_value 256 (byte_values bs) * 2 ^ b' + r = (unat v mod 2 ^ (bits + 5 - 8)) * 32 ^ length ds + base_value 32 ds"
      by blast
    have sp: "unat v mod 2 ^ (bits + 5) = of_char c * 2 ^ (bits + 5 - 8) + unat v mod 2 ^ (bits + 5 - 8)"
    proof -
      have "unat v mod (2 ^ (bits + 5 - 8) * 2 ^ 8) = 2 ^ (bits + 5 - 8) * (unat v div 2 ^ (bits + 5 - 8) mod 2 ^ 8) + unat v mod 2 ^ (bits + 5 - 8)"
        by (rule mod_mult2_eq)
      moreover have "(2 :: nat) ^ (bits + 5 - 8) * 2 ^ 8 = 2 ^ (bits + 5)"
        unfolding power_add [symmetric] using True by (intro arg_cong2 [of _ _ _ _ power]) auto
      ultimately show ?thesis by (simp add: c)
    qed
    have pw: "(256 :: nat) ^ length bs * 2 ^ b' = 2 ^ (bits + 5 - 8) * 32 ^ length ds"
    proof -
      have "(2 :: nat) ^ (8 * length bs + b') = 2 ^ (bits + 5 - 8 + 5 * length ds)" using bs(3) by simp
      then show ?thesis by (simp only: power_add power_mult) simp
    qed
    have "base_value 256 (byte_values (c # bs)) * 2 ^ b' + r
        = of_char c * (256 ^ length bs * 2 ^ b') + (base_value 256 (byte_values bs) * 2 ^ b' + r)"
      by (simp add: algebra_simps)
    also have "\<dots> = (unat v mod 2 ^ (bits + 5)) * 32 ^ length ds + base_value 32 ds"
      unfolding pw bs(5) sp by (simp add: algebra_simps)
    also have "\<dots> = (unat value mod 2 ^ bits) * 32 ^ length (d # ds) + base_value 32 (d # ds)"
      unfolding v by (simp add: algebra_simps)
    finally have val: "base_value 256 (byte_values (c # bs)) * 2 ^ b' + r = (unat value mod 2 ^ bits) * 32 ^ length (d # ds) + base_value 32 (d # ds)" .
    have step: "decode_digits (List.map b32_digit (d # ds)) bits value out = decode_digits (List.map b32_digit ds) (bits + 5 - 8) v (out @ [c])"
      using True i by (simp add: v_def c_def Let_def)
    have "8 * length (c # bs) + b' = bits + 5 * length (d # ds)" using bs(3) True by simp
    then show ?thesis unfolding step bs(1) using val bs(2, 4) by (intro exI [of _ "c # bs"] exI [of _ b'] exI [of _ r]) simp
  next
    case False
    obtain bs b' r where bs: "decode_digits (List.map b32_digit ds) (bits + 5) v out = Inr (out @ bs)" "b' < 8"
        "8 * length bs + b' = bits + 5 + 5 * length ds" "r < 2 ^ b'"
        "base_value 256 (byte_values bs) * 2 ^ b' + r = (unat v mod 2 ^ (bits + 5)) * 32 ^ length ds + base_value 32 ds"
      using Cons.IH [of "bits + 5" v out] Cons.prems False by auto
    have "base_value 256 (byte_values bs) * 2 ^ b' + r = (unat value mod 2 ^ bits) * 32 ^ length (d # ds) + base_value 32 (d # ds)"
      unfolding bs(5) v by (simp add: algebra_simps)
    then show ?thesis using bs False i
      by (intro exI [of _ bs] exI [of _ b'] exI [of _ r]) (simp add: v_def [symmetric] Let_def)
  qed
qed

lemma clean_digits: "\<forall>d\<in>set ds. d < 32 \<Longrightarrow> clean_base32 (List.map b32_digit ds) = List.map b32_digit ds"
proof -
  assume a: "\<forall>d\<in>set ds. d < 32"
  have u: "upper_text (List.map b32_digit ds) = List.map b32_digit ds"
    using a digit_alphabet by (simp add: upper_text_def)
  have "\<forall>c\<in>set (rev (List.map b32_digit ds)). c \<noteq> CHR ''=''" using a digit_alphabet by auto
  then have w: "dropWhile (\<lambda>c. c = CHR ''='') (rev (List.map b32_digit ds)) = rev (List.map b32_digit ds)"
    by (cases "rev (List.map b32_digit ds)") auto
  have f: "filter (\<lambda>c. \<not> is_js_space c) (List.map b32_digit ds) = List.map b32_digit ds"
    using a digit_alphabet by (intro filter_True) auto
  show ?thesis unfolding clean_base32_def u w rev_rev_ident f ..
qed

lemma base32_roundtrip_lemma: "base32Decode (base32Encode bs) = Inr bs"
proof -
  obtain ds p where e: "base32Encode bs = List.map b32_digit ds" "p < 5" "5 * length ds = 8 * length bs + p" "\<forall>d\<in>set ds. d < 32"
      "base_value 32 ds = base_value 256 (byte_values bs) * 2 ^ p" by (rule encoded_text)
  obtain cs b r where d: "decode_digits (List.map b32_digit ds) 0 0 [] = Inr cs" "b < 8" "8 * length cs + b = 5 * length ds" "r < 2 ^ b"
      "base_value 256 (byte_values cs) * 2 ^ b + r = base_value 32 ds"
    using decoded_digits [of 0 ds 0 "[]"] e(4) by auto
  have l: "b = p" "length cs = length bs"
  proof -
    have "8 * length cs + b = 8 * length bs + p" using d(3) e(3) by simp
    then have "(8 * length cs + b) mod 8 = (8 * length bs + p) mod 8" by simp
    then show "b = p" using d(2) e(2) by simp
    then show "length cs = length bs" using d(3) e(3) by simp
  qed
  have "base_value 256 (byte_values cs) = base_value 256 (byte_values bs)"
  proof -
    have "(base_value 256 (byte_values cs) * 2 ^ p + r) div 2 ^ p = base_value 256 (byte_values cs)"
      by (rule div_nat_eqI) (use d(4) l(1) in \<open>auto simp: algebra_simps\<close>)
    moreover have "(base_value 256 (byte_values bs) * 2 ^ p) div 2 ^ p = base_value 256 (byte_values bs)" by (rule nonzero_mult_div_cancel_right) simp
    ultimately show ?thesis unfolding d(5) [unfolded l(1)] e(5) by (rule trans [OF sym])
  qed
  then have "byte_values cs = byte_values bs" using l(2) by (intro base_value_inj [of _ _ 256]) auto
  then have "cs = bs" by (simp add: inj_map_eq_map inj_def)
  then show ?thesis using d(1) by (simp add: base32Decode_def e(1) clean_digits e(4))
qed


text \<open>C34. A secret survives base32: decoding what \<open>base32Encode\<close> wrote gives back the bytes, whatever their number, although the
  accumulator of both loops is a 32-bit integer that overflows.\<close>

theorem base32_roundtrip: "base32Decode (base32Encode bs) = Inr bs"
  by (rule base32_roundtrip_lemma)

section \<open>One-time passwords\<close>

text \<open>The truncation of RFC 4226: four bytes at the offset that the last one gives, without the sign bit.\<close>

definition rfc4226_truncate :: "string \<Rightarrow> nat" where
  "rfc4226_truncate hmac = base_value 256 (byte_values (take 4 (drop (of_char (last hmac) mod 16) hmac))) mod 2 ^ 31"

definition rfc6238_code :: "mfa_env \<Rightarrow> string \<Rightarrow> nat \<Rightarrow> string" where
  "rfc6238_code env key c = pad_left 6 (CHR ''0'')
     (show_nat (rfc4226_truncate (mf_hmac_sha1 env key (List.map (\<lambda>i. char_of (c div 256 ^ (7 - i))) [0..<8])) mod 10 ^ 6))"

lemma byte_masks:
  "unat (byte_at bs i AND 0x0f) = unat (byte_at bs i) mod 16" "unat (byte_at bs i AND 0x7f) = unat (byte_at bs i) mod 128"
  "byte_at bs i AND 0xff = byte_at bs i" "unat (byte_at bs i) < 256"
proof -
  have m: "(0x0f :: 32 word) = mask 4" "(0x7f :: 32 word) = mask 7" "(0xff :: 32 word) = mask 8" by (simp_all add: mask_eq_exp_minus_1)
  show l: "unat (byte_at bs i) < 256" by (simp add: byte_at_def unsigned_of_nat take_bit_eq_mod byte_lt less_imp_le_nat mod_less [OF less_trans [OF byte_lt]])
  show "unat (byte_at bs i AND 0x0f) = unat (byte_at bs i) mod 16" "unat (byte_at bs i AND 0x7f) = unat (byte_at bs i) mod 128"
    unfolding m take_bit_eq_mask [symmetric] unsigned_take_bit_eq by (simp_all add: take_bit_eq_mod)
  show "byte_at bs i AND 0xff = byte_at bs i"
  proof -
    have "unat (take_bit 8 (byte_at bs i)) = unat (byte_at bs i)" using l by (subst unsigned_take_bit_eq) (simp add: take_bit_eq_mod)
    then show ?thesis unfolding m take_bit_eq_mask [symmetric] by (rule unsigned_word_eqI)
  qed
qed

lemma byte_at_value: "i < length bs \<Longrightarrow> byte_at bs i = of_nat (of_char (bs ! i))" "i < length bs \<Longrightarrow> unat (byte_at bs i) = of_char (bs ! i)"
  by (simp_all add: byte_at_def unsigned_of_nat take_bit_eq_mod mod_less [OF less_trans [OF byte_lt]])

lemma four_bytes:
  fixes x :: "32 word"
  assumes "unat x < 256" "b < 256" "c < 256" "d < 256"
  shows "unat (push_bit 24 x OR push_bit 16 (of_nat b) OR push_bit 8 (of_nat c) OR of_nat d) = ((unat x * 256 + b) * 256 + c) * 256 + d"
proof -
  define v1 v2 v3 where "v1 = push_bit 8 x OR of_nat b" "v2 = push_bit 8 v1 OR of_nat c" "v3 = push_bit 8 v2 OR of_nat d"
  have e: "push_bit 24 x OR push_bit 16 (of_nat b) OR push_bit 8 (of_nat c) OR of_nat d = v3"
    by (simp add: v1_v2_v3_def push_bit_or push_bit_push_bit or.assoc)
  have "unat v1 mod 2 ^ 16 = unat x * 256 + b" "unat v2 mod 2 ^ 24 = (unat v1 mod 2 ^ 16) * 256 + c" "unat v3 mod 2 ^ 32 = (unat v2 mod 2 ^ 24) * 256 + d"
    using pushed_byte [of b 8 8 x] pushed_byte [of c 8 16 v1] pushed_byte [of d 8 24 v2] assms unfolding v1_v2_v3_def by simp_all
  moreover have "unat v3 mod 2 ^ 32 = unat v3" using unsigned_less [of v3, where ?'a = nat] by simp
  ultimately show ?thesis unfolding e by simp
qed

lemma truncated_rfc4226:
  assumes "20 \<le> length hmac"
  shows "truncated hmac = rfc4226_truncate hmac"
proof -
  have ne: "hmac \<noteq> []" using assms by auto
  define off where "off = (of_char (last hmac) :: nat) mod 16"
  have off: "unat (byte_at hmac (length hmac - 1) AND 0x0f) = off"
    using assms last_conv_nth [OF ne] by (subst byte_masks(1), subst byte_at_value(2)) (auto simp: off_def)
  have o15: "off < 16" by (simp add: off_def)
  then have i: "off < length hmac" "off + 1 < length hmac" "off + 2 < length hmac" "off + 3 < length hmac" using assms by simp_all
  have t: "take 4 (drop off hmac) = [hmac ! off, hmac ! (off + 1), hmac ! (off + 2), hmac ! (off + 3)]"
    using i by (simp add: Cons_nth_drop_Suc [symmetric] numeral_eq_Suc)
  define a b c d where "a = (of_char (hmac ! off) :: nat)" "b = (of_char (hmac ! (off + 1)) :: nat)"
    "c = (of_char (hmac ! (off + 2)) :: nat)" "d = (of_char (hmac ! (off + 3)) :: nat)"
  have lt: "a < 256" "b < 256" "c < 256" "d < 256" by (simp_all add: a_b_c_d_def byte_lt)
  have "truncated hmac = (((a mod 128) * 256 + b) * 256 + c) * 256 + d"
    unfolding truncated_def Let_def off byte_masks(3) byte_at_value(1) [OF i(2)] byte_at_value(1) [OF i(3)] byte_at_value(1) [OF i(4)]
      a_b_c_d_def(2-4) [symmetric]
    by (subst four_bytes) (use lt byte_masks(2) [of hmac off] byte_at_value(2) [OF i(1)] in \<open>simp_all add: a_b_c_d_def(1)\<close>)
  moreover have "rfc4226_truncate hmac = (a * 256 ^ 3 + (b * 256 ^ 2 + c * 256 + d)) mod 2 ^ 31"
    unfolding rfc4226_truncate_def off_def [symmetric] t by (simp add: a_b_c_d_def algebra_simps)
  moreover have "(a * 256 ^ 3 + (b * 256 ^ 2 + c * 256 + d)) mod 2 ^ 31 = (((a mod 128) * 256 + b) * 256 + c) * 256 + d"
  proof -
    define r where "r = b * 256 ^ 2 + c * 256 + d"
    have r: "r < 256 ^ 3" using lt by (simp add: r_def)
    have "(a * 256 ^ 3 + r) mod (256 ^ 3 * 128) = 256 ^ 3 * ((a * 256 ^ 3 + r) div 256 ^ 3 mod 128) + (a * 256 ^ 3 + r) mod 256 ^ 3"
      by (rule mod_mult2_eq)
    moreover have "(a * 256 ^ 3 + r) div 256 ^ 3 = a" "(a * 256 ^ 3 + r) mod 256 ^ 3 = r" using r by simp_all
    ultimately show ?thesis by (simp add: r_def algebra_simps)
  qed
  ultimately show ?thesis by simp
qed

lemma round64_frac_between:
  assumes "of_int m * pow2 e \<le> x" "x \<le> of_int n * pow2 e" "0 < m" "n < 2 ^ 53" "- 1074 \<le> e" "e \<le> 0"
  obtains y where "round64 x = Fin y" "of_int m * pow2 e \<le> y" "y \<le> of_int n * pow2 e"
proof -
  have "(of_int m :: rat) \<le> of_int n" using assms(1, 2) by (metis mult_le_cancel_right_pos order_trans pow2_pos)
  then have mn: "m \<le> n" by simp
  have "round64 (of_int m * pow2 e) = Fin (of_int m * pow2 e)" "round64 (of_int n * pow2 e) = Fin (of_int n * pow2 e)"
    by (rule round64_exact; use assms(3-6) mn in linarith)+
  then have b: "js_le (Fin (of_int m * pow2 e)) (round64 x)" "js_le (round64 x) (Fin (of_int n * pow2 e))"
    using round64_mono [OF assms(1)] round64_mono [OF assms(2)] by simp_all
  show ?thesis
  proof (cases "round64 x")
    case (Fin y)
    then show ?thesis using b that [of y] by simp
  qed (use b in \<open>simp_all add: js_le_def\<close>)
qed

lemma time_counter_div:
  assumes "30000 \<le> t" "t < 2 ^ 43"
  shows "time_counter t 30 = Some (t div 30000)"
proof -
  define k r where "k = t div 30000" "r = t mod 30000"
  have "t = 30000 * k + r" "0 \<le> r" "r < 30000" unfolding k_r_def by simp_all
  then have k: "30000 * k \<le> t" "t + 1 \<le> 30000 * (k + 1)" "1 \<le> k" using assms(1) by simp_all
  have kk: "k < 2 ^ 29" using k(1) assms(2) by simp
  have "\<bar>t\<bar> < 2 ^ 53" using assms by simp
  then have t: "js_int t = Fin (of_int t)" unfolding js_int_def by (rule round64_int)
  have n: "js_int 1000 = Fin 1000" "js_int 30 = Fin 30" using round64_int [of 1000] round64_int [of 30] unfolding js_int_def by simp_all
  have p: "pow2 (- 10) = 1 / 1024" "pow2 (- 15) = 1 / 32768" by (simp_all add: pow2_def)
  have tr: "(of_int (30000 * k) :: rat) \<le> of_int t" "(of_int (t + 1) :: rat) \<le> of_int (30000 * (k + 1))"
    using k by (simp_all only: of_int_le_iff)
  obtain y where y: "round64 (of_int t / 1000) = Fin y" "of_int (30720 * k) * pow2 (- 10) \<le> y" "y \<le> of_int (30720 * (k + 1) - 1) * pow2 (- 10)"
    by (rule round64_frac_between [of "30720 * k" "- 10" "of_int t / 1000" "30720 * (k + 1) - 1"]) (use tr k kk in \<open>simp_all add: p field_simps\<close>)
  obtain z where z: "round64 (y / 30) = Fin z" "of_int (32768 * k) * pow2 (- 15) \<le> z" "z \<le> of_int (32768 * (k + 1) - 1) * pow2 (- 15)"
    by (rule round64_frac_between [of "32768 * k" "- 15" "y / 30" "32768 * (k + 1) - 1"]) (use y(2, 3) k kk in \<open>simp_all add: p field_simps\<close>)
  have "\<lfloor>z\<rfloor> = k" using z(2, 3) unfolding floor_eq_iff by (simp add: p field_simps)
  then show ?thesis unfolding time_counter_def t n using y(1) z(1) by (simp add: integer_of_def k_r_def)
qed


lemma padded_digits:
  assumes "n < 10 ^ k" "0 < k"
  shows "length (pad_left k (CHR ''0'') (show_nat n)) = k \<and> list_all is_digit (pad_left k (CHR ''0'') (show_nat n))"
proof -
  have "is_digit (CHR ''0'')" by code_simp
  then show ?thesis using show_nat_length [OF assms] show_nat_digits [of n] by (auto simp: pad_left_def list_all_iff)
qed

lemma rfc6238_six: "six_digits (rfc6238_code env key c)"
  using padded_digits [of "m mod 10 ^ 6" 6 for m] by (simp add: rfc6238_code_def six_digits_def)

lemma hotp_rfc:
  assumes "\<And>k m. 20 \<le> length (mf_hmac_sha1 env k m)" "0 \<le> c" "c < 2 ^ 64"
  shows "generateHotp env (base32Encode key) c 6 = Inr (rfc6238_code env key (nat c))"
  using assms by (simp add: generateHotp_def base32_roundtrip_lemma counter_bytes_def rfc6238_code_def truncated_rfc4226)

text \<open>C10. The codes accepted are those of RFC 6238: for a secret that \<open>setupMfa\<close> could have stored and a clock after the first
  step, a code is accepted if and only if, trimmed, it is the six-digit value of the current step of thirty seconds or of one
  of its two neighbours, computed by the standard's truncation of the HMAC. The two roundings of the division of the clock do
  not matter until the year 2248.\<close>

theorem totp_accepts_exactly_window:
  assumes "\<And>k m. 20 \<le> length (mf_hmac_sha1 env k m)" "key \<noteq> []" "30000 \<le> t" "t < 2 ^ 43"
  shows "totp_valid env (base32Encode key) code t
    = (trim_js code \<in> rfc6238_code env key ` {nat (t div 30000) - 1, nat (t div 30000), nat (t div 30000) + 1})"
proof -
  define k where "k = t div 30000"
  have k: "1 \<le> k" "k < 2 ^ 43"
  proof -
    define r where "r = t mod 30000"
    have "t = 30000 * k + r" "0 \<le> r" "r < 30000" unfolding k_def r_def by simp_all
    then show "1 \<le> k" "k < 2 ^ 43" using assms(3, 4) by simp_all
  qed
  have ne: "base32Encode key \<noteq> []" using base32_roundtrip_lemma [of key] assms(2) by (auto simp: base32Decode_def clean_base32_def upper_text_def)
  have w: "[- 1..1 :: int] = [- 1, 0, 1]" by (simp add: upto.simps)
  have h: "generateHotp env (base32Encode key) (k + d) 6 = Inr (rfc6238_code env key (nat (k + d)))" if "d \<in> {- 1, 0, 1}" for d
    by (rule hotp_rfc [OF assms(1)]) (use k that in auto)
  have n: "nat (k + - 1) = nat k - 1" "nat (k + 1) = nat k + 1" using k(1) by simp_all
  show ?thesis
  proof (cases "six_digits (trim_js code)")
    case True
    then show ?thesis
      using h [of "- 1"] h [of 0] h [of 1] n ne
      unfolding totp_valid_def verifyTotpCode_def TOTP_STEP_SECONDS_def TOTP_DIGITS_def w time_counter_div [OF assms(3, 4)] k_def [symmetric]
      by auto
  next
    case False
    then have "trim_js code \<noteq> rfc6238_code env key c" for c using rfc6238_six [of env key c] by auto
    then show ?thesis using False by (simp add: totp_valid_def verifyTotpCode_def)
  qed
qed

section \<open>Backup codes\<close>

lemma truthy_str_Some: "truthy_str x = Some t \<longleftrightarrow> x = Some t \<and> t \<noteq> []"
  by (auto simp: truthy_str_def split: option.splits list.splits)

lemma stored_text: "stored_hashes (Some (hashes_text hs)) = Some hs"
proof -
  have "json_plain (JArr (List.map JStr hs))" by (simp add: list_all_iff)
  then have p: "json_parse (hashes_text hs) = Some (JArr (List.map JStr hs))" unfolding hashes_text_def by (rule json_parse_stringify)
  have "hashes_text hs \<noteq> []" by (simp add: hashes_text_def)
  then have "truthy_str (Some (hashes_text hs)) = Some (hashes_text hs)" by (simp add: truthy_str_Some)
  moreover have "List.map_filter (\<lambda>v. case v of JStr s \<Rightarrow> Some s | _ \<Rightarrow> None) (List.map JStr hs) = hs"
    by (induction hs) (simp_all add: List.map_filter_simps)
  ultimately show ?thesis by (simp add: stored_hashes_def p)
qed

lemma find_after_update:
  "find (\<lambda>(i, a). ma_email a = e) m = Some (i, a) \<Longrightarrow> js_wf m \<Longrightarrow> ma_email a' = e
     \<Longrightarrow> js_get m i = Some a \<and> find (\<lambda>(i, a). ma_email a = e) (js_set i a' m) = Some (i, a')"
proof (induction m)
  case (Cons p m)
  obtain j b where p: "p = (j, b)" by (cases p)
  show ?case
  proof (cases "ma_email b = e")
    case True
    then show ?thesis using Cons.prems p by auto
  next
    case False
    then have f: "find (\<lambda>(i, a). ma_email a = e) m = Some (i, a)" "js_wf m" using Cons.prems p by (auto simp: js_wf_def)
    then have "(i, a) \<in> set m" by (metis find_Some_iff nth_mem)
    then have "i \<noteq> j" using Cons.prems(2) p by (force simp: js_wf_def)
    then show ?thesis using Cons.IH [OF f Cons.prems(3)] False p by simp
  qed
qed simp

text \<open>A login that returns: what the check decided, and the row afterwards.\<close>

lemma login_cases:
  assumes "login env aenv email pw mfaCode now s = (Inr r, s')" "find_by_email (normalizeEmail email) s = Some (i, a)" "js_wf (mw_admins s)"
  obtains w where "second_factor env a mfaCode now = Inr w" "verifyPassword (mf_scrypt env) pw (ma_passwordHash a) = Inr True"
    "mw_admins s' = (case w of None \<Rightarrow> mw_admins s | Some hs \<Rightarrow> js_set i (a\<lparr>ma_mfaBackupCodes := Some (hashes_text hs)\<rparr>) (mw_admins s))"
proof -
  have g: "js_get (mw_admins s) i = Some a"
    using find_after_update [of "normalizeEmail email" "mw_admins s" i a a] assms(2, 3) find_Some_iff [of _ "mw_admins s" "(i, a)"]
    by (auto simp: find_by_email_def)
  from assms(1, 2) show ?thesis
    by (auto simp: login_def login_check_def login_finish_def eff_defs update_mfa_admin_def g in_auth_def
        split: sum.splits prod.splits option.splits if_splits intro!: that)
qed

text \<open>C11. An administrator with the second factor enabled cannot log in without it: every login that returns a token came with the
  password and with a code that is either a one-time password of the window, and then no row changes, or one of the stored
  backup codes, and then exactly that one is removed from this administrator's row and nothing else changes.\<close>

theorem enabled_login_consumes_a_factor:
  assumes "find_by_email (normalizeEmail email) s = Some (i, a)" "ma_mfaEnabled a" "js_wf (mw_admins s)"
    "login env aenv email pw mfaCode now s = (Inr r, s')"
  shows "verifyPassword (mf_scrypt env) pw (ma_passwordHash a) = Inr True \<and> (\<exists>code. mfaCode = Some code \<and>
     ((\<exists>secret. ma_mfaSecret a = Some secret \<and> totp_valid env secret (trim_js code) now \<and> mw_admins s' = mw_admins s)
      \<or> (\<exists>hs. stored_hashes (ma_mfaBackupCodes a) = Some hs \<and> hashBackupCode env (trim_js code) \<in> set hs
          \<and> mw_admins s' = js_set i (a\<lparr>ma_mfaBackupCodes := Some (hashes_text (remove1 (hashBackupCode env (trim_js code)) hs))\<rparr>) (mw_admins s))))"
proof -
  obtain w where w: "second_factor env a mfaCode now = Inr w" "verifyPassword (mf_scrypt env) pw (ma_passwordHash a) = Inr True"
    "mw_admins s' = (case w of None \<Rightarrow> mw_admins s | Some hs \<Rightarrow> js_set i (a\<lparr>ma_mfaBackupCodes := Some (hashes_text hs)\<rparr>) (mw_admins s))"
    by (rule login_cases [OF assms(4, 1, 3)])
  then show ?thesis using assms(2)
    by (auto simp: second_factor_def remaining_hashes_def truthy_str_Some split: option.splits if_splits)
qed


lemma trim_js_idem: "trim_js (trim_js s) = trim_js s"
proof -
  define ys where "ys = dropWhile is_js_space s"
  define zs where "zs = rev (dropWhile is_js_space (rev ys))"
  have "ys = zs @ rev (takeWhile is_js_space (rev ys))"
    unfolding zs_def by (metis rev_append rev_rev_ident takeWhile_dropWhile_id)
  then have "dropWhile is_js_space zs = zs"
    using hd_dropWhile [of is_js_space s] unfolding ys_def [symmetric] by (cases zs; cases ys) auto
  moreover have "dropWhile is_js_space (rev zs) = rev zs" unfolding zs_def by (simp add: dropWhile_idem)
  ultimately have "rev (dropWhile is_js_space (rev (dropWhile is_js_space zs))) = zs" by simp
  then show ?thesis unfolding trim_js_def zs_def ys_def .
qed

lemma no_totp: "\<not> six_digits (trim_js code) \<Longrightarrow> \<not> totp_valid env secret (trim_js code) now"
  by (simp add: totp_valid_def verifyTotpCode_def trim_js_idem)

text \<open>With a code that does not look like a one-time password only the backup codes decide.\<close>

lemma backup_factor:
  assumes "ma_mfaEnabled a" "\<not> six_digits (trim_js code)" "stored_hashes (ma_mfaBackupCodes a) = Some hs"
  shows "second_factor env a (Some code) now = (if trim_js code = [] then Inl MfaRequiredError
    else if hashBackupCode env (trim_js code) \<in> set hs then Inr (Some (remove1 (hashBackupCode env (trim_js code)) hs)) else Inl InvalidTotpCodeError)"
proof -
  have "\<not> (case truthy_str (ma_mfaSecret a) of Some secret \<Rightarrow> totp_valid env secret (trim_js code) now | None \<Rightarrow> False)"
    using no_totp [OF assms(2)] by (simp split: option.splits)
  moreover have "trim_js code \<noteq> [] \<Longrightarrow> truthy_str (Some code) = Some code" by (auto simp: truthy_str_Some trim_js_def)
  moreover have "trim_js code = [] \<Longrightarrow> truthy_str (Some code) \<in> {None, Some code}" by (auto simp: truthy_str_def split: list.splits)
  ultimately show ?thesis using assms(1, 3)
    unfolding second_factor_def remaining_hashes_def by (auto split: option.splits)
qed

text \<open>A backup code logs in once: after a login with a code that is not six digits, the same code is refused with the same
  password at any later time, whatever the clock, and the other stored codes are still there.\<close>

theorem backup_code_single_use:
  assumes "find_by_email (normalizeEmail email) s = Some (i, a)" "ma_mfaEnabled a" "js_wf (mw_admins s)"
    "stored_hashes (ma_mfaBackupCodes a) = Some hs" "distinct hs" "\<not> six_digits (trim_js code)"
    "login env aenv email pw (Some code) now s = (Inr r, s')"
  shows "login env aenv email pw (Some code) now' s' = (Inl InvalidTotpCodeError, s')
    \<and> (\<exists>a'. find_by_email (normalizeEmail email) s' = Some (i, a')
        \<and> stored_hashes (ma_mfaBackupCodes a') = Some (remove1 (hashBackupCode env (trim_js code)) hs))"
proof -
  define h where "h = hashBackupCode env (trim_js code)"
  define a' where "a' = a\<lparr>ma_mfaBackupCodes := Some (hashes_text (remove1 h hs))\<rparr>"
  obtain w where w: "second_factor env a (Some code) now = Inr w" "verifyPassword (mf_scrypt env) pw (ma_passwordHash a) = Inr True"
    "mw_admins s' = (case w of None \<Rightarrow> mw_admins s | Some hs \<Rightarrow> js_set i (a\<lparr>ma_mfaBackupCodes := Some (hashes_text hs)\<rparr>) (mw_admins s))"
    by (rule login_cases [OF assms(7, 1, 3)])
  then have ne: "trim_js code \<noteq> []" and s': "mw_admins s' = js_set i a' (mw_admins s)"
    unfolding backup_factor [OF assms(2, 6, 4)] by (auto simp: a'_def h_def split: if_splits)
  have "ma_email a = normalizeEmail email" using assms(1) by (auto simp: find_by_email_def find_Some_iff)
  then have f: "find_by_email (normalizeEmail email) s' = Some (i, a')"
    using find_after_update [of "normalizeEmail email" "mw_admins s" i a a'] assms(1, 3) by (simp add: find_by_email_def s' a'_def)
  have st: "stored_hashes (ma_mfaBackupCodes a') = Some (remove1 h hs)" by (simp add: a'_def stored_text)
  have "second_factor env a' (Some code) now' = Inl InvalidTotpCodeError"
    using backup_factor [OF _ assms(6) st, of env now'] assms(2, 5) ne by (simp add: a'_def h_def [symmetric])
  moreover have "verifyPassword (mf_scrypt env) pw (ma_passwordHash a') = Inr True" using w(2) by (simp add: a'_def)
  ultimately have "login env aenv email pw (Some code) now' s' = (Inl InvalidTotpCodeError, s')"
    by (simp add: login_def login_check_def eff_defs f)
  then show ?thesis using f st unfolding h_def by blast
qed

text \<open>C38. Two logins that overlap do not see each other: when both have read the row before either wrote it, two different backup codes
  are both accepted, and the second write restores the code that the first one consumed, so that it can be used again.\<close>

theorem overlapping_logins_restore_a_code:
  assumes "find_by_email (normalizeEmail email) s = Some (i, a)" "ma_mfaEnabled a" "js_wf (mw_admins s)"
    "verifyPassword (mf_scrypt env) pw (ma_passwordHash a) = Inr True"
    "stored_hashes (ma_mfaBackupCodes a) = Some hs" "\<not> six_digits (trim_js c)" "\<not> six_digits (trim_js d)" "trim_js c \<noteq> []" "trim_js d \<noteq> []"
    "hashBackupCode env (trim_js c) \<in> set hs" "hashBackupCode env (trim_js d) \<in> set hs"
    "hashBackupCode env (trim_js c) \<noteq> hashBackupCode env (trim_js d)"
    "login_finish aenv i a (Some (remove1 (hashBackupCode env (trim_js c)) hs)) s = (Inr t1, s1)"
    "login_finish aenv i a (Some (remove1 (hashBackupCode env (trim_js d)) hs)) s1 = (Inr t2, s2)"
  shows "login_check env email pw (Some c) now s = (Inr (i, a, Some (remove1 (hashBackupCode env (trim_js c)) hs)), s)
    \<and> login_check env email pw (Some d) now s = (Inr (i, a, Some (remove1 (hashBackupCode env (trim_js d)) hs)), s)
    \<and> (\<exists>b left. login_check env email pw (Some c) now s2 = (Inr (i, b, Some left), s2))"
proof -
  have chk: "login_check env email pw (Some x) now s' = (Inr (i, b, Some (remove1 (hashBackupCode env (trim_js x)) ks)), s')"
    if "\<not> six_digits (trim_js x)" "trim_js x \<noteq> []" "hashBackupCode env (trim_js x) \<in> set ks" "find_by_email (normalizeEmail email) s' = Some (i, b)"
      "ma_mfaEnabled b" "ma_passwordHash b = ma_passwordHash a" "stored_hashes (ma_mfaBackupCodes b) = Some ks" for x s' b ks
    using that assms(4) backup_factor [OF that(5, 1, 7), of env now] by (simp add: login_check_def eff_defs)
  define upd where "upd = (\<lambda>ks. a\<lparr>ma_mfaBackupCodes := Some (hashes_text ks)\<rparr>)"
  have em: "ma_email a = normalizeEmail email" using assms(1) by (auto simp: find_by_email_def find_Some_iff)
  have fin: "find_by_email (normalizeEmail email) s'' = Some (i, upd ks) \<and> js_wf (mw_admins s'')"
    if "login_finish aenv i a (Some ks) s' = (Inr t, s'')" "find_by_email (normalizeEmail email) s' = Some (i, b)"
      "js_wf (mw_admins s')" "b\<lparr>ma_mfaBackupCodes := Some (hashes_text ks)\<rparr> = upd ks" for ks s' s'' t b
  proof -
    have "js_get (mw_admins s') i = Some b"
      using find_after_update [of "normalizeEmail email" "mw_admins s'" i b "upd ks"] that(2, 3) em by (simp add: find_by_email_def upd_def)
    then have "mw_admins s'' = js_set i (upd ks) (mw_admins s')"
      using that(1, 4) by (auto simp: login_finish_def eff_defs update_mfa_admin_def in_auth_def split: sum.splits prod.splits)
    then show ?thesis
      using find_after_update [of "normalizeEmail email" "mw_admins s'" i b "upd ks"] that(2, 3) em by (simp add: find_by_email_def upd_def)
  qed
  have f1: "find_by_email (normalizeEmail email) s1 = Some (i, upd (remove1 (hashBackupCode env (trim_js c)) hs))" "js_wf (mw_admins s1)"
    using fin [OF assms(13) assms(1, 3)] by (simp_all add: upd_def)
  have f2: "find_by_email (normalizeEmail email) s2 = Some (i, upd (remove1 (hashBackupCode env (trim_js d)) hs))"
    using fin [OF assms(14) f1] by (simp add: upd_def)
  have "hashBackupCode env (trim_js c) \<in> set (remove1 (hashBackupCode env (trim_js d)) hs)" using assms(10, 12) by simp
  then show ?thesis
    using chk [OF assms(6, 8, 10, 1, 2) refl assms(5)] chk [OF assms(7, 9, 11, 1, 2) refl assms(5)] chk [OF assms(6, 8) _ f2] assms(2)
    by (simp add: upd_def stored_text)
qed

section \<open>Setting up and confirming\<close>

lemma backup_codes_drawn: "generateBackupCodes env n s = (Inr cs, s') \<Longrightarrow> length cs = n \<and> mw_admins s' = mw_admins s \<and> mw_auth s' = mw_auth s"
proof -
  define draw where "draw = (\<lambda>_ :: nat. ebind (random_call env 4) (\<lambda>r. ereturn (backup_code r)) :: ('a, string) mfa)"
  have d: "draw x s = (Inr (backup_code (mf_random env 4 (mw_drawn s))), s\<lparr>mw_drawn := Suc (mw_drawn s)\<rparr>)" for x s
    by (simp add: draw_def random_call_def eff_defs)
  have "eff_list draw xs s = (Inr cs, s') \<Longrightarrow> length cs = length xs \<and> mw_admins s' = mw_admins s \<and> mw_auth s' = mw_auth s" for xs s cs
  proof (induction xs arbitrary: s cs)
    case (Cons x xs)
    obtain ds where "eff_list draw xs (s\<lparr>mw_drawn := Suc (mw_drawn s)\<rparr>) = (Inr ds, s')" "length cs = Suc (length ds)"
      using Cons.prems unfolding eff_list.simps ebind_def [of "draw x"] d by (auto simp: ebind_def ereturn_def split: sum.splits prod.splits)
    then show ?case using Cons.IH by simp
  qed (simp add: eff_defs)
  then show "generateBackupCodes env n s = (Inr cs, s') \<Longrightarrow> ?thesis" unfolding generateBackupCodes_def draw_def [symmetric] by fastforce
qed

text \<open>Setting up replaces the second factor and switches it off: whoever calls \<open>setupMfa\<close> gets a new secret and ten backup codes, of which
  each is accepted once the factor is confirmed; the old secret and the old codes are gone, and until the confirmation the
  administrator, also one who had the factor enabled, logs in with the password alone.\<close>

theorem setup_replaces_and_disables:
  assumes "setupMfa env i s = (Inr r, s')"
  shows "\<exists>a b. js_get (mw_admins s) i = Some a \<and> mw_admins s' = js_set i b (mw_admins s)
    \<and> b = a\<lparr>ma_mfaSecret := Some (su_secret r), ma_mfaEnabled := False, ma_mfaBackupCodes := ma_mfaBackupCodes b\<rparr>
    \<and> stored_hashes (ma_mfaBackupCodes b) = Some (List.map (hashBackupCode env) (su_backupCodes r)) \<and> length (su_backupCodes r) = 10
    \<and> second_factor env b None now = Inr None"
proof -
  obtain a where a: "js_get (mw_admins s) i = Some a"
    using assms by (auto simp: setupMfa_def find_mfa_admin_def eff_defs split: option.splits)
  obtain s1 s2 where r: "generateTotpSecret env 20 s = (Inr (su_secret r), s1)" "generateBackupCodes env 10 s1 = (Inr (su_backupCodes r), s2)"
    "update_mfa_admin i (\<lambda>a. a\<lparr>ma_mfaSecret := Some (su_secret r), ma_mfaEnabled := False,
        ma_mfaBackupCodes := Some (hashes_text (List.map (hashBackupCode env) (su_backupCodes r)))\<rparr>) s2 = (Inr (), s')"
    using assms a by (auto simp: setupMfa_def find_mfa_admin_def ebind_def eget_def ereturn_def BACKUP_CODE_COUNT_def Let_def split: option.splits sum.splits prod.splits)
  have "mw_admins s1 = mw_admins s" using r(1) by (auto simp: generateTotpSecret_def random_call_def eff_defs split: option.splits)
  then have "mw_admins s2 = mw_admins s" "length (su_backupCodes r) = 10" using backup_codes_drawn [OF r(2)] by simp_all
  then show ?thesis using r(3) a by (auto simp: update_mfa_admin_def eff_defs stored_text second_factor_def)
qed

text \<open>\<open>confirmMfa\<close> succeeds exactly when a set-up stored a secret and the code is one of its one-time passwords of the window; then it
  enables the factor of that administrator, and nothing else changes.\<close>

theorem confirm_enables_iff_code_matches:
  "confirmMfa env i code now s = (Inr b, s') \<longleftrightarrow>
    b \<and> (\<exists>a secret. js_get (mw_admins s) i = Some a \<and> ma_mfaSecret a = Some secret \<and> totp_valid env secret code now
      \<and> s' = s\<lparr>mw_admins := js_set i (a\<lparr>ma_mfaEnabled := True\<rparr>) (mw_admins s)\<rparr>)"
proof -
  have "\<not> totp_valid env [] code now" by (simp add: totp_valid_def verifyTotpCode_def)
  then show ?thesis
    by (auto simp: confirmMfa_def find_mfa_admin_def update_mfa_admin_def eff_defs truthy_str_Some truthy_str_def split: option.splits list.splits)
qed

text \<open>
  Concrete inputs for the properties of theory \<open>Admin_Mfa_Props\<close>: an HMAC that repeats the last byte of its message, a keyed hash
  that is the identity, and one administrator with two backup codes.
\<close>

definition demo_mfa :: mfa_env where
  "demo_mfa = \<lparr>mf_hmac_sha1 = (\<lambda>k m. replicate 19 (last m) @ [CHR 0x00]), mf_hmac_sha256 = (\<lambda>m. m), mf_library_secret = (\<lambda>_. None),
     mf_library_qr = (\<lambda>_. None), mf_encodeURIComponent = (\<lambda>t. t), mf_random = (\<lambda>n k. replicate n (char_of k)), mf_scrypt = short_scrypt\<rparr>"

definition demo_sign :: "unit auth_env" where
  "demo_sign = \<lparr>au_get = (\<lambda>_ w. (Inr None, w)), au_set = (\<lambda>_ _ w. (Inr (), w)), au_del = (\<lambda>_ w. (Inr 0, w)), au_expire = (\<lambda>_ _ w. (Inr (), w)),
     au_now = (\<lambda>_. 0), au_randomBytes = (\<lambda>_ w. ([], w)), au_randomUUID = (\<lambda>w. ([], w)), au_sha256 = (\<lambda>t. t),
     au_jwtSign = (\<lambda>_ _ _ _. Inr ''token''), au_jwtVerify = (\<lambda>_ _ _. Inl (PlainError [])), au_jwtDecode = (\<lambda>_. None), au_secret = ''key''\<rparr>"

definition demo_key :: string where
  "demo_key = take 64 (''secret'' @ replicate 64 (CHR ''x''))"

definition code_hash :: "string \<Rightarrow> string" where
  "code_hash = hashBackupCode demo_mfa"

definition demo_row :: mfa_admin where
  "demo_row = \<lparr>ma_email = ''a@b.c'', ma_passwordHash = ''scrypt$16384$8$1$'' @ base64 ''salt'' @ CHR ''$'' # base64 demo_key, ma_role = ''admin'',
     ma_mfaEnabled = True, ma_mfaSecret = Some (base32Encode ''key''), ma_mfaBackupCodes = Some (hashes_text [code_hash ''AAAA-1111'', code_hash ''BBBB-2222''])\<rparr>"

definition demo_world :: "unit mfa_world" where
  "demo_world = \<lparr>mw_admins = [(''admin'', demo_row)], mw_drawn = 0, mw_auth = \<lparr>sv_memory = [], sv_world = ()\<rparr>\<rparr>"

lemma demo_trim: "trim_js ''AAAA-1111'' = ''AAAA-1111''" "trim_js ''BBBB-2222'' = ''BBBB-2222''" "trim_js ''686018'' = ''686018''"
  by (simp_all add: trim_js_def is_js_space_def)

lemma demo_not_six: "\<not> six_digits (trim_js ''AAAA-1111'')" "\<not> six_digits (trim_js ''BBBB-2222'')"
  by (simp_all add: demo_trim six_digits_def)

lemma demo_hashes: "code_hash ''AAAA-1111'' \<noteq> code_hash ''BBBB-2222''"
  by code_simp

lemma demo_admin_stored: "stored_hashes (ma_mfaBackupCodes demo_row) = Some [code_hash ''AAAA-1111'', code_hash ''BBBB-2222'']"
  by (simp add: demo_row_def stored_text)

lemma demo_password: "verifyPassword (mf_scrypt demo_mfa) ''secret'' (ma_passwordHash demo_row) = Inr True"
  unfolding demo_row_def mfa_admin.select_convs verifyPassword_text [OF base64_no_dollar base64_no_dollar] base64_decode_base64
  by (simp add: demo_mfa_def short_scrypt_def demo_key_def)

lemma demo_found: "find_by_email (normalizeEmail ''a@b.c'') demo_world = Some (''admin'', demo_row)"
  by (simp add: find_by_email_def demo_world_def demo_row_def normalizeEmail_def trim_js_def is_js_space_def to_lower_def char_of_def bit_0)

lemma demo_wf: "js_wf (mw_admins demo_world)" and demo_enabled: "ma_mfaEnabled demo_row"
  by (simp_all add: demo_world_def demo_row_def js_wf_def)

definition left_row :: mfa_admin where
  "left_row = demo_row\<lparr>ma_mfaBackupCodes := Some (hashes_text [code_hash ''BBBB-2222''])\<rparr>"

definition demo_token :: admin_login where
  "demo_token = \<lparr>al_token = ''token'', al_id = ''admin'', al_email = ''a@b.c'', al_role = ''admin'', al_mfaEnabled = True\<rparr>"

lemma demo_finish:
  "js_get (mw_admins s) ''admin'' = Some b \<Longrightarrow> login_finish demo_sign ''admin'' demo_row (Some hs) s
     = (Inr demo_token, s\<lparr>mw_admins := js_set ''admin'' (b\<lparr>ma_mfaBackupCodes := Some (hashes_text hs)\<rparr>) (mw_admins s)\<rparr>)"
  by (simp add: login_finish_def update_mfa_admin_def eff_defs in_auth_def signAccessToken_def signToken_def demo_sign_def demo_row_def demo_token_def)

lemma demo_login:
  "login demo_mfa demo_sign ''a@b.c'' ''secret'' (Some ''AAAA-1111'') 90000 demo_world = (Inr demo_token, demo_world\<lparr>mw_admins := [(''admin'', left_row)]\<rparr>)"
proof -
  have f: "second_factor demo_mfa demo_row (Some ''AAAA-1111'') 90000 = Inr (Some [code_hash ''BBBB-2222''])"
    using backup_factor [OF demo_enabled demo_not_six(1) demo_admin_stored, of demo_mfa 90000] demo_hashes by (simp add: demo_trim code_hash_def)
  have "js_get (mw_admins demo_world) ''admin'' = Some demo_row" by (simp add: demo_world_def)
  then show ?thesis
    by (simp add: login_def login_check_def demo_found demo_password f ebind_def eget_def elift_def ereturn_def demo_finish)
      (simp add: demo_world_def left_row_def)
qed

theorem totp_accepts_exactly_window_witness:
  "totp_valid demo_mfa (base32Encode ''key'') ''686018'' 75000 \<and> \<not> totp_valid demo_mfa (base32Encode ''key'') ''686018'' 165000"
proof -
  have l: "20 \<le> length (mf_hmac_sha1 demo_mfa k m)" for k m by (simp add: demo_mfa_def)
  have t: "rfc4226_truncate (replicate 19 b @ [CHR 0x00]) = (of_char b * 16843009) mod 2 ^ 31" for b
  proof -
    have "take 4 (replicate 19 b @ [CHR 0x00]) = [b, b, b, b]" by (simp add: numeral_eq_Suc)
    moreover have "(of_char (last (replicate 19 b @ [CHR 0x00])) :: nat) mod 16 = 0" by simp
    moreover have "base_value 256 [of_char b, of_char b, of_char b, of_char b] = of_char b * 16843009" by simp
    ultimately show ?thesis unfolding rfc4226_truncate_def by (simp add: mult.commute)
  qed
  have r: "rfc6238_code demo_mfa key c = pad_left 6 (CHR ''0'') (show_nat ((c * 16843009) mod 2 ^ 31 mod 10 ^ 6))" if "c < 128" for key c
  proof -
    have c: "of_char (char_of c :: char) = c" using that by (simp add: of_char_of)
    have "[0..<8] = [0..<7] @ [7 :: nat]" using upt_Suc_append [of 0 7] by simp
    then have l: "last (List.map (\<lambda>i. char_of (c div 256 ^ (7 - i))) [0..<8]) = (char_of c :: char)" by simp
    show ?thesis unfolding rfc6238_code_def demo_mfa_def mfa_env.select_convs l t c ..
  qed
  have "rfc6238_code demo_mfa ''key'' 2 = ''686018''" "rfc6238_code demo_mfa ''key'' 4 = ''372036''" "rfc6238_code demo_mfa ''key'' 5 = ''215045''"
    "rfc6238_code demo_mfa ''key'' 6 = ''058054''" by (simp_all add: r show_nat.simps hex_digit_def pad_left_def)
  then show ?thesis
    using totp_accepts_exactly_window [OF l, of "''key''" 75000 "''686018''"] totp_accepts_exactly_window [OF l, of "''key''" 165000 "''686018''"]
    by (simp add: demo_trim)
qed

theorem enabled_login_consumes_a_factor_witness:
  "stored_hashes (ma_mfaBackupCodes left_row) = Some [code_hash ''BBBB-2222'']
   \<and> (\<exists>hs. stored_hashes (ma_mfaBackupCodes demo_row) = Some hs \<and> code_hash ''AAAA-1111'' \<in> set hs)"
proof -
  have n: "mw_admins (demo_world\<lparr>mw_admins := [(''admin'', left_row)]\<rparr>) \<noteq> mw_admins demo_world"
  proof -
    have "stored_hashes (ma_mfaBackupCodes left_row) \<noteq> stored_hashes (ma_mfaBackupCodes demo_row)"
      using demo_admin_stored by (simp add: left_row_def stored_text)
    then show ?thesis by (auto simp: demo_world_def)
  qed
  show ?thesis
    using enabled_login_consumes_a_factor [OF demo_found demo_enabled demo_wf demo_login] n
    by (auto simp: demo_trim code_hash_def left_row_def stored_text)
qed

theorem backup_code_single_use_witness:
  "fst (login demo_mfa demo_sign ''a@b.c'' ''secret'' (Some ''AAAA-1111'') 100000 (demo_world\<lparr>mw_admins := [(''admin'', left_row)]\<rparr>)) = Inl InvalidTotpCodeError"
  using backup_code_single_use [OF demo_found demo_enabled demo_wf demo_admin_stored _ demo_not_six(1) demo_login, of 100000] demo_hashes by simp

theorem overlapping_logins_restore_a_code_witness:
  "\<exists>(s :: unit mfa_world) b left. fst (login_check demo_mfa ''a@b.c'' ''secret'' (Some ''AAAA-1111'') 90000 s) = Inr (''admin'', b, Some left)
     \<and> stored_hashes (ma_mfaBackupCodes b) = Some [code_hash ''AAAA-1111'']"
proof -
  have g: "js_get (mw_admins demo_world) ''admin'' = Some demo_row" by (simp add: demo_world_def)
  define s1 where "s1 = demo_world\<lparr>mw_admins := js_set ''admin'' (demo_row\<lparr>ma_mfaBackupCodes := Some (hashes_text [code_hash ''BBBB-2222''])\<rparr>) (mw_admins demo_world)\<rparr>"
  define s2 where "s2 = s1\<lparr>mw_admins := js_set ''admin'' (demo_row\<lparr>ma_mfaBackupCodes := Some (hashes_text [code_hash ''AAAA-1111''])\<rparr>) (mw_admins s1)\<rparr>"
  have f1: "login_finish demo_sign ''admin'' demo_row (Some [code_hash ''BBBB-2222'']) demo_world = (Inr demo_token, s1)"
    unfolding s1_def by (rule demo_finish [OF g])
  have "js_get (mw_admins s1) ''admin'' = Some (demo_row\<lparr>ma_mfaBackupCodes := Some (hashes_text [code_hash ''BBBB-2222''])\<rparr>)" by (simp add: s1_def)
  from demo_finish [OF this, of "[code_hash ''AAAA-1111'']"]
  have f2: "login_finish demo_sign ''admin'' demo_row (Some [code_hash ''AAAA-1111'']) s1 = (Inr demo_token, s2)" unfolding s2_def by simp
  have h: "hashBackupCode demo_mfa (trim_js ''AAAA-1111'') = code_hash ''AAAA-1111''" "hashBackupCode demo_mfa (trim_js ''BBBB-2222'') = code_hash ''BBBB-2222''"
    by (simp_all add: demo_trim code_hash_def)
  have "\<exists>b left. login_check demo_mfa ''a@b.c'' ''secret'' (Some ''AAAA-1111'') 90000 s2 = (Inr (''admin'', b, Some left), s2)"
    using overlapping_logins_restore_a_code [OF demo_found demo_enabled demo_wf demo_password demo_admin_stored demo_not_six, of demo_sign demo_token s1 demo_token s2 90000]
      f1 f2 demo_hashes unfolding h by (simp add: demo_trim)
  then obtain b left where b: "login_check demo_mfa ''a@b.c'' ''secret'' (Some ''AAAA-1111'') 90000 s2 = (Inr (''admin'', b, Some left), s2)" by blast
  have "find_by_email (normalizeEmail ''a@b.c'') s2 = Some (''admin'', demo_row\<lparr>ma_mfaBackupCodes := Some (hashes_text [code_hash ''AAAA-1111''])\<rparr>)"
    by (simp add: s2_def s1_def find_by_email_def demo_world_def demo_row_def normalizeEmail_def trim_js_def is_js_space_def to_lower_def char_of_def bit_0)
  then have "b = demo_row\<lparr>ma_mfaBackupCodes := Some (hashes_text [code_hash ''AAAA-1111''])\<rparr>"
    using b by (auto simp: login_check_def eff_defs split: sum.splits if_splits)
  then show ?thesis using b by (intro exI [of _ s2] exI [of _ b] exI [of _ left]) (simp add: stored_text)
qed

theorem setup_replaces_and_disables_witness:
  "\<exists>r s'. setupMfa demo_mfa ''admin'' demo_world = (Inr r, s') \<and> length (su_backupCodes r) = 10"
proof -
  have "\<exists>r s'. setupMfa demo_mfa ''admin'' demo_world = (Inr r, s')"
  proof -
    obtain cs s1 where c: "generateBackupCodes demo_mfa 10 (demo_world\<lparr>mw_drawn := 1\<rparr>) = (Inr cs, s1)" "mw_admins s1 = [(''admin'', demo_row)]"
    proof -
      have "\<exists>cs s1. generateBackupCodes demo_mfa 10 (demo_world\<lparr>mw_drawn := 1\<rparr>) = (Inr cs, s1)"
        by (simp add: generateBackupCodes_def upt_rec eff_defs random_call_def)
      then obtain cs s1 where "generateBackupCodes demo_mfa 10 (demo_world\<lparr>mw_drawn := 1\<rparr>) = (Inr cs, s1)" by blast
      then show ?thesis using backup_codes_drawn that by (fastforce simp: demo_world_def)
    qed
    have "find_mfa_admin ''admin'' demo_world = (Inr demo_row, demo_world)" by (simp add: find_mfa_admin_def eff_defs demo_world_def)
    moreover have "\<exists>x. generateTotpSecret demo_mfa 20 demo_world = (Inr x, demo_world\<lparr>mw_drawn := 1\<rparr>)"
      by (simp add: generateTotpSecret_def demo_mfa_def random_call_def eff_defs) (simp add: demo_world_def)
    ultimately show ?thesis using c by (auto simp: setupMfa_def ebind_def BACKUP_CODE_COUNT_def Let_def update_mfa_admin_def eget_def emodify_def ereturn_def)
  qed
  then show ?thesis using setup_replaces_and_disables by blast
qed

end
