(* ===== verification/Admin_Audit.thy ===== *)
theory Admin_Audit
  imports Js_Text Json_Text Effects Batch_Types
begin

text \<open>
  The audit trail of administrative changes: \<open>services/admin-audit.service.ts\<close>. Who acted, what changed between two
  configurations, the row that is written, and the pages that are read. The table is a list in the order of insertion;
  a write of the database is a parameter that may fail.
\<close>

section \<open>The actor\<close>

record audit_actor =
  aa_id :: "string option"
  aa_email :: "string option"
  aa_ip :: "string option"
  aa_userAgent :: "string option"

text \<open>What the authentication left on the request: an administrator or a user, an API key; a header is a text or, when it was sent
  several times, a list.\<close>

record identity =
  id_id :: "string option"
  id_email :: "string option"
  id_publicKey :: "string option"

datatype header = OneHeader string | ManyHeaders "string list"

record audit_request =
  ar_admin :: "identity option"
  ar_user :: "identity option"
  ar_apiKey :: "(string option \<times> string option) option"
  ar_forwardedFor :: "header option"
  ar_ip :: "string option"
  ar_userAgent :: "string option"

definition or_else :: "'a option \<Rightarrow> 'a option \<Rightarrow> 'a option" where
  "or_else a b = (case a of None \<Rightarrow> b | Some _ \<Rightarrow> a)"

definition forwarded_ip :: "audit_request \<Rightarrow> string option" where
  "forwarded_ip req = (case ar_forwardedFor req of
     Some (ManyHeaders hs) \<Rightarrow> (case hs of [] \<Rightarrow> None | h # _ \<Rightarrow> Some h)
   | Some (OneHeader h) \<Rightarrow> or_else (truthy_str (Some (trim_js (hd (split_char (CHR '','') h))))) (ar_ip req)
   | None \<Rightarrow> ar_ip req)"

definition getAuditActor :: "audit_request \<Rightarrow> audit_actor" where
  "getAuditActor req = (let ident = or_else (ar_admin req) (ar_user req) in
     \<lparr>aa_id = or_else (Option.bind ident id_id) (or_else (Option.bind ident id_publicKey) (Option.bind (ar_apiKey req) fst)),
      aa_email = or_else (Option.bind ident id_email) (Option.bind (ar_apiKey req) snd),
      aa_ip = forwarded_ip req, aa_userAgent = ar_userAgent req\<rparr>)"

section \<open>The difference of two configurations\<close>

type_synonym config_object = "(string \<times> json) list"

text \<open>\<open>before?.[key]\<close>, and \<open>JSON.stringify\<close>, which gives no text for \<open>undefined\<close>.\<close>

definition key_value :: "config_object option \<Rightarrow> string \<Rightarrow> json" where
  "key_value c key = (case Option.bind c (\<lambda>m. js_get m key) of Some v \<Rightarrow> v | None \<Rightarrow> JUndef)"

definition stringified :: "json \<Rightarrow> string option" where
  "stringified v = (if v = JUndef then None else Some (json_stringify v))"

definition object_keys :: "config_object option \<Rightarrow> string list" where
  "object_keys c = (case c of None \<Rightarrow> [] | Some m \<Rightarrow> js_keys m)"

definition computeConfigDiff :: "config_object option \<Rightarrow> config_object option \<Rightarrow> string list \<times> (string \<times> json \<times> json) list" where
  "computeConfigDiff before after =
     (if before = None \<and> after = None then ([], [])
      else let keys = set_of_array (object_keys before @ object_keys after);
               diff = List.map_filter (\<lambda>key. let prevValue = key_value before key; nextValue = key_value after key in
                        if stringified prevValue \<noteq> stringified nextValue then Some (key, prevValue, nextValue) else None) keys
           in (List.map fst diff, diff))"

section \<open>Recording\<close>

datatype audit_result = AuditSuccess | AuditFailure

record change_params =
  cp_action :: string
  cp_actor :: "audit_actor option"
  cp_targetEntity :: "string option"
  cp_configVersion :: "int option"
  cp_previousVersion :: "int option"
  cp_before :: "config_object option"
  cp_after :: "config_object option"
  cp_metadata :: "config_object option"
  cp_result :: "audit_result option"

record audit_row =
  aw_action :: string
  aw_actorId :: "string option"
  aw_actorEmail :: "string option"
  aw_actorIp :: "string option"
  aw_userAgent :: "string option"
  aw_result :: audit_result
  aw_configVersion :: "int option"
  aw_previousVersion :: "int option"
  aw_changedKeys :: "string option"
  aw_diff :: "string option"
  aw_metadata :: "string option"
  aw_createdAt :: int

definition change :: "string \<Rightarrow> audit_actor \<Rightarrow> string option \<Rightarrow> change_params" where
  "change action actor target = \<lparr>cp_action = action, cp_actor = Some actor, cp_targetEntity = target, cp_configVersion = None,
     cp_previousVersion = None, cp_before = None, cp_after = None, cp_metadata = None, cp_result = None\<rparr>"

text \<open>\<open>{ targetEntity, ...metadata }\<close>.\<close>

definition change_metadata :: "change_params \<Rightarrow> config_object option" where
  "change_metadata p = (case truthy_str (cp_targetEntity p) of
     Some t \<Rightarrow> Some (foldl (\<lambda>m (k, v). js_set k v m) [(''targetEntity'', JStr t)] (case cp_metadata p of None \<Rightarrow> [] | Some m \<Rightarrow> m))
   | None \<Rightarrow> cp_metadata p)"

definition diff_json :: "(string \<times> json \<times> json) list \<Rightarrow> json" where
  "diff_json diff = JObj (List.map (\<lambda>(k, b, a). (k, JObj [(''before'', b), (''after'', a)])) diff)"

definition audit_row_of :: "int \<Rightarrow> change_params \<Rightarrow> audit_row" where
  "audit_row_of now p = (case computeConfigDiff (cp_before p) (cp_after p) of (changedKeys, diff) \<Rightarrow>
     \<lparr>aw_action = cp_action p, aw_actorId = Option.bind (cp_actor p) aa_id, aw_actorEmail = Option.bind (cp_actor p) aa_email,
      aw_actorIp = Option.bind (cp_actor p) aa_ip, aw_userAgent = Option.bind (cp_actor p) aa_userAgent,
      aw_result = (case cp_result p of None \<Rightarrow> AuditSuccess | Some r \<Rightarrow> r),
      aw_configVersion = cp_configVersion p, aw_previousVersion = cp_previousVersion p,
      aw_changedKeys = (if changedKeys = [] then None else Some (json_stringify (JArr (List.map JStr changedKeys)))),
      aw_diff = (if diff = [] then None else Some (json_stringify (diff_json diff))),
      aw_metadata = map_option (\<lambda>m. json_stringify (JObj m)) (change_metadata p), aw_createdAt = now\<rparr>)"

text \<open>A failure of the write is logged and swallowed.\<close>

definition recordConfigChange :: "(audit_row \<Rightarrow> ('s, js_error, unit) eff) \<Rightarrow> int \<Rightarrow> change_params \<Rightarrow> ('s, 'e, unit) eff" where
  "recordConfigChange create now p = ecatch (create (audit_row_of now p)) (\<lambda>_. ereturn ())"

section \<open>Reading\<close>

record audit_query =
  qa_action :: "string option"
  qa_actorId :: "string option"
  qa_startDate :: "int option"
  qa_endDate :: "int option"
  qa_limit :: "jsnum option"
  qa_offset :: "jsnum option"

definition or_num :: "jsnum option \<Rightarrow> jsnum \<Rightarrow> jsnum" where
  "or_num n d = (case n of None \<Rightarrow> d | Some x \<Rightarrow> x)"

definition page_limit :: "audit_query \<Rightarrow> jsnum" where
  "page_limit q = math_min (math_max (or_num (qa_limit q) (js_int 50)) (js_int 1)) (js_int 200)"

definition page_offset :: "audit_query \<Rightarrow> jsnum" where
  "page_offset q = math_max (or_num (qa_offset q) (js_int 0)) (js_int 0)"

definition matches_query :: "audit_query \<Rightarrow> audit_row \<Rightarrow> bool" where
  "matches_query q row \<longleftrightarrow>
     (case truthy_str (qa_action q) of None \<Rightarrow> True | Some a \<Rightarrow> aw_action row = a)
   \<and> (case truthy_str (qa_actorId q) of None \<Rightarrow> True | Some a \<Rightarrow> aw_actorId row = Some a)
   \<and> (case qa_startDate q of None \<Rightarrow> True | Some t \<Rightarrow> t \<le> aw_createdAt row)
   \<and> (case qa_endDate q of None \<Rightarrow> True | Some t \<Rightarrow> aw_createdAt row \<le> t)"

definition safeJsonParse :: "string option \<Rightarrow> json" where
  "safeJsonParse v = (case truthy_str v of None \<Rightarrow> JNull | Some t \<Rightarrow> (case json_parse t of Some j \<Rightarrow> j | None \<Rightarrow> JStr t))"

record audit_entry =
  en_row :: audit_row
  en_changedKeys :: json
  en_diff :: json
  en_metadata :: json

definition audit_entry_of :: "audit_row \<Rightarrow> audit_entry" where
  "audit_entry_of row = \<lparr>en_row = row, en_changedKeys = safeJsonParse (aw_changedKeys row), en_diff = safeJsonParse (aw_diff row),
     en_metadata = safeJsonParse (aw_metadata row)\<rparr>"

record audit_page =
  pg_entries :: "audit_entry list"
  pg_total :: nat
  pg_limit :: jsnum
  pg_offset :: jsnum

text \<open>The database refuses a limit or an offset that is no integer.\<close>

definition js_count :: "jsnum \<Rightarrow> nat option" where
  "js_count n = (case n of Fin r \<Rightarrow> if of_int \<lfloor>r\<rfloor> = r \<and> 0 \<le> r then Some (nat \<lfloor>r\<rfloor>) else None | _ \<Rightarrow> None)"

definition listAuditLogs :: "audit_row list \<Rightarrow> audit_query \<Rightarrow> js_error + audit_page" where
  "listAuditLogs table q = (let limit = page_limit q; offset = page_offset q; rows = filter (matches_query q) table in
     case (js_count limit, js_count offset) of
       (Some n, Some k) \<Rightarrow> Inr \<lparr>pg_entries = List.map audit_entry_of (take n (drop k (sort_key (\<lambda>r. - aw_createdAt r) rows))),
          pg_total = length rows, pg_limit = limit, pg_offset = offset\<rparr>
     | _ \<Rightarrow> Inl (OtherErr ''PrismaClientValidationError'' ''Invalid value'' None None None None None None))"

text \<open>
  The properties of the audit trail (theory \<open>Admin_Audit\<close>): the recorded difference determines the new configuration, and the pages of
  the trail are bounded and together give every entry.
\<close>

section \<open>The difference\<close>

lemma stringified_inj: "v = JUndef \<or> json_plain v \<Longrightarrow> w = JUndef \<or> json_plain w \<Longrightarrow> stringified v = stringified w \<longleftrightarrow> v = w"
proof -
  assume a: "v = JUndef \<or> json_plain v" "w = JUndef \<or> json_plain w"
  have "v = w" if "stringified v = stringified w"
  proof (cases "v = JUndef \<or> w = JUndef")
    case True
    then show ?thesis using that by (simp add: stringified_def split: if_splits)
  next
    case False
    then have "json_parse (json_stringify v) = Some v" "json_parse (json_stringify w) = Some w" using a json_parse_stringify by blast+
    moreover have "json_stringify v = json_stringify w" using that False by (simp add: stringified_def)
    ultimately show ?thesis by (metis option.inject)
  qed
  then show ?thesis by blast
qed

lemma plain_value:
  assumes "json_plain (JObj m)"
  shows "json_plain (key_value (Some m) k) \<or> key_value (Some m) k = JUndef"
proof (cases "js_get m k")
  case (Some v)
  then have "(k, v) \<in> set m" by (rule map_of_SomeD)
  then show ?thesis using assms Some by (auto simp: key_value_def list_all_iff)
qed (simp add: key_value_def)

lemma map_filter_keys:
  "\<forall>k y. f k = Some y \<longrightarrow> fst y = k \<Longrightarrow> List.map fst (List.map_filter f ks) = filter (\<lambda>k. f k \<noteq> None) ks"
  by (induction ks) (auto simp: List.map_filter_simps split: option.splits)

lemma map_of_map_filter:
  "\<forall>k y. f k = Some y \<longrightarrow> fst y = k \<Longrightarrow> distinct ks \<Longrightarrow> map_of (List.map_filter f ks) k = (if k \<in> set ks then map_option snd (f k) else None)"
proof (induction ks)
  case (Cons a ks)
  then show ?case by (auto simp: List.map_filter_simps split: option.splits)
qed (simp add: List.map_filter_simps)

text \<open>The difference of two configurations is exact: the changed keys are listed once each and are the keys at which the two differ, and
  the old configuration with the recorded new values is the new one, so that the trail determines every change.\<close>

theorem audit_diff_exact:
  assumes "json_plain (JObj before)" "json_plain (JObj after)" "computeConfigDiff (Some before) (Some after) = (changed, diff)"
  shows "distinct changed \<and> (\<forall>k. k \<in> set changed \<longleftrightarrow> key_value (Some before) k \<noteq> key_value (Some after) k)
    \<and> (\<forall>k. key_value (Some after) k = (case map_of diff k of Some (_, v) \<Rightarrow> v | None \<Rightarrow> key_value (Some before) k))
    \<and> (\<forall>k. key_value (Some before) k = (case map_of diff k of Some (v, _) \<Rightarrow> v | None \<Rightarrow> key_value (Some after) k))"
proof -
  define f where "f = (\<lambda>k. if stringified (key_value (Some before) k) \<noteq> stringified (key_value (Some after) k)
     then Some (k, key_value (Some before) k, key_value (Some after) k) else None)"
  define ks where "ks = set_of_array (js_keys before @ js_keys after)"
  have d: "diff = List.map_filter f ks" "changed = List.map fst diff"
    using assms(3) by (auto simp: computeConfigDiff_def object_keys_def ks_def f_def Let_def)
  have f: "\<forall>k y. f k = Some y \<longrightarrow> fst y = k" by (simp add: f_def)
  have ne: "f k = (if key_value (Some before) k \<noteq> key_value (Some after) k then Some (k, key_value (Some before) k, key_value (Some after) k) else None)" for k
    using stringified_inj plain_value [OF assms(1), of k] plain_value [OF assms(2), of k] unfolding f_def by auto
  have out: "key_value (Some before) k = key_value (Some after) k" if "k \<notin> set ks" for k
    using that map_of_eq_None_iff [of before k] map_of_eq_None_iff [of after k] by (auto simp: ks_def key_value_def)
  have ks: "distinct ks" by (simp add: ks_def)
  have "map_of diff k = (if key_value (Some before) k \<noteq> key_value (Some after) k then Some (key_value (Some before) k, key_value (Some after) k) else None)" for k
    unfolding d(1) map_of_map_filter [OF f ks] using ne [of k] out [of k] by auto
  moreover have "changed = filter (\<lambda>k. f k \<noteq> None) ks" unfolding d by (rule map_filter_keys [OF f])
  ultimately show ?thesis using ks ne out by (auto split: if_splits)
qed

theorem audit_diff_exact_witness:
  "fst (computeConfigDiff (Some [(''a'', JNum 1), (''b'', JNum 2)]) (Some [(''b'', JNum 3), (''c'', JNum 4)])) = [''a'', ''b'', ''c'']
   \<and> distinct [''a'', ''b'', ''c'']"
proof -
  define d where "d = [(''a'', JNum 1, JUndef), (''b'', JNum 2, JNum 3), (''c'', JUndef, JNum 4)]"
  have c: "computeConfigDiff (Some [(''a'', JNum 1), (''b'', JNum 2)]) (Some [(''b'', JNum 3), (''c'', JNum 4)]) = ([''a'', ''b'', ''c''], d)"
    by (simp add: computeConfigDiff_def object_keys_def set_of_array_def key_value_def stringified_def List.map_filter_simps Let_def d_def
        show_int_def show_nat.simps hex_digit_def)
  then show ?thesis using audit_diff_exact [OF _ _ c] by simp
qed

section \<open>The pages\<close>

lemma js_int_exact: "\<bar>n\<bar> < 2 ^ 53 \<Longrightarrow> js_int n = Fin (of_int n)"
  by (simp add: js_int_def round64_int)

lemma limit_value: "1 \<le> n \<Longrightarrow> n \<le> 200 \<Longrightarrow> qa_limit q = Some (js_int (int n)) \<Longrightarrow> js_count (page_limit q) = Some n"
  by (auto simp: page_limit_def or_num_def js_int_exact math_max_def math_min_def js_count_def)

lemma offset_value: "int n < 2 ^ 53 \<Longrightarrow> qa_offset q = Some (js_int (int n)) \<Longrightarrow> js_count (page_offset q) = Some n"
  by (auto simp: page_offset_def or_num_def js_int_exact math_max_def js_count_def)

text \<open>Whatever limit is asked for, a page has at most two hundred entries; and with a limit from one to two hundred the pages of a
  query one after the other give, newest first, every entry that matches it, none twice, and the total says how many they are.\<close>

theorem audit_pages_cover:
  assumes "1 \<le> n" "n \<le> 200" "length (filter (matches_query q) table) \<le> m * n" "m * n < 2 ^ 53"
  shows "\<exists>page. (\<forall>i<m. listAuditLogs table (q\<lparr>qa_limit := Some (js_int (int n)), qa_offset := Some (js_int (int (i * n)))\<rparr>) = Inr (page i)
        \<and> pg_total (page i) = length (filter (matches_query q) table) \<and> length (pg_entries (page i)) \<le> 200)
     \<and> concat (List.map (\<lambda>i. pg_entries (page i)) [0..<m]) = List.map audit_entry_of (sort_key (\<lambda>r. - aw_createdAt r) (filter (matches_query q) table))"
proof -
  define rows where "rows = sort_key (\<lambda>r. - aw_createdAt r) (filter (matches_query q) table)"
  define ask where "ask i = q\<lparr>qa_limit := Some (js_int (int n)), qa_offset := Some (js_int (int (i * n)))\<rparr>" for i
  define page where "page i = \<lparr>pg_entries = List.map audit_entry_of (take n (drop (i * n) rows)), pg_total = length (filter (matches_query q) table),
      pg_limit = page_limit (ask i), pg_offset = page_offset (ask i)\<rparr>" for i
  have "listAuditLogs table (ask i) = Inr (page i)" if "i < m" for i
  proof -
    have "i * n < 2 ^ 53" using that assms(4) by (meson less_imp_le_nat mult_le_mono1 order_le_less_trans)
    then have "int (i * n) < 2 ^ 53" by (metis of_nat_less_iff of_nat_numeral of_nat_power)
    then have "js_count (page_offset (ask i)) = Some (i * n)" by (intro offset_value) (simp_all add: ask_def)
    moreover have "js_count (page_limit (ask i)) = Some n" by (rule limit_value [OF assms(1, 2)]) (simp add: ask_def)
    moreover have "matches_query (ask i) = matches_query q" by (rule ext) (simp add: matches_query_def ask_def)
    ultimately show ?thesis by (simp add: listAuditLogs_def Let_def page_def rows_def)
  qed
  moreover have "concat (List.map (\<lambda>i. pg_entries (page i)) [0..<m]) = List.map audit_entry_of (concat (List.map (\<lambda>i. take n (drop (i * n) rows)) [0..<m]))"
    by (simp add: page_def map_concat comp_def)
  moreover have "concat (List.map (\<lambda>i. take n (drop (i * n) rows)) [0..<m]) = rows"
    unfolding take_pages by (rule take_all) (use assms(3) in \<open>simp add: rows_def\<close>)
  moreover have "length (pg_entries (page i)) \<le> 200" for i using assms(2) by (simp add: page_def)
  moreover have "pg_total (page i) = length (filter (matches_query q) table)" for i by (simp add: page_def)
  ultimately show ?thesis unfolding ask_def rows_def by (intro exI [of _ page]) auto
qed

definition demo_entry :: "int \<Rightarrow> audit_row" where
  "demo_entry t = audit_row_of t (change ''ADMIN_LOGIN'' \<lparr>aa_id = None, aa_email = None, aa_ip = None, aa_userAgent = None\<rparr> None)"

theorem audit_pages_cover_witness:
  "\<exists>page :: nat \<Rightarrow> audit_page. concat (List.map (\<lambda>i. pg_entries (page i)) [0..<2]) = List.map audit_entry_of [demo_entry 3, demo_entry 2, demo_entry 1]"
proof -
  define q where "q = \<lparr>qa_action = None, qa_actorId = None, qa_startDate = None, qa_endDate = None, qa_limit = None, qa_offset = None\<rparr>"
  have f: "filter (matches_query q) [demo_entry 1, demo_entry 3, demo_entry 2] = [demo_entry 1, demo_entry 3, demo_entry 2]"
    by (simp add: matches_query_def q_def truthy_str_def)
  have t: "aw_createdAt (demo_entry t) = t" for t by (simp add: demo_entry_def audit_row_of_def split_beta)
  have s: "sort_key (\<lambda>r. - aw_createdAt r) [demo_entry 1, demo_entry 3, demo_entry 2] = [demo_entry 3, demo_entry 2, demo_entry 1]" by (simp add: t)
  show ?thesis
    using audit_pages_cover [of 2 q "[demo_entry 1, demo_entry 3, demo_entry 2]" 2] unfolding f s by (simp add: exI) blast
qed

end
