(* ===== verification/Transfers.thy ===== *)
theory Transfers
  imports Fees Js_Date
begin

text \<open>
  The tables that the transfer protocols share: the models \<open>Transaction\<close>, \<open>User\<close> and \<open>Quote\<close> of \<open>prisma/schema.prisma\<close> and the
  statements the code makes on them, \<open>services/sep38.service.ts\<close>, \<open>lib/socket.ts\<close> as far as it announces a status, and
  \<open>workers/transaction-reconcile.scheduler.ts\<close>. A statement is one step; it may fail as theory \<open>Fees\<close> says. The
  clock, the identifiers and the failures are those of the fee service's world.
\<close>

section \<open>Rows\<close>

record txn =
  tn_userId :: string
  tn_assetCode :: string
  tn_amount :: string
  tn_type :: string
  tn_status :: string
  tn_externalId :: "string option"
  tn_stellarTxId :: "string option"
  tn_createdAt :: int
  tn_updatedAt :: int
  tn_feeAmount :: "string option"
  tn_feeAssetCode :: "string option"
  tn_feeType :: "string option"
  tn_senderInfo :: "(string \<times> json) list option"
  tn_receiverInfo :: "(string \<times> json) list option"
  tn_callbackUrl :: "string option"
  tn_sep31Status :: "string option"
  tn_requiredInfoMessage :: "string option"
  tn_completedAt :: "int option"
  tn_refunded :: bool
  tn_quoteId :: "string option"
  tn_quotePrice :: "string option"
  tn_claimableBalanceId :: "string option"

definition new_txn :: "string \<Rightarrow> string \<Rightarrow> string \<Rightarrow> string \<Rightarrow> string \<Rightarrow> int \<Rightarrow> txn" where
  "new_txn userId assetCode amount type status now = \<lparr>tn_userId = userId, tn_assetCode = assetCode, tn_amount = amount, tn_type = type,
     tn_status = status, tn_externalId = None, tn_stellarTxId = None, tn_createdAt = now, tn_updatedAt = now, tn_feeAmount = Some ''0'',
     tn_feeAssetCode = None, tn_feeType = None, tn_senderInfo = None, tn_receiverInfo = None, tn_callbackUrl = None, tn_sep31Status = None,
     tn_requiredInfoMessage = None, tn_completedAt = None, tn_refunded = False, tn_quoteId = None, tn_quotePrice = None,
     tn_claimableBalanceId = None\<rparr>"

record user_row =
  ur_id :: string
  ur_email :: "string option"

datatype quote_status = QPending | QExecuted | QExpired

record quote_row =
  qr_sellAsset :: string
  qr_sellAmount :: string
  qr_buyAsset :: string
  qr_buyAmount :: string
  qr_price :: string
  qr_status :: quote_status
  qr_expiresAt :: "int option"

text \<open>What leaves the process: a status to the sockets of a user, a notification, the callback of a SEP-31 transaction, and a message on a
  channel of Redis.\<close>

datatype transfer_event =
    Emitted string string string
  | UserNotified string string string
  | CallbackFired string string
  | Published string string

text \<open>Users are keyed by their public key.\<close>

record 'w transfer_state =
  tf_txs :: "(string, txn) jsmap"
  tf_users :: "(string, user_row) jsmap"
  tf_quotes :: "(string, quote_row) jsmap"
  tf_events :: "transfer_event list"
  tf_fees :: "'w fee_state"

type_synonym ('w, 'a) transfers = "('w transfer_state, js_error, 'a) eff"

definition in_fees :: "('w, 'a) fees \<Rightarrow> ('w, 'a) transfers" where
  "in_fees m s = (case m (tf_fees s) of (r, f) \<Rightarrow> (r, s\<lparr>tf_fees := f\<rparr>))"

definition tdb :: "('b, 'w) fee_env \<Rightarrow> ('w, unit) transfers" where
  "tdb env = in_fees (fdb env)"

definition tclock :: "('b, 'w) fee_env \<Rightarrow> ('w, int) transfers" where
  "tclock env = in_fees (fclock env)"

definition tuuid :: "('b, 'w) fee_env \<Rightarrow> ('w, string) transfers" where
  "tuuid env = in_fees (fworld (\<lambda>w. case fe_uuid env w of (i, w) \<Rightarrow> (Inr i, w)))"

definition emit :: "transfer_event \<Rightarrow> ('w, unit) transfers" where
  "emit e = emodify (\<lambda>s. s\<lparr>tf_events := tf_events s @ [e]\<rparr>)"

section \<open>Quotes\<close>

definition find_quote :: "('b, 'w) fee_env \<Rightarrow> string \<Rightarrow> ('w, quote_row option) transfers" where
  "find_quote env quoteId = ebind (tdb env) (\<lambda>_. eget (\<lambda>s. js_get (tf_quotes s) quoteId))"

text \<open>The conditional update that consumes a quote, on the table: it counts the rows it changed.\<close>

definition claimable :: "int \<Rightarrow> quote_row \<Rightarrow> bool" where
  "claimable now q \<longleftrightarrow> qr_status q = QPending \<and> (case qr_expiresAt q of None \<Rightarrow> True | Some t \<Rightarrow> now < t)"

definition claim_rows :: "string \<Rightarrow> int \<Rightarrow> (string, quote_row) jsmap \<Rightarrow> nat \<times> (string, quote_row) jsmap" where
  "claim_rows quoteId now m = (case js_get m quoteId of
     Some q \<Rightarrow> if claimable now q then (1, js_set quoteId (q\<lparr>qr_status := QExecuted\<rparr>) m) else (0, m)
   | None \<Rightarrow> (0, m))"

definition claim_quote :: "('b, 'w) fee_env \<Rightarrow> string \<Rightarrow> int \<Rightarrow> ('w, nat) transfers" where
  "claim_quote env quoteId now = ebind (tdb env) (\<lambda>_ s. case claim_rows quoteId now (tf_quotes s) of (n, m) \<Rightarrow> (Inr n, s\<lparr>tf_quotes := m\<rparr>))"

definition stale_quote :: "int \<Rightarrow> quote_row \<Rightarrow> bool" where
  "stale_quote now q \<longleftrightarrow> qr_status q = QPending \<and> (case qr_expiresAt q of None \<Rightarrow> False | Some t \<Rightarrow> t \<le> now)"

definition expire_rows :: "int \<Rightarrow> (string, quote_row) jsmap \<Rightarrow> (string, quote_row) jsmap" where
  "expire_rows now = List.map (\<lambda>(i, q). (i, if stale_quote now q then q\<lparr>qr_status := QExpired\<rparr> else q))"

definition expireStaleQuotes :: "('b, 'w) fee_env \<Rightarrow> int \<Rightarrow> ('w, nat) transfers" where
  "expireStaleQuotes env now = ebind (tdb env) (\<lambda>_ s.
     (Inr (length (filter (\<lambda>(i, q). stale_quote now q) (tf_quotes s))), s\<lparr>tf_quotes := expire_rows now (tf_quotes s)\<rparr>))"

definition duplicate_key :: js_error where
  "duplicate_key = OtherErr ''PrismaClientKnownRequestError'' ''Unique constraint failed'' (Some ''P2002'') None None None None None"

definition record_missing :: js_error where
  "record_missing = OtherErr ''PrismaClientKnownRequestError'' ''Record to update not found.'' (Some ''P2025'') None None None None None"

definition insert_quote :: "('b, 'w) fee_env \<Rightarrow> quote_row \<Rightarrow> ('w, string) transfers" where
  "insert_quote env row = ebind (tdb env) (\<lambda>_. ebind (tuuid env) (\<lambda>quoteId. ebind (eget (\<lambda>s. js_get (tf_quotes s) quoteId)) (\<lambda>old.
     if old \<noteq> None then ethrow duplicate_key
     else ebind (emodify (\<lambda>s. s\<lparr>tf_quotes := js_set quoteId row (tf_quotes s)\<rparr>)) (\<lambda>_. ereturn quoteId))))"

section \<open>Transactions\<close>

text \<open>\<open>stellarTxId\<close> and \<open>externalId\<close> are unique.\<close>

definition taken :: "(txn \<Rightarrow> string option) \<Rightarrow> string \<Rightarrow> txn \<Rightarrow> (string, txn) jsmap \<Rightarrow> bool" where
  "taken f txId row m \<longleftrightarrow> f row \<noteq> None \<and> (\<exists>(i, r) \<in> set m. i \<noteq> txId \<and> f r = f row)"

definition unique_ok :: "string \<Rightarrow> txn \<Rightarrow> (string, txn) jsmap \<Rightarrow> bool" where
  "unique_ok txId row m \<longleftrightarrow> \<not> taken tn_stellarTxId txId row m \<and> \<not> taken tn_externalId txId row m"

text \<open>\<open>transaction.update\<close> by id; \<open>updatedAt\<close> is set by the client library.\<close>

definition update_txn :: "('b, 'w) fee_env \<Rightarrow> string \<Rightarrow> (txn \<Rightarrow> txn) \<Rightarrow> ('w, txn) transfers" where
  "update_txn env txId f = ebind (tdb env) (\<lambda>_. ebind (tclock env) (\<lambda>now. ebind (eget tf_txs) (\<lambda>m. case js_get m txId of
     None \<Rightarrow> ethrow record_missing
   | Some row \<Rightarrow> let row' = (f row)\<lparr>tn_updatedAt := now\<rparr> in
       if \<not> unique_ok txId row' m then ethrow duplicate_key
       else ebind (emodify (\<lambda>s. s\<lparr>tf_txs := js_set txId row' m\<rparr>)) (\<lambda>_. ereturn row'))))"

definition insert_txn :: "('b, 'w) fee_env \<Rightarrow> string \<Rightarrow> (int \<Rightarrow> txn) \<Rightarrow> ('w, txn) transfers" where
  "insert_txn env txId row = ebind (tdb env) (\<lambda>_. ebind (tclock env) (\<lambda>now. ebind (eget tf_txs) (\<lambda>m.
     if js_get m txId \<noteq> None then ethrow duplicate_key
     else ebind (emodify (\<lambda>s. s\<lparr>tf_txs := js_set txId (row now) m\<rparr>)) (\<lambda>_. ereturn (row now)))))"

text \<open>The user with a public key, created when there is none.\<close>

definition upsert_user :: "('b, 'w) fee_env \<Rightarrow> string \<Rightarrow> string option \<Rightarrow> ('w, user_row) transfers" where
  "upsert_user env publicKey email = ebind (tdb env) (\<lambda>_. ebind (eget (\<lambda>s. js_get (tf_users s) publicKey)) (\<lambda>u. case u of
     Some user \<Rightarrow> ereturn user
   | None \<Rightarrow> ebind (tuuid env) (\<lambda>i. let user = \<lparr>ur_id = i, ur_email = email\<rparr> in
       ebind (emodify (\<lambda>s. s\<lparr>tf_users := js_set publicKey user (tf_users s)\<rparr>)) (\<lambda>_. ereturn user))))"

section \<open>Reconciling with the ledger\<close>

definition STALE_AFTER_MS :: int where "STALE_AFTER_MS = 5 * 60 * 1000"

text \<open>What Horizon says of a hash: found, with its success; not there; or another error.\<close>

datatype ledger_answer = OnLedger bool | NotFound | LedgerError

definition pending_stellar :: "int \<Rightarrow> (string, txn) jsmap \<Rightarrow> (string \<times> string) list" where
  "pending_stellar cutoff m = List.map_filter (\<lambda>(i, t). case tn_stellarTxId t of
     Some h \<Rightarrow> if tn_status t = ''pending_stellar'' \<and> tn_updatedAt t < cutoff then Some (i, h) else None | None \<Rightarrow> None) m"

text \<open>One transaction: whether it was moved. Errors are caught, so that the next one is tried.\<close>

definition reconcile_one :: "('b, 'w) fee_env \<Rightarrow> (string \<Rightarrow> 'w \<Rightarrow> ledger_answer \<times> 'w) \<Rightarrow> string \<Rightarrow> string \<Rightarrow> ('w, bool) transfers" where
  "reconcile_one env ledger txId hash = ecatch
     (ebind (in_fees (fworld (\<lambda>w. case ledger hash w of (a, w) \<Rightarrow> (Inr a, w)))) (\<lambda>answer. case answer of
        OnLedger True \<Rightarrow> ebind (tclock env) (\<lambda>now. ebind (update_txn env txId (\<lambda>t. t\<lparr>tn_status := ''completed'', tn_sep31Status := Some ''completed'',
            tn_completedAt := Some now\<rparr>)) (\<lambda>t. ebind (emit (Emitted (tn_userId t) txId (tn_status t))) (\<lambda>_. ereturn True)))
      | OnLedger False \<Rightarrow> ebind (update_txn env txId (\<lambda>t. t\<lparr>tn_status := ''error'', tn_sep31Status := Some ''error'',
            tn_requiredInfoMessage := Some ''Stellar transaction failed on the network''\<rparr>)) (\<lambda>t.
            ebind (emit (Emitted (tn_userId t) txId (tn_status t))) (\<lambda>_. ereturn True))
      | NotFound \<Rightarrow> ereturn False
      | LedgerError \<Rightarrow> ereturn False))
     (\<lambda>_. ereturn False)"

definition reconcile :: "('b, 'w) fee_env \<Rightarrow> (string \<Rightarrow> 'w \<Rightarrow> ledger_answer \<times> 'w) \<Rightarrow> ('w, nat) transfers" where
  "reconcile env ledger = ebind (tclock env) (\<lambda>now. ebind (tdb env) (\<lambda>_. ebind (eget tf_txs) (\<lambda>m.
     ebind (eff_list (\<lambda>(i, h). reconcile_one env ledger i h) (pending_stellar (now - STALE_AFTER_MS) m)) (\<lambda>moved.
     ereturn (length (filter id moved))))))"

end
