(* ===== verification/Sep31.thy ===== *)
theory Sep31
  imports Transfers
begin

text \<open>
  SEP-31 cross-border payments: \<open>config/sep31Fields.ts\<close>, \<open>services/sep31.service.ts\<close> and \<open>api/controllers/sep31.controller.ts\<close>. The callback
  itself is \<open>notifySep31\<close> of theory \<open>Webhook_Workers\<close>; here it is an event. The texts of the amount limits in a message are those of
  the configuration, which are what \<open>Number\<close> prints for them.
\<close>

section \<open>Configuration\<close>

record field_definition =
  fd_description :: string
  fd_optional :: bool

type_synonym field_map = "(string \<times> field_definition) list"

record sep31_asset =
  sx_enabled :: bool
  sx_minAmount :: jsnum
  sx_maxAmount :: jsnum
  sx_minText :: string
  sx_maxText :: string
  sx_feeType :: fee_type
  sx_feeFixed :: jsnum
  sx_feePercent :: jsnum
  sx_senderInfo :: field_map
  sx_receiverInfo :: field_map

definition described :: "string \<Rightarrow> string \<Rightarrow> bool \<Rightarrow> string \<times> field_definition" where
  "described name description optional = (name, \<lparr>fd_description = description, fd_optional = optional\<rparr>)"

text \<open>The limits and fees come from the shared configuration of the asset, or from the defaults.\<close>

definition sep31_asset_of :: "string \<Rightarrow> sep31_asset" where
  "sep31_asset_of code = (let a = js_get ASSET_MAP code; minText = (case a of Some a \<Rightarrow> as_minAmount a | None \<Rightarrow> ''1'');
       maxText = (case a of Some a \<Rightarrow> as_maxAmount a | None \<Rightarrow> ''1000000'') in
     \<lparr>sx_enabled = True, sx_minAmount = number_of_text minText, sx_maxAmount = number_of_text maxText, sx_minText = minText, sx_maxText = maxText,
      sx_feeType = (case a of Some a \<Rightarrow> as_feeType a | None \<Rightarrow> Tiered),
      sx_feeFixed = (case a of Some a \<Rightarrow> as_feeFixed a | None \<Rightarrow> round64 (5 / 10)),
      sx_feePercent = (case a of Some a \<Rightarrow> as_feePercent a | None \<Rightarrow> round64 (5 / 1000)),
      sx_senderInfo = [described ''first_name'' ''Sender's first name'' False, described ''last_name'' ''Sender's last name'' False,
        described ''email_address'' ''Sender's email address'' False],
      sx_receiverInfo = [described ''first_name'' ''Receiver's first name'' False, described ''last_name'' ''Receiver's last name'' False,
        described ''bank_account_number'' ''Receiver's bank account number'' True]\<rparr>)"

definition SEP31_ASSET_FIELDS :: "(string, sep31_asset) jsmap" where
  "SEP31_ASSET_FIELDS = [(''USDC'', sep31_asset_of ''USDC''), (''USD'', sep31_asset_of ''USD'')]"

definition getSep31AssetConfig :: "string \<Rightarrow> sep31_asset option" where
  "getSep31AssetConfig code = js_get SEP31_ASSET_FIELDS (upper_text (trim_js code))"

definition isSep31AssetSupported :: "string \<Rightarrow> bool" where
  "isSep31AssetSupported code = (case getSep31AssetConfig code of Some a \<Rightarrow> sx_enabled a | None \<Rightarrow> False)"

section \<open>Creating a transaction\<close>

definition VALID_SEP31_STATUSES :: "string list" where
  "VALID_SEP31_STATUSES = [''pending_sender'', ''pending_stellar'', ''pending_info_update'', ''pending_receiver'', ''pending_external'',
     ''completed'', ''error'', ''refunded'']"

record sep31_input =
  si_assetCode :: string
  si_amount :: string
  si_senderInfo :: "(string \<times> string) list"
  si_receiverInfo :: "(string \<times> string) list"
  si_callbackUrl :: "string option"
  si_userPublicKey :: "string option"
  si_quoteId :: "string option"

definition collectMissingFields :: "(string \<times> string) list \<Rightarrow> field_map \<Rightarrow> string list" where
  "collectMissingFields provided required = List.map fst (filter (\<lambda>(key, d). \<not> fd_optional d
     \<and> (case js_get provided key of None \<Rightarrow> True | Some v \<Rightarrow> trim_js v = [])) required)"

text \<open>The checks of the request: the asset, the bounds of the amount, the fields of the sender and of the receiver.\<close>

definition check_request :: "sep31_input \<Rightarrow> js_error + sep31_asset \<times> jsnum" where
  "check_request input = (case getSep31AssetConfig (si_assetCode input) of
     None \<Rightarrow> Inl (PlainError ''unsupported asset'')
   | Some cfg \<Rightarrow> if \<not> sx_enabled cfg then Inl (PlainError ''unsupported asset'')
       else let numericAmount = parseFloat (si_amount input);
                missingSender = collectMissingFields (si_senderInfo input) (sx_senderInfo cfg);
                missingReceiver = collectMissingFields (si_receiverInfo input) (sx_receiverInfo cfg) in
       if numericAmount = NaN \<or> js_less numericAmount (sx_minAmount cfg) \<or> js_less (sx_maxAmount cfg) numericAmount
       then Inl (PlainError (''amount out of range: '' @ sx_minText cfg @ '' to '' @ sx_maxText cfg))
       else if missingSender \<noteq> [] then Inl (PlainError (''Missing sender_info fields: '' @ join_with '', '' missingSender))
       else if missingReceiver \<noteq> [] then Inl (PlainError (''Missing receiver_info fields: '' @ join_with '', '' missingReceiver))
       else Inr (cfg, numericAmount))"

text \<open>What the quote that was read allows.\<close>

definition check_quote :: "string \<Rightarrow> int \<Rightarrow> quote_row option \<Rightarrow> js_error + quote_row" where
  "check_quote quoteId now found = (case found of
     None \<Rightarrow> Inl (PlainError (''quote_not_found: quote '' @ quoteId @ '' does not exist''))
   | Some quote \<Rightarrow> if qr_status quote = QExpired \<or> (case qr_expiresAt quote of Some t \<Rightarrow> t < now | None \<Rightarrow> False)
       then Inl (PlainError (''quote_expired: quote '' @ quoteId @ '' expired at '' @ (case qr_expiresAt quote of Some t \<Rightarrow> iso_string t | None \<Rightarrow> ''unknown'')))
       else if qr_status quote = QExecuted then Inl (PlainError (''quote_already_used: quote '' @ quoteId @ '' has already been executed''))
       else Inr quote)"

text \<open>Reading the quote and consuming it are two statements, with the clock of the first.\<close>

definition lock_quote :: "('b, 'w) fee_env \<Rightarrow> string \<Rightarrow> ('w, string) transfers" where
  "lock_quote env quoteId = ebind (find_quote env quoteId) (\<lambda>found. ebind (tclock env) (\<lambda>now. ebind (elift (check_quote quoteId now found)) (\<lambda>quote.
     ebind (claim_quote env quoteId now) (\<lambda>count.
     if count = 0 then ethrow (PlainError (''quote_expired: quote '' @ quoteId @ '' is no longer available''))
     else ereturn (qr_price quote)))))"

definition lock_quote_if :: "('b, 'w) fee_env \<Rightarrow> string option \<Rightarrow> ('w, string option) transfers" where
  "lock_quote_if env quoteId = (case truthy_str quoteId of None \<Rightarrow> ereturn None | Some q \<Rightarrow> ebind (lock_quote env q) (\<lambda>p. ereturn (Some p)))"

text \<open>The fee is not critical: a failure leaves it out.\<close>

definition sep31_fee :: "('b, 'w) fee_env \<Rightarrow> string \<Rightarrow> jsnum \<Rightarrow> ('w, string option) transfers" where
  "sep31_fee env assetCode amount = ecatch
     (ebind (in_fees (calculateAssetFee env assetCode (NumV amount) None)) (\<lambda>r. ereturn (Some (num_toFixed 7 (af_feeAmount r)))))
     (\<lambda>_. ereturn None)"

definition lower_letters :: "string \<Rightarrow> string" where
  "lower_letters s = List.map to_lower s"

definition system_email :: "string \<Rightarrow> string" where
  "system_email publicKey = (if publicKey = ''SEP31_SYSTEM'' then ''sep31@system.internal'' else lower_letters publicKey @ ''@system.internal'')"

definition string_fields :: "(string \<times> string) list \<Rightarrow> (string \<times> json) list" where
  "string_fields = List.map (\<lambda>(k, v). (k, JStr v))"

definition sep31_row :: "sep31_input \<Rightarrow> string \<Rightarrow> string option \<Rightarrow> string option \<Rightarrow> int \<Rightarrow> txn" where
  "sep31_row input userId feeAmount quotePrice now =
     (new_txn userId (upper_text (si_assetCode input)) (si_amount input) ''SEP31'' ''pending_sender'' now)
       \<lparr>tn_feeAmount := feeAmount, tn_sep31Status := Some ''pending_sender'', tn_senderInfo := Some (string_fields (si_senderInfo input)),
        tn_receiverInfo := Some (string_fields (si_receiverInfo input)), tn_callbackUrl := si_callbackUrl input,
        tn_quoteId := si_quoteId input, tn_quotePrice := quotePrice\<rparr>"

definition persist_sep31 :: "('b, 'w) fee_env \<Rightarrow> sep31_input \<Rightarrow> string option \<Rightarrow> string option \<Rightarrow> ('w, string) transfers" where
  "persist_sep31 env input feeAmount quotePrice = ebind (tuuid env) (\<lambda>txId.
     let targetPublicKey = (case truthy_str (si_userPublicKey input) of Some k \<Rightarrow> k | None \<Rightarrow> ''SEP31_SYSTEM'') in
     ebind (upsert_user env targetPublicKey (Some (system_email targetPublicKey))) (\<lambda>user.
     ebind (insert_txn env txId (sep31_row input (ur_id user) feeAmount quotePrice)) (\<lambda>_. ereturn txId)))"

record sep31_created =
  sc_id :: string
  sc_stellarAccountId :: string

definition default_account :: string where
  "default_account = ''GB7KUA47QKRI6Q6X7C3HOC2HEP6VJQRQWQYQF66VJPHJRVMEDJOVML6K''"

definition createTransaction :: "('b, 'w) fee_env \<Rightarrow> string option \<Rightarrow> sep31_input \<Rightarrow> ('w, sep31_created) transfers" where
  "createTransaction env accountId input = ebind (elift (check_request input)) (\<lambda>(cfg, numericAmount).
     ebind (lock_quote_if env (si_quoteId input)) (\<lambda>quotePrice.
     ebind (sep31_fee env (si_assetCode input) numericAmount) (\<lambda>feeAmount.
     ebind (persist_sep31 env input feeAmount quotePrice) (\<lambda>txId.
     ereturn \<lparr>sc_id = txId, sc_stellarAccountId = (case truthy_str accountId of Some a \<Rightarrow> a | None \<Rightarrow> default_account)\<rparr>))))"

section \<open>Reading and updating\<close>

record sep31_tx =
  st_id :: string
  st_status :: string
  st_assetCode :: string
  st_amount :: string
  st_amountOut :: "string option"
  st_amountFee :: "string option"
  st_stellarTransactionId :: "string option"
  st_externalTransactionId :: "string option"
  st_senderInfo :: "(string \<times> json) list"
  st_receiverInfo :: "(string \<times> json) list"
  st_callbackUrl :: "string option"
  st_requiredInfoMessage :: "string option"
  st_refunded :: bool
  st_startedAt :: string
  st_completedAt :: "string option"
  st_lastStatusUpdate :: "string option"

definition mapToSep31Transaction :: "string \<Rightarrow> txn \<Rightarrow> sep31_tx" where
  "mapToSep31Transaction txId r = \<lparr>st_id = txId, st_status = (case tn_sep31Status r of Some s \<Rightarrow> s | None \<Rightarrow> tn_status r),
     st_assetCode = tn_assetCode r, st_amount = tn_amount r,
     st_amountOut = (case (truthy_str (Some (tn_amount r)), truthy_str (tn_feeAmount r)) of
        (Some a, Some f) \<Rightarrow> Some (num_toFixed 2 (js_sub (parseFloat a) (parseFloat f))) | _ \<Rightarrow> None),
     st_amountFee = tn_feeAmount r, st_stellarTransactionId = tn_stellarTxId r, st_externalTransactionId = tn_externalId r,
     st_senderInfo = (case tn_senderInfo r of Some m \<Rightarrow> m | None \<Rightarrow> []), st_receiverInfo = (case tn_receiverInfo r of Some m \<Rightarrow> m | None \<Rightarrow> []),
     st_callbackUrl = tn_callbackUrl r, st_requiredInfoMessage = tn_requiredInfoMessage r, st_refunded = tn_refunded r,
     st_startedAt = iso_string (tn_createdAt r), st_completedAt = map_option iso_string (tn_completedAt r),
     st_lastStatusUpdate = Some (iso_string (tn_updatedAt r))\<rparr>"

definition getTransaction :: "('b, 'w) fee_env \<Rightarrow> string \<Rightarrow> ('w, sep31_tx option) transfers" where
  "getTransaction env txId = ebind (tdb env) (\<lambda>_. ebind (eget (\<lambda>s. js_get (tf_txs s) txId)) (\<lambda>found. case found of
     Some r \<Rightarrow> ereturn (if tn_type r = ''SEP31'' then Some (mapToSep31Transaction txId r) else None)
   | None \<Rightarrow> ereturn None))"

record sep31_extra =
  ex_stellarTxId :: "string option"
  ex_externalId :: "string option"
  ex_feeAmount :: "string option"

definition no_extra :: sep31_extra where
  "no_extra = \<lparr>ex_stellarTxId = None, ex_externalId = None, ex_feeAmount = None\<rparr>"

definition keep_or :: "string option \<Rightarrow> string option \<Rightarrow> string option" where
  "keep_or old new = (case truthy_str new of Some v \<Rightarrow> Some v | None \<Rightarrow> old)"

definition status_update :: "string \<Rightarrow> string option \<Rightarrow> sep31_extra \<Rightarrow> int \<Rightarrow> txn \<Rightarrow> txn" where
  "status_update status message extra now r = r\<lparr>tn_sep31Status := Some status, tn_status := status,
     tn_completedAt := (if status = ''completed'' then Some now else tn_completedAt r),
     tn_requiredInfoMessage := (if status = ''error'' then keep_or (tn_requiredInfoMessage r) message else tn_requiredInfoMessage r),
     tn_stellarTxId := keep_or (tn_stellarTxId r) (ex_stellarTxId extra), tn_externalId := keep_or (tn_externalId r) (ex_externalId extra),
     tn_feeAmount := keep_or (tn_feeAmount r) (ex_feeAmount extra)\<rparr>"

definition check_status :: "string \<Rightarrow> string option \<Rightarrow> js_error + unit" where
  "check_status status message =
     (if status \<notin> set VALID_SEP31_STATUSES then Inl (PlainError (''Invalid status: '' @ status))
      else if status = ''error'' \<and> (case truthy_str message of None \<Rightarrow> True | Some m \<Rightarrow> trim_js m = [])
      then Inl (PlainError ''A non-empty message is required when setting status to \"error\"'')
      else Inr ())"

text \<open>\<open>replace\<close> with a text replaces its first occurrence.\<close>

fun replace_char :: "char \<Rightarrow> char \<Rightarrow> string \<Rightarrow> string" where
  "replace_char a b [] = []"
| "replace_char a b (c # cs) = (if c = a then b # cs else c # replace_char a b cs)"

definition updateStatus :: "('b, 'w) fee_env \<Rightarrow> bool \<Rightarrow> string \<Rightarrow> string \<Rightarrow> string option \<Rightarrow> sep31_extra \<Rightarrow> ('w, sep31_tx) transfers" where
  "updateStatus env has_notifier txId status message extra = ebind (elift (check_status status message)) (\<lambda>_.
     ebind (tclock env) (\<lambda>now. ebind (update_txn env txId (status_update status message extra now)) (\<lambda>updated.
     let tx = mapToSep31Transaction txId updated in
     ebind (emit (Emitted (tn_userId updated) txId (tn_status updated))) (\<lambda>_.
     ebind (emit (UserNotified (tn_userId updated)
        (''Your transaction '' @ txId @ '' status updated to: '' @ replace_char (CHR ''_'') (CHR '' '') status) txId)) (\<lambda>_.
     ebind (if truthy_str (st_callbackUrl tx) \<noteq> None \<and> has_notifier then emit (CallbackFired txId status) else ereturn ()) (\<lambda>_.
     ereturn tx))))))"

section \<open>The endpoints\<close>

record sep31_body =
  sb_asset_code :: "string option"
  sb_amount :: "string option"
  sb_sender_info :: "(string \<times> string) list option"
  sb_receiver_info :: "(string \<times> string) list option"
  sb_callback :: "string option"
  sb_quote_id :: "string option"

datatype sep31_response =
    Sep31Error int string
  | Sep31Created string string
  | Sep31Shown sep31_tx

definition known_prefixes :: "string list" where
  "known_prefixes = [''amount out of range'', ''Missing sender_info'', ''Missing receiver_info'', ''quote_not_found'', ''quote_expired'', ''quote_already_used'']"

fun has_infix :: "string \<Rightarrow> string \<Rightarrow> bool" where
  "has_infix p [] = (p = [])"
| "has_infix p (c # cs) = (starts_with p (c # cs) \<or> has_infix p cs)"

definition error_response_of :: "js_error \<Rightarrow> sep31_response" where
  "error_response_of err = (case error_message err of None \<Rightarrow> Sep31Error 500 ''internal server error'' | Some msg \<Rightarrow>
     if msg = ''unsupported asset'' \<or> (\<exists>p \<in> set known_prefixes. starts_with p msg) then Sep31Error 400 msg
     else if has_infix ''forbidden'' (lower_letters msg) \<or> has_infix ''unauthorized'' (lower_letters msg) then Sep31Error 403 ''Forbidden''
     else Sep31Error 500 ''internal server error'')"

definition create_endpoint :: "('b, 'w) fee_env \<Rightarrow> string option \<Rightarrow> string option \<Rightarrow> sep31_body \<Rightarrow> ('w, sep31_response) transfers" where
  "create_endpoint env accountId publicKey body =
     (case truthy_str (sb_asset_code body) of None \<Rightarrow> ereturn (Sep31Error 400 ''asset_code is required'') | Some asset_code \<Rightarrow>
     (case truthy_str (sb_amount body) of None \<Rightarrow> ereturn (Sep31Error 400 ''amount is required'') | Some amount \<Rightarrow>
     (case sb_sender_info body of None \<Rightarrow> ereturn (Sep31Error 400 ''sender_info is required'') | Some sender_info \<Rightarrow>
     (case sb_receiver_info body of None \<Rightarrow> ereturn (Sep31Error 400 ''receiver_info is required'') | Some receiver_info \<Rightarrow>
       ecatch (ebind (createTransaction env accountId \<lparr>si_assetCode = asset_code, si_amount = amount, si_senderInfo = sender_info,
           si_receiverInfo = receiver_info, si_callbackUrl = sb_callback body, si_userPublicKey = publicKey, si_quoteId = sb_quote_id body\<rparr>)
         (\<lambda>r. ereturn (Sep31Created (sc_id r) (sc_stellarAccountId r))))
         (\<lambda>err. ereturn (error_response_of err))))))"

definition get_endpoint :: "('b, 'w) fee_env \<Rightarrow> string \<Rightarrow> ('w, sep31_response) transfers" where
  "get_endpoint env txId = ecatch (ebind (getTransaction env txId) (\<lambda>found. case found of
       None \<Rightarrow> ereturn (Sep31Error 404 ''Transaction not found'') | Some tx \<Rightarrow> ereturn (Sep31Shown tx)))
     (\<lambda>_. ereturn (Sep31Error 500 ''internal server error''))"

datatype sep31_info = InfoDisabled string | InfoEnabled string jsnum jsnum jsnum jsnum field_map field_map

definition getInfo :: "sep31_info list" where
  "getInfo = List.map (\<lambda>(code, c). if \<not> sx_enabled c then InfoDisabled code
     else InfoEnabled code (sx_minAmount c) (sx_maxAmount c) (sx_feeFixed c) (sx_feePercent c) (sx_senderInfo c) (sx_receiverInfo c)) SEP31_ASSET_FIELDS"

end
