(* ===== verification/Transfer_Props.thy ===== *)
theory Transfer_Props
  imports Sep31
begin

text \<open>
  The properties of the shared tables (theory \<open>Transfers\<close>): a quote is consumed at most once however requests overlap, and the
  reconciliation touches stale transactions only.
\<close>

section \<open>The statements on quotes, in any order\<close>

text \<open>The statements that any number of requests and the scheduler of stale quotes make on the table, each atomic.\<close>

datatype quote_call = ClaimQuote string int | ExpireQuotes int | InsertQuote string quote_row

definition quote_step :: "(string, quote_row) jsmap \<Rightarrow> quote_call \<Rightarrow> (string, quote_row) jsmap" where
  "quote_step m c = (case c of
     ClaimQuote q now \<Rightarrow> snd (claim_rows q now m)
   | ExpireQuotes now \<Rightarrow> expire_rows now m
   | InsertQuote q row \<Rightarrow> if js_get m q \<noteq> None then m else js_set q row m)"

lemma expire_get: "js_get (expire_rows now m) i = map_option (\<lambda>q. if stale_quote now q then q\<lparr>qr_status := QExpired\<rparr> else q) (js_get m i)"
  by (induction m) (auto simp: expire_rows_def)

lemma expire_keys: "js_keys (expire_rows now m) = js_keys m"
  by (induction m) (auto simp: expire_rows_def)

definition quote_state :: "(string, quote_row) jsmap \<Rightarrow> string \<Rightarrow> quote_status option" where
  "quote_state m i = map_option qr_status (js_get m i)"

interpretation quote_table: terminal_machine quote_step js_wf quote_state "\<lambda>st. st \<noteq> QPending"
proof
  fix m :: "(string, quote_row) jsmap" and c assume w: "js_wf m"
  show "js_wf (quote_step m c)"
    using w expire_keys by (auto simp: quote_step_def claim_rows_def js_wf_def [of "expire_rows _ _"] split: quote_call.splits option.splits)
      (auto simp: js_wf_def)
  fix i x assume "quote_state m i = Some x" "x \<noteq> QPending"
  then show "quote_state (quote_step m c) i = Some x"
    by (auto simp: quote_state_def quote_step_def claim_rows_def claimable_def expire_get stale_quote_def split: quote_call.splits option.splits)
qed

text \<open>How many claims of a quote succeed in a sequence of statements.\<close>

fun quote_claims :: "string \<Rightarrow> (string, quote_row) jsmap \<Rightarrow> quote_call list \<Rightarrow> nat" where
  "quote_claims q m [] = 0"
| "quote_claims q m (c # cs) = (case c of ClaimQuote p now \<Rightarrow> if p = q then fst (claim_rows q now m) else 0 | _ \<Rightarrow> 0)
     + quote_claims q (quote_step m c) cs"

lemma used_quote_claims: "js_wf m \<Longrightarrow> quote_state m q = Some st \<Longrightarrow> st \<noteq> QPending \<Longrightarrow> quote_claims q m cs = 0"
proof (induction cs arbitrary: m)
  case (Cons c cs)
  have "quote_claims q (quote_step m c) cs = 0"
    using Cons.IH quote_table.step_inv [OF Cons.prems(1)] quote_table.step_terminal [OF Cons.prems] Cons.prems(3) by blast
  moreover have "fst (claim_rows q now m) = 0" for now
    using Cons.prems by (auto simp: claim_rows_def quote_state_def claimable_def split: option.splits)
  ultimately show ?case by (auto split: quote_call.splits)
qed simp

lemma claim_result: "fst (claim_rows q now m) \<le> 1 \<and> (fst (claim_rows q now m) = 1 \<longrightarrow> quote_state (snd (claim_rows q now m)) q = Some QExecuted)"
  by (auto simp: claim_rows_def quote_state_def split: option.splits)

text \<open>C22. A quote is executed by at most one payment: in every interleaving of the claims of any number of requests with the expiry of stale
  quotes and the creation of others, at most one claim of a quote succeeds.\<close>

theorem quote_claimed_once:
  assumes "js_wf m"
  shows "quote_claims q m cs \<le> 1"
  using assms
proof (induction cs arbitrary: m)
  case (Cons c cs)
  show ?case
  proof (cases "\<exists>now. c = ClaimQuote q now \<and> fst (claim_rows q now m) = 1")
    case True
    then obtain now where c: "c = ClaimQuote q now" "fst (claim_rows q now m) = 1" by blast
    then have "quote_state (quote_step m c) q = Some QExecuted" using claim_result [of q now m] by (simp add: quote_step_def)
    then have "quote_claims q (quote_step m c) cs = 0" using used_quote_claims quote_table.step_inv [OF Cons.prems] by blast
    then show ?thesis using c by simp
  next
    case False
    then have "(case c of ClaimQuote p now \<Rightarrow> if p = q then fst (claim_rows q now m) else 0 | _ \<Rightarrow> 0) = 0"
      using claim_result [of q _ m] by (auto split: quote_call.splits) (metis le_0_eq le_SucE One_nat_def)
    then show ?thesis using Cons.IH [OF quote_table.step_inv [OF Cons.prems]] by simp
  qed
qed simp

definition demo_quote :: quote_row where
  "demo_quote = \<lparr>qr_sellAsset = ''USDC'', qr_sellAmount = ''10'', qr_buyAsset = ''XLM'', qr_buyAmount = ''80'', qr_price = ''8.0'',
     qr_status = QPending, qr_expiresAt = Some 1000\<rparr>"

theorem quote_claimed_once_witness:
  "quote_claims ''q'' [(''q'', demo_quote)] [ClaimQuote ''q'' 5, ExpireQuotes 2000, ClaimQuote ''q'' 6] = 1"
proof -
  have "quote_claims ''q'' [(''q'', demo_quote)] [ClaimQuote ''q'' 5, ExpireQuotes 2000, ClaimQuote ''q'' 6] \<le> 1"
    by (rule quote_claimed_once) (simp add: js_wf_def)
  moreover have "fst (claim_rows ''q'' 5 [(''q'', demo_quote)]) = 1" by (simp add: claim_rows_def claimable_def demo_quote_def)
  ultimately show ?thesis by simp
qed

section \<open>What the statements keep\<close>

lemma in_fees_keeps: "(\<And>s f. g (s\<lparr>tf_fees := f\<rparr>) = g s) \<Longrightarrow> keeps g (in_fees m)"
  by (simp add: keeps_def in_fees_def split_beta)

lemma db_keeps: "(\<And>s f. g (s\<lparr>tf_fees := f\<rparr>) = g s) \<Longrightarrow> keeps g (tdb env)" "(\<And>s f. g (s\<lparr>tf_fees := f\<rparr>) = g s) \<Longrightarrow> keeps g (tclock env)"
  "(\<And>s f. g (s\<lparr>tf_fees := f\<rparr>) = g s) \<Longrightarrow> keeps g (tuuid env)"
  by (simp_all add: tdb_def tclock_def tuuid_def in_fees_keeps)

text \<open>A statement that writes: what it changed.\<close>

lemma update_result:
  assumes "update_txn env i f s = (r, s')"
  shows "tf_quotes s' = tf_quotes s \<and> tf_users s' = tf_users s \<and> tf_events s' = tf_events s \<and> (case r of Inl _ \<Rightarrow> tf_txs s' = tf_txs s
    | Inr row \<Rightarrow> \<exists>old now. js_get (tf_txs s) i = Some old \<and> row = (f old)\<lparr>tn_updatedAt := now\<rparr> \<and> tf_txs s' = js_set i row (tf_txs s))"
proof -
  obtain r1 s1 where 1: "tdb env s = (r1, s1)" by fastforce
  have k1: "tf_quotes s1 = tf_quotes s" "tf_users s1 = tf_users s" "tf_events s1 = tf_events s" "tf_txs s1 = tf_txs s"
    using 1 by (auto simp: tdb_def in_fees_def split: prod.splits)
  show ?thesis
  proof (cases r1)
    case (Inl e)
    then show ?thesis using assms 1 k1 by (auto simp: update_txn_def ebind_def)
  next
    case (Inr u)
    obtain r2 s2 where 2: "tclock env s1 = (r2, s2)" by fastforce
    have k2: "tf_quotes s2 = tf_quotes s" "tf_users s2 = tf_users s" "tf_events s2 = tf_events s" "tf_txs s2 = tf_txs s"
      using 2 k1 by (auto simp: tclock_def in_fees_def split: prod.splits)
    show ?thesis using assms 1 2 k2 Inr
      by (auto simp: update_txn_def ebind_def eget_def ethrow_def emodify_def ereturn_def Let_def split: sum.splits option.splits if_splits)
  qed
qed

lemma call_result:
  assumes "in_fees m s = (r, s')"
  shows "tf_quotes s' = tf_quotes s \<and> tf_users s' = tf_users s \<and> tf_events s' = tf_events s \<and> tf_txs s' = tf_txs s"
  using assms by (auto simp: in_fees_def split: prod.splits)

lemmas statement_results = call_result [of "fdb _", folded tdb_def] call_result [of "fclock _", folded tclock_def]
  call_result [of "fworld _"] update_result

section \<open>Reconciling\<close>

text \<open>The row after a reconciliation is the row before, or a stale one that was moved.\<close>

definition moved_row :: "int \<Rightarrow> txn \<Rightarrow> txn \<Rightarrow> bool" where
  "moved_row cutoff old new \<longleftrightarrow> tn_status old = ''pending_stellar'' \<and> tn_updatedAt old < cutoff \<and> tn_stellarTxId old \<noteq> None
     \<and> tn_status new \<in> {''completed'', ''error''} \<and> tn_sep31Status new = Some (tn_status new) \<and> tn_amount new = tn_amount old
     \<and> tn_userId new = tn_userId old \<and> tn_stellarTxId new = tn_stellarTxId old"

definition only_moved :: "int \<Rightarrow> (string, txn) jsmap \<Rightarrow> (string, txn) jsmap \<Rightarrow> bool" where
  "only_moved cutoff m m' \<longleftrightarrow> (\<forall>i. case js_get m i of None \<Rightarrow> js_get m' i = None
     | Some old \<Rightarrow> (\<exists>new. js_get m' i = Some new \<and> (new = old \<or> moved_row cutoff old new)))"

definition settled :: "string \<Rightarrow> (string, txn) jsmap \<Rightarrow> (string, txn) jsmap \<Rightarrow> bool" where
  "settled i m m' \<longleftrightarrow> m' = m \<or> (\<exists>old new. js_get m i = Some old \<and> m' = js_set i new m
     \<and> tn_status new \<in> {''completed'', ''error''} \<and> tn_sep31Status new = Some (tn_status new) \<and> tn_amount new = tn_amount old
     \<and> tn_userId new = tn_userId old \<and> tn_stellarTxId new = tn_stellarTxId old)"

lemma settled_same [simp]: "settled i m m"
  by (simp add: settled_def)

lemma settled_set:
  "(case js_get m i of None \<Rightarrow> False | Some old \<Rightarrow> tn_status new \<in> {''completed'', ''error''} \<and> tn_sep31Status new = Some (tn_status new)
    \<and> tn_amount new = tn_amount old \<and> tn_userId new = tn_userId old \<and> tn_stellarTxId new = tn_stellarTxId old) \<Longrightarrow> settled i m (js_set i new m)"
  unfolding settled_def by (cases "js_get m i") auto

lemma reconcile_one_result:
  assumes "reconcile_one env ledger i h s = (r, s')"
  shows "settled i (tf_txs s) (tf_txs s') \<and> (\<exists>b. r = Inr b)"
  using assms unfolding reconcile_one_def ecatch_def ebind_def
  by (auto split: prod.splits sum.splits ledger_answer.splits bool.splits simp: emit_def emodify_def ereturn_def
    dest!: call_result [of "fworld _"] call_result [of "fclock _", folded tclock_def] update_result intro!: settled_set)

lemma pending_mem: "(i, h) \<in> set (pending_stellar cutoff m) \<Longrightarrow> js_wf m \<Longrightarrow>
    \<exists>t. js_get m i = Some t \<and> tn_status t = ''pending_stellar'' \<and> tn_updatedAt t < cutoff \<and> tn_stellarTxId t \<noteq> None"
proof -
  assume a: "(i, h) \<in> set (pending_stellar cutoff m)" "js_wf m"
  then obtain t where "(i, t) \<in> set m" "tn_status t = ''pending_stellar''" "tn_updatedAt t < cutoff" "tn_stellarTxId t \<noteq> None"
    by (auto simp: pending_stellar_def List.map_filter_def split: option.splits if_splits)
  then show ?thesis using a(2) by (auto simp: js_wf_mem)
qed

lemma pending_distinct: "js_wf m \<Longrightarrow> distinct (List.map fst (pending_stellar cutoff m))"
proof (induction m)
  case (Cons p m)
  obtain i t where p: "p = (i, t)" by (cases p)
  have "set (List.map fst (pending_stellar cutoff m)) \<subseteq> set (js_keys m)"
    by (force simp: pending_stellar_def List.map_filter_def split: option.splits if_splits)
  moreover have "i \<notin> set (js_keys m)" "js_wf m" using Cons.prems p by (simp_all add: js_wf_def)
  moreover have "pending_stellar cutoff (p # m) \<in> {pending_stellar cutoff m} \<union> range (\<lambda>h. (i, h) # pending_stellar cutoff m)"
    by (auto simp: p pending_stellar_def List.map_filter_simps split: option.splits)
  ultimately show ?case using Cons.IH by auto
qed (simp add: pending_stellar_def List.map_filter_simps)

lemma settled_moves:
  assumes "settled i m m'" "only_moved cutoff m0 m" "js_get m0 i = Some t" "js_get m i = Some t" "tn_status t = ''pending_stellar''"
    "tn_updatedAt t < cutoff" "tn_stellarTxId t \<noteq> None"
  shows "only_moved cutoff m0 m' \<and> (\<forall>j. j \<noteq> i \<longrightarrow> js_get m' j = js_get m j)"
  using assms(1)
proof (unfold settled_def, elim disjE exE conjE)
  assume "m' = m"
  then show ?thesis using assms(2) by simp
next
  fix old new assume n: "js_get m i = Some old" "m' = js_set i new m" "tn_status new \<in> {''completed'', ''error''}" "tn_sep31Status new = Some (tn_status new)"
    "tn_amount new = tn_amount old" "tn_userId new = tn_userId old" "tn_stellarTxId new = tn_stellarTxId old"
  then have "moved_row cutoff t new" using assms(4-7) by (simp add: moved_row_def)
  moreover have "only_moved cutoff m0 (js_set i new m)" if "moved_row cutoff t new"
    unfolding only_moved_def
  proof
    fix j
    show "case js_get m0 j of None \<Rightarrow> js_get (js_set i new m) j = None
        | Some old \<Rightarrow> \<exists>n. js_get (js_set i new m) j = Some n \<and> (n = old \<or> moved_row cutoff old n)"
      using assms(2, 3) that unfolding only_moved_def by (cases "j = i") (auto dest!: spec [of _ j] split: option.splits)
  qed
  ultimately show ?thesis using n(2) by simp
qed

lemma reconcile_list:
  assumes "eff_list (\<lambda>(i, h). reconcile_one env ledger i h) xs s = (r, s')" "only_moved cutoff m0 (tf_txs s)" "distinct (List.map fst xs)"
    "\<And>i h. (i, h) \<in> set xs \<Longrightarrow> js_get (tf_txs s) i = js_get m0 i \<and> (\<exists>t. js_get m0 i = Some t \<and> tn_status t = ''pending_stellar''
       \<and> tn_updatedAt t < cutoff \<and> tn_stellarTxId t \<noteq> None)"
  shows "only_moved cutoff m0 (tf_txs s') \<and> (\<exists>bs. r = Inr bs)"
  using assms
proof (induction xs arbitrary: s r)
  case Nil
  then show ?case by (auto simp: ereturn_def)
next
  case (Cons x xs)
  obtain i h where x: "x = (i, h)" by (cases x)
  obtain r1 s1 where 1: "reconcile_one env ledger i h s = (r1, s1)" by fastforce
  obtain b where b: "r1 = Inr b" "settled i (tf_txs s) (tf_txs s1)" using reconcile_one_result [OF 1] by blast
  obtain t where t: "js_get m0 i = Some t" "js_get (tf_txs s) i = Some t" "tn_status t = ''pending_stellar''" "tn_updatedAt t < cutoff" "tn_stellarTxId t \<noteq> None"
    using Cons.prems(4) [of i h] x by auto
  have m: "only_moved cutoff m0 (tf_txs s1)" "\<forall>j. j \<noteq> i \<longrightarrow> js_get (tf_txs s1) j = js_get (tf_txs s) j"
    using settled_moves [OF b(2) Cons.prems(2) t] by blast+
  obtain r2 where 2: "eff_list (\<lambda>(i, h). reconcile_one env ledger i h) xs s1 = (r2, s')" "\<And>bs. r2 = Inr bs \<Longrightarrow> \<exists>bs. r = Inr bs"
    using Cons.prems(1) 1 b(1) x by (auto simp: ebind_def ereturn_def split: prod.splits sum.splits)
  have "only_moved cutoff m0 (tf_txs s') \<and> (\<exists>bs. r2 = Inr bs)"
  proof (rule Cons.IH [OF 2(1) m(1)])
    show "distinct (List.map fst xs)" using Cons.prems(3) by simp
    fix j g assume "(j, g) \<in> set xs"
    moreover from this have "j \<noteq> i" using Cons.prems(3) x by force
    ultimately show "js_get (tf_txs s1) j = js_get m0 j \<and> (\<exists>t. js_get m0 j = Some t \<and> tn_status t = ''pending_stellar''
       \<and> tn_updatedAt t < cutoff \<and> tn_stellarTxId t \<noteq> None)" using Cons.prems(4) [of j g] m(2) by auto
  qed
  then show ?case using 2(2) by blast
qed

text \<open>The reconciliation moves stale transactions only: whatever the ledger answers and whatever fails, a transaction either keeps its row or was
  waiting for the ledger for more than five minutes with a hash and is now completed or failed, with its amount, its user and its
  hash as before; and one failure does not keep the others from being tried.\<close>

theorem reconcile_only_moves_stale:
  assumes "js_wf (tf_txs s)" "reconcile env ledger s = (r, s')"
  shows "only_moved (fe_now env (fz_world (tf_fees s)) - 300000) (tf_txs s) (tf_txs s')"
proof -
  define now where "now = fe_now env (fz_world (tf_fees s))"
  define xs where "xs = pending_stellar (now - 300000) (tf_txs s)"
  have clock: "tclock env s = (Inr now, s)" by (simp add: tclock_def in_fees_def fclock_def eget_def now_def)
  obtain r1 s1 where db: "tdb env s = (r1, s1)" by fastforce
  have same: "only_moved c m m" for c m by (auto simp: only_moved_def split: option.splits)
  have k: "tf_txs s1 = tf_txs s" using call_result db unfolding tdb_def by blast
  show ?thesis
  proof (cases r1)
    case (Inl e)
    then have "s' = s1" using assms(2) clock db by (simp add: reconcile_def ebind_def)
    then show ?thesis using k same by simp
  next
    case (Inr u)
    obtain r2 s2 where l: "eff_list (\<lambda>(i, h). reconcile_one env ledger i h) xs s1 = (r2, s2)" by fastforce
    have "s' = s2" using assms(2) clock db Inr l k
      by (auto simp: reconcile_def ebind_def eget_def ereturn_def xs_def STALE_AFTER_MS_def split: sum.splits prod.splits)
    moreover have "only_moved (now - 300000) (tf_txs s) (tf_txs s2)"
    proof -
      have "only_moved (now - 300000) (tf_txs s) (tf_txs s2) \<and> (\<exists>bs. r2 = Inr bs)"
        by (rule reconcile_list [OF l]) (use k same pending_distinct [OF assms(1)] pending_mem [OF _ assms(1)] in \<open>auto simp: xs_def\<close>)
      then show ?thesis ..
    qed
    ultimately show ?thesis by (simp add: now_def)
  qed
qed

end
