(* ===== verification/Sep31_Props.thy ===== *)
theory Sep31_Props
  imports Transfer_Props Fee_Props
begin

text \<open>
  The properties of SEP-31 payments (theory \<open>Sep31\<close>): what a payment that was accepted satisfies, what a failed request leaves behind, what
  the quote does not guard, and what an update of the status does.
\<close>

section \<open>The parts of a creation\<close>

lemma lock_result:
  assumes "lock_quote_if env quoteId s = (r, s')"
  shows "tf_txs s' = tf_txs s \<and> tf_users s' = tf_users s \<and> tf_events s' = tf_events s \<and>
    (case (r, truthy_str quoteId) of
       (Inr None, None) \<Rightarrow> tf_quotes s' = tf_quotes s
     | (Inr (Some p), Some q) \<Rightarrow> \<exists>row now. js_get (tf_quotes s) q = Some row \<and> claimable now row \<and> p = qr_price row
          \<and> tf_quotes s' = js_set q (row\<lparr>qr_status := QExecuted\<rparr>) (tf_quotes s)
     | (Inl _, _) \<Rightarrow> tf_quotes s' = tf_quotes s
     | _ \<Rightarrow> False)"
proof (cases "truthy_str quoteId")
  case None
  then show ?thesis using assms by (auto simp: lock_quote_if_def ereturn_def)
next
  case (Some q)
  show ?thesis using assms Some
    unfolding lock_quote_if_def lock_quote_def find_quote_def claim_quote_def claim_rows_def ebind_def eget_def elift_def ethrow_def ereturn_def check_quote_def
    by (auto split: prod.splits sum.splits option.splits if_splits
        dest!: call_result [of "fdb _", folded tdb_def] call_result [of "fclock _", folded tclock_def])
qed

lemma fee_result_keeps:
  assumes "sep31_fee env code amount s = (r, s')"
  shows "tf_quotes s' = tf_quotes s \<and> tf_txs s' = tf_txs s \<and> tf_users s' = tf_users s \<and> tf_events s' = tf_events s \<and> (\<exists>f. r = Inr f)"
  using assms unfolding sep31_fee_def ecatch_def ebind_def ereturn_def
  by (auto split: prod.splits sum.splits dest!: call_result)

lemma uuid_result:
  assumes "tuuid env s = (r, s')"
  shows "tf_quotes s' = tf_quotes s \<and> tf_txs s' = tf_txs s \<and> tf_users s' = tf_users s \<and> tf_events s' = tf_events s \<and> (\<exists>i. r = Inr i)"
  using assms by (auto simp: tuuid_def in_fees_def fworld_def split: prod.splits)

lemma upsert_result:
  assumes "upsert_user env k email s = (r, s')"
  shows "tf_quotes s' = tf_quotes s \<and> tf_txs s' = tf_txs s \<and> tf_events s' = tf_events s"
  using assms unfolding upsert_user_def ebind_def eget_def ereturn_def emodify_def
  by (auto simp: Let_def split: prod.splits sum.splits option.splits dest!: call_result [of "fdb _", folded tdb_def] uuid_result)

lemma insert_result:
  assumes "insert_txn env i row s = (r, s')"
  shows "tf_quotes s' = tf_quotes s \<and> tf_users s' = tf_users s \<and> tf_events s' = tf_events s \<and> (case r of Inl _ \<Rightarrow> tf_txs s' = tf_txs s
     | Inr t \<Rightarrow> \<exists>now. t = row now \<and> js_get (tf_txs s) i = None \<and> tf_txs s' = js_set i (row now) (tf_txs s))"
  using assms unfolding insert_txn_def ebind_def eget_def ereturn_def emodify_def ethrow_def
  by (auto split: prod.splits sum.splits if_splits
      dest!: call_result [of "fdb _", folded tdb_def] call_result [of "fclock _", folded tclock_def])

lemma persist_result:
  assumes "persist_sep31 env input fee price s = (r, s')"
  shows "tf_quotes s' = tf_quotes s \<and> tf_events s' = tf_events s \<and> (case r of Inl _ \<Rightarrow> tf_txs s' = tf_txs s
     | Inr i \<Rightarrow> \<exists>uid now. js_get (tf_txs s) i = None \<and> tf_txs s' = js_set i (sep31_row input uid fee price now) (tf_txs s))"
  using assms unfolding persist_sep31_def ebind_def ereturn_def Let_def
  by (auto split: prod.splits sum.splits dest!: uuid_result upsert_result insert_result) blast

text \<open>A creation, taken apart.\<close>

lemma create_cases:
  assumes "createTransaction env acct input s = (r, s')"
  obtains e where "check_request input = Inl e" "r = Inl e" "s' = s"
  | cfg num e s1 where "check_request input = Inr (cfg, num)" "lock_quote_if env (si_quoteId input) s = (Inl e, s1)" "r = Inl e" "s' = s1"
  | cfg num price s1 fee s2 r2 where "check_request input = Inr (cfg, num)" "lock_quote_if env (si_quoteId input) s = (Inr price, s1)"
      "sep31_fee env (si_assetCode input) num s1 = (Inr fee, s2)" "persist_sep31 env input fee price s2 = (r2, s')"
      "map_sum id sc_id r = r2"
proof (cases "check_request input")
  case (Inl e)
  then show ?thesis using assms that(1) by (simp add: createTransaction_def ebind_def elift_def)
next
  case (Inr c)
  obtain cfg num where c: "c = (cfg, num)" by (cases c)
  obtain r1 s1 where l: "lock_quote_if env (si_quoteId input) s = (r1, s1)" by fastforce
  show ?thesis
  proof (cases r1)
    case (Inl e)
    show ?thesis by (rule that(2) [OF Inr [unfolded c] l [unfolded Inl]])
      (use assms Inl l Inr c in \<open>simp_all add: createTransaction_def ebind_def elift_def\<close>)
  next
    case (Inr price)
    obtain fee s2 where f: "sep31_fee env (si_assetCode input) num s1 = (Inr fee, s2)" using fee_result_keeps by (metis prod.collapse)
    obtain r2 s3 where p: "persist_sep31 env input fee price s2 = (r2, s3)" by fastforce
    have "s' = s3" "map_sum id sc_id r = r2"
      using assms l Inr f p \<open>check_request input = Inr c\<close> c by (auto simp: createTransaction_def ebind_def elift_def ereturn_def split: sum.splits)
    then show ?thesis using that(3) \<open>check_request input = Inr c\<close> c l Inr f p by simp
  qed
qed

definition fields_present :: "(string \<times> string) list \<Rightarrow> field_map \<Rightarrow> bool" where
  "fields_present provided required \<longleftrightarrow> (\<forall>(key, d) \<in> set required. \<not> fd_optional d \<longrightarrow> (\<exists>v. js_get provided key = Some v \<and> trim_js v \<noteq> []))"

lemma missing_none: "collectMissingFields provided required = [] \<longleftrightarrow> fields_present provided required"
  unfolding collectMissingFields_def fields_present_def by (auto simp: filter_empty_conv split: option.splits)

text \<open>The clock when the quote has been read.\<close>

definition quote_clock :: "('b, 'w) fee_env \<Rightarrow> 'w transfer_state \<Rightarrow> int" where
  "quote_clock env s = fe_now env (snd (fe_db env (fz_world (tf_fees s))))"

lemma lock_in_time:
  assumes "lock_quote_if env quoteId s = (Inr price, s')" and "truthy_str quoteId = Some q"
  shows "\<exists>row. js_get (tf_quotes s) q = Some row \<and> qr_status row = QPending \<and> (\<forall>t. qr_expiresAt row = Some t \<longrightarrow> quote_clock env s < t)
    \<and> price = Some (qr_price row) \<and> tf_quotes s' = js_set q (row\<lparr>qr_status := QExecuted\<rparr>) (tf_quotes s)"
proof -
  obtain e w where d: "fe_db env (fz_world (tf_fees s)) = (e, w)" by force
  define s1 where "s1 = s\<lparr>tf_fees := (tf_fees s)\<lparr>fz_world := w\<rparr>\<rparr>"
  have none: "e = None" using assms d
    by (cases e) (auto simp: lock_quote_if_def lock_quote_def find_quote_def ebind_def tdb_def in_fees_def fdb_def)
  have db: "tdb env s = (Inr (), s1)" using d none by (simp add: tdb_def in_fees_def fdb_def s1_def)
  have clock: "tclock env s1 = (Inr (quote_clock env s), s1)"
    using d by (simp add: tclock_def in_fees_def fclock_def eget_def s1_def quote_clock_def)
  have quotes: "tf_quotes s1 = tf_quotes s" by (simp add: s1_def)
  have price: "x = row" if "check_quote q n (Some row) = Inr x" for n row x
    using that by (auto simp: check_quote_def split: option.splits if_splits)
  show ?thesis using assms db clock quotes
    unfolding lock_quote_if_def lock_quote_def find_quote_def claim_quote_def claim_rows_def claimable_def ebind_def eget_def elift_def ethrow_def ereturn_def
    by (auto split: prod.splits sum.splits option.splits if_splits dest!: price call_result [of "fdb _", folded tdb_def])
qed

text \<open>C13. A payment that was accepted is what the protocol asks for: the asset is supported, the amount reads as a number within the limits, the
  required fields of both parties are there, a new row waits for the sender with the amount as it was sent, no existing
  transaction changes, and with a quote the row has the price of a quote that was pending and had not expired by the clock at the time it
  was read; that quote is now executed, and no other quote changes.\<close>

theorem sep31_accepted_payment:
  assumes "createTransaction env acct input s = (Inr r, s')"
  shows "\<exists>cfg uid fee price now. getSep31AssetConfig (si_assetCode input) = Some cfg \<and> sx_enabled cfg
    \<and> \<not> js_less (parseFloat (si_amount input)) (sx_minAmount cfg) \<and> \<not> js_less (sx_maxAmount cfg) (parseFloat (si_amount input))
    \<and> parseFloat (si_amount input) \<noteq> NaN
    \<and> fields_present (si_senderInfo input) (sx_senderInfo cfg) \<and> fields_present (si_receiverInfo input) (sx_receiverInfo cfg)
    \<and> js_get (tf_txs s) (sc_id r) = None \<and> tf_txs s' = js_set (sc_id r) (sep31_row input uid fee price now) (tf_txs s)
    \<and> (case truthy_str (si_quoteId input) of None \<Rightarrow> price = None \<and> tf_quotes s' = tf_quotes s
       | Some q \<Rightarrow> \<exists>row. js_get (tf_quotes s) q = Some row \<and> qr_status row = QPending
           \<and> (\<forall>t. qr_expiresAt row = Some t \<longrightarrow> fe_now env (snd (fe_db env (fz_world (tf_fees s)))) < t)
           \<and> price = Some (qr_price row) \<and> tf_quotes s' = js_set q (row\<lparr>qr_status := QExecuted\<rparr>) (tf_quotes s))"
  using assms
proof (cases rule: create_cases)
  case (3 cfg num price s1 fee s2 r2)
  have r2: "r2 = Inr (sc_id r)" using 3(5) by simp
  have c: "getSep31AssetConfig (si_assetCode input) = Some cfg" "sx_enabled cfg" "\<not> js_less (parseFloat (si_amount input)) (sx_minAmount cfg)"
      "\<not> js_less (sx_maxAmount cfg) (parseFloat (si_amount input))" "parseFloat (si_amount input) \<noteq> NaN"
      "fields_present (si_senderInfo input) (sx_senderInfo cfg)" "fields_present (si_receiverInfo input) (sx_receiverInfo cfg)"
    using 3(1) unfolding missing_none [symmetric] by (auto simp: check_request_def Let_def split: option.splits if_splits)
  obtain uid now where row: "js_get (tf_txs s2) (sc_id r) = None" "tf_txs s' = js_set (sc_id r) (sep31_row input uid fee price now) (tf_txs s2)" "tf_quotes s' = tf_quotes s2"
    using persist_result [OF 3(4)] r2 by auto
  have k: "tf_txs s2 = tf_txs s" "tf_quotes s2 = tf_quotes s1" using fee_result_keeps [OF 3(3)] lock_result [OF 3(2)] by auto
  have none: "truthy_str (si_quoteId input) = None \<Longrightarrow> price = None \<and> tf_quotes s1 = tf_quotes s"
    using lock_result [OF 3(2)] by (auto split: option.splits)
  have "case truthy_str (si_quoteId input) of None \<Rightarrow> price = None \<and> tf_quotes s' = tf_quotes s
       | Some q \<Rightarrow> \<exists>row. js_get (tf_quotes s) q = Some row \<and> qr_status row = QPending
           \<and> (\<forall>t. qr_expiresAt row = Some t \<longrightarrow> fe_now env (snd (fe_db env (fz_world (tf_fees s)))) < t)
           \<and> price = Some (qr_price row) \<and> tf_quotes s' = js_set q (row\<lparr>qr_status := QExecuted\<rparr>) (tf_quotes s)"
    using none lock_in_time [OF 3(2), unfolded quote_clock_def] row(3) k(2) by (cases "truthy_str (si_quoteId input)") simp_all
  then show ?thesis
    by (intro exI [of _ cfg] exI [of _ uid] exI [of _ fee] exI [of _ price] exI [of _ now]) (use c row k in simp)
qed simp_all

text \<open>C14. A request that fails creates no transaction and announces nothing; but when it fails after the quote was claimed, the quote is
  spent: the only other thing that can have changed in the tables of quotes is that the one named went from pending to
  executed.\<close>

theorem sep31_failed_payment:
  assumes "createTransaction env acct input s = (Inl e, s')"
  shows "tf_txs s' = tf_txs s \<and> tf_events s' = tf_events s
    \<and> (tf_quotes s' = tf_quotes s \<or> (\<exists>q row t. truthy_str (si_quoteId input) = Some q \<and> js_get (tf_quotes s) q = Some row \<and> claimable t row
         \<and> tf_quotes s' = js_set q (row\<lparr>qr_status := QExecuted\<rparr>) (tf_quotes s)))"
  using assms
proof (cases rule: create_cases)
  case (3 cfg num price s1 fee s2 r2)
  have r2: "r2 = Inl e" using 3(5) by simp
  have "tf_txs s' = tf_txs s2" "tf_quotes s' = tf_quotes s2" "tf_events s' = tf_events s2" using persist_result [OF 3(4)] r2 by auto
  moreover have "tf_txs s2 = tf_txs s" "tf_quotes s2 = tf_quotes s1" "tf_events s2 = tf_events s" using fee_result_keeps [OF 3(3)] lock_result [OF 3(2)] by auto
  ultimately show ?thesis using lock_result [OF 3(2)] by (auto split: option.splits)
next
  case (2 cfg num e s1)
  then show ?thesis using lock_result [OF 2(2)] by auto
qed simp_all

section \<open>Updating the status\<close>

text \<open>An update of the status that returns wrote one row and announced it: the status is one of the eight, an error has a message that is
  not blank, the two status columns agree, a completion sets its date, the texts that were passed replace the ids and the fee, and the
  announcements are the socket, the notification and, with a callback, the callback, in this order.\<close>

theorem sep31_status_updated:
  assumes "updateStatus env notifier i status message extra s = (Inr tx, s')"
  shows "status \<in> set VALID_SEP31_STATUSES \<and> (status = ''error'' \<longrightarrow> (\<exists>m. message = Some m \<and> trim_js m \<noteq> []))
    \<and> (\<exists>old new now t. js_get (tf_txs s) i = Some old \<and> new = (status_update status message extra now old)\<lparr>tn_updatedAt := t\<rparr>
        \<and> tf_txs s' = js_set i new (tf_txs s) \<and> tx = mapToSep31Transaction i new
        \<and> tf_events s' = tf_events s @ [Emitted (tn_userId old) i status,
             UserNotified (tn_userId old) (''Your transaction '' @ i @ '' status updated to: '' @ replace_char (CHR ''_'') (CHR '' '') status) i]
             @ (if truthy_str (tn_callbackUrl old) \<noteq> None \<and> notifier then [CallbackFired i status] else [])
        \<and> tf_quotes s' = tf_quotes s)"
proof -
  have ok: "check_status status message = Inr ()"
    using assms by (auto simp: updateStatus_def ebind_def elift_def split: sum.splits)
  obtain now s1 where 1: "tclock env s = (Inr now, s1)" "tf_txs s1 = tf_txs s" "tf_events s1 = tf_events s" "tf_quotes s1 = tf_quotes s"
    by (simp add: tclock_def in_fees_def fclock_def eget_def)
  obtain r2 s2 where 2: "update_txn env i (status_update status message extra now) s1 = (r2, s2)" by fastforce
  obtain row where row: "r2 = Inr row" using assms 1 2 ok by (cases r2) (auto simp: updateStatus_def ebind_def elift_def)
  obtain old t where o: "js_get (tf_txs s) i = Some old" "row = (status_update status message extra now old)\<lparr>tn_updatedAt := t\<rparr>"
      "tf_txs s2 = js_set i row (tf_txs s)" "tf_quotes s2 = tf_quotes s" "tf_events s2 = tf_events s"
    using update_result [OF 2] row 1 by auto
  have u: "tn_userId row = tn_userId old" "tn_status row = status" "st_callbackUrl (mapToSep31Transaction i row) = tn_callbackUrl old"
    by (simp_all add: o(2) status_update_def mapToSep31Transaction_def)
  have "tx = mapToSep31Transaction i row \<and> tf_txs s' = tf_txs s2 \<and> tf_quotes s' = tf_quotes s2
      \<and> tf_events s' = tf_events s2 @ [Emitted (tn_userId old) i status,
             UserNotified (tn_userId old) (''Your transaction '' @ i @ '' status updated to: '' @ replace_char (CHR ''_'') (CHR '' '') status) i]
             @ (if truthy_str (tn_callbackUrl old) \<noteq> None \<and> notifier then [CallbackFired i status] else [])"
    using assms 1 2 ok row u
    by (auto simp: updateStatus_def ebind_def elift_def emit_def emodify_def ereturn_def Let_def split: if_splits)
  moreover have "status \<in> set VALID_SEP31_STATUSES" "status = ''error'' \<longrightarrow> (\<exists>m. message = Some m \<and> trim_js m \<noteq> [])"
    using ok by (auto simp: check_status_def truthy_str_def split: if_splits option.splits list.splits)
  ultimately show ?thesis using o by (intro conjI exI [of _ old] exI [of _ row] exI [of _ now] exI [of _ t]) auto
qed

text \<open>No order of the statuses is enforced: when the database answers and the ids stay unique, any transaction, also one that was
  completed or refunded, takes any of the seven statuses that need no message, and it keeps the date of its completion.\<close>

theorem sep31_any_status_follows:
  assumes "js_get (tf_txs s) i = Some old" "status \<in> set VALID_SEP31_STATUSES" "status \<noteq> ''error''" "fe_db env (fz_world (tf_fees s)) = (None, w)"
    "unique_ok i old (tf_txs s)"
  shows "\<exists>tx s'. updateStatus env notifier i status None no_extra s = (Inr tx, s') \<and> st_status tx = status
    \<and> (status \<noteq> ''completed'' \<longrightarrow> st_completedAt tx = map_option iso_string (tn_completedAt old))"
proof -
  have ok: "check_status status None = Inr ()" using assms(2, 3) by (auto simp: check_status_def)
  have u: "unique_ok i ((status_update status None no_extra n old)\<lparr>tn_updatedAt := t\<rparr>) (tf_txs s)" for n t
    using assms(5) by (simp add: unique_ok_def taken_def status_update_def keep_or_def no_extra_def truthy_str_def)
  show ?thesis
    using assms(1, 4) ok u
    by (auto simp: updateStatus_def update_txn_def tdb_def tclock_def in_fees_def fdb_def fclock_def ebind_def eget_def elift_def emit_def emodify_def ereturn_def Let_def
        mapToSep31Transaction_def status_update_def)
qed

section \<open>What the quote does not guard\<close>

text \<open>The table of quotes with other terms: everything that a quote fixes but its price, its status and its date.\<close>

definition other_terms :: "(quote_row \<Rightarrow> quote_row) \<Rightarrow> bool" where
  "other_terms g \<longleftrightarrow> (\<forall>q. qr_price (g q) = qr_price q \<and> qr_status (g q) = qr_status q \<and> qr_expiresAt (g q) = qr_expiresAt q
     \<and> g (q\<lparr>qr_status := QExecuted\<rparr>) = (g q)\<lparr>qr_status := QExecuted\<rparr>)"

definition with_terms :: "(quote_row \<Rightarrow> quote_row) \<Rightarrow> 'w transfer_state \<Rightarrow> 'w transfer_state" where
  "with_terms g s = s\<lparr>tf_quotes := List.map (\<lambda>(i, q). (i, g q)) (tf_quotes s)\<rparr>"

definition same_outcome :: "(quote_row \<Rightarrow> quote_row) \<Rightarrow> ('w, 'a) transfers \<Rightarrow> bool" where
  "same_outcome g m \<longleftrightarrow> (\<forall>s. m (with_terms g s) = (case m s of (r, s') \<Rightarrow> (r, with_terms g s')))"

named_theorems terms_rules \<open>computations that do not look at the terms of quotes\<close>

lemma terms_simple [terms_rules]: "same_outcome g (ereturn x)" "same_outcome g (ethrow e)" "same_outcome g (elift r)" "same_outcome g (in_fees m)"
  by (simp_all add: same_outcome_def ereturn_def ethrow_def elift_def in_fees_def with_terms_def split_beta)

lemma terms_eget [terms_rules]: "(\<And>s. f (with_terms g s) = f s) \<Longrightarrow> same_outcome g (eget f)"
  by (simp add: same_outcome_def eget_def)

lemma terms_emodify [terms_rules]: "(\<And>s. f (with_terms g s) = with_terms g (f s)) \<Longrightarrow> same_outcome g (emodify f)"
  by (simp add: same_outcome_def emodify_def)

lemma terms_ebind [terms_rules]: "same_outcome g m \<Longrightarrow> (\<And>x. same_outcome g (k x)) \<Longrightarrow> same_outcome g (ebind m k)"
  by (auto simp: same_outcome_def ebind_def split: prod.splits sum.splits)

lemma terms_ecatch [terms_rules]: "same_outcome g m \<Longrightarrow> (\<And>e. same_outcome g (k e)) \<Longrightarrow> same_outcome g (ecatch m k)"
  by (auto simp: same_outcome_def ecatch_def split: prod.splits sum.splits)

lemma terms_if [terms_rules]: "same_outcome g m \<Longrightarrow> same_outcome g n \<Longrightarrow> same_outcome g (if b then m else n)"
  by simp

lemma terms_option [terms_rules]: "same_outcome g m \<Longrightarrow> (\<And>x. same_outcome g (k x)) \<Longrightarrow> same_outcome g (case v of None \<Rightarrow> m | Some x \<Rightarrow> k x)"
  by (cases v) simp_all

lemma terms_prod [terms_rules]: "(\<And>x y. same_outcome g (k x y)) \<Longrightarrow> same_outcome g (case p of (x, y) \<Rightarrow> k x y)"
  by (cases p) simp

lemma terms_calls [terms_rules]: "same_outcome g (tdb env)" "same_outcome g (tclock env)" "same_outcome g (tuuid env)"
  by (simp_all add: tdb_def tclock_def tuuid_def terms_rules)

lemma terms_tables: "tf_txs (with_terms g s) = tf_txs s" "tf_users (with_terms g s) = tf_users s"
  by (simp_all add: with_terms_def)

lemma terms_insert [terms_rules]: "same_outcome g (insert_txn env i row)"
  unfolding insert_txn_def by (intro terms_rules) (simp_all add: terms_tables with_terms_def)

lemma terms_upsert [terms_rules]: "same_outcome g (upsert_user env k email)"
  unfolding upsert_user_def Let_def by (intro terms_rules) (simp_all add: terms_tables with_terms_def)

lemma map_quotes_get: "map_of (List.map (\<lambda>(i, q). (i, g q)) m) k = map_option g (map_of m k)"
  by (induction m) auto

lemma map_quotes_set: "js_set k (g v) (List.map (\<lambda>(i, q). (i, g q)) m) = List.map (\<lambda>(i, q). (i, g q)) (js_set k v m)"
  by (induction m) auto

lemma terms_claim:
  fixes env :: "('b, 'w) fee_env"
  assumes g: "other_terms g"
  shows "same_outcome g (claim_quote env q now)"
proof -
  have "same_outcome g (\<lambda>s :: 'w transfer_state. case claim_rows q now (tf_quotes s) of (n, m) \<Rightarrow> (Inr n, s\<lparr>tf_quotes := m\<rparr>))"
    unfolding same_outcome_def
  proof
    fix s :: "'w transfer_state"
    show "(case claim_rows q now (tf_quotes (with_terms g s)) of (n, m) \<Rightarrow> (Inr n, (with_terms g s)\<lparr>tf_quotes := m\<rparr>))
        = (case case claim_rows q now (tf_quotes s) of (n, m) \<Rightarrow> (Inr n, s\<lparr>tf_quotes := m\<rparr>) of (r, s') \<Rightarrow> (r, with_terms g s'))"
    proof (cases "js_get (tf_quotes s) q")
      case None
      then show ?thesis by (simp add: claim_rows_def with_terms_def map_quotes_get)
    next
      case (Some row)
      have "claimable now (g row) = claimable now row" "(g row)\<lparr>qr_status := QExecuted\<rparr> = g (row\<lparr>qr_status := QExecuted\<rparr>)"
        using g by (simp_all add: other_terms_def claimable_def)
      then show ?thesis using Some by (simp add: claim_rows_def with_terms_def map_quotes_get map_quotes_set)
    qed
  qed
  then show ?thesis unfolding claim_quote_def by (intro terms_rules) assumption
qed

lemma terms_check: "other_terms g \<Longrightarrow> check_quote q now (map_option g found) = map_sum id g (check_quote q now found)"
  by (cases found) (simp_all add: other_terms_def check_quote_def)

lemma terms_lock: "other_terms g \<Longrightarrow> same_outcome g (lock_quote env q)"
proof -
  assume g: "other_terms g"
  have rest: "same_outcome g (ebind (claim_quote env q now) (\<lambda>count. if count = 0 then ethrow e else ereturn p))" for now e and p :: string
    by (intro terms_rules terms_claim g)
  have f: "find_quote env q (with_terms g s) = (case find_quote env q s of (r, s') \<Rightarrow> (map_sum id (map_option g) r, with_terms g s'))" for s
    using terms_calls(1) [of g env] by (auto simp: find_quote_def ebind_def eget_def same_outcome_def with_terms_def map_quotes_get split: prod.splits sum.splits)
  have c: "tclock env (with_terms g s) = (case tclock env s of (r, s') \<Rightarrow> (r, with_terms g s'))" for s
    using terms_calls(2) [of g env] by (simp add: same_outcome_def)
  have p: "qr_price (g row) = qr_price row" for row using g by (simp add: other_terms_def)
  show ?thesis unfolding same_outcome_def lock_quote_def
    using rest [unfolded same_outcome_def]
    by (auto simp: ebind_def [of "find_quote env q"] ebind_def [of "tclock env"] ebind_def [of "elift _"] elift_def f c terms_check [OF g] p split: prod.splits sum.splits cong: if_cong)
qed

text \<open>A quote locks its price only: the assets and the amounts it was given for do not matter to a payment that names it. Two tables of
  quotes that agree in price, status and date, and differ in everything else, give the same outcome for every request.\<close>

theorem sep31_quote_terms_ignored:
  assumes "other_terms g"
  shows "fst (createTransaction env acct input (with_terms g s)) = fst (createTransaction env acct input s)"
proof -
  have "same_outcome g (lock_quote_if env (si_quoteId input))"
    unfolding lock_quote_if_def by (intro terms_rules terms_lock assms)
  then have "same_outcome g (createTransaction env acct input)"
    unfolding createTransaction_def sep31_fee_def persist_sep31_def Let_def by (intro terms_rules)
  then show ?thesis by (simp add: same_outcome_def split_beta)
qed

text \<open>
  The properties of the transfers at concrete inputs: a payment of 25 USDC with a quote, a payment that names an executed quote, updates of
  the status, and a reconciliation.
\<close>

section \<open>A payment\<close>

definition demo_pending_quote :: quote_row where
  "demo_pending_quote = \<lparr>qr_sellAsset = ''USDC'', qr_sellAmount = ''25'', qr_buyAsset = ''EURC'', qr_buyAmount = ''23'', qr_price = ''0.92'',
     qr_status = QPending, qr_expiresAt = Some 5000\<rparr>"

definition demo_transfers :: "nat transfer_state" where
  "demo_transfers = \<lparr>tf_txs = [(''old'', (new_txn ''u1'' ''USDC'' ''10'' ''SEP31'' ''pending_stellar'' 3)\<lparr>tn_stellarTxId := Some ''h1''\<rparr>)], tf_users = [],
     tf_quotes = [(''q1'', demo_pending_quote), (''q2'', demo_pending_quote\<lparr>qr_status := QExecuted\<rparr>)], tf_events = [], tf_fees = \<lparr>fz_rows = [], fz_world = 400000\<rparr>\<rparr>"

definition demo_early :: "nat transfer_state" where
  "demo_early = demo_transfers\<lparr>tf_fees := \<lparr>fz_rows = [], fz_world = 10\<rparr>\<rparr>"

definition demo_payment :: "string option \<Rightarrow> sep31_input" where
  "demo_payment q = \<lparr>si_assetCode = ''USDC'', si_amount = ''25'',
     si_senderInfo = [(''first_name'', ''A''), (''last_name'', ''B''), (''email_address'', ''a@b'')],
     si_receiverInfo = [(''first_name'', ''C''), (''last_name'', ''D'')], si_callbackUrl = None, si_userPublicKey = Some ''GA'', si_quoteId = q\<rparr>"

lemma demo_amounts: "\<not> js_less (parseFloat ''25'') (number_of_text ''0.01'')" "\<not> js_less (number_of_text ''1000000'') (parseFloat ''25'')"
  "parseFloat ''25'' \<noteq> NaN"
  by code_simp+

lemma demo_asset: "getSep31AssetConfig ''USDC'' = Some (sep31_asset_of ''USDC'')"
proof -
  have "upper_text (trim_js ''USDC'') = ''USDC''" by code_simp
  then show ?thesis by (simp add: getSep31AssetConfig_def SEP31_ASSET_FIELDS_def)
qed

lemma demo_config: "sx_enabled (sep31_asset_of ''USDC'')" "sx_minAmount (sep31_asset_of ''USDC'') = number_of_text ''0.01''"
  "sx_maxAmount (sep31_asset_of ''USDC'') = number_of_text ''1000000''"
  by (simp_all add: sep31_asset_of_def Let_def ASSET_MAP_def ASSETS_def)

lemma demo_fields: "collectMissingFields (si_senderInfo (demo_payment None)) (sx_senderInfo (sep31_asset_of ''USDC'')) = []"
  "collectMissingFields (si_receiverInfo (demo_payment None)) (sx_receiverInfo (sep31_asset_of ''USDC'')) = []"
proof -
  have "trim_js ''A'' \<noteq> []" "trim_js ''B'' \<noteq> []" "trim_js ''C'' \<noteq> []" "trim_js ''D'' \<noteq> []" "trim_js ''a@b'' \<noteq> []" by code_simp+
  then show "collectMissingFields (si_senderInfo (demo_payment None)) (sx_senderInfo (sep31_asset_of ''USDC'')) = []"
    "collectMissingFields (si_receiverInfo (demo_payment None)) (sx_receiverInfo (sep31_asset_of ''USDC'')) = []"
    by (simp_all add: collectMissingFields_def demo_payment_def sep31_asset_of_def Let_def described_def)
qed

lemma demo_request: "\<exists>c. check_request (demo_payment None) = Inr c"
proof -
  have "si_assetCode (demo_payment None) = ''USDC''" "si_amount (demo_payment None) = ''25''" by (simp_all add: demo_payment_def)
  then show ?thesis using demo_amounts by (simp add: check_request_def demo_asset demo_config demo_fields Let_def)
qed

lemma demo_request_any: "check_request (demo_payment q) = check_request (demo_payment None)"
proof -
  have f: "si_assetCode (demo_payment q) = si_assetCode (demo_payment None)" "si_amount (demo_payment q) = si_amount (demo_payment None)"
      "si_senderInfo (demo_payment q) = si_senderInfo (demo_payment None)" "si_receiverInfo (demo_payment q) = si_receiverInfo (demo_payment None)"
    by (simp_all add: demo_payment_def)
  show ?thesis unfolding check_request_def f ..
qed

lemma demo_up [simp]: "tdb demo_fees s = (Inr (), s\<lparr>tf_fees := (tf_fees s)\<lparr>fz_world := Suc (fz_world (tf_fees s))\<rparr>\<rparr>)"
  "tclock demo_fees s = (Inr (int (fz_world (tf_fees s))), s)"
  "tuuid demo_fees s = (Inr ''row'', s\<lparr>tf_fees := (tf_fees s)\<lparr>fz_world := Suc (fz_world (tf_fees s))\<rparr>\<rparr>)"
  by (simp_all add: tdb_def tclock_def tuuid_def in_fees_def fdb_def fclock_def fworld_def eget_def demo_fees_def)

lemma demo_lock: "lock_quote_if demo_fees (Some ''q1'') demo_early = (Inr (Some ''0.92''),
    demo_early\<lparr>tf_quotes := [(''q1'', demo_pending_quote\<lparr>qr_status := QExecuted\<rparr>), (''q2'', demo_pending_quote\<lparr>qr_status := QExecuted\<rparr>)],
      tf_fees := \<lparr>fz_rows = [], fz_world = 12\<rparr>\<rparr>)"
  by (simp add: lock_quote_if_def lock_quote_def find_quote_def check_quote_def claim_quote_def claim_rows_def claimable_def ebind_def eget_def elift_def
      ereturn_def truthy_str_def demo_early_def demo_transfers_def demo_pending_quote_def)

lemma demo_persist:
  "tf_txs s = tf_txs demo_transfers \<Longrightarrow> tf_users s = [] \<Longrightarrow> \<exists>s'. persist_sep31 demo_fees (demo_payment q) fee price s = (Inr ''row'', s')"
  by (auto simp: persist_sep31_def upsert_user_def insert_txn_def ebind_def eget_def emodify_def ereturn_def Let_def truthy_str_def demo_payment_def
      demo_transfers_def)

lemma demo_created: "\<exists>r s'. createTransaction demo_fees None (demo_payment (Some ''q1'')) demo_early = (Inr r, s')"
proof -
  obtain cfg num where c: "check_request (demo_payment (Some ''q1'')) = Inr (cfg, num)" using demo_request demo_request_any by (metis prod.collapse)
  define s1 where "s1 = snd (lock_quote_if demo_fees (Some ''q1'') demo_early)"
  have l: "lock_quote_if demo_fees (Some ''q1'') demo_early = (Inr (Some ''0.92''), s1)" by (simp add: s1_def demo_lock)
  have t: "tf_txs s1 = tf_txs demo_transfers" "tf_users s1 = []"
    unfolding s1_def demo_lock by (simp_all add: demo_early_def) (simp add: demo_transfers_def)
  obtain fee s2 where f: "sep31_fee demo_fees ''USDC'' num s1 = (Inr fee, s2)" "tf_txs s2 = tf_txs s1" "tf_users s2 = tf_users s1"
    using fee_result_keeps by (metis prod.collapse)
  obtain s3 where p: "persist_sep31 demo_fees (demo_payment (Some ''q1'')) fee (Some ''0.92'') s2 = (Inr ''row'', s3)"
    using demo_persist f(2, 3) t by metis
  have "si_quoteId (demo_payment (Some ''q1'')) = Some ''q1''" "si_assetCode (demo_payment (Some ''q1'')) = ''USDC''" by (simp_all add: demo_payment_def)
  then show ?thesis using c l f p by (simp add: createTransaction_def ebind_def elift_def ereturn_def)
qed

theorem sep31_accepted_payment_witness:
  "\<exists>(r :: sep31_created) (s' :: nat transfer_state) price. createTransaction demo_fees None (demo_payment (Some ''q1'')) demo_early = (Inr r, s')
    \<and> js_get (tf_txs demo_early) (sc_id r) = None
    \<and> (\<exists>uid fee now. tf_txs s' = js_set (sc_id r) (sep31_row (demo_payment (Some ''q1'')) uid fee (Some price) now) (tf_txs demo_early))"
proof -
  obtain r s' where c: "createTransaction demo_fees None (demo_payment (Some ''q1'')) demo_early = (Inr r, s')" using demo_created by blast
  have q: "truthy_str (si_quoteId (demo_payment (Some ''q1''))) = Some ''q1''" by (simp add: demo_payment_def truthy_str_def)
  show ?thesis using sep31_accepted_payment [OF c] c unfolding q by fastforce
qed

theorem sep31_failed_payment_witness:
  "\<exists>(e :: js_error) (s' :: nat transfer_state). createTransaction demo_fees None (demo_payment (Some ''q2'')) demo_early = (Inl e, s')
    \<and> tf_txs s' = tf_txs demo_early \<and> tf_events s' = []"
proof -
  obtain cfg num where c: "check_request (demo_payment (Some ''q2'')) = Inr (cfg, num)" using demo_request demo_request_any by (metis prod.collapse)
  have "\<exists>e s1. lock_quote_if demo_fees (Some ''q2'') demo_early = (Inl e, s1)"
    by (simp add: lock_quote_if_def lock_quote_def find_quote_def check_quote_def ebind_def eget_def elift_def truthy_str_def demo_early_def
        demo_transfers_def demo_pending_quote_def)
  moreover have "si_quoteId (demo_payment (Some ''q2'')) = Some ''q2''" by (simp add: demo_payment_def)
  ultimately obtain e s' where f: "createTransaction demo_fees None (demo_payment (Some ''q2'')) demo_early = (Inl e, s')"
    using c by (auto simp: createTransaction_def ebind_def elift_def)
  show ?thesis using sep31_failed_payment [OF f] f by (auto simp: demo_early_def demo_transfers_def)
qed

theorem sep31_quote_terms_ignored_witness:
  "fst (createTransaction demo_fees None (demo_payment (Some ''q1'')) (with_terms (\<lambda>q. q\<lparr>qr_sellAmount := ''1000000'', qr_buyAsset := ''BTC''\<rparr>) demo_early))
    = fst (createTransaction demo_fees None (demo_payment (Some ''q1'')) demo_early)"
  by (rule sep31_quote_terms_ignored) (simp add: other_terms_def)

section \<open>The status\<close>

definition demo_done :: "nat transfer_state" where
  "demo_done = demo_transfers\<lparr>tf_txs := [(''old'', (new_txn ''u1'' ''USDC'' ''10'' ''SEP31'' ''completed'' 3)\<lparr>tn_completedAt := Some 9\<rparr>)]\<rparr>"

theorem sep31_any_status_follows_witness:
  "\<exists>tx s'. updateStatus demo_fees True ''old'' ''pending_sender'' None no_extra demo_done = (Inr tx, s') \<and> st_status tx = ''pending_sender''
    \<and> (''pending_sender'' = ''completed'' \<or> st_completedAt tx = map_option iso_string (Some 9))"
  using sep31_any_status_follows [of demo_done "''old''" "(new_txn ''u1'' ''USDC'' ''10'' ''SEP31'' ''completed'' 3)\<lparr>tn_completedAt := Some 9\<rparr>"
      "''pending_sender''" demo_fees "Suc (fz_world (tf_fees demo_done))" True]
  by (auto simp: demo_done_def demo_fees_def VALID_SEP31_STATUSES_def unique_ok_def taken_def new_txn_def)

theorem sep31_status_updated_witness:
  "\<exists>(tx :: sep31_tx) (s' :: nat transfer_state). updateStatus demo_fees True ''old'' ''completed'' None no_extra demo_transfers = (Inr tx, s')
    \<and> tf_quotes s' = tf_quotes demo_transfers \<and> length (tf_events s') = 2"
proof -
  obtain tx s' where u: "updateStatus demo_fees True ''old'' ''completed'' None no_extra demo_transfers = (Inr tx, s')"
    by (simp add: updateStatus_def check_status_def VALID_SEP31_STATUSES_def update_txn_def ebind_def elift_def eget_def emit_def emodify_def ereturn_def Let_def
        demo_transfers_def unique_ok_def taken_def status_update_def new_txn_def keep_or_def no_extra_def truthy_str_def mapToSep31Transaction_def)
  show ?thesis using sep31_status_updated [OF u] u by (auto simp: demo_transfers_def new_txn_def truthy_str_def)
qed

section \<open>The reconciliation\<close>

theorem reconcile_only_moves_stale_witness:
  "only_moved 100000 (tf_txs demo_transfers) (tf_txs (snd (reconcile demo_fees (\<lambda>h w. (OnLedger True, w)) demo_transfers)))"
  using reconcile_only_moves_stale [of demo_transfers demo_fees "\<lambda>h w. (OnLedger True, w)" "fst (reconcile demo_fees (\<lambda>h w. (OnLedger True, w)) demo_transfers)"
      "snd (reconcile demo_fees (\<lambda>h w. (OnLedger True, w)) demo_transfers)"]
  by (simp add: demo_transfers_def demo_fees_def js_wf_def)

end
