(* ===== verification/Sep24.thy ===== *)
theory Sep24
  imports Sep31 Webhook_Workers Json_Text Sep10
begin

text \<open>
  SEP-24 interactive deposits and withdrawals: \<open>backend/src/services/sep24.service.ts\<close>, \<open>sep24-interactive-token.service.ts\<close>, the URLs of
  \<open>kyc.service.ts\<close>, \<open>api/routes/sep24.route.ts\<close>, \<open>workers/sep24.worker.ts\<close> and the sessions of \<open>api/controllers/sep24.controller.ts\<close>. The
  tables are those of theory \<open>Transfers\<close>, whose world is the state of the webhooks: Redis, HTTP and the queue of retries are reached
  through it. The parser of URLs, the tokens of jsonwebtoken and the check of a key by the Stellar SDK are parameters.
\<close>

section \<open>Values\<close>

text \<open>A date, a text, a number of milliseconds, or nothing.\<close>

datatype date_like = NoDate | JsDate "int option" | DateWords string | Millis jsnum

definition seconds_of :: "int \<Rightarrow> jsnum" where
  "seconds_of t = math_floor (js_div (js_int t) (js_int 1000))"

text \<open>\<open>parse\<close> is \<open>new Date\<close> of a text or a number: the milliseconds, unless invalid.\<close>

definition toSep24Timestamp :: "(string + jsnum \<Rightarrow> int option) \<Rightarrow> date_like \<Rightarrow> jsnum" where
  "toSep24Timestamp parse d =
     (let parsed = (case d of NoDate \<Rightarrow> None | JsDate t \<Rightarrow> t
          | DateWords s \<Rightarrow> if s = [] then None else parse (Inl s) | Millis n \<Rightarrow> parse (Inr n)) in
      case parsed of None \<Rightarrow> Fin 0 | Some t \<Rightarrow> seconds_of t)"

definition MAX_UINT64 :: int where "MAX_UINT64 = 18446744073709551615"

definition validateMemo :: "string \<Rightarrow> string \<Rightarrow> bool" where
  "validateMemo memo memoType =
     (if memo = [] then False
      else if memoType = ''text'' then length memo \<le> 28
      else if memoType = ''id'' then list_all is_digit memo \<and> 0 \<le> digits_value memo \<and> digits_value memo \<le> MAX_UINT64
      else if memoType = ''hash'' then length memo = 64 \<and> list_all is_hex memo
      else False)"

definition has_suffix :: "string \<Rightarrow> string \<Rightarrow> bool" where
  "has_suffix p s = starts_with (rev p) (rev s)"

text \<open>\<open>parse_url\<close> is \<open>new URL\<close>: the protocol and the host name, or an error.\<close>

definition validateCallbackUrl :: "(string \<Rightarrow> (string \<times> string) option) \<Rightarrow> string \<Rightarrow> string list \<Rightarrow> bool" where
  "validateCallbackUrl parse_url url allowedDomains =
     (if url = [] then False
      else (case parse_url url of
        None \<Rightarrow> False
      | Some (protocol, host) \<Rightarrow>
          if protocol \<noteq> ''https:'' \<and> protocol \<noteq> ''http:'' then False
          else if allowedDomains = [] then True
          else let hostname = lower_letters host in
            list_ex (\<lambda>domain. let d = lower_letters (trim_js domain) in
              d \<noteq> [] \<and> (hostname = d \<or> has_suffix (''.'' @ d) hostname)) allowedDomains))"

section \<open>Environment and state\<close>

text \<open>What \<open>jwt.verify\<close> does with a token.\<close>

datatype verified = Decoded json | ExpiredToken | BadToken string | VerifyError js_error

record 'w sep24_env =
  sp_parse_url :: "string \<Rightarrow> (string \<times> string) option"
  sp_origin :: "string \<Rightarrow> string option"
  sp_valid_key :: "string \<Rightarrow> bool"
  sp_jwt_sign :: "json \<Rightarrow> string \<Rightarrow> int \<Rightarrow> 'w \<Rightarrow> string"
  sp_jwt_verify :: "string \<Rightarrow> string \<Rightarrow> 'w \<Rightarrow> verified"
  sp_publish :: "string \<Rightarrow> string \<Rightarrow> 'w \<Rightarrow> (js_error + unit) \<times> 'w"
  sp_web :: "'w webhook_env"
  sp_tables :: "(rat option, 'w webhook_state) fee_env"
  sp_SEP24_ALLOWED_CALLBACK_DOMAINS :: "string option"
  sp_INTERACTIVE_URL :: "string option"
  sp_INTERACTIVE_SECRET :: "string option"
  sp_JWT_SECRET :: string
  sp_EXPIRATION_SECONDS :: int

type_synonym ('w, 'a) sep24 = "('w webhook_state, 'a) transfers"

definition in_web :: "('w, 'a) webhook \<Rightarrow> ('w, 'a) sep24" where
  "in_web m = in_fees (fworld m)"

section \<open>Callbacks of partners\<close>

definition CALLBACK_KEY_PREFIX :: string where "CALLBACK_KEY_PREFIX = ''sep24:callback:''"
definition CALLBACK_TTL_SECONDS :: int where "CALLBACK_TTL_SECONDS = 24 * 60 * 60"

text \<open>A stored callback is the object that was written; members that are undefined are not written.\<close>

type_synonym stored_callback = "(string \<times> json) list"

definition member_if :: "string \<Rightarrow> string option \<Rightarrow> (string \<times> json) list" where
  "member_if k v = (case v of Some x \<Rightarrow> [(k, JStr x)] | None \<Rightarrow> [])"

definition new_callback :: "string \<Rightarrow> string \<Rightarrow> string \<Rightarrow> string option \<Rightarrow> string option \<Rightarrow> stored_callback" where
  "new_callback callbackUrl kind assetCode amount account =
     [(''callbackUrl'', JStr callbackUrl), (''kind'', JStr kind), (''assetCode'', JStr assetCode)] @ member_if ''amount'' amount @ member_if ''account'' account"

definition text_of :: "stored_callback option \<Rightarrow> string \<Rightarrow> string option" where
  "text_of stored k = (case stored of None \<Rightarrow> None
     | Some ps \<Rightarrow> (case js_get ps k of Some (JStr s) \<Rightarrow> Some s | _ \<Rightarrow> None))"

definition storeCallback :: "'w sep24_env \<Rightarrow> string \<Rightarrow> stored_callback \<Rightarrow> ('w, unit) sep24" where
  "storeCallback env transactionId stored = in_web
     (ebind (wcall (we_redis_set (sp_web env) (CALLBACK_KEY_PREFIX @ transactionId) (json_stringify (JObj stored)))) (\<lambda>_.
      wcall (we_redis_expire (sp_web env) (CALLBACK_KEY_PREFIX @ transactionId) CALLBACK_TTL_SECONDS)))"

definition syntax_error :: js_error where
  "syntax_error = OtherErr ''SyntaxError'' ''Unexpected token in JSON'' None None None None None None"

text \<open>\<open>getJSON\<close>; a value that is no object has no members.\<close>

definition getCallback :: "'w sep24_env \<Rightarrow> string \<Rightarrow> ('w, stored_callback option) sep24" where
  "getCallback env transactionId = ebind (in_web (wcall (we_redis_get (sp_web env) (CALLBACK_KEY_PREFIX @ transactionId)))) (\<lambda>raw.
     case truthy_str raw of None \<Rightarrow> ereturn None
     | Some t \<Rightarrow> (case json_parse t of
         None \<Rightarrow> ethrow syntax_error
       | Some JNull \<Rightarrow> ereturn None
       | Some (JObj ps) \<Rightarrow> ereturn (Some ps)
       | Some _ \<Rightarrow> ereturn (Some [])))"

text \<open>The input of the notifier has no dates, so the normalisation of \<open>started_at\<close> and \<open>completed_at\<close> leaves it as it is.\<close>

definition notifyStatusChange :: "'w sep24_env \<Rightarrow> sep24_input \<Rightarrow> ('w, delivery_result \<times> string) sep24" where
  "notifyStatusChange env input = in_web (notifySep24StatusChange (sp_web env) (redis_store (sp_web env)) None input)"

definition no_callback_result :: "string \<Rightarrow> delivery_result \<times> string" where
  "no_callback_result transactionId = (skipped_result\<lparr>dl_error := Some ''No callback URL configured''\<rparr>, ''sep24:'' @ transactionId @ '':claimable'')"

definition notifyClaimableBalance :: "'w sep24_env \<Rightarrow> string \<Rightarrow> string \<Rightarrow> string option \<Rightarrow> ('w, delivery_result \<times> string) sep24" where
  "notifyClaimableBalance env transactionId claimableBalanceId callbackUrlOverride =
     ebind (getCallback env transactionId) (\<lambda>stored.
     let callbackUrl = (case truthy_str callbackUrlOverride of Some u \<Rightarrow> Some u | None \<Rightarrow> text_of stored ''callbackUrl'') in
     ebind (case stored of None \<Rightarrow> ereturn ()
            | Some ps \<Rightarrow> storeCallback env transactionId (js_set ''claimableBalanceId'' (JStr claimableBalanceId) ps)) (\<lambda>_.
     case truthy_str callbackUrl of
       None \<Rightarrow> ereturn (no_callback_result transactionId)
     | Some url \<Rightarrow> in_web (notifySep24StatusChange (sp_web env) (redis_store (sp_web env)) None
         \<lparr>i24_transactionId = transactionId, i24_kind = (case text_of stored ''kind'' of Some k \<Rightarrow> k | None \<Rightarrow> ''deposit''),
          i24_previousStatus = ''pending_anchor'', i24_nextStatus = ''pending_external'', i24_callbackUrl = url,
          i24_amount = text_of stored ''amount'', i24_assetCode = text_of stored ''assetCode'', i24_stellarTransactionId = None,
          i24_externalTransactionId = None, i24_claimableBalanceId = Some claimableBalanceId, i24_event = Some ''sep24.transaction.claimable''\<rparr>)))"

section \<open>Tokens and URLs of the interactive flow\<close>

record interactive_params =
  ia_transactionId :: string
  ia_account :: "string option"
  ia_assetCode :: string
  ia_amount :: "string option"
  ia_lang :: "string option"
  ia_flow :: string

definition token_lang :: "interactive_params \<Rightarrow> string" where
  "token_lang p = (case ia_lang p of Some l \<Rightarrow> l | None \<Rightarrow> ''en'')"

definition interactive_payload :: "interactive_params \<Rightarrow> json" where
  "interactive_payload p = JObj [(''sub'', JStr (case ia_account p of Some a \<Rightarrow> a | None \<Rightarrow> '''')), (''jti'', JStr (ia_transactionId p)),
     (''data'', JObj ([(''asset'', JStr (ia_assetCode p))] @ opt_member ''amount'' (ia_amount p)
        @ [(''lang'', JStr (token_lang p)), (''flow'', JStr (ia_flow p))]))]"

definition getSecret :: "'w sep24_env \<Rightarrow> string" where
  "getSecret env = (case sp_INTERACTIVE_SECRET env of Some s \<Rightarrow> s | None \<Rightarrow> sp_JWT_SECRET env)"

definition signInteractiveToken :: "'w sep24_env \<Rightarrow> interactive_params \<Rightarrow> 'w \<Rightarrow> string" where
  "signInteractiveToken env p w = sp_jwt_sign env (interactive_payload p) (getSecret env) (sp_EXPIRATION_SECONDS env) w"

text \<open>\<open>v?.k\<close> of a value.\<close>

definition member :: "string \<Rightarrow> json \<Rightarrow> json" where
  "member k v = (case v of JObj ps \<Rightarrow> (case js_get ps k of Some x \<Rightarrow> x | None \<Rightarrow> JUndef) | _ \<Rightarrow> JUndef)"

definition InteractiveTokenError :: "string \<Rightarrow> js_error" where
  "InteractiveTokenError message = OtherErr ''InteractiveTokenError'' message None None None None None None"

definition check_interactive :: "json \<Rightarrow> js_error + json" where
  "check_interactive decoded =
     (if \<not> json_truthy (member ''jti'' decoded) \<or> \<not> json_truthy (member ''asset'' (member ''data'' decoded))
         \<or> \<not> json_truthy (member ''flow'' (member ''data'' decoded)) then Inl (InteractiveTokenError ''Invalid token payload'')
      else if member ''flow'' (member ''data'' decoded) \<noteq> JStr ''deposit'' \<and> member ''flow'' (member ''data'' decoded) \<noteq> JStr ''withdraw''
      then Inl (InteractiveTokenError ''Invalid token flow'')
      else Inr decoded)"

definition validateInteractiveToken :: "'w sep24_env \<Rightarrow> string \<Rightarrow> 'w \<Rightarrow> js_error + json" where
  "validateInteractiveToken env token w = (case sp_jwt_verify env token (getSecret env) w of
     Decoded decoded \<Rightarrow> check_interactive decoded
   | ExpiredToken \<Rightarrow> Inl (InteractiveTokenError ''Token has expired'')
   | BadToken m \<Rightarrow> Inl (InteractiveTokenError ''Invalid token'')
   | VerifyError e \<Rightarrow> Inl e)"

text \<open>A component of a query, as \<open>URLSearchParams\<close> writes it.\<close>

definition form_char :: "char \<Rightarrow> string" where
  "form_char c = (if is_alnum c \<or> c \<in> set ''*-._'' then [c] else if c = CHR '' '' then ''+''
     else [CHR ''%'', hex_upper (of_char c div 16), hex_upper (of_char c mod 16)])"

definition form_text :: "string \<Rightarrow> string" where
  "form_text s = concat (List.map form_char s)"

definition query_text :: "(string \<times> string) list \<Rightarrow> string" where
  "query_text params = join_with ''&'' (List.map (\<lambda>(k, v). form_text k @ ''='' @ form_text v) params)"

definition if_given :: "string \<Rightarrow> string option \<Rightarrow> (string \<times> string) list" where
  "if_given k v = (case truthy_str v of Some x \<Rightarrow> [(k, x)] | None \<Rightarrow> [])"

definition invalid_url :: js_error where
  "invalid_url = OtherErr ''TypeError'' ''Invalid URL'' (Some ''ERR_INVALID_URL'') None None None None None"

definition buildInteractiveUrl :: "'w sep24_env \<Rightarrow> string \<Rightarrow> string \<Rightarrow> interactive_params \<Rightarrow> 'w \<Rightarrow> js_error + string" where
  "buildInteractiveUrl env baseUrl path p w =
     (let token = signInteractiveToken env p w in
      case sp_origin env baseUrl of None \<Rightarrow> Inl invalid_url
      | Some origin \<Rightarrow> Inr (origin @ path @ ''?'' @ query_text
          ([(''transaction_id'', ia_transactionId p), (''asset_code'', ia_assetCode p)] @ if_given ''account'' (ia_account p)
           @ if_given ''amount'' (ia_amount p) @ [(''lang'', token_lang p), (''token'', token)])))"

definition normalizeAssetCode :: "string \<Rightarrow> string" where
  "normalizeAssetCode assetCode = upper_text (trim_js assetCode)"

definition isSupportedAsset :: "string \<Rightarrow> bool" where
  "isSupportedAsset assetCode \<longleftrightarrow> getAsset assetCode \<noteq> None"

definition createDepositInteractiveUrl :: "'w sep24_env \<Rightarrow> string \<Rightarrow> interactive_params \<Rightarrow> 'w \<Rightarrow> js_error + string" where
  "createDepositInteractiveUrl env baseUrl p =
     buildInteractiveUrl env baseUrl ''/kyc-deposit'' (p\<lparr>ia_assetCode := normalizeAssetCode (ia_assetCode p), ia_flow := ''deposit''\<rparr>)"

definition createWithdrawInteractiveUrl :: "'w sep24_env \<Rightarrow> string \<Rightarrow> interactive_params \<Rightarrow> 'w \<Rightarrow> js_error + string" where
  "createWithdrawInteractiveUrl env baseUrl p =
     buildInteractiveUrl env baseUrl ''/kyc-withdraw'' (p\<lparr>ia_assetCode := normalizeAssetCode (ia_assetCode p), ia_flow := ''withdraw''\<rparr>)"

section \<open>The routes\<close>

definition isValidCallbackUrl :: "'w sep24_env \<Rightarrow> string \<Rightarrow> bool" where
  "isValidCallbackUrl env callback = (case sp_parse_url env callback of Some (protocol, host) \<Rightarrow> protocol = ''https:'' | None \<Rightarrow> False)"

definition VALID_MEMO_TYPES :: "string list" where "VALID_MEMO_TYPES = [''text'', ''id'', ''hash'']"

definition validateMemoFields :: "string option \<Rightarrow> string option \<Rightarrow> string option" where
  "validateMemoFields memo memoType = (case memo of None \<Rightarrow> None
   | Some m \<Rightarrow> let resolved = (case memoType of Some t \<Rightarrow> t | None \<Rightarrow> ''text'') in
       if resolved \<notin> set VALID_MEMO_TYPES then Some ''memo_type must be one of text, id, hash''
       else if \<not> validateMemo m resolved then Some (''memo is invalid for memo_type '' @ resolved)
       else None)"

definition isValidStellarPublicKey :: "'w sep24_env \<Rightarrow> string \<Rightarrow> bool" where
  "isValidStellarPublicKey env a \<longleftrightarrow> length a = 56 \<and> hd a = CHR ''G'' \<and> sp_valid_key env a"

record interactive_body =
  ib_asset_code :: "string option"
  ib_account :: "string option"
  ib_amount :: "string option"
  ib_lang :: "string option"
  ib_quote_id :: "string option"
  ib_redirect_url :: "string option"
  ib_on_change_callback :: "string option"
  ib_callback :: "string option"
  ib_memo :: "string option"
  ib_memo_type :: "string option"

text \<open>\<open>split(',').filter(Boolean)\<close> of the setting.\<close>

definition allowed_domains :: "'w sep24_env \<Rightarrow> string list" where
  "allowed_domains env = (case truthy_str (sp_SEP24_ALLOWED_CALLBACK_DOMAINS env) of None \<Rightarrow> []
     | Some t \<Rightarrow> filter (\<lambda>d. d \<noteq> []) (split_char (CHR '','') t))"

definition domain_refused :: "'w sep24_env \<Rightarrow> string option \<Rightarrow> bool" where
  "domain_refused env url = (case truthy_str url of None \<Rightarrow> False
     | Some u \<Rightarrow> allowed_domains env \<noteq> [] \<and> \<not> validateCallbackUrl (sp_parse_url env) u (allowed_domains env))"

text \<open>The checks of a request before the quote: the error of the answer 400, or the code of the asset.\<close>

definition check_interactive_request :: "'w sep24_env \<Rightarrow> interactive_body \<Rightarrow> string + string" where
  "check_interactive_request env b =
     (if domain_refused env (ib_redirect_url b) then Inl ''invalid redirect_url domain''
      else if domain_refused env (ib_on_change_callback b) then Inl ''invalid on_change_callback domain''
      else case validateMemoFields (ib_memo b) (ib_memo_type b) of Some e \<Rightarrow> Inl e | None \<Rightarrow>
       (case truthy_str (ib_asset_code b) of None \<Rightarrow> Inl ''asset_code is required''
        | Some code \<Rightarrow> let normalized = normalizeAssetCode code in
          if \<not> isSupportedAsset normalized then Inl (''Asset '' @ code @ '' is not supported. Supported assets: '' @ join_with '', '' SUPPORTED_ASSET_CODES)
          else if (case ib_account b of Some a \<Rightarrow> \<not> isValidStellarPublicKey env a | None \<Rightarrow> False) then Inl ''account must be a valid Stellar public key''
          else if (case ib_callback b of Some c \<Rightarrow> \<not> isValidCallbackUrl env c | None \<Rightarrow> False) then Inl ''callback must be a valid HTTPS URL''
          else Inr normalized))"

text \<open>A quote is looked at, and not claimed.\<close>

definition check_interactive_quote :: "'w sep24_env \<Rightarrow> string option \<Rightarrow> ('w, string option) sep24" where
  "check_interactive_quote env quote_id = (case truthy_str quote_id of None \<Rightarrow> ereturn None
   | Some q \<Rightarrow> ebind (find_quote (sp_tables env) q) (\<lambda>quote. ebind (tclock (sp_tables env)) (\<lambda>now. case quote of
       None \<Rightarrow> ereturn (Some ''Quote not found'')
     | Some row \<Rightarrow> ereturn (if qr_status row = QExpired \<or> (case qr_expiresAt row of Some t \<Rightarrow> t < now | None \<Rightarrow> False)
         then Some ''Quote has expired'' else None))))"

datatype sep24_response =
    Sep24Error int string
  | Sep24Interactive string string
  | Sep24Transaction string string string "string option" jsnum jsnum string "string option" "string option"
  | Sep24Status string string string "string option" "delivery_result \<times> string"

text \<open>The two handlers differ in the kind they store and in the URL they answer with.\<close>

definition interactive :: "'w sep24_env \<Rightarrow> string \<Rightarrow> (string \<Rightarrow> interactive_params \<Rightarrow> 'w webhook_state \<Rightarrow> js_error + string)
    \<Rightarrow> interactive_body \<Rightarrow> ('w, sep24_response) sep24" where
  "interactive env kind create_url b = (case check_interactive_request env b of
     Inl e \<Rightarrow> ereturn (Sep24Error 400 e)
   | Inr assetCode \<Rightarrow> ebind (check_interactive_quote env (ib_quote_id b)) (\<lambda>refused. case refused of
       Some e \<Rightarrow> ereturn (Sep24Error 400 e)
     | None \<Rightarrow> ebind (tuuid (sp_tables env)) (\<lambda>transactionId.
         let partnerCallback = (case truthy_str (ib_on_change_callback b) of Some c \<Rightarrow> Some c | None \<Rightarrow> truthy_str (ib_callback b)) in
         ebind (case partnerCallback of None \<Rightarrow> ereturn ()
                | Some c \<Rightarrow> storeCallback env transactionId (new_callback c kind assetCode (ib_amount b) (ib_account b))) (\<lambda>_.
         ebind (eget (\<lambda>s. fz_world (tf_fees s))) (\<lambda>w.
         ebind (elift (create_url (case truthy_str (sp_INTERACTIVE_URL env) of Some u \<Rightarrow> u | None \<Rightarrow> ''http://localhost:3000'')
             \<lparr>ia_transactionId = transactionId, ia_account = ib_account b, ia_assetCode = assetCode, ia_amount = ib_amount b,
              ia_lang = Some (case ib_lang b of Some l \<Rightarrow> l | None \<Rightarrow> ''en''), ia_flow = kind\<rparr> w)) (\<lambda>url.
         ereturn (Sep24Interactive url transactionId)))))))"

definition deposit_interactive :: "'w sep24_env \<Rightarrow> interactive_body \<Rightarrow> ('w, sep24_response) sep24" where
  "deposit_interactive env = interactive env ''deposit'' (\<lambda>base p s. createDepositInteractiveUrl env base p (wx_world s))"

definition withdraw_interactive :: "'w sep24_env \<Rightarrow> interactive_body \<Rightarrow> ('w, sep24_response) sep24" where
  "withdraw_interactive env = interactive env ''withdrawal'' (\<lambda>base p s. createWithdrawInteractiveUrl env base p (wx_world s))"

text \<open>\<open>GET /fee\<close>; a number is \<open>parseFloat\<close> of the text.\<close>

datatype fee_answer = FeeError int string | FeeShown sep24_fee

definition fee_endpoint :: "(rat option) bignum \<Rightarrow> string option \<Rightarrow> string option \<Rightarrow> string option \<Rightarrow> fee_answer" where
  "fee_endpoint B asset_code operation amountRaw = (case truthy_str asset_code of
     None \<Rightarrow> FeeError 400 ''asset_code is required''
   | Some asset \<Rightarrow> (case truthy_str operation of
       None \<Rightarrow> FeeError 400 ''operation must be deposit or withdrawal''
     | Some op \<Rightarrow>
         if op \<noteq> ''deposit'' \<and> op \<noteq> ''withdrawal'' then FeeError 400 ''operation must be deposit or withdrawal''
         else (case truthy_str amountRaw of
           None \<Rightarrow> FeeError 400 ''amount must be a non-negative number''
         | Some raw \<Rightarrow> let amount = parseFloat raw in
             if \<not> js_isFinite amount \<or> js_less amount (Fin 0) then FeeError 400 ''amount must be a non-negative number''
             else (case calculateSep24Fee B asset op (NumV amount) of
               Inl e \<Rightarrow> FeeError 400 (case error_message e of Some m \<Rightarrow> m | None \<Rightarrow> ''Failed to calculate fee'')
             | Inr fee \<Rightarrow> FeeShown fee))))"

text \<open>\<open>GET /transaction\<close>: the first row that has every identifier that was given.\<close>

definition matching_txn :: "string option \<Rightarrow> string option \<Rightarrow> string option \<Rightarrow> (string, txn) jsmap \<Rightarrow> (string \<times> txn) option" where
  "matching_txn i stellarId externalId m = find (\<lambda>(k, t). (case truthy_str i of Some x \<Rightarrow> k = x | None \<Rightarrow> True)
     \<and> (case truthy_str stellarId of Some x \<Rightarrow> tn_stellarTxId t = Some x | None \<Rightarrow> True)
     \<and> (case truthy_str externalId of Some x \<Rightarrow> tn_externalId t = Some x | None \<Rightarrow> True)) m"

definition get_transaction :: "'w sep24_env \<Rightarrow> string option \<Rightarrow> string option \<Rightarrow> string option \<Rightarrow> ('w, sep24_response) sep24" where
  "get_transaction env i stellarId externalId =
     (if truthy_str i = None \<and> truthy_str stellarId = None \<and> truthy_str externalId = None
      then ereturn (Sep24Error 400 ''One of id, stellar_transaction_id, or external_transaction_id is required'')
      else ecatch
        (ebind (tdb (sp_tables env)) (\<lambda>_. ebind (eget (\<lambda>s. matching_txn i stellarId externalId (tf_txs s))) (\<lambda>found. case found of
           None \<Rightarrow> ereturn (Sep24Error 404 ''Transaction not found'')
         | Some (k, t) \<Rightarrow>
             (case truthy_str (case tn_stellarTxId t of Some h \<Rightarrow> Some h | None \<Rightarrow> stellarId) of
                None \<Rightarrow> ereturn (Sep24Error 400 ''Stellar transaction hash is missing or invalid'')
              | Some validHash \<Rightarrow> ebind (getCallback env k) (\<lambda>stored.
                  ereturn (Sep24Transaction k (lower_letters (tn_type t)) (lower_letters (tn_status t))
                    (if tn_type t = ''DEPOSIT'' then Some (tn_amount t) else None) (seconds_of (tn_createdAt t))
                    (seconds_of (case tn_completedAt t of Some c \<Rightarrow> c | None \<Rightarrow> tn_updatedAt t)) validHash (tn_externalId t)
                    (case text_of stored ''claimableBalanceId'' of Some c \<Rightarrow> Some c | None \<Rightarrow> tn_claimableBalanceId t)))))))
        (\<lambda>_. ereturn (Sep24Error 500 ''Failed to fetch transaction'')))"

text \<open>\<open>PATCH /transactions/:id/status\<close>.\<close>

record status_body =
  pb_status :: "string option"
  pb_previous_status :: "string option"
  pb_callback :: "string option"
  pb_claimable_balance_id :: "string option"

definition sep24StatusChannel :: "string \<Rightarrow> string" where
  "sep24StatusChannel i = ''sep24:tx:'' @ i"

definition status_row :: "string \<Rightarrow> string option \<Rightarrow> txn \<Rightarrow> txn" where
  "status_row status balance t = t\<lparr>tn_status := upper_text status,
     tn_claimableBalanceId := (case truthy_str balance of Some c \<Rightarrow> Some c | None \<Rightarrow> tn_claimableBalanceId t)\<rparr>"

text \<open>The row and the socket; when the row cannot be updated the partner is told all the same.\<close>

definition update_status_row :: "'w sep24_env \<Rightarrow> string \<Rightarrow> string \<Rightarrow> string option \<Rightarrow> ('w, txn option) sep24" where
  "update_status_row env i status balance = ecatch
     (ebind (update_txn (sp_tables env) i (status_row status balance)) (\<lambda>t.
      ebind (if tn_userId t \<noteq> [] then emit (Transfers.Emitted (tn_userId t) i (tn_status t)) else ereturn ()) (\<lambda>_. ereturn (Some t))))
     (\<lambda>_. ereturn None)"

definition status_message_json :: "string \<Rightarrow> string \<Rightarrow> string \<Rightarrow> string option \<Rightarrow> int \<Rightarrow> json" where
  "status_message_json i status previous balance now = JObj ([(''id'', JStr i), (''status'', JStr status), (''previous_status'', JStr previous)]
     @ member_if ''claimable_balance_id'' balance @ [(''updated_at'', JStr (iso_string now))])"

definition publish_status :: "'w sep24_env \<Rightarrow> string \<Rightarrow> string \<Rightarrow> ('w, unit) sep24" where
  "publish_status env channel message = ecatch
     (ebind (in_web (wcall (sp_publish env channel message))) (\<lambda>_. emit (Published channel message)))
     (\<lambda>_. ereturn ())"

definition patch_status :: "'w sep24_env \<Rightarrow> string \<Rightarrow> status_body \<Rightarrow> ('w, sep24_response) sep24" where
  "patch_status env i b = (case truthy_str (pb_status b) of
     None \<Rightarrow> ereturn (Sep24Error 400 ''status is required'')
   | Some status \<Rightarrow> ebind (getCallback env i) (\<lambda>stored.
       let callbackUrl = (case pb_callback b of
           Some c \<Rightarrow> if isValidCallbackUrl env c then Some c else text_of stored ''callbackUrl'' | None \<Rightarrow> text_of stored ''callbackUrl'');
         balance = truthy_str (pb_claimable_balance_id b);
         effective = (case balance of Some c \<Rightarrow> Some c | None \<Rightarrow> text_of stored ''claimableBalanceId'');
         previousStatus = (case pb_previous_status b of Some p \<Rightarrow> p | None \<Rightarrow> ''pending_user'');
         kind = (case text_of stored ''kind'' of Some k \<Rightarrow> k | None \<Rightarrow> ''deposit'')
       in case truthy_str callbackUrl of
         None \<Rightarrow> ereturn (Sep24Error 404 ''No partner callback configured for this transaction'')
       | Some url \<Rightarrow>
           ebind (case (balance, stored) of
               (Some c, Some ps) \<Rightarrow> storeCallback env i (js_set ''claimableBalanceId'' (JStr c) ps) | _ \<Rightarrow> ereturn ()) (\<lambda>_.
           ebind (update_status_row env i status effective) (\<lambda>updated.
           ebind (tclock (sp_tables env)) (\<lambda>now.
           ebind (publish_status env (sep24StatusChannel i) (json_stringify (status_message_json i status previousStatus effective now))) (\<lambda>_.
           ebind (notifyStatusChange env \<lparr>i24_transactionId = i, i24_kind = kind, i24_previousStatus = previousStatus, i24_nextStatus = status,
               i24_callbackUrl = url, i24_amount = (case text_of stored ''amount'' of Some a \<Rightarrow> Some a | None \<Rightarrow> map_option tn_amount updated),
               i24_assetCode = (case text_of stored ''assetCode'' of Some a \<Rightarrow> Some a | None \<Rightarrow> map_option tn_assetCode updated),
               i24_stellarTransactionId = Option.bind updated tn_stellarTxId, i24_externalTransactionId = Option.bind updated tn_externalId,
               i24_claimableBalanceId = effective,
               i24_event = Some (if lower_letters status = ''pending_external'' \<or> truthy_str effective \<noteq> None
                 then ''sep24.transaction.claimable'' else ''sep24.transaction.status_changed'')\<rparr>) (\<lambda>delivery.
           ereturn (Sep24Status i status previousStatus effective delivery))))))))"

section \<open>The worker\<close>

text \<open>The conditional update of the status, on the table.\<close>

definition claimable_open :: "txn \<Rightarrow> bool" where
  "claimable_open t \<longleftrightarrow> tn_status t \<notin> {''PENDING_EXTERNAL'', ''COMPLETED'', ''ERROR''}"

definition move_to_external :: "'w sep24_env \<Rightarrow> string \<Rightarrow> ('w, nat) sep24" where
  "move_to_external env i = ebind (tdb (sp_tables env)) (\<lambda>_. ebind (tclock (sp_tables env)) (\<lambda>now. ebind (eget tf_txs) (\<lambda>m. case js_get m i of
     Some t \<Rightarrow> if claimable_open t
       then ebind (emodify (\<lambda>s. s\<lparr>tf_txs := js_set i (t\<lparr>tn_status := ''PENDING_EXTERNAL'', tn_updatedAt := now\<rparr>) m\<rparr>)) (\<lambda>_. ereturn 1)
       else ereturn 0
   | None \<Rightarrow> ereturn 0)))"

definition processDepositClaimable :: "'w sep24_env \<Rightarrow> string \<Rightarrow> string \<Rightarrow> string option \<Rightarrow> ('w, bool) sep24" where
  "processDepositClaimable env transactionId claimableBalanceId callbackUrl = ecatch
     (ebind (ecatch (ebind (move_to_external env transactionId) (\<lambda>_. ereturn ())) (\<lambda>_. ereturn ())) (\<lambda>_.
      ebind (notifyClaimableBalance env transactionId claimableBalanceId callbackUrl) (\<lambda>(delivery, key). ereturn (dl_delivered delivery))))
     (\<lambda>_. ereturn False)"

text \<open>The query has no order: the first twenty rows in the order of the table.\<close>

definition pending_claimable :: "(string, txn) jsmap \<Rightarrow> string list" where
  "pending_claimable m = take 20 (List.map fst (filter (\<lambda>(i, t). tn_type t = ''DEPOSIT'' \<and> tn_status t = ''PENDING_EXTERNAL'') m))"

definition remind_partner :: "'w sep24_env \<Rightarrow> string \<Rightarrow> ('w, bool) sep24" where
  "remind_partner env i = ebind (getCallback env i) (\<lambda>stored.
     case (truthy_str (text_of stored ''callbackUrl''), truthy_str (text_of stored ''claimableBalanceId'')) of
       (Some url, Some c) \<Rightarrow> ebind (notifyClaimableBalance env i c (Some url)) (\<lambda>_. ereturn True)
     | _ \<Rightarrow> ereturn False)"

definition processPendingClaimableDeposits :: "'w sep24_env \<Rightarrow> ('w, nat) sep24" where
  "processPendingClaimableDeposits env = ecatch
     (ebind (tdb (sp_tables env)) (\<lambda>_. ebind (eget (\<lambda>s. pending_claimable (tf_txs s))) (\<lambda>ids.
      ebind (eff_list (remind_partner env) ids) (\<lambda>sent. ereturn (length (filter id sent))))))
     (\<lambda>_. ereturn 0)"

section \<open>Sessions\<close>

definition SESSION_TTL_MS :: int where "SESSION_TTL_MS = 15 * 60 * 1000"

definition SESSION_ASSETS :: "string list" where "SESSION_ASSETS = [''USDC'', ''USD'', ''BTC'', ''ETA'']"

record sep24_session =
  ss_assetCode :: string
  ss_kind :: string
  ss_account :: "string option"
  ss_expiresAt :: int

text \<open>Sessions by transaction, with the time at which a handler runs.\<close>

definition getActiveSession :: "int \<Rightarrow> string \<Rightarrow> (string, sep24_session) jsmap \<Rightarrow> sep24_session option \<times> (string, sep24_session) jsmap" where
  "getActiveSession now i m = (case js_get m i of
     None \<Rightarrow> (None, m)
   | Some session \<Rightarrow> if ss_expiresAt session < now then (None, js_delete i m) else (Some session, m))"

definition purgeExpiredSessions :: "int \<Rightarrow> (string, sep24_session) jsmap \<Rightarrow> nat \<times> (string, sep24_session) jsmap" where
  "purgeExpiredSessions now m = (length (filter (\<lambda>(i, session). ss_expiresAt session < now) m), filter (\<lambda>(i, session). \<not> ss_expiresAt session < now) m)"

datatype session_answer = SessionError int string | SessionStarted string string string | SessionShown string string string string

record session_request =
  sq_asset_code :: "string option"
  sq_account :: "string option"
  sq_amount :: "string option"
  sq_lang :: "string option"
  sq_dest :: "string option"
  sq_dest_extra :: "string option"

definition session_lang :: "session_request \<Rightarrow> string" where
  "session_lang r = (case sq_lang r of Some l \<Rightarrow> l | None \<Rightarrow> ''en'')"

text \<open>Both handlers: the check of the asset, the session, and the URL with the parameters of the handler. \<open>origin\<close> is the origin of the
  interactive site.\<close>

definition start_session :: "string \<Rightarrow> string \<Rightarrow> string \<Rightarrow> (session_request \<Rightarrow> (string \<times> string) list) \<Rightarrow> int \<Rightarrow> string \<Rightarrow> session_request
    \<Rightarrow> (string, sep24_session) jsmap \<Rightarrow> session_answer \<times> (string, sep24_session) jsmap" where
  "start_session kind path origin extra now transactionId r m = (case truthy_str (sq_asset_code r) of
     None \<Rightarrow> (SessionError 400 ''asset_code is required'', m)
   | Some code \<Rightarrow>
       if upper_text code \<notin> set SESSION_ASSETS
       then (SessionError 400 (''Asset '' @ code @ '' is not supported. Supported assets: '' @ join_with '', '' SESSION_ASSETS), m)
       else let expiresAt = now + SESSION_TTL_MS in
         (SessionStarted (origin @ path @ ''?'' @ query_text ([(''transaction_id'', transactionId), (''asset_code'', code)]
             @ if_given ''account'' (sq_account r) @ if_given ''amount'' (sq_amount r) @ extra r @ [(''lang'', session_lang r)]))
           transactionId (iso_string expiresAt),
          js_set transactionId \<lparr>ss_assetCode = upper_text code, ss_kind = kind, ss_account = sq_account r, ss_expiresAt = expiresAt\<rparr> m))"

definition depositInteractive :: "string \<Rightarrow> int \<Rightarrow> string \<Rightarrow> session_request \<Rightarrow> (string, sep24_session) jsmap
    \<Rightarrow> session_answer \<times> (string, sep24_session) jsmap" where
  "depositInteractive origin = start_session ''deposit'' ''/kyc-deposit'' origin (\<lambda>r. [])"

definition withdrawInteractive :: "string \<Rightarrow> int \<Rightarrow> string \<Rightarrow> session_request \<Rightarrow> (string, sep24_session) jsmap
    \<Rightarrow> session_answer \<times> (string, sep24_session) jsmap" where
  "withdrawInteractive origin = start_session ''withdraw'' ''/kyc-withdraw'' origin
     (\<lambda>r. if_given ''dest'' (sq_dest r) @ if_given ''dest_extra'' (sq_dest_extra r))"

definition validateInteractiveSession :: "int \<Rightarrow> string \<Rightarrow> (string, sep24_session) jsmap \<Rightarrow> session_answer \<times> (string, sep24_session) jsmap" where
  "validateInteractiveSession now i m =
     (if i = [] then (SessionError 400 ''transaction_id is required'', m)
      else case getActiveSession now i m of
        (None, m') \<Rightarrow> (SessionError 410 ''session_expired'', m')
      | (Some session, m') \<Rightarrow> (SessionShown i (ss_assetCode session) (ss_kind session) (iso_string (ss_expiresAt session)), m'))"

end
