(* ===== verification/Sep24_Props.thy ===== *)
theory Sep24_Props
  imports Sep24 Transfer_Props Fee_Props
begin

text \<open>
  The properties of the interactive transfers (theory \<open>Sep24\<close>): which callbacks a request may name, what an update of the status does to the
  reconciliation, what the interactive requests leave behind, whom the worker serves, and how long a session lives.
\<close>

section \<open>What the parts keep\<close>

definition tables :: "'w transfer_state \<Rightarrow> (string, txn) jsmap \<times> (string, quote_row) jsmap \<times> (string, user_row) jsmap" where
  "tables s = (tf_txs s, tf_quotes s, tf_users s)"

lemma web_keeps [keeps_rules]: "keeps tables (in_web m)" "keeps tables (tdb e)" "keeps tables (tclock e)" "keeps tables (tuuid e)"
  by (simp_all add: in_web_def tdb_def tclock_def tuuid_def in_fees_keeps tables_def)

lemma emit_keeps [keeps_rules]: "keeps tables (emit e)"
  by (simp add: emit_def keeps_emodify tables_def)

lemma callback_keeps [keeps_rules]: "keeps tables (storeCallback env i c)" "keeps tables (getCallback env i)" "keeps tables (notifyStatusChange env inp)"
  unfolding storeCallback_def getCallback_def notifyStatusChange_def
  by (intro keeps_rules | simp split: json.split)+ (auto intro!: keeps_rules split: option.splits json.splits)

lemma notify_keeps [keeps_rules]: "keeps tables (notifyClaimableBalance env i c u)"
  unfolding notifyClaimableBalance_def Let_def by (intro keeps_rules)

lemma remind_keeps [keeps_rules]: "keeps tables (remind_partner env i)"
  unfolding remind_partner_def by (auto intro!: keeps_rules split: option.splits)

lemma quote_keeps [keeps_rules]: "keeps tables (check_interactive_quote env q)"
  unfolding check_interactive_quote_def find_quote_def by (intro keeps_rules)

lemma interactive_keeps: "keeps tables (interactive env kind url b)"
  unfolding interactive_def Let_def by (intro keeps_rules)

section \<open>Interactive requests\<close>

text \<open>An interactive request writes no row: whatever it answers, the transactions, the quotes and the users are what they were. So a quote that
  a request names is not consumed and serves any number of requests, and no transaction exists under the id that is answered.\<close>

theorem interactive_leaves_tables:
  assumes "deposit_interactive env b s = (r, s') \<or> withdraw_interactive env b s = (r, s')"
  shows "tf_txs s' = tf_txs s \<and> tf_quotes s' = tf_quotes s \<and> tf_users s' = tf_users s"
proof -
  have "tables s' = tables s" using assms
  proof
    assume d: "deposit_interactive env b s = (r, s')"
    show ?thesis by (rule keeps_result [OF interactive_keeps d [unfolded deposit_interactive_def]])
  next
    assume w: "withdraw_interactive env b s = (r, s')"
    show ?thesis by (rule keeps_result [OF interactive_keeps w [unfolded withdraw_interactive_def]])
  qed
  then show ?thesis by (simp add: tables_def)
qed

lemma callback_checked_last:
  "check_interactive_request env b = Inr a \<Longrightarrow> isValidCallbackUrl env url \<Longrightarrow> check_interactive_request env (b\<lparr>ib_callback := Some url\<rparr>) = Inr a"
  by (auto simp: check_interactive_request_def Let_def domain_refused_def split: if_splits option.splits)

text \<open>C16. The list of allowed domains does not bind: a URL that a request may not name as \<open>on_change_callback\<close>, because its domain is not on the list,
  the same request may name as \<open>callback\<close> when it is HTTPS, and it becomes the callback of the transaction.\<close>

theorem callback_escapes_whitelist:
  assumes "check_interactive_request env b = Inr a" "domain_refused env (Some url)" "isValidCallbackUrl env url"
  shows "check_interactive_request env (b\<lparr>ib_on_change_callback := Some url\<rparr>) = Inl ''invalid on_change_callback domain''
    \<and> check_interactive_request env (b\<lparr>ib_callback := Some url\<rparr>) = Inr a"
proof -
  have "\<not> domain_refused env (ib_redirect_url b)" using assms(1) by (auto simp: check_interactive_request_def split: if_splits)
  then have "check_interactive_request env (b\<lparr>ib_on_change_callback := Some url\<rparr>) = Inl ''invalid on_change_callback domain''"
    using assms(2) by (simp add: check_interactive_request_def)
  then show ?thesis using callback_checked_last [OF assms(1, 3)] by simp
qed

section \<open>Updates of the status\<close>

lemma preserves_kept: "keeps tables m \<Longrightarrow> preserves (\<lambda>s. Q (tf_txs s)) m"
  by (auto simp: preserves_def keeps_def tables_def)

text \<open>The row of a transaction is as it was or has the status in upper case.\<close>

definition row_upper :: "(string, txn) jsmap \<Rightarrow> string \<Rightarrow> string \<Rightarrow> (string, txn) jsmap \<Rightarrow> bool" where
  "row_upper m0 i status m \<longleftrightarrow> (\<forall>t. js_get m i = Some t \<longrightarrow> js_get m0 i = Some t \<or> tn_status t = upper_text status) \<and> (js_wf m0 \<longrightarrow> js_wf m)"

lemma update_txn_upper:
  fixes e :: "('b, 'c) fee_env"
  shows "preserves (\<lambda>s. row_upper m0 i status (tf_txs s)) (update_txn e i (status_row status claim))"
  unfolding preserves_def
proof (intro allI impI)
  fix s :: "'c transfer_state" assume p: "row_upper m0 i status (tf_txs s)"
  obtain r s' where u: "update_txn e i (status_row status claim) s = (r, s')" by fastforce
  show "row_upper m0 i status (tf_txs (snd (update_txn e i (status_row status claim) s)))"
    using p update_result [OF u] u by (auto simp: row_upper_def status_row_def split: sum.splits)
qed

lemma update_row_upper: "preserves (\<lambda>s. row_upper m0 i status (tf_txs s)) (update_status_row env i status claim)"
  unfolding update_status_row_def
  by (intro preserves_rules update_txn_upper preserves_kept [OF emit_keeps])

lemma publish_keeps [keeps_rules]: "keeps tables (publish_status env c msg)"
  unfolding publish_status_def by (intro keeps_rules)

lemma patch_row_upper:
  assumes "truthy_str (pb_status b) = Some status"
  shows "preserves (\<lambda>s. row_upper m0 i status (tf_txs s)) (patch_status env i b)"
proof -
  have store: "preserves (\<lambda>s. row_upper m0 i status (tf_txs s)) (case (c, stored) of (Some x, Some ps) \<Rightarrow> storeCallback env i (f x ps) | _ \<Rightarrow> ereturn ())"
    for c :: "string option" and stored :: "stored_callback option" and f
    by (auto intro!: preserves_rules preserves_kept [OF callback_keeps(1)] split: option.splits)
  show ?thesis unfolding patch_status_def Let_def assms option.case
    by (rule preserves_ebind preserves_case_option preserves_simple update_row_upper store preserves_kept [OF callback_keeps(2)]
        preserves_kept [OF callback_keeps(3)] preserves_kept [OF publish_keeps] preserves_kept [OF web_keeps(3)])+
qed

lemma upper_not_pending: "upper_text s \<noteq> ''pending_stellar''"
proof
  assume "upper_text s = ''pending_stellar''"
  then obtain c where "(if (97 :: nat) \<le> of_char c \<and> of_char c \<le> (122 :: nat) then char_of (of_char c - 32 :: nat) else c) = CHR ''p''"
    by (cases s) (auto simp: upper_text_def)
  then have "(of_char (if (97 :: nat) \<le> of_char c \<and> of_char c \<le> (122 :: nat) then char_of (of_char c - 32 :: nat) else c) :: nat) = 112" by simp
  then show False by (auto split: if_splits)
qed

text \<open>C19. A transaction whose status was set over SEP-24 is never reconciled with the ledger: the statuses are stored in upper case, and the
  reconciliation looks for \<open>pending_stellar\<close> in lower case. Whatever status a request sets, the row keeps the status it had or no run
  of the reconciliation takes it up.\<close>

theorem patched_status_never_reconciled:
  assumes "js_wf (tf_txs s)" "patch_status env i b s = (r, s')"
  shows "js_get (tf_txs s') i = js_get (tf_txs s) i \<or> (\<forall>cutoff h. (i, h) \<notin> set (pending_stellar cutoff (tf_txs s')))"
proof (cases "truthy_str (pb_status b)")
  case None
  then show ?thesis using assms(2) by (simp add: patch_status_def ereturn_def)
next
  case (Some status)
  have p: "row_upper (tf_txs s) i status (tf_txs s')"
    by (rule preserves_result [OF patch_row_upper [OF Some] assms(2)]) (simp add: row_upper_def)
  show ?thesis
  proof (cases "js_get (tf_txs s') i")
    case None
    then show ?thesis using pending_mem [of i _ _ "tf_txs s'"] p assms(1) by (fastforce simp: row_upper_def)
  next
    case t: (Some t)
    then show ?thesis using p assms(1) pending_mem [of i _ _ "tf_txs s'"] upper_not_pending [of status] by (fastforce simp: row_upper_def)
  qed
qed

section \<open>The worker\<close>

text \<open>A run of the worker looks at twenty deposits at most and changes no row, so every later run looks at the same twenty: a deposit behind them
  in the table is never announced by it.\<close>

theorem worker_serves_the_same_twenty:
  "length (pending_claimable (tf_txs s)) \<le> 20
    \<and> tf_txs (((snd \<circ> processPendingClaimableDeposits env) ^^ n) s) = tf_txs s"
proof -
  have "keeps tables (processPendingClaimableDeposits env)"
    unfolding processPendingClaimableDeposits_def by (intro keeps_rules)
  then have "tables (((snd \<circ> processPendingClaimableDeposits env) ^^ n) s) = tables s"
    by (induction n) (simp_all add: keepsD)
  then show ?thesis by (simp add: tables_def pending_claimable_def)
qed

section \<open>Sessions\<close>

datatype session_call = StartDeposit string session_request | StartWithdraw string session_request | Validate string | Purge

definition session_step :: "string \<Rightarrow> (string, sep24_session) jsmap \<Rightarrow> int \<times> session_call \<Rightarrow> (string, sep24_session) jsmap" where
  "session_step origin m c = (case c of (now, call) \<Rightarrow> (case call of
     StartDeposit i r \<Rightarrow> snd (depositInteractive origin now i r m)
   | StartWithdraw i r \<Rightarrow> snd (withdrawInteractive origin now i r m)
   | Validate i \<Rightarrow> snd (validateInteractiveSession now i m)
   | Purge \<Rightarrow> snd (purgeExpiredSessions now m)))"

definition starts :: "string \<Rightarrow> session_call \<Rightarrow> bool" where
  "starts i c \<longleftrightarrow> (\<exists>r. c = StartDeposit i r \<or> c = StartWithdraw i r)"

text \<open>A session is there, or is gone after its end.\<close>

definition session_at :: "int \<Rightarrow> string \<Rightarrow> sep24_session \<Rightarrow> (string, sep24_session) jsmap \<Rightarrow> bool" where
  "session_at now i x m \<longleftrightarrow> js_wf m \<and> (js_get m i = Some x \<or> js_get m i = None \<and> ss_expiresAt x < now)"

lemma purge_get: "js_wf m \<Longrightarrow> js_get (filter (\<lambda>(i, y). \<not> ss_expiresAt y < now) m) i
    = (case js_get m i of Some y \<Rightarrow> if ss_expiresAt y < now then None else Some y | None \<Rightarrow> None)"
proof (induction m)
  case (Cons p m)
  obtain j y where p: "p = (j, y)" by (cases p)
  have "js_wf m" "j \<notin> fst ` set m" using Cons.prems p by (simp_all add: js_wf_def)
  moreover have "map_of (filter (\<lambda>(i, y). \<not> ss_expiresAt y < now) m) j = None" if "j \<notin> fst ` set m"
    using that by (auto simp: map_of_eq_None_iff)
  ultimately show ?case using Cons.IH p by auto
qed simp

lemma purge_wf: "js_wf m \<Longrightarrow> js_wf (filter P m)"
  by (auto simp: js_wf_def intro!: distinct_map_filter)

lemma session_kept:
  assumes "session_at t i x m" "now \<le> t'" "t \<le> t'" "\<not> starts i c"
  shows "session_at t' i x (session_step origin m (now, c))"
proof (cases c)
  case (StartDeposit j r)
  then show ?thesis using assms
    by (auto simp: session_step_def depositInteractive_def start_session_def starts_def session_at_def Let_def split: option.splits)
next
  case (StartWithdraw j r)
  then show ?thesis using assms
    by (auto simp: session_step_def withdrawInteractive_def start_session_def starts_def session_at_def Let_def split: option.splits)
next
  case (Validate j)
  then show ?thesis using assms
    by (auto simp: session_step_def validateInteractiveSession_def getActiveSession_def session_at_def split: option.splits prod.splits)
next
  case Purge
  then show ?thesis using assms
    by (auto simp: session_step_def purgeExpiredSessions_def session_at_def purge_get purge_wf split: if_splits)
qed

lemma sessions_kept:
  "session_at t i x m \<Longrightarrow> t \<le> t' \<Longrightarrow> \<forall>(now, c) \<in> set calls. now \<le> t' \<and> \<not> starts i c \<Longrightarrow> session_at t' i x (foldl (session_step origin) m calls)"
proof (induction calls arbitrary: m t)
  case Nil
  then show ?case by (auto simp: session_at_def)
next
  case (Cons p calls)
  obtain now c where p: "p = (now, c)" by (cases p)
  have "session_at t' i x (session_step origin m (now, c))" using session_kept [OF Cons.prems(1), of now t' c] Cons.prems p by simp
  then show ?case using Cons.IH [of t' "session_step origin m (now, c)"] Cons.prems(3) p by simp
qed

text \<open>A session lives for fifteen minutes and not longer: whatever other requests and purges come between, asking for it shows it until
  15 * 60 * 1000 milliseconds after it started, and is answered with 410 from then on.\<close>

theorem session_lives_fifteen_minutes:
  assumes "js_wf m" "i \<noteq> []" "sq_asset_code req = Some code" "code \<noteq> []" "upper_text code \<in> set SESSION_ASSETS" "start \<le> t"
    "\<forall>(now, c) \<in> set calls. now \<le> t \<and> \<not> starts i c"
  shows "fst (validateInteractiveSession t i (foldl (session_step origin) (snd (depositInteractive origin start i req m)) calls))
    = (if t \<le> start + 900000 then SessionShown i (upper_text code) ''deposit'' (iso_string (start + 900000)) else SessionError 410 ''session_expired'')"
proof -
  define x where "x = \<lparr>ss_assetCode = upper_text code, ss_kind = ''deposit'', ss_account = sq_account req, ss_expiresAt = start + 900000\<rparr>"
  have t: "truthy_str (sq_asset_code req) = Some code" using assms(3, 4) by (cases code) (simp_all add: truthy_str_def)
  have "session_at start i x (snd (depositInteractive origin start i req m))"
    using assms(1, 5) t by (simp add: depositInteractive_def start_session_def session_at_def x_def SESSION_TTL_MS_def Let_def)
  then have "session_at t i x (foldl (session_step origin) (snd (depositInteractive origin start i req m)) calls)"
    by (rule sessions_kept) (use assms(6, 7) in auto)
  then show ?thesis using assms(2) by (auto simp: validateInteractiveSession_def getActiveSession_def session_at_def x_def)
qed

text \<open>
  The properties of the interactive transfers at concrete inputs: an anchor that allows the callbacks of one domain, and a partner with
  another.
\<close>

definition demo_sep24_web :: "nat webhook_env" where
  "demo_sep24_web = \<lparr>we_now = int, we_fetch = (\<lambda>r w. (Inr \<lparr>hr_ok = True, hr_status = 200, hr_text = Inr []\<rparr>, w)),
     we_redis_get = (\<lambda>k w. (Inr None, w)), we_redis_set = (\<lambda>k v w. (Inr (), w)), we_redis_expire = (\<lambda>k t w. (Inr (), w)),
     we_addJob = (\<lambda>n j opts i w. (Inr None, w)), we_db = (\<lambda>w. (Inr (), w)), we_alert = (\<lambda>m w. (Inr (), w)), we_random = (\<lambda>w. (Fin 0, w)),
     we_hmac = (\<lambda>k t. t), we_sha256 = (\<lambda>t. t), we_pow = (\<lambda>x y. Fin 1),
     we_config = \<lparr>pc_WEBHOOK_URL = None, pc_WEBHOOK_SECRET = None, pc_WEBHOOK_TIMEOUT_MS = None, pc_WEBHOOK_MAX_RETRIES = None, pc_WEBHOOK_RETRY_DELAY_MS = None\<rparr>\<rparr>"

definition demo_sep24_tables :: "(rat option, nat webhook_state) fee_env" where
  "demo_sep24_tables = \<lparr>fe_big = demo_bn, fe_redis = False, fe_get = (\<lambda>k w. (Inr None, w)), fe_set = (\<lambda>k v t w. (Inr (), w)),
     fe_fetch = (\<lambda>u w. (Inl (PlainError ''down''), w)), fe_db = (\<lambda>w. (None, w)), fe_uuid = (\<lambda>w. (''id1'', w)),
     fe_parseDate = (\<lambda>t. None), fe_now = (\<lambda>w. int (wx_world w)), fe_horizonUrl = ''https://horizon''\<rparr>"

text \<open>URLs of the form \<open>https://host\<close>.\<close>

definition demo_sep24 :: "nat sep24_env" where
  "demo_sep24 = \<lparr>sp_parse_url = (\<lambda>u. if starts_with ''https://'' u then Some (''https:'', drop 8 u) else None), sp_origin = Some,
     sp_valid_key = (\<lambda>k. True), sp_jwt_sign = (\<lambda>p k t w. ''jwt''), sp_jwt_verify = (\<lambda>t k w. BadToken ''malformed''),
     sp_publish = (\<lambda>c m w. (Inr (), w)), sp_web = demo_sep24_web, sp_tables = demo_sep24_tables,
     sp_SEP24_ALLOWED_CALLBACK_DOMAINS = Some ''wallet.org'', sp_INTERACTIVE_URL = None, sp_INTERACTIVE_SECRET = None,
     sp_JWT_SECRET = ''secret'', sp_EXPIRATION_SECONDS = 600\<rparr>"

definition demo_body :: interactive_body where
  "demo_body = \<lparr>ib_asset_code = Some ''USDC'', ib_account = None, ib_amount = Some ''10'', ib_lang = None, ib_quote_id = None, ib_redirect_url = None,
     ib_on_change_callback = None, ib_callback = None, ib_memo = None, ib_memo_type = None\<rparr>"

definition demo_sep24_state :: "nat webhook_state transfer_state" where
  "demo_sep24_state = \<lparr>tf_txs = [(''t1'', new_txn ''u1'' ''USDC'' ''10'' ''DEPOSIT'' ''pending_stellar'' 3)], tf_users = [], tf_quotes = [], tf_events = [],
     tf_fees = \<lparr>fz_rows = [], fz_world = \<lparr>wx_memory = [], wx_transactions = [], wx_attempts = [], wx_trace = [], wx_world = 5\<rparr>\<rparr>\<rparr>"

theorem interactive_leaves_tables_witness:
  "tf_txs (snd (deposit_interactive demo_sep24 demo_body demo_sep24_state)) = tf_txs demo_sep24_state"
  using interactive_leaves_tables [of demo_sep24 demo_body demo_sep24_state "fst (deposit_interactive demo_sep24 demo_body demo_sep24_state)"
      "snd (deposit_interactive demo_sep24 demo_body demo_sep24_state)"]
  by simp

lemma demo_asset_code: "normalizeAssetCode ''USDC'' = ''USDC''" "isSupportedAsset ''USDC''"
proof -
  have u: "upper_text (trim_js ''USDC'') = ''USDC''" by code_simp
  show "normalizeAssetCode ''USDC'' = ''USDC''" by (simp add: normalizeAssetCode_def u)
  show "isSupportedAsset ''USDC''" by (simp add: isSupportedAsset_def getAsset_def u ASSET_MAP_def ASSETS_def)
qed

lemma demo_domains: "domain_refused demo_sep24 (Some ''https://evil.com'')" "isValidCallbackUrl demo_sep24 ''https://evil.com''"
  by code_simp+

theorem callback_escapes_whitelist_witness:
  "check_interactive_request demo_sep24 (demo_body\<lparr>ib_on_change_callback := Some ''https://evil.com''\<rparr>) = Inl ''invalid on_change_callback domain''
    \<and> check_interactive_request demo_sep24 (demo_body\<lparr>ib_callback := Some ''https://evil.com''\<rparr>) = Inr ''USDC''"
proof (rule callback_escapes_whitelist [OF _ demo_domains])
  show "check_interactive_request demo_sep24 demo_body = Inr ''USDC''"
    by (simp add: check_interactive_request_def domain_refused_def demo_body_def truthy_str_def validateMemoFields_def demo_asset_code)
qed

definition demo_patched :: "nat webhook_state transfer_state" where
  "demo_patched = snd (patch_status demo_sep24 ''t1'' \<lparr>pb_status = Some ''pending_stellar'', pb_previous_status = None,
     pb_callback = Some ''https://evil.com'', pb_claimable_balance_id = None\<rparr> demo_sep24_state)"

lemma keeps_tail: "(\<And>x. keeps g (f x)) \<Longrightarrow> g (snd (ebind m f s)) = g (snd (m s))"
  by (auto simp: ebind_def keeps_def split: prod.splits sum.splits)

lemma demo_patched_status: "map_option tn_status (js_get (tf_txs demo_patched) ''t1'') = Some ''PENDING_STELLAR''"
proof -
  have g: "ebind (getCallback demo_sep24 ''t1'') f demo_sep24_state = f None demo_sep24_state" for f :: "_ \<Rightarrow> (nat, sep24_response) sep24"
    by (simp add: getCallback_def ebind_def in_web_def in_fees_def fworld_def wcall_def demo_sep24_def demo_sep24_web_def demo_sep24_state_def
        truthy_str_def ereturn_def)
  have u: "upper_text ''pending_stellar'' = ''PENDING_STELLAR''" by code_simp
  have r: "map_option tn_status (js_get (tf_txs (snd (update_status_row demo_sep24 ''t1'' ''pending_stellar'' None demo_sep24_state))) ''t1'')
      = Some ''PENDING_STELLAR''"
    by (simp add: update_status_row_def update_txn_def status_row_def tdb_def tclock_def in_fees_def fdb_def fclock_def eget_def ebind_def ecatch_def emit_def
        emodify_def ereturn_def demo_sep24_def demo_sep24_tables_def demo_sep24_state_def new_txn_def unique_ok_def taken_def u Let_def truthy_str_def)
  have "tables demo_patched = tables (snd (update_status_row demo_sep24 ''t1'' ''pending_stellar'' None demo_sep24_state))"
    unfolding demo_patched_def patch_status_def Let_def
    by (simp add: truthy_str_def g text_of_def demo_domains ebind_def [of "ereturn _"] ereturn_def [of "()"])
      (intro conjI impI keeps_tail keeps_rules)
  then show ?thesis using r by (simp add: tables_def)
qed

theorem patched_status_never_reconciled_witness:
  "map_option tn_status (js_get (tf_txs demo_patched) ''t1'') = Some ''PENDING_STELLAR'' \<and> (''t1'', ''h'') \<notin> set (pending_stellar 100 (tf_txs demo_patched))"
proof -
  have w: "js_wf (tf_txs demo_sep24_state)" by (simp add: demo_sep24_state_def js_wf_def)
  have "js_get (tf_txs demo_patched) ''t1'' \<noteq> js_get (tf_txs demo_sep24_state) ''t1''"
    using demo_patched_status by (auto simp: demo_sep24_state_def new_txn_def)
  then show ?thesis
    using patched_status_never_reconciled [OF w, of demo_sep24 _ _ _ demo_patched, unfolded demo_patched_def, OF surjective_pairing] demo_patched_status
    unfolding demo_patched_def by blast
qed

theorem session_lives_fifteen_minutes_witness:
  "fst (validateInteractiveSession 900100 ''s'' (foldl (session_step ''https://a'')
      (snd (depositInteractive ''https://a'' 100 ''s'' \<lparr>sq_asset_code = Some ''btc'', sq_account = None, sq_amount = None, sq_lang = None, sq_dest = None, sq_dest_extra = None\<rparr> []))
      [(200, Purge), (300, Validate ''s'')])) = SessionShown ''s'' ''BTC'' ''deposit'' (iso_string 900100)"
proof -
  have u: "upper_text ''btc'' = ''BTC''" by code_simp
  show ?thesis
    by (subst session_lives_fifteen_minutes [where code = "''btc''"]) (simp_all add: js_wf_def starts_def SESSION_ASSETS_def u)
qed

end
