(* ===== verification/Sep6.thy ===== *)
theory Sep6
  imports Sep24
begin

text \<open>
  SEP-6 deposits and withdrawals without an interactive part: \<open>backend/src/api/controllers/sep6.controller.ts\<close>. The tables are those of
  theory \<open>Transfers\<close>; decimals are the library bignumber.js, a parameter.
\<close>

section \<open>Assets\<close>

definition config_of_asset :: "asset_config \<Rightarrow> fee_config" where
  "config_of_asset a = \<lparr>fg_feeType = as_feeType a, fg_feeFixed = as_feeFixed a, fg_feePercent = as_feePercent a, fg_feeMinimum = as_feeMinimum a\<rparr>"

definition fee_type_name :: "fee_type \<Rightarrow> string" where
  "fee_type_name t = (case t of Flat \<Rightarrow> ''flat'' | Percentage \<Rightarrow> ''percentage'' | Tiered \<Rightarrow> ''tiered'' | OtherType s \<Rightarrow> s)"

text \<open>What \<open>GET /sep6/info\<close> says of an asset: limits and fees, and the fields of a deposit or the types of a withdrawal.\<close>

record sep6_asset =
  i6_code :: string
  i6_min_amount :: string
  i6_max_amount :: string
  i6_fee_fixed :: jsnum
  i6_fee_percent :: jsnum

definition info_of :: "asset_config \<Rightarrow> sep6_asset" where
  "info_of a = \<lparr>i6_code = as_code a, i6_min_amount = as_minAmount a, i6_max_amount = as_maxAmount a, i6_fee_fixed = as_feeFixed a,
     i6_fee_percent = as_feePercent a\<rparr>"

definition deposit_fields :: field_map where
  "deposit_fields = [described ''email_address'' ''Email address of the depositor'' True, described ''first_name'' ''First name of the depositor'' True,
     described ''last_name'' ''Last name of the depositor'' True]"

definition withdraw_types :: "(string \<times> field_map) list" where
  "withdraw_types = [(''bank_account'', [described ''dest'' ''Bank account number'' False, described ''dest_extra'' ''Bank routing number'' True]),
     (''crypto'', [described ''dest'' ''Destination crypto address'' False])]"

definition sep6Info :: "(sep6_asset \<times> field_map) list \<times> (sep6_asset \<times> (string \<times> field_map) list) list" where
  "sep6Info = (List.map (\<lambda>a. (info_of a, deposit_fields)) (filter as_depositEnabled ASSETS),
     List.map (\<lambda>a. (info_of a, withdraw_types)) (filter as_withdrawEnabled ASSETS))"

section \<open>Environment\<close>

text \<open>\<open>s6_minus\<close> is \<open>BigNumber.minus\<close>; \<open>s6_id_less\<close> the order of ids in the database.\<close>

record ('b, 'w) sep6_env =
  s6_fees :: "('b, 'w) fee_env"
  s6_minus :: "'b \<Rightarrow> 'b \<Rightarrow> 'b"
  s6_id_less :: "string \<Rightarrow> string \<Rightarrow> bool"
  s6_RECEIVING_ACCOUNT :: "string option"

definition receiving_account :: "('b, 'w) sep6_env \<Rightarrow> string" where
  "receiving_account env = (case truthy_str (s6_RECEIVING_ACCOUNT env) of Some a \<Rightarrow> a
     | None \<Rightarrow> ''GD5DJQDKEBTHBQC7LKLDSLRGEA3KMRMFOKMJUEKSFZLWQ5E2PJDJYZNF'')"

section \<open>Amounts and fees\<close>

text \<open>The amount of a request, when it has one: outside the limits it is refused. A number is not greater than another when the other is not
  less than it.\<close>

definition amount_error :: "asset_config \<Rightarrow> string" where
  "amount_error asset = ''Amount must be between '' @ as_minAmount asset @ '' and '' @ as_maxAmount asset @ '' for '' @ as_code asset @ ''.''"

definition check_amount :: "'b bignum \<Rightarrow> asset_config \<Rightarrow> string option \<Rightarrow> string + 'b option" where
  "check_amount B asset amount = (case truthy_str amount of
     None \<Rightarrow> Inr None
   | Some t \<Rightarrow> let v = toDecimal B (TextV t) in
       if \<not> bn_isFinite B v \<or> bn_lt B v (bn_new B (TextV (as_minAmount asset))) \<or> bn_lt B (bn_new B (TextV (as_maxAmount asset))) v
       then Inl (amount_error asset) else Inr (Some v))"

definition is_positive :: "'b bignum \<Rightarrow> 'b option \<Rightarrow> bool" where
  "is_positive B v \<longleftrightarrow> (case v of None \<Rightarrow> False | Some x \<Rightarrow> bn_lt B (bn_new B (NumV (Fin 0))) x)"

definition request_fee :: "'b bignum \<Rightarrow> asset_config \<Rightarrow> string option \<Rightarrow> 'b option \<Rightarrow> jsnum" where
  "request_fee B asset amount v = (if is_positive B v
     then computeAssetFee B (config_of_asset asset) (TextV (case amount of Some t \<Rightarrow> t | None \<Rightarrow> [])) else as_feeFixed asset)"

definition fee_text :: "'b bignum \<Rightarrow> jsnum \<Rightarrow> string" where
  "fee_text B fee = formatDecimal B (toDecimal B (NumV fee)) DECIMAL_PRECISION"

definition amount_out :: "('b, 'w) sep6_env \<Rightarrow> 'b option \<Rightarrow> jsnum \<Rightarrow> string option" where
  "amount_out env v fee = (case v of
     Some x \<Rightarrow> if is_positive (fe_big (s6_fees env)) v
       then Some (formatDecimal (fe_big (s6_fees env)) (s6_minus env x (toDecimal (fe_big (s6_fees env)) (NumV fee))) DECIMAL_PRECISION) else None
   | None \<Rightarrow> None)"

section \<open>Creating a transaction\<close>

text \<open>The nested write \<open>user: { connectOrCreate }\<close>: one statement, so nothing changes when it fails.\<close>

definition create_for_user :: "('b, 'w) fee_env \<Rightarrow> string \<Rightarrow> string option \<Rightarrow> string \<Rightarrow> (string \<Rightarrow> int \<Rightarrow> txn) \<Rightarrow> ('w, txn) transfers" where
  "create_for_user env publicKey email txId row = ebind (tdb env) (\<lambda>_. ebind (tclock env) (\<lambda>now. ebind (tuuid env) (\<lambda>newId.
     ebind (eget (\<lambda>s. (js_get (tf_users s) publicKey, js_get (tf_txs s) txId))) (\<lambda>(user, old).
     let u = (case user of Some u \<Rightarrow> u | None \<Rightarrow> \<lparr>ur_id = newId, ur_email = email\<rparr>); t = row (ur_id u) now in
     if old \<noteq> None then ethrow duplicate_key
     else ebind (emodify (\<lambda>s. s\<lparr>tf_users := (if user = None then js_set publicKey u (tf_users s) else tf_users s),
         tf_txs := js_set txId t (tf_txs s)\<rparr>)) (\<lambda>_. ereturn t)))))"

record deposit_query =
  dq_asset_code :: string
  dq_amount :: "string option"
  dq_email_address :: "string option"
  dq_first_name :: "string option"
  dq_last_name :: "string option"
  dq_memo :: "string option"
  dq_memo_type :: "string option"
  dq_callback_url :: "string option"

definition memo_type_of :: "deposit_query \<Rightarrow> string" where
  "memo_type_of q = (case dq_memo_type q of Some t \<Rightarrow> t | None \<Rightarrow> ''text'')"

definition deposit_info :: "deposit_query \<Rightarrow> (string \<times> json) list" where
  "deposit_info q = opt_member ''email_address'' (dq_email_address q) @ opt_member ''first_name'' (dq_first_name q) @ opt_member ''last_name'' (dq_last_name q)
     @ (case truthy_str (dq_memo q) of Some m \<Rightarrow> [(''memo'', JStr m), (''memo_type'', JStr (memo_type_of q))] | None \<Rightarrow> [])"

definition amount_or_zero :: "string option \<Rightarrow> string" where
  "amount_or_zero amount = (case truthy_str amount of Some t \<Rightarrow> t | None \<Rightarrow> ''0'')"

text \<open>The row of a request, with the fee that was computed for it.\<close>

definition sep6_row :: "'b bignum \<Rightarrow> asset_config \<Rightarrow> string \<Rightarrow> string \<Rightarrow> string option \<Rightarrow> jsnum \<Rightarrow> string option \<Rightarrow> string \<Rightarrow> int \<Rightarrow> txn" where
  "sep6_row B asset code kind amount fee callback userId now =
     (new_txn userId code (amount_or_zero amount) kind ''PENDING'' now)
       \<lparr>tn_feeAmount := Some (fee_text B fee), tn_feeAssetCode := Some code, tn_feeType := Some (upper_text (fee_type_name (as_feeType asset))),
        tn_callbackUrl := truthy_str callback\<rparr>"

text \<open>The answers: an error; a deposit with its id, limits, fee, memo, type of memo and account; a withdrawal with its id, limits, fee, payout
  and account; a transaction; a list of transactions. Instructions and times that are the same in every answer, and what repeats the
  request, are left out.\<close>

record shown_txn =
  sh_id :: string
  sh_kind :: string
  sh_status :: string
  sh_amount_in :: "string option"
  sh_amount_out :: "string option"
  sh_asset_code :: string
  sh_stellar_transaction_id :: "string option"
  sh_external_transaction_id :: "string option"
  sh_started_at :: string
  sh_completed_at :: "string option"

datatype sep6_response =
    Sep6Error int string
  | Sep6Deposit string sep6_asset string string string string
  | Sep6Withdraw string sep6_asset string "string option" string
  | Sep6Transaction shown_txn
  | Sep6Transactions "shown_txn list"

definition sep6Deposit :: "('b, 'w) sep6_env \<Rightarrow> string \<Rightarrow> deposit_query \<Rightarrow> ('w, sep6_response) transfers" where
  "sep6Deposit env publicKey q =
     (let B = fe_big (s6_fees env); code = normalizeAssetCode (dq_asset_code q) in
      if \<not> isDepositSupported code then ereturn (Sep6Error 400 (''Asset '' @ dq_asset_code q @ '' is not supported for deposit.''))
      else case getAsset code of None \<Rightarrow> ereturn (Sep6Error 400 [])
      | Some asset \<Rightarrow> (case check_amount B asset (dq_amount q) of
          Inl e \<Rightarrow> ereturn (Sep6Error 400 e)
        | Inr v \<Rightarrow> let fee = request_fee B asset (dq_amount q) v in
            ecatch
              (ebind (tuuid (s6_fees env)) (\<lambda>txId.
               ebind (create_for_user (s6_fees env) publicKey (truthy_str (dq_email_address q)) txId (\<lambda>userId now.
                  (sep6_row B asset code ''DEPOSIT'' (dq_amount q) fee (dq_callback_url q) userId now)\<lparr>tn_senderInfo := Some (deposit_info q)\<rparr>)) (\<lambda>t.
               ereturn (Sep6Deposit txId (info_of asset) (fee_text B fee) (case dq_memo q of Some m \<Rightarrow> m | None \<Rightarrow> txId)
                  (if truthy_str (dq_memo q) \<noteq> None then memo_type_of q else ''text'') (receiving_account env)))))
              (\<lambda>_. ereturn (Sep6Error 500 ''Failed to initiate deposit.''))))"

record withdraw_query =
  wq_asset_code :: string
  wq_amount :: "string option"
  wq_dest :: "string option"
  wq_dest_extra :: "string option"
  wq_type :: "string option"
  wq_account :: "string option"
  wq_callback_url :: "string option"

definition or_null :: "string option \<Rightarrow> json" where
  "or_null v = (case truthy_str v of Some t \<Rightarrow> JStr t | None \<Rightarrow> JNull)"

definition withdraw_info :: "withdraw_query \<Rightarrow> string \<Rightarrow> (string \<times> json) list" where
  "withdraw_info q dest = [(''dest'', JStr dest), (''dest_extra'', or_null (wq_dest_extra q)),
     (''type'', JStr (case wq_type q of Some t \<Rightarrow> t | None \<Rightarrow> ''bank_account'')), (''account'', or_null (wq_account q))]"

definition sep6Withdraw :: "('b, 'w) sep6_env \<Rightarrow> string \<Rightarrow> withdraw_query \<Rightarrow> ('w, sep6_response) transfers" where
  "sep6Withdraw env publicKey q =
     (let B = fe_big (s6_fees env); code = normalizeAssetCode (wq_asset_code q) in
      if \<not> isWithdrawSupported code then ereturn (Sep6Error 400 (''Asset '' @ wq_asset_code q @ '' is not supported for withdrawal.''))
      else case truthy_str (wq_dest q) of None \<Rightarrow> ereturn (Sep6Error 400 ''dest is required for withdrawal.'')
      | Some dest \<Rightarrow> (case getAsset code of None \<Rightarrow> ereturn (Sep6Error 400 [])
        | Some asset \<Rightarrow> (case check_amount B asset (wq_amount q) of
            Inl e \<Rightarrow> ereturn (Sep6Error 400 e)
          | Inr v \<Rightarrow> let fee = request_fee B asset (wq_amount q) v in
              ecatch
                (ebind (tuuid (s6_fees env)) (\<lambda>txId.
                 ebind (create_for_user (s6_fees env) publicKey None txId (\<lambda>userId now.
                    (sep6_row B asset code ''WITHDRAW'' (wq_amount q) fee (wq_callback_url q) userId now)\<lparr>tn_receiverInfo := Some (withdraw_info q dest)\<rparr>)) (\<lambda>t.
                 ereturn (Sep6Withdraw txId (info_of asset) (fee_text B fee) (amount_out env v fee) (receiving_account env)))))
                (\<lambda>_. ereturn (Sep6Error 500 ''Failed to initiate withdrawal.'')))))"

section \<open>Reading\<close>

definition formatTransaction :: "string \<Rightarrow> txn \<Rightarrow> shown_txn" where
  "formatTransaction i t = \<lparr>sh_id = i, sh_kind = lower_letters (tn_type t), sh_status = lower_letters (tn_status t),
     sh_amount_in = (if tn_type t = ''DEPOSIT'' then Some (tn_amount t) else None),
     sh_amount_out = (if tn_type t = ''WITHDRAW'' then Some (tn_amount t) else None), sh_asset_code = tn_assetCode t,
     sh_stellar_transaction_id = tn_stellarTxId t, sh_external_transaction_id = tn_externalId t, sh_started_at = iso_string (tn_createdAt t),
     sh_completed_at = (if tn_status t = ''COMPLETED'' then Some (iso_string (tn_updatedAt t)) else None)\<rparr>"

text \<open>The rows of the user with a public key.\<close>

definition txn_owned_by :: "string \<Rightarrow> (string, user_row) jsmap \<Rightarrow> txn \<Rightarrow> bool" where
  "txn_owned_by publicKey users t \<longleftrightarrow> (case js_get users publicKey of Some u \<Rightarrow> tn_userId t = ur_id u | None \<Rightarrow> False)"

definition sep6GetTransaction :: "('b, 'w) sep6_env \<Rightarrow> string \<Rightarrow> string option \<Rightarrow> string option \<Rightarrow> string option \<Rightarrow> ('w, sep6_response) transfers" where
  "sep6GetTransaction env publicKey i stellarId externalId =
     (if truthy_str i = None \<and> truthy_str stellarId = None \<and> truthy_str externalId = None
      then ereturn (Sep6Error 400 ''One of id, stellar_transaction_id, or external_transaction_id is required.'')
      else ecatch
        (ebind (tdb (s6_fees env)) (\<lambda>_.
         ebind (eget (\<lambda>s. matching_txn i stellarId externalId (filter (\<lambda>(k, t). txn_owned_by publicKey (tf_users s) t) (tf_txs s)))) (\<lambda>found. case found of
           None \<Rightarrow> ereturn (Sep6Error 404 ''Transaction not found.'')
         | Some (k, t) \<Rightarrow> ereturn (Sep6Transaction (formatTransaction k t)))))
        (\<lambda>_. ereturn (Sep6Error 500 ''Failed to fetch transaction.'')))"

record history_query =
  hq6_asset_code :: "string option"
  hq6_limit :: "string option"
  hq6_paging_id :: "string option"
  hq6_no_older_than :: "string option"

text \<open>\<open>Math.min(parseInt(limit, 10) || 10, 200)\<close>.\<close>

definition history_take :: "string option \<Rightarrow> jsnum" where
  "history_take limit = (let n = parseInt10 (case limit of Some l \<Rightarrow> l | None \<Rightarrow> ''10'') in
     math_min (if n = NaN \<or> n = Fin 0 then Fin 10 else n) (Fin 200))"

text \<open>\<open>take\<close> of the database client: a negative number takes from the end.\<close>

definition take_rows :: "jsnum \<Rightarrow> 'a list \<Rightarrow> 'a list" where
  "take_rows n xs = (case n of Fin r \<Rightarrow> if 0 \<le> r then take (nat \<lfloor>r\<rfloor>) xs else drop (length xs - nat \<lfloor>- r\<rfloor>) xs | _ \<Rightarrow> xs)"

definition in_history :: "('b, 'w) sep6_env \<Rightarrow> string \<Rightarrow> history_query \<Rightarrow> int option \<Rightarrow> (string, user_row) jsmap \<Rightarrow> string \<times> txn \<Rightarrow> bool" where
  "in_history env publicKey q since users r \<longleftrightarrow> txn_owned_by publicKey users (snd r)
     \<and> (case truthy_str (hq6_asset_code q) of Some c \<Rightarrow> tn_assetCode (snd r) = normalizeAssetCode c | None \<Rightarrow> True)
     \<and> (case since of Some t \<Rightarrow> t \<le> tn_createdAt (snd r) | None \<Rightarrow> True)
     \<and> (case truthy_str (hq6_paging_id q) of Some p \<Rightarrow> s6_id_less env p (fst r) | None \<Rightarrow> True)"

definition invalid_date :: js_error where
  "invalid_date = OtherErr ''PrismaClientValidationError'' ''Invalid value for argument: Provided Date object is invalid'' None None None None None None"

definition sep6GetTransactions :: "('b, 'w) sep6_env \<Rightarrow> string \<Rightarrow> history_query \<Rightarrow> ('w, sep6_response) transfers" where
  "sep6GetTransactions env publicKey q = ecatch
     (ebind (elift (case truthy_str (hq6_no_older_than q) of None \<Rightarrow> Inr None
        | Some t \<Rightarrow> (case fe_parseDate (s6_fees env) t of Some d \<Rightarrow> Inr (Some d) | None \<Rightarrow> Inl invalid_date))) (\<lambda>since.
      ebind (tdb (s6_fees env)) (\<lambda>_.
      ebind (eget (\<lambda>s. take_rows (history_take (hq6_limit q))
         (sort_key (\<lambda>(i, t). - tn_createdAt t) (filter (in_history env publicKey q since (tf_users s)) (tf_txs s))))) (\<lambda>rows.
      ereturn (Sep6Transactions (List.map (\<lambda>(i, t). formatTransaction i t) rows))))))
     (\<lambda>_. ereturn (Sep6Error 500 ''Failed to fetch transactions.''))"

end
