(* ===== verification/Sep6_Props.thy ===== *)
theory Sep6_Props
  imports Sep6 Sep31_Props
begin

text \<open>
  The properties of SEP-6 (theory \<open>Sep6\<close>): what a request records, who sees a transaction, and what a small withdrawal pays out.
\<close>

section \<open>Recording a request\<close>

lemma create_result:
  assumes "create_for_user env key email i row s = (r, s')"
  shows "tf_quotes s' = tf_quotes s \<and> (case r of Inl _ \<Rightarrow> tf_txs s' = tf_txs s \<and> tf_users s' = tf_users s
     | Inr t \<Rightarrow> js_get (tf_txs s) i = None \<and> tf_txs s' = js_set i t (tf_txs s) \<and> (\<exists>u now. js_get (tf_users s') key = Some u \<and> t = row (ur_id u) now
          \<and> (case js_get (tf_users s) key of Some v \<Rightarrow> u = v \<and> tf_users s' = tf_users s
             | None \<Rightarrow> ur_email u = email \<and> tf_users s' = js_set key u (tf_users s))))"
  using assms unfolding create_for_user_def ebind_def eget_def ereturn_def emodify_def ethrow_def
  by (auto simp: Let_def split: prod.splits sum.splits option.splits if_splits
      dest!: call_result [of "fdb _", folded tdb_def] call_result [of "fclock _", folded tclock_def] uuid_result)

definition within_limits :: "'b bignum \<Rightarrow> asset_config \<Rightarrow> string \<Rightarrow> bool" where
  "within_limits B asset amount \<longleftrightarrow> bn_isFinite B (bn_new B (TextV amount)) \<and> \<not> bn_lt B (bn_new B (TextV amount)) (bn_new B (TextV (as_minAmount asset)))
     \<and> \<not> bn_lt B (bn_new B (TextV (as_maxAmount asset))) (bn_new B (TextV amount))"

text \<open>A deposit that is answered is recorded under a new id for the user of the request, who is created when there is none: pending, with the
  fee that is answered, and an amount within the limits of an asset that takes deposits; no other row changes. A request that is not answered with
  a deposit changes nothing.\<close>

theorem sep6_deposit_recorded:
  assumes "sep6Deposit env key q s = (r, s')"
  shows "case r of
     Inr (Sep6Deposit i shown fee memo memoType account) \<Rightarrow>
       (\<exists>asset row. getAsset (normalizeAssetCode (dq_asset_code q)) = Some asset \<and> as_depositEnabled asset
          \<and> js_get (tf_txs s) i = None \<and> tf_txs s' = js_set i row (tf_txs s) \<and> txn_owned_by key (tf_users s') row
          \<and> tn_status row = ''PENDING'' \<and> tn_type row = ''DEPOSIT'' \<and> tn_feeAmount row = Some fee
          \<and> (case truthy_str (dq_amount q) of None \<Rightarrow> tn_amount row = ''0''
             | Some t \<Rightarrow> tn_amount row = t \<and> within_limits (fe_big (s6_fees env)) asset t))
   | _ \<Rightarrow> tf_txs s' = tf_txs s \<and> tf_users s' = tf_users s"
proof (cases "isDepositSupported (normalizeAssetCode (dq_asset_code q))")
  case False
  then show ?thesis using assms by (auto simp: sep6Deposit_def ereturn_def)
next
  case True
  define B where "B = fe_big (s6_fees env)"
  define code where "code = normalizeAssetCode (dq_asset_code q)"
  obtain asset where asset: "getAsset code = Some asset" "as_depositEnabled asset"
    using True by (auto simp: isDepositSupported_def code_def split: option.splits)
  show ?thesis
  proof (cases "check_amount B asset (dq_amount q)")
    case (Inl e)
    then show ?thesis using assms True asset by (auto simp: sep6Deposit_def B_def code_def ereturn_def split: sum.split)
  next
    case (Inr v)
    define fee where "fee = request_fee B asset (dq_amount q) v"
    define row where "row = (\<lambda>userId now. (sep6_row B asset code ''DEPOSIT'' (dq_amount q) fee (dq_callback_url q) userId now)\<lparr>tn_senderInfo := Some (deposit_info q)\<rparr>)"
    have limits: "case truthy_str (dq_amount q) of None \<Rightarrow> True | Some t \<Rightarrow> within_limits B asset t"
      using Inr by (auto simp: check_amount_def within_limits_def toDecimal_def Let_def split: option.splits if_splits)
    obtain r1 s1 where u: "tuuid (s6_fees env) s = (r1, s1)" by fastforce
    have k: "tf_txs s1 = tf_txs s" "tf_users s1 = tf_users s"
      using call_result u unfolding tuuid_def by blast+
    show ?thesis
    proof (cases r1)
      case (Inl e)
      then show ?thesis using assms True asset Inr u k
        by (auto simp: sep6Deposit_def B_def [symmetric] code_def [symmetric] ebind_def ecatch_def ereturn_def Let_def)
    next
      case i: (Inr i)
      obtain r2 s2 where c: "create_for_user (s6_fees env) key (truthy_str (dq_email_address q)) i row s1 = (r2, s2)" by fastforce
      have e: "(r, s') = (case r2 of Inl _ \<Rightarrow> (Inr (Sep6Error 500 ''Failed to initiate deposit.''), s2)
          | Inr t \<Rightarrow> (Inr (Sep6Deposit i (info_of asset) (fee_text B fee) (case dq_memo q of Some m \<Rightarrow> m | None \<Rightarrow> i)
               (if truthy_str (dq_memo q) \<noteq> None then memo_type_of q else ''text'') (receiving_account env)), s2))"
        using assms True asset Inr u i c
        by (auto simp: sep6Deposit_def B_def [symmetric] code_def [symmetric] fee_def [symmetric] row_def ebind_def ecatch_def ereturn_def Let_def split: sum.splits)
      show ?thesis
      proof (cases r2)
        case (Inl err)
        then show ?thesis using e create_result [OF c] k by auto
      next
        case (Inr t)
        obtain u now where t: "js_get (tf_users s2) key = Some u" "t = row (ur_id u) now" "js_get (tf_txs s1) i = None" "tf_txs s2 = js_set i t (tf_txs s1)"
          using create_result [OF c] Inr by auto
        have f: "tn_userId t = ur_id u" "tn_status t = ''PENDING''" "tn_type t = ''DEPOSIT''" "tn_feeAmount t = Some (fee_text B fee)"
            "tn_amount t = amount_or_zero (dq_amount q)"
          by (simp_all add: t(2) row_def sep6_row_def new_txn_def)
        obtain m mt ac where r: "r = Inr (Sep6Deposit i (info_of asset) (fee_text B fee) m mt ac)" "s' = s2" using e Inr by auto
        have "case truthy_str (dq_amount q) of None \<Rightarrow> tn_amount t = ''0'' | Some x \<Rightarrow> tn_amount t = x \<and> within_limits (fe_big (s6_fees env)) asset x"
          using limits f(5) unfolding B_def by (auto simp: amount_or_zero_def split: option.splits)
        then show ?thesis
          using r f t k asset by (auto simp: txn_owned_by_def code_def intro!: exI [of _ asset] exI [of _ t])
      qed
    qed
  qed
qed

section \<open>Who sees a transaction\<close>

text \<open>A transaction is shown to its owner only: every entry of a history, and every single transaction, is a row of the user whose key the request
  was authenticated with.\<close>

theorem sep6_shows_own_transactions:
  assumes "sep6GetTransactions env key q s = (Inr (Sep6Transactions shown), s') \<or> sep6GetTransaction env key i h x s = (Inr (Sep6Transaction y), s') \<and> shown = [y]"
  shows "\<forall>z \<in> set shown. \<exists>k t. (k, t) \<in> set (tf_txs s) \<and> txn_owned_by key (tf_users s) t \<and> z = formatTransaction k t"
  using assms
proof
  assume a: "sep6GetTransactions env key q s = (Inr (Sep6Transactions shown), s')"
  have sub: "set (take_rows n xs) \<subseteq> set xs" for n and xs :: "(string \<times> txn) list"
    by (auto simp: take_rows_def split: jsnum.splits dest: in_set_takeD in_set_dropD)
  have "\<exists>since. shown = List.map (\<lambda>(i, t). formatTransaction i t) (take_rows (history_take (hq6_limit q))
         (sort_key (\<lambda>(i, t). - tn_createdAt t) (filter (in_history env key q since (tf_users s)) (tf_txs s))))"
    using a unfolding sep6GetTransactions_def ecatch_def ebind_def elift_def eget_def ereturn_def
    by (auto split: prod.splits sum.splits option.splits dest!: call_result [of "fdb _", folded tdb_def])
  then obtain since where s1: "shown = List.map (\<lambda>(i, t). formatTransaction i t) (take_rows (history_take (hq6_limit q))
         (sort_key (\<lambda>(i, t). - tn_createdAt t) (filter (in_history env key q since (tf_users s)) (tf_txs s))))" by blast
  show ?thesis using sub unfolding s1 by (fastforce simp: in_history_def)
next
  assume a: "sep6GetTransaction env key i h x s = (Inr (Sep6Transaction y), s') \<and> shown = [y]"
  then obtain k t where f: "matching_txn i h x (filter (\<lambda>(k, t). txn_owned_by key (tf_users s) t) (tf_txs s)) = Some (k, t)" "y = formatTransaction k t"
    unfolding sep6GetTransaction_def ecatch_def ebind_def eget_def ereturn_def
    by (auto split: prod.splits sum.splits option.splits if_splits dest!: call_result [of "fdb _", folded tdb_def])
  have "(k, t) \<in> set (filter (\<lambda>(k, t). txn_owned_by key (tf_users s) t) (tf_txs s))"
    using f(1) unfolding matching_txn_def find_Some_iff by (auto simp: set_conv_nth)
  then show ?thesis using a f(2) by auto
qed

section \<open>What a small withdrawal pays out\<close>

lemma half_literal: "round64 (5 / 10) = Fin (1 / 2)" "half_up 7 (1 / 2) = 1 / 2"
proof -
  show "round64 (5 / 10) = Fin (1 / 2)" using round64_exact [of 1 "- 1"] by (simp add: pow2_def)
  have "\<lfloor>(1 / 2) * 10 ^ 7 + 1 / 2 :: rat\<rfloor> = 5000000" by (rule floor_unique) simp_all
  then show "half_up 7 (1 / 2) = 1 / 2" by (simp add: half_up_def)
qed

lemma usdc: "getAsset (normalizeAssetCode c) = Some a \<Longrightarrow> normalizeAssetCode c = ''USDC'' \<Longrightarrow> config_of_asset a = \<lparr>fg_feeType = Flat, fg_feeFixed = Fin (1 / 2),
    fg_feePercent = Fin 0, fg_feeMinimum = Fin 0\<rparr>"
proof -
  assume g: "getAsset (normalizeAssetCode c) = Some a" "normalizeAssetCode c = ''USDC''"
  have u: "upper_text (trim_js ''USDC'') = ''USDC''" by code_simp
  have "getAsset ''USDC'' = Some a" using g by simp
  then show ?thesis by (auto simp: getAsset_def u ASSET_MAP_def ASSETS_def config_of_asset_def half_literal)
qed

lemma usdc_limits:
  assumes "getAsset ''USDC'' = Some a"
  shows "as_minAmount a = ''0.01''" "as_maxAmount a = ''1000000''" "as_withdrawEnabled a"
proof -
  have u: "upper_text (trim_js ''USDC'') = ''USDC''" by code_simp
  show "as_minAmount a = ''0.01''" "as_maxAmount a = ''1000000''" "as_withdrawEnabled a"
    using assms by (auto simp: getAsset_def u ASSET_MAP_def ASSETS_def)
qed

lemma usdc_known: "\<exists>a. getAsset ''USDC'' = Some a"
proof -
  have u: "upper_text (trim_js ''USDC'') = ''USDC''" by code_simp
  show ?thesis by (simp add: getAsset_def u ASSET_MAP_def ASSETS_def)
qed

text \<open>A creation for a user goes through when the database answers and the id is new.\<close>

lemma create_goes_through:
  assumes "\<forall>w. fst (fe_db env w) = None" "js_get (tf_txs s) txId = None"
  shows "\<exists>u now s'. create_for_user env publicKey email txId row s = (Inr (row u now), s') \<and> tf_txs s' = js_set txId (row u now) (tf_txs s)"
proof -
  obtain w where d: "fe_db env (fz_world (tf_fees s)) = (None, w)" using assms(1) by (metis prod.collapse)
  define s1 where "s1 = s\<lparr>tf_fees := (tf_fees s)\<lparr>fz_world := w\<rparr>\<rparr>"
  obtain i w' where u: "fe_uuid env w = (i, w')" by force
  define s2 where "s2 = s1\<lparr>tf_fees := (tf_fees s1)\<lparr>fz_world := w'\<rparr>\<rparr>"
  have db: "tdb env s = (Inr (), s1)" using d by (simp add: tdb_def in_fees_def fdb_def s1_def)
  have clock: "tclock env s1 = (Inr (fe_now env w), s1)" by (simp add: tclock_def in_fees_def fclock_def eget_def s1_def)
  have new: "tuuid env s1 = (Inr i, s2)" using u by (simp add: tuuid_def in_fees_def fworld_def s1_def s2_def)
  have "tf_txs s2 = tf_txs s" by (simp add: s1_def s2_def)
  then show ?thesis using assms(2) db clock new
    by (auto simp: create_for_user_def ebind_def eget_def emodify_def ereturn_def Let_def)
qed

text \<open>C15. A withdrawal of less than the fee is accepted and pays out a negative amount: the limits start at 0.01, the fee of USDC is 0.5, and the
  amount and the fee are never compared. A request with a destination for any amount from 0.01 and below 0.5 is answered with a new pending
  transaction whose \<open>amount_out\<close> is the text of the difference, which is negative. The database answers, and the id that is drawn is new.\<close>

theorem small_withdrawal_pays_negative:
  assumes "bn_ok (fe_big (s6_fees env)) val" "\<forall>x y a b. val x = Some a \<longrightarrow> val y = Some b \<longrightarrow> val (s6_minus env x y) = Some (a - b)"
    "\<forall>x a. val x = Some a \<longrightarrow> bn_isFinite (fe_big (s6_fees env)) x"
    "val (bn_new (fe_big (s6_fees env)) (NumV (Fin 0))) = Some 0" "val (bn_new (fe_big (s6_fees env)) (NumV (Fin (1 / 2)))) = Some (1 / 2)"
    "val (bn_new (fe_big (s6_fees env)) (TextV ''0.01'')) = Some (1 / 100)" "val (bn_new (fe_big (s6_fees env)) (TextV ''1000000'')) = Some 1000000"
    "normalizeAssetCode (wq_asset_code q) = ''USDC''" "truthy_str (wq_dest q) \<noteq> None" "truthy_str (wq_amount q) = Some t"
    "val (bn_new (fe_big (s6_fees env)) (TextV t)) = Some x" "1 / 100 \<le> x" "x < 1 / 2"
    "\<forall>w. fst (fe_db (s6_fees env) w) = None" "js_get (tf_txs s) (fst (fe_uuid (s6_fees env) (fz_world (tf_fees s)))) = None"
  shows "\<exists>i shown fee y account s' row. sep6Withdraw env key q s = (Inr (Sep6Withdraw i shown fee (Some (formatDecimal (fe_big (s6_fees env)) y 7)) account), s')
    \<and> val y = Some (x - 1 / 2) \<and> x - 1 / 2 < 0
    \<and> js_get (tf_txs s) i = None \<and> js_get (tf_txs s') i = Some row \<and> tn_type row = ''WITHDRAW'' \<and> tn_status row = ''PENDING'' \<and> tn_amount row = t"
proof -
  define B where "B = fe_big (s6_fees env)"
  obtain asset where a: "getAsset ''USDC'' = Some asset" using usdc_known by blast
  define v where "v = bn_new B (TextV t)"
  have lt: "bn_lt B y z = (p < r)" if "val y = Some p" "val z = Some r" for y z p r
    using assms(1) that unfolding bn_ok_def B_def by blast
  have v: "val v = Some x" using assms(11) by (simp add: v_def B_def)
  have w: "wq_amount q = Some t" using assms(10) by (auto simp: truthy_str_def split: option.splits list.splits)
  have c: "check_amount B asset (wq_amount q) = Inr (Some v)"
    using assms(3,10,12,13) lt [OF v assms(6) [folded B_def]] lt [OF assms(7) [folded B_def] v] v
    by (simp add: check_amount_def usdc_limits [OF a] toDecimal_def v_def [symmetric] B_def [symmetric])
  have p: "is_positive B (Some v)" using lt [OF assms(4) [folded B_def] v] assms(12) by (simp add: is_positive_def)
  have "number_of_fixed (formatDecimal B (bn_new B (NumV (Fin (1 / 2)))) 7) = round64 (half_up 7 (1 / 2))"
    using formatted [OF assms(1,5)] unfolding B_def by simp
  then have f: "request_fee B asset (wq_amount q) (Some v) = Fin (1 / 2)"
    using p usdc [of "wq_asset_code q" asset] a assms(8) half_literal
    by (simp add: request_fee_def w computeAssetFee_def Let_def toDecimal_def DECIMAL_PRECISION_def)
  define y where "y = s6_minus env v (bn_new B (NumV (Fin (1 / 2))))"
  have y: "val y = Some (x - 1 / 2)" using assms(2,5) v unfolding B_def y_def by blast
  have out: "amount_out env (Some v) (Fin (1 / 2)) = Some (formatDecimal B y 7)"
    using p by (simp add: amount_out_def B_def [symmetric] y_def toDecimal_def DECIMAL_PRECISION_def)
  obtain i w1 where u: "fe_uuid (s6_fees env) (fz_world (tf_fees s)) = (i, w1)" by force
  define s1 where "s1 = s\<lparr>tf_fees := (tf_fees s)\<lparr>fz_world := w1\<rparr>\<rparr>"
  have new: "tuuid (s6_fees env) s = (Inr i, s1)" using u by (simp add: tuuid_def in_fees_def fworld_def s1_def)
  obtain dest where dest: "truthy_str (wq_dest q) = Some dest" using assms(9) by blast
  define row where "row = (\<lambda>userId now. (sep6_row B asset ''USDC'' ''WITHDRAW'' (wq_amount q) (Fin (1 / 2)) (wq_callback_url q) userId now)
      \<lparr>tn_receiverInfo := Some (withdraw_info q dest)\<rparr>)"
  have free: "js_get (tf_txs s) i = None" using assms(15) u by simp
  then have "js_get (tf_txs s1) i = None" by (simp add: s1_def)
  then obtain uid now s2 where made: "create_for_user (s6_fees env) key None i row s1 = (Inr (row uid now), s2)"
    "tf_txs s2 = js_set i (row uid now) (tf_txs s1)"
    using create_goes_through [OF assms(14), of s1 i key None row] by blast
  have r: "tn_type (row uid now) = ''WITHDRAW''" "tn_status (row uid now) = ''PENDING''" "tn_amount (row uid now) = t"
    using assms(10) w by (simp_all add: row_def sep6_row_def new_txn_def amount_or_zero_def)
  have "sep6Withdraw env key q s = (Inr (Sep6Withdraw i (info_of asset) (fee_text B (Fin (1 / 2))) (Some (formatDecimal B y 7)) (receiving_account env)), s2)"
    using a usdc_limits(3) [OF a] assms(8) dest c f new made(1) out
    by (simp add: sep6Withdraw_def B_def [symmetric] isWithdrawSupported_def Let_def ecatch_def ebind_def ereturn_def row_def [symmetric])
  moreover have "js_get (tf_txs s2) i = Some (row uid now)" using made(2) by simp
  ultimately show ?thesis using y free r assms(13) unfolding B_def [symmetric] by auto
qed

text \<open>
  The properties of SEP-6 at concrete inputs: a deposit of 25 and a withdrawal of 0.1 USDC, with exact decimals.
\<close>

definition demo_sep6 :: "(rat option, nat) sep6_env" where
  "demo_sep6 = \<lparr>s6_fees = demo_fees, s6_minus = lift_rat (-), s6_id_less = (\<lambda>x y. True), s6_RECEIVING_ACCOUNT = None\<rparr>"

definition demo_withdrawal :: withdraw_query where
  "demo_withdrawal = \<lparr>wq_asset_code = ''USDC'', wq_amount = Some ''0.1'', wq_dest = Some ''D1'', wq_dest_extra = None, wq_type = None, wq_account = None,
     wq_callback_url = None\<rparr>"

definition demo_deposit :: deposit_query where
  "demo_deposit = \<lparr>dq_asset_code = ''USDC'', dq_amount = Some ''25'', dq_email_address = None, dq_first_name = None, dq_last_name = None, dq_memo = None,
     dq_memo_type = None, dq_callback_url = None\<rparr>"

lemma demo_code: "normalizeAssetCode ''USDC'' = ''USDC''"
  by code_simp

lemma demo_usdc_asset: obtains a where "getAsset ''USDC'' = Some a" "as_depositEnabled a" "as_withdrawEnabled a" "as_minAmount a = ''0.01''" "as_maxAmount a = ''1000000''"
proof -
  have u: "upper_text (trim_js ''USDC'') = ''USDC''" by code_simp
  show thesis using that by (simp add: getAsset_def u ASSET_MAP_def ASSETS_def)
qed

lemma demo_decimals: "parse_decimal ''0.1'' = Some (1 / 10)" "parse_decimal ''0.01'' = Some (1 / 100)" "parse_decimal ''25'' = Some 25"
  "parse_decimal ''1000000'' = Some 1000000"
  by code_simp+

lemma demo_limits: "as_minAmount a = ''0.01'' \<Longrightarrow> as_maxAmount a = ''1000000'' \<Longrightarrow> t = ''0.1'' \<or> t = ''25'' \<Longrightarrow> \<exists>v. check_amount demo_bn a (Some t) = Inr v"
  by (auto simp: check_amount_def toDecimal_def truthy_str_def demo_bn_def demo_decimals lift_rat_def)

lemma demo_create:
  "\<exists>t s'. create_for_user demo_fees key email ''row'' row (demo_transfers\<lparr>tf_fees := f\<rparr>) = (Inr t, s')"
  by (simp add: create_for_user_def ebind_def eget_def emodify_def ereturn_def Let_def demo_transfers_def)

theorem small_withdrawal_pays_negative_witness:
  "\<exists>i shown fee account s' y. sep6Withdraw demo_sep6 ''GA'' demo_withdrawal demo_transfers
      = (Inr (Sep6Withdraw i shown fee (Some (formatDecimal demo_bn y 7)) account), s') \<and> y = Some (- (2 / 5))"
proof -
  have e: "s6_fees demo_sep6 = demo_fees" "fe_big demo_fees = demo_bn" "s6_minus demo_sep6 = lift_rat (-)" by (simp_all add: demo_sep6_def demo_fees_def)
  have n: "bn_new demo_bn (TextV ''0.1'') = Some (1 / 10)" "bn_new demo_bn (TextV ''0.01'') = Some (1 / 100)" "bn_new demo_bn (TextV ''1000000'') = Some 1000000"
    "bn_new demo_bn (NumV (Fin 0)) = Some 0" "bn_new demo_bn (NumV (Fin (1 / 2))) = Some (1 / 2)"
    by (simp_all add: demo_bn_def demo_number_literals demo_decimals)
  have f: "\<forall>x a. x = Some a \<longrightarrow> bn_isFinite demo_bn x" by (simp add: demo_bn_def)
  have q: "normalizeAssetCode (wq_asset_code demo_withdrawal) = ''USDC''" "truthy_str (wq_dest demo_withdrawal) \<noteq> None"
    "truthy_str (wq_amount demo_withdrawal) = Some ''0.1''"
    by (simp_all add: demo_withdrawal_def demo_code truthy_str_def)
  have d: "\<forall>w. fst (fe_db demo_fees w) = None" "js_get (tf_txs demo_transfers) (fst (fe_uuid demo_fees (fz_world (tf_fees demo_transfers)))) = None"
    by (simp_all add: demo_fees_def demo_transfers_def)
  show ?thesis
    using small_withdrawal_pays_negative [of demo_sep6 "\<lambda>x. x" demo_withdrawal "''0.1''" "1 / 10" demo_transfers "''GA''", unfolded e n]
      demo_bn_ok f q d by (auto simp: lift_rat_def)
qed

theorem sep6_deposit_recorded_witness:
  "case fst (sep6Deposit demo_sep6 ''GA'' demo_deposit demo_transfers) of
     Inr (Sep6Deposit i shown fee memo memoType account) \<Rightarrow> js_get (tf_txs demo_transfers) i = None
   | _ \<Rightarrow> tf_txs (snd (sep6Deposit demo_sep6 ''GA'' demo_deposit demo_transfers)) = tf_txs demo_transfers"
  using sep6_deposit_recorded [of demo_sep6 "''GA''" demo_deposit demo_transfers, OF surjective_pairing]
  by (auto split: sum.splits sep6_response.splits)

theorem sep6_shows_own_transactions_witness:
  "sep6GetTransactions demo_sep6 ''GA'' \<lparr>hq6_asset_code = None, hq6_limit = None, hq6_paging_id = None, hq6_no_older_than = None\<rparr>
      (demo_transfers\<lparr>tf_users := [(''GA'', \<lparr>ur_id = ''u2'', ur_email = None\<rparr>)]\<rparr>)
    = (Inr (Sep6Transactions []), demo_transfers\<lparr>tf_users := [(''GA'', \<lparr>ur_id = ''u2'', ur_email = None\<rparr>)], tf_fees := \<lparr>fz_rows = [], fz_world = 400001\<rparr>\<rparr>)"
proof -
  let ?q = "\<lparr>hq6_asset_code = None, hq6_limit = None, hq6_paging_id = None, hq6_no_older_than = None\<rparr>"
  let ?s = "demo_transfers\<lparr>tf_users := [(''GA'', \<lparr>ur_id = ''u2'', ur_email = None\<rparr>)]\<rparr>"
  obtain shown where g: "sep6GetTransactions demo_sep6 ''GA'' ?q ?s = (Inr (Sep6Transactions shown), ?s\<lparr>tf_fees := \<lparr>fz_rows = [], fz_world = 400001\<rparr>\<rparr>)"
    by (simp add: sep6GetTransactions_def demo_sep6_def ecatch_def ebind_def elift_def eget_def ereturn_def truthy_str_def) (simp add: demo_transfers_def)
  then have "shown = []"
    using sep6_shows_own_transactions [OF disjI1 [OF g]] by (cases shown) (auto simp: demo_transfers_def txn_owned_by_def new_txn_def)
  then show ?thesis using g by simp
qed

end
