(* ===== verification/Sep38.thy ===== *)
theory Sep38
  imports Price_Aggregation Transfers
begin

text \<open>
  SEP-38 quotes: \<open>backend/src/config/sep38-quotes-cache.config.ts\<close>, \<open>services/sep38-quote-cache.service.ts\<close>,
  \<open>api/controllers/sep38.controller.ts\<close> and \<open>api/routes/sep38.route.ts\<close>. The controller has a two-level cache of its own,
  and the price service with the cache of theory \<open>Price_Aggregation\<close> is the world of that cache: both reach Redis. Firm
  quotes are rows of the table of theory \<open>Transfers\<close>. bignumber.js, Redis, \<open>Math.sin\<close> and the clock are parameters.
\<close>

section \<open>Configuration\<close>

record quotes_config =
  qc_indicativeQuoteExpirationSeconds :: int
  qc_firmQuoteValiditySeconds :: int
  qc_quoteCacheTtlSeconds :: int
  qc_quoteCacheStaleTtlSeconds :: int
  qc_assetsCacheTtlSeconds :: int

definition defaultSep38QuotesCacheConfig :: quotes_config where
  "defaultSep38QuotesCacheConfig = \<lparr>qc_indicativeQuoteExpirationSeconds = 60, qc_firmQuoteValiditySeconds = 300,
     qc_quoteCacheTtlSeconds = 30, qc_quoteCacheStaleTtlSeconds = 30, qc_assetsCacheTtlSeconds = 3600\<rparr>"

definition validateSep38QuotesCacheConfig :: "quotes_config \<Rightarrow> bool" where
  "validateSep38QuotesCacheConfig c =
     (if qc_indicativeQuoteExpirationSeconds c < 15 \<or> qc_indicativeQuoteExpirationSeconds c > 300 then False
      else if qc_firmQuoteValiditySeconds c < 60 \<or> qc_firmQuoteValiditySeconds c > 3600 then False
      else if qc_quoteCacheTtlSeconds c < 5 \<or> qc_quoteCacheTtlSeconds c > qc_indicativeQuoteExpirationSeconds c then False
      else if qc_quoteCacheStaleTtlSeconds c < 0 then False
      else if qc_quoteCacheTtlSeconds c + qc_quoteCacheStaleTtlSeconds c > qc_indicativeQuoteExpirationSeconds c then False
      else if qc_firmQuoteValiditySeconds c < qc_indicativeQuoteExpirationSeconds c then False
      else if qc_assetsCacheTtlSeconds c < 60 \<or> qc_assetsCacheTtlSeconds c > 86400 then False
      else True)"

text \<open>The configuration of the process, given what the environment says.\<close>

definition getSep38QuotesCacheConfig :: "quotes_config \<Rightarrow> js_error + quotes_config" where
  "getSep38QuotesCacheConfig c = (if \<not> validateSep38QuotesCacheConfig c
     then Inl (PlainError ''Invalid SEP-38 quotes cache configuration'') else Inr c)"

definition buildQuoteExpirationTime :: "int \<Rightarrow> int \<Rightarrow> int" where
  "buildQuoteExpirationTime expirationSeconds nowMs = nowMs div 1000 + expirationSeconds"

section \<open>Quotes and assets\<close>

record price_quote =
  pq_source_asset :: string
  pq_source_amount :: string
  pq_destination_asset :: string
  pq_destination_amount :: string
  pq_price :: string
  pq_price_decimals :: nat
  pq_fee :: string
  pq_expiration_time :: int
  pq_context :: "string option"
  pq_cached :: "bool option"
  pq_confidence :: jsnum
  pq_sources_used :: nat
  pq_is_partial :: bool
  pq_routing_path :: "string list option"

definition isQuoteExpired :: "price_quote \<Rightarrow> int \<Rightarrow> bool" where
  "isQuoteExpired q nowMs \<longleftrightarrow> pq_expiration_time q \<le> nowMs div 1000"

record asset_info =
  ai_code :: string
  ai_issuer :: "string option"
  ai_asset_type :: string
  ai_name :: string
  ai_description :: "string option"
  ai_decimals :: nat

definition SUPPORTED_ASSETS :: "asset_info list" where
  "SUPPORTED_ASSETS =
     [\<lparr>ai_code = ''XLM'', ai_issuer = None, ai_asset_type = ''native'', ai_name = ''Stellar Lumens'',
       ai_description = Some ''Native Stellar network token'', ai_decimals = 7\<rparr>,
      \<lparr>ai_code = ''USDC'', ai_issuer = Some ''GA5ZSEJYB37JRC5AVCIA5MOP4RHTM335X2KGX3IHOJAPP5RE34K4KZVN'',
       ai_asset_type = ''credit_alphanum4'', ai_name = ''USD Coin'', ai_description = Some ''Fully backed stablecoin'', ai_decimals = 7\<rparr>,
      \<lparr>ai_code = ''USDT'', ai_issuer = Some ''GCQTGZQQ5G4PTM2GL7CDIFKUBIPEC52BROAQIAPW53XBRJVN6ZJVTG6V'',
       ai_asset_type = ''credit_alphanum4'', ai_name = ''Tether'', ai_description = Some ''USD-pegged stablecoin'', ai_decimals = 7\<rparr>,
      \<lparr>ai_code = ''BTC'', ai_issuer = None, ai_asset_type = ''credit_alphanum4'', ai_name = ''Bitcoin'',
       ai_description = Some ''Bitcoin wrapped on Stellar'', ai_decimals = 7\<rparr>,
      \<lparr>ai_code = ''ETH'', ai_issuer = None, ai_asset_type = ''credit_alphanum4'', ai_name = ''Ethereum'',
       ai_description = Some ''Ethereum wrapped on Stellar'', ai_decimals = 7\<rparr>]"

definition FALLBACK_PRICES :: "(string, jsnum) jsmap" where
  "FALLBACK_PRICES = [(''XLM'', parseFloat ''0.12''), (''USDC'', Fin 1), (''USDT'', Fin 1), (''BTC'', Fin 45000), (''ETH'', Fin 2500)]"

record volume_tier =
  vt_maxAmount :: jsnum
  vt_feePercent :: jsnum

definition DEFAULT_VOLUME_TIERS :: "volume_tier list" where
  "DEFAULT_VOLUME_TIERS =
     [\<lparr>vt_maxAmount = Fin 1000, vt_feePercent = parseFloat ''0.003''\<rparr>,
      \<lparr>vt_maxAmount = Fin 10000, vt_feePercent = parseFloat ''0.002''\<rparr>,
      \<lparr>vt_maxAmount = Fin 100000, vt_feePercent = parseFloat ''0.001''\<rparr>,
      \<lparr>vt_maxAmount = PosInf, vt_feePercent = parseFloat ''0.0005''\<rparr>]"

text \<open>The first tier the amount fits in, else the last; of an empty list there is none, and the code throws.\<close>

definition volume_tier_of :: "jsnum \<Rightarrow> volume_tier list \<Rightarrow> volume_tier option" where
  "volume_tier_of amount tiers = (case find (\<lambda>t. js_le amount (vt_maxAmount t)) tiers of
     Some t \<Rightarrow> Some t | None \<Rightarrow> if tiers = [] then None else Some (last tiers))"

definition computeVolumeFee :: "'b bignum \<Rightarrow> string \<Rightarrow> volume_tier list \<Rightarrow> js_error + string" where
  "computeVolumeFee B amount tiers = (case volume_tier_of (parseFloat amount) tiers of
     None \<Rightarrow> Inl (type_error ''Cannot read properties of undefined (reading 'feePercent')'')
   | Some tier \<Rightarrow> Inr (bn_toFixed B 7 (bn_times B (bn_new B (TextV amount)) (bn_new B (NumV (vt_feePercent tier))))))"

section \<open>The cache of firm quotes\<close>

definition QUOTE_KEY_PREFIX :: string where "QUOTE_KEY_PREFIX = ''sep38:quote:''"
definition QUOTE_INDEX_KEY :: string where "QUOTE_INDEX_KEY = ''sep38:quote:index''"

text \<open>\<open>context || 'default'\<close>.\<close>

definition buildPriceKey :: "string \<Rightarrow> string \<Rightarrow> string \<Rightarrow> string option \<Rightarrow> string" where
  "buildPriceKey sourceAsset destinationAsset sourceAmount context =
     QUOTE_KEY_PREFIX @ ''price:'' @ upper_text sourceAsset @ '':'' @ upper_text destinationAsset @ '':'' @ sourceAmount @ '':''
       @ (case truthy_str context of Some c \<Rightarrow> c | None \<Rightarrow> ''default'')"

definition quote_key :: "string \<Rightarrow> string" where "quote_key quoteId = QUOTE_KEY_PREFIX @ quoteId"

text \<open>The service sends a list of commands to Redis: texts with an expiry, and the sorted set of the index.\<close>

record ('p, 'w) quote_redis =
  qk_setex :: "string \<Rightarrow> int \<Rightarrow> 'p \<Rightarrow> 'w \<Rightarrow> (js_error + unit) \<times> 'w"
  qk_get :: "string \<Rightarrow> 'w \<Rightarrow> (js_error + (js_error + 'p) option) \<times> 'w"
  qk_del :: "string \<Rightarrow> 'w \<Rightarrow> (js_error + unit) \<times> 'w"
  qk_zadd :: "string \<Rightarrow> int \<Rightarrow> string \<Rightarrow> 'w \<Rightarrow> (js_error + unit) \<times> 'w"
  qk_zrem :: "string \<Rightarrow> string list \<Rightarrow> 'w \<Rightarrow> (js_error + unit) \<times> 'w"
  qk_zrangebyscore :: "string \<Rightarrow> int \<Rightarrow> int \<Rightarrow> 'w \<Rightarrow> (js_error + string list) \<times> 'w"
  qk_now :: "'w \<Rightarrow> int"

type_synonym ('w, 'a) redis_eff = "('w, js_error, 'a) eff"

definition cacheQuote :: "('p, 'w) quote_redis \<Rightarrow> string \<Rightarrow> 'p \<Rightarrow> int \<Rightarrow> ('w, unit) redis_eff" where
  "cacheQuote R quoteId payload ttlSeconds =
     (if ttlSeconds \<le> 0 then ereturn ()
      else ebind (qk_setex R (quote_key quoteId) ttlSeconds payload) (\<lambda>_.
           ebind (eget (qk_now R)) (\<lambda>now. qk_zadd R QUOTE_INDEX_KEY (now + ttlSeconds * 1000) quoteId)))"

text \<open>A text that does not parse counts as not cached.\<close>

definition getQuote :: "('p, 'w) quote_redis \<Rightarrow> string \<Rightarrow> ('w, 'p option) redis_eff" where
  "getQuote R quoteId = ebind (qk_get R (quote_key quoteId)) (\<lambda>raw. case raw of
     None \<Rightarrow> ereturn None | Some (Inl _) \<Rightarrow> ereturn None | Some (Inr p) \<Rightarrow> ereturn (Some p))"

definition invalidateQuote :: "('p, 'w) quote_redis \<Rightarrow> string \<Rightarrow> ('w, unit) redis_eff" where
  "invalidateQuote R quoteId = ebind (qk_del R (quote_key quoteId)) (\<lambda>_. qk_zrem R QUOTE_INDEX_KEY [quoteId])"

definition cleanupExpiredQuotes :: "('p, 'w) quote_redis \<Rightarrow> int \<Rightarrow> ('w, nat) redis_eff" where
  "cleanupExpiredQuotes R now = ebind (qk_zrangebyscore R QUOTE_INDEX_KEY 0 now) (\<lambda>expiredIds.
     if expiredIds = [] then ereturn 0
     else ebind (qk_zrem R QUOTE_INDEX_KEY expiredIds) (\<lambda>_. ereturn (length expiredIds)))"

text \<open>One run of the worker: a failure is logged.\<close>

definition quote_cleanup_run :: "('p, 'w) quote_redis \<Rightarrow> ('w, unit) redis_eff" where
  "quote_cleanup_run R = ebind (eget (qk_now R)) (\<lambda>now.
     ecatch (ebind (cleanupExpiredQuotes R now) (\<lambda>_. ereturn ())) (\<lambda>_. ereturn ()))"

section \<open>The controller\<close>

text \<open>What its cache holds: quotes under their price keys, and the list of assets.\<close>

datatype cached_value = CachedQuote price_quote | CachedAssets "asset_info list"

record ('b, 'w) sep38_env =
  q8_prices :: "'w price_env"
  q8_sources :: "source_config list"
  q8_cache :: "(cached_value, 'w price_state) cache_env"
  q8_bn :: "'b bignum"
  q8_config :: quotes_config
  q8_testMode :: bool
  q8_sin :: "jsnum \<Rightarrow> jsnum"

record 'w sep38_state = "(cached_value, 'w price_state) cache_state" +
  s8_assets :: "asset_info list"
  s8_fallback :: "(string, jsnum) jsmap"

type_synonym ('w, 'a) quoted = "('w sep38_state, js_error, 'a) eff"

definition on_prices :: "('w, 'a) priced \<Rightarrow> ('w, 'a) quoted" where
  "on_prices m = ccall m"

definition isAssetSupported :: "asset_info list \<Rightarrow> string \<Rightarrow> bool" where
  "isAssetSupported assets code = list_ex (\<lambda>a. ai_code a = code) assets"

text \<open>\<open>find(...)?.decimals || 7\<close>.\<close>

definition decimals_of :: "asset_info list \<Rightarrow> string \<Rightarrow> nat" where
  "decimals_of assets code = (case find (\<lambda>a. ai_code a = code) assets of
     Some a \<Rightarrow> if ai_decimals a = 0 then 7 else ai_decimals a | None \<Rightarrow> 7)"

text \<open>\<open>parseFloat(x.toFixed(f))\<close>: from \<open>10^21\<close> on the text is that of the number itself.\<close>

definition fixed_number :: "nat \<Rightarrow> jsnum \<Rightarrow> jsnum" where
  "fixed_number f x = (case x of Fin r \<Rightarrow> if \<bar>r\<bar> < 10 ^ 21 then parseFloat (toFixed f r) else x | _ \<Rightarrow> x)"

definition routing_path_of :: "string \<Rightarrow> string \<Rightarrow> string list" where
  "routing_path_of source dest = (if source \<noteq> ''USDC'' \<and> dest \<noteq> ''USDC'' then [source, ''USDC'', dest] else [source, dest])"

text \<open>A quote at a cross rate; \<open>context\<close> is set when it is not empty.\<close>

definition cross_rate :: "'b bignum \<Rightarrow> jsnum \<Rightarrow> jsnum \<Rightarrow> 'b" where
  "cross_rate B sourcePriceUSD destPriceUSD = bn_dividedBy B (bn_new B (NumV sourcePriceUSD)) (bn_new B (NumV destPriceUSD))"

definition rate_quote :: "('b, 'w) sep38_env \<Rightarrow> string \<Rightarrow> string \<Rightarrow> string \<Rightarrow> string option \<Rightarrow> 'b \<Rightarrow> jsnum \<Rightarrow> nat \<Rightarrow> bool
    \<Rightarrow> ('w, price_quote) quoted" where
  "rate_quote env sourceAsset sourceAmount destAsset context rate confidence used partial =
     ebind (eget s8_assets) (\<lambda>assets.
     ebind (elift (computeVolumeFee (q8_bn env) sourceAmount DEFAULT_VOLUME_TIERS)) (\<lambda>fee.
     ebind (cclock (q8_cache env)) (\<lambda>now. ereturn
       \<lparr>pq_source_asset = sourceAsset, pq_source_amount = sourceAmount, pq_destination_asset = destAsset,
        pq_destination_amount = bn_toFixed (q8_bn env) (decimals_of assets destAsset)
          (bn_times (q8_bn env) (bn_new (q8_bn env) (TextV sourceAmount)) rate),
        pq_price = bn_toFixed (q8_bn env) 7 rate, pq_price_decimals = 7, pq_fee = fee,
        pq_expiration_time = buildQuoteExpirationTime (qc_indicativeQuoteExpirationSeconds (q8_config env)) now,
        pq_context = truthy_str context, pq_cached = None, pq_confidence = confidence, pq_sources_used = used,
        pq_is_partial = partial, pq_routing_path = Some (routing_path_of sourceAsset destAsset)\<rparr>)))"

definition positive_or_NaN :: "jsnum \<Rightarrow> bool" where
  "positive_or_NaN x \<longleftrightarrow> \<not> js_le x (Fin 0)"

definition is_falsy_number :: "jsnum \<Rightarrow> bool" where
  "is_falsy_number x \<longleftrightarrow> x = Fin 0 \<or> x = NaN"

definition computeFallbackQuote :: "('b, 'w) sep38_env \<Rightarrow> string \<Rightarrow> string \<Rightarrow> string \<Rightarrow> string option \<Rightarrow> ('w, price_quote) quoted" where
  "computeFallbackQuote env sourceAsset sourceAmount destAsset context =
     ebind (eget s8_fallback) (\<lambda>prices. case (js_get prices sourceAsset, js_get prices destAsset) of
       (Some p, Some q) \<Rightarrow>
         if is_falsy_number p \<or> is_falsy_number q
         then ethrow (PlainError (''Unable to determine prices for '' @ sourceAsset @ ''/'' @ destAsset))
         else rate_quote env sourceAsset sourceAmount destAsset context (cross_rate (q8_bn env) p q) (Fin (1 / 2)) 0 True
     | _ \<Rightarrow> ethrow (PlainError (''Unable to determine prices for '' @ sourceAsset @ ''/'' @ destAsset)))"

definition quote_fetch_options :: price_options where
  "quote_fetch_options = \<lparr>fo_minSources = Some 1, fo_preferCache = None, fo_forceRefresh = False, fo_staleWhileRevalidate = Some True\<rparr>"

definition aggregated_quote :: "('b, 'w) sep38_env \<Rightarrow> string \<Rightarrow> string \<Rightarrow> string \<Rightarrow> string option \<Rightarrow> ('w, price_quote) quoted" where
  "aggregated_quote env sourceAsset sourceAmount destAsset context =
     ebind (promise_all [on_prices (getPrice (q8_prices env) (q8_sources env) sourceAsset quote_fetch_options),
                         on_prices (getPrice (q8_prices env) (q8_sources env) destAsset quote_fetch_options)]) (\<lambda>ds.
     let p = ds ! 0; q = ds ! 1 in
     if \<not> positive_or_NaN (ap_price p) \<or> \<not> positive_or_NaN (ap_price q)
     then ethrow (PlainError ''Invalid price data received'')
     else rate_quote env sourceAsset sourceAmount destAsset context (cross_rate (q8_bn env) (ap_price p) (ap_price q))
       (fixed_number 4 (js_div (js_add (ap_confidence p) (ap_confidence q)) (Fin 2)))
       (min (ap_aggregatedFrom p) (ap_aggregatedFrom q)) (ap_isPartial p \<or> ap_isPartial q))"

definition computePriceQuote :: "('b, 'w) sep38_env \<Rightarrow> string \<Rightarrow> string \<Rightarrow> string \<Rightarrow> string option \<Rightarrow> ('w, price_quote) quoted" where
  "computePriceQuote env sourceAsset sourceAmount destAsset context =
     ecatch (aggregated_quote env sourceAsset sourceAmount destAsset context)
       (\<lambda>_. computeFallbackQuote env sourceAsset sourceAmount destAsset context)"

definition quote_cache_options :: "quotes_config \<Rightarrow> string \<Rightarrow> string \<Rightarrow> cache_options" where
  "quote_cache_options cfg source dest = \<lparr>co_ttlSeconds = qc_quoteCacheTtlSeconds cfg,
     co_tags = Some [''sep38'', ''quote'', ''asset:'' @ source, ''asset:'' @ dest], co_staleWhileRevalidate = True,
     co_staleTtlSeconds = Some (qc_quoteCacheStaleTtlSeconds cfg)\<rparr>"

definition same_asset_quote :: "('b, 'w) sep38_env \<Rightarrow> string \<Rightarrow> string \<Rightarrow> string \<Rightarrow> ('w, price_quote) quoted" where
  "same_asset_quote env sourceAsset sourceAmount destinationAsset =
     ebind (eget (\<lambda>s. decimals_of (s8_assets s) (upper_text sourceAsset))) (\<lambda>decimals.
     ebind (elift (computeVolumeFee (q8_bn env) sourceAmount DEFAULT_VOLUME_TIERS)) (\<lambda>fee.
     ebind (cclock (q8_cache env)) (\<lambda>now. ereturn
       \<lparr>pq_source_asset = sourceAsset, pq_source_amount = sourceAmount, pq_destination_asset = destinationAsset,
        pq_destination_amount = sourceAmount, pq_price = bn_toFixed (q8_bn env) decimals (bn_new (q8_bn env) (NumV (Fin 1))),
        pq_price_decimals = decimals, pq_fee = fee,
        pq_expiration_time = buildQuoteExpirationTime (qc_indicativeQuoteExpirationSeconds (q8_config env)) now,
        pq_context = None, pq_cached = None, pq_confidence = Fin 1, pq_sources_used = 0, pq_is_partial = False,
        pq_routing_path = None\<rparr>)))"

text \<open>A fresh quote, put into the second level of the cache.\<close>

definition refreshed_quote :: "('b, 'w) sep38_env \<Rightarrow> string \<Rightarrow> ('w, price_quote) quoted \<Rightarrow> ('w, price_quote) quoted" where
  "refreshed_quote env key fetchQuote =
     ebind fetchQuote (\<lambda>quote.
     ebind (setL2 (q8_cache env) key (CachedQuote quote) (qc_quoteCacheTtlSeconds (q8_config env)) ''sep38-quote'' None) (\<lambda>_.
     ereturn (quote\<lparr>pq_cached := Some False\<rparr>)))"

text \<open>An entry of the other kind is never under a key of this kind; it would be read as no quote.\<close>

definition as_quote :: "cached_value \<Rightarrow> ('w, price_quote) quoted" where
  "as_quote v = (case v of CachedQuote q \<Rightarrow> ereturn q | CachedAssets _ \<Rightarrow> ethrow (type_error ''not a quote''))"

definition cached_quote :: "('b, 'w) sep38_env \<Rightarrow> string \<Rightarrow> string \<Rightarrow> string \<Rightarrow> ('w, price_quote) quoted \<Rightarrow> ('w, price_quote) quoted" where
  "cached_quote env key source dest fetchQuote =
     ebind (cacheAside (q8_cache env) key (ebind fetchQuote (\<lambda>q. ereturn (CachedQuote q)))
       (quote_cache_options (q8_config env) source dest)) (\<lambda>r.
     ebind (as_quote (cr_data r)) (\<lambda>q.
     ebind (cclock (q8_cache env)) (\<lambda>now.
     if cr_fromCache r \<and> isQuoteExpired q now then refreshed_quote env key fetchQuote
     else ereturn (q\<lparr>pq_cached := Some (cr_fromCache r)\<rparr>))))"

definition getPriceQuote :: "('b, 'w) sep38_env \<Rightarrow> string \<Rightarrow> string \<Rightarrow> string \<Rightarrow> string option \<Rightarrow> bool \<Rightarrow> ('w, price_quote) quoted" where
  "getPriceQuote env sourceAsset sourceAmount destinationAsset context forceRefresh =
     (let source = upper_text sourceAsset; dest = upper_text destinationAsset;
          key = buildPriceKey source dest sourceAmount context;
          fetchQuote = computePriceQuote env source sourceAmount dest context in
      ebind (eget s8_assets) (\<lambda>assets.
      if \<not> isAssetSupported assets source then ethrow (PlainError (''Unsupported source asset: '' @ sourceAsset))
      else if \<not> isAssetSupported assets dest then ethrow (PlainError (''Unsupported destination asset: '' @ destinationAsset))
      else if source = dest then same_asset_quote env sourceAsset sourceAmount destinationAsset
      else if q8_testMode env then ebind fetchQuote (\<lambda>quote. ereturn (quote\<lparr>pq_cached := Some False\<rparr>))
      else if forceRefresh then refreshed_quote env key fetchQuote
      else cached_quote env key source dest fetchQuote))"

section \<open>Firm quotes\<close>

record quote_response = price_quote +
  pq_id :: string

definition with_id :: "string \<Rightarrow> int \<Rightarrow> price_quote \<Rightarrow> quote_response" where
  "with_id quoteId expires q = price_quote.extend (q\<lparr>pq_expiration_time := expires\<rparr>) \<lparr>pq_id = quoteId\<rparr>"

text \<open>The controller's state is the world of the tables.\<close>

definition in_sep38 :: "('w, 'a) quoted \<Rightarrow> ('w sep38_state, 'a) transfers" where
  "in_sep38 m = in_fees (fworld m)"

definition createQuote :: "('b, 'w) sep38_env \<Rightarrow> ('b, 'w sep38_state) fee_env \<Rightarrow> string \<Rightarrow> string \<Rightarrow> string \<Rightarrow> string option
    \<Rightarrow> ('w sep38_state, quote_response) transfers" where
  "createQuote env tenv sourceAsset sourceAmount destinationAsset context =
     ebind (in_sep38 (getPriceQuote env sourceAsset sourceAmount destinationAsset context False)) (\<lambda>indicative.
     ebind (in_sep38 (cclock (q8_cache env))) (\<lambda>now.
     let expiresAt = now + qc_firmQuoteValiditySeconds (q8_config env) * 1000 in
     ebind (insert_quote tenv \<lparr>qr_sellAsset = upper_text sourceAsset, qr_sellAmount = sourceAmount,
       qr_buyAsset = upper_text destinationAsset, qr_buyAmount = pq_destination_amount indicative, qr_price = pq_price indicative,
       qr_status = QPending, qr_expiresAt = Some expiresAt\<rparr>) (\<lambda>quoteId.
     ereturn (with_id quoteId (expiresAt div 1000) indicative))))"

section \<open>The made-up history of a price\<close>

record history_point =
  hp_timestamp :: jsnum
  hp_price :: jsnum

record price_history =
  ph_source_asset :: string
  ph_destination_asset :: string
  ph_points :: "history_point list"
  ph_high_24h :: jsnum
  ph_low_24h :: jsnum
  ph_spread_24h :: jsnum
  ph_average :: jsnum
  ph_change_24h_percent :: jsnum

definition safe_hours :: "jsnum \<Rightarrow> nat" where
  "safe_hours hours = (case hours of Fin r \<Rightarrow> if 0 < r then nat \<lfloor>r\<rfloor> else 24 | _ \<Rightarrow> 24)"

definition history_seed :: "string \<Rightarrow> string \<Rightarrow> int" where
  "history_seed source dest = sum_list (List.map of_char (source @ dest))"

definition PI :: jsnum where "PI = parseFloat ''3.141592653589793''"

definition interval_ms :: "nat \<Rightarrow> jsnum" where
  "interval_ms hours = (let h = js_int (int hours) in
     math_floor (js_div (js_mul (js_mul (js_mul h (Fin 60)) (Fin 60)) (Fin 1000)) h))"

definition history_point_at :: "(jsnum \<Rightarrow> jsnum) \<Rightarrow> string \<Rightarrow> string \<Rightarrow> jsnum \<Rightarrow> int \<Rightarrow> nat \<Rightarrow> nat \<Rightarrow> history_point" where
  "history_point_at sine source dest currentPrice now hours i =
     (let phase = js_mul (js_mul (js_div (js_int (int i)) (js_int (int hours))) PI) (Fin 2);
          pseudoRandom = (if source = dest then Fin 0
            else js_mul (sine (js_add (js_int (history_seed source dest)) (js_mul (js_int (int i)) (parseFloat ''13.37'')))) (parseFloat ''0.0015''));
          wave = (if source = dest then Fin 0 else js_mul (sine phase) (parseFloat ''0.004''));
          price = js_mul currentPrice (js_add (js_add (Fin 1) wave) pseudoRandom)
      in \<lparr>hp_timestamp = js_sub (js_int now) (js_mul (js_int (int hours - 1 - int i)) (interval_ms hours)),
          hp_price = fixed_number 7 (math_max (Fin 0) price)\<rparr>)"

text \<open>The last point is the current price; \<open>points[-1]\<close> of an empty array is no element of it.\<close>

definition history_points :: "(jsnum \<Rightarrow> jsnum) \<Rightarrow> string \<Rightarrow> string \<Rightarrow> jsnum \<Rightarrow> int \<Rightarrow> nat \<Rightarrow> history_point list" where
  "history_points sine source dest currentPrice now hours =
     (let points = List.map (history_point_at sine source dest currentPrice now hours) [0..<hours] in
      points[length points - 1 := \<lparr>hp_timestamp = js_int now, hp_price = fixed_number 7 currentPrice\<rparr>])"

definition history_of :: "string \<Rightarrow> string \<Rightarrow> history_point list \<Rightarrow> price_history" where
  "history_of source dest points =
     (let prices = List.map hp_price points; high = foldl math_max NegInf prices; low = foldl math_min PosInf prices;
          changePercent = (if length prices > 1
            then js_mul (js_div (js_sub (prices ! (length prices - 1)) (prices ! 0)) (prices ! 0)) (Fin 100) else Fin 0)
      in \<lparr>ph_source_asset = source, ph_destination_asset = dest, ph_points = points, ph_high_24h = fixed_number 7 high,
          ph_low_24h = fixed_number 7 low, ph_spread_24h = fixed_number 7 (js_sub high low),
          ph_average = fixed_number 7 (mean_of prices), ph_change_24h_percent = fixed_number 4 changePercent\<rparr>)"

definition getPriceHistory :: "('b, 'w) sep38_env \<Rightarrow> string \<Rightarrow> string \<Rightarrow> jsnum \<Rightarrow> ('w, price_history) quoted" where
  "getPriceHistory env sourceAsset destinationAsset hours =
     (let source = upper_text sourceAsset; dest = upper_text destinationAsset in
      ebind (eget s8_assets) (\<lambda>assets.
      if \<not> isAssetSupported assets source then ethrow (PlainError (''Unsupported source asset: '' @ sourceAsset))
      else if \<not> isAssetSupported assets dest then ethrow (PlainError (''Unsupported destination asset: '' @ destinationAsset))
      else
        ebind (cclock (q8_cache env)) (\<lambda>now.
        ebind (getPriceQuote env source ''1'' dest (Some ''preview-chart'') True) (\<lambda>quote.
        ereturn (history_of source dest
          (history_points (q8_sin env) source dest (parseFloat (pq_price quote)) now (safe_hours hours)))))))"

section \<open>Assets and prices\<close>

definition assetsCacheKey :: string where "assetsCacheKey = ''sep38:supported_assets''"

definition getSupportedAssets :: "('b, 'w) sep38_env \<Rightarrow> ('w, asset_info list) quoted" where
  "getSupportedAssets env =
     ebind (cacheAside (q8_cache env) assetsCacheKey (ebind (eget s8_assets) (\<lambda>a. ereturn (CachedAssets a)))
       \<lparr>co_ttlSeconds = qc_assetsCacheTtlSeconds (q8_config env), co_tags = Some [''sep38'', ''assets''],
        co_staleWhileRevalidate = False, co_staleTtlSeconds = None\<rparr>) (\<lambda>r.
     case cr_data r of CachedAssets a \<Rightarrow> ereturn a | CachedQuote _ \<Rightarrow> ethrow (type_error ''not a list of assets''))"

text \<open>The first asset of the same code and issuer is replaced; a new one is added at the end.\<close>

fun put_asset :: "asset_info \<Rightarrow> asset_info list \<Rightarrow> asset_info list" where
  "put_asset a [] = [a]"
| "put_asset a (b # bs) = (if ai_code b = ai_code a \<and> ai_issuer b = ai_issuer a then a # bs else b # put_asset a bs)"

definition addSupportedAsset :: "('b, 'w) sep38_env \<Rightarrow> asset_info \<Rightarrow> ('w, unit) quoted" where
  "addSupportedAsset env asset =
     ebind (emodify (\<lambda>s. s\<lparr>s8_assets := put_asset asset (s8_assets s)\<rparr>)) (\<lambda>_.
     invalidate (q8_cache env) assetsCacheKey)"

definition set_fallback :: "string \<Rightarrow> jsnum \<Rightarrow> ('w, unit) quoted" where
  "set_fallback assetCode priceUSD = emodify (\<lambda>s. s\<lparr>s8_fallback := js_set (upper_text assetCode) priceUSD (s8_fallback s)\<rparr>)"

definition source_pattern :: "string \<Rightarrow> string" where
  "source_pattern asset = ''sep38:quote:price:'' @ asset @ '':*''"

definition destination_pattern :: "string \<Rightarrow> string" where
  "destination_pattern asset = ''sep38:quote:price:*:'' @ asset @ '':*''"

text \<open>
  \<open>new RegExp(p).test(s)\<close> where \<open>p\<close> has only ordinary characters and \<open>*\<close>, as these patterns have: a character with a star stands
  for any number of that character, and the match may start anywhere.
\<close>

fun match_here :: "string \<Rightarrow> string \<Rightarrow> bool" and match_star :: "char \<Rightarrow> string \<Rightarrow> string \<Rightarrow> bool" where
  "match_here [] s = True"
| "match_here [c] s = (case s of [] \<Rightarrow> False | d # _ \<Rightarrow> d = c)"
| "match_here (c # d # p) s = (if d = CHR ''*'' then match_star c p s
     else case s of [] \<Rightarrow> False | e # s' \<Rightarrow> e = c \<and> match_here (d # p) s')"
| "match_star c p s = (match_here p s \<or> (case s of [] \<Rightarrow> False | d # s' \<Rightarrow> d = c \<and> match_star c p s'))"

fun regex_test :: "string \<Rightarrow> string \<Rightarrow> bool" where
  "regex_test p [] = match_here p []"
| "regex_test p (c # s) = (match_here p (c # s) \<or> regex_test p s)"

definition updateAssetPrice :: "('b, 'w) sep38_env \<Rightarrow> string \<Rightarrow> jsnum \<Rightarrow> ('w, unit) quoted" where
  "updateAssetPrice env assetCode priceUSD =
     (let asset = upper_text assetCode in
      ebind (set_fallback assetCode priceUSD) (\<lambda>_.
      ebind (promise_all [on_prices (invalidatePrice (q8_prices env) asset),
        invalidatePattern (q8_cache env) (source_pattern asset),
        invalidatePattern (q8_cache env) (destination_pattern asset)]) (\<lambda>_. ereturn ())))"

definition updateMockPrice :: "('b, 'w) sep38_env \<Rightarrow> string \<Rightarrow> jsnum \<Rightarrow> ('w, unit) quoted" where
  "updateMockPrice env assetCode priceUSD =
     ebind (set_fallback assetCode priceUSD) (\<lambda>_. ecatch (updateAssetPrice env assetCode priceUSD) (\<lambda>_. ereturn ()))"

definition invalidateAllCaches :: "('b, 'w) sep38_env \<Rightarrow> ('w, unit) quoted" where
  "invalidateAllCaches env =
     ebind (promise_all [on_prices (invalidateAllPrices (q8_prices env)), invalidateByTags (q8_cache env) [''sep38'']])
       (\<lambda>_. ereturn ())"

definition getCacheStats :: "('b, 'w) sep38_env \<Rightarrow> 'w sep38_state \<Rightarrow> (nat \<times> int) \<times> (string, breaker_metrics) jsmap" where
  "getCacheStats env s = (getStats (q8_cache env) s, getCircuitBreakerMetrics (cs_world s))"

definition resetPriceBreakers :: "'w sep38_state \<Rightarrow> 'w sep38_state" where
  "resetPriceBreakers s = s\<lparr>cs_world := resetCircuitBreakers (cs_world s)\<rparr>"

section \<open>The routes\<close>

text \<open>The answers: the value with status 200, \<open>missing_required_params\<close> with 400, and the message of an error with 500.\<close>

datatype 'a route_answer = Answered 'a | MissingParams | ServerError string

definition answered :: "('s, js_error, 'a) eff \<Rightarrow> ('s, js_error, 'a route_answer) eff" where
  "answered m = ecatch (ebind m (\<lambda>x. ereturn (Answered x)))
     (\<lambda>e. ereturn (ServerError (case error_message e of Some m \<Rightarrow> m | None \<Rightarrow> ''An unexpected error occurred'')))"

text \<open>The values of a query are texts here; an empty one counts as missing.\<close>

record quote_query =
  qq_source_asset :: "string option"
  qq_source_amount :: "string option"
  qq_destination_asset :: "string option"
  qq_context :: "string option"

definition get_price :: "('b, 'w) sep38_env \<Rightarrow> quote_query \<Rightarrow> ('w, price_quote route_answer) quoted" where
  "get_price env q = (case (truthy_str (qq_source_asset q), truthy_str (qq_source_amount q), truthy_str (qq_destination_asset q)) of
     (Some source, Some amount, Some dest) \<Rightarrow> answered (getPriceQuote env source amount dest (qq_context q) False)
   | _ \<Rightarrow> ereturn MissingParams)"

text \<open>The amount of a body may be of any kind; it is made a text.\<close>

record quote_body =
  qb_source_asset :: "string option"
  qb_source_amount :: json
  qb_destination_asset :: "string option"
  qb_context :: "string option"

definition post_quote :: "('b, 'w) sep38_env \<Rightarrow> ('b, 'w sep38_state) fee_env \<Rightarrow> quote_body
    \<Rightarrow> ('w sep38_state, quote_response route_answer) transfers" where
  "post_quote env tenv q = (case (truthy_str (qb_source_asset q), truthy_str (qb_destination_asset q)) of
     (Some source, Some dest) \<Rightarrow>
       if \<not> json_truthy (qb_source_amount q) then ereturn MissingParams
       else answered (createQuote env tenv source (json_string (qb_source_amount q)) dest (qb_context q))
   | _ \<Rightarrow> ereturn MissingParams)"

definition get_assets :: "('b, 'w) sep38_env \<Rightarrow> ('w, asset_info list route_answer) quoted" where
  "get_assets env = answered (getSupportedAssets env)"

definition get_history :: "('b, 'w) sep38_env \<Rightarrow> string option \<Rightarrow> string option \<Rightarrow> ('w, price_history route_answer) quoted" where
  "get_history env source_asset destination_asset = (case (truthy_str source_asset, truthy_str destination_asset) of
     (Some source, Some dest) \<Rightarrow> answered (getPriceHistory env source dest (Fin 24))
   | _ \<Rightarrow> ereturn MissingParams)"

end
