(* ===== verification/Sep38_Props.thy ===== *)
theory Sep38_Props
  imports Sep38 Advanced_Cache_Props Price_Props Transfer_Props Fee_Props
begin

text \<open>
  Properties of the quotes: the keys of the cache, what a price update invalidates, how long a quote is served, what stands
  behind a quote when no source answers, and what a firm quote records.
\<close>

section \<open>Keys\<close>

lemma append_colon_eq:
  "CHR '':'' \<notin> set a \<Longrightarrow> CHR '':'' \<notin> set b \<Longrightarrow> a @ CHR '':'' # x = b @ CHR '':'' # y \<longleftrightarrow> a = b \<and> x = y"
  by (induction a arbitrary: b) (case_tac b; auto)+

lemma upper_no_lower: "c \<in> set (upper_text s) \<Longrightarrow> \<not> (97 \<le> (of_char c :: nat) \<and> (of_char c :: nat) \<le> 122)"
  by (auto simp: upper_text_def split: if_splits)

lemma upper_text_idem [simp]: "upper_text (upper_text s) = upper_text s"
  by (induction s) (auto simp: upper_text_def)

text \<open>Two indicative prices share a key of the cache exactly when the assets are the same and the texts of amount and context are
  the same once joined by a colon, for asset codes without a colon: no pair is ever answered with the price of another pair, but the
  amount and the context can run into each other.
\<close>
theorem price_key_separates_pairs:
  assumes "CHR '':'' \<notin> set (upper_text a)" "CHR '':'' \<notin> set (upper_text b)" "CHR '':'' \<notin> set (upper_text a')" "CHR '':'' \<notin> set (upper_text b')"
    and "truthy_str c = Some d" "truthy_str c' = Some d'"
  shows "buildPriceKey a b x c = buildPriceKey a' b' x' c' \<longleftrightarrow>
    upper_text a = upper_text a' \<and> upper_text b = upper_text b' \<and> x @ '':'' @ d = x' @ '':'' @ d'"
  using assms by (auto simp: buildPriceKey_def append_colon_eq)

theorem price_key_separates_pairs_witness:
  "buildPriceKey ''usdc'' ''XLM'' ''100'' (Some ''a:b'') = buildPriceKey ''USDC'' ''xlm'' ''100:a'' (Some ''b'')"
proof -
  have u: "upper_text ''usdc'' = ''USDC''" "upper_text ''USDC'' = ''USDC''" "upper_text ''xlm'' = ''XLM''" "upper_text ''XLM'' = ''XLM''"
    by code_simp+
  show ?thesis
    using price_key_separates_pairs [of "''usdc''" "''XLM''" "''USDC''" "''xlm''" "Some ''a:b''" "''a:b''" "Some ''b''" "''b''" "''100''" "''100:a''"]
    by (simp add: u truthy_str_def)
qed

section \<open>What a price update invalidates\<close>

lemma match_literal:
  assumes "CHR ''*'' \<notin> set l" "p \<noteq> []" "hd p \<noteq> CHR ''*''"
  shows "match_here (l @ p) s \<longleftrightarrow> (\<exists>r. s = l @ r \<and> match_here p r)"
  using assms(1)
proof (induction l arbitrary: s)
  case (Cons c l)
  obtain d q where d: "l @ p = d # q" "d \<noteq> CHR ''*''"
    using Cons.prems assms(2,3) by (cases l; cases p) auto
  then have "match_here ((c # l) @ p) s \<longleftrightarrow> (\<exists>t. s = c # t \<and> match_here (l @ p) t)"
    by (cases s) auto
  with Cons show ?case by auto
qed simp

lemma regex_no_start:
  "c \<notin> set s \<Longrightarrow> d \<noteq> CHR ''*'' \<Longrightarrow> \<not> regex_test (c # d # p) s"
  by (induction s) auto

lemma match_at_start_only:
  "c \<notin> set s \<Longrightarrow> d \<noteq> CHR ''*'' \<Longrightarrow> regex_test (c # d # p) (c # s) \<longleftrightarrow> match_here (c # d # p) (c # s)"
  using regex_no_start by simp

lemma starred_end: "match_here [c, CHR ''*''] s"
  by simp

definition plain_code :: "string \<Rightarrow> bool" where
  "plain_code a \<longleftrightarrow> a \<noteq> [] \<and> CHR '':'' \<notin> set a \<and> CHR ''*'' \<notin> set a"

lemma prefix_before_colon:
  "CHR '':'' \<notin> set a \<Longrightarrow> a @ r = b @ CHR '':'' # t \<Longrightarrow> take (length a) b = a"
  by (induction a arbitrary: b) (case_tac b; auto)+

lemma source_pattern_misses:
  assumes "plain_code asset" "take (length asset) src \<noteq> asset"
  shows "\<not> match_here (source_pattern asset) (''sep38:quote:price:'' @ src @ CHR '':'' # rest)"
proof
  assume m: "match_here (source_pattern asset) (''sep38:quote:price:'' @ src @ CHR '':'' # rest)"
  have "match_here ((''sep38:quote:price:'' @ asset) @ [CHR '':'', CHR ''*'']) (''sep38:quote:price:'' @ src @ CHR '':'' # rest)"
    using m by (simp add: source_pattern_def)
  then obtain r where "''sep38:quote:price:'' @ src @ CHR '':'' # rest = (''sep38:quote:price:'' @ asset) @ r"
    using assms(1) by (subst (asm) match_literal) (auto simp: plain_code_def)
  then show False using assms prefix_before_colon [of asset r src rest] by (auto simp: plain_code_def)
qed

lemma destination_pattern_misses:
  assumes "plain_code asset" "take (length asset) src \<noteq> asset" "src \<noteq> []" "CHR '':'' \<notin> set src"
  shows "\<not> match_here (destination_pattern asset) (''sep38:quote:price:'' @ src @ CHR '':'' # rest)"
proof
  let ?p = "CHR '':'' # asset @ [CHR '':'', CHR ''*'']"
  let ?s = "src @ CHR '':'' # rest"
  assume m: "match_here (destination_pattern asset) (''sep38:quote:price:'' @ ?s)"
  have "match_here (''sep38:quote:price'' @ [CHR '':'', CHR ''*''] @ ?p) (''sep38:quote:price'' @ CHR '':'' # ?s)"
    using m by (simp add: destination_pattern_def)
  then have star: "match_star (CHR '':'') ?p (CHR '':'' # ?s)"
    by (subst (asm) match_literal) auto
  obtain c t where src: "src = c # t" "c \<noteq> CHR '':''" using assms(3,4) by (cases src) auto
  have shift: "match_here ?p u \<longleftrightarrow> (\<exists>r. u = (CHR '':'' # asset) @ r \<and> match_here [CHR '':'', CHR ''*''] r)" for u
    using match_literal [of "CHR '':'' # asset" "[CHR '':'', CHR ''*'']" u] assms(1) by (auto simp: plain_code_def)
  have "\<not> match_star (CHR '':'') ?p ?s" using src shift [of ?s] by auto
  then have "match_here ?p (CHR '':'' # ?s)" using star by simp
  then obtain r where "?s = asset @ r" using shift [of "CHR '':'' # ?s"] by auto
  then show False using assms prefix_before_colon [of asset r src rest] by (auto simp: plain_code_def)
qed

lemma upper_no_s: "CHR ''s'' \<notin> set (upper_text a)"
  using upper_no_lower [of "CHR ''s''" a] by auto

lemma price_key_shape:
  "buildPriceKey a b x c = CHR ''s'' # ''ep38:quote:price:'' @ upper_text a @ CHR '':'' # upper_text b @ CHR '':'' # x @ CHR '':''
     # (case truthy_str c of Some d \<Rightarrow> d | None \<Rightarrow> ''default'')"
  by (simp add: buildPriceKey_def QUOTE_KEY_PREFIX_def)

text \<open>The patterns of an update of \<open>asset\<close> match no key of a pair that has it as its destination only.\<close>

lemma update_patterns_miss:
  assumes "plain_code asset" "take (length asset) (upper_text a) \<noteq> asset" "upper_text a \<noteq> []" "CHR '':'' \<notin> set (upper_text a)"
    and "CHR ''s'' \<notin> set x" "P = source_pattern asset \<or> P = destination_pattern asset"
  shows "\<not> regex_test P (buildPriceKey a b x None)"
proof -
  define rest where "rest = upper_text b @ CHR '':'' # x @ '':default''"
  have key: "buildPriceKey a b x None = CHR ''s'' # ''ep38:quote:price:'' @ upper_text a @ CHR '':'' # rest"
    by (simp add: price_key_shape truthy_str_def rest_def)
  have no_s: "CHR ''s'' \<notin> set (''ep38:quote:price:'' @ upper_text a @ CHR '':'' # rest)"
    using assms(5) upper_no_s by (auto simp: rest_def)
  have "\<exists>p. P = CHR ''s'' # CHR ''e'' # p" using assms(6) by (auto simp: source_pattern_def destination_pattern_def)
  then obtain p where p: "P = CHR ''s'' # CHR ''e'' # p" by blast
  have "regex_test P (buildPriceKey a b x None) \<longleftrightarrow> match_here P (buildPriceKey a b x None)"
    unfolding p key by (rule match_at_start_only [OF no_s]) simp
  moreover have "\<not> match_here P (''sep38:quote:price:'' @ upper_text a @ CHR '':'' # rest)"
    using assms(6) source_pattern_misses [OF assms(1,2)] destination_pattern_misses [OF assms(1,2,3,4)] by auto
  ultimately show ?thesis by (simp add: key)
qed

lemma keeps_world_call: "(\<And>s w. f (s\<lparr>cs_world := w\<rparr>) = f s) \<Longrightarrow> keeps f (ccall g)"
  by (auto simp: keeps_def ccall_def split: prod.split)

text \<open>What a quote is answered from: an entry of the first level, and the assets.\<close>

definition quote_view :: "string \<Rightarrow> 'w sep38_state \<Rightarrow> cached_value l1_entry option \<times> asset_info list" where
  "quote_view key s = (js_get (cs_l1 s) key, s8_assets s)"

lemma sep38_world [simp]:
  fixes s :: "'w sep38_state"
  shows "cs_l1 (s\<lparr>cs_world := w\<rparr>) = cs_l1 s" "s8_assets (s\<lparr>cs_world := w\<rparr>) = s8_assets s" "s8_fallback (s\<lparr>cs_world := w\<rparr>) = s8_fallback s"
  by (cases s, simp)+

lemma view_world [simp]: "quote_view key (s\<lparr>cs_world := w\<rparr>) = quote_view key s"
  by (simp add: quote_view_def)

lemma view_fallback [simp]: "quote_view key (s\<lparr>s8_fallback := w\<rparr>) = quote_view key s"
  by (simp add: quote_view_def)

lemma invalidate_matching_assets: "s8_assets (invalidate_matching P s) = s8_assets (s :: 'w sep38_state)"
proof -
  have "s8_assets (fold invalidateL1 ks s) = s8_assets s" for ks and s :: "'w sep38_state"
    by (induction ks arbitrary: s) (simp_all add: invalidateL1_def)
  then show ?thesis by (simp add: invalidate_matching_def)
qed

lemma keeps_pattern:
  fixes env :: "(cached_value, 'w price_state) cache_env"
  assumes "ac_regex env p = Inr matches" "\<not> matches key"
  shows "keeps (quote_view key :: 'w sep38_state \<Rightarrow> _) (invalidatePattern env p)"
  unfolding invalidatePattern_def publish_quietly_def assms(1)
  by (auto simp: keeps_def eff_defs ccall_def js_get_invalidate_matching invalidate_matching_assets assms(2) quote_view_def split: prod.split sum.split)

lemma keeps_update:
  fixes env :: "('b, 'w) sep38_env"
  assumes "\<forall>P \<in> {source_pattern (upper_text c), destination_pattern (upper_text c)}. \<exists>m. ac_regex (q8_cache env) P = Inr m \<and> \<not> m key"
  shows "keeps (quote_view key) (updateAssetPrice env c p)"
proof -
  obtain m1 m2 where "ac_regex (q8_cache env) (source_pattern (upper_text c)) = Inr m1" "\<not> m1 key"
      "ac_regex (q8_cache env) (destination_pattern (upper_text c)) = Inr m2" "\<not> m2 key"
    using assms by auto
  then show ?thesis
    unfolding updateAssetPrice_def Let_def set_fallback_def on_prices_def
    by (intro keeps_rules keeps_promise_all keeps_emodify) (auto intro!: keeps_world_call keeps_pattern)
qed

text \<open>A quote that is in the first level, neither stale nor expired, is the answer.\<close>

lemma l1_quote_answered:
  assumes "quote_view (buildPriceKey (upper_text a) (upper_text b) x c) s = (Some e, assets)" "e1_value e = CachedQuote q"
    and "\<not> is_stale (ac_now (q8_cache env) (cs_world s)) e" "ac_now (q8_cache env) (cs_world s) \<le> e1_expiresAt e"
    and "\<not> isQuoteExpired q (ac_now (q8_cache env) (cs_world s))"
    and "isAssetSupported assets (upper_text a)" "isAssetSupported assets (upper_text b)" "upper_text a \<noteq> upper_text b" "\<not> q8_testMode env"
  shows "getPriceQuote env a x b c False s = (Inr (q\<lparr>pq_cached := Some True\<rparr>), s)"
  using assms by (simp add: getPriceQuote_def cached_quote_def cacheAside_def getL1_def cclock_def eff_defs Let_def quote_view_def as_quote_def)

text \<open>C23. After the price of an asset has been updated, the quotes that buy this asset are still answered from the cache with the old
  price: the glob \<open>sep38:quote:price:*:ASSET:*\<close> is compiled as a regular expression, in which a star repeats the colon
  before it, so it matches no such key (for a source that does not start with the asset's code, and an amount without the letter s).
\<close>
theorem updated_price_keeps_destination_quotes:
  fixes env :: "('b, 'w) sep38_env"
  assumes regex: "\<forall>p. ac_regex (q8_cache env) p = Inr (regex_test p)"
    and codes: "plain_code (upper_text b)" "take (length (upper_text b)) (upper_text a) \<noteq> upper_text b"
      "upper_text a \<noteq> []" "CHR '':'' \<notin> set (upper_text a)" "CHR ''s'' \<notin> set x"
    and held: "js_get (cs_l1 s) (buildPriceKey (upper_text a) (upper_text b) x None) = Some e" "e1_value e = CachedQuote q"
    and fresh: "\<forall>w. \<not> is_stale (ac_now (q8_cache env) w) e \<and> ac_now (q8_cache env) w \<le> e1_expiresAt e
      \<and> \<not> isQuoteExpired q (ac_now (q8_cache env) w)"
    and supported: "isAssetSupported (s8_assets s) (upper_text a)" "isAssetSupported (s8_assets s) (upper_text b)" "\<not> q8_testMode env"
    and update: "updateAssetPrice env b price s = (r, s')"
  shows "getPriceQuote env a x b None False s' = (Inr (q\<lparr>pq_cached := Some True\<rparr>), s')"
proof -
  let ?key = "buildPriceKey (upper_text a) (upper_text b) x None"
  have "\<forall>P \<in> {source_pattern (upper_text b), destination_pattern (upper_text b)}. \<not> regex_test P ?key"
    using update_patterns_miss [of "upper_text b" "upper_text a" x] codes by auto
  then have "quote_view ?key s' = quote_view ?key s"
    using keeps_update [of b env ?key] regex update by (metis keeps_result)
  then have "quote_view ?key s' = (Some e, s8_assets s)" using held by (simp add: quote_view_def)
  moreover have "upper_text a \<noteq> upper_text b" using codes(2) by auto
  ultimately show ?thesis using held(2) fresh supported l1_quote_answered by blast
qed

definition demo_quote :: price_quote where
  "demo_quote = \<lparr>pq_source_asset = ''USDC'', pq_source_amount = ''100'', pq_destination_asset = ''XLM'', pq_destination_amount = ''833.3333333'',
     pq_price = ''8.3333333'', pq_price_decimals = 7, pq_fee = ''0.3000000'', pq_expiration_time = 60, pq_context = None, pq_cached = None,
     pq_confidence = Fin 1, pq_sources_used = 2, pq_is_partial = False, pq_routing_path = Some [''USDC'', ''XLM'']\<rparr>"

definition demo_entry38 :: "cached_value l1_entry" where
  "demo_entry38 = \<lparr>e1_value = CachedQuote demo_quote, e1_expiresAt = 65000, e1_staleAt = Some 35000\<rparr>"

text \<open>Redis holds nothing, and the time is five seconds after 1970.\<close>

definition demo_env38 :: "(rat option, nat) sep38_env" where
  "demo_env38 = \<lparr>q8_prices = demo_price_env, q8_sources = default_sources,
     q8_cache = \<lparr>ac_config = default_cache_config, ac_get = (\<lambda>_ w. (Inr None, w)), ac_del = (\<lambda>_ w. (Inr (), w)),
       ac_setex = (\<lambda>_ _ _ w. (Inr (), w)), ac_sadd = (\<lambda>_ w. (Inr (), w)), ac_smembers = (\<lambda>_ w. (Inr [], w)),
       ac_publish = (\<lambda>_ w. (Inr (), w)), ac_keys = (\<lambda>_ w. (Inr [], w)), ac_regex = (\<lambda>p. Inr (regex_test p)), ac_json = (\<lambda>v. v),
       ac_now = (\<lambda>w. 5000)\<rparr>,
     q8_bn = demo_bn, q8_config = defaultSep38QuotesCacheConfig, q8_testMode = False, q8_sin = (\<lambda>x. x)\<rparr>"

definition demo_state38 :: "nat sep38_state" where
  "demo_state38 = \<lparr>cs_l1 = [(''sep38:quote:price:USDC:XLM:100:default'', demo_entry38)], cs_keys = [''sep38:quote:price:USDC:XLM:100:default''],
     cs_callbacks = [], cs_called = [], cs_pending = [], cs_world = demo_price_state, s8_assets = SUPPORTED_ASSETS, s8_fallback = FALLBACK_PRICES\<rparr>"

lemma demo_codes: "upper_text ''USDC'' = ''USDC''" "upper_text ''XLM'' = ''XLM''" "upper_text ''BTC'' = ''BTC''"
  by code_simp+

lemma demo_key38: "buildPriceKey ''USDC'' ''XLM'' ''100'' None = ''sep38:quote:price:USDC:XLM:100:default''"
  by (simp add: price_key_shape demo_codes truthy_str_def)

lemma demo_supported: "isAssetSupported SUPPORTED_ASSETS ''USDC''" "isAssetSupported SUPPORTED_ASSETS ''XLM''" "isAssetSupported SUPPORTED_ASSETS ''BTC''"
  by (simp_all add: isAssetSupported_def SUPPORTED_ASSETS_def)

lemma demo_fresh38: "\<not> is_stale 5000 demo_entry38" "5000 \<le> e1_expiresAt demo_entry38" "\<not> isQuoteExpired demo_quote 5000"
  by (simp_all add: is_stale_def demo_entry38_def isQuoteExpired_def demo_quote_def)

theorem updated_price_keeps_destination_quotes_witness:
  "getPriceQuote demo_env38 ''USDC'' ''100'' ''XLM'' None False (snd (updateAssetPrice demo_env38 ''XLM'' (Fin 1) demo_state38))
    = (Inr (demo_quote\<lparr>pq_cached := Some True\<rparr>), snd (updateAssetPrice demo_env38 ''XLM'' (Fin 1) demo_state38))"
proof (rule updated_price_keeps_destination_quotes)
  show "updateAssetPrice demo_env38 ''XLM'' (Fin 1) demo_state38
    = (fst (updateAssetPrice demo_env38 ''XLM'' (Fin 1) demo_state38), snd (updateAssetPrice demo_env38 ''XLM'' (Fin 1) demo_state38))"
    by simp
  show "js_get (cs_l1 demo_state38) (buildPriceKey (upper_text ''USDC'') (upper_text ''XLM'') ''100'' None) = Some demo_entry38"
    by (simp add: demo_codes demo_key38 demo_state38_def)
  show "e1_value demo_entry38 = CachedQuote demo_quote" by (simp add: demo_entry38_def)
qed (simp_all add: demo_codes demo_supported demo_fresh38 plain_code_def, simp_all add: demo_env38_def demo_state38_def demo_supported demo_fresh38)

section \<open>How long a quote is served\<close>

text \<open>C12. A quote that is answered as coming from the cache has not expired at that moment, whatever the two levels hold and however
  long they have held it.
\<close>
theorem cached_quote_not_expired:
  assumes "getPriceQuote env a x b c force s = (Inr q, s')" "pq_cached q = Some True"
  shows "\<not> isQuoteExpired q (ac_now (q8_cache env) (cs_world s'))"
  using assms
  by (auto simp: getPriceQuote_def same_asset_quote_def refreshed_quote_def cached_quote_def as_quote_def cclock_def isQuoteExpired_def eff_defs Let_def
      split: if_splits prod.splits sum.splits cached_value.splits)

theorem cached_quote_not_expired_witness:
  "\<exists>q. getPriceQuote demo_env38 ''USDC'' ''100'' ''XLM'' None False demo_state38 = (Inr q, demo_state38)
     \<and> \<not> isQuoteExpired q (ac_now (q8_cache demo_env38) (cs_world demo_state38))"
proof -
  have q: "getPriceQuote demo_env38 ''USDC'' ''100'' ''XLM'' None False demo_state38 = (Inr (demo_quote\<lparr>pq_cached := Some True\<rparr>), demo_state38)"
    by (rule l1_quote_answered [of _ _ _ _ _ demo_entry38 SUPPORTED_ASSETS])
      (simp_all add: demo_codes demo_key38 demo_supported demo_fresh38 quote_view_def, simp_all add: demo_env38_def demo_state38_def demo_fresh38,
       simp_all add: demo_entry38_def)
  then show ?thesis using cached_quote_not_expired [OF q] by simp
qed

lemma keeps_setL2: "(\<And>s w. f (s\<lparr>cs_world := w\<rparr>) = f s) \<Longrightarrow> keeps f (setL2 env key v ttl src tags)"
  unfolding setL2_def cclock_def by (intro keeps_rules keeps_world_call) auto

lemma keeps_rate_quote: "keeps f (rate_quote env a x b c rate conf n partial)"
  unfolding rate_quote_def cclock_def by (intro keeps_rules)

lemma keeps_computePriceQuote:
  fixes env :: "('b, 'w) sep38_env"
  assumes "\<And>s w. f (s\<lparr>cs_world := w\<rparr>) = f s"
  shows "keeps f (computePriceQuote env a x b c)"
proof -
  have "keeps f (aggregated_quote env a x b c)"
    unfolding aggregated_quote_def Let_def on_prices_def
    by (intro keeps_rules keeps_promise_all keeps_rate_quote) (auto intro!: keeps_world_call assms)
  moreover have "keeps f (computeFallbackQuote env a x b c)"
    unfolding computeFallbackQuote_def
    by (intro keeps_rules) (auto intro!: keeps_rules keeps_rate_quote split: option.split)
  ultimately show ?thesis unfolding computePriceQuote_def by (intro keeps_rules) auto
qed

text \<open>Once a quote in the first level has expired while its entry has not, the cache does nothing for its key any more: every request
  asks the price sources again and writes the second level only, and leaves the entry as it is for the next request.
\<close>
theorem expired_quote_defeats_cache:
  fixes env :: "('b, 'w) sep38_env"
  assumes held: "quote_view (buildPriceKey (upper_text a) (upper_text b) x c) s = (Some e, assets)" "e1_value e = CachedQuote q"
    and entry: "\<forall>w. \<not> is_stale (ac_now (q8_cache env) w) e \<and> ac_now (q8_cache env) w \<le> e1_expiresAt e"
    and expired: "\<forall>w. isQuoteExpired q (ac_now (q8_cache env) w)"
    and supported: "isAssetSupported assets (upper_text a)" "isAssetSupported assets (upper_text b)" "upper_text a \<noteq> upper_text b" "\<not> q8_testMode env"
  shows "getPriceQuote env a x b c False s = refreshed_quote env (buildPriceKey (upper_text a) (upper_text b) x c)
      (computePriceQuote env (upper_text a) x (upper_text b) c) s
    \<and> quote_view (buildPriceKey (upper_text a) (upper_text b) x c) (snd (getPriceQuote env a x b c False s)) = (Some e, assets)"
proof -
  let ?key = "buildPriceKey (upper_text a) (upper_text b) x c"
  let ?new = "refreshed_quote env ?key (computePriceQuote env (upper_text a) x (upper_text b) c)"
  have "\<not> e1_expiresAt e < ac_now (q8_cache env) (cs_world s)" "\<not> is_stale (ac_now (q8_cache env) (cs_world s)) e"
    using entry by (meson not_less)+
  then have "getPriceQuote env a x b c False s = ?new s"
    using held expired supported by (simp add: getPriceQuote_def cached_quote_def cacheAside_def getL1_def cclock_def eff_defs Let_def quote_view_def as_quote_def)
  moreover have "keeps (quote_view ?key) ?new"
    unfolding refreshed_quote_def by (intro keeps_rules keeps_setL2 keeps_computePriceQuote) simp_all
  ultimately show ?thesis using held(1) by (metis keepsD)
qed

theorem expired_quote_defeats_cache_witness:
  "quote_view (buildPriceKey (upper_text ''USDC'') (upper_text ''XLM'') ''100'' None)
     (snd (getPriceQuote (demo_env38\<lparr>q8_cache := (q8_cache demo_env38)\<lparr>ac_now := (\<lambda>w. 61000)\<rparr>\<rparr>) ''USDC'' ''100'' ''XLM'' None False
       (demo_state38\<lparr>cs_l1 := [(''sep38:quote:price:USDC:XLM:100:default'', demo_entry38\<lparr>e1_staleAt := None\<rparr>)]\<rparr>)))
   = (Some (demo_entry38\<lparr>e1_staleAt := None\<rparr>), SUPPORTED_ASSETS)"
  by (rule expired_quote_defeats_cache [where q = demo_quote, THEN conjunct2])
    (simp_all add: demo_codes demo_key38 demo_supported quote_view_def,
     simp_all add: demo_env38_def demo_state38_def demo_entry38_def is_stale_def isQuoteExpired_def demo_quote_def)

section \<open>When no source answers\<close>

lemma default_fee: "\<exists>f. computeVolumeFee B x DEFAULT_VOLUME_TIERS = Inr f"
  by (simp add: computeVolumeFee_def volume_tier_of_def DEFAULT_VOLUME_TIERS_def split: option.split)

lemma rate_quote_returns:
  "\<exists>q. rate_quote env a x b c rate conf n partial s = (Inr q, s) \<and> pq_price q = bn_toFixed (q8_bn env) 7 rate
     \<and> pq_sources_used q = n \<and> pq_is_partial q = partial
     \<and> pq_expiration_time q = ac_now (q8_cache env) (cs_world s) div 1000 + qc_indicativeQuoteExpirationSeconds (q8_config env)"
proof -
  obtain f where "computeVolumeFee (q8_bn env) x DEFAULT_VOLUME_TIERS = Inr f" using default_fee by blast
  then show ?thesis by (simp add: rate_quote_def cclock_def eff_defs buildQuoteExpirationTime_def)
qed

lemma keeps_aggregated:
  fixes env :: "('b, 'w) sep38_env"
  assumes "\<And>s w. f (s\<lparr>cs_world := w\<rparr>) = f s"
  shows "keeps f (aggregated_quote env a x b c)"
  unfolding aggregated_quote_def Let_def on_prices_def
  by (intro keeps_rules keeps_promise_all keeps_rate_quote) (auto intro!: keeps_world_call assms)

text \<open>A quote of two assets that the table of built-in prices has is always given: when the prices cannot be had from the sources, for
  whatever reason, its price is that of the table, and it says so (no source used, partial).
\<close>
theorem quote_survives_outage:
  fixes env :: "('b, 'w) sep38_env"
  assumes "js_get (s8_fallback s) a = Some p" "js_get (s8_fallback s) b = Some r" "\<not> is_falsy_number p" "\<not> is_falsy_number r"
  shows "\<exists>q s'. computePriceQuote env a x b c s = (Inr q, s')
    \<and> (\<forall>e t. aggregated_quote env a x b c s = (Inl e, t) \<longrightarrow>
        pq_price q = bn_toFixed (q8_bn env) 7 (cross_rate (q8_bn env) p r) \<and> pq_sources_used q = 0 \<and> pq_is_partial q)"
proof (cases "aggregated_quote env a x b c s")
  case (Pair v t)
  then have "s8_fallback t = s8_fallback s"
    using keeps_result [OF keeps_aggregated [of s8_fallback env a x b c] Pair] by simp
  then have fb: "computeFallbackQuote env a x b c t = rate_quote env a x b c (cross_rate (q8_bn env) p r) (Fin (1 / 2)) 0 True t"
    using assms by (simp add: computeFallbackQuote_def eget_def ebind_def)
  obtain q where "rate_quote env a x b c (cross_rate (q8_bn env) p r) (Fin (1 / 2)) 0 True t = (Inr q, t)"
      "pq_price q = bn_toFixed (q8_bn env) 7 (cross_rate (q8_bn env) p r)" "pq_sources_used q = 0" "pq_is_partial q"
    using rate_quote_returns [of env a x b c "cross_rate (q8_bn env) p r" "Fin (1 / 2)" 0 True t] by blast
  then show ?thesis using Pair fb by (cases v; simp add: computePriceQuote_def ecatch_def; blast)
qed

section \<open>Firm quotes\<close>

text \<open>A firm quote that is answered is one new pending row of the table, with the assets, the amount and the price of the answer, that
  expires when the answer says; no other row changes. The fee of the answer is nowhere in the row.
\<close>
theorem firm_quote_recorded:
  fixes env :: "('b, 'w) sep38_env" and s :: "'w sep38_state transfer_state"
  assumes "createQuote env tenv a x b c s = (Inr r, s')"
  shows "\<exists>t. js_get (tf_quotes s) (pq_id r) = None \<and> t div 1000 = pq_expiration_time r
    \<and> tf_quotes s' = js_set (pq_id r) \<lparr>qr_sellAsset = upper_text a, qr_sellAmount = x, qr_buyAsset = upper_text b,
        qr_buyAmount = pq_destination_amount r, qr_price = pq_price r, qr_status = QPending, qr_expiresAt = Some t\<rparr> (tf_quotes s)"
proof -
  have k: "keeps tf_quotes (in_sep38 m :: ('w sep38_state, 'z) transfers)" for m :: "('w, 'z) quoted"
    unfolding in_sep38_def by (rule in_fees_keeps) simp
  obtain q s1 now s2 where 1: "in_sep38 (getPriceQuote env a x b c False) s = (Inr q, s1)"
      and 2: "in_sep38 (cclock (q8_cache env)) s1 = (Inr now, s2)"
      and 3: "(let expiresAt = now + qc_firmQuoteValiditySeconds (q8_config env) * 1000 in
        ebind (insert_quote tenv \<lparr>qr_sellAsset = upper_text a, qr_sellAmount = x, qr_buyAsset = upper_text b,
          qr_buyAmount = pq_destination_amount q, qr_price = pq_price q, qr_status = QPending, qr_expiresAt = Some expiresAt\<rparr>)
          (\<lambda>quoteId. ereturn (with_id quoteId (expiresAt div 1000) q))) s2 = (Inr r, s')"
    using assms unfolding createQuote_def ebind_def [of "in_sep38 _"] by (auto split: prod.splits sum.splits)
  define t where "t = now + qc_firmQuoteValiditySeconds (q8_config env) * 1000"
  define row where "row = \<lparr>qr_sellAsset = upper_text a, qr_sellAmount = x, qr_buyAsset = upper_text b,
    qr_buyAmount = pq_destination_amount q, qr_price = pq_price q, qr_status = QPending, qr_expiresAt = Some t\<rparr>"
  have q2: "tf_quotes s2 = tf_quotes s" using keeps_result [OF k 1] keeps_result [OF k 2] by simp
  have "ebind (insert_quote tenv row) (\<lambda>quoteId. ereturn (with_id quoteId (t div 1000) q)) s2 = (Inr r, s')"
    using 3 by (simp add: t_def row_def Let_def)
  then obtain i where i: "insert_quote tenv row s2 = (Inr i, s')" "r = with_id i (t div 1000) q"
    by (auto simp: ebind_def ereturn_def split: prod.splits sum.splits)
  obtain s3 s4 where 4: "tdb tenv s2 = (Inr (), s3)" and 5: "tuuid tenv s3 = (Inr i, s4)"
      and 6: "js_get (tf_quotes s4) i = None" "s' = s4\<lparr>tf_quotes := js_set i row (tf_quotes s4)\<rparr>"
    using i(1) by (auto simp: insert_quote_def eff_defs split: prod.splits sum.splits if_splits)
  have "keeps tf_quotes (tdb tenv :: ('w sep38_state, unit) transfers)" "keeps tf_quotes (tuuid tenv :: ('w sep38_state, string) transfers)"
    by (simp_all add: tdb_def tuuid_def in_fees_keeps)
  then have "tf_quotes s4 = tf_quotes s" using keeps_result 4 5 q2 by metis
  moreover have "pq_id r = i" "pq_expiration_time r = t div 1000" "pq_destination_amount r = pq_destination_amount q" "pq_price r = pq_price q"
    by (simp_all add: i(2) with_id_def price_quote.defs)
  ultimately show ?thesis using 6 by (auto simp: row_def)
qed

theorem quote_survives_outage_witness:
  "\<exists>q s'. computePriceQuote demo_env38 ''USDC'' ''100'' ''BTC'' None demo_state38 = (Inr q, s')"
proof -
  have "parseFloat ''0.12'' \<noteq> NaN" by code_simp
  then show ?thesis
    using quote_survives_outage [of demo_state38 "''USDC''" "Fin 1" "''BTC''" "Fin 45000" demo_env38 "''100''" None]
    by (auto simp: demo_state38_def FALLBACK_PRICES_def is_falsy_number_def)
qed

definition demo_tables38 :: "(rat option, nat sep38_state) fee_env" where
  "demo_tables38 = \<lparr>fe_big = demo_bn, fe_redis = False, fe_get = (\<lambda>_ w. (Inr None, w)), fe_set = (\<lambda>_ _ _ w. (Inr (), w)),
     fe_fetch = (\<lambda>_ w. (Inl (PlainError ''unused''), w)), fe_db = (\<lambda>w. (None, w)), fe_uuid = (\<lambda>w. (''q1'', w)),
     fe_parseDate = (\<lambda>_. None), fe_now = (\<lambda>w. 5000), fe_horizonUrl = []\<rparr>"

definition demo_transfer38 :: "nat sep38_state transfer_state" where
  "demo_transfer38 = \<lparr>tf_txs = [], tf_users = [], tf_quotes = [], tf_events = [], tf_fees = \<lparr>fz_rows = [], fz_world = demo_state38\<rparr>\<rparr>"

theorem firm_quote_recorded_witness:
  "\<exists>r s' t. createQuote demo_env38 demo_tables38 ''USDC'' ''100'' ''XLM'' None demo_transfer38 = (Inr r, s')
     \<and> tf_quotes s' = [(''q1'', \<lparr>qr_sellAsset = ''USDC'', qr_sellAmount = ''100'', qr_buyAsset = ''XLM'', qr_buyAmount = ''833.3333333'',
         qr_price = ''8.3333333'', qr_status = QPending, qr_expiresAt = Some t\<rparr>)]"
proof -
  have q: "getPriceQuote demo_env38 ''USDC'' ''100'' ''XLM'' None False demo_state38 = (Inr (demo_quote\<lparr>pq_cached := Some True\<rparr>), demo_state38)"
    by (rule l1_quote_answered [of _ _ _ _ _ demo_entry38 SUPPORTED_ASSETS])
      (simp_all add: demo_codes demo_key38 demo_supported demo_fresh38 quote_view_def, simp_all add: demo_env38_def demo_state38_def demo_fresh38,
       simp_all add: demo_entry38_def)
  define row where "row = \<lparr>qr_sellAsset = ''USDC'', qr_sellAmount = ''100'', qr_buyAsset = ''XLM'', qr_buyAmount = ''833.3333333'',
    qr_price = ''8.3333333'', qr_status = QPending, qr_expiresAt = Some 305000\<rparr>"
  have 1: "in_sep38 (getPriceQuote demo_env38 ''USDC'' ''100'' ''XLM'' None False) demo_transfer38
      = (Inr (demo_quote\<lparr>pq_cached := Some True\<rparr>), demo_transfer38)"
    by (simp add: in_sep38_def in_fees_def fworld_def demo_transfer38_def q)
  have 2: "in_sep38 (cclock (q8_cache demo_env38)) demo_transfer38 = (Inr 5000, demo_transfer38)"
    by (simp add: in_sep38_def in_fees_def fworld_def demo_transfer38_def cclock_def eget_def demo_env38_def)
  have 3: "insert_quote demo_tables38 row demo_transfer38 = (Inr ''q1'', demo_transfer38\<lparr>tf_quotes := [(''q1'', row)]\<rparr>)" for row
    by (simp add: insert_quote_def tdb_def fdb_def tuuid_def in_fees_def fworld_def eff_defs demo_tables38_def demo_transfer38_def)
  have r: "createQuote demo_env38 demo_tables38 ''USDC'' ''100'' ''XLM'' None demo_transfer38
      = (Inr (with_id ''q1'' 305 (demo_quote\<lparr>pq_cached := Some True\<rparr>)), demo_transfer38\<lparr>tf_quotes := [(''q1'', row)]\<rparr>)"
    unfolding createQuote_def ebind_def [of "in_sep38 _"]
    by (simp add: 1 2 3 ebind_def ereturn_def Let_def row_def demo_codes)
      (simp add: demo_env38_def defaultSep38QuotesCacheConfig_def demo_quote_def)
  have "pq_id (with_id ''q1'' 305 (demo_quote\<lparr>pq_cached := Some True\<rparr>)) = ''q1''"
    by (simp add: with_id_def price_quote.defs)
  then show ?thesis using firm_quote_recorded [OF r] r by (auto simp: row_def)
qed

section \<open>The fee\<close>

text \<open>The rate of the volume fee falls as the amount grows, and is never outside its four steps.\<close>

lemma tier_decimals: "parse_decimal ''0.003'' = Some (3 / 1000)" "parse_decimal ''0.002'' = Some (2 / 1000)"
    "parse_decimal ''0.001'' = Some (1 / 1000)" "parse_decimal ''0.0005'' = Some (5 / 10000)"
  by code_simp+

lemma tier_rates: "parseFloat ''0.003'' = round64 (3 / 1000)" "parseFloat ''0.002'' = round64 (2 / 1000)"
    "parseFloat ''0.001'' = round64 (1 / 1000)" "parseFloat ''0.0005'' = round64 (5 / 10000)"
  by (simp_all add: parseFloat_def tier_decimals is_js_space_def split_sign_def)

definition volume_rate :: "jsnum \<Rightarrow> jsnum" where
  "volume_rate x = (case volume_tier_of x DEFAULT_VOLUME_TIERS of Some t \<Rightarrow> vt_feePercent t | None \<Rightarrow> NaN)"

lemma volume_rate_steps:
  "volume_rate x = (if js_le x (Fin 1000) then parseFloat ''0.003'' else if js_le x (Fin 10000) then parseFloat ''0.002''
     else if js_le x (Fin 100000) then parseFloat ''0.001'' else parseFloat ''0.0005'')"
  by (simp add: volume_rate_def volume_tier_of_def DEFAULT_VOLUME_TIERS_def)

text \<open>The rate of the volume fee of a quote never rises with the amount and stays between 0.05 and 0.3 percent whatever
  the amount is. As the whole amount is charged the rate of its tier, the fee itself drops at each limit.
\<close>
theorem volume_rate_bounds:
  assumes "js_le x y"
  shows "js_le (volume_rate y) (volume_rate x) \<and> js_le (parseFloat ''0.0005'') (volume_rate y) \<and> js_le (volume_rate x) (parseFloat ''0.003'')"
proof -
  have down: "js_le y c \<Longrightarrow> js_le x c" for c using assms js_le_trans by blast
  have "js_le (round64 p) (round64 q)" if "p \<le> q" for p q using that by (rule round64_mono)
  then show ?thesis using down by (auto simp: volume_rate_steps tier_rates)
qed

theorem volume_rate_bounds_witness: "js_le (volume_rate (Fin 1001)) (volume_rate (Fin 1000))"
  using volume_rate_bounds [of "Fin 1000" "Fin 1001"] by simp

end
