(* ===== verification/Fx_Analytics.thy ===== *)
theory Fx_Analytics
  imports Sep38_Props
begin

text \<open>
  \<open>backend/src/services/fx_analytics.service.ts\<close> and the route \<open>/sep38/prices/history\<close>: snapshots of rates, kept in memory, at most
  \<open>MAX_IN_MEMORY\<close> of a pair, and in a table. The table is a parameter whose calls may fail; the schema of the repository does not
  declare it, and then they always do.
\<close>

section \<open>Snapshots\<close>

record rate_snapshot =
  rs_sourceAsset :: string
  rs_destinationAsset :: string
  rs_rate :: jsnum
  rs_bid :: "jsnum option"
  rs_ask :: "jsnum option"
  rs_spread :: "jsnum option"
  rs_recordedAt :: "int option"

record fx_row =
  fx_rate :: jsnum
  fx_spread :: "jsnum option"
  fx_recordedAt :: int

record 'w fx_env =
  fx_create :: "rate_snapshot \<Rightarrow> 'w \<Rightarrow> (js_error + unit) \<times> 'w"
  fx_findMany :: "string \<Rightarrow> string \<Rightarrow> int \<Rightarrow> 'w \<Rightarrow> (js_error + fx_row list) \<times> 'w"
  fx_now :: "'w \<Rightarrow> int"

record 'w fx_state =
  fx_store :: "(string, rate_snapshot list) jsmap"
  fx_world :: 'w

type_synonym ('w, 'a) fx = "('w fx_state, js_error, 'a) eff"

definition fx_call :: "('w \<Rightarrow> (js_error + 'a) \<times> 'w) \<Rightarrow> ('w, 'a) fx" where
  "fx_call f s = (case f (fx_world s) of (r, w) \<Rightarrow> (r, s\<lparr>fx_world := w\<rparr>))"

definition fx_clock :: "'w fx_env \<Rightarrow> ('w, int) fx" where
  "fx_clock env = eget (\<lambda>s. fx_now env (fx_world s))"

section \<open>The store in memory\<close>

definition MAX_IN_MEMORY :: nat where "MAX_IN_MEMORY = 500"

definition pairKey :: "string \<Rightarrow> string \<Rightarrow> string" where
  "pairKey src dst = upper_text src @ '':'' @ upper_text dst"

definition push_bounded :: "'a \<Rightarrow> 'a list \<Rightarrow> 'a list" where
  "push_bounded x xs = (let ys = xs @ [x] in if length ys > MAX_IN_MEMORY then tl ys else ys)"

definition storeInMemory :: "int \<Rightarrow> rate_snapshot \<Rightarrow> (string, rate_snapshot list) jsmap \<Rightarrow> (string, rate_snapshot list) jsmap" where
  "storeInMemory now x m =
     (let key = pairKey (rs_sourceAsset x) (rs_destinationAsset x);
          old = (case js_get m key of Some l \<Rightarrow> l | None \<Rightarrow> []);
          x' = x\<lparr>rs_recordedAt := Some (case rs_recordedAt x of Some t \<Rightarrow> t | None \<Rightarrow> now)\<rparr>
      in js_set key (push_bounded x' old) m)"

fun math_abs :: "jsnum \<Rightarrow> jsnum" where
  "math_abs (Fin r) = Fin \<bar>r\<bar>"
| "math_abs NegInf = PosInf"
| "math_abs x = x"

definition spread_of :: "rate_snapshot \<Rightarrow> jsnum option" where
  "spread_of x = (case rs_spread x of Some d \<Rightarrow> Some d
     | None \<Rightarrow> (case (rs_bid x, rs_ask x) of (Some b, Some a) \<Rightarrow> Some (math_abs (js_sub a b)) | _ \<Rightarrow> None))"

definition enriched :: "int \<Rightarrow> rate_snapshot \<Rightarrow> rate_snapshot" where
  "enriched now x = x\<lparr>rs_spread := spread_of x,
     rs_recordedAt := Some (case rs_recordedAt x of Some t \<Rightarrow> t | None \<Rightarrow> now)\<rparr>"

definition db_row :: "rate_snapshot \<Rightarrow> rate_snapshot" where
  "db_row x = x\<lparr>rs_sourceAsset := upper_text (rs_sourceAsset x), rs_destinationAsset := upper_text (rs_destinationAsset x)\<rparr>"

definition recordSnapshot :: "'w fx_env \<Rightarrow> rate_snapshot \<Rightarrow> ('w, unit) fx" where
  "recordSnapshot env x = ebind (fx_clock env) (\<lambda>now.
     let e = enriched now x in
     ebind (emodify (\<lambda>s. s\<lparr>fx_store := storeInMemory now e (fx_store s)\<rparr>)) (\<lambda>_.
     ecatch (fx_call (fx_create env (db_row e))) (\<lambda>_. ereturn ())))"

section \<open>The history of a pair\<close>

record rate_history =
  rh_sourceAsset :: string
  rh_destinationAsset :: string
  rh_points :: "(int \<times> jsnum \<times> jsnum option) list"
  rh_high :: jsnum
  rh_low :: jsnum
  rh_average :: jsnum
  rh_averageSpread :: jsnum
  rh_changePercent :: jsnum

definition buildResult :: "string \<Rightarrow> string \<Rightarrow> fx_row list \<Rightarrow> rate_history" where
  "buildResult src dst rows =
     (if rows = [] then \<lparr>rh_sourceAsset = src, rh_destinationAsset = dst, rh_points = [], rh_high = Fin 0, rh_low = Fin 0,
        rh_average = Fin 0, rh_averageSpread = Fin 0, rh_changePercent = Fin 0\<rparr>
      else let rates = List.map fx_rate rows;
               spreads = List.map (\<lambda>r. case fx_spread r of Some d \<Rightarrow> d | None \<Rightarrow> Fin 0) rows;
               change = (if length rates > 1
                 then js_mul (js_div (js_sub (rates ! (length rates - 1)) (rates ! 0)) (rates ! 0)) (Fin 100) else Fin 0)
           in \<lparr>rh_sourceAsset = src, rh_destinationAsset = dst,
               rh_points = List.map (\<lambda>r. (fx_recordedAt r, fx_rate r, fx_spread r)) rows,
               rh_high = fixed_number 7 (foldl math_max NegInf rates), rh_low = fixed_number 7 (foldl math_min PosInf rates),
               rh_average = fixed_number 7 (mean_of rates), rh_averageSpread = fixed_number 7 (mean_of spreads),
               rh_changePercent = fixed_number 4 change\<rparr>)"

definition memory_rows :: "int \<Rightarrow> int \<Rightarrow> rate_snapshot list \<Rightarrow> fx_row list" where
  "memory_rows now since xs =
     (let moment = (\<lambda>x. case rs_recordedAt x of Some t \<Rightarrow> t | None \<Rightarrow> now) in
      List.map (\<lambda>x. \<lparr>fx_rate = rs_rate x, fx_spread = rs_spread x, fx_recordedAt = moment x\<rparr>) (filter (\<lambda>x. since \<le> moment x) xs))"

definition getHistory :: "'w fx_env \<Rightarrow> string \<Rightarrow> string \<Rightarrow> int \<Rightarrow> ('w, rate_history) fx" where
  "getHistory env sourceAsset destinationAsset hoursBack =
     (let src = upper_text sourceAsset; dst = upper_text destinationAsset in
      ebind (fx_clock env) (\<lambda>now.
      let since = now - hoursBack * 60 * 60 * 1000 in
      ebind (ecatch (fx_call (fx_findMany env src dst since)) (\<lambda>_. ereturn [])) (\<lambda>rows.
      ebind (fx_clock env) (\<lambda>later.
      ebind (eget fx_store) (\<lambda>m.
      let rows = (if rows = []
        then memory_rows later since (case js_get m (pairKey src dst) of Some l \<Rightarrow> l | None \<Rightarrow> []) else rows)
      in ereturn (buildResult src dst rows))))))"

definition clearMemoryStore :: "'w fx_state \<Rightarrow> 'w fx_state" where
  "clearMemoryStore s = s\<lparr>fx_store := []\<rparr>"

text \<open>\<open>Math.min(168, Math.max(1, parseInt(hours || '24', 10) || 24))\<close>.\<close>

definition hours_back :: "string option \<Rightarrow> int" where
  "hours_back hours = (case parseInt10 (case truthy_str hours of Some h \<Rightarrow> h | None \<Rightarrow> ''24'') of
     Fin r \<Rightarrow> if r = 0 then 24 else min 168 (max 1 \<lfloor>r\<rfloor>)
   | PosInf \<Rightarrow> 168 | NegInf \<Rightarrow> 1 | NaN \<Rightarrow> 24)"

definition get_prices_history :: "'w fx_env \<Rightarrow> string option \<Rightarrow> string option \<Rightarrow> string option \<Rightarrow> ('w, rate_history route_answer) fx" where
  "get_prices_history env source_asset destination_asset hours = (case (truthy_str source_asset, truthy_str destination_asset) of
     (Some source, Some dest) \<Rightarrow> answered (getHistory env source dest (hours_back hours))
   | _ \<Rightarrow> ereturn MissingParams)"

section \<open>What the memory keeps\<close>

lemma push_bounded_last:
  "length xs \<le> MAX_IN_MEMORY \<Longrightarrow> push_bounded x xs = slice_last MAX_IN_MEMORY (xs @ [x])"
  by (cases "length xs = MAX_IN_MEMORY") (auto simp: push_bounded_def slice_last_def Let_def drop_Suc simp del: drop_append)

lemma slice_last_snoc: "slice_last n (slice_last n xs @ ys) = slice_last n (xs @ ys)"
proof (cases "length xs \<le> n")
  case False
  then have "drop (length xs - n) xs @ ys = drop (length xs - n) (xs @ ys)" by simp
  then show ?thesis using False by (simp add: slice_last_def add.commute)
qed (simp add: slice_last_def)

lemma slice_last_map: "slice_last n (List.map f xs) = List.map f (slice_last n xs)"
  by (simp add: slice_last_def drop_map)

definition stored_for :: "string \<Rightarrow> (string, rate_snapshot list) jsmap \<Rightarrow> rate_snapshot list" where
  "stored_for key m = (case js_get m key of Some l \<Rightarrow> l | None \<Rightarrow> [])"

text \<open>The snapshots that go under a key when a list is recorded, each stamped with the clock at its turn if it has no time of its own.\<close>

fun under_key :: "'w fx_env \<Rightarrow> string \<Rightarrow> rate_snapshot list \<Rightarrow> 'w fx_state \<Rightarrow> rate_snapshot list" where
  "under_key env key [] s = []"
| "under_key env key (x # xs) s =
     (if pairKey (rs_sourceAsset x) (rs_destinationAsset x) = key then [enriched (fx_now env (fx_world s)) x] else [])
     @ under_key env key xs (snd (recordSnapshot env x s))"

lemma stored_for_record:
  assumes "length (stored_for key m) \<le> MAX_IN_MEMORY"
  shows "stored_for key (storeInMemory now (enriched now x) m)
    = slice_last MAX_IN_MEMORY (stored_for key m @ (if pairKey (rs_sourceAsset x) (rs_destinationAsset x) = key then [enriched now x] else []))"
proof -
  have "(enriched now x)\<lparr>rs_recordedAt := Some (case rs_recordedAt (enriched now x) of Some t \<Rightarrow> t | None \<Rightarrow> now)\<rparr> = enriched now x"
    by (simp add: enriched_def)
  then show ?thesis using assms
    by (auto simp: storeInMemory_def stored_for_def push_bounded_last slice_last_def Let_def enriched_def split: option.splits)
qed

lemma recordSnapshot_store:
  assumes "recordSnapshot env x s = (r, s')"
  shows "r = Inr () \<and> fx_store s' = (let now = fx_now env (fx_world s) in storeInMemory now (enriched now x) (fx_store s))"
  using assms by (auto simp: recordSnapshot_def fx_clock_def fx_call_def eff_defs Let_def split: prod.splits sum.splits)

lemma record_all_store:
  assumes "length (stored_for key (fx_store s)) \<le> MAX_IN_MEMORY"
  shows "\<exists>us s'. eff_list (recordSnapshot env) xs s = (Inr us, s')
    \<and> stored_for key (fx_store s') = slice_last MAX_IN_MEMORY (stored_for key (fx_store s) @ under_key env key xs s)"
  using assms
proof (induction xs arbitrary: s)
  case Nil
  then show ?case by (simp add: eff_defs slice_last_def)
next
  case (Cons x xs)
  obtain t where t: "recordSnapshot env x s = (Inr (), t)"
      "fx_store t = (let now = fx_now env (fx_world s) in storeInMemory now (enriched now x) (fx_store s))"
    using recordSnapshot_store [of env x s "fst (recordSnapshot env x s)" "snd (recordSnapshot env x s)"] by (metis prod.collapse)
  have st: "stored_for key (fx_store t) = slice_last MAX_IN_MEMORY (stored_for key (fx_store s)
      @ (if pairKey (rs_sourceAsset x) (rs_destinationAsset x) = key then [enriched (fx_now env (fx_world s)) x] else []))"
    using Cons.prems stored_for_record [of key "fx_store s"] by (simp add: t(2) Let_def)
  then have "length (stored_for key (fx_store t)) \<le> MAX_IN_MEMORY" by (simp add: slice_last_length)
  then obtain us s' where "eff_list (recordSnapshot env) xs t = (Inr us, s')"
      "stored_for key (fx_store s') = slice_last MAX_IN_MEMORY (stored_for key (fx_store t) @ under_key env key xs t)"
    using Cons.IH by blast
  then show ?case using t(1) st by (simp add: eff_defs slice_last_snoc)
qed

text \<open>
  The points a history should have for a pair: those of the snapshots whose assets are the two, regardless of case, each with its rate, its spread or
  the distance of bid and ask, and its time or the clock at the moment it was recorded.
\<close>

fun points_of_pair :: "'w fx_env \<Rightarrow> string \<Rightarrow> string \<Rightarrow> rate_snapshot list \<Rightarrow> 'w fx_state \<Rightarrow> fx_row list" where
  "points_of_pair env a b [] s = []"
| "points_of_pair env a b (x # xs) s =
     (if upper_text (rs_sourceAsset x) = upper_text a \<and> upper_text (rs_destinationAsset x) = upper_text b
      then [\<lparr>fx_rate = rs_rate x,
             fx_spread = (if rs_spread x \<noteq> None then rs_spread x
               else if rs_bid x \<noteq> None \<and> rs_ask x \<noteq> None then Some (math_abs (js_sub (the (rs_ask x)) (the (rs_bid x)))) else None),
             fx_recordedAt = (case rs_recordedAt x of Some t \<Rightarrow> t | None \<Rightarrow> fx_now env (fx_world s))\<rparr>]
      else [])
     @ points_of_pair env a b xs (snd (recordSnapshot env x s))"

lemma set_map_fixed: "(\<And>c. f c = x \<longleftrightarrow> c = x) \<Longrightarrow> x \<in> set (List.map f a) \<longleftrightarrow> x \<in> set a"
  by (induction a) (simp_all, metis)

lemma upper_colon: "CHR '':'' \<in> set (upper_text a) \<longleftrightarrow> CHR '':'' \<in> set a"
proof -
  have "(if (97 :: nat) \<le> of_char c \<and> of_char c \<le> (122 :: nat) then char_of (of_char c - 32 :: nat) else c) = CHR '':'' \<longleftrightarrow> c = CHR '':''" for c
  proof (cases "(97 :: nat) \<le> of_char c \<and> of_char c \<le> (122 :: nat)")
    case True
    then have "(of_char c - 32 :: nat) < 256" by linarith
    then have "of_char (char_of (of_char c - 32 :: nat)) = (of_char c - 32 :: nat)" by (simp add: mod_less)
    have "n - 32 \<noteq> 58" "n \<noteq> 58" if "97 \<le> n" for n :: nat using that by arith+
    then have ne: "(of_char c - 32 :: nat) \<noteq> 58" "of_char c \<noteq> (58 :: nat)" using True by blast+
    have code: "of_char (CHR '':'') = (58 :: nat)" by simp
    have "char_of (of_char c - 32 :: nat) \<noteq> CHR '':''"
    proof
      assume "char_of (of_char c - 32 :: nat) = CHR '':''"
      with \<open>of_char (char_of (of_char c - 32 :: nat)) = (of_char c - 32 :: nat)\<close> code ne(1) show False by (simp only:)
    qed
    moreover have "c \<noteq> CHR '':''" using ne(2) code by (metis)
    ultimately have "char_of (of_char c - 32 :: nat) \<noteq> CHR '':''" "c \<noteq> CHR '':''" by blast+
    then show ?thesis by simp
  qed auto
  then show ?thesis unfolding upper_text_def by (rule set_map_fixed)
qed

lemma pairKey_same:
  assumes "CHR '':'' \<notin> set a" "CHR '':'' \<notin> set a'"
  shows "pairKey a b = pairKey a' b' \<longleftrightarrow> upper_text a = upper_text a' \<and> upper_text b = upper_text b'"
  using assms by (simp add: pairKey_def append_colon_eq upper_colon)

lemma pairKey_upper: "pairKey (upper_text a) (upper_text b) = pairKey a b"
  by (simp add: pairKey_def)

lemma under_key_points:
  assumes "CHR '':'' \<notin> set a" "\<forall>x \<in> set xs. CHR '':'' \<notin> set (rs_sourceAsset x)"
  shows "List.map (\<lambda>x. \<lparr>fx_rate = rs_rate x, fx_spread = rs_spread x, fx_recordedAt = (case rs_recordedAt x of Some t \<Rightarrow> t | None \<Rightarrow> now)\<rparr>)
      (under_key env (pairKey a b) xs s) = points_of_pair env a b xs s"
  using assms(2) by (induction xs arbitrary: s) (auto simp: pairKey_same assms(1) enriched_def spread_of_def split: option.split)

text \<open>C39. While the table of rates cannot be read, as with the schema of this repository, the history of a pair is exactly what was recorded of it, in
  memory: the points of the snapshots whose two assets are those asked for, regardless of case, in the order of recording, the last 500
  of them, those within the hours asked for. A snapshot without a time counts with the clock at the moment it is recorded. Snapshots of other pairs leave
  no trace, and it does not matter whether the table takes the writes. (Asset codes are joined by a colon for the key, so this is for source assets without one.)
\<close>
theorem fx_history_is_last_snapshots:
  assumes "fx_store s = []" "CHR '':'' \<notin> set src" "\<forall>x \<in> set xs. CHR '':'' \<notin> set (rs_sourceAsset x)"
    and no_table: "\<And>a b t w. \<exists>e w'. fx_findMany env a b t w = (Inl e, w')"
  shows "\<exists>us s1 r. eff_list (recordSnapshot env) xs s = (Inr us, s1) \<and> fst (getHistory env src dst h s1) = Inr r
    \<and> (let since = fx_now env (fx_world s1) - h * 60 * 60 * 1000;
          rows = filter (\<lambda>p. since \<le> fx_recordedAt p) (slice_last MAX_IN_MEMORY (points_of_pair env src dst xs s))
       in r = buildResult (upper_text src) (upper_text dst) rows
          \<and> rh_points r = List.map (\<lambda>p. (fx_recordedAt p, fx_rate p, fx_spread p)) rows)"
proof -
  let ?key = "pairKey (upper_text src) (upper_text dst)"
  have "stored_for ?key (fx_store s) = []" using assms(1) by (simp add: stored_for_def)
  then obtain us s1 where s1: "eff_list (recordSnapshot env) xs s = (Inr us, s1)"
      "stored_for ?key (fx_store s1) = slice_last MAX_IN_MEMORY (under_key env (pairKey src dst) xs s)"
    using record_all_store [of ?key s env xs] by (auto simp: pairKey_upper)
  let ?since = "fx_now env (fx_world s1) - h * 60 * 60 * 1000"
  let ?rows = "filter (\<lambda>p. ?since \<le> fx_recordedAt p) (slice_last MAX_IN_MEMORY (points_of_pair env src dst xs s))"
  have rows: "memory_rows now t (slice_last MAX_IN_MEMORY (under_key env (pairKey src dst) xs s))
      = filter (\<lambda>p. t \<le> fx_recordedAt p) (slice_last MAX_IN_MEMORY (points_of_pair env src dst xs s))" for now t
    unfolding under_key_points [OF assms(2,3), of now, symmetric] slice_last_map memory_rows_def Let_def filter_map comp_def by simp
  obtain e w' where "fx_findMany env (upper_text src) (upper_text dst) ?since (fx_world s1) = (Inl e, w')" using no_table by blast
  then have "fst (getHistory env src dst h s1) = Inr (buildResult (upper_text src) (upper_text dst) ?rows)"
    using s1(2) by (simp add: getHistory_def fx_clock_def fx_call_def eff_defs stored_for_def Let_def rows)
  moreover have "rh_points (buildResult a b ps) = List.map (\<lambda>p. (fx_recordedAt p, fx_rate p, fx_spread p)) ps" for a b ps
    by (simp add: buildResult_def Let_def)
  ultimately show ?thesis using s1(1) unfolding Let_def by blast
qed

text \<open>With a colon in a code two pairs share their snapshots.\<close>
lemma pair_keys_collide: "pairKey (a @ '':'' @ b) c = pairKey a (b @ '':'' @ c)"
  by (simp add: pairKey_def upper_text_def)

text \<open>The clock moves on with every write that is tried.\<close>

definition demo_fx_env :: "int fx_env" where
  "demo_fx_env = \<lparr>fx_create = (\<lambda>_ w. (Inl (PlainError ''no table''), w + 1)), fx_findMany = (\<lambda>_ _ _ w. (Inl (PlainError ''no table''), w)),
     fx_now = (\<lambda>w. w)\<rparr>"

definition demo_snapshot :: "string \<Rightarrow> int option \<Rightarrow> rate_snapshot" where
  "demo_snapshot dst t = \<lparr>rs_sourceAsset = ''usdc'', rs_destinationAsset = dst, rs_rate = Fin 8, rs_bid = None,
     rs_ask = None, rs_spread = Some (Fin 2), rs_recordedAt = t\<rparr>"

theorem fx_history_is_last_snapshots_witness:
  "\<exists>us s1 r. eff_list (recordSnapshot demo_fx_env) [demo_snapshot ''XLM'' None, demo_snapshot ''BTC'' None, demo_snapshot ''XLM'' (Some 7)]
       \<lparr>fx_store = [], fx_world = 10\<rparr> = (Inr us, s1)
     \<and> fst (getHistory demo_fx_env ''USDC'' ''xlm'' 1 s1) = Inr r \<and> rh_points r = [(10, Fin 8, Some (Fin 2)), (7, Fin 8, Some (Fin 2))]"
proof -
  let ?xs = "[demo_snapshot ''XLM'' None, demo_snapshot ''BTC'' None, demo_snapshot ''XLM'' (Some 7)]" and ?s = "\<lparr>fx_store = [], fx_world = 10\<rparr>"
  have empty: "fx_store ?s = []" by simp
  have a: "CHR '':'' \<notin> set ''USDC''" "\<forall>x \<in> set ?xs. CHR '':'' \<notin> set (rs_sourceAsset x)" by (simp_all add: demo_snapshot_def)
  have b: "\<exists>e w'. fx_findMany demo_fx_env a b t w = (Inl e, w')" for a b t w by (simp add: demo_fx_env_def)
  have same: "upper_text ''usdc'' = upper_text ''USDC''" "upper_text ''XLM'' = upper_text ''xlm''" "upper_text ''BTC'' \<noteq> upper_text ''xlm''" by code_simp+
  have tick: "fx_world (snd (recordSnapshot demo_fx_env x s)) = fx_world s + 1" for x s
    by (simp add: recordSnapshot_def fx_clock_def fx_call_def eff_defs Let_def demo_fx_env_def)
  have points: "points_of_pair demo_fx_env ''USDC'' ''xlm'' ?xs ?s
      = [\<lparr>fx_rate = Fin 8, fx_spread = Some (Fin 2), fx_recordedAt = 10\<rparr>, \<lparr>fx_rate = Fin 8, fx_spread = Some (Fin 2), fx_recordedAt = 7\<rparr>]"
    by (simp add: tick same demo_snapshot_def) (simp add: demo_fx_env_def)
  have world: "fx_world (snd (eff_list (recordSnapshot demo_fx_env) ?xs ?s)) = 13"
  proof -
    have step: "\<exists>t. recordSnapshot demo_fx_env x s = (Inr (), t) \<and> fx_world t = fx_world s + 1" for x s
      by (simp add: recordSnapshot_def fx_clock_def fx_call_def eff_defs Let_def demo_fx_env_def)
    obtain t1 where t1: "recordSnapshot demo_fx_env (demo_snapshot ''XLM'' None) ?s = (Inr (), t1)" "fx_world t1 = 11" using step [of "demo_snapshot ''XLM'' None" ?s] by auto
    obtain t2 where t2: "recordSnapshot demo_fx_env (demo_snapshot ''BTC'' None) t1 = (Inr (), t2)" "fx_world t2 = 12" using step [of "demo_snapshot ''BTC'' None" t1] t1(2) by auto
    obtain t3 where "recordSnapshot demo_fx_env (demo_snapshot ''XLM'' (Some 7)) t2 = (Inr (), t3)" "fx_world t3 = 13" using step [of "demo_snapshot ''XLM'' (Some 7)" t2] t2(2) by auto
    then show ?thesis using t1(1) t2(1) by (simp add: eff_defs)
  qed
  note history = fx_history_is_last_snapshots [OF empty a b, of "''xlm''" 1]
  then obtain us s1 r where r: "eff_list (recordSnapshot demo_fx_env) ?xs ?s = (Inr us, s1)" "fst (getHistory demo_fx_env ''USDC'' ''xlm'' 1 s1) = Inr r"
      "let since = fx_now demo_fx_env (fx_world s1) - 1 * 60 * 60 * 1000;
          rows = filter (\<lambda>p. since \<le> fx_recordedAt p) (slice_last MAX_IN_MEMORY (points_of_pair demo_fx_env ''USDC'' ''xlm'' ?xs ?s))
       in r = buildResult (upper_text ''USDC'') (upper_text ''xlm'') rows
          \<and> rh_points r = List.map (\<lambda>p. (fx_recordedAt p, fx_rate p, fx_spread p)) rows"
    by (elim exE conjE) (rule that)
  have "fx_now demo_fx_env (fx_world s1) = 13" using world r(1) by (simp add: demo_fx_env_def)
  then have "rh_points r = [(10, Fin 8, Some (Fin 2)), (7, Fin 8, Some (Fin 2))]" using r(3) unfolding points by (simp add: slice_last_def MAX_IN_MEMORY_def Let_def buildResult_def)
  then show ?thesis using r(1,2) by blast
qed

end
