(* ===== verification/Rate_Limits.thy ===== *)
theory Rate_Limits
  imports Effects JsNumber Js_Text Batch_Types
begin

text \<open>
  Limits on the rate of requests and the keys of partners: \<open>backend/src/services/tier-config.service.ts\<close>, \<open>services/api-key.service.ts\<close> (whose
  stray brace after \<open>isValidApiKeyFormat\<close> is left out), \<open>api/controllers/api-keys.controller.ts\<close>, \<open>api/middleware/dynamic-rate-limit.middleware.ts\<close>,
  \<open>api/middleware/api-key.middleware.ts\<close>, \<open>apiKeyAuthMiddleware\<close> of \<open>auth.middleware.ts\<close>, and what \<open>rate-limit.middleware.ts\<close> configures. The table
  of the keys is the state; Redis, the clock, the random bytes and the library express-rate-limit are parameters. A call of the database
  client names the members of the row that it reads or writes, and a member that the model of \<open>schema.prisma\<close> does not have is refused.
\<close>

section \<open>Tiers\<close>

record tier_limits =
  tl_burst :: jsnum
  tl_sustained :: jsnum

text \<open>The limits of each tier, and the variables that replace them.\<close>

definition DEFAULT_TIERS :: "(string \<times> int \<times> int) list" where
  "DEFAULT_TIERS = [(''Free'', 5, 60), (''Pro'', 20, 600), (''Enterprise'', 100, 3000)]"

definition TIER_ENV_KEYS :: "(string \<times> string \<times> string) list" where
  "TIER_ENV_KEYS = [(''Free'', ''TIER_FREE_BURST'', ''TIER_FREE_SUSTAINED''), (''Pro'', ''TIER_PRO_BURST'', ''TIER_PRO_SUSTAINED''),
     (''Enterprise'', ''TIER_ENTERPRISE_BURST'', ''TIER_ENTERPRISE_SUSTAINED'')]"

definition limit_of :: "(string \<Rightarrow> string option) \<Rightarrow> string \<Rightarrow> int \<Rightarrow> jsnum" where
  "limit_of env name n = (case env name of Some t \<Rightarrow> parseInt10 t | None \<Rightarrow> js_int n)"

definition getLimits :: "(string \<Rightarrow> string option) \<Rightarrow> string \<Rightarrow> js_error + tier_limits" where
  "getLimits env tier = (case (map_of DEFAULT_TIERS tier, map_of TIER_ENV_KEYS tier) of
     (Some (burst, sustained), Some (burstKey, sustainedKey)) \<Rightarrow>
       Inr \<lparr>tl_burst = limit_of env burstKey burst, tl_sustained = limit_of env sustainedKey sustained\<rparr>
   | _ \<Rightarrow> Inl (PlainError (''Unknown tier: \"'' @ tier @ ''\". Valid tiers are: Free, Pro, Enterprise.'')))"

section \<open>The table of keys\<close>

record api_key =
  ak_key :: string
  ak_owner :: string
  ak_tier :: string
  ak_isActive :: bool
  ak_createdAt :: int
  ak_usageCount :: int

record 'w keys_state =
  ks_rows :: "(string, api_key) jsmap"
  ks_world :: 'w

type_synonym ('w, 'a) keys = "('w keys_state, js_error, 'a) eff"

text \<open>The counters and the cache in Redis.\<close>

record 'w key_redis =
  kr_incr :: "string \<Rightarrow> ('w, js_error, int) eff"
  kr_expire :: "string \<Rightarrow> int \<Rightarrow> ('w, js_error, unit) eff"
  kr_pttl :: "string \<Rightarrow> ('w, js_error, int) eff"
  kr_get :: "string \<Rightarrow> ('w, js_error, string option) eff"
  kr_setex :: "string \<Rightarrow> int \<Rightarrow> string \<Rightarrow> ('w, js_error, unit) eff"

record 'w keys_env =
  ke_db :: "('w, js_error, unit) eff"
  ke_model :: "string list"
  ke_users :: "string \<Rightarrow> ('w, js_error, string option) eff"
  ke_random24 :: "('w, js_error, string) eff"
  ke_uuid :: "('w, js_error, string) eff"
  ke_now :: "'w \<Rightarrow> int"
  ke_vars :: "string \<Rightarrow> string option"
  ke_redis :: "'w key_redis"

definition kw :: "('w, js_error, 'a) eff \<Rightarrow> ('w, 'a) keys" where
  "kw m s = (case m (ks_world s) of (r, w) \<Rightarrow> (r, s\<lparr>ks_world := w\<rparr>))"

text \<open>The members of \<open>model ApiKey\<close>.\<close>

definition apiKey_model :: "string list" where
  "apiKey_model = [''id'', ''key'', ''userId'', ''user'', ''tier'', ''isActive'', ''createdAt'']"

definition unknown_member :: js_error where
  "unknown_member = OtherErr ''PrismaClientValidationError'' ''Unknown argument'' None None None None None None"

definition key_taken :: js_error where
  "key_taken = OtherErr ''PrismaClientKnownRequestError'' ''Unique constraint failed on the fields: (`key`)'' (Some ''P2002'') None None None None None"

definition prisma_call :: "'w keys_env \<Rightarrow> string list \<Rightarrow> ('w, unit) keys" where
  "prisma_call env names = (if set names \<subseteq> set (ke_model env) then kw (ke_db env) else ethrow unknown_member)"

definition row_of_key :: "string \<Rightarrow> (string, api_key) jsmap \<Rightarrow> (string \<times> api_key) option" where
  "row_of_key k m = find (\<lambda>(i, r). ak_key r = k) m"

section \<open>The service of the keys\<close>

record api_key_record =
  kd_id :: string
  kd_key :: "string option"
  kd_ownerId :: string
  kd_tier :: string
  kd_isActive :: bool
  kd_createdAt :: int
  kd_expiresAt :: "int option"

definition record_of :: "string \<Rightarrow> api_key \<Rightarrow> api_key_record" where
  "record_of i r = \<lparr>kd_id = i, kd_key = Some (ak_key r), kd_ownerId = ak_owner r, kd_tier = ak_tier r, kd_isActive = ak_isActive r,
     kd_createdAt = ak_createdAt r, kd_expiresAt = None\<rparr>"

text \<open>\<open>/^[0-9a-f]{48}$/\<close>.\<close>

definition isValidApiKeyFormat :: "string \<Rightarrow> bool" where
  "isValidApiKeyFormat k \<longleftrightarrow> length k = 48 \<and> list_all (\<lambda>c. is_digit c \<or> c \<in> set ''abcdef'') k"

definition ApiKeyFormatError :: js_error where
  "ApiKeyFormatError = OtherErr ''ApiKeyFormatError'' ''Generated API key has an invalid format'' None None None None None None"

definition day_ms :: int where "day_ms = 24 * 60 * 60 * 1000"

definition createKey :: "'w keys_env \<Rightarrow> string \<Rightarrow> string \<Rightarrow> int option \<Rightarrow> ('w, api_key_record) keys" where
  "createKey env ownerId tier expiresInDays =
     ebind (kw (ke_random24 env)) (\<lambda>bytes.
     let k = hex bytes in
     if \<not> isValidApiKeyFormat k then ethrow ApiKeyFormatError
     else ebind (eget (\<lambda>s. ke_now env (ks_world s))) (\<lambda>now.
          let expiresAt = (case expiresInDays of Some d \<Rightarrow> if d \<noteq> 0 then Some (now + d * day_ms) else None | None \<Rightarrow> None) in
          ebind (prisma_call env [''key'', ''ownerId'', ''tier'']) (\<lambda>_.
          ebind (eget (\<lambda>s. row_of_key k (ks_rows s))) (\<lambda>taken.
          if taken \<noteq> None then ethrow key_taken
          else ebind (kw (ke_uuid env)) (\<lambda>i.
               let row = \<lparr>ak_key = k, ak_owner = ownerId, ak_tier = tier, ak_isActive = True, ak_createdAt = now, ak_usageCount = 0\<rparr> in
               ebind (emodify (\<lambda>s. s\<lparr>ks_rows := js_set i row (ks_rows s)\<rparr>)) (\<lambda>_.
               ereturn ((record_of i row)\<lparr>kd_expiresAt := expiresAt\<rparr>)))))))"

definition findActiveKey :: "'w keys_env \<Rightarrow> string \<Rightarrow> ('w, api_key_record option) keys" where
  "findActiveKey env apiKey = ebind (prisma_call env [''key'']) (\<lambda>_.
     eget (\<lambda>s. case row_of_key apiKey (ks_rows s) of
       Some (i, r) \<Rightarrow> if ak_isActive r then Some (record_of i r) else None | None \<Rightarrow> None))"

definition rotateKey :: "'w keys_env \<Rightarrow> string \<Rightarrow> string \<Rightarrow> int \<Rightarrow> ('w, api_key_record \<times> int) keys" where
  "rotateKey env ownerId oldKeyId overlapDays =
     ebind (prisma_call env [''id'', ''ownerId'', ''isActive'']) (\<lambda>_.
     ebind (eget (\<lambda>s. js_get (ks_rows s) oldKeyId)) (\<lambda>old. case old of
       Some r \<Rightarrow> if ak_owner r = ownerId \<and> ak_isActive r
         then ebind (createKey env ownerId (ak_tier r) None) (\<lambda>newKey.
              ebind (eget (\<lambda>s. ke_now env (ks_world s))) (\<lambda>now. ereturn (newKey, now + overlapDays * day_ms)))
         else ethrow (PlainError ''Active key not found for rotation'')
     | None \<Rightarrow> ethrow (PlainError ''Active key not found for rotation'')))"

definition listApiKeys :: "'w keys_env \<Rightarrow> string \<Rightarrow> ('w, api_key_record list) keys" where
  "listApiKeys env ownerId = ebind (prisma_call env [''ownerId'', ''id'', ''tier'', ''isActive'', ''createdAt'']) (\<lambda>_.
     eget (\<lambda>s. [(record_of i r)\<lparr>kd_key := None\<rparr>. (i, r) \<leftarrow> ks_rows s, ak_owner r = ownerId]))"

definition revokeApiKey :: "'w keys_env \<Rightarrow> string \<Rightarrow> string \<Rightarrow> ('w, bool) keys" where
  "revokeApiKey env i ownerId =
     ebind (prisma_call env [''id'', ''ownerId'']) (\<lambda>_.
     ebind (eget (\<lambda>s. js_get (ks_rows s) i)) (\<lambda>row. case row of
       Some r \<Rightarrow> if ak_owner r = ownerId
         then ebind (prisma_call env [''id'', ''isActive'']) (\<lambda>_.
              ebind (emodify (\<lambda>s. s\<lparr>ks_rows := js_set i (r\<lparr>ak_isActive := False\<rparr>) (ks_rows s)\<rparr>)) (\<lambda>_. ereturn True))
         else ereturn False
     | None \<Rightarrow> ereturn False))"

section \<open>The endpoints of the keys\<close>

datatype keys_answer =
    KeysError int string
  | KeyCreated api_key_record
  | KeysListed "api_key_record list"
  | KeyRotated api_key_record int
  | KeyRevoked

text \<open>The user of the session: an exception here is not caught by the handlers.\<close>

definition for_user :: "'w keys_env \<Rightarrow> string option \<Rightarrow> (string \<Rightarrow> ('w, keys_answer) keys) \<Rightarrow> ('w, keys_answer) keys" where
  "for_user env publicKey f = (case truthy_str publicKey of
     None \<Rightarrow> ereturn (KeysError 401 ''Unauthorized'')
   | Some k \<Rightarrow> ebind (kw (ke_users env k)) (\<lambda>u. case u of
       None \<Rightarrow> ereturn (KeysError 404 ''User not found'')
     | Some userId \<Rightarrow> f userId))"

definition VALID_TIERS :: "string list" where "VALID_TIERS = [''Free'', ''Pro'', ''Enterprise'']"

definition post_key :: "'w keys_env \<Rightarrow> string option \<Rightarrow> json \<Rightarrow> ('w, keys_answer) keys" where
  "post_key env publicKey tier = for_user env publicKey (\<lambda>userId.
     case (case tier of JStr t \<Rightarrow> if t \<in> set VALID_TIERS then Some t else None | _ \<Rightarrow> None) of
       None \<Rightarrow> ereturn (KeysError 400 (''Invalid tier. Must be one of: '' @ join_with '', '' VALID_TIERS))
     | Some t \<Rightarrow> ecatch (ebind (createKey env userId t None) (\<lambda>r. ereturn (KeyCreated r)))
         (\<lambda>e. if e = ApiKeyFormatError then ereturn (KeysError 500 ''Failed to generate a valid API key'') else ethrow e))"

definition get_keys :: "'w keys_env \<Rightarrow> string option \<Rightarrow> ('w, keys_answer) keys" where
  "get_keys env publicKey = for_user env publicKey (\<lambda>userId. ebind (listApiKeys env userId) (\<lambda>rs. ereturn (KeysListed rs)))"

definition delete_key :: "'w keys_env \<Rightarrow> string option \<Rightarrow> string \<Rightarrow> ('w, keys_answer) keys" where
  "delete_key env publicKey i = for_user env publicKey (\<lambda>userId. ebind (revokeApiKey env i userId) (\<lambda>ok.
     ereturn (if ok then KeyRevoked else KeysError 403 ''Forbidden'')))"

definition rotate_key :: "'w keys_env \<Rightarrow> string option \<Rightarrow> string option \<Rightarrow> int option \<Rightarrow> ('w, keys_answer) keys" where
  "rotate_key env publicKey keyId overlapDays = for_user env publicKey (\<lambda>userId. case truthy_str keyId of
     None \<Rightarrow> ereturn (KeysError 400 ''keyId is required'')
   | Some i \<Rightarrow> ecatch (ebind (rotateKey env userId i (case overlapDays of Some d \<Rightarrow> d | None \<Rightarrow> 7)) (\<lambda>(r, t). ereturn (KeyRotated r t)))
       (\<lambda>e. ereturn (if e = ApiKeyFormatError then KeysError 500 ''Failed to generate a valid API key''
            else KeysError 400 (case truthy_str (error_message e) of Some m \<Rightarrow> m | None \<Rightarrow> ''Failed to rotate key''))))"

section \<open>Limits by burst and by minute\<close>

datatype 'a passed = Refused int string "jsnum option" | Next 'a

text \<open>What a request that is let through carries: its tier and the id of its key, and the two headers, unless Redis failed.\<close>

record let_through =
  lt_tier :: "string option"
  lt_keyId :: "string option"
  lt_remaining :: "(jsnum \<times> jsnum) option"

definition BYPASS_PATHS :: "string list" where
  "BYPASS_PATHS = [''/health'', ''/health/live'', ''/health/ready'', ''/metrics'']"

definition burst_key :: "string \<Rightarrow> string" where "burst_key apiKey = ''drl:burst:'' @ apiKey"
definition sustained_key :: "string \<Rightarrow> string" where "sustained_key apiKey = ''drl:sustained:'' @ apiKey"

text \<open>One window: the counter goes up and gets its end when it starts; beyond the limit, the seconds to wait.\<close>

definition count_request :: "'w key_redis \<Rightarrow> string \<Rightarrow> int \<Rightarrow> ('w, js_error, int) eff" where
  "count_request r k seconds = ebind (kr_incr r k) (\<lambda>n.
     ebind (if n = 1 then kr_expire r k seconds else ereturn ()) (\<lambda>_. ereturn n))"

definition retry_after :: "int \<Rightarrow> jsnum" where
  "retry_after pttl = math_max (js_int 1) (math_ceil (js_div (js_int pttl) (js_int 1000)))"

definition window_check :: "'w key_redis \<Rightarrow> string \<Rightarrow> int \<Rightarrow> jsnum \<Rightarrow> ('w, js_error, int + jsnum) eff" where
  "window_check r k seconds limit = ebind (count_request r k seconds) (\<lambda>n.
     if js_less limit (js_int n) then ebind (kr_pttl r k) (\<lambda>t. ereturn (Inr (retry_after t))) else ereturn (Inl n))"

definition remaining :: "jsnum \<Rightarrow> int \<Rightarrow> jsnum" where
  "remaining limit n = math_max (js_int 0) (js_sub limit (js_int n))"

definition quota_check :: "'w key_redis \<Rightarrow> tier_limits \<Rightarrow> string \<Rightarrow> ('w, js_error, (jsnum \<times> jsnum) passed) eff" where
  "quota_check r limits apiKey =
     ebind (window_check r (burst_key apiKey) 1 (tl_burst limits)) (\<lambda>b. case b of
       Inr wait \<Rightarrow> ereturn (Refused 429 ''Burst rate limit exceeded'' (Some wait))
     | Inl burstCount \<Rightarrow>
         ebind (window_check r (sustained_key apiKey) 60 (tl_sustained limits)) (\<lambda>c. case c of
           Inr wait \<Rightarrow> ereturn (Refused 429 ''Sustained rate limit exceeded'' (Some wait))
         | Inl sustainedCount \<Rightarrow> ereturn (Next (remaining (tl_burst limits) burstCount, remaining (tl_sustained limits) sustainedCount))))"

text \<open>A refusal in the quota ends the request; an exception of Redis lets it through.\<close>

definition dynamicRateLimiter :: "'w keys_env \<Rightarrow> string \<Rightarrow> string option \<Rightarrow> ('w, let_through passed) keys" where
  "dynamicRateLimiter env path apiKey =
     (if path \<in> set BYPASS_PATHS \<or> starts_with ''/api-docs'' path
      then ereturn (Next \<lparr>lt_tier = None, lt_keyId = None, lt_remaining = None\<rparr>)
      else case truthy_str apiKey of
        None \<Rightarrow> ereturn (Refused 401 ''API key required'' None)
      | Some k \<Rightarrow>
          ebind (ecatch (ebind (findActiveKey env k) (\<lambda>r. ereturn (Some r))) (\<lambda>_. ereturn None)) (\<lambda>found. case found of
            None \<Rightarrow> ereturn (Refused 503 ''Service temporarily unavailable'' None)
          | Some None \<Rightarrow> ereturn (Refused 401 ''Invalid API key'' None)
          | Some (Some rec) \<Rightarrow>
              if \<not> kd_isActive rec then ereturn (Refused 403 ''API key is inactive'' None)
              else case getLimits (ke_vars env) (kd_tier rec) of
                Inl _ \<Rightarrow> ereturn (Refused 500 ''Internal server error'' None)
              | Inr limits \<Rightarrow>
                  ebind (ecatch (ebind (kw (quota_check (ke_redis env) limits k)) (\<lambda>q. ereturn (Some q))) (\<lambda>_. ereturn None)) (\<lambda>q.
                  ereturn (case q of
                    Some (Refused st m wait) \<Rightarrow> Refused st m wait
                  | Some (Next rem) \<Rightarrow> Next \<lparr>lt_tier = Some (kd_tier rec), lt_keyId = Some (kd_id rec), lt_remaining = Some rem\<rparr>
                  | None \<Rightarrow> Next \<lparr>lt_tier = Some (kd_tier rec), lt_keyId = Some (kd_id rec), lt_remaining = None\<rparr>))))"

section \<open>The tier of a key\<close>

text \<open>The key, when there is one, and the tier attached to the request.\<close>

definition apiKeyMiddleware :: "'w keys_env \<Rightarrow> string option \<Rightarrow> ('w, (string option \<times> string) passed) keys" where
  "apiKeyMiddleware env apiKey = ecatch
     (case truthy_str apiKey of
        None \<Rightarrow> ereturn (Next (None, ''FREE''))
      | Some k \<Rightarrow>
          let cacheKey = ''apikey:'' @ k in
          ebind (kw (kr_get (ke_redis env) cacheKey)) (\<lambda>cached. case truthy_str cached of
            Some tier \<Rightarrow> ereturn (Next (Some k, tier))
          | None \<Rightarrow>
              ebind (prisma_call env [''key'', ''tier'']) (\<lambda>_.
              ebind (eget (\<lambda>s. row_of_key k (ks_rows s))) (\<lambda>row. case row of
                None \<Rightarrow> ereturn (Refused 401 ''Invalid API Key'' None)
              | Some (i, r) \<Rightarrow> ebind (kw (kr_setex (ke_redis env) cacheKey 300 (ak_tier r))) (\<lambda>_. ereturn (Next (Some k, ak_tier r)))))))
     (\<lambda>_. ereturn (Refused 500 ''Internal Server Error validating API Key'' None))"

section \<open>Authentication by a key\<close>

definition hourly_limit :: "string \<Rightarrow> int" where
  "hourly_limit tier = (if tier = ''Pro'' then 10000 else if tier = ''Enterprise'' then 100000 else 100)"

text \<open>The owner, when the model has one, and the tier become the user of the request.\<close>

definition apiKeyAuthMiddleware :: "'w keys_env \<Rightarrow> string option \<Rightarrow> ('w, (string option \<times> string) passed) keys" where
  "apiKeyAuthMiddleware env apiKey = (case truthy_str apiKey of
     None \<Rightarrow> ereturn (Refused 401 ''API key required'' None)
   | Some k \<Rightarrow> ecatch
      (ebind (prisma_call env [''key'']) (\<lambda>_.
       ebind (eget (\<lambda>s. row_of_key k (ks_rows s))) (\<lambda>row.
       case (case row of Some (i, r) \<Rightarrow> if ak_isActive r then Some (i, r) else None | None \<Rightarrow> None) of
         None \<Rightarrow> ereturn (Refused 401 ''Invalid or inactive API key'' None)
       | Some (i, r) \<Rightarrow>
           ebind (kw (count_request (ke_redis env) (''rate-limit:apikey:'' @ ak_key r) 3600)) (\<lambda>n.
           if n > hourly_limit (ak_tier r) then ereturn (Refused 429 ''Rate limit exceeded'' None)
           else ebind (prisma_call env [''id'', ''usageCount'']) (\<lambda>_.
                ebind (emodify (\<lambda>s. s\<lparr>ks_rows := js_set i (r\<lparr>ak_usageCount := ak_usageCount r + 1\<rparr>) (ks_rows s)\<rparr>)) (\<lambda>_.
                ereturn (Next (if ''ownerId'' \<in> set (ke_model env) then Some (ak_owner r) else None, ak_tier r))))))))
      (\<lambda>_. ereturn (Refused 500 ''Internal server error validating API Key'' None)))"

section \<open>Configured limiters\<close>

text \<open>A request as the limiters read it: its path, its address, the tier that a middleware attached, and the source of the transaction in its body.\<close>

record limited_request =
  lr_path :: string
  lr_ip :: "string option"
  lr_apiTier :: "string option"
  lr_apiKeyTier :: "string option"
  lr_userTier :: "string option"
  lr_xdr :: "string option"

record tier_window =
  tw_windowMs :: int
  tw_max :: int

definition HEALTH_SKIP_PATHS :: "string list" where
  "HEALTH_SKIP_PATHS = [''/health'', ''/health/live'', ''/health/ready'', ''/api-docs'', ''/api-docs.json'']"

definition TIER_LIMITS :: "(string, tier_window) jsmap" where
  "TIER_LIMITS = [(''Free'', \<lparr>tw_windowMs = 60 * 1000, tw_max = 60\<rparr>), (''Pro'', \<lparr>tw_windowMs = 60 * 1000, tw_max = 600\<rparr>),
     (''Enterprise'', \<lparr>tw_windowMs = 60 * 1000, tw_max = 3000\<rparr>)]"

definition TIER_AUTH_LIMITS :: "(string, tier_window) jsmap" where
  "TIER_AUTH_LIMITS = [(''Free'', \<lparr>tw_windowMs = 10 * 60 * 1000, tw_max = 10\<rparr>), (''Pro'', \<lparr>tw_windowMs = 10 * 60 * 1000, tw_max = 50\<rparr>),
     (''Enterprise'', \<lparr>tw_windowMs = 10 * 60 * 1000, tw_max = 200\<rparr>)]"

definition TIER_SENSITIVE_LIMITS :: "(string, tier_window) jsmap" where
  "TIER_SENSITIVE_LIMITS = [(''Free'', \<lparr>tw_windowMs = 60 * 1000, tw_max = 5\<rparr>), (''Pro'', \<lparr>tw_windowMs = 60 * 1000, tw_max = 20\<rparr>),
     (''Enterprise'', \<lparr>tw_windowMs = 60 * 1000, tw_max = 100\<rparr>)]"

datatype max_option = MaxNumber int | MaxFunction "limited_request \<Rightarrow> int"

fun resolveMax :: "max_option option \<Rightarrow> limited_request \<Rightarrow> int" where
  "resolveMax (Some (MaxFunction f)) req = f req"
| "resolveMax (Some (MaxNumber n)) req = n"
| "resolveMax None req = 100"

definition resolveTierFromRequest :: "limited_request \<Rightarrow> string" where
  "resolveTierFromRequest req =
     (let tier = (case truthy_str (lr_apiTier req) of Some t \<Rightarrow> t
        | None \<Rightarrow> (case truthy_str (lr_apiKeyTier req) of Some t \<Rightarrow> t
        | None \<Rightarrow> (case truthy_str (lr_userTier req) of Some t \<Rightarrow> t | None \<Rightarrow> ''Free'')))
      in if tier \<in> set (js_keys TIER_LIMITS) then tier else ''Free'')"

record limiter_options =
  lo_windowMs :: "int option"
  lo_max :: "max_option option"
  lo_message :: "string option"
  lo_keyPrefix :: "string option"
  lo_skipPaths :: "string list"
  lo_tierLimits :: "(string, tier_window) jsmap option"

text \<open>What \<open>rateLimit\<close> of the library is given.\<close>

record limiter =
  lm_windowMs :: int
  lm_max :: max_option
  lm_message :: string
  lm_skip :: "limited_request \<Rightarrow> bool"
  lm_prefix :: string
  lm_retryAfter :: jsnum

definition tier_max :: "(string, tier_window) jsmap \<Rightarrow> max_option \<Rightarrow> limited_request \<Rightarrow> int" where
  "tier_max tierLimits most req =
     (case (case js_get tierLimits (resolveTierFromRequest req) of Some l \<Rightarrow> Some l | None \<Rightarrow> js_get tierLimits ''Free'') of
        Some l \<Rightarrow> tw_max l | None \<Rightarrow> (case most of MaxNumber n \<Rightarrow> n | MaxFunction _ \<Rightarrow> 100))"

definition createRateLimiter :: "limiter_options \<Rightarrow> limiter" where
  "createRateLimiter options =
     (let windowMs = (case lo_windowMs options of Some n \<Rightarrow> n | None \<Rightarrow> 15 * 60 * 1000);
          most = (case lo_max options of Some m \<Rightarrow> m | None \<Rightarrow> MaxNumber 100);
          allSkipPaths = HEALTH_SKIP_PATHS @ lo_skipPaths options;
          effectiveMax = (case lo_tierLimits options of Some t \<Rightarrow> MaxFunction (tier_max t most) | None \<Rightarrow> most);
          effectiveWindowMs = (case lo_tierLimits options of Some ((_, l) # _) \<Rightarrow> tw_windowMs l | _ \<Rightarrow> windowMs)
      in \<lparr>lm_windowMs = effectiveWindowMs, lm_max = effectiveMax,
          lm_message = (case lo_message options of Some m \<Rightarrow> m | None \<Rightarrow> ''Too many requests from this IP, please try again later.''),
          lm_skip = (\<lambda>req. list_ex (\<lambda>p. lr_path req = p \<or> starts_with p (lr_path req)) allSkipPaths),
          lm_prefix = (case lo_keyPrefix options of Some p \<Rightarrow> p | None \<Rightarrow> ''rl:''),
          lm_retryAfter = math_ceil (js_div (js_int effectiveWindowMs) (js_int 1000))\<rparr>)"

definition limiter_of :: "int \<Rightarrow> int \<Rightarrow> string option \<Rightarrow> string \<Rightarrow> limiter" where
  "limiter_of windowMs most message prefix = createRateLimiter \<lparr>lo_windowMs = Some windowMs, lo_max = Some (MaxNumber most), lo_message = message,
     lo_keyPrefix = Some prefix, lo_skipPaths = [], lo_tierLimits = None\<rparr>"

definition apiLimiter :: limiter where
  "apiLimiter = limiter_of (15 * 60 * 1000) 1000 None ''rl:api:''"

definition authLimiter :: limiter where
  "authLimiter = limiter_of (10 * 60 * 1000) 10 (Some ''Too many authentication attempts, please try again after 10 minutes.'') ''rl:auth:''"

definition sep10ChallengeLimiter :: limiter where
  "sep10ChallengeLimiter = limiter_of (60 * 1000) 10 (Some ''Too many challenge requests, please try again later.'') ''rl:sep10:challenge:''"

definition sensitiveApiLimiter :: limiter where
  "sensitiveApiLimiter = limiter_of (60 * 1000) 5 (Some ''Too many requests to this sensitive endpoint, please try again later.'') ''rl:sensitive:''"

definition publicLimiter :: limiter where
  "publicLimiter = limiter_of (15 * 60 * 1000) 1000 (Some ''Too many requests to this public endpoint, please try again later.'') ''rl:public:''"

definition createTieredRateLimiter :: "(string, tier_window) jsmap \<Rightarrow> limiter_options \<Rightarrow> limiter" where
  "createTieredRateLimiter tierLimits options = createRateLimiter (options\<lparr>lo_tierLimits := Some tierLimits\<rparr>)"

definition tiered_options :: "string \<Rightarrow> string \<Rightarrow> limiter_options" where
  "tiered_options message prefix = \<lparr>lo_windowMs = None, lo_max = None, lo_message = Some message, lo_keyPrefix = Some prefix, lo_skipPaths = [],
     lo_tierLimits = None\<rparr>"

definition tieredApiLimiter :: limiter where
  "tieredApiLimiter = createTieredRateLimiter TIER_LIMITS
     (tiered_options ''Rate limit exceeded for your API tier. Please upgrade or try again later.'' ''rl:tier:api:'')"

definition tieredAuthLimiter :: limiter where
  "tieredAuthLimiter = createTieredRateLimiter TIER_AUTH_LIMITS
     (tiered_options ''Too many authentication attempts. Please try again later.'' ''rl:tier:auth:'')"

definition tieredSensitiveLimiter :: limiter where
  "tieredSensitiveLimiter = createTieredRateLimiter TIER_SENSITIVE_LIMITS
     (tiered_options ''Too many requests to this sensitive endpoint. Please try again later.'' ''rl:tier:sensitive:'')"

text \<open>The limiter of submissions counts by the source account that \<open>source\<close> reads of the transaction (the inner one of a fee bump), or by address.\<close>

definition submission_key :: "(string \<Rightarrow> string option) \<Rightarrow> limited_request \<Rightarrow> string" where
  "submission_key source req = (case Option.bind (truthy_str (lr_xdr req)) source of
     Some a \<Rightarrow> a | None \<Rightarrow> (case truthy_str (lr_ip req) of Some ip \<Rightarrow> ip | None \<Rightarrow> ''unknown''))"

text \<open>A store of counters, and the one that goes on in memory when Redis fails.\<close>

record ('w, 'k) limit_store =
  ls_increment :: "string \<Rightarrow> ('w, js_error, 'k) eff"
  ls_decrement :: "string \<Rightarrow> ('w, js_error, unit) eff"
  ls_resetKey :: "string \<Rightarrow> ('w, js_error, unit) eff"

definition RedisWithMemoryFallbackStore :: "('w, 'k) limit_store \<Rightarrow> ('w, 'k) limit_store \<Rightarrow> ('w, 'k) limit_store" where
  "RedisWithMemoryFallbackStore redisStore memoryStore =
     \<lparr>ls_increment = (\<lambda>k. ecatch (ls_increment redisStore k) (\<lambda>_. ls_increment memoryStore k)),
      ls_decrement = (\<lambda>k. ecatch (ls_decrement redisStore k) (\<lambda>_. ls_decrement memoryStore k)),
      ls_resetKey = (\<lambda>k. ecatch (ls_resetKey redisStore k) (\<lambda>_. ls_resetKey memoryStore k))\<rparr>"

end
