(* ===== verification/Rate_Props.thy ===== *)
theory Rate_Props
  imports Rate_Limits
begin

text \<open>
  Properties of the limits and of the keys. Redis is known by its documented behaviour: a view of its live counters, each with its value and its
  end, and a clock.
\<close>

section \<open>Redis\<close>

type_synonym 'w counters = "'w \<Rightarrow> string \<Rightarrow> (int \<times> int option) option"

text \<open>A call either throws and leaves the counters, or does what it is documented to do; none takes time.\<close>

definition counts_in :: "'w key_redis \<Rightarrow> ('w \<Rightarrow> int) \<Rightarrow> 'w counters \<Rightarrow> bool" where
  "counts_in r clock view \<longleftrightarrow>
     (\<forall>k w res w'. kr_incr r k w = (res, w') \<longrightarrow> clock w' = clock w \<and> (case res of Inl _ \<Rightarrow> view w' = view w
        | Inr n \<Rightarrow> n = (case view w k of Some (m, _) \<Rightarrow> m + 1 | None \<Rightarrow> 1) \<and> view w' = (view w)(k \<mapsto> (n, Option.bind (view w k) snd))))
     \<and> (\<forall>k sec w res w'. kr_expire r k sec w = (res, w') \<longrightarrow> clock w' = clock w \<and> (case res of Inl _ \<Rightarrow> view w' = view w
        | Inr _ \<Rightarrow> view w' = (view w)(k := map_option (\<lambda>(n, _). (n, Some (clock w + 1000 * sec))) (view w k))))
     \<and> (\<forall>k w res w'. kr_pttl r k w = (res, w') \<longrightarrow> clock w' = clock w \<and> view w' = view w)"

definition answers_always :: "'w key_redis \<Rightarrow> bool" where
  "answers_always r \<longleftrightarrow> (\<forall>k w. \<exists>n w'. kr_incr r k w = (Inr n, w')) \<and> (\<forall>k sec w. \<exists>w'. kr_expire r k sec w = (Inr (), w'))
     \<and> (\<forall>k w. \<exists>n w'. kr_pttl r k w = (Inr n, w'))"

text \<open>Time passes: a counter that has reached its end is gone.\<close>

definition elapses :: "(int \<Rightarrow> 'w \<Rightarrow> 'w) \<Rightarrow> ('w \<Rightarrow> int) \<Rightarrow> 'w counters \<Rightarrow> bool" where
  "elapses elapse clock view \<longleftrightarrow> (\<forall>d w. clock (elapse d w) = clock w + d
     \<and> (\<forall>k. view (elapse d w) k = (case view w k of Some (n, Some t) \<Rightarrow> if clock w + d < t then Some (n, Some t) else None | x \<Rightarrow> x)))"

lemma incr_view:
  assumes "counts_in r clock view" "kr_incr r k w = (Inr n, w')"
  shows "clock w' = clock w" "n = (case view w k of Some (m, _) \<Rightarrow> m + 1 | None \<Rightarrow> 1)" "view w' = (view w)(k \<mapsto> (n, Option.bind (view w k) snd))"
  using assms unfolding counts_in_def by fastforce+

lemma expire_view:
  assumes "counts_in r clock view" "kr_expire r k sec w = (res, w')"
  shows "clock w' = clock w" "view w' = (case res of Inl _ \<Rightarrow> view w
    | Inr _ \<Rightarrow> (view w)(k := map_option (\<lambda>(n, _). (n, Some (clock w + 1000 * sec))) (view w k)))"
  using assms unfolding counts_in_def by (fastforce split: sum.splits)+

lemma pttl_view:
  assumes "counts_in r clock view" "kr_pttl r k w = (res, w')"
  shows "clock w' = clock w" "view w' = view w"
  using assms unfolding counts_in_def by fastforce+

text \<open>What a window does to its counter: it goes up by one, and a new one gets its end.\<close>

lemma window_check_view:
  assumes law: "counts_in r clock view" "answers_always r" and run: "window_check r k sec limit w = (res, w')"
  shows "clock w' = clock w"
    "\<exists>n e. view w' = (view w)(k \<mapsto> (n, e)) \<and> n = (case view w k of Some (m, _) \<Rightarrow> m + 1 | None \<Rightarrow> 1)
       \<and> (case view w k of Some (_, e') \<Rightarrow> n \<noteq> 1 \<longrightarrow> e = e' | None \<Rightarrow> e = Some (clock w + 1000 * sec))
       \<and> (n = 1 \<longrightarrow> e = Some (clock w + 1000 * sec))
       \<and> (if js_less limit (js_int n) then \<exists>t. res = Inr (Inr t) else res = Inr (Inl n))"
proof -
  obtain n u where n: "kr_incr r k w = (Inr n, u)" using law(2) unfolding answers_always_def by blast
  obtain v where v: "kr_expire r k sec u = (Inr (), v)" using law(2) unfolding answers_always_def by blast
  have pttl: "\<exists>t x. kr_pttl r k y = (Inr t, x) \<and> view x = view y \<and> clock x = clock y" for y
    using law unfolding answers_always_def by (metis pttl_view)
  note i = incr_view [OF law(1) n] and e = expire_view [OF law(1) v]
  have "clock w' = clock w \<and> (\<exists>n e. view w' = (view w)(k \<mapsto> (n, e)) \<and> n = (case view w k of Some (m, _) \<Rightarrow> m + 1 | None \<Rightarrow> 1)
       \<and> (case view w k of Some (_, e') \<Rightarrow> n \<noteq> 1 \<longrightarrow> e = e' | None \<Rightarrow> e = Some (clock w + 1000 * sec))
       \<and> (n = 1 \<longrightarrow> e = Some (clock w + 1000 * sec))
       \<and> (if js_less limit (js_int n) then \<exists>t. res = Inr (Inr t) else res = Inr (Inl n)))"
  proof (cases "n = 1")
    case True
    obtain t x where x: "kr_pttl r k v = (Inr t, x)" "view x = view v" "clock x = clock v" using pttl by blast
    show ?thesis using run x i e True
      by (auto simp: window_check_def count_request_def eff_defs n v split: option.splits if_splits)
  next
    case False
    obtain t x where x: "kr_pttl r k u = (Inr t, x)" "view x = view u" "clock x = clock u" using pttl by blast
    show ?thesis using run x i False
      by (auto simp: window_check_def count_request_def eff_defs n split: option.splits if_splits)
  qed
  then show "clock w' = clock w"
    "\<exists>n e. view w' = (view w)(k \<mapsto> (n, e)) \<and> n = (case view w k of Some (m, _) \<Rightarrow> m + 1 | None \<Rightarrow> 1)
       \<and> (case view w k of Some (_, e') \<Rightarrow> n \<noteq> 1 \<longrightarrow> e = e' | None \<Rightarrow> e = Some (clock w + 1000 * sec))
       \<and> (n = 1 \<longrightarrow> e = Some (clock w + 1000 * sec))
       \<and> (if js_less limit (js_int n) then \<exists>t. res = Inr (Inr t) else res = Inr (Inl n))" by blast+
qed

section \<open>Requests with a key over time\<close>

text \<open>Requests with one key, each so many milliseconds after the one before: which are let through.\<close>

fun serve :: "'w keys_env \<Rightarrow> (int \<Rightarrow> 'w \<Rightarrow> 'w) \<Rightarrow> string \<Rightarrow> string \<Rightarrow> int list \<Rightarrow> 'w keys_state \<Rightarrow> bool list" where
  "serve env elapse path k [] s = []"
| "serve env elapse path k (d # ds) s =
     (case dynamicRateLimiter env path (Some k) (s\<lparr>ks_world := elapse d (ks_world s)\<rparr>) of
        (r, t) \<Rightarrow> (case r of Inr (Next _) \<Rightarrow> True | _ \<Rightarrow> False) # serve env elapse path k ds t)"

text \<open>The setting: a client of the database that answers, an active key whose tier has the given limits, and a path that is counted.\<close>

definition keyed_request :: "'w keys_env \<Rightarrow> string \<Rightarrow> string \<Rightarrow> tier_limits \<Rightarrow> (string, api_key) jsmap \<Rightarrow> bool" where
  "keyed_request env path k limits rows \<longleftrightarrow> (\<forall>w. ke_db env w = (Inr (), w)) \<and> ''key'' \<in> set (ke_model env) \<and> k \<noteq> []
     \<and> path \<notin> set BYPASS_PATHS \<and> \<not> starts_with ''/api-docs'' path
     \<and> (\<exists>i r. row_of_key k rows = Some (i, r) \<and> ak_isActive r \<and> getLimits (ke_vars env) (ak_tier r) = Inr limits)"

lemma limiter_is_quota:
  assumes "keyed_request env path k limits (ks_rows s)"
  shows "\<exists>rec :: api_key_record. dynamicRateLimiter env path (Some k) s = (case quota_check (ke_redis env) limits k (ks_world s) of
      (Inr (Refused st m wait), w) \<Rightarrow> (Inr (Refused st m wait), s\<lparr>ks_world := w\<rparr>)
    | (Inr (Next rem), w) \<Rightarrow> (Inr (Next \<lparr>lt_tier = Some (kd_tier rec), lt_keyId = Some (kd_id rec), lt_remaining = Some rem\<rparr>), s\<lparr>ks_world := w\<rparr>)
    | (Inl _, w) \<Rightarrow> (Inr (Next \<lparr>lt_tier = Some (kd_tier rec), lt_keyId = Some (kd_id rec), lt_remaining = None\<rparr>), s\<lparr>ks_world := w\<rparr>))"
proof -
  obtain i r where row: "row_of_key k (ks_rows s) = Some (i, r)" "ak_isActive r" "getLimits (ke_vars env) (ak_tier r) = Inr limits"
    and db: "\<And>w. ke_db env w = (Inr (), w)" "''key'' \<in> set (ke_model env)" "k \<noteq> []" "path \<notin> set BYPASS_PATHS" "\<not> starts_with ''/api-docs'' path"
    using assms unfolding keyed_request_def by blast
  have "findActiveKey env k s = (Inr (Some (record_of i r)), s)"
    by (simp add: findActiveKey_def prisma_call_def kw_def eff_defs db row)
  moreover have "truthy_str (Some k) = Some k" using db(3) by (cases k) (simp_all add: truthy_str_def)
  ultimately show ?thesis using db row
    by (intro exI [of _ "record_of i r"])
      (auto simp: dynamicRateLimiter_def eff_defs kw_def record_of_def split: prod.splits sum.splits passed.splits)
qed

section \<open>The limit of a minute\<close>

lemma js_int_less: "\<bar>L\<bar> < 2 ^ 53 - 1 \<Longrightarrow> js_less (js_int L) (js_int n) \<longleftrightarrow> L < n"
proof -
  assume small: "\<bar>L\<bar> < 2 ^ 53 - 1"
  have L: "js_int L = Fin (of_int L)" "js_int (L + 1) = Fin (of_int (L + 1))"
    unfolding js_int_def by (rule round64_int, use small in simp)+
  show ?thesis
  proof
    assume "js_less (js_int L) (js_int n)"
    moreover have "js_le (js_int n) (js_int L)" if "n \<le> L" using that unfolding js_int_def by (intro round64_mono) simp
    ultimately have "\<not> n \<le> L" by (cases "js_int n") (auto simp: L js_le_def)
    then show "L < n" by simp
  next
    assume "L < n"
    then have "js_le (js_int (L + 1)) (js_int n)" unfolding js_int_def by (intro round64_mono) simp
    then show "js_less (js_int L) (js_int n)" unfolding L by (cases "js_int n") (auto simp: js_le_def)
  qed
qed

text \<open>A counter of a minute before and after a request, and whether it was let through.\<close>

definition counted :: "int \<Rightarrow> int \<Rightarrow> (int \<times> int option) option \<Rightarrow> (int \<times> int option) option \<Rightarrow> bool \<Rightarrow> bool" where
  "counted now L before after passed \<longleftrightarrow> after = before \<and> \<not> passed \<or>
     (\<exists>n e. after = Some (n, e) \<and> n = (case before of Some (m, _) \<Rightarrow> m + 1 | None \<Rightarrow> 1)
        \<and> (case before of Some (_, e') \<Rightarrow> n \<noteq> 1 \<longrightarrow> e = e' | None \<Rightarrow> e = Some (now + 60000))
        \<and> (n = 1 \<longrightarrow> e = Some (now + 60000)) \<and> passed = (n \<le> L))"

text \<open>A request over the counter of the minute: it is let through only by counting to at most the limit, and then the counter went up by one.\<close>

lemma quota_step:
  assumes law: "counts_in (ke_redis env) clock view" "answers_always (ke_redis env)" and limits: "tl_sustained limits = js_int L" "\<bar>L\<bar> < 2 ^ 53 - 1"
    and setting: "keyed_request env path k limits (ks_rows s)" and run: "dynamicRateLimiter env path (Some k) s = (r, s')"
  defines "before \<equiv> view (ks_world s) (sustained_key k)" and "after \<equiv> view (ks_world s') (sustained_key k)"
  shows "ks_rows s' = ks_rows s" "clock (ks_world s') = clock (ks_world s)"
    "counted (clock (ks_world s)) L before after (\<exists>x. r = Inr (Next x))"
proof -
  have other: "burst_key k \<noteq> sustained_key k" by (simp add: burst_key_def sustained_key_def)
  obtain b w1 where b: "window_check (ke_redis env) (burst_key k) 1 (tl_burst limits) (ks_world s) = (b, w1)" by (metis surj_pair)
  obtain c w2 where c: "window_check (ke_redis env) (sustained_key k) 60 (tl_sustained limits) w1 = (c, w2)" by (metis surj_pair)
  note vb = window_check_view [OF law b] and vc = window_check_view [OF law c]
  have same: "view w1 (sustained_key k) = before" using vb(2) other by (auto simp: before_def)
  obtain rec :: api_key_record where rec: "dynamicRateLimiter env path (Some k) s = (case quota_check (ke_redis env) limits k (ks_world s) of
      (Inr (Refused st m wait), w) \<Rightarrow> (Inr (Refused st m wait), s\<lparr>ks_world := w\<rparr>)
    | (Inr (Next rem), w) \<Rightarrow> (Inr (Next \<lparr>lt_tier = Some (kd_tier rec), lt_keyId = Some (kd_id rec), lt_remaining = Some rem\<rparr>), s\<lparr>ks_world := w\<rparr>)
    | (Inl _, w) \<Rightarrow> (Inr (Next \<lparr>lt_tier = Some (kd_tier rec), lt_keyId = Some (kd_id rec), lt_remaining = None\<rparr>), s\<lparr>ks_world := w\<rparr>))"
    using limiter_is_quota [OF setting] by blast
  have "ks_rows s' = ks_rows s \<and> clock (ks_world s') = clock (ks_world s)
    \<and> counted (clock (ks_world s)) L before after (\<exists>x. r = Inr (Next x))"
  proof (cases "\<exists>t. b = Inr (Inr t)")
    case True
    then obtain t where t: "b = Inr (Inr t)" by blast
    have "r = Inr (Refused 429 ''Burst rate limit exceeded'' (Some t))" "s' = s\<lparr>ks_world := w1\<rparr>"
      using run unfolding rec by (simp_all add: quota_check_def ebind_def b t ereturn_def)
    then show ?thesis using vb(1) same by (simp add: after_def counted_def)
  next
    case False
    then obtain m where m: "b = Inr (Inl m)" using vb(2) by (auto split: if_splits)
    obtain n e where n: "view w2 = (view w1)(sustained_key k \<mapsto> (n, e))" "n = (case before of Some (m, _) \<Rightarrow> m + 1 | None \<Rightarrow> 1)"
        "case before of Some (_, e') \<Rightarrow> n \<noteq> 1 \<longrightarrow> e = e' | None \<Rightarrow> e = Some (clock w1 + 1000 * 60)" "n = 1 \<longrightarrow> e = Some (clock w1 + 1000 * 60)"
        "if js_less (tl_sustained limits) (js_int n) then \<exists>t. c = Inr (Inr t) else c = Inr (Inl n)"
      using vc(2) unfolding same by blast
    have less: "js_less (tl_sustained limits) (js_int n) = (L < n)" by (simp add: limits(1) js_int_less [OF limits(2)])
    have "s' = s\<lparr>ks_world := w2\<rparr> \<and> (\<exists>x. r = Inr (Next x)) = (n \<le> L)"
      using run n(5) unfolding rec less by (auto simp: quota_check_def ebind_def b m c ereturn_def split: if_splits)
    moreover have "after = Some (n, e)" if "s' = s\<lparr>ks_world := w2\<rparr>" using that n(1) by (simp add: after_def)
    moreover have "case before of Some (_, e') \<Rightarrow> n \<noteq> 1 \<longrightarrow> e = e' | None \<Rightarrow> e = Some (clock (ks_world s) + 60000)"
        "n = 1 \<longrightarrow> e = Some (clock (ks_world s) + 60000)"
      using n(3,4) vb(1) by (auto split: option.splits)
    moreover have "clock w2 = clock (ks_world s)" using vb(1) vc(1) by simp
    ultimately show ?thesis using n(2) unfolding counted_def by auto
  qed
  then show "ks_rows s' = ks_rows s" "clock (ks_world s') = clock (ks_world s)"
    "counted (clock (ks_world s)) L before after (\<exists>x. r = Inr (Next x))" by blast+
qed

abbreviation let_in :: "bool list \<Rightarrow> int" where
  "let_in bs \<equiv> int (length (filter (\<lambda>b. b) bs))"

text \<open>What all requests of a run have in common.\<close>

definition serving :: "'w keys_env \<Rightarrow> ('w \<Rightarrow> int) \<Rightarrow> 'w counters \<Rightarrow> (int \<Rightarrow> 'w \<Rightarrow> 'w) \<Rightarrow> string \<Rightarrow> string \<Rightarrow> tier_limits \<Rightarrow> int \<Rightarrow> bool" where
  "serving env clock view elapse path k limits L \<longleftrightarrow> counts_in (ke_redis env) clock view \<and> answers_always (ke_redis env)
     \<and> elapses elapse clock view \<and> tl_sustained limits = js_int L \<and> 0 \<le> L \<and> L < 2 ^ 53 - 1"

lemma elapsed:
  assumes "elapses elapse clock view"
  shows "clock (elapse d w) = clock w + d"
    "view (elapse d w) k = (case view w k of Some (n, Some t) \<Rightarrow> if clock w + d < t then Some (n, Some t) else None | x \<Rightarrow> x)"
  using assms unfolding elapses_def by blast+

lemma serve_step:
  assumes all: "serving env clock view elapse path k limits L" and setting: "keyed_request env path k limits (ks_rows s)"
  obtains s1 s2 passed where "s1 = s\<lparr>ks_world := elapse d (ks_world s)\<rparr>" "serve env elapse path k (d # ds) s = passed # serve env elapse path k ds s2"
    "keyed_request env path k limits (ks_rows s2)" "clock (ks_world s2) = clock (ks_world s) + d"
    "counted (clock (ks_world s) + d) L (view (ks_world s1) (sustained_key k)) (view (ks_world s2) (sustained_key k)) passed"
proof -
  let ?s1 = "s\<lparr>ks_world := elapse d (ks_world s)\<rparr>"
  obtain r t where run: "dynamicRateLimiter env path (Some k) ?s1 = (r, t)" by (metis surj_pair)
  have law: "counts_in (ke_redis env) clock view" "answers_always (ke_redis env)" "elapses elapse clock view"
    and L: "tl_sustained limits = js_int L" "\<bar>L\<bar> < 2 ^ 53 - 1" using all unfolding serving_def by auto
  have setting1: "keyed_request env path k limits (ks_rows ?s1)" using setting by simp
  note step = quota_step [OF law(1,2) L setting1 run]
  have passed: "(case r of Inr (Next _) \<Rightarrow> True | _ \<Rightarrow> False) = (\<exists>x. r = Inr (Next x))" by (auto split: sum.splits passed.splits)
  show ?thesis
  proof (rule that [OF refl])
    show "serve env elapse path k (d # ds) s = (\<exists>x. r = Inr (Next x)) # serve env elapse path k ds t" by (simp add: run passed)
    show "keyed_request env path k limits (ks_rows t)" using setting step(1) by simp
    show "clock (ks_world t) = clock (ks_world s) + d" using step(2) by (simp add: elapsed(1) [OF law(3)])
    show "counted (clock (ks_world s) + d) L (view (ks_world ?s1) (sustained_key k)) (view (ks_world t) (sustained_key k)) (\<exists>x. r = Inr (Next x))"
      using step(3) by (simp add: elapsed(1) [OF law(3)])
  qed
qed

text \<open>While the counter lives, no more are let through than are left; without a counter, no more than the limit as long as one window lasts.\<close>

lemma within_window:
  assumes "serving env clock view elapse path k limits L" "keyed_request env path k limits (ks_rows s)" "\<forall>d \<in> set ds. 0 \<le> d"
    "view (ks_world s) (sustained_key k) = Some (n, Some t)" "1 \<le> n" "clock (ks_world s) + sum_list ds < t"
  shows "let_in (serve env elapse path k ds s) \<le> max 0 (L - n)"
  using assms(2-)
proof (induction ds arbitrary: s n)
  case (Cons d ds)
  have law: "elapses elapse clock view" using assms(1) by (simp add: serving_def)
  obtain s1 s2 passed where step: "s1 = s\<lparr>ks_world := elapse d (ks_world s)\<rparr>" "serve env elapse path k (d # ds) s = passed # serve env elapse path k ds s2"
    "keyed_request env path k limits (ks_rows s2)" "clock (ks_world s2) = clock (ks_world s) + d"
    "counted (clock (ks_world s) + d) L (view (ks_world s1) (sustained_key k)) (view (ks_world s2) (sustained_key k)) passed"
    by (rule serve_step [OF assms(1) Cons.prems(1)])
  have "0 \<le> sum_list ds" using Cons.prems(2) by (intro sum_list_nonneg) auto
  then have live: "view (ks_world s1) (sustained_key k) = Some (n, Some t)" using Cons.prems(3,5) by (simp add: step(1) elapsed(2) [OF law])
  then consider "\<not> passed" "view (ks_world s2) (sustained_key k) = Some (n, Some t)"
    | "passed = (n + 1 \<le> L)" "view (ks_world s2) (sustained_key k) = Some (n + 1, Some t)"
    using step(5) Cons.prems(4) by (auto simp: counted_def)
  then show ?case
  proof cases
    case 1
    then show ?thesis using Cons.IH [OF step(3) _ 1(2)] Cons.prems step(2,4) by simp
  next
    case 2
    then show ?thesis using Cons.IH [OF step(3) _ 2(2)] Cons.prems step(2,4) by (auto simp: max_def split: if_splits)
  qed
qed simp

lemma fresh_window:
  assumes "serving env clock view elapse path k limits L" "keyed_request env path k limits (ks_rows s)" "\<forall>d \<in> set ds. 0 \<le> d"
    "view (elapse (hd ds) (ks_world s)) (sustained_key k) = None" "sum_list (tl ds) < 60000"
  shows "let_in (serve env elapse path k ds s) \<le> L"
  using assms(2-)
proof (induction ds arbitrary: s)
  case Nil
  then show ?case using assms(1) by (simp add: serving_def)
next
  case (Cons d ds)
  have law: "elapses elapse clock view" and L: "0 \<le> L" using assms(1) by (simp_all add: serving_def)
  obtain s1 s2 passed where step: "s1 = s\<lparr>ks_world := elapse d (ks_world s)\<rparr>" "serve env elapse path k (d # ds) s = passed # serve env elapse path k ds s2"
    "keyed_request env path k limits (ks_rows s2)" "clock (ks_world s2) = clock (ks_world s) + d"
    "counted (clock (ks_world s) + d) L (view (ks_world s1) (sustained_key k)) (view (ks_world s2) (sustained_key k)) passed"
    by (rule serve_step [OF assms(1) Cons.prems(1)])
  have none: "view (ks_world s1) (sustained_key k) = None" using Cons.prems(3) by (simp add: step(1))
  have rest: "\<forall>d \<in> set ds. 0 \<le> d" "sum_list ds < 60000" "sum_list (tl ds) < 60000" using Cons.prems(2,4) by (cases ds; simp)+
  from none step(5) consider "\<not> passed" "view (ks_world s2) (sustained_key k) = None"
    | "passed = (1 \<le> L)" "view (ks_world s2) (sustained_key k) = Some (1, Some (clock (ks_world s) + d + 60000))"
    by (auto simp: counted_def)
  then show ?case
  proof cases
    case 1
    then show ?thesis using Cons.IH [OF step(3) rest(1) _ rest(3)] step(2) by (simp add: elapsed(2) [OF law])
  next
    case 2
    then show ?thesis using within_window [OF assms(1) step(3) rest(1) 2(2)] rest(2) step(2,4) L by (auto split: if_splits)
  qed
qed

lemma two_windows:
  assumes "serving env clock view elapse path k limits L" "keyed_request env path k limits (ks_rows s)" "\<forall>d \<in> set ds. 0 \<le> d"
    "view (ks_world s) (sustained_key k) = Some (n, Some t)" "1 \<le> n" "sum_list (tl ds) < 60000"
  shows "let_in (serve env elapse path k ds s) \<le> max 0 (L - n) + L"
  using assms(2-)
proof (induction ds arbitrary: s n)
  case Nil
  then show ?case using assms(1) by (simp add: serving_def)
next
  case (Cons d ds)
  have law: "elapses elapse clock view" using assms(1) by (simp add: serving_def)
  show ?case
  proof (cases "clock (ks_world s) + d < t")
    case True
    obtain s1 s2 passed where step: "s1 = s\<lparr>ks_world := elapse d (ks_world s)\<rparr>" "serve env elapse path k (d # ds) s = passed # serve env elapse path k ds s2"
      "keyed_request env path k limits (ks_rows s2)" "clock (ks_world s2) = clock (ks_world s) + d"
      "counted (clock (ks_world s) + d) L (view (ks_world s1) (sustained_key k)) (view (ks_world s2) (sustained_key k)) passed"
      by (rule serve_step [OF assms(1) Cons.prems(1)])
    have rest: "\<forall>d \<in> set ds. 0 \<le> d" "sum_list (tl ds) < 60000" using Cons.prems(2,5) by (cases ds; simp)+
    have "view (ks_world s1) (sustained_key k) = Some (n, Some t)" using True Cons.prems(3) by (simp add: step(1) elapsed(2) [OF law])
    then consider "\<not> passed" "view (ks_world s2) (sustained_key k) = Some (n, Some t)"
      | "passed = (n + 1 \<le> L)" "view (ks_world s2) (sustained_key k) = Some (n + 1, Some t)"
      using step(5) Cons.prems(4) by (auto simp: counted_def)
    then show ?thesis
    proof cases
      case 1
      then show ?thesis using Cons.IH [OF step(3) rest(1) 1(2) _ rest(2)] Cons.prems(4) step(2) by simp
    next
      case 2
      then show ?thesis using Cons.IH [OF step(3) rest(1) 2(2) _ rest(2)] Cons.prems(4) step(2) by (auto simp: max_def split: if_splits)
    qed
  next
    case False
    have "view (elapse (hd (d # ds)) (ks_world s)) (sustained_key k) = None" using False Cons.prems(3) by (simp add: elapsed(2) [OF law])
    from fresh_window [OF assms(1) Cons.prems(1,2) this Cons.prems(5)] show ?thesis by simp
  qed
qed

text \<open>C18. As long as Redis answers, no more requests of a key are let through in any minute than twice the limit of its tier, whenever they come and
  whatever the burst limit does to them; and no more than the limit when no window is open at the beginning. (A window begins with its first request,
  so a minute can touch two.)
\<close>
theorem minute_lets_in_two_windows:
  assumes "counts_in (ke_redis env) clock view" "answers_always (ke_redis env)" "elapses elapse clock view"
    and "keyed_request env path k limits (ks_rows s)" "tl_sustained limits = js_int L" "0 \<le> L" "L < 2 ^ 53 - 1"
    and "\<forall>d \<in> set gaps. 0 \<le> d" "sum_list (tl gaps) < 60000"
    and "case view (ks_world s) (sustained_key k) of Some (n, e) \<Rightarrow> 1 \<le> n \<and> e \<noteq> None | None \<Rightarrow> True"
  shows "int (length (filter (\<lambda>b. b) (serve env elapse path k gaps s))) \<le> (if view (ks_world s) (sustained_key k) = None then L else 2 * L)"
proof -
  have all: "serving env clock view elapse path k limits L" using assms by (simp add: serving_def)
  show ?thesis
  proof (cases "view (ks_world s) (sustained_key k)")
    case None
    then have "view (elapse (hd gaps) (ks_world s)) (sustained_key k) = None" by (simp add: elapsed(2) [OF assms(3)])
    then show ?thesis using fresh_window [OF all assms(4,8) _ assms(9)] None by simp
  next
    case (Some p)
    then obtain n t where p: "view (ks_world s) (sustained_key k) = Some (n, Some t)" "1 \<le> n" using assms(10) by (cases p) auto
    then show ?thesis using two_windows [OF all assms(4,8) p assms(9)] assms(6) by (auto simp: max_def split: if_splits)
  qed
qed

section \<open>A counter without an end\<close>

lemma endless_counter:
  assumes "serving env clock view elapse path k limits L" "keyed_request env path k limits (ks_rows s)"
    "view (ks_world s) (sustained_key k) = Some (n, None)" "1 \<le> n"
  shows "let_in (serve env elapse path k gaps s) \<le> max 0 (L - n)"
  using assms(2-)
proof (induction gaps arbitrary: s n)
  case (Cons d ds)
  have law: "elapses elapse clock view" using assms(1) by (simp add: serving_def)
  obtain s1 s2 passed where step: "s1 = s\<lparr>ks_world := elapse d (ks_world s)\<rparr>" "serve env elapse path k (d # ds) s = passed # serve env elapse path k ds s2"
    "keyed_request env path k limits (ks_rows s2)" "clock (ks_world s2) = clock (ks_world s) + d"
    "counted (clock (ks_world s) + d) L (view (ks_world s1) (sustained_key k)) (view (ks_world s2) (sustained_key k)) passed"
    by (rule serve_step [OF assms(1) Cons.prems(1)])
  have "view (ks_world s1) (sustained_key k) = Some (n, None)" using Cons.prems(2) by (simp add: step(1) elapsed(2) [OF law])
  then consider "\<not> passed" "view (ks_world s2) (sustained_key k) = Some (n, None)"
    | "passed = (n + 1 \<le> L)" "view (ks_world s2) (sustained_key k) = Some (n + 1, None)"
    using step(5) Cons.prems(3) by (auto simp: counted_def)
  then show ?case
  proof cases
    case 1
    then show ?thesis using Cons.IH [OF step(3) 1(2)] Cons.prems(3) step(2) by simp
  next
    case 2
    then show ?thesis using Cons.IH [OF step(3) 2(2)] Cons.prems(3) step(2) by (auto simp: max_def split: if_splits)
  qed
qed simp

text \<open>The counter and its end are two calls: when Redis fails between them, the request is let through and the counter of the minute has no end.
  From then on, with Redis back and however much time passes, fewer requests of this key than the limit of one minute are let through in all; after
  them the key is refused for good.
\<close>
theorem failed_expire_locks_key:
  fixes env env2 :: "'w keys_env"
  assumes "counts_in (ke_redis env) clock view" and setting: "keyed_request env path k limits (ks_rows s)"
    and fresh: "view (ks_world s) (sustained_key k) = None"
    and burst: "window_check (ke_redis env) (burst_key k) 1 (tl_burst limits) (ks_world s) = (Inr (Inl b), w)" "view w (sustained_key k) = None"
    and incr: "kr_incr (ke_redis env) (sustained_key k) w = (Inr n, w1)" and fails: "kr_expire (ke_redis env) (sustained_key k) 60 w1 = (Inl x, w2)"
    and again: "counts_in (ke_redis env2) clock view" "answers_always (ke_redis env2)" "elapses elapse clock view"
      "keyed_request env2 path k limits (ks_rows s)" "tl_sustained limits = js_int L" "0 \<le> L" "L < 2 ^ 53 - 1"
  shows "\<exists>a s'. dynamicRateLimiter env path (Some k) s = (Inr (Next a), s') \<and> view (ks_world s') (sustained_key k) = Some (1, None)
    \<and> int (length (filter (\<lambda>b. b) (serve env2 elapse path k gaps s'))) \<le> max 0 (L - 1)"
proof -
  have n: "n = 1" "view w1 (sustained_key k) = Some (1, None)" using incr_view [OF assms(1) incr] burst(2) by simp_all
  have v: "view w2 (sustained_key k) = Some (1, None)" using expire_view [OF assms(1) fails] n by simp
  have quota: "quota_check (ke_redis env) limits k (ks_world s) = (Inl x, w2)"
    by (simp add: quota_check_def ebind_def burst(1)) (simp add: window_check_def count_request_def ebind_def incr n fails)
  obtain rec :: api_key_record where
      "dynamicRateLimiter env path (Some k) s = (Inr (Next \<lparr>lt_tier = Some (kd_tier rec), lt_keyId = Some (kd_id rec), lt_remaining = None\<rparr>), s\<lparr>ks_world := w2\<rparr>)"
    using limiter_is_quota [OF setting] unfolding quota by auto
  moreover have "serving env2 clock view elapse path k limits L" using again by (simp add: serving_def)
  ultimately show ?thesis using endless_counter [of env2 clock view elapse path k limits L "s\<lparr>ks_world := w2\<rparr>" 1 gaps] again(4) v by auto
qed

section \<open>Keys\<close>

lemma prisma_refused: "\<not> set names \<subseteq> set (ke_model env) \<Longrightarrow> prisma_call env names s = (Inl unknown_member, s)"
  by (simp add: prisma_call_def eff_defs)

lemma kw_rows: "kw m s = (r, s') \<Longrightarrow> ks_rows s' = ks_rows s"
  by (auto simp: kw_def split: prod.splits)

text \<open>Over a client that is generated from \<open>schema.prisma\<close>, whose keys have neither an owner nor a count of uses, no key can be created, rotated,
  listed or revoked, and no request is ever authenticated by a key: the service throws each time, the middleware answers 401, 429 or 500, and the
  table stays as it is.
\<close>
theorem no_key_works_with_the_schema:
  fixes env :: "'w keys_env"
  assumes "ke_model env = apiKey_model"
  shows "(\<forall>owner tier days s. \<exists>e s'. createKey env owner tier days s = (Inl e, s') \<and> ks_rows s' = ks_rows s)
    \<and> (\<forall>owner i days s. \<exists>e. rotateKey env owner i days s = (Inl e, s)) \<and> (\<forall>owner s. \<exists>e. listApiKeys env owner s = (Inl e, s))
    \<and> (\<forall>owner i s. \<exists>e. revokeApiKey env i owner s = (Inl e, s))
    \<and> (\<forall>k s. \<exists>status m s'. apiKeyAuthMiddleware env k s = (Inr (Refused status m None), s') \<and> status \<in> {401, 429, 500} \<and> ks_rows s' = ks_rows s)"
proof -
  have owner: "\<not> set [''key'', ''ownerId'', ''tier''] \<subseteq> set (ke_model env)" "\<not> set [''id'', ''ownerId'', ''isActive''] \<subseteq> set (ke_model env)"
      "\<not> set [''ownerId'', ''id'', ''tier'', ''isActive'', ''createdAt''] \<subseteq> set (ke_model env)" "\<not> set [''id'', ''ownerId''] \<subseteq> set (ke_model env)"
      "\<not> set [''id'', ''usageCount''] \<subseteq> set (ke_model env)"
    by (simp_all add: assms apiKey_model_def)
  note refused = owner [THEN prisma_refused]
  have create: "\<exists>e s'. createKey env owner tier days s = (Inl e, s') \<and> ks_rows s' = ks_rows s" for owner tier days s
  proof -
    obtain v s1 where "kw (ke_random24 env) s = (v, s1)" by (metis surj_pair)
    then show ?thesis using kw_rows [of "ke_random24 env" s v s1]
      by (cases v) (auto simp: createKey_def eff_defs Let_def refused)
  qed
  have auth: "\<exists>status m s'. apiKeyAuthMiddleware env k s = (Inr (Refused status m None), s') \<and> status \<in> {401, 429, 500} \<and> ks_rows s' = ks_rows s" for k s
  proof (cases "truthy_str k")
    case None
    then show ?thesis by (simp add: apiKeyAuthMiddleware_def eff_defs)
  next
    case (Some a)
    obtain v s1 where find: "prisma_call env [''key''] s = (v, s1)" by (metis surj_pair)
    then have rows: "ks_rows s1 = ks_rows s" by (auto simp: prisma_call_def eff_defs dest: kw_rows split: if_splits)
    show ?thesis
    proof (cases v)
      case Inl
      then show ?thesis using rows by (simp add: apiKeyAuthMiddleware_def eff_defs Some find)
    next
      case v: (Inr u)
      let ?row = "case row_of_key a (ks_rows s1) of Some (i, r) \<Rightarrow> if ak_isActive r then Some (i, r) else None | None \<Rightarrow> None"
      show ?thesis
      proof (cases ?row)
        case None
        then show ?thesis using rows by (simp add: apiKeyAuthMiddleware_def eff_defs Some find v)
      next
        case row: (Some p)
        obtain i r where p: "p = (i, r)" by (cases p)
        obtain c s2 where count: "kw (count_request (ke_redis env) (''rate-limit:apikey:'' @ ak_key r) 3600) s1 = (c, s2)" by (metis surj_pair)
        have "ks_rows s2 = ks_rows s" using kw_rows [OF count] rows by simp
        then show ?thesis using row count
          by (cases c) (auto simp: apiKeyAuthMiddleware_def eff_defs Some find v p refused)
      qed
    qed
  qed
  show ?thesis using create auth by (auto simp: rotateKey_def listApiKeys_def revokeApiKey_def eff_defs refused)
qed

theorem no_key_works_with_the_schema_witness:
  "\<exists>e s'. createKey (\<lparr>ke_db = (\<lambda>w. (Inr (), w)), ke_model = apiKey_model, ke_users = (\<lambda>k w. (Inr (Some k), w)),
      ke_random24 = (\<lambda>w. (Inr (replicate 24 (CHR ''x'')), w)), ke_uuid = (\<lambda>w. (Inr ''i1'', w)), ke_now = (\<lambda>w. 0), ke_vars = (\<lambda>_. None),
      ke_redis = \<lparr>kr_incr = (\<lambda>k w. (Inr 1, w)), kr_expire = (\<lambda>k t w. (Inr (), w)), kr_pttl = (\<lambda>k w. (Inr 0, w)), kr_get = (\<lambda>k w. (Inr None, w)),
        kr_setex = (\<lambda>k t v w. (Inr (), w))\<rparr>\<rparr> :: unit keys_env) ''owner'' ''Free'' None \<lparr>ks_rows = [], ks_world = ()\<rparr> = (Inl e, s') \<and> ks_rows s' = []"
  using no_key_works_with_the_schema [of "\<lparr>ke_db = (\<lambda>w. (Inr (), w)), ke_model = apiKey_model, ke_users = (\<lambda>k w. (Inr (Some k), w)),
      ke_random24 = (\<lambda>w. (Inr (replicate 24 (CHR ''x'')), w)), ke_uuid = (\<lambda>w. (Inr ''i1'', w)), ke_now = (\<lambda>w. 0), ke_vars = (\<lambda>_. None),
      ke_redis = \<lparr>kr_incr = (\<lambda>k w. (Inr 1, w)), kr_expire = (\<lambda>k t w. (Inr (), w)), kr_pttl = (\<lambda>k w. (Inr 0, w)), kr_get = (\<lambda>k w. (Inr None, w)),
        kr_setex = (\<lambda>k t v w. (Inr (), w))\<rparr>\<rparr> :: unit keys_env"]
  by fastforce

lemma bind_returns: "ebind m f s = (Inr y, s') \<longleftrightarrow> (\<exists>x t. m s = (Inr x, t) \<and> f x t = (Inr y, s'))"
  by (auto simp: ebind_def split: prod.splits sum.splits)

lemma createKey_adds:
  assumes "createKey env owner tier days s = (Inr k, t)"
  shows "\<exists>j q w w'. ke_uuid env w = (Inr j, w') \<and> ks_rows t = js_set j q (ks_rows s) \<and> (days = None \<longrightarrow> kd_expiresAt k = None)"
proof -
  from assms obtain bytes s1 s2 j s3 where steps: "kw (ke_random24 env) s = (Inr bytes, s1)" "prisma_call env [''key'', ''ownerId'', ''tier''] s1 = (Inr (), s2)"
      "kw (ke_uuid env) s2 = (Inr j, s3)" "\<exists>q. ks_rows t = js_set j q (ks_rows s3)" "days = None \<longrightarrow> kd_expiresAt k = None"
    unfolding createKey_def bind_returns Let_def
    by (auto simp: bind_returns eget_def ereturn_def ethrow_def emodify_def split: if_splits; blast)
  have "ks_rows s3 = ks_rows s"
    using steps(1,2,3) by (auto simp: prisma_call_def ethrow_def dest!: kw_rows split: if_splits)
  moreover obtain w w' where "ke_uuid env w = (Inr j, w')" using steps(3) by (auto simp: kw_def split: prod.splits)
  ultimately show ?thesis using steps(4,5) by auto
qed

text \<open>A revoked key keeps its tier: the middleware that reads the tier of a key looks at neither the flag nor the time, so that after a revocation
  the key is accepted as before, from the table or from the cache.
\<close>
theorem revoked_key_keeps_tier:
  fixes env :: "'w keys_env"
  assumes db: "\<forall>w. ke_db env w = (Inr (), w)" and model: "set [''id'', ''key'', ''ownerId'', ''tier'', ''isActive''] \<subseteq> set (ke_model env)"
    and revoked: "revokeApiKey env i owner s = (Inr True, s')" and row: "row_of_key k (ks_rows s) = Some (i, r)" "js_get (ks_rows s) i = Some r" "k \<noteq> []"
    and cache: "\<forall>c w. fst (kr_get (ke_redis env) c w) = Inr None \<and> (\<exists>w'. kr_setex (ke_redis env) c 300 (ak_tier r) w = (Inr (), w'))"
  shows "\<exists>t. apiKeyMiddleware env (Some k) s' = (Inr (Next (Some k, ak_tier r)), t) \<and> fst (findActiveKey env k s') = Inr None"
proof -
  have ok: "prisma_call env names s = (Inr (), s)" if "set names \<subseteq> set (ke_model env)" for names s
    using that db by (simp add: prisma_call_def kw_def)
  have s': "s' = s\<lparr>ks_rows := js_set i (r\<lparr>ak_isActive := False\<rparr>) (ks_rows s)\<rparr>"
    using revoked row(2) model ok by (auto simp: revokeApiKey_def eff_defs split: if_splits)
  have found: "row_of_key k (js_set i (r\<lparr>ak_isActive := False\<rparr>) m) = Some (i, r\<lparr>ak_isActive := False\<rparr>)"
    if "row_of_key k m = Some (i, r)" "js_get m i = Some r" "ak_key r = k" for m
    using that by (induction m) (auto simp: row_of_key_def split: if_splits prod.splits)
  have "ak_key r = k" using row(1) by (auto simp: row_of_key_def find_Some_iff)
  note found = found [OF row(1,2) this]
  have truthy: "truthy_str (Some k) = Some k" "truthy_str None = None" using row(3) by (cases k; simp add: truthy_str_def)+
  obtain w where get: "kr_get (ke_redis env) (''apikey:'' @ k) (ks_world s) = (Inr None, w)" using cache by (metis eq_fst_iff)
  obtain w' where set: "kr_setex (ke_redis env) (''apikey:'' @ k) 300 (ak_tier r) w = (Inr (), w')" using cache by blast
  have "apiKeyMiddleware env (Some k) s' = (Inr (Next (Some k, ak_tier r)), s'\<lparr>ks_world := w'\<rparr>)"
    using model by (simp add: apiKeyMiddleware_def truthy eff_defs kw_def s' get [simplified] ok found set [simplified] Let_def)
  moreover have "fst (findActiveKey env k s') = Inr None"
    using model by (simp add: findActiveKey_def eff_defs s' ok found)
  ultimately show ?thesis by blast
qed

text \<open>The overlap of a rotation is a date in the answer and nothing else: after it the old key is active as before, at any time.\<close>

theorem rotated_key_never_expires:
  fixes env :: "'w keys_env"
  assumes run: "rotateKey env owner i days s = (Inr (newKey, until), s')" and row: "row_of_key k (ks_rows s) = Some (i, r)" "js_get (ks_rows s) i = Some r"
    and uuid: "\<forall>w. \<exists>w' n. ke_uuid env w = (Inr n, w') \<and> js_get (ks_rows s) n = None" and later: "ks_rows s2 = ks_rows s'" "ke_db env (ks_world s2) = (Inr (), w)"
    "''key'' \<in> set (ke_model env)"
  shows "fst (findActiveKey env k s2) = Inr (Some (record_of i r)) \<and> kd_expiresAt newKey = None"
proof -
  have rows: "\<exists>j q. ks_rows s' = js_set j q (ks_rows s) \<and> js_get (ks_rows s) j = None" and active: "ak_isActive r" and new: "kd_expiresAt newKey = None"
  proof -
    obtain s1 where 1: "prisma_call env [''id'', ''ownerId'', ''isActive''] s = (Inr (), s1)" "ks_rows s1 = ks_rows s"
      using run by (auto simp: rotateKey_def prisma_call_def eff_defs dest: kw_rows split: prod.splits sum.splits if_splits)
    have old: "ak_owner r = owner" "ak_isActive r" using run 1 row(2) by (auto simp: rotateKey_def eff_defs split: if_splits)
    then obtain t where create: "createKey env owner (ak_tier r) None s1 = (Inr newKey, t)" "ks_rows s' = ks_rows t"
      using run 1 row(2) by (auto simp: rotateKey_def eff_defs split: prod.splits sum.splits)
    have "\<exists>j q. ks_rows t = js_set j q (ks_rows s) \<and> js_get (ks_rows s) j = None"
      using createKey_adds [OF create(1)] 1(2) uuid by (metis Pair_inject sum.inject(2))
    then show "\<exists>j q. ks_rows s' = js_set j q (ks_rows s) \<and> js_get (ks_rows s) j = None" using create(2) by simp
    show "ak_isActive r" by (rule old)
    show "kd_expiresAt newKey = None"
      using createKey_adds [OF create(1)] by blast
  qed
  have found: "row_of_key k (js_set j q m) = Some (i, r)" if "row_of_key k m = Some (i, r)" "js_get m j = None" for j q m
    using that by (induction m) (auto simp: row_of_key_def split: if_splits prod.splits)
  show ?thesis using rows active new later found [OF row(1)]
    by (auto simp: findActiveKey_def prisma_call_def kw_def eff_defs)
qed

section \<open>Witnesses\<close>

type_synonym demo_counts = "(string \<Rightarrow> (int \<times> int option) option) \<times> int"

definition demo_counters :: "demo_counts key_redis" where
  "demo_counters = \<lparr>
     kr_incr = (\<lambda>k (v, t). let n = (case v k of Some (m, _) \<Rightarrow> m + 1 | None \<Rightarrow> 1) in (Inr n, (v(k \<mapsto> (n, Option.bind (v k) snd)), t))),
     kr_expire = (\<lambda>k sec (v, t). (Inr (), (v(k := map_option (\<lambda>(n, _). (n, Some (t + 1000 * sec))) (v k)), t))),
     kr_pttl = (\<lambda>k w. (Inr 0, w)), kr_get = (\<lambda>k w. (Inr None, w)), kr_setex = (\<lambda>k t v w. (Inr (), w))\<rparr>"

definition demo_elapse :: "int \<Rightarrow> demo_counts \<Rightarrow> demo_counts" where
  "demo_elapse d = (\<lambda>(v, t). (\<lambda>k. case v k of Some (n, Some e) \<Rightarrow> if t + d < e then Some (n, Some e) else None | x \<Rightarrow> x, t + d))"

definition demo_keys :: "demo_counts key_redis \<Rightarrow> demo_counts keys_env" where
  "demo_keys r = \<lparr>ke_db = (\<lambda>w. (Inr (), w)), ke_model = [''id'', ''key'', ''ownerId'', ''tier'', ''isActive''], ke_users = (\<lambda>k w. (Inr (Some k), w)),
     ke_random24 = (\<lambda>w. (Inr (replicate 24 (CHR ''x'')), w)), ke_uuid = (\<lambda>w. (Inr ''i2'', w)), ke_now = snd, ke_vars = (\<lambda>_. None), ke_redis = r\<rparr>"

definition demo_key :: api_key where
  "demo_key = \<lparr>ak_key = ''k'', ak_owner = ''o'', ak_tier = ''Free'', ak_isActive = True, ak_createdAt = 0, ak_usageCount = 0\<rparr>"

definition demo_key_state :: "demo_counts keys_state" where
  "demo_key_state = \<lparr>ks_rows = [(''i1'', demo_key)], ks_world = (\<lambda>_. None, 0)\<rparr>"

definition free_limits :: tier_limits where "free_limits = \<lparr>tl_burst = js_int 5, tl_sustained = js_int 60\<rparr>"

lemma demo_windows_ok: "counts_in demo_counters snd fst" "answers_always demo_counters" "elapses demo_elapse snd fst"
  by (auto simp: counts_in_def answers_always_def elapses_def demo_counters_def demo_elapse_def Let_def split: option.splits)

lemma demo_setting: "keyed_request (demo_keys r) ''/sep38/price'' ''k'' free_limits (ks_rows demo_key_state)"
  by (simp add: keyed_request_def demo_keys_def demo_key_state_def demo_key_def row_of_key_def BYPASS_PATHS_def starts_with_def
      getLimits_def DEFAULT_TIERS_def TIER_ENV_KEYS_def limit_of_def free_limits_def)

theorem minute_lets_in_two_windows_witness:
  "int (length (filter (\<lambda>b. b) (serve (demo_keys demo_counters) demo_elapse ''/sep38/price'' ''k'' [5, 0, 100, 59000] demo_key_state))) \<le> 60"
proof -
  have redis: "ke_redis (demo_keys demo_counters) = demo_counters" by (simp add: demo_keys_def)
  show ?thesis
    using minute_lets_in_two_windows [of "demo_keys demo_counters", unfolded redis, OF demo_windows_ok demo_setting,
        of 60 "[5, 0, 100, 59000]"]
    by (simp add: free_limits_def demo_key_state_def)
qed

text \<open>Redis fails between the two calls of the minute.\<close>

definition failing_counters :: "demo_counts key_redis" where
  "failing_counters = demo_counters\<lparr>kr_expire := \<lambda>k sec (v, t). if k = sustained_key ''k'' then (Inl (PlainError ''Connection is closed.''), (v, t))
     else (Inr (), (v(k := map_option (\<lambda>(n, _). (n, Some (t + 1000 * sec))) (v k)), t))\<rparr>"

lemma failing_counters_ok: "counts_in failing_counters snd fst"
  by (auto simp: counts_in_def failing_counters_def demo_counters_def Let_def split: option.splits)

theorem failed_expire_locks_key_witness:
  "\<exists>a s'. dynamicRateLimiter (demo_keys failing_counters) ''/sep38/price'' (Some ''k'') demo_key_state = (Inr (Next a), s')
    \<and> int (length (filter (\<lambda>b. b) (serve (demo_keys demo_counters) demo_elapse ''/sep38/price'' ''k'' (replicate 1000 86400000) s'))) \<le> 59"
proof -
  have redis: "ke_redis (demo_keys r) = r" for r by (simp add: demo_keys_def)
  have keys: "burst_key ''k'' \<noteq> sustained_key ''k''" by (simp add: burst_key_def sustained_key_def)
  let ?v = "(\<lambda>_. None)(burst_key ''k'' \<mapsto> (1 :: int, Some (1000 :: int)))"
  have less: "\<not> js_less (js_int 5) (js_int 1)" by (simp add: js_int_less)
  have burst: "window_check failing_counters (burst_key ''k'') 1 (tl_burst free_limits) (ks_world demo_key_state) = (Inr (Inl 1), (?v, 0))"
    using keys less by (simp add: window_check_def count_request_def eff_defs failing_counters_def demo_counters_def demo_key_state_def free_limits_def Let_def)
  have incr: "kr_incr failing_counters (sustained_key ''k'') (?v, 0) = (Inr 1, (?v(sustained_key ''k'' \<mapsto> (1, None)), 0))"
    using keys by (simp add: failing_counters_def demo_counters_def)
  have fails: "kr_expire failing_counters (sustained_key ''k'') 60 (?v(sustained_key ''k'' \<mapsto> (1, None)), 0)
      = (Inl (PlainError ''Connection is closed.''), (?v(sustained_key ''k'' \<mapsto> (1, None)), 0))"
    by (simp add: failing_counters_def)
  have fresh: "fst (ks_world demo_key_state) (sustained_key ''k'') = None" "fst (?v, 0) (sustained_key ''k'') = None"
    using keys by (simp_all add: demo_key_state_def)
  have L: "tl_sustained free_limits = js_int 60" by (simp add: free_limits_def)
  from failed_expire_locks_key [of "demo_keys failing_counters" snd fst "''/sep38/price''" "''k''" free_limits demo_key_state 1 "(?v, 0)"
      _ _ _ _ "demo_keys demo_counters" demo_elapse 60 "replicate 1000 86400000", unfolded redis,
      OF failing_counters_ok demo_setting fresh(1) burst fresh(2) incr fails demo_windows_ok demo_setting L]
  obtain a s' where "dynamicRateLimiter (demo_keys failing_counters) ''/sep38/price'' (Some ''k'') demo_key_state = (Inr (Next a), s')"
    "int (length (filter (\<lambda>b. b) (serve (demo_keys demo_counters) demo_elapse ''/sep38/price'' ''k'' (replicate 1000 86400000) s'))) \<le> max 0 (60 - 1)"
    by auto
  then show ?thesis by (intro exI [of _ a] exI [of _ s']) simp
qed

theorem revoked_key_keeps_tier_witness:
  "\<exists>t. apiKeyMiddleware (demo_keys demo_counters) (Some ''k'') (demo_key_state\<lparr>ks_rows := [(''i1'', demo_key\<lparr>ak_isActive := False\<rparr>)]\<rparr>)
     = (Inr (Next (Some ''k'', ''Free'')), t)"
proof -
  have "revokeApiKey (demo_keys demo_counters) ''i1'' ''o'' demo_key_state = (Inr True, demo_key_state\<lparr>ks_rows := [(''i1'', demo_key\<lparr>ak_isActive := False\<rparr>)]\<rparr>)"
    by (simp add: revokeApiKey_def prisma_call_def kw_def eff_defs demo_keys_def demo_key_state_def demo_key_def)
  from revoked_key_keeps_tier [OF _ _ this, of "''k''" demo_key] show ?thesis
    by (simp add: demo_keys_def demo_key_state_def demo_key_def row_of_key_def demo_counters_def)
qed

theorem rotated_key_never_expires_witness:
  "fst (findActiveKey (demo_keys demo_counters) ''k'' (snd (rotateKey (demo_keys demo_counters) ''o'' ''i1'' 7 demo_key_state)\<lparr>ks_world := (\<lambda>_. None, 10 ^ 15)\<rparr>))
     = Inr (Some (record_of ''i1'' demo_key))"
proof -
  define K where "K = hex (replicate 24 (CHR ''x''))"
  have valid: "isValidApiKeyFormat K" unfolding K_def by code_simp
  then have other: "''k'' \<noteq> K" by (auto simp: isValidApiKeyFormat_def)
  obtain n u t where run: "rotateKey (demo_keys demo_counters) ''o'' ''i1'' 7 demo_key_state = (Inr (n, u), t)"
    using valid other by (simp add: rotateKey_def createKey_def prisma_call_def kw_def eff_defs demo_keys_def demo_key_state_def demo_key_def row_of_key_def
        Let_def K_def [symmetric])
  show ?thesis
    using rotated_key_never_expires [OF run, of "''k''" demo_key "t\<lparr>ks_world := (\<lambda>_. None, 10 ^ 15)\<rparr>"]
    by (simp add: run) (simp add: demo_keys_def demo_key_state_def demo_key_def row_of_key_def)
qed

end
