(* ===== verification/Kyc_Provider.thy ===== *)
theory Kyc_Provider
  imports Batch_Types Js_Text Json_Text
begin

text \<open>
  \<open>backend/src/services/kyc-provider.service.ts\<close>: the providers that check customers, how a status of theirs is read, the messages they
  send back, and the two engines that tell a partner of a change. The HTTP client, HMAC and the circuit breaker of the library opossum
  are parameters.
\<close>

section \<open>Statuses and requests\<close>

datatype kyc_status = KPending | KAccepted | KRejected | KProviderRetry

record kyc_submission =
  ks_account :: string
  ks_firstName :: "string option"
  ks_lastName :: "string option"
  ks_email :: "string option"
  ks_extraFields :: "(string \<times> json) list"

record kyc_result =
  kr_success :: bool
  kr_status :: kyc_status
  kr_providerRef :: "string option"
  kr_message :: "string option"

record kyc_event =
  kv_account :: "string option"
  kv_providerRef :: "string option"
  kv_status :: kyc_status

text \<open>The interface \<open>IKycProvider\<close>; checking a signature may throw.\<close>

record 'w kyc_provider =
  kp_name :: string
  kp_submit :: "kyc_submission \<Rightarrow> (string, json) jsmap \<Rightarrow> ('w, js_error, kyc_result) eff"
  kp_verify :: "string \<Rightarrow> string option \<Rightarrow> bool"
  kp_parse :: "json \<Rightarrow> kyc_event option"

section \<open>Reading a payload\<close>

definition asRecord :: "json \<Rightarrow> (string \<times> json) list option" where
  "asRecord v = (case v of JObj ps \<Rightarrow> Some ps | JArr xs \<Rightarrow> Some (zip (List.map show_nat [0..<length xs]) xs) | _ \<Rightarrow> None)"

text \<open>\<open>asRecord(obj?.k)\<close>.\<close>

definition record_at :: "(string \<times> json) list option \<Rightarrow> string \<Rightarrow> (string \<times> json) list option" where
  "record_at obj k = Option.bind obj (\<lambda>ps. Option.bind (js_get ps k) asRecord)"

fun getString :: "(string \<times> json) list option \<Rightarrow> string list \<Rightarrow> string option" where
  "getString None ks = None"
| "getString (Some ps) [] = None"
| "getString (Some ps) (k # ks) = (case js_get ps k of
     Some (JStr v) \<Rightarrow> if v \<noteq> [] then Some v else getString (Some ps) ks
   | _ \<Rightarrow> getString (Some ps) ks)"

text \<open>\<open>a ?? b\<close>.\<close>

definition or_else :: "'a option \<Rightarrow> 'a option \<Rightarrow> 'a option" where
  "or_else a b = (case a of Some _ \<Rightarrow> a | None \<Rightarrow> b)"

definition extractStatusToken :: "string \<Rightarrow> string" where
  "extractStatusToken rawStatus = (let value = List.map to_lower rawStatus in
     if CHR ''.'' \<in> set value then last (split_char (CHR ''.'') value)
     else List.map (\<lambda>c. if c = CHR ''_'' then CHR ''-'' else c) value)"

definition accepted_tokens :: "string list" where
  "accepted_tokens = [''approved'', ''accepted'', ''completed'', ''verified'', ''clear'']"

definition rejected_tokens :: "string list" where
  "rejected_tokens = [''declined'', ''rejected'', ''denied'', ''failed'']"

definition normalizeStatus :: "string \<Rightarrow> kyc_status" where
  "normalizeStatus rawStatus = (let value = extractStatusToken rawStatus in
     if value \<in> set accepted_tokens then KAccepted
     else if value \<in> set rejected_tokens then KRejected
     else KPending)"

definition status_or_pending :: "string option \<Rightarrow> kyc_status" where
  "status_or_pending s = (case s of Some t \<Rightarrow> normalizeStatus t | None \<Rightarrow> KPending)"

text \<open>Two buffers of the same length, compared byte by byte.\<close>

definition timingSafeMatch :: "string \<Rightarrow> string \<Rightarrow> bool" where
  "timingSafeMatch expected actual = (if length expected \<noteq> length actual then False else list_all (\<lambda>(a, b). a = b) (zip expected actual))"

section \<open>The mock provider\<close>

definition includes_text :: "string \<Rightarrow> string \<Rightarrow> bool" where
  "includes_text w s \<longleftrightarrow> (\<exists>i \<in> set [0..<Suc (length s)]. starts_with w (drop i s))"

definition mock_submit :: "('w \<Rightarrow> int) \<Rightarrow> kyc_submission \<Rightarrow> (string, json) jsmap \<Rightarrow> ('w, js_error, kyc_result) eff" where
  "mock_submit clock data documents = ebind (eget clock) (\<lambda>now.
     let ref = Some (''mock_'' @ show_int now);
         has = (\<lambda>w. case truthy_str (ks_email data) of Some e \<Rightarrow> includes_text w e | None \<Rightarrow> False) in
     ereturn (if has ''reject'' then \<lparr>kr_success = True, kr_status = KRejected, kr_providerRef = ref, kr_message = Some ''Customer rejected by risk policy.''\<rparr>
       else if has ''pending'' then \<lparr>kr_success = True, kr_status = KPending, kr_providerRef = ref,
         kr_message = Some ''Customer submitted successfully. Pending review.''\<rparr>
       else \<lparr>kr_success = True, kr_status = KAccepted, kr_providerRef = ref, kr_message = Some ''Customer approved automatically.''\<rparr>))"

definition mock_parse :: "json \<Rightarrow> kyc_event option" where
  "mock_parse payload = (case asRecord payload of
     None \<Rightarrow> None
   | Some body \<Rightarrow>
       let account = getString (Some body) [''account'']; providerRef = getString (Some body) [''providerRef''] in
       if account = None \<and> providerRef = None then None
       else Some \<lparr>kv_account = account, kv_providerRef = providerRef, kv_status = status_or_pending (getString (Some body) [''status''])\<rparr>)"

definition mock_provider :: "('w \<Rightarrow> int) \<Rightarrow> 'w kyc_provider" where
  "mock_provider clock = \<lparr>kp_name = ''mock'', kp_submit = mock_submit clock,
     kp_verify = (\<lambda>_ signature. signature = Some ''mock-valid-signature''), kp_parse = mock_parse\<rparr>"

section \<open>Persona and Shufti\<close>

text \<open>What the two providers use: their settings, \<open>fetch\<close> with the headers and the body that are given, base64 and HMAC in hexadecimal.\<close>

record kyc_config =
  kf_personaApiKey :: "string option"
  kf_personaApiUrl :: string
  kf_shuftiClientId :: "string option"
  kf_shuftiSecretKey :: "string option"
  kf_shuftiApiUrl :: string
  kf_interactiveUrl :: string
  kf_webhookSecret :: "string option"

record kyc_response =
  kh_ok :: bool
  kh_status :: int
  kh_body :: "js_error + json"

record 'w kyc_env =
  kv_config :: kyc_config
  kv_fetch :: "string \<Rightarrow> (string \<times> string) list \<Rightarrow> string \<Rightarrow> ('w, js_error, kyc_response) eff"
  kv_hmac :: "string \<Rightarrow> string \<Rightarrow> string"
  kv_now :: "'w \<Rightarrow> int"

definition opt_json :: "string option \<Rightarrow> json" where
  "opt_json v = (case v of Some s \<Rightarrow> JStr s | None \<Rightarrow> JUndef)"

text \<open>\<open>{ ...a, ...b }\<close>.\<close>

definition merge_objects :: "(string \<times> json) list \<Rightarrow> (string \<times> json) list \<Rightarrow> (string \<times> json) list" where
  "merge_objects a b = foldl (\<lambda>m (k, v). js_set k v m) a b"

definition hmac_verify :: "'w kyc_env \<Rightarrow> string \<Rightarrow> string option \<Rightarrow> bool" where
  "hmac_verify env payload signature = (case (truthy_str (kf_webhookSecret (kv_config env)), truthy_str signature) of
     (Some secret, Some s) \<Rightarrow> timingSafeMatch (kv_hmac env secret payload) s | _ \<Rightarrow> False)"

text \<open>A field of the answer that is a text; reading a member of \<open>undefined\<close> does not throw here, as the code uses \<open>?.\<close>.\<close>

definition answer_text :: "json \<Rightarrow> string list \<Rightarrow> string option" where
  "answer_text v path = (case foldl (\<lambda>x k. case x of JObj ps \<Rightarrow> (case js_get ps k of Some y \<Rightarrow> y | None \<Rightarrow> JUndef) | _ \<Rightarrow> JUndef) v path of
     JStr s \<Rightarrow> Some s | _ \<Rightarrow> None)"

definition persona_body :: "kyc_submission \<Rightarrow> (string, json) jsmap \<Rightarrow> json" where
  "persona_body data documents = JObj [(''data'', JObj [(''type'', JStr ''inquiry''), (''attributes'', JObj
     [(''referenceId'', JStr (ks_account data)),
      (''fields'', JObj (js_set ''documents'' (JObj documents) (merge_objects
         [(''nameFirst'', opt_json (ks_firstName data)), (''nameLast'', opt_json (ks_lastName data)), (''emailAddress'', opt_json (ks_email data))]
         (ks_extraFields data))))])])]"

definition persona_submit :: "'w kyc_env \<Rightarrow> kyc_submission \<Rightarrow> (string, json) jsmap \<Rightarrow> ('w, js_error, kyc_result) eff" where
  "persona_submit env data documents = (case truthy_str (kf_personaApiKey (kv_config env)) of
     None \<Rightarrow> ethrow (PlainError ''PERSONA_API_KEY is required when KYC_PROVIDER=persona'')
   | Some apiKey \<Rightarrow>
       ebind (kv_fetch env (kf_personaApiUrl (kv_config env) @ ''/inquiries'')
         [(''Authorization'', ''Bearer '' @ apiKey), (''Content-Type'', ''application/json'')] (json_stringify (persona_body data documents))) (\<lambda>r.
       if \<not> kh_ok r then ethrow (PlainError (''Persona submission failed with status '' @ show_int (kh_status r)))
       else ebind (elift (kh_body r)) (\<lambda>body. ereturn
         \<lparr>kr_success = True, kr_status = normalizeStatus (case answer_text body [''data'', ''attributes'', ''status''] of Some s \<Rightarrow> s | None \<Rightarrow> ''pending''),
          kr_providerRef = answer_text body [''data'', ''id''], kr_message = None\<rparr>)))"

definition persona_parse :: "json \<Rightarrow> kyc_event option" where
  "persona_parse payload = (case record_at (asRecord payload) ''data'' of
     None \<Rightarrow> None
   | Some data \<Rightarrow>
       let attributes = record_at (Some data) ''attributes'';
           inquiry = record_at (record_at attributes ''payload'') ''data'';
           inquiryAttributes = record_at inquiry ''attributes'';
           providerRef = or_else (getString inquiry [''id'']) (getString (Some data) [''id'']);
           account = or_else (getString inquiryAttributes [''reference-id'', ''referenceId'']) (getString attributes [''reference-id'', ''referenceId'']);
           statusSource = or_else (or_else (getString inquiryAttributes [''status'']) (getString attributes [''name''])) (getString attributes [''status''])
       in if providerRef = None \<and> account = None then None
          else Some \<lparr>kv_account = account, kv_providerRef = providerRef, kv_status = status_or_pending statusSource\<rparr>)"

definition persona_provider :: "'w kyc_env \<Rightarrow> 'w kyc_provider" where
  "persona_provider env = \<lparr>kp_name = ''persona'', kp_submit = persona_submit env, kp_verify = hmac_verify env, kp_parse = persona_parse\<rparr>"

definition shufti_body :: "'w kyc_env \<Rightarrow> kyc_submission \<Rightarrow> (string, json) jsmap \<Rightarrow> json" where
  "shufti_body env data documents = JObj [(''reference'', JStr (ks_account data)), (''email'', opt_json (ks_email data)),
     (''country'', case js_get (ks_extraFields data) ''country'' of Some v \<Rightarrow> v | None \<Rightarrow> JUndef),
     (''callback_url'', JStr (kf_interactiveUrl (kv_config env) @ ''/sep12/webhook'')), (''verification_mode'', JStr ''image_only''),
     (''document'', JObj (merge_objects [(''proof'', JStr ''id_card'')] documents))]"

definition shufti_submit :: "'w kyc_env \<Rightarrow> kyc_submission \<Rightarrow> (string, json) jsmap \<Rightarrow> ('w, js_error, kyc_result) eff" where
  "shufti_submit env data documents = (case (truthy_str (kf_shuftiClientId (kv_config env)), truthy_str (kf_shuftiSecretKey (kv_config env))) of
     (Some clientId, Some secretKey) \<Rightarrow>
       ebind (kv_fetch env (kf_shuftiApiUrl (kv_config env))
         [(''Authorization'', ''Basic '' @ base64 (clientId @ '':'' @ secretKey)), (''Content-Type'', ''application/json'')]
         (json_stringify (shufti_body env data documents))) (\<lambda>r.
       if \<not> kh_ok r then ethrow (PlainError (''Shufti submission failed with status '' @ show_int (kh_status r)))
       else ebind (elift (kh_body r)) (\<lambda>body. ereturn
         \<lparr>kr_success = True,
          kr_status = normalizeStatus (case or_else (answer_text body [''verification_status'']) (answer_text body [''event'']) of Some s \<Rightarrow> s | None \<Rightarrow> ''pending''),
          kr_providerRef = answer_text body [''reference''], kr_message = None\<rparr>))
   | _ \<Rightarrow> ethrow (PlainError ''SHUFTI_CLIENT_ID and SHUFTI_SECRET_KEY are required when KYC_PROVIDER=shufti''))"

definition shufti_parse :: "json \<Rightarrow> kyc_event option" where
  "shufti_parse payload = (case asRecord payload of
     None \<Rightarrow> None
   | Some body \<Rightarrow>
       (case getString (Some body) [''reference''] of
          None \<Rightarrow> None
        | Some ref \<Rightarrow> Some \<lparr>kv_account = Some ref, kv_providerRef = Some ref,
            kv_status = status_or_pending (getString (Some body) [''verification_status'', ''event''])\<rparr>))"

definition shufti_provider :: "'w kyc_env \<Rightarrow> 'w kyc_provider" where
  "shufti_provider env = \<lparr>kp_name = ''shufti'', kp_submit = shufti_submit env, kp_verify = hmac_verify env, kp_parse = shufti_parse\<rparr>"

section \<open>The provider behind its breaker\<close>

text \<open>\<open>fire\<close> runs the action through the breaker, or does not; whatever then fails, the fallback is the result.\<close>

definition breaker_fallback :: kyc_result where
  "breaker_fallback = \<lparr>kr_success = False, kr_status = KProviderRetry, kr_providerRef = None,
     kr_message = Some ''KYC provider is currently unavailable. Will retry later.''\<rparr>"

definition behind_breaker :: "(('w, js_error, kyc_result) eff \<Rightarrow> ('w, js_error, kyc_result) eff) \<Rightarrow> 'w kyc_provider \<Rightarrow> 'w kyc_provider" where
  "behind_breaker fire p = p\<lparr>kp_submit := (\<lambda>data documents. ecatch (fire (kp_submit p data documents)) (\<lambda>_. ereturn breaker_fallback))\<rparr>"

definition createKycProvider :: "'w kyc_env \<Rightarrow> (('w, js_error, kyc_result) eff \<Rightarrow> ('w, js_error, kyc_result) eff) \<Rightarrow> string \<Rightarrow> 'w kyc_provider" where
  "createKycProvider env fire provider = behind_breaker fire
     (if provider = ''persona'' then persona_provider env
      else if provider = ''shufti'' then shufti_provider env
      else mock_provider (kv_now env))"

section \<open>Telling a partner\<close>

record delivery_log =
  dl_attempt :: nat
  dl_timestamp :: int
  dl_statusCode :: "int option"
  dl_error :: "string option"
  dl_success :: bool

record outbound_result =
  ob_delivered :: bool
  ob_attempts :: nat
  ob_statusCode :: "int option"
  ob_logs :: "delivery_log list"
  ob_error :: "string option"

record retry_engine =
  re_maxRetries :: nat
  re_baseDelayMs :: nat

definition default_retry_engine :: retry_engine where
  "default_retry_engine = \<lparr>re_maxRetries = 5, re_baseDelayMs = 2000\<rparr>"

definition getBackoffDelay :: "retry_engine \<Rightarrow> nat \<Rightarrow> nat" where
  "getBackoffDelay e attempt = re_baseDelayMs e * 2 ^ max 0 (attempt - 1)"

text \<open>The state is the world and the delays slept; a call answers with the status, or fails.\<close>

record 'w outbound =
  ow_world :: 'w
  ow_slept :: "nat list"

definition attempt_call :: "('w \<Rightarrow> int) \<Rightarrow> (nat \<Rightarrow> ('w, js_error, bool \<times> int) eff) \<Rightarrow> nat \<Rightarrow> 'w outbound \<Rightarrow> (int \<times> (js_error + bool \<times> int)) \<times> 'w outbound" where
  "attempt_call clock call attempt s = (case call attempt (ow_world s) of (r, w) \<Rightarrow> ((clock (ow_world s), r), s\<lparr>ow_world := w\<rparr>))"

definition sleep_between :: "retry_engine \<Rightarrow> nat \<Rightarrow> 'w outbound \<Rightarrow> 'w outbound" where
  "sleep_between e attempt s = (if attempt < re_maxRetries e then s\<lparr>ow_slept := ow_slept s @ [getBackoffDelay e attempt]\<rparr> else s)"

text \<open>The loop from an attempt on: what was logged, the last status and the last error so far.\<close>

function send_from :: "retry_engine \<Rightarrow> ('w \<Rightarrow> int) \<Rightarrow> (nat \<Rightarrow> ('w, js_error, bool \<times> int) eff) \<Rightarrow> nat \<Rightarrow> delivery_log list \<Rightarrow> int option \<Rightarrow> string option
    \<Rightarrow> 'w outbound \<Rightarrow> outbound_result \<times> 'w outbound" where
  "send_from e clock call attempt logs code err s =
     (if attempt > re_maxRetries e
      then (\<lparr>ob_delivered = False, ob_attempts = re_maxRetries e, ob_statusCode = code, ob_logs = logs,
             ob_error = Some (case err of Some m \<Rightarrow> m | None \<Rightarrow> ''Exhausted retry attempts'')\<rparr>, s)
      else case attempt_call clock call attempt s of
        ((t, Inr (True, status)), s') \<Rightarrow>
          (\<lparr>ob_delivered = True, ob_attempts = attempt, ob_statusCode = Some status,
            ob_logs = logs @ [\<lparr>dl_attempt = attempt, dl_timestamp = t, dl_statusCode = Some status, dl_error = None, dl_success = True\<rparr>],
            ob_error = None\<rparr>, s')
      | ((t, Inr (False, status)), s') \<Rightarrow> let m = ''HTTP '' @ show_int status in
          send_from e clock call (attempt + 1)
            (logs @ [\<lparr>dl_attempt = attempt, dl_timestamp = t, dl_statusCode = Some status, dl_error = Some m, dl_success = False\<rparr>])
            (Some status) (Some m) (sleep_between e attempt s')
      | ((t, Inl x), s') \<Rightarrow> let m = (case error_message x of Some m \<Rightarrow> m | None \<Rightarrow> error_text x) in
          send_from e clock call (attempt + 1)
            (logs @ [\<lparr>dl_attempt = attempt, dl_timestamp = t, dl_statusCode = None, dl_error = Some m, dl_success = False\<rparr>])
            code (Some m) (sleep_between e attempt s'))"
  by pat_completeness auto

termination by (relation "measure (\<lambda>(e, _, _, attempt, _). Suc (re_maxRetries e) - attempt)") auto

definition sendOutboundKycWebhook :: "retry_engine \<Rightarrow> ('w \<Rightarrow> int) \<Rightarrow> (nat \<Rightarrow> ('w, js_error, bool \<times> int) eff) \<Rightarrow> 'w outbound \<Rightarrow> outbound_result \<times> 'w outbound" where
  "sendOutboundKycWebhook e clock call s = send_from e clock call 1 [] None None s"

text \<open>One poll: the customer is submitted again, without documents.\<close>

record poll_result =
  pr_currentStatus :: kyc_status
  pr_statusChanged :: bool
  pr_webhookResult :: "outbound_result option"

definition pollAndNotifyStatusChange :: "'w kyc_provider \<Rightarrow> retry_engine \<Rightarrow> ('w \<Rightarrow> int) \<Rightarrow> kyc_submission \<Rightarrow> kyc_status \<Rightarrow> string option
    \<Rightarrow> (string \<Rightarrow> string \<Rightarrow> kyc_status \<Rightarrow> nat \<Rightarrow> ('w, js_error, bool \<times> int) eff) \<Rightarrow> ('w outbound, js_error, poll_result) eff" where
  "pollAndNotifyStatusChange p e clock data previousStatus url post s =
     (case kp_submit p data [] (ow_world s) of
        (Inl x, w) \<Rightarrow> (Inl x, s\<lparr>ow_world := w\<rparr>)
      | (Inr r, w) \<Rightarrow>
          let changed = kr_status r \<noteq> previousStatus in
          (case truthy_str url of
             Some u \<Rightarrow> if changed
               then (case sendOutboundKycWebhook e clock (post u (ks_account data) (kr_status r)) (s\<lparr>ow_world := w\<rparr>) of (d, s') \<Rightarrow>
                 (Inr \<lparr>pr_currentStatus = kr_status r, pr_statusChanged = changed, pr_webhookResult = Some d\<rparr>, s'))
               else (Inr \<lparr>pr_currentStatus = kr_status r, pr_statusChanged = changed, pr_webhookResult = None\<rparr>, s\<lparr>ow_world := w\<rparr>)
           | None \<Rightarrow> (Inr \<lparr>pr_currentStatus = kr_status r, pr_statusChanged = changed, pr_webhookResult = None\<rparr>, s\<lparr>ow_world := w\<rparr>)))"

end
