(* ===== verification/Sep12.thy ===== *)
theory Sep12
  imports Kyc_Provider Documents Js_Date
begin

text \<open>
  SEP-12 customers: \<open>backend/src/api/controllers/sep12.controller.ts\<close>, \<open>services/data-retention.service.ts\<close>, the part of \<open>services/kyc.service.ts\<close> on
  expiring customers, and the checks of \<open>api/routes/sep12.route.ts\<close> on the size of an upload. The tables of users and customers, the
  store of uploads (theory \<open>Documents\<close>) and what was handed to the webhook service are the state; the database may fail. Personal fields
  are encrypted by the service of theory \<open>Pii_Crypto\<close>, in whose world the provider acts as well. Dates are milliseconds.
\<close>

section \<open>Rows\<close>

datatype kyc_db_status = K_PENDING | K_ACCEPTED | K_REJECTED | K_EXPIRING_SOON

record kyc_customer =
  kc_userId :: string
  kc_provider :: "string option"
  kc_providerRef :: "string option"
  kc_firstName :: "string option"
  kc_lastName :: "string option"
  kc_email :: "string option"
  kc_extraFields :: "string option"
  kc_status :: kyc_db_status
  kc_expiresAt :: "int option"
  kc_deletedAt :: "int option"

text \<open>Users by their public key; customers by their id. A change of status that was handed to the webhook service: the customer, the status
  before and after, and the reasons.\<close>

record status_change =
  sc_customer :: string
  sc_previous :: kyc_db_status
  sc_next :: kyc_db_status
  sc_reasons :: json

record 'd sep12_state =
  s12_users :: "(string, string) jsmap"
  s12_customers :: "(string, kyc_customer) jsmap"
  s12_uploads :: upload_store
  s12_sent :: "status_change list"
  s12_warned :: "(string \<times> string) list"
  s12_world :: "'d pii_world"

type_synonym ('d, 'a) sep12 = "('d sep12_state, js_error, 'a) eff"

record 'd sep12_env =
  e12_db :: "('d pii_world, js_error, unit) eff"
  e12_uuid :: "('d pii_world, js_error, string) eff"
  e12_now :: "'d pii_world \<Rightarrow> int"
  e12_crypto :: crypto_service
  e12_provider :: "'d pii_world kyc_provider"
  e12_validKey :: "string \<Rightarrow> bool"
  e12_presign :: "string \<Rightarrow> string \<Rightarrow> int \<Rightarrow> ('d pii_world, js_error, string) eff"
  e12_exists :: "string \<Rightarrow> ('d pii_world, js_error, bool) eff"
  e12_allowedTypes :: "string list"
  e12_keyPrefix :: string
  e12_maxFileMb :: int
  e12_urlExpirySeconds :: int
  e12_renewalUrl :: "string \<Rightarrow> ('d pii_world, js_error, string) eff"
  e12_addDays :: "int \<Rightarrow> int \<Rightarrow> int"
  e12_addYears :: "int \<Rightarrow> int \<Rightarrow> int"

definition in_world :: "('d pii_world, js_error, 'a) eff \<Rightarrow> ('d, 'a) sep12" where
  "in_world m s = (case m (s12_world s) of (r, w) \<Rightarrow> (r, s\<lparr>s12_world := w\<rparr>))"

definition kdb :: "'d sep12_env \<Rightarrow> ('d, unit) sep12" where
  "kdb env = in_world (e12_db env)"

definition kclock :: "'d sep12_env \<Rightarrow> ('d, int) sep12" where
  "kclock env = eget (\<lambda>s. e12_now env (s12_world s))"

definition kuuid :: "'d sep12_env \<Rightarrow> ('d, string) sep12" where
  "kuuid env = in_world (e12_uuid env)"

text \<open>Reads leave out customers that are soft-deleted, as the extension of the client does; an include does not.\<close>

definition customer_of :: "string \<Rightarrow> (string, kyc_customer) jsmap \<Rightarrow> (string \<times> kyc_customer) option" where
  "customer_of userId m = find (\<lambda>(i, c). kc_userId c = userId) m"

definition customer_by_ref :: "string \<Rightarrow> string \<Rightarrow> (string, kyc_customer) jsmap \<Rightarrow> (string \<times> kyc_customer) option" where
  "customer_by_ref provider ref m =
     find (\<lambda>(i, c). kc_provider c = Some provider \<and> kc_providerRef c = Some ref \<and> kc_deletedAt c = None) m"

definition set_customer :: "string \<Rightarrow> kyc_customer \<Rightarrow> ('d, unit) sep12" where
  "set_customer i c = emodify (\<lambda>s. s\<lparr>s12_customers := js_set i c (s12_customers s)\<rparr>)"

definition no_customer :: js_error where
  "no_customer = OtherErr ''PrismaClientKnownRequestError'' ''Record to update not found.'' (Some ''P2025'') None None None None None"

definition update_customer :: "'d sep12_env \<Rightarrow> string \<Rightarrow> (kyc_customer \<Rightarrow> kyc_customer) \<Rightarrow> ('d, kyc_customer) sep12" where
  "update_customer env i f = ebind (kdb env) (\<lambda>_. ebind (eget (\<lambda>s. js_get (s12_customers s) i)) (\<lambda>c. case c of
     None \<Rightarrow> ethrow no_customer
   | Some c \<Rightarrow> ebind (set_customer i (f c)) (\<lambda>_. ereturn (f c))))"

section \<open>Answers\<close>

datatype sep12_answer =
    S12Error int string
  | S12Ok
  | S12Accepted string string
  | S12Customer string kyc_db_status "string list option" bool
  | S12Upload string string int
  | S12Confirmed string

definition guarded :: "sep12_answer \<Rightarrow> ('d, sep12_answer) sep12 \<Rightarrow> ('d, sep12_answer) sep12" where
  "guarded answer m = ecatch m (\<lambda>_. ereturn answer)"

definition internal_error :: sep12_answer where "internal_error = S12Error 500 ''Internal Server Error''"

section \<open>The documents of a submission\<close>

text \<open>What the upload middleware leaves in \<open>req.files\<close>: an object of arrays by field, or, as \<open>upload.any()\<close> does, one array.\<close>

datatype uploaded_files = FilesByField "(string, string list) jsmap" | FileArray "string list"

definition UPLOAD_ID_SUFFIX :: string where "UPLOAD_ID_SUFFIX = ''_upload_id''"

definition ends_with :: "string \<Rightarrow> string \<Rightarrow> bool" where
  "ends_with suf s \<longleftrightarrow> length suf \<le> length s \<and> drop (length s - length suf) s = suf"

datatype resolution = Resolved "(string, json) jsmap" "(string \<times> json) list" | Unresolved string int

definition upload_of :: "upload_store \<Rightarrow> json \<Rightarrow> (string \<times> upload_record) option" where
  "upload_of uploads v = (case v of JStr i \<Rightarrow> map_option (Pair i) (upload_get uploads i) | _ \<Rightarrow> None)"

text \<open>\<open>record.storageKey || `${KEY_PREFIX}/...`\<close>.\<close>

definition storage_key :: "string \<Rightarrow> string \<Rightarrow> string \<Rightarrow> upload_record \<Rightarrow> string" where
  "storage_key prefix account uploadId r = (if up_storageKey r \<noteq> [] then up_storageKey r
     else prefix @ ''/'' @ account @ ''/'' @ up_fieldName r @ ''/'' @ uploadId)"

fun resolve_fields :: "string \<Rightarrow> upload_store \<Rightarrow> string \<Rightarrow> (string \<times> json) list \<Rightarrow> (string, json) jsmap \<Rightarrow> (string \<times> json) list \<Rightarrow> resolution" where
  "resolve_fields prefix uploads account [] documents kycFields = Resolved documents kycFields"
| "resolve_fields prefix uploads account ((key, v) # rest) documents kycFields =
     (if ends_with UPLOAD_ID_SUFFIX key
      then let fieldName = take (length key - length UPLOAD_ID_SUFFIX) key in
        (case upload_of uploads v of
           None \<Rightarrow> Unresolved (''Upload not found or expired for field: '' @ fieldName) 400
         | Some (i, r) \<Rightarrow>
             if up_status r = UP_EXPIRED then Unresolved (''Upload not found or expired for field: '' @ fieldName) 400
             else if up_status r \<noteq> UP_COMPLETED then Unresolved (''Upload not confirmed for field: '' @ fieldName) 400
             else if up_account r \<noteq> account then Unresolved (''Upload account does not match request for field: '' @ fieldName) 403
             else resolve_fields prefix uploads account rest (js_set fieldName (JStr (storage_key prefix account i r)) documents) kycFields)
      else resolve_fields prefix uploads account rest documents (js_set key v kycFields))"

definition no_file :: js_error where
  "no_file = OtherErr ''TypeError'' ''Cannot read properties of undefined (reading 'path')'' None None None None None None"

text \<open>\<open>uploadedFiles[field][0].path\<close> for each key that has no document yet: the keys of an array are its indices, and an element of it, a
  file, has no element 0.\<close>

fun add_files :: "(string \<times> string list) list \<Rightarrow> (string, json) jsmap \<Rightarrow> js_error + (string, json) jsmap" where
  "add_files [] documents = Inr documents"
| "add_files ((field, files) # rest) documents =
     (if js_get documents field \<noteq> None then add_files rest documents
      else case files of [] \<Rightarrow> Inl no_file | p # _ \<Rightarrow> add_files rest (js_set field (JStr p) documents))"

definition file_entries :: "uploaded_files \<Rightarrow> (string \<times> string list) list" where
  "file_entries fs = (case fs of FilesByField m \<Rightarrow> m | FileArray xs \<Rightarrow> List.map (\<lambda>i. (show_nat i, [])) [0..<length xs])"

definition resolveCustomerDocuments :: "string \<Rightarrow> upload_store \<Rightarrow> string \<Rightarrow> (string \<times> json) list \<Rightarrow> uploaded_files option \<Rightarrow> js_error + resolution" where
  "resolveCustomerDocuments prefix uploads account otherFields uploadedFiles =
     (case resolve_fields prefix uploads account otherFields [] [] of
        Unresolved m st \<Rightarrow> Inr (Unresolved m st)
      | Resolved documents kycFields \<Rightarrow>
          (case uploadedFiles of
             None \<Rightarrow> Inr (Resolved documents kycFields)
           | Some fs \<Rightarrow> (case add_files (file_entries fs) documents of Inl e \<Rightarrow> Inl e | Inr ds \<Rightarrow> Inr (Resolved ds kycFields))))"

section \<open>Submitting a customer\<close>

definition toDbStatus :: "kyc_status \<Rightarrow> kyc_db_status" where
  "toDbStatus st = (case st of KAccepted \<Rightarrow> K_ACCEPTED | KRejected \<Rightarrow> K_REJECTED | _ \<Rightarrow> K_PENDING)"

definition toSep12Status :: "kyc_status \<Rightarrow> string" where
  "toSep12Status st = (case st of KAccepted \<Rightarrow> ''ACCEPTED'' | KRejected \<Rightarrow> ''REJECTED'' | _ \<Rightarrow> ''PROCESSING'')"

record put_request =
  pr_account :: "string option"
  pr_first_name :: "string option"
  pr_last_name :: "string option"
  pr_email_address :: "string option"
  pr_otherFields :: "(string \<times> json) list"
  pr_files :: "uploaded_files option"
  pr_user :: "string option"

text \<open>\<open>pack(v ? encrypt(v) : null)\<close>.\<close>

definition packed :: "'d sep12_env \<Rightarrow> string option \<Rightarrow> ('d, string option) sep12" where
  "packed env v = (case truthy_str v of None \<Rightarrow> ereturn None
     | Some t \<Rightarrow> ebind (in_world (encrypt (e12_crypto env) t)) (\<lambda>e. ereturn (Some (enc_iv e @ ''|'' @ encryptedData e))))"

definition find_or_create_user :: "'d sep12_env \<Rightarrow> string \<Rightarrow> ('d, string) sep12" where
  "find_or_create_user env account = ebind (kdb env) (\<lambda>_. ebind (eget (\<lambda>s. js_get (s12_users s) account)) (\<lambda>u. case u of
     Some userId \<Rightarrow> ereturn userId
   | None \<Rightarrow> ebind (kdb env) (\<lambda>_. ebind (kuuid env) (\<lambda>userId.
       ebind (emodify (\<lambda>s. s\<lparr>s12_users := js_set account userId (s12_users s)\<rparr>)) (\<lambda>_. ereturn userId)))))"

definition extra_payload :: "(string, json) jsmap \<Rightarrow> (string \<times> json) list \<Rightarrow> (string \<times> json) list" where
  "extra_payload documents kycFields = (if documents \<noteq> [] then js_set ''documents'' (JObj documents) kycFields else kycFields)"

text \<open>\<open>upsert\<close> by user: a row that exists keeps its provider, its reference and its expiry.\<close>

definition upsert_customer :: "'d sep12_env \<Rightarrow> string \<Rightarrow> (kyc_customer \<Rightarrow> kyc_customer) \<Rightarrow> ('d, string) sep12" where
  "upsert_customer env userId f = ebind (kdb env) (\<lambda>_. ebind (eget (\<lambda>s. customer_of userId (s12_customers s))) (\<lambda>c. case c of
     Some (i, c) \<Rightarrow> ebind (set_customer i ((f c)\<lparr>kc_deletedAt := None\<rparr>)) (\<lambda>_. ereturn i)
   | None \<Rightarrow> ebind (kuuid env) (\<lambda>i. ebind (set_customer i (f \<lparr>kc_userId = userId, kc_provider = None, kc_providerRef = None, kc_firstName = None,
       kc_lastName = None, kc_email = None, kc_extraFields = None, kc_status = K_PENDING, kc_expiresAt = None, kc_deletedAt = None\<rparr>)) (\<lambda>_. ereturn i))))"

definition announce :: "string \<Rightarrow> kyc_db_status \<Rightarrow> kyc_db_status \<Rightarrow> json \<Rightarrow> ('d, unit) sep12" where
  "announce i before after reasons = emodify (\<lambda>s. s\<lparr>s12_sent := s12_sent s @ [\<lparr>sc_customer = i, sc_previous = before, sc_next = after, sc_reasons = reasons\<rparr>]\<rparr>)"

text \<open>The part in the inner \<open>try\<close>: what the provider said is kept even when the row cannot be updated.\<close>

definition submit_to_provider :: "'d sep12_env \<Rightarrow> string \<Rightarrow> kyc_submission \<Rightarrow> (string, json) jsmap \<Rightarrow> ('d, kyc_status) sep12" where
  "submit_to_provider env i data documents =
     ebind (ecatch (ebind (in_world (kp_submit (e12_provider env) data documents)) (\<lambda>r. ereturn (Some r))) (\<lambda>_. ereturn None)) (\<lambda>res. case res of
       None \<Rightarrow> ereturn KPending
     | Some r \<Rightarrow>
         let next = toDbStatus (kr_status r) in
         ebind (ecatch
           (ebind (update_customer env i (\<lambda>c. c\<lparr>kc_provider := Some (kp_name (e12_provider env)), kc_providerRef := or_else (kr_providerRef r) (kc_providerRef c),
              kc_status := next\<rparr>)) (\<lambda>_.
            if next \<noteq> K_PENDING then announce i K_PENDING next (if next = K_REJECTED then JArr [JStr ''RISK_POLICY_VIOLATION''] else JUndef)
            else ereturn ()))
           (\<lambda>_. ereturn ())) (\<lambda>_. ereturn (kr_status r)))"

definition store_submission :: "'d sep12_env \<Rightarrow> string \<Rightarrow> put_request \<Rightarrow> (string, json) jsmap \<Rightarrow> (string \<times> json) list \<Rightarrow> ('d, string) sep12" where
  "store_submission env userId req documents kycFields =
     ebind (packed env (pr_first_name req)) (\<lambda>firstName.
     ebind (packed env (pr_last_name req)) (\<lambda>lastName.
     ebind (packed env (pr_email_address req)) (\<lambda>email.
     ebind (packed env (if extra_payload documents kycFields \<noteq> [] then Some (json_stringify (JObj (extra_payload documents kycFields))) else None)) (\<lambda>extraFields.
     upsert_customer env userId (\<lambda>c. c\<lparr>kc_firstName := firstName, kc_lastName := lastName, kc_email := email, kc_extraFields := extraFields,
       kc_status := K_PENDING\<rparr>)))))"

definition putCustomer :: "'d sep12_env \<Rightarrow> put_request \<Rightarrow> ('d, sep12_answer) sep12" where
  "putCustomer env req = guarded internal_error
     (case truthy_str (pr_account req) of
        None \<Rightarrow> ereturn (S12Error 400 ''account is required'')
      | Some account \<Rightarrow>
          if \<not> e12_validKey env account then ereturn (S12Error 400 ''Invalid Stellar account'')
          else if (case pr_user req of Some k \<Rightarrow> k \<noteq> account | None \<Rightarrow> False)
          then ereturn (S12Error 403 ''Authenticated account does not match request account'')
          else
            ebind (find_or_create_user env account) (\<lambda>userId.
            ebind (eget s12_uploads) (\<lambda>uploads.
            ebind (elift (resolveCustomerDocuments (e12_keyPrefix env) uploads account (pr_otherFields req) (pr_files req))) (\<lambda>res. case res of
              Unresolved m st \<Rightarrow> ereturn (S12Error st m)
            | Resolved documents kycFields \<Rightarrow>
                ebind (store_submission env userId req documents kycFields) (\<lambda>i.
                ebind (submit_to_provider env i \<lparr>ks_account = account, ks_firstName = pr_first_name req, ks_lastName = pr_last_name req,
                  ks_email = pr_email_address req, ks_extraFields = kycFields\<rparr> documents) (\<lambda>status.
                ereturn (S12Accepted account (toSep12Status status))))))))"

section \<open>Reading and deleting a customer\<close>

definition provided_names :: "kyc_customer \<Rightarrow> string list" where
  "provided_names c = (if truthy_str (kc_firstName c) \<noteq> None then [''first_name''] else [])
     @ (if truthy_str (kc_lastName c) \<noteq> None then [''last_name''] else [])
     @ (if truthy_str (kc_email c) \<noteq> None then [''email_address''] else [])"

text \<open>The supplementary fields are listed for a pending customer.\<close>

definition SUPPLEMENTARY_KYC_FIELDS :: "(string \<times> string \<times> bool) list" where
  "SUPPLEMENTARY_KYC_FIELDS = [(''proof_of_income'', ''Proof of income document'', False), (''proof_of_address'', ''Proof of address document'', False),
     (''occupation'', ''Customer occupation'', True), (''employer_name'', ''Name of employer'', True), (''tax_id'', ''Tax identification number'', True)]"

definition shown_customer :: "string \<Rightarrow> kyc_customer \<Rightarrow> sep12_answer" where
  "shown_customer account c = S12Customer account (kc_status c)
     (if kc_status c = K_ACCEPTED then Some (provided_names c) else None) (kc_status c = K_PENDING)"

definition getCustomer :: "'d sep12_env \<Rightarrow> string option \<Rightarrow> ('d, sep12_answer) sep12" where
  "getCustomer env account = guarded internal_error
     (case truthy_str account of
        None \<Rightarrow> ereturn (S12Error 400 ''account is required'')
      | Some a \<Rightarrow> ebind (kdb env) (\<lambda>_. ebind (eget (\<lambda>s. (js_get (s12_users s) a, s12_customers s))) (\<lambda>(u, m).
          ereturn (case Option.bind u (\<lambda>userId. customer_of userId m) of
            Some (i, c) \<Rightarrow> if kc_deletedAt c = None then shown_customer a c else S12Error 404 ''Customer not found''
          | None \<Rightarrow> S12Error 404 ''Customer not found''))))"

text \<open>\<open>updateMany\<close>: whether a live row was stamped.\<close>

definition softDeleteKycCustomer :: "'d sep12_env \<Rightarrow> string \<Rightarrow> ('d, bool) sep12" where
  "softDeleteKycCustomer env userId = ebind (kclock env) (\<lambda>now. ebind (kdb env) (\<lambda>_.
     ebind (eget s12_customers) (\<lambda>m.
     let live = (\<lambda>c. kc_userId c = userId \<and> kc_deletedAt c = None) in
     ebind (emodify (\<lambda>s. s\<lparr>s12_customers := List.map (\<lambda>(i, c). (i, if live c then c\<lparr>kc_deletedAt := Some now\<rparr> else c)) m\<rparr>)) (\<lambda>_.
     ereturn (list_ex (\<lambda>(i, c). live c) m)))))"

definition deleteCustomer :: "'d sep12_env \<Rightarrow> string option \<Rightarrow> string option \<Rightarrow> ('d, sep12_answer) sep12" where
  "deleteCustomer env sessionKey account = guarded (S12Error 404 ''Customer not found'')
     (case truthy_str account of
        None \<Rightarrow> ereturn (S12Error 400 ''account is required'')
      | Some a \<Rightarrow> ebind (kdb env) (\<lambda>_. ebind (eget (\<lambda>s. js_get (s12_users s) a)) (\<lambda>u. case u of
          None \<Rightarrow> ereturn S12Ok
        | Some userId \<Rightarrow> ebind (softDeleteKycCustomer env userId) (\<lambda>deleted.
            ereturn (if deleted then S12Ok else S12Error 404 ''Customer not found'')))))"

definition KYC_RETENTION_YEARS :: int where "KYC_RETENTION_YEARS = 7"

definition getRetentionCutoff :: "'d sep12_env \<Rightarrow> int \<Rightarrow> int" where
  "getRetentionCutoff env now = e12_addYears env now (- KYC_RETENTION_YEARS)"

definition purgeable :: "int \<Rightarrow> kyc_customer \<Rightarrow> bool" where
  "purgeable cutoff c \<longleftrightarrow> (case kc_deletedAt c of Some t \<Rightarrow> t < cutoff | None \<Rightarrow> False)"

definition purgeSoftDeletedKycCustomers :: "'d sep12_env \<Rightarrow> ('d, nat) sep12" where
  "purgeSoftDeletedKycCustomers env = ebind (kclock env) (\<lambda>now. ebind (kdb env) (\<lambda>_. ebind (eget s12_customers) (\<lambda>m.
     let gone = (\<lambda>(i, c). purgeable (getRetentionCutoff env now) c) in
     ebind (emodify (\<lambda>s. s\<lparr>s12_customers := filter (Not \<circ> gone) m\<rparr>)) (\<lambda>_. ereturn (length (filter gone m))))))"

section \<open>Messages of the provider\<close>

definition jfield :: "json \<Rightarrow> string \<Rightarrow> json" where
  "jfield v k = (case asRecord v of Some ps \<Rightarrow> (case js_get ps k of Some x \<Rightarrow> x | None \<Rightarrow> JUndef) | None \<Rightarrow> JUndef)"

text \<open>\<open>a ?? b ?? ...\<close>: an event has no reasons of its own.\<close>

fun first_given :: "json list \<Rightarrow> json" where
  "first_given [] = JUndef"
| "first_given (v # vs) = (if v = JUndef \<or> v = JNull then if vs = [] then v else first_given vs else v)"

definition rejection_reasons :: "json \<Rightarrow> kyc_db_status \<Rightarrow> json" where
  "rejection_reasons body next = first_given [jfield body ''rejection_reasons'', jfield body ''rejection_reason_codes'', jfield body ''reasons'',
     if next = K_REJECTED then JArr [JStr ''VERIFICATION_FAILED''] else JUndef]"

definition target_customer :: "'d sep12_env \<Rightarrow> kyc_event \<Rightarrow> ('d, (string \<times> kyc_customer) option) sep12" where
  "target_customer env ev =
     ebind (case truthy_str (kv_providerRef ev) of
              None \<Rightarrow> ereturn None
            | Some ref \<Rightarrow> ebind (kdb env) (\<lambda>_. eget (\<lambda>s. customer_by_ref (kp_name (e12_provider env)) ref (s12_customers s)))) (\<lambda>found.
     case (found, truthy_str (kv_account ev)) of
       (None, Some a) \<Rightarrow> ebind (kdb env) (\<lambda>_. eget (\<lambda>s.
         case Option.bind (js_get (s12_users s) a) (\<lambda>userId. customer_of userId (s12_customers s)) of
           Some (i, c) \<Rightarrow> if kc_deletedAt c = None then Some (i, c) else None | None \<Rightarrow> None))
     | _ \<Rightarrow> ereturn found)"

definition handleWebhook :: "'d sep12_env \<Rightarrow> string option \<Rightarrow> json \<Rightarrow> ('d, sep12_answer) sep12" where
  "handleWebhook env signature body = guarded internal_error
     (if \<not> kp_verify (e12_provider env) (json_stringify body) signature then ereturn (S12Error 401 ''Invalid signature'')
      else case kp_parse (e12_provider env) body of
        None \<Rightarrow> ereturn (S12Error 400 ''Invalid webhook payload'')
      | Some ev \<Rightarrow>
          ebind (target_customer env ev) (\<lambda>target. case target of
            None \<Rightarrow> ereturn (S12Error 404 ''Customer not found'')
          | Some (i, c) \<Rightarrow>
              let next = toDbStatus (kv_status ev) in
              if kc_status c = next then ereturn S12Ok
              else ebind (update_customer env i (\<lambda>c. c\<lparr>kc_status := next\<rparr>)) (\<lambda>_.
                   ebind (announce i (kc_status c) next (rejection_reasons body next)) (\<lambda>_. ereturn S12Ok))))"

section \<open>Uploads\<close>

record upload_request =
  uq_account :: "string option"
  uq_field_name :: "string option"
  uq_content_type :: "string option"
  uq_file_size :: json

definition max_bytes :: "'d sep12_env \<Rightarrow> int" where
  "max_bytes env = e12_maxFileMb env * 1024 * 1024"

definition number_of_json :: "json \<Rightarrow> jsnum" where
  "number_of_json v = (case v of JNum i \<Rightarrow> js_int i | JStr s \<Rightarrow> number_of_text s | JBool b \<Rightarrow> Fin (if b then 1 else 0) | JNull \<Rightarrow> Fin 0 | _ \<Rightarrow> NaN)"

text \<open>The middleware before the endpoint.\<close>

definition validateUploadFileSize :: "'d sep12_env \<Rightarrow> json \<Rightarrow> string option" where
  "validateUploadFileSize env v = (let n = number_of_json v in
     if n = Fin 0 \<or> n = NaN then Some ''file_size is required''
     else if js_less (js_int (max_bytes env)) n
     then Some (''file_size exceeds maximum allowed size of '' @ show_int (e12_maxFileMb env) @ '' MB'') else None)"

definition getUploadUrl :: "'d sep12_env \<Rightarrow> upload_request \<Rightarrow> ('d, sep12_answer) sep12" where
  "getUploadUrl env req = guarded internal_error
     (case (truthy_str (uq_account req), truthy_str (uq_field_name req), truthy_str (uq_content_type req)) of
        (Some account, Some field, Some contentType) \<Rightarrow>
          if \<not> json_truthy (uq_file_size req)
          then ereturn (S12Error 400 ''account, field_name, content_type, and file_size are required'')
          else if contentType \<notin> set (e12_allowedTypes env)
          then ereturn (S12Error 400 (''content_type not allowed. Accepted types: '' @ join_with '', '' (e12_allowedTypes env)))
          else if js_less (js_int (max_bytes env)) (number_of_json (uq_file_size req))
          then ereturn (S12Error 400 (''file_size exceeds maximum allowed size of '' @ show_int (e12_maxFileMb env) @ '' MB''))
          else
            ebind (kclock env) (\<lambda>now. ebind (kuuid env) (\<lambda>uploadId.
            let expiresAt = now + e12_urlExpirySeconds env * 1000 in
            ebind (\<lambda>s. case upload_create uploadId account field contentType expiresAt (s12_uploads s) of (r, u) \<Rightarrow> (Inr r, s\<lparr>s12_uploads := u\<rparr>)) (\<lambda>r.
            ecatch
              (ebind (in_world (e12_presign env (up_storageKey r) contentType (e12_urlExpirySeconds env))) (\<lambda>url.
               ereturn (S12Upload uploadId url expiresAt)))
              (\<lambda>_. ebind (emodify (\<lambda>s. s\<lparr>s12_uploads := upload_remove uploadId (s12_uploads s)\<rparr>)) (\<lambda>_.
                   ereturn (S12Error 500 ''storage_provider_error''))))))
      | _ \<Rightarrow> ereturn (S12Error 400 ''account, field_name, content_type, and file_size are required''))"

definition post_upload_url :: "'d sep12_env \<Rightarrow> upload_request \<Rightarrow> ('d, sep12_answer) sep12" where
  "post_upload_url env req = (case validateUploadFileSize env (uq_file_size req) of
     Some m \<Rightarrow> ereturn (S12Error 400 m) | None \<Rightarrow> getUploadUrl env req)"

definition confirmUpload :: "'d sep12_env \<Rightarrow> string option \<Rightarrow> string option \<Rightarrow> string option \<Rightarrow> ('d, sep12_answer) sep12" where
  "confirmUpload env sessionKey upload_id account = guarded internal_error
     (case (truthy_str upload_id, truthy_str account) of
        (Some i, Some a) \<Rightarrow>
          if (case sessionKey of Some k \<Rightarrow> k \<noteq> a | None \<Rightarrow> False)
          then ereturn (S12Error 403 ''Forbidden: session account does not match request account'')
          else ebind (eget (\<lambda>s. upload_get (s12_uploads s) i)) (\<lambda>rec. case rec of
            None \<Rightarrow> ereturn (S12Error 404 ''Upload record not found or expired'')
          | Some r \<Rightarrow>
              if up_status r = UP_EXPIRED then ereturn (S12Error 404 ''Upload record not found or expired'')
              else if up_account r \<noteq> a then ereturn (S12Error 403 ''account does not match upload record'')
              else
                ebind (ecatch (ebind (in_world (e12_exists env (storage_key (e12_keyPrefix env) a i r))) (\<lambda>b. ereturn (Some b))) (\<lambda>_. ereturn None)) (\<lambda>found.
                case found of
                  None \<Rightarrow> ereturn (S12Error 500 ''storage_provider_error'')
                | Some False \<Rightarrow> ereturn (S12Error 422 ''File not found in storage; upload may not have completed'')
                | Some True \<Rightarrow> ebind (emodify (\<lambda>s. s\<lparr>s12_uploads := upload_setStatus i UP_COMPLETED (s12_uploads s)\<rparr>)) (\<lambda>_.
                    ereturn (S12Confirmed i))))
      | _ \<Rightarrow> ereturn (S12Error 400 ''upload_id and account are required''))"

section \<open>Customers whose check expires\<close>

definition expiring :: "int \<Rightarrow> int \<Rightarrow> kyc_customer \<Rightarrow> bool" where
  "expiring now threshold c \<longleftrightarrow> kc_deletedAt c = None \<and> kc_status c = K_ACCEPTED
     \<and> (case kc_expiresAt c of Some t \<Rightarrow> t \<le> threshold \<and> now \<le> t | None \<Rightarrow> False)"

definition getExpiringKycCustomers :: "'d sep12_env \<Rightarrow> int \<Rightarrow> ('d, (string \<times> kyc_customer) list) sep12" where
  "getExpiringKycCustomers env days = ebind (kclock env) (\<lambda>now. ebind (kdb env) (\<lambda>_.
     eget (\<lambda>s. filter (\<lambda>(i, c). expiring now (e12_addDays env now days) c) (s12_customers s))))"

definition updateKycStatus :: "'d sep12_env \<Rightarrow> string \<Rightarrow> kyc_db_status \<Rightarrow> ('d, kyc_customer) sep12" where
  "updateKycStatus env i st = update_customer env i (\<lambda>c. c\<lparr>kc_status := st\<rparr>)"

definition warn_customer :: "'d sep12_env \<Rightarrow> string \<times> kyc_customer \<Rightarrow> ('d, unit) sep12" where
  "warn_customer env x = (case x of (i, c) \<Rightarrow> ecatch
     (ebind (updateKycStatus env i K_EXPIRING_SOON) (\<lambda>_.
      ebind (in_world (e12_renewalUrl env (''kyc-renewal-'' @ i))) (\<lambda>url.
      emodify (\<lambda>s. s\<lparr>s12_warned := s12_warned s @ [(kc_userId c, url)]\<rparr>))))
     (\<lambda>_. ereturn ()))"

definition processKycExpirationGracePeriod :: "'d sep12_env \<Rightarrow> int \<Rightarrow> ('d, nat) sep12" where
  "processKycExpirationGracePeriod env days = ebind (getExpiringKycCustomers env days) (\<lambda>cs.
     ebind (eff_list (warn_customer env) cs) (\<lambda>_. ereturn (length cs)))"

end
