(* ===== verification/Sep12_Props.thy ===== *)
theory Sep12_Props
  imports Sep12
begin

text \<open>
  Properties of SEP-12: which documents a submission takes, what becomes of uploaded files, who can change a customer, what the messages
  of a provider do, and the bounds of the engine that tells partners.
\<close>

section \<open>Documents\<close>

lemma set_after_set: "set (js_set k v m) \<subseteq> insert (k, v) (set m)"
  by (induction m) auto

lemma resolve_fields_sound:
  assumes "resolve_fields prefix uploads account given ds ks = Resolved docs kyc"
    and "\<forall>(f, v) \<in> set ds. \<exists>i r. upload_get uploads i = Some r \<and> up_status r = UP_COMPLETED \<and> up_account r = account \<and> v = JStr (storage_key prefix account i r)"
  shows "\<forall>(f, v) \<in> set docs. \<exists>i r. upload_get uploads i = Some r \<and> up_status r = UP_COMPLETED \<and> up_account r = account \<and> v = JStr (storage_key prefix account i r)"
  using assms
proof (induction prefix uploads account given ds ks rule: resolve_fields.induct)
  case (2 prefix uploads account key v rest ds ks)
  show ?case
  proof (cases "ends_with UPLOAD_ID_SUFFIX key")
    case True
    then obtain i r where r: "upload_of uploads v = Some (i, r)" "up_status r = UP_COMPLETED" "up_account r = account"
      using 2(3) by (auto simp: Let_def split: option.splits prod.splits if_splits)
    let ?f = "take (length key - length UPLOAD_ID_SUFFIX) key" and ?d = "JStr (storage_key prefix account i r)"
    have g: "upload_get uploads i = Some r" using r(1) by (auto simp: upload_of_def split: json.splits)
    have rest: "resolve_fields prefix uploads account rest (js_set ?f ?d ds) ks = Resolved docs kyc"
      using 2(3) True r by (simp add: Let_def)
    have new: "\<forall>(f, v) \<in> set (js_set ?f ?d ds). \<exists>i r. upload_get uploads i = Some r \<and> up_status r = UP_COMPLETED \<and> up_account r = account
        \<and> v = JStr (storage_key prefix account i r)"
    proof
      fix p assume "p \<in> set (js_set ?f ?d ds)"
      then have "p \<in> set ds \<or> p = (?f, ?d)" using set_after_set [of ?f ?d ds] by auto
      then show "case p of (f, v) \<Rightarrow> \<exists>i r. upload_get uploads i = Some r \<and> up_status r = UP_COMPLETED \<and> up_account r = account
        \<and> v = JStr (storage_key prefix account i r)"
        using 2(4) g r(2,3) by auto
    qed
    show ?thesis by (rule 2(1) [OF True refl r(1) refl]) (use r rest new in auto)
  next
    case False
    then show ?thesis using 2(2) [OF False] 2(3,4) by simp
  qed
qed simp

text \<open>The documents a submission refers to by an upload are uploads that were confirmed and belong to the account of the submission: another
  account's upload, or one that is pending or expired, refuses the whole submission.
\<close>
theorem documents_are_own_confirmed_uploads:
  assumes "resolveCustomerDocuments prefix uploads account given None = Inr (Resolved docs kyc)" "(f, v) \<in> set docs"
  shows "\<exists>i r. upload_get uploads i = Some r \<and> up_status r = UP_COMPLETED \<and> up_account r = account \<and> v = JStr (storage_key prefix account i r)"
proof -
  have "resolve_fields prefix uploads account given [] [] = Resolved docs kyc"
    using assms(1) by (simp add: resolveCustomerDocuments_def split: resolution.splits)
  from resolve_fields_sound [OF this] assms(2) show ?thesis by auto
qed

definition demo_upload :: upload_record where
  "demo_upload = \<lparr>up_uploadId = ''u1'', up_account = ''GA'', up_fieldName = ''photo'', up_storageKey = ''GA/photo/u1'', up_contentType = ''image/png'',
     up_expiresAt = 900000, up_status = UP_COMPLETED\<rparr>"

lemma demo_resolved: "resolveCustomerDocuments ''kyc'' [(''u1'', demo_upload)] ''GA'' [(''photo_upload_id'', JStr ''u1'')] None
    = Inr (Resolved [(''photo'', JStr ''GA/photo/u1'')] [])"
  by (simp add: resolveCustomerDocuments_def ends_with_def UPLOAD_ID_SUFFIX_def upload_of_def upload_get_def demo_upload_def storage_key_def Let_def)

theorem documents_are_own_confirmed_uploads_witness:
  "\<exists>i r. upload_get [(''u1'', demo_upload)] i = Some r \<and> up_status r = UP_COMPLETED \<and> up_account r = ''GA''"
  using documents_are_own_confirmed_uploads [OF demo_resolved, of "''photo''" "JStr ''GA/photo/u1''"] by auto

section \<open>Uploaded files\<close>

lemma keeps_in_world [keeps_rules]: "(\<And>s w. f (s\<lparr>s12_world := w\<rparr>) = f s) \<Longrightarrow> keeps f (in_world m)"
  by (auto simp: keeps_def in_world_def split: prod.split)

lemma keeps_kcalls:
  "(\<And>s w. f (s\<lparr>s12_world := w\<rparr>) = f s) \<Longrightarrow> keeps f (kdb env)" "(\<And>s w. f (s\<lparr>s12_world := w\<rparr>) = f s) \<Longrightarrow> keeps f (kuuid env)"
  "keeps f (kclock env)"
  by (simp_all add: kdb_def kuuid_def kclock_def keeps_in_world keeps_simple)

lemma keeps_find_or_create:
  "(\<And>s w. f (s\<lparr>s12_world := w\<rparr>) = f s) \<Longrightarrow> (\<And>s u. f (s\<lparr>s12_users := u\<rparr>) = f s) \<Longrightarrow> keeps f (find_or_create_user env a)"
  unfolding find_or_create_user_def by (intro keeps_rules keeps_kcalls keeps_emodify) auto

definition has_upload_id :: "(string \<times> json) list \<Rightarrow> bool" where
  "has_upload_id given \<longleftrightarrow> list_ex (\<lambda>(k, v). ends_with UPLOAD_ID_SUFFIX k) given"

lemma resolve_no_ids:
  "\<not> has_upload_id given \<Longrightarrow> \<exists>kyc. resolve_fields prefix uploads account given ds ks = Resolved ds kyc"
  by (induction prefix uploads account given ds ks rule: resolve_fields.induct) (auto simp: has_upload_id_def)

lemma file_array_throws:
  assumes "files \<noteq> []" "\<not> has_upload_id given"
  shows "resolveCustomerDocuments prefix uploads account given (Some (FileArray files)) = Inl no_file"
proof -
  obtain kyc where "resolve_fields prefix uploads account given [] [] = Resolved [] kyc" using resolve_no_ids [OF assms(2)] by blast
  moreover have "\<exists>k rest. file_entries (FileArray files) = (k, []) # rest"
    using assms(1) by (cases files) (auto simp: file_entries_def upt_rec)
  ultimately show ?thesis by (auto simp: resolveCustomerDocuments_def)
qed

text \<open>A submission that carries a file is never accepted: the middleware leaves the files in an array, the code looks for them by field, reads a
  member of undefined and answers 500; no customer is stored and no provider is asked (a submission that names an upload as well can be
  refused before that).
\<close>
theorem submission_with_file_never_accepted:
  fixes env :: "'a sep12_env"
  assumes "pr_files req = Some (FileArray files)" "files \<noteq> []" "\<not> has_upload_id (pr_otherFields req)"
    and "putCustomer env req s = (r, s')"
  shows "(\<exists>code m. r = Inr (S12Error code m)) \<and> s12_customers s' = s12_customers s \<and> s12_sent s' = s12_sent s"
proof -
  have throws: "resolveCustomerDocuments p u a (pr_otherFields req) (pr_files req) = Inl no_file" for p u a
    using file_array_throws assms(1-3) by simp
  let ?f = "\<lambda>s :: 'a sep12_state. (s12_customers s, s12_sent s)"
  define tail where "tail = (\<lambda>a. ebind (find_or_create_user env a) (\<lambda>userId. ebind (eget s12_uploads) (\<lambda>uploads. ethrow no_file :: ('a, sep12_answer) sep12)))"
  have e: "ebind (elift (Inl x)) g = ethrow x" for x :: js_error and g :: "resolution \<Rightarrow> ('a, sep12_answer) sep12"
    by (rule ext) (simp add: eff_defs)
  have put: "putCustomer env req = guarded internal_error
     (case truthy_str (pr_account req) of
        None \<Rightarrow> ereturn (S12Error 400 ''account is required'')
      | Some account \<Rightarrow>
          if \<not> e12_validKey env account then ereturn (S12Error 400 ''Invalid Stellar account'')
          else if (case pr_user req of Some k \<Rightarrow> k \<noteq> account | None \<Rightarrow> False)
          then ereturn (S12Error 403 ''Authenticated account does not match request account'')
          else tail account)"
    unfolding putCustomer_def throws e tail_def ..
  have "keeps ?f (putCustomer env req)"
    unfolding put guarded_def tail_def by (intro keeps_rules keeps_find_or_create) auto
  moreover have no: "tail a s \<noteq> (Inr y, t)" for a y t
    by (auto simp: tail_def eff_defs split: prod.split sum.split)
  have "\<exists>code m. r = Inr (S12Error code m)"
    using assms(4) unfolding put guarded_def
    by (auto simp: no ecatch_def ereturn_def internal_error_def split: option.splits if_splits prod.splits sum.splits)
  ultimately show ?thesis using assms(4) keeps_result by fastforce
qed

text \<open>A service whose database answers, with Shufti as its provider; the HMAC of the demo is the secret itself.\<close>

definition demo_kyc_env :: "unit pii_world kyc_env" where
  "demo_kyc_env = \<lparr>kv_config = \<lparr>kf_personaApiKey = None, kf_personaApiUrl = ''p'', kf_shuftiClientId = Some ''c'', kf_shuftiSecretKey = Some ''k'',
       kf_shuftiApiUrl = ''s'', kf_interactiveUrl = ''i'', kf_webhookSecret = Some ''secret''\<rparr>,
     kv_fetch = (\<lambda>_ _ _. ethrow (PlainError ''down'')), kv_hmac = (\<lambda>k p. k), kv_now = (\<lambda>w. 0)\<rparr>"

definition demo12 :: "unit sep12_env" where
  "demo12 = \<lparr>e12_db = ereturn (), e12_uuid = ereturn ''id1'', e12_now = (\<lambda>w. 1000), e12_crypto = open_service,
     e12_provider = createKycProvider demo_kyc_env (\<lambda>m. m) ''shufti'', e12_validKey = (\<lambda>_. True), e12_presign = (\<lambda>_ _ _. ereturn ''url''),
     e12_exists = (\<lambda>_. ereturn True), e12_allowedTypes = [''image/png''], e12_keyPrefix = ''kyc'', e12_maxFileMb = 5, e12_urlExpirySeconds = 900,
     e12_renewalUrl = (\<lambda>_. ereturn ''url''), e12_addDays = (\<lambda>t d. t + d * 86400000), e12_addYears = (\<lambda>t y. t + y * 31557600000)\<rparr>"

definition demo_customer :: kyc_customer where
  "demo_customer = \<lparr>kc_userId = ''user1'', kc_provider = Some ''shufti'', kc_providerRef = Some ''GA'', kc_firstName = None, kc_lastName = None,
     kc_email = None, kc_extraFields = None, kc_status = K_ACCEPTED, kc_expiresAt = None, kc_deletedAt = None\<rparr>"

definition demo_state12 :: "unit sep12_state" where
  "demo_state12 = \<lparr>s12_users = [(''GA'', ''user1'')], s12_customers = [(''c1'', demo_customer)], s12_uploads = [(''u1'', demo_upload)], s12_sent = [],
     s12_warned = [], s12_world = \<lparr>drawn = 0, database = ()\<rparr>\<rparr>"

definition file_request :: put_request where
  "file_request = \<lparr>pr_account = Some ''GA'', pr_first_name = Some ''Ada'', pr_last_name = None, pr_email_address = None, pr_otherFields = [],
     pr_files = Some (FileArray [''uploads/kyc/id.png'']), pr_user = Some ''GA''\<rparr>"

theorem submission_with_file_never_accepted_witness:
  "\<exists>code m. fst (putCustomer demo12 file_request demo_state12) = Inr (S12Error code m)"
proof -
  have "putCustomer demo12 file_request demo_state12 = (fst (putCustomer demo12 file_request demo_state12), snd (putCustomer demo12 file_request demo_state12))"
    by simp
  from submission_with_file_never_accepted [OF _ _ _ this, of "[''uploads/kyc/id.png'']"] show ?thesis
    by (simp add: file_request_def has_upload_id_def)
qed

section \<open>Messages of a provider\<close>

text \<open>A message whose signature the provider does not confirm is answered 401 and changes nothing; without a configured secret Persona and
  Shufti confirm none.
\<close>
theorem unsigned_message_changes_nothing:
  "(\<not> kp_verify (e12_provider env) (json_stringify body) sig \<longrightarrow> handleWebhook env sig body s = (Inr (S12Error 401 ''Invalid signature''), s))
   \<and> (truthy_str (kf_webhookSecret (kv_config kenv)) = None \<longrightarrow> name \<in> {''persona'', ''shufti''} \<longrightarrow>
        \<not> kp_verify (createKycProvider kenv fire name) payload sig)"
  by (auto simp: handleWebhook_def guarded_def eff_defs createKycProvider_def behind_breaker_def persona_provider_def shufti_provider_def
      hmac_verify_def split: option.split)

theorem unsigned_message_changes_nothing_witness:
  "handleWebhook demo12 (Some ''forged'') (JObj [(''reference'', JStr ''GA''), (''event'', JStr ''verification.accepted'')]) demo_state12
    = (Inr (S12Error 401 ''Invalid signature''), demo_state12)"
proof -
  have v: "\<not> kp_verify (e12_provider demo12) p (Some ''forged'')" for p
    by (simp add: demo12_def createKycProvider_def behind_breaker_def shufti_provider_def hmac_verify_def demo_kyc_env_def truthy_str_def timingSafeMatch_def)
  show ?thesis using unsigned_message_changes_nothing [THEN conjunct1, rule_format, OF v] .
qed

lemma update_customer_ok:
  assumes "\<And>w. e12_db env w = (Inr (), w)" "js_get (s12_customers s) i = Some c"
  shows "update_customer env i f s = (Inr (f c), s\<lparr>s12_customers := js_set i (f c) (s12_customers s)\<rparr>)"
  using assms by (simp add: update_customer_def kdb_def in_world_def set_customer_def eff_defs)

lemma find_mem: "find P m = Some x \<Longrightarrow> x \<in> set m \<and> P x"
  by (induction m) (auto split: if_splits)

lemma find_in_map: "js_wf m \<Longrightarrow> find P m = Some (i, c) \<Longrightarrow> js_get m i = Some c"
  by (metis find_Some_iff js_wf_def map_of_is_SomeI nth_mem)

text \<open>A message that is signed for, of a customer known by the provider's reference.\<close>

definition accepted_message :: "'d sep12_env \<Rightarrow> string option \<Rightarrow> json \<Rightarrow> kyc_event \<Rightarrow> bool" where
  "accepted_message env sig body ev \<longleftrightarrow> kp_verify (e12_provider env) (json_stringify body) sig \<and> kp_parse (e12_provider env) body = Some ev"

lemma message_sets_status:
  assumes db: "\<And>w. e12_db env w = (Inr (), w)" and m: "accepted_message env sig body ev" and ref: "truthy_str (kv_providerRef ev) = Some ref"
    and c: "customer_by_ref (kp_name (e12_provider env)) ref (s12_customers s) = Some (i, c)" and wf: "js_wf (s12_customers s)"
  shows "\<exists>s'. handleWebhook env sig body s = (Inr S12Ok, s')
    \<and> s12_customers s' = js_set i (c\<lparr>kc_status := toDbStatus (kv_status ev)\<rparr>) (s12_customers s)"
proof -
  have g: "js_get (s12_customers s) i = Some c" using c wf find_in_map by (fastforce simp: customer_by_ref_def)
  have t: "target_customer env ev s = (Inr (Some (i, c)), s)"
    using ref c by (simp add: target_customer_def kdb_def in_world_def db eff_defs)
  show ?thesis
  proof (cases "kc_status c = toDbStatus (kv_status ev)")
    case True
    then have "c\<lparr>kc_status := toDbStatus (kv_status ev)\<rparr> = c" by simp
    then have "js_set i (c\<lparr>kc_status := toDbStatus (kv_status ev)\<rparr>) (s12_customers s) = s12_customers s"
      using g by (simp only: update_triv)
    moreover have "handleWebhook env sig body s = (Inr S12Ok, s)"
      using m True by (simp add: handleWebhook_def accepted_message_def guarded_def ecatch_def ebind_def [of "target_customer env ev"] t Let_def ereturn_def)
    ultimately show ?thesis by auto
  next
    case False
    then have "handleWebhook env sig body s = (Inr S12Ok, (s\<lparr>s12_customers := js_set i (c\<lparr>kc_status := toDbStatus (kv_status ev)\<rparr>) (s12_customers s)\<rparr>)
        \<lparr>s12_sent := s12_sent s @ [\<lparr>sc_customer = i, sc_previous = kc_status c, sc_next = toDbStatus (kv_status ev),
          sc_reasons = rejection_reasons body (toDbStatus (kv_status ev))\<rparr>]\<rparr>)"
      using m by (simp add: handleWebhook_def accepted_message_def guarded_def ecatch_def ebind_def t Let_def ereturn_def
          update_customer_ok [OF db g] announce_def emodify_def)
    then show ?thesis by simp
  qed
qed

lemma find_after_set:
  assumes "js_wf m" "find (\<lambda>(k, v). Q v) m = Some (i, c)" "Q (f c)"
  shows "find (\<lambda>(k, v). Q v) (js_set i (f c) m) = Some (i, f c)"
  using assms(1,2)
proof (induction m)
  case (Cons p m)
  obtain k v where p: "p = (k, v)" by fastforce
  show ?case
  proof (cases "Q v")
    case True
    then show ?thesis using Cons.prems(2) assms(3) p by simp
  next
    case False
    then have f: "find (\<lambda>(k, v). Q v) m = Some (i, c)" using Cons.prems(2) p by simp
    have w: "js_wf m" using Cons.prems(1) p by (simp add: js_wf_def)
    have "js_get m i = Some c" using find_in_map [OF w f] .
    then have "k \<noteq> i" using Cons.prems(1) p by (auto simp: js_wf_def map_of_eq_None_iff [symmetric])
    then show ?thesis using Cons.IH [OF w f] False p by simp
  qed
qed simp

lemma ref_after_status:
  assumes "js_wf m" "customer_by_ref provider ref m = Some (i, c)"
  shows "customer_by_ref provider ref (js_set i (c\<lparr>kc_status := st\<rparr>) m) = Some (i, c\<lparr>kc_status := st\<rparr>)"
proof -
  let ?Q = "\<lambda>c. kc_provider c = Some provider \<and> kc_providerRef c = Some ref \<and> kc_deletedAt c = None"
  have "find (\<lambda>(k, v). ?Q v) m = Some (i, c)" using assms(2) by (simp add: customer_by_ref_def)
  moreover from this have "?Q c" using find_Some_iff [of "\<lambda>(k, v). ?Q v" m "(i, c)"] by auto
  ultimately show ?thesis using find_after_set [OF assms(1), of ?Q i c "\<lambda>c. c\<lparr>kc_status := st\<rparr>"] by (simp add: customer_by_ref_def)
qed

text \<open>A signed message carries no time and is not remembered: whoever has kept the message that accepted a customer can send it again after the
  provider has rejected the customer, and the customer is accepted once more.
\<close>
theorem replayed_message_undoes_rejection:
  assumes db: "\<forall>w. e12_db env w = (Inr (), w)"
    and old: "accepted_message env sig body ev" "kv_status ev = KAccepted" "truthy_str (kv_providerRef ev) = Some ref"
    and rejection: "accepted_message env sig' body' ev'" "kv_status ev' = KRejected" "truthy_str (kv_providerRef ev') = Some ref"
    and c: "customer_by_ref (kp_name (e12_provider env)) ref (s12_customers s) = Some (i, c)" "js_wf (s12_customers s)"
    and first: "handleWebhook env sig' body' s = (r, s1)" and again: "handleWebhook env sig body s1 = (r2, s2)"
  shows "map_option kc_status (js_get (s12_customers s1) i) = Some K_REJECTED \<and> map_option kc_status (js_get (s12_customers s2) i) = Some K_ACCEPTED"
proof -
  have d: "e12_db env w = (Inr (), w)" for w using db by simp
  have 1: "s12_customers s1 = js_set i (c\<lparr>kc_status := K_REJECTED\<rparr>) (s12_customers s)"
    using message_sets_status [OF d rejection(1,3) c] first rejection(2) by (auto simp: toDbStatus_def)
  then have "customer_by_ref (kp_name (e12_provider env)) ref (s12_customers s1) = Some (i, c\<lparr>kc_status := K_REJECTED\<rparr>)" "js_wf (s12_customers s1)"
    using ref_after_status [OF c(2,1)] c(2) by simp_all
  from message_sets_status [OF d old(1,3) this] again old(2) 1 show ?thesis by (auto simp: toDbStatus_def)
qed

lemma demo_message:
  "accepted_message demo12 (Some ''secret'') (JObj [(''reference'', JStr ''GA''), (''event'', JStr e)])
     \<lparr>kv_account = Some ''GA'', kv_providerRef = Some ''GA'', kv_status = normalizeStatus e\<rparr>" if "e \<noteq> []"
  using that by (simp add: accepted_message_def demo12_def createKycProvider_def behind_breaker_def shufti_provider_def hmac_verify_def demo_kyc_env_def
      truthy_str_def timingSafeMatch_def shufti_parse_def asRecord_def status_or_pending_def)

lemma demo12_found: "customer_by_ref (kp_name (e12_provider demo12)) ''GA'' (s12_customers demo_state12) = Some (''c1'', demo_customer)"
  by (simp add: customer_by_ref_def demo12_def createKycProvider_def behind_breaker_def shufti_provider_def demo_state12_def demo_customer_def)

lemma demo_db: "\<forall>w. e12_db demo12 w = (Inr (), w)"
  by (simp add: demo12_def ereturn_def)

theorem replayed_message_undoes_rejection_witness:
  "map_option kc_status (js_get (s12_customers (snd (handleWebhook demo12 (Some ''secret'') (JObj [(''reference'', JStr ''GA''), (''event'', JStr ''verification.accepted'')])
     (snd (handleWebhook demo12 (Some ''secret'') (JObj [(''reference'', JStr ''GA''), (''event'', JStr ''verification.declined'')]) demo_state12))))) ''c1'')
   = Some K_ACCEPTED"
proof -
  have n: "normalizeStatus ''verification.accepted'' = KAccepted" "normalizeStatus ''verification.declined'' = KRejected" by code_simp+
  have p: "p = (fst p, snd p)" for p :: "(js_error + sep12_answer) \<times> unit sep12_state" by simp
  show ?thesis
    by (rule replayed_message_undoes_rejection [OF demo_db demo_message [of "''verification.accepted''"] _ _ demo_message [of "''verification.declined''"] _ _ demo12_found _ p p,
          THEN conjunct2]) (simp_all add: n truthy_str_def demo_state12_def js_wf_def)
qed

text \<open>A message of Shufti about an event whose last word is none of the nine the code knows (a timeout, a change of data, a review) takes the
  acceptance from an accepted customer: it is read as a pending status and stored.
\<close>
theorem unknown_event_revokes_acceptance:
  assumes db: "\<forall>w. e12_db env w = (Inr (), w)" and provider: "e12_provider env = createKycProvider kenv fire ''shufti''"
    and body: "body = JObj [(''reference'', JStr ref), (''event'', JStr e)]" "ref \<noteq> []" "e \<noteq> []"
    and unknown: "extractStatusToken e \<notin> set (accepted_tokens @ rejected_tokens)"
    and signed: "kp_verify (e12_provider env) (json_stringify body) sig"
    and c: "customer_by_ref ''shufti'' ref (s12_customers s) = Some (i, c)" "kc_status c = K_ACCEPTED" "js_wf (s12_customers s)"
  shows "\<exists>s'. handleWebhook env sig body s = (Inr S12Ok, s') \<and> js_get (s12_customers s') i = Some (c\<lparr>kc_status := K_PENDING\<rparr>)"
proof -
  have n: "kp_name (e12_provider env) = ''shufti''" "kp_parse (e12_provider env) = shufti_parse"
    by (simp_all add: provider createKycProvider_def behind_breaker_def shufti_provider_def)
  have "normalizeStatus e = KPending" using unknown by (simp add: normalizeStatus_def)
  then have m: "accepted_message env sig body \<lparr>kv_account = Some ref, kv_providerRef = Some ref, kv_status = KPending\<rparr>"
    using body signed by (simp add: accepted_message_def n shufti_parse_def asRecord_def status_or_pending_def)
  have "e12_db env w = (Inr (), w)" for w using db by simp
  moreover have "truthy_str (Some ref) = Some ref" using body(2) by (cases ref) (simp_all add: truthy_str_def)
  ultimately show ?thesis using message_sets_status [OF _ m, of ref s i c] c by (auto simp: n toDbStatus_def)
qed

theorem unknown_event_revokes_acceptance_witness:
  "\<exists>s'. handleWebhook demo12 (Some ''secret'') (JObj [(''reference'', JStr ''GA''), (''event'', JStr ''request.timeout'')]) demo_state12 = (Inr S12Ok, s')
     \<and> js_get (s12_customers s') ''c1'' = Some (demo_customer\<lparr>kc_status := K_PENDING\<rparr>)"
proof (rule unknown_event_revokes_acceptance [OF demo_db])
  show "e12_provider demo12 = createKycProvider demo_kyc_env (\<lambda>m. m) ''shufti''" by (simp add: demo12_def)
  show "extractStatusToken ''request.timeout'' \<notin> set (accepted_tokens @ rejected_tokens)" by code_simp
  show "kp_verify (e12_provider demo12) (json_stringify (JObj [(''reference'', JStr ''GA''), (''event'', JStr ''request.timeout'')])) (Some ''secret'')"
    using demo_message [of "''request.timeout''"] by (simp add: accepted_message_def)
  show "customer_by_ref ''shufti'' ''GA'' (s12_customers demo_state12) = Some (''c1'', demo_customer)"
    by (simp add: customer_by_ref_def demo_state12_def demo_customer_def)
qed (simp_all add: demo_customer_def demo_state12_def js_wf_def)

section \<open>Who can delete a customer\<close>

text \<open>Deleting a customer asks nobody who is calling: with any session or none, the customer of an account is gone for every later reader.
\<close>
theorem anyone_deletes_customer:
  assumes db: "\<forall>w. e12_db env w = (Inr (), w)" and account: "truthy_str (Some a) = Some a" "js_get (s12_users s) a = Some userId"
    and c: "customer_of userId (s12_customers s) = Some (i, c)" "kc_deletedAt c = None" and run: "deleteCustomer env session (Some a) s = (r, s')"
  shows "r = Inr S12Ok \<and> fst (getCustomer env (Some a) s') = Inr (S12Error 404 ''Customer not found'')"
proof -
  let ?now = "e12_now env (s12_world s)"
  let ?live = "\<lambda>c. kc_userId c = userId \<and> kc_deletedAt c = None"
  let ?stamp = "\<lambda>(i, c). (i, if ?live c then c\<lparr>kc_deletedAt := Some ?now\<rparr> else c)"
  have k: "kdb env t = (Inr (), t)" for t using db by (simp add: kdb_def in_world_def)
  have "find (\<lambda>(i, c). kc_userId c = userId) (s12_customers s) = Some (i, c)" using c(1) by (simp add: customer_of_def)
  then have "(i, c) \<in> set (s12_customers s)" "kc_userId c = userId"
    using find_mem by fastforce+
  then have live: "list_ex (\<lambda>(i, c). ?live c) (s12_customers s)" using c(2) by (auto simp: list_ex_iff)
  have run': "deleteCustomer env session (Some a) s = (Inr S12Ok, s\<lparr>s12_customers := List.map ?stamp (s12_customers s)\<rparr>)"
    using account live by (simp add: deleteCustomer_def guarded_def softDeleteKycCustomer_def kclock_def eff_defs k Let_def)
  have gone: "kc_deletedAt d \<noteq> None" if "customer_of userId (List.map ?stamp m) = Some (j, d)" for m j d
  proof -
    have "(j, d) \<in> set (List.map ?stamp m) \<and> kc_userId d = userId"
      using that find_mem [of "\<lambda>(i, c). kc_userId c = userId" "List.map ?stamp m" "(j, d)"] by (simp add: customer_of_def)
    then obtain k c0 where "(j, d) = ?stamp (k, c0)" "kc_userId d = userId" by auto
    then show ?thesis by (cases "?live c0") auto
  qed
  have get: "getCustomer env (Some a) t = (Inr (case customer_of userId (s12_customers t) of
      Some (i, c) \<Rightarrow> if kc_deletedAt c = None then shown_customer a c else S12Error 404 ''Customer not found''
    | None \<Rightarrow> S12Error 404 ''Customer not found''), t)" if "s12_users t = s12_users s" for t
    using account that by (simp add: getCustomer_def guarded_def eff_defs k)
  have "s' = s\<lparr>s12_customers := List.map ?stamp (s12_customers s)\<rparr>" "r = Inr S12Ok" using run run' by simp_all
  then show ?thesis using get [of s'] gone [of "s12_customers s"] by (auto split: option.split)
qed

theorem anyone_deletes_customer_witness:
  "fst (getCustomer demo12 (Some ''GA'') (snd (deleteCustomer demo12 None (Some ''GA'') demo_state12))) = Inr (S12Error 404 ''Customer not found'')"
  by (rule anyone_deletes_customer [OF demo_db, of "''GA''" demo_state12 "''user1''" "''c1''" demo_customer None
        "fst (deleteCustomer demo12 None (Some ''GA'') demo_state12)", THEN conjunct2])
    (simp_all add: truthy_str_def demo_state12_def customer_of_def demo_customer_def)

section \<open>Confirming an upload\<close>

text \<open>The store of uploads changes by a confirmation only when the session, if there is one, is the account of the request, the upload belongs
  to this account and the storage has the file; then the upload is completed and nothing else changes.
\<close>
theorem upload_confirmed_by_owner:
  assumes "confirmUpload env session i a s = (r, s')" "s12_uploads s' \<noteq> s12_uploads s"
  shows "\<exists>uploadId account rec t w. i = Some uploadId \<and> a = Some account \<and> (session = None \<or> session = Some account)
    \<and> upload_get (s12_uploads s) uploadId = Some rec \<and> up_account rec = account \<and> up_status rec \<noteq> UP_EXPIRED
    \<and> e12_exists env (storage_key (e12_keyPrefix env) account uploadId rec) t = (Inr True, w)
    \<and> s12_uploads s' = upload_setStatus uploadId UP_COMPLETED (s12_uploads s)"
proof -
  obtain uploadId account where ia: "truthy_str i = Some uploadId" "truthy_str a = Some account"
    using assms by (auto simp: confirmUpload_def guarded_def eff_defs split: option.splits)
  then have ids: "i = Some uploadId" "a = Some account" by (auto simp: truthy_str_def split: option.splits list.splits)
  have ses: "session = None \<or> session = Some account"
  proof (rule ccontr)
    assume "\<not> ?thesis"
    then have "confirmUpload env session i a s = (Inr (S12Error 403 ''Forbidden: session account does not match request account''), s)"
      using ia by (auto simp: confirmUpload_def guarded_def eff_defs)
    then show False using assms by simp
  qed
  then have nses: "\<not> (case session of Some k \<Rightarrow> k \<noteq> account | None \<Rightarrow> False)" by auto
  obtain rec where rec: "upload_get (s12_uploads s) uploadId = Some rec" "up_status rec \<noteq> UP_EXPIRED" "up_account rec = account"
    using assms ia nses by (auto simp: confirmUpload_def guarded_def eff_defs split: option.splits if_splits)
  obtain x w where x: "e12_exists env (storage_key (e12_keyPrefix env) account uploadId rec) (s12_world s) = (x, w)" by fastforce
  have "x = Inr True \<and> s12_uploads s' = upload_setStatus uploadId UP_COMPLETED (s12_uploads s)"
    using assms ia nses rec x
    by (auto simp: confirmUpload_def guarded_def eff_defs in_world_def split: option.splits sum.splits prod.splits bool.splits)
  then show ?thesis using ids ses rec x by blast
qed

theorem upload_confirmed_by_owner_witness:
  "\<exists>s'. confirmUpload demo12 (Some ''GA'') (Some ''u1'') (Some ''GA'') (demo_state12\<lparr>s12_uploads := [(''u1'', demo_upload\<lparr>up_status := UP_PENDING\<rparr>)]\<rparr>)
      = (Inr (S12Confirmed ''u1''), s')
    \<and> s12_uploads s' = upload_setStatus ''u1'' UP_COMPLETED [(''u1'', demo_upload\<lparr>up_status := UP_PENDING\<rparr>)]"
proof -
  let ?s = "demo_state12\<lparr>s12_uploads := [(''u1'', demo_upload\<lparr>up_status := UP_PENDING\<rparr>)]\<rparr>"
  have s': "confirmUpload demo12 (Some ''GA'') (Some ''u1'') (Some ''GA'') ?s = (Inr (S12Confirmed ''u1''), demo_state12)"
    by (simp add: confirmUpload_def guarded_def eff_defs in_world_def truthy_str_def upload_get_def)
      (simp add: demo12_def eff_defs upload_setStatus_def demo_state12_def demo_upload_def)
  have "s12_uploads demo_state12 \<noteq> s12_uploads ?s" by (simp add: demo_upload_def demo_state12_def)
  from upload_confirmed_by_owner [OF s' this] s' show ?thesis by auto
qed

section \<open>A provider that is down\<close>

lemma packed_returns:
  assumes "\<forall>iv t. \<exists>p. sealed (cs_env (e12_crypto env)) (cs_key (e12_crypto env)) iv t = Inr p"
  shows "\<exists>v w. packed env x s = (Inr v, s\<lparr>s12_world := w\<rparr>)"
proof (cases "truthy_str x")
  case None
  then have "packed env x s = (Inr None, s\<lparr>s12_world := s12_world s\<rparr>)" by (simp add: packed_def ereturn_def)
  then show ?thesis by blast
next
  case (Some t)
  let ?iv = "random_bytes (cs_env (e12_crypto env)) 16 (drawn (s12_world s))"
  obtain ct tag where "sealed (cs_env (e12_crypto env)) (cs_key (e12_crypto env)) ?iv t = Inr (ct, tag)"
    using assms by (metis surj_pair)
  then have "packed env x s = (Inr (Some (hex ?iv @ ''|'' @ hex ct @ '':'' @ hex tag)), s\<lparr>s12_world := (s12_world s)\<lparr>drawn := Suc (drawn (s12_world s))\<rparr>\<rparr>)"
    using Some by (simp add: packed_def in_world_def encrypt_def draw_iv_def eff_defs)
  then show ?thesis by blast
qed

lemma kdb_ok: "\<forall>w. e12_db env w = (Inr (), w) \<Longrightarrow> kdb env s = (Inr (), s)"
  by (simp add: kdb_def in_world_def)

lemma store_submission_existing:
  assumes cipher: "\<forall>iv t. \<exists>p. sealed (cs_env (e12_crypto env)) (cs_key (e12_crypto env)) iv t = Inr p"
    and db: "\<forall>w. e12_db env w = (Inr (), w)" and c: "customer_of userId (s12_customers s) = Some (i, c)"
  shows "\<exists>d w. store_submission env userId req docs kyc s = (Inr i, s\<lparr>s12_customers := js_set i d (s12_customers s), s12_world := w\<rparr>)
    \<and> kc_status d = K_PENDING \<and> kc_providerRef d = kc_providerRef c"
proof -
  let ?extra = "if extra_payload docs kyc \<noteq> [] then Some (json_stringify (JObj (extra_payload docs kyc))) else None"
  obtain v1 w1 where 1: "packed env (pr_first_name req) s = (Inr v1, s\<lparr>s12_world := w1\<rparr>)" using packed_returns [OF cipher] by blast
  obtain v2 w2 where 2: "packed env (pr_last_name req) (s\<lparr>s12_world := w1\<rparr>) = (Inr v2, s\<lparr>s12_world := w2\<rparr>)"
    using packed_returns [OF cipher, of "pr_last_name req" "s\<lparr>s12_world := w1\<rparr>"] by auto
  obtain v3 w3 where 3: "packed env (pr_email_address req) (s\<lparr>s12_world := w2\<rparr>) = (Inr v3, s\<lparr>s12_world := w3\<rparr>)"
    using packed_returns [OF cipher, of "pr_email_address req" "s\<lparr>s12_world := w2\<rparr>"] by auto
  obtain v4 w4 where 4: "packed env ?extra (s\<lparr>s12_world := w3\<rparr>) = (Inr v4, s\<lparr>s12_world := w4\<rparr>)"
    using packed_returns [OF cipher, of ?extra "s\<lparr>s12_world := w3\<rparr>"] by auto
  let ?d = "c\<lparr>kc_firstName := v1, kc_lastName := v2, kc_email := v3, kc_extraFields := v4, kc_status := K_PENDING, kc_deletedAt := None\<rparr>"
  have "store_submission env userId req docs kyc s = (Inr i, s\<lparr>s12_customers := js_set i ?d (s12_customers s), s12_world := w4\<rparr>)"
    unfolding store_submission_def
    by (simp only: ebind_def [of "packed _ _"] 1 2 3 4 prod.case sum.case)
      (simp add: upsert_customer_def kdb_ok [OF db] eff_defs c set_customer_def)
  then show ?thesis by (intro exI [of _ ?d] exI [of _ w4]) simp
qed

text \<open>When an accepted customer submits again while the provider is down, the customer is answered that the submission is processed and is pending from
  then on; the message of the fallback says that the submission will be sent again, but nothing is kept to do so, and no partner is told.
\<close>
theorem resubmission_in_outage_drops_acceptance:
  fixes env :: "'d sep12_env"
  assumes db: "\<forall>w. e12_db env w = (Inr (), w)" and cipher: "\<forall>iv t. \<exists>p. sealed (cs_env (e12_crypto env)) (cs_key (e12_crypto env)) iv t = Inr p"
    and provider: "e12_provider env = createKycProvider kenv fire name" and down: "\<forall>m w. \<exists>e w'. fire m w = (Inl e, w')"
    and req: "truthy_str (pr_account req) = Some a" "e12_validKey env a" "pr_user req = Some a" "pr_otherFields req = []" "pr_files req = None"
    and c: "js_get (s12_users s) a = Some userId" "customer_of userId (s12_customers s) = Some (i, c)" "kc_status c = K_ACCEPTED"
    and run: "putCustomer env req s = (r, s')"
  shows "r = Inr (S12Accepted a ''PROCESSING'') \<and> map_option kc_status (js_get (s12_customers s') i) = Some K_PENDING \<and> s12_sent s' = s12_sent s"
proof -
  have u: "find_or_create_user env a s = (Inr userId, s)" using c(1) by (simp add: find_or_create_user_def kdb_ok [OF db] eff_defs)
  have res: "resolveCustomerDocuments p u a [] None = Inr (Resolved [] [])" for p u by (simp add: resolveCustomerDocuments_def)
  obtain d w where st: "store_submission env userId req [] [] s = (Inr i, s\<lparr>s12_customers := js_set i d (s12_customers s), s12_world := w\<rparr>)"
      "kc_status d = K_PENDING" "kc_providerRef d = kc_providerRef c"
    using store_submission_existing [OF cipher db c(2)] by blast
  let ?t = "s\<lparr>s12_customers := js_set i d (s12_customers s), s12_world := w\<rparr>"
  let ?data = "\<lparr>ks_account = a, ks_firstName = pr_first_name req, ks_lastName = pr_last_name req, ks_email = pr_email_address req, ks_extraFields = []\<rparr>"
  obtain w' where sub: "kp_submit (e12_provider env) ?data [] w = (Inr breaker_fallback, w')"
    using down [rule_format, of "kp_submit (if name = ''persona'' then persona_provider kenv else if name = ''shufti'' then shufti_provider kenv
        else mock_provider (kv_now kenv)) ?data []" w]
    by (auto simp: provider createKycProvider_def behind_breaker_def ecatch_def ereturn_def)
  have "\<exists>t. submit_to_provider env i ?data [] ?t = (Inr KProviderRetry, t)
      \<and> map_option kc_status (js_get (s12_customers t) i) = Some K_PENDING \<and> s12_sent t = s12_sent s"
    by (simp add: submit_to_provider_def in_world_def eff_defs sub breaker_fallback_def toDbStatus_def update_customer_def kdb_ok [OF db] set_customer_def Let_def)
  then show ?thesis using run req
    by (auto simp: putCustomer_def guarded_def ecatch_def ebind_def [of "find_or_create_user env a"] ebind_def [of "eget _"] ebind_def [of "elift _"]
        ebind_def [of "store_submission _ _ _ _ _"] ebind_def [of "submit_to_provider _ _ _ _"] u eget_def elift_def res st(1) ereturn_def toSep12Status_def)
qed

theorem resubmission_in_outage_drops_acceptance_witness:
  "\<exists>s'. putCustomer (demo12\<lparr>e12_provider := createKycProvider demo_kyc_env (\<lambda>m. ethrow (PlainError ''open'')) ''shufti''\<rparr>)
      (file_request\<lparr>pr_files := None\<rparr>) demo_state12 = (Inr (S12Accepted ''GA'' ''PROCESSING''), s')
    \<and> map_option kc_status (js_get (s12_customers s') ''c1'') = Some K_PENDING"
proof -
  let ?env = "demo12\<lparr>e12_provider := createKycProvider demo_kyc_env (\<lambda>m. ethrow (PlainError ''open'')) ''shufti''\<rparr>"
  have p: "putCustomer ?env (file_request\<lparr>pr_files := None\<rparr>) demo_state12
      = (fst (putCustomer ?env (file_request\<lparr>pr_files := None\<rparr>) demo_state12), snd (putCustomer ?env (file_request\<lparr>pr_files := None\<rparr>) demo_state12))"
    by simp
  have "fst (putCustomer ?env (file_request\<lparr>pr_files := None\<rparr>) demo_state12) = Inr (S12Accepted ''GA'' ''PROCESSING'')
      \<and> map_option kc_status (js_get (s12_customers (snd (putCustomer ?env (file_request\<lparr>pr_files := None\<rparr>) demo_state12))) ''c1'') = Some K_PENDING
      \<and> s12_sent (snd (putCustomer ?env (file_request\<lparr>pr_files := None\<rparr>) demo_state12)) = s12_sent demo_state12"
    by (rule resubmission_in_outage_drops_acceptance [OF _ _ _ _ _ _ _ _ _ _ _ _ p, of demo_kyc_env "\<lambda>m. ethrow (PlainError ''open'')" "''shufti''" "''GA''" "''user1''"
          "''c1''" demo_customer])
      (simp_all add: file_request_def truthy_str_def, simp_all add: demo12_def ereturn_def ethrow_def open_service_def open_cipher_def demo_state12_def
        customer_of_def demo_customer_def)
  then show ?thesis using p by metis
qed

section \<open>No check of a customer ever expires\<close>

definition never_expires :: "'d sep12_state \<Rightarrow> bool" where
  "never_expires s \<longleftrightarrow> (\<forall>(i, c) \<in> set (s12_customers s). kc_expiresAt c = None)"

lemma never_expires_simps [simp]:
  "never_expires (s\<lparr>s12_world := w\<rparr>) = never_expires s" "never_expires (s\<lparr>s12_users := u\<rparr>) = never_expires s"
  "never_expires (s\<lparr>s12_uploads := up\<rparr>) = never_expires s" "never_expires (s\<lparr>s12_sent := x\<rparr>) = never_expires s"
  "never_expires (s\<lparr>s12_warned := y\<rparr>) = never_expires s"
  by (simp_all add: never_expires_def)

text \<open>A computation that reads the state and goes on with what it read.\<close>

lemma preserves_eget: "(\<And>s. P s \<Longrightarrow> P (snd (g (h s) s))) \<Longrightarrow> preserves P (ebind (eget h) g)"
  by (simp add: preserves_def ebind_def eget_def)

lemma never_in_world: "preserves never_expires (in_world m)"
  by (auto simp: preserves_def in_world_def split: prod.split)

lemma never_calls: "preserves never_expires (kdb env)" "preserves never_expires (kuuid env)" "preserves never_expires (kclock env)"
  by (simp_all add: kdb_def kuuid_def kclock_def never_in_world preserves_simple)

lemma never_set: "kc_expiresAt c = None \<Longrightarrow> preserves never_expires (set_customer i c)"
  using set_after_set by (fastforce simp: set_customer_def emodify_def preserves_def never_expires_def)

lemma never_update:
  assumes "\<And>c. kc_expiresAt (f c) = kc_expiresAt c"
  shows "preserves never_expires (update_customer env i f)"
proof -
  have "never_expires (snd (set_customer i (f c) s))" if "never_expires s" "js_get (s12_customers s) i = Some c" for c s
  proof -
    have "(i, c) \<in> set (s12_customers s)" using that(2) by (rule map_of_SomeD)
    then have "kc_expiresAt c = None" using that(1) unfolding never_expires_def by blast
    then have "kc_expiresAt (f c) = None" by (simp add: assms)
    then show ?thesis using that(1) by (rule preservesD [OF never_set])
  qed
  then have "never_expires (snd (ebind (set_customer i (f c)) (\<lambda>_. ereturn (f c)) s))" if "never_expires s" "js_get (s12_customers s) i = Some c" for c s
    using that by (auto simp: ebind_def ereturn_def set_customer_def emodify_def)
  then have "preserves never_expires (ebind (eget (\<lambda>s. js_get (s12_customers s) i))
      (\<lambda>c. case c of None \<Rightarrow> ethrow no_customer | Some c \<Rightarrow> ebind (set_customer i (f c)) (\<lambda>_. ereturn (f c))))"
    by (intro preserves_eget) (auto simp: ethrow_def split: option.split)
  then show ?thesis unfolding update_customer_def by (rule preserves_ebind [OF never_calls(1)])
qed

lemma never_upsert:
  assumes "\<And>c. kc_expiresAt (f c) = kc_expiresAt c"
  shows "preserves never_expires (upsert_customer env userId f)"
proof -
  have old: "never_expires (snd (ebind (set_customer i ((f c)\<lparr>kc_deletedAt := None\<rparr>)) (\<lambda>_. ereturn i) s))"
    if "never_expires s" "customer_of userId (s12_customers s) = Some (i, c)" for c i s
  proof -
    have "(i, c) \<in> set (s12_customers s)" using that(2) find_mem unfolding customer_of_def by fast
    then have "kc_expiresAt c = None" using that(1) unfolding never_expires_def by blast
    then have "preserves never_expires (set_customer i ((f c)\<lparr>kc_deletedAt := None\<rparr>))" by (intro never_set) (simp add: assms)
    then show ?thesis using that(1) by (auto simp: ebind_def ereturn_def set_customer_def emodify_def preserves_def)
  qed
  have new: "preserves never_expires (ebind (kuuid env) (\<lambda>i. ebind (set_customer i (f \<lparr>kc_userId = userId, kc_provider = None, kc_providerRef = None,
      kc_firstName = None, kc_lastName = None, kc_email = None, kc_extraFields = None, kc_status = K_PENDING, kc_expiresAt = None, kc_deletedAt = None\<rparr>))
      (\<lambda>_. ereturn i)))"
    by (intro preserves_ebind never_calls never_set preserves_simple) (simp add: assms)
  show ?thesis unfolding upsert_customer_def
  proof (rule preserves_ebind [OF never_calls(1)], goal_cases)
    case 1
    show ?case
      by (intro preserves_eget) (auto simp: old preservesD [OF new] split: option.split)
  qed
qed

lemma never_packed: "preserves never_expires (packed env v)"
  unfolding packed_def by (intro preserves_rules never_in_world)

lemma never_find_user: "preserves never_expires (find_or_create_user env a)"
  unfolding find_or_create_user_def by (intro preserves_rules never_calls preserves_emodify) simp_all

lemma never_answers: "preserves never_expires m \<Longrightarrow> preserves never_expires (guarded a m)"
  unfolding guarded_def by (intro preserves_rules)

text \<open>What the endpoints and the two jobs do to the tables.\<close>

datatype sep12_call =
    PutCall put_request
  | DeleteCall "string option" "string option"
  | WebhookCall "string option" json
  | UploadCall upload_request
  | ConfirmCall "string option" "string option" "string option"
  | PurgeCall
  | WarnCall int

definition sep12_step :: "'d sep12_env \<Rightarrow> 'd sep12_state \<Rightarrow> sep12_call \<Rightarrow> 'd sep12_state" where
  "sep12_step env s c = (case c of
     PutCall req \<Rightarrow> snd (putCustomer env req s)
   | DeleteCall k a \<Rightarrow> snd (deleteCustomer env k a s)
   | WebhookCall sig body \<Rightarrow> snd (handleWebhook env sig body s)
   | UploadCall req \<Rightarrow> snd (post_upload_url env req s)
   | ConfirmCall k i a \<Rightarrow> snd (confirmUpload env k i a s)
   | PurgeCall \<Rightarrow> snd (purgeSoftDeletedKycCustomers env s)
   | WarnCall days \<Rightarrow> snd (processKycExpirationGracePeriod env days s))"

lemma never_put: "preserves never_expires (putCustomer env req)"
proof -
  have store: "preserves never_expires (store_submission env userId req ds ks)" for userId ds ks
    unfolding store_submission_def by (intro preserves_ebind never_packed never_upsert) simp
  have submit: "preserves never_expires (submit_to_provider env i data ds)" for i data ds
    unfolding submit_to_provider_def announce_def Let_def
    by (intro preserves_rules never_in_world never_update preserves_emodify) simp_all
  have res: "preserves never_expires (case r of Resolved ds ks \<Rightarrow> f ds ks | Unresolved m st \<Rightarrow> g m st)"
    if "\<And>ds ks. preserves never_expires (f ds ks)" "\<And>m st. preserves never_expires (g m st)" for r f g
    using that by (cases r) simp_all
  show ?thesis unfolding putCustomer_def
    by (intro never_answers preserves_rules res never_find_user store submit)
qed

lemma never_delete: "preserves never_expires (deleteCustomer env k a)"
proof -
  have soft: "preserves never_expires (softDeleteKycCustomer env userId)" for userId
    unfolding softDeleteKycCustomer_def Let_def
    by (intro preserves_ebind never_calls preserves_eget)
      (auto simp: never_expires_def eff_defs)
  show ?thesis unfolding deleteCustomer_def
    by (intro never_answers preserves_rules never_calls soft)
qed

lemma never_webhook: "preserves never_expires (handleWebhook env sig body)"
proof -
  have "preserves never_expires (target_customer env ev)" for ev
    unfolding target_customer_def by (intro preserves_rules never_calls)
  then show ?thesis unfolding handleWebhook_def announce_def Let_def
    by (intro never_answers preserves_rules never_update preserves_emodify) simp_all
qed

lemma never_uploads: "preserves never_expires (post_upload_url env req)" "preserves never_expires (confirmUpload env k i a)"
proof -
  have create: "preserves never_expires (\<lambda>s. case upload_create i a f t e (s12_uploads s) of (r, u) \<Rightarrow> (Inr r, s\<lparr>s12_uploads := u\<rparr>))" for i a f t e
    by (auto simp: preserves_def split: prod.split)
  show "preserves never_expires (post_upload_url env req)"
    unfolding post_upload_url_def getUploadUrl_def Let_def
    by (intro never_answers preserves_rules never_calls create never_in_world preserves_emodify) simp_all
  show "preserves never_expires (confirmUpload env k i a)"
    unfolding confirmUpload_def
    by (intro never_answers preserves_rules never_in_world preserves_emodify) (auto intro!: preserves_rules preserves_emodify split: bool.split)
qed

lemma never_jobs: "preserves never_expires (purgeSoftDeletedKycCustomers env)" "preserves never_expires (processKycExpirationGracePeriod env days)"
proof -
  show "preserves never_expires (purgeSoftDeletedKycCustomers env)"
    unfolding purgeSoftDeletedKycCustomers_def Let_def
    by (intro preserves_ebind never_calls preserves_eget) (auto simp: never_expires_def eff_defs)
  have w: "preserves never_expires (warn_customer env x)" for x
    unfolding warn_customer_def updateKycStatus_def by (intro preserves_rules never_update never_in_world preserves_emodify) simp_all
  have "preserves never_expires (eff_list (warn_customer env) xs)" for xs
    by (induction xs) (auto intro!: preserves_rules w)
  then show "preserves never_expires (processKycExpirationGracePeriod env days)"
    unfolding processKycExpirationGracePeriod_def getExpiringKycCustomers_def by (intro preserves_rules never_calls)
qed

text \<open>No customer has a date at which the check expires, whatever is called in whatever order: no code sets it. So the job that warns customers
  a week before the end never finds one, and nobody has to renew.
\<close>
theorem no_check_ever_expires:
  assumes "never_expires s"
  shows "never_expires (foldl (sep12_step env) s cs)
    \<and> (\<forall>xs t. getExpiringKycCustomers env days (foldl (sep12_step env) s cs) = (Inr xs, t) \<longrightarrow> xs = [])"
proof -
  have step: "never_expires (sep12_step env t c)" if "never_expires t" for t c
    using that by (cases c) (simp_all add: sep12_step_def preservesD [OF never_put] preservesD [OF never_delete] preservesD [OF never_webhook]
        preservesD [OF never_uploads(1)] preservesD [OF never_uploads(2)] preservesD [OF never_jobs(1)] preservesD [OF never_jobs(2)])
  have inv: "never_expires (foldl (sep12_step env) s cs)"
    using assms by (induction cs arbitrary: s) (auto simp: step)
  have "xs = []" if run: "getExpiringKycCustomers env days u = (Inr xs, t)" and u: "never_expires u" for u xs t
  proof -
    obtain now v where now: "kdb env u = (Inr (), v)" "xs = filter (\<lambda>(i, c). expiring now (e12_addDays env now days) c) (s12_customers v)"
      using run by (auto simp: getExpiringKycCustomers_def kclock_def eff_defs split: prod.splits sum.splits)
    then have "never_expires v" using preserves_result [OF never_calls(1) now(1) u] by simp
    then have "\<not> expiring now th c" if "(i, c) \<in> set (s12_customers v)" for i c th
      using that unfolding never_expires_def by (fastforce simp: expiring_def)
    then show ?thesis using now(2) by (auto simp: filter_empty_conv)
  qed
  with inv show ?thesis by blast
qed

theorem no_check_ever_expires_witness:
  "never_expires (foldl (sep12_step demo12) demo_state12 [PutCall file_request, WebhookCall (Some ''secret'') (JObj []), PurgeCall])"
proof -
  have "never_expires demo_state12" by (simp add: never_expires_def demo_state12_def demo_customer_def)
  from no_check_ever_expires [OF this] show ?thesis by blast
qed

section \<open>Telling a partner\<close>

declare send_from.simps [simp del]

text \<open>The attempts are numbered in order, and a delivery is the last.\<close>

lemma send_from_shape:
  assumes "attempt \<le> Suc (re_maxRetries e)" "send_from e clock call attempt logs code err s = (d, s')" "List.map dl_attempt logs = [1..<attempt]"
    "\<forall>l \<in> set logs. \<not> dl_success l" "1 \<le> attempt"
  shows "List.map dl_attempt (ob_logs d) = [1..<Suc (ob_attempts d)] \<and> ob_attempts d \<le> re_maxRetries e
    \<and> (ob_delivered d \<longleftrightarrow> (\<exists>l \<in> set (ob_logs d). dl_success l))
    \<and> (\<exists>n \<le> re_maxRetries e. ow_slept s' = ow_slept s @ List.map (getBackoffDelay e) [attempt..<n])"
  using assms
proof (induction e clock call attempt logs code err s arbitrary: d s' rule: send_from.induct)
  case (1 e clock call attempt logs code err s)
  show ?case
  proof (cases "attempt > re_maxRetries e")
    case True
    then have last: "attempt = Suc (re_maxRetries e)" using 1(3) by simp
    show ?thesis using 1(3-) True unfolding last
      by (auto simp: send_from.simps [of e clock call "Suc _"] simp del: upt_Suc intro!: exI [of _ 0])
  next
    case False
    obtain t v s1 where call: "attempt_call clock call attempt s = ((t, v), s1)" by (metis surj_pair)
    have slept: "ow_slept s1 = ow_slept s" using call by (auto simp: attempt_call_def split: prod.splits)
    show ?thesis
    proof (cases "\<exists>status. v = Inr (True, status)")
      case True
      then obtain status where v: "v = Inr (True, status)" by blast
      have "d = \<lparr>ob_delivered = True, ob_attempts = attempt, ob_statusCode = Some status,
          ob_logs = logs @ [\<lparr>dl_attempt = attempt, dl_timestamp = t, dl_statusCode = Some status, dl_error = None, dl_success = True\<rparr>],
          ob_error = None\<rparr>" "s' = s1"
        using 1(4) False call by (simp_all add: send_from.simps [of e clock call attempt] v)
      then show ?thesis using 1(5-) False slept by (intro conjI exI [of _ 0]) simp_all
    next
      case notok: False
      obtain l code' err' where l: "dl_attempt l = attempt" "\<not> dl_success l"
          "send_from e clock call attempt logs code err s
            = send_from e clock call (attempt + 1) (logs @ [l]) code' err' (sleep_between e attempt s1)"
        and ih: "\<And>d s'. attempt + 1 \<le> Suc (re_maxRetries e) \<Longrightarrow>
            send_from e clock call (attempt + 1) (logs @ [l]) code' err' (sleep_between e attempt s1) = (d, s') \<Longrightarrow>
            List.map dl_attempt (logs @ [l]) = [1..<attempt + 1] \<Longrightarrow> \<forall>l \<in> set (logs @ [l]). \<not> dl_success l \<Longrightarrow> 1 \<le> attempt + 1 \<Longrightarrow>
            List.map dl_attempt (ob_logs d) = [1..<Suc (ob_attempts d)] \<and> ob_attempts d \<le> re_maxRetries e
              \<and> (ob_delivered d \<longleftrightarrow> (\<exists>l \<in> set (ob_logs d). dl_success l))
              \<and> (\<exists>n \<le> re_maxRetries e. ow_slept s' = ow_slept (sleep_between e attempt s1) @ List.map (getBackoffDelay e) [attempt + 1..<n])"
      proof (cases v)
        case (Inl x)
        let ?m = "case error_message x of Some m \<Rightarrow> m | None \<Rightarrow> error_text x"
        have step: "send_from e clock call attempt logs code err s
            = send_from e clock call (attempt + 1) (logs @ [\<lparr>dl_attempt = attempt, dl_timestamp = t, dl_statusCode = None,
                dl_error = Some ?m, dl_success = False\<rparr>]) code (Some ?m) (sleep_between e attempt s1)"
          by (subst send_from.simps) (simp add: False call Inl Let_def)
        show ?thesis
          by (rule that [OF _ _ step 1(1) [OF False call [symmetric] refl Inl refl]]) simp_all
      next
        case (Inr p)
        then obtain status where p: "v = Inr (False, status)" using notok by (cases p) auto
        let ?m = "''HTTP '' @ show_int status"
        have step: "send_from e clock call attempt logs code err s
            = send_from e clock call (attempt + 1) (logs @ [\<lparr>dl_attempt = attempt, dl_timestamp = t, dl_statusCode = Some status,
                dl_error = Some ?m, dl_success = False\<rparr>]) (Some status) (Some ?m) (sleep_between e attempt s1)"
          by (subst send_from.simps) (simp add: False call p Let_def)
        show ?thesis
          by (rule that [OF _ _ step 1(2) [OF False call [symmetric] refl p refl refl refl]]) simp_all
      qed
      have new: "List.map dl_attempt (logs @ [l]) = [1..<attempt + 1]" "\<forall>l \<in> set (logs @ [l]). \<not> dl_success l"
        using 1 l by auto
      have bound: "attempt + 1 \<le> Suc (re_maxRetries e)" "1 \<le> attempt + 1" using False by simp_all
      note rest = ih [OF bound(1) trans [OF l(3) [symmetric] 1(4)] new bound(2)]
      obtain n where n: "n \<le> re_maxRetries e" "ow_slept s' = ow_slept (sleep_between e attempt s1) @ List.map (getBackoffDelay e) [attempt + 1..<n]"
        using rest by blast
      have "\<exists>n \<le> re_maxRetries e. ow_slept s' = ow_slept s @ List.map (getBackoffDelay e) [attempt..<n]"
      proof (cases "attempt < re_maxRetries e")
        case True
        then have "ow_slept s' = ow_slept s @ List.map (getBackoffDelay e) [attempt..<max n (attempt + 1)]"
          using n slept by (auto simp: sleep_between_def max_def upt_conv_Cons)
        then show ?thesis using True n(1) by (intro exI [of _ "max n (attempt + 1)"]) simp
      next
        case last: False
        then show ?thesis using n slept by (intro exI [of _ 0]) (auto simp: sleep_between_def)
      qed
      then show ?thesis using rest by blast
    qed
  qed
qed

lemma backoff_sum: "sum_list (List.map (getBackoffDelay e) [1..<n]) = re_baseDelayMs e * (2 ^ (n - 1) - 1)"
proof (induction n)
  case (Suc n)
  then show ?case by (cases n) (simp_all add: getBackoffDelay_def algebra_simps power_Suc2)
qed simp

text \<open>C35. Whatever the partner answers, sendOutboundKycWebhook returns after at most maxRetries calls: they are numbered in order from one,
  the last one is the only one that may have succeeded in being taken, the result is delivered exactly when a call was, and the pauses between them are
  the doubling delays from baseDelayMs on, so that all of them together stay below baseDelayMs times two to the maxRetries - 1 (30 seconds
  by default).\<close>

theorem outbound_attempts_bounded:
  fixes call :: "nat \<Rightarrow> ('w, js_error, bool \<times> int) eff"
  shows "case sendOutboundKycWebhook e clock call \<lparr>ow_world = w, ow_slept = []\<rparr> of (d, s') \<Rightarrow>
    List.map dl_attempt (ob_logs d) = [1..<Suc (ob_attempts d)] \<and> ob_attempts d \<le> re_maxRetries e
    \<and> (ob_delivered d \<longleftrightarrow> (\<exists>l \<in> set (ob_logs d). dl_success l))
    \<and> (\<exists>n \<le> re_maxRetries e. ow_slept s' = List.map (getBackoffDelay e) [1..<n])
    \<and> sum_list (ow_slept s') \<le> re_baseDelayMs e * (2 ^ (re_maxRetries e - 1) - 1)"
proof -
  obtain d s' where run: "send_from e clock call 1 [] None None \<lparr>ow_world = w, ow_slept = []\<rparr> = (d, s')" by (metis surj_pair)
  note shape = send_from_shape [OF _ run]
  then obtain n where n: "n \<le> re_maxRetries e" "ow_slept s' = List.map (getBackoffDelay e) [1..<n]" by auto
  have "sum_list (ow_slept s') \<le> re_baseDelayMs e * (2 ^ (re_maxRetries e - 1) - 1)"
    unfolding n(2) backoff_sum using n(1) by (intro mult_le_mono2 diff_le_mono power_increasing diff_le_mono) simp_all
  then show ?thesis unfolding sendOutboundKycWebhook_def run prod.case using shape n by (simp del: upt_Suc)
qed

end
