(* ===== verification/Sep40.thy ===== *)
theory Sep40
  imports Price_Aggregation
begin

text \<open>
  SEP-40 swap rates: \<open>backend/src/api/controllers/sep40.controller.ts\<close> and the routes of \<open>api/routes/sep40.route.ts\<close>. The table of rates, the
  cache of answers and its counters are the state; \<open>Math.pow\<close> and the clock are parameters. The handlers have no suspension points that
  another call could use.
\<close>

section \<open>Rates\<close>

record swap_rate =
  sw_sell :: string
  sw_buy :: string
  sw_rate :: jsnum
  sw_decimals :: int

type_synonym rate_table = "(string, (string, jsnum) jsmap) jsmap"

abbreviation num :: "rat \<Rightarrow> jsnum" where "num \<equiv> round64"

definition MOCK_SWAP_RATES :: rate_table where
  "MOCK_SWAP_RATES = [
     (''XLM'', [(''USDC'', num (3 / 25)), (''USDT'', num (3 / 25)), (''BTC'', num (27 / 10000000)), (''ETH'', num (3 / 62500)), (''EURC'', num (21 / 200)), (''CADT'', num (33 / 250)), (''DAI'', num (3 / 25)), (''USDP'', num (3 / 25))]),
     (''USDC'', [(''XLM'', num (833 / 100)), (''USDT'', num 1), (''BTC'', num (11 / 500000)), (''ETH'', num (1 / 2500)), (''EURC'', num (833 / 1000)), (''CADT'', num (21 / 20)), (''DAI'', num 1), (''USDP'', num 1)]),
     (''USDT'', [(''XLM'', num (833 / 100)), (''USDC'', num 1), (''BTC'', num (11 / 500000)), (''ETH'', num (1 / 2500)), (''EURC'', num (833 / 1000)), (''CADT'', num (21 / 20)), (''DAI'', num 1), (''USDP'', num 1)]),
     (''BTC'', [(''XLM'', num 370370), (''USDC'', num 45000), (''USDT'', num 45000), (''ETH'', num (37 / 2)), (''EURC'', num 37500), (''CADT'', num 47200), (''DAI'', num 45000), (''USDP'', num 45000)]),
     (''ETH'', [(''XLM'', num 20000), (''USDC'', num 2500), (''USDT'', num 2500), (''BTC'', num (27 / 500)), (''EURC'', num 2525), (''CADT'', num 3175), (''DAI'', num 2500), (''USDP'', num 2500)]),
     (''EURC'', [(''XLM'', num (238 / 25)), (''USDC'', num (6 / 5)), (''USDT'', num (6 / 5)), (''BTC'', num (133 / 5000000)), (''ETH'', num (397 / 1000000)), (''CADT'', num (63 / 50)), (''DAI'', num (6 / 5)), (''USDP'', num (6 / 5))]),
     (''CADT'', [(''XLM'', num (379 / 50)), (''USDC'', num (19 / 20)), (''USDT'', num (19 / 20)), (''BTC'', num (53 / 2500000)), (''ETH'', num (63 / 200000)), (''EURC'', num (397 / 500)), (''DAI'', num (19 / 20)), (''USDP'', num (19 / 20))]),
     (''DAI'', [(''XLM'', num (833 / 100)), (''USDC'', num 1), (''USDT'', num 1), (''BTC'', num (11 / 500000)), (''ETH'', num (1 / 2500)), (''EURC'', num (833 / 1000)), (''CADT'', num (21 / 20)), (''USDP'', num 1)]),
     (''USDP'', [(''XLM'', num (833 / 100)), (''USDC'', num 1), (''USDT'', num 1), (''BTC'', num (11 / 500000)), (''ETH'', num (1 / 2500)), (''EURC'', num (833 / 1000)), (''CADT'', num (21 / 20)), (''DAI'', num 1)])]"

record swap_state =
  ss_table :: rate_table
  ss_cache :: "(string, swap_rate \<times> int) jsmap"
  ss_hits :: int
  ss_misses :: int
  ss_size :: int

definition initial_swaps :: swap_state where
  "initial_swaps = \<lparr>ss_table = MOCK_SWAP_RATES, ss_cache = [], ss_hits = 0, ss_misses = 0, ss_size = 0\<rparr>"

definition CACHE_TTL_MS :: int where "CACHE_TTL_MS = 5 * 60 * 1000"

section \<open>One rate\<close>

definition code_char :: "char \<Rightarrow> bool" where
  "code_char c \<longleftrightarrow> is_digit c \<or> c = CHR ''_'' \<or> c \<in> set ''ABCDEFGHIJKLMNOPQRSTUVWXYZ''"

definition normalizeAsset :: "string \<Rightarrow> string option" where
  "normalizeAsset assetCode =
     (if assetCode = [] then None
      else let n = filter code_char (hd (split_char (CHR ''.'') (upper_text (trim_js assetCode))))
           in if length n < 3 \<or> 12 < length n then None else Some n)"

text \<open>\<open>MOCK_SWAP_RATES[a]?.[b]\<close>, when it is truthy.\<close>

definition table_rate :: "rate_table \<Rightarrow> string \<Rightarrow> string \<Rightarrow> jsnum option" where
  "table_rate t a b = (case Option.bind (js_get t a) (\<lambda>row. js_get row b) of
     Some r \<Rightarrow> if r = Fin 0 \<or> r = NaN then None else Some r | None \<Rightarrow> None)"

text \<open>The rate itself or the inverse of the opposite one.\<close>

definition quoted_rate :: "(jsnum \<Rightarrow> int \<Rightarrow> jsnum) \<Rightarrow> rate_table \<Rightarrow> string \<Rightarrow> string \<Rightarrow> jsnum option" where
  "quoted_rate pow t a b = (case table_rate t a b of
     Some r \<Rightarrow> Some r
   | None \<Rightarrow> (case table_rate t b a of
       Some r \<Rightarrow> if js_isFinite (pow r (- 1)) then Some (pow r (- 1)) else None
     | None \<Rightarrow> None))"

definition decimals_for :: "jsnum \<Rightarrow> int" where
  "decimals_for r = (if js_less r (num (1 / 1000)) then 10 else if js_less r (num (1 / 100)) then 9 else if js_less r (num (1 / 10)) then 8
     else if js_le (num 1000) r then 2 else if js_le (num 100) r then 3 else if js_le (num 10) r then 4 else 7)"

definition swap_rate_of :: "(jsnum \<Rightarrow> int \<Rightarrow> jsnum) \<Rightarrow> rate_table \<Rightarrow> string \<Rightarrow> string \<Rightarrow> swap_rate option" where
  "swap_rate_of pow t a b = (if a = b then None else case quoted_rate pow t a b of
     None \<Rightarrow> None
   | Some r \<Rightarrow>
       let decimals = decimals_for r; multiplier = pow (Fin 10) decimals in
       if js_le r (Fin 0) \<or> js_less (num 1000000) r then None
       else Some \<lparr>sw_sell = a, sw_buy = b, sw_rate = js_div (math_round (js_mul r multiplier)) multiplier, sw_decimals = decimals\<rparr>)"

definition pair_key :: "string \<Rightarrow> string \<Rightarrow> string" where "pair_key a b = a @ ''/'' @ b"

definition getSwapRate :: "(jsnum \<Rightarrow> int \<Rightarrow> jsnum) \<Rightarrow> int \<Rightarrow> string \<Rightarrow> string \<Rightarrow> swap_state \<Rightarrow> swap_rate option \<times> swap_state" where
  "getSwapRate pow now sellAsset buyAsset s =
     (case (normalizeAsset sellAsset, normalizeAsset buyAsset) of
        (Some a, Some b) \<Rightarrow>
          (case (case js_get (ss_cache s) (pair_key a b) of
                   Some (r, t) \<Rightarrow> if now - t < CACHE_TTL_MS then Some r else None | None \<Rightarrow> None) of
             Some r \<Rightarrow> (Some r, s\<lparr>ss_hits := ss_hits s + 1\<rparr>)
           | None \<Rightarrow>
               let s = s\<lparr>ss_misses := ss_misses s + 1\<rparr> in
               (case swap_rate_of pow (ss_table s) a b of
                  None \<Rightarrow> (None, s)
                | Some r \<Rightarrow>
                    let c = js_set (pair_key a b) (r, now) (ss_cache s) in
                    (Some r, s\<lparr>ss_cache := c, ss_size := int (length c)\<rparr>)))
      | _ \<Rightarrow> (None, s))"

section \<open>Many pairs\<close>

record swap_error =
  we_pair :: string
  we_reason :: string

text \<open>\<open>`${v || d}`\<close>.\<close>

definition shown_or :: "json \<Rightarrow> string \<Rightarrow> string" where
  "shown_or v d = (if json_truthy v then json_string v else d)"

definition is_object :: "json \<Rightarrow> bool" where
  "is_object v = (case v of JObj _ \<Rightarrow> True | JArr _ \<Rightarrow> True | _ \<Rightarrow> False)"

definition swap_pair :: "(jsnum \<Rightarrow> int \<Rightarrow> jsnum) \<Rightarrow> int \<Rightarrow> json \<Rightarrow> swap_state \<Rightarrow> (swap_error + swap_rate) \<times> swap_state" where
  "swap_pair pow now pair s =
     (if \<not> is_object pair then (Inl \<lparr>we_pair = ''N/A'', we_reason = ''Invalid pair object: must be an object''\<rparr>, s)
      else let sell = jget pair ''sell_asset''; buy = jget pair ''buy_asset''; shown = shown_or sell ''null'' @ ''/'' @ shown_or buy ''null'' in
        if \<not> json_truthy sell \<or> \<not> json_truthy buy
        then (Inl \<lparr>we_pair = shown, we_reason = ''Missing sell_asset or buy_asset property''\<rparr>, s)
        else case (sell, buy) of
          (JStr a, JStr b) \<Rightarrow>
            (case getSwapRate pow now a b s of
               (Some r, s') \<Rightarrow> (Inr r, s')
             | (None, s') \<Rightarrow> (Inl \<lparr>we_pair = a @ ''/'' @ b, we_reason = ''Unsupported asset pair or invalid rate calculation''\<rparr>, s'))
        | _ \<Rightarrow> (Inl \<lparr>we_pair = shown, we_reason = ''sell_asset and buy_asset must be strings''\<rparr>, s))"

fun getSwapRates :: "(jsnum \<Rightarrow> int \<Rightarrow> jsnum) \<Rightarrow> int \<Rightarrow> json list \<Rightarrow> swap_state \<Rightarrow> (swap_rate list \<times> swap_error list) \<times> swap_state" where
  "getSwapRates pow now [] s = (([], []), s)"
| "getSwapRates pow now (p # ps) s =
     (case swap_pair pow now p s of (r, s') \<Rightarrow>
        (case getSwapRates pow now ps s' of ((rates, errors), s'') \<Rightarrow>
           (case r of Inr x \<Rightarrow> ((x # rates, errors), s'') | Inl e \<Rightarrow> ((rates, e # errors), s''))))"

definition getSupportedPairs :: "swap_state \<Rightarrow> (string \<times> string) list" where
  "getSupportedPairs s = concat (List.map (\<lambda>(a, row). List.map (\<lambda>(b, _). (a, b)) row) (ss_table s))"

definition swap_hit_rate :: "swap_state \<Rightarrow> jsnum" where
  "swap_hit_rate s = (let total = ss_hits s + ss_misses s in
     case (if 0 < total then js_div (js_int (ss_hits s)) (js_int total) else Fin 0) of
       Fin q \<Rightarrow> parseFloat (toFixed 3 q) | x \<Rightarrow> x)"

definition updateSwapRate :: "string \<Rightarrow> string \<Rightarrow> jsnum \<Rightarrow> swap_state \<Rightarrow> swap_state" where
  "updateSwapRate sellAsset buyAsset rate s =
     (let a = upper_text sellAsset; b = upper_text buyAsset;
          row = (case js_get (ss_table s) a of Some row \<Rightarrow> row | None \<Rightarrow> []) in
      s\<lparr>ss_table := js_set a (js_set b rate row) (ss_table s), ss_cache := js_delete (pair_key b a) (js_delete (pair_key a b) (ss_cache s))\<rparr>)"

definition clearSwapCache :: "swap_state \<Rightarrow> swap_state" where
  "clearSwapCache s = s\<lparr>ss_cache := [], ss_hits := 0, ss_misses := 0, ss_size := 0\<rparr>"

section \<open>The routes\<close>

datatype swap_answer =
    SwapError int string string
  | SwapRates "swap_rate list" "swap_error list"

text \<open>The check of the pairs reads a member of each in turn, and throws for null.\<close>

fun check_pairs :: "json list \<Rightarrow> swap_answer option" where
  "check_pairs [] = None"
| "check_pairs (p # ps) =
     (if p \<in> {JUndef, JNull} then Some (SwapError 500 ''internal_server_error'' ''Cannot read properties of null (reading 'sell_asset')'')
      else if \<not> json_truthy (jget p ''sell_asset'') \<or> \<not> json_truthy (jget p ''buy_asset'')
      then Some (SwapError 400 ''invalid_request'' ''Each pair must have \"sell_asset\" and \"buy_asset\" properties'')
      else check_pairs ps)"

definition post_rates :: "(jsnum \<Rightarrow> int \<Rightarrow> jsnum) \<Rightarrow> int \<Rightarrow> json \<Rightarrow> swap_state \<Rightarrow> swap_answer \<times> swap_state" where
  "post_rates pow now body s =
     (case jget body ''pairs'' of
        JArr (p # ps) \<Rightarrow>
          (case check_pairs (p # ps) of
             Some e \<Rightarrow> (e, s)
           | None \<Rightarrow> (case getSwapRates pow now (p # ps) s of ((rates, errors), s') \<Rightarrow> (SwapRates rates errors, s')))
      | _ \<Rightarrow> (SwapError 400 ''invalid_request'' ''Request body must contain a \"pairs\" array with at least one asset pair'', s))"

text \<open>
  Properties of the swap rates: the cache never changes an answer, and the built-in rates do not agree with each other.
\<close>

section \<open>The cache\<close>

lemma code_has_no_slash: "normalizeAsset t = Some a \<Longrightarrow> CHR ''/'' \<notin> set a"
  by (auto simp: normalizeAsset_def code_char_def is_digit_def Let_def split: if_splits)

lemma pair_key_inject:
  assumes "pair_key a b = pair_key c d" "CHR ''/'' \<notin> set a" "CHR ''/'' \<notin> set c"
  shows "a = c \<and> b = d"
  using assms unfolding pair_key_def by (induction a arbitrary: c) (case_tac c; auto)+

text \<open>Every answer in the cache is the one that the table gives now.\<close>

definition cache_agrees :: "(jsnum \<Rightarrow> int \<Rightarrow> jsnum) \<Rightarrow> swap_state \<Rightarrow> bool" where
  "cache_agrees pow s \<longleftrightarrow> (\<forall>k r t. js_get (ss_cache s) k = Some (r, t) \<longrightarrow>
     (\<exists>a b. k = pair_key a b \<and> CHR ''/'' \<notin> set a \<and> CHR ''/'' \<notin> set b \<and> swap_rate_of pow (ss_table s) a b = Some r))"

datatype swap_call = GetRate int string string | SetRate string string jsnum | ClearRates

definition swap_step :: "(jsnum \<Rightarrow> int \<Rightarrow> jsnum) \<Rightarrow> swap_state \<Rightarrow> swap_call \<Rightarrow> swap_state" where
  "swap_step pow s c = (case c of GetRate now a b \<Rightarrow> snd (getSwapRate pow now a b s) | SetRate a b r \<Rightarrow> updateSwapRate a b r s
     | ClearRates \<Rightarrow> clearSwapCache s)"

lemma getSwapRate_cases:
  obtains (hit) a b r t where "normalizeAsset x = Some a" "normalizeAsset y = Some b" "js_get (ss_cache s) (pair_key a b) = Some (r, t)"
      "getSwapRate pow now x y s = (Some r, s\<lparr>ss_hits := ss_hits s + 1\<rparr>)"
  | (miss) a b where "normalizeAsset x = Some a" "normalizeAsset y = Some b" "fst (getSwapRate pow now x y s) = swap_rate_of pow (ss_table s) a b"
      "ss_table (snd (getSwapRate pow now x y s)) = ss_table s"
      "ss_cache (snd (getSwapRate pow now x y s)) = (case swap_rate_of pow (ss_table s) a b of
         None \<Rightarrow> ss_cache s | Some r \<Rightarrow> js_set (pair_key a b) (r, now) (ss_cache s))"
  | (none) "normalizeAsset x = None \<or> normalizeAsset y = None" "getSwapRate pow now x y s = (None, s)"
proof (cases "normalizeAsset x"; cases "normalizeAsset y")
  fix a b assume ab: "normalizeAsset x = Some a" "normalizeAsset y = Some b"
  show thesis
  proof (cases "\<exists>r t. js_get (ss_cache s) (pair_key a b) = Some (r, t) \<and> now - t < CACHE_TTL_MS")
    case True
    then obtain r t where "js_get (ss_cache s) (pair_key a b) = Some (r, t)" "now - t < CACHE_TTL_MS" by blast
    then show thesis using ab by (intro hit [of a b r t]) (simp_all add: getSwapRate_def)
  next
    case False
    then have "(case js_get (ss_cache s) (pair_key a b) of Some (r, t) \<Rightarrow> if now - t < CACHE_TTL_MS then Some r else None | None \<Rightarrow> None) = None"
      by (auto split: option.splits)
    then show thesis using ab
      by (intro miss [of a b]) (simp_all add: getSwapRate_def Let_def split: option.splits)
  qed
qed (use none in \<open>simp_all add: getSwapRate_def\<close>)

lemma getSwapRate_agrees:
  assumes "cache_agrees pow s"
  shows "cache_agrees pow (snd (getSwapRate pow now x y s))"
    "fst (getSwapRate pow now x y s) = (case (normalizeAsset x, normalizeAsset y) of (Some a, Some b) \<Rightarrow> swap_rate_of pow (ss_table s) a b | _ \<Rightarrow> None)"
proof -
  have "cache_agrees pow (snd (getSwapRate pow now x y s)) \<and>
    fst (getSwapRate pow now x y s) = (case (normalizeAsset x, normalizeAsset y) of (Some a, Some b) \<Rightarrow> swap_rate_of pow (ss_table s) a b | _ \<Rightarrow> None)"
  proof (cases rule: getSwapRate_cases [of x y s pow now])
    case (hit a b r t)
    then obtain c d where cd: "pair_key a b = pair_key c d" "CHR ''/'' \<notin> set c" "swap_rate_of pow (ss_table s) c d = Some r"
      using assms unfolding cache_agrees_def by blast
    have "a = c \<and> b = d" by (rule pair_key_inject [OF cd(1) code_has_no_slash [OF hit(1)] cd(2)])
    then show ?thesis using hit cd(3) assms by (simp add: cache_agrees_def)
  next
    case (miss a b)
    have "cache_agrees pow (snd (getSwapRate pow now x y s))"
      unfolding cache_agrees_def
    proof (intro allI impI)
      fix k r t assume k: "js_get (ss_cache (snd (getSwapRate pow now x y s))) k = Some (r, t)"
      show "\<exists>a b. k = pair_key a b \<and> CHR ''/'' \<notin> set a \<and> CHR ''/'' \<notin> set b
        \<and> swap_rate_of pow (ss_table (snd (getSwapRate pow now x y s))) a b = Some r"
      proof (cases "k = pair_key a b \<and> swap_rate_of pow (ss_table s) a b \<noteq> None")
        case True
        then show ?thesis using k miss code_has_no_slash by (intro exI [of _ a] exI [of _ b]) auto
      next
        case False
        then have "js_get (ss_cache s) k = Some (r, t)" using k miss(5) by (auto split: option.splits if_splits)
        then show ?thesis using assms miss(4) unfolding cache_agrees_def by auto
      qed
    qed
    then show ?thesis using miss by simp
  next
    case none
    then show ?thesis using assms by (auto split: option.splits)
  qed
  then show "cache_agrees pow (snd (getSwapRate pow now x y s))"
    "fst (getSwapRate pow now x y s) = (case (normalizeAsset x, normalizeAsset y) of (Some a, Some b) \<Rightarrow> swap_rate_of pow (ss_table s) a b | _ \<Rightarrow> None)"
    by blast+
qed

lemma swap_rate_of_update:
  assumes "(a, b) \<noteq> (c, d)" "(a, b) \<noteq> (d, c)"
  shows "swap_rate_of pow (js_set c (js_set d r (case js_get t c of Some row \<Rightarrow> row | None \<Rightarrow> [])) t) a b = swap_rate_of pow t a b"
proof -
  have "table_rate (js_set c (js_set d r (case js_get t c of Some row \<Rightarrow> row | None \<Rightarrow> [])) t) x y = table_rate t x y" if "(x, y) \<noteq> (c, d)" for x y
    using that by (auto simp: table_rate_def split: option.splits)
  then have "quoted_rate pow (js_set c (js_set d r (case js_get t c of Some row \<Rightarrow> row | None \<Rightarrow> [])) t) a b = quoted_rate pow t a b"
    using assms unfolding quoted_rate_def by (metis (no_types, lifting) prod.inject)
  then show ?thesis by (simp add: swap_rate_of_def)
qed

lemma step_agrees: "cache_agrees pow s \<Longrightarrow> cache_agrees pow (swap_step pow s c)"
proof (cases c)
  case (SetRate x y r)
  assume agrees: "cache_agrees pow s"
  show ?thesis unfolding cache_agrees_def
  proof (intro allI impI)
    fix k q t assume k: "js_get (ss_cache (swap_step pow s c)) k = Some (q, t)"
    then have old: "js_get (ss_cache s) k = Some (q, t)" "k \<noteq> pair_key (upper_text x) (upper_text y)" "k \<noteq> pair_key (upper_text y) (upper_text x)"
      by (auto simp: SetRate swap_step_def updateSwapRate_def Let_def split: if_splits)
    then obtain a b where ab: "k = pair_key a b" "CHR ''/'' \<notin> set a" "CHR ''/'' \<notin> set b" "swap_rate_of pow (ss_table s) a b = Some q"
      using agrees unfolding cache_agrees_def by blast
    then have "(a, b) \<noteq> (upper_text x, upper_text y)" "(a, b) \<noteq> (upper_text y, upper_text x)" using old by auto
    then show "\<exists>a b. k = pair_key a b \<and> CHR ''/'' \<notin> set a \<and> CHR ''/'' \<notin> set b \<and> swap_rate_of pow (ss_table (swap_step pow s c)) a b = Some q"
      using ab by (intro exI [of _ a] exI [of _ b]) (simp add: SetRate swap_step_def updateSwapRate_def Let_def swap_rate_of_update)
  qed
qed (simp_all add: swap_step_def getSwapRate_agrees, simp add: cache_agrees_def clearSwapCache_def)

text \<open>C32. The cache of swap rates never changes an answer: after any calls that ask for rates, set rates and clear the cache, at any times, a rate is
  answered as if it were computed from the table at that moment; setting a rate drops the entries of its pair and of the opposite pair, and no
  other entry depends on it.
\<close>
theorem swap_cache_transparent:
  "fst (getSwapRate pow now x y (foldl (swap_step pow) initial_swaps cs))
     = (case (normalizeAsset x, normalizeAsset y) of
          (Some a, Some b) \<Rightarrow> swap_rate_of pow (ss_table (foldl (swap_step pow) initial_swaps cs)) a b | _ \<Rightarrow> None)"
proof -
  have "cache_agrees pow (foldl (swap_step pow) s cs)" if "cache_agrees pow s" for s
    using that by (induction cs arbitrary: s) (auto simp: step_agrees)
  moreover have "cache_agrees pow initial_swaps" by (simp add: cache_agrees_def initial_swaps_def)
  ultimately show ?thesis using getSwapRate_agrees(2) by blast
qed

section \<open>The built-in rates\<close>

lemma num_exact: "\<bar>i\<bar> < 2 ^ 53 \<Longrightarrow> num (of_int i) = Fin (of_int i)" by (rule round64_int)

lemma num_le: "x \<le> y \<Longrightarrow> js_le (num x) (num y)" by (rule round64_mono)

definition exact_powers :: "(jsnum \<Rightarrow> int \<Rightarrow> jsnum) \<Rightarrow> bool" where
  "exact_powers pow \<longleftrightarrow> (\<forall>n. 0 \<le> n \<and> n \<le> 10 \<longrightarrow> pow (Fin 10) n = Fin (10 ^ nat n))"

lemma table_ETH_EURC: "table_rate MOCK_SWAP_RATES ''ETH'' ''EURC'' = Some (Fin 2525)"
  by (simp add: table_rate_def MOCK_SWAP_RATES_def)

lemma table_rates: "table_rate MOCK_SWAP_RATES ''EURC'' ''USDC'' = Some (Fin (5404319552844595 / 2 ^ 52))"
    "table_rate MOCK_SWAP_RATES ''USDC'' ''ETH'' = Some (Fin (7378697629483821 / 2 ^ 64))"
proof -
  have "num (6 / 5) = Fin (5404319552844595 / 2 ^ 52)" by code_simp
  then show "table_rate MOCK_SWAP_RATES ''EURC'' ''USDC'' = Some (Fin (5404319552844595 / 2 ^ 52))"
    by (simp add: table_rate_def MOCK_SWAP_RATES_def)
  have "num (1 / 2500) = Fin (7378697629483821 / 2 ^ 64)" by code_simp
  then show "table_rate MOCK_SWAP_RATES ''USDC'' ''ETH'' = Some (Fin (7378697629483821 / 2 ^ 64))"
    by (simp add: table_rate_def MOCK_SWAP_RATES_def)
qed

lemma decimals_from_one:
  assumes "1 \<le> q"
  shows "decimals_for (Fin q) = (if 1000 \<le> q then 2 else if 100 \<le> q then 3 else if 10 \<le> q then 4 else 7)"
proof -
  have "\<not> js_less (Fin q) (num x)" if "x \<le> 1" for x
    using num_le [OF that] assms by (cases "num x") (auto simp: js_le_def)
  then show ?thesis by (simp add: decimals_for_def)
qed

lemma circle_rates:
  assumes "exact_powers pow"
  shows "swap_rate_of pow MOCK_SWAP_RATES ''ETH'' ''EURC'' = Some \<lparr>sw_sell = ''ETH'', sw_buy = ''EURC'', sw_rate = Fin 2525, sw_decimals = 2\<rparr>"
    "swap_rate_of pow MOCK_SWAP_RATES ''EURC'' ''USDC''
      = Some \<lparr>sw_sell = ''EURC'', sw_buy = ''USDC'', sw_rate = Fin (5404319552844595 / 2 ^ 52), sw_decimals = 7\<rparr>"
    "swap_rate_of pow MOCK_SWAP_RATES ''USDC'' ''ETH''
      = Some \<lparr>sw_sell = ''USDC'', sw_buy = ''ETH'', sw_rate = Fin (7378697629483821 / 2 ^ 64), sw_decimals = 10\<rparr>"
proof -
  have pow: "pow (Fin 10) 2 = Fin 100" "pow (Fin 10) 7 = Fin 10000000" "pow (Fin 10) 10 = Fin 10000000000"
    using assms by (simp_all add: exact_powers_def)
  have "js_mul (Fin 2525) (Fin 100) = Fin 252500" "math_round (Fin 252500) = Fin 252500" "js_div (Fin 252500) (Fin 100) = Fin 2525"
    by code_simp+
  then show "swap_rate_of pow MOCK_SWAP_RATES ''ETH'' ''EURC'' = Some \<lparr>sw_sell = ''ETH'', sw_buy = ''EURC'', sw_rate = Fin 2525, sw_decimals = 2\<rparr>"
    by (simp add: swap_rate_of_def quoted_rate_def table_ETH_EURC decimals_from_one pow Let_def)
  have "js_mul (Fin (5404319552844595 / 2 ^ 52)) (Fin 10000000) = Fin 12000000" "math_round (Fin 12000000) = Fin 12000000"
      "js_div (Fin 12000000) (Fin 10000000) = Fin (5404319552844595 / 2 ^ 52)" by code_simp+
  then show "swap_rate_of pow MOCK_SWAP_RATES ''EURC'' ''USDC''
      = Some \<lparr>sw_sell = ''EURC'', sw_buy = ''USDC'', sw_rate = Fin (5404319552844595 / 2 ^ 52), sw_decimals = 7\<rparr>"
    by (simp add: swap_rate_of_def quoted_rate_def table_rates decimals_from_one pow Let_def)
  have "num (1 / 1000) = Fin (1152921504606847 / 2 ^ 60)" by code_simp
  then have "decimals_for (Fin (7378697629483821 / 2 ^ 64)) = 10" by (simp add: decimals_for_def)
  moreover have "js_mul (Fin (7378697629483821 / 2 ^ 64)) (Fin 10000000000) = Fin 4000000" "math_round (Fin 4000000) = Fin 4000000"
      "js_div (Fin 4000000) (Fin 10000000000) = Fin (7378697629483821 / 2 ^ 64)" by code_simp+
  ultimately show "swap_rate_of pow MOCK_SWAP_RATES ''USDC'' ''ETH''
      = Some \<lparr>sw_sell = ''USDC'', sw_buy = ''ETH'', sw_rate = Fin (7378697629483821 / 2 ^ 64), sw_decimals = 10\<rparr>"
    by (simp add: swap_rate_of_def quoted_rate_def table_rates pow Let_def)
qed

lemma codes: "normalizeAsset ''ETH'' = Some ''ETH''" "normalizeAsset ''EURC'' = Some ''EURC''" "normalizeAsset ''USDC'' = Some ''USDC''"
  by code_simp+

definition pair_json :: "string \<Rightarrow> string \<Rightarrow> json" where
  "pair_json a b = JObj [(''sell_asset'', JStr a), (''buy_asset'', JStr b)]"

lemma swap_pair_fresh:
  assumes "normalizeAsset a = Some a" "normalizeAsset b = Some b" "a \<noteq> []" "b \<noteq> []" "js_get (ss_cache s) (pair_key a b) = None"
    "swap_rate_of pow (ss_table s) a b = Some r"
  shows "\<exists>s'. swap_pair pow now (pair_json a b) s = (Inr r, s') \<and> ss_table s' = ss_table s \<and> ss_cache s' = js_set (pair_key a b) (r, now) (ss_cache s)"
  using assms by (simp add: swap_pair_def pair_json_def is_object_def jget_def json_truthy_def getSwapRate_def Let_def)

text \<open>The built-in rates do not agree with each other: whoever sells a coin for euros, these for dollars and these for the coin again, at the three
  rates of one answer, has more than 1.21 coins for one.
\<close>
theorem built_in_rates_gain_in_a_circle:
  assumes "exact_powers pow"
  shows "\<exists>a b c s. (let ((rates, errors), s') = getSwapRates pow now [pair_json ''ETH'' ''EURC'', pair_json ''EURC'' ''USDC'', pair_json ''USDC'' ''ETH''] initial_swaps
    in List.map sw_rate rates = [Fin a, Fin b, Fin c] \<and> errors = [] \<and> s' = s) \<and> a * b * c > 121 / 100"
proof -
  note rates = circle_rates [OF assms]
  obtain s1 where 1: "swap_pair pow now (pair_json ''ETH'' ''EURC'') initial_swaps
      = (Inr \<lparr>sw_sell = ''ETH'', sw_buy = ''EURC'', sw_rate = Fin 2525, sw_decimals = 2\<rparr>, s1)" "ss_table s1 = MOCK_SWAP_RATES"
      "List.map fst (ss_cache s1) = [''ETH/EURC'']"
    using swap_pair_fresh [OF codes(1,2), of initial_swaps pow _ now] rates(1) by (auto simp: initial_swaps_def pair_key_def)
  obtain s2 where 2: "swap_pair pow now (pair_json ''EURC'' ''USDC'') s1
      = (Inr \<lparr>sw_sell = ''EURC'', sw_buy = ''USDC'', sw_rate = Fin (5404319552844595 / 2 ^ 52), sw_decimals = 7\<rparr>, s2)" "ss_table s2 = MOCK_SWAP_RATES"
      "List.map fst (ss_cache s2) = [''ETH/EURC'', ''EURC/USDC'']"
    using swap_pair_fresh [OF codes(2,3), of s1 pow _ now] rates(2) 1(2,3) by (auto simp: pair_key_def)
  obtain s3 where 3: "swap_pair pow now (pair_json ''USDC'' ''ETH'') s2
      = (Inr \<lparr>sw_sell = ''USDC'', sw_buy = ''ETH'', sw_rate = Fin (7378697629483821 / 2 ^ 64), sw_decimals = 10\<rparr>, s3)"
    using swap_pair_fresh [OF codes(3,1), of s2 pow _ now] rates(3) 2(2,3) by (auto simp: pair_key_def)
  show ?thesis
    by (rule exI [of _ 2525], rule exI [of _ "5404319552844595 / 2 ^ 52"], rule exI [of _ "7378697629483821 / 2 ^ 64"], rule exI [of _ s3])
      (simp add: 1(1) 2(1) 3 Let_def)
qed

theorem built_in_rates_gain_in_a_circle_witness:
  "\<exists>a b c s. (let ((rates, errors), s') = getSwapRates (\<lambda>x n. Fin (10 ^ nat n)) 0
      [pair_json ''ETH'' ''EURC'', pair_json ''EURC'' ''USDC'', pair_json ''USDC'' ''ETH''] initial_swaps
    in List.map sw_rate rates = [Fin a, Fin b, Fin c] \<and> errors = [] \<and> s' = s) \<and> a * b * c > 121 / 100"
  by (rule built_in_rates_gain_in_a_circle) (simp add: exact_powers_def)

end
