(* ===== verification/Price_Feed.thy ===== *)
theory Price_Feed
  imports Price_Aggregation Js_Date "HOL-Library.Multiset"
begin

text \<open>
  The manager of SEP-40 price feeds: \<open>backend/src/services/sep40-price-feed.service.ts\<close>. The map of subscriptions holds references to objects
  that a poll in flight holds as well, so the objects are in a store of their own, by address. The intervals that run, the polls in flight and
  what the listeners and the emitter were told are part of the state; a poll is two steps, before and after its reading. The contract, reached
  through the proxy of the Soroban server, is a parameter. Listeners that call the manager again are left out.
\<close>

section \<open>Assets and prices\<close>

datatype oracle_asset = StellarAsset string | OtherAsset string

definition assetKey :: "oracle_asset \<Rightarrow> string" where
  "assetKey a = (case a of StellarAsset x \<Rightarrow> ''stellar:'' @ x | OtherAsset x \<Rightarrow> ''other:'' @ x)"

record price_data =
  pd_asset :: oracle_asset
  pd_price :: int
  pd_humanPrice :: jsnum
  pd_timestamp :: jsnum
  pd_fetchedAt :: int
  pd_decimals :: jsnum
  pd_stale :: bool

definition MAX_HISTORY_POINTS :: nat where "MAX_HISTORY_POINTS = 500"

record subscription =
  su_key :: string
  su_asset :: oracle_asset
  su_intervalMs :: int
  su_timer :: "nat option"
  su_listeners :: "nat list"
  su_errorListeners :: "nat list"
  su_lastPrice :: "price_data option"
  su_history :: "price_data list"
  su_polling :: bool

datatype feed_event =
    ToldPrice nat price_data
  | EmittedPrice price_data
  | ToldError nat js_error oracle_asset
  | EmittedError js_error oracle_asset

record feed_state =
  pf_objects :: "(nat, subscription) jsmap"
  pf_map :: "(string, nat) jsmap"
  pf_intervals :: "(nat \<times> nat \<times> int) list"
  pf_polls :: "nat list"
  pf_started :: bool
  pf_next :: nat
  pf_log :: "feed_event list"
  pf_errorHandlers :: bool

record feed_config =
  fg_defaultIntervalMs :: int
  fg_maxPriceAgeMs :: int
  fg_contractId :: string

definition no_feeds :: feed_state where
  "no_feeds = \<lparr>pf_objects = [], pf_map = [], pf_intervals = [], pf_polls = [], pf_started = False, pf_next = 0, pf_log = [], pf_errorHandlers = False\<rparr>"

section \<open>Objects and intervals\<close>

definition put_sub :: "nat \<Rightarrow> subscription \<Rightarrow> feed_state \<Rightarrow> feed_state" where
  "put_sub a x s = s\<lparr>pf_objects := js_set a x (pf_objects s)\<rparr>"

definition sub_of :: "string \<Rightarrow> feed_state \<Rightarrow> (nat \<times> subscription) option" where
  "sub_of k s = Option.bind (js_get (pf_map s) k) (\<lambda>a. map_option (Pair a) (js_get (pf_objects s) a))"

definition clearTimer :: "nat option \<Rightarrow> feed_state \<Rightarrow> feed_state" where
  "clearTimer t s = (case t of None \<Rightarrow> s | Some i \<Rightarrow> s\<lparr>pf_intervals := filter (\<lambda>(j, _). j \<noteq> i) (pf_intervals s)\<rparr>)"

section \<open>Polling\<close>

definition tell :: "feed_event list \<Rightarrow> feed_state \<Rightarrow> feed_state" where
  "tell es s = s\<lparr>pf_log := pf_log s @ es\<rparr>"

definition notify_feed :: "subscription \<Rightarrow> price_data \<Rightarrow> feed_state \<Rightarrow> feed_state" where
  "notify_feed x p s = tell (List.map (\<lambda>l. ToldPrice l p) (su_listeners x) @ [EmittedPrice p]) s"

definition notifyError :: "subscription \<Rightarrow> js_error \<Rightarrow> feed_state \<Rightarrow> feed_state" where
  "notifyError x e s = tell (List.map (\<lambda>l. ToldError l e (su_asset x)) (su_errorListeners x) @ (if pf_errorHandlers s then [EmittedError e (su_asset x)] else [])) s"

definition addToHistory :: "price_data \<Rightarrow> price_data list \<Rightarrow> price_data list" where
  "addToHistory p h = (let h' = h @ [p] in if MAX_HISTORY_POINTS < length h' then tl h' else h')"

definition poll_start :: "nat \<Rightarrow> feed_state \<Rightarrow> feed_state" where
  "poll_start a s = (case js_get (pf_objects s) a of
     Some x \<Rightarrow> if su_polling x then s else (put_sub a (x\<lparr>su_polling := True\<rparr>) s)\<lparr>pf_polls := pf_polls s @ [a]\<rparr>
   | None \<Rightarrow> s)"

definition with_price :: "price_data \<Rightarrow> subscription \<Rightarrow> subscription" where
  "with_price p x = x\<lparr>su_lastPrice := Some p, su_history := addToHistory p (su_history x)\<rparr>"

definition price_changed :: "subscription \<Rightarrow> price_data \<Rightarrow> bool" where
  "price_changed x p = (case su_lastPrice x of None \<Rightarrow> True | Some q \<Rightarrow> pd_price q \<noteq> pd_price p \<or> \<not> js_eq (pd_timestamp q) (pd_timestamp p))"

definition poll_end :: "nat \<Rightarrow> js_error + price_data \<Rightarrow> feed_state \<Rightarrow> feed_state" where
  "poll_end a res s = (if a \<notin> set (pf_polls s) then s
     else case js_get (pf_objects s) a of
       None \<Rightarrow> s
     | Some x \<Rightarrow>
         let s = s\<lparr>pf_polls := removeAll a (pf_polls s)\<rparr> in
         (case res of
            Inr p \<Rightarrow> let y = with_price p x; s = put_sub a (y\<lparr>su_polling := False\<rparr>) s in (if price_changed x p then notify_feed y p s else s)
          | Inl e \<Rightarrow> notifyError x e (put_sub a (x\<lparr>su_polling := False\<rparr>) s)))"

definition scheduleSubscription :: "nat \<Rightarrow> bool \<Rightarrow> feed_state \<Rightarrow> feed_state" where
  "scheduleSubscription a immediate s = (case js_get (pf_objects s) a of
     None \<Rightarrow> s
   | Some x \<Rightarrow>
       let i = pf_next s; s = clearTimer (su_timer x) s;
           s = put_sub a (x\<lparr>su_timer := Some i\<rparr>) (s\<lparr>pf_next := i + 1, pf_intervals := pf_intervals s @ [(i, a, su_intervalMs x)]\<rparr>)
       in if immediate then poll_start a s else s)"

section \<open>The operations\<close>

definition start_feeds :: "feed_state \<Rightarrow> feed_state" where
  "start_feeds s = (if pf_started s then s
     else foldl (\<lambda>s a. scheduleSubscription a True s) (s\<lparr>pf_started := True\<rparr>) (js_values (pf_map s)))"

definition stop_one :: "feed_state \<Rightarrow> nat \<Rightarrow> feed_state" where
  "stop_one s a = (case js_get (pf_objects s) a of
     Some x \<Rightarrow> if su_timer x \<noteq> None then put_sub a (x\<lparr>su_timer := None\<rparr>) (clearTimer (su_timer x) s) else s
   | None \<Rightarrow> s)"

definition stop_feeds :: "feed_state \<Rightarrow> feed_state" where
  "stop_feeds s = foldl stop_one (s\<lparr>pf_started := False\<rparr>) (js_values (pf_map s))"

record subscribe_options =
  sb_intervalMs :: "int option"
  sb_onUpdate :: "nat option"
  sb_onError :: "nat option"
  sb_immediate :: "bool option"

definition add_listener :: "nat option \<Rightarrow> nat list \<Rightarrow> nat list" where
  "add_listener l ls = (case l of Some i \<Rightarrow> if i \<in> set ls then ls else ls @ [i] | None \<Rightarrow> ls)"

text \<open>A new subscription, or the interval of a shared one: the shortest requested.\<close>

definition open_subscription :: "feed_config \<Rightarrow> oracle_asset \<Rightarrow> int option \<Rightarrow> feed_state \<Rightarrow> nat \<times> feed_state" where
  "open_subscription cfg asset intervalMs s = (let key = assetKey asset in case sub_of key s of
     None \<Rightarrow> let a = pf_next s in
       (a, (put_sub a \<lparr>su_key = key, su_asset = asset, su_intervalMs = (case intervalMs of Some n \<Rightarrow> n | None \<Rightarrow> fg_defaultIntervalMs cfg), su_timer = None,
          su_listeners = [], su_errorListeners = [], su_lastPrice = None, su_history = [], su_polling = False\<rparr> s)
          \<lparr>pf_next := a + 1, pf_map := js_set key a (pf_map s)\<rparr>)
   | Some (a, x) \<Rightarrow> (case intervalMs of
       Some n \<Rightarrow> if n \<noteq> 0 \<and> n \<noteq> su_intervalMs x
         then let s' = put_sub a (x\<lparr>su_intervalMs := min (su_intervalMs x) n\<rparr>) s in
              (a, if su_timer x \<noteq> None then scheduleSubscription a False s' else s')
         else (a, s)
     | None \<Rightarrow> (a, s)))"

text \<open>The listeners are added, and a new one is told the last price.\<close>

definition add_listeners :: "nat option \<Rightarrow> nat option \<Rightarrow> nat \<Rightarrow> feed_state \<Rightarrow> feed_state" where
  "add_listeners onUpdate onError a s = (case js_get (pf_objects s) a of
     None \<Rightarrow> s
   | Some x \<Rightarrow>
       let y = x\<lparr>su_listeners := add_listener onUpdate (su_listeners x), su_errorListeners := add_listener onError (su_errorListeners x)\<rparr>
       in tell (case (onUpdate, su_lastPrice x) of (Some l, Some p) \<Rightarrow> [ToldPrice l p] | _ \<Rightarrow> []) (put_sub a y s))"

definition subscribe :: "feed_config \<Rightarrow> oracle_asset \<Rightarrow> subscribe_options \<Rightarrow> feed_state \<Rightarrow> feed_state" where
  "subscribe cfg asset options s =
     (case open_subscription cfg asset (sb_intervalMs options) s of (a, s1) \<Rightarrow>
        let s2 = add_listeners (sb_onUpdate options) (sb_onError options) a s1 in
        if pf_started s2 then scheduleSubscription a (case sb_immediate options of Some b \<Rightarrow> b | None \<Rightarrow> True) s2 else s2)"

definition drop_sub :: "string \<Rightarrow> feed_state \<Rightarrow> feed_state" where
  "drop_sub k s = (case sub_of k s of
     None \<Rightarrow> s
   | Some (a, x) \<Rightarrow> (clearTimer (su_timer x) s)\<lparr>pf_map := js_delete k (pf_map s)\<rparr>)"

definition unsubscribe :: "oracle_asset \<Rightarrow> feed_state \<Rightarrow> feed_state" where
  "unsubscribe asset s = drop_sub (assetKey asset) s"

text \<open>What the function that \<open>subscribe\<close> returns does.\<close>

definition removeListeners :: "string \<Rightarrow> nat option \<Rightarrow> nat option \<Rightarrow> feed_state \<Rightarrow> feed_state" where
  "removeListeners k onUpdate onError s = (case sub_of k s of
     None \<Rightarrow> s
   | Some (a, x) \<Rightarrow>
       let y = x\<lparr>su_listeners := (case onUpdate of Some l \<Rightarrow> removeAll l (su_listeners x) | None \<Rightarrow> su_listeners x),
                 su_errorListeners := (case onError of Some l \<Rightarrow> removeAll l (su_errorListeners x) | None \<Rightarrow> su_errorListeners x)\<rparr>;
           s = put_sub a y s
       in if su_listeners y = [] \<and> su_errorListeners y = [] then drop_sub k s else s)"

definition getLatestPrice :: "oracle_asset \<Rightarrow> feed_state \<Rightarrow> price_data option" where
  "getLatestPrice asset s = Option.bind (sub_of (assetKey asset) s) (\<lambda>(a, x). su_lastPrice x)"

definition getSubscriptions :: "feed_state \<Rightarrow> (oracle_asset \<times> int \<times> price_data option) list" where
  "getSubscriptions s = concat (List.map (\<lambda>a. case js_get (pf_objects s) a of
     Some x \<Rightarrow> [(su_asset x, su_intervalMs x, su_lastPrice x)] | None \<Rightarrow> []) (js_values (pf_map s)))"

definition getPriceHistory :: "oracle_asset \<Rightarrow> nat option \<Rightarrow> feed_state \<Rightarrow> price_data list" where
  "getPriceHistory asset maxCount s = (case sub_of (assetKey asset) s of
     None \<Rightarrow> []
   | Some (a, x) \<Rightarrow> (case maxCount of
       None \<Rightarrow> su_history x
     | Some n \<Rightarrow> if length (su_history x) \<le> n then su_history x else drop (length (su_history x) - n) (su_history x)))"

text \<open>\<open>refresh\<close>, from the point where the price has been read.\<close>

definition refresh_end :: "oracle_asset \<Rightarrow> js_error + price_data \<Rightarrow> feed_state \<Rightarrow> feed_state" where
  "refresh_end asset res s = (case (res, sub_of (assetKey asset) s) of
     (Inr p, Some (a, x)) \<Rightarrow> let y = with_price p x in notify_feed y p (put_sub a y s)
   | _ \<Rightarrow> s)"

definition tick :: "nat \<Rightarrow> feed_state \<Rightarrow> feed_state" where
  "tick i s = (case find (\<lambda>(j, _). j = i) (pf_intervals s) of Some (_, a, _) \<Rightarrow> poll_start a s | None \<Rightarrow> s)"

section \<open>Reading the contract\<close>

text \<open>What a simulation gives: an error, or a value of the contract.\<close>

record 'v simulated =
  sm_error :: "string option"
  sm_retval :: "'v option"

record ('v, 'w) oracle_env =
  oe_simulate :: "string \<Rightarrow> 'v list \<Rightarrow> ('w, js_error, 'v simulated) eff"
  oe_native :: "'v \<Rightarrow> json"
  oe_asset :: "oracle_asset \<Rightarrow> js_error + 'v"
  oe_bigint :: "json \<Rightarrow> js_error + int"
  oe_pow :: "jsnum \<Rightarrow> jsnum \<Rightarrow> jsnum"
  oe_now :: "'w \<Rightarrow> int"

record 'w feed_reader =
  rd_decimals :: "jsnum option"
  rd_world :: 'w

type_synonym ('w, 'a) reading = "('w feed_reader, js_error, 'a) eff"

definition number_of :: "json \<Rightarrow> jsnum" where
  "number_of v = (case v of JNum i \<Rightarrow> js_int i | JStr t \<Rightarrow> number_of_text t | JBool b \<Rightarrow> Fin (if b then 1 else 0) | JNull \<Rightarrow> Fin 0 | _ \<Rightarrow> NaN)"

definition simulateCall :: "('v, 'w) oracle_env \<Rightarrow> string \<Rightarrow> 'v list \<Rightarrow> ('w, 'v) reading" where
  "simulateCall env meth args = ebind (\<lambda>s. case oe_simulate env meth args (rd_world s) of (r, w) \<Rightarrow> (r, s\<lparr>rd_world := w\<rparr>)) (\<lambda>r.
     case truthy_str (sm_error r) of
       Some m \<Rightarrow> ethrow (PlainError (''SEP-40 '' @ meth @ '' simulation failed: '' @ m))
     | None \<Rightarrow> (case sm_retval r of None \<Rightarrow> ethrow (PlainError (''SEP-40 '' @ meth @ '' returned no result'')) | Some v \<Rightarrow> ereturn v))"

definition getDecimals :: "('v, 'w) oracle_env \<Rightarrow> ('w, jsnum) reading" where
  "getDecimals env = ebind (eget rd_decimals) (\<lambda>c. case c of
     Some d \<Rightarrow> ereturn d
   | None \<Rightarrow>
       ebind (ecatch (ebind (simulateCall env ''decimals'' []) (\<lambda>v.
           let n = number_of (oe_native env v) in ereturn (if js_isFinite n \<and> js_le (Fin 0) n then n else Fin 14)))
         (\<lambda>_. ereturn (Fin 14))) (\<lambda>d.
       ebind (emodify (\<lambda>s. s\<lparr>rd_decimals := Some d\<rparr>)) (\<lambda>_. ereturn d)))"

definition toHumanPrice :: "('v, 'w) oracle_env \<Rightarrow> int \<Rightarrow> jsnum \<Rightarrow> jsnum" where
  "toHumanPrice env price decimals = (if js_le decimals (Fin 0) then js_int price else js_div (js_int price) (oe_pow env (Fin 10) decimals))"

definition no_oracle :: js_error where
  "no_oracle = PlainError ''SEP-40 oracle contract id is not configured''"

definition fetchLastPrice :: "feed_config \<Rightarrow> ('v, 'w) oracle_env \<Rightarrow> oracle_asset \<Rightarrow> ('w, price_data) reading" where
  "fetchLastPrice cfg env asset =
     (if fg_contractId cfg = [] then ethrow no_oracle
      else ebind (getDecimals env) (\<lambda>decimals.
           ebind (elift (oe_asset env asset)) (\<lambda>arg.
           ebind (simulateCall env ''lastprice'' [arg]) (\<lambda>v.
           let native = oe_native env v; raw = jget native ''price'' in
           if \<not> json_truthy native \<or> raw = JUndef \<or> raw = JNull then ethrow (PlainError ''Oracle returned no price for asset'')
           else ebind (elift (oe_bigint env raw)) (\<lambda>price.
                let ts = jget native ''timestamp''; timestamp = number_of (if ts = JUndef \<or> ts = JNull then JNum 0 else ts) in
                ebind (eget (\<lambda>s. oe_now env (rd_world s))) (\<lambda>fetchedAt.
                let ageMs = js_sub (js_int fetchedAt) (js_mul timestamp (Fin 1000)) in
                ereturn \<lparr>pd_asset = asset, pd_price = price, pd_humanPrice = toHumanPrice env price decimals, pd_timestamp = timestamp,
                  pd_fetchedAt = fetchedAt, pd_decimals = decimals,
                  pd_stale = (0 < fg_maxPriceAgeMs cfg \<and> js_less (Fin 0) timestamp \<and> js_less (js_int (fg_maxPriceAgeMs cfg)) ageMs)\<rparr>))))))"

section \<open>Several providers\<close>

definition calculateMedianPrice :: "jsnum list \<Rightarrow> js_error + jsnum" where
  "calculateMedianPrice prices = (if prices = [] then Inl (PlainError ''Cannot calculate median of empty prices array'')
     else let sorted = sort_prices prices; mid = length sorted div 2 in
       Inr (if length sorted mod 2 = 0 then js_div (js_add (sorted ! (mid - 1)) (sorted ! mid)) (Fin 2) else sorted ! mid))"

definition aggregateOraclePrices :: "(string \<times> jsnum) list \<Rightarrow> js_error + (jsnum \<times> string list)" where
  "aggregateOraclePrices observations =
     (if observations = [] then Inl (PlainError ''No price observations provided for aggregation'')
      else let valid = filter (\<lambda>(_, p). js_less (Fin 0) p \<and> p \<noteq> NaN) observations in
        if valid = [] then Inl (PlainError ''No valid positive price observations found'')
        else case calculateMedianPrice (List.map snd valid) of Inl e \<Rightarrow> Inl e | Inr m \<Rightarrow> Inr (m, List.map fst valid))"

text \<open>
  Properties of the price feeds: what the timers, the polls and the histories of the subscriptions keep whatever is called, and what goes on
  behind them.
\<close>

section \<open>Calls in any order\<close>

datatype feed_call =
    StartFeeds
  | StopFeeds
  | Subscribe oracle_asset subscribe_options
  | Unsubscribe oracle_asset
  | RemoveListeners oracle_asset "nat option" "nat option"
  | Tick nat
  | PollEnd nat "js_error + price_data"
  | RefreshEnd oracle_asset "js_error + price_data"

fun feed_step :: "feed_config \<Rightarrow> feed_state \<Rightarrow> feed_call \<Rightarrow> feed_state" where
  "feed_step cfg s StartFeeds = start_feeds s"
| "feed_step cfg s StopFeeds = stop_feeds s"
| "feed_step cfg s (Subscribe a opts) = subscribe cfg a opts s"
| "feed_step cfg s (Unsubscribe a) = unsubscribe a s"
| "feed_step cfg s (RemoveListeners a u e) = removeListeners (assetKey a) u e s"
| "feed_step cfg s (Tick i) = tick i s"
| "feed_step cfg s (PollEnd a r) = poll_end a r s"
| "feed_step cfg s (RefreshEnd a r) = refresh_end a r s"

section \<open>Histories\<close>

definition history_ok :: "subscription \<Rightarrow> bool" where
  "history_ok x \<longleftrightarrow> length (su_history x) \<le> MAX_HISTORY_POINTS
     \<and> su_lastPrice x = (if su_history x = [] then None else Some (last (su_history x)))"

definition histories_ok :: "feed_state \<Rightarrow> bool" where
  "histories_ok s \<longleftrightarrow> (\<forall>a x. js_get (pf_objects s) a = Some x \<longrightarrow> history_ok x)"

lemma history_ok_with_price: "history_ok x \<Longrightarrow> history_ok (with_price p x)"
  by (cases "su_history x") (auto simp: history_ok_def with_price_def addToHistory_def Let_def MAX_HISTORY_POINTS_def last_tl)

lemma history_ok_updates [simp]:
  "history_ok (x\<lparr>su_polling := b\<rparr>) = history_ok x" "history_ok (x\<lparr>su_timer := t\<rparr>) = history_ok x" "history_ok (x\<lparr>su_intervalMs := n\<rparr>) = history_ok x"
  "history_ok (x\<lparr>su_listeners := l\<rparr>) = history_ok x" "history_ok (x\<lparr>su_errorListeners := l\<rparr>) = history_ok x"
  by (simp_all add: history_ok_def)

lemma histories_put: "histories_ok s \<Longrightarrow> history_ok x \<Longrightarrow> histories_ok (put_sub a x s)"
  by (auto simp: histories_ok_def put_sub_def split: if_splits)

lemma histories_frame [simp]:
  "histories_ok (s\<lparr>pf_polls := p\<rparr>) = histories_ok s" "histories_ok (s\<lparr>pf_started := b\<rparr>) = histories_ok s"
  "histories_ok (s\<lparr>pf_map := m\<rparr>) = histories_ok s" "histories_ok (s\<lparr>pf_next := n\<rparr>) = histories_ok s"
  "histories_ok (s\<lparr>pf_intervals := i\<rparr>) = histories_ok s" "histories_ok (clearTimer t s) = histories_ok s" "histories_ok (tell es s) = histories_ok s"
  by (simp_all add: histories_ok_def clearTimer_def tell_def split: option.splits)

lemma histories_get: "histories_ok s \<Longrightarrow> js_get (pf_objects s) a = Some x \<Longrightarrow> history_ok x"
  by (simp add: histories_ok_def)

lemma objects_frames [simp]:
  "pf_objects (clearTimer t s) = pf_objects s" "pf_objects (tell es s) = pf_objects s" "pf_map (clearTimer t s) = pf_map s" "pf_map (tell es s) = pf_map s"
  "pf_map (put_sub a x s) = pf_map s" "pf_started (clearTimer t s) = pf_started s" "pf_started (tell es s) = pf_started s"
  "pf_started (put_sub a x s) = pf_started s" "pf_polls (clearTimer t s) = pf_polls s" "pf_polls (tell es s) = pf_polls s"
  "pf_polls (put_sub a x s) = pf_polls s" "pf_next (clearTimer t s) = pf_next s" "pf_next (tell es s) = pf_next s" "pf_next (put_sub a x s) = pf_next s"
  "pf_intervals (tell es s) = pf_intervals s" "pf_intervals (put_sub a x s) = pf_intervals s"
  by (simp_all add: clearTimer_def tell_def put_sub_def split: option.splits)

lemma sub_of_object: "sub_of k s = Some (a, x) \<Longrightarrow> js_get (pf_map s) k = Some a \<and> js_get (pf_objects s) a = Some x"
  by (auto simp: sub_of_def bind_eq_Some_conv)

lemma histories_poll_start: "histories_ok s \<Longrightarrow> histories_ok (poll_start a s)"
  by (auto simp: poll_start_def intro!: histories_put dest: histories_get split: option.splits)

lemma histories_schedule: "histories_ok s \<Longrightarrow> histories_ok (scheduleSubscription a b s)"
  by (auto simp: scheduleSubscription_def Let_def intro!: histories_poll_start histories_put dest: histories_get split: option.splits)

lemma histories_drop: "histories_ok s \<Longrightarrow> histories_ok (drop_sub k s)"
  by (auto simp: drop_sub_def split: option.splits)

lemma histories_foldl: "(\<And>s a. histories_ok s \<Longrightarrow> histories_ok (f s a)) \<Longrightarrow> histories_ok s \<Longrightarrow> histories_ok (foldl f s as)"
  by (induction as arbitrary: s) auto

lemma histories_stop_one: "histories_ok s \<Longrightarrow> histories_ok (stop_one s a)"
  by (auto simp: stop_one_def intro!: histories_put dest: histories_get split: option.splits)

lemma histories_open: "histories_ok s \<Longrightarrow> histories_ok (snd (open_subscription cfg asset n s))"
proof (cases "sub_of (assetKey asset) s")
  case None
  then show "histories_ok s \<Longrightarrow> ?thesis"
    by (auto simp: open_subscription_def Let_def history_ok_def intro!: histories_put)
next
  case (Some p)
  then show "histories_ok s \<Longrightarrow> ?thesis"
    using sub_of_object [of "assetKey asset" s "fst p" "snd p"]
    by (auto simp: open_subscription_def Let_def intro!: histories_put histories_schedule dest: histories_get split: option.splits prod.splits)
qed

lemma histories_step: "histories_ok s \<Longrightarrow> histories_ok (feed_step cfg s c)"
proof (cases c)
  case StartFeeds
  then show "histories_ok s \<Longrightarrow> ?thesis" by (auto simp: start_feeds_def intro!: histories_foldl histories_schedule)
next
  case StopFeeds
  then show "histories_ok s \<Longrightarrow> ?thesis"
    by (auto simp: stop_feeds_def intro!: histories_foldl histories_stop_one)
next
  case (Subscribe asset opts)
  assume ok: "histories_ok s"
  obtain a s1 where o: "open_subscription cfg asset (sb_intervalMs opts) s = (a, s1)" by (metis surj_pair)
  have "histories_ok s1" using histories_open [OF ok, of cfg asset "sb_intervalMs opts"] by (simp add: o)
  then have "histories_ok (add_listeners u e a s1)" for u e
    by (auto simp: add_listeners_def Let_def intro!: histories_put dest: histories_get split: option.splits)
  then show ?thesis using Subscribe by (auto simp: subscribe_def o Let_def intro!: histories_schedule)
next
  case (RemoveListeners asset u e)
  then show "histories_ok s \<Longrightarrow> ?thesis"
    by (auto simp: removeListeners_def Let_def intro!: histories_drop histories_put dest!: sub_of_object dest: histories_get split: option.splits)
next
  case (PollEnd a r)
  then show "histories_ok s \<Longrightarrow> ?thesis"
    by (auto simp: poll_end_def Let_def notify_feed_def notifyError_def intro!: histories_put history_ok_with_price
        dest: histories_get split: option.splits sum.splits)
next
  case (RefreshEnd asset r)
  then show "histories_ok s \<Longrightarrow> ?thesis"
    by (auto simp: refresh_end_def Let_def notify_feed_def intro!: histories_put history_ok_with_price
        dest!: sub_of_object dest: histories_get split: option.splits sum.splits)
qed (auto simp: unsubscribe_def tick_def histories_drop histories_poll_start split: option.splits)

section \<open>Polls\<close>

definition polls_ok :: "feed_state \<Rightarrow> bool" where
  "polls_ok s \<longleftrightarrow> distinct (pf_polls s) \<and> (\<forall>a. a \<in> set (pf_polls s) \<longleftrightarrow> (\<exists>x. js_get (pf_objects s) a = Some x \<and> su_polling x))
     \<and> (\<forall>a x. js_get (pf_objects s) a = Some x \<longrightarrow> a < pf_next s)"

lemma polls_frame [simp]:
  "polls_ok (s\<lparr>pf_started := b\<rparr>) = polls_ok s" "polls_ok (s\<lparr>pf_map := m\<rparr>) = polls_ok s" "polls_ok (s\<lparr>pf_intervals := i\<rparr>) = polls_ok s"
  "polls_ok (clearTimer t s) = polls_ok s" "polls_ok (tell es s) = polls_ok s"
  by (simp_all add: polls_ok_def clearTimer_def tell_def split: option.splits)

lemma polls_put: "polls_ok s \<Longrightarrow> js_get (pf_objects s) a = Some x \<Longrightarrow> su_polling y = su_polling x \<Longrightarrow> polls_ok (put_sub a y s)"
  by (simp add: polls_ok_def put_sub_def)

lemma polls_next: "polls_ok s \<Longrightarrow> pf_next s \<le> n \<Longrightarrow> polls_ok (s\<lparr>pf_next := n\<rparr>)"
  by (auto simp: polls_ok_def intro: less_le_trans)

lemma polls_new: "polls_ok s \<Longrightarrow> \<not> su_polling x \<Longrightarrow> polls_ok (put_sub (pf_next s) x s\<lparr>pf_next := pf_next s + 1\<rparr>)"
  unfolding polls_ok_def put_sub_def by (auto simp: less_Suc_eq)

lemma polls_poll_start: "polls_ok s \<Longrightarrow> polls_ok (poll_start a s)"
  by (auto simp: poll_start_def polls_ok_def put_sub_def split: option.splits)

lemma polls_schedule: "polls_ok s \<Longrightarrow> polls_ok (scheduleSubscription a b s)"
proof (cases "js_get (pf_objects s) a")
  case (Some x)
  assume ok: "polls_ok s"
  let ?s = "(clearTimer (su_timer x) s)\<lparr>pf_next := pf_next s + 1, pf_intervals := pf_intervals (clearTimer (su_timer x) s) @ [(pf_next s, a, su_intervalMs x)]\<rparr>"
  have "polls_ok (clearTimer (su_timer x) s\<lparr>pf_next := pf_next s + 1\<rparr>)" using ok by (intro polls_next) simp_all
  then have "polls_ok ?s" by simp
  then have "polls_ok (put_sub a (x\<lparr>su_timer := Some (pf_next s)\<rparr>) ?s)" using Some by (intro polls_put [of _ a x]) simp_all
  then show ?thesis using Some by (simp add: scheduleSubscription_def Let_def polls_poll_start)
qed (simp add: scheduleSubscription_def)

lemma polls_drop: "polls_ok s \<Longrightarrow> polls_ok (drop_sub k s)"
  by (auto simp: drop_sub_def split: option.splits)

lemma polls_foldl: "(\<And>s a. polls_ok s \<Longrightarrow> polls_ok (f s a)) \<Longrightarrow> polls_ok s \<Longrightarrow> polls_ok (foldl f s as)"
  by (induction as arbitrary: s) auto

lemma polls_open: "polls_ok s \<Longrightarrow> polls_ok (snd (open_subscription cfg asset n s))"
proof (cases "sub_of (assetKey asset) s")
  case None
  then show "polls_ok s \<Longrightarrow> ?thesis" using polls_new [of s] by (simp add: open_subscription_def Let_def)
next
  case (Some p)
  obtain a x where p: "p = (a, x)" by (cases p)
  show "polls_ok s \<Longrightarrow> ?thesis"
    using Some sub_of_object [of "assetKey asset" s a x]
    by (auto simp: open_subscription_def p Let_def intro!: polls_put [of _ a x] polls_schedule split: option.splits)
qed

lemma polls_end:
  assumes "polls_ok s" "js_get (pf_objects s) a = Some x" "\<not> su_polling y"
  shows "polls_ok (put_sub a y (s\<lparr>pf_polls := removeAll a (pf_polls s)\<rparr>))"
  using assms by (auto simp: polls_ok_def put_sub_def distinct_removeAll)

lemma polls_step: "polls_ok s \<Longrightarrow> polls_ok (feed_step cfg s c)"
proof (cases c)
  case StartFeeds
  then show "polls_ok s \<Longrightarrow> ?thesis" by (auto simp: start_feeds_def intro!: polls_foldl polls_schedule)
next
  case StopFeeds
  have "polls_ok (stop_one s a)" if "polls_ok s" for s a
    using that by (auto simp: stop_one_def intro!: polls_put split: option.splits)
  then show "polls_ok s \<Longrightarrow> ?thesis" using StopFeeds by (auto simp: stop_feeds_def intro!: polls_foldl)
next
  case (Subscribe asset opts)
  assume ok: "polls_ok s"
  obtain a s1 where o: "open_subscription cfg asset (sb_intervalMs opts) s = (a, s1)" by (metis surj_pair)
  have "polls_ok s1" using polls_open [OF ok, of cfg asset "sb_intervalMs opts"] by (simp add: o)
  then have "polls_ok (add_listeners u e a s1)" for u e
    by (auto simp: add_listeners_def Let_def intro!: polls_put split: option.splits)
  then show ?thesis using Subscribe by (auto simp: subscribe_def o Let_def intro!: polls_schedule)
next
  case (RemoveListeners asset u e)
  then show "polls_ok s \<Longrightarrow> ?thesis"
    by (auto simp: removeListeners_def Let_def intro!: polls_drop polls_put dest!: sub_of_object split: option.splits)
next
  case (PollEnd a r)
  then show "polls_ok s \<Longrightarrow> ?thesis"
    by (auto simp: poll_end_def Let_def notify_feed_def notifyError_def intro!: polls_end split: option.splits sum.splits)
next
  case (RefreshEnd asset r)
  then show "polls_ok s \<Longrightarrow> ?thesis"
    by (auto simp: refresh_end_def Let_def notify_feed_def with_price_def intro!: polls_put dest!: sub_of_object split: option.splits sum.splits)
qed (auto simp: unsubscribe_def tick_def polls_drop polls_poll_start split: option.splits)

section \<open>Timers\<close>

definition live :: "feed_state \<Rightarrow> nat \<Rightarrow> subscription \<Rightarrow> bool" where
  "live s a x \<longleftrightarrow> js_get (pf_objects s) a = Some x \<and> js_get (pf_map s) (su_key x) = Some a"

text \<open>Every interval that runs is the timer of one live subscription, and no two objects have had the same timer.\<close>

definition map_ok :: "feed_state \<Rightarrow> bool" where
  "map_ok s \<longleftrightarrow> js_wf (pf_map s) \<and> (\<forall>k a. js_get (pf_map s) k = Some a \<longrightarrow> (\<exists>x. js_get (pf_objects s) a = Some x \<and> su_key x = k))"

definition names_ok :: "feed_state \<Rightarrow> bool" where
  "names_ok s \<longleftrightarrow> (\<forall>a x. js_get (pf_objects s) a = Some x \<longrightarrow> a < pf_next s)
     \<and> (\<forall>a x i. js_get (pf_objects s) a = Some x \<and> su_timer x = Some i \<longrightarrow> i < pf_next s)
     \<and> (\<forall>a b x y i. js_get (pf_objects s) a = Some x \<and> js_get (pf_objects s) b = Some y \<and> su_timer x = Some i \<and> su_timer y = Some i \<longrightarrow> a = b)"

definition intervals_ok :: "feed_state \<Rightarrow> bool" where
  "intervals_ok s \<longleftrightarrow> distinct (List.map fst (pf_intervals s))
     \<and> (\<forall>i a ms. (i, a, ms) \<in> set (pf_intervals s) \<longrightarrow> (\<exists>x. live s a x \<and> su_timer x = Some i))"

definition timers_ok :: "feed_state \<Rightarrow> bool" where
  "timers_ok s \<longleftrightarrow> map_ok s \<and> names_ok s \<and> intervals_ok s"

definition runs :: "feed_state \<Rightarrow> nat \<Rightarrow> subscription \<Rightarrow> bool" where
  "runs s a x \<longleftrightarrow> (\<exists>i ms. su_timer x = Some i \<and> (i, a, ms) \<in> set (pf_intervals s))"

text \<open>A started manager runs the timer of each live subscription, except some; a stopped one has none.\<close>

definition all_run :: "nat set \<Rightarrow> feed_state \<Rightarrow> bool" where
  "all_run except s \<longleftrightarrow> (\<forall>a x. live s a x \<and> a \<notin> except \<longrightarrow> (if pf_started s then runs s a x else su_timer x = None))"

lemma map_ok_key: "map_ok s \<Longrightarrow> js_get (pf_map s) k = Some a \<Longrightarrow> js_get (pf_objects s) a = Some x \<Longrightarrow> su_key x = k"
  unfolding map_ok_def by fastforce

lemma map_ok_put:
  assumes "map_ok s" "js_get (pf_objects s) a = Some x" "\<And>b. js_get (pf_objects t) b = (if b = a then Some y else js_get (pf_objects s) b)"
    "pf_map t = pf_map s" "su_key y = su_key x"
  shows "map_ok t"
  unfolding map_ok_def
proof (intro conjI allI impI)
  show "js_wf (pf_map t)" using assms(1,4) by (simp add: map_ok_def)
  fix k b assume "js_get (pf_map t) k = Some b"
  then have k: "js_get (pf_map s) k = Some b" using assms(4) by simp
  show "\<exists>z. js_get (pf_objects t) b = Some z \<and> su_key z = k"
  proof (cases "b = a")
    case True
    then show ?thesis using map_ok_key [OF assms(1) k, of x] assms(2,3,5) by simp
  next
    case False
    then show ?thesis using assms(1,3) k unfolding map_ok_def by auto
  qed
qed

lemma timers_frame [simp]:
  "timers_ok (s\<lparr>pf_polls := p\<rparr>) = timers_ok s" "timers_ok (tell es s) = timers_ok s" "timers_ok (s\<lparr>pf_started := b\<rparr>) = timers_ok s"
  "all_run E (s\<lparr>pf_polls := p\<rparr>) = all_run E s" "all_run E (tell es s) = all_run E s"
  by (simp_all add: timers_ok_def map_ok_def names_ok_def intervals_ok_def all_run_def live_def runs_def tell_def)

lemma live_put: "js_get (pf_objects s) a = Some x \<Longrightarrow> su_key y = su_key x \<Longrightarrow>
    live (put_sub a y s) b z \<longleftrightarrow> (if b = a then z = y \<and> js_get (pf_map s) (su_key x) = Some a else live s b z)"
  by (auto simp: live_def put_sub_def)

lemma timers_put:
  assumes "timers_ok s" "js_get (pf_objects s) a = Some x" "su_timer y = su_timer x" "su_key y = su_key x"
  shows "timers_ok (put_sub a y s)" "all_run E s \<Longrightarrow> all_run E (put_sub a y s)"
proof -
  have objects: "js_get (pf_objects (put_sub a y s)) b = (if b = a then Some y else js_get (pf_objects s) b)" for b by (simp add: put_sub_def)
  have "map_ok (put_sub a y s)" by (rule map_ok_put [OF _ assms(2) objects _ assms(4)]) (use assms in \<open>simp_all add: timers_ok_def\<close>)
  moreover have "names_ok (put_sub a y s)"
    using assms unfolding timers_ok_def names_ok_def objects by (auto split: if_splits)
  moreover have "\<exists>z. live (put_sub a y s) c z \<and> su_timer z = Some j" if j: "(j, c, ms) \<in> set (pf_intervals s)" for j c ms
  proof -
    obtain z where "live s c z" "su_timer z = Some j" using assms(1) j unfolding timers_ok_def intervals_ok_def by blast
    then show ?thesis using assms(2-4) by (intro exI [of _ "if c = a then y else z"]) (auto simp: live_def objects)
  qed
  then have "intervals_ok (put_sub a y s)" using assms(1) by (simp add: timers_ok_def intervals_ok_def)
  ultimately show "timers_ok (put_sub a y s)" by (simp add: timers_ok_def)
  show "all_run E (put_sub a y s)" if "all_run E s"
    using that assms unfolding all_run_def live_put [OF assms(2,4)] by (auto simp: runs_def live_def)
qed


lemma timers_poll_start: "timers_ok s \<Longrightarrow> timers_ok (poll_start a s)" "timers_ok s \<Longrightarrow> all_run E s \<Longrightarrow> all_run E (poll_start a s)"
  by (auto simp: poll_start_def intro!: timers_put split: option.splits)

lemma timers_schedule:
  assumes "timers_ok s" "live s a x"
  shows "timers_ok (scheduleSubscription a b s)" "pf_started s \<Longrightarrow> all_run E s \<Longrightarrow> all_run (E - {a}) (scheduleSubscription a b s)"
    "pf_started (scheduleSubscription a b s) = pf_started s" "pf_map (scheduleSubscription a b s) = pf_map s"
proof -
  let ?i = "pf_next s" and ?y = "x\<lparr>su_timer := Some (pf_next s)\<rparr>"
  let ?old = "filter (\<lambda>(j, _). su_timer x \<noteq> Some j) (pf_intervals s)"
  define t where "t = put_sub a ?y (clearTimer (su_timer x) s\<lparr>pf_next := ?i + 1, pf_intervals := pf_intervals (clearTimer (su_timer x) s) @ [(?i, a, su_intervalMs x)]\<rparr>)"
  have x: "js_get (pf_objects s) a = Some x" "js_get (pf_map s) (su_key x) = Some a" using assms(2) by (simp_all add: live_def)
  have cleared: "pf_intervals (clearTimer (su_timer x) s) = ?old"
    by (auto simp: clearTimer_def split: option.splits intro!: filter_cong)
  have t: "pf_objects t = js_set a ?y (pf_objects s)" "pf_map t = pf_map s" "pf_next t = ?i + 1" "pf_intervals t = ?old @ [(?i, a, su_intervalMs x)]"
      "pf_started t = pf_started s"
    by (simp_all add: t_def put_sub_def cleared)
  have run: "scheduleSubscription a b s = (if b then poll_start a t else t)"
    by (simp add: scheduleSubscription_def x(1) Let_def t_def)
  note ok = assms(1) [unfolded timers_ok_def]
  have live_t: "live t c z \<longleftrightarrow> (if c = a then z = ?y else live s c z)" for c z using x(2) by (auto simp: live_def t)
  have kept: "(j, c, ms) \<in> set ?old \<Longrightarrow> \<exists>z. live s c z \<and> su_timer z = Some j \<and> c \<noteq> a" for j c ms
    using ok x(1) unfolding intervals_ok_def by (fastforce simp: live_def)
  have "map_ok t" by (rule map_ok_put [of s a x _ ?y]) (use ok x in \<open>simp_all add: t\<close>)
  moreover have "names_ok t"
    using ok x(1) unfolding names_ok_def t by (auto simp: less_Suc_eq split: if_splits)
  moreover have "intervals_ok t"
  proof -
    have "?i \<notin> fst ` set ?old" using kept ok unfolding names_ok_def live_def by fastforce
    moreover have "distinct (List.map fst ?old)" using ok unfolding intervals_ok_def by (simp add: distinct_map_filter)
    moreover have "\<exists>z. live t c z \<and> su_timer z = Some j" if "(j, c, ms) \<in> set ?old" for j c ms
      using kept [OF that] live_t by auto
    ultimately show ?thesis
      unfolding intervals_ok_def
    proof (intro conjI allI impI, goal_cases)
      case 1
      then show ?case by (simp add: t)
    next
      case (2 j c ms)
      then consider "(j, c, ms) \<in> set ?old" | "j = ?i" "c = a" by (auto simp: t)
      then show ?case
      proof cases
        case 1
        then show ?thesis by (rule 2(3))
      next
        case 2
        then show ?thesis using live_t by auto
      qed
    qed
  qed
  ultimately have timers: "timers_ok t" by (simp add: timers_ok_def)
  have all: "all_run (E - {a}) t" if "pf_started s" "all_run E s"
    unfolding all_run_def
  proof (intro allI impI)
    fix c z assume c: "live t c z \<and> c \<notin> E - {a}"
    show "if pf_started t then runs t c z else su_timer z = None"
    proof (cases "c = a")
      case True
      then show ?thesis using c live_t that by (auto simp: runs_def t)
    next
      case False
      then have "live s c z" "runs s c z" using c live_t that by (auto simp: all_run_def)
      then obtain j ms where j: "su_timer z = Some j" "(j, c, ms) \<in> set (pf_intervals s)" by (auto simp: runs_def)
      have "su_timer x \<noteq> Some j" using ok x(1) \<open>live s c z\<close> j(1) False unfolding names_ok_def live_def by blast
      then show ?thesis using j that by (auto simp: runs_def t)
    qed
  qed
  show "timers_ok (scheduleSubscription a b s)" using timers timers_poll_start by (simp add: run)
  show "all_run (E - {a}) (scheduleSubscription a b s)" if "pf_started s" "all_run E s"
    using all [OF that] timers timers_poll_start by (simp add: run)
  show "pf_started (scheduleSubscription a b s) = pf_started s" "pf_map (scheduleSubscription a b s) = pf_map s"
    by (simp_all add: run t poll_start_def split: option.splits)
qed

lemma timers_drop:
  assumes "timers_ok s"
  shows "timers_ok (drop_sub k s)" "all_run E s \<Longrightarrow> all_run E (drop_sub k s)"
proof -
  have "timers_ok (drop_sub k s) \<and> (all_run E s \<longrightarrow> all_run E (drop_sub k s))"
  proof (cases "sub_of k s")
    case None
    then show ?thesis using assms by (simp add: drop_sub_def)
  next
    case (Some p)
    obtain a x where p: "p = (a, x)" by (cases p)
    note ax = sub_of_object [OF Some [unfolded p]]
    let ?t = "clearTimer (su_timer x) s\<lparr>pf_map := js_delete k (pf_map s)\<rparr>"
    have t: "drop_sub k s = ?t" by (simp add: drop_sub_def Some p)
    note ok = assms [unfolded timers_ok_def]
    have key: "su_key x = k" using ok ax map_ok_key by blast
    have live_t: "live ?t c z \<longleftrightarrow> live s c z \<and> su_key z \<noteq> k" for c z by (auto simp: live_def)
    have intervals: "(j, c, ms) \<in> set (pf_intervals ?t) \<longleftrightarrow> (j, c, ms) \<in> set (pf_intervals s) \<and> su_timer x \<noteq> Some j" for j c ms
      by (auto simp: clearTimer_def split: option.splits)
    have "\<exists>z. live ?t c z \<and> su_timer z = Some j" if "(j, c, ms) \<in> set (pf_intervals ?t)" for j c ms
    proof -
      have j: "(j, c, ms) \<in> set (pf_intervals s)" "su_timer x \<noteq> Some j" using that intervals by blast+
      then obtain z where z: "live s c z" "su_timer z = Some j" using ok unfolding intervals_ok_def by blast
      have "su_key z \<noteq> k" using z j(2) ax by (auto simp: live_def)
      then show ?thesis using z live_t by blast
    qed
    moreover have "distinct (List.map fst (pf_intervals ?t))"
      using ok unfolding intervals_ok_def by (auto simp: clearTimer_def distinct_map_filter split: option.splits)
    ultimately have "intervals_ok ?t" unfolding intervals_ok_def by blast
    moreover have "map_ok ?t" using ok by (auto simp: map_ok_def)
    moreover have "names_ok ?t" using ok unfolding names_ok_def by simp
    moreover have "all_run E ?t" if "all_run E s"
      unfolding all_run_def
    proof (intro allI impI)
      fix c z assume c: "live ?t c z \<and> c \<notin> E"
      then have old: "live s c z" "su_key z \<noteq> k" "if pf_started s then runs s c z else su_timer z = None"
        using live_t that unfolding all_run_def by blast+
      then have "c \<noteq> a" using ax key by (auto simp: live_def)
      then have "su_timer z = Some j \<Longrightarrow> su_timer x \<noteq> Some j" for j using ok old(1) ax unfolding names_ok_def live_def by blast
      then show "if pf_started ?t then runs ?t c z else su_timer z = None" using old(3) intervals unfolding runs_def by (auto split: if_splits; blast)
    qed
    ultimately show ?thesis using t by (simp add: timers_ok_def)
  qed
  then show "timers_ok (drop_sub k s)" "all_run E s \<Longrightarrow> all_run E (drop_sub k s)" by blast+
qed

lemma timers_start:
  assumes "timers_ok s" "pf_started s" "all_run E s" "\<forall>a \<in> set as. \<exists>x. live s a x"
  shows "timers_ok (foldl (\<lambda>s a. scheduleSubscription a True s) s as) \<and> all_run (E - set as) (foldl (\<lambda>s a. scheduleSubscription a True s) s as)
    \<and> pf_started (foldl (\<lambda>s a. scheduleSubscription a True s) s as)"
  using assms
proof (induction as arbitrary: s E)
  case (Cons a as)
  obtain x where x: "live s a x" using Cons.prems(4) by auto
  note step = timers_schedule [OF Cons.prems(1) x, where b = True]
  have keys: "\<exists>z. live (scheduleSubscription a True s) b z" if "live s b y" for b y
  proof -
    have "js_get (pf_map (scheduleSubscription a True s)) (su_key y) = Some b" using that step(4) by (simp add: live_def)
    then obtain z where "js_get (pf_objects (scheduleSubscription a True s)) b = Some z" "su_key z = su_key y"
      using step(1) unfolding timers_ok_def map_ok_def by blast
    then show ?thesis using step(4) that by (auto simp: live_def)
  qed
  have "\<forall>b \<in> set as. \<exists>x. live (scheduleSubscription a True s) b x" using Cons.prems(4) keys by auto
  then show ?case using Cons.IH [OF step(1) _ step(2) [OF Cons.prems(2,3)]] step(3) Cons.prems(2) by (simp add: Diff_insert2 [symmetric])
qed simp

lemma stop_one_ok:
  assumes "timers_ok s"
  shows "timers_ok (stop_one s a)" "pf_started (stop_one s a) = pf_started s" "pf_map (stop_one s a) = pf_map s"
    "js_get (pf_objects (stop_one s a)) b = map_option (\<lambda>x. if b = a then x\<lparr>su_timer := None\<rparr> else x) (js_get (pf_objects s) b)"
proof -
  note ok = assms [unfolded timers_ok_def]
  have "timers_ok (stop_one s a) \<and> pf_started (stop_one s a) = pf_started s \<and> pf_map (stop_one s a) = pf_map s
    \<and> js_get (pf_objects (stop_one s a)) b = map_option (\<lambda>x. if b = a then x\<lparr>su_timer := None\<rparr> else x) (js_get (pf_objects s) b)"
  proof (cases "\<exists>x i. js_get (pf_objects s) a = Some x \<and> su_timer x = Some i")
    case False
    then have "stop_one s a = s" by (auto simp: stop_one_def split: option.splits)
    then show ?thesis using assms False by (cases "js_get (pf_objects s) b") auto
  next
    case True
    then obtain x i where x: "js_get (pf_objects s) a = Some x" "su_timer x = Some i" by blast
    let ?t = "put_sub a (x\<lparr>su_timer := None\<rparr>) (clearTimer (Some i) s)"
    have t: "stop_one s a = ?t" using x by (simp add: stop_one_def)
    have fields: "pf_objects ?t = js_set a (x\<lparr>su_timer := None\<rparr>) (pf_objects s)" "pf_intervals ?t = filter (\<lambda>(j, _). j \<noteq> i) (pf_intervals s)"
      by (simp_all add: put_sub_def clearTimer_def)
    have "map_ok ?t" by (rule map_ok_put [of s a x _ "x\<lparr>su_timer := None\<rparr>"]) (use ok x in \<open>simp_all add: fields\<close>)
    moreover have "names_ok ?t" using ok x unfolding names_ok_def fields by (auto simp: clearTimer_def split: if_splits)
    moreover have "intervals_ok ?t"
    proof -
      have "\<exists>z. live ?t c z \<and> su_timer z = Some j" if j: "(j, c, ms) \<in> set (pf_intervals s)" "j \<noteq> i" for j c ms
      proof -
        obtain z where "live s c z" "su_timer z = Some j" using ok j unfolding intervals_ok_def by blast
        then show ?thesis using x j(2) by (intro exI [of _ z]) (auto simp: live_def fields)
      qed
      then show ?thesis using ok unfolding intervals_ok_def fields(2) by (auto simp: distinct_map_filter)
    qed
    ultimately show ?thesis using t x by (simp add: timers_ok_def put_sub_def option.map_ident)
  qed
  then show "timers_ok (stop_one s a)" "pf_started (stop_one s a) = pf_started s" "pf_map (stop_one s a) = pf_map s"
    "js_get (pf_objects (stop_one s a)) b = map_option (\<lambda>x. if b = a then x\<lparr>su_timer := None\<rparr> else x) (js_get (pf_objects s) b)" by blast+
qed

lemma timers_stop:
  assumes "timers_ok s"
  shows "timers_ok (foldl stop_one s as)" "pf_started (foldl stop_one s as) = pf_started s" "pf_map (foldl stop_one s as) = pf_map s"
    "js_get (pf_objects (foldl stop_one s as)) b = map_option (\<lambda>x. if b \<in> set as then x\<lparr>su_timer := None\<rparr> else x) (js_get (pf_objects s) b)"
proof -
  have "timers_ok (foldl stop_one s as) \<and> pf_started (foldl stop_one s as) = pf_started s \<and> pf_map (foldl stop_one s as) = pf_map s
    \<and> js_get (pf_objects (foldl stop_one s as)) b = map_option (\<lambda>x. if b \<in> set as then x\<lparr>su_timer := None\<rparr> else x) (js_get (pf_objects s) b)"
    using assms
  proof (induction as arbitrary: s)
    case (Cons a as)
    then show ?case using stop_one_ok [OF Cons.prems, of a] by (cases "js_get (pf_objects s) b") auto
  qed (simp add: option.map_ident)
  then show "timers_ok (foldl stop_one s as)" "pf_started (foldl stop_one s as) = pf_started s" "pf_map (foldl stop_one s as) = pf_map s"
    "js_get (pf_objects (foldl stop_one s as)) b = map_option (\<lambda>x. if b \<in> set as then x\<lparr>su_timer := None\<rparr> else x) (js_get (pf_objects s) b)" by blast+
qed

lemma timers_new:
  assumes "timers_ok s" "sub_of k s = None" "su_key x = k" "su_timer x = None"
  defines "t \<equiv> put_sub (pf_next s) x s\<lparr>pf_next := pf_next s + 1, pf_map := js_set k (pf_next s) (pf_map s)\<rparr>"
  shows "timers_ok t" "all_run E s \<Longrightarrow> all_run (if pf_started s then insert (pf_next s) E else E) t" "live t (pf_next s) x"
proof -
  note ok = assms(1) [unfolded timers_ok_def]
  have new: "js_get (pf_map s) k = None"
  proof (cases "js_get (pf_map s) k")
    case (Some a)
    then obtain z where "js_get (pf_objects s) a = Some z" using ok unfolding map_ok_def by blast
    then show ?thesis using assms(2) Some by (simp add: sub_of_def)
  qed simp
  have fresh: "js_get (pf_objects s) (pf_next s) = None" using ok unfolding names_ok_def by (meson less_irrefl not_None_eq)
  have t: "pf_objects t = js_set (pf_next s) x (pf_objects s)" "pf_map t = js_set k (pf_next s) (pf_map s)" "pf_next t = pf_next s + 1"
      "pf_intervals t = pf_intervals s" "pf_started t = pf_started s"
    by (simp_all add: t_def put_sub_def)
  have live_t: "live t c z \<longleftrightarrow> (if c = pf_next s then z = x else live s c z)" for c z
    using new fresh assms(3) ok unfolding live_def t names_ok_def by (cases "c = pf_next s") auto
  have "map_ok t"
    unfolding map_ok_def
  proof (intro conjI allI impI)
    show "js_wf (pf_map t)" using ok by (simp add: t map_ok_def)
    fix l b assume "js_get (pf_map t) l = Some b"
    then consider "l = k" "b = pf_next s" | "l \<noteq> k" "js_get (pf_map s) l = Some b" by (auto simp: t split: if_splits)
    then show "\<exists>z. js_get (pf_objects t) b = Some z \<and> su_key z = l"
    proof cases
      case 1
      then show ?thesis using assms(3) by (simp add: t)
    next
      case 2
      then obtain z where "js_get (pf_objects s) b = Some z" "su_key z = l" using ok unfolding map_ok_def by blast
      then show ?thesis using fresh by (auto simp: t)
    qed
  qed
  moreover have "names_ok t" using ok assms(4) unfolding names_ok_def t by (auto simp: less_Suc_eq split: if_splits)
  moreover have "intervals_ok t"
  proof -
    have "\<exists>z. live t c z \<and> su_timer z = Some j" if j: "(j, c, ms) \<in> set (pf_intervals s)" for j c ms
    proof -
      obtain z where "live s c z" "su_timer z = Some j" using ok j unfolding intervals_ok_def by blast
      then show ?thesis using live_t fresh by (auto simp: live_def)
    qed
    then show ?thesis using ok by (simp add: intervals_ok_def t)
  qed
  ultimately show "timers_ok t" by (simp add: timers_ok_def)
  show "all_run (if pf_started s then insert (pf_next s) E else E) t" if "all_run E s"
    using that live_t assms(4) unfolding all_run_def runs_def t(4,5) by auto
  show "live t (pf_next s) x" using live_t by simp
qed

text \<open>After the first part of \<open>subscribe\<close>, the subscription is there; only a new one may still wait for its timer.\<close>

lemma timers_open:
  assumes "timers_ok s" "all_run {} s" "open_subscription cfg asset n s = (a, t)"
  shows "timers_ok t \<and> all_run (if pf_started s then {a} else {}) t \<and> (\<exists>x. live t a x) \<and> pf_started t = pf_started s"
proof (cases "sub_of (assetKey asset) s")
  case None
  define x where "x = \<lparr>su_key = assetKey asset, su_asset = asset, su_intervalMs = (case n of Some n \<Rightarrow> n | None \<Rightarrow> fg_defaultIntervalMs cfg), su_timer = None,
          su_listeners = [], su_errorListeners = [], su_lastPrice = None, su_history = [], su_polling = False\<rparr>"
  have at: "a = pf_next s" "t = put_sub (pf_next s) x s\<lparr>pf_next := pf_next s + 1, pf_map := js_set (assetKey asset) (pf_next s) (pf_map s)\<rparr>"
    using assms(3) None by (auto simp: open_subscription_def Let_def x_def)
  note new = timers_new [OF assms(1) None, of x]
  show ?thesis using new(1) new(2) [OF _ _ assms(2)] new(3) unfolding at by (auto simp: x_def)
next
  case (Some p)
  obtain b x where p: "p = (b, x)" by (cases p)
  note bx = sub_of_object [OF Some [unfolded p]]
  have live: "live s b x" using bx map_ok_key [of s] assms(1) by (auto simp: live_def timers_ok_def)
  have keep: "all_run E u" if "all_run {} u" for E u using that by (auto simp: all_run_def)
  show ?thesis
  proof (cases "\<exists>m. n = Some m \<and> m \<noteq> 0 \<and> m \<noteq> su_intervalMs x")
    case False
    then have "a = b" "t = s" using assms(3) Some p by (auto simp: open_subscription_def Let_def split: option.splits if_splits)
    then show ?thesis using live assms(1,2) keep by auto
  next
    case True
    then obtain m where m: "n = Some m" "m \<noteq> 0" "m \<noteq> su_intervalMs x" by blast
    let ?u = "put_sub b (x\<lparr>su_intervalMs := min (su_intervalMs x) m\<rparr>) s"
    have u: "timers_ok ?u" "all_run {} ?u" using timers_put [OF assms(1), of b x] bx assms(2) by simp_all
    have live_u: "live ?u b (x\<lparr>su_intervalMs := min (su_intervalMs x) m\<rparr>)" using live by (simp add: live_def put_sub_def)
    show ?thesis
    proof (cases "su_timer x")
      case None
      then have "a = b" "t = ?u" using assms(3) Some p m by (auto simp: open_subscription_def Let_def)
      then show ?thesis using u live_u keep by auto
    next
      case (Some i)
      then have started: "pf_started s" using live assms(2) unfolding all_run_def by (metis empty_iff option.distinct(1))
      have at: "a = b" "t = scheduleSubscription b False ?u" using assms(3) \<open>sub_of (assetKey asset) s = Some p\<close> p m Some
        by (auto simp: open_subscription_def Let_def)
      note sched = timers_schedule [OF u(1) live_u, where b = False]
      have "js_get (pf_map t) (su_key x) = Some b" using live by (simp add: at sched(4) live_def)
      then have "\<exists>y. live t a y" using sched(1) at unfolding timers_ok_def map_ok_def live_def by metis
      then show ?thesis using sched(1,3) sched(2) [OF _ u(2)] started keep at by auto
    qed
  qed
qed

lemma timers_step:
  assumes "timers_ok s" "all_run {} s"
  shows "timers_ok (feed_step cfg s c) \<and> all_run {} (feed_step cfg s c)"
proof (cases c)
  case StartFeeds
  show ?thesis
  proof (cases "pf_started s")
    case True
    then show ?thesis using assms StartFeeds by (simp add: start_feeds_def)
  next
    case False
    let ?as = "js_values (pf_map s)" and ?s = "s\<lparr>pf_started := True\<rparr>"
    have wf: "js_wf (pf_map s)" using assms(1) by (simp add: timers_ok_def map_ok_def)
    have "\<forall>a \<in> set ?as. \<exists>x. live ?s a x"
    proof
      fix a assume "a \<in> set ?as"
      then obtain k where "js_get (pf_map s) k = Some a" using js_wf_mem [OF wf] by force
      then show "\<exists>x. live ?s a x" using assms(1) unfolding timers_ok_def map_ok_def live_def by fastforce
    qed
    moreover have "all_run (set ?as) ?s"
    proof -
      have "a \<in> set ?as" if "live ?s a x" for a x
      proof -
        have "(su_key x, a) \<in> set (pf_map s)" using that js_wf_mem [OF wf] by (simp add: live_def)
        then show ?thesis by force
      qed
      then show ?thesis unfolding all_run_def by blast
    qed
    ultimately show ?thesis using timers_start [of ?s "set ?as" ?as] assms(1) False StartFeeds by (simp add: start_feeds_def)
  qed
next
  case StopFeeds
  let ?as = "js_values (pf_map s)" and ?s = "s\<lparr>pf_started := False\<rparr>"
  note stop = timers_stop [of ?s ?as, simplified, OF assms(1)]
  have wf: "js_wf (pf_map s)" using assms(1) by (simp add: timers_ok_def map_ok_def)
  have "su_timer x = None" if "live (foldl stop_one ?s ?as) a x" for a x
  proof -
    have "js_get (pf_map s) (su_key x) = Some a" using that stop(3) by (simp add: live_def)
    then have "a \<in> set ?as" using js_wf_mem [OF wf] by force
    then show ?thesis using that stop(4) by (auto simp: live_def)
  qed
  then have "all_run {} (foldl stop_one ?s ?as)" using stop(2) by (simp add: all_run_def)
  then show ?thesis using stop(1) StopFeeds by (simp add: stop_feeds_def)
next
  case (Subscribe asset opts)
  obtain a t where o: "open_subscription cfg asset (sb_intervalMs opts) s = (a, t)" by (metis surj_pair)
  obtain x where t: "timers_ok t" "all_run (if pf_started s then {a} else {}) t" "live t a x" "pf_started t = pf_started s"
    using timers_open [OF assms o] by blast
  define y where "y = x\<lparr>su_listeners := add_listener (sb_onUpdate opts) (su_listeners x), su_errorListeners := add_listener (sb_onError opts) (su_errorListeners x)\<rparr>"
  define u where "u = add_listeners (sb_onUpdate opts) (sb_onError opts) a t"
  have x: "js_get (pf_objects t) a = Some x" using t(3) by (simp add: live_def)
  note put = timers_put [OF t(1) x, of y]
  have "u = tell (case (sb_onUpdate opts, su_lastPrice x) of (Some l, Some p) \<Rightarrow> [ToldPrice l p] | _ \<Rightarrow> []) (put_sub a y t)"
    by (simp add: u_def add_listeners_def x y_def Let_def)
  moreover have "live (put_sub a y t) a y" using t(3) by (simp add: live_def put_sub_def y_def)
  ultimately have u: "timers_ok u" "all_run (if pf_started s then {a} else {}) u" "live u a y" "pf_started u = pf_started s"
    using put t(2,4) by (simp_all add: y_def live_def)
  have step: "feed_step cfg s c = (if pf_started s then scheduleSubscription a (case sb_immediate opts of Some b \<Rightarrow> b | None \<Rightarrow> True) u else u)"
    using Subscribe o u(4) by (simp add: subscribe_def u_def Let_def)
  show ?thesis
  proof (cases "pf_started s")
    case True
    then show ?thesis using timers_schedule(1) [OF u(1,3)] timers_schedule(2) [OF u(1,3), where E = "{a}"] u by (simp add: step)
  qed (use u in \<open>simp add: step\<close>)
next
  case (RemoveListeners asset u e)
  show ?thesis
  proof (cases "sub_of (assetKey asset) s")
    case None
    then show ?thesis using RemoveListeners assms by (simp add: removeListeners_def)
  next
    case (Some p)
    then show ?thesis using RemoveListeners assms sub_of_object [of "assetKey asset" s "fst p" "snd p"]
      by (auto simp: removeListeners_def Let_def split: prod.splits intro!: timers_drop timers_put)
  qed
next
  case (PollEnd a r)
  show ?thesis
    using PollEnd assms by (auto simp: poll_end_def Let_def notify_feed_def notifyError_def with_price_def intro!: timers_put split: option.splits sum.splits)
next
  case (RefreshEnd asset r)
  show ?thesis
    using RefreshEnd assms
    by (auto simp: refresh_end_def Let_def notify_feed_def with_price_def dest!: sub_of_object intro!: timers_put split: option.splits sum.splits)
qed (use assms in \<open>auto simp: unsubscribe_def tick_def intro!: timers_drop timers_poll_start split: option.splits\<close>)

section \<open>What holds at every moment\<close>

definition feeds_after :: "feed_config \<Rightarrow> feed_call list \<Rightarrow> feed_state" where
  "feeds_after cfg cs = foldl (feed_step cfg) no_feeds cs"

lemma feeds_after_ok:
  "histories_ok (feeds_after cfg cs)" "polls_ok (feeds_after cfg cs)" "timers_ok (feeds_after cfg cs) \<and> all_run {} (feeds_after cfg cs)"
proof -
  have step: "histories_ok (foldl (feed_step cfg) s cs) \<and> polls_ok (foldl (feed_step cfg) s cs)
      \<and> timers_ok (foldl (feed_step cfg) s cs) \<and> all_run {} (foldl (feed_step cfg) s cs)"
    if "histories_ok s" "polls_ok s" "timers_ok s" "all_run {} s" for s
    using that by (induction cs arbitrary: s) (simp_all add: histories_step polls_step timers_step)
  have "histories_ok no_feeds" "polls_ok no_feeds" "timers_ok no_feeds" "all_run {} no_feeds"
    by (simp_all add: no_feeds_def histories_ok_def polls_ok_def timers_ok_def map_ok_def names_ok_def intervals_ok_def all_run_def live_def js_wf_Nil)
  then show "histories_ok (feeds_after cfg cs)" "polls_ok (feeds_after cfg cs)" "timers_ok (feeds_after cfg cs) \<and> all_run {} (feeds_after cfg cs)"
    using step [of no_feeds] by (simp_all add: feeds_after_def)
qed

lemma interval_owners:
  assumes "timers_ok s"
  shows "distinct (List.map (fst \<circ> snd) (pf_intervals s))"
proof -
  have ok: "distinct (List.map fst (pf_intervals s))" "\<And>i a ms. (i, a, ms) \<in> set (pf_intervals s) \<Longrightarrow> \<exists>x. live s a x \<and> su_timer x = Some i"
    using assms unfolding timers_ok_def intervals_ok_def by blast+
  have "inj_on (fst \<circ> snd) (set (pf_intervals s))"
  proof (rule inj_onI)
    fix p q assume p: "p \<in> set (pf_intervals s)" and q: "q \<in> set (pf_intervals s)" and same: "(fst \<circ> snd) p = (fst \<circ> snd) q"
    obtain i a ms where p': "p = (i, a, ms)" by (cases p)
    obtain j ns where q': "q = (j, a, ns)" using same by (cases q) (simp add: p')
    have "i = j" using ok(2) [of i a ms] ok(2) [of j a ns] p q by (auto simp: p' q' live_def)
    then show "p = q" using ok(1) p q p' q' by (metis eq_key_imp_eq_value)
  qed
  then show ?thesis using ok(1) by (simp add: distinct_map)
qed

lemma live_addresses: "map_ok s \<Longrightarrow> a \<in> set (js_values (pf_map s)) \<longleftrightarrow> (\<exists>x. live s a x)"
proof
  assume ok: "map_ok s" and "a \<in> set (js_values (pf_map s))"
  then obtain k where k: "js_get (pf_map s) k = Some a" using js_wf_mem [of "pf_map s"] by (force simp: map_ok_def)
  then show "\<exists>x. live s a x" using ok unfolding map_ok_def live_def by fastforce
next
  assume ok: "map_ok s" and "\<exists>x. live s a x"
  then obtain x :: subscription where "js_get (pf_map s) (su_key x) = Some a" by (auto simp: live_def)
  then have "(su_key x, a) \<in> set (pf_map s)" using ok js_wf_mem [of "pf_map s"] by (simp add: map_ok_def)
  then show "a \<in> set (js_values (pf_map s))" by force
qed

lemma intervals_follow_map:
  assumes "timers_ok s" "all_run {} s"
  shows "set (List.map (fst \<circ> snd) (pf_intervals s)) = (if pf_started s then set (js_values (pf_map s)) else {})"
proof -
  have m: "map_ok s" and i: "intervals_ok s" using assms(1) by (simp_all add: timers_ok_def)
  have owner: "\<exists>x. live s a x \<and> su_timer x = Some j" if "(j, a, ms) \<in> set (pf_intervals s)" for j a ms
    using i that unfolding intervals_ok_def by blast
  have "a \<in> set (List.map (fst \<circ> snd) (pf_intervals s)) \<longleftrightarrow> pf_started s \<and> a \<in> set (js_values (pf_map s))" for a
  proof
    assume "a \<in> set (List.map (fst \<circ> snd) (pf_intervals s))"
    then obtain j ms where "(j, a, ms) \<in> set (pf_intervals s)" by auto
    then obtain x where x: "live s a x" "su_timer x = Some j" using owner by blast
    then have "pf_started s" using assms(2) unfolding all_run_def by (metis empty_iff option.distinct(1))
    then show "pf_started s \<and> a \<in> set (js_values (pf_map s))" using live_addresses [OF m] x(1) by blast
  next
    assume "pf_started s \<and> a \<in> set (js_values (pf_map s))"
    then obtain x where "runs s a x" using live_addresses [OF m] assms(2) unfolding all_run_def by fastforce
    then show "a \<in> set (List.map (fst \<circ> snd) (pf_intervals s))" unfolding runs_def by force
  qed
  then show ?thesis unfolding set_eq_iff by simp
qed

lemma addresses_distinct:
  assumes "map_ok s"
  shows "distinct (js_values (pf_map s))"
proof -
  have "inj_on snd (set (pf_map s))"
  proof (rule inj_onI)
    fix p q assume pq: "p \<in> set (pf_map s)" "q \<in> set (pf_map s)" "snd p = snd q"
    have key: "\<exists>x. js_get (pf_objects s) (snd r) = Some x \<and> su_key x = fst r" if "r \<in> set (pf_map s)" for r
      using assms that js_wf_mem [of "pf_map s" "fst r" "snd r"] unfolding map_ok_def by simp
    have "fst p = fst q" using key [OF pq(1)] key [OF pq(2)] pq(3) by auto
    then show "p = q" using pq(3) by (simp add: prod_eq_iff)
  qed
  then show ?thesis using assms unfolding map_ok_def js_wf_def by (simp add: distinct_map)
qed

text \<open>C33. Whatever is called, in any order and between any polls: while the manager is started, each subscription in its map has exactly one interval that
  runs, and no other interval runs; while it is stopped none does; and no subscription has two polls at once.
\<close>
theorem one_interval_per_feed:
  "set (List.map (fst \<circ> snd) (pf_intervals (feeds_after cfg cs))) = (if pf_started (feeds_after cfg cs) then set (js_values (pf_map (feeds_after cfg cs))) else {})
   \<and> distinct (List.map (fst \<circ> snd) (pf_intervals (feeds_after cfg cs))) \<and> distinct (js_values (pf_map (feeds_after cfg cs)))
   \<and> distinct (pf_polls (feeds_after cfg cs))"
  using feeds_after_ok [of cfg cs] intervals_follow_map interval_owners addresses_distinct unfolding timers_ok_def polls_ok_def by blast

text \<open>The latest price of an asset is at every moment the last of its history, which has at most 500 prices.\<close>
theorem latest_price_ends_history:
  "length (getPriceHistory asset None (feeds_after cfg cs)) \<le> 500
   \<and> getLatestPrice asset (feeds_after cfg cs)
     = (case getPriceHistory asset None (feeds_after cfg cs) of [] \<Rightarrow> None | p # ps \<Rightarrow> Some (last (p # ps)))"
proof (cases "sub_of (assetKey asset) (feeds_after cfg cs)")
  case (Some p)
  then have "history_ok (snd p)" using feeds_after_ok(1) sub_of_object [of _ _ "fst p" "snd p"] histories_get by fastforce
  then show ?thesis
    using Some by (auto simp: getPriceHistory_def getLatestPrice_def history_ok_def MAX_HISTORY_POINTS_def split: prod.splits list.splits)
qed (simp add: getPriceHistory_def getLatestPrice_def)

section \<open>Who stops a feed\<close>

definition listeners_of :: "feed_state \<Rightarrow> nat \<Rightarrow> (nat list \<times> nat list) option" where
  "listeners_of s a = map_option (\<lambda>x. (su_listeners x, su_errorListeners x)) (js_get (pf_objects s) a)"

lemma listeners_poll_start [simp]: "listeners_of (poll_start a s) b = listeners_of s b" "pf_map (poll_start a s) = pf_map s" "pf_started (poll_start a s) = pf_started s"
  by (auto simp: poll_start_def listeners_of_def put_sub_def split: option.splits)

lemma listeners_schedule [simp]:
  "listeners_of (scheduleSubscription a i s) b = listeners_of s b" "pf_map (scheduleSubscription a i s) = pf_map s"
  "pf_started (scheduleSubscription a i s) = pf_started s"
proof -
  have "listeners_of (put_sub a (x\<lparr>su_timer := t\<rparr>) u) b = listeners_of s b"
    if "js_get (pf_objects s) a = Some x" "pf_objects u = pf_objects s" for x t u
    using that by (simp add: listeners_of_def put_sub_def)
  then show "listeners_of (scheduleSubscription a i s) b = listeners_of s b" "pf_map (scheduleSubscription a i s) = pf_map s"
    "pf_started (scheduleSubscription a i s) = pf_started s"
    by (auto simp: scheduleSubscription_def Let_def split: option.splits)
qed

lemma listeners_added:
  assumes "listeners_of s a = Some (ls, es)"
  shows "listeners_of (add_listeners u e a s) a = Some (add_listener u ls, add_listener e es)" "pf_map (add_listeners u e a s) = pf_map s"
  using assms by (auto simp: add_listeners_def listeners_of_def put_sub_def tell_def Let_def)

lemma subscribe_first:
  assumes "js_get (pf_map s) (assetKey asset) = None"
  shows "listeners_of (subscribe cfg asset opts s) (pf_next s) = Some (add_listener (sb_onUpdate opts) [], add_listener (sb_onError opts) [])"
    "pf_map (subscribe cfg asset opts s) = js_set (assetKey asset) (pf_next s) (pf_map s)"
proof -
  obtain t where t: "open_subscription cfg asset (sb_intervalMs opts) s = (pf_next s, t)" "listeners_of t (pf_next s) = Some ([], [])"
      "pf_map t = js_set (assetKey asset) (pf_next s) (pf_map s)"
    using assms by (simp add: open_subscription_def sub_of_def Let_def put_sub_def listeners_of_def)
  show "listeners_of (subscribe cfg asset opts s) (pf_next s) = Some (add_listener (sb_onUpdate opts) [], add_listener (sb_onError opts) [])"
    "pf_map (subscribe cfg asset opts s) = js_set (assetKey asset) (pf_next s) (pf_map s)"
    using listeners_added [OF t(2)] t(3) by (simp_all add: subscribe_def t(1) Let_def)
qed

lemma subscribe_again:
  assumes "js_get (pf_map s) (assetKey asset) = Some a" "listeners_of s a = Some (ls, es)"
  shows "listeners_of (subscribe cfg asset opts s) a = Some (add_listener (sb_onUpdate opts) ls, add_listener (sb_onError opts) es)"
    "pf_map (subscribe cfg asset opts s) = pf_map s"
proof -
  obtain x where x: "js_get (pf_objects s) a = Some x" using assms(2) by (auto simp: listeners_of_def)
  have same: "listeners_of (put_sub a (x\<lparr>su_intervalMs := n\<rparr>) s) a = Some (ls, es)" for n
    using assms(2) x by (simp add: listeners_of_def put_sub_def)
  have "fst (open_subscription cfg asset (sb_intervalMs opts) s) = a \<and> listeners_of (snd (open_subscription cfg asset (sb_intervalMs opts) s)) a = Some (ls, es)
      \<and> pf_map (snd (open_subscription cfg asset (sb_intervalMs opts) s)) = pf_map s"
    using assms same x by (auto simp: open_subscription_def sub_of_def Let_def split: option.splits)
  then obtain t where t: "open_subscription cfg asset (sb_intervalMs opts) s = (a, t)" "listeners_of t a = Some (ls, es)" "pf_map t = pf_map s"
    by (metis prod.collapse)
  show "listeners_of (subscribe cfg asset opts s) a = Some (add_listener (sb_onUpdate opts) ls, add_listener (sb_onError opts) es)"
    "pf_map (subscribe cfg asset opts s) = pf_map s"
    using listeners_added [OF t(2)] t(3) by (simp_all add: subscribe_def t(1) Let_def)
qed

text \<open>One that subscribes without listeners, to read the latest price or to hear the events of the manager, shares the feed of others but is not
  counted: when the only one with listeners calls the function it was given, the feed is gone for both.
\<close>
theorem silent_subscriber_loses_feed:
  "let s = feeds_after cfg [StartFeeds, Subscribe asset \<lparr>sb_intervalMs = i, sb_onUpdate = None, sb_onError = None, sb_immediate = b\<rparr>, Subscribe asset opts,
       RemoveListeners asset (sb_onUpdate opts) (sb_onError opts)]
   in getSubscriptions s = [] \<and> pf_intervals s = []"
proof -
  let ?o = "\<lparr>sb_intervalMs = i, sb_onUpdate = None, sb_onError = None, sb_immediate = b\<rparr>" and ?k = "assetKey asset"
  define s0 where "s0 = feeds_after cfg [StartFeeds]"
  define s where "s = subscribe cfg asset opts (subscribe cfg asset ?o s0)"
  have none: "pf_map s0 = []" by (simp add: s0_def feeds_after_def start_feeds_def no_feeds_def)
  have one: "listeners_of (subscribe cfg asset ?o s0) (pf_next s0) = Some ([], [])" "pf_map (subscribe cfg asset ?o s0) = [(?k, pf_next s0)]"
    using subscribe_first [of s0 asset cfg ?o] by (simp_all add: none add_listener_def)
  have two: "listeners_of s (pf_next s0) = Some (add_listener (sb_onUpdate opts) [], add_listener (sb_onError opts) [])" "pf_map s = [(?k, pf_next s0)]"
    using subscribe_again [OF _ one(1), of asset cfg opts] one(2) by (simp_all add: s_def)
  then obtain x where x: "js_get (pf_objects s) (pf_next s0) = Some x" "su_listeners x = add_listener (sb_onUpdate opts) []"
      "su_errorListeners x = add_listener (sb_onError opts) []"
    by (auto simp: listeners_of_def)
  have gone: "pf_map (drop_sub ?k (put_sub (pf_next s0) y s)) = []" for y
    using two(2) by (simp add: drop_sub_def sub_of_def put_sub_def)
  define end_state where "end_state = removeListeners ?k (sb_onUpdate opts) (sb_onError opts) s"
  have empty: "pf_map end_state = []"
    using x gone two(2) by (auto simp: end_state_def removeListeners_def sub_of_def Let_def add_listener_def split: option.splits)
  have after: "feeds_after cfg [StartFeeds, Subscribe asset ?o, Subscribe asset opts, RemoveListeners asset (sb_onUpdate opts) (sb_onError opts)] = end_state"
    by (simp add: end_state_def s_def s0_def feeds_after_def)
  have "pf_intervals end_state = []"
    using intervals_follow_map [of end_state] feeds_after_ok(3) [of cfg "[StartFeeds, Subscribe asset ?o, Subscribe asset opts, RemoveListeners asset (sb_onUpdate opts) (sb_onError opts)]"]
    by (auto simp: after empty split: if_splits)
  then show ?thesis unfolding after Let_def by (simp add: getSubscriptions_def empty)
qed

text \<open>A poll in flight tells the listeners of a subscription that has been removed in the meantime.\<close>

lemma poll_outlives_unsubscribe: "pf_log (poll_end a r (unsubscribe asset s)) = pf_log (poll_end a r s)"
  by (auto simp: unsubscribe_def drop_sub_def poll_end_def notify_feed_def notifyError_def tell_def put_sub_def clearTimer_def Let_def
      split: option.splits sum.splits)

text \<open>What a failed reading of the decimals leaves.\<close>

lemma failed_decimals_stick:
  assumes "rd_decimals s = None" "oe_simulate env ''decimals'' [] (rd_world s) = (Inl e, w)"
  shows "getDecimals env s = (Inr (Fin 14), s\<lparr>rd_decimals := Some (Fin 14), rd_world := w\<rparr>)"
    "getDecimals env' (s\<lparr>rd_decimals := Some (Fin 14), rd_world := w'\<rparr>) = (Inr (Fin 14), s\<lparr>rd_decimals := Some (Fin 14), rd_world := w'\<rparr>)"
  using assms by (simp_all add: getDecimals_def simulateCall_def ebind_def ecatch_def eget_def emodify_def ereturn_def)

section \<open>The median\<close>

lemma insert_price_mset: "mset (insert_price x xs) = add_mset x (mset xs)"
  by (induction xs) auto

lemma sort_prices_mset: "mset (sort_prices xs) = mset xs"
  unfolding sort_prices_def by (induction xs) (simp_all add: insert_price_mset)

lemma insert_price_sorted:
  assumes "sorted_wrt js_le xs" "x \<noteq> NaN" "NaN \<notin> set xs"
  shows "sorted_wrt js_le (insert_price x xs)"
  using assms
proof (induction xs)
  case (Cons y ys)
  have "set (insert_price x ys) = insert x (set ys)" by (metis insert_price_mset set_mset_add_mset_insert set_mset_mset)
  moreover have "js_le x z" if "js_le x y" "z \<in> set ys" for z using Cons.prems(1) that js_le_trans by auto
  moreover have "js_le y x" if "js_less y x" using that by (simp add: js_le_def)
  ultimately show ?case using Cons js_not_less [of y x] by auto
qed simp

lemma sort_prices_sorted: "NaN \<notin> set xs \<Longrightarrow> sorted_wrt js_le (sort_prices xs)"
proof (induction xs)
  case (Cons x xs)
  have "set (sort_prices xs) = set xs" by (metis sort_prices_mset set_mset_mset)
  then show ?case using Cons insert_price_sorted [of "sort_prices xs" x] by (auto simp: sort_prices_def)
qed (simp add: sort_prices_def)

text \<open>Where the predicate fails up to a place of the list, at most the places after it satisfy it; and the same from the other end.\<close>

lemma count_after: "(\<And>i. i \<le> k \<Longrightarrow> i < length xs \<Longrightarrow> \<not> P (xs ! i)) \<Longrightarrow> length (filter P xs) \<le> length xs - Suc k"
proof -
  assume "\<And>i. i \<le> k \<Longrightarrow> i < length xs \<Longrightarrow> \<not> P (xs ! i)"
  then have "filter P (take (Suc k) xs) = []" by (auto simp: filter_empty_conv in_set_conv_nth)
  then have "filter P xs = filter P (drop (Suc k) xs)" by (metis append_take_drop_id filter_append self_append_conv2)
  then show ?thesis by (metis length_drop length_filter_le)
qed

lemma count_before: "(\<And>i. k \<le> i \<Longrightarrow> i < length xs \<Longrightarrow> \<not> P (xs ! i)) \<Longrightarrow> length (filter P xs) \<le> k"
proof -
  assume none: "\<And>i. k \<le> i \<Longrightarrow> i < length xs \<Longrightarrow> \<not> P (xs ! i)"
  have "filter P (drop k xs) = []"
    unfolding filter_empty_conv
  proof
    fix x assume "x \<in> set (drop k xs)"
    then obtain i where "i < length (drop k xs)" "x = drop k xs ! i" by (metis in_set_conv_nth)
    then show "\<not> P x" using none [of "k + i"] by simp
  qed
  then have "filter P xs = filter P (take k xs)" by (metis append_take_drop_id filter_append append_Nil2)
  then show ?thesis by (metis length_filter_le length_take min.bounded_iff)
qed

lemma middle_places:
  fixes n :: nat
  assumes "n < 2 * c" "c \<le> n" "k = n div 2 \<or> even n \<and> k = n div 2 - 1"
  shows "k < n \<and> n - Suc k < c \<and> k < c"
proof (cases "even n")
  case True
  then obtain h where "n = 2 * h" by (rule evenE)
  then show ?thesis using assms by auto
next
  case False
  then obtain h where "n = 2 * h + 1" by (rule oddE)
  then show ?thesis using assms by auto
qed

definition in_range :: "rat \<Rightarrow> rat \<Rightarrow> jsnum \<Rightarrow> bool" where
  "in_range lo hi p \<longleftrightarrow> js_le (Fin lo) p \<and> js_le p (Fin hi)"

lemma middle_in_range:
  assumes s: "sorted_wrt js_le xs" "NaN \<notin> set xs" and k: "k < length xs"
    and many: "length xs - Suc k < length (filter (in_range lo hi) xs)" "k < length (filter (in_range lo hi) xs)"
  shows "in_range lo hi (xs ! k)"
proof -
  have le: "js_le (xs ! i) (xs ! j)" if "i \<le> j" "j < length xs" for i j
  proof (cases "i = j")
    case True
    then have "xs ! i \<noteq> NaN" using s(2) that by (metis nth_mem)
    then show ?thesis using True by (cases "xs ! i") (auto simp: js_le_def)
  next
    case False
    then show ?thesis using s(1) that by (simp add: sorted_wrt_iff_nth_less)
  qed
  obtain i where i: "i \<le> k" "i < length xs" "in_range lo hi (xs ! i)" using count_after [of k xs "in_range lo hi"] many(1) by force
  obtain j where j: "k \<le> j" "j < length xs" "in_range lo hi (xs ! j)" using count_before [of k xs "in_range lo hi"] many(2) by force
  show ?thesis
    using le [OF i(1) k] le [OF j(1,2)] i(3) j(3) unfolding in_range_def by (meson js_le_trans)
qed

lemma in_range_Fin: "in_range lo hi p \<longleftrightarrow> (\<exists>q. p = Fin q \<and> lo \<le> q \<and> q \<le> hi)"
  by (cases p) (auto simp: in_range_def js_le_def)

lemma mean_in_range:
  assumes "in_range lo hi p" "in_range lo hi q" "round64 lo = Fin lo" "round64 hi = Fin hi" "round64 (2 * lo) = Fin (2 * lo)" "round64 (2 * hi) = Fin (2 * hi)"
  shows "in_range lo hi (js_div (js_add p q) (Fin 2))"
proof -
  obtain a b where ab: "p = Fin a" "q = Fin b" "lo \<le> a" "a \<le> hi" "lo \<le> b" "b \<le> hi" using assms(1,2) by (auto simp: in_range_Fin)
  have "js_le (Fin (2 * lo)) (round64 (a + b))" "js_le (round64 (a + b)) (Fin (2 * hi))"
    using round64_mono [of "2 * lo" "a + b"] round64_mono [of "a + b" "2 * hi"] ab assms(5,6) by simp_all
  then obtain c where c: "round64 (a + b) = Fin c" "2 * lo \<le> c" "c \<le> 2 * hi" by (cases "round64 (a + b)") (auto simp: js_le_def)
  have "js_le (Fin lo) (round64 (c / 2))" "js_le (round64 (c / 2)) (Fin hi)"
    using round64_mono [of lo "c / 2"] round64_mono [of "c / 2" hi] c(2,3) assms(3,4) by simp_all
  then show ?thesis using ab c by (simp add: in_range_def)
qed

text \<open>As long as more than half of the positive observations lie between two bounds, so does the aggregated price, however far off the others are,
  infinite ones included; bounds and their doubles are numbers without rounding.
\<close>
theorem median_resists_outliers:
  assumes "aggregateOraclePrices observations = Inr (m, providers)"
    and "length providers < 2 * length (filter (in_range lo hi) (List.map snd (filter (\<lambda>(_, p). js_less (Fin 0) p \<and> p \<noteq> NaN) observations)))"
    and "round64 lo = Fin lo" "round64 hi = Fin hi" "round64 (2 * lo) = Fin (2 * lo)" "round64 (2 * hi) = Fin (2 * hi)"
  shows "in_range lo hi m"
proof -
  let ?v = "filter (\<lambda>(_, p). js_less (Fin 0) p \<and> p \<noteq> NaN) observations"
  define xs where "xs = sort_prices (List.map snd ?v)"
  let ?n = "length xs" and ?c = "length (filter (in_range lo hi) xs)"
  have m: "m = (if ?n mod 2 = 0 then js_div (js_add (xs ! (?n div 2 - 1)) (xs ! (?n div 2))) (Fin 2) else xs ! (?n div 2))"
    and p: "providers = List.map fst ?v"
    using assms(1) by (auto simp: aggregateOraclePrices_def calculateMedianPrice_def xs_def Let_def split: if_splits sum.splits)
  have mset: "mset xs = mset (List.map snd ?v)" by (simp add: xs_def sort_prices_mset)
  have n: "?n = length providers" using mset_eq_length [OF mset] p by simp
  have "?c = length (filter (in_range lo hi) (List.map snd ?v))"
    using arg_cong [OF mset, of "\<lambda>M. size (filter_mset (in_range lo hi) M)"] by (metis mset_filter size_mset)
  then have half: "?n < 2 * ?c" using assms(2) n by simp
  have nan: "NaN \<notin> set (List.map snd ?v)" by auto
  have s: "sorted_wrt js_le xs" "NaN \<notin> set xs"
    using sort_prices_sorted [OF nan] nan mset_eq_setD [OF mset] by (simp_all add: xs_def)
  have c: "?c \<le> ?n" by simp
  have mid: "in_range lo hi (xs ! k)" if "k = ?n div 2 \<or> even ?n \<and> k = ?n div 2 - 1" for k
    using middle_places [OF half c that] middle_in_range [OF s] by blast
  show ?thesis
  proof (cases "even ?n")
    case True
    have "in_range lo hi (xs ! (?n div 2 - 1))" "in_range lo hi (xs ! (?n div 2))" using mid True by blast+
    then show ?thesis using mean_in_range [OF _ _ assms(3-6)] m True by (simp add: even_iff_mod_2_eq_zero)
  next
    case False
    have "in_range lo hi (xs ! (?n div 2))" using mid by blast
    then show ?thesis using m False by (simp add: even_iff_mod_2_eq_zero)
  qed
qed

theorem median_resists_outliers_witness:
  "in_range 9 11 (Fin 10) \<and> aggregateOraclePrices [(''sep40'', Fin 10), (''broken'', PosInf), (''second'', Fin 11), (''third'', Fin 9), (''spam'', Fin (1 / 1024))]
     = Inr (Fin 10, [''sep40'', ''broken'', ''second'', ''third'', ''spam''])"
proof -
  have run: "aggregateOraclePrices [(''sep40'', Fin 10), (''broken'', PosInf), (''second'', Fin 11), (''third'', Fin 9), (''spam'', Fin (1 / 1024))]
     = Inr (Fin 10, [''sep40'', ''broken'', ''second'', ''third'', ''spam''])"
    by code_simp
  have "in_range 9 11 (Fin 10)" by (rule median_resists_outliers [OF run]) (simp_all add: in_range_def)
  then show ?thesis using run by simp
qed

end
