(* ===== verification/Relayer.thy ===== *)
theory Relayer
  imports Soroban_Errors Batch_Types Js_Text Js_Date
begin

text \<open>
  The relayer, which pays the fees of other people's transactions: \<open>services/relayer.service.ts\<close>, \<open>api/controllers/relayer.controller.ts\<close>,
  \<open>api/routes/relayer.route.ts\<close> and \<open>types/relayer.types.ts\<close> of \<open>backend/src\<close>. The Stellar SDK, Horizon, Ed25519 and the clock are
  parameters; the service keeps no state of its own.
\<close>

section \<open>Requests and configuration\<close>

text \<open>A member that a body leaves out is \<open>None\<close>.\<close>

record approval_request =
  ar_userPublicKey :: "string option"
  ar_spenderPublicKey :: "string option"
  ar_amount :: "string option"
  ar_assetCode :: "string option"
  ar_assetIssuer :: "string option"
  ar_nonce :: "string option"
  ar_expiry :: "int option"
  ar_signature :: "string option"

datatype relay_result = Relayed string | RelayFailed string

datatype bump_result = Bumped string string jsnum | BumpFailed string

datatype verification = SignatureValid string | SignatureInvalid string

record relayer_config =
  rl_publicKey :: string
  rl_secretKey :: string
  rl_maxAmount :: string
  rl_allowedSpenders :: "string list"
  rl_expiryWindow :: jsnum
  rl_baseFee :: jsnum
  rl_surgeMultiplier :: jsnum
  rl_maxFeeCap :: jsnum
  rl_dynamicFees :: bool

record fee_estimate =
  es_baseFee :: jsnum
  es_recommendedFee :: jsnum
  es_surgeMultiplier :: jsnum
  es_maxFeeCap :: jsnum
  es_modeFee :: jsnum
  es_p90Fee :: jsnum
  es_minFee :: jsnum
  es_maxFee :: jsnum
  es_ledgerCapacityUsage :: jsnum

text \<open>The members of Horizon's fee statistics that are read.\<close>

record fee_stats =
  fs_min :: "string option"
  fs_mode :: "string option"
  fs_p90 :: "string option"
  fs_max :: "string option"
  fs_min_accepted :: "string option"
  fs_usage :: "string option"

record ('w, 'acct, 'tx) relayer_env =
  re_now :: "'w \<Rightarrow> int"
  re_uuid :: "'w \<Rightarrow> string \<times> 'w"
  re_feeStats :: "('w, js_error, fee_stats) eff"
  re_loadAccount :: "string \<Rightarrow> ('w, js_error, 'acct) eff"
  re_submit :: "'tx \<Rightarrow> ('w, js_error, string) eff"
  re_passphrase :: string
  re_base64 :: "string \<Rightarrow> string"
  re_verify :: "string \<Rightarrow> string \<Rightarrow> string \<Rightarrow> string \<Rightarrow> js_error + bool"
  re_asset :: "string \<Rightarrow> string \<Rightarrow> js_error + string"
  re_keypair :: "string \<Rightarrow> js_error + string"
  re_allowTrust :: "'acct \<Rightarrow> jsnum \<Rightarrow> string \<Rightarrow> string option \<Rightarrow> string \<Rightarrow> string \<Rightarrow> js_error + 'tx"
  re_feeBump :: "string \<Rightarrow> jsnum \<Rightarrow> 'tx \<Rightarrow> string \<Rightarrow> js_error + 'tx"
  re_sign :: "string \<Rightarrow> 'tx \<Rightarrow> 'tx"
  re_toXdr :: "'tx \<Rightarrow> string"
  re_fromXdr :: "string \<Rightarrow> string \<Rightarrow> js_error + 'tx"
  re_signatures :: "'tx \<Rightarrow> nat"
  re_fee :: "'tx \<Rightarrow> string"

text \<open>\<open>x || d\<close> for numbers.\<close>

definition number_or :: "jsnum \<Rightarrow> jsnum \<Rightarrow> jsnum" where
  "number_or x d = (if x = Fin 0 \<or> x = NaN then d else x)"

definition error_or :: "js_error \<Rightarrow> string \<Rightarrow> string" where
  "error_or e d = (case error_message e of Some m \<Rightarrow> m | None \<Rightarrow> d)"

text \<open>The relayer of the environment: a variable that is empty counts as missing, except in the list of spenders.\<close>

definition relayer_from_env :: "(string \<Rightarrow> string option) \<Rightarrow> relayer_config" where
  "relayer_from_env var = (let text = (\<lambda>k d. case truthy_str (var k) of Some t \<Rightarrow> t | None \<Rightarrow> d) in
     \<lparr>rl_publicKey = text ''RELAYER_PUBLIC_KEY'' '''', rl_secretKey = text ''RELAYER_SECRET_KEY'' '''',
       rl_maxAmount = text ''RELAYER_MAX_AMOUNT'' ''1000000'',
       rl_allowedSpenders = (case var ''RELAYER_ALLOWED_SPENDERS'' of Some t \<Rightarrow> split_char (CHR '','') t | None \<Rightarrow> []),
       rl_expiryWindow = parseInt10 (text ''RELAYER_EXPIRY_WINDOW'' ''3600''), rl_baseFee = parseInt10 (text ''RELAYER_BASE_FEE'' ''100''),
       rl_surgeMultiplier = parseFloat (text ''RELAYER_FEE_SURGE_MULTIPLIER'' ''1.2''),
       rl_maxFeeCap = parseInt10 (text ''RELAYER_MAX_FEE_CAP'' ''10000''),
       rl_dynamicFees = (var ''RELAYER_DYNAMIC_FEES_ENABLED'' \<noteq> Some ''false'')\<rparr>)"

text \<open>The constructor, outside of tests: the key pair is checked once, and its public key is used from then on.\<close>

definition new_relayer :: "('w, 'acct, 'tx) relayer_env \<Rightarrow> relayer_config \<Rightarrow> js_error + string" where
  "new_relayer env cfg = (if rl_secretKey cfg = [] then Inl (PlainError ''Relayer secret key is required'') else re_keypair env (rl_secretKey cfg))"

section \<open>Fees\<close>

definition stat_or :: "string option \<Rightarrow> jsnum \<Rightarrow> jsnum" where
  "stat_or t d = (case truthy_str t of Some x \<Rightarrow> parseInt10 x | None \<Rightarrow> d)"

text \<open>The estimate from the statistics, or without them.\<close>

definition estimate_from :: "relayer_config \<Rightarrow> jsnum option \<Rightarrow> fee_stats option \<Rightarrow> fee_estimate" where
  "estimate_from cfg override stats =
     (let fallback = number_or (rl_baseFee cfg) (Fin 100); multiplier = (case override of Some m \<Rightarrow> m | None \<Rightarrow> rl_surgeMultiplier cfg);
          cap = number_or (rl_maxFeeCap cfg) (Fin 10000)
      in case stats of
        Some st \<Rightarrow>
          let base = stat_or (fs_min st) (stat_or (fs_min_accepted st) fallback); mode = stat_or (fs_mode st) base;
              p90 = stat_or (fs_p90 st) mode; top = stat_or (fs_max st) p90;
              usage = (case truthy_str (fs_usage st) of Some u \<Rightarrow> parseFloat u | None \<Rightarrow> Fin 0);
              reference = math_max (math_max base mode) p90; raw = math_ceil (js_mul reference multiplier)
          in \<lparr>es_baseFee = base, es_recommendedFee = math_min (math_max raw base) cap, es_surgeMultiplier = multiplier, es_maxFeeCap = cap,
               es_modeFee = mode, es_p90Fee = p90, es_minFee = base, es_maxFee = top, es_ledgerCapacityUsage = usage\<rparr>
      | None \<Rightarrow>
          \<lparr>es_baseFee = fallback, es_recommendedFee = math_min (math_ceil (js_mul fallback multiplier)) cap, es_surgeMultiplier = multiplier,
            es_maxFeeCap = cap, es_modeFee = fallback, es_p90Fee = fallback, es_minFee = fallback, es_maxFee = fallback, es_ledgerCapacityUsage = Fin 0\<rparr>)"

definition getFeeEstimate :: "('w, 'acct, 'tx) relayer_env \<Rightarrow> relayer_config \<Rightarrow> jsnum option \<Rightarrow> ('w, js_error, fee_estimate) eff" where
  "getFeeEstimate env cfg override =
     ecatch (ebind (re_feeStats env) (\<lambda>st. ereturn (estimate_from cfg override (Some st)))) (\<lambda>_. ereturn (estimate_from cfg override None))"

section \<open>Signatures\<close>

text \<open>\<open>BigInt\<close> of a text.\<close>

definition radix_int :: "int \<Rightarrow> string \<Rightarrow> int option" where
  "radix_int b ds = (if ds \<noteq> [] \<and> list_all (\<lambda>c. radix_digit c < b) ds then Some (foldl (\<lambda>n c. b * n + radix_digit c) 0 ds) else None)"

definition bigint_of_text :: "string \<Rightarrow> int option" where
  "bigint_of_text s =
     (let t = trim_js s; p = take 2 t in
      if t = [] then Some 0
      else if p = ''0x'' \<or> p = ''0X'' then radix_int 16 (drop 2 t)
      else if p = ''0o'' \<or> p = ''0O'' then radix_int 8 (drop 2 t)
      else if p = ''0b'' \<or> p = ''0B'' then radix_int 2 (drop 2 t)
      else case split_sign t of (neg, r) \<Rightarrow> map_option (\<lambda>i. if neg then - i else i) (radix_int 10 r))"

definition big_int :: "string option \<Rightarrow> js_error + int" where
  "big_int t = (case t of
     None \<Rightarrow> Inl (OtherErr ''TypeError'' ''Cannot convert undefined to a BigInt'' None None None None None None)
   | Some s \<Rightarrow> (case bigint_of_text s of Some i \<Rightarrow> Inr i
       | None \<Rightarrow> Inl (OtherErr ''SyntaxError'' (''Cannot convert '' @ s @ '' to a BigInt'') None None None None None None)))"

definition constructApprovalMessage :: "approval_request \<Rightarrow> js_error + string" where
  "constructApprovalMessage req = (case ar_expiry req of
     None \<Rightarrow> Inl (OtherErr ''TypeError'' ''Cannot read properties of undefined (reading 'toString')'' None None None None None None)
   | Some expiry \<Rightarrow>
       let part = (\<lambda>x. case x of Some t \<Rightarrow> t | None \<Rightarrow> ''''); part_or = (\<lambda>x d. case truthy_str x of Some t \<Rightarrow> t | None \<Rightarrow> d) in
       Inr (join_with ''|'' [''approve'', part (ar_userPublicKey req), part (ar_spenderPublicKey req), part (ar_amount req),
         part_or (ar_assetCode req) ''XLM'', part_or (ar_assetIssuer req) ''native'', part (ar_nonce req), show_int expiry]))"

text \<open>
  The parameter \<open>re_verify env algorithm data key signature\<close> is Node's \<open>crypto.verify\<close>, its arguments in Node's order. The code hands it the public key as
  the data, the signature as the key and the message as the signature.
\<close>

definition verifyEd25519Signature :: "('w, 'acct, 'tx) relayer_env \<Rightarrow> string \<Rightarrow> string \<Rightarrow> string \<Rightarrow> bool" where
  "verifyEd25519Signature env message signature publicKey =
     (case re_verify env ''ed25519'' publicKey signature message of Inr b \<Rightarrow> b | Inl _ \<Rightarrow> False)"

definition spender_refused :: "relayer_config \<Rightarrow> approval_request \<Rightarrow> bool" where
  "spender_refused cfg req \<longleftrightarrow> rl_allowedSpenders cfg \<noteq> [] \<and> ar_spenderPublicKey req \<notin> Some ` set (rl_allowedSpenders cfg)"

definition signature_of :: "('w, 'acct, 'tx) relayer_env \<Rightarrow> relayer_config \<Rightarrow> string \<Rightarrow> string \<Rightarrow> approval_request \<Rightarrow> js_error + verification" where
  "signature_of env cfg user signature req =
     (case big_int (ar_amount req) of Inl e \<Rightarrow> Inl e | Inr amount \<Rightarrow>
      (case big_int (Some (rl_maxAmount cfg)) of Inl e \<Rightarrow> Inl e | Inr maxAmount \<Rightarrow>
       if maxAmount < amount then Inr (SignatureInvalid ''Amount exceeds maximum allowed'')
       else (case constructApprovalMessage req of Inl e \<Rightarrow> Inl e | Inr message \<Rightarrow>
         if verifyEd25519Signature env message (re_base64 env signature) (re_base64 env user) then Inr (SignatureValid user)
         else Inr (SignatureInvalid ''Invalid signature''))))"

definition verifySignature :: "('w, 'acct, 'tx) relayer_env \<Rightarrow> relayer_config \<Rightarrow> approval_request \<Rightarrow> int \<Rightarrow> verification" where
  "verifySignature env cfg req now =
     (case (truthy_str (ar_userPublicKey req), truthy_str (ar_signature req), truthy_str (ar_nonce req)) of
        (Some user, Some signature, Some _) \<Rightarrow>
          if (case ar_expiry req of Some t \<Rightarrow> t < now | None \<Rightarrow> False) then SignatureInvalid ''Request has expired''
          else if spender_refused cfg req then SignatureInvalid ''Spender is not authorized''
          else (case signature_of env cfg user signature req of
                  Inr v \<Rightarrow> v
                | Inl e \<Rightarrow> SignatureInvalid (error_or e ''Verification failed''))
      | _ \<Rightarrow> SignatureInvalid ''Missing required fields in approval request'')"

section \<open>Transactions\<close>

record approval_transaction =
  at_xdr :: string
  at_passphrase :: string
  at_fee :: jsnum
  at_operations :: int

definition relayer_key :: "('w, 'acct, 'tx) relayer_env \<Rightarrow> relayer_config \<Rightarrow> string" where
  "relayer_key env cfg = (case new_relayer env cfg of Inr k \<Rightarrow> k | Inl _ \<Rightarrow> '''')"

definition buildApprovalTransaction ::
  "('w, 'acct, 'tx) relayer_env \<Rightarrow> relayer_config \<Rightarrow> approval_request \<Rightarrow> jsnum option \<Rightarrow> ('w, js_error, approval_transaction) eff" where
  "buildApprovalTransaction env cfg req customFee =
     ebind (case (truthy_str (ar_assetCode req), truthy_str (ar_assetIssuer req)) of
              (Some c, Some i) \<Rightarrow> elift (re_asset env c i) | _ \<Rightarrow> ereturn ''XLM'') (\<lambda>code.
     ebind (if customFee \<in> {None, Some (Fin 0), Some NaN}
            then ebind (getFeeEstimate env cfg None) (\<lambda>e. ereturn (es_recommendedFee e)) else ereturn (the customFee)) (\<lambda>fee.
     ebind (re_loadAccount env (relayer_key env cfg)) (\<lambda>account.
     ebind (elift (re_allowTrust env account fee (re_passphrase env) (ar_userPublicKey req) code (relayer_key env cfg))) (\<lambda>tx.
     ereturn \<lparr>at_xdr = re_toXdr env (re_sign env (rl_secretKey cfg) tx), at_passphrase = re_passphrase env, at_fee = fee, at_operations = 1\<rparr>))))"

definition passphrase_or :: "('w, 'acct, 'tx) relayer_env \<Rightarrow> string option \<Rightarrow> string" where
  "passphrase_or env p = (case truthy_str p of Some t \<Rightarrow> t | None \<Rightarrow> re_passphrase env)"

text \<open>The number that the code computes for a bump that names none. The Stellar SDK takes it as the base fee, which is charged for each operation.\<close>

definition bump_fee :: "relayer_config \<Rightarrow> jsnum \<Rightarrow> jsnum \<Rightarrow> jsnum" where
  "bump_fee cfg recommended inner =
     (let fee = math_max recommended (js_mul (number_or inner (Fin 100)) (Fin 2)) in
      if rl_maxFeeCap cfg \<notin> {Fin 0, NaN} \<and> js_less (rl_maxFeeCap cfg) fee then rl_maxFeeCap cfg else fee)"

definition buildFeeBumpTransaction ::
  "('w, 'acct, 'tx) relayer_env \<Rightarrow> relayer_config \<Rightarrow> string \<Rightarrow> jsnum option \<Rightarrow> string option \<Rightarrow> ('w, js_error, 'tx) eff" where
  "buildFeeBumpTransaction env cfg innerXdr bumpFee passphrase =
     (let p = passphrase_or env passphrase in
      ebind (elift (re_fromXdr env innerXdr p)) (\<lambda>inner.
      ebind (if bumpFee \<in> {None, Some (Fin 0), Some NaN}
             then ebind (getFeeEstimate env cfg (Some (Fin (3 / 2)))) (\<lambda>e. ereturn (bump_fee cfg (es_recommendedFee e) (parseInt10 (re_fee env inner))))
             else ereturn (the bumpFee)) (\<lambda>fee.
      ebind (elift (re_feeBump env (rl_secretKey cfg) fee inner p)) (\<lambda>tx.
      ereturn (re_sign env (rl_secretKey cfg) tx)))))"

definition submitFeeBump ::
  "('w, 'acct, 'tx) relayer_env \<Rightarrow> relayer_config \<Rightarrow> string \<Rightarrow> string option \<Rightarrow> jsnum option \<Rightarrow> ('w, js_error, bump_result) eff" where
  "submitFeeBump env cfg xdr passphrase maxFee =
     ecatch (ebind (buildFeeBumpTransaction env cfg xdr maxFee (Some (passphrase_or env passphrase))) (\<lambda>tx.
             ebind (re_submit env tx) (\<lambda>hash.
             ereturn (Bumped (re_toXdr env tx) hash (parseInt10 (re_fee env tx))))))
       (\<lambda>e. ereturn (BumpFailed (error_or e ''Fee bump submission failed'')))"

definition is_fee_error :: "js_error \<Rightarrow> bool" where
  "is_fee_error e \<longleftrightarrow>
     (case e of OtherErr _ _ _ _ _ _ _ (Some r) \<Rightarrow> Option.bind (er_data_extras r) rc_transaction = Some ''tx_insufficient_fee'' | _ \<Rightarrow> False)
     \<or> (let m = List.map to_lower (error_or e '''') in js_includes m ''insufficient fee'' \<or> js_includes m ''fee too small'')"

definition submitSignedTransaction :: "('w, 'acct, 'tx) relayer_env \<Rightarrow> relayer_config \<Rightarrow> string \<Rightarrow> string \<Rightarrow> ('w, js_error, relay_result) eff" where
  "submitSignedTransaction env cfg xdr passphrase =
     ecatch (ebind (elift (re_fromXdr env xdr passphrase)) (\<lambda>tx.
             if re_signatures env tx = 0 then ereturn (RelayFailed ''Transaction is not signed'')
             else ebind (re_submit env tx) (\<lambda>hash. ereturn (Relayed hash))))
       (\<lambda>e. let failed = RelayFailed (error_or e ''Submission failed'') in
          if is_fee_error e
          then ebind (submitFeeBump env cfg xdr (Some passphrase) None) (\<lambda>r. case r of
                 Bumped _ hash _ \<Rightarrow> ereturn (if hash \<noteq> [] then Relayed hash else failed)
               | BumpFailed _ \<Rightarrow> ereturn failed)
          else ereturn failed)"

definition processApprovalRequest :: "('w, 'acct, 'tx) relayer_env \<Rightarrow> relayer_config \<Rightarrow> approval_request \<Rightarrow> ('w, js_error, relay_result) eff" where
  "processApprovalRequest env cfg req =
     ebind (eget (re_now env)) (\<lambda>now. case verifySignature env cfg req now of
       SignatureInvalid e \<Rightarrow> ereturn (RelayFailed e)
     | SignatureValid _ \<Rightarrow> ebind (buildApprovalTransaction env cfg req None) (\<lambda>t. submitSignedTransaction env cfg (at_xdr t) (at_passphrase t)))"

section \<open>Endpoints\<close>

datatype relayer_reply =
    RelayerError int string
  | RelayerDone string string
  | VerifyReply int verification
  | BumpReply int bump_result
  | EstimateReply fee_estimate
  | NonceReply string
  | ConfigReply relayer_config

definition is_transient_error :: "js_error \<Rightarrow> bool" where
  "is_transient_error e \<longleftrightarrow> (let m = List.map to_lower (error_or e (error_text e)) in
     list_ex (js_includes m) [''transient'', ''temporary'', ''timeout'', ''econnreset'', ''etimedout''])"

definition runWithTransientRetry :: "('w, js_error, 'a) eff \<Rightarrow> ('w, js_error, 'a) eff" where
  "runWithTransientRetry op = ecatch op (\<lambda>e. if is_transient_error e then op else ethrow e)"

definition internal_error :: "js_error \<Rightarrow> relayer_reply" where
  "internal_error e = RelayerError 500 (error_or e ''Internal server error'')"

definition submitApproval :: "('w, 'acct, 'tx) relayer_env \<Rightarrow> relayer_config \<Rightarrow> approval_request \<Rightarrow> ('w, js_error, relayer_reply) eff" where
  "submitApproval env cfg req =
     (if truthy_str (ar_userPublicKey req) = None \<or> truthy_str (ar_signature req) = None
      then ereturn (RelayerError 400 ''Missing required fields: userPublicKey and signature are required'')
      else if truthy_str (ar_spenderPublicKey req) = None then ereturn (RelayerError 400 ''Missing required field: spenderPublicKey is required'')
      else if truthy_str (ar_amount req) = None then ereturn (RelayerError 400 ''Missing required field: amount is required'')
      else if truthy_str (ar_nonce req) = None then ereturn (RelayerError 400 ''Missing required field: nonce is required'')
      else if ar_expiry req \<in> {None, Some 0} then ereturn (RelayerError 400 ''Missing required field: expiry is required'')
      else ecatch (ebind (runWithTransientRetry (processApprovalRequest env cfg req)) (\<lambda>r. case r of
              Relayed hash \<Rightarrow> ereturn (RelayerDone hash ''Token approval submitted successfully'')
            | RelayFailed e \<Rightarrow> ereturn (RelayerError 400 e)))
          (\<lambda>e. ereturn (internal_error e)))"

definition post_verify :: "('w, 'acct, 'tx) relayer_env \<Rightarrow> relayer_config \<Rightarrow> approval_request \<Rightarrow> ('w, js_error, relayer_reply) eff" where
  "post_verify env cfg req =
     (if truthy_str (ar_userPublicKey req) = None \<or> truthy_str (ar_signature req) = None
      then ereturn (VerifyReply 400 (SignatureInvalid ''Missing required fields: userPublicKey and signature are required''))
      else ebind (eget (re_now env)) (\<lambda>now. ereturn (VerifyReply 200 (verifySignature env cfg req now))))"

definition post_submit :: "('w, 'acct, 'tx) relayer_env \<Rightarrow> relayer_config \<Rightarrow> string option \<Rightarrow> string option \<Rightarrow> ('w, js_error, relayer_reply) eff" where
  "post_submit env cfg xdr passphrase = (case (truthy_str xdr, truthy_str passphrase) of
     (None, _) \<Rightarrow> ereturn (RelayerError 400 ''Missing required field: signedTransactionXdr is required'')
   | (_, None) \<Rightarrow> ereturn (RelayerError 400 ''Missing required field: networkPassphrase is required'')
   | (Some x, Some p) \<Rightarrow> ecatch (ebind (submitSignedTransaction env cfg x p) (\<lambda>r. case r of
          Relayed hash \<Rightarrow> ereturn (RelayerDone hash ''Transaction submitted successfully'')
        | RelayFailed e \<Rightarrow> ereturn (RelayerError 400 e)))
       (\<lambda>e. ereturn (internal_error e)))"

definition get_nonce :: "('w, 'acct, 'tx) relayer_env \<Rightarrow> ('w, js_error, relayer_reply) eff" where
  "get_nonce env s = (case re_uuid env s of (nonce, s') \<Rightarrow> (Inr (NonceReply nonce), s'))"

text \<open>The configuration without the secret key.\<close>

definition getRelayerConfig :: "relayer_config \<Rightarrow> relayer_reply" where
  "getRelayerConfig cfg = ConfigReply (cfg\<lparr>rl_secretKey := ''''\<rparr>)"

definition get_fee_estimate :: "('w, 'acct, 'tx) relayer_env \<Rightarrow> relayer_config \<Rightarrow> string option \<Rightarrow> ('w, js_error, relayer_reply) eff" where
  "get_fee_estimate env cfg multiplier = ebind (getFeeEstimate env cfg (map_option parseFloat (truthy_str multiplier))) (\<lambda>e. ereturn (EstimateReply e))"

definition post_fee_bump ::
  "('w, 'acct, 'tx) relayer_env \<Rightarrow> relayer_config \<Rightarrow> string option \<Rightarrow> string option \<Rightarrow> jsnum option \<Rightarrow> ('w, js_error, relayer_reply) eff" where
  "post_fee_bump env cfg xdr passphrase maxFee = (case truthy_str xdr of
     None \<Rightarrow> ereturn (RelayerError 400 ''Missing required field: transactionXdr is required'')
   | Some x \<Rightarrow> ecatch (ebind (submitFeeBump env cfg x passphrase maxFee) (\<lambda>r.
         ereturn (BumpReply (case r of Bumped _ _ _ \<Rightarrow> 200 | BumpFailed _ \<Rightarrow> 400) r)))
       (\<lambda>e. ereturn (internal_error e)))"

text \<open>
  Properties of the relayer: which approvals it accepts, what it signs for them, and what it pays.
\<close>

section \<open>What it pays\<close>

lemma capped_min: "\<not> js_less c (math_min x c)"
  by (cases c) (auto simp: math_min_def)

lemma estimate_capped: "\<not> js_less (number_or (rl_maxFeeCap cfg) (Fin 10000)) (es_recommendedFee (estimate_from cfg override stats))"
  by (simp add: estimate_from_def Let_def capped_min split: option.split)

lemma estimate_returns: "\<exists>st s'. getFeeEstimate env cfg override s = (Inr (estimate_from cfg override st), s')"
  by (cases "re_feeStats env s") (auto simp: getFeeEstimate_def eff_defs split: sum.split)

text \<open>C40. The Stellar SDK, which builds fee bumps, takes a base fee and charges it once for each operation of the inner transaction and once more for the bump.
  A bump for which the caller names no fee is built with a base fee that is the recommended fee or twice the fee of the inner transaction, whichever is more, cut to the
  configured maximum. So the maximum bounds the recommended fee and the base fee of what is built and signed, while what the relayer pays is
  bounded by the maximum times the number of operations plus one, and can be above the maximum.
\<close>
theorem relayer_fees_capped:
  assumes maximum: "rl_maxFeeCap cfg = Fin c" "c \<noteq> 0"
    and sdk: "\<And>key f inner p tx. re_feeBump env key f inner p = Inr tx \<Longrightarrow> \<exists>x. f = Fin x \<and> charged tx = x * (of_nat (operations inner) + 1)"
      "\<And>key tx. charged (re_sign env key tx) = charged tx"
    and built: "buildFeeBumpTransaction env cfg xdr None p s = (Inr tx, s')"
  shows "\<exists>inner e x unsigned. re_fromXdr env xdr (passphrase_or env p) = Inr inner
    \<and> getFeeEstimate env cfg (Some (Fin (3 / 2))) s = (Inr e, s') \<and> \<not> js_less (Fin c) (es_recommendedFee e)
    \<and> (let wanted = math_max (es_recommendedFee e) (js_mul (number_or (parseInt10 (re_fee env inner)) (Fin 100)) (Fin 2))
        in Fin x = (if js_less (Fin c) wanted then Fin c else wanted))
    \<and> re_feeBump env (rl_secretKey cfg) (Fin x) inner (passphrase_or env p) = Inr unsigned \<and> tx = re_sign env (rl_secretKey cfg) unsigned
    \<and> x \<le> c \<and> charged tx = x * (of_nat (operations inner) + 1) \<and> charged tx \<le> c * (of_nat (operations inner) + 1)"
proof -
  obtain st s1 where e: "getFeeEstimate env cfg (Some (Fin (3 / 2))) s = (Inr (estimate_from cfg (Some (Fin (3 / 2))) st), s1)" using estimate_returns by metis
  define e where "e = estimate_from cfg (Some (Fin (3 / 2))) st"
  obtain inner unsigned where parts: "re_fromXdr env xdr (passphrase_or env p) = Inr inner" "s1 = s'" "tx = re_sign env (rl_secretKey cfg) unsigned"
      "re_feeBump env (rl_secretKey cfg) (bump_fee cfg (es_recommendedFee e) (parseInt10 (re_fee env inner))) inner (passphrase_or env p) = Inr unsigned"
    using built e by (auto simp: buildFeeBumpTransaction_def eff_defs Let_def e_def split: sum.splits)
  obtain x where x: "bump_fee cfg (es_recommendedFee e) (parseInt10 (re_fee env inner)) = Fin x" "charged unsigned = x * (of_nat (operations inner) + 1)"
    using sdk(1) [OF parts(4)] by blast
  have cut: "Fin x = (if js_less (Fin c) wanted then Fin c else wanted)"
    if "wanted = math_max (es_recommendedFee e) (js_mul (number_or (parseInt10 (re_fee env inner)) (Fin 100)) (Fin 2))" for wanted
    using x(1) maximum by (simp add: bump_fee_def Let_def that split: if_splits)
  then have le: "x \<le> c" by (metis js_less.simps(1) jsnum.inject not_less order_refl)
  have recommended: "\<not> js_less (Fin c) (es_recommendedFee e)"
    using estimate_capped [of cfg "Some (Fin (3 / 2))" st] maximum by (simp add: number_or_def e_def)
  have "charged tx \<le> c * (of_nat (operations inner) + 1)" using x(2) le sdk(2) parts(3) by (simp add: mult_right_mono)
  then show ?thesis using parts x e cut recommended le sdk(2) by (auto simp: e_def Let_def)
qed

text \<open>An approval is built with a base fee up to the maximum; it has one operation.\<close>
theorem approval_fee_capped:
  assumes "rl_maxFeeCap cfg \<notin> {Fin 0, NaN}" "buildApprovalTransaction env cfg req None s = (Inr t, s')"
  shows "\<exists>account code tx. re_allowTrust env account (at_fee t) (re_passphrase env) (ar_userPublicKey req) code (relayer_key env cfg) = Inr tx
    \<and> at_xdr t = re_toXdr env (re_sign env (rl_secretKey cfg) tx) \<and> \<not> js_less (rl_maxFeeCap cfg) (at_fee t)"
proof -
  have cap: "number_or (rl_maxFeeCap cfg) (Fin 10000) = rl_maxFeeCap cfg" using assms(1) by (simp add: number_or_def)
  have fee: "\<not> js_less (rl_maxFeeCap cfg) (es_recommendedFee e)" if "getFeeEstimate env cfg None s1 = (Inr e, s2)" for e s1 s2
    using estimate_returns [of env cfg None s1] that estimate_capped [of cfg None] by (auto simp: cap)
  show ?thesis using assms(2) fee
    by (auto simp: buildApprovalTransaction_def eff_defs split: prod.splits sum.splits option.splits) blast+
qed

text \<open>A bump that names its fee is built and signed with that fee, whatever the maximum: the cap is the choice of who asks.\<close>
theorem bump_caller_names_fee:
  assumes "fee \<notin> {Fin 0, NaN}" "re_fromXdr env xdr (passphrase_or env p) = Inr inner" "re_feeBump env (rl_secretKey cfg) fee inner (passphrase_or env p) = Inr tx"
  shows "buildFeeBumpTransaction env cfg xdr (Some fee) p s = (Inr (re_sign env (rl_secretKey cfg) tx), s)"
  using assms by (auto simp: buildFeeBumpTransaction_def eff_defs)

section \<open>What it accepts\<close>

lemma verified_iff:
  "verifySignature env cfg req now = SignatureValid user \<longleftrightarrow>
     (\<exists>signature nonce expiry amount maximum message.
        ar_userPublicKey req = Some user \<and> user \<noteq> [] \<and> ar_signature req = Some signature \<and> signature \<noteq> [] \<and> ar_nonce req = Some nonce \<and> nonce \<noteq> []
        \<and> ar_expiry req = Some expiry \<and> now \<le> expiry \<and> \<not> spender_refused cfg req
        \<and> big_int (ar_amount req) = Inr amount \<and> big_int (Some (rl_maxAmount cfg)) = Inr maximum \<and> amount \<le> maximum
        \<and> constructApprovalMessage req = Inr message
        \<and> re_verify env ''ed25519'' (re_base64 env user) (re_base64 env signature) message = Inr True)"
proof -
  have sig: "signature_of env cfg u g req = Inr (SignatureValid user) \<longleftrightarrow> u = user \<and> (\<exists>amount maximum message.
      big_int (ar_amount req) = Inr amount \<and> big_int (Some (rl_maxAmount cfg)) = Inr maximum \<and> amount \<le> maximum
      \<and> constructApprovalMessage req = Inr message \<and> re_verify env ''ed25519'' (re_base64 env u) (re_base64 env g) message = Inr True)" for u g
    by (auto simp: signature_of_def verifyEd25519Signature_def split: sum.splits if_splits)
  have given: "truthy_str x = Some t \<longleftrightarrow> x = Some t \<and> t \<noteq> []" for x t
    by (auto simp: truthy_str_def split: option.splits list.splits)
  have steps: "verifySignature env cfg req now = SignatureValid user \<longleftrightarrow> (\<exists>u g n. truthy_str (ar_userPublicKey req) = Some u \<and> truthy_str (ar_signature req) = Some g
      \<and> truthy_str (ar_nonce req) = Some n \<and> (case ar_expiry req of Some t \<Rightarrow> now \<le> t | None \<Rightarrow> True) \<and> \<not> spender_refused cfg req
      \<and> signature_of env cfg u g req = Inr (SignatureValid user))"
  proof (cases "truthy_str (ar_userPublicKey req)"; cases "truthy_str (ar_signature req)"; cases "truthy_str (ar_nonce req)")
    fix u g n
    assume given: "truthy_str (ar_userPublicKey req) = Some u" "truthy_str (ar_signature req) = Some g" "truthy_str (ar_nonce req) = Some n"
    have "(case signature_of env cfg u g req of Inr v \<Rightarrow> v | Inl e \<Rightarrow> SignatureInvalid (error_or e ''Verification failed'')) = SignatureValid user
        \<longleftrightarrow> signature_of env cfg u g req = Inr (SignatureValid user)"
      by (simp split: sum.split)
    moreover have "(case ar_expiry req of Some t \<Rightarrow> t < now | None \<Rightarrow> False) \<longleftrightarrow> \<not> (case ar_expiry req of Some t \<Rightarrow> now \<le> t | None \<Rightarrow> True)"
      by (auto split: option.split)
    ultimately show ?thesis by (simp add: verifySignature_def given)
  qed (simp_all add: verifySignature_def)
  have live: "(case ar_expiry req of Some t \<Rightarrow> now \<le> t | None \<Rightarrow> True) \<longleftrightarrow> (\<exists>t. ar_expiry req = Some t \<and> now \<le> t)"
    if "constructApprovalMessage req = Inr message" for message
    using that by (auto simp: constructApprovalMessage_def split: option.splits)
  show ?thesis
  proof
    assume "verifySignature env cfg req now = SignatureValid user"
    then obtain u g n where valid: "truthy_str (ar_userPublicKey req) = Some u" "truthy_str (ar_signature req) = Some g" "truthy_str (ar_nonce req) = Some n"
        "case ar_expiry req of Some t \<Rightarrow> now \<le> t | None \<Rightarrow> True" "\<not> spender_refused cfg req" "signature_of env cfg u g req = Inr (SignatureValid user)"
      unfolding steps by blast
    from valid(6) obtain amount maximum message where signed: "u = user" "big_int (ar_amount req) = Inr amount" "big_int (Some (rl_maxAmount cfg)) = Inr maximum"
        "amount \<le> maximum" "constructApprovalMessage req = Inr message" "re_verify env ''ed25519'' (re_base64 env u) (re_base64 env g) message = Inr True"
      unfolding sig by blast
    obtain t where "ar_expiry req = Some t" "now \<le> t" using valid(4) live [OF signed(5)] by blast
    then show "\<exists>signature nonce expiry amount maximum message.
        ar_userPublicKey req = Some user \<and> user \<noteq> [] \<and> ar_signature req = Some signature \<and> signature \<noteq> [] \<and> ar_nonce req = Some nonce \<and> nonce \<noteq> []
        \<and> ar_expiry req = Some expiry \<and> now \<le> expiry \<and> \<not> spender_refused cfg req
        \<and> big_int (ar_amount req) = Inr amount \<and> big_int (Some (rl_maxAmount cfg)) = Inr maximum \<and> amount \<le> maximum
        \<and> constructApprovalMessage req = Inr message \<and> re_verify env ''ed25519'' (re_base64 env user) (re_base64 env signature) message = Inr True"
      using valid signed unfolding given by blast
  qed (auto simp: steps sig given)
qed

text \<open>C24. An approval is verified exactly when its members are there, it has not expired, its spender is allowed, its amount is an integer up to the maximum
  and Node's \<open>verify\<close> answers true when it is given the public key of the user as the data, the signature as the key and the text of the members as the
  signature. That is not the check the code means to make: Node reads a key from PEM text, and throws otherwise. So a signature that decodes to anything but PEM text,
  as every Ed25519 signature does, is refused, be it genuine or not, and the request that carries it is answered with a failure and changes nothing; when its other
  members are in order the failure is \<open>Invalid signature\<close>.
\<close>
theorem approval_verified_iff:
  assumes node: "\<And>data key g. \<not> js_includes key ''-----BEGIN'' \<Longrightarrow> \<exists>e. re_verify env ''ed25519'' data key g = Inl e"
  shows "(verifySignature env cfg req now = SignatureValid user \<longleftrightarrow>
     (\<exists>signature nonce expiry amount maximum message.
        ar_userPublicKey req = Some user \<and> user \<noteq> [] \<and> ar_signature req = Some signature \<and> signature \<noteq> [] \<and> ar_nonce req = Some nonce \<and> nonce \<noteq> []
        \<and> ar_expiry req = Some expiry \<and> now \<le> expiry \<and> \<not> spender_refused cfg req
        \<and> big_int (ar_amount req) = Inr amount \<and> big_int (Some (rl_maxAmount cfg)) = Inr maximum \<and> amount \<le> maximum
        \<and> constructApprovalMessage req = Inr message
        \<and> re_verify env ''ed25519'' (re_base64 env user) (re_base64 env signature) message = Inr True))
   \<and> (\<forall>g. ar_signature req = Some g \<and> \<not> js_includes (re_base64 env g) ''-----BEGIN'' \<longrightarrow>
        verifySignature env cfg req now \<noteq> SignatureValid user \<and> (\<exists>e. processApprovalRequest env cfg req s = (Inr (RelayFailed e), s))
        \<and> (\<forall>u nonce expiry amount maximum. ar_userPublicKey req = Some u \<and> u \<noteq> [] \<and> g \<noteq> [] \<and> ar_nonce req = Some nonce \<and> nonce \<noteq> []
             \<and> ar_expiry req = Some expiry \<and> now \<le> expiry \<and> \<not> spender_refused cfg req
             \<and> big_int (ar_amount req) = Inr amount \<and> big_int (Some (rl_maxAmount cfg)) = Inr maximum \<and> amount \<le> maximum
             \<longrightarrow> verifySignature env cfg req now = SignatureInvalid ''Invalid signature''))"
proof (intro conjI allI impI)
  show "verifySignature env cfg req now = SignatureValid user \<longleftrightarrow>
     (\<exists>signature nonce expiry amount maximum message.
        ar_userPublicKey req = Some user \<and> user \<noteq> [] \<and> ar_signature req = Some signature \<and> signature \<noteq> [] \<and> ar_nonce req = Some nonce \<and> nonce \<noteq> []
        \<and> ar_expiry req = Some expiry \<and> now \<le> expiry \<and> \<not> spender_refused cfg req
        \<and> big_int (ar_amount req) = Inr amount \<and> big_int (Some (rl_maxAmount cfg)) = Inr maximum \<and> amount \<le> maximum
        \<and> constructApprovalMessage req = Inr message
        \<and> re_verify env ''ed25519'' (re_base64 env user) (re_base64 env signature) message = Inr True)"
    by (rule verified_iff)
next
  fix g assume g: "ar_signature req = Some g \<and> \<not> js_includes (re_base64 env g) ''-----BEGIN''"
  then have throws: "\<exists>e. re_verify env ''ed25519'' data (re_base64 env g) m = Inl e" for data m using node by blast
  have no: "verifySignature env cfg req t \<noteq> SignatureValid u" for t u
  proof
    assume "verifySignature env cfg req t = SignatureValid u"
    then obtain m where "re_verify env ''ed25519'' (re_base64 env u) (re_base64 env g) m = Inr True" unfolding verified_iff using g by auto
    then show False using throws [of "re_base64 env u" m] by simp
  qed
  show "verifySignature env cfg req now \<noteq> SignatureValid user" by (rule no)
  show "\<exists>e. processApprovalRequest env cfg req s = (Inr (RelayFailed e), s)"
    using no [of "re_now env s"] by (cases "verifySignature env cfg req (re_now env s)") (auto simp: processApprovalRequest_def eff_defs)
  fix u nonce expiry amount maximum
  assume rest: "ar_userPublicKey req = Some u \<and> u \<noteq> [] \<and> g \<noteq> [] \<and> ar_nonce req = Some nonce \<and> nonce \<noteq> []
     \<and> ar_expiry req = Some expiry \<and> now \<le> expiry \<and> \<not> spender_refused cfg req
     \<and> big_int (ar_amount req) = Inr amount \<and> big_int (Some (rl_maxAmount cfg)) = Inr maximum \<and> amount \<le> maximum"
  have given: "truthy_str (Some t) = Some t" if "t \<noteq> []" for t using that by (cases t) (simp_all add: truthy_str_def)
  obtain m where "constructApprovalMessage req = Inr m" using rest by (auto simp: constructApprovalMessage_def Let_def)
  moreover have "\<not> verifyEd25519Signature env m (re_base64 env g) (re_base64 env u)"
    using throws [of "re_base64 env u" m] by (auto simp: verifyEd25519Signature_def)
  ultimately have "signature_of env cfg u g req = Inr (SignatureInvalid ''Invalid signature'')" using rest by (simp add: signature_of_def)
  then show "verifySignature env cfg req now = SignatureInvalid ''Invalid signature''" using rest g by (simp add: verifySignature_def given)
qed

text \<open>Nothing remembers a nonce: an approval that was accepted once is built and submitted again whenever it arrives before its expiry.\<close>
theorem approval_replayable:
  assumes "verifySignature env cfg req now = SignatureValid user" "ar_expiry req = Some expiry" "re_now env s \<le> expiry"
  shows "processApprovalRequest env cfg req s
    = ebind (buildApprovalTransaction env cfg req None) (\<lambda>t. submitSignedTransaction env cfg (at_xdr t) (at_passphrase t)) s"
proof -
  have "verifySignature env cfg req (re_now env s) = SignatureValid user"
    using assms by (auto simp: verifySignature_def split: option.splits if_splits sum.splits)
  then show ?thesis by (simp add: processApprovalRequest_def ebind_def eget_def)
qed

text \<open>What is signed for an approval depends on its user and asset alone: it authorizes the trust line, for any amount, any spender and any expiry.\<close>
theorem approval_ignores_terms:
  "buildApprovalTransaction env cfg (req\<lparr>ar_spenderPublicKey := p, ar_amount := a, ar_nonce := n, ar_expiry := x, ar_signature := g\<rparr>) fee
     = buildApprovalTransaction env cfg req fee"
  by (simp add: buildApprovalTransaction_def)

text \<open>The relaying of a transaction always ends with an answer, and it is success only with a hash that Horizon gave.\<close>
theorem relayed_means_accepted:
  "\<exists>r s'. submitSignedTransaction env cfg xdr passphrase s = (Inr r, s')
     \<and> (case r of Relayed hash \<Rightarrow> \<exists>tx s1. re_submit env tx s1 = (Inr hash, s') | RelayFailed _ \<Rightarrow> True)"
proof -
  define accepted where "accepted = (\<lambda>r s'. case r of Relayed hash \<Rightarrow> \<exists>tx s1. re_submit env tx s1 = (Inr hash, s') | RelayFailed _ \<Rightarrow> True)"
  have bump: "\<exists>b s2. submitFeeBump env cfg x p f s1 = (Inr b, s2)
      \<and> (case b of Bumped _ hash _ \<Rightarrow> \<exists>tx s3. re_submit env tx s3 = (Inr hash, s2) | BumpFailed _ \<Rightarrow> True)" for x p f s1
    by (auto simp: submitFeeBump_def eff_defs split: prod.splits sum.splits)
  have handler: "\<exists>r s'. (if is_fee_error e
      then ebind (submitFeeBump env cfg xdr (Some passphrase) None) (\<lambda>r. case r of
             Bumped _ hash _ \<Rightarrow> ereturn (if hash \<noteq> [] then Relayed hash else RelayFailed m) | BumpFailed _ \<Rightarrow> ereturn (RelayFailed m))
      else ereturn (RelayFailed m)) s1 = (Inr r, s') \<and> accepted r s'" for e m s1
  proof -
    obtain b s2 where "submitFeeBump env cfg xdr (Some passphrase) None s1 = (Inr b, s2)"
        "case b of Bumped _ hash _ \<Rightarrow> \<exists>tx s3. re_submit env tx s3 = (Inr hash, s2) | BumpFailed _ \<Rightarrow> True"
      using bump by blast
    then show ?thesis by (cases b) (simp_all add: accepted_def ebind_def ereturn_def)
  qed
  have "\<exists>r s'. submitSignedTransaction env cfg xdr passphrase s = (Inr r, s') \<and> accepted r s'"
  proof (cases "re_fromXdr env xdr passphrase")
    case (Inl e)
    then show ?thesis using handler [of e "error_or e ''Submission failed''" s]
      by (simp add: submitSignedTransaction_def ecatch_def ebind_def [of "elift _"] elift_def Let_def)
  next
    case (Inr tx)
    show ?thesis
    proof (cases "re_submit env tx s")
      case (Pair r s1)
      then show ?thesis using Inr handler [of _ "error_or _ ''Submission failed''" s1]
        by (cases r) (auto simp: submitSignedTransaction_def ecatch_def ebind_def [of "elift _"] ebind_def [of "re_submit _ _"] elift_def ereturn_def Let_def accepted_def)
    qed
  qed
  then show ?thesis by (simp add: accepted_def)
qed

text \<open>The members are joined without quoting: one signature stands for approvals of two amounts to two spenders.\<close>
theorem one_signature_two_approvals:
  assumes "b \<noteq> []" "i \<noteq> []" "n \<noteq> []"
  shows "constructApprovalMessage \<lparr>ar_userPublicKey = Some user, ar_spenderPublicKey = Some spender, ar_amount = Some a, ar_assetCode = Some b, ar_assetIssuer = Some i,
       ar_nonce = Some (n @ ''|'' @ m), ar_expiry = Some t, ar_signature = g\<rparr>
   = constructApprovalMessage \<lparr>ar_userPublicKey = Some user, ar_spenderPublicKey = Some (spender @ ''|'' @ a), ar_amount = Some b, ar_assetCode = Some i, ar_assetIssuer = Some n,
       ar_nonce = Some m, ar_expiry = Some t, ar_signature = g\<rparr>"
  using assms by (cases b; cases i; cases n) (simp_all add: constructApprovalMessage_def truthy_str_def Let_def)

lemma empty_spender_list_refuses:
  assumes "var ''RELAYER_ALLOWED_SPENDERS'' = Some ''''" "ar_spenderPublicKey req = Some s" "s \<noteq> []"
  shows "spender_refused (relayer_from_env var) req"
  using assms by (simp add: spender_refused_def relayer_from_env_def Let_def)

section \<open>Concrete inputs\<close>

definition demo_relayer :: relayer_config where
  "demo_relayer = \<lparr>rl_publicKey = ''G1'', rl_secretKey = ''S1'', rl_maxAmount = ''1000'', rl_allowedSpenders = [], rl_expiryWindow = Fin 3600, rl_baseFee = Fin 100,
     rl_surgeMultiplier = Fin 2, rl_maxFeeCap = Fin 10000, rl_dynamicFees = True\<rparr>"

text \<open>A network that accepts everything, with a verification that compares the two arguments the code hands over as key and signature.\<close>

definition demo_relay_env :: "(int, unit, string) relayer_env" where
  "demo_relay_env = \<lparr>re_now = (\<lambda>w. w), re_uuid = (\<lambda>w. (''n'', w)),
     re_feeStats = (\<lambda>w. (Inr \<lparr>fs_min = Some ''100'', fs_mode = None, fs_p90 = Some ''900000'', fs_max = None, fs_min_accepted = None, fs_usage = None\<rparr>, w)),
     re_loadAccount = (\<lambda>_ w. (Inr (), w)), re_submit = (\<lambda>tx w. (Inr tx, w)), re_passphrase = ''Test'', re_base64 = (\<lambda>t. t),
     re_verify = (\<lambda>_ _ key g. Inr (key = g)), re_asset = (\<lambda>c i. Inr c), re_keypair = (\<lambda>k. Inr ''G1''), re_allowTrust = (\<lambda>a f p u c k. Inr (''trust '' @ c)),
     re_feeBump = (\<lambda>k f tx p. Inr (''bump '' @ tx)), re_sign = (\<lambda>k tx. tx), re_toXdr = (\<lambda>tx. tx), re_fromXdr = (\<lambda>x p. Inr x),
     re_signatures = (\<lambda>tx. 1), re_fee = (\<lambda>tx. ''100'')\<rparr>"

definition demo_approval :: approval_request where
  "demo_approval = \<lparr>ar_userPublicKey = Some ''U'', ar_spenderPublicKey = Some ''P'', ar_amount = Some ''5'', ar_assetCode = None, ar_assetIssuer = None,
     ar_nonce = Some ''n'', ar_expiry = Some 90, ar_signature = Some ''approve|U|P|5|XLM|native|n|90''\<rparr>"

text \<open>A transaction with its number of operations and its fee; bumps are priced the way the SDK prices them.\<close>

definition demo_fee_env :: "(int, unit, nat \<times> rat) relayer_env" where
  "demo_fee_env = \<lparr>re_now = (\<lambda>w. w), re_uuid = (\<lambda>w. (''n'', w)),
     re_feeStats = (\<lambda>w. (Inr \<lparr>fs_min = Some ''100'', fs_mode = None, fs_p90 = Some ''900000'', fs_max = None, fs_min_accepted = None, fs_usage = None\<rparr>, w)),
     re_loadAccount = (\<lambda>_ w. (Inr (), w)), re_submit = (\<lambda>tx w. (Inr ''hash'', w)), re_passphrase = ''Test'', re_base64 = (\<lambda>t. t),
     re_verify = (\<lambda>_ _ key g. Inr (key = g)), re_asset = (\<lambda>c i. Inr c), re_keypair = (\<lambda>k. Inr ''G1''),
     re_allowTrust = (\<lambda>a f p u c k. case f of Fin x \<Rightarrow> Inr (1, x) | _ \<Rightarrow> Inl (PlainError ''fee'')),
     re_feeBump = (\<lambda>k f tx p. case f of Fin x \<Rightarrow> Inr (fst tx, x * (of_nat (fst tx) + 1)) | _ \<Rightarrow> Inl (PlainError ''fee'')),
     re_sign = (\<lambda>k tx. tx), re_toXdr = (\<lambda>tx. ''xdr''), re_fromXdr = (\<lambda>x p. Inr (1, 100)), re_signatures = (\<lambda>tx. 1), re_fee = (\<lambda>tx. ''100'')\<rparr>"

text \<open>With a maximum of 10000 the bump of one operation costs 20000.\<close>
theorem relayer_fees_capped_witness:
  "buildFeeBumpTransaction demo_fee_env demo_relayer ''tx'' None None 0 = (Inr (1, 20000), 0)
   \<and> (\<exists>inner x. snd (1 :: nat, 20000 :: rat) = x * (of_nat (fst (inner :: nat \<times> rat)) + 1) \<and> x \<le> 10000)"
proof -
  have built: "buildFeeBumpTransaction demo_fee_env demo_relayer ''tx'' None None 0 = (Inr (1, 20000), 0)" by code_simp
  have "\<exists>inner e x unsigned. re_fromXdr demo_fee_env ''tx'' (passphrase_or demo_fee_env None) = Inr inner
    \<and> getFeeEstimate demo_fee_env demo_relayer (Some (Fin (3 / 2))) 0 = (Inr e, 0) \<and> \<not> js_less (Fin 10000) (es_recommendedFee e)
    \<and> (let wanted = math_max (es_recommendedFee e) (js_mul (number_or (parseInt10 (re_fee demo_fee_env inner)) (Fin 100)) (Fin 2))
        in Fin x = (if js_less (Fin 10000) wanted then Fin 10000 else wanted))
    \<and> re_feeBump demo_fee_env (rl_secretKey demo_relayer) (Fin x) inner (passphrase_or demo_fee_env None) = Inr unsigned
    \<and> (1, 20000) = re_sign demo_fee_env (rl_secretKey demo_relayer) unsigned
    \<and> x \<le> 10000 \<and> snd (1 :: nat, 20000 :: rat) = x * (of_nat (fst inner) + 1) \<and> snd (1 :: nat, 20000 :: rat) \<le> 10000 * (of_nat (fst inner) + 1)"
    by (rule relayer_fees_capped [OF _ _ _ _ built, where charged = snd and operations = fst])
       (auto simp: demo_relayer_def demo_fee_env_def split: jsnum.splits)
  then show ?thesis using built by blast
qed

theorem bump_caller_names_fee_witness:
  "buildFeeBumpTransaction demo_relay_env demo_relayer ''tx'' (Some (Fin 20000)) None 0 = (Inr ''bump tx'', 0) \<and> js_less (rl_maxFeeCap demo_relayer) (Fin 20000)"
  using bump_caller_names_fee [of "Fin 20000" demo_relay_env "''tx''" None "''tx''" demo_relayer "''bump tx''" 0]
  by (simp add: demo_relay_env_def demo_relayer_def)

theorem approval_replayable_witness:
  "processApprovalRequest demo_relay_env demo_relayer demo_approval 80
     = ebind (buildApprovalTransaction demo_relay_env demo_relayer demo_approval None)
         (\<lambda>t. submitSignedTransaction demo_relay_env demo_relayer (at_xdr t) (at_passphrase t)) 80
   \<and> fst (processApprovalRequest demo_relay_env demo_relayer demo_approval 10) = Inr (Relayed ''trust XLM'')"
proof -
  have "verifySignature demo_relay_env demo_relayer demo_approval 10 = SignatureValid ''U''" by code_simp
  moreover have "fst (processApprovalRequest demo_relay_env demo_relayer demo_approval 10) = Inr (Relayed ''trust XLM'')" by code_simp
  ultimately show ?thesis
    using approval_replayable [of demo_relay_env demo_relayer demo_approval 10 "''U''" 90 80] by (simp add: demo_approval_def demo_relay_env_def)
qed

text \<open>The same network, with a verification that throws unless its key is PEM text.\<close>

definition demo_node_env :: "(int, unit, string) relayer_env" where
  "demo_node_env = demo_relay_env\<lparr>re_verify := (\<lambda>a data key g.
     if js_includes key ''-----BEGIN'' then Inr (data = g) else Inl (PlainError ''unsupported key''))\<rparr>"

theorem approval_verified_iff_witness:
  "verifySignature demo_node_env demo_relayer demo_approval 80 = SignatureInvalid ''Invalid signature''
   \<and> fst (processApprovalRequest demo_node_env demo_relayer demo_approval 80) = Inr (RelayFailed ''Invalid signature'')"
proof -
  have node: "\<exists>e. re_verify demo_node_env ''ed25519'' data key g = Inl e" if "\<not> js_includes key ''-----BEGIN''" for data key g
    using that by (simp add: demo_node_env_def)
  have "ar_signature demo_approval = Some ''approve|U|P|5|XLM|native|n|90''" "\<not> js_includes (re_base64 demo_node_env ''approve|U|P|5|XLM|native|n|90'') ''-----BEGIN''"
    by code_simp+
  moreover have "ar_userPublicKey demo_approval = Some ''U''" "ar_nonce demo_approval = Some ''n''" "ar_expiry demo_approval = Some 90"
    "\<not> spender_refused demo_relayer demo_approval" "big_int (ar_amount demo_approval) = Inr 5" "big_int (Some (rl_maxAmount demo_relayer)) = Inr 1000"
    by code_simp+
  ultimately have "verifySignature demo_node_env demo_relayer demo_approval 80 = SignatureInvalid ''Invalid signature''"
    using approval_verified_iff [OF node, of demo_relayer demo_approval 80 "''U''" 80] by simp
  moreover have "fst (processApprovalRequest demo_node_env demo_relayer demo_approval 80) = Inr (RelayFailed ''Invalid signature'')" by code_simp
  ultimately show ?thesis by simp
qed

theorem one_signature_two_approvals_witness:
  "constructApprovalMessage \<lparr>ar_userPublicKey = Some ''U'', ar_spenderPublicKey = Some ''P'', ar_amount = Some ''5'', ar_assetCode = Some ''700'', ar_assetIssuer = Some ''USD'',
       ar_nonce = Some ''GI|n'', ar_expiry = Some 90, ar_signature = Some g\<rparr>
   = constructApprovalMessage \<lparr>ar_userPublicKey = Some ''U'', ar_spenderPublicKey = Some ''P|5'', ar_amount = Some ''700'', ar_assetCode = Some ''USD'', ar_assetIssuer = Some ''GI'',
       ar_nonce = Some ''n'', ar_expiry = Some 90, ar_signature = Some g\<rparr>"
  using one_signature_two_approvals [of "''700''" "''USD''" "''GI''" "''U''" "''P''" "''5''" "''n''" 90 "Some g"] by simp

end
