(* ===== verification/Notifications.thy ===== *)
theory Notifications
  imports Batch_Types
begin

text \<open>
  Notifications of users: \<open>services/notification.service.ts\<close>, the providers of \<open>lib/notifications/providers.ts\<close>, \<open>lib/smtp.service.ts\<close> and
  \<open>api/routes/notifications.route.ts\<close> of \<open>backend/src\<close>. The tables of users, preferences and notifications are the state; the database may fail at
  any call. The mail, SMS and push services are parameters. What a request needs to reach the handlers is in \<open>Auth_Controller\<close>.
\<close>

section \<open>Tables\<close>

datatype channel = EMAIL | SMS | PUSH

datatype note_status = NotePending | NoteSent | NoteFailed

record notified_user =
  nu_publicKey :: string
  nu_email :: "string option"
  nu_phone :: "string option"

record note_preference =
  np_email :: bool
  np_sms :: bool
  np_push :: bool

record notice =
  nt_userId :: string
  nt_transactionId :: "string option"
  nt_type :: channel
  nt_status :: note_status
  nt_message :: string
  nt_createdAt :: int

text \<open>Users and notifications by their id, preferences by the id of the user.\<close>

record 'w note_tables =
  nb_users :: "(string, notified_user) jsmap"
  nb_prefs :: "(string, note_preference) jsmap"
  nb_notes :: "(string, notice) jsmap"
  nb_world :: 'w

record 'w note_env =
  ne_db :: "('w, js_error, unit) eff"
  ne_uuid :: "'w \<Rightarrow> string \<times> 'w"
  ne_now :: "'w \<Rightarrow> int"
  ne_var :: "string \<Rightarrow> string option"
  ne_smtp :: bool
  ne_mail :: "string \<Rightarrow> string \<Rightarrow> ('w, js_error, unit) eff"
  ne_sendgrid :: "string \<Rightarrow> string \<Rightarrow> ('w, js_error, unit) eff"
  ne_twilio :: "string \<Rightarrow> string \<Rightarrow> ('w, js_error, int) eff"
  ne_fcm :: "string \<Rightarrow> string \<Rightarrow> ('w, js_error, int) eff"

type_synonym ('w, 'a) noting = "('w note_tables, js_error, 'a) eff"

definition on_world :: "('w, js_error, 'a) eff \<Rightarrow> ('w, 'a) noting" where
  "on_world m s = (case m (nb_world s) of (r, w) \<Rightarrow> (r, s\<lparr>nb_world := w\<rparr>))"

text \<open>A call of the database, which fails before it does anything.\<close>

definition table_call :: "'w note_env \<Rightarrow> ('w note_tables \<Rightarrow> 'w note_tables) \<Rightarrow> ('w, unit) noting" where
  "table_call env f = ebind (on_world (ne_db env)) (\<lambda>_. emodify f)"

section \<open>Providers\<close>

datatype provider = SendGridEmail | SmtpEmail | ConsoleEmail | TwilioSms | ConsoleSms | FcmPush | ConsolePush

definition env_set :: "'w note_env \<Rightarrow> string \<Rightarrow> bool" where
  "env_set env k \<longleftrightarrow> truthy_str (ne_var env k) \<noteq> None"

definition sendgrid_configured :: "'w note_env \<Rightarrow> bool" where
  "sendgrid_configured env \<longleftrightarrow> env_set env ''SENDGRID_API_KEY'' \<and> (env_set env ''SENDGRID_FROM'' \<or> env_set env ''SMTP_FROM'')"

definition twilio_configured :: "'w note_env \<Rightarrow> bool" where
  "twilio_configured env \<longleftrightarrow> env_set env ''TWILIO_ACCOUNT_SID'' \<and> env_set env ''TWILIO_AUTH_TOKEN'' \<and> env_set env ''TWILIO_FROM_NUMBER''"

fun provider_for :: "'w note_env \<Rightarrow> channel \<Rightarrow> provider" where
  "provider_for env EMAIL = (if sendgrid_configured env then SendGridEmail else if ne_smtp env then SmtpEmail else ConsoleEmail)"
| "provider_for env SMS = (if twilio_configured env then TwilioSms else ConsoleSms)"
| "provider_for env PUSH = (if env_set env ''FCM_SERVER_KEY'' then FcmPush else ConsolePush)"

definition sendMail :: "'w note_env \<Rightarrow> string \<Rightarrow> string \<Rightarrow> ('w, js_error, bool) eff" where
  "sendMail env to message = (if ne_smtp env then ebind (ne_mail env to message) (\<lambda>_. ereturn True) else ereturn False)"

definition answered_false :: "('w, js_error, bool) eff \<Rightarrow> ('w, js_error, bool) eff" where
  "answered_false m = ecatch m (\<lambda>_. ereturn False)"

fun provider_send :: "'w note_env \<Rightarrow> provider \<Rightarrow> string \<Rightarrow> string \<Rightarrow> ('w, js_error, bool) eff" where
  "provider_send env SendGridEmail to message = answered_false (ebind (ne_sendgrid env to message) (\<lambda>_. ereturn True))"
| "provider_send env SmtpEmail to message = sendMail env to message"
| "provider_send env ConsoleEmail to message = ereturn True"
| "provider_send env TwilioSms to message =
     (if twilio_configured env then answered_false (ebind (ne_twilio env to message) (\<lambda>code. ereturn (200 \<le> code \<and> code < 300))) else ereturn False)"
| "provider_send env ConsoleSms to message = ereturn True"
| "provider_send env FcmPush to message =
     (if env_set env ''FCM_SERVER_KEY'' then answered_false (ebind (ne_fcm env to message) (\<lambda>code. ereturn (code = 200))) else ereturn False)"
| "provider_send env ConsolePush to message = ereturn True"

definition sendNotification :: "'w note_env \<Rightarrow> channel \<Rightarrow> string \<Rightarrow> string \<Rightarrow> ('w, js_error, bool) eff" where
  "sendNotification env c recipient message = provider_send env (provider_for env c) recipient message"

section \<open>The service\<close>

type_synonym providers = "(channel, provider) jsmap"

definition registerProvider :: "channel \<Rightarrow> provider \<Rightarrow> providers \<Rightarrow> providers" where
  "registerProvider c p ps = js_set c p ps"

text \<open>What the program registers when it starts.\<close>

definition startup_providers :: "'w note_env \<Rightarrow> providers" where
  "startup_providers env = foldl (\<lambda>ps c. registerProvider c (provider_for env c) ps) [] [EMAIL, SMS, PUSH]"

definition destination :: "channel \<Rightarrow> notified_user \<Rightarrow> string option" where
  "destination c u = (case c of EMAIL \<Rightarrow> nu_email u | SMS \<Rightarrow> nu_phone u | PUSH \<Rightarrow> Some ''push_token_placeholder'')"

definition set_status :: "'w note_env \<Rightarrow> string \<Rightarrow> note_status \<Rightarrow> ('w, unit) noting" where
  "set_status env i st = table_call env (\<lambda>s. s\<lparr>nb_notes := List.map (\<lambda>(j, n). (j, if j = i then n\<lparr>nt_status := st\<rparr> else n)) (nb_notes s)\<rparr>)"

definition create_note :: "'w note_env \<Rightarrow> notice \<Rightarrow> ('w, string) noting" where
  "create_note env n = ebind (on_world (\<lambda>w. case ne_uuid env w of (i, w') \<Rightarrow> (Inr i, w'))) (\<lambda>i.
     ebind (eget (\<lambda>s. ne_now env (nb_world s))) (\<lambda>now.
     ebind (table_call env (\<lambda>s. s\<lparr>nb_notes := nb_notes s @ [(i, n\<lparr>nt_createdAt := now\<rparr>)]\<rparr>)) (\<lambda>_. ereturn i)))"

definition sendThroughProvider ::
  "'w note_env \<Rightarrow> providers \<Rightarrow> string \<Rightarrow> notified_user \<Rightarrow> string \<Rightarrow> string option \<Rightarrow> channel \<Rightarrow> ('w, unit) noting" where
  "sendThroughProvider env ps userId user message transactionId c = (case js_get ps c of
     None \<Rightarrow> ereturn ()
   | Some p \<Rightarrow>
       ebind (create_note env \<lparr>nt_userId = userId, nt_transactionId = truthy_str transactionId, nt_type = c, nt_status = NotePending,
         nt_message = message, nt_createdAt = 0\<rparr>) (\<lambda>i.
       case truthy_str (destination c user) of
         None \<Rightarrow> set_status env i NoteFailed
       | Some to \<Rightarrow>
           ecatch (ebind (on_world (provider_send env p to message)) (\<lambda>ok. set_status env i (if ok then NoteSent else NoteFailed)))
             (\<lambda>_. set_status env i NoteFailed)))"

definition default_preference :: note_preference where
  "default_preference = \<lparr>np_email = True, np_sms = False, np_push = False\<rparr>"

definition enabled_channels :: "note_preference \<Rightarrow> notified_user \<Rightarrow> channel list" where
  "enabled_channels prefs user =
     (if np_email prefs \<and> truthy_str (nu_email user) \<noteq> None then [EMAIL] else [])
     @ (if np_sms prefs \<and> truthy_str (nu_phone user) \<noteq> None then [SMS] else []) @ (if np_push prefs then [PUSH] else [])"

definition preference_of :: "string \<Rightarrow> 'w note_tables \<Rightarrow> note_preference" where
  "preference_of userId s = (case js_get (nb_prefs s) userId of Some p \<Rightarrow> p | None \<Rightarrow> default_preference)"

definition notify :: "'w note_env \<Rightarrow> providers \<Rightarrow> string \<Rightarrow> string \<Rightarrow> string option \<Rightarrow> ('w, unit) noting" where
  "notify env ps userId message transactionId =
     ecatch (ebind (on_world (ne_db env)) (\<lambda>_. ebind (eget (\<lambda>s. (js_get (nb_users s) userId, preference_of userId s))) (\<lambda>(found, prefs).
       case found of
         None \<Rightarrow> ereturn ()
       | Some user \<Rightarrow> ebind (promise_all (List.map (sendThroughProvider env ps userId user message transactionId) (enabled_channels prefs user)))
           (\<lambda>_. ereturn ()))))
       (\<lambda>_. ereturn ())"

section \<open>Endpoints\<close>

datatype notes_reply =
    PreferenceReply bool bool bool "string option"
  | NotesDone string
  | NotesReply "(string \<times> notice) list"
  | NotesError int string

definition user_by_key :: "string \<Rightarrow> 'w note_tables \<Rightarrow> (string \<times> notified_user) option" where
  "user_by_key publicKey s = List.find (\<lambda>(_, u). nu_publicKey u = publicKey) (nb_users s)"

text \<open>A handler for the user of the session; any exception is a 500 with its message.\<close>

definition for_account :: "'w note_env \<Rightarrow> string \<Rightarrow> string \<Rightarrow> (string \<Rightarrow> notified_user \<Rightarrow> ('w, notes_reply) noting) \<Rightarrow> ('w, notes_reply) noting" where
  "for_account env publicKey failure handler =
     ecatch (ebind (on_world (ne_db env)) (\<lambda>_. ebind (eget (user_by_key publicKey)) (\<lambda>found. case found of
         None \<Rightarrow> ereturn (NotesError 404 ''User not found'') | Some (i, u) \<Rightarrow> handler i u)))
       (\<lambda>_. ereturn (NotesError 500 failure))"

definition get_preferences :: "'w note_env \<Rightarrow> string \<Rightarrow> ('w, notes_reply) noting" where
  "get_preferences env publicKey = for_account env publicKey ''Failed to fetch preferences'' (\<lambda>i u.
     ebind (eget (preference_of i)) (\<lambda>p. ereturn (PreferenceReply (np_email p) (np_sms p) (np_push p) (nu_phone u))))"

record preference_body =
  pb_email :: "bool option"
  pb_sms :: "bool option"
  pb_push :: "bool option"
  pb_phone :: "string option"

definition given_or :: "'a option \<Rightarrow> 'a \<Rightarrow> 'a" where
  "given_or x d = (case x of Some y \<Rightarrow> y | None \<Rightarrow> d)"

text \<open>The upsert: members that are left out keep their value, or get their default in a new row.\<close>

definition patched_preference :: "preference_body \<Rightarrow> note_preference option \<Rightarrow> note_preference" where
  "patched_preference b old = (let p = given_or old default_preference in
     \<lparr>np_email = given_or (pb_email b) (np_email p), np_sms = given_or (pb_sms b) (np_sms p), np_push = given_or (pb_push b) (np_push p)\<rparr>)"

definition patch_preferences :: "'w note_env \<Rightarrow> string \<Rightarrow> preference_body \<Rightarrow> ('w, notes_reply) noting" where
  "patch_preferences env publicKey b = for_account env publicKey ''Failed to update preferences'' (\<lambda>i u.
     ebind (table_call env (\<lambda>s. s\<lparr>nb_prefs := js_set i (patched_preference b (js_get (nb_prefs s) i)) (nb_prefs s),
         nb_users := (case truthy_str (pb_phone b) of Some _ \<Rightarrow> js_set i (u\<lparr>nu_phone := pb_phone b\<rparr>) (nb_users s) | None \<Rightarrow> nb_users s)\<rparr>)) (\<lambda>_.
     ereturn (NotesDone ''Preferences updated'')))"

definition get_history :: "'w note_env \<Rightarrow> string \<Rightarrow> ('w, notes_reply) noting" where
  "get_history env publicKey = for_account env publicKey ''Failed to fetch history'' (\<lambda>i _.
     ebind (on_world (ne_db env)) (\<lambda>_. ebind (eget nb_notes) (\<lambda>notes.
     ereturn (NotesReply (take 50 (sort_key (\<lambda>(_, n). - nt_createdAt n) (filter (\<lambda>(_, n). nt_userId n = i) notes)))))))"

definition mark_read :: "string \<Rightarrow> string list \<Rightarrow> string \<times> notice \<Rightarrow> string \<times> notice" where
  "mark_read userId ids = (\<lambda>(i, n). (i, if nt_userId n = userId \<and> i \<in> set ids then n\<lparr>nt_status := NoteSent\<rparr> else n))"

definition patch_history :: "'w note_env \<Rightarrow> string \<Rightarrow> string list \<Rightarrow> ('w, notes_reply) noting" where
  "patch_history env publicKey ids = for_account env publicKey ''Failed to mark notifications as read'' (\<lambda>i _.
     ebind (table_call env (\<lambda>s. s\<lparr>nb_notes := List.map (mark_read i ids) (nb_notes s)\<rparr>)) (\<lambda>_.
     ereturn (NotesDone ''Notifications marked as read'')))"

text \<open>
  Properties of the notifications: what a call leaves in the tables, and what the endpoints change.
\<close>

section \<open>A database that answers\<close>

definition tables_up :: "'w note_env \<Rightarrow> bool" where
  "tables_up env \<longleftrightarrow> (\<forall>w. \<exists>w'. ne_db env w = (Inr (), w'))"

lemma db_up:
  assumes "tables_up env"
  shows "\<exists>w. on_world (ne_db env) s = (Inr (), s\<lparr>nb_world := w\<rparr>)"
proof -
  obtain w where "ne_db env (nb_world s) = (Inr (), w)" using assms unfolding tables_up_def by blast
  then show ?thesis by (intro exI [of _ w]) (simp add: on_world_def)
qed

lemma table_call_up: "tables_up env \<Longrightarrow> \<exists>w. table_call env f s = (Inr (), f (s\<lparr>nb_world := w\<rparr>))"
  using db_up [of env s] by (auto simp: table_call_def ebind_def emodify_def)

definition with_status :: "string \<Rightarrow> note_status \<Rightarrow> string \<times> notice \<Rightarrow> string \<times> notice" where
  "with_status i st = (\<lambda>(j, n). (j, if j = i then n\<lparr>nt_status := st\<rparr> else n))"

lemma set_status_up:
  assumes "tables_up env"
  shows "\<exists>w. set_status env i st s = (Inr (), s\<lparr>nb_notes := List.map (with_status i st) (nb_notes s), nb_world := w\<rparr>)"
proof -
  obtain w where "set_status env i st s = (Inr (), (\<lambda>s. s\<lparr>nb_notes := List.map (with_status i st) (nb_notes s)\<rparr>) (s\<lparr>nb_world := w\<rparr>))"
    using table_call_up [OF assms] unfolding set_status_def with_status_def by blast
  then show ?thesis by (intro exI [of _ w]) simp
qed

lemma create_note_up:
  assumes "tables_up env"
  shows "\<exists>i t w. create_note env n s = (Inr i, s\<lparr>nb_notes := nb_notes s @ [(i, n\<lparr>nt_createdAt := t\<rparr>)], nb_world := w\<rparr>)"
proof -
  obtain i w where u: "ne_uuid env (nb_world s) = (i, w)" by force
  let ?f = "\<lambda>s :: 'a note_tables. s\<lparr>nb_notes := nb_notes s @ [(i, n\<lparr>nt_createdAt := ne_now env w\<rparr>)]\<rparr>"
  obtain w' where "table_call env ?f (s\<lparr>nb_world := w\<rparr>) = (Inr (), ?f (s\<lparr>nb_world := w, nb_world := w'\<rparr>))"
    using table_call_up [OF assms, of ?f "s\<lparr>nb_world := w\<rparr>"] by blast
  then show ?thesis
    by (intro exI [of _ i] exI [of _ "ne_now env w"] exI [of _ w']) (simp add: create_note_def on_world_def u ebind_def eget_def ereturn_def)
qed

lemma on_world_cases: "\<exists>r w. on_world m s = (r, s\<lparr>nb_world := w\<rparr>)"
  by (cases "m (nb_world s)") (auto simp: on_world_def)

text \<open>One channel: a notification is appended, and all with its id get a final status.\<close>

lemma send_through_up:
  assumes "tables_up env" "js_get ps c = Some p"
  shows "\<exists>i t st w. st \<noteq> NotePending \<and> sendThroughProvider env ps u x m d c s = (Inr (), s\<lparr>nb_notes := List.map (with_status i st)
     (nb_notes s @ [(i, \<lparr>nt_userId = u, nt_transactionId = truthy_str d, nt_type = c, nt_status = NotePending, nt_message = m, nt_createdAt = t\<rparr>)]), nb_world := w\<rparr>)"
proof -
  let ?n = "\<lparr>nt_userId = u, nt_transactionId = truthy_str d, nt_type = c, nt_status = NotePending, nt_message = m, nt_createdAt = 0\<rparr>"
  obtain i t w1 where c: "create_note env ?n s = (Inr i, s\<lparr>nb_notes := nb_notes s @ [(i, ?n\<lparr>nt_createdAt := t\<rparr>)], nb_world := w1\<rparr>)"
    using create_note_up [OF assms(1)] by blast
  let ?s = "s\<lparr>nb_notes := nb_notes s @ [(i, ?n\<lparr>nt_createdAt := t\<rparr>)], nb_world := w1\<rparr>"
  let ?settle = "\<lambda>st w. ?s\<lparr>nb_notes := List.map (with_status i st) (nb_notes ?s), nb_world := w\<rparr>"
  have settled: "\<exists>st w. st \<noteq> NotePending \<and> (case truthy_str (destination c x) of
         None \<Rightarrow> set_status env i NoteFailed
       | Some to \<Rightarrow> ecatch (ebind (on_world (provider_send env p to m)) (\<lambda>ok. set_status env i (if ok then NoteSent else NoteFailed)))
             (\<lambda>_. set_status env i NoteFailed)) ?s = (Inr (), ?settle st w)"
  proof (cases "truthy_str (destination c x)")
    case None
    then show ?thesis using set_status_up [OF assms(1), of i NoteFailed ?s] by fastforce
  next
    case (Some to)
    obtain r w where r: "on_world (provider_send env p to m) ?s = (r, ?s\<lparr>nb_world := w\<rparr>)" using on_world_cases [of "provider_send env p to m" ?s] by blast
    define st where "st = (case r of Inr True \<Rightarrow> NoteSent | _ \<Rightarrow> NoteFailed)"
    obtain w' where "set_status env i st (?s\<lparr>nb_world := w\<rparr>) = (Inr (), ?settle st w')"
      using set_status_up [OF assms(1), of i st "?s\<lparr>nb_world := w\<rparr>"] by auto
    moreover have "st \<noteq> NotePending" by (simp add: st_def split: sum.split bool.split)
    ultimately show ?thesis using Some r
      by (cases r) (auto simp: ecatch_def ebind_def st_def split: bool.splits if_splits)
  qed
  then show ?thesis using c assms(2) by (auto simp: sendThroughProvider_def ebind_def)
qed

definition noted :: "string \<times> notice \<Rightarrow> string \<times> channel \<times> string" where
  "noted = (\<lambda>(i, n). (nt_userId n, nt_type n, nt_message n))"

lemma noted_with_status [simp]: "noted \<circ> with_status i st = noted"
  by (auto simp: noted_def with_status_def)

definition pending_notes :: "'w note_tables \<Rightarrow> (string \<times> notice) set" where
  "pending_notes s = {x \<in> set (nb_notes s). nt_status (snd x) = NotePending}"

lemma send_through_all:
  assumes "tables_up env" "\<And>c. c \<in> set cs \<Longrightarrow> js_get ps c \<noteq> None"
  shows "\<exists>rs s'. run_every (List.map (sendThroughProvider env ps u x m d) cs) s = (Inr rs, s') \<and> pending_notes s' \<subseteq> pending_notes s
    \<and> List.map noted (nb_notes s') = List.map noted (nb_notes s) @ List.map (\<lambda>c. (u, c, m)) cs"
  using assms(2)
proof (induction cs arbitrary: s)
  case (Cons c cs)
  then obtain p where "js_get ps c = Some p" by fastforce
  then obtain i t st w where one: "st \<noteq> NotePending" "sendThroughProvider env ps u x m d c s = (Inr (), s\<lparr>nb_notes := List.map (with_status i st)
     (nb_notes s @ [(i, \<lparr>nt_userId = u, nt_transactionId = truthy_str d, nt_type = c, nt_status = NotePending, nt_message = m, nt_createdAt = t\<rparr>)]), nb_world := w\<rparr>)"
    using send_through_up [OF assms(1)] by blast
  define s1 where "s1 = s\<lparr>nb_notes := List.map (with_status i st)
     (nb_notes s @ [(i, \<lparr>nt_userId = u, nt_transactionId = truthy_str d, nt_type = c, nt_status = NotePending, nt_message = m, nt_createdAt = t\<rparr>)]), nb_world := w\<rparr>"
  have pend: "pending_notes s1 \<subseteq> pending_notes s" using one(1) by (auto simp: pending_notes_def s1_def with_status_def split: if_splits)
  have n: "List.map noted (nb_notes s1) = List.map noted (nb_notes s) @ [(u, c, m)]" by (simp add: s1_def) (simp add: noted_def with_status_def)
  obtain rs s' where rest: "run_every (List.map (sendThroughProvider env ps u x m d) cs) s1 = (Inr rs, s')" "pending_notes s' \<subseteq> pending_notes s1"
      "List.map noted (nb_notes s') = List.map noted (nb_notes s1) @ List.map (\<lambda>c. (u, c, m)) cs"
    using Cons by (metis list.set_intros(2))
  have "run_every (List.map (sendThroughProvider env ps u x m d) (c # cs)) s = (Inr (Inr () # rs), s')"
    by (simp add: one(2) [folded s1_def] rest(1) ebind_def ecatch_def ereturn_def)
  then show ?case using rest(2,3) pend n by auto
qed (simp add: ereturn_def)

lemma startup_has_all: "js_get (startup_providers env) c \<noteq> None"
  by (cases c) (simp_all add: startup_providers_def registerProvider_def)

lemma notify_settles:
  assumes "tables_up env" "js_get (nb_users s) u = Some x"
  shows "\<exists>s'. notify env (startup_providers env) u m d s = (Inr (), s') \<and> pending_notes s' \<subseteq> pending_notes s
    \<and> List.map noted (nb_notes s') = List.map noted (nb_notes s) @ List.map (\<lambda>c. (u, c, m)) (enabled_channels (preference_of u s) x)"
proof -
  obtain w where w: "on_world (ne_db env) s = (Inr (), s\<lparr>nb_world := w\<rparr>)"
    using db_up [OF assms(1)] by blast
  let ?s = "s\<lparr>nb_world := w\<rparr>"
  have same: "preference_of u ?s = preference_of u s" "pending_notes ?s = pending_notes s" by (simp_all add: preference_of_def pending_notes_def)
  obtain rs s' where "run_every (List.map (sendThroughProvider env (startup_providers env) u x m d) (enabled_channels (preference_of u s) x)) ?s = (Inr rs, s')"
      "pending_notes s' \<subseteq> pending_notes ?s"
      "List.map noted (nb_notes s') = List.map noted (nb_notes ?s) @ List.map (\<lambda>c. (u, c, m)) (enabled_channels (preference_of u s) x)"
    using send_through_all [OF assms(1) startup_has_all] by metis
  then show ?thesis using assms(2) w same
    by (cases "first_failure rs") (auto simp: notify_def promise_all_def ecatch_def ebind_def eget_def ereturn_def elift_def)
qed

text \<open>C36. As long as the database answers, a notification of a user is recorded once for each channel the user has enabled, with the message, and none of
  them stays pending: each is marked as sent or as failed, whatever the providers do.
\<close>
theorem notify_settles_every_channel:
  assumes "tables_up env" "js_get (nb_users s) u = Some x"
  shows "\<exists>s'. notify env (startup_providers env) u m d s = (Inr (), s') \<and> pending_notes s' \<subseteq> pending_notes s
    \<and> List.map noted (nb_notes s') = List.map noted (nb_notes s) @ List.map (\<lambda>c. (u, c, m)) (enabled_channels (preference_of u s) x)"
  using assms by (rule notify_settles)

text \<open>A call of \<open>notify\<close> never throws, whatever the database and the providers do.\<close>
theorem notify_never_throws: "fst (notify env ps u m d s) = Inr ()"
  by (auto simp: notify_def ecatch_def ereturn_def split: prod.splits sum.splits)

section \<open>The endpoints\<close>

lemma for_account_up:
  assumes "tables_up env" "user_by_key k s = Some (i, u)"
  shows "\<exists>w. for_account env k failure handler s = ecatch (handler i u) (\<lambda>_. ereturn (NotesError 500 failure)) (s\<lparr>nb_world := w\<rparr>)"
proof -
  obtain w where "on_world (ne_db env) s = (Inr (), s\<lparr>nb_world := w\<rparr>)"
    using db_up [OF assms(1)] by blast
  moreover have "user_by_key k (s\<lparr>nb_world := w\<rparr>) = Some (i, u)" using assms(2) by (simp add: user_by_key_def)
  ultimately show ?thesis by (auto simp: for_account_def ecatch_def ebind_def eget_def)
qed

text \<open>A user who marks notifications as read changes no notification of another user and none that is not named; those that are named count as sent
  from then on, so a failed one is no longer known to have failed.
\<close>
theorem marking_read_forgets_failure:
  assumes "tables_up env" "user_by_key k s = Some (i, u)"
  shows "\<exists>s'. patch_history env k ids s = (Inr (NotesDone ''Notifications marked as read''), s')
    \<and> filter (\<lambda>(j, n). nt_userId n \<noteq> i \<or> j \<notin> set ids) (nb_notes s') = filter (\<lambda>(j, n). nt_userId n \<noteq> i \<or> j \<notin> set ids) (nb_notes s)
    \<and> List.map (\<lambda>(j, n). (j, nt_status n)) (filter (\<lambda>(j, n). nt_userId n = i \<and> j \<in> set ids) (nb_notes s'))
      = List.map (\<lambda>(j, n). (j, NoteSent)) (filter (\<lambda>(j, n). nt_userId n = i \<and> j \<in> set ids) (nb_notes s))"
proof -
  let ?h = "\<lambda>i (u :: notified_user). ebind (table_call env (\<lambda>s. s\<lparr>nb_notes := List.map (mark_read i ids) (nb_notes s)\<rparr>)) (\<lambda>_.
     ereturn (NotesDone ''Notifications marked as read''))"
  obtain w where w: "patch_history env k ids s = ecatch (?h i u) (\<lambda>_. ereturn (NotesError 500 ''Failed to mark notifications as read'')) (s\<lparr>nb_world := w\<rparr>)"
    using for_account_up [OF assms] unfolding patch_history_def by blast
  let ?f = "\<lambda>s :: 'a note_tables. s\<lparr>nb_notes := List.map (mark_read i ids) (nb_notes s)\<rparr>"
  obtain w' where "table_call env ?f (s\<lparr>nb_world := w\<rparr>) = (Inr (), ?f (s\<lparr>nb_world := w, nb_world := w'\<rparr>))"
    using table_call_up [OF assms(1), of ?f "s\<lparr>nb_world := w\<rparr>"] by blast
  then have "patch_history env k ids s = (Inr (NotesDone ''Notifications marked as read''), s\<lparr>nb_notes := List.map (mark_read i ids) (nb_notes s), nb_world := w'\<rparr>)"
    by (simp add: w ecatch_def ebind_def ereturn_def)
  moreover have "filter (\<lambda>(j, n). nt_userId n \<noteq> i \<or> j \<notin> set ids) (List.map (mark_read i ids) ns) = filter (\<lambda>(j, n). nt_userId n \<noteq> i \<or> j \<notin> set ids) ns"
    "List.map (\<lambda>(j, n). (j, nt_status n)) (filter (\<lambda>(j, n). nt_userId n = i \<and> j \<in> set ids) (List.map (mark_read i ids) ns))
      = List.map (\<lambda>(j, n). (j, NoteSent)) (filter (\<lambda>(j, n). nt_userId n = i \<and> j \<in> set ids) ns)" for ns
    by (induction ns) (auto simp: mark_read_def split: if_splits)
  ultimately show ?thesis by simp
qed

lemma find_set:
  assumes "js_wf m" "List.find P m = Some (i, u)" "P (i, v)"
  shows "List.find P (js_set i v m) = Some (i, v)"
  using assms
proof (induction m)
  case (Cons x m)
  obtain j y where x: "x = (j, y)" by (cases x)
  show ?case
  proof (cases "P x")
    case True
    then show ?thesis using Cons.prems x by auto
  next
    case False
    then have "List.find P m = Some (i, u)" using Cons.prems(2) by simp
    moreover from this have "(i, u) \<in> set m" by (metis find_Some_iff nth_mem)
    then have "j \<noteq> i" using Cons.prems(1) x by (force simp: js_wf_def)
    ultimately show ?thesis using Cons False x by (auto simp: js_wf_def)
  qed
qed simp

text \<open>What a user sets is what the user reads: after a change of the preferences each of them has the value given, or the one it had, or the default when
  there was none; so has the telephone number.
\<close>
theorem preferences_roundtrip:
  assumes "tables_up env" "js_wf (nb_users s)" "user_by_key k s = Some (i, u)"
  shows "fst (get_preferences env k (snd (patch_preferences env k b s)))
    = Inr (let p = patched_preference b (js_get (nb_prefs s) i) in
        PreferenceReply (np_email p) (np_sms p) (np_push p) (case truthy_str (pb_phone b) of Some t \<Rightarrow> Some t | None \<Rightarrow> nu_phone u))"
proof -
  define v where "v = (case truthy_str (pb_phone b) of Some t \<Rightarrow> u\<lparr>nu_phone := Some t\<rparr> | None \<Rightarrow> u)"
  have phone: "pb_phone b = Some t" if "truthy_str (pb_phone b) = Some t" for t using that by (auto simp: truthy_str_def split: option.splits list.splits)
  let ?f = "\<lambda>s. s\<lparr>nb_prefs := js_set i (patched_preference b (js_get (nb_prefs s) i)) (nb_prefs s),
         nb_users := (case truthy_str (pb_phone b) of Some _ \<Rightarrow> js_set i (u\<lparr>nu_phone := pb_phone b\<rparr>) (nb_users s) | None \<Rightarrow> nb_users s)\<rparr>"
  let ?h = "\<lambda>i u. ebind (table_call env (\<lambda>s. s\<lparr>nb_prefs := js_set i (patched_preference b (js_get (nb_prefs s) i)) (nb_prefs s),
         nb_users := (case truthy_str (pb_phone b) of Some _ \<Rightarrow> js_set i (u\<lparr>nu_phone := pb_phone b\<rparr>) (nb_users s) | None \<Rightarrow> nb_users s)\<rparr>)) (\<lambda>_.
     ereturn (NotesDone ''Preferences updated''))"
  obtain w where w: "patch_preferences env k b s = ecatch (?h i u) (\<lambda>_. ereturn (NotesError 500 ''Failed to update preferences'')) (s\<lparr>nb_world := w\<rparr>)"
    using for_account_up [OF assms(1,3)] unfolding patch_preferences_def by blast
  obtain w' where "table_call env ?f (s\<lparr>nb_world := w\<rparr>) = (Inr (), ?f (s\<lparr>nb_world := w, nb_world := w'\<rparr>))"
    using table_call_up [OF assms(1), of ?f "s\<lparr>nb_world := w\<rparr>"] by blast
  then have after: "snd (patch_preferences env k b s) = ?f (s\<lparr>nb_world := w'\<rparr>)"
    by (simp add: w ecatch_def ebind_def ereturn_def split: option.split)
  have "user_by_key k (snd (patch_preferences env k b s)) = Some (i, v)"
    using find_set [OF assms(2), of "\<lambda>(_, u). nu_publicKey u = k" i u v] assms(3) phone unfolding after
    by (auto simp: user_by_key_def v_def find_Some_iff split: option.splits)
  note found = this
  let ?g = "\<lambda>i (u :: notified_user). ebind (eget (preference_of i)) (\<lambda>p. ereturn (PreferenceReply (np_email p) (np_sms p) (np_push p) (nu_phone u))) :: ('a, notes_reply) noting"
  obtain x where "get_preferences env k (snd (patch_preferences env k b s))
      = ecatch (?g i v) (\<lambda>_. ereturn (NotesError 500 ''Failed to fetch preferences'')) (snd (patch_preferences env k b s)\<lparr>nb_world := x\<rparr>)"
    using for_account_up [OF assms(1) found, of "''Failed to fetch preferences''" ?g] unfolding get_preferences_def by blast
  then show ?thesis unfolding after
    by (auto simp: ecatch_def ebind_def eget_def ereturn_def preference_of_def v_def Let_def split: option.splits)
qed

section \<open>Concrete inputs\<close>

definition demo_note_env :: "nat note_env" where
  "demo_note_env = \<lparr>ne_db = (\<lambda>w. (Inr (), w)), ne_uuid = (\<lambda>w. (replicate (Suc w) CHR ''n'', Suc w)), ne_now = int, ne_var = (\<lambda>_. None), ne_smtp = False,
     ne_mail = (\<lambda>_ _ w. (Inr (), w)), ne_sendgrid = (\<lambda>_ _ w. (Inr (), w)), ne_twilio = (\<lambda>_ _ w. (Inr 200, w)), ne_fcm = (\<lambda>_ _ w. (Inr 200, w))\<rparr>"

definition demo_notes :: "nat note_tables" where
  "demo_notes = \<lparr>nb_users = [(''u1'', \<lparr>nu_publicKey = ''G1'', nu_email = Some ''a@b.c'', nu_phone = None\<rparr>)],
     nb_prefs = [(''u1'', \<lparr>np_email = True, np_sms = True, np_push = True\<rparr>)],
     nb_notes = [(''old'', \<lparr>nt_userId = ''u1'', nt_transactionId = None, nt_type = SMS, nt_status = NoteFailed, nt_message = ''m0'', nt_createdAt = 0\<rparr>)], nb_world = 0\<rparr>"

lemma demo_tables_up: "tables_up demo_note_env" by (simp add: tables_up_def demo_note_env_def)

theorem notify_settles_every_channel_witness:
  "\<exists>s'. notify demo_note_env (startup_providers demo_note_env) ''u1'' ''hello'' None demo_notes = (Inr (), s') \<and> pending_notes s' \<subseteq> pending_notes demo_notes
    \<and> List.map noted (nb_notes s') = [(''u1'', SMS, ''m0''), (''u1'', EMAIL, ''hello''), (''u1'', PUSH, ''hello'')]"
  using notify_settles_every_channel [OF demo_tables_up, of demo_notes "''u1''" "\<lparr>nu_publicKey = ''G1'', nu_email = Some ''a@b.c'', nu_phone = None\<rparr>" "''hello''" None]
  by (simp add: demo_notes_def noted_def preference_of_def enabled_channels_def truthy_str_def)

theorem marking_read_forgets_failure_witness:
  "\<exists>s'. patch_history demo_note_env ''G1'' [''old''] demo_notes = (Inr (NotesDone ''Notifications marked as read''), s')
    \<and> List.map (\<lambda>(j, n). (j, nt_status n)) (filter (\<lambda>(j, n). nt_userId n = ''u1'' \<and> j \<in> set [''old'']) (nb_notes s')) = [(''old'', NoteSent)]"
  using marking_read_forgets_failure [OF demo_tables_up, of "''G1''" demo_notes "''u1''" "\<lparr>nu_publicKey = ''G1'', nu_email = Some ''a@b.c'', nu_phone = None\<rparr>" "[''old'']"]
  by (auto simp: demo_notes_def user_by_key_def)

theorem preferences_roundtrip_witness:
  "fst (get_preferences demo_note_env ''G1'' (snd (patch_preferences demo_note_env ''G1'' \<lparr>pb_email = None, pb_sms = Some False, pb_push = None, pb_phone = Some ''123''\<rparr> demo_notes)))
    = Inr (PreferenceReply True False True (Some ''123''))"
  using preferences_roundtrip [OF demo_tables_up, of demo_notes "''G1''" "''u1''" "\<lparr>nu_publicKey = ''G1'', nu_email = Some ''a@b.c'', nu_phone = None\<rparr>"
      "\<lparr>pb_email = None, pb_sms = Some False, pb_push = None, pb_phone = Some ''123''\<rparr>"]
  by (simp add: demo_notes_def user_by_key_def js_wf_def patched_preference_def given_or_def truthy_str_def Let_def)

end
