(* ===== verification/Hot_Wallet.thy ===== *)
theory Hot_Wallet
  imports Notifications Transfers
begin

text \<open>
  The monitor of hot wallets: \<open>services/hot-wallet-monitor.service.ts\<close> of \<open>backend/src\<close>. Horizon, Redis, the mail and alert services and \<open>fetch\<close>
  are parameters, and so is the wording of the messages, which are named by their content; users are told through \<open>Notifications\<close>. Wallets are
  checked one after the other.
\<close>

section \<open>Wallets and alerts\<close>

record hot_wallet =
  hw_label :: string
  hw_publicKey :: string
  hw_assetCode :: string
  hw_assetIssuer :: "string option"
  hw_threshold :: "jsnum option"

record wallet_snapshot =
  sp_wallet :: hot_wallet
  sp_balance :: jsnum
  sp_below :: bool
  sp_checkedAt :: string

record alert_payload =
  al_walletLabel :: string
  al_publicKey :: string
  al_assetCode :: string
  al_currentBalance :: jsnum
  al_threshold :: jsnum
  al_checkedAt :: string

record monitor_config =
  mc_wallets :: "hot_wallet list"
  mc_intervalMs :: jsnum
  mc_cooldownSeconds :: jsnum
  mc_slackUrl :: "string option"
  mc_emails :: "string option"
  mc_webhookUrl :: "string option"
  mc_userIds :: "string option"

record balance_line =
  bl_type :: string
  bl_balance :: string
  bl_code :: "string option"
  bl_issuer :: "string option"

datatype posted = SlackLow alert_payload | SlackSla "(string \<times> txn) list" alert_payload | CustomAlert alert_payload

datatype mailed = LowMail alert_payload | SlaMail "(string \<times> txn) list" alert_payload

datatype wallet_notice = LowBalance alert_payload | AllClear wallet_snapshot

record 'w monitor_env =
  mo_notes :: "'w note_env"
  mo_providers :: providers
  mo_balances :: "string \<Rightarrow> ('w, js_error, balance_line list) eff"
  mo_get :: "string \<Rightarrow> ('w, js_error, string option) eff"
  mo_set :: "string \<Rightarrow> string \<Rightarrow> jsnum option \<Rightarrow> ('w, js_error, unit) eff"
  mo_del :: "string \<Rightarrow> ('w, js_error, unit) eff"
  mo_post :: "string \<Rightarrow> posted \<Rightarrow> ('w, js_error, int) eff"
  mo_mail :: "string list \<Rightarrow> mailed \<Rightarrow> ('w, js_error, bool) eff"
  mo_alertEmail :: "string \<Rightarrow> alert_payload \<Rightarrow> ('w, js_error, unit) eff"
  mo_transactions :: "('w, js_error, (string \<times> txn) list) eff"
  mo_text :: "wallet_notice \<Rightarrow> string"

text \<open>A threshold that is missing is compared as NaN.\<close>

definition threshold_of :: "hot_wallet \<Rightarrow> jsnum" where
  "threshold_of w = (case hw_threshold w of Some t \<Rightarrow> t | None \<Rightarrow> NaN)"

definition is_native_wallet :: "hot_wallet \<Rightarrow> bool" where
  "is_native_wallet w \<longleftrightarrow> hw_assetCode w = ''XLM'' \<and> (truthy_str (hw_assetIssuer w) = None \<or> hw_assetIssuer w = Some ''native'')"

definition cooldown_key :: "hot_wallet \<Rightarrow> string" where
  "cooldown_key w = ''hot_wallet_alert:'' @ hw_publicKey w @ '':'' @ hw_assetCode w"

definition breach_key :: "hot_wallet \<Rightarrow> string" where
  "breach_key w = ''hot_wallet_breach:'' @ hw_publicKey w @ '':'' @ hw_assetCode w"

section \<open>Balances\<close>

definition line_of_wallet :: "hot_wallet \<Rightarrow> balance_line \<Rightarrow> bool" where
  "line_of_wallet w b \<longleftrightarrow> (if is_native_wallet w then bl_type b = ''native''
     else bl_type b \<in> {''credit_alphanum4'', ''credit_alphanum12''} \<and> bl_code b = Some (hw_assetCode w) \<and> bl_issuer b = hw_assetIssuer w)"

definition balance_of :: "hot_wallet \<Rightarrow> balance_line list \<Rightarrow> jsnum" where
  "balance_of w ls = (case List.find (line_of_wallet w) ls of Some b \<Rightarrow> parseFloat (bl_balance b) | None \<Rightarrow> Fin 0)"

definition fetchBalance :: "'w monitor_env \<Rightarrow> hot_wallet \<Rightarrow> ('w, jsnum) noting" where
  "fetchBalance env w = ebind (on_world (mo_balances env (hw_publicKey w))) (\<lambda>ls. ereturn (balance_of w ls))"

section \<open>Channels\<close>

definition recipients_of :: "string \<Rightarrow> string list" where
  "recipients_of t = filter (\<lambda>x. x \<noteq> []) (List.map trim_js (split_char (CHR '','') t))"

definition post_ok :: "'w monitor_env \<Rightarrow> string \<Rightarrow> string \<Rightarrow> posted \<Rightarrow> ('w, unit) noting" where
  "post_ok env service url body = ebind (on_world (mo_post env url body)) (\<lambda>code.
     if 200 \<le> code \<and> code < 300 then ereturn () else ethrow (PlainError (service @ '' responded '' @ show_int code)))"

definition send_email :: "'w monitor_env \<Rightarrow> string \<Rightarrow> mailed \<Rightarrow> alert_payload \<Rightarrow> ('w, unit) noting" where
  "send_email env recipients m al = ebind (on_world (mo_mail env (recipients_of recipients) m)) (\<lambda>_. on_world (mo_alertEmail env recipients al))"

text \<open>Every user of the list is told through the service of notifications.\<close>

definition send_notice :: "'w monitor_env \<Rightarrow> monitor_config \<Rightarrow> wallet_notice \<Rightarrow> ('w, unit) noting" where
  "send_notice env cfg msg = ebind (promise_all (List.map (\<lambda>u. notify (mo_notes env) (mo_providers env) u (mo_text env msg) None)
       (recipients_of (case mc_userIds cfg of Some t \<Rightarrow> t | None \<Rightarrow> ''''))))
     (\<lambda>_. ereturn ())"

definition if_given :: "string option \<Rightarrow> (string \<Rightarrow> ('w, unit) noting) \<Rightarrow> ('w, unit) noting" where
  "if_given x m = (case truthy_str x of Some t \<Rightarrow> m t | None \<Rightarrow> ereturn ())"

text \<open>\<open>Promise.allSettled\<close>.\<close>

definition all_settled :: "('w, unit) noting list \<Rightarrow> ('w, unit) noting" where
  "all_settled ms = ebind (run_every ms) (\<lambda>_. ereturn ())"

section \<open>A check\<close>

definition payload_of :: "wallet_snapshot \<Rightarrow> alert_payload" where
  "payload_of snap = (let w = sp_wallet snap in
     \<lparr>al_walletLabel = hw_label w, al_publicKey = hw_publicKey w, al_assetCode = hw_assetCode w, al_currentBalance = sp_balance snap,
       al_threshold = threshold_of w, al_checkedAt = sp_checkedAt snap\<rparr>)"

definition handleAlert :: "'w monitor_env \<Rightarrow> monitor_config \<Rightarrow> wallet_snapshot \<Rightarrow> ('w, unit) noting" where
  "handleAlert env cfg snap = (let w = sp_wallet snap; al = payload_of snap in
     ebind (on_world (mo_get env (cooldown_key w))) (\<lambda>already.
     if truthy_str already \<noteq> None then ereturn ()
     else ebind (all_settled [if_given (mc_slackUrl cfg) (\<lambda>url. post_ok env ''Slack'' url (SlackLow al)),
                  if_given (mc_emails cfg) (\<lambda>to. send_email env to (LowMail al) al),
                  if_given (mc_webhookUrl cfg) (\<lambda>url. post_ok env ''Custom webhook'' url (CustomAlert al)),
                  send_notice env cfg (LowBalance al)]) (\<lambda>_.
          ebind (on_world (mo_set env (cooldown_key w) ''1'' (Some (mc_cooldownSeconds cfg)))) (\<lambda>_.
          on_world (mo_set env (breach_key w) ''1'' None)))))"

definition handleRecovery :: "'w monitor_env \<Rightarrow> monitor_config \<Rightarrow> wallet_snapshot \<Rightarrow> ('w, unit) noting" where
  "handleRecovery env cfg snap = (let w = sp_wallet snap in
     ebind (on_world (mo_get env (breach_key w))) (\<lambda>inBreach.
     if truthy_str inBreach = None then ereturn ()
     else ebind (send_notice env cfg (AllClear snap)) (\<lambda>_.
          ebind (on_world (mo_del env (breach_key w))) (\<lambda>_.
          on_world (mo_del env (cooldown_key w))))))"

definition RECOVERY_THRESHOLD_MULTIPLIER :: jsnum where "RECOVERY_THRESHOLD_MULTIPLIER = round64 (11 / 10)"

definition checkWallet :: "'w monitor_env \<Rightarrow> monitor_config \<Rightarrow> hot_wallet \<Rightarrow> ('w, wallet_snapshot) noting" where
  "checkWallet env cfg w = ebind (eget (\<lambda>s. iso_string (ne_now (mo_notes env) (nb_world s)))) (\<lambda>checkedAt.
     ecatch (ebind (fetchBalance env w) (\<lambda>balance.
             let below = js_less balance (threshold_of w); snap = \<lparr>sp_wallet = w, sp_balance = balance, sp_below = below, sp_checkedAt = checkedAt\<rparr> in
             ebind (if below then handleAlert env cfg snap
                    else if js_le (js_mul (threshold_of w) RECOVERY_THRESHOLD_MULTIPLIER) balance then handleRecovery env cfg snap
                    else ereturn ()) (\<lambda>_. ereturn snap)))
       (\<lambda>_. ereturn \<lparr>sp_wallet = w, sp_balance = Fin (- 1), sp_below = False, sp_checkedAt = checkedAt\<rparr>))"

definition SLA_BREACH_MS :: int where "SLA_BREACH_MS = 2 * 60 * 60 * 1000"

definition stuck_transactions :: "int \<Rightarrow> (string \<times> txn) list \<Rightarrow> (string \<times> txn) list" where
  "stuck_transactions now txs = filter (\<lambda>(_, t). tn_status t = ''PENDING_EXTERNAL'' \<and> tn_createdAt t < now - SLA_BREACH_MS) txs"

definition handleSlaBreachAlert :: "'w monitor_env \<Rightarrow> monitor_config \<Rightarrow> (string \<times> txn) list \<Rightarrow> ('w, unit) noting" where
  "handleSlaBreachAlert env cfg txs = ebind (eget (\<lambda>s. iso_string (ne_now (mo_notes env) (nb_world s)))) (\<lambda>checkedAt.
     let al = \<lparr>al_walletLabel = ''SLA Breach Monitor'', al_publicKey = '''', al_assetCode = ''MULTI'', al_currentBalance = Fin 0, al_threshold = Fin 0, al_checkedAt = checkedAt\<rparr> in
     all_settled [if_given (mc_slackUrl cfg) (\<lambda>url. post_ok env ''Slack'' url (SlackSla txs al)),
       if_given (mc_emails cfg) (\<lambda>to. send_email env to (SlaMail txs al) al),
       if_given (mc_webhookUrl cfg) (\<lambda>url. post_ok env ''Custom webhook'' url (CustomAlert al))])"

definition checkSlaBreaches :: "'w monitor_env \<Rightarrow> monitor_config \<Rightarrow> ('w, unit) noting" where
  "checkSlaBreaches env cfg = ebind (eget (\<lambda>s. ne_now (mo_notes env) (nb_world s))) (\<lambda>now.
     ebind (ecatch (ebind (on_world (mo_transactions env)) (\<lambda>txs. ereturn (stuck_transactions now txs))) (\<lambda>_. ereturn [])) (\<lambda>stuck.
     if stuck = [] then ereturn () else handleSlaBreachAlert env cfg stuck))"

definition checkAll :: "'w monitor_env \<Rightarrow> monitor_config \<Rightarrow> ('w, wallet_snapshot list) noting" where
  "checkAll env cfg = ebind (promise_all (List.map (checkWallet env cfg) (mc_wallets cfg))) (\<lambda>snaps.
     ebind (checkSlaBreaches env cfg) (\<lambda>_. ereturn snaps))"

text \<open>Whether the interval runs; starting it checks at once.\<close>

definition start_monitor :: "'w monitor_env \<Rightarrow> monitor_config \<Rightarrow> bool \<Rightarrow> ('w, bool) noting" where
  "start_monitor env cfg running = (if running then ereturn running else ebind (checkAll env cfg) (\<lambda>_. ereturn True))"

definition stop_monitor :: "bool \<Rightarrow> bool" where
  "stop_monitor running = False"

section \<open>The environment\<close>

definition with_default_threshold :: "jsnum \<Rightarrow> hot_wallet \<Rightarrow> hot_wallet" where
  "with_default_threshold t w = (if hw_threshold w = None \<and> is_native_wallet w then w\<lparr>hw_threshold := Some t\<rparr> else w)"

text \<open>The list of wallets is JSON, with fractions; its parser is a parameter.\<close>

definition createMonitorFromEnv :: "(string \<Rightarrow> js_error + hot_wallet list) \<Rightarrow> (string \<Rightarrow> string option) \<Rightarrow> js_error + monitor_config" where
  "createMonitorFromEnv parse var = (let text = (\<lambda>k d. case var k of Some t \<Rightarrow> t | None \<Rightarrow> d) in
     case (case truthy_str (var ''HOT_WALLETS'') of Some t \<Rightarrow> parse t | None \<Rightarrow> Inr []) of
       Inl e \<Rightarrow> Inl e
     | Inr ws \<Rightarrow> Inr \<lparr>mc_wallets = List.map (with_default_threshold (parseFloat (text ''LOW_BALANCE_THRESHOLD_XLM'' ''100''))) ws,
         mc_intervalMs = parseInt10 (text ''HOT_WALLET_CHECK_INTERVAL_MS'' ''60000''),
         mc_cooldownSeconds = parseInt10 (text ''HOT_WALLET_ALERT_COOLDOWN_SEC'' ''1800''),
         mc_slackUrl = var ''ALERT_SLACK_WEBHOOK_URL'', mc_emails = var ''ALERT_EMAIL_RECIPIENTS'', mc_webhookUrl = var ''ALERT_WEBHOOK_URL'',
         mc_userIds = var ''ALERT_NOTIFICATION_USER_IDS''\<rparr>)"

text \<open>
  Properties of the monitor: the two flags it keeps for a wallet in Redis follow a small machine, and what an outage does to its alerts.
\<close>

section \<open>The alert machine\<close>

datatype level = LowLevel | MiddleLevel | HighLevel

definition level_of :: "hot_wallet \<Rightarrow> jsnum \<Rightarrow> level" where
  "level_of w b = (if js_less b (threshold_of w) then LowLevel
     else if js_le (js_mul (threshold_of w) RECOVERY_THRESHOLD_MULTIPLIER) b then HighLevel else MiddleLevel)"

datatype outcome = Quiet | Alerted | Cleared

text \<open>The flags are that an alert was sent not long ago, and that the wallet is known to be low.\<close>

fun alert_machine :: "level \<Rightarrow> bool \<times> bool \<Rightarrow> (bool \<times> bool) \<times> outcome" where
  "alert_machine LowLevel (cool, breach) = (if cool then ((cool, breach), Quiet) else ((True, True), Alerted))"
| "alert_machine MiddleLevel flags = (flags, Quiet)"
| "alert_machine HighLevel (cool, breach) = (if breach then ((False, False), Cleared) else ((cool, breach), Quiet))"

section \<open>Services that answer\<close>

definition notes_keep :: "'w note_env \<Rightarrow> ('w \<Rightarrow> 'v) \<Rightarrow> bool" where
  "notes_keep env view \<longleftrightarrow> keeps view (ne_db env) \<and> (\<forall>w. view (snd (ne_uuid env w)) = view w)
     \<and> (\<forall>t m. keeps view (ne_mail env t m) \<and> keeps view (ne_sendgrid env t m) \<and> keeps view (ne_twilio env t m) \<and> keeps view (ne_fcm env t m))"

text \<open>What Redis holds is \<open>view\<close>; it answers, and nothing else writes to it.\<close>

definition monitor_up :: "'w monitor_env \<Rightarrow> ('w \<Rightarrow> string \<Rightarrow> string option) \<Rightarrow> bool" where
  "monitor_up env view \<longleftrightarrow>
     (\<forall>k w. \<exists>w'. mo_get env k w = (Inr (view w k), w') \<and> view w' = view w)
     \<and> (\<forall>k v t w. \<exists>w'. mo_set env k v t w = (Inr (), w') \<and> view w' = (view w)(k \<mapsto> v))
     \<and> (\<forall>k w. \<exists>w'. mo_del env k w = (Inr (), w') \<and> view w' = (view w)(k := None))
     \<and> (\<forall>k. keeps view (mo_balances env k)) \<and> (\<forall>u b. keeps view (mo_post env u b)) \<and> (\<forall>r m. keeps view (mo_mail env r m))
     \<and> (\<forall>r a. keeps view (mo_alertEmail env r a))
     \<and> notes_keep (mo_notes env) view"

text \<open>
  What goes out over the channels of operations is \<open>sent\<close>: every post, every mail with whether the mail service took it, and every
  mail of the alert service, in their order. Nothing else is sent there.
\<close>

datatype attempt = Posted string posted | Mailed "string list" mailed bool | MailAlert string alert_payload

definition channels_logged :: "'w monitor_env \<Rightarrow> ('w \<Rightarrow> attempt list) \<Rightarrow> bool" where
  "channels_logged env sent \<longleftrightarrow>
     (\<forall>u b w. sent (snd (mo_post env u b w)) = sent w @ [Posted u b])
     \<and> (\<forall>r m w. sent (snd (mo_mail env r m w)) = sent w @ [Mailed r m (\<not> isl (fst (mo_mail env r m w)))])
     \<and> (\<forall>r a w. sent (snd (mo_alertEmail env r a w)) = sent w @ [MailAlert r a])
     \<and> (\<forall>k. keeps sent (mo_get env k)) \<and> (\<forall>k v t. keeps sent (mo_set env k v t)) \<and> (\<forall>k. keeps sent (mo_del env k))
     \<and> (\<forall>k. keeps sent (mo_balances env k)) \<and> notes_keep (mo_notes env) sent"

definition seen :: "('w \<Rightarrow> 'v) \<Rightarrow> 'w note_tables \<Rightarrow> 'v" where
  "seen view s = view (nb_world s)"

lemma keeps_on_world [keeps_rules]: "keeps view m \<Longrightarrow> keeps (seen view) (on_world m)"
  by (auto simp: keeps_def on_world_def seen_def case_prod_beta)

lemma keeps_table_call: "keeps view (ne_db env) \<Longrightarrow> (\<And>s. nb_world (f s) = nb_world s) \<Longrightarrow> keeps (seen view) (table_call env f)"
  unfolding table_call_def by (intro keeps_rules keeps_emodify) (auto simp: seen_def)

lemma keeps_provider:
  assumes "notes_keep env view"
  shows "keeps view (provider_send env p t m)"
proof -
  have "keeps view (ne_mail env t m)" "keeps view (ne_sendgrid env t m)" "keeps view (ne_twilio env t m)" "keeps view (ne_fcm env t m)"
    using assms unfolding notes_keep_def by blast+
  then show ?thesis by (cases p) (auto simp: answered_false_def sendMail_def intro!: keeps_rules)
qed

lemma keeps_user_notify:
  assumes up: "notes_keep env view"
  shows "keeps (seen view) (notify env ps u m d)"
proof -
  have db: "keeps view (ne_db env)" and uuid: "\<And>w. view (snd (ne_uuid env w)) = view w"
    using up unfolding notes_keep_def by blast+
  have fresh: "keeps (seen view) (on_world (\<lambda>w. case ne_uuid env w of (i, w') \<Rightarrow> (Inr i, w')))"
    by (rule keeps_on_world) (simp add: keeps_def case_prod_beta uuid)
  have st: "keeps (seen view) (set_status env i st)" for i st
    unfolding set_status_def by (rule keeps_table_call [OF db]) simp
  have cr: "keeps (seen view) (create_note env n)" for n
    unfolding create_note_def by (intro keeps_rules fresh keeps_table_call [OF db]) auto
  have "keeps (seen view) (sendThroughProvider env ps u x m d c)" for x c
    unfolding sendThroughProvider_def by (intro keeps_rules cr st keeps_provider [OF up])
  then show ?thesis
    unfolding notify_def by (intro keeps_rules keeps_promise_all db) (auto split: prod.splits intro!: keeps_rules keeps_promise_all)
qed

text \<open>Who is told what: a notification for each enabled channel of each user of the list.\<close>

definition told :: "'w note_tables \<Rightarrow> string \<Rightarrow> string \<Rightarrow> (string \<times> channel \<times> string) list" where
  "told s m u = (case js_get (nb_users s) u of None \<Rightarrow> [] | Some x \<Rightarrow> List.map (\<lambda>c. (u, c, m)) (enabled_channels (preference_of u s) x))"

definition people :: "'w note_tables \<Rightarrow> (string, notified_user) jsmap \<times> (string, note_preference) jsmap" where
  "people s = (nb_users s, nb_prefs s)"

lemma told_people: "people s' = people s \<Longrightarrow> told s' = told s"
  by (rule ext)+ (simp add: told_def people_def preference_of_def split: option.split)

lemma keeps_on_world_view [keeps_rules]: "keeps people (on_world m)" "keeps nb_notes (on_world m)"
  by (simp_all add: keeps_def on_world_def people_def split: prod.split)

lemma keeps_people: "keeps people (notify env ps u m d)"
proof -
  have call: "keeps people (table_call env f)" if "\<And>s. people (f s) = people s" for f
    unfolding table_call_def by (intro keeps_rules keeps_emodify that)
  have st: "keeps people (set_status env i st)" for i st
    unfolding set_status_def by (rule call) (simp add: people_def)
  have cr: "keeps people (create_note env n)" for n
    unfolding create_note_def by (intro keeps_rules call) (simp add: people_def)
  have "keeps people (sendThroughProvider env ps u x m d c)" for x c
    unfolding sendThroughProvider_def by (intro keeps_rules cr st)
  then show ?thesis
    unfolding notify_def by (intro keeps_rules keeps_promise_all) (auto split: prod.splits intro!: keeps_rules keeps_promise_all)
qed

lemma notify_told:
  assumes "tables_up env"
  shows "\<exists>s'. notify env (startup_providers env) u m d s = (Inr (), s') \<and> people s' = people s
    \<and> List.map noted (nb_notes s') = List.map noted (nb_notes s) @ told s m u"
proof (cases "js_get (nb_users s) u")
  case None
  obtain w where "on_world (ne_db env) s = (Inr (), s\<lparr>nb_world := w\<rparr>)" using db_up [OF assms] by blast
  then show ?thesis using None by (simp add: notify_def ecatch_def ebind_def eget_def ereturn_def told_def people_def)
next
  case (Some x)
  obtain s' where s': "notify env (startup_providers env) u m d s = (Inr (), s')"
      "List.map noted (nb_notes s') = List.map noted (nb_notes s) @ List.map (\<lambda>c. (u, c, m)) (enabled_channels (preference_of u s) x)"
    using notify_settles [OF assms Some] by blast
  then show ?thesis using Some keeps_result [OF keeps_people s'(1)] by (simp add: told_def)
qed

lemma run_notify_told:
  assumes "tables_up env"
  shows "\<exists>rs s'. run_every (List.map (\<lambda>u. notify env (startup_providers env) u m d) us) s = (Inr rs, s') \<and> people s' = people s
    \<and> List.map noted (nb_notes s') = List.map noted (nb_notes s) @ concat (List.map (told s m) us)"
proof (induction us arbitrary: s)
  case (Cons u us)
  obtain s1 where s1: "notify env (startup_providers env) u m d s = (Inr (), s1)" "people s1 = people s"
      "List.map noted (nb_notes s1) = List.map noted (nb_notes s) @ told s m u"
    using notify_told [OF assms] by blast
  obtain rs s' where "run_every (List.map (\<lambda>u. notify env (startup_providers env) u m d) us) s1 = (Inr rs, s')" "people s' = people s1"
      "List.map noted (nb_notes s') = List.map noted (nb_notes s1) @ concat (List.map (told s1 m) us)"
    using Cons by blast
  then show ?case using s1 told_people [OF s1(2)] by (simp add: ebind_def ecatch_def ereturn_def)
qed (simp add: ereturn_def)

section \<open>Calls that answer\<close>

lemma up_notes: "monitor_up env view \<Longrightarrow> notes_keep (mo_notes env) view"
  by (simp add: monitor_up_def)

lemma get_up:
  assumes "monitor_up env view"
  shows "\<exists>w. on_world (mo_get env k) s = (Inr (seen view s k), s\<lparr>nb_world := w\<rparr>) \<and> view w = seen view s"
proof -
  obtain w where "mo_get env k (nb_world s) = (Inr (view (nb_world s) k), w)" "view w = view (nb_world s)"
    using assms unfolding monitor_up_def by blast
  then show ?thesis by (intro exI [of _ w]) (simp add: on_world_def seen_def)
qed

lemma set_up:
  assumes "monitor_up env view"
  shows "\<exists>s'. on_world (mo_set env k v t) s = (Inr (), s') \<and> seen view s' = (seen view s)(k \<mapsto> v)"
proof -
  obtain w where "mo_set env k v t (nb_world s) = (Inr (), w)" "view w = (view (nb_world s))(k \<mapsto> v)"
    using assms unfolding monitor_up_def by blast
  then show ?thesis by (simp add: on_world_def seen_def)
qed

lemma del_up:
  assumes "monitor_up env view"
  shows "\<exists>s'. on_world (mo_del env k) s = (Inr (), s') \<and> seen view s' = (seen view s)(k := None)"
proof -
  obtain w where "mo_del env k (nb_world s) = (Inr (), w)" "view w = (view (nb_world s))(k := None)"
    using assms unfolding monitor_up_def by blast
  then show ?thesis by (simp add: on_world_def seen_def)
qed

lemma run_every_returns: "\<exists>rs s'. run_every ms s = (Inr rs, s')"
proof (induction ms arbitrary: s)
  case (Cons m ms)
  obtain r s1 where m: "m s = (r, s1)" by force
  obtain rs s' where "run_every ms s1 = (Inr rs, s')" using Cons by blast
  then show ?case using m by (cases r) (auto simp: ebind_def ecatch_def ereturn_def)
qed (simp add: ereturn_def)

lemma settled_returns: "\<exists>s'. all_settled ms s = (Inr (), s')"
  using run_every_returns [of ms s] by (auto simp: all_settled_def ebind_def ereturn_def)

lemma run_every_never: "\<forall>m \<in> set ms. \<forall>s. fst (m s) = Inr () \<Longrightarrow> run_every ms s = (Inr rs, s') \<Longrightarrow> first_failure rs = Inr (replicate (length ms) ())"
proof (induction ms arbitrary: s rs)
  case (Cons m ms)
  then obtain s1 where "m s = (Inr (), s1)" by (metis list.set_intros(1) prod.collapse)
  moreover obtain rs' s2 where "run_every ms s1 = (Inr rs', s2)" using run_every_returns [of ms s1] by auto
  ultimately show ?case using Cons by (auto simp: ebind_def ecatch_def ereturn_def)
qed (simp add: ereturn_def)

lemma notify_returns: "fst (notify env ps u m d s) = Inr ()"
  by (auto simp: notify_def ecatch_def ereturn_def split: prod.splits sum.splits)

lemma notice_returns: "\<exists>s'. send_notice env cfg msg s = (Inr (), s')"
proof -
  let ?ms = "List.map (\<lambda>u. notify (mo_notes env) (mo_providers env) u (mo_text env msg) None) (recipients_of (case mc_userIds cfg of Some t \<Rightarrow> t | None \<Rightarrow> ''''))"
  obtain rs s' where r: "run_every ?ms s = (Inr rs, s')" using run_every_returns [of ?ms s] by auto
  then have "first_failure rs = Inr (replicate (length ?ms) ())" by (intro run_every_never) (auto simp: notify_returns)
  then show ?thesis using r by (simp add: send_notice_def promise_all_def ebind_def elift_def ereturn_def)
qed

lemma keeps_notice: "notes_keep (mo_notes env) view \<Longrightarrow> keeps (seen view) (send_notice env cfg msg)"
  unfolding send_notice_def by (intro keeps_rules keeps_promise_all) (auto intro: keeps_user_notify)

lemma notice_told:
  assumes "tables_up (mo_notes env)" "mo_providers env = startup_providers (mo_notes env)"
  shows "\<exists>s'. send_notice env cfg msg s = (Inr (), s') \<and> people s' = people s \<and> List.map noted (nb_notes s') = List.map noted (nb_notes s)
    @ concat (List.map (told s (mo_text env msg)) (recipients_of (case mc_userIds cfg of Some t \<Rightarrow> t | None \<Rightarrow> '''')))"
proof -
  let ?us = "recipients_of (case mc_userIds cfg of Some t \<Rightarrow> t | None \<Rightarrow> '''')"
  let ?ms = "List.map (\<lambda>u. notify (mo_notes env) (mo_providers env) u (mo_text env msg) None) ?us"
  obtain rs s' where r: "run_every ?ms s = (Inr rs, s')" "people s' = people s"
      "List.map noted (nb_notes s') = List.map noted (nb_notes s) @ concat (List.map (told s (mo_text env msg)) ?us)"
    using run_notify_told [OF assms(1), of "mo_text env msg" None ?us s] unfolding assms(2) by blast
  then have "first_failure rs = Inr (replicate (length ?ms) ())" by (intro run_every_never) (auto simp: notify_returns)
  then show ?thesis using r by (simp add: send_notice_def promise_all_def ebind_def elift_def ereturn_def)
qed

text \<open>The channels of operations, one by one.\<close>

definition logs :: "('s \<Rightarrow> 'l list) \<Rightarrow> 'l list set \<Rightarrow> ('s, 'e, 'a) eff \<Rightarrow> bool" where
  "logs f X m \<longleftrightarrow> (\<forall>s. \<exists>xs \<in> X. f (snd (m s)) = f s @ xs)"

lemma run_every_first: "snd (run_every (m # ms) s) = snd (run_every ms (snd (m s)))"
  by (cases "m s"; cases "fst (m s)"; cases "run_every ms (snd (m s))"; cases "fst (run_every ms (snd (m s)))") (auto simp: ebind_def ecatch_def ereturn_def)

lemma run_every_last: "snd (run_every (ms @ [m]) s) = snd (m (snd (run_every ms s)))"
  by (induction ms arbitrary: s) (simp_all only: append_Nil append_Cons run_every_first, simp_all add: ereturn_def)

lemma run_three_logs:
  assumes "logs f X a" "logs f Y b" "logs f Z c"
  shows "\<exists>x\<in>X. \<exists>y\<in>Y. \<exists>z\<in>Z. f (snd (run_every [a, b, c] s)) = f s @ x @ y @ z"
proof -
  let ?s1 = "snd (a s)" and ?s2 = "snd (b (snd (a s)))"
  have "snd (run_every [a, b, c] s) = snd (c ?s2)"
    using run_every_last [of "[a, b]" c s] run_every_last [of "[a]" b s] run_every_last [of "[]" a s] by (simp add: ereturn_def)
  moreover obtain x y z where "x \<in> X" "f ?s1 = f s @ x" "y \<in> Y" "f ?s2 = f ?s1 @ y" "z \<in> Z" "f (snd (c ?s2)) = f ?s2 @ z"
    using assms unfolding logs_def by blast
  ultimately show ?thesis by (intro bexI [of _ x] bexI [of _ y] bexI [of _ z]) simp_all
qed

lemma logs_post:
  assumes "channels_logged env sent"
  shows "logs (seen sent) {[Posted url body]} (post_ok env service url body)"
  unfolding logs_def
proof (intro allI)
  fix s :: "'a note_tables"
  obtain r w where "mo_post env url body (nb_world s) = (r, w)" by force
  moreover have "sent (snd (mo_post env url body (nb_world s))) = sent (nb_world s) @ [Posted url body]" using assms unfolding channels_logged_def by blast
  ultimately show "\<exists>xs\<in>{[Posted url body]}. seen sent (snd (post_ok env service url body s)) = seen sent s @ xs"
    by (cases r) (simp_all add: post_ok_def seen_def on_world_def ebind_def ereturn_def ethrow_def)
qed

lemma logs_mail:
  assumes "channels_logged env sent"
  shows "logs (seen sent) {Mailed (recipients_of to) m ok # (if ok then [MailAlert to al] else []) | ok. True} (send_email env to m al)"
  unfolding logs_def
proof (intro allI)
  fix s :: "'a note_tables"
  have mail: "sent (snd (mo_mail env r x w)) = sent w @ [Mailed r x (\<not> isl (fst (mo_mail env r x w)))]"
    and alert: "sent (snd (mo_alertEmail env t a w)) = sent w @ [MailAlert t a]" for r x a t w
    using assms unfolding channels_logged_def by blast+
  obtain r w where r: "mo_mail env (recipients_of to) m (nb_world s) = (r, w)" by force
  obtain r' w' where r': "mo_alertEmail env to al w = (r', w')" by force
  have "seen sent (snd (send_email env to m al s)) = seen sent s @ Mailed (recipients_of to) m (\<not> isl r) # (if \<not> isl r then [MailAlert to al] else [])"
    using mail [of "recipients_of to" m "nb_world s"] alert [of to al w] r r'
    by (cases r) (simp_all add: send_email_def on_world_def ebind_def seen_def)
  then show "\<exists>xs\<in>{Mailed (recipients_of to) m ok # (if ok then [MailAlert to al] else []) | ok. True}. seen sent (snd (send_email env to m al s)) = seen sent s @ xs"
    by blast
qed

lemma logs_if_given:
  assumes "\<And>t. logs f (X t) (m t)"
  shows "logs f (case truthy_str x of None \<Rightarrow> {[]} | Some t \<Rightarrow> X t) (if_given x m)"
  using assms by (auto simp: logs_def if_given_def ereturn_def split: option.split)

text \<open>What an alert sends: a post to Slack, a mail and, when the mail service took it, the mail of the alert service, and a post to the webhook, as far as they are configured.\<close>

definition low_alert :: "monitor_config \<Rightarrow> alert_payload \<Rightarrow> bool \<Rightarrow> attempt list" where
  "low_alert cfg al ok =
     (case truthy_str (mc_slackUrl cfg) of Some url \<Rightarrow> [Posted url (SlackLow al)] | None \<Rightarrow> [])
     @ (case truthy_str (mc_emails cfg) of Some to \<Rightarrow> Mailed (recipients_of to) (LowMail al) ok # (if ok then [MailAlert to al] else []) | None \<Rightarrow> [])
     @ (case truthy_str (mc_webhookUrl cfg) of Some url \<Rightarrow> [Posted url (CustomAlert al)] | None \<Rightarrow> [])"

lemma channels_sent:
  assumes "channels_logged env sent"
  shows "\<exists>ok. seen sent (snd (run_every [if_given (mc_slackUrl cfg) (\<lambda>url. post_ok env ''Slack'' url (SlackLow al)),
      if_given (mc_emails cfg) (\<lambda>to. send_email env to (LowMail al) al),
      if_given (mc_webhookUrl cfg) (\<lambda>url. post_ok env ''Custom webhook'' url (CustomAlert al))] s)) = seen sent s @ low_alert cfg al ok"
proof -
  let ?f = "seen sent"
  let ?X = "case truthy_str (mc_slackUrl cfg) of None \<Rightarrow> {[]} | Some url \<Rightarrow> {[Posted url (SlackLow al)]}"
    and ?Y = "case truthy_str (mc_emails cfg) of None \<Rightarrow> {[]} | Some to \<Rightarrow> {Mailed (recipients_of to) (LowMail al) ok # (if ok then [MailAlert to al] else []) | ok. True}"
    and ?Z = "case truthy_str (mc_webhookUrl cfg) of None \<Rightarrow> {[]} | Some url \<Rightarrow> {[Posted url (CustomAlert al)]}"
  have a: "logs ?f ?X (if_given (mc_slackUrl cfg) (\<lambda>url. post_ok env ''Slack'' url (SlackLow al)))" by (rule logs_if_given) (rule logs_post [OF assms])
  have b: "logs ?f ?Y (if_given (mc_emails cfg) (\<lambda>to. send_email env to (LowMail al) al))" by (rule logs_if_given) (rule logs_mail [OF assms])
  have c: "logs ?f ?Z (if_given (mc_webhookUrl cfg) (\<lambda>url. post_ok env ''Custom webhook'' url (CustomAlert al)))"
    by (rule logs_if_given) (rule logs_post [OF assms])
  obtain x y z where l: "x \<in> ?X" "y \<in> ?Y" "z \<in> ?Z"
      "?f (snd (run_every [if_given (mc_slackUrl cfg) (\<lambda>url. post_ok env ''Slack'' url (SlackLow al)),
      if_given (mc_emails cfg) (\<lambda>to. send_email env to (LowMail al) al),
      if_given (mc_webhookUrl cfg) (\<lambda>url. post_ok env ''Custom webhook'' url (CustomAlert al))] s)) = ?f s @ x @ y @ z"
    using run_three_logs [OF a b c, of s] by (elim bexE) (rule that)
  obtain ok where "y = (case truthy_str (mc_emails cfg) of Some to \<Rightarrow> Mailed (recipients_of to) (LowMail al) ok # (if ok then [MailAlert to al] else []) | None \<Rightarrow> [])"
    using l(2) by (auto split: option.splits)
  moreover have "x = (case truthy_str (mc_slackUrl cfg) of Some url \<Rightarrow> [Posted url (SlackLow al)] | None \<Rightarrow> [])"
    "z = (case truthy_str (mc_webhookUrl cfg) of Some url \<Rightarrow> [Posted url (CustomAlert al)] | None \<Rightarrow> [])"
    using l(1,3) by (auto split: option.splits)
  ultimately show ?thesis using l(4) by (auto simp: low_alert_def)
qed


lemma keeps_channels:
  assumes "monitor_up env view"
  shows "keeps (seen view) (post_ok env service url body)" "keeps (seen view) (send_email env to m al)"
proof -
  have k: "keeps view (mo_post env url body)" "keeps view (mo_mail env r m)" "keeps view (mo_alertEmail env to al)" for r
    using assms unfolding monitor_up_def by blast+
  show "keeps (seen view) (post_ok env service url body)" unfolding post_ok_def by (intro keeps_rules k)
  show "keeps (seen view) (send_email env to m al)" unfolding send_email_def by (intro keeps_rules k)
qed

lemma keeps_if_given: "(\<And>t. keeps f (m t)) \<Longrightarrow> keeps f (if_given x m)"
  unfolding if_given_def by (intro keeps_rules)

definition flags :: "('w \<Rightarrow> string \<Rightarrow> string option) \<Rightarrow> hot_wallet \<Rightarrow> 'w note_tables \<Rightarrow> bool \<times> bool" where
  "flags view w s = (truthy_str (seen view s (cooldown_key w)) \<noteq> None, truthy_str (seen view s (breach_key w)) \<noteq> None)"

lemma wallet_keys_differ [simp]: "cooldown_key w \<noteq> breach_key w" "breach_key w \<noteq> cooldown_key w"
  by (simp_all add: cooldown_key_def breach_key_def)

text \<open>Everything a check relies on answers: Redis, the database of the notifications with the providers of the program, and the log of what is sent.\<close>

definition all_up :: "'w monitor_env \<Rightarrow> ('w \<Rightarrow> string \<Rightarrow> string option) \<Rightarrow> ('w \<Rightarrow> attempt list) \<Rightarrow> bool" where
  "all_up env view sent \<longleftrightarrow> monitor_up env view \<and> channels_logged env sent \<and> tables_up (mo_notes env)
     \<and> mo_providers env = startup_providers (mo_notes env)"

text \<open>What is seen from outside: the notifications that were recorded, and what was sent over the channels of operations.\<close>

definition outside :: "('w \<Rightarrow> attempt list) \<Rightarrow> 'w note_tables \<Rightarrow> (string \<times> channel \<times> string) list \<times> attempt list" where
  "outside sent s = (List.map noted (nb_notes s), seen sent s)"

lemma redis_outside:
  assumes "channels_logged env sent"
  shows "keeps (outside sent) (on_world (mo_get env k))" "keeps (outside sent) (on_world (mo_set env k v t))" "keeps (outside sent) (on_world (mo_del env k))"
    "keeps (outside sent) (on_world (mo_balances env k))"
  using assms by (auto simp: keeps_def outside_def channels_logged_def seen_def on_world_def split: prod.split) (metis snd_conv)+

lemma redis_people: "keeps people (on_world m)"
  by (rule keeps_on_world_view)

text \<open>The users of the list are told a text.\<close>

definition notices_to :: "monitor_config \<Rightarrow> string \<Rightarrow> 'w note_tables \<Rightarrow> (string \<times> channel \<times> string) list" where
  "notices_to cfg text s = concat (List.map (told s text) (recipients_of (case mc_userIds cfg of Some t \<Rightarrow> t | None \<Rightarrow> '''')))"

lemma notices_people: "people s' = people s \<Longrightarrow> notices_to cfg text s' = notices_to cfg text s"
  using told_people [of s' s] by (simp add: notices_to_def)

lemma notice_outside:
  assumes "all_up env view sent"
  shows "\<exists>s'. send_notice env cfg msg s = (Inr (), s') \<and> seen view s' = seen view s
    \<and> outside sent s' = (fst (outside sent s) @ notices_to cfg (mo_text env msg) s, snd (outside sent s))"
proof -
  have up: "notes_keep (mo_notes env) view" "notes_keep (mo_notes env) sent"
    using assms by (simp_all add: all_up_def monitor_up_def channels_logged_def)
  obtain s' where s': "send_notice env cfg msg s = (Inr (), s')" "List.map noted (nb_notes s') = List.map noted (nb_notes s) @ notices_to cfg (mo_text env msg) s"
    using notice_told [of env] assms unfolding all_up_def notices_to_def by metis
  then show ?thesis using keeps_result [OF keeps_notice [OF up(1)] s'(1)] keeps_result [OF keeps_notice [OF up(2)] s'(1)]
    by (simp add: outside_def)
qed

lemma alert_outside:
  assumes "all_up env view sent"
  shows "\<exists>s' ok. all_settled [if_given (mc_slackUrl cfg) (\<lambda>url. post_ok env ''Slack'' url (SlackLow al)), if_given (mc_emails cfg) (\<lambda>to. send_email env to (LowMail al) al),
      if_given (mc_webhookUrl cfg) (\<lambda>url. post_ok env ''Custom webhook'' url (CustomAlert al)), send_notice env cfg msg] s = (Inr (), s') \<and> seen view s' = seen view s
    \<and> outside sent s' = (fst (outside sent s) @ notices_to cfg (mo_text env msg) s, snd (outside sent s) @ low_alert cfg al ok)"
proof -
  have up: "monitor_up env view" "channels_logged env sent" using assms by (simp_all add: all_up_def)
  let ?ms = "[if_given (mc_slackUrl cfg) (\<lambda>url. post_ok env ''Slack'' url (SlackLow al)), if_given (mc_emails cfg) (\<lambda>to. send_email env to (LowMail al) al),
      if_given (mc_webhookUrl cfg) (\<lambda>url. post_ok env ''Custom webhook'' url (CustomAlert al))]"
  let ?s1 = "snd (run_every ?ms s)"
  obtain ok where ok: "seen sent ?s1 = seen sent s @ low_alert cfg al ok" using channels_sent [OF up(2)] by blast
  have kept: "keeps (seen view) (run_every ?ms)" by (intro keeps_run_every) (auto intro!: keeps_if_given keeps_channels [OF up(1)])
  have tables: "keeps people (post_ok env v u b)" "keeps people (send_email env to m al)" "keeps nb_notes (post_ok env v u b)" "keeps nb_notes (send_email env to m al)"
    for v u b to m unfolding post_ok_def send_email_def by (intro keeps_rules)+
  have "keeps people (run_every ?ms)" "keeps nb_notes (run_every ?ms)" by (intro keeps_run_every; auto intro!: keeps_if_given tables)+
  then have same: "people ?s1 = people s" "nb_notes ?s1 = nb_notes s" "seen view ?s1 = seen view s" using kept by (simp_all add: keeps_def)
  obtain s' where s': "send_notice env cfg msg ?s1 = (Inr (), s')" "seen view s' = seen view ?s1"
      "outside sent s' = (fst (outside sent ?s1) @ notices_to cfg (mo_text env msg) ?s1, snd (outside sent ?s1))"
    using notice_outside [OF assms] by blast
  obtain s2 where s2: "all_settled (?ms @ [send_notice env cfg msg]) s = (Inr (), s2)" using settled_returns by blast
  then have "s2 = snd (run_every (?ms @ [send_notice env cfg msg]) s)" by (auto simp: all_settled_def ebind_def ereturn_def split: prod.splits sum.splits)
  then have "s2 = s'" using run_every_last [of ?ms "send_notice env cfg msg" s] s'(1) by simp
  then show ?thesis using s2 s' same ok notices_people [OF same(1)] by (auto simp: outside_def)
qed

lemma handleAlert_quiet:
  assumes "all_up env view sent" "fst (flags view (sp_wallet snap) s)"
  shows "\<exists>s'. handleAlert env cfg snap s = (Inr (), s') \<and> seen view s' = seen view s \<and> outside sent s' = outside sent s"
proof -
  have up: "monitor_up env view" "channels_logged env sent" using assms(1) by (simp_all add: all_up_def)
  obtain w where get: "on_world (mo_get env (cooldown_key (sp_wallet snap))) s = (Inr (seen view s (cooldown_key (sp_wallet snap))), s\<lparr>nb_world := w\<rparr>)" "view w = seen view s"
    using get_up [OF up(1)] by blast
  then show ?thesis using assms(2) keeps_result [OF redis_outside(1) [OF up(2)] get(1)]
    by (simp add: handleAlert_def Let_def ebind_def ereturn_def flags_def seen_def)
qed

lemma handleAlert_loud:
  assumes "all_up env view sent" "\<not> fst (flags view (sp_wallet snap) s)"
  shows "\<exists>s' ok. handleAlert env cfg snap s = (Inr (), s')
    \<and> seen view s' = (seen view s)(cooldown_key (sp_wallet snap) \<mapsto> ''1'', breach_key (sp_wallet snap) \<mapsto> ''1'')
    \<and> outside sent s' = (fst (outside sent s) @ notices_to cfg (mo_text env (LowBalance (payload_of snap))) s, snd (outside sent s) @ low_alert cfg (payload_of snap) ok)"
proof -
  let ?c = "cooldown_key (sp_wallet snap)" and ?b = "breach_key (sp_wallet snap)" and ?al = "payload_of snap"
  have up: "monitor_up env view" "channels_logged env sent" using assms(1) by (simp_all add: all_up_def)
  note same_outside = redis_outside [OF up(2), THEN keeps_result]
  obtain w where get: "on_world (mo_get env ?c) s = (Inr (seen view s ?c), s\<lparr>nb_world := w\<rparr>)" "view w = seen view s"
    using get_up [OF up(1)] by blast
  have s0: "outside sent (s\<lparr>nb_world := w\<rparr>) = outside sent s" "people (s\<lparr>nb_world := w\<rparr>) = people s" "seen view (s\<lparr>nb_world := w\<rparr>) = seen view s"
    using same_outside(1) [OF get(1)] get(2) by (simp_all add: people_def seen_def)
  obtain s1 ok where s1: "all_settled [if_given (mc_slackUrl cfg) (\<lambda>url. post_ok env ''Slack'' url (SlackLow ?al)), if_given (mc_emails cfg) (\<lambda>to. send_email env to (LowMail ?al) ?al),
      if_given (mc_webhookUrl cfg) (\<lambda>url. post_ok env ''Custom webhook'' url (CustomAlert ?al)), send_notice env cfg (LowBalance ?al)] (s\<lparr>nb_world := w\<rparr>) = (Inr (), s1)"
      "seen view s1 = seen view s"
      "outside sent s1 = (fst (outside sent s) @ notices_to cfg (mo_text env (LowBalance ?al)) s, snd (outside sent s) @ low_alert cfg ?al ok)"
    using alert_outside [OF assms(1), of cfg ?al "LowBalance ?al" "s\<lparr>nb_world := w\<rparr>"] unfolding s0(1,3) notices_people [OF s0(2)] by blast
  obtain s2 where s2: "on_world (mo_set env ?c ''1'' (Some (mc_cooldownSeconds cfg))) s1 = (Inr (), s2)" "seen view s2 = (seen view s)(?c \<mapsto> ''1'')"
    using set_up [OF up(1)] s1(2) by metis
  obtain s3 where s3: "on_world (mo_set env ?b ''1'' None) s2 = (Inr (), s3)" "seen view s3 = (seen view s)(?c \<mapsto> ''1'', ?b \<mapsto> ''1'')"
    using set_up [OF up(1)] s2(2) by metis
  have "outside sent s3 = outside sent s1" using same_outside(2) [OF s3(1)] same_outside(2) [OF s2(1)] by simp
  then show ?thesis using get(1) s1 s2(1) s3 assms(2) by (intro exI [of _ s3] exI [of _ ok]) (simp add: handleAlert_def Let_def ebind_def flags_def)
qed

lemma handleRecovery_up:
  assumes "all_up env view sent"
  shows "\<exists>s'. handleRecovery env cfg snap s = (Inr (), s')
    \<and> seen view s' = (if snd (flags view (sp_wallet snap) s) then (seen view s)(breach_key (sp_wallet snap) := None, cooldown_key (sp_wallet snap) := None) else seen view s)
    \<and> outside sent s' = (if snd (flags view (sp_wallet snap) s) then (fst (outside sent s) @ notices_to cfg (mo_text env (AllClear snap)) s, snd (outside sent s))
        else outside sent s)"
proof -
  let ?c = "cooldown_key (sp_wallet snap)" and ?b = "breach_key (sp_wallet snap)"
  have up: "monitor_up env view" "channels_logged env sent" using assms(1) by (simp_all add: all_up_def)
  note same_outside = redis_outside [OF up(2), THEN keeps_result]
  obtain w where get: "on_world (mo_get env ?b) s = (Inr (seen view s ?b), s\<lparr>nb_world := w\<rparr>)" "view w = seen view s"
    using get_up [OF up(1)] by blast
  have s0: "outside sent (s\<lparr>nb_world := w\<rparr>) = outside sent s" "people (s\<lparr>nb_world := w\<rparr>) = people s" "seen view (s\<lparr>nb_world := w\<rparr>) = seen view s"
    using same_outside(1) [OF get(1)] get(2) by (simp_all add: people_def seen_def)
  show ?thesis
  proof (cases "snd (flags view (sp_wallet snap) s)")
    case True
    obtain s1 where s1: "send_notice env cfg (AllClear snap) (s\<lparr>nb_world := w\<rparr>) = (Inr (), s1)" "seen view s1 = seen view s"
        "outside sent s1 = (fst (outside sent s) @ notices_to cfg (mo_text env (AllClear snap)) s, snd (outside sent s))"
      using notice_outside [OF assms, of cfg "AllClear snap" "s\<lparr>nb_world := w\<rparr>"] unfolding s0(1,3) notices_people [OF s0(2)] by blast
    obtain s2 where s2: "on_world (mo_del env ?b) s1 = (Inr (), s2)" "seen view s2 = (seen view s)(?b := None)"
      using del_up [OF up(1)] s1(2) by metis
    obtain s3 where s3: "on_world (mo_del env ?c) s2 = (Inr (), s3)" "seen view s3 = (seen view s)(?b := None, ?c := None)"
      using del_up [OF up(1)] s2(2) by metis
    have "outside sent s3 = outside sent s1" using same_outside(3) [OF s3(1)] same_outside(3) [OF s2(1)] by simp
    then show ?thesis using get(1) s1 s2(1) s3 True by (intro exI [of _ s3]) (auto simp: handleRecovery_def Let_def ebind_def flags_def)
  next
    case False
    then show ?thesis using get s0 by (simp add: handleRecovery_def Let_def ebind_def ereturn_def flags_def)
  qed
qed

section \<open>The checks\<close>

text \<open>
  What has to go out for an outcome of the machine: nothing, or the alert over the channels of operations that are configured and to the users of the list,
  or the all-clear to those users.
\<close>

fun goes_out :: "'w monitor_env \<Rightarrow> monitor_config \<Rightarrow> wallet_snapshot \<Rightarrow> 'w note_tables \<Rightarrow> bool \<Rightarrow> outcome \<Rightarrow> (string \<times> channel \<times> string) list \<times> attempt list" where
  "goes_out env cfg snap s ok Quiet = ([], [])"
| "goes_out env cfg snap s ok Alerted = (notices_to cfg (mo_text env (LowBalance (payload_of snap))) s, low_alert cfg (payload_of snap) ok)"
| "goes_out env cfg snap s ok Cleared = (notices_to cfg (mo_text env (AllClear snap)) s, [])"

text \<open>C27. While Redis and the database answer, a check of a wallet whose balance can be read steps the two flags of the wallet as the alert machine does, and sends
  what the outcome of the machine asks for, no more and no less. When the balance is low and no alert went out lately, the alert with that balance is posted to Slack, mailed,
  handed to the alert service when the mail was taken, posted to the webhook, each as far as it is configured, and recorded as a notification for each enabled channel of each user of the list;
  when a wallet that was low has a tenth more than its threshold, those users get an all-clear; otherwise, in particular during the cooldown, nothing is posted,
  mailed or recorded.
\<close>
theorem monitor_refines_alert_machine:
  assumes "all_up env view sent" "mo_balances env (hw_publicKey w) (nb_world s) = (Inr ls, w1)"
  shows "\<exists>t s' snap ok. snap = \<lparr>sp_wallet = w, sp_balance = balance_of w ls, sp_below = (level_of w (balance_of w ls) = LowLevel), sp_checkedAt = t\<rparr>
    \<and> checkWallet env cfg w s = (Inr snap, s')
    \<and> flags view w s' = fst (alert_machine (level_of w (balance_of w ls)) (flags view w s))
    \<and> (let out = goes_out env cfg snap s ok (snd (alert_machine (level_of w (balance_of w ls)) (flags view w s)))
       in List.map noted (nb_notes s') = List.map noted (nb_notes s) @ fst out \<and> sent (nb_world s') = sent (nb_world s) @ snd out)"
proof -
  let ?t = "iso_string (ne_now (mo_notes env) (nb_world s))"
  define snap where "snap = \<lparr>sp_wallet = w, sp_balance = balance_of w ls, sp_below = js_less (balance_of w ls) (threshold_of w), sp_checkedAt = ?t\<rparr>"
  let ?s = "s\<lparr>nb_world := w1\<rparr>" and ?l = "level_of w (balance_of w ls)"
  define act where "act = (if js_less (balance_of w ls) (threshold_of w) then handleAlert env cfg snap
      else if js_le (js_mul (threshold_of w) RECOVERY_THRESHOLD_MULTIPLIER) (balance_of w ls) then handleRecovery env cfg snap else ereturn ())"
  have up: "monitor_up env view" "channels_logged env sent" using assms(1) by (simp_all add: all_up_def)
  have read: "on_world (mo_balances env (hw_publicKey w)) s = (Inr ls, ?s)" using assms(2) by (simp add: on_world_def)
  have k: "keeps view (mo_balances env (hw_publicKey w))" using up(1) unfolding monitor_up_def by blast
  have "seen view ?s = seen view s" using keeps_result [OF k assms(2)] by (simp add: seen_def)
  then have same: "flags view w ?s = flags view w s" "outside sent ?s = outside sent s" "people ?s = people s"
    using keeps_result [OF redis_outside(4) [OF up(2)] read] by (simp_all add: flags_def people_def)
  have wallet: "sp_wallet snap = w" by (simp add: snap_def)
  have flag: "truthy_str (Some ''1'') = Some ''1''" "truthy_str None = None" by (simp_all add: truthy_str_def)
  obtain c b where f: "flags view w s = (c, b)" by force
  have "\<exists>s' ok. act ?s = (Inr (), s') \<and> flags view w s' = fst (alert_machine ?l (flags view w s))
      \<and> outside sent s' = (fst (outside sent s) @ fst (goes_out env cfg snap s ok (snd (alert_machine ?l (flags view w s)))),
          snd (outside sent s) @ snd (goes_out env cfg snap s ok (snd (alert_machine ?l (flags view w s)))))"
  proof (cases ?l)
    case LowLevel
    then have low: "act = handleAlert env cfg snap" by (auto simp: act_def level_of_def split: if_splits)
    show ?thesis
    proof (cases c)
      case True
      then obtain s' where "act ?s = (Inr (), s')" "seen view s' = seen view ?s" "outside sent s' = outside sent ?s"
        using handleAlert_quiet [OF assms(1), of snap ?s] wallet same f low by auto
      then show ?thesis using LowLevel f True same by (simp add: flags_def)
    next
      case False
      then obtain s' ok where s': "act ?s = (Inr (), s')" "seen view s' = (seen view ?s)(cooldown_key w \<mapsto> ''1'', breach_key w \<mapsto> ''1'')"
          "outside sent s' = (fst (outside sent ?s) @ notices_to cfg (mo_text env (LowBalance (payload_of snap))) ?s, snd (outside sent ?s) @ low_alert cfg (payload_of snap) ok)"
        using handleAlert_loud [OF assms(1), of snap ?s cfg] wallet same f low False by (simp add: act_def) blast
      then show ?thesis using LowLevel f False flag same notices_people [OF same(3)] by (intro exI [of _ s'] exI [of _ ok]) (simp add: flags_def)
    qed
  next
    case MiddleLevel
    then have "act = ereturn ()" by (auto simp: act_def level_of_def split: if_splits)
    then show ?thesis using MiddleLevel same by (simp add: ereturn_def)
  next
    case HighLevel
    then have "act = handleRecovery env cfg snap" by (auto simp: act_def level_of_def split: if_splits)
    then obtain s' where s': "act ?s = (Inr (), s')" "seen view s' = (if b then (seen view ?s)(breach_key w := None, cooldown_key w := None) else seen view ?s)"
        "outside sent s' = (if b then (fst (outside sent ?s) @ notices_to cfg (mo_text env (AllClear snap)) ?s, snd (outside sent ?s)) else outside sent ?s)"
      using handleRecovery_up [OF assms(1), of cfg snap ?s] wallet same f by auto
    then show ?thesis using HighLevel f flag same notices_people [OF same(3)] by (cases b) (simp_all add: flags_def)
  qed
  then obtain s' ok where act: "act ?s = (Inr (), s')" "flags view w s' = fst (alert_machine ?l (flags view w s))"
      "outside sent s' = (fst (outside sent s) @ fst (goes_out env cfg snap s ok (snd (alert_machine ?l (flags view w s)))),
          snd (outside sent s) @ snd (goes_out env cfg snap s ok (snd (alert_machine ?l (flags view w s)))))" by blast
  have "checkWallet env cfg w s = ecatch (ebind act (\<lambda>_. ereturn snap))
      (\<lambda>_. ereturn \<lparr>sp_wallet = w, sp_balance = Fin (- 1), sp_below = False, sp_checkedAt = ?t\<rparr>) ?s"
    using read by (simp add: checkWallet_def fetchBalance_def ebind_def eget_def ecatch_def ereturn_def Let_def act_def snap_def)
  then have "checkWallet env cfg w s = (Inr snap, s')" using act(1) by (simp add: ecatch_def ebind_def ereturn_def)
  moreover have "js_less (balance_of w ls) (threshold_of w) = (?l = LowLevel)" by (simp add: level_of_def)
  then have "snap = \<lparr>sp_wallet = w, sp_balance = balance_of w ls, sp_below = (?l = LowLevel), sp_checkedAt = ?t\<rparr>" by (simp add: snap_def)
  moreover have "List.map noted (nb_notes s') = List.map noted (nb_notes s) @ fst (goes_out env cfg snap s ok (snd (alert_machine ?l (flags view w s))))"
    "sent (nb_world s') = sent (nb_world s) @ snd (goes_out env cfg snap s ok (snd (alert_machine ?l (flags view w s))))"
    using act(3) by (simp_all add: outside_def seen_def)
  ultimately show ?thesis using act(2) unfolding Let_def by blast
qed

text \<open>When Redis does not answer, a wallet whose balance is low is reported as one that could not be checked, not as low, and nobody is told.\<close>
theorem redis_outage_silences_alert:
  assumes "mo_balances env (hw_publicKey w) (nb_world s) = (Inr ls, w1)" "js_less (balance_of w ls) (threshold_of w)"
    and "mo_get env (cooldown_key w) w1 = (Inl e, w2)"
  shows "checkWallet env cfg w s = (Inr \<lparr>sp_wallet = w, sp_balance = Fin (- 1), sp_below = False,
     sp_checkedAt = iso_string (ne_now (mo_notes env) (nb_world s))\<rparr>, s\<lparr>nb_world := w2\<rparr>)"
  using assms by (simp add: checkWallet_def fetchBalance_def handleAlert_def on_world_def ebind_def eget_def ecatch_def ereturn_def Let_def)

lemma no_threshold_no_alert: "hw_threshold w = None \<Longrightarrow> level_of w b = MiddleLevel"
  by (cases b) (simp_all add: level_of_def threshold_of_def RECOVERY_THRESHOLD_MULTIPLIER_def js_le_def)

lemma issuers_share_cooldown: "cooldown_key (w\<lparr>hw_assetIssuer := i\<rparr>) = cooldown_key w"
  by (simp add: cooldown_key_def)

section \<open>Concrete inputs\<close>

definition demo_wallet :: hot_wallet where
  "demo_wallet = \<lparr>hw_label = ''Main'', hw_publicKey = ''G1'', hw_assetCode = ''XLM'', hw_assetIssuer = None, hw_threshold = Some (Fin 100)\<rparr>"

definition demo_monitor_config :: monitor_config where
  "demo_monitor_config = \<lparr>mc_wallets = [demo_wallet], mc_intervalMs = Fin 60000, mc_cooldownSeconds = Fin 1800, mc_slackUrl = None, mc_emails = None, mc_webhookUrl = None,
     mc_userIds = None\<rparr>"

text \<open>The world is what Redis holds; the account has 50 XLM.\<close>

definition demo_monitor :: "(string \<Rightarrow> string option) monitor_env" where
  "demo_monitor = \<lparr>mo_notes = \<lparr>ne_db = (\<lambda>w. (Inr (), w)), ne_uuid = (\<lambda>w. (''n'', w)), ne_now = (\<lambda>_. 0), ne_var = (\<lambda>_. None), ne_smtp = False,
       ne_mail = (\<lambda>_ _ w. (Inr (), w)), ne_sendgrid = (\<lambda>_ _ w. (Inr (), w)), ne_twilio = (\<lambda>_ _ w. (Inr 200, w)), ne_fcm = (\<lambda>_ _ w. (Inr 200, w))\<rparr>,
     mo_providers = [], mo_balances = (\<lambda>_ w. (Inr [\<lparr>bl_type = ''native'', bl_balance = ''50'', bl_code = None, bl_issuer = None\<rparr>], w)),
     mo_get = (\<lambda>k w. (Inr (w k), w)), mo_set = (\<lambda>k v _ w. (Inr (), w(k \<mapsto> v))), mo_del = (\<lambda>k w. (Inr (), w(k := None))),
     mo_post = (\<lambda>_ _ w. (Inr 200, w)), mo_mail = (\<lambda>_ _ w. (Inr True, w)), mo_alertEmail = (\<lambda>_ _ w. (Inr (), w)), mo_transactions = (\<lambda>w. (Inr [], w)),
     mo_text = (\<lambda>_. ''m'')\<rparr>"

definition demo_tables :: "(string \<Rightarrow> string option) note_tables" where
  "demo_tables = \<lparr>nb_users = [], nb_prefs = [], nb_notes = [], nb_world = Map.empty\<rparr>"

lemma demo_monitor_up: "monitor_up demo_monitor (\<lambda>w. w)"
  by (simp add: monitor_up_def notes_keep_def demo_monitor_def keeps_def)

lemma demo_balance: "balance_of demo_wallet [\<lparr>bl_type = ''native'', bl_balance = ''50'', bl_code = None, bl_issuer = None\<rparr>] = Fin 50"
  by code_simp

text \<open>The same services with a log of what is sent, a Slack channel and one user to tell.\<close>

definition demo_logged :: "((string \<Rightarrow> string option) \<times> attempt list) monitor_env" where
  "demo_logged = \<lparr>mo_notes = \<lparr>ne_db = (\<lambda>w. (Inr (), w)), ne_uuid = (\<lambda>w. (''n'', w)), ne_now = (\<lambda>_. 0), ne_var = (\<lambda>_. None), ne_smtp = False,
       ne_mail = (\<lambda>_ _ w. (Inr (), w)), ne_sendgrid = (\<lambda>_ _ w. (Inr (), w)), ne_twilio = (\<lambda>_ _ w. (Inr 200, w)), ne_fcm = (\<lambda>_ _ w. (Inr 200, w))\<rparr>,
     mo_providers = [(EMAIL, ConsoleEmail), (SMS, ConsoleSms), (PUSH, ConsolePush)],
     mo_balances = (\<lambda>_ w. (Inr [\<lparr>bl_type = ''native'', bl_balance = ''50'', bl_code = None, bl_issuer = None\<rparr>], w)),
     mo_get = (\<lambda>k w. (Inr (fst w k), w)), mo_set = (\<lambda>k v _ w. (Inr (), ((fst w)(k \<mapsto> v), snd w))), mo_del = (\<lambda>k w. (Inr (), ((fst w)(k := None), snd w))),
     mo_post = (\<lambda>u b w. (Inr 200, (fst w, snd w @ [Posted u b]))), mo_mail = (\<lambda>r m w. (Inr True, (fst w, snd w @ [Mailed r m True]))),
     mo_alertEmail = (\<lambda>r a w. (Inr (), (fst w, snd w @ [MailAlert r a]))), mo_transactions = (\<lambda>w. (Inr [], w)), mo_text = (\<lambda>_. ''m'')\<rparr>"

definition demo_people :: "((string \<Rightarrow> string option) \<times> attempt list) note_tables" where
  "demo_people = \<lparr>nb_users = [(''u1'', \<lparr>nu_publicKey = ''G1'', nu_email = Some ''a@b.c'', nu_phone = None\<rparr>)], nb_prefs = [], nb_notes = [], nb_world = (Map.empty, [])\<rparr>"

lemma demo_all_up: "all_up demo_logged fst snd"
  by (simp add: all_up_def monitor_up_def channels_logged_def tables_up_def notes_keep_def demo_logged_def keeps_def startup_providers_def registerProvider_def
      sendgrid_configured_def twilio_configured_def env_set_def truthy_str_def)

text \<open>A first check of a wallet that is low: one post to Slack with the balance, one notification by mail, and both flags set.\<close>
theorem monitor_refines_alert_machine_witness:
  "\<exists>t s' al. checkWallet demo_logged (demo_monitor_config\<lparr>mc_slackUrl := Some ''S'', mc_userIds := Some ''u1''\<rparr>) demo_wallet demo_people
        = (Inr \<lparr>sp_wallet = demo_wallet, sp_balance = Fin 50, sp_below = True, sp_checkedAt = t\<rparr>, s')
    \<and> flags fst demo_wallet s' = (True, True) \<and> snd (nb_world s') = [Posted ''S'' (SlackLow al)] \<and> al_currentBalance al = Fin 50
    \<and> List.map noted (nb_notes s') = [(''u1'', EMAIL, ''m'')]"
proof -
  let ?cfg = "demo_monitor_config\<lparr>mc_slackUrl := Some ''S'', mc_userIds := Some ''u1''\<rparr>"
  have level: "level_of demo_wallet (Fin 50) = LowLevel" by (simp add: level_of_def threshold_of_def demo_wallet_def)
  have none: "flags fst demo_wallet demo_people = (False, False)" by (simp add: flags_def seen_def demo_people_def truthy_str_def)
  have read: "mo_balances demo_logged (hw_publicKey demo_wallet) (nb_world demo_people)
      = (Inr [\<lparr>bl_type = ''native'', bl_balance = ''50'', bl_code = None, bl_issuer = None\<rparr>], nb_world demo_people)" by (simp add: demo_logged_def)
  have to: "recipients_of ''u1'' = [''u1'']" by code_simp
  have told: "notices_to ?cfg ''m'' demo_people = [(''u1'', EMAIL, ''m'')]"
    by (simp add: notices_to_def demo_monitor_config_def to told_def demo_people_def preference_of_def default_preference_def enabled_channels_def truthy_str_def)
  have posts: "low_alert ?cfg al ok = [Posted ''S'' (SlackLow al)]" for al ok by (simp add: low_alert_def demo_monitor_config_def truthy_str_def)
  have texts: "mo_text demo_logged msg = ''m''" for msg by (simp add: demo_logged_def)
  have start: "nb_notes demo_people = []" "snd (nb_world demo_people) = []" by (simp_all add: demo_people_def)
  have amount: "al_currentBalance (payload_of \<lparr>sp_wallet = demo_wallet, sp_balance = Fin 50, sp_below = True, sp_checkedAt = t\<rparr>) = Fin 50" for t
    by (simp add: payload_of_def Let_def)
  from monitor_refines_alert_machine [OF demo_all_up read, of ?cfg]
  show ?thesis unfolding demo_balance level none using amount by (auto simp: told posts texts start Let_def)
qed


theorem redis_outage_silences_alert_witness:
  "checkWallet (demo_monitor\<lparr>mo_get := (\<lambda>k w. (Inl (PlainError ''closed''), w))\<rparr>) demo_monitor_config demo_wallet demo_tables
     = (Inr \<lparr>sp_wallet = demo_wallet, sp_balance = Fin (- 1), sp_below = False, sp_checkedAt = iso_string 0\<rparr>, demo_tables)"
  using redis_outage_silences_alert [of "demo_monitor\<lparr>mo_get := (\<lambda>k w. (Inl (PlainError ''closed''), w))\<rparr>" demo_wallet demo_tables
      "[\<lparr>bl_type = ''native'', bl_balance = ''50'', bl_code = None, bl_issuer = None\<rparr>]" "nb_world demo_tables" "PlainError ''closed''" "nb_world demo_tables" demo_monitor_config]
  by (simp add: demo_balance) (simp add: demo_monitor_def demo_wallet_def threshold_of_def)

end
