(* ===== verification/Stellar_Service.thy ===== *)
theory Stellar_Service
  imports Sep10 Recurring
begin

text \<open>
  The access to the Stellar network: \<open>services/stellar.service.ts\<close>, the submission route of \<open>api/routes/transactions.route.ts\<close> and the
  switch of networks of \<open>api/routes/admin.route.ts\<close>, of \<open>backend/src\<close>. Horizon, the Soroban RPC nodes and the Stellar SDK are parameters.
  A call of theirs acts on the state of the service as well as on the world, since other requests run while it is awaited, and one of them may
  switch the network. Tracing is left out.
\<close>

section \<open>State and libraries\<close>

record stellar_config =
  sg_network :: string
  sg_horizonUrl :: string
  sg_rpcUrls :: "string option"
  sg_feeBumpSecret :: "string option"
  sg_anchorSecret :: "string option"
  sg_baseFee :: string

text \<open>A client of Horizon is held as its URL.\<close>

record 'w stellar_state =
  ns_network :: network_type
  ns_server :: string
  ns_passphrase :: string
  ns_rpcUrls :: "string list"
  ns_world :: 'w

type_synonym ('w, 'a) stellar = "('w stellar_state, js_error, 'a) eff"

record account_signer =
  as_key :: string
  as_weight :: int
  as_type :: string

record account_thresholds =
  at_low :: int
  at_med :: int
  at_high :: int

record account_signers =
  ac_signers :: "account_signer list"
  ac_thresholds :: account_thresholds

text \<open>What Horizon answers about an account: the code and the issuer of its balances are missing for XLM.\<close>

record loaded_account =
  la_sequence :: int
  la_signers :: "account_signer list"
  la_thresholds :: account_thresholds
  la_balances :: "(string option \<times> string option) list"

record submission =
  sm_hash :: string
  sm_ledger :: int
  sm_resultXdr :: "string option"

datatype payout_operation =
    PaymentOp string string string string
  | ClaimableBalanceOp string string string string

text \<open>
  \<open>hz_\<close> are the calls of Horizon, with the URL first. \<open>rp_apply\<close> calls a method of an RPC node if nodes have it. \<open>sdk_content\<close> are the
  operations, signatures and hash of a transaction, of the inner one's operations for a fee bump; \<open>sdk_balanceId\<close> reads the id of a claimable
  balance from a result.
\<close>

record ('w, 'tx) stellar_env =
  hz_load :: "string \<Rightarrow> string option \<Rightarrow> ('w, loaded_account) stellar"
  hz_submit :: "string \<Rightarrow> 'tx \<Rightarrow> ('w, submission) stellar"
  hz_fetchBaseFee :: "string \<Rightarrow> ('w, unit) stellar"
  rp_has :: "string \<Rightarrow> bool"
  rp_apply :: "string \<Rightarrow> string \<Rightarrow> json list \<Rightarrow> ('w, json) stellar"
  se_random :: "'w stellar_state \<Rightarrow> jsnum \<times> 'w stellar_state"
  se_sleep :: "jsnum \<Rightarrow> 'w stellar_state \<Rightarrow> 'w stellar_state"
  se_record :: "string \<Rightarrow> string \<Rightarrow> string \<Rightarrow> ('w, unit) stellar"
  sdk_fromSecret :: "string \<Rightarrow> js_error + string"
  sdk_asset :: "string \<Rightarrow> string \<Rightarrow> js_error + unit"
  sdk_payout :: "loaded_account \<Rightarrow> string \<Rightarrow> string \<Rightarrow> payout_operation \<Rightarrow> js_error + 'tx"
  sdk_challenge :: "string \<Rightarrow> string \<Rightarrow> stellar_op \<Rightarrow> string option \<Rightarrow> js_error + 'tx"
  sdk_sign :: "string \<Rightarrow> 'tx \<Rightarrow> 'tx"
  sdk_toXDR :: "'tx \<Rightarrow> string"
  sdk_fromXDR :: "string \<Rightarrow> string \<Rightarrow> js_error + 'tx"
  sdk_isFeeBump :: "'tx \<Rightarrow> bool"
  sdk_content :: "'tx \<Rightarrow> stellar_tx"
  sdk_source :: "'tx \<Rightarrow> string"
  sdk_feeBump :: "string \<Rightarrow> string \<Rightarrow> 'tx \<Rightarrow> string \<Rightarrow> js_error + 'tx"
  sdk_verify :: "string \<Rightarrow> js_error + (string \<Rightarrow> string \<Rightarrow> js_error + bool)"
  sdk_balanceId :: "string \<Rightarrow> js_error + string"

section \<open>Networks\<close>

text \<open>The key of \<open>NETWORKS\<close> that a text is.\<close>

definition network_key :: "string \<Rightarrow> network_type option" where
  "network_key s = (if s = ''PUBLIC'' then Some PUBLIC else if s = ''TESTNET'' then Some TESTNET else if s = ''FUTURENET'' then Some FUTURENET else None)"

definition getRpcUrls :: "stellar_config \<Rightarrow> network_type \<Rightarrow> string list" where
  "getRpcUrls cfg n = (case truthy_str (sg_rpcUrls cfg) of
     Some urls \<Rightarrow> filter (\<lambda>u. u \<noteq> []) (List.map trim_js (split_char (CHR '','') urls))
   | None \<Rightarrow> [nc_sorobanRpcUrl (NETWORKS n)])"

definition getPassphrase :: "network_type \<Rightarrow> string" where
  "getPassphrase n = nc_passphrase (NETWORKS n)"

definition getHorizonServer :: "network_type \<Rightarrow> string" where
  "getHorizonServer n = nc_horizonUrl (NETWORKS n)"

definition getSorobanRpc :: "network_type \<Rightarrow> string" where
  "getSorobanRpc n = nc_sorobanRpcUrl (NETWORKS n)"

text \<open>The constructor, and the switch to another network.\<close>

definition new_stellar_service :: "stellar_config \<Rightarrow> 'w \<Rightarrow> 'w stellar_state" where
  "new_stellar_service cfg w =
     (let n = (case network_key (upper_text (sg_network cfg)) of Some n \<Rightarrow> n | None \<Rightarrow> TESTNET)
      in \<lparr>ns_network = n, ns_server = sg_horizonUrl cfg, ns_passphrase = getPassphrase n, ns_rpcUrls = getRpcUrls cfg n, ns_world = w\<rparr>)"

definition setNetwork :: "stellar_config \<Rightarrow> string \<Rightarrow> ('w, unit) stellar" where
  "setNetwork cfg network = (case network_key network of
     None \<Rightarrow> ethrow (PlainError (''Invalid network type: '' @ network))
   | Some n \<Rightarrow> emodify (\<lambda>s. s\<lparr>ns_network := n, ns_server := getHorizonServer n, ns_passphrase := getPassphrase n, ns_rpcUrls := getRpcUrls cfg n\<rparr>))"

section \<open>Retries and failover\<close>

definition RETRYABLE_HORIZON_STATUS_CODES :: "int list" where
  "RETRYABLE_HORIZON_STATUS_CODES = [429, 502, 503, 504]"

definition retryable_status :: "js_error \<Rightarrow> bool" where
  "retryable_status e \<longleftrightarrow> (case response_field er_status e of Some c \<Rightarrow> c \<in> set RETRYABLE_HORIZON_STATUS_CODES | None \<Rightarrow> False)"

definition backoff_pause :: "('w, 'tx) stellar_env \<Rightarrow> nat \<Rightarrow> ('w, unit) stellar" where
  "backoff_pause env attempt s = (case se_random env s of (r, s') \<Rightarrow>
     (Inr (), se_sleep env (js_add (Fin (2 ^ attempt * 500)) (js_mul r (Fin 250))) s'))"

text \<open>The attempts that are left after this one, and its number.\<close>

fun retry_from :: "('w, 'tx) stellar_env \<Rightarrow> nat \<Rightarrow> nat \<Rightarrow> ('w, 'a) stellar \<Rightarrow> ('w, 'a) stellar" where
  "retry_from env 0 attempt call = call"
| "retry_from env (Suc left) attempt call = ecatch call (\<lambda>e.
     if retryable_status e then ebind (backoff_pause env attempt) (\<lambda>_. retry_from env left (Suc attempt) call) else ethrow e)"

definition retryHorizonRequest :: "('w, 'tx) stellar_env \<Rightarrow> ('w, 'a) stellar \<Rightarrow> ('w, 'a) stellar" where
  "retryHorizonRequest env call = retry_from env 3 0 call"

definition server_failed :: "js_error \<Rightarrow> bool" where
  "server_failed e \<longleftrightarrow> (case response_field er_status e of Some c \<Rightarrow> c \<noteq> 0 \<and> 500 \<le> c | None \<Rightarrow> False)"

text \<open>The last error, once there are no nodes left.\<close>

definition all_failed :: "js_error option \<Rightarrow> js_error" where
  "all_failed last_error = (case last_error of Some e \<Rightarrow> e | None \<Rightarrow> PlainError ''All RPC servers failed'')"

definition rpc_missing :: "string \<Rightarrow> js_error" where
  "rpc_missing method = PlainError (''RPC method '' @ [CHR 0x27] @ method @ [CHR 0x27] @ '' not found on rpc.Server'')"

fun rpc_over :: "('w, 'tx) stellar_env \<Rightarrow> string \<Rightarrow> json list \<Rightarrow> js_error option \<Rightarrow> string list \<Rightarrow> ('w, json) stellar" where
  "rpc_over env method args last_error [] = ethrow (all_failed last_error)"
| "rpc_over env method args last_error (url # urls) =
     ecatch (if rp_has env method then rp_apply env url method args else ethrow (rpc_missing method))
       (\<lambda>e. if server_failed e then rpc_over env method args (Some e) urls else ethrow e)"

definition executeRpcWithFailover :: "('w, 'tx) stellar_env \<Rightarrow> string \<Rightarrow> json list \<Rightarrow> ('w, json) stellar" where
  "executeRpcWithFailover env method args = ebind (eget ns_rpcUrls) (\<lambda>urls. rpc_over env method args None urls)"

text \<open>A call of a method of the proxy that \<open>getSorobanRpcWithFailover\<close> returns for these nodes; with one node there is no proxy.\<close>

definition proxied_call :: "('w, 'tx) stellar_env \<Rightarrow> network_type \<Rightarrow> string list \<Rightarrow> string \<Rightarrow> json list \<Rightarrow> ('w, json) stellar" where
  "proxied_call env n urls method args =
     (if length urls \<le> 1 then rp_apply env (getSorobanRpc n) method args else rpc_over env method args None urls)"

section \<open>Accounts and payments\<close>

definition loadAccount :: "('w, 'tx) stellar_env \<Rightarrow> string option \<Rightarrow> ('w, loaded_account) stellar" where
  "loadAccount env accountId = ebind (eget (\<lambda>s. getHorizonServer (ns_network s))) (\<lambda>server.
     retryHorizonRequest env (hz_load env server accountId))"

definition getAccountSigners :: "('w, 'tx) stellar_env \<Rightarrow> string option \<Rightarrow> ('w, account_signers) stellar" where
  "getAccountSigners env accountId = ebind (loadAccount env accountId) (\<lambda>a.
     ereturn \<lparr>ac_signers = la_signers a, ac_thresholds = la_thresholds a\<rparr>)"

definition hasTrustline :: "('w, 'tx) stellar_env \<Rightarrow> string \<Rightarrow> string \<Rightarrow> string \<Rightarrow> ('w, bool) stellar" where
  "hasTrustline env accountPublicKey assetCode assetIssuer = ebind (loadAccount env (Some accountPublicKey)) (\<lambda>a.
     ereturn (list_ex (\<lambda>(code, issuer). code = Some assetCode \<and> issuer = Some assetIssuer) (la_balances a)))"

definition account_missing :: "js_error \<Rightarrow> bool" where
  "account_missing e \<longleftrightarrow> response_field er_status e = Some 404 \<or> (case e of OtherErr name _ _ _ _ _ _ _ \<Rightarrow> name = ''NotFoundError'' | _ \<Rightarrow> False)"

definition recipient_ready :: "('w, 'tx) stellar_env \<Rightarrow> string \<Rightarrow> string \<Rightarrow> string \<Rightarrow> ('w, bool) stellar" where
  "recipient_ready env recipient assetCode assetIssuer =
     ecatch (hasTrustline env recipient assetCode assetIssuer) (\<lambda>e. if account_missing e then ereturn False else ethrow e)"

record payout_request =
  pr_senderSecret :: string
  pr_recipient :: string
  pr_assetCode :: string
  pr_assetIssuer :: string
  pr_amount :: string
  pr_transactionId :: "string option"

record payout_result =
  py_hash :: string
  py_claimableBalanceId :: "string option"
  py_usedClaimableBalance :: bool

definition payout_operation_for :: "payout_request \<Rightarrow> bool \<Rightarrow> payout_operation" where
  "payout_operation_for r ready =
     (if ready then PaymentOp (pr_recipient r) (pr_assetCode r) (pr_assetIssuer r) (pr_amount r)
      else ClaimableBalanceOp (pr_assetCode r) (pr_assetIssuer r) (pr_amount r) (pr_recipient r))"

definition claimable_id :: "('w, 'tx) stellar_env \<Rightarrow> bool \<Rightarrow> submission \<Rightarrow> string option" where
  "claimable_id env ready response =
     (if ready then None
      else case truthy_str (sm_resultXdr response) of
        None \<Rightarrow> None
      | Some x \<Rightarrow> (case sdk_balanceId env x of Inr i \<Rightarrow> Some i | Inl _ \<Rightarrow> None))"

text \<open>The note on the transaction; a failure is logged.\<close>

definition record_claimable :: "('w, 'tx) stellar_env \<Rightarrow> payout_request \<Rightarrow> string option \<Rightarrow> string \<Rightarrow> ('w, unit) stellar" where
  "record_claimable env r balance hash = (case (truthy_str (pr_transactionId r), truthy_str balance) of
     (Some i, Some b) \<Rightarrow> ecatch (se_record env i b hash) (\<lambda>_. ereturn ())
   | _ \<Rightarrow> ereturn ())"

definition base_fee :: "stellar_config \<Rightarrow> string" where
  "base_fee cfg = (if sg_baseFee cfg = [] then ''100'' else sg_baseFee cfg)"

text \<open>After the transaction has been submitted.\<close>

definition settle_payout :: "('w, 'tx) stellar_env \<Rightarrow> payout_request \<Rightarrow> bool \<Rightarrow> submission \<Rightarrow> ('w, payout_result) stellar" where
  "settle_payout env r ready response = (let balance = claimable_id env ready response in
     ebind (record_claimable env r balance (sm_hash response)) (\<lambda>_.
     ereturn \<lparr>py_hash = sm_hash response, py_claimableBalanceId = balance, py_usedClaimableBalance = (\<not> ready)\<rparr>))"

definition submit_payout ::
  "('w, 'tx) stellar_env \<Rightarrow> stellar_config \<Rightarrow> payout_request \<Rightarrow> string \<Rightarrow> string \<Rightarrow> loaded_account \<Rightarrow> bool \<Rightarrow> ('w, payout_result) stellar" where
  "submit_payout env cfg r server passphrase account ready =
     ebind (elift (sdk_payout env account (base_fee cfg) passphrase (payout_operation_for r ready))) (\<lambda>tx.
     ebind (retryHorizonRequest env (hz_submit env server (sdk_sign env (pr_senderSecret r) tx))) (\<lambda>response.
     settle_payout env r ready response))"

definition sendPaymentWithClaimableFallback :: "('w, 'tx) stellar_env \<Rightarrow> stellar_config \<Rightarrow> payout_request \<Rightarrow> ('w, payout_result) stellar" where
  "sendPaymentWithClaimableFallback env cfg r =
     ebind (elift (sdk_fromSecret env (pr_senderSecret r))) (\<lambda>sender.
     ebind (eget (\<lambda>s. (getHorizonServer (ns_network s), getPassphrase (ns_network s)))) (\<lambda>(server, passphrase).
     ebind (retryHorizonRequest env (hz_load env server (Some sender))) (\<lambda>account.
     ebind (elift (sdk_asset env (pr_assetCode r) (pr_assetIssuer r))) (\<lambda>_.
     ebind (recipient_ready env (pr_recipient r) (pr_assetCode r) (pr_assetIssuer r)) (\<lambda>ready.
     submit_payout env cfg r server passphrase account ready)))))"

section \<open>Challenges\<close>

definition convertToSignerInfo :: "account_signers \<Rightarrow> (string \<times> int \<times> bool) list" where
  "convertToSignerInfo a = List.map (\<lambda>g. (as_key g, as_weight g, False)) (ac_signers a)"

definition getThresholdRequirements :: "account_signers \<Rightarrow> int \<times> int \<times> int" where
  "getThresholdRequirements a = (at_low (ac_thresholds a), at_med (ac_thresholds a), at_high (ac_thresholds a))"

definition server_secret :: "stellar_config \<Rightarrow> string" where
  "server_secret cfg = (case truthy_str (sg_anchorSecret cfg) of Some k \<Rightarrow> k | None \<Rightarrow> [])"

definition challenge_name :: "string \<Rightarrow> string" where
  "challenge_name domain = domain @ '' auth''"

definition buildChallengeTransaction ::
  "('w, 'tx) stellar_env \<Rightarrow> stellar_config \<Rightarrow> string \<Rightarrow> string \<Rightarrow> string \<Rightarrow> string \<Rightarrow> string option \<Rightarrow> ('w, string) stellar" where
  "buildChallengeTransaction env cfg serverAccountId clientAccountId challenge domain memo =
     ebind (eget (\<lambda>s. getPassphrase (ns_network s))) (\<lambda>passphrase.
     ebind (elift (sdk_fromSecret env (server_secret cfg))) (\<lambda>key.
     ebind (ethrow_if (key \<noteq> serverAccountId) (PlainError ''Server account ID does not match secret key'')) (\<lambda>_.
     ebind (elift (sdk_challenge env serverAccountId passphrase (manage_data (challenge_name domain) challenge clientAccountId) (truthy_str memo))) (\<lambda>tx.
     ereturn (sdk_toXDR env (sdk_sign env (server_secret cfg) tx))))))"

datatype challenge_check =
    ChallengeChecked bool "string option" "string list"
  | ChallengeRefused string

text \<open>\<open>some\<close> over the signatures, which stops at the first that verifies or throws.\<close>

fun some_signature :: "(string \<Rightarrow> string \<Rightarrow> js_error + bool) \<Rightarrow> string \<Rightarrow> string list \<Rightarrow> js_error + bool" where
  "some_signature verify h [] = Inr False"
| "some_signature verify h (sig # sigs) = (case verify h sig of
     Inl e \<Rightarrow> Inl e | Inr True \<Rightarrow> Inr True | Inr False \<Rightarrow> some_signature verify h sigs)"

definition is_challenge_operation :: "string \<Rightarrow> stellar_op \<Rightarrow> bool" where
  "is_challenge_operation domain op \<longleftrightarrow> op_type op = ''manage_data'' \<and> op_name op = challenge_name domain"

definition signer_verifies :: "('w, 'tx) stellar_env \<Rightarrow> string \<Rightarrow> string \<Rightarrow> account_signer \<Rightarrow> bool" where
  "signer_verifies env h sig signer = (case sdk_verify env (as_key signer) of Inl _ \<Rightarrow> False | Inr verify \<Rightarrow> verify h sig = Inr True)"

text \<open>The first signer of the account for each signature.\<close>

definition valid_signers :: "('w, 'tx) stellar_env \<Rightarrow> stellar_tx \<Rightarrow> account_signers \<Rightarrow> string list" where
  "valid_signers env c a = List.map_filter (\<lambda>sig. map_option as_key (List.find (signer_verifies env (stx_hash c) sig) (ac_signers a))) (stx_signatures c)"

definition verifyChallengeTransaction :: "('w, 'tx) stellar_env \<Rightarrow> stellar_config \<Rightarrow> string \<Rightarrow> string \<Rightarrow> ('w, challenge_check) stellar" where
  "verifyChallengeTransaction env cfg transactionXdr domain =
     ecatch
       (ebind (eget (\<lambda>s. getPassphrase (ns_network s))) (\<lambda>passphrase.
        ebind (elift (sdk_fromXDR env transactionXdr passphrase)) (\<lambda>tx.
        ebind (elift (sdk_fromSecret env (server_secret cfg))) (\<lambda>key.
        ebind (elift (case sdk_verify env key of Inl e \<Rightarrow> Inl e
                 | Inr verify \<Rightarrow> some_signature verify (stx_hash (sdk_content env tx)) (stx_signatures (sdk_content env tx)))) (\<lambda>by_server.
        if \<not> by_server then ereturn (ChallengeRefused ''Invalid server signature'')
        else (case List.find (is_challenge_operation domain) (stx_operations (sdk_content env tx)) of
                None \<Rightarrow> ereturn (ChallengeRefused ''Invalid challenge operation'')
              | Some op \<Rightarrow> ebind (getAccountSigners env (op_source op)) (\<lambda>a.
                  let keys = valid_signers env (sdk_content env tx) a
                  in ereturn (ChallengeChecked (keys \<noteq> []) (op_source op) keys))))))))
       (\<lambda>e. ereturn (ChallengeRefused (case error_message e of Some m \<Rightarrow> m | None \<Rightarrow> ''Transaction verification failed'')))"

section \<open>Submission\<close>

definition ALLOWED_OPERATIONS :: "string list" where
  "ALLOWED_OPERATIONS = [''payment'', ''changeTrust'', ''manageData'', ''setOptions'', ''manageBuyOffer'', ''manageSellOffer'', ''createAccount'']"

definition not_whitelisted :: "string \<Rightarrow> js_error" where
  "not_whitelisted t = PlainError (''Operation type '' @ [CHR 0x27] @ t @ [CHR 0x27] @ '' is not whitelisted for this endpoint'')"

fun validateOperations :: "stellar_op list \<Rightarrow> js_error + unit" where
  "validateOperations [] = Inr ()"
| "validateOperations (op # ops) = (if op_type op \<notin> set ALLOWED_OPERATIONS then Inl (not_whitelisted (op_type op)) else validateOperations ops)"

text \<open>What is sent: the transaction, or a fee bump around it where a key for that is configured.\<close>

definition final_tx :: "('w, 'tx) stellar_env \<Rightarrow> stellar_config \<Rightarrow> string \<Rightarrow> 'tx \<Rightarrow> js_error + 'tx" where
  "final_tx env cfg passphrase tx = (case truthy_str (sg_feeBumpSecret cfg) of
     None \<Rightarrow> Inr tx
   | Some secret \<Rightarrow> (case sdk_fromSecret env secret of Inl e \<Rightarrow> Inl e | Inr _ \<Rightarrow> sdk_feeBump env secret (sg_baseFee cfg) tx passphrase))"

definition checked_tx :: "('w, 'tx) stellar_env \<Rightarrow> stellar_config \<Rightarrow> string \<Rightarrow> string \<Rightarrow> js_error + 'tx" where
  "checked_tx env cfg passphrase xdr = (case sdk_fromXDR env xdr passphrase of
     Inl e \<Rightarrow> Inl e
   | Inr tx \<Rightarrow>
       if sdk_isFeeBump env tx then Inl (PlainError ''Direct submission of fee-bump transactions is not allowed'')
       else (case validateOperations (stx_operations (sdk_content env tx)) of Inl e \<Rightarrow> Inl e | Inr _ \<Rightarrow> final_tx env cfg passphrase tx))"

text \<open>\<open>JSON.stringify\<close> of the codes, in the order in which Horizon has them.\<close>

definition codes_json :: "result_codes \<Rightarrow> json" where
  "codes_json c = JObj ((case rc_transaction c of Some t \<Rightarrow> [(''transaction'', JStr t)] | None \<Rightarrow> [])
     @ (case rc_operations c of Some ops \<Rightarrow> [(''operations'', JArr (List.map JStr ops))] | None \<Rightarrow> []))"

text \<open>\<open>error.message\<close>.\<close>

definition failure_text :: "js_error \<Rightarrow> string" where
  "failure_text e = (case error_message e of Some m \<Rightarrow> m | None \<Rightarrow> [])"

definition submission_message :: "js_error \<Rightarrow> string" where
  "submission_message e = (case response_field er_data_extras e of
     Some c \<Rightarrow> (if rc_operations c \<noteq> None then ''Stellar Error: '' @ json_stringify (codes_json c) else failure_text e)
   | None \<Rightarrow> failure_text e)"

definition submitTransaction :: "('w, 'tx) stellar_env \<Rightarrow> stellar_config \<Rightarrow> string \<Rightarrow> ('w, submission) stellar" where
  "submitTransaction env cfg xdr =
     ecatch
       (ebind (eget (\<lambda>s. (getPassphrase (ns_network s), getHorizonServer (ns_network s)))) (\<lambda>(passphrase, server).
        ebind (elift (checked_tx env cfg passphrase xdr)) (\<lambda>tx.
        retryHorizonRequest env (hz_submit env server tx))))
       (\<lambda>e. ethrow (PlainError (submission_message e)))"

definition getSourceAccountFromXDR :: "('w, 'tx) stellar_env \<Rightarrow> string \<Rightarrow> js_error + string" where
  "getSourceAccountFromXDR env xdr = (case sdk_fromXDR env xdr (getPassphrase TESTNET) of
     Inl _ \<Rightarrow> Inl (PlainError ''Invalid transaction XDR'')
   | Inr tx \<Rightarrow> Inr (sdk_source env tx))"

section \<open>Health and endpoints\<close>

definition up_if :: "('w, 'a) stellar \<Rightarrow> ('w, bool) stellar" where
  "up_if call = ecatch (ebind call (\<lambda>_. ereturn True)) (\<lambda>_. ereturn False)"

definition getHealth :: "('w, 'tx) stellar_env \<Rightarrow> ('w, bool) stellar" where
  "getHealth env = ebind (eget (\<lambda>s. getSorobanRpc (ns_network s))) (\<lambda>url. up_if (rp_apply env url ''getLatestLedger'' []))"

definition getHorizonHealth :: "('w, 'tx) stellar_env \<Rightarrow> ('w, bool) stellar" where
  "getHorizonHealth env = ebind (eget (\<lambda>s. getHorizonServer (ns_network s))) (\<lambda>server. up_if (hz_fetchBaseFee env server))"

datatype submit_reply = Submitted string int | SubmitRefused int string

text \<open>\<open>POST /submit\<close>, after the body has been checked.\<close>

definition post_submission :: "('w, 'tx) stellar_env \<Rightarrow> stellar_config \<Rightarrow> string \<Rightarrow> ('w, submit_reply) stellar" where
  "post_submission env cfg xdr =
     ecatch (ebind (submitTransaction env cfg xdr) (\<lambda>r. ereturn (Submitted (sm_hash r) (sm_ledger r))))
       (\<lambda>e. ereturn (SubmitRefused 400 (failure_text e)))"

datatype network_reply = Switched string | SwitchInvalid | SwitchFailed string

text \<open>\<open>switchNetworkSchema\<close>.\<close>

definition switch_networks :: "string list" where
  "switch_networks = [''testnet'', ''mainnet'']"

text \<open>What is reported to the audit: the networks before and after, or the network that was asked for and the error.\<close>

datatype network_change = ChangedFrom network_type string | ChangeFailed string string

text \<open>\<open>POST /network\<close> of the administration; the audit is a parameter, and what it throws in the end is thrown.\<close>

definition post_network :: "(network_change \<Rightarrow> ('w, unit) stellar) \<Rightarrow> stellar_config \<Rightarrow> string \<Rightarrow> ('w, network_reply) stellar" where
  "post_network audit cfg network =
     (if network \<notin> set switch_networks then ereturn SwitchInvalid
      else ecatch
        (ebind (eget ns_network) (\<lambda>previous.
         ebind (setNetwork cfg network) (\<lambda>_.
         ebind (audit (ChangedFrom previous network)) (\<lambda>_.
         ereturn (Switched network)))))
        (\<lambda>e. ebind (audit (ChangeFailed network (failure_text e))) (\<lambda>_. ereturn (SwitchFailed (failure_text e)))))"

text \<open>
  Properties of the access to the network: the bounds of the retries and of the failover, what is submitted, how a payout chooses its path, and
  what the switch of networks and the challenges come to.
\<close>

section \<open>Counting calls\<close>

lemma retry_counts:
  fixes calls :: "'w stellar_state \<Rightarrow> nat"
  assumes "\<And>s. calls (snd (call s)) = Suc (calls s)" and "\<And>k. keeps calls (backoff_pause env k)"
  shows "retry_from env left k call s = (r, s') \<Longrightarrow> calls s < calls s' \<and> calls s' \<le> calls s + Suc left
    \<and> ((\<exists>e. r = Inl e \<and> retryable_status e) \<longrightarrow> calls s' = calls s + Suc left)"
proof (induction left arbitrary: k s r s')
  case 0
  then have "s' = snd (call s)" by simp
  then show ?case using assms(1) [of s] by simp
next
  case (Suc left)
  obtain r1 s1 where c: "call s = (r1, s1)" by force
  have s1: "calls s1 = Suc (calls s)" using assms(1) [of s] c by simp
  obtain p s2 where p: "backoff_pause env k s1 = (p, s2)" by force
  have pu: "p = Inr ()" using p by (auto simp: backoff_pause_def split: prod.splits)
  have s2: "calls s2 = Suc (calls s)" using keeps_result [OF assms(2) p] s1 by simp
  show ?case
  proof (cases r1)
    case (Inr x)
    then show ?thesis using Suc.prems c s1 by (auto simp: ecatch_def)
  next
    case (Inl e)
    show ?thesis
    proof (cases "retryable_status e")
      case True
      then have "retry_from env left (Suc k) call s2 = (r, s')" using Suc.prems c Inl p pu by (simp add: ecatch_def ebind_def)
      from Suc.IH [OF this] s2 show ?thesis by auto
    next
      case False
      then show ?thesis using Suc.prems c Inl s1 by (auto simp: ecatch_def ethrow_def)
    qed
  qed
qed

lemma retry_fails:
  assumes "\<And>s. \<exists>e s'. call s = (Inl e, s')"
  shows "\<exists>e s'. retry_from env left k call s = (Inl e, s')"
proof (induction left arbitrary: k s)
  case 0
  then show ?case using assms by simp
next
  case (Suc left)
  obtain e s1 where c: "call s = (Inl e, s1)" using assms by blast
  obtain s2 where p: "backoff_pause env k s1 = (Inr (), s2)" by (cases "se_random env s1") (auto simp: backoff_pause_def)
  show ?case using Suc.IH [of "Suc k" s2] c p by (simp add: ecatch_def ebind_def ethrow_def)
qed

lemma failover_counts:
  fixes calls :: "'w stellar_state \<Rightarrow> nat"
  assumes "rp_has env method" and "\<And>url s. calls (snd (rp_apply env url method args s)) = Suc (calls s)"
  shows "rpc_over env method args last_error urls s = (r, s') \<Longrightarrow> calls s' \<le> calls s + length urls
    \<and> ((\<exists>e. r = Inl e \<and> server_failed e) \<longrightarrow> calls s' = calls s + length urls)"
proof (induction urls arbitrary: last_error s)
  case Nil
  then show ?case by (simp add: ethrow_def)
next
  case (Cons url urls)
  obtain r1 s1 where c: "rp_apply env url method args s = (r1, s1)" by force
  have s1: "calls s1 = Suc (calls s)" using assms(2) [of url s] c by simp
  show ?case
  proof (cases "\<exists>e. r1 = Inl e \<and> server_failed e")
    case True
    then obtain e where e: "r1 = Inl e" "server_failed e" by blast
    then have "rpc_over env method args (Some e) urls s1 = (r, s')" using Cons.prems c assms(1) by (simp add: ecatch_def)
    from Cons.IH [OF this] s1 show ?thesis by simp
  next
    case False
    then have "r = r1" "s' = s1" using Cons.prems c assms(1) by (auto simp: ecatch_def ethrow_def split: sum.splits if_splits)
    then show ?thesis using s1 False by auto
  qed
qed

text \<open>A request to Horizon is made at least once and at most four times; when it fails in the end with a status that is worth
  a retry, it was made four times. \<open>calls\<close> counts the calls of the request, which pauses do not change.\<close>
theorem horizon_retry_bounded:
  fixes calls :: "'w stellar_state \<Rightarrow> nat"
  assumes "\<And>s. calls (snd (call s)) = Suc (calls s)" and "\<And>k. keeps calls (backoff_pause env k)"
    and "retryHorizonRequest env call s = (r, s')"
  shows "calls s < calls s' \<and> calls s' \<le> calls s + 4 \<and> ((\<exists>e. r = Inl e \<and> retryable_status e) \<longrightarrow> calls s' = calls s + 4)"
  using retry_counts [of calls call env 3 0 s r s'] assms by (simp add: retryHorizonRequest_def)

text \<open>A call of an RPC node asks each configured node at most once, in their order, and when it fails with a failure of a
  server it has asked all of them.\<close>
theorem failover_asks_every_node:
  fixes calls :: "'w stellar_state \<Rightarrow> nat"
  assumes "rp_has env method" and "\<And>url s. calls (snd (rp_apply env url method args s)) = Suc (calls s)"
    and "executeRpcWithFailover env method args s = (r, s')"
  shows "calls s' \<le> calls s + length (ns_rpcUrls s) \<and> ((\<exists>e. r = Inl e \<and> server_failed e) \<longrightarrow> calls s' = calls s + length (ns_rpcUrls s))"
proof -
  have "rpc_over env method args None (ns_rpcUrls s) s = (r, s')" using assms(3) by (simp add: executeRpcWithFailover_def ebind_def eget_def)
  from failover_counts [OF assms(1,2) this] show ?thesis .
qed

text \<open>A node that cannot be reached, so that the error has no response, ends the call: the other nodes are not asked.\<close>
theorem unreachable_node_ends_call:
  assumes "ns_rpcUrls s = url # urls" and "rp_has env method"
    and "rp_apply env url method args s = (Inl e, s')" and "response_field er_status e = None"
  shows "executeRpcWithFailover env method args s = (Inl e, s')"
  using assms by (simp add: executeRpcWithFailover_def ebind_def eget_def ecatch_def ethrow_def server_failed_def)

section \<open>What is submitted\<close>

lemma validateOperations_ok: "validateOperations ops = Inr () \<longleftrightarrow> (\<forall>op \<in> set ops. op_type op \<in> set ALLOWED_OPERATIONS)"
  by (induction ops) auto

lemma checked_tx_ok:
  assumes "checked_tx env cfg passphrase xdr = Inr tx"
  obtains t where "sdk_fromXDR env xdr passphrase = Inr t" and "\<not> sdk_isFeeBump env t"
    and "\<forall>op \<in> set (stx_operations (sdk_content env t)). op_type op \<in> set ALLOWED_OPERATIONS" and "final_tx env cfg passphrase t = Inr tx"
  using assms that unfolding checked_tx_def by (auto split: sum.splits if_splits simp: validateOperations_ok)

lemma submit_unfold: "submitTransaction env cfg xdr s =
   (case checked_tx env cfg (getPassphrase (ns_network s)) xdr of
      Inl e \<Rightarrow> (Inl (PlainError (submission_message e)), s)
    | Inr tx \<Rightarrow> ecatch (retryHorizonRequest env (hz_submit env (getHorizonServer (ns_network s)) tx))
        (\<lambda>e. ethrow (PlainError (submission_message e))) s)"
  by (auto simp: submitTransaction_def ecatch_def ebind_def eget_def elift_def ethrow_def ereturn_def split: sum.splits)

text \<open>C30. Nothing but what reads as a transaction of the current network, is no fee bump itself and has only operations of the
  list reaches Horizon: for anything else the call throws and leaves the state as it is.\<close>
theorem only_whitelisted_reach_horizon:
  assumes "submitTransaction env cfg xdr s = (r, s')" and "(\<exists>x. r = Inr x) \<or> s' \<noteq> s"
  shows "\<exists>tx. sdk_fromXDR env xdr (getPassphrase (ns_network s)) = Inr tx \<and> \<not> sdk_isFeeBump env tx
    \<and> (\<forall>op \<in> set (stx_operations (sdk_content env tx)). op_type op \<in> set ALLOWED_OPERATIONS)"
proof (cases "checked_tx env cfg (getPassphrase (ns_network s)) xdr")
  case (Inl e)
  then show ?thesis using assms by (auto simp: submit_unfold)
next
  case (Inr tx)
  then show ?thesis by (rule checked_tx_ok) blast
qed

text \<open>C37. With a key for fee bumps configured no submission succeeds: the fee bump around the transaction is never signed, and
  Horizon refuses a transaction without signatures.\<close>
theorem fee_bump_never_accepted:
  assumes "truthy_str (sg_feeBumpSecret cfg) = Some secret"
    and "\<And>f t p b. sdk_feeBump env secret f t p = Inr b \<Longrightarrow> stx_signatures (sdk_content env b) = []"
    and "\<And>url t s. stx_signatures (sdk_content env t) = [] \<Longrightarrow> \<exists>e s'. hz_submit env url t s = (Inl e, s')"
  shows "\<exists>m. fst (submitTransaction env cfg xdr s) = Inl (PlainError m)"
proof (cases "checked_tx env cfg (getPassphrase (ns_network s)) xdr")
  case (Inl e)
  then show ?thesis by (simp add: submit_unfold)
next
  case (Inr tx)
  obtain t where "final_tx env cfg (getPassphrase (ns_network s)) t = Inr tx" using Inr by (rule checked_tx_ok)
  then have "stx_signatures (sdk_content env tx) = []" using assms(1,2) by (auto simp: final_tx_def split: sum.splits)
  then have "\<exists>e s'. hz_submit env (getHorizonServer (ns_network s)) tx s1 = (Inl e, s')" for s1 by (rule assms(3))
  then have "\<exists>e s'. retryHorizonRequest env (hz_submit env (getHorizonServer (ns_network s)) tx) s = (Inl e, s')"
    unfolding retryHorizonRequest_def by (rule retry_fails)
  then show ?thesis using Inr by (auto simp: submit_unfold ecatch_def ethrow_def)
qed

section \<open>Payouts\<close>

lemma record_never_throws: "\<exists>s'. record_claimable env r balance hash s = (Inr (), s')"
  by (cases "truthy_str (pr_transactionId r)"; cases "truthy_str balance")
     (auto simp: record_claimable_def ecatch_def ereturn_def split: prod.splits sum.splits)

lemma recipient_found:
  "recipient_ready env a c i s = (case loadAccount env (Some a) s of
     (Inr acc, s') \<Rightarrow> (Inr ((Some c, Some i) \<in> set (la_balances acc)), s')
   | (Inl e, s') \<Rightarrow> if account_missing e then (Inr False, s') else (Inl e, s'))"
proof -
  have "list_ex (\<lambda>(code, issuer). code = Some c \<and> issuer = Some i) ls \<longleftrightarrow> (Some c, Some i) \<in> set ls" for ls
    by (induction ls) auto
  then show ?thesis
    by (auto simp: recipient_ready_def hasTrustline_def ebind_def ecatch_def ereturn_def ethrow_def split: prod.splits sum.splits)
qed

text \<open>What the transaction of a payout is, once it is known whether the recipient can be paid; and what is left to do when Horizon has taken it.\<close>

definition payout_result_for :: "('w, 'tx) stellar_env \<Rightarrow> bool \<Rightarrow> submission \<Rightarrow> payout_result" where
  "payout_result_for env ready response =
     \<lparr>py_hash = sm_hash response,
      py_claimableBalanceId = (if ready then None else case truthy_str (sm_resultXdr response) of
         None \<Rightarrow> None | Some x \<Rightarrow> (case sdk_balanceId env x of Inr i \<Rightarrow> Some i | Inl _ \<Rightarrow> None)),
      py_usedClaimableBalance = (\<not> ready)\<rparr>"

definition after_record :: "('w, 'tx) stellar_env \<Rightarrow> payout_request \<Rightarrow> payout_result \<Rightarrow> 'w stellar_state \<Rightarrow> 'w stellar_state" where
  "after_record env r result s = (case (truthy_str (pr_transactionId r), truthy_str (py_claimableBalanceId result)) of
     (Some i, Some b) \<Rightarrow> snd (se_record env i b (py_hash result) s) | _ \<Rightarrow> s)"

lemma settle_payout_result: "settle_payout env r ready response s = (Inr (payout_result_for env ready response), after_record env r (payout_result_for env ready response) s)"
proof -
  have "claimable_id env ready response = py_claimableBalanceId (payout_result_for env ready response)"
    by (simp add: claimable_id_def payout_result_for_def)
  then show ?thesis
    by (auto simp: settle_payout_def record_claimable_def after_record_def ebind_def ecatch_def ereturn_def Let_def payout_result_for_def claimable_id_def
        split: prod.splits sum.splits option.splits)
qed

lemma submit_payout_result:
  "submit_payout env cfg r server passphrase account ready s = (Inr result, s') \<longleftrightarrow>
     (\<exists>tx response s3. sdk_payout env account (base_fee cfg) passphrase (payout_operation_for r ready) = Inr tx
        \<and> retryHorizonRequest env (hz_submit env server (sdk_sign env (pr_senderSecret r) tx)) s = (Inr response, s3)
        \<and> result = payout_result_for env ready response \<and> s' = after_record env r result s3)"
  by (auto simp: submit_payout_def ebind_def elift_def settle_payout_result split: prod.splits sum.splits)

text \<open>C31. A payout returns a result exactly when the account of the sender was read, the account of the recipient was read or does not exist, the transaction
  could be built and Horizon took it, signed by the sender. What is built is a payment of the amount of the asset to the recipient when the account of the
  recipient has a balance of that code and issuer, and otherwise a claimable balance of that amount which the recipient can claim. The result has the
  hash of Horizon, and for a claimable balance the id that its result names, which is recorded against the transaction when one is given. When the
  account of the recipient cannot be read for another reason than that it does not exist, the payout ends with that error, and nothing is built or submitted.
\<close>
theorem payout_path:
  "(sendPaymentWithClaimableFallback env cfg r s = (Inr result, s') \<longleftrightarrow>
     (\<exists>sender account s1 found s2 ready tx response s3.
        sdk_fromSecret env (pr_senderSecret r) = Inr sender \<and> loadAccount env (Some sender) s = (Inr account, s1)
        \<and> sdk_asset env (pr_assetCode r) (pr_assetIssuer r) = Inr ()
        \<and> loadAccount env (Some (pr_recipient r)) s1 = (found, s2) \<and> (\<forall>e. found = Inl e \<longrightarrow> account_missing e)
        \<and> ready = (\<exists>a. found = Inr a \<and> (Some (pr_assetCode r), Some (pr_assetIssuer r)) \<in> set (la_balances a))
        \<and> sdk_payout env account (base_fee cfg) (getPassphrase (ns_network s))
            (if ready then PaymentOp (pr_recipient r) (pr_assetCode r) (pr_assetIssuer r) (pr_amount r)
             else ClaimableBalanceOp (pr_assetCode r) (pr_assetIssuer r) (pr_amount r) (pr_recipient r)) = Inr tx
        \<and> retryHorizonRequest env (hz_submit env (getHorizonServer (ns_network s)) (sdk_sign env (pr_senderSecret r) tx)) s2 = (Inr response, s3)
        \<and> result = payout_result_for env ready response \<and> s' = after_record env r result s3))
   \<and> (\<forall>sender account s1 e s2. sdk_fromSecret env (pr_senderSecret r) = Inr sender \<and> loadAccount env (Some sender) s = (Inr account, s1)
        \<and> sdk_asset env (pr_assetCode r) (pr_assetIssuer r) = Inr ()
        \<and> loadAccount env (Some (pr_recipient r)) s1 = (Inl e, s2) \<and> \<not> account_missing e
        \<longrightarrow> sendPaymentWithClaimableFallback env cfg r s = (Inl e, s2))"
proof -
  have load: "retryHorizonRequest env (hz_load env (getHorizonServer (ns_network s)) (Some a)) s = loadAccount env (Some a) s" for a
    by (simp add: loadAccount_def ebind_def eget_def)
  have oper: "payout_operation_for r ready = (if ready then PaymentOp (pr_recipient r) (pr_assetCode r) (pr_assetIssuer r) (pr_amount r)
             else ClaimableBalanceOp (pr_assetCode r) (pr_assetIssuer r) (pr_amount r) (pr_recipient r))" for ready
    by (simp add: payout_operation_for_def)
  let ?ready = "\<lambda>found. \<exists>a. found = Inr a \<and> (Some (pr_assetCode r), Some (pr_assetIssuer r)) \<in> set (la_balances a)"
  show ?thesis
  proof (cases "sdk_fromSecret env (pr_senderSecret r)")
    case sender: (Inr sender)
    show ?thesis
    proof (cases "loadAccount env (Some sender) s")
      case (Pair got s1)
      show ?thesis
      proof (cases "\<exists>account. got = Inr account \<and> sdk_asset env (pr_assetCode r) (pr_assetIssuer r) = Inr ()")
        case True
        then obtain account where a: "got = Inr account" "sdk_asset env (pr_assetCode r) (pr_assetIssuer r) = Inr ()" by blast
        obtain found s2 where f: "loadAccount env (Some (pr_recipient r)) s1 = (found, s2)" by force
        have run: "sendPaymentWithClaimableFallback env cfg r s = (if \<exists>e. found = Inl e \<and> \<not> account_missing e then (Inl (projl found), s2)
            else submit_payout env cfg r (getHorizonServer (ns_network s)) (getPassphrase (ns_network s)) account (?ready found) s2)"
          using sender Pair a f by (cases found) (auto simp: sendPaymentWithClaimableFallback_def ebind_def elift_def eget_def load recipient_found)
        show ?thesis
        proof (cases "\<exists>e. found = Inl e \<and> \<not> account_missing e")
          case True
          then show ?thesis using sender Pair a f unfolding run by auto
        next
          case False
          define ready where "ready = ?ready found"
          have "sendPaymentWithClaimableFallback env cfg r s
              = submit_payout env cfg r (getHorizonServer (ns_network s)) (getPassphrase (ns_network s)) account ready s2"
            unfolding ready_def run by (rule if_not_P [OF False])
          then show ?thesis using sender Pair a f False by (auto simp: submit_payout_result oper simp flip: ready_def)
        qed
      next
        case False
        then have "\<nexists>x. fst (sendPaymentWithClaimableFallback env cfg r s) = Inr x"
          using sender Pair by (cases got; cases "sdk_asset env (pr_assetCode r) (pr_assetIssuer r)")
            (auto simp: sendPaymentWithClaimableFallback_def ebind_def elift_def eget_def load)
        then show ?thesis using False sender Pair by auto
      qed
    qed
  qed (simp add: sendPaymentWithClaimableFallback_def ebind_def elift_def)
qed

text \<open>Once Horizon has accepted the transaction of a payout the caller gets its hash, whatever becomes of the result that is
  read and of the note in the database; an id of a claimable balance is only returned for a claimable balance.\<close>
theorem accepted_payout_returns:
  assumes "sdk_payout env account (base_fee cfg) passphrase (payout_operation_for r ready) = Inr tx"
    and "retryHorizonRequest env (hz_submit env server (sdk_sign env (pr_senderSecret r) tx)) s = (Inr response, s1)"
  shows "\<exists>s2. submit_payout env cfg r server passphrase account ready s =
    (Inr \<lparr>py_hash = sm_hash response, py_claimableBalanceId = claimable_id env ready response, py_usedClaimableBalance = (\<not> ready)\<rparr>, s2)
    \<and> (ready \<longrightarrow> claimable_id env ready response = None)"
proof -
  obtain s2 where "record_claimable env r (claimable_id env ready response) (sm_hash response) s1 = (Inr (), s2)"
    using record_never_throws by blast
  then have "submit_payout env cfg r server passphrase account ready s =
    (Inr \<lparr>py_hash = sm_hash response, py_claimableBalanceId = claimable_id env ready response, py_usedClaimableBalance = (\<not> ready)\<rparr>, s2)"
    using assms by (simp add: submit_payout_def settle_payout_def ebind_def elift_def ereturn_def Let_def)
  then show ?thesis by (simp add: claimable_id_def)
qed

section \<open>Challenges and networks\<close>

lemma no_challenge_operation:
  assumes "\<And>t op. op \<in> set (stx_operations (sdk_content env t)) \<Longrightarrow> op_type op \<noteq> ''manage_data''"
  shows "List.find (is_challenge_operation domain) (stx_operations (sdk_content env t)) = None"
  using assms [of _ t] by (auto simp: find_None_iff is_challenge_operation_def)

text \<open>The service refuses every challenge, those it has built included: it looks for an operation of type \<open>manage_data\<close>,
  and in the SDK that type is called \<open>manageData\<close>.\<close>
theorem every_challenge_refused:
  assumes "\<And>t op. op \<in> set (stx_operations (sdk_content env t)) \<Longrightarrow> op_type op \<noteq> ''manage_data''"
  shows "\<exists>m. verifyChallengeTransaction env cfg xdr domain s = (Inr (ChallengeRefused m), s)"
proof -
  have "List.find (is_challenge_operation domain) (stx_operations (sdk_content env t)) = None" for t
    by (rule no_challenge_operation) (rule assms)
  then show ?thesis by (auto simp: verifyChallengeTransaction_def ecatch_def ebind_def eget_def elift_def ereturn_def ethrow_def split: sum.splits)
qed

text \<open>The administration cannot switch the network: the names its schema admits are no networks of the service, so that no
  request is answered with success and the network stays as it is.\<close>
theorem network_never_switched:
  assumes "\<And>c. keeps ns_network (audit c)"
  shows "ns_network (snd (post_network audit cfg network s)) = ns_network s \<and> fst (post_network audit cfg network s) \<noteq> Inr (Switched n)"
proof (cases "network \<in> set switch_networks")
  case False
  then show ?thesis by (simp add: post_network_def ereturn_def)
next
  case True
  then have "setNetwork cfg network s = (Inl (PlainError (''Invalid network type: '' @ network)), s)"
    by (auto simp: switch_networks_def setNetwork_def network_key_def ethrow_def)
  then have "post_network audit cfg network s =
     ebind (audit (ChangeFailed network (''Invalid network type: '' @ network))) (\<lambda>_. ereturn (SwitchFailed (''Invalid network type: '' @ network))) s"
    using True by (simp add: post_network_def ecatch_def ebind_def eget_def ethrow_def failure_text_def error_message_def)
  moreover obtain a s' where a: "audit (ChangeFailed network (''Invalid network type: '' @ network)) s = (a, s')" by force
  moreover have "ns_network s' = ns_network s" using keeps_result [OF assms a] .
  ultimately show ?thesis by (cases a) (simp_all add: ebind_def ereturn_def)
qed

text \<open>A switch of the network changes the passphrase and the server of Horizon, but not the RPC nodes when they are
  configured: the nodes of the first network stay in use.\<close>
theorem switch_keeps_configured_nodes:
  assumes "truthy_str (sg_rpcUrls cfg) = Some urls" and "network_key network = Some n"
  shows "\<exists>s'. setNetwork cfg network (new_stellar_service cfg w) = (Inr (), s') \<and> ns_network s' = n \<and> ns_passphrase s' = nc_passphrase (NETWORKS n)
    \<and> ns_server s' = nc_horizonUrl (NETWORKS n) \<and> ns_rpcUrls s' = ns_rpcUrls (new_stellar_service cfg w)"
  using assms by (simp add: setNetwork_def emodify_def new_stellar_service_def getRpcUrls_def getPassphrase_def getHorizonServer_def Let_def)

section \<open>A network to try it on\<close>

text \<open>The world counts the calls. A transaction is whether it is a fee bump, and its content; one text reads as a payment.\<close>

definition status_error :: "int \<Rightarrow> js_error" where
  "status_error c = OtherErr ''Error'' ''request failed'' None None None None None
     (Some \<lparr>er_status = Some c, er_extras = None, er_data_status = Some c, er_data_extras = None\<rparr>)"

definition counted :: "js_error + 'a \<Rightarrow> (nat, 'a) stellar" where
  "counted r s = (r, s\<lparr>ns_world := Suc (ns_world s)\<rparr>)"

definition sample_account :: loaded_account where
  "sample_account = \<lparr>la_sequence = 7, la_signers = [], la_thresholds = \<lparr>at_low = 0, at_med = 0, at_high = 0\<rparr>,
     la_balances = [(None, None), (Some ''USDC'', Some ''GISSUER'')]\<rparr>"

definition sample_tx :: "string list \<Rightarrow> stellar_tx" where
  "sample_tx sigs = \<lparr>stx_operations = [\<lparr>op_type = ''payment'', op_name = [], op_value = None, op_source = None\<rparr>], stx_signatures = sigs,
     stx_hash = ''hash'', stx_maxTime = None\<rparr>"

definition sample_network :: "(js_error + submission) \<Rightarrow> (nat, bool \<times> stellar_tx) stellar_env" where
  "sample_network answer =
     \<lparr>hz_load = (\<lambda>url a. counted (if a = Some ''GANCHOR'' then Inr sample_account else Inl (status_error 404))),
      hz_submit = (\<lambda>url t. counted (if stx_signatures (snd t) = [] then Inl (status_error 400) else answer)),
      hz_fetchBaseFee = (\<lambda>url. counted (Inr ())), rp_has = (\<lambda>m. True), rp_apply = (\<lambda>url m args. counted (Inl (status_error 503))),
      se_random = (\<lambda>s. (Fin (1 / 2), s)), se_sleep = (\<lambda>_ s. s), se_record = (\<lambda>i b h. counted (Inl (PlainError ''database''))),
      sdk_fromSecret = (\<lambda>k. Inr ''GANCHOR''), sdk_asset = (\<lambda>c i. Inr ()), sdk_payout = (\<lambda>a f p oper. Inr (False, sample_tx [])),
      sdk_challenge = (\<lambda>a p oper m. Inr (False, sample_tx [])), sdk_sign = (\<lambda>k (b, t). (b, t\<lparr>stx_signatures := [k]\<rparr>)), sdk_toXDR = (\<lambda>t. ''tx''),
      sdk_fromXDR = (\<lambda>x p. if x = ''tx'' then Inr (False, sample_tx [''sig'']) else Inl (PlainError ''bad xdr'')), sdk_isFeeBump = fst,
      sdk_content = snd, sdk_source = (\<lambda>t. ''GANCHOR''), sdk_feeBump = (\<lambda>k f t p. Inr (True, (snd t)\<lparr>stx_signatures := []\<rparr>)),
      sdk_verify = (\<lambda>k. Inr (\<lambda>h sig. Inr True)), sdk_balanceId = (\<lambda>x. Inr ''balance'')\<rparr>"

definition sample_config :: stellar_config where
  "sample_config = \<lparr>sg_network = ''testnet'', sg_horizonUrl = ''https://horizon.example'', sg_rpcUrls = Some ''https://a, https://b,'',
     sg_feeBumpSecret = Some ''SBUMP'', sg_anchorSecret = Some ''SANCHOR'', sg_baseFee = ''100''\<rparr>"

abbreviation sample_service :: "nat stellar_state" where
  "sample_service \<equiv> new_stellar_service sample_config 0"

abbreviation sample_response :: submission where
  "sample_response \<equiv> \<lparr>sm_hash = ''hash'', sm_ledger = 5, sm_resultXdr = Some ''AAAA''\<rparr>"

abbreviation sample_payout :: payout_request where
  "sample_payout \<equiv> \<lparr>pr_senderSecret = ''SANCHOR'', pr_recipient = ''GNEW'', pr_assetCode = ''USDC'', pr_assetIssuer = ''GISSUER'', pr_amount = ''5'',
     pr_transactionId = Some ''t1''\<rparr>"

lemma sample_sdk [simp]:
  "sdk_fromXDR (sample_network a) x p = (if x = ''tx'' then Inr (False, sample_tx [''sig'']) else Inl (PlainError ''bad xdr''))"
  "sdk_isFeeBump (sample_network a) t = fst t" "sdk_content (sample_network a) t = snd t" "sdk_fromSecret (sample_network a) k = Inr ''GANCHOR''"
  "sdk_asset (sample_network a) c i = Inr ()" "sdk_payout (sample_network a) ac fee p oper = Inr (False, sample_tx [])"
  "sdk_sign (sample_network a) k (b, u) = (b, u\<lparr>stx_signatures := [k]\<rparr>)" "sdk_balanceId (sample_network a) x = Inr ''balance''"
  "hz_submit (sample_network a) url t = counted (if stx_signatures (snd t) = [] then Inl (status_error 400) else a)"
  "hz_load (sample_network a) url who = counted (if who = Some ''GANCHOR'' then Inr sample_account else Inl (status_error 404))"
  "se_record (sample_network a) i bal h = counted (Inl (PlainError ''database''))"
  by (simp_all add: sample_network_def)

lemma sample_calls: "ns_world (snd (counted r s)) = Suc (ns_world s)"
  by (simp add: counted_def)

lemma sample_pause: "keeps ns_world (backoff_pause (sample_network answer) k)"
  by (simp add: keeps_def backoff_pause_def sample_network_def)

theorem horizon_retry_bounded_witness:
  "\<exists>e s'. retryHorizonRequest (sample_network (Inr sample_response)) (counted (Inl (status_error 503) :: js_error + submission)) sample_service = (Inl e, s')
    \<and> ns_world s' = 4"
proof -
  let ?call = "counted (Inl (status_error 503) :: js_error + submission)" and ?env = "sample_network (Inr sample_response)"
  obtain e s' where r: "retryHorizonRequest ?env ?call sample_service = (Inl e, s')"
    using retry_fails [of ?call ?env 3 0 sample_service] unfolding retryHorizonRequest_def by (auto simp: counted_def)
  have "retryable_status (status_error 503)" by (simp add: retryable_status_def response_field_def status_error_def RETRYABLE_HORIZON_STATUS_CODES_def)
  then have e: "retryable_status e"
    using r by (simp add: retryHorizonRequest_def numeral_3_eq_3 counted_def ecatch_def ebind_def backoff_pause_def sample_network_def)
  have "(ns_world s' :: nat) = ns_world sample_service + 4"
    using horizon_retry_bounded [of ns_world ?call ?env sample_service, OF sample_calls sample_pause r] e by auto
  then show ?thesis using r by (auto simp: new_stellar_service_def Let_def)
qed

theorem failover_asks_every_node_witness:
  "ns_world (snd (executeRpcWithFailover (sample_network (Inr sample_response)) ''getHealth'' [] sample_service)) \<le> length (ns_rpcUrls sample_service)
   \<and> length (ns_rpcUrls sample_service) = 2"
proof -
  let ?env = "sample_network (Inr sample_response)"
  have has: "rp_has ?env ''getHealth''" by (simp add: sample_network_def)
  have app: "ns_world (snd (rp_apply ?env url ''getHealth'' [] s)) = Suc (ns_world s)" for url s
    by (simp add: sample_network_def counted_def)
  have len: "length (ns_rpcUrls sample_service) = 2" by code_simp
  have zero: "ns_world sample_service = 0" by (simp add: new_stellar_service_def Let_def)
  obtain r s' where r: "executeRpcWithFailover ?env ''getHealth'' [] sample_service = (r, s')" by force
  show ?thesis using failover_asks_every_node [of ?env "''getHealth''" ns_world "[]", OF has app r] r len zero by simp
qed

theorem unreachable_node_ends_call_witness:
  "fst (executeRpcWithFailover ((sample_network (Inr sample_response))\<lparr>rp_apply := \<lambda>url m args. counted (Inl (PlainError ''ECONNREFUSED''))\<rparr>)
     ''getHealth'' [] sample_service) = Inl (PlainError ''ECONNREFUSED'')"
proof -
  let ?env = "(sample_network (Inr sample_response))\<lparr>rp_apply := \<lambda>url m args. counted (Inl (PlainError ''ECONNREFUSED''))\<rparr>"
  have urls: "ns_rpcUrls sample_service = [''https://a'', ''https://b'']" by code_simp
  have has: "rp_has ?env ''getHealth''" by (simp add: sample_network_def)
  have "executeRpcWithFailover ?env ''getHealth'' [] sample_service = (Inl (PlainError ''ECONNREFUSED''), sample_service\<lparr>ns_world := Suc (ns_world sample_service)\<rparr>)"
    by (rule unreachable_node_ends_call [OF urls has]) (simp_all add: counted_def response_field_def)
  then show ?thesis by simp
qed

theorem only_whitelisted_reach_horizon_witness:
  "\<exists>tx. sdk_fromXDR (sample_network (Inr sample_response)) ''tx'' (getPassphrase TESTNET) = Inr tx \<and> \<not> fst tx"
proof -
  let ?cfg = "sample_config\<lparr>sg_feeBumpSecret := None\<rparr>" and ?env = "sample_network (Inr sample_response)"
  have net: "ns_network (new_stellar_service ?cfg (0 :: nat)) = TESTNET" by code_simp
  have "checked_tx ?env ?cfg (getPassphrase TESTNET) ''tx'' = Inr (False, sample_tx [''sig''])"
    by (simp add: checked_tx_def final_tx_def truthy_str_def sample_tx_def ALLOWED_OPERATIONS_def)
  then have "\<exists>s'. submitTransaction ?env ?cfg ''tx'' (new_stellar_service ?cfg 0) = (Inr sample_response, s')"
    by (simp add: submit_unfold net retryHorizonRequest_def numeral_3_eq_3 ecatch_def counted_def sample_tx_def)
  then obtain s' where "submitTransaction ?env ?cfg ''tx'' (new_stellar_service ?cfg 0) = (Inr sample_response, s')" by blast
  from only_whitelisted_reach_horizon [OF this] show ?thesis by (auto simp: net)
qed

theorem fee_bump_never_accepted_witness:
  "\<exists>m. fst (submitTransaction (sample_network (Inr sample_response)) sample_config ''tx'' sample_service) = Inl (PlainError m)"
  by (rule fee_bump_never_accepted [where secret = "''SBUMP''"]) (auto simp: sample_network_def sample_config_def truthy_str_def counted_def)

theorem payout_path_witness:
  "fst (sendPaymentWithClaimableFallback (sample_network (Inr sample_response)) sample_config sample_payout sample_service)
     = Inr \<lparr>py_hash = ''hash'', py_claimableBalanceId = Some ''balance'', py_usedClaimableBalance = True\<rparr>
   \<and> fst (sendPaymentWithClaimableFallback ((sample_network (Inr sample_response))\<lparr>hz_load := (\<lambda>url a. counted
        (if a = Some ''GANCHOR'' then Inr sample_account else Inl (status_error 400)))\<rparr>) sample_config sample_payout sample_service) = Inl (status_error 400)"
proof -
  let ?env = "sample_network (Inr sample_response)"
  let ?bad = "?env\<lparr>hz_load := (\<lambda>url a. counted (if a = Some ''GANCHOR'' then Inr sample_account else Inl (status_error 400)))\<rparr>"
  have load: "loadAccount ?env (Some ''GANCHOR'') s = (Inr sample_account, s\<lparr>ns_world := Suc (ns_world s)\<rparr>)"
      "loadAccount ?bad (Some ''GANCHOR'') s = (Inr sample_account, s\<lparr>ns_world := Suc (ns_world s)\<rparr>)" for s
    by (simp_all add: loadAccount_def ebind_def eget_def retryHorizonRequest_def numeral_3_eq_3 ecatch_def counted_def)
  have missing: "loadAccount ?env (Some ''GNEW'') s = (Inl (status_error 404), s\<lparr>ns_world := Suc (ns_world s)\<rparr>)"
      "loadAccount ?bad (Some ''GNEW'') s = (Inl (status_error 400), s\<lparr>ns_world := Suc (ns_world s)\<rparr>)" for s
    by (simp_all add: loadAccount_def ebind_def eget_def retryHorizonRequest_def numeral_3_eq_3 ecatch_def ethrow_def counted_def
        status_error_def retryable_status_def response_field_def RETRYABLE_HORIZON_STATUS_CODES_def)
  have gone: "account_missing (status_error 404)" "\<not> account_missing (status_error 400)"
    by (simp_all add: account_missing_def response_field_def status_error_def)
  let ?signed = "sdk_sign ?env ''SANCHOR'' (False, sample_tx [])"
  obtain s3 where taken: "retryHorizonRequest ?env (hz_submit ?env (getHorizonServer (ns_network sample_service)) ?signed)
      (sample_service\<lparr>ns_world := Suc (Suc (ns_world sample_service))\<rparr>) = (Inr sample_response, s3)"
    by (simp add: retryHorizonRequest_def numeral_3_eq_3 ecatch_def counted_def sample_tx_def)
  let ?result = "payout_result_for ?env False sample_response"
  have "sendPaymentWithClaimableFallback ?env sample_config sample_payout sample_service = (Inr ?result, after_record ?env sample_payout ?result s3)"
    using taken by (subst payout_path [THEN conjunct1]) (simp add: load missing gone)
  moreover have "?result = \<lparr>py_hash = ''hash'', py_claimableBalanceId = Some ''balance'', py_usedClaimableBalance = True\<rparr>"
    by (simp add: payout_result_for_def truthy_str_def)
  moreover have "fst (sendPaymentWithClaimableFallback ?bad sample_config sample_payout sample_service) = Inl (status_error 400)"
    using payout_path [THEN conjunct2, rule_format, of ?bad sample_payout "''GANCHOR''" sample_service sample_account] load(2) missing(2) gone(2) by simp
  ultimately show ?thesis by simp
qed

theorem accepted_payout_returns_witness:
  "\<exists>s2. submit_payout (sample_network (Inr sample_response)) sample_config sample_payout ''url'' ''net'' sample_account False sample_service =
    (Inr \<lparr>py_hash = ''hash'', py_claimableBalanceId = Some ''balance'', py_usedClaimableBalance = True\<rparr>, s2)"
proof -
  let ?env = "sample_network (Inr sample_response)"
  have p: "sdk_payout ?env sample_account (base_fee sample_config) ''net'' (payout_operation_for sample_payout False) = Inr (False, sample_tx [])" by simp
  have q: "retryHorizonRequest ?env (hz_submit ?env ''url'' (sdk_sign ?env (pr_senderSecret sample_payout) (False, sample_tx []))) sample_service
      = (Inr sample_response, sample_service\<lparr>ns_world := Suc (ns_world sample_service)\<rparr>)"
    by (simp add: retryHorizonRequest_def numeral_3_eq_3 ecatch_def counted_def)
  show ?thesis using accepted_payout_returns [OF p q] by (auto simp: claimable_id_def truthy_str_def)
qed

theorem every_challenge_refused_witness:
  "\<exists>m. verifyChallengeTransaction (sample_network (Inr sample_response)\<lparr>sdk_content := \<lambda>t. sample_tx [''sig'']\<rparr>) sample_config ''tx'' ''anchor.example'' sample_service
    = (Inr (ChallengeRefused m), sample_service)"
  by (rule every_challenge_refused) (simp add: sample_tx_def)

theorem network_never_switched_witness:
  "ns_network (snd (post_network (\<lambda>c. counted (Inr ())) sample_config ''mainnet'' sample_service)) = TESTNET"
proof -
  have "keeps ns_network (counted (Inr ()))" by (simp add: keeps_def counted_def)
  moreover have "ns_network sample_service = TESTNET" by code_simp
  ultimately show ?thesis using network_never_switched [of "\<lambda>c. counted (Inr ())" sample_config "''mainnet''" sample_service] by simp
qed

theorem switch_keeps_configured_nodes_witness:
  "\<exists>s'. setNetwork sample_config ''PUBLIC'' sample_service = (Inr (), s') \<and> ns_network s' = PUBLIC \<and> ns_rpcUrls s' = [''https://a'', ''https://b'']"
proof -
  have urls: "ns_rpcUrls sample_service = [''https://a'', ''https://b'']" by code_simp
  have "truthy_str (sg_rpcUrls sample_config) = Some ''https://a, https://b,''" and "network_key ''PUBLIC'' = Some PUBLIC"
    by (simp_all add: sample_config_def truthy_str_def network_key_def)
  from switch_keeps_configured_nodes [OF this] urls show ?thesis by metis
qed

end
