(* ===== verification/Spec2Isabelle.thy ===== *)
theory Spec2Isabelle
  imports Multisig_Payload Multisig_Admin Circuit_Breaker Feature_Flags Batch_Props Recurring_Props Contract_Queue_Props Price_Props Advanced_Cache_Props Auth_Sequences Fee_Props Webhook_Props Monitor_Props Pii_Crypto Document_Props Admin_Password_Props Admin_Mfa_Props Admin_Audit Sep31_Props Sep24_Props Sep6_Props Sep38_Props Fx_Analytics Rate_Props Sep12_Props Sep40 Price_Feed Relayer Hot_Wallet Stellar_Service
begin

text \<open>
  AnchorPoint is an anchor of the Stellar network: a TypeScript backend that lets clients log
  in with their Stellar keys, collects signatures for multi-signature transactions, pays in
  batches and on schedules, serves prices, fees and quotes, carries out the transfer protocols
  of the network (SEP-6, 12, 24, 31, 38 and 40), and watches its wallets, over Redis, a SQL database
  (Prisma), job queues (BullMQ) and Horizon, the HTTP interface of the network. This
  development models services of \<open>backend/src\<close>; paths below are relative to it.

  \<^bold>\<open>How the code is modelled.\<close> \<open>Prelude\<close> has the JavaScript containers (an insertion-ordered
  \<open>Map\<close> or a table with a primary key is an association list), buffers, and the interfaces
  several components implement. \<open>Effects\<close> has asynchronous code that mutates and throws: a
  function from the state to an error or a result and the new state, with the combinators for
  sequence, \<open>throw\<close>, \<open>try/catch\<close> and \<open>try/finally\<close>, and proof rules for them (\<open>triple\<close>: pre-
  and postconditions; \<open>keeps\<close>: a function of the state does not change; \<open>preserves\<close>: an
  invariant). \<open>JsNumber\<close> has numbers: binary64 with rounding to nearest even over rationals.
  \<open>Js_Text\<close> has texts, and the decimals that \<open>toFixed\<close> writes and \<open>parseFloat\<close> reads.
  What is not under \<open>src/\<close> is a parameter, in a record named after its use (\<open>\<dots>_env\<close>,
  \<open>\<dots>_lib\<close>): the Stellar SDK, Horizon and HTTP, Redis and Redlock, BullMQ, Prisma, the cron
  parser, \<open>bignumber.js\<close>, \<open>jsonwebtoken\<close>, hashes and random bytes, \<open>RegExp\<close>, the clock, the parsing
  of dates, and \<open>Math.pow\<close>/\<open>Math.sqrt\<close>, whose results the standard leaves open. A call of such a
  library takes and returns a value of a type variable, the state of the world outside; what the
  theorems need of it is a named predicate (\<open>bn_ok\<close>, \<open>network_ok\<close>, \<open>database_up\<close>), and the
  witnesses have concrete functions for it.

  \<^bold>\<open>Multi-signature transactions\<close>, \<open>services/multisig.service.ts\<close>. \<open>Multisig\<close>: the tables and every
  method on them, each cut where it awaits; \<open>Multisig_Inv\<close>: the invariant of the tables, for every
  sequence of calls (a submitted transaction has its threshold; a finished one stays as it is);
  \<open>Multisig_Envelope\<close>: the stored envelope carries the signatures of the table as long as
  \<open>addSignature\<close> calls do not overlap, and what an overlap loses; \<open>Multisig_Payload\<close>: the parsing
  of payloads and the weight they collect; \<open>Multisig_Admin\<close>: administrative proposals in memory.

  \<^bold>\<open>Circuit breaker\<close>, \<open>services/circuit-breaker.service.ts\<close>: \<open>Circuit_Breaker\<close>. A call is an enter
  step and a settle step, so calls overlap; bounds of the counters, recovery, and the reachable
  state in which no call is let through again.

  \<^bold>\<open>Feature flags\<close>, \<open>services/feature-flag.service.ts\<close>: \<open>Feature_Flags\<close> (rollouts by a 32-bit hash,
  the local cache over Redis). \<^bold>\<open>Two-level cache\<close>, \<open>services/advanced-cache.service.ts\<close>:
  \<open>Advanced_Cache\<close>, \<open>Advanced_Cache_Props\<close>; its first level refines a bounded list of entries in
  the order of their insertion. Both may outlive an invalidation made by another instance.

  \<^bold>\<open>Batch payments\<close>, \<open>services/batch-payment.service.ts\<close>: \<open>Batch_Types\<close> (requests, errors, address
  checks), \<open>Sequence_Numbers\<close> (the counter in Redis under a lock), \<open>Batch\<close> (real and dry runs,
  chunks, retry of failed payments), \<open>Batch_Props\<close> (one successful submission ends a batch; what
  becomes of sequence numbers). \<open>attempt_loop\<close> has as fuel the attempts the configuration allows, which
  is the bound of the loop in the code; \<open>chunk_loop\<close> is a \<open>partial_function\<close>, and that it ends exactly
  for a positive chunk size is proved.

  \<^bold>\<open>Recurring payments\<close>, \<open>services/recurring-payments.service.ts\<close>: \<open>Recurring\<close> (schedules, classification
  of errors, backoff), \<open>Recurring_Worker\<close> (claim, pay through \<open>Batch\<close>, settle, notify; each a step, so
  that cancellation and other workers interleave), \<open>Recurring_Props\<close>. Errors nest to depth three in
  the classification, which is how deep the services wrap them.

  \<^bold>\<open>Contract jobs\<close>: \<open>Soroban_Errors\<close> (\<open>services/soroban-error.service.ts\<close>), \<open>Queue_Config\<close>
  (\<open>config/queue.ts\<close>), \<open>Contract_Queue\<close> (\<open>services/contract-queue.service.ts\<close>, the table of jobs and the
  listeners of the queue as steps in any order), \<open>Contract_Worker\<close> (\<open>workers/contract-queue.worker.ts\<close>),
  \<open>Dead_Letters\<close> (the dead letters of notifications), \<open>Contract_Queue_Props\<close>.

  \<^bold>\<open>Prices and fees\<close>: \<open>Price_Aggregation\<close>, \<open>Price_Props\<close> (\<open>services/price-aggregation.service.ts\<close>, over
  the models of the breaker and of the cache); \<open>Fees\<close>, \<open>Fee_Props\<close> (\<open>services/fee.service.ts\<close>,
  \<open>utils/decimal.ts\<close>, \<open>config/assets.ts\<close> and the fee endpoints).

  \<^bold>\<open>Authentication\<close>: \<open>Auth_Sessions\<close> (\<open>services/auth.service.ts\<close>: tokens, refresh-token families,
  challenges), \<open>Sep10\<close> (\<open>utils/sep10-stellar.ts\<close>, challenge transactions), \<open>Auth_Controller\<close> (endpoints,
  routes, middleware), \<open>Auth_Props\<close> (what a login needs, what rotation and reuse detection give, one
  request after the other and overlapping), \<open>Auth_Sequences\<close> (the locale \<open>auth_invariant\<close> for
  predicates every request keeps; the types of what is stored; revoked families; the single use of a
  challenge, where the random bytes of new challenges are assumed to be new).

  \<^bold>\<open>Webhooks\<close>: \<open>Webhooks\<close>, \<open>Webhook_Workers\<close>, \<open>Webhook_Receivers\<close> (\<open>services/webhook.service.ts\<close>, the
  retry queue and workers, the checks of incoming requests), with \<open>Webhook_Props\<close> and
  \<open>Webhook_Checks\<close>; \<open>Event_Monitor\<close> and \<open>Monitor_Props\<close>: the monitor of Horizon events.
  \<^bold>\<open>Basics they share\<close>: \<open>Js_Date\<close> (calendar dates), \<open>Js_Bytes\<close> (hexadecimal, Base64, UTF-8),
  \<open>Json_Text\<close> (the text of JSON values).

  \<^bold>\<open>Secrets and documents\<close>: \<open>Pii_Crypto\<close> (personal data at rest), \<open>Key_Management\<close> and \<open>Key_Props\<close>
  (KMS, Vault and the local fallback), \<open>Documents\<close> and \<open>Document_Props\<close> (uploads, encrypted
  documents and the rotation of their key). The disk is a record with the files and with the reads, writes
  and renames that fail; the rotation is proved to lose no document under any such failures.

  \<^bold>\<open>Administration\<close>: \<open>Admin_Passwords\<close>, \<open>Admin_Password_Props\<close> (password hashes and reset tokens),
  \<open>Admin_Mfa\<close>, \<open>Admin_Mfa_Props\<close> (one-time passwords to the bit, backup codes, the login),
  \<open>Admin_Audit\<close> (the trail).

  \<^bold>\<open>Transfers\<close>: \<open>Transfers\<close> and \<open>Transfer_Props\<close> hold the tables of transactions, users and quotes, with
  their reconciliation; \<open>Sep31\<close>, \<open>Sep24\<close> and \<open>Sep6\<close> are the protocols over them, each with
  its \<open>_Props\<close>. \<open>Sep38\<close> and \<open>Sep38_Props\<close>: quotes and their cache; \<open>Fx_Analytics\<close>: the history of
  rates. \<open>Kyc_Provider\<close>, \<open>Sep12\<close>, \<open>Sep12_Props\<close>: customers and the providers that check them.
  \<open>Rate_Limits\<close>, \<open>Rate_Props\<close>: the keys of partners and the limits of their tiers. \<open>Sep40\<close>: swap
  rates; \<open>Price_Feed\<close>: the manager of price feeds, whose polls interleave.

  \<^bold>\<open>The network\<close>: \<open>Stellar_Service\<close> (\<open>services/stellar.service.ts\<close>: checks and submission of transactions,
  payouts, the switch of networks), \<open>Relayer\<close> (\<open>services/relayer.service.ts\<close>: approvals and fee
  bumps), \<open>Hot_Wallet\<close> (the monitor of balances and its alerts), \<open>Notifications\<close>. The relayer and the
  administrative proposals call Node's \<open>crypto.verify\<close> with the arguments in another order than Node
  expects; the models pass them as the code does, and the theorems say what follows for a Node that
  refuses a key that is no PEM text. The number the relayer computes as the fee of a bump is, for the Stellar
  SDK, a base fee per operation; the bound of the charge is stated with that pricing as its hypothesis.

  \<^bold>\<open>Bounds.\<close> Where code loops over what a library returns, the recursion is on that list. Attempts and
  retries (\<open>attempt_loop\<close>, \<open>retry_call\<close>, \<open>send_from\<close>, \<open>connect_from\<close>) count up to the bound of their
  loop in the code, with a measure. The only loops without such a bound are \<open>chunk_loop\<close>
  and \<open>enforce_loop\<close> of the cache; both are \<open>partial_function (option)\<close> with a theorem that says exactly
  when they return.

  \<^bold>\<open>Not modelled.\<close> Logging, metrics and tracing are left out of every operation: they do not take part in
  results. The dashboard, the contracts in Rust, the tools and the deployment are other
  programs. Of the backend, these are left out: the endpoints of administration and those that only call
  a modelled service, the proxies around the library opossum, the indexers, fee reports,
  cron schedules, the clients of storage services, the templates of e-mail, and the
  configuration with its validation schemas. \<open>src/sep31/\<close> cannot be compiled, and the SEP-12 service is unused.
\<close>

end
